(* ===== verification/Go_Prelude.thy ===== *)
theory Go_Prelude
  imports Main "HOL-Library.AList" "HOL-Library.Char_ord" "HOL-Library.List_Lexorder"
begin

text \<open>
  What every component shares: Go's result pairs as sums, the first-violated-check form of a
  validator, 64-bit integers with their wrap-around, the functions of the packages
  \<open>strings\<close> and \<open>strconv\<close> the code calls, identifiers, and the generic lemmas on
  association lists (a Go map whose iteration order is the list order).
\<close>

named_theorems checks \<open>rules that open validators and result chains\<close>
named_theorems inv_rules \<open>invariant preservation, one rule per operation\<close>

section \<open>Results and checks\<close>

text \<open>A Go result \<open>(value, error)\<close>: \<open>Inl\<close> is a non-nil error.\<close>

type_synonym ('e, 'a) result = "'e + 'a"

definition rbind :: "'e + 'a \<Rightarrow> ('a \<Rightarrow> 'e + 'b) \<Rightarrow> 'e + 'b" where
  "rbind r f = (case r of Inl e \<Rightarrow> Inl e | Inr x \<Rightarrow> f x)"

definition rmap_error :: "('e \<Rightarrow> 'f) \<Rightarrow> 'e + 'a \<Rightarrow> 'f + 'a" where
  "rmap_error h r = (case r of Inl e \<Rightarrow> Inl (h e) | Inr x \<Rightarrow> Inr x)"

lemma rbind_simps [simp]: "rbind (Inl e) f = Inl e" "rbind (Inr x) f = f x"
  by (simp_all add: rbind_def)

lemma rmap_error_simps [simp]: "rmap_error h (Inl e) = Inl (h e)" "rmap_error h (Inr x) = Inr x"
  by (simp_all add: rmap_error_def)

lemma rbind_Inr_conv [checks]: "rbind r f = Inr y \<longleftrightarrow> (\<exists>x. r = Inr x \<and> f x = Inr y)"
  by (cases r) auto

lemma rmap_error_Inr_conv [checks]: "rmap_error h r = Inr y \<longleftrightarrow> r = Inr y"
  by (cases r) auto

text \<open>
  A validator of the source is a run of \<open>if violated { return err }\<close> statements: the
  error of the first violated check.
\<close>

fun first_error :: "(bool \<times> 'e) list \<Rightarrow> 'e option" where
  "first_error [] = None"
| "first_error ((bad, e) # cs) = (if bad then Some e else first_error cs)"

definition or_else :: "'e option \<Rightarrow> 'e option \<Rightarrow> 'e option" where
  "or_else a b = (case a of Some e \<Rightarrow> Some e | None \<Rightarrow> b)"

definition checked :: "'e option \<Rightarrow> 'a \<Rightarrow> 'e + 'a" where
  "checked c x = (case c of None \<Rightarrow> Inr x | Some e \<Rightarrow> Inl e)"

lemma first_error_None [checks]: "first_error cs = None \<longleftrightarrow> (\<forall>c \<in> set cs. \<not> fst c)"
  by (induction cs rule: first_error.induct) auto

lemma first_error_append [checks]:
  "first_error (as @ bs) = (case first_error as of None \<Rightarrow> first_error bs | Some e \<Rightarrow> Some e)"
  by (induction as rule: first_error.induct) auto

lemma checked_simps [simp]: "checked None x = Inr x" "checked (Some e) x = Inl e"
  by (simp_all add: checked_def)

lemma checked_Inr_conv [checks]: "checked c x = Inr y \<longleftrightarrow> c = None \<and> y = x"
  by (cases c) auto

section \<open>64-bit integers\<close>

text \<open>
  \<open>int\<close>, \<open>int64\<close> and \<open>time.Duration\<close> are two's complement 64-bit values; a model
  value is the integer they denote and an operation that may leave the range is followed by
  \<open>wrap64\<close>. Counters of type \<open>uint64\<close> wrap modulo \<open>2 ^ 64\<close>. Go divides towards zero.
\<close>

definition in_int64 :: "int \<Rightarrow> bool" where
  "in_int64 x \<longleftrightarrow> - (2 ^ 63) \<le> x \<and> x < 2 ^ 63"

definition wrap64 :: "int \<Rightarrow> int" where
  "wrap64 x = (x + 2 ^ 63) mod 2 ^ 64 - 2 ^ 63"

definition wrapu64 :: "int \<Rightarrow> int" where
  "wrapu64 x = x mod 2 ^ 64"

definition go_div :: "int \<Rightarrow> int \<Rightarrow> int" where
  "go_div a b = sgn a * sgn b * (\<bar>a\<bar> div \<bar>b\<bar>)"

lemma wrap64_id: "in_int64 x \<Longrightarrow> wrap64 x = x"
  by (simp add: wrap64_def in_int64_def)

lemma wrap64_range: "in_int64 (wrap64 x)"
  unfolding wrap64_def in_int64_def
  using pos_mod_bound [of "2 ^ 64" "x + 2 ^ 63"] pos_mod_sign [of "2 ^ 64" "x + 2 ^ 63"] by simp

lemma go_div_nonneg: "0 \<le> a \<Longrightarrow> 0 < b \<Longrightarrow> go_div a b = a div b"
  by (cases "a = 0") (auto simp: go_div_def)

section \<open>Identifiers\<close>

text \<open>
  \<open>uuid.UUID\<close> is named by its canonical text, which \<open>String()\<close> returns: two
  identifiers are equal when their texts are. Parsing text into an identifier is code of the
  package google/uuid, a parameter wherever it is used.
\<close>

datatype uuid = UUID (uuid_string: string)

definition uuid_nil :: uuid where
  "uuid_nil = UUID ''00000000-0000-0000-0000-000000000000''"

section \<open>Package strings\<close>

text \<open>
  A Go string is its bytes. \<open>strings.TrimSpace\<close> removes the code points of Unicode's
  white space at both ends; here by their UTF-8 encodings, so the result is the same on
  every byte string. \<open>strings.ToLower\<close> and \<open>ToUpper\<close> are modelled on ASCII letters,
  other bytes stay as they are.
\<close>

definition go_spaces :: "string list" where
  "go_spaces =
     map (\<lambda>c. [c]) [CHR 0x09, CHR 0x0A, CHR 0x0B, CHR 0x0C, CHR 0x0D, CHR 0x20] @
     map (\<lambda>c. [CHR 0xC2, c]) [CHR 0x85, CHR 0xA0] @
     [[CHR 0xE1, CHR 0x9A, CHR 0x80]] @
     map (\<lambda>c. [CHR 0xE2, CHR 0x80, c])
       [CHR 0x80, CHR 0x81, CHR 0x82, CHR 0x83, CHR 0x84, CHR 0x85, CHR 0x86, CHR 0x87,
        CHR 0x88, CHR 0x89, CHR 0x8A, CHR 0xA8, CHR 0xA9, CHR 0xAF] @
     [[CHR 0xE2, CHR 0x81, CHR 0x9F], [CHR 0xE3, CHR 0x80, CHR 0x80]]"

definition starts_with :: "string \<Rightarrow> string \<Rightarrow> bool" where
  "starts_with p s \<longleftrightarrow> take (length p) s = p"

function trim_front :: "string list \<Rightarrow> string \<Rightarrow> string" where
  "trim_front ps s =
     (case find (\<lambda>p. p \<noteq> [] \<and> starts_with p s) ps of
        None \<Rightarrow> s
      | Some p \<Rightarrow> trim_front ps (drop (length p) s))"
  by pat_completeness auto
termination
proof (relation "measure (\<lambda>(ps, s). length s)")
  fix ps :: "string list" and s p
  assume "find (\<lambda>p. p \<noteq> [] \<and> starts_with p s) ps = Some p"
  then have "p \<noteq> []" and "take (length p) s = p"
    by (auto simp: find_Some_iff starts_with_def)
  then have "0 < length p" and "s \<noteq> []" by (cases s; auto)+
  then show "((ps, drop (length p) s), (ps, s)) \<in> measure (\<lambda>(ps, s). length s)"
    by simp
qed simp

declare trim_front.simps [simp del]

definition trim_left :: "string \<Rightarrow> string" where
  "trim_left s = trim_front go_spaces s"

definition trim_right :: "string \<Rightarrow> string" where
  "trim_right s = rev (trim_front (map rev go_spaces) (rev s))"

definition trim_space :: "string \<Rightarrow> string" where
  "trim_space s = trim_right (trim_left s)"

definition lower_char :: "char \<Rightarrow> char" where
  "lower_char c =
     (if 65 \<le> (of_char c :: nat) \<and> (of_char c :: nat) \<le> 90
      then char_of ((of_char c :: nat) + 32) else c)"

definition upper_char :: "char \<Rightarrow> char" where
  "upper_char c =
     (if 97 \<le> (of_char c :: nat) \<and> (of_char c :: nat) \<le> 122
      then char_of ((of_char c :: nat) - 32) else c)"

definition to_lower :: "string \<Rightarrow> string" where
  "to_lower = map lower_char"

definition to_upper :: "string \<Rightarrow> string" where
  "to_upper = map upper_char"

definition blank :: "string \<Rightarrow> bool" where
  "blank s \<longleftrightarrow> trim_space s = []"


lemma trim_front_none:
  assumes "find (\<lambda>p. p \<noteq> [] \<and> starts_with p s) ps = None"
  shows "trim_front ps s = s"
  using assms by (simp add: trim_front.simps [of ps s])

lemma trim_front_stops: "find (\<lambda>p. p \<noteq> [] \<and> starts_with p (trim_front ps s)) ps = None"
proof (induction ps s rule: trim_front.induct)
  case (1 ps s)
  show ?case
  proof (cases "find (\<lambda>p. p \<noteq> [] \<and> starts_with p s) ps")
    case None
    then show ?thesis by (simp add: trim_front_none)
  next
    case (Some p)
    then have "trim_front ps s = trim_front ps (drop (length p) s)"
      by (simp add: trim_front.simps [of ps s])
    with "1.IH" [OF Some] show ?thesis by simp
  qed
qed

lemma trim_front_idem [simp]: "trim_front ps (trim_front ps s) = trim_front ps s"
  by (rule trim_front_none) (rule trim_front_stops)

lemma trim_front_suffix: "\<exists>k. trim_front ps s = drop k s"
proof (induction ps s rule: trim_front.induct)
  case (1 ps s)
  show ?case
  proof (cases "find (\<lambda>p. p \<noteq> [] \<and> starts_with p s) ps")
    case None
    then show ?thesis by (auto simp: trim_front_none intro: exI [of _ 0])
  next
    case (Some p)
    with "1.IH" obtain k where "trim_front ps (drop (length p) s) = drop k (drop (length p) s)"
      by blast
    with Some have "trim_front ps s = drop (k + length p) s"
      by (simp add: trim_front.simps [of ps s])
    then show ?thesis by blast
  qed
qed

lemma starts_with_prefix: "starts_with p (take k s) \<Longrightarrow> starts_with p s"
  by (auto simp: starts_with_def) (metis append_take_drop_id append_eq_conv_conj take_take
      min.cobounded1 length_take)

lemma trim_right_prefix: "\<exists>k. trim_right s = take k s"
proof -
  obtain k where "trim_front (map rev go_spaces) (rev s) = drop k (rev s)"
    using trim_front_suffix by blast
  then have "trim_right s = take (length s - k) s"
    by (simp add: trim_right_def rev_drop)
  then show ?thesis by blast
qed

text \<open>
  Trimming is idempotent: nothing that the right end loses can make white space appear at
  the left end.
\<close>

lemma trim_space_idem [simp]: "trim_space (trim_space s) = trim_space s"
proof -
  let ?t = "trim_left s"
  obtain k where k: "trim_right ?t = take k ?t" using trim_right_prefix by blast
  have "find (\<lambda>p. p \<noteq> [] \<and> starts_with p ?t) go_spaces = None"
    unfolding trim_left_def by (rule trim_front_stops)
  then have "find (\<lambda>p. p \<noteq> [] \<and> starts_with p (take k ?t)) go_spaces = None"
    by (auto simp: find_None_iff dest: starts_with_prefix)
  then have "trim_left (trim_right ?t) = trim_right ?t"
    unfolding k unfolding trim_left_def [of "take k (trim_left s)"] by (rule trim_front_none)
  then show ?thesis by (simp add: trim_space_def) (simp add: trim_right_def)
qed

lemma blank_trim [simp]: "blank (trim_space s) \<longleftrightarrow> blank s"
  by (simp add: blank_def)

lemma lower_char_idem [simp]: "lower_char (lower_char c) = lower_char c"
  by (simp add: lower_char_def)

lemma to_lower_idem [simp]: "to_lower (to_lower s) = to_lower s"
  by (simp add: to_lower_def)

section \<open>Package strconv\<close>

text \<open>
  \<open>%d\<close>, \<open>strconv.Atoi\<close> and \<open>strconv.ParseInt(s, 10, 64)\<close>: an optional sign, at
  least one digit, and the value within the 64-bit range. \<open>None\<close> is a non-nil error.
\<close>

definition digit_char :: "nat \<Rightarrow> char" where
  "digit_char d = char_of (48 + d)"

definition is_digit :: "char \<Rightarrow> bool" where
  "is_digit c \<longleftrightarrow> 48 \<le> (of_char c :: nat) \<and> (of_char c :: nat) \<le> 57"

definition digit_val :: "char \<Rightarrow> nat" where
  "digit_val c = of_char c - 48"

definition hex_val :: "char \<Rightarrow> nat option" where
  "hex_val c =
     (let x = (of_char c :: nat) in
      if 48 \<le> x \<and> x \<le> 57 then Some (x - 48)
      else if 97 \<le> x \<and> x \<le> 102 then Some (x - 87)
      else if 65 \<le> x \<and> x \<le> 70 then Some (x - 55) else None)"

fun nat_dec :: "nat \<Rightarrow> string" where
  "nat_dec n = (if n < 10 then [digit_char n] else nat_dec (n div 10) @ [digit_char (n mod 10)])"

declare nat_dec.simps [simp del]

definition int_dec :: "int \<Rightarrow> string" where
  "int_dec i = (if i < 0 then CHR ''-'' # nat_dec (nat (- i)) else nat_dec (nat i))"

fun digits_val :: "nat \<Rightarrow> string \<Rightarrow> nat option" where
  "digits_val acc [] = Some acc"
| "digits_val acc (c # cs) = (if is_digit c then digits_val (10 * acc + digit_val c) cs else None)"

definition parse_unsigned :: "string \<Rightarrow> nat option" where
  "parse_unsigned s = (if s = [] then None else digits_val 0 s)"

definition parse_int64 :: "string \<Rightarrow> int option" where
  "parse_int64 s =
     (case s of
        [] \<Rightarrow> None
      | c # cs \<Rightarrow>
          (let neg = (c = CHR ''-''); body = (if c = CHR ''-'' \<or> c = CHR ''+'' then cs else s)
           in case parse_unsigned body of
                None \<Rightarrow> None
              | Some n \<Rightarrow>
                  (let v = (if neg then - int n else int n)
                   in if in_int64 v then Some v else None)))"

lemma digit_char_props [simp]:
  assumes "d < 10"
  shows "is_digit (digit_char d)" "digit_val (digit_char d) = d"
  using assms by (simp_all add: is_digit_def digit_val_def digit_char_def)

lemma digits_val_append:
  "digits_val acc (xs @ ys) = (case digits_val acc xs of None \<Rightarrow> None | Some n \<Rightarrow> digits_val n ys)"
  by (induction acc xs rule: digits_val.induct) auto

lemma nat_dec_nonempty [simp]: "nat_dec n \<noteq> []"
  by (subst nat_dec.simps) simp

lemma nat_dec_digits: "c \<in> set (nat_dec n) \<Longrightarrow> is_digit c"
proof (induction n rule: nat_dec.induct)
  case (1 n)
  then show ?case by (cases "n < 10") (auto simp: nat_dec.simps [of n])
qed

lemma digits_val_nat_dec: "digits_val 0 (nat_dec n) = Some n"
proof (induction n rule: nat_dec.induct)
  case (1 n)
  show ?case
  proof (cases "n < 10")
    case True
    then show ?thesis by (simp add: nat_dec.simps [of n])
  next
    case False
    with 1 show ?thesis by (simp add: nat_dec.simps [of n] digits_val_append)
  qed
qed

lemma parse_unsigned_nat_dec [simp]: "parse_unsigned (nat_dec n) = Some n"
  by (simp add: parse_unsigned_def digits_val_nat_dec)

lemma nat_dec_head: "nat_dec n = c # cs \<Longrightarrow> is_digit c"
  using nat_dec_digits [of c n] by simp

lemma parse_int64_int_dec: "in_int64 i \<Longrightarrow> parse_int64 (int_dec i) = Some i"
proof (cases "i < 0")
  case True
  assume "in_int64 i"
  with True show ?thesis by (simp add: parse_int64_def int_dec_def)
next
  case False
  assume i: "in_int64 i"
  obtain c cs where d: "nat_dec (nat i) = c # cs" by (cases "nat_dec (nat i)") auto
  have "is_digit c" using d by (rule nat_dec_head)
  then have "c \<noteq> CHR ''-''" and "c \<noteq> CHR ''+''" by (auto simp: is_digit_def)
  with False i d show ?thesis
    using parse_unsigned_nat_dec [of "nat i"] by (simp add: parse_int64_def int_dec_def)
qed

lemma parse_int64_range: "parse_int64 s = Some v \<Longrightarrow> in_int64 v"
  by (auto simp: parse_int64_def Let_def split: list.splits option.splits if_splits)

section \<open>Association lists as Go maps\<close>

abbreviation keys :: "('k \<times> 'v) list \<Rightarrow> 'k list" where
  "keys m \<equiv> map fst m"

lemma distinct_keys_update [inv_rules]: "distinct (keys m) \<Longrightarrow> distinct (keys (AList.update k v m))"
  by (rule distinct_update)

lemma distinct_keys_delete [inv_rules]: "distinct (keys m) \<Longrightarrow> distinct (keys (AList.delete k m))"
  by (rule distinct_delete)

lemma length_update: "length (AList.update k v m) = (if k \<in> set (keys m) then length m else Suc (length m))"
  by (induction m) auto

lemma update_fresh: "k \<notin> set (keys m) \<Longrightarrow> AList.update k v m = m @ [(k, v)]"
  by (induction m) auto

lemma length_delete_le: "length (AList.delete k m) \<le> length m"
  by (simp add: AList.delete_eq)

lemma length_delete_distinct:
  "distinct (keys m) \<Longrightarrow> length (AList.delete k m) = (if k \<in> set (keys m) then length m - 1 else length m)"
proof (induction m)
  case Nil
  then show ?case by simp
next
  case (Cons p m)
  have "k \<in> set (keys m) \<Longrightarrow> length m \<noteq> 0" by auto
  with Cons show ?case by (auto simp: AList.delete_id)
qed

lemma map_of_in_keys: "map_of m k = Some v \<Longrightarrow> k \<in> set (keys m)"
  by (force dest: map_of_SomeD)

lemma map_of_None_keys: "map_of m k = None \<longleftrightarrow> k \<notin> set (keys m)"
  by (simp add: map_of_eq_None_iff)

text \<open>The duplicate scans of the source: keep the seen names, stop at the first repetition.\<close>

fun first_dup :: "'k list \<Rightarrow> 'k list \<Rightarrow> 'k option" where
  "first_dup seen [] = None"
| "first_dup seen (x # xs) = (if x \<in> set seen then Some x else first_dup (x # seen) xs)"

lemma first_dup_None: "first_dup seen xs = None \<longleftrightarrow> distinct xs \<and> set xs \<inter> set seen = {}"
  by (induction seen xs rule: first_dup.induct) auto


section \<open>Systems of interleaved steps\<close>

text \<open>
  A component several goroutines or processes work on is a set of initial states and a step
  relation. The interface \<open>safe_system\<close> is what a safety proof owes, and gives the invariant
  in every reachable state; \<open>absorbing_system\<close> adds a condition that, once true, stays.
\<close>

definition reach :: "('s \<Rightarrow> bool) \<Rightarrow> ('s \<Rightarrow> 's \<Rightarrow> bool) \<Rightarrow> 's \<Rightarrow> bool" where
  "reach init step t \<longleftrightarrow> (\<exists>s. init s \<and> step\<^sup>*\<^sup>* s t)"

lemma reach_init: "init s \<Longrightarrow> reach init step s"
  by (auto simp: reach_def)

lemma reach_step: "reach init step s \<Longrightarrow> step s t \<Longrightarrow> reach init step t"
  by (auto simp: reach_def intro: rtranclp.rtrancl_into_rtrancl)

lemma reach_steps: "reach init step s \<Longrightarrow> step\<^sup>*\<^sup>* s t \<Longrightarrow> reach init step t"
  by (auto simp: reach_def intro: rtranclp_trans)

locale safe_system =
  fixes init :: "'s \<Rightarrow> bool"
    and step :: "'s \<Rightarrow> 's \<Rightarrow> bool"
    and inv :: "'s \<Rightarrow> bool"
  assumes init_inv: "init s \<Longrightarrow> inv s"
    and step_inv: "inv s \<Longrightarrow> step s t \<Longrightarrow> inv t"
begin

lemma steps_inv: "step\<^sup>*\<^sup>* s t \<Longrightarrow> inv s \<Longrightarrow> inv t"
  by (induction rule: rtranclp_induct) (auto intro: step_inv)

lemma reach_inv: "reach init step t \<Longrightarrow> inv t"
  by (auto simp: reach_def intro: steps_inv init_inv)

end

locale absorbing_system = safe_system init step inv
  for init :: "'s \<Rightarrow> bool" and step :: "'s \<Rightarrow> 's \<Rightarrow> bool" and inv :: "'s \<Rightarrow> bool" +
  fixes final :: "'s \<Rightarrow> bool"
  assumes final_step: "inv s \<Longrightarrow> step s t \<Longrightarrow> final s \<Longrightarrow> final t"
begin

lemma final_steps: "step\<^sup>*\<^sup>* s t \<Longrightarrow> inv s \<Longrightarrow> final s \<Longrightarrow> inv t \<and> final t"
  by (induction rule: rtranclp_induct) (auto intro: step_inv final_step)

lemma final_stays: "reach init step s \<Longrightarrow> final s \<Longrightarrow> step\<^sup>*\<^sup>* s t \<Longrightarrow> final t"
  using final_steps reach_inv by blast

end

end
