(* ===== verification/Go_Errors.thy ===== *)
theory Go_Errors
  imports Go_Prelude
begin

text \<open>
  Go's error values and the structured application errors of \<open>pkg/apperror\<close>. An error is a
  tree: sentinels (package variables), formatted messages, wrapped errors (\<open>%w\<close> or
  \<open>Unwrap\<close>) and joined errors. \<open>errors.Is\<close> walks the tree, so a handler that
  dispatches on a sentinel is modelled on the same tree.
\<close>

text \<open>
  \<open>Errf fmt args\<close> is a message without a wrapped error: the format string and its
  arguments, before formatting. \<open>App code message status cause\<close> is \<open>*AppError\<close>.
  \<open>OriginateErr class status cause\<close> is \<open>*calling.OriginateError\<close>. \<open>NetErr message timeout\<close>
  is an error of the package \<open>net\<close> with its \<open>Timeout()\<close>, \<open>PgErr code\<close> is \<open>*pgconn.PgError\<close> with its SQLSTATE.
\<close>

datatype go_err =
    Sentinel string
  | Errf string "string list"
  | Wrap string "string list" go_err
  | Join go_err go_err
  | App string string int "go_err option"
  | OriginateErr string int go_err
  | NetErr string bool
  | PgErr string

fun errors_is :: "go_err \<Rightarrow> go_err \<Rightarrow> bool" where
  "errors_is (Wrap f args e) t \<longleftrightarrow> Wrap f args e = t \<or> errors_is e t"
| "errors_is (Join a b) t \<longleftrightarrow> Join a b = t \<or> errors_is a t \<or> errors_is b t"
| "errors_is (App c m s (Some e)) t \<longleftrightarrow> App c m s (Some e) = t \<or> errors_is e t"
| "errors_is (OriginateErr c s e) t \<longleftrightarrow> OriginateErr c s e = t \<or> errors_is e t"
| "errors_is e t \<longleftrightarrow> e = t"

lemma errors_is_self [simp]: "errors_is e e"
proof (cases e)
  case (App c m s o')
  then show ?thesis by (cases o') auto
qed auto

definition err_eof :: go_err where "err_eof = Sentinel ''EOF''"
definition err_canceled :: go_err where "err_canceled = Sentinel ''context canceled''"
definition err_deadline :: go_err where "err_deadline = Sentinel ''context deadline exceeded''"
definition err_no_rows :: go_err where "err_no_rows = Sentinel ''no rows in result set''"

text \<open>
  \<open>errors.As\<close> with a \<open>net.Error\<close> target, and its \<open>Timeout()\<close>. The context's deadline error
  implements that interface too, the cancellation error does not.
\<close>

fun as_net_error :: "go_err \<Rightarrow> bool option" where
  "as_net_error (NetErr m timeout) = Some timeout"
| "as_net_error (Wrap f args e) = as_net_error e"
| "as_net_error (Join a b) = (case as_net_error a of None \<Rightarrow> as_net_error b | Some t \<Rightarrow> Some t)"
| "as_net_error (App c m s (Some e)) = as_net_error e"
| "as_net_error (OriginateErr c s e) = as_net_error e"
| "as_net_error (Sentinel m) = (if Sentinel m = err_deadline then Some True else None)"
| "as_net_error e = None"

text \<open>\<open>errors.As\<close> with a \<open>*pgconn.PgError\<close> target: the SQLSTATE of the first one in the tree.\<close>

fun pg_code :: "go_err \<Rightarrow> string option" where
  "pg_code (PgErr code) = Some code"
| "pg_code (Wrap f args e) = pg_code e"
| "pg_code (Join a b) = (case pg_code a of None \<Rightarrow> pg_code b | Some c \<Rightarrow> Some c)"
| "pg_code (App c m s (Some e)) = pg_code e"
| "pg_code (OriginateErr c s e) = pg_code e"
| "pg_code e = None"

lemmas std_errs = err_eof_def err_canceled_def err_deadline_def err_no_rows_def

section \<open>Application errors\<close>

definition new_not_found :: "string \<Rightarrow> go_err" where
  "new_not_found message = App ''NOT_FOUND'' message 404 None"

definition new_bad_request :: "string \<Rightarrow> go_err" where
  "new_bad_request message = App ''BAD_REQUEST'' message 400 None"

definition new_payment_required :: "string \<Rightarrow> go_err" where
  "new_payment_required message = App ''PAYMENT_REQUIRED'' message 402 None"

definition new_conflict :: "string \<Rightarrow> go_err" where
  "new_conflict message = App ''CONFLICT'' message 409 None"

definition new_payload_too_large :: "string \<Rightarrow> go_err" where
  "new_payload_too_large message = App ''PAYLOAD_TOO_LARGE'' message 413 None"

definition new_unauthorized :: "string \<Rightarrow> go_err" where
  "new_unauthorized message = App ''UNAUTHORIZED'' message 401 None"

definition new_forbidden :: "string \<Rightarrow> go_err" where
  "new_forbidden message = App ''FORBIDDEN'' message 403 None"

definition new_too_many_requests :: "string \<Rightarrow> go_err" where
  "new_too_many_requests message = App ''TOO_MANY_REQUESTS'' message 429 None"

definition new_internal :: "string \<Rightarrow> go_err option \<Rightarrow> go_err" where
  "new_internal message err = App ''INTERNAL_ERROR'' message 500 err"

definition new_service_unavailable :: "string \<Rightarrow> go_err option \<Rightarrow> go_err" where
  "new_service_unavailable message err = App ''SERVICE_UNAVAILABLE'' message 503 err"

lemmas app_errs =
  new_not_found_def new_bad_request_def new_payment_required_def new_conflict_def new_payload_too_large_def
  new_unauthorized_def new_forbidden_def
  new_too_many_requests_def new_internal_def new_service_unavailable_def

definition err_status :: "go_err \<Rightarrow> int option" where
  "err_status e = (case e of App _ _ s _ \<Rightarrow> Some s | _ \<Rightarrow> None)"

text \<open>
  The HTTP status \<open>httputil.Error\<close> answers: that of the first application error in the tree
  (\<open>errors.AsType\<close>), or 500.
\<close>

fun as_app_status :: "go_err \<Rightarrow> int option" where
  "as_app_status (App c m s e) = Some s"
| "as_app_status (Wrap f args e) = as_app_status e"
| "as_app_status (Join a b) = (case as_app_status a of None \<Rightarrow> as_app_status b | Some c \<Rightarrow> Some c)"
| "as_app_status (OriginateErr c s e) = as_app_status e"
| "as_app_status e = None"

definition http_status :: "go_err \<Rightarrow> int" where
  "http_status e = (case as_app_status e of None \<Rightarrow> 500 | Some s \<Rightarrow> s)"

lemma err_status_simps [simp]:
  "err_status (new_not_found m) = Some 404"
  "err_status (new_bad_request m) = Some 400"
  "err_status (new_payment_required m) = Some 402"
  "err_status (new_conflict m) = Some 409"
  "err_status (new_too_many_requests m) = Some 429"
  "err_status (new_internal m c) = Some 500"
  "err_status (new_service_unavailable m c) = Some 503"
  by (simp_all add: err_status_def app_errs)

end
