(* ===== verification/Go_Json.thy ===== *)
theory Go_Json
  imports Go_Errors
begin

text \<open>
  The part of \<open>encoding/json\<close> the code relies on: whether bytes are one valid JSON value
  and whether that value is an object, i.e. whether \<open>json.Unmarshal\<close> into a
  \<open>map[string]json.RawMessage\<close> succeeds and leaves a non-nil map. It is the byte-by-byte
  scanner: a mode, a stack of the open objects and arrays, and one step per byte.
\<close>

datatype json_ctx = ObjectKey | ObjectValue | ArrayValue

datatype json_mode =
    BeginValue | BeginValueOrEmpty | BeginStringOrEmpty | BeginString
  | InString | InEscape | InHex nat
  | NumNeg | NumZero | NumInt | NumDot | NumFrac | NumExp | NumExpSign | NumExpDigits
  | InLiteral string | EndValue

definition json_space :: "char \<Rightarrow> bool" where
  "json_space c \<longleftrightarrow> c \<in> {CHR 0x20, CHR 0x09, CHR 0x0D, CHR 0x0A}"

definition json_max_depth :: nat where
  "json_max_depth = 10000"

definition json_push :: "json_mode \<Rightarrow> json_ctx \<Rightarrow> json_ctx list \<Rightarrow> (json_mode \<times> json_ctx list) option" where
  "json_push m c st = (if json_max_depth < Suc (length st) then None else Some (m, c # st))"

definition json_begin :: "json_ctx list \<Rightarrow> char \<Rightarrow> (json_mode \<times> json_ctx list) option" where
  "json_begin st c =
     (if json_space c then Some (BeginValue, st)
      else if c = CHR ''{'' then json_push BeginStringOrEmpty ObjectKey st
      else if c = CHR ''['' then json_push BeginValueOrEmpty ArrayValue st
      else if c = CHR 0x22 then Some (InString, st)
      else if c = CHR ''-'' then Some (NumNeg, st)
      else if c = CHR ''0'' then Some (NumZero, st)
      else if c = CHR ''t'' then Some (InLiteral ''rue'', st)
      else if c = CHR ''f'' then Some (InLiteral ''alse'', st)
      else if c = CHR ''n'' then Some (InLiteral ''ull'', st)
      else if is_digit c then Some (NumInt, st)
      else None)"

definition json_end_value :: "json_ctx list \<Rightarrow> char \<Rightarrow> (json_mode \<times> json_ctx list) option" where
  "json_end_value st c =
     (if json_space c then Some (EndValue, st)
      else case st of
        [] \<Rightarrow> None
      | ObjectKey # rest \<Rightarrow> if c = CHR '':'' then Some (BeginValue, ObjectValue # rest) else None
      | ObjectValue # rest \<Rightarrow>
          if c = CHR '','' then Some (BeginString, ObjectKey # rest)
          else if c = CHR ''}'' then Some (EndValue, rest) else None
      | ArrayValue # rest \<Rightarrow>
          if c = CHR '','' then Some (BeginValue, ArrayValue # rest)
          else if c = CHR '']'' then Some (EndValue, rest) else None)"

definition is_hex :: "char \<Rightarrow> bool" where
  "is_hex c \<longleftrightarrow> is_digit c
     \<or> (97 \<le> (of_char c :: nat) \<and> (of_char c :: nat) \<le> 102)
     \<or> (65 \<le> (of_char c :: nat) \<and> (of_char c :: nat) \<le> 70)"

definition is_exp :: "char \<Rightarrow> bool" where
  "is_exp c \<longleftrightarrow> c = CHR ''e'' \<or> c = CHR ''E''"

fun json_step :: "json_mode \<Rightarrow> json_ctx list \<Rightarrow> char \<Rightarrow> (json_mode \<times> json_ctx list) option" where
  "json_step BeginValue st c = json_begin st c"
| "json_step BeginValueOrEmpty st c =
     (if json_space c then Some (BeginValueOrEmpty, st)
      else if c = CHR '']'' then json_end_value st c else json_begin st c)"
| "json_step BeginStringOrEmpty st c =
     (if json_space c then Some (BeginStringOrEmpty, st)
      else if c = CHR ''}'' then Some (EndValue, tl st)
      else if c = CHR 0x22 then Some (InString, st) else None)"
| "json_step BeginString st c =
     (if json_space c then Some (BeginString, st)
      else if c = CHR 0x22 then Some (InString, st) else None)"
| "json_step InString st c =
     (if c = CHR 0x22 then Some (EndValue, st)
      else if c = CHR 0x5C then Some (InEscape, st)
      else if (of_char c :: nat) < 32 then None else Some (InString, st))"
| "json_step InEscape st c =
     (if c = CHR ''u'' then Some (InHex 3, st)
      else if c \<in> {CHR ''b'', CHR ''f'', CHR ''n'', CHR ''r'', CHR ''t'', CHR 0x5C, CHR ''/'', CHR 0x22}
      then Some (InString, st) else None)"
| "json_step (InHex k) st c =
     (if is_hex c then Some (if k = 0 then InString else InHex (k - 1), st) else None)"
| "json_step NumNeg st c =
     (if c = CHR ''0'' then Some (NumZero, st)
      else if is_digit c then Some (NumInt, st) else None)"
| "json_step NumZero st c =
     (if c = CHR ''.'' then Some (NumDot, st)
      else if is_exp c then Some (NumExp, st) else json_end_value st c)"
| "json_step NumInt st c =
     (if is_digit c then Some (NumInt, st)
      else if c = CHR ''.'' then Some (NumDot, st)
      else if is_exp c then Some (NumExp, st) else json_end_value st c)"
| "json_step NumDot st c = (if is_digit c then Some (NumFrac, st) else None)"
| "json_step NumFrac st c =
     (if is_digit c then Some (NumFrac, st)
      else if is_exp c then Some (NumExp, st) else json_end_value st c)"
| "json_step NumExp st c =
     (if c = CHR ''+'' \<or> c = CHR ''-'' then Some (NumExpSign, st)
      else if is_digit c then Some (NumExpDigits, st) else None)"
| "json_step NumExpSign st c = (if is_digit c then Some (NumExpDigits, st) else None)"
| "json_step NumExpDigits st c =
     (if is_digit c then Some (NumExpDigits, st) else json_end_value st c)"
| "json_step (InLiteral ws) st c =
     (case ws of
        [] \<Rightarrow> json_end_value st c
      | w # ws' \<Rightarrow> if c = w then Some (if ws' = [] then EndValue else InLiteral ws', st) else None)"
| "json_step EndValue st c = json_end_value st c"

fun json_scan :: "json_mode \<Rightarrow> json_ctx list \<Rightarrow> string \<Rightarrow> bool" where
  "json_scan m st [] \<longleftrightarrow> st = [] \<and> m \<in> {EndValue, NumZero, NumInt, NumFrac, NumExpDigits}"
| "json_scan m st (c # cs) \<longleftrightarrow>
     (case json_step m st c of None \<Rightarrow> False | Some (m', st') \<Rightarrow> json_scan m' st' cs)"

definition json_valid :: "string \<Rightarrow> bool" where
  "json_valid s \<longleftrightarrow> json_scan BeginValue [] s"

definition json_object :: "string \<Rightarrow> bool" where
  "json_object s \<longleftrightarrow>
     json_valid s \<and> (case dropWhile json_space s of c # _ \<Rightarrow> c = CHR ''{'' | [] \<Rightarrow> False)"

text \<open>The value \<open>null\<close> leaves the map nil without an error.\<close>

definition json_null :: "string \<Rightarrow> bool" where
  "json_null s \<longleftrightarrow>
     json_valid s \<and> (case dropWhile json_space s of c # _ \<Rightarrow> c = CHR ''n'' | [] \<Rightarrow> False)"

definition json_unmarshal_error :: go_err where
  "json_unmarshal_error = Sentinel ''json unmarshal error''"

lemmas json_eval = json_object_def json_valid_def json_begin_def json_end_value_def
  json_push_def json_max_depth_def json_space_def is_hex_def is_exp_def is_digit_def

lemma json_object_empty: "json_object ''{}''"
  by (simp add: json_eval)

lemma json_null_no_object: "json_valid ''null'' \<and> \<not> json_object ''null''"
  by (simp add: json_eval)

lemma json_object_nested: "json_object (''{'' @ [CHR 0x22] @ ''a'' @ [CHR 0x22] @ '':[1,-2.5e3,true]} '')"
  by (simp add: json_eval)

text \<open>A valid value never closes more than it opened, and never starts empty.\<close>

lemma json_object_nonempty: "json_object s \<Longrightarrow> s \<noteq> []"
  by (auto simp: json_object_def)

end
