(* ===== verification/Media_Types.thy ===== *)
theory Media_Types
  imports Go_Errors Go_Json
begin

text \<open>
  \<open>media/session/session.go\<close>: the provider-neutral contracts of a media session. Audio
  formats and frames with their duration arithmetic, the immutable session configuration with
  its validator and its equality, events and commands. A time is the number of nanoseconds
  since Go's zero time, which is 0.
\<close>

section \<open>Engines and audio formats\<close>

type_synonym engine = string

definition engine_echo :: engine where "engine_echo = ''echo''"
definition engine_composable :: engine where "engine_composable = ''composable''"
definition engine_realtime :: engine where "engine_realtime = ''realtime''"

record audio_format =
  sample_rate_hz :: int
  channels :: int

definition format_validate :: "audio_format \<Rightarrow> go_err option" where
  "format_validate f = first_error
     [(sample_rate_hz f \<noteq> 8000 \<and> sample_rate_hz f \<noteq> 16000 \<and> sample_rate_hz f \<noteq> 24000
         \<and> sample_rate_hz f \<noteq> 48000,
       Errf ''unsupported sample rate %d Hz'' [int_dec (sample_rate_hz f)]),
      (channels f \<noteq> 1, Errf ''unsupported channel count %d'' [int_dec (channels f)])]"

record engine_profile =
  profile_input :: audio_format
  profile_output :: audio_format

definition profile_for_engine :: "engine \<Rightarrow> go_err + engine_profile" where
  "profile_for_engine e =
     (if e = engine_echo \<or> e = engine_composable then
        let format = \<lparr>sample_rate_hz = 16000, channels = 1\<rparr>
        in Inr \<lparr>profile_input = format, profile_output = format\<rparr>
      else if e = engine_realtime then
        let format = \<lparr>sample_rate_hz = 24000, channels = 1\<rparr>
        in Inr \<lparr>profile_input = format, profile_output = format\<rparr>
      else Inl (Errf ''unsupported media engine %q'' [e]))"

section \<open>Audio frames\<close>

record audio_frame =
  frame_data :: string
  frame_format :: audio_format
  captured_at :: int

record connection_metadata =
  md_session_id :: uuid
  md_call_id :: uuid
  md_channel_id :: uuid
  md_organization_id :: uuid
  md_remote_address :: string
  md_format :: audio_format

definition frame_validate :: "audio_frame \<Rightarrow> go_err option" where
  "frame_validate f =
     (case format_validate (frame_format f) of
        Some e \<Rightarrow> Some e
      | None \<Rightarrow> first_error
          [(length (frame_data f) = 0, Errf ''audio frame is empty'' []),
           (length (frame_data f) mod 2 \<noteq> 0,
            Errf ''PCM16 audio frame has odd byte length %d'' [nat_dec (length (frame_data f))])])"

text \<open>\<open>time.Duration\<close> arithmetic: the product of samples and a second may wrap.\<close>

definition second_ns :: int where "second_ns = 1000000000"

definition frame_duration :: "audio_frame \<Rightarrow> int" where
  "frame_duration f =
     (let rate = sample_rate_hz (frame_format f); chans = channels (frame_format f);
          len = int (length (frame_data f))
      in if rate \<le> 0 \<or> chans \<le> 0 \<or> len = 0 then 0
         else let samples = go_div len (wrap64 (2 * chans))
              in go_div (wrap64 (samples * second_ns)) rate)"

section \<open>Session configuration\<close>

record provider_runtime =
  pr_role :: string
  pr_provider :: string
  pr_api_key :: string
  pr_config :: string

record tool_definition =
  td_id :: uuid
  td_name :: string
  td_description :: string
  td_parameters :: string

record session_config =
  cfg_id :: uuid
  cfg_organization_id :: uuid
  cfg_call_id :: uuid
  cfg_channel_id :: uuid
  cfg_engine :: engine
  cfg_input_format :: audio_format
  cfg_output_format :: audio_format
  cfg_language :: string
  cfg_instructions :: string
  cfg_voice :: string
  cfg_engine_config :: string
  cfg_tools :: "tool_definition list"
  cfg_providers :: "provider_runtime list"

text \<open>The two loops of \<open>Validate\<close>, with the set of roles or names seen so far.\<close>

fun providers_validate :: "string list \<Rightarrow> provider_runtime list \<Rightarrow> go_err option" where
  "providers_validate roles [] = None"
| "providers_validate roles (p # ps) =
     (if pr_role p = [] \<or> pr_provider p = [] \<or> pr_api_key p = []
      then Some (Errf ''media provider role, provider, and api_key are required'' [])
      else if pr_role p \<in> set roles
      then Some (Errf ''duplicate media provider role %q'' [pr_role p])
      else if pr_config p \<noteq> [] \<and> \<not> json_object (pr_config p)
      then Some (Errf ''media provider %q config must be a JSON object'' [pr_role p])
      else providers_validate (pr_role p # roles) ps)"

fun tools_validate :: "string list \<Rightarrow> tool_definition list \<Rightarrow> go_err option" where
  "tools_validate names [] = None"
| "tools_validate names (t # ts) =
     (if td_id t = uuid_nil \<or> td_name t = []
      then Some (Errf ''media tool id and name are required'' [])
      else if td_name t \<in> set names
      then Some (Errf ''duplicate media tool name %q'' [td_name t])
      else if \<not> json_object (td_parameters t)
      then Some (Errf ''media tool %q parameters must be a JSON object'' [td_name t])
      else tools_validate (td_name t # names) ts)"

definition config_validate :: "session_config \<Rightarrow> go_err option" where
  "config_validate c =
     (case first_error
        [(cfg_id c = uuid_nil, Errf ''session id is required'' []),
         (cfg_organization_id c = uuid_nil, Errf ''organization id is required'' []),
         (cfg_call_id c = uuid_nil, Errf ''call id is required'' []),
         (cfg_channel_id c = uuid_nil, Errf ''channel id is required'' [])] of
        Some e \<Rightarrow> Some e
      | None \<Rightarrow>
     (case profile_for_engine (cfg_engine c) of
        Inl e \<Rightarrow> Some e
      | Inr profile \<Rightarrow>
        or_else (map_option (Wrap ''input format: %w'' []) (format_validate (cfg_input_format c)))
       (or_else (map_option (Wrap ''output format: %w'' []) (format_validate (cfg_output_format c)))
       (or_else (first_error
          [(cfg_input_format c \<noteq> profile_input profile \<or> cfg_output_format c \<noteq> profile_output profile,
            Errf ''media engine %q requires input %+v and output %+v'' [cfg_engine c]),
           (cfg_engine_config c \<noteq> [] \<and> \<not> json_object (cfg_engine_config c)
              \<and> \<not> json_null (cfg_engine_config c),
            Wrap ''engine config must be a JSON object: %w'' [] json_unmarshal_error),
           (cfg_engine_config c \<noteq> [] \<and> \<not> json_object (cfg_engine_config c),
            Errf ''engine config must be a JSON object'' [])])
       (or_else (providers_validate [] (cfg_providers c))
                (tools_validate [] (cfg_tools c)))))))"

definition tool_definitions_equal :: "tool_definition list \<Rightarrow> tool_definition list \<Rightarrow> bool" where
  "tool_definitions_equal left right \<longleftrightarrow>
     length left = length right \<and>
     list_all2 (\<lambda>l r. td_id l = td_id r \<and> td_name l = td_name r
       \<and> td_description l = td_description r \<and> td_parameters l = td_parameters r) left right"

definition provider_runtimes_equal :: "provider_runtime list \<Rightarrow> provider_runtime list \<Rightarrow> bool" where
  "provider_runtimes_equal left right \<longleftrightarrow>
     length left = length right \<and>
     list_all2 (\<lambda>l r. pr_role l = pr_role r \<and> pr_provider l = pr_provider r
       \<and> pr_api_key l = pr_api_key r \<and> pr_config l = pr_config r) left right"

definition config_equal :: "session_config \<Rightarrow> session_config \<Rightarrow> bool" where
  "config_equal c other \<longleftrightarrow>
     cfg_id c = cfg_id other \<and> cfg_organization_id c = cfg_organization_id other
     \<and> cfg_call_id c = cfg_call_id other \<and> cfg_channel_id c = cfg_channel_id other
     \<and> cfg_engine c = cfg_engine other \<and> cfg_input_format c = cfg_input_format other
     \<and> cfg_output_format c = cfg_output_format other \<and> cfg_language c = cfg_language other
     \<and> cfg_instructions c = cfg_instructions other \<and> cfg_voice c = cfg_voice other
     \<and> cfg_engine_config c = cfg_engine_config other
     \<and> tool_definitions_equal (cfg_tools c) (cfg_tools other)
     \<and> provider_runtimes_equal (cfg_providers c) (cfg_providers other)"

definition config_provider :: "session_config \<Rightarrow> string \<Rightarrow> provider_runtime option" where
  "config_provider c role = find (\<lambda>p. pr_role p = role) (cfg_providers c)"

section \<open>Events and commands\<close>

type_synonym event_type = string

definition event_speech_started :: event_type where "event_speech_started = ''speech.started''"
definition event_speech_stopped :: event_type where "event_speech_stopped = ''speech.stopped''"
definition event_response_started :: event_type where "event_response_started = ''response.started''"
definition event_response_stopped :: event_type where "event_response_stopped = ''response.stopped''"
definition event_tool_call :: event_type where "event_tool_call = ''tool.call''"
definition event_error :: event_type where "event_error = ''error''"

lemmas event_types = event_speech_started_def event_speech_stopped_def event_response_started_def
  event_response_stopped_def event_tool_call_def event_error_def

record tool_call_event =
  tc_id :: string
  tc_name :: string
  tc_arguments :: string

record failure_event =
  fe_source :: string
  fe_code :: string
  fe_message :: string
  fe_terminal :: bool

record usage_event =
  ue_input_tokens :: int
  ue_output_tokens :: int
  ue_total_tokens :: int

record event =
  ev_type :: event_type
  ev_transcript :: "string option"
  ev_response :: "string option"
  ev_tool_call :: "tool_call_event option"
  ev_usage :: "usage_event option"
  ev_failure :: "failure_event option"
  ev_provider_id :: string
  ev_occurred_at :: int

record tool_result =
  tr_tool_call_id :: string
  tr_name :: string
  tr_content :: string
  tr_is_error :: bool

record command =
  cmd_type :: string
  cmd_tool_result :: "tool_result option"

definition command_interrupt :: string where "command_interrupt = ''response.interrupt''"
definition command_stop :: string where "command_stop = ''session.stop''"
definition command_tool_result :: string where "command_tool_result = ''tool.result''"

lemmas command_types = command_interrupt_def command_stop_def command_tool_result_def

definition command_validate :: "command \<Rightarrow> go_err option" where
  "command_validate c =
     (if cmd_type c = command_interrupt \<or> cmd_type c = command_stop then
        (if cmd_tool_result c \<noteq> None
         then Some (Errf ''media command %q does not accept a tool result'' [cmd_type c])
         else None)
      else if cmd_type c = command_tool_result then
        (case cmd_tool_result c of
           None \<Rightarrow> Some (Errf ''tool_result is required'' [])
         | Some r \<Rightarrow>
             if tr_tool_call_id r = [] then Some (Errf ''tool_call_id is required'' []) else None)
      else Some (Errf ''unsupported media command %q'' [cmd_type c]))"


section \<open>What validation guarantees\<close>

definition provider_ok :: "provider_runtime \<Rightarrow> bool" where
  "provider_ok p \<longleftrightarrow> pr_role p \<noteq> [] \<and> pr_provider p \<noteq> [] \<and> pr_api_key p \<noteq> []
     \<and> (pr_config p = [] \<or> json_object (pr_config p))"

definition tool_ok :: "tool_definition \<Rightarrow> bool" where
  "tool_ok t \<longleftrightarrow> td_id t \<noteq> uuid_nil \<and> td_name t \<noteq> [] \<and> json_object (td_parameters t)"

definition wf_config :: "session_config \<Rightarrow> bool" where
  "wf_config c \<longleftrightarrow>
     cfg_id c \<noteq> uuid_nil \<and> cfg_organization_id c \<noteq> uuid_nil
     \<and> cfg_call_id c \<noteq> uuid_nil \<and> cfg_channel_id c \<noteq> uuid_nil
     \<and> cfg_input_format c = cfg_output_format c
     \<and> (cfg_engine c \<in> {engine_echo, engine_composable}
          \<and> cfg_input_format c = \<lparr>sample_rate_hz = 16000, channels = 1\<rparr>
        \<or> cfg_engine c = engine_realtime
          \<and> cfg_input_format c = \<lparr>sample_rate_hz = 24000, channels = 1\<rparr>)
     \<and> (cfg_engine_config c = [] \<or> json_object (cfg_engine_config c))
     \<and> list_all provider_ok (cfg_providers c) \<and> distinct (map pr_role (cfg_providers c))
     \<and> list_all tool_ok (cfg_tools c) \<and> distinct (map td_name (cfg_tools c))"

lemma or_else_None [checks]: "or_else a b = None \<longleftrightarrow> a = None \<and> b = None"
  by (cases a) (auto simp: or_else_def)

lemma providers_validate_None [checks]:
  "providers_validate roles ps = None \<longleftrightarrow>
     list_all provider_ok ps \<and> distinct (map pr_role ps) \<and> set (map pr_role ps) \<inter> set roles = {}"
  by (induction roles ps rule: providers_validate.induct) (auto simp: provider_ok_def)

lemma tools_validate_None [checks]:
  "tools_validate names ts = None \<longleftrightarrow>
     list_all tool_ok ts \<and> distinct (map td_name ts) \<and> set (map td_name ts) \<inter> set names = {}"
  by (induction names ts rule: tools_validate.induct) (auto simp: tool_ok_def)

lemma format_validate_None [checks]:
  "format_validate f = None \<longleftrightarrow> sample_rate_hz f \<in> {8000, 16000, 24000, 48000} \<and> channels f = 1"
  by (auto simp: format_validate_def)

lemma engine_names_distinct [simp]:
  "engine_realtime \<noteq> engine_echo" "engine_realtime \<noteq> engine_composable"
  "engine_echo \<noteq> engine_realtime" "engine_composable \<noteq> engine_realtime"
  by (simp_all add: engine_realtime_def engine_echo_def engine_composable_def)

lemma profile_formats:
  "profile_for_engine e = Inr p \<Longrightarrow>
     profile_input p = profile_output p \<and> format_validate (profile_input p) = None"
  by (auto simp: profile_for_engine_def Let_def format_validate_None split: if_splits)

lemma config_validate_wf: "config_validate c = None \<longleftrightarrow> wf_config c"
proof (cases "profile_for_engine (cfg_engine c)")
  case (Inl e)
  then show ?thesis
    by (auto simp: config_validate_def wf_config_def profile_for_engine_def Let_def split: if_splits option.splits)
next
  case (Inr p)
  have fmt: "format_validate (profile_input p) = None" "profile_output p = profile_input p"
    using profile_formats [OF Inr] by auto
  have eng: "cfg_engine c \<in> {engine_echo, engine_composable}
        \<and> profile_input p = \<lparr>sample_rate_hz = 16000, channels = 1\<rparr>
      \<or> cfg_engine c = engine_realtime \<and> profile_input p = \<lparr>sample_rate_hz = 24000, channels = 1\<rparr>"
    using Inr by (auto simp: profile_for_engine_def Let_def split: if_splits)
  have "config_validate c = None \<longleftrightarrow>
      cfg_id c \<noteq> uuid_nil \<and> cfg_organization_id c \<noteq> uuid_nil
      \<and> cfg_call_id c \<noteq> uuid_nil \<and> cfg_channel_id c \<noteq> uuid_nil
      \<and> cfg_input_format c = profile_input p \<and> cfg_output_format c = profile_input p
      \<and> (cfg_engine_config c = [] \<or> json_object (cfg_engine_config c))
      \<and> list_all provider_ok (cfg_providers c) \<and> distinct (map pr_role (cfg_providers c))
      \<and> list_all tool_ok (cfg_tools c) \<and> distinct (map td_name (cfg_tools c))"
    using Inr fmt
    by (auto simp: config_validate_def or_else_None providers_validate_None tools_validate_None
        split: if_splits)
  with eng show ?thesis by (auto simp: wf_config_def)
qed

text \<open>A session configuration passes \<open>Config.Validate\<close> exactly when it is well formed:
  all four identities are set, both formats are the one its engine requires, the raw
  configurations are JSON objects, roles and tool names are unique.\<close>

theorem config_validate_iff: "config_validate c = None \<longleftrightarrow> wf_config c"
  by (rule config_validate_wf)

lemma tool_definition_eq_iff:
  fixes l r :: tool_definition
  shows "l = r \<longleftrightarrow> td_id l = td_id r \<and> td_name l = td_name r
    \<and> td_description l = td_description r \<and> td_parameters l = td_parameters r"
  by (cases l; cases r) simp

lemma provider_runtime_eq_iff:
  fixes l r :: provider_runtime
  shows "l = r \<longleftrightarrow> pr_role l = pr_role r \<and> pr_provider l = pr_provider r
    \<and> pr_api_key l = pr_api_key r \<and> pr_config l = pr_config r"
  by (cases l; cases r) simp

lemma tool_definitions_equal_eq: "tool_definitions_equal ls rs \<longleftrightarrow> ls = rs"
proof -
  have "(\<lambda>(l::tool_definition) r. td_id l = td_id r \<and> td_name l = td_name r
      \<and> td_description l = td_description r \<and> td_parameters l = td_parameters r) = (=)"
    by (simp add: fun_eq_iff tool_definition_eq_iff)
  then show ?thesis by (auto simp: tool_definitions_equal_def list.rel_eq)
qed

lemma provider_runtimes_equal_eq: "provider_runtimes_equal ls rs \<longleftrightarrow> ls = rs"
proof -
  have "(\<lambda>(l::provider_runtime) r. pr_role l = pr_role r \<and> pr_provider l = pr_provider r
      \<and> pr_api_key l = pr_api_key r \<and> pr_config l = pr_config r) = (=)"
    by (simp add: fun_eq_iff provider_runtime_eq_iff)
  then show ?thesis by (auto simp: provider_runtimes_equal_def list.rel_eq)
qed

text \<open>\<open>Config.Equal\<close> leaves no field out: it holds exactly for equal configurations.\<close>

theorem config_equal_iff: "config_equal c d \<longleftrightarrow> c = d"
  by (auto simp: config_equal_def tool_definitions_equal_eq provider_runtimes_equal_eq)

text \<open>
  A frame small enough for its samples times a second to stay within 64 bits
  (16 GiB of audio) has the exact duration, rounded down to a nanosecond.
\<close>

definition frame_sane :: "audio_frame \<Rightarrow> bool" where
  "frame_sane f \<longleftrightarrow> frame_validate f = None \<and> length (frame_data f) < 2 ^ 34"

lemma frame_validate_None [checks]:
  "frame_validate f = None \<longleftrightarrow>
     format_validate (frame_format f) = None \<and> frame_data f \<noteq> [] \<and> even (length (frame_data f))"
  by (auto simp: frame_validate_def even_iff_mod_2_eq_zero split: option.splits)

lemma frame_duration_exact:
  assumes "frame_sane f"
  shows "frame_duration f
    = (int (length (frame_data f)) div 2 * second_ns) div sample_rate_hz (frame_format f)"
proof -
  from assms have fmt: "sample_rate_hz (frame_format f) \<in> {8000, 16000, 24000, 48000}"
      "channels (frame_format f) = 1"
    and len: "frame_data f \<noteq> []" "length (frame_data f) < 2 ^ 34"
    by (auto simp: frame_sane_def frame_validate_None format_validate_None)
  let ?s = "int (length (frame_data f)) div 2"
  have s: "0 \<le> ?s" "?s < 2 ^ 33" using len(2) by simp_all
  have "in_int64 2" by (simp add: in_int64_def)
  then have two: "wrap64 2 = 2" by (rule wrap64_id)
  have "in_int64 (?s * second_ns)"
    using s by (simp add: in_int64_def second_ns_def)
  then have w: "wrap64 (?s * second_ns) = ?s * second_ns" by (rule wrap64_id)
  have "0 \<le> ?s * second_ns" using s by (simp add: second_ns_def)
  then show ?thesis
    using fmt len two w by (auto simp: frame_duration_def Let_def go_div_nonneg)
qed

lemma frame_duration_bounds:
  assumes "frame_sane f"
  shows "0 < frame_duration f" "frame_duration f < 2 ^ 51"
proof -
  let ?s = "int (length (frame_data f)) div 2" and ?r = "sample_rate_hz (frame_format f)"
  from assms have r: "?r \<in> {8000, 16000, 24000, 48000}"
    and len: "frame_data f \<noteq> []" "even (length (frame_data f))" "length (frame_data f) < 2 ^ 34"
    by (auto simp: frame_sane_def frame_validate_None format_validate_None)
  then have "2 \<le> length (frame_data f)"
    by (cases "frame_data f") (auto elim: oddE)
  then have s: "1 \<le> ?s" "?s < 2 ^ 33" using len(3) by simp_all
  show "0 < frame_duration f"
    using r s by (auto simp: frame_duration_exact [OF assms] second_ns_def pos_imp_zdiv_pos_iff)
  have "?s * second_ns div ?r \<le> ?s * second_ns div 8000"
    using r s by (auto simp: second_ns_def intro!: div_le_mono2)
  also have "\<dots> = ?s * 125000" by (simp add: second_ns_def)
  also have "\<dots> < 2 ^ 51" using s by simp
  finally show "frame_duration f < 2 ^ 51" by (simp add: frame_duration_exact [OF assms])
qed

end
