(* ===== verification/Audio_Queue.thy ===== *)
theory Audio_Queue
  imports Media_Types
begin

text \<open>
  \<open>media/session/queue.go\<close>: runtime limits and the latency-bounded audio queue that
  sits between the transport, the provider and playback. A queue holds the frames of its
  channel (capacity 256) and the duration they add up to; a push that would exceed the
  latency budget fails with the queue's overflow error instead of delaying audio.
\<close>

section \<open>Runtime limits and errors\<close>

definition err_input_latency :: go_err where
  "err_input_latency = Sentinel ''media input latency budget exceeded''"
definition err_output_latency :: go_err where
  "err_output_latency = Sentinel ''media output latency budget exceeded''"
definition err_frame_duration :: go_err where
  "err_frame_duration = Sentinel ''media frame duration exceeded''"
definition err_provider_start_timeout :: go_err where
  "err_provider_start_timeout = Sentinel ''media provider start timeout''"
definition err_provider_write_timeout :: go_err where
  "err_provider_write_timeout = Sentinel ''media provider write timeout''"
definition err_playback_write_timeout :: go_err where
  "err_playback_write_timeout = Sentinel ''media playback write timeout''"
definition err_provider_failure :: go_err where
  "err_provider_failure = Sentinel ''media provider failure''"

lemmas queue_errs = err_input_latency_def err_output_latency_def err_frame_duration_def
  err_provider_start_timeout_def err_provider_write_timeout_def err_playback_write_timeout_def
  err_provider_failure_def

record runtime_limits =
  max_frame_duration :: int
  input_queue_duration :: int
  output_queue_duration :: int
  provider_start_timeout :: int
  provider_write_timeout :: int
  playback_write_timeout :: int

definition millisecond_ns :: int where "millisecond_ns = 1000000"

definition default_runtime_limits :: runtime_limits where
  "default_runtime_limits =
     \<lparr>max_frame_duration = 200 * millisecond_ns,
      input_queue_duration = 400 * millisecond_ns,
      output_queue_duration = 800 * millisecond_ns,
      provider_start_timeout = 10 * second_ns,
      provider_write_timeout = 2 * second_ns,
      playback_write_timeout = 2 * second_ns\<rparr>"

definition limits_validate :: "runtime_limits \<Rightarrow> go_err option" where
  "limits_validate l =
     (if max_frame_duration l \<le> 0 \<or> input_queue_duration l \<le> 0
        \<or> output_queue_duration l \<le> 0 \<or> provider_start_timeout l \<le> 0
        \<or> provider_write_timeout l \<le> 0 \<or> playback_write_timeout l \<le> 0
      then Some (Errf ''media runtime limits must be positive'' []) else None)"

lemma default_limits_valid: "limits_validate default_runtime_limits = None"
  by (simp add: limits_validate_def default_runtime_limits_def millisecond_ns_def second_ns_def)

section \<open>The queue\<close>

record audio_queue =
  q_frames :: "audio_frame list"
  q_queued :: int
  q_max :: int
  q_overflow :: go_err

definition queue_capacity :: nat where "queue_capacity = 256"

definition new_audio_queue :: "int \<Rightarrow> go_err \<Rightarrow> audio_queue" where
  "new_audio_queue maxDuration overflowErr =
     \<lparr>q_frames = [], q_queued = 0, q_max = maxDuration, q_overflow = overflowErr\<rparr>"

definition queue_push :: "audio_frame \<Rightarrow> audio_queue \<Rightarrow> go_err + audio_queue" where
  "queue_push frame q =
     (let duration = frame_duration frame
      in if wrap64 (q_queued q + duration) > q_max q then Inl (q_overflow q)
         else if length (q_frames q) < queue_capacity
         then Inr (q\<lparr>q_frames := q_frames q @ [frame],
                     q_queued := wrap64 (q_queued q + duration)\<rparr>)
         else Inl (q_overflow q))"

text \<open>The bookkeeping after a receive: subtract, not below zero.\<close>

definition queue_took :: "audio_frame \<Rightarrow> audio_queue \<Rightarrow> audio_queue" where
  "queue_took frame q =
     (let queued = wrap64 (q_queued q - frame_duration frame)
      in q\<lparr>q_queued := (if queued < 0 then 0 else queued)\<rparr>)"

definition queue_recv :: "audio_queue \<Rightarrow> (audio_frame \<times> audio_queue) option" where
  "queue_recv q =
     (case q_frames q of
        [] \<Rightarrow> None
      | frame # rest \<Rightarrow> Some (frame, queue_took frame (q\<lparr>q_frames := rest\<rparr>)))"

text \<open>
  \<open>Pop\<close> selects between a frame and a cancelled context. When both are ready Go picks
  either, which \<open>prefer_frame\<close> resolves; with neither it blocks.
\<close>

datatype pop_result = Popped audio_frame audio_queue | PopCancelled | PopBlocked

definition queue_pop :: "bool \<Rightarrow> bool \<Rightarrow> audio_queue \<Rightarrow> pop_result" where
  "queue_pop ctx_done prefer_frame q =
     (case queue_recv q of
        None \<Rightarrow> if ctx_done then PopCancelled else PopBlocked
      | Some (frame, q') \<Rightarrow> if ctx_done \<and> \<not> prefer_frame then PopCancelled else Popped frame q')"

function queue_clear :: "audio_queue \<Rightarrow> audio_queue" where
  "queue_clear q = (case queue_recv q of None \<Rightarrow> q | Some (frame, q') \<Rightarrow> queue_clear q')"
  by pat_completeness auto
termination
  by (relation "measure (\<lambda>q. length (q_frames q))")
    (auto simp: queue_recv_def queue_took_def Let_def split: list.splits)

declare queue_clear.simps [simp del]

section \<open>The contract of a budgeted queue\<close>

text \<open>
  What the pump relies on: items come out in the order they were accepted, none is lost or
  duplicated, and the load of the queue, the sum of its items' weights, never exceeds its
  budget.
\<close>

datatype 'a fifo_op = Put 'a | Take

fun fifo_run ::
  "('a \<Rightarrow> 'q \<Rightarrow> 'e + 'q) \<Rightarrow> ('q \<Rightarrow> ('a \<times> 'q) option) \<Rightarrow> 'q \<Rightarrow> 'a fifo_op list
   \<Rightarrow> 'a list \<times> 'a list \<times> 'q" where
  "fifo_run put get q [] = ([], [], q)"
| "fifo_run put get q (Put x # ops) =
     (case put x q of
        Inl e \<Rightarrow> fifo_run put get q ops
      | Inr q' \<Rightarrow> (case fifo_run put get q' ops of (ins, outs, r) \<Rightarrow> (x # ins, outs, r)))"
| "fifo_run put get q (Take # ops) =
     (case get q of
        None \<Rightarrow> fifo_run put get q ops
      | Some (x, q') \<Rightarrow> (case fifo_run put get q' ops of (ins, outs, r) \<Rightarrow> (ins, x # outs, r)))"

locale budgeted_queue =
  fixes put :: "'a \<Rightarrow> 'q \<Rightarrow> 'e + 'q"
    and get :: "'q \<Rightarrow> ('a \<times> 'q) option"
    and items :: "'q \<Rightarrow> 'a list"
    and load :: "'q \<Rightarrow> int"
    and budget :: "'q \<Rightarrow> int"
    and weight :: "'a \<Rightarrow> int"
    and fits :: "'a \<Rightarrow> bool"
    and inv :: "'q \<Rightarrow> bool"
  assumes load_items: "inv q \<Longrightarrow> load q = sum_list (map weight (items q))"
    and load_budget: "inv q \<Longrightarrow> load q \<le> budget q"
    and put_inv: "inv q \<Longrightarrow> fits x \<Longrightarrow> put x q = Inr q' \<Longrightarrow> inv q'"
    and put_items: "put x q = Inr q' \<Longrightarrow> items q' = items q @ [x] \<and> budget q' = budget q"
    and take_inv: "inv q \<Longrightarrow> get q = Some (x, q') \<Longrightarrow> inv q'"
    and take_items: "get q = Some (x, q') \<Longrightarrow> items q = x # items q' \<and> budget q' = budget q"
    and take_empty: "get q = None \<longleftrightarrow> items q = []"
begin

lemma run_order:
  "fifo_run put get q ops = (ins, outs, r) \<Longrightarrow> items q @ ins = outs @ items r"
proof (induction ops arbitrary: q ins outs)
  case (Cons op ops)
  show ?case
  proof (cases op)
    case (Put x)
    with Cons show ?thesis by (fastforce split: sum.splits prod.splits dest: put_items)
  next
    case Take
    with Cons show ?thesis by (fastforce split: option.splits prod.splits dest: take_items)
  qed
qed simp

lemma run_inv:
  assumes "fifo_run put get q ops = (ins, outs, r)" "inv q" "\<And>x. Put x \<in> set ops \<Longrightarrow> fits x"
  shows "inv r \<and> budget r = budget q"
  using assms
proof (induction ops arbitrary: q ins outs)
  case (Cons op ops)
  have fits': "\<And>x. Put x \<in> set ops \<Longrightarrow> fits x" using Cons.prems(3) by simp
  note IH = Cons.IH [OF _ _ fits']
  show ?case
  proof (cases op)
    case (Put x)
    show ?thesis
    proof (cases "put x q")
      case (Inl e)
      with Put Cons.prems(1,2) IH [of q] show ?thesis by simp
    next
      case (Inr q1)
      with Put Cons.prems(1) obtain ins' where "fifo_run put get q1 ops = (ins', outs, r)"
        by (auto split: prod.splits)
      moreover have "inv q1" using put_inv [OF _ _ Inr] Cons.prems(2,3) Put by simp
      ultimately show ?thesis using IH put_items [OF Inr] by simp
    qed
  next
    case Take
    show ?thesis
    proof (cases "get q")
      case None
      with Take Cons.prems(1,2) IH [of q] show ?thesis by simp
    next
      case (Some xq)
      then obtain x q1 where g: "get q = Some (x, q1)" by (cases xq) simp
      with Take Cons.prems(1) obtain outs' where "fifo_run put get q1 ops = (ins, outs', r)"
        by (auto split: prod.splits)
      then show ?thesis using IH take_inv [OF Cons.prems(2) g] take_items [OF g] by simp
    qed
  qed
qed simp

lemma run_budget:
  assumes "fifo_run put get q ops = (ins, outs, r)" "inv q" "\<And>x. Put x \<in> set ops \<Longrightarrow> fits x"
  shows "sum_list (map weight (items r)) \<le> budget q"
  using run_inv [OF assms] load_items [of r] load_budget [of r] by auto

end

section \<open>The audio queue meets it\<close>

text \<open>
  With a budget below 2^62 nanoseconds and frames below 2^51, no sum wraps, so the counter
  is the sum of the durations in the channel.
\<close>

definition queue_inv :: "audio_queue \<Rightarrow> bool" where
  "queue_inv q \<longleftrightarrow>
     q_queued q = sum_list (map frame_duration (q_frames q))
     \<and> q_queued q \<le> q_max q \<and> q_max q < 2 ^ 62
     \<and> length (q_frames q) \<le> queue_capacity
     \<and> list_all (\<lambda>f. 0 \<le> frame_duration f) (q_frames q)"

definition frame_fits :: "audio_frame \<Rightarrow> bool" where
  "frame_fits f \<longleftrightarrow> 0 \<le> frame_duration f \<and> frame_duration f < 2 ^ 51"

lemma frame_sane_fits: "frame_sane f \<Longrightarrow> frame_fits f"
  using frame_duration_bounds [of f] by (simp add: frame_fits_def)

lemma sum_durations_nonneg:
  "list_all (\<lambda>f. 0 \<le> frame_duration f) fs \<Longrightarrow> 0 \<le> sum_list (map frame_duration fs)"
  by (induction fs) auto

lemma new_queue_inv [inv_rules]:
  "0 \<le> m \<Longrightarrow> m < 2 ^ 62 \<Longrightarrow> queue_inv (new_audio_queue m e)"
  by (simp add: queue_inv_def new_audio_queue_def)

lemma queue_push_inv [inv_rules]:
  assumes "queue_inv q" "frame_fits f" "queue_push f q = Inr q'"
  shows "queue_inv q'"
proof -
  have "0 \<le> q_queued q" and "q_queued q < 2 ^ 62"
    using assms(1) sum_durations_nonneg [of "q_frames q"] by (auto simp: queue_inv_def)
  with assms(2) have "wrap64 (q_queued q + frame_duration f) = q_queued q + frame_duration f"
    by (intro wrap64_id) (auto simp: in_int64_def frame_fits_def)
  with assms show ?thesis
    by (auto simp: queue_push_def queue_inv_def frame_fits_def queue_capacity_def Let_def
        split: if_splits)
qed

lemma queue_recv_exact:
  assumes "queue_inv q" "queue_recv q = Some (f, q')"
  shows "q' = q\<lparr>q_frames := tl (q_frames q), q_queued := q_queued q - frame_duration f\<rparr>"
proof -
  from assms(2) obtain rest where fr: "q_frames q = f # rest"
    and q': "q' = queue_took f (q\<lparr>q_frames := rest\<rparr>)"
    by (auto simp: queue_recv_def split: list.splits)
  from assms(1) fr have nn: "0 \<le> frame_duration f" "0 \<le> sum_list (map frame_duration rest)"
    and eq: "q_queued q = frame_duration f + sum_list (map frame_duration rest)"
    and ub: "q_queued q < 2 ^ 62"
    by (auto simp: queue_inv_def intro: sum_durations_nonneg)
  then have "wrap64 (q_queued q - frame_duration f) = q_queued q - frame_duration f"
    by (intro wrap64_id) (auto simp: in_int64_def)
  with nn eq fr q' show ?thesis by (simp add: queue_took_def Let_def)
qed

lemma queue_recv_inv [inv_rules]:
  assumes "queue_inv q" "queue_recv q = Some (f, q')"
  shows "queue_inv q'"
proof -
  from assms(2) obtain rest where fr: "q_frames q = f # rest"
    by (auto simp: queue_recv_def split: list.splits)
  with assms(1) queue_recv_exact [OF assms] show ?thesis
    by (auto simp: queue_inv_def)
qed

interpretation audio: budgeted_queue queue_push queue_recv q_frames q_queued q_max frame_duration
  frame_fits queue_inv
proof unfold_locales
  fix q q' :: audio_queue and x
  show "queue_inv q \<Longrightarrow> q_queued q = sum_list (map frame_duration (q_frames q))"
    and "queue_inv q \<Longrightarrow> q_queued q \<le> q_max q"
    by (simp_all add: queue_inv_def)
  show "queue_push x q = Inr q' \<Longrightarrow> q_frames q' = q_frames q @ [x] \<and> q_max q' = q_max q"
    by (auto simp: queue_push_def Let_def split: if_splits)
  show "queue_recv q = Some (x, q') \<Longrightarrow> q_frames q = x # q_frames q' \<and> q_max q' = q_max q"
    by (auto simp: queue_recv_def queue_took_def Let_def split: list.splits)
  show "(queue_recv q = None) = (q_frames q = [])"
    by (auto simp: queue_recv_def split: list.splits)
qed (auto intro: inv_rules)

lemma queue_clear_empty [simp]: "q_frames (queue_clear q) = []"
proof (induction q rule: queue_clear.induct)
  case (1 q)
  then show ?case
    by (cases "queue_recv q") (auto simp: queue_clear.simps [of q] dest: audio.take_empty [THEN iffD1])
qed

lemma queue_clear_inv [inv_rules]: "queue_inv q \<Longrightarrow> queue_inv (queue_clear q)"
proof (induction q rule: queue_clear.induct)
  case (1 q)
  show ?case
  proof (cases "queue_recv q")
    case (Some fq)
    obtain f q' where "fq = (f, q')" by (cases fq)
    with Some 1 show ?thesis
      by (simp add: queue_clear.simps [of q] queue_recv_inv [of q f q'])
  qed (use 1 in \<open>simp add: queue_clear.simps [of q]\<close>)
qed

text \<open>Through any interleaving of pushes and receives, frames leave in the order they
  were accepted, none lost or repeated, and at every point the audio waiting in the queue is
  within its latency budget.\<close>

theorem audio_queue_latency:
  assumes "queue_inv q" "\<And>f. Put f \<in> set ops \<Longrightarrow> frame_sane f"
    and "fifo_run queue_push queue_recv q ops = (accepted, delivered, q')"
  shows "q_frames q @ accepted = delivered @ q_frames q'
    \<and> sum_list (map frame_duration (q_frames q')) \<le> q_max q
    \<and> q_queued q' = sum_list (map frame_duration (q_frames q'))"
proof -
  have fits: "\<And>f. Put f \<in> set ops \<Longrightarrow> frame_fits f" using assms(2) frame_sane_fits by blast
  have "queue_inv q'" using audio.run_inv [OF assms(3,1) fits] by blast
  then show ?thesis
    using audio.run_order [OF assms(3)] audio.run_budget [OF assms(3,1) fits] audio.load_items
    by blast
qed

definition sample_frame :: audio_frame where
  "sample_frame = \<lparr>frame_data = replicate 640 CHR 0x00,
     frame_format = \<lparr>sample_rate_hz = 16000, channels = 1\<rparr>, captured_at = 1\<rparr>"

lemma sample_frame_sane: "frame_sane sample_frame"
  by (simp add: frame_sane_def frame_validate_None format_validate_None sample_frame_def)

theorem audio_queue_latency_witness:
  "\<exists>accepted delivered q'.
     fifo_run queue_push queue_recv (new_audio_queue 30000000 err_input_latency)
       [Put sample_frame, Put sample_frame, Take] = (accepted, delivered, q')
     \<and> delivered @ q_frames q' = accepted \<and> length accepted = 1"
proof -
  let ?q = "new_audio_queue 30000000 err_input_latency"
  let ?ops = "[Put sample_frame, Put sample_frame, Take]"
  obtain accepted delivered q' where run: "fifo_run queue_push queue_recv ?q ?ops = (accepted, delivered, q')"
    by (cases "fifo_run queue_push queue_recv ?q ?ops") auto
  have inv: "queue_inv ?q" by (rule new_queue_inv) simp_all
  have sane: "\<And>f. Put f \<in> set ?ops \<Longrightarrow> frame_sane f" using sample_frame_sane by auto
  have dur: "frame_duration sample_frame = 20000000"
    using frame_duration_exact [OF sample_frame_sane] by (simp add: sample_frame_def second_ns_def)
  have "length accepted = 1"
    using run
    by (simp add: queue_push_def dur new_audio_queue_def queue_capacity_def wrap64_def queue_recv_def)
      (auto simp: queue_took_def)
  moreover have "delivered @ q_frames q' = accepted"
    using audio_queue_latency [OF inv sane run] by (simp add: new_audio_queue_def)
  ultimately show ?thesis using run by blast
qed

end
