(* ===== verification/Media_Metrics.thy ===== *)
theory Media_Metrics
  imports Audio_Queue
begin

text \<open>
  \<open>media/session/metrics.go\<close>: the counters of a media process. Each is a \<open>uint64\<close> and
  each operation is atomic; \<open>failures\<close> is a map guarded by a mutex.
\<close>

type_synonym failure_reason = string

definition failure_attach_timeout :: failure_reason where
  "failure_attach_timeout = ''attach_timeout''"
definition failure_input_backpressure :: failure_reason where
  "failure_input_backpressure = ''input_backpressure''"
definition failure_output_backpressure :: failure_reason where
  "failure_output_backpressure = ''output_backpressure''"
definition failure_frame_too_large :: failure_reason where
  "failure_frame_too_large = ''frame_too_large''"
definition failure_provider_timeout :: failure_reason where
  "failure_provider_timeout = ''provider_timeout''"
definition failure_playback_timeout :: failure_reason where
  "failure_playback_timeout = ''playback_timeout''"
definition failure_provider :: failure_reason where
  "failure_provider = ''provider_failure''"
definition failure_control_backpressure :: failure_reason where
  "failure_control_backpressure = ''control_backpressure''"
definition failure_transport :: failure_reason where
  "failure_transport = ''transport_failure''"

record media_metrics =
  mm_active :: int
  mm_started :: int
  mm_completed :: int
  mm_attach_count :: int
  mm_attach_total_ns :: int
  mm_turn_count :: int
  mm_turn_total_ns :: int
  mm_failures :: "(failure_reason \<times> int) list"

definition new_metrics :: media_metrics where
  "new_metrics = \<lparr>mm_active = 0, mm_started = 0, mm_completed = 0, mm_attach_count = 0,
     mm_attach_total_ns = 0, mm_turn_count = 0, mm_turn_total_ns = 0, mm_failures = []\<rparr>"

definition session_started :: "media_metrics \<Rightarrow> media_metrics" where
  "session_started m = m\<lparr>mm_started := wrapu64 (mm_started m + 1),
                         mm_active := wrapu64 (mm_active m + 1)\<rparr>"

text \<open>The compare-and-swap loop, as its one successful exchange.\<close>

definition session_removed :: "media_metrics \<Rightarrow> media_metrics" where
  "session_removed m = (if mm_active m = 0 then m else m\<lparr>mm_active := mm_active m - 1\<rparr>)"

definition session_completed :: "media_metrics \<Rightarrow> media_metrics" where
  "session_completed m = m\<lparr>mm_completed := wrapu64 (mm_completed m + 1)\<rparr>"

definition observe_attach_latency :: "int \<Rightarrow> media_metrics \<Rightarrow> media_metrics" where
  "observe_attach_latency v m =
     (if v < 0 then m
      else m\<lparr>mm_attach_count := wrapu64 (mm_attach_count m + 1),
             mm_attach_total_ns := wrapu64 (mm_attach_total_ns m + v)\<rparr>)"

definition observe_turn_latency :: "int \<Rightarrow> media_metrics \<Rightarrow> media_metrics" where
  "observe_turn_latency v m =
     (if v < 0 then m
      else m\<lparr>mm_turn_count := wrapu64 (mm_turn_count m + 1),
             mm_turn_total_ns := wrapu64 (mm_turn_total_ns m + v)\<rparr>)"

definition failure_count :: "media_metrics \<Rightarrow> failure_reason \<Rightarrow> int" where
  "failure_count m r = (case map_of (mm_failures m) r of None \<Rightarrow> 0 | Some n \<Rightarrow> n)"

definition metrics_failure :: "failure_reason \<Rightarrow> media_metrics \<Rightarrow> media_metrics" where
  "metrics_failure r m =
     m\<lparr>mm_failures := AList.update r (wrapu64 (failure_count m r + 1)) (mm_failures m)\<rparr>"

definition failure_reasons :: "media_metrics \<Rightarrow> failure_reason list" where
  "failure_reasons m = sort (keys (mm_failures m))"

lemma failure_count_failure [simp]:
  "failure_count (metrics_failure r m) r'
     = (if r = r' then wrapu64 (failure_count m r + 1) else failure_count m r')"
  by (simp add: failure_count_def metrics_failure_def update_conv)

lemma metrics_frame [simp]:
  "mm_active (metrics_failure r m) = mm_active m"
  "mm_started (metrics_failure r m) = mm_started m"
  "mm_completed (metrics_failure r m) = mm_completed m"
  "mm_active (observe_attach_latency v m) = mm_active m"
  "mm_started (observe_attach_latency v m) = mm_started m"
  "mm_completed (observe_attach_latency v m) = mm_completed m"
  "mm_active (observe_turn_latency v m) = mm_active m"
  "mm_started (observe_turn_latency v m) = mm_started m"
  "mm_completed (observe_turn_latency v m) = mm_completed m"
  by (simp_all add: metrics_failure_def observe_attach_latency_def observe_turn_latency_def)

text \<open>
  The balance of the counters: what was started is what is active plus what completed,
  modulo the width of the counters. \<open>n\<close> is the number of registered sessions.
\<close>

definition metrics_balanced :: "nat \<Rightarrow> media_metrics \<Rightarrow> bool" where
  "metrics_balanced n m \<longleftrightarrow>
     mm_active m = int n \<and> int n < 2 ^ 63 \<and> wrapu64 (mm_started m - mm_completed m) = int n"

lemma metrics_balanced_new [inv_rules]: "metrics_balanced 0 new_metrics"
  by (simp add: metrics_balanced_def new_metrics_def wrapu64_def)

lemma metrics_balanced_frame [inv_rules]:
  "metrics_balanced n m \<Longrightarrow> metrics_balanced n (metrics_failure r m)"
  "metrics_balanced n m \<Longrightarrow> metrics_balanced n (observe_attach_latency v m)"
  "metrics_balanced n m \<Longrightarrow> metrics_balanced n (observe_turn_latency v m)"
  by (simp_all add: metrics_balanced_def)

lemma wrapu64_shift: "wrapu64 (wrapu64 a - b) = wrapu64 (a - b)" "wrapu64 (a - wrapu64 b) = wrapu64 (a - b)"
  by (simp_all add: wrapu64_def mod_diff_left_eq mod_diff_right_eq)

lemma metrics_balanced_started [inv_rules]:
  assumes "metrics_balanced n m" "int (Suc n) < 2 ^ 63"
  shows "metrics_balanced (Suc n) (session_started m)"
proof -
  have "wrapu64 (mm_started m + 1 - mm_completed m) = wrapu64 (wrapu64 (mm_started m - mm_completed m) + 1)"
    by (simp add: wrapu64_def mod_simps algebra_simps)
  with assms show ?thesis
    by (simp add: metrics_balanced_def session_started_def wrapu64_shift)
      (simp add: wrapu64_def)
qed

lemma metrics_balanced_removed [inv_rules]:
  assumes "metrics_balanced (Suc n) m"
  shows "metrics_balanced n (session_completed (session_removed m))"
proof -
  have "wrapu64 (mm_started m - (mm_completed m + 1)) = wrapu64 (wrapu64 (mm_started m - mm_completed m) - 1)"
    by (simp add: wrapu64_def mod_simps algebra_simps)
  with assms show ?thesis
    by (simp add: metrics_balanced_def session_completed_def session_removed_def wrapu64_shift)
      (simp add: wrapu64_def)
qed

text \<open>The exported list of reasons is sorted and names each recorded reason once.\<close>

lemma failure_reasons_sorted:
  "distinct (keys (mm_failures m)) \<Longrightarrow>
     sorted (failure_reasons m) \<and> distinct (failure_reasons m)
     \<and> set (failure_reasons m) = set (keys (mm_failures m))"
  by (simp add: failure_reasons_def)

end
