(* ===== verification/Media_Manager.thy ===== *)
theory Media_Manager
  imports Media_Metrics
begin

text \<open>
  \<open>media/session/manager.go\<close> without the pump: the registry of live sessions, the
  managed session with its timer, control channel and pending tool calls, and the handlers
  over them. Sessions and channels are objects with identity: \<open>remove\<close> compares
  pointers and a channel is closed once, so both live in a store and are named by their
  index. Each definition is a region the code runs under one mutex, or the whole handler
  composed of such regions. A Go run-time panic (closing or sending on a closed channel) sets
  \<open>mg_panicked\<close>. Where the code iterates over a map, the order is the order of the list.
\<close>

section \<open>State\<close>

definition err_session_not_found :: go_err where
  "err_session_not_found = Sentinel ''media session not found''"
definition err_session_exists :: go_err where
  "err_session_exists = Sentinel ''media session already exists''"
definition err_session_attached :: go_err where
  "err_session_attached = Sentinel ''media session already attached''"
definition err_control_attached :: go_err where
  "err_control_attached = Sentinel ''media control already attached''"
definition err_control_backpressure :: go_err where
  "err_control_backpressure = Sentinel ''media control event buffer is full''"
definition err_manager_draining :: go_err where
  "err_manager_draining = Sentinel ''media session manager is draining''"
definition err_capacity_exceeded :: go_err where
  "err_capacity_exceeded = Sentinel ''media session capacity exceeded''"

lemmas manager_errs = err_session_not_found_def err_session_exists_def err_session_attached_def
  err_control_attached_def err_control_backpressure_def err_manager_draining_def
  err_capacity_exceeded_def

text \<open>
  The attachment timer is \<open>time.AfterFunc\<close>: once it has fired, \<open>Stop\<close> no longer
  prevents its callback from running.
\<close>

datatype timer = TimerArmed | TimerFired | TimerStopped

record chan =
  ch_buf :: "event list"
  ch_closed :: bool

text \<open>
  \<open>ms_pumping\<close> is the control point of the goroutine in \<open>Attach\<close>: it is between the
  attachment and the return of the pump. \<open>ms_finish_done\<close> is \<open>finishOnce\<close>,
  \<open>ms_complete\<close> the closed \<open>complete\<close> channel behind \<open>completeOnce\<close>,
  \<open>ms_cancelled\<close> the cancelled session context.
\<close>

record msession =
  ms_config :: session_config
  ms_cancelled :: bool
  ms_complete :: bool
  ms_control :: "nat option"
  ms_control_open :: bool
  ms_stream_closed :: bool
  ms_connection :: "connection_metadata option"
  ms_connection_closed :: bool
  ms_attached :: bool
  ms_pending :: "(string \<times> event) list"
  ms_timer :: timer
  ms_finished :: bool
  ms_created_at :: int
  ms_finish_done :: bool
  ms_pumping :: bool

record control_attachment =
  ca_id :: uuid
  ca_session :: nat
  ca_events :: nat
  ca_once :: bool

record manager =
  mg_engines :: "engine list"
  mg_sessions :: "(uuid \<times> nat) list"
  mg_capacity :: int
  mg_attach_timeout :: int
  mg_limits :: runtime_limits
  mg_metrics :: media_metrics
  mg_draining :: bool
  mg_changed :: bool
  mg_heap :: "msession list"
  mg_chans :: "chan list"
  mg_attachments :: "control_attachment list"
  mg_panicked :: bool

text \<open>The engines map is given as a list of names with whether the starter is nil.\<close>

definition new_manager ::
  "int \<Rightarrow> int \<Rightarrow> (engine \<times> bool) list \<Rightarrow> runtime_limits option \<Rightarrow> go_err + manager" where
  "new_manager capacity attachTimeout engines runtimeLimits =
     (let limits = (case runtimeLimits of Some l \<Rightarrow> l | None \<Rightarrow> default_runtime_limits)
      in checked
        (or_else (first_error
          [(capacity \<le> 0, Errf ''media session capacity must be positive'' []),
           (length engines = 0, Errf ''at least one media engine is required'' []),
           (attachTimeout \<le> 0, Errf ''media attachment timeout must be positive'' [])])
        (or_else (limits_validate limits)
          (map_option (\<lambda>(name, _). Errf ''media engine %q is nil'' [name]) (find snd engines))))
        \<lparr>mg_engines = map fst engines, mg_sessions = [], mg_capacity = capacity,
         mg_attach_timeout = attachTimeout, mg_limits = limits, mg_metrics = new_metrics,
         mg_draining = False, mg_changed = False, mg_heap = [], mg_chans = [],
         mg_attachments = [], mg_panicked = False\<rparr>)"

abbreviation sess :: "manager \<Rightarrow> nat \<Rightarrow> msession" where
  "sess m x \<equiv> mg_heap m ! x"

definition put_sess :: "nat \<Rightarrow> msession \<Rightarrow> manager \<Rightarrow> manager" where
  "put_sess x s m = m\<lparr>mg_heap := (mg_heap m)[x := s]\<rparr>"

definition count_failure :: "failure_reason \<Rightarrow> manager \<Rightarrow> manager" where
  "count_failure r m = m\<lparr>mg_metrics := metrics_failure r (mg_metrics m)\<rparr>"

text \<open>Channel operations: a close or a send on a closed channel panics.\<close>

definition chan_close :: "nat \<Rightarrow> manager \<Rightarrow> manager" where
  "chan_close c m =
     (if ch_closed (mg_chans m ! c) then m\<lparr>mg_panicked := True\<rparr>
      else m\<lparr>mg_chans := (mg_chans m)[c := (mg_chans m ! c)\<lparr>ch_closed := True\<rparr>]\<rparr>)"

definition control_capacity :: nat where "control_capacity = 64"

definition chan_send :: "nat \<Rightarrow> event \<Rightarrow> manager \<Rightarrow> manager \<times> go_err option" where
  "chan_send c ev m =
     (let ch = mg_chans m ! c
      in if ch_closed ch then (m\<lparr>mg_panicked := True\<rparr>, None)
         else if length (ch_buf ch) < control_capacity
         then (m\<lparr>mg_chans := (mg_chans m)[c := ch\<lparr>ch_buf := ch_buf ch @ [ev]\<rparr>]\<rparr>, None)
         else (m, Some err_control_backpressure))"

section \<open>The managed session\<close>

definition pending_capacity :: nat where "pending_capacity = 64"

definition publish :: "nat \<Rightarrow> event \<Rightarrow> manager \<Rightarrow> manager \<times> go_err option" where
  "publish x ev m =
     (let s = sess m x;
          deliver = (\<lambda>m. case ms_control s of
             None \<Rightarrow> (m, None)
           | Some c \<Rightarrow> if ms_control_open s then chan_send c ev m else (m, None))
      in case (if ev_type ev = event_tool_call then ev_tool_call ev else None) of
           None \<Rightarrow> deliver m
         | Some tc \<Rightarrow>
             if tc_id tc = [] then (m, Some (Errf ''media tool call id is required'' []))
             else if tc_id tc \<notin> set (keys (ms_pending s)) \<and> pending_capacity \<le> length (ms_pending s)
             then (m, Some err_control_backpressure)
             else deliver (put_sess x (s\<lparr>ms_pending := AList.update (tc_id tc) ev (ms_pending s)\<rparr>) m))"

definition close_control :: "nat \<Rightarrow> manager \<Rightarrow> manager" where
  "close_control x m =
     (let s = sess m x;
          m' = put_sess x (s\<lparr>ms_control_open := False, ms_control := None\<rparr>) m
      in case ms_control s of None \<Rightarrow> m' | Some c \<Rightarrow> chan_close c m')"

definition mark_complete :: "nat \<Rightarrow> manager \<Rightarrow> manager" where
  "mark_complete x m = put_sess x ((sess m x)\<lparr>ms_complete := True\<rparr>) m"

definition finish_resources :: "nat \<Rightarrow> bool \<Rightarrow> manager \<Rightarrow> manager" where
  "finish_resources x attached m =
     (if ms_finish_done (sess m x) then m
      else let m1 = put_sess x ((sess m x)\<lparr>ms_finish_done := True, ms_cancelled := True\<rparr>) m;
               m2 = close_control x m1;
               s = sess m2 x;
               m3 = put_sess x (s\<lparr>ms_stream_closed := True,
                       ms_connection_closed := (ms_connection_closed s \<or> ms_connection s \<noteq> None)\<rparr>) m2
           in if attached then m3 else mark_complete x m3)"

definition timer_stop :: "timer \<Rightarrow> timer" where
  "timer_stop t = (if t = TimerArmed then TimerStopped else t)"

definition finish :: "nat \<Rightarrow> manager \<Rightarrow> manager" where
  "finish x m =
     (let s = sess m x
      in finish_resources x (ms_attached s)
           (put_sess x (s\<lparr>ms_finished := True, ms_timer := timer_stop (ms_timer s)\<rparr>) m))"

definition finish_unattached :: "nat \<Rightarrow> manager \<Rightarrow> manager \<times> bool" where
  "finish_unattached x m =
     (let s = sess m x
      in if ms_finished s \<or> ms_attached s then (m, False)
         else (finish_resources x False (put_sess x (s\<lparr>ms_finished := True\<rparr>) m), True))"

text \<open>\<open>SubmitToolResult\<close> and \<open>Interrupt\<close> of the stream and \<open>ClearPlayback\<close> of the
  connection are the provider's and the transport's: their errors are arguments.\<close>

definition submit_tool_result ::
  "nat \<Rightarrow> tool_result \<Rightarrow> go_err option \<Rightarrow> manager \<Rightarrow> manager \<times> go_err option" where
  "submit_tool_result x result stream_err m =
     (let s = sess m x
      in if ms_finished s then (m, Some err_session_not_found)
         else case stream_err of
           Some e \<Rightarrow> (m, Some e)
         | None \<Rightarrow>
             (put_sess x (s\<lparr>ms_pending := AList.delete (tr_tool_call_id result) (ms_pending s)\<rparr>) m, None))"

definition interrupt ::
  "nat \<Rightarrow> go_err option \<Rightarrow> go_err option \<Rightarrow> manager \<Rightarrow> go_err option" where
  "interrupt x stream_err playback_err m =
     (let s = sess m x
      in if ms_finished s then Some err_session_not_found
         else case stream_err of
           Some e \<Rightarrow> Some e
         | None \<Rightarrow> if ms_connection s \<noteq> None then playback_err else None)"

section \<open>Failure classification\<close>

definition classify_failure :: "go_err \<Rightarrow> failure_reason" where
  "classify_failure e =
     (if errors_is e err_input_latency then failure_input_backpressure
      else if errors_is e err_output_latency then failure_output_backpressure
      else if errors_is e err_frame_duration then failure_frame_too_large
      else if errors_is e err_provider_start_timeout \<or> errors_is e err_provider_write_timeout
      then failure_provider_timeout
      else if errors_is e err_playback_write_timeout then failure_playback_timeout
      else if errors_is e err_provider_failure then failure_provider
      else if errors_is e err_control_backpressure then failure_control_backpressure
      else failure_transport)"

definition terminal_failure_event :: "failure_reason \<Rightarrow> string \<Rightarrow> int \<Rightarrow> event" where
  "terminal_failure_event reason message now =
     \<lparr>ev_type = event_error, ev_transcript = None, ev_response = None, ev_tool_call = None,
      ev_usage = None,
      ev_failure = Some \<lparr>fe_source = ''media'', fe_code = reason, fe_message = message,
                         fe_terminal = True\<rparr>,
      ev_provider_id = [], ev_occurred_at = now\<rparr>"

definition is_normal_disconnect :: "go_err option \<Rightarrow> bool" where
  "is_normal_disconnect e =
     (case e of None \<Rightarrow> True | Some e \<Rightarrow> errors_is e err_canceled \<or> errors_is e err_eof)"

section \<open>The registry\<close>

definition remove :: "uuid \<Rightarrow> nat \<Rightarrow> manager \<Rightarrow> manager" where
  "remove sid x m =
     (let m' = (if map_of (mg_sessions m) sid = Some x
                then m\<lparr>mg_sessions := AList.delete sid (mg_sessions m),
                       mg_metrics := session_completed (session_removed (mg_metrics m))\<rparr>
                else m)
      in m'\<lparr>mg_changed := True\<rparr>)"

text \<open>
  What the engine's \<open>Start\<close> does before the provider start timeout: it returns a stream,
  fails, or is still running when the timeout elapses. \<open>Start\<close> holds the manager's mutex
  throughout.
\<close>

datatype start_outcome = StartStream | StartError go_err | StartTimeout

definition mgr_start :: "session_config \<Rightarrow> start_outcome \<Rightarrow> int \<Rightarrow> manager \<Rightarrow> manager \<times> go_err option" where
  "mgr_start cfg outcome now m =
     (case or_else (config_validate cfg) (first_error
        [(mg_draining m, err_manager_draining),
         (cfg_id cfg \<in> set (keys (mg_sessions m)), err_session_exists),
         (mg_capacity m \<le> int (length (mg_sessions m)), err_capacity_exceeded),
         (cfg_engine cfg \<notin> set (mg_engines m),
          Errf ''media engine %q is not configured'' [cfg_engine cfg])]) of
        Some e \<Rightarrow> (m, Some e)
      | None \<Rightarrow>
        (case outcome of
           StartError e \<Rightarrow> (m, Some (Wrap ''start media engine: %w'' [] e))
         | StartTimeout \<Rightarrow> (count_failure failure_provider_timeout m, Some err_provider_start_timeout)
         | StartStream \<Rightarrow>
             (m\<lparr>mg_heap := mg_heap m @
                  [\<lparr>ms_config = cfg, ms_cancelled = False, ms_complete = False, ms_control = None,
                    ms_control_open = False, ms_stream_closed = False, ms_connection = None,
                    ms_connection_closed = False, ms_attached = False, ms_pending = [],
                    ms_timer = TimerArmed, ms_finished = False, ms_created_at = now,
                    ms_finish_done = False, ms_pumping = False\<rparr>],
                mg_sessions := AList.update (cfg_id cfg) (length (mg_heap m)) (mg_sessions m),
                mg_metrics := session_started (mg_metrics m)\<rparr>, None)))"

text \<open>The callback of the attachment timer, after the timer fired.\<close>

definition timer_callback :: "nat \<Rightarrow> int \<Rightarrow> manager \<Rightarrow> manager" where
  "timer_callback x now m =
     (let m1 = fst (publish x (terminal_failure_event failure_attach_timeout
                     ''media session attachment timed out'' now) m)
      in case finish_unattached x m1 of
           (m2, True) \<Rightarrow> remove (cfg_id (ms_config (sess m x))) x (count_failure failure_attach_timeout m2)
         | (m2, False) \<Rightarrow> m2)"

text \<open>\<open>Attach\<close> up to the pump: the lookup, the identity checks and the claim of the session.\<close>

definition attach_begin :: "connection_metadata \<Rightarrow> int \<Rightarrow> manager \<Rightarrow> manager \<times> (go_err + nat)" where
  "attach_begin md now m =
     (case map_of (mg_sessions m) (md_session_id md) of
        None \<Rightarrow> (m, Inl err_session_not_found)
      | Some x \<Rightarrow>
        (let s = sess m x; cfg = ms_config s
         in if md_call_id md \<noteq> cfg_call_id cfg \<or> md_channel_id md \<noteq> cfg_channel_id cfg
               \<or> md_organization_id md \<noteq> cfg_organization_id cfg
            then (m, Inl (Errf ''media connection identity does not match session'' []))
            else if md_format md \<noteq> cfg_input_format cfg \<or> md_format md \<noteq> cfg_output_format cfg
            then (m, Inl (Errf ''media connection format does not match session'' []))
            else if ms_attached s then (m, Inl err_session_attached)
            else if ms_finished s \<or> ms_cancelled s then (m, Inl err_session_not_found)
            else
              (let m1 = put_sess x (s\<lparr>ms_attached := True, ms_timer := timer_stop (ms_timer s),
                          ms_connection := Some md, ms_pumping := True\<rparr>) m
               in (m1\<lparr>mg_metrics := observe_attach_latency (now - ms_created_at s) (mg_metrics m1)\<rparr>,
                   Inr x))))"

text \<open>\<open>Attach\<close> after the pump has returned \<open>err\<close>.\<close>

definition attach_end ::
  "nat \<Rightarrow> connection_metadata \<Rightarrow> go_err option \<Rightarrow> string \<Rightarrow> int \<Rightarrow> manager \<Rightarrow> manager \<times> go_err option" where
  "attach_end x md err message now m =
     (let m1 = put_sess x ((sess m x)\<lparr>ms_pumping := False\<rparr>) m;
          m2 = (case err of
                  None \<Rightarrow> m1
                | Some e \<Rightarrow>
                    if is_normal_disconnect err then m1
                    else let m' = count_failure (classify_failure e) m1
                         in if errors_is e err_provider_failure then m'
                            else fst (publish x (terminal_failure_event (classify_failure e) message now) m'));
          m3 = mark_complete x (finish x m2);
          m4 = remove (md_session_id md) x m3
      in (m4, if is_normal_disconnect err then None else err))"

section \<open>The control attachment\<close>

definition attach_control :: "uuid \<Rightarrow> manager \<Rightarrow> manager \<times> (go_err + control_attachment)" where
  "attach_control sid m =
     (if sid = uuid_nil then (m, Inl (Errf ''media session id is required'' []))
      else case map_of (mg_sessions m) sid of
        None \<Rightarrow> (m, Inl err_session_not_found)
      | Some x \<Rightarrow>
        (let s = sess m x
         in if ms_finished s \<or> ms_cancelled s then (m, Inl err_session_not_found)
            else if ms_control_open s then (m, Inl err_control_attached)
            else if control_capacity < length (ms_pending s) then (m, Inl err_control_backpressure)
            else
              (let c = length (mg_chans m);
                   a = \<lparr>ca_id = sid, ca_session = x, ca_events = c, ca_once = False\<rparr>;
                   m1 = m\<lparr>mg_chans := mg_chans m @
                           [\<lparr>ch_buf = map snd (ms_pending s), ch_closed = False\<rparr>],
                         mg_attachments := mg_attachments m @ [a]\<rparr>
               in (put_sess x (s\<lparr>ms_control := Some c, ms_control_open := True\<rparr>) m1, Inr a))))"

definition control_close :: "nat \<Rightarrow> manager \<Rightarrow> manager" where
  "control_close k m =
     (let a = mg_attachments m ! k; x = ca_session a; s = sess m x;
          m1 = m\<lparr>mg_attachments := (mg_attachments m)[k := a\<lparr>ca_once := True\<rparr>]\<rparr>
      in if ca_once a then m
         else case ms_control s of
           Some c \<Rightarrow>
             if ms_control_open s
             then chan_close c (put_sess x (s\<lparr>ms_control_open := False, ms_control := None\<rparr>) m1)
             else m1
         | None \<Rightarrow> m1)"

text \<open>The receiver at the other end of the control channel takes the next event.\<close>

definition control_recv :: "nat \<Rightarrow> manager \<Rightarrow> manager" where
  "control_recv c m = m\<lparr>mg_chans := (mg_chans m)[c := (mg_chans m ! c)\<lparr>ch_buf := tl (ch_buf (mg_chans m ! c))\<rparr>]\<rparr>"

text \<open>\<open>Stop\<close> up to its wait for \<open>complete\<close>; the wait ends in \<open>remove\<close> or with the
  context's error.\<close>

definition stop_begin :: "uuid \<Rightarrow> manager \<Rightarrow> manager \<times> (go_err + nat)" where
  "stop_begin sid m =
     (case map_of (mg_sessions m) sid of
        None \<Rightarrow> (m, Inl err_session_not_found)
      | Some x \<Rightarrow> (finish x m, Inr x))"

definition stop_end :: "uuid \<Rightarrow> nat \<Rightarrow> bool \<Rightarrow> manager \<Rightarrow> manager \<times> go_err option" where
  "stop_end sid x ctx_done m =
     (if ctx_done then (m, Some err_canceled) else (remove sid x m, None))"

definition drain_begin :: "manager \<Rightarrow> manager" where
  "drain_begin m = fold (\<lambda>(sid, x). finish x) (mg_sessions m) (m\<lparr>mg_draining := True\<rparr>)"

definition mgr_ready :: "manager \<Rightarrow> bool" where
  "mgr_ready m \<longleftrightarrow> \<not> mg_draining m \<and> int (length (mg_sessions m)) < mg_capacity m"

definition mgr_active :: "manager \<Rightarrow> nat" where
  "mgr_active m = length (mg_sessions m)"

definition mgr_session_ids :: "manager \<Rightarrow> uuid list" where
  "mgr_session_ids m = keys (mg_sessions m)"

record session_status =
  st_id :: uuid
  st_organization_id :: uuid
  st_call_id :: uuid
  st_channel_id :: uuid
  st_attached :: bool

definition mgr_status :: "uuid \<Rightarrow> manager \<Rightarrow> session_status option" where
  "mgr_status sid m =
     (case map_of (mg_sessions m) sid of
        None \<Rightarrow> None
      | Some x \<Rightarrow>
        (let s = sess m x; cfg = ms_config s
         in if ms_finished s \<or> ms_cancelled s then None
            else Some \<lparr>st_id = cfg_id cfg, st_organization_id = cfg_organization_id cfg,
              st_call_id = cfg_call_id cfg, st_channel_id = cfg_channel_id cfg,
              st_attached = ms_attached s\<rparr>))"

definition mgr_config :: "uuid \<Rightarrow> manager \<Rightarrow> session_config option" where
  "mgr_config sid m = map_option (\<lambda>x. ms_config (sess m x)) (map_of (mg_sessions m) sid)"

text \<open>
  \<open>ControlAttachment.Command\<close>: the validated command is dispatched on its type. A stop
  ends in the wait for \<open>complete\<close>, continued by \<open>stop_end\<close>.
\<close>

datatype command_result = Returned "go_err option" | WaitsFor nat

definition control_command ::
  "nat \<Rightarrow> command \<Rightarrow> go_err option \<Rightarrow> go_err option \<Rightarrow> manager \<Rightarrow> manager \<times> command_result" where
  "control_command k cmd stream_err playback_err m =
     (let a = mg_attachments m ! k
      in case command_validate cmd of
           Some e \<Rightarrow> (m, Returned (Some e))
         | None \<Rightarrow>
             if cmd_type cmd = command_interrupt
             then (m, Returned (interrupt (ca_session a) stream_err playback_err m))
             else if cmd_type cmd = command_stop
             then (case stop_begin (ca_id a) m of
                     (m1, Inl e) \<Rightarrow> (m1, Returned (Some e))
                   | (m1, Inr x) \<Rightarrow> (m1, WaitsFor x))
             else if cmd_type cmd = command_tool_result
             then (case submit_tool_result (ca_session a) (the (cmd_tool_result cmd)) stream_err m of
                     (m1, r) \<Rightarrow> (m1, Returned r))
             else (m, Returned (Some (Errf ''unsupported media command %q'' [cmd_type cmd]))))"

end
