(* ===== verification/Media_Invariants.thy ===== *)
theory Media_Invariants
  imports Media_Manager
begin

text \<open>
  The media registry under concurrency. The handlers of \<open>Media_Manager\<close> are cut at their
  mutex regions into the steps of \<open>mgr_step\<close>, which any number of goroutines may interleave;
  the invariant \<open>mgr_inv\<close> holds after every step.
\<close>

section \<open>Steps\<close>

inductive mgr_step :: "manager \<Rightarrow> manager \<Rightarrow> bool" where
  step_start: "mgr_start cfg outcome now m = (m', r) \<Longrightarrow> mgr_step m m'"
| step_attach: "attach_begin md now m = (m', r) \<Longrightarrow> mgr_step m m'"
| step_publish: "x < length (mg_heap m) \<Longrightarrow> publish x ev m = (m', r) \<Longrightarrow> mgr_step m m'"
| step_metric: "mgr_step m (count_failure reason m)"
| step_fire: "x < length (mg_heap m) \<Longrightarrow> ms_timer (sess m x) = TimerArmed \<Longrightarrow>
    mgr_step m (put_sess x ((sess m x)\<lparr>ms_timer := TimerFired\<rparr>) m)"
| step_finish: "x < length (mg_heap m) \<Longrightarrow> mgr_step m (finish x m)"
| step_unattached: "x < length (mg_heap m) \<Longrightarrow> ms_timer (sess m x) = TimerFired \<Longrightarrow>
    finish_unattached x m = (m', b) \<Longrightarrow> mgr_step m m'"
| step_pump_done: "x < length (mg_heap m) \<Longrightarrow> ms_pumping (sess m x) \<Longrightarrow>
    mgr_step m (put_sess x ((sess m x)\<lparr>ms_pumping := False\<rparr>) m)"
| step_complete: "x < length (mg_heap m) \<Longrightarrow> ms_finish_done (sess m x) \<Longrightarrow> \<not> ms_pumping (sess m x) \<Longrightarrow>
    mgr_step m (mark_complete x m)"
| step_remove: "x < length (mg_heap m) \<Longrightarrow> ms_complete (sess m x) \<Longrightarrow>
    mgr_step m (remove (cfg_id (ms_config (sess m x))) x m)"
| step_control: "attach_control sid m = (m', r) \<Longrightarrow> mgr_step m m'"
| step_control_close: "k < length (mg_attachments m) \<Longrightarrow> mgr_step m (control_close k m)"
| step_recv: "mgr_step m (control_recv c m)"
| step_tool: "x < length (mg_heap m) \<Longrightarrow> submit_tool_result x result e m = (m', r) \<Longrightarrow> mgr_step m m'"
| step_drain: "mgr_step m (m\<lparr>mg_draining := True\<rparr>)"

definition mgr_init :: "manager \<Rightarrow> bool" where
  "mgr_init m \<longleftrightarrow> (\<exists>capacity timeout engines limits.
     new_manager capacity timeout engines limits = Inr m \<and> capacity < 2 ^ 63)"

abbreviation mgr_reachable :: "manager \<Rightarrow> bool" where
  "mgr_reachable \<equiv> reach mgr_init mgr_step"

section \<open>The invariant\<close>

text \<open>
  \<open>sess_ok\<close>: a session's control channel is open exactly while it is registered with it and
  belongs to a live attachment of this session; pending tool calls stay within their bound;
  a completed session has finished, and one that finished without a connection is complete.
\<close>

definition sess_ok :: "chan list \<Rightarrow> control_attachment list \<Rightarrow> nat \<Rightarrow> msession \<Rightarrow> bool" where
  "sess_ok chs ats x s \<longleftrightarrow>
     (case ms_control s of
        None \<Rightarrow> \<not> ms_control_open s
      | Some c \<Rightarrow> ms_control_open s \<and> c < length chs \<and> \<not> ch_closed (chs ! c)
          \<and> \<not> ms_finish_done s
          \<and> (\<exists>a \<in> set ats. ca_events a = c \<and> ca_session a = x \<and> \<not> ca_once a))
     \<and> distinct (keys (ms_pending s)) \<and> length (ms_pending s) \<le> pending_capacity
     \<and> (ms_finish_done s \<longleftrightarrow> ms_finished s) \<and> (ms_cancelled s \<longleftrightarrow> ms_finish_done s)
     \<and> (ms_complete s \<longrightarrow> ms_finish_done s \<and> \<not> ms_pumping s)
     \<and> (ms_finish_done s \<and> \<not> ms_attached s \<longrightarrow> ms_complete s)
     \<and> (ms_pumping s \<longrightarrow> ms_attached s)
     \<and> (ms_timer s = TimerArmed \<longrightarrow> \<not> ms_attached s)"

definition att_ok :: "msession list \<Rightarrow> chan list \<Rightarrow> control_attachment \<Rightarrow> bool" where
  "att_ok hp chs a \<longleftrightarrow>
     ca_session a < length hp \<and> ca_events a < length chs
     \<and> (ca_once a \<or> ms_finish_done (hp ! ca_session a)
        \<or> ms_control (hp ! ca_session a) = Some (ca_events a))"

definition registry_ok :: "manager \<Rightarrow> bool" where
  "registry_ok m \<longleftrightarrow>
     distinct (keys (mg_sessions m))
     \<and> int (length (mg_sessions m)) \<le> mg_capacity m \<and> mg_capacity m < 2 ^ 63
     \<and> list_all (\<lambda>(sid, x). x < length (mg_heap m) \<and> cfg_id (ms_config (sess m x)) = sid)
         (mg_sessions m)
     \<and> metrics_balanced (length (mg_sessions m)) (mg_metrics m)"

definition mgr_inv :: "manager \<Rightarrow> bool" where
  "mgr_inv m \<longleftrightarrow>
     registry_ok m
     \<and> (\<forall>x < length (mg_heap m). sess_ok (mg_chans m) (mg_attachments m) x (sess m x))
     \<and> list_all (att_ok (mg_heap m) (mg_chans m)) (mg_attachments m)
     \<and> distinct (map ca_events (mg_attachments m))
     \<and> list_all (\<lambda>ch. length (ch_buf ch) \<le> control_capacity) (mg_chans m)
     \<and> \<not> mg_panicked m"

lemma mgr_invD:
  assumes "mgr_inv m"
  shows "registry_ok m" "\<And>x. x < length (mg_heap m) \<Longrightarrow> sess_ok (mg_chans m) (mg_attachments m) x (sess m x)"
    "\<And>a. a \<in> set (mg_attachments m) \<Longrightarrow> att_ok (mg_heap m) (mg_chans m) a"
    "distinct (map ca_events (mg_attachments m))"
    "list_all (\<lambda>ch. length (ch_buf ch) \<le> control_capacity) (mg_chans m)"
    "\<not> mg_panicked m"
  using assms by (auto simp: mgr_inv_def list_all_iff)

lemma sess_okD:
  assumes "sess_ok chs ats x s"
  shows "ms_control s = Some c \<Longrightarrow> c < length chs \<and> \<not> ch_closed (chs ! c) \<and> ms_control_open s
      \<and> \<not> ms_finish_done s \<and> (\<exists>a \<in> set ats. ca_events a = c \<and> ca_session a = x \<and> \<not> ca_once a)"
    "distinct (keys (ms_pending s))" "length (ms_pending s) \<le> pending_capacity"
    "ms_finish_done s \<longleftrightarrow> ms_finished s" "ms_cancelled s \<longleftrightarrow> ms_finish_done s"
    "ms_complete s \<Longrightarrow> ms_finish_done s \<and> \<not> ms_pumping s"
    "ms_finish_done s \<Longrightarrow> \<not> ms_attached s \<Longrightarrow> ms_complete s"
    "ms_control s = None \<Longrightarrow> \<not> ms_control_open s"
    "ms_pumping s \<Longrightarrow> ms_attached s"
  using assms by (auto simp: sess_ok_def)

lemma put_sess_simps [simp]:
  "mg_heap (put_sess x s m) = (mg_heap m)[x := s]"
  "mg_sessions (put_sess x s m) = mg_sessions m"
  "mg_chans (put_sess x s m) = mg_chans m"
  "mg_attachments (put_sess x s m) = mg_attachments m"
  "mg_panicked (put_sess x s m) = mg_panicked m"
  "mg_capacity (put_sess x s m) = mg_capacity m"
  "mg_metrics (put_sess x s m) = mg_metrics m"
  "mg_draining (put_sess x s m) = mg_draining m"
  "mg_limits (put_sess x s m) = mg_limits m"
  "mg_engines (put_sess x s m) = mg_engines m"
  by (simp_all add: put_sess_def)

lemma registry_ok_heap:
  assumes "registry_ok m"
    and "mg_sessions m' = mg_sessions m" "mg_capacity m' = mg_capacity m" "mg_metrics m' = mg_metrics m"
    and "length (mg_heap m') = length (mg_heap m)"
    and "\<And>x. x < length (mg_heap m) \<Longrightarrow> ms_config (sess m' x) = ms_config (sess m x)"
  shows "registry_ok m'"
  using assms by (auto simp: registry_ok_def list_all_iff)

text \<open>
  Replacing one session by another with the same configuration keeps the invariant, when the
  new one is in order and every live attachment of the session still owns its control channel.
\<close>

lemma put_sess_inv:
  assumes "mgr_inv m" "x < length (mg_heap m)"
    and "sess_ok (mg_chans m) (mg_attachments m) x s"
    and "ms_config s = ms_config (sess m x)"
    and "ms_control s = ms_control (sess m x) \<or> ms_finish_done s"
    and "ms_finish_done (sess m x) \<Longrightarrow> ms_finish_done s"
  shows "mgr_inv (put_sess x s m)"
proof -
  note d = mgr_invD [OF assms(1)]
  have "registry_ok (put_sess x s m)"
    by (rule registry_ok_heap [OF d(1)]) (use assms(2) in \<open>auto simp: nth_list_update assms(4)\<close>)
  moreover have "att_ok ((mg_heap m)[x := s]) (mg_chans m) a" if "a \<in> set (mg_attachments m)" for a
    using d(3) [OF that] assms(2,5,6) by (auto simp: att_ok_def nth_list_update)
  ultimately show ?thesis
    using d assms(2,3) by (simp add: mgr_inv_def nth_list_update list_all_iff)
qed

text \<open>The value \<open>finish_resources\<close> leaves, with the control channel closed if there was one.\<close>

definition finished_sess :: "bool \<Rightarrow> msession \<Rightarrow> msession" where
  "finished_sess attached s =
     s\<lparr>ms_finish_done := True, ms_cancelled := True, ms_control_open := False, ms_control := None,
       ms_stream_closed := True,
       ms_connection_closed := (ms_connection_closed s \<or> ms_connection s \<noteq> None),
       ms_complete := (ms_complete s \<or> \<not> attached)\<rparr>"

definition close_chan_of :: "nat option \<Rightarrow> chan list \<Rightarrow> chan list" where
  "close_chan_of ctl chs =
     (case ctl of None \<Rightarrow> chs | Some c \<Rightarrow> chs[c := (chs ! c)\<lparr>ch_closed := True\<rparr>])"

lemma finish_resources_eq:
  assumes "x < length (mg_heap m)" "\<not> ms_finish_done (sess m x)"
    and "\<And>c. ms_control (sess m x) = Some c \<Longrightarrow> \<not> ch_closed (mg_chans m ! c)"
  shows "finish_resources x attached m =
    put_sess x (finished_sess attached (sess m x))
      (m\<lparr>mg_chans := close_chan_of (ms_control (sess m x)) (mg_chans m)\<rparr>)"
  using assms
  by (cases "ms_control (sess m x)"; cases attached)
    (auto simp: finish_resources_def close_control_def mark_complete_def chan_close_def put_sess_def
      finished_sess_def close_chan_of_def Let_def)

lemma control_owner:
  assumes "mgr_inv m" "x < length (mg_heap m)" "y < length (mg_heap m)"
    and "ms_control (sess m x) = Some c" "ms_control (sess m y) = Some c"
  shows "x = y"
proof -
  obtain a b where "a \<in> set (mg_attachments m)" "ca_events a = c" "ca_session a = x"
    and "b \<in> set (mg_attachments m)" "ca_events b = c" "ca_session b = y"
    using sess_okD(1) [OF mgr_invD(2) [OF assms(1,2)] assms(4)]
      sess_okD(1) [OF mgr_invD(2) [OF assms(1,3)] assms(5)] by blast
  then show ?thesis
    using mgr_invD(4) [OF assms(1)] by (auto simp: distinct_map inj_on_def)
qed

text \<open>Closing the control channel of one session leaves the other sessions' channels open.\<close>

lemma close_own_inv:
  assumes inv: "mgr_inv m" and x: "x < length (mg_heap m)"
    and s: "ms_config s = ms_config (sess m x)" "ms_control s = None"
    and ok: "\<And>chs. sess_ok chs (mg_attachments m) x s"
    and fd: "ms_finish_done s"
  shows "mgr_inv (put_sess x s (m\<lparr>mg_chans := close_chan_of (ms_control (sess m x)) (mg_chans m)\<rparr>))"
    (is "mgr_inv ?m'")
proof -
  note d = mgr_invD [OF inv]
  let ?chs = "close_chan_of (ms_control (sess m x)) (mg_chans m)"
  have len: "length ?chs = length (mg_chans m)" by (simp add: close_chan_of_def split: option.split)
  have "registry_ok ?m'"
    by (rule registry_ok_heap [OF d(1)]) (use x in \<open>auto simp: nth_list_update s\<close>)
  moreover have "sess_ok ?chs (mg_attachments m) y (sess ?m' y)" if y: "y < length (mg_heap m)" for y
  proof (cases "y = x")
    case True
    with ok x show ?thesis by simp
  next
    case False
    have "ms_control (sess m y) = Some c \<Longrightarrow> ms_control (sess m x) \<noteq> Some c" for c
      using control_owner [OF inv x y] False by blast
    then have "c < length (mg_chans m) \<Longrightarrow> ms_control (sess m y) = Some c \<Longrightarrow> ?chs ! c = mg_chans m ! c" for c
      by (auto simp: close_chan_of_def nth_list_update split: option.split)
    with d(2) [OF y] False show ?thesis
      by (auto simp: sess_ok_def len nth_list_update split: option.splits)
  qed
  moreover have "\<forall>a \<in> set (mg_attachments m). att_ok (mg_heap ?m') ?chs a"
    using d(3) x fd by (auto simp: att_ok_def nth_list_update len)
  moreover have "list_all (\<lambda>ch. length (ch_buf ch) \<le> control_capacity) ?chs"
  proof (cases "ms_control (sess m x)")
    case (Some c)
    with sess_okD(1) [OF d(2) [OF x]] d(5) show ?thesis
      by (auto simp: close_chan_of_def list_all_length nth_list_update)
  qed (use d(5) in \<open>simp add: close_chan_of_def\<close>)
  ultimately show ?thesis
    using d by (auto simp: mgr_inv_def list_all_iff)
qed


section \<open>Every step keeps the invariant\<close>

lemma finish_inv [inv_rules]:
  assumes inv: "mgr_inv m" and x: "x < length (mg_heap m)"
  shows "mgr_inv (finish x m)"
proof -
  let ?s = "(sess m x)\<lparr>ms_finished := True, ms_timer := timer_stop (ms_timer (sess m x))\<rparr>"
  note ok = mgr_invD(2) [OF inv x]
  show ?thesis
  proof (cases "ms_finish_done (sess m x)")
    case True
    have "mgr_inv (put_sess x ?s m)"
      by (rule put_sess_inv [OF inv x])
        (use True ok in \<open>auto simp: sess_ok_def timer_stop_def split: option.splits if_splits\<close>)
    moreover have "finish x m = put_sess x ?s m"
      using True x by (simp add: finish_def finish_resources_def Let_def)
    ultimately show ?thesis by simp
  next
    case False
    have "finish x m = put_sess x (finished_sess (ms_attached (sess m x)) ?s)
        (m\<lparr>mg_chans := close_chan_of (ms_control (sess m x)) (mg_chans m)\<rparr>)"
      unfolding finish_def Let_def
      by (subst finish_resources_eq)
        (use False x sess_okD(1) [OF ok] in \<open>auto simp: put_sess_def\<close>)
    moreover have "mgr_inv (put_sess x (finished_sess (ms_attached (sess m x)) ?s)
        (m\<lparr>mg_chans := close_chan_of (ms_control (sess m x)) (mg_chans m)\<rparr>))"
      by (rule close_own_inv [OF inv x])
        (use ok False in \<open>auto simp: finished_sess_def sess_ok_def timer_stop_def split: option.splits\<close>)
    ultimately show ?thesis by simp
  qed
qed

lemma finish_unattached_inv [inv_rules]:
  assumes inv: "mgr_inv m" and x: "x < length (mg_heap m)" and f: "finish_unattached x m = (m', b)"
  shows "mgr_inv m'"
proof (cases "ms_finished (sess m x) \<or> ms_attached (sess m x)")
  case True
  with f inv show ?thesis by (auto simp: finish_unattached_def Let_def)
next
  case False
  let ?s = "(sess m x)\<lparr>ms_finished := True\<rparr>"
  note ok = mgr_invD(2) [OF inv x]
  from False ok have nd: "\<not> ms_finish_done (sess m x)" by (auto dest: sess_okD)
  have "m' = finish_resources x False (put_sess x ?s m)"
    using False f by (simp add: finish_unattached_def Let_def)
  then have "m' = put_sess x (finished_sess False ?s)
      (m\<lparr>mg_chans := close_chan_of (ms_control (sess m x)) (mg_chans m)\<rparr>)"
    by (subst (asm) finish_resources_eq) (use nd x sess_okD(1) [OF ok] in \<open>auto simp: put_sess_def\<close>)
  moreover have "mgr_inv (put_sess x (finished_sess False ?s)
      (m\<lparr>mg_chans := close_chan_of (ms_control (sess m x)) (mg_chans m)\<rparr>))"
    by (rule close_own_inv [OF inv x])
      (use ok False nd in \<open>auto simp: finished_sess_def sess_ok_def split: option.splits\<close>)
  ultimately show ?thesis by simp
qed

lemma mark_complete_inv [inv_rules]:
  assumes "mgr_inv m" "x < length (mg_heap m)" "ms_finish_done (sess m x)" "\<not> ms_pumping (sess m x)"
  shows "mgr_inv (mark_complete x m)"
  unfolding mark_complete_def
  by (rule put_sess_inv)
    (use assms mgr_invD(2) [OF assms(1,2)] in \<open>auto simp: sess_ok_def split: option.splits\<close>)

lemma chans_inv:
  assumes inv: "mgr_inv m"
    and len: "length chs = length (mg_chans m)"
    and cl: "\<And>c. c < length chs \<Longrightarrow> ch_closed (chs ! c) = ch_closed (mg_chans m ! c)"
    and buf: "list_all (\<lambda>ch. length (ch_buf ch) \<le> control_capacity) chs"
  shows "mgr_inv (m\<lparr>mg_chans := chs\<rparr>)"
proof -
  note d = mgr_invD [OF inv]
  have "registry_ok (m\<lparr>mg_chans := chs\<rparr>)" by (rule registry_ok_heap [OF d(1)]) simp_all
  moreover have "sess_ok chs (mg_attachments m) x (sess m x)" if "x < length (mg_heap m)" for x
    using d(2) [OF that] len cl by (auto simp: sess_ok_def split: option.splits)
  moreover have "\<forall>a \<in> set (mg_attachments m). att_ok (mg_heap m) chs a"
    using d(3) len by (auto simp: att_ok_def)
  ultimately show ?thesis using d buf by (simp add: mgr_inv_def list_all_iff)
qed

lemma chan_send_inv:
  assumes inv: "mgr_inv m" and c: "c < length (mg_chans m)" "\<not> ch_closed (mg_chans m ! c)"
    and s: "chan_send c ev m = (m', r)"
  shows "mgr_inv m'"
proof (cases "length (ch_buf (mg_chans m ! c)) < control_capacity")
  case True
  let ?chs = "(mg_chans m)[c := (mg_chans m ! c)\<lparr>ch_buf := ch_buf (mg_chans m ! c) @ [ev]\<rparr>]"
  have "mgr_inv (m\<lparr>mg_chans := ?chs\<rparr>)"
    using mgr_invD(5) [OF inv] c True
    by (intro chans_inv [OF inv]) (auto simp: nth_list_update list_all_length)
  with True c s show ?thesis by (auto simp: chan_send_def Let_def)
next
  case False
  with inv c s show ?thesis by (auto simp: chan_send_def Let_def)
qed

lemma publish_inv [inv_rules]:
  assumes inv: "mgr_inv m" and x: "x < length (mg_heap m)" and p: "publish x ev m = (m', r)"
  shows "mgr_inv m'"
proof -
  note ok = mgr_invD(2) [OF inv x]
  have deliver: "mgr_inv n'"
    if n: "mgr_inv n" "mg_chans n = mg_chans m" "mg_heap n ! x = s" "x < length (mg_heap n)"
      and eq: "(case ms_control (sess m x) of None \<Rightarrow> (n, None)
        | Some c \<Rightarrow> if ms_control_open (sess m x) then chan_send c ev n else (n, None)) = (n', q)"
    for n n' s q
    using eq n(1,2) sess_okD(1) [OF ok]
    by (auto split: option.splits if_splits dest!: chan_send_inv [rotated -1])
  show ?thesis
  proof (cases "if ev_type ev = event_tool_call then ev_tool_call ev else None")
    case None
    with p deliver [OF inv refl refl x] show ?thesis by (simp add: publish_def Let_def)
  next
    case (Some tc)
    let ?full = "tc_id tc \<notin> set (keys (ms_pending (sess m x)))
      \<and> pending_capacity \<le> length (ms_pending (sess m x))"
    show ?thesis
    proof (cases "tc_id tc = [] \<or> ?full")
      case True
      with p Some inv show ?thesis by (auto simp: publish_def Let_def split: if_splits)
    next
      case False
      let ?s = "(sess m x)\<lparr>ms_pending := AList.update (tc_id tc) ev (ms_pending (sess m x))\<rparr>"
      have "mgr_inv (put_sess x ?s m)"
        by (rule put_sess_inv [OF inv x])
          (use ok False in \<open>auto simp: sess_ok_def length_update distinct_update split: option.splits\<close>)
      moreover have "(case ms_control (sess m x) of None \<Rightarrow> (put_sess x ?s m, None)
        | Some c \<Rightarrow> if ms_control_open (sess m x) then chan_send c ev (put_sess x ?s m)
            else (put_sess x ?s m, None)) = (m', r)"
        using p Some False by (auto simp: publish_def Let_def split: if_splits)
      ultimately show ?thesis using deliver [of "put_sess x ?s m"] x by simp
    qed
  qed
qed

lemma remove_inv [inv_rules]:
  assumes inv: "mgr_inv m"
  shows "mgr_inv (remove sid x m)"
proof -
  note d = mgr_invD [OF inv]
  have "registry_ok (remove sid x m)"
  proof (cases "map_of (mg_sessions m) sid = Some x")
    case True
    then have k: "sid \<in> set (keys (mg_sessions m))" by (rule map_of_in_keys)
    then obtain n where n: "length (mg_sessions m) = Suc n"
      by (cases "mg_sessions m") auto
    have l: "length (AList.delete sid (mg_sessions m)) = n"
      using d(1) k n by (simp add: length_delete_distinct registry_ok_def)
    have "set (AList.delete sid (mg_sessions m)) \<subseteq> set (mg_sessions m)"
      by (auto simp: AList.delete_eq)
    with True d(1) l n show ?thesis
      by (auto simp: remove_def registry_ok_def Let_def list_all_iff
          intro: metrics_balanced_removed distinct_delete)
  qed (use d(1) in \<open>simp add: remove_def registry_ok_def\<close>)
  then show ?thesis
    using d by (auto simp: mgr_inv_def remove_def Let_def list_all_iff)
qed


lemma count_failure_inv [inv_rules]: "mgr_inv m \<Longrightarrow> mgr_inv (count_failure reason m)"
  by (auto simp: mgr_inv_def count_failure_def registry_ok_def metrics_balanced_def)

lemma new_sess_ok:
  "sess_ok chs ats x \<lparr>ms_config = cfg, ms_cancelled = False, ms_complete = False, ms_control = None,
     ms_control_open = False, ms_stream_closed = False, ms_connection = None,
     ms_connection_closed = False, ms_attached = False, ms_pending = [],
     ms_timer = TimerArmed, ms_finished = False, ms_created_at = now,
     ms_finish_done = False, ms_pumping = False\<rparr>"
  by (simp add: sess_ok_def)

lemma mgr_start_cases:
  assumes "mgr_start cfg outcome now m = (m', r)"
  obtains "r \<noteq> None" "m' = m \<or> m' = count_failure failure_provider_timeout m"
  | "r = None" "outcome = StartStream" "config_validate cfg = None" "\<not> mg_draining m"
    "cfg_id cfg \<notin> set (keys (mg_sessions m))" "int (length (mg_sessions m)) < mg_capacity m"
    "cfg_engine cfg \<in> set (mg_engines m)"
  using assms
  by (cases outcome)
    (auto simp: mgr_start_def or_else_None split: option.splits if_splits)

lemma mgr_start_inv [inv_rules]:
  assumes inv: "mgr_inv m" and st: "mgr_start cfg outcome now m = (m', r)"
  shows "mgr_inv m'"
  using st
proof (cases rule: mgr_start_cases)
  case 1
  with inv show ?thesis by (auto intro: count_failure_inv)
next
  case 2
  note d = mgr_invD [OF inv]
  let ?x = "length (mg_heap m)"
  have m': "mg_sessions m' = mg_sessions m @ [(cfg_id cfg, ?x)]"
      "mg_metrics m' = session_started (mg_metrics m)" "mg_capacity m' = mg_capacity m"
      "mg_chans m' = mg_chans m" "mg_attachments m' = mg_attachments m" "mg_panicked m' = mg_panicked m"
    and heap: "\<exists>s. mg_heap m' = mg_heap m @ [s] \<and> ms_config s = cfg
      \<and> sess_ok (mg_chans m) (mg_attachments m) ?x s"
    using st 2 by (auto simp: mgr_start_def or_else_None new_sess_ok update_fresh split: option.splits)
  then obtain s where s: "mg_heap m' = mg_heap m @ [s]" "ms_config s = cfg"
    "sess_ok (mg_chans m) (mg_attachments m) ?x s" by blast
  have "metrics_balanced (Suc (length (mg_sessions m))) (session_started (mg_metrics m))"
    using d(1) 2 by (intro metrics_balanced_started) (auto simp: registry_ok_def)
  then have "registry_ok m'"
    using d(1) 2 m' s by (auto simp: registry_ok_def list_all_iff nth_append)
  moreover have "sess_ok (mg_chans m) (mg_attachments m) x (sess m' x)" if "x < length (mg_heap m')" for x
    using d(2) [of x] that s by (auto simp: nth_append less_Suc_eq)
  moreover have "att_ok (mg_heap m') (mg_chans m) a" if "a \<in> set (mg_attachments m)" for a
    using d(3) [OF that] s by (auto simp: att_ok_def nth_append)
  ultimately show ?thesis using d m' by (simp add: mgr_inv_def list_all_iff)
qed

lemma attach_begin_cases:
  assumes "attach_begin md now m = (m', r)"
  obtains e where "r = Inl e" "m' = m"
  | x where "r = Inr x" "map_of (mg_sessions m) (md_session_id md) = Some x"
    "\<not> ms_attached (sess m x)" "\<not> ms_finished (sess m x)" "\<not> ms_cancelled (sess m x)"
    "md_call_id md = cfg_call_id (ms_config (sess m x))"
    "md_channel_id md = cfg_channel_id (ms_config (sess m x))"
    "md_organization_id md = cfg_organization_id (ms_config (sess m x))"
    "md_format md = cfg_input_format (ms_config (sess m x))"
    "md_format md = cfg_output_format (ms_config (sess m x))"
    "m' = (put_sess x ((sess m x)\<lparr>ms_attached := True, ms_timer := timer_stop (ms_timer (sess m x)),
        ms_connection := Some md, ms_pumping := True\<rparr>) m)
        \<lparr>mg_metrics := observe_attach_latency (now - ms_created_at (sess m x)) (mg_metrics m)\<rparr>"
proof (cases r)
  case (Inl e)
  with assms have "m' = m"
    by (simp add: attach_begin_def Let_def split: option.splits if_splits)
  with Inl that(1) show ?thesis by blast
next
  case (Inr x)
  with assms that(2) [of x] show ?thesis
    by (simp add: attach_begin_def Let_def put_sess_def split: option.splits if_splits)
qed

lemma registry_heap:
  assumes "mgr_inv m" "map_of (mg_sessions m) sid = Some x"
  shows "x < length (mg_heap m)" "cfg_id (ms_config (sess m x)) = sid"
  using mgr_invD(1) [OF assms(1)] map_of_SomeD [OF assms(2)]
  by (auto simp: registry_ok_def list_all_iff)

lemma metrics_only_inv:
  assumes "mgr_inv m" "metrics_balanced (length (mg_sessions m)) met"
  shows "mgr_inv (m\<lparr>mg_metrics := met\<rparr>)"
  using assms by (auto simp: mgr_inv_def registry_ok_def)

lemma attach_begin_inv [inv_rules]:
  assumes inv: "mgr_inv m" and at: "attach_begin md now m = (m', r)"
  shows "mgr_inv m'"
  using at
proof (cases rule: attach_begin_cases)
  case (2 x)
  note x = registry_heap(1) [OF inv 2(2)]
  let ?s = "(sess m x)\<lparr>ms_attached := True, ms_timer := timer_stop (ms_timer (sess m x)),
      ms_connection := Some md, ms_pumping := True\<rparr>"
  have "mgr_inv (put_sess x ?s m)"
    by (rule put_sess_inv [OF inv x])
      (use mgr_invD(2) [OF inv x] 2 in \<open>auto simp: sess_ok_def timer_stop_def split: option.splits\<close>)
  moreover have "metrics_balanced (length (mg_sessions m))
      (observe_attach_latency (now - ms_created_at (sess m x)) (mg_metrics m))"
    using mgr_invD(1) [OF inv] by (simp add: registry_ok_def metrics_balanced_frame)
  ultimately show ?thesis using 2(11) metrics_only_inv [of "put_sess x ?s m"] by simp
qed (use inv in simp)

lemma attach_control_inv [inv_rules]:
  assumes inv: "mgr_inv m" and at: "attach_control sid m = (m', r)"
  shows "mgr_inv m'"
proof (cases r)
  case (Inl e)
  with at inv show ?thesis by (auto simp: attach_control_def Let_def split: option.splits if_splits)
next
  case (Inr a)
  note d = mgr_invD [OF inv]
  from at Inr obtain x where lk: "map_of (mg_sessions m) sid = Some x"
    and nf: "\<not> ms_finished (sess m x)" and no: "\<not> ms_control_open (sess m x)"
    and a: "a = \<lparr>ca_id = sid, ca_session = x, ca_events = length (mg_chans m), ca_once = False\<rparr>"
    and m': "m' = put_sess x ((sess m x)\<lparr>ms_control := Some (length (mg_chans m)), ms_control_open := True\<rparr>)
      (m\<lparr>mg_chans := mg_chans m @ [\<lparr>ch_buf = map snd (ms_pending (sess m x)), ch_closed = False\<rparr>],
         mg_attachments := mg_attachments m @ [a]\<rparr>)"
    by (auto simp: attach_control_def Let_def split: option.splits if_splits)
  note x = registry_heap(1) [OF inv lk] and ok = d(2) [OF registry_heap(1) [OF inv lk]]
  let ?chs = "mg_chans m @ [\<lparr>ch_buf = map snd (ms_pending (sess m x)), ch_closed = False\<rparr>]"
  have none: "ms_control (sess m x) = None"
    using sess_okD(1) [OF ok] no by (cases "ms_control (sess m x)") auto
  have once: "b \<in> set (mg_attachments m) \<Longrightarrow> ca_session b = x \<Longrightarrow> ca_once b" for b
    using d(3) [of b] none nf sess_okD(4) [OF ok] by (auto simp: att_ok_def)
  have "registry_ok m'"
    by (rule registry_ok_heap [OF d(1)]) (use x m' in \<open>auto simp: nth_list_update\<close>)
  moreover have "sess_ok ?chs (mg_attachments m @ [a]) y (sess m' y)" if "y < length (mg_heap m)" for y
    using d(2) [OF that] x m' nf a
    by (cases "y = x") (auto simp: sess_ok_def nth_append split: option.splits)
  moreover have "att_ok (mg_heap m') ?chs b" if "b \<in> set (mg_attachments m @ [a])" for b
    using d(3) [of b] that x m' a once [of b] by (auto simp: att_ok_def nth_list_update)
  moreover have "distinct (map ca_events (mg_attachments m @ [a]))"
    using d(3,4) a by (fastforce simp: att_ok_def)
  moreover have "list_all (\<lambda>ch. length (ch_buf ch) \<le> control_capacity) ?chs"
    using d(5) sess_okD(3) [OF ok] by (simp add: control_capacity_def pending_capacity_def)
  ultimately show ?thesis using d m' by (auto simp: mgr_inv_def list_all_iff)
qed


text \<open>
  A live attachment closes its own channel: while \<open>ca_once\<close> is unset and the session is
  unfinished, the session's control channel is the attachment's.
\<close>

lemma attachment_inv:
  assumes inv: "mgr_inv m" and k: "k < length (mg_attachments m)"
  shows "mgr_inv (m\<lparr>mg_attachments := (mg_attachments m)[k := (mg_attachments m ! k)\<lparr>ca_once := True\<rparr>]\<rparr>)
    \<or> (\<exists>c. ms_control (sess m (ca_session (mg_attachments m ! k))) = Some c
         \<and> c = ca_events (mg_attachments m ! k))"
proof (cases "ms_control (sess m (ca_session (mg_attachments m ! k)))
    = Some (ca_events (mg_attachments m ! k))")
  case False
  note d = mgr_invD [OF inv]
  let ?a = "mg_attachments m ! k"
  let ?ats = "(mg_attachments m)[k := ?a\<lparr>ca_once := True\<rparr>]"
  have events: "map ca_events ?ats = map ca_events (mg_attachments m)"
    using k by (simp add: map_update list_update_same_conv)
  have "registry_ok (m\<lparr>mg_attachments := ?ats\<rparr>)" by (rule registry_ok_heap [OF d(1)]) simp_all
  moreover have "sess_ok (mg_chans m) ?ats x (sess m x)" if x: "x < length (mg_heap m)" for x
  proof (cases "ms_control (sess m x)")
    case (Some c)
    obtain a where a: "a \<in> set (mg_attachments m)" "ca_events a = c" "ca_session a = x" "\<not> ca_once a"
      using sess_okD(1) [OF d(2) [OF x] Some] by blast
    then obtain j where j: "j < length (mg_attachments m)" "mg_attachments m ! j = a"
      by (auto simp: in_set_conv_nth)
    have "j \<noteq> k" using False Some a j by auto
    then have "a \<in> set ?ats" using j by (metis length_list_update nth_list_update_neq nth_mem)
    with a d(2) [OF x] Some show ?thesis by (auto simp: sess_ok_def)
  qed (use d(2) [OF x] in \<open>auto simp: sess_ok_def\<close>)
  moreover have "\<forall>a \<in> set ?ats. att_ok (mg_heap m) (mg_chans m) a"
    using d(3) k by (auto simp: att_ok_def dest!: set_update_subset_insert [THEN subsetD])
  ultimately show ?thesis using d events by (simp add: mgr_inv_def list_all_iff)
qed auto

lemma control_close_inv [inv_rules]:
  assumes inv: "mgr_inv m" and k: "k < length (mg_attachments m)"
  shows "mgr_inv (control_close k m)"
proof -
  note d = mgr_invD [OF inv]
  let ?a = "mg_attachments m ! k" and ?x = "ca_session (mg_attachments m ! k)"
  let ?ats = "(mg_attachments m)[k := ?a\<lparr>ca_once := True\<rparr>]"
  have aok: "att_ok (mg_heap m) (mg_chans m) ?a" using d(3) k by simp
  then have x: "?x < length (mg_heap m)" by (simp add: att_ok_def)
  note ok = d(2) [OF x]
  show ?thesis
  proof (cases "ca_once ?a")
    case True
    with inv show ?thesis by (simp add: control_close_def Let_def)
  next
    case False
    show ?thesis
    proof (cases "ms_control (sess m ?x)")
      case None
      with attachment_inv [OF inv k] False show ?thesis
        by (simp add: control_close_def Let_def)
    next
      case (Some c)
      have c: "c < length (mg_chans m)" "\<not> ch_closed (mg_chans m ! c)" "ms_control_open (sess m ?x)"
        and nd: "\<not> ms_finish_done (sess m ?x)"
        using sess_okD(1) [OF ok Some] by auto
      have ca: "c = ca_events ?a" using aok False nd Some by (simp add: att_ok_def)
      let ?s = "(sess m ?x)\<lparr>ms_control_open := False, ms_control := None\<rparr>"
      let ?chs = "(mg_chans m)[c := (mg_chans m ! c)\<lparr>ch_closed := True\<rparr>]"
      let ?m' = "put_sess ?x ?s (m\<lparr>mg_chans := ?chs, mg_attachments := ?ats\<rparr>)"
      have eq: "control_close k m = ?m'"
        using False Some c by (simp add: control_close_def Let_def chan_close_def put_sess_def)
      have events: "map ca_events ?ats = map ca_events (mg_attachments m)"
        using k by (simp add: map_update list_update_same_conv)
      have "registry_ok ?m'"
        by (rule registry_ok_heap [OF d(1)]) (use x in \<open>auto simp: nth_list_update\<close>)
      moreover have "sess_ok ?chs ?ats y (sess ?m' y)" if y: "y < length (mg_heap m)" for y
      proof (cases "y = ?x")
        case True
        with ok x Some show ?thesis by (auto simp: sess_ok_def)
      next
        case ne: False
        show ?thesis
        proof (cases "ms_control (sess m y)")
          case (Some e)
          have ec: "e \<noteq> c" using control_owner [OF inv x y] \<open>ms_control (sess m ?x) = Some c\<close> Some ne by auto
          obtain b where b: "b \<in> set (mg_attachments m)" "ca_events b = e" "ca_session b = y" "\<not> ca_once b"
            using sess_okD(1) [OF d(2) [OF y] Some] by blast
          then obtain j where j: "j < length (mg_attachments m)" "mg_attachments m ! j = b"
            by (auto simp: in_set_conv_nth)
          have "j \<noteq> k" using ca ec b j by auto
          then have "b \<in> set ?ats" using j by (metis length_list_update nth_list_update_neq nth_mem)
          with b d(2) [OF y] Some ne ec show ?thesis by (auto simp: sess_ok_def)
        qed (use d(2) [OF y] ne in \<open>auto simp: sess_ok_def\<close>)
      qed
      moreover have "att_ok (mg_heap ?m') ?chs b" if b: "b \<in> set ?ats" for b
      proof -
        obtain j where j: "j < length ?ats" "?ats ! j = b" using b by (auto simp: in_set_conv_nth)
        show ?thesis
        proof (cases "j = k")
          case True
          with j k aok x show ?thesis by (auto simp: att_ok_def)
        next
          case ne: False
          then have bm: "b = mg_attachments m ! j" "j < length (mg_attachments m)" using j by auto
          have "ca_events b \<noteq> c"
            using d(4) k bm ne ca by (auto simp: distinct_conv_nth)
          then show ?thesis
            using d(3) [of b] bm x Some by (auto simp: att_ok_def nth_list_update)
        qed
      qed
      moreover have "list_all (\<lambda>ch. length (ch_buf ch) \<le> control_capacity) ?chs"
        using d(5) c(1) by (auto simp: list_all_length nth_list_update)
      ultimately show ?thesis using d events eq by (simp add: mgr_inv_def list_all_iff)
    qed
  qed
qed

lemma control_recv_inv [inv_rules]:
  assumes inv: "mgr_inv m"
  shows "mgr_inv (control_recv c m)"
proof (cases "c < length (mg_chans m)")
  case True
  then have "length (tl (ch_buf (mg_chans m ! c))) \<le> control_capacity"
    using mgr_invD(5) [OF inv] by (auto simp: list_all_length intro: le_trans [OF diff_le_self])
  with True show ?thesis
    unfolding control_recv_def using mgr_invD(5) [OF inv]
    by (intro chans_inv [OF inv]) (auto simp: nth_list_update list_all_length)
next
  case False
  with inv show ?thesis by (simp add: control_recv_def list_update_beyond)
qed

lemma submit_tool_result_inv [inv_rules]:
  assumes inv: "mgr_inv m" and x: "x < length (mg_heap m)"
    and s: "submit_tool_result x result e m = (m', r)"
  shows "mgr_inv m'"
proof -
  let ?s = "(sess m x)\<lparr>ms_pending := AList.delete (tr_tool_call_id result) (ms_pending (sess m x))\<rparr>"
  have "mgr_inv (put_sess x ?s m)"
    by (rule put_sess_inv [OF inv x])
      (use mgr_invD(2) [OF inv x] length_delete_le [of "tr_tool_call_id result" "ms_pending (sess m x)"]
        in \<open>auto simp: sess_ok_def distinct_delete intro: le_trans split: option.splits\<close>)
  with s inv show ?thesis
    by (auto simp: submit_tool_result_def Let_def split: if_splits option.splits)
qed

lemma mgr_step_inv: "mgr_step m m' \<Longrightarrow> mgr_inv m \<Longrightarrow> mgr_inv m'"
proof (induction rule: mgr_step.induct)
  case (step_fire x m)
  then show ?case
    by (intro put_sess_inv) (auto dest: mgr_invD(2) simp: sess_ok_def split: option.splits)
next
  case (step_pump_done x m)
  then show ?case
    by (intro put_sess_inv) (auto dest: mgr_invD(2) simp: sess_ok_def split: option.splits)
next
  case (step_drain m)
  then show ?case by (auto simp: mgr_inv_def registry_ok_def)
qed (auto intro: inv_rules)

lemma new_manager_inv [inv_rules]:
  assumes "new_manager capacity timeout engines limits = Inr m" "capacity < 2 ^ 63"
  shows "mgr_inv m"
  using assms metrics_balanced_new
  by (auto simp: new_manager_def Let_def checked_Inr_conv or_else_None mgr_inv_def registry_ok_def
      split: if_splits)

interpretation registry: safe_system mgr_init mgr_step mgr_inv
  by unfold_locales (auto simp: mgr_init_def intro: new_manager_inv mgr_step_inv)

section \<open>What a session never loses\<close>


lemma chan_frame [simp]:
  "mg_heap (chan_close c m) = mg_heap m" "mg_sessions (chan_close c m) = mg_sessions m"
  "mg_draining (chan_close c m) = mg_draining m"
  by (simp_all add: chan_close_def)

lemma chan_send_frame:
  "chan_send c ev m = (m', r) \<Longrightarrow> mg_heap m' = mg_heap m \<and> mg_sessions m' = mg_sessions m
     \<and> mg_draining m' = mg_draining m"
  by (auto simp: chan_send_def Let_def split: if_splits)

lemma step_frame [simp]:
  "mg_heap (remove sid x m) = mg_heap m" "mg_heap (count_failure reason m) = mg_heap m"
  "mg_heap (control_recv c m) = mg_heap m"
  "mg_heap (mark_complete x m) = (mg_heap m)[x := (sess m x)\<lparr>ms_complete := True\<rparr>]"
  "mg_sessions (mark_complete x m) = mg_sessions m"
  "mg_sessions (count_failure reason m) = mg_sessions m"
  by (simp_all add: remove_def count_failure_def control_recv_def mark_complete_def Let_def)

lemma close_control_frame [simp]:
  "mg_heap (close_control x m) = (mg_heap m)[x := (sess m x)\<lparr>ms_control_open := False, ms_control := None\<rparr>]"
  "mg_sessions (close_control x m) = mg_sessions m"
  "mg_draining (close_control x m) = mg_draining m"
  by (auto simp: close_control_def Let_def split: option.splits)

lemma finish_resources_heap:
  assumes "x < length (mg_heap m)"
  shows "mg_heap (finish_resources x b m) =
      (if ms_finish_done (sess m x) then mg_heap m else (mg_heap m)[x := finished_sess b (sess m x)])
    \<and> mg_sessions (finish_resources x b m) = mg_sessions m
    \<and> mg_draining (finish_resources x b m) = mg_draining m"
  using assms
  by (cases b) (auto simp: finish_resources_def mark_complete_def Let_def finished_sess_def)

lemma finish_heap:
  assumes "x < length (mg_heap m)"
  shows "\<exists>s. mg_heap (finish x m) = (mg_heap m)[x := s] \<and> ms_finished s
      \<and> ms_config s = ms_config (sess m x) \<and> ms_attached s = ms_attached (sess m x)
      \<and> ms_pending s = ms_pending (sess m x) \<and> ms_connection s = ms_connection (sess m x)
      \<and> ms_timer s = timer_stop (ms_timer (sess m x)) \<and> ms_finish_done s
      \<and> ms_pumping s = ms_pumping (sess m x)
      \<and> (ms_complete s \<longleftrightarrow> ms_complete (sess m x)
          \<or> \<not> ms_finish_done (sess m x) \<and> \<not> ms_attached (sess m x))"
    "mg_sessions (finish x m) = mg_sessions m" "mg_draining (finish x m) = mg_draining m"
  using assms finish_resources_heap [of x "put_sess x ((sess m x)\<lparr>ms_finished := True,
    ms_timer := timer_stop (ms_timer (sess m x))\<rparr>) m"]
  by (auto simp: finish_def Let_def finished_sess_def)

lemma publish_frame:
  assumes "publish x ev m = (m', r)"
  shows "mg_sessions m' = mg_sessions m" "mg_draining m' = mg_draining m"
    "mg_heap m' = mg_heap m \<or> (\<exists>tid. mg_heap m' =
       (mg_heap m)[x := (sess m x)\<lparr>ms_pending := AList.update tid ev (ms_pending (sess m x))\<rparr>])"
proof -
  have deliver: "mg_heap n' = mg_heap n \<and> mg_sessions n' = mg_sessions n \<and> mg_draining n' = mg_draining n"
    if "(case ctl of None \<Rightarrow> (n, None) | Some c \<Rightarrow> if b then chan_send c ev n else (n, None)) = (n', q)"
    for ctl b n n' q
    using that by (auto split: option.splits if_splits dest: chan_send_frame)
  show "mg_sessions m' = mg_sessions m" "mg_draining m' = mg_draining m"
    "mg_heap m' = mg_heap m \<or> (\<exists>tid. mg_heap m' =
       (mg_heap m)[x := (sess m x)\<lparr>ms_pending := AList.update tid ev (ms_pending (sess m x))\<rparr>])"
    using assms
    by (cases "if ev_type ev = event_tool_call then ev_tool_call ev else None";
        auto simp: publish_def Let_def dest!: deliver split: if_splits)+
qed

end
