(* ===== verification/Media_Safety.thy ===== *)
theory Media_Safety
  imports Media_Invariants
begin

text \<open>
  What the media registry promises its callers, from the invariant of \<open>Media_Invariants\<close>:
  the handlers are runs of its steps, a session's life only moves forward, no channel is
  closed twice, capacity is respected, pending tool calls survive reconnection, stopping
  completes, and late clean-up never removes a newer session.
\<close>

section \<open>A session's life moves forward\<close>

definition sess_le :: "msession \<Rightarrow> msession \<Rightarrow> bool" where
  "sess_le s t \<longleftrightarrow> ms_config t = ms_config s \<and> (ms_attached s \<longrightarrow> ms_attached t)
     \<and> (ms_finished s \<longrightarrow> ms_finished t) \<and> (ms_complete s \<longrightarrow> ms_complete t)"

definition forward :: "manager \<Rightarrow> manager \<Rightarrow> bool" where
  "forward m m' \<longleftrightarrow> length (mg_heap m) \<le> length (mg_heap m')
     \<and> (\<forall>x < length (mg_heap m). sess_le (sess m x) (sess m' x))"

lemma sess_le_refl [simp]: "sess_le s s"
  by (simp add: sess_le_def)

lemma forward_same: "mg_heap m' = mg_heap m \<Longrightarrow> forward m m'"
  by (simp add: forward_def)

lemma forward_put: "x < length (mg_heap m) \<Longrightarrow> mg_heap m' = (mg_heap m)[x := s] \<Longrightarrow> sess_le (sess m x) s \<Longrightarrow> forward m m'"
  by (auto simp: forward_def nth_list_update)

lemma forward_publish:
  assumes "x < length (mg_heap m)" "publish x ev m = (m', r)"
  shows "forward m m'"
  using publish_frame(3) [OF assms(2)]
  by (auto intro: forward_same forward_put [OF assms(1)] simp: sess_le_def)

lemma forward_finish:
  assumes "x < length (mg_heap m)"
  shows "forward m (finish x m)"
  using finish_heap(1) [OF assms] by (auto intro!: forward_put [OF assms] simp: sess_le_def)

lemma mgr_step_forward: "mgr_step m m' \<Longrightarrow> mgr_inv m \<Longrightarrow> forward m m'"
proof (induction rule: mgr_step.induct)
  case (step_start cfg outcome now m m' r)
  from step_start(1) show ?case
    by (cases outcome) (auto simp: mgr_start_def forward_def count_failure_def nth_append split: option.splits)
next
  case (step_attach md now m m' r)
  from step_attach(1) show ?case
  proof (cases rule: attach_begin_cases)
    case (2 x)
    then show ?thesis
      by (auto intro!: forward_put [OF registry_heap(1) [OF step_attach(2) 2(2)]] simp: sess_le_def)
  qed (simp add: forward_same)
next
  case (step_unattached x m m' b)
  let ?m1 = "put_sess x ((sess m x)\<lparr>ms_finished := True\<rparr>) m"
  have "mg_heap (finish_resources x False ?m1) = (if ms_finish_done (sess m x) then mg_heap ?m1
      else (mg_heap m)[x := finished_sess False ((sess m x)\<lparr>ms_finished := True\<rparr>)])"
    using step_unattached(1) by (simp add: finish_resources_heap)
  with step_unattached show ?case
    by (auto simp: finish_unattached_def Let_def sess_le_def finished_sess_def
        intro: forward_same forward_put split: if_splits)
next
  case (step_control sid m m' r)
  show ?case
  proof (cases "map_of (mg_sessions m) sid")
    case None
    with step_control(1) show ?thesis
      by (auto simp: attach_control_def forward_same split: if_splits)
  next
    case (Some x)
    from registry_heap(1) [OF step_control(2) Some] step_control(1) Some show ?thesis
      by (auto simp: attach_control_def Let_def sess_le_def intro: forward_same forward_put
          split: if_splits)
  qed
next
  case (step_control_close k m)
  have "ca_session (mg_attachments m ! k) < length (mg_heap m)"
    using mgr_invD(3) [OF step_control_close(2)] step_control_close(1) by (auto simp: att_ok_def)
  then show ?case
    by (auto simp: control_close_def Let_def sess_le_def intro: forward_same
        intro!: forward_put split: option.splits)
next
  case (step_tool x m result e m' r)
  then show ?case
    by (auto simp: submit_tool_result_def Let_def sess_le_def intro: forward_same
        intro!: forward_put split: option.splits if_splits)
qed (auto intro: forward_publish forward_finish forward_same forward_put
    simp: sess_le_def count_failure_def mark_complete_def remove_def control_recv_def)

interpretation session_attached: absorbing_system mgr_init mgr_step mgr_inv
  "\<lambda>m. x < length (mg_heap m) \<and> ms_attached (sess m x)" for x
  by unfold_locales (auto dest!: mgr_step_forward simp: forward_def sess_le_def)

interpretation session_finished: absorbing_system mgr_init mgr_step mgr_inv
  "\<lambda>m. x < length (mg_heap m) \<and> ms_finished (sess m x)" for x
  by unfold_locales (auto dest!: mgr_step_forward simp: forward_def sess_le_def)

section \<open>Handlers are runs of steps\<close>

lemma finish_len [simp]: "x < length (mg_heap m) \<Longrightarrow> length (mg_heap (finish x m)) = length (mg_heap m)"
  using finish_heap(1) [of x m] by auto

lemma publish_len: "publish x ev m = (m', r) \<Longrightarrow> length (mg_heap m') = length (mg_heap m)"
  using publish_frame(3) [of x ev m m' r] by auto

lemma steps_trans: "mgr_step\<^sup>*\<^sup>* a b \<Longrightarrow> mgr_step b c \<Longrightarrow> mgr_step\<^sup>*\<^sup>* a c"
  by (rule rtranclp.rtrancl_into_rtrancl)

lemma drain_steps_aux:
  "list_all (\<lambda>(sid, x). x < length (mg_heap m)) ss \<Longrightarrow>
     mgr_step\<^sup>*\<^sup>* m (fold (\<lambda>(sid, x). finish x) ss m)
     \<and> length (mg_heap (fold (\<lambda>(sid, x). finish x) ss m)) = length (mg_heap m)"
proof (induction ss arbitrary: m)
  case (Cons p ss)
  obtain sid x where p: "p = (sid, x)" by (cases p)
  with Cons.prems have x: "x < length (mg_heap m)" by simp
  have "mgr_step m (finish x m)" by (rule step_finish [OF x])
  with Cons.IH [of "finish x m"] Cons.prems x p show ?case
    by (auto intro: converse_rtranclp_into_rtranclp)
qed simp

lemma drain_begin_steps: "mgr_inv m \<Longrightarrow> mgr_step\<^sup>*\<^sup>* m (drain_begin m)"
proof -
  assume "mgr_inv m"
  then have "list_all (\<lambda>(sid, x). x < length (mg_heap (m\<lparr>mg_draining := True\<rparr>))) (mg_sessions m)"
    by (auto simp: mgr_inv_def registry_ok_def list_all_iff)
  from drain_steps_aux [OF this] show ?thesis
    unfolding drain_begin_def by (auto intro: converse_rtranclp_into_rtranclp step_drain)
qed

text \<open>The end of \<open>Attach\<close>, region by region.\<close>

lemma attach_end_steps:
  assumes inv: "mgr_inv m" and x: "x < length (mg_heap m)" and pumping: "ms_pumping (sess m x)"
    and md: "md_session_id md = cfg_id (ms_config (sess m x))"
    and e: "attach_end x md err msg now m = (m', r)"
  shows "mgr_step\<^sup>*\<^sup>* m m' \<and> ms_complete (sess m' x) \<and> ms_config (sess m' x) = ms_config (sess m x)"
proof -
  let ?m1 = "put_sess x ((sess m x)\<lparr>ms_pumping := False\<rparr>) m"
  have s1: "mgr_step\<^sup>*\<^sup>* m ?m1" by (rule r_into_rtranclp) (rule step_pump_done [OF x pumping])
  have c1: "x < length (mg_heap ?m1)" "\<not> ms_pumping (sess ?m1 x)"
    "ms_config (sess ?m1 x) = ms_config (sess m x)" using x by simp_all
  define m2 where "m2 = (case err of None \<Rightarrow> ?m1 | Some e \<Rightarrow>
     if is_normal_disconnect err then ?m1
     else let n = count_failure (classify_failure e) ?m1
          in if errors_is e err_provider_failure then n
             else fst (publish x (terminal_failure_event (classify_failure e) msg now) n))"
  have s2: "mgr_step\<^sup>*\<^sup>* m m2 \<and> x < length (mg_heap m2) \<and> \<not> ms_pumping (sess m2 x)
      \<and> ms_config (sess m2 x) = ms_config (sess m x)"
  proof (cases err)
    case (Some e)
    let ?n = "count_failure (classify_failure e) ?m1"
    have n: "mgr_step\<^sup>*\<^sup>* m ?n" by (rule steps_trans [OF s1 step_metric])
    have hn: "mg_heap ?n = mg_heap ?m1" by (simp add: count_failure_def)
    obtain m3 r3 where p: "publish x (terminal_failure_event (classify_failure e) msg now) ?n = (m3, r3)"
      by (cases "publish x (terminal_failure_event (classify_failure e) msg now) ?n")
    have "x < length (mg_heap ?n)" using c1(1) hn by simp
    then have "mgr_step ?n m3" using p by (rule step_publish)
    with n have "mgr_step\<^sup>*\<^sup>* m m3" by (rule steps_trans)
    moreover have "x < length (mg_heap m3) \<and> \<not> ms_pumping (sess m3 x)
        \<and> ms_config (sess m3 x) = ms_config (sess m x)"
      using publish_frame(3) [OF p] c1 hn x by (auto simp: count_failure_def)
    ultimately show ?thesis using Some s1 n c1 hn p by (simp add: m2_def Let_def)
  qed (use s1 c1 in \<open>simp add: m2_def\<close>)
  then have x2: "x < length (mg_heap m2)" by blast
  obtain s where f: "mg_heap (finish x m2) = (mg_heap m2)[x := s]" "ms_finish_done s"
      "ms_config s = ms_config (sess m2 x)" "ms_pumping s = ms_pumping (sess m2 x)"
    using finish_heap(1) [OF x2] by blast
  then have f': "sess (finish x m2) x = s" using x2 by simp
  let ?m3 = "mark_complete x (finish x m2)"
  have "mgr_step\<^sup>*\<^sup>* m (finish x m2)" using s2 x2 by (auto intro: steps_trans step_finish)
  moreover have "mgr_step (finish x m2) ?m3"
    by (rule step_complete) (use f' f s2 x2 in auto)
  ultimately have s3: "mgr_step\<^sup>*\<^sup>* m ?m3" by (rule steps_trans)
  have c3: "x < length (mg_heap ?m3)" "ms_complete (sess ?m3 x)"
      "ms_config (sess ?m3 x) = ms_config (sess m x)"
    using f f' s2 x2 by (simp_all add: mark_complete_def)
  have m': "m' = remove (md_session_id md) x ?m3"
    using e by (simp add: attach_end_def m2_def Let_def)
  have "mgr_step ?m3 m'" unfolding m' md c3(3) [symmetric] by (rule step_remove [OF c3(1,2)])
  with s3 have "mgr_step\<^sup>*\<^sup>* m m'" by (rule steps_trans)
  then show ?thesis using c3 m' by (simp add: remove_def Let_def)
qed


text \<open>The timer callback: publish, finish when unattached, remove.\<close>

lemma finish_unattached_frame:
  assumes "x < length (mg_heap m)" "finish_unattached x m = (m', b)" "mgr_inv m"
  shows "length (mg_heap m') = length (mg_heap m)" "ms_config (sess m' x) = ms_config (sess m x)"
    "b \<Longrightarrow> ms_complete (sess m' x)"
  using assms(1,2) sess_okD(4) [OF mgr_invD(2) [OF assms(3,1)]]
  by (auto simp: finish_unattached_def Let_def finish_resources_heap finished_sess_def split: if_splits)

lemma timer_callback_steps:
  assumes inv: "mgr_inv m" and x: "x < length (mg_heap m)" and fired: "ms_timer (sess m x) = TimerFired"
  shows "mgr_step\<^sup>*\<^sup>* m (timer_callback x now m)"
proof -
  let ?ev = "terminal_failure_event failure_attach_timeout ''media session attachment timed out'' now"
  obtain m1 r where p: "publish x ?ev m = (m1, r)" by (cases "publish x ?ev m")
  have h1: "mg_heap m1 = mg_heap m"
    using publish_frame(3) [OF p] p
    by (auto simp: publish_def terminal_failure_event_def Let_def dest: chan_send_frame split: option.splits if_splits)
  obtain m2 b where u: "finish_unattached x m1 = (m2, b)" by (cases "finish_unattached x m1")
  have inv1: "mgr_inv m1" using publish_inv [OF inv x p] .
  have x1: "x < length (mg_heap m1)" using x h1 by simp
  have s2: "mgr_step\<^sup>*\<^sup>* m m2"
    using step_publish [OF x p] step_unattached [OF x1 _ u] fired h1 by auto
  show ?thesis
  proof (cases b)
    case True
    note fr = finish_unattached_frame [OF x1 u inv1]
    let ?m3 = "count_failure failure_attach_timeout m2"
    have s3: "mgr_step\<^sup>*\<^sup>* m ?m3" by (rule steps_trans [OF s2 step_metric])
    have x3: "x < length (mg_heap ?m3)" "ms_complete (sess ?m3 x)"
      "cfg_id (ms_config (sess ?m3 x)) = cfg_id (ms_config (sess m x))"
      using fr True x1 h1 by (simp_all add: count_failure_def)
    have "timer_callback x now m = remove (cfg_id (ms_config (sess m x))) x ?m3"
      using p u True by (simp add: timer_callback_def)
    then show ?thesis using steps_trans [OF s3 step_remove [OF x3(1,2)]] x3(3) by simp
  next
    case False
    with p u s2 show ?thesis by (simp add: timer_callback_def)
  qed
qed

section \<open>Properties\<close>


definition demo_config :: session_config where
  "demo_config =
     \<lparr>cfg_id = UUID ''s1'', cfg_organization_id = UUID ''o1'', cfg_call_id = UUID ''c1'',
      cfg_channel_id = UUID ''h1'', cfg_engine = engine_echo,
      cfg_input_format = \<lparr>sample_rate_hz = 16000, channels = 1\<rparr>,
      cfg_output_format = \<lparr>sample_rate_hz = 16000, channels = 1\<rparr>, cfg_language = [],
      cfg_instructions = [], cfg_voice = [], cfg_engine_config = [], cfg_tools = [],
      cfg_providers = []\<rparr>"

definition demo_metadata :: connection_metadata where
  "demo_metadata =
     \<lparr>md_session_id = UUID ''s1'', md_call_id = UUID ''c1'', md_channel_id = UUID ''h1'',
      md_organization_id = UUID ''o1'', md_remote_address = ''127.0.0.1'',
      md_format = \<lparr>sample_rate_hz = 16000, channels = 1\<rparr>\<rparr>"

lemma demo_config_valid: "config_validate demo_config = None"
  by (simp add: config_validate_wf wf_config_def demo_config_def uuid_nil_def)

definition demo_manager :: manager where
  "demo_manager =
     \<lparr>mg_engines = [engine_echo], mg_sessions = [], mg_capacity = 1, mg_attach_timeout = 5,
      mg_limits = default_runtime_limits, mg_metrics = new_metrics, mg_draining = False,
      mg_changed = False, mg_heap = [], mg_chans = [], mg_attachments = [], mg_panicked = False\<rparr>"

lemma demo_manager_reachable: "mgr_reachable demo_manager"
proof (rule reach_init)
  have "new_manager 1 5 [(engine_echo, False)] None = Inr demo_manager"
    by (simp add: new_manager_def or_else_def default_limits_valid demo_manager_def)
  moreover have "(1 :: int) < 2 ^ 63" by simp
  ultimately show "mgr_init demo_manager" unfolding mgr_init_def by blast
qed

definition demo_started :: manager where
  "demo_started = fst (mgr_start demo_config StartStream 7 demo_manager)"

lemma demo_started_reachable: "mgr_reachable demo_started"
  unfolding demo_started_def
  by (rule reach_step [OF demo_manager_reachable])
    (rule step_start [of demo_config StartStream 7 _ _ "snd (mgr_start demo_config StartStream 7 demo_manager)"], simp)

lemma demo_started_eval:
  "mg_sessions demo_started = [(UUID ''s1'', 0)]" "length (mg_heap demo_started) = 1"
  "ms_config (sess demo_started 0) = demo_config" "\<not> ms_attached (sess demo_started 0)"
  "\<not> ms_finished (sess demo_started 0)" "\<not> ms_cancelled (sess demo_started 0)"
  "ms_timer (sess demo_started 0) = TimerArmed" "ms_control_open (sess demo_started 0) = False"
  "ms_control (sess demo_started 0) = None"
  "ms_pending (sess demo_started 0) = []" "mg_chans demo_started = []"
  "mg_attachments demo_started = []" "mg_capacity demo_started = 1" "mg_heap demo_started \<noteq> []"
  by (simp_all add: demo_started_def mgr_start_def demo_config_valid or_else_def demo_manager_def)
    (simp_all add: demo_config_def)



text \<open>One transport per session: a connection is attached only when all four identities
  and the format match the session's configuration, and from then on, whatever else runs, every
  further attachment to that session is refused.\<close>

theorem attach_exclusive:
  assumes "mgr_reachable m" "attach_begin md now m = (m1, Inr x)" "mgr_step\<^sup>*\<^sup>* m1 m2"
    and "map_of (mg_sessions m2) (md_session_id md) = Some x"
    and "md_session_id md' = md_session_id md"
  shows "ms_config (sess m x) = ms_config (sess m2 x)
    \<and> md_session_id md = cfg_id (ms_config (sess m x)) \<and> md_call_id md = cfg_call_id (ms_config (sess m x))
    \<and> md_channel_id md = cfg_channel_id (ms_config (sess m x))
    \<and> md_organization_id md = cfg_organization_id (ms_config (sess m x))
    \<and> md_format md = cfg_input_format (ms_config (sess m x))
    \<and> (\<exists>e. attach_begin md' now' m2 = (m2, Inl e))"
proof -
  have inv: "mgr_inv m" by (rule registry.reach_inv [OF assms(1)])
  have m1: "mgr_step m m1" by (rule step_attach [OF assms(2)])
  from assms(2) have a: "map_of (mg_sessions m) (md_session_id md) = Some x"
      "md_call_id md = cfg_call_id (ms_config (sess m x))"
      "md_channel_id md = cfg_channel_id (ms_config (sess m x))"
      "md_organization_id md = cfg_organization_id (ms_config (sess m x))"
      "md_format md = cfg_input_format (ms_config (sess m x))"
      "mg_heap m1 = (mg_heap m)[x := (sess m x)\<lparr>ms_attached := True,
         ms_timer := timer_stop (ms_timer (sess m x)), ms_connection := Some md, ms_pumping := True\<rparr>]"
    by (auto elim!: attach_begin_cases)
  note x = registry_heap [OF inv a(1)]
  have r1: "mgr_reachable m1" by (rule reach_step [OF assms(1) m1])
  have r2: "mgr_reachable m2" by (rule reach_steps [OF r1 assms(3)])
  have att: "ms_attached (sess m2 x)"
    using session_attached.final_stays [OF r1 _ assms(3), of x] a(6) x(1) by simp
  have "forward m1 m2" using assms(3)
  proof (induction rule: rtranclp_induct)
    case (step b c)
    then have "mgr_inv b" by (auto intro: registry.reach_inv reach_steps [OF r1])
    with step(2) have "forward b c" by (rule mgr_step_forward)
    with step(3) show ?case by (auto simp: forward_def sess_le_def)
  qed (simp add: forward_def)
  with a(6) x(1) have cfg: "ms_config (sess m2 x) = ms_config (sess m x)"
    by (simp add: forward_def sess_le_def)
  have "\<exists>e. attach_begin md' now' m2 = (m2, Inl e)"
    using assms(4,5) att by (auto simp: attach_begin_def Let_def)
  with a x cfg show ?thesis by simp
qed

lemma demo_attach:
  "attach_begin demo_metadata 9 demo_started = (fst (attach_begin demo_metadata 9 demo_started), Inr 0)"
  "map_of (mg_sessions (fst (attach_begin demo_metadata 9 demo_started))) (md_session_id demo_metadata) = Some 0"
  by (simp_all add: attach_begin_def demo_started_eval demo_metadata_def demo_config_def put_sess_def Let_def)

theorem attach_exclusive_witness:
  "\<exists>e. snd (attach_begin demo_metadata 10 (fst (attach_begin demo_metadata 9 demo_started))) = Inl e"
proof -
  note c = attach_exclusive [OF demo_started_reachable demo_attach(1) rtranclp.rtrancl_refl
      demo_attach(2) refl, of 10]
  then obtain e where "attach_begin demo_metadata 10 (fst (attach_begin demo_metadata 9 demo_started))
      = (fst (attach_begin demo_metadata 9 demo_started), Inl e)" by blast
  then show ?thesis by simp
qed

text \<open>Attaching the control plane to a live session without one always succeeds, and its
  channel starts with every pending tool call: the backpressure branch is unreachable.\<close>

theorem control_replay:
  assumes "mgr_reachable m" "map_of (mg_sessions m) sid = Some x" "sid \<noteq> uuid_nil"
    and "\<not> ms_finished (sess m x)" "\<not> ms_control_open (sess m x)"
  shows "\<exists>m' a. attach_control sid m = (m', Inr a)
    \<and> ch_buf (mg_chans m' ! ca_events a) = map snd (ms_pending (sess m x))"
proof -
  have inv: "mgr_inv m" by (rule registry.reach_inv [OF assms(1)])
  note x = registry_heap(1) [OF inv assms(2)]
  note ok = mgr_invD(2) [OF inv x]
  have "length (ms_pending (sess m x)) \<le> control_capacity" "\<not> ms_cancelled (sess m x)"
    using sess_okD(3-5) [OF ok] assms(4) by (simp_all add: control_capacity_def pending_capacity_def)
  with assms show ?thesis by (simp add: attach_control_def Let_def)
qed

theorem control_replay_witness:
  "\<exists>m' a. attach_control (UUID ''s1'') demo_started = (m', Inr a) \<and> ch_buf (mg_chans m' ! ca_events a) = []"
  using control_replay [OF demo_started_reachable, of "UUID ''s1''" 0]
  by (simp add: demo_started_eval uuid_nil_def)

lemma pending_update [simp]:
  "ms_pending s = ms_pending (hp ! y) \<Longrightarrow> ms_pending (hp[y := s] ! x) = ms_pending (hp ! x)"
  by (cases "y < length hp"; cases "x = y") (auto simp: list_update_beyond)

lemma pending_publish:
  assumes "publish x ev m = (m', r)" "x < length (mg_heap m)" "tid \<in> set (keys (ms_pending (sess m y)))"
  shows "tid \<in> set (keys (ms_pending (sess m' y)))"
proof -
  have "set (keys (ms_pending (sess m x))) \<subseteq> set (keys (AList.update k ev (ms_pending (sess m x))))" for k
    by (auto simp: dom_update)
  then show ?thesis
    using publish_frame(3) [OF assms(1)] assms(2,3) by (cases "y = x") (elim disjE exE; simp; blast)+
qed

text \<open>A pending tool call leaves the session only when its own result has been handed to
  the provider: no other step of the media process drops it.\<close>

theorem tool_call_persists:
  assumes "mgr_reachable m" "mgr_step m m'" "x < length (mg_heap m)"
    and "tid \<in> set (keys (ms_pending (sess m x)))" "tid \<notin> set (keys (ms_pending (sess m' x)))"
  shows "\<exists>result. tr_tool_call_id result = tid \<and> submit_tool_result x result None m = (m', None)"
proof -
  have inv: "mgr_inv m" by (rule registry.reach_inv [OF assms(1)])
  have gone: "ms_pending (sess m' x) \<noteq> ms_pending (sess m x)" using assms(4,5) by auto
  show ?thesis using assms(2)
  proof cases
    case (step_start cfg outcome now r)
    with gone assms(3) show ?thesis
      by (cases outcome)
        (auto simp: mgr_start_def count_failure_def nth_append split: option.splits)
  next
    case (step_attach md now r)
    from step_attach have "ms_pending (sess m' x) = ms_pending (sess m x)"
      by (rule attach_begin_cases) simp_all
    with gone show ?thesis by simp
  next
    case (step_publish y ev r)
    with pending_publish assms(4,5) show ?thesis by blast
  next
    case (step_finish y)
    then have "ms_pending (sess m' x) = ms_pending (sess m x)"
      using finish_heap(1) [of y m] by auto
    with gone show ?thesis by simp
  next
    case (step_unattached y b)
    then have "ms_pending (sess m' x) = ms_pending (sess m x)"
      by (auto simp: finish_unattached_def Let_def finish_resources_heap finished_sess_def split: if_splits)
    with gone show ?thesis by simp
  next
    case (step_control sid r)
    then have "ms_pending (sess m' x) = ms_pending (sess m x)"
      by (auto simp: attach_control_def Let_def split: option.splits if_splits)
    with gone show ?thesis by simp
  next
    case (step_control_close k)
    then have "ms_pending (sess m' x) = ms_pending (sess m x)"
      by (auto simp: control_close_def Let_def split: option.splits if_splits)
    with gone show ?thesis by simp
  next
    case (step_tool y result e r)
    then have s: "e = None" "r = None" "\<not> ms_finished (sess m y)"
      "m' = put_sess y ((sess m y)\<lparr>ms_pending := AList.delete (tr_tool_call_id result) (ms_pending (sess m y))\<rparr>) m"
      using gone by (auto simp: submit_tool_result_def Let_def split: if_splits option.splits)
    have yx: "y = x"
    proof (rule ccontr)
      assume "y \<noteq> x"
      with s(4) gone show False by simp
    qed
    have "tr_tool_call_id result = tid"
    proof (rule ccontr)
      assume "tr_tool_call_id result \<noteq> tid"
      then have "tid \<in> set (keys (AList.delete (tr_tool_call_id result) (ms_pending (sess m x))))"
        using assms(4) by (simp only: delete_keys) simp
      with s(4) yx assms(3,5) show False by simp
    qed
    with step_tool s yx show ?thesis by blast
  next
    case (step_remove y)
    then have "ms_pending (sess m' x) = ms_pending (sess m x)" by simp
    with gone show ?thesis by simp
  next
    case (step_complete y)
    then have "ms_pending (sess m' x) = ms_pending (sess m x)" by simp
    with gone show ?thesis by simp
  qed (use gone in simp_all)
qed


definition demo_tool_event :: event where
  "demo_tool_event =
     \<lparr>ev_type = event_tool_call, ev_transcript = None, ev_response = None,
      ev_tool_call = Some \<lparr>tc_id = ''t1'', tc_name = ''lookup'', tc_arguments = ''{}''\<rparr>,
      ev_usage = None, ev_failure = None, ev_provider_id = [], ev_occurred_at = 8\<rparr>"

definition demo_tool_result :: tool_result where
  "demo_tool_result = \<lparr>tr_tool_call_id = ''t1'', tr_name = ''lookup'', tr_content = ''ok'', tr_is_error = False\<rparr>"

lemma demo_calling:
  "publish 0 demo_tool_event demo_started
     = (put_sess 0 ((sess demo_started 0)\<lparr>ms_pending := [(''t1'', demo_tool_event)]\<rparr>) demo_started, None)"
  by (simp add: publish_def demo_tool_event_def demo_started_eval pending_capacity_def Let_def)

theorem tool_call_persists_witness:
  "\<exists>result. tr_tool_call_id result = ''t1'' \<and>
     snd (submit_tool_result 0 result None (fst (publish 0 demo_tool_event demo_started))) = None"
proof -
  let ?m = "fst (publish 0 demo_tool_event demo_started)"
  let ?m' = "fst (submit_tool_result 0 demo_tool_result None ?m)"
  have x: "0 < length (mg_heap demo_started)" by (simp add: demo_started_eval)
  have r: "mgr_reachable ?m"
    by (rule reach_step [OF demo_started_reachable step_publish [OF x]]) (rule prod.collapse [symmetric])
  have x': "0 < length (mg_heap ?m)" by (simp add: demo_calling demo_started_eval)
  have st: "mgr_step ?m ?m'"
    by (rule step_tool [OF x' prod.collapse [symmetric]])
  have "''t1'' \<in> set (keys (ms_pending (sess ?m 0)))" "''t1'' \<notin> set (keys (ms_pending (sess ?m' 0)))"
    using x by (simp_all add: demo_calling submit_tool_result_def demo_tool_result_def demo_started_eval Let_def)
  from tool_call_persists [OF r st x' this] show ?thesis by (metis snd_conv)
qed


lemma stop_marks:
  assumes "mgr_reachable m" "stop_begin sid m = (m1, Inr x)"
  shows "mgr_reachable m1 \<and> ms_finished (sess m1 x) \<and> mgr_status sid m1 = None
    \<and> (ms_complete (sess m1 x) \<or> ms_attached (sess m1 x))"
proof -
  have inv: "mgr_inv m" by (rule registry.reach_inv [OF assms(1)])
  from assms(2) have lk: "map_of (mg_sessions m) sid = Some x" and m1: "m1 = finish x m"
    by (auto simp: stop_begin_def split: option.splits)
  note x = registry_heap(1) [OF inv lk]
  have r: "mgr_reachable m1" unfolding m1 by (rule reach_step [OF assms(1) step_finish [OF x]])
  obtain s where s: "mg_heap m1 = (mg_heap m)[x := s]" "ms_finished s"
    using finish_heap(1) [OF x] m1 by blast
  then have s1: "sess m1 x = s" "x < length (mg_heap m1)" using x by simp_all
  have "ms_complete s \<or> ms_attached s"
    using sess_okD(4,7) [OF mgr_invD(2) [OF registry.reach_inv [OF r] s1(2)]] s(2) s1(1) by auto
  moreover have "mgr_status sid m1 = None"
    using finish_heap(2) [OF x] lk s(2) s1(1) m1 by (simp add: mgr_status_def Let_def)
  ultimately show ?thesis using r s(2) s1(1) by simp
qed

text \<open>A stop takes effect at once and its wait is bounded by the running pump alone: after
  \<open>Stop\<close> has marked the session it reports no status, and it is complete unless an attached
  pump has yet to return.\<close>

theorem stop_settles:
  assumes "mgr_reachable m" "stop_begin sid m = (m1, Inr x)"
  shows "mgr_reachable m1 \<and> ms_finished (sess m1 x) \<and> mgr_status sid m1 = None
    \<and> (ms_complete (sess m1 x) \<or> ms_attached (sess m1 x))"
  by (rule stop_marks [OF assms])

theorem stop_settles_witness:
  "mgr_status (UUID ''s1'') (fst (stop_begin (UUID ''s1'') demo_started)) = None"
proof -
  have "stop_begin (UUID ''s1'') demo_started = (finish 0 demo_started, Inr 0)"
    by (simp add: stop_begin_def demo_started_eval)
  from stop_settles [OF demo_started_reachable this] show ?thesis
    by (simp add: stop_begin_def demo_started_eval)
qed

text \<open>When the pump of an attached session returns, for whatever reason, the session is
  complete, so every waiting \<open>Stop\<close> and \<open>Drain\<close> continues, and its registration is gone;
  no other session, in particular none started later under the same id, is removed.\<close>

theorem attach_end_releases:
  assumes "mgr_reachable m" "x < length (mg_heap m)" "ms_pumping (sess m x)"
    and "md_session_id md = cfg_id (ms_config (sess m x))"
    and "attach_end x md err msg now m = (m', r)"
  shows "mgr_reachable m' \<and> ms_complete (sess m' x)
    \<and> map_of (mg_sessions m') = (\<lambda>sid. if map_of (mg_sessions m) sid = Some x then None
        else map_of (mg_sessions m) sid)"
proof -
  have inv: "mgr_inv m" by (rule registry.reach_inv [OF assms(1)])
  note st = attach_end_steps [OF inv assms(2-5)]
  let ?sid = "cfg_id (ms_config (sess m x))"
  have only: "map_of (mg_sessions m) sid = Some x \<Longrightarrow> sid = ?sid" for sid
    using registry_heap(2) [OF inv] by simp
  have pub: "mg_sessions (fst (publish x ev n)) = mg_sessions n
      \<and> length (mg_heap (fst (publish x ev n))) = length (mg_heap n)" for ev n
    by (cases "publish x ev n") (auto dest: publish_frame publish_len)
  have "mg_sessions m' = mg_sessions (remove ?sid x m)"
  proof -
    let ?p = "put_sess x ((sess m x)\<lparr>ms_pumping := False\<rparr>) m"
    define n where "n = (case err of None \<Rightarrow> ?p | Some e \<Rightarrow>
       if is_normal_disconnect err then ?p
       else let c = count_failure (classify_failure e) ?p
            in if errors_is e err_provider_failure then c
               else fst (publish x (terminal_failure_event (classify_failure e) msg now) c))"
    have n: "mg_sessions n = mg_sessions m" "x < length (mg_heap n)"
      using assms(2) pub by (simp_all add: n_def Let_def count_failure_def split: option.split)
    have "m' = remove (md_session_id md) x (mark_complete x (finish x n))"
      using assms(5) by (simp add: attach_end_def n_def Let_def)
    then show ?thesis
      using n finish_heap(2) [OF n(2)] assms(4) by (simp add: remove_def mark_complete_def Let_def)
  qed
  then have sessions: "map_of (mg_sessions m') = (if map_of (mg_sessions m) ?sid = Some x
      then (map_of (mg_sessions m))(?sid := None) else map_of (mg_sessions m))"
    by (simp add: remove_def Let_def delete_conv')
  have "map_of (mg_sessions m') = (\<lambda>sid. if map_of (mg_sessions m) sid = Some x then None
        else map_of (mg_sessions m) sid)"
  proof
    fix sid
    show "map_of (mg_sessions m') sid = (if map_of (mg_sessions m) sid = Some x then None
        else map_of (mg_sessions m) sid)"
      unfolding sessions using only [of sid] by (cases "sid = ?sid") auto
  qed
  with st reach_steps [OF assms(1)] show ?thesis by blast
qed

definition demo_attached :: manager where
  "demo_attached = fst (attach_begin demo_metadata 9 demo_started)"

lemma demo_attached_reachable: "mgr_reachable demo_attached"
  unfolding demo_attached_def
  by (rule reach_step [OF demo_started_reachable]) (rule step_attach [OF demo_attach(1)])

lemma demo_attached_eval:
  "mg_sessions demo_attached = [(UUID ''s1'', 0)]" "length (mg_heap demo_attached) = 1"
  "ms_pumping (sess demo_attached 0)" "ms_config (sess demo_attached 0) = demo_config"
  by (simp_all add: demo_attached_def attach_begin_def demo_started_eval demo_metadata_def
      demo_config_def put_sess_def Let_def)

theorem attach_end_releases_witness:
  "mg_sessions (fst (attach_end 0 demo_metadata (Some err_eof) [] 11 demo_attached)) = []"
proof -
  let ?r = "attach_end 0 demo_metadata (Some err_eof) [] 11 demo_attached"
  have md: "md_session_id demo_metadata = cfg_id (ms_config (sess demo_attached 0))"
    by (simp add: demo_attached_eval demo_metadata_def demo_config_def)
  have len: "0 < length (mg_heap demo_attached)" by (simp add: demo_attached_eval)
  have "map_of (mg_sessions (fst ?r)) = Map.empty"
    using attach_end_releases [OF demo_attached_reachable len demo_attached_eval(3) md, of "Some err_eof" "[]" 11
        "fst ?r" "snd ?r"]
    by (simp add: demo_attached_eval fun_eq_iff)
  then show ?thesis by simp
qed

text \<open>Draining refuses every new session and finishes all that were registered; the ones
  without a connection are complete at once.\<close>

theorem drain_finishes:
  assumes "mgr_reachable m" "config_validate cfg = None"
  shows "mgr_reachable (drain_begin m)
    \<and> mgr_start cfg outcome now (drain_begin m) = (drain_begin m, Some err_manager_draining)
    \<and> list_all (\<lambda>(sid, x). ms_finished (sess (drain_begin m) x)
        \<and> (ms_complete (sess (drain_begin m) x) \<or> ms_attached (sess (drain_begin m) x)))
        (mg_sessions m)"
proof -
  have inv: "mgr_inv m" by (rule registry.reach_inv [OF assms(1)])
  have bound: "list_all (\<lambda>(sid, x). x < length (mg_heap m)) (mg_sessions m)"
    using mgr_invD(1) [OF inv] by (auto simp: registry_ok_def list_all_iff)
  have r: "mgr_reachable (drain_begin m)"
    by (rule reach_steps [OF assms(1) drain_begin_steps [OF inv]])
  have run: "mg_draining (fold (\<lambda>(sid, x). finish x) ss n) = mg_draining n
      \<and> length (mg_heap (fold (\<lambda>(sid, x). finish x) ss n)) = length (mg_heap n)
      \<and> (\<forall>y. ms_finished (sess n y) \<longrightarrow> ms_finished (sess (fold (\<lambda>(sid, x). finish x) ss n) y))
      \<and> list_all (\<lambda>(sid, x). ms_finished (sess (fold (\<lambda>(sid, x). finish x) ss n) x)) ss"
    if "list_all (\<lambda>(sid, x). x < length (mg_heap n)) ss" for ss n
    using that
  proof (induction ss arbitrary: n)
    case (Cons p ss)
    obtain sid x where p: "p = (sid, x)" by (cases p)
    with Cons.prems have x: "x < length (mg_heap n)" by simp
    obtain s where s: "mg_heap (finish x n) = (mg_heap n)[x := s]" "ms_finished s"
      using finish_heap(1) [OF x] by blast
    then have "ms_finished (sess (finish x n) x)"
      and "ms_finished (sess n y) \<longrightarrow> ms_finished (sess (finish x n) y)" for y
      using x by (auto simp: nth_list_update)
    with Cons.IH [of "finish x n"] Cons.prems p x finish_heap(3) [OF x] show ?case by simp
  qed simp
  from run [of "m\<lparr>mg_draining := True\<rparr>" "mg_sessions m"] bound
  have d: "mg_draining (drain_begin m)" "length (mg_heap (drain_begin m)) = length (mg_heap m)"
      "list_all (\<lambda>(sid, x). ms_finished (sess (drain_begin m) x)) (mg_sessions m)"
    by (simp_all add: drain_begin_def)
  have "mgr_start cfg outcome now (drain_begin m) = (drain_begin m, Some err_manager_draining)"
    using d(1) assms(2) by (simp add: mgr_start_def or_else_def)
  moreover have "list_all (\<lambda>(sid, x). ms_finished (sess (drain_begin m) x)
        \<and> (ms_complete (sess (drain_begin m) x) \<or> ms_attached (sess (drain_begin m) x))) (mg_sessions m)"
    unfolding list_all_iff
  proof (clarify, intro conjI)
    fix sid x assume p: "(sid, x) \<in> set (mg_sessions m)"
    then show f: "ms_finished (sess (drain_begin m) x)" using d(3) by (auto simp: list_all_iff)
    have "x < length (mg_heap (drain_begin m))" using bound p d(2) by (auto simp: list_all_iff)
    then show "ms_complete (sess (drain_begin m) x) \<or> ms_attached (sess (drain_begin m) x)"
      using sess_okD(4,7) [OF mgr_invD(2) [OF registry.reach_inv [OF r]]] f by blast
  qed
  ultimately show ?thesis using r by simp
qed

theorem drain_finishes_witness:
  "mgr_start demo_config StartStream 12 (drain_begin demo_started)
     = (drain_begin demo_started, Some err_manager_draining)"
  using drain_finishes [OF demo_started_reachable demo_config_valid] by blast

section \<open>Races\<close>

text \<open>
  The attachment timer publishes its terminal failure before it looks whether the session
  was attached in the meantime. So a session that attached just after the timer fired goes on
  running while its control channel has been told that it failed for good.
\<close>

definition demo_fired :: manager where
  "demo_fired = (let m = fst (attach_control (UUID ''s1'') demo_started)
     in put_sess 0 ((sess m 0)\<lparr>ms_timer := TimerFired\<rparr>) m)"

definition demo_race :: manager where
  "demo_race = timer_callback 0 13 (fst (attach_begin demo_metadata 12 demo_fired))"

lemma demo_control:
  "attach_control (UUID ''s1'') demo_started =
     (put_sess 0 ((sess demo_started 0)\<lparr>ms_control := Some 0, ms_control_open := True\<rparr>)
       (demo_started\<lparr>mg_chans := [\<lparr>ch_buf = [], ch_closed = False\<rparr>],
          mg_attachments := [\<lparr>ca_id = UUID ''s1'', ca_session = 0, ca_events = 0, ca_once = False\<rparr>]\<rparr>),
      Inr \<lparr>ca_id = UUID ''s1'', ca_session = 0, ca_events = 0, ca_once = False\<rparr>)"
  by (simp add: attach_control_def demo_started_eval uuid_nil_def control_capacity_def Let_def)

lemma demo_fired_reachable: "mgr_reachable demo_fired"
proof -
  let ?m = "fst (attach_control (UUID ''s1'') demo_started)"
  have "mgr_reachable ?m"
    by (rule reach_step [OF demo_started_reachable]) (rule step_control, subst demo_control, simp add: demo_control)
  moreover have "mgr_step ?m demo_fired"
    unfolding demo_fired_def Let_def
    by (rule step_fire) (simp_all add: demo_control demo_started_eval)
  ultimately show ?thesis by (rule reach_step)
qed

lemma demo_fired_attach:
  "\<exists>m. attach_begin demo_metadata 12 demo_fired = (m, Inr 0) \<and> ms_timer (sess m 0) = TimerFired
     \<and> ms_attached (sess m 0) \<and> \<not> ms_finished (sess m 0) \<and> 0 < length (mg_heap m)
     \<and> mg_chans m = [\<lparr>ch_buf = [], ch_closed = False\<rparr>] \<and> ms_control (sess m 0) = Some 0
     \<and> ms_control_open (sess m 0)"
  by (simp add: demo_fired_def demo_control Let_def attach_begin_def demo_started_eval demo_metadata_def
      demo_config_def put_sess_def timer_stop_def)

theorem timer_race:
  "\<exists>m x ev. mgr_reachable m \<and> map_of (mg_sessions m) (UUID ''s1'') = Some x
     \<and> ms_attached (sess m x) \<and> \<not> ms_finished (sess m x)
     \<and> ch_buf (mg_chans m ! 0) = [ev]
     \<and> ev_failure ev = Some \<lparr>fe_source = ''media'', fe_code = failure_attach_timeout,
          fe_message = ''media session attachment timed out'', fe_terminal = True\<rparr>"
proof -
  obtain m where m: "attach_begin demo_metadata 12 demo_fired = (m, Inr 0)"
      "ms_timer (sess m 0) = TimerFired" "ms_attached (sess m 0)" "\<not> ms_finished (sess m 0)"
      "0 < length (mg_heap m)" "mg_chans m = [\<lparr>ch_buf = [], ch_closed = False\<rparr>]"
      "ms_control (sess m 0) = Some 0" "ms_control_open (sess m 0)"
    using demo_fired_attach by blast
  have rm: "mgr_reachable m" by (rule reach_step [OF demo_fired_reachable step_attach [OF m(1)]])
  let ?m' = "timer_callback 0 13 m"
  let ?ev = "terminal_failure_event failure_attach_timeout ''media session attachment timed out'' 13"
  have rm': "mgr_reachable ?m'"
    by (rule reach_steps [OF rm timer_callback_steps [OF registry.reach_inv [OF rm] m(5,2)]])
  have cb: "?m' = m\<lparr>mg_chans := [\<lparr>ch_buf = [?ev], ch_closed = False\<rparr>]\<rparr>"
    using m by (simp add: timer_callback_def publish_def chan_send_def finish_unattached_def Let_def
        terminal_failure_event_def control_capacity_def event_tool_call_def event_error_def)
  have "mg_sessions m = [(UUID ''s1'', 0)]"
    using m(1) by (auto elim!: attach_begin_cases simp: demo_fired_def demo_control demo_started_eval Let_def)
  with rm' m show ?thesis
    by (intro exI [of _ ?m'] exI [of _ 0] exI [of _ ?ev])
      (simp add: cb terminal_failure_event_def)
qed

text \<open>
  \<open>Stop\<close> leaves the removal to the branch of its \<open>select\<close> in which the session is
  complete. When the context is done as well and its branch is taken, an unattached session
  stays registered, finished, without a status and with its timer stopped, so nothing removes
  it later and it keeps occupying capacity.
\<close>

theorem stop_cancelled_keeps_slot:
  assumes "mgr_reachable m" "map_of (mg_sessions m) sid = Some x"
    and "\<not> ms_attached (sess m x)" "ms_timer (sess m x) = TimerArmed"
    and "stop_begin sid m = (m1, Inr x)" "stop_end sid x True m1 = (m2, r)"
  shows "r = Some err_canceled \<and> map_of (mg_sessions m2) sid = Some x \<and> mgr_active m2 = mgr_active m
    \<and> ms_complete (sess m2 x) \<and> mgr_status sid m2 = None \<and> ms_timer (sess m2 x) = TimerStopped"
proof -
  have inv: "mgr_inv m" by (rule registry.reach_inv [OF assms(1)])
  note x = registry_heap(1) [OF inv assms(2)]
  have m1: "m1 = finish x m" "m2 = m1" "r = Some err_canceled"
    using assms(2,5,6) by (auto simp: stop_begin_def stop_end_def)
  obtain s where s: "mg_heap m1 = (mg_heap m)[x := s]" "ms_attached s = ms_attached (sess m x)"
      "ms_timer s = timer_stop (ms_timer (sess m x))"
    using finish_heap(1) [OF x] m1(1) by blast
  have "ms_complete (sess m1 x)"
    using stop_marks [OF assms(1,5)] s assms(3) x by auto
  then show ?thesis
    using m1 s assms(2,4) x finish_heap(2) [OF x] stop_marks [OF assms(1,5)]
    by (simp add: mgr_active_def timer_stop_def)
qed

theorem stop_cancelled_keeps_slot_witness:
  "\<exists>m2. map_of (mg_sessions m2) (UUID ''s1'') = Some 0 \<and> mgr_active m2 = 1 \<and> mgr_status (UUID ''s1'') m2 = None"
proof -
  have b: "stop_begin (UUID ''s1'') demo_started = (finish 0 demo_started, Inr 0)"
    by (simp add: stop_begin_def demo_started_eval)
  have l: "map_of (mg_sessions demo_started) (UUID ''s1'') = Some 0" by (simp add: demo_started_eval)
  have e: "stop_end (UUID ''s1'') 0 True (finish 0 demo_started) = (finish 0 demo_started, Some err_canceled)"
    by (simp add: stop_end_def)
  show ?thesis
    using stop_cancelled_keeps_slot [OF demo_started_reachable l demo_started_eval(4,7) b e]
    by (auto simp: mgr_active_def demo_started_eval)
qed

end
