(* ===== verification/Media_Pump.thy ===== *)
theory Media_Pump
  imports Media_Manager "HOL-Library.Sublist"
begin

text \<open>
  The media pump (\<open>pump\<close> in \<open>manager.go\<close>): five goroutines over two audio queues and two
  atomic flags. Each goroutine is a program counter (\<open>writer\<close>, \<open>source\<close>, \<open>player\<close>, \<open>watcher\<close>,
  and the reader, which holds nothing between its iterations) and one definition per atomic
  action: a channel operation, a mutex region, an atomic load, store or swap, or a call of the
  transport or the provider, whose outcome is the argument. \<open>pump_step\<close> interleaves them.
  Four ghost fields record what was received, written, generated and played.
\<close>

section \<open>State\<close>

datatype writer = W_Pop | W_Popped audio_frame | W_Send audio_frame | W_Gone
datatype source = S_Recv | S_Check audio_frame | S_Push audio_frame | S_Gone
datatype player = P_Pop | P_Popped audio_frame | P_Check audio_frame | P_Start audio_frame
  | P_Send audio_frame | P_Observe | P_Gone
datatype watcher = E_Recv | E_Switch event | E_Playing | E_Suppress | E_Clear
  | E_Cleared audio_frame | E_Interrupt | E_ClearPlayback | E_Gone

record pump =
  pu_input :: audio_queue
  pu_output :: audio_queue
  pu_playback :: bool
  pu_suppress :: bool
  pu_turn :: int
  pu_done :: bool
  pu_err :: "go_err option"
  pu_metrics :: media_metrics
  pu_reading :: bool
  pu_writer :: writer
  pu_source :: source
  pu_player :: player
  pu_watcher :: watcher
  pu_received :: "audio_frame list"
  pu_written :: "audio_frame list"
  pu_generated :: "audio_frame list"
  pu_played :: "audio_frame list"

definition pump_start :: "runtime_limits \<Rightarrow> media_metrics \<Rightarrow> pump" where
  "pump_start l mm =
     \<lparr>pu_input = new_audio_queue (input_queue_duration l) err_input_latency,
      pu_output = new_audio_queue (output_queue_duration l) err_output_latency,
      pu_playback = False, pu_suppress = False, pu_turn = 0, pu_done = False, pu_err = None,
      pu_metrics = mm, pu_reading = True, pu_writer = W_Pop, pu_source = S_Recv,
      pu_player = P_Pop, pu_watcher = E_Recv,
      pu_received = [], pu_written = [], pu_generated = [], pu_played = []\<rparr>"

text \<open>A goroutine of the group returns: the first error is kept and cancels the others.\<close>

definition group_fail :: "go_err \<Rightarrow> pump \<Rightarrow> pump" where
  "group_fail e p =
     p\<lparr>pu_err := (case pu_err p of None \<Rightarrow> Some e | Some e' \<Rightarrow> Some e'), pu_done := True\<rparr>"

text \<open>The receive of a queue without its bookkeeping, which \<open>queue_took\<close> is.\<close>

definition queue_take :: "audio_queue \<Rightarrow> (audio_frame \<times> audio_queue) option" where
  "queue_take q = (case q_frames q of [] \<Rightarrow> None | f # rest \<Rightarrow> Some (f, q\<lparr>q_frames := rest\<rparr>))"

lemma queue_recv_take:
  "queue_recv q = map_option (\<lambda>(f, q'). (f, queue_took f q')) (queue_take q)"
  by (simp add: queue_recv_def queue_take_def split: list.split)

section \<open>The goroutines\<close>

text \<open>From the caller to the input queue.\<close>

definition reader_step :: "runtime_limits \<Rightarrow> go_err + audio_frame \<Rightarrow> pump \<Rightarrow> pump" where
  "reader_step l r p =
     (case r of
        Inl e \<Rightarrow> (group_fail e p)\<lparr>pu_reading := False\<rparr>
      | Inr f \<Rightarrow>
          (case frame_validate f of
             Some e \<Rightarrow> (group_fail e p)\<lparr>pu_reading := False\<rparr>
           | None \<Rightarrow>
               if frame_duration f > max_frame_duration l
               then (group_fail err_frame_duration p)\<lparr>pu_reading := False\<rparr>
               else (case queue_push f (pu_input p) of
                       Inl e \<Rightarrow> (group_fail e p)\<lparr>pu_reading := False\<rparr>
                     | Inr q \<Rightarrow> p\<lparr>pu_input := q, pu_received := pu_received p @ [f]\<rparr>)))"

text \<open>A write with a timeout: the deadline is looked at before the error.\<close>

datatype send_outcome = SendDone "go_err option" | SendTimedOut

text \<open>From the input queue to the provider.\<close>

definition writer_take :: "pump \<Rightarrow> pump" where
  "writer_take p = (case queue_take (pu_input p) of
      None \<Rightarrow> p | Some (f, q) \<Rightarrow> p\<lparr>pu_input := q, pu_writer := W_Popped f\<rparr>)"

definition writer_book :: "audio_frame \<Rightarrow> pump \<Rightarrow> pump" where
  "writer_book f p = p\<lparr>pu_input := queue_took f (pu_input p), pu_writer := W_Send f\<rparr>"

definition writer_send :: "audio_frame \<Rightarrow> send_outcome \<Rightarrow> pump \<Rightarrow> pump" where
  "writer_send f out p =
     (let p' = p\<lparr>pu_written := pu_written p @ [f]\<rparr>
      in case out of
           SendTimedOut \<Rightarrow> (group_fail err_provider_write_timeout p')\<lparr>pu_writer := W_Gone\<rparr>
         | SendDone (Some e) \<Rightarrow> (group_fail e p')\<lparr>pu_writer := W_Gone\<rparr>
         | SendDone None \<Rightarrow> p'\<lparr>pu_writer := W_Pop\<rparr>)"

text \<open>From the provider to the output queue; \<open>None\<close> is its closed audio channel.\<close>

definition source_recv :: "runtime_limits \<Rightarrow> audio_frame option \<Rightarrow> pump \<Rightarrow> pump" where
  "source_recv l r p =
     (case r of
        None \<Rightarrow> (group_fail err_eof p)\<lparr>pu_source := S_Gone\<rparr>
      | Some f \<Rightarrow>
          (let p' = p\<lparr>pu_generated := pu_generated p @ [f]\<rparr>
           in case frame_validate f of
                Some e \<Rightarrow> (group_fail e p')\<lparr>pu_source := S_Gone\<rparr>
              | None \<Rightarrow>
                  if frame_duration f > max_frame_duration l
                  then (group_fail err_frame_duration p')\<lparr>pu_source := S_Gone\<rparr>
                  else p'\<lparr>pu_source := S_Check f\<rparr>))"

definition source_check :: "audio_frame \<Rightarrow> pump \<Rightarrow> pump" where
  "source_check f p = p\<lparr>pu_source := (if pu_suppress p then S_Recv else S_Push f)\<rparr>"

definition source_push :: "audio_frame \<Rightarrow> pump \<Rightarrow> pump" where
  "source_push f p =
     (case queue_push f (pu_output p) of
        Inl e \<Rightarrow> (group_fail e p)\<lparr>pu_source := S_Gone\<rparr>
      | Inr q \<Rightarrow> p\<lparr>pu_output := q, pu_source := S_Recv\<rparr>)"

text \<open>From the output queue to the caller.\<close>

definition player_take :: "pump \<Rightarrow> pump" where
  "player_take p = (case queue_take (pu_output p) of
      None \<Rightarrow> p | Some (f, q) \<Rightarrow> p\<lparr>pu_output := q, pu_player := P_Popped f\<rparr>)"

definition player_book :: "audio_frame \<Rightarrow> pump \<Rightarrow> pump" where
  "player_book f p = p\<lparr>pu_output := queue_took f (pu_output p), pu_player := P_Check f\<rparr>"

definition player_check :: "audio_frame \<Rightarrow> pump \<Rightarrow> pump" where
  "player_check f p = p\<lparr>pu_player := (if pu_suppress p then P_Pop else P_Start f)\<rparr>"

definition player_start :: "audio_frame \<Rightarrow> pump \<Rightarrow> pump" where
  "player_start f p = p\<lparr>pu_playback := True, pu_player := P_Send f\<rparr>"

definition player_send :: "audio_frame \<Rightarrow> send_outcome \<Rightarrow> pump \<Rightarrow> pump" where
  "player_send f out p =
     (let p' = p\<lparr>pu_played := pu_played p @ [f]\<rparr>
      in case out of
           SendTimedOut \<Rightarrow> (group_fail err_playback_write_timeout p')\<lparr>pu_player := P_Gone\<rparr>
         | SendDone (Some e) \<Rightarrow> (group_fail e p')\<lparr>pu_player := P_Gone\<rparr>
         | SendDone None \<Rightarrow> p'\<lparr>pu_player := P_Observe\<rparr>)"

text \<open>\<open>observeFirstPlayback\<close>: the turn ends; its time 0 stands for Go's zero time.\<close>

definition observe_first_playback :: "int \<Rightarrow> pump \<Rightarrow> pump" where
  "observe_first_playback now p =
     p\<lparr>pu_turn := 0,
       pu_metrics := (if pu_turn p = 0 then pu_metrics p
                      else observe_turn_latency (now - pu_turn p) (pu_metrics p)),
       pu_player := P_Pop\<rparr>"

definition mark_turn :: "int \<Rightarrow> int \<Rightarrow> pump \<Rightarrow> pump" where
  "mark_turn at now p = p\<lparr>pu_turn := (if at = 0 then now else at)\<rparr>"

text \<open>The provider's events; \<open>published\<close> is what \<open>publish\<close> answered.\<close>

definition watcher_recv :: "event option \<Rightarrow> go_err option \<Rightarrow> pump \<Rightarrow> pump" where
  "watcher_recv r published p =
     (case r of
        None \<Rightarrow> (group_fail err_eof p)\<lparr>pu_watcher := E_Gone\<rparr>
      | Some ev \<Rightarrow>
          (case published of
             Some e \<Rightarrow> (group_fail e p)\<lparr>pu_watcher := E_Gone\<rparr>
           | None \<Rightarrow> p\<lparr>pu_watcher := E_Switch ev\<rparr>))"

definition watcher_switch :: "event \<Rightarrow> int \<Rightarrow> pump \<Rightarrow> pump" where
  "watcher_switch ev now p =
     (if ev_type ev = event_error then
        (case ev_failure ev of
           Some fl \<Rightarrow>
             if fe_terminal fl
             then (group_fail (Wrap ''%w: %s'' [fe_message fl] err_provider_failure) p)\<lparr>pu_watcher := E_Gone\<rparr>
             else p\<lparr>pu_watcher := E_Recv\<rparr>
         | None \<Rightarrow> p\<lparr>pu_watcher := E_Recv\<rparr>)
      else if ev_type ev = event_response_started
      then p\<lparr>pu_suppress := False, pu_watcher := E_Playing\<rparr>
      else if ev_type ev = event_response_stopped
      then p\<lparr>pu_playback := False, pu_watcher := E_Recv\<rparr>
      else if ev_type ev = event_speech_stopped
      then (mark_turn (ev_occurred_at ev) now p)\<lparr>pu_watcher := E_Recv\<rparr>
      else if ev_type ev = event_speech_started
      then p\<lparr>pu_playback := False, pu_watcher := (if pu_playback p then E_Suppress else E_Recv)\<rparr>
      else p\<lparr>pu_watcher := E_Recv\<rparr>)"

definition watcher_playing :: "pump \<Rightarrow> pump" where
  "watcher_playing p = p\<lparr>pu_playback := True, pu_watcher := E_Recv\<rparr>"

text \<open>The barge-in: suppress, empty the queue frame by frame, interrupt, clear the transport.\<close>

definition watcher_suppress :: "pump \<Rightarrow> pump" where
  "watcher_suppress p = p\<lparr>pu_suppress := True, pu_watcher := E_Clear\<rparr>"

definition watcher_clear :: "pump \<Rightarrow> pump" where
  "watcher_clear p = (case queue_take (pu_output p) of
      None \<Rightarrow> p\<lparr>pu_watcher := E_Interrupt\<rparr>
    | Some (f, q) \<Rightarrow> p\<lparr>pu_output := q, pu_watcher := E_Cleared f\<rparr>)"

definition watcher_book :: "audio_frame \<Rightarrow> pump \<Rightarrow> pump" where
  "watcher_book f p = p\<lparr>pu_output := queue_took f (pu_output p), pu_watcher := E_Clear\<rparr>"

definition watcher_interrupt :: "go_err option \<Rightarrow> pump \<Rightarrow> pump" where
  "watcher_interrupt r p =
     (case r of
        Some e \<Rightarrow> (group_fail e p)\<lparr>pu_watcher := E_Gone\<rparr>
      | None \<Rightarrow> p\<lparr>pu_watcher := E_ClearPlayback\<rparr>)"

definition watcher_clear_playback :: "go_err option \<Rightarrow> pump \<Rightarrow> pump" where
  "watcher_clear_playback r p =
     (case r of
        Some e \<Rightarrow> (group_fail e p)\<lparr>pu_watcher := E_Gone\<rparr>
      | None \<Rightarrow> p\<lparr>pu_watcher := E_Recv\<rparr>)"

section \<open>Interleavings\<close>

text \<open>
  The frames the transport and the provider deliver are shorter than 2^34 bytes, which the
  memory of the process gives. A goroutine that waits in a \<open>select\<close> or a \<open>Pop\<close> may return
  once the session's or the group's context is done.
\<close>

definition deliverable :: "audio_frame \<Rightarrow> bool" where
  "deliverable f \<longleftrightarrow> length (frame_data f) < 2 ^ 34"

inductive pump_step :: "runtime_limits \<Rightarrow> pump \<Rightarrow> pump \<Rightarrow> bool" for l where
  cancel: "pump_step l p (p\<lparr>pu_done := True\<rparr>)"
| read: "pu_reading p \<Longrightarrow> (\<And>f. r = Inr f \<Longrightarrow> deliverable f) \<Longrightarrow> pump_step l p (reader_step l r p)"
| write_take: "pu_writer p = W_Pop \<Longrightarrow> pump_step l p (writer_take p)"
| write_stop: "pu_writer p = W_Pop \<Longrightarrow> pu_done p \<Longrightarrow> pump_step l p ((group_fail e p)\<lparr>pu_writer := W_Gone\<rparr>)"
| write_book: "pu_writer p = W_Popped f \<Longrightarrow> pump_step l p (writer_book f p)"
| write_send: "pu_writer p = W_Send f \<Longrightarrow> pump_step l p (writer_send f out p)"
| gen_recv: "pu_source p = S_Recv \<Longrightarrow> (\<And>f. g = Some f \<Longrightarrow> deliverable f) \<Longrightarrow> pump_step l p (source_recv l g p)"
| gen_stop: "pu_source p = S_Recv \<Longrightarrow> pu_done p \<Longrightarrow> pump_step l p ((group_fail e p)\<lparr>pu_source := S_Gone\<rparr>)"
| gen_check: "pu_source p = S_Check f \<Longrightarrow> pump_step l p (source_check f p)"
| gen_push: "pu_source p = S_Push f \<Longrightarrow> pump_step l p (source_push f p)"
| play_take: "pu_player p = P_Pop \<Longrightarrow> pump_step l p (player_take p)"
| play_stop: "pu_player p = P_Pop \<Longrightarrow> pu_done p \<Longrightarrow> pump_step l p ((group_fail e p)\<lparr>pu_player := P_Gone\<rparr>)"
| play_book: "pu_player p = P_Popped f \<Longrightarrow> pump_step l p (player_book f p)"
| play_check: "pu_player p = P_Check f \<Longrightarrow> pump_step l p (player_check f p)"
| play_start: "pu_player p = P_Start f \<Longrightarrow> pump_step l p (player_start f p)"
| play_send: "pu_player p = P_Send f \<Longrightarrow> pump_step l p (player_send f out p)"
| play_observe: "pu_player p = P_Observe \<Longrightarrow> pump_step l p (observe_first_playback now p)"
| watch_recv: "pu_watcher p = E_Recv \<Longrightarrow> pump_step l p (watcher_recv r published p)"
| watch_stop: "pu_watcher p = E_Recv \<Longrightarrow> pu_done p \<Longrightarrow> pump_step l p ((group_fail e p)\<lparr>pu_watcher := E_Gone\<rparr>)"
| watch_switch: "pu_watcher p = E_Switch ev \<Longrightarrow> pump_step l p (watcher_switch ev now p)"
| watch_playing: "pu_watcher p = E_Playing \<Longrightarrow> pump_step l p (watcher_playing p)"
| watch_suppress: "pu_watcher p = E_Suppress \<Longrightarrow> pump_step l p (watcher_suppress p)"
| watch_clear: "pu_watcher p = E_Clear \<Longrightarrow> pump_step l p (watcher_clear p)"
| watch_book: "pu_watcher p = E_Cleared f \<Longrightarrow> pump_step l p (watcher_book f p)"
| watch_interrupt: "pu_watcher p = E_Interrupt \<Longrightarrow> pump_step l p (watcher_interrupt r p)"
| watch_clear_playback: "pu_watcher p = E_ClearPlayback \<Longrightarrow> pump_step l p (watcher_clear_playback r p)"

lemmas pump_defs = group_fail_def reader_step_def writer_take_def writer_book_def writer_send_def
  source_recv_def source_check_def source_push_def player_take_def player_book_def
  player_check_def player_start_def player_send_def observe_first_playback_def mark_turn_def
  watcher_recv_def watcher_switch_def watcher_playing_def watcher_suppress_def watcher_clear_def
  watcher_book_def watcher_interrupt_def watcher_clear_playback_def queue_take_def

end
