(* ===== verification/Pump_Safety.thy ===== *)
theory Pump_Safety
  imports Media_Pump
begin

text \<open>
  What the pump does to the audio: the caller's frames reach the provider complete and in
  order, the provider's frames are played in order with omissions only, both queues stay
  within their latency budgets, and a barge-in silences playback.
\<close>

section \<open>The load of a queue with frames not yet booked\<close>

text \<open>
  Between a receive and its bookkeeping the counter still holds the received frame. \<open>n\<close> is the
  duration of the frames in that state.
\<close>

definition load_ok :: "audio_queue \<Rightarrow> int \<Rightarrow> bool" where
  "load_ok q n \<longleftrightarrow>
     q_queued q = sum_list (map frame_duration (q_frames q)) + n \<and> 0 \<le> n
     \<and> q_queued q \<le> q_max q \<and> q_max q < 2 ^ 62 \<and> list_all frame_fits (q_frames q)"

lemma fits_sum_nonneg: "list_all frame_fits fs \<Longrightarrow> 0 \<le> sum_list (map frame_duration fs)"
  by (induction fs) (auto simp: frame_fits_def)

lemma load_new [inv_rules]: "0 \<le> m \<Longrightarrow> m < 2 ^ 62 \<Longrightarrow> load_ok (new_audio_queue m e) 0"
  by (simp add: load_ok_def new_audio_queue_def)

lemma load_bound:
  assumes "load_ok q n"
  shows "sum_list (map frame_duration (q_frames q)) \<le> q_max q"
  using assms by (simp add: load_ok_def)

lemma load_push [inv_rules]:
  assumes "load_ok q n" "frame_fits f" "queue_push f q = Inr q'"
  shows "load_ok q' n"
proof -
  have "0 \<le> q_queued q" and "q_queued q < 2 ^ 62"
    using assms(1) fits_sum_nonneg [of "q_frames q"] by (auto simp: load_ok_def)
  with assms(2) have "wrap64 (q_queued q + frame_duration f) = q_queued q + frame_duration f"
    by (intro wrap64_id) (auto simp: in_int64_def frame_fits_def)
  with assms show ?thesis by (auto simp: queue_push_def load_ok_def Let_def split: if_splits)
qed

lemma load_take [inv_rules]:
  assumes "load_ok q n" "queue_take q = Some (f, q')"
  shows "load_ok q' (frame_duration f + n)" "frame_fits f"
  using assms by (auto simp: load_ok_def queue_take_def frame_fits_def split: list.splits)

lemma load_took [inv_rules]:
  assumes "load_ok q (frame_duration f + n)" "frame_fits f" "0 \<le> n"
  shows "load_ok (queue_took f q) n"
proof -
  note s = fits_sum_nonneg [of "q_frames q"]
  have "wrap64 (q_queued q - frame_duration f) = q_queued q - frame_duration f"
    using assms s by (intro wrap64_id) (auto simp: load_ok_def frame_fits_def in_int64_def)
  with assms s show ?thesis by (auto simp: load_ok_def queue_took_def Let_def frame_fits_def)
qed

lemma took_frames [simp]: "q_frames (queue_took f q) = q_frames q" "q_max (queue_took f q) = q_max q"
  by (simp_all add: queue_took_def Let_def)

lemma push_frames:
  "queue_push f q = Inr q' \<Longrightarrow> q_frames q' = q_frames q @ [f] \<and> q_max q' = q_max q"
  by (rule audio.put_items)

section \<open>The invariant\<close>

definition dur1 :: "audio_frame list \<Rightarrow> int" where
  "dur1 fs = sum_list (map frame_duration fs)"

lemma dur1_simps [simp]: "dur1 [] = 0" "dur1 [f] = frame_duration f"
  by (simp_all add: dur1_def)

fun writer_popped :: "writer \<Rightarrow> audio_frame list" where
  "writer_popped (W_Popped f) = [f]" | "writer_popped _ = []"
fun writer_hand :: "writer \<Rightarrow> audio_frame list" where
  "writer_hand (W_Popped f) = [f]" | "writer_hand (W_Send f) = [f]" | "writer_hand _ = []"
fun source_hand :: "source \<Rightarrow> audio_frame list" where
  "source_hand (S_Check f) = [f]" | "source_hand (S_Push f) = [f]" | "source_hand _ = []"
fun player_popped :: "player \<Rightarrow> audio_frame list" where
  "player_popped (P_Popped f) = [f]" | "player_popped _ = []"
fun player_hand :: "player \<Rightarrow> audio_frame list" where
  "player_hand (P_Popped f) = [f]" | "player_hand (P_Check f) = [f]" | "player_hand (P_Start f) = [f]"
| "player_hand (P_Send f) = [f]" | "player_hand _ = []"
fun watcher_hand :: "watcher \<Rightarrow> audio_frame list" where
  "watcher_hand (E_Cleared f) = [f]" | "watcher_hand _ = []"

definition input_ok :: "runtime_limits \<Rightarrow> pump \<Rightarrow> bool" where
  "input_ok l p \<longleftrightarrow>
     load_ok (pu_input p) (dur1 (writer_popped (pu_writer p)))
     \<and> list_all frame_fits (writer_hand (pu_writer p))
     \<and> q_max (pu_input p) = input_queue_duration l
     \<and> pu_received p = pu_written p @ writer_hand (pu_writer p) @ q_frames (pu_input p)"

definition output_ok :: "runtime_limits \<Rightarrow> pump \<Rightarrow> bool" where
  "output_ok l p \<longleftrightarrow>
     load_ok (pu_output p) (dur1 (player_popped (pu_player p)) + dur1 (watcher_hand (pu_watcher p)))
     \<and> list_all frame_fits (player_hand (pu_player p)) \<and> list_all frame_fits (watcher_hand (pu_watcher p))
     \<and> list_all frame_fits (source_hand (pu_source p))
     \<and> q_max (pu_output p) = output_queue_duration l
     \<and> subseq (pu_played p @ player_hand (pu_player p) @ q_frames (pu_output p)
         @ source_hand (pu_source p)) (pu_generated p)"

definition pump_inv :: "runtime_limits \<Rightarrow> pump \<Rightarrow> bool" where
  "pump_inv l p \<longleftrightarrow> input_ok l p \<and> output_ok l p"

definition pump_init :: "runtime_limits \<Rightarrow> pump \<Rightarrow> bool" where
  "pump_init l p \<longleftrightarrow> limits_validate l = None \<and> input_queue_duration l < 2 ^ 62
     \<and> output_queue_duration l < 2 ^ 62 \<and> (\<exists>mm. p = pump_start l mm)"

abbreviation pump_reachable :: "runtime_limits \<Rightarrow> pump \<Rightarrow> bool" where
  "pump_reachable l \<equiv> reach (pump_init l) (pump_step l)"

lemma deliverable_fits: "deliverable f \<Longrightarrow> frame_validate f = None \<Longrightarrow> frame_fits f"
  by (intro frame_sane_fits) (simp add: frame_sane_def deliverable_def)

text \<open>Each half of the invariant looks at some fields only.\<close>

lemma input_ok_frame:
  "pu_input p' = pu_input p \<Longrightarrow> pu_writer p' = pu_writer p \<Longrightarrow> pu_received p' = pu_received p
     \<Longrightarrow> pu_written p' = pu_written p \<Longrightarrow> input_ok l p' = input_ok l p"
  by (simp add: input_ok_def)

lemma output_ok_frame:
  "pu_output p' = pu_output p \<Longrightarrow> pu_player p' = pu_player p \<Longrightarrow> pu_source p' = pu_source p
     \<Longrightarrow> pu_watcher p' = pu_watcher p \<Longrightarrow> pu_generated p' = pu_generated p
     \<Longrightarrow> pu_played p' = pu_played p \<Longrightarrow> output_ok l p' = output_ok l p"
  by (simp add: output_ok_def)

lemma group_fail_fields [simp]:
  "pu_input (group_fail e p) = pu_input p" "pu_output (group_fail e p) = pu_output p"
  "pu_writer (group_fail e p) = pu_writer p" "pu_player (group_fail e p) = pu_player p"
  "pu_source (group_fail e p) = pu_source p" "pu_watcher (group_fail e p) = pu_watcher p"
  "pu_received (group_fail e p) = pu_received p" "pu_written (group_fail e p) = pu_written p"
  "pu_generated (group_fail e p) = pu_generated p" "pu_played (group_fail e p) = pu_played p"
  "pu_suppress (group_fail e p) = pu_suppress p"
  by (simp_all add: group_fail_def)

text \<open>Dropping the frame in the middle of a subsequence.\<close>

lemma subseq_mid: "subseq (xs @ ys @ zs) ws \<Longrightarrow> subseq (xs @ zs) ws"
  by (rule subseq_order.trans) (auto intro: list_emb_append_mono)

lemma subseq_init: "subseq (xs @ ys) ws \<Longrightarrow> subseq xs ws"
  using subseq_mid [of xs ys "[]"] by simp

lemma subseq_grow: "subseq xs ws \<Longrightarrow> subseq xs (ws @ vs)"
  by (rule subseq_order.trans) auto

section \<open>Preservation\<close>

text \<open>The parts of the invariant an action leaves alone, field by field.\<close>

lemma output_actions_input:
  "input_ok l (source_recv l g p) = input_ok l p" "input_ok l (source_check f p) = input_ok l p"
  "input_ok l (source_push f p) = input_ok l p" "input_ok l (player_take p) = input_ok l p"
  "input_ok l (player_book f p) = input_ok l p" "input_ok l (player_check f p) = input_ok l p"
  "input_ok l (player_start f p) = input_ok l p" "input_ok l (player_send f out p) = input_ok l p"
  "input_ok l (observe_first_playback now p) = input_ok l p"
  "input_ok l (watcher_recv r e p) = input_ok l p" "input_ok l (watcher_switch ev now p) = input_ok l p"
  "input_ok l (watcher_playing p) = input_ok l p" "input_ok l (watcher_suppress p) = input_ok l p"
  "input_ok l (watcher_clear p) = input_ok l p" "input_ok l (watcher_book f p) = input_ok l p"
  "input_ok l (watcher_interrupt e p) = input_ok l p"
  "input_ok l (watcher_clear_playback e p) = input_ok l p"
  by (rule input_ok_frame;
      simp add: pump_defs Let_def split: option.split send_outcome.split sum.split list.split)+

lemma reader_input:
  assumes "input_ok l p" "\<And>f. r = Inr f \<Longrightarrow> deliverable f"
  shows "input_ok l (reader_step l r p)"
proof (cases "\<exists>f q. r = Inr f \<and> frame_validate f = None \<and> frame_duration f \<le> max_frame_duration l
    \<and> queue_push f (pu_input p) = Inr q")
  case True
  then obtain f q where f: "r = Inr f" "frame_validate f = None" "frame_duration f \<le> max_frame_duration l"
      "queue_push f (pu_input p) = Inr q" by blast
  have fits: "frame_fits f" using deliverable_fits assms(2) f(1,2) by blast
  have "load_ok q (dur1 (writer_popped (pu_writer p)))"
    using load_push [OF _ fits f(4)] assms(1) by (simp add: input_ok_def)
  then show ?thesis
    using assms(1) push_frames [OF f(4)] f by (simp add: input_ok_def reader_step_def)
next
  case False
  then have "\<exists>e. reader_step l r p = (group_fail e p)\<lparr>pu_reading := False\<rparr>"
    by (auto simp: reader_step_def split: sum.splits option.splits)
  then obtain e where "reader_step l r p = (group_fail e p)\<lparr>pu_reading := False\<rparr>" by blast
  then show ?thesis using assms(1) by (simp add: input_ok_def)
qed

lemma writer_input:
  "input_ok l p \<Longrightarrow> pu_writer p = W_Pop \<Longrightarrow> input_ok l (writer_take p)"
  "input_ok l p \<Longrightarrow> pu_writer p = W_Popped f \<Longrightarrow> input_ok l (writer_book f p)"
  "input_ok l p \<Longrightarrow> pu_writer p = W_Send f \<Longrightarrow> input_ok l (writer_send f out p)"
  "input_ok l p \<Longrightarrow> pu_writer p = W_Pop \<Longrightarrow> input_ok l ((group_fail e p)\<lparr>pu_writer := W_Gone\<rparr>)"
proof -
  show "input_ok l (writer_take p)" if "input_ok l p" "pu_writer p = W_Pop"
  proof (cases "queue_take (pu_input p)")
    case (Some fq)
    obtain f q where fq: "fq = (f, q)" by (cases fq)
    with Some that load_take [of "pu_input p" 0 f q] show ?thesis
      by (auto simp: input_ok_def writer_take_def queue_take_def split: list.splits)
  qed (use that in \<open>simp add: writer_take_def\<close>)
  show "input_ok l (writer_book f p)" if "input_ok l p" "pu_writer p = W_Popped f"
    using that load_took [of "pu_input p" f 0] by (simp add: input_ok_def writer_book_def)
  show "input_ok l (writer_send f out p)" if "input_ok l p" "pu_writer p = W_Send f"
    using that
    by (auto simp: input_ok_def writer_send_def Let_def split: send_outcome.split option.split)
  show "input_ok l ((group_fail e p)\<lparr>pu_writer := W_Gone\<rparr>)" if "input_ok l p" "pu_writer p = W_Pop"
    using that by (simp add: input_ok_def)
qed

lemma pump_step_input: "pump_step l p p' \<Longrightarrow> input_ok l p \<Longrightarrow> input_ok l p'"
proof (induction rule: pump_step.induct)
  case (read p r)
  then show ?case using reader_input by blast
qed (simp_all add: output_actions_input writer_input, simp_all add: input_ok_def)

lemma input_actions_output:
  "output_ok l (reader_step l r p) = output_ok l p" "output_ok l (writer_take p) = output_ok l p"
  "output_ok l (writer_book f p) = output_ok l p" "output_ok l (writer_send f out p) = output_ok l p"
  by (rule output_ok_frame;
      simp add: pump_defs Let_def split: option.split send_outcome.split sum.split list.split)+

lemma source_output:
  assumes "output_ok l p"
  shows "pu_source p = S_Recv \<Longrightarrow> (\<And>f. g = Some f \<Longrightarrow> deliverable f) \<Longrightarrow> output_ok l (source_recv l g p)"
    and "pu_source p = S_Check f \<Longrightarrow> output_ok l (source_check f p)"
    and "pu_source p = S_Push f \<Longrightarrow> output_ok l (source_push f p)"
proof -
  show "output_ok l (source_recv l g p)" if "pu_source p = S_Recv" "\<And>f. g = Some f \<Longrightarrow> deliverable f"
  proof (cases g)
    case (Some f)
    have s: "subseq (pu_played p @ player_hand (pu_player p) @ q_frames (pu_output p)) (pu_generated p)"
      using assms that(1) by (simp add: output_ok_def)
    have s1: "subseq (pu_played p @ player_hand (pu_player p) @ q_frames (pu_output p) @ [f])
        (pu_generated p @ [f])"
      using list_emb_append_mono [OF s, of "[f]" "[f]"] by simp
    have "frame_validate f = None \<Longrightarrow> frame_fits f" using deliverable_fits that(2) Some by blast
    with assms that(1) Some s1 subseq_grow [OF s] show ?thesis
      by (auto simp: output_ok_def source_recv_def Let_def split: option.split)
  qed (use assms that(1) in \<open>simp add: output_ok_def source_recv_def\<close>)
  show "output_ok l (source_check f p)" if "pu_source p = S_Check f"
    using assms that subseq_init [of "pu_played p @ player_hand (pu_player p) @ q_frames (pu_output p)" "[f]"]
    by (auto simp: output_ok_def source_check_def)
  show "output_ok l (source_push f p)" if "pu_source p = S_Push f"
  proof (cases "queue_push f (pu_output p)")
    case (Inl e)
    with assms that subseq_init [of "pu_played p @ player_hand (pu_player p) @ q_frames (pu_output p)" "[f]"]
    show ?thesis by (auto simp: output_ok_def source_push_def)
  next
    case (Inr q)
    with assms that push_frames [OF Inr] load_push [OF _ _ Inr] show ?thesis
      by (simp add: output_ok_def source_push_def)
  qed
qed

lemma player_output:
  assumes "output_ok l p"
  shows "pu_player p = P_Pop \<Longrightarrow> output_ok l (player_take p)"
    and "pu_player p = P_Pop \<Longrightarrow> output_ok l ((group_fail e p)\<lparr>pu_player := P_Gone\<rparr>)"
    and "pu_player p = P_Popped f \<Longrightarrow> output_ok l (player_book f p)"
    and "pu_player p = P_Check f \<Longrightarrow> output_ok l (player_check f p)"
    and "pu_player p = P_Start f \<Longrightarrow> output_ok l (player_start f p)"
    and "pu_player p = P_Send f \<Longrightarrow> output_ok l (player_send f out p)"
    and "pu_player p = P_Observe \<Longrightarrow> output_ok l (observe_first_playback now p)"
proof -
  show "output_ok l (player_take p)" if "pu_player p = P_Pop"
  proof (cases "queue_take (pu_output p)")
    case (Some fq)
    obtain f q where fq: "fq = (f, q)" by (cases fq)
    with Some have "q_frames (pu_output p) = f # q_frames q \<and> q_max q = q_max (pu_output p)"
      by (auto simp: queue_take_def split: list.splits)
    with Some fq assms that load_take [of "pu_output p" "dur1 (watcher_hand (pu_watcher p))" f q]
    show ?thesis by (simp add: output_ok_def player_take_def)
  qed (use assms that in \<open>simp add: player_take_def\<close>)
  show "output_ok l (player_book f p)" if "pu_player p = P_Popped f"
  proof -
    have "0 \<le> dur1 (watcher_hand (pu_watcher p))"
      using assms fits_sum_nonneg by (simp add: output_ok_def dur1_def)
    with assms that load_took [of "pu_output p" f] show ?thesis
      by (simp add: output_ok_def player_book_def)
  qed
  show "output_ok l (player_check f p)" if "pu_player p = P_Check f"
    using assms that subseq_mid [of "pu_played p" "[f]" "q_frames (pu_output p) @ source_hand (pu_source p)"]
    by (simp add: output_ok_def player_check_def)
  show "output_ok l (player_send f out p)" if "pu_player p = P_Send f"
    using assms that
    by (auto simp: output_ok_def player_send_def Let_def split: send_outcome.split option.split)
qed (use assms in \<open>auto simp: output_ok_def player_start_def observe_first_playback_def\<close>)

lemma watcher_output:
  assumes "output_ok l p"
  shows "pu_watcher p = E_Recv \<Longrightarrow> output_ok l (watcher_recv r published p)"
    and "pu_watcher p = E_Switch ev \<Longrightarrow> output_ok l (watcher_switch ev now p)"
    and "pu_watcher p = E_Playing \<Longrightarrow> output_ok l (watcher_playing p)"
    and "pu_watcher p = E_Suppress \<Longrightarrow> output_ok l (watcher_suppress p)"
    and "pu_watcher p = E_Clear \<Longrightarrow> output_ok l (watcher_clear p)"
    and "pu_watcher p = E_Cleared f \<Longrightarrow> output_ok l (watcher_book f p)"
    and "pu_watcher p = E_Interrupt \<Longrightarrow> output_ok l (watcher_interrupt e p)"
    and "pu_watcher p = E_ClearPlayback \<Longrightarrow> output_ok l (watcher_clear_playback e p)"
proof -
  show "output_ok l (watcher_switch ev now p)" if "pu_watcher p = E_Switch ev"
    using assms that
    by (auto simp: output_ok_def watcher_switch_def mark_turn_def split: option.split)
  show "output_ok l (watcher_clear p)" if "pu_watcher p = E_Clear"
  proof (cases "queue_take (pu_output p)")
    case (Some fq)
    obtain f q where fq: "fq = (f, q)" by (cases fq)
    with Some have q: "q_frames (pu_output p) = f # q_frames q" "q_max q = q_max (pu_output p)"
      by (auto simp: queue_take_def split: list.splits)
    have "subseq (pu_played p @ player_hand (pu_player p) @ q_frames q @ source_hand (pu_source p))
        (pu_generated p)"
      using assms q subseq_mid [of "pu_played p @ player_hand (pu_player p)" "[f]"
          "q_frames q @ source_hand (pu_source p)"] by (simp add: output_ok_def)
    with Some fq assms that q load_take [of "pu_output p" "dur1 (player_popped (pu_player p))" f q]
    show ?thesis by (simp add: output_ok_def watcher_clear_def add.commute)
  qed (use assms that in \<open>simp add: watcher_clear_def output_ok_def\<close>)
  show "output_ok l (watcher_book f p)" if "pu_watcher p = E_Cleared f"
  proof -
    have "list_all frame_fits (player_popped (pu_player p))"
      using assms by (cases "pu_player p") (simp_all add: output_ok_def)
    then have "0 \<le> dur1 (player_popped (pu_player p))"
      using fits_sum_nonneg by (simp add: dur1_def)
    with assms that load_took [of "pu_output p" f] show ?thesis
      by (simp add: output_ok_def watcher_book_def add.commute)
  qed
qed (use assms in \<open>auto simp: output_ok_def watcher_recv_def watcher_playing_def watcher_suppress_def
      watcher_interrupt_def watcher_clear_playback_def split: option.split\<close>)

lemma pump_step_output: "pump_step l p p' \<Longrightarrow> output_ok l p \<Longrightarrow> output_ok l p'"
proof (induction rule: pump_step.induct)
  case (gen_stop p e)
  then show ?case by (simp add: output_ok_def)
next
  case (gen_recv p g)
  then show ?case using source_output(1) by blast
qed (simp_all add: input_actions_output source_output player_output watcher_output,
    simp_all add: output_ok_def)

interpretation pump_safe: safe_system "pump_init l" "pump_step l" "pump_inv l" for l
proof
  fix p p'
  show "pump_init l p \<Longrightarrow> pump_inv l p"
    by (auto simp: pump_init_def pump_inv_def input_ok_def output_ok_def pump_start_def
        limits_validate_def new_audio_queue_def load_ok_def split: if_splits)
  show "pump_inv l p \<Longrightarrow> pump_step l p p' \<Longrightarrow> pump_inv l p'"
    by (auto simp: pump_inv_def intro: pump_step_input pump_step_output)
qed

section \<open>Properties\<close>

text \<open>C30: whatever the goroutines interleave, the caller's audio reaches the provider in order,
  without loss or repetition, and what waits for it is within the input latency budget.\<close>

theorem caller_audio_in_order:
  assumes "pump_reachable l p"
  shows "pu_received p = pu_written p @ writer_hand (pu_writer p) @ q_frames (pu_input p)
    \<and> sum_list (map frame_duration (q_frames (pu_input p))) \<le> input_queue_duration l"
  using pump_safe.reach_inv [OF assms] load_bound [of "pu_input p"]
  by (auto simp: pump_inv_def input_ok_def)

text \<open>What is played to the caller is the provider's audio in its order, with omissions
  only, and what waits to be played is within the output latency budget.\<close>

theorem playback_in_order:
  assumes "pump_reachable l p"
  shows "subseq (pu_played p) (pu_generated p)
    \<and> sum_list (map frame_duration (q_frames (pu_output p))) \<le> output_queue_duration l"
  using pump_safe.reach_inv [OF assms] load_bound [of "pu_output p"] subseq_init [of "pu_played p" _ "pu_generated p"]
  by (auto simp: pump_inv_def output_ok_def)

text \<open>The frame the player is committed to, having seen no suppression.\<close>

fun committed :: "player \<Rightarrow> nat" where
  "committed (P_Start f) = 1" | "committed (P_Send f) = 1" | "committed _ = 0"

lemma suppressed_step:
  assumes "pump_step l p p'" "pu_suppress p"
  shows "length (pu_played p') + committed (pu_player p') \<le> length (pu_played p) + committed (pu_player p)"
  using assms
  by (cases rule: pump_step.cases)
    (simp_all add: pump_defs Let_def split: option.split send_outcome.split sum.split list.split)

text \<open>Once a barge-in has raised the suppression flag, and as long as no new response lowers
  it, at most one more frame, the one the player had already let through, is played.\<close>

theorem barge_in_silences:
  assumes "pu_watcher p = E_Suppress" "(\<lambda>a b. pump_step l a b \<and> pu_suppress a)\<^sup>*\<^sup>* (watcher_suppress p) p'"
  shows "length (pu_played p') \<le> length (pu_played p) + 1"
proof -
  have "length (pu_played p') + committed (pu_player p')
      \<le> length (pu_played (watcher_suppress p)) + committed (pu_player (watcher_suppress p))"
    using assms(2) by (induction rule: rtranclp_induct) (auto dest: suppressed_step)
  moreover have "committed (pu_player p) \<le> 1" by (cases "pu_player p") auto
  ultimately show ?thesis by (simp add: watcher_suppress_def)
qed

section \<open>A run\<close>

definition media_event_of :: "event_type \<Rightarrow> event" where
  "media_event_of ty =
     \<lparr>ev_type = ty, ev_transcript = None, ev_response = None, ev_tool_call = None,
      ev_usage = None, ev_failure = None, ev_provider_id = [], ev_occurred_at = 1\<rparr>"

lemma sample_frame_facts:
  "frame_validate sample_frame = None" "frame_duration sample_frame = 20000000" "deliverable sample_frame"
proof -
  show "frame_validate sample_frame = None" using sample_frame_sane by (simp add: frame_sane_def)
  show "deliverable sample_frame" using sample_frame_sane by (simp add: frame_sane_def deliverable_def)
  show "frame_duration sample_frame = 20000000"
    using frame_duration_exact [OF sample_frame_sane] by (simp add: sample_frame_def second_ns_def)
qed

lemma sample_push:
  "queue_push sample_frame (new_audio_queue 400000000 e) =
     Inr ((new_audio_queue 400000000 e)\<lparr>q_frames := [sample_frame], q_queued := 20000000\<rparr>)"
  "queue_push sample_frame (new_audio_queue 800000000 e) =
     Inr ((new_audio_queue 800000000 e)\<lparr>q_frames := [sample_frame], q_queued := 20000000\<rparr>)"
  by (simp_all add: queue_push_def sample_frame_facts new_audio_queue_def queue_capacity_def wrap64_def)

lemmas demo_pump_simps = pump_start_def default_runtime_limits_def millisecond_ns_def second_ns_def
  sample_frame_facts sample_push [unfolded new_audio_queue_def] media_event_of_def event_response_started_def
  event_response_stopped_def event_speech_started_def event_speech_stopped_def event_error_def
  new_audio_queue_def queue_took_def wrap64_def

abbreviation demo_limits :: runtime_limits where "demo_limits \<equiv> default_runtime_limits"

definition demo_pump :: pump where
  "demo_pump = pump_start demo_limits new_metrics"

lemma demo_pump_reachable: "pump_reachable demo_limits demo_pump"
  by (rule reach_init)
    (auto simp: pump_init_def limits_validate_def demo_pump_def default_runtime_limits_def
      millisecond_ns_def second_ns_def)

text \<open>A response is playing and a frame of it is on its way when the caller starts to speak.\<close>

definition demo_talking :: pump where
  "demo_talking = demo_pump\<lparr>pu_generated := [sample_frame], pu_source := S_Push sample_frame,
     pu_watcher := E_Suppress\<rparr>"

lemma demo_talking_reachable: "pump_reachable demo_limits demo_talking"
proof -
  let ?rs = "media_event_of event_response_started" and ?ss = "media_event_of event_speech_started"
  let ?p1 = "source_check sample_frame (source_recv demo_limits (Some sample_frame) demo_pump)"
  let ?p2 = "watcher_playing (watcher_switch ?rs 1 (watcher_recv (Some ?rs) None ?p1))"
  let ?p3 = "watcher_switch ?ss 1 (watcher_recv (Some ?ss) None ?p2)"
  note defs = pump_defs demo_pump_def demo_pump_simps
  have r1: "pump_reachable demo_limits ?p1"
    by (rule reach_step [OF reach_step [OF demo_pump_reachable gen_recv] gen_check]) (simp_all add: defs)
  have r2: "pump_reachable demo_limits ?p2"
    by (rule reach_step [OF reach_step [OF reach_step [OF r1 watch_recv] watch_switch] watch_playing])
      (simp_all add: defs)
  have "pump_reachable demo_limits ?p3"
    by (rule reach_step [OF reach_step [OF r2 watch_recv] watch_switch]) (simp_all add: defs)
  also have "?p3 = demo_talking" by (simp add: demo_talking_def defs)
  finally show ?thesis .
qed

theorem playback_in_order_witness: "subseq (pu_played demo_talking) [sample_frame]"
  using playback_in_order [OF demo_talking_reachable] by (simp add: demo_talking_def)

definition demo_reading :: pump where
  "demo_reading = writer_send sample_frame (SendDone None) (writer_book sample_frame
     (writer_take (reader_step demo_limits (Inr sample_frame) demo_pump)))"

lemma demo_reading_reachable: "pump_reachable demo_limits demo_reading"
  unfolding demo_reading_def
  by (rule reach_step [OF reach_step [OF reach_step [OF reach_step [OF demo_pump_reachable read]
            write_take] write_book] write_send])
    (simp_all add: pump_defs demo_pump_def demo_pump_simps)

theorem caller_audio_in_order_witness: "pu_written demo_reading = [sample_frame]"
proof -
  have "pu_received demo_reading = [sample_frame]" "pu_writer demo_reading = W_Pop"
    "q_frames (pu_input demo_reading) = []"
    by (simp_all add: demo_reading_def pump_defs demo_pump_def demo_pump_simps Let_def)
  with caller_audio_in_order [OF demo_reading_reachable] show ?thesis by simp
qed

text \<open>Clearing the queue and the transport after the suppression.\<close>

definition demo_silenced :: pump where
  "demo_silenced = watcher_clear_playback None (watcher_interrupt None (watcher_clear
     (watcher_suppress demo_talking)))"

lemma demo_silenced_run:
  "(\<lambda>a b. pump_step demo_limits a b \<and> pu_suppress a)\<^sup>*\<^sup>* (watcher_suppress demo_talking) demo_silenced"
proof -
  let ?q = "\<lambda>a b. pump_step demo_limits a b \<and> pu_suppress a"
  let ?p1 = "watcher_suppress demo_talking"
  note defs = demo_talking_def pump_defs demo_pump_def demo_pump_simps
  have 1: "?q ?p1 (watcher_clear ?p1)"
    by (intro conjI watch_clear) (simp_all add: defs)
  have 2: "?q (watcher_clear ?p1) (watcher_interrupt None (watcher_clear ?p1))"
    by (intro conjI watch_interrupt) (simp_all add: defs)
  have 3: "?q (watcher_interrupt None (watcher_clear ?p1)) demo_silenced"
    unfolding demo_silenced_def by (intro conjI watch_clear_playback) (simp_all add: defs)
  show ?thesis
    by (rule rtranclp.rtrancl_into_rtrancl [of ?q, OF rtranclp.rtrancl_into_rtrancl
          [of ?q, OF rtranclp.rtrancl_into_rtrancl [of ?q, OF rtranclp.rtrancl_refl 1] 2] 3])
qed

theorem barge_in_silences_witness: "length (pu_played demo_silenced) \<le> 1"
  using barge_in_silences [OF _ demo_silenced_run]
  by (simp add: demo_talking_def demo_pump_def pump_start_def)

text \<open>The suppression test and the push of a provider frame are not one action. A frame
  that passed the test before a barge-in is pushed after the queue was cleared, and played once
  the next response has lowered the flag, though it belongs to the interrupted one.\<close>

theorem stale_frame_played:
  "\<exists>p p'. pump_reachable demo_limits p \<and> pu_watcher p = E_Suppress \<and> pu_generated p = [sample_frame]
     \<and> (pump_step demo_limits)\<^sup>*\<^sup>* (watcher_suppress p) demo_silenced
     \<and> (pump_step demo_limits)\<^sup>*\<^sup>* demo_silenced p'
     \<and> pu_generated p' = [sample_frame] \<and> pu_played p' = [sample_frame]"
proof -
  let ?rs = "media_event_of event_response_started"
  let ?p1 = "source_push sample_frame demo_silenced"
  let ?p2 = "watcher_switch ?rs 1 (watcher_recv (Some ?rs) None ?p1)"
  let ?p3 = "player_check sample_frame (player_book sample_frame (player_take ?p2))"
  let ?p4 = "player_send sample_frame (SendDone None) (player_start sample_frame ?p3)"
  note defs = demo_silenced_def demo_talking_def pump_defs demo_pump_def demo_pump_simps
  note steps = rtranclp.rtrancl_into_rtrancl [of "pump_step demo_limits"]
  have s1: "(pump_step demo_limits)\<^sup>*\<^sup>* demo_silenced ?p1"
    by (rule steps [OF rtranclp.rtrancl_refl gen_push]) (simp add: defs)
  have s2: "(pump_step demo_limits)\<^sup>*\<^sup>* demo_silenced ?p2"
    by (rule steps [OF steps [OF s1 watch_recv] watch_switch]) (simp_all add: defs)
  have s3: "(pump_step demo_limits)\<^sup>*\<^sup>* demo_silenced ?p3"
    by (rule steps [OF steps [OF steps [OF s2 play_take] play_book] play_check]) (simp_all add: defs)
  have "(pump_step demo_limits)\<^sup>*\<^sup>* demo_silenced ?p4"
    by (rule steps [OF steps [OF s3 play_start] play_send]) (simp_all add: defs)
  moreover have "pu_generated ?p4 = [sample_frame] \<and> pu_played ?p4 = [sample_frame]"
    by (simp add: defs Let_def)
  moreover have "(pump_step demo_limits)\<^sup>*\<^sup>* (watcher_suppress demo_talking) demo_silenced"
    using demo_silenced_run by (rule rtranclp_mono [THEN predicate2D, rotated]) blast
  moreover have "pu_watcher demo_talking = E_Suppress \<and> pu_generated demo_talking = [sample_frame]"
    by (simp add: demo_talking_def)
  ultimately show ?thesis using demo_talking_reachable by blast
qed

end
