(* ===== verification/Rtp_Bencode.thy ===== *)
theory Rtp_Bencode
  imports Go_Errors
begin

text \<open>
  The bencode codec of the RTPEngine control protocol (\<open>protocol.go\<close>): encoding of Go
  values, the offset-based decoder with the slice expressions written out (an \<open>int\<close> sum
  wraps, a slice out of range panics), that it terminates on every packet, stays within it,
  and that it reads back what the encoder wrote. The interface of a codec is a locale.
\<close>

section \<open>Values and encoding\<close>

text \<open>
  The dynamic types the encoder distinguishes; \<open>GOther\<close> is any other type, named by \<open>%T\<close>.
  A \<open>map[string]any\<close> is an association list with distinct keys.
\<close>

datatype goval =
    GString string
  | GBytes string
  | GInt int
  | GInt64 int
  | GBool bool
  | GStrings "string list"
  | GList "goval list"
  | GMap "(string \<times> goval) list"
  | GOther string

definition encode_bytes :: "string \<Rightarrow> string" where
  "encode_bytes s = nat_dec (length s) @ CHR '':'' # s"

definition encode_integer :: "int \<Rightarrow> string" where
  "encode_integer i = CHR ''i'' # int_dec i @ ''e''"

fun encode_all :: "(go_err + string) list \<Rightarrow> go_err + string" where
  "encode_all [] = Inr []"
| "encode_all (r # rs) = rbind r (\<lambda>s. rbind (encode_all rs) (\<lambda>t. Inr (s @ t)))"

definition encode_entry :: "string \<times> (go_err + string) \<Rightarrow> go_err + string" where
  "encode_entry kr = rbind (snd kr) (\<lambda>s. Inr (encode_bytes (fst kr) @ s))"

primrec encode_value :: "goval \<Rightarrow> go_err + string" where
  "encode_value (GString s) = Inr (encode_bytes s)"
| "encode_value (GBytes s) = Inr (encode_bytes s)"
| "encode_value (GInt i) = Inr (encode_integer i)"
| "encode_value (GInt64 i) = Inr (encode_integer i)"
| "encode_value (GBool b) = Inr (if b then ''i1e'' else ''i0e'')"
| "encode_value (GStrings ss) =
     rbind (encode_all (map (\<lambda>s. Inr (encode_bytes s)) ss)) (\<lambda>s. Inr (''l'' @ s @ ''e''))"
| "encode_value (GList vs) =
     rbind (encode_all (map encode_value vs)) (\<lambda>s. Inr (''l'' @ s @ ''e''))"
| "encode_value (GMap kvs) =
     rbind (encode_all (map encode_entry (sort_key fst (map (map_prod id encode_value) kvs))))
       (\<lambda>s. Inr (''d'' @ s @ ''e''))"
| "encode_value (GOther ty) = Inl (Errf ''unsupported bencode type %T'' [ty])"

section \<open>Decoding\<close>

definition index_byte :: "char \<Rightarrow> string \<Rightarrow> nat option" where
  "index_byte c s = (let n = length (takeWhile (\<lambda>d. d \<noteq> c) s) in if n < length s then Some n else None)"

definition slice :: "nat \<Rightarrow> nat \<Rightarrow> string \<Rightarrow> string" where
  "slice i j s = take (j - i) (drop i s)"

text \<open>
  A call returns a value and the next offset, returns an error, or panics. \<open>NoFuel\<close> ends the
  recursion of the definitions below and is never reached with the fuel \<open>decode_fuel\<close>.
\<close>

datatype 'a decoded = Decoded 'a nat | Failed go_err | Panicked | NoFuel

fun dbind :: "'a decoded \<Rightarrow> ('a \<Rightarrow> nat \<Rightarrow> 'b decoded) \<Rightarrow> 'b decoded" where
  "dbind (Decoded v n) f = f v n"
| "dbind (Failed e) f = Failed e"
| "dbind Panicked f = Panicked"
| "dbind NoFuel f = NoFuel"

definition decode_integer :: "string \<Rightarrow> nat \<Rightarrow> goval decoded" where
  "decode_integer data offset =
     (case index_byte (CHR ''e'') (drop (offset + 1) data) of
        None \<Rightarrow> Failed (Errf ''unterminated bencode integer'' [])
      | Some i \<Rightarrow>
          (let end = i + offset + 1
           in case parse_int64 (slice (offset + 1) end data) of
                None \<Rightarrow> Failed (Errf ''invalid bencode integer: %w'' [])
              | Some v \<Rightarrow> Decoded (GInt64 v) (end + 1)))"

definition decode_string :: "string \<Rightarrow> nat \<Rightarrow> goval decoded" where
  "decode_string data offset =
     (case index_byte (CHR '':'') (drop offset data) of
        None \<Rightarrow> Failed (Errf ''invalid bencode string'' [])
      | Some i \<Rightarrow>
          if i < 1 then Failed (Errf ''invalid bencode string'' [])
          else
            (let colon = i + offset
             in case parse_int64 (slice offset colon data) of
                  None \<Rightarrow> Failed (Errf ''invalid bencode string length'' [])
                | Some len \<Rightarrow>
                    if len < 0 then Failed (Errf ''invalid bencode string length'' [])
                    else
                      (let start = colon + 1; end = wrap64 (int start + len)
                       in if end > int (length data) then Failed (Errf ''truncated bencode string'' [])
                          else if end < int start then Panicked
                          else Decoded (GString (slice start (nat end) data)) (nat end))))"

fun decode_value :: "nat \<Rightarrow> string \<Rightarrow> nat \<Rightarrow> goval decoded"
  and decode_dict :: "nat \<Rightarrow> string \<Rightarrow> (string \<times> goval) list \<Rightarrow> nat \<Rightarrow> goval decoded"
  and decode_list :: "nat \<Rightarrow> string \<Rightarrow> goval list \<Rightarrow> nat \<Rightarrow> goval decoded" where
  "decode_value 0 data offset = NoFuel"
| "decode_value (Suc fuel) data offset =
     (if length data \<le> offset then Failed (Errf ''truncated bencode value'' [])
      else if data ! offset = CHR ''d'' then decode_dict fuel data [] (offset + 1)
      else if data ! offset = CHR ''l'' then decode_list fuel data [] (offset + 1)
      else if data ! offset = CHR ''i'' then decode_integer data offset
      else decode_string data offset)"
| "decode_dict 0 data kvs offset = NoFuel"
| "decode_dict (Suc fuel) data kvs offset =
     (if offset < length data \<and> data ! offset \<noteq> CHR ''e'' then
        dbind (decode_value fuel data offset) (\<lambda>key next.
          case key of
            GString k \<Rightarrow>
              dbind (decode_value fuel data next) (\<lambda>v next.
                decode_dict fuel data (AList.update k v kvs) next)
          | _ \<Rightarrow> Failed (Errf ''bencode dictionary key is not a string'' []))
      else if length data \<le> offset then Failed (Errf ''unterminated bencode dictionary'' [])
      else Decoded (GMap kvs) (offset + 1))"
| "decode_list 0 data vs offset = NoFuel"
| "decode_list (Suc fuel) data vs offset =
     (if offset < length data \<and> data ! offset \<noteq> CHR ''e'' then
        dbind (decode_value fuel data offset) (\<lambda>v next. decode_list fuel data (vs @ [v]) next)
      else if length data \<le> offset then Failed (Errf ''unterminated bencode list'' [])
      else Decoded (GList vs) (offset + 1))"

definition decode_fuel :: "string \<Rightarrow> nat" where
  "decode_fuel data = 2 * length data + 2"

text \<open>\<open>bdecodeMap\<close>: a dictionary and nothing after it.\<close>

definition bdecode_map :: "string \<Rightarrow> (string \<times> goval) list decoded" where
  "bdecode_map data =
     dbind (decode_value (decode_fuel data) data 0) (\<lambda>v offset.
       if offset \<noteq> length data then Failed (Errf ''trailing data after bencode value'' [])
       else case v of
              GMap kvs \<Rightarrow> Decoded kvs offset
            | _ \<Rightarrow> Failed (Errf ''RTPEngine response is not a dictionary'' []))"

section \<open>Progress and bounds\<close>

lemma index_byte_SomeD:
  assumes "index_byte c s = Some n"
  shows "n < length s" "s ! n = c" "\<And>i. i < n \<Longrightarrow> s ! i \<noteq> c"
proof -
  from assms have n: "n = length (takeWhile (\<lambda>d. d \<noteq> c) s)" "n < length s"
    by (auto simp: index_byte_def Let_def split: if_splits)
  then show "n < length s" by simp
  from n show "s ! n = c" using nth_length_takeWhile [of "\<lambda>d. d \<noteq> c" s] by simp
  show "s ! i \<noteq> c" if "i < n" for i
  proof -
    have "takeWhile (\<lambda>d. d \<noteq> c) s ! i \<in> set (takeWhile (\<lambda>d. d \<noteq> c) s)" using that n by simp
    then show ?thesis using that n by (auto dest: set_takeWhileD simp: takeWhile_nth)
  qed
qed

lemma decode_integer_bounds:
  "decode_integer data offset = Decoded v n \<Longrightarrow> offset < n \<and> n \<le> length data"
  by (auto simp: decode_integer_def Let_def dest!: index_byte_SomeD(1) split: option.splits)

lemma decode_string_bounds:
  "decode_string data offset = Decoded v n \<Longrightarrow> offset < n \<and> n \<le> length data"
  by (auto simp: decode_string_def Let_def split: option.splits if_splits)

lemma leaf_fuel [simp]: "decode_integer data offset \<noteq> NoFuel" "decode_string data offset \<noteq> NoFuel"
  by (auto simp: decode_integer_def decode_string_def Let_def split: option.splits)

lemma dbind_Decoded [checks]:
  "dbind r f = Decoded v n \<longleftrightarrow> (\<exists>w m. r = Decoded w m \<and> f w m = Decoded v n)"
  by (cases r) auto

lemma dbind_NoFuel [checks]:
  "dbind r f = NoFuel \<longleftrightarrow> r = NoFuel \<or> (\<exists>w m. r = Decoded w m \<and> f w m = NoFuel)"
  by (cases r) auto

lemma decode_bounds:
  "decode_value fuel data offset = Decoded v n \<Longrightarrow> offset < n \<and> n \<le> length data"
  "decode_dict fuel data kvs offset = Decoded v n \<Longrightarrow> offset < n \<and> n \<le> length data"
  "decode_list fuel data vs offset = Decoded v n \<Longrightarrow> offset < n \<and> n \<le> length data"
proof (induction fuel data offset and fuel data kvs offset and fuel data vs offset
    arbitrary: v n and v n and v n rule: decode_value_decode_dict_decode_list.induct)
  case (2 fuel data offset)
  then show ?case
    by (auto dest: decode_integer_bounds decode_string_bounds split: if_splits)
next
  case (4 fuel data kvs offset)
  show ?case
  proof (cases "offset < length data \<and> data ! offset \<noteq> CHR ''e''")
    case True
    with 4(4) obtain key m where k: "decode_value fuel data offset = Decoded key m"
        "(case key of GString k \<Rightarrow> dbind (decode_value fuel data m) (\<lambda>v n.
            decode_dict fuel data (AList.update k v kvs) n)
          | _ \<Rightarrow> Failed (Errf ''bencode dictionary key is not a string'' [])) = Decoded v n"
      by (auto simp: dbind_Decoded)
    then obtain k w m2 where w: "key = GString k" "decode_value fuel data m = Decoded w m2"
        "decode_dict fuel data (AList.update k w kvs) m2 = Decoded v n"
      by (cases key) (auto simp: dbind_Decoded)
    from 4(1) [OF True k(1)] 4(2) [OF True w(1) w(2)] 4(3) [OF True w(1,3)] show ?thesis by linarith
  qed (use 4(4) in \<open>auto split: if_splits\<close>)
next
  case (6 fuel data vs offset)
  show ?case
  proof (cases "offset < length data \<and> data ! offset \<noteq> CHR ''e''")
    case True
    with 6(3) obtain w m where w: "decode_value fuel data offset = Decoded w m"
        "decode_list fuel data (vs @ [w]) m = Decoded v n"
      by (auto simp: dbind_Decoded)
    from 6(1) [OF True w(1)] 6(2) [OF True w(2)] show ?thesis by linarith
  qed (use 6(3) in \<open>auto split: if_splits\<close>)
qed simp_all

text \<open>Two units of fuel for each byte ahead, one for the call and one for the loop, suffice.\<close>

lemma decode_terminates:
  "2 * (length data - offset) + 1 \<le> fuel \<Longrightarrow> decode_value fuel data offset \<noteq> NoFuel"
  "2 * (length data - offset) + 2 \<le> fuel \<Longrightarrow> decode_dict fuel data kvs offset \<noteq> NoFuel"
  "2 * (length data - offset) + 2 \<le> fuel \<Longrightarrow> decode_list fuel data vs offset \<noteq> NoFuel"
proof (induction fuel data offset and fuel data kvs offset and fuel data vs offset
    rule: decode_value_decode_dict_decode_list.induct)
  case (2 fuel data offset)
  then show ?case by (cases "length data \<le> offset") auto
next
  case (4 fuel data kvs offset)
  show ?case
  proof (cases "offset < length data \<and> data ! offset \<noteq> CHR ''e''")
    case True
    have f: "2 * (length data - offset) + 1 \<le> fuel" using 4(4) by simp
    have later: "2 * (length data - m) + 2 \<le> fuel" if "offset < m" "m \<le> length data" for m
      using f that True by linarith
    show ?thesis
    proof
      assume "decode_dict (Suc fuel) data kvs offset = NoFuel"
      with True 4(1) [OF True f] obtain key m where k: "decode_value fuel data offset = Decoded key m"
          "(case key of GString k \<Rightarrow> dbind (decode_value fuel data m) (\<lambda>v n.
              decode_dict fuel data (AList.update k v kvs) n)
            | _ \<Rightarrow> Failed (Errf ''bencode dictionary key is not a string'' [])) = NoFuel"
        by (auto simp: dbind_NoFuel)
      note b = decode_bounds(1) [OF k(1)]
      from k obtain k' where kk: "key = GString k'" by (cases key) auto
      with k(2) have "dbind (decode_value fuel data m) (\<lambda>v n.
              decode_dict fuel data (AList.update k' v kvs) n) = NoFuel" by simp
      moreover have "decode_value fuel data m \<noteq> NoFuel"
        using 4(2) [OF True kk] later [of m] b by simp
      ultimately obtain w m2 where w: "decode_value fuel data m = Decoded w m2"
          "decode_dict fuel data (AList.update k' w kvs) m2 = NoFuel" by (auto simp: dbind_NoFuel)
      show False using 4(3) [OF True kk] w(2) later [of m2] b decode_bounds(1) [OF w(1)] by simp
    qed
  qed auto
next
  case (6 fuel data vs offset)
  show ?case
  proof (cases "offset < length data \<and> data ! offset \<noteq> CHR ''e''")
    case True
    have f: "2 * (length data - offset) + 1 \<le> fuel" using 6(3) by simp
    show ?thesis
    proof
      assume "decode_list (Suc fuel) data vs offset = NoFuel"
      with True 6(1) [OF True f] obtain w m where w: "decode_value fuel data offset = Decoded w m"
          "decode_list fuel data (vs @ [w]) m = NoFuel"
        by (auto simp: dbind_NoFuel)
      note b = decode_bounds(1) [OF w(1)]
      then have "2 * (length data - m) + 2 \<le> fuel" using f True by linarith
      with 6(2) [OF True] w(2) show False by blast
    qed
  qed auto
qed simp_all

lemma decode_total: "decode_value (decode_fuel data) data 0 \<noteq> NoFuel"
  by (rule decode_terminates) (simp add: decode_fuel_def)

lemma bdecode_total: "bdecode_map data \<noteq> NoFuel"
  using decode_total [of data] by (auto simp: bdecode_map_def dbind_NoFuel split: if_splits goval.splits)

section \<open>Round trip\<close>

text \<open>What the reader makes of a value: byte strings become strings, integers 64 bit wide.\<close>

primrec read_back :: "goval \<Rightarrow> goval" where
  "read_back (GString s) = GString s"
| "read_back (GBytes s) = GString s"
| "read_back (GInt i) = GInt64 i"
| "read_back (GInt64 i) = GInt64 i"
| "read_back (GBool b) = GInt64 (if b then 1 else 0)"
| "read_back (GStrings ss) = GList (map GString ss)"
| "read_back (GList vs) = GList (map read_back vs)"
| "read_back (GMap kvs) = GMap (sort_key fst (map (map_prod id read_back) kvs))"
| "read_back (GOther ty) = GOther ty"

text \<open>A Go value: 64-bit integers, and the keys of a map are distinct.\<close>

primrec go_value :: "goval \<Rightarrow> bool" where
  "go_value (GString s) = True"
| "go_value (GBytes s) = True"
| "go_value (GInt i) = in_int64 i"
| "go_value (GInt64 i) = in_int64 i"
| "go_value (GBool b) = True"
| "go_value (GStrings ss) = True"
| "go_value (GList vs) = list_all id (map go_value vs)"
| "go_value (GMap kvs) = (distinct (keys kvs) \<and> list_all snd (map (map_prod id go_value) kvs))"
| "go_value (GOther ty) = True"

definition reads :: "string \<Rightarrow> goval \<Rightarrow> bool" where
  "reads bs w \<longleftrightarrow> bs \<noteq> [] \<and> hd bs \<noteq> CHR ''e'' \<and>
     (\<forall>pre post fuel. length (pre @ bs @ post) < 2 ^ 62 \<longrightarrow> 2 * length bs + 1 \<le> fuel \<longrightarrow>
        decode_value fuel (pre @ bs @ post) (length pre) = Decoded w (length pre + length bs))"

lemma readsD:
  assumes "reads bs w" "length (pre @ bs @ post) < 2 ^ 62" "2 * length bs + 1 \<le> fuel"
  shows "decode_value fuel (pre @ bs @ post) (length pre) = Decoded w (length pre + length bs)"
  using assms by (simp add: reads_def)

lemma reads_nonempty: "reads bs w \<Longrightarrow> bs \<noteq> [] \<and> hd bs \<noteq> CHR ''e''"
  by (simp add: reads_def)

lemma index_byte_append:
  assumes "c \<notin> set xs"
  shows "index_byte c (xs @ c # ys) = Some (length xs)"
proof -
  have "takeWhile (\<lambda>d. d \<noteq> c) (xs @ c # ys) = xs"
    using assms by (induction xs) auto
  then show ?thesis by (simp add: index_byte_def)
qed

lemma slice_middle [simp]: "slice (length pre) (length pre + length xs) (pre @ xs @ post) = xs"
  by (simp add: slice_def)

lemma nat_dec_chars: "c \<in> set (nat_dec n) \<Longrightarrow> c \<notin> {CHR '':'', CHR ''d'', CHR ''l'', CHR ''i'', CHR ''e'', CHR ''-''}"
  using nat_dec_digits [of c n] by (auto simp: is_digit_def)

lemma parse_nat_dec:
  assumes "n < 2 ^ 62"
  shows "parse_int64 (nat_dec n) = Some (int n)"
proof -
  have "int n < 2 ^ 62" using assms by simp
  then have "in_int64 (int n)" by (simp add: in_int64_def)
  from parse_int64_int_dec [OF this] show ?thesis by (simp add: int_dec_def)
qed

lemma reads_bytes: "reads (encode_bytes s) (GString s)"
  unfolding reads_def
proof (intro conjI allI impI)
  obtain c cs where d: "nat_dec (length s) = c # cs" by (cases "nat_dec (length s)") auto
  have c: "c \<notin> {CHR '':'', CHR ''d'', CHR ''l'', CHR ''i'', CHR ''e'', CHR ''-''}"
    using nat_dec_chars [of c "length s"] d by simp
  show "encode_bytes s \<noteq> []" "hd (encode_bytes s) \<noteq> CHR ''e''"
    using d c by (auto simp: encode_bytes_def)
  fix pre post and fuel :: nat
  let ?n = "nat_dec (length s)"
  let ?data = "pre @ encode_bytes s @ post"
  assume len: "length ?data < 2 ^ 62" and "2 * length (encode_bytes s) + 1 \<le> fuel"
  then obtain fuel' where f: "fuel = Suc fuel'" by (cases fuel) auto
  have at: "?data ! length pre = c" "length pre < length ?data"
    using d by (simp_all add: encode_bytes_def nth_append)
  have i: "index_byte (CHR '':'') (drop (length pre) ?data) = Some (length ?n)"
    using index_byte_append [of "CHR '':''" ?n "s @ post"] nat_dec_chars [of "CHR '':''" "length s"]
    by (auto simp: encode_bytes_def)
  have sl: "slice (length pre) (length ?n + length pre) ?data = ?n"
    by (simp add: slice_def encode_bytes_def)
  have p: "parse_int64 ?n = Some (int (length s))"
    using len by (intro parse_nat_dec) (simp add: encode_bytes_def)
  let ?stop = "int (length ?n + length pre + 1) + int (length s)"
  have "?stop < 2 ^ 62" using len by (simp add: encode_bytes_def)
  then have w: "wrap64 ?stop = ?stop" by (intro wrap64_id) (simp add: in_int64_def)
  have "decode_string ?data (length pre) = Decoded (GString s) (length pre + length (encode_bytes s))"
    unfolding decode_string_def i sl
    using d p w by (simp add: Let_def sl) (simp add: encode_bytes_def slice_def nat_add_distrib)
  then show "decode_value fuel ?data (length pre)
      = Decoded (GString s) (length pre + length (encode_bytes s))"
    using at c f by simp
qed

lemma int_dec_chars: "c \<in> set (int_dec i) \<Longrightarrow> c \<noteq> CHR ''e''"
  using nat_dec_chars by (auto simp: int_dec_def split: if_splits)

lemma reads_integer: "in_int64 i \<Longrightarrow> reads (encode_integer i) (GInt64 i)"
  unfolding reads_def
proof (intro conjI allI impI)
  show "encode_integer i \<noteq> []" "hd (encode_integer i) \<noteq> CHR ''e''"
    by (simp_all add: encode_integer_def)
  fix pre post and fuel :: nat
  let ?data = "pre @ encode_integer i @ post"
  assume i: "in_int64 i" and "2 * length (encode_integer i) + 1 \<le> fuel"
  then obtain fuel' where f: "fuel = Suc fuel'" by (cases fuel) auto
  have at: "?data ! length pre = CHR ''i''" "length pre < length ?data"
    by (simp_all add: encode_integer_def nth_append)
  have ix: "index_byte (CHR ''e'') (drop (length pre + 1) ?data) = Some (length (int_dec i))"
    using index_byte_append [of "CHR ''e''" "int_dec i" post] int_dec_chars [of "CHR ''e''" i]
    by (auto simp: encode_integer_def)
  have sl: "slice (length pre + 1) (length (int_dec i) + length pre + 1) ?data = int_dec i"
    by (simp add: slice_def encode_integer_def)
  have "decode_integer ?data (length pre) = Decoded (GInt64 i) (length pre + length (encode_integer i))"
    unfolding decode_integer_def ix using sl
    by (simp add: Let_def parse_int64_int_dec [OF i]) (simp add: encode_integer_def)
  then show "decode_value fuel ?data (length pre)
      = Decoded (GInt64 i) (length pre + length (encode_integer i))"
    using at f by simp
qed

lemma decode_list_reads:
  assumes "list_all2 reads bss ws" "length (pre @ concat bss @ CHR ''e'' # post) < 2 ^ 62"
    and "2 * length (concat bss) + 2 \<le> fuel"
  shows "decode_list fuel (pre @ concat bss @ CHR ''e'' # post) acc (length pre)
    = Decoded (GList (acc @ ws)) (length pre + length (concat bss) + 1)"
  using assms
proof (induction bss ws arbitrary: pre acc fuel rule: list_all2_induct)
  case Nil
  then obtain f where "fuel = Suc f" by (cases fuel) auto
  then show ?case by (simp add: nth_append)
next
  case (Cons bs bss w ws)
  then obtain f where f: "fuel = Suc f" by (cases fuel) auto
  note b = reads_nonempty [OF Cons(1)]
  then obtain c cs where bs: "bs = c # cs" by (cases bs) auto
  let ?data = "pre @ concat (bs # bss) @ CHR ''e'' # post"
  have at: "length pre < length ?data" "?data ! length pre \<noteq> CHR ''e''"
    using b bs by (simp_all add: nth_append)
  have d: "decode_value f ?data (length pre) = Decoded w (length pre + length bs)"
    using readsD [OF Cons(1), of pre "concat bss @ CHR ''e'' # post" f] Cons.prems f by simp
  have "2 * length (concat bss) + 2 \<le> f" using Cons.prems(2) f bs by simp
  then have "decode_list f ((pre @ bs) @ concat bss @ CHR ''e'' # post) (acc @ [w]) (length (pre @ bs))
      = Decoded (GList ((acc @ [w]) @ ws)) (length (pre @ bs) + length (concat bss) + 1)"
    using Cons.IH [of "pre @ bs" f "acc @ [w]"] Cons.prems(1) by simp
  with at d f show ?case by simp
qed

definition entry_bytes :: "string \<times> string \<Rightarrow> string" where
  "entry_bytes e = encode_bytes (fst e) @ snd e"

lemma entry_bytes_pair [simp]: "entry_bytes (k, bs) = encode_bytes k @ bs"
  by (simp add: entry_bytes_def)

lemma decode_dict_reads:
  assumes "list_all2 (\<lambda>e kw. fst e = fst kw \<and> reads (snd e) (snd kw)) es kws"
    and "length (pre @ concat (map entry_bytes es) @ CHR ''e'' # post) < 2 ^ 62"
    and "2 * length (concat (map entry_bytes es)) + 2 \<le> fuel"
  shows "decode_dict fuel (pre @ concat (map entry_bytes es) @ CHR ''e'' # post) kvs (length pre)
    = Decoded (GMap (fold (\<lambda>(k, w). AList.update k w) kws kvs))
        (length pre + length (concat (map entry_bytes es)) + 1)"
  using assms
proof (induction es kws arbitrary: pre kvs fuel rule: list_all2_induct)
  case Nil
  then obtain f where "fuel = Suc f" by (cases fuel) auto
  then show ?case by (simp add: nth_append)
next
  case (Cons e es kw kws)
  then obtain f where f: "fuel = Suc f" by (cases fuel) auto
  obtain k bs where e: "e = (k, bs)" by (cases e)
  obtain w where kw: "kw = (k, w)" and r: "reads bs w" using Cons(1) e by (cases kw) auto
  let ?k = "encode_bytes k"
  let ?rest = "concat (map entry_bytes es) @ CHR ''e'' # post"
  let ?data = "pre @ ?k @ bs @ ?rest"
  have eq: "pre @ concat (map entry_bytes (e # es)) @ CHR ''e'' # post = ?data"
    by (simp add: e)
  have len: "length ?data < 2 ^ 62" using Cons.prems(1) eq by simp
  note b = reads_nonempty [OF reads_bytes [of k]]
  then obtain c cs where kb: "?k = c # cs" by (cases ?k) auto
  have at: "length pre < length ?data" "?data ! length pre \<noteq> CHR ''e''"
    using b kb by (simp_all add: nth_append)
  have fuel: "2 * length (concat (map entry_bytes es)) + 2 \<le> f" "2 * length ?k + 1 \<le> f" "2 * length bs + 1 \<le> f"
    using Cons.prems(2) f kb reads_nonempty [OF r] by (simp_all add: e)
  have d1: "decode_value f ?data (length pre) = Decoded (GString k) (length pre + length ?k)"
    using readsD [OF reads_bytes, of pre k "bs @ ?rest" f] len fuel by simp
  have d2: "decode_value f ?data (length pre + length ?k) = Decoded w (length pre + length ?k + length bs)"
    using readsD [OF r, of "pre @ ?k" ?rest f] len fuel by simp
  have d3: "decode_dict f ?data (AList.update k w kvs) (length pre + length ?k + length bs)
      = Decoded (GMap (fold (\<lambda>(k, w). AList.update k w) kws (AList.update k w kvs)))
          (length pre + length ?k + length bs + length (concat (map entry_bytes es)) + 1)"
    using Cons.IH [of "pre @ ?k @ bs" f "AList.update k w kvs"] len fuel by (simp add: add.assoc)
  show ?case unfolding eq
    using at d1 d2 d3 f by (simp add: e kw)
qed

lemma encode_all_parts:
  "encode_all rs = Inr s \<Longrightarrow> \<exists>bss. list_all2 (\<lambda>r bs. r = Inr bs) rs bss \<and> s = concat bss"
proof (induction rs arbitrary: s)
  case (Cons r rs)
  then obtain a t where "r = Inr a" "encode_all rs = Inr t" "s = a @ t" by (auto simp: rbind_Inr_conv)
  with Cons.IH [of t] show ?case by (force intro: exI [of _ "a # _"])
qed simp

lemma encode_wrapped:
  assumes "rbind (encode_all rs) (\<lambda>s. Inr (c # s @ ''e'')) = Inr bs"
  obtains bss where "list_all2 (\<lambda>r bs. r = Inr bs) rs bss" "bs = c # concat bss @ ''e''"
  using assms encode_all_parts [of rs] by (auto simp: rbind_Inr_conv)

lemma fold_update_distinct:
  "distinct (keys kws) \<Longrightarrow> set (keys kws) \<inter> set (keys kvs) = {} \<Longrightarrow>
     fold (\<lambda>(k, w). AList.update k w) kws kvs = kvs @ kws"
proof (induction kws arbitrary: kvs)
  case (Cons kw kws)
  obtain k w where "kw = (k, w)" by (cases kw)
  with Cons show ?case by (simp add: update_fresh)
qed simp

lemma reads_list:
  assumes "list_all2 reads bss ws"
  shows "reads (''l'' @ concat bss @ ''e'') (GList ws)"
  unfolding reads_def
proof (intro conjI allI impI)
  fix pre post and fuel :: nat
  let ?data = "pre @ (''l'' @ concat bss @ ''e'') @ post"
  assume len: "length ?data < 2 ^ 62" and fuel: "2 * length (''l'' @ concat bss @ ''e'') + 1 \<le> fuel"
  then obtain f where f: "fuel = Suc f" by (cases fuel) auto
  have "decode_list f ((pre @ ''l'') @ concat bss @ CHR ''e'' # post) [] (length (pre @ ''l''))
      = Decoded (GList ([] @ ws)) (length (pre @ ''l'') + length (concat bss) + 1)"
    by (rule decode_list_reads [OF assms]) (use len fuel f in simp_all)
  then show "decode_value fuel ?data (length pre)
      = Decoded (GList ws) (length pre + length (''l'' @ concat bss @ ''e''))"
    using f by (simp add: nth_append)
qed simp_all

lemma reads_dict:
  assumes "list_all2 (\<lambda>e kw. fst e = fst kw \<and> reads (snd e) (snd kw)) es kws" "distinct (keys kws)"
  shows "reads (''d'' @ concat (map entry_bytes es) @ ''e'') (GMap kws)"
  unfolding reads_def
proof (intro conjI allI impI)
  fix pre post and fuel :: nat
  let ?b = "concat (map entry_bytes es)"
  let ?data = "pre @ (''d'' @ ?b @ ''e'') @ post"
  assume len: "length ?data < 2 ^ 62" and fuel: "2 * length (''d'' @ ?b @ ''e'') + 1 \<le> fuel"
  then obtain f where f: "fuel = Suc f" by (cases fuel) auto
  have "decode_dict f ((pre @ ''d'') @ ?b @ CHR ''e'' # post) [] (length (pre @ ''d''))
      = Decoded (GMap (fold (\<lambda>(k, w). AList.update k w) kws [])) (length (pre @ ''d'') + length ?b + 1)"
    by (rule decode_dict_reads [OF assms(1)]) (use len fuel f in simp_all)
  then show "decode_value fuel ?data (length pre)
      = Decoded (GMap kws) (length pre + length (''d'' @ ?b @ ''e''))"
    using f fold_update_distinct [OF assms(2), of "[]"] by (simp add: nth_append)
qed simp_all

text \<open>Sorting entries by their keys sorts the keys.\<close>

lemma insort_key_keys: "keys (insort_key fst kw xs) = insort (fst kw) (keys xs)"
  by (induction xs) auto

lemma sort_key_keys: "keys (sort_key fst xs) = sort (keys xs)"
  by (induction xs) (auto simp: insort_key_keys)

lemma sort_key_map_fst: "keys (sort_key fst (map (map_prod id f) kvs)) = sort (keys kvs)"
  by (simp add: sort_key_keys comp_def)

lemma reads_entries:
  assumes "list_all2 (\<lambda>kr bs. kr = Inr bs) (map encode_entry krs) bss"
    and "\<And>k r. (k, r) \<in> set krs \<Longrightarrow> \<exists>w. (k, w) \<in> set kws \<and> (\<forall>bs. r = Inr bs \<longrightarrow> reads bs w)"
    and "keys krs = keys kws" "distinct (keys kws)"
  shows "\<exists>es. list_all2 (\<lambda>e kw. fst e = fst kw \<and> reads (snd e) (snd kw)) es kws
    \<and> bss = map entry_bytes es"
proof -
  let ?bs = "\<lambda>r. case r of Inr bs \<Rightarrow> bs | Inl e \<Rightarrow> []"
  let ?es = "map (\<lambda>(k, r). (k, ?bs r)) krs"
  have len: "length krs = length kws" using assms(3) by (metis length_map)
  have lenb: "length bss = length krs" using assms(1) by (auto dest: list_all2_lengthD)
  have nth: "\<exists>b. snd (krs ! i) = Inr b \<and> bss ! i = encode_bytes (fst (krs ! i)) @ b
      \<and> fst (krs ! i) = fst (kws ! i) \<and> reads b (snd (kws ! i))" if i: "i < length krs" for i
  proof -
    obtain k r where kr: "krs ! i = (k, r)" by (cases "krs ! i")
    have "encode_entry (k, r) = Inr (bss ! i)"
      using assms(1) i lenb kr by (auto simp: list_all2_conv_all_nth)
    then obtain b where b: "r = Inr b" "bss ! i = encode_bytes k @ b"
      by (auto simp: encode_entry_def rbind_Inr_conv)
    have "(k, r) \<in> set krs" using i kr by (metis nth_mem)
    then obtain w where w: "(k, w) \<in> set kws" "reads b w" using assms(2) b(1) by blast
    have fk: "fst (kws ! i) = k"
      using assms(3) i len kr by (metis fst_conv nth_map)
    obtain w' where kw: "kws ! i = (k, w')" using fk by (cases "kws ! i") auto
    have "(k, w') \<in> set kws" using i len kw by (metis nth_mem)
    then have "w' = w" using assms(4) w(1) by (metis map_of_eq_Some_iff option.inject)
    with b w kw kr show ?thesis by simp
  qed
  have "list_all2 (\<lambda>e kw. fst e = fst kw \<and> reads (snd e) (snd kw)) ?es kws"
    unfolding list_all2_conv_all_nth using len nth by (force simp: split_def)
  moreover have "bss = map entry_bytes ?es"
    by (rule nth_equalityI) (use lenb nth in \<open>force simp: split_def\<close>)+
  ultimately show ?thesis by blast
qed

lemma encode_reads: "go_value v \<Longrightarrow> encode_value v = Inr bs \<Longrightarrow> reads bs (read_back v)"
proof (induction v arbitrary: bs)
  case (GBool b)
  have "in_int64 1" "in_int64 0" by (simp_all add: in_int64_def)
  moreover have "encode_integer 1 = ''i1e''" "encode_integer 0 = ''i0e''"
    by code_simp+
  ultimately have "reads ''i1e'' (GInt64 1)" "reads ''i0e'' (GInt64 0)"
    using reads_integer [of 1] reads_integer [of 0] by simp_all
  with GBool show ?case by (cases b) auto
next
  case (GStrings ss)
  then have "rbind (encode_all (map (\<lambda>s. Inr (encode_bytes s)) ss)) (\<lambda>s. Inr (CHR ''l'' # s @ ''e'')) = Inr bs"
    by simp
  then obtain bss where b: "list_all2 (\<lambda>r bs. r = Inr bs) (map (\<lambda>s. Inr (encode_bytes s) :: go_err + string) ss) bss"
      "bs = CHR ''l'' # concat bss @ ''e''"
    by (rule encode_wrapped)
  have "reads (bss ! i) (GString (ss ! i))" if "i < length ss" for i
    using b(1) that reads_bytes [of "ss ! i"] by (auto simp: list_all2_conv_all_nth)
  then have "list_all2 reads bss (map GString ss)"
    using b(1) by (auto simp: list_all2_conv_all_nth)
  with b show ?case using reads_list by simp
next
  case (GList vs)
  then have "rbind (encode_all (map encode_value vs)) (\<lambda>s. Inr (CHR ''l'' # s @ ''e'')) = Inr bs"
    by simp
  then obtain bss where b: "list_all2 (\<lambda>r bs. r = Inr bs) (map encode_value vs) bss"
      "bs = CHR ''l'' # concat bss @ ''e''"
    by (rule encode_wrapped)
  have "reads (bss ! i) (read_back (vs ! i))" if "i < length vs" for i
    using GList.IH [of "vs ! i"] GList.prems(1) b(1) that
    by (auto simp: list_all2_conv_all_nth list_all_length)
  then have "list_all2 reads bss (map read_back vs)"
    using b(1) by (auto simp: list_all2_conv_all_nth)
  with b(2) show ?case using reads_list by simp
next
  case (GMap kvs)
  let ?krs = "sort_key fst (map (map_prod id encode_value) kvs)"
  let ?kws = "sort_key fst (map (map_prod id read_back) kvs)"
  have "rbind (encode_all (map encode_entry ?krs)) (\<lambda>s. Inr (CHR ''d'' # s @ ''e'')) = Inr bs"
    using GMap.prems(2) by simp
  then obtain bss where
    b: "list_all2 (\<lambda>r bs. r = Inr bs) (map encode_entry ?krs) bss" "bs = CHR ''d'' # concat bss @ ''e''"
    by (rule encode_wrapped)
  have keys: "keys ?krs = sort (keys kvs)" "keys ?kws = sort (keys kvs)"
    by (simp_all add: sort_key_map_fst)
  have "\<exists>w. (k, w) \<in> set ?kws \<and> (\<forall>bs. r = Inr bs \<longrightarrow> reads bs w)" if "(k, r) \<in> set ?krs" for k r
  proof -
    from that obtain v where v: "(k, v) \<in> set kvs" "r = encode_value v" by auto
    then have "go_value v" using GMap.prems(1) by (auto simp: list_all_iff)
    with v GMap.IH [of "(k, v)" v] show ?thesis
      by (intro exI [of _ "read_back v"]) (force simp: image_iff)
  qed
  from reads_entries [OF b(1) this] obtain es where
    es: "list_all2 (\<lambda>e kw. fst e = fst kw \<and> reads (snd e) (snd kw)) es ?kws" "bss = map entry_bytes es"
    using keys GMap.prems(1) by auto
  have "distinct (keys ?kws)" using keys GMap.prems(1) by simp
  from reads_dict [OF es(1) this] es(2) b(2) show ?case by simp
qed (auto simp: reads_bytes reads_integer)

end
