(* ===== verification/Rtp_Client.thy ===== *)
theory Rtp_Client
  imports Rtp_Bencode
begin

text \<open>
  The RTPEngine client (\<open>client.go\<close>, \<open>commands.go\<close>, \<open>sessions.go\<close>, \<open>model.go\<close> and the framing of
  \<open>protocol.go\<close>): validation, requests and responses with their cookie, the retry loop over
  UDP exchanges and the commands. One exchange is what the network and the random source did,
  an \<open>exchange\<close> record; a decoder panic is an outcome of its own.
\<close>

section \<open>Configuration, sessions and requests\<close>

record rtp_config =
  rc_address :: string
  rc_connect_timeout :: int
  rc_command_timeout :: int
  rc_max_retries :: int

definition default_rtp_config :: "string \<Rightarrow> rtp_config" where
  "default_rtp_config address =
     \<lparr>rc_address = trim_space address, rc_connect_timeout = 5000000000,
      rc_command_timeout = 5000000000, rc_max_retries = 2\<rparr>"

definition rtp_config_validate :: "rtp_config \<Rightarrow> go_err option" where
  "rtp_config_validate c = first_error
     [(blank (rc_address c), Errf ''RTPEngine address is required'' []),
      (rc_connect_timeout c \<le> 0, Errf ''RTPEngine connect timeout must be positive'' []),
      (rc_command_timeout c \<le> 0, Errf ''RTPEngine command timeout must be positive'' []),
      (rc_max_retries c < 0, Errf ''RTPEngine max retries cannot be negative'' [])]"

definition command_ping :: string where "command_ping = ''ping''"
definition command_offer :: string where "command_offer = ''offer''"
definition command_answer :: string where "command_answer = ''answer''"
definition command_delete :: string where "command_delete = ''delete''"
definition command_query :: string where "command_query = ''query''"

record rtp_session =
  rs_call_id :: string
  rs_from_tag :: string
  rs_to_tag :: string
  rs_branch :: string
  rs_created_at :: int

definition rtp_session_validate :: "rtp_session \<Rightarrow> go_err option" where
  "rtp_session_validate s = first_error
     [(blank (rs_call_id s), Errf ''RTPEngine call ID is required'' []),
      (blank (rs_from_tag s), Errf ''RTPEngine from tag is required'' []),
      (blank (rs_branch s), Errf ''RTPEngine branch is required'' [])]"

definition new_rtp_session :: "string \<Rightarrow> string \<Rightarrow> string \<Rightarrow> int \<Rightarrow> go_err + rtp_session" where
  "new_rtp_session callID fromTag branch now =
     (let s = \<lparr>rs_call_id = trim_space callID, rs_from_tag = trim_space fromTag, rs_to_tag = [],
               rs_branch = trim_space branch, rs_created_at = now\<rparr>
      in checked (rtp_session_validate s) s)"

definition with_to_tag :: "string \<Rightarrow> rtp_session \<Rightarrow> rtp_session" where
  "with_to_tag toTag s = s\<lparr>rs_to_tag := trim_space toTag\<rparr>"

definition rtp_session_string :: "rtp_session \<Rightarrow> string" where
  "rtp_session_string s =
     (if rs_to_tag s = [] then rs_call_id s @ ''/'' @ rs_from_tag s @ ''/'' @ rs_branch s
      else rs_call_id s @ ''/'' @ rs_from_tag s @ ''/'' @ rs_to_tag s @ ''/'' @ rs_branch s)"

definition session_params :: "rtp_session \<Rightarrow> string \<Rightarrow> string list \<Rightarrow> (string \<times> goval) list" where
  "session_params s sdp flags =
     [(''call-id'', GString (rs_call_id s)), (''from-tag'', GString (rs_from_tag s)),
      (''via-branch'', GString (rs_branch s))]
     @ (if rs_to_tag s \<noteq> [] then [(''to-tag'', GString (rs_to_tag s))] else [])
     @ (if sdp \<noteq> [] then [(''sdp'', GString sdp)] else [])
     @ (if flags \<noteq> [] then [(''flags'', GStrings flags)] else [])"

record sdp_request =
  sr_session :: rtp_session
  sr_sdp :: string
  sr_flags :: "string list"

text \<open>\<open>OfferRequest.Validate\<close> and \<open>AnswerRequest.Validate\<close>, which differ in the name they report.\<close>

definition sdp_request_validate :: "string \<Rightarrow> sdp_request \<Rightarrow> go_err option" where
  "sdp_request_validate kind r =
     (case rtp_session_validate (sr_session r) of
        Some e \<Rightarrow> Some e
      | None \<Rightarrow> if blank (sr_sdp r) then Some (Errf (''RTPEngine '' @ kind @ '' SDP is required'') []) else None)"

section \<open>Framing\<close>

datatype 'a go_outcome = Returns 'a | Errs go_err | Panics

definition encode_request :: "string \<Rightarrow> (string \<times> goval) list \<Rightarrow> go_err + string \<Rightarrow> go_err + string \<times> string" where
  "encode_request command params cookie =
     (if command = [] then Inl (Errf ''RTPEngine command is required'' [])
      else
        (case encode_value (GMap (AList.update ''command'' (GString command) params)) of
           Inl e \<Rightarrow> Inl (Wrap ''encode RTPEngine request: %w'' [] e)
         | Inr body \<Rightarrow>
             (case cookie of
                Inl e \<Rightarrow> Inl (Wrap ''generate RTPEngine cookie: %w'' [] e)
              | Inr c \<Rightarrow> Inr (c @ CHR '' '' # body, c))))"

definition string_value :: "goval option \<Rightarrow> string" where
  "string_value v = (case v of Some (GString s) \<Rightarrow> s | _ \<Rightarrow> [])"

record rtp_response =
  rr_result :: string
  rr_error :: string
  rr_data :: "(string \<times> goval) list"

text \<open>
  \<open>strings.EqualFold(result, "ok")\<close>: Unicode simple folding, in which the Kelvin sign U+212A
  is a k too.
\<close>

definition response_ok :: "rtp_response \<Rightarrow> bool" where
  "response_ok r \<longleftrightarrow> to_lower (rr_result r) = ''ok''
     \<or> rr_result r \<in> {[CHR ''o'', CHR 0xE2, CHR 0x84, CHR 0xAA], [CHR ''O'', CHR 0xE2, CHR 0x84, CHR 0xAA]}"

definition decode_response :: "string \<Rightarrow> string \<Rightarrow> rtp_response go_outcome" where
  "decode_response packet cookie =
     (case index_byte (CHR '' '') packet of
        None \<Rightarrow> Errs (Errf ''invalid RTPEngine response cookie'' [])
      | Some i \<Rightarrow>
          if take i packet \<noteq> cookie then Errs (Errf ''invalid RTPEngine response cookie'' [])
          else
            (case bdecode_map (drop (i + 1) packet) of
               Failed e \<Rightarrow> Errs (Wrap ''decode RTPEngine response: %w'' [] e)
             | Decoded values n \<Rightarrow>
                 (let response = \<lparr>rr_result = string_value (map_of values ''result''),
                                  rr_error = string_value (map_of values ''error-reason''),
                                  rr_data = values\<rparr>
                  in if response_ok response then Returns response
                     else Errs (Errf ''RTPEngine request failed: %s'' [rr_error response]))
             | _ \<Rightarrow> Panics))"

definition required_string :: "string \<Rightarrow> rtp_response \<Rightarrow> go_err + string" where
  "required_string key r =
     (let value = trim_space (string_value (map_of (rr_data r) key))
      in if value = [] then Inl (Errf ''RTPEngine response field %q is required'' [key]) else Inr value)"

section \<open>Exchanges and retries\<close>

text \<open>
  What one attempt meets: the dial, the deadline, the random cookie, the write and the read,
  then the context's error after it and what waiting for the next attempt returned.
\<close>

record exchange =
  ex_dial :: "go_err option"
  ex_deadline :: "go_err option"
  ex_cookie :: "go_err + string"
  ex_write :: "go_err option"
  ex_read :: "go_err + string"
  ex_ctx :: "go_err option"
  ex_wait :: "go_err option"

definition rtp_buffer :: nat where "rtp_buffer = 1048576"

definition do_once :: "string \<Rightarrow> (string \<times> goval) list \<Rightarrow> exchange \<Rightarrow> rtp_response go_outcome" where
  "do_once command params x =
     (case ex_dial x of
        Some e \<Rightarrow> Errs (Wrap ''dial RTPEngine: %w'' [] e)
      | None \<Rightarrow>
          (case ex_deadline x of
             Some e \<Rightarrow> Errs (Wrap ''set RTPEngine deadline: %w'' [] e)
           | None \<Rightarrow>
               (case encode_request command params (ex_cookie x) of
                  Inl e \<Rightarrow> Errs e
                | Inr (packet, cookie) \<Rightarrow>
                    (case ex_write x of
                       Some e \<Rightarrow> Errs (Wrap ''write RTPEngine request: %w'' [] e)
                     | None \<Rightarrow>
                         (case ex_read x of
                            Inl e \<Rightarrow> Errs (Wrap ''read RTPEngine response: %w'' [] e)
                          | Inr answer \<Rightarrow> decode_response (take rtp_buffer answer) cookie)))))"

definition rtp_retryable :: "go_err \<Rightarrow> bool" where
  "rtp_retryable e \<longleftrightarrow> as_net_error e = Some True"

definition give_up :: "nat \<Rightarrow> go_err \<Rightarrow> go_err" where
  "give_up retries e = Wrap ''RTPEngine command failed after %d attempts: %w'' [nat_dec (retries + 1)] e"

text \<open>The loop from \<open>attempt\<close> on with \<open>left\<close> retries after it; it also returns the attempts made.\<close>

fun do_loop ::
  "nat \<Rightarrow> string \<Rightarrow> (string \<times> goval) list \<Rightarrow> (nat \<Rightarrow> exchange) \<Rightarrow> nat \<Rightarrow> nat \<Rightarrow> nat \<times> rtp_response go_outcome"
where
  "do_loop retries command params net attempt left =
     (case do_once command params (net attempt) of
        Returns r \<Rightarrow> (attempt + 1, Returns r)
      | Panics \<Rightarrow> (attempt + 1, Panics)
      | Errs e \<Rightarrow>
          (case ex_ctx (net attempt) of
             Some ce \<Rightarrow> (attempt + 1, Errs ce)
           | None \<Rightarrow>
               (case left of
                  0 \<Rightarrow> (attempt + 1, Errs (give_up retries e))
                | Suc left' \<Rightarrow>
                    if \<not> rtp_retryable e then (attempt + 1, Errs (give_up retries e))
                    else (case ex_wait (net attempt) of
                            Some we \<Rightarrow> (attempt + 1, Errs we)
                          | None \<Rightarrow> do_loop retries command params net (attempt + 1) left'))))"

declare do_loop.simps [simp del]

definition rtp_do :: "rtp_config \<Rightarrow> string \<Rightarrow> (string \<times> goval) list \<Rightarrow> (nat \<Rightarrow> exchange) \<Rightarrow> nat \<times> rtp_response go_outcome" where
  "rtp_do cfg command params net =
     (if command = [] then (0, Errs (Errf ''RTPEngine command is required'' []))
      else do_loop (nat (rc_max_retries cfg)) command params net 0 (nat (rc_max_retries cfg)))"

section \<open>Commands\<close>

definition out_bind :: "'a go_outcome \<Rightarrow> ('a \<Rightarrow> 'b go_outcome) \<Rightarrow> 'b go_outcome" where
  "out_bind r f = (case r of Returns x \<Rightarrow> f x | Errs e \<Rightarrow> Errs e | Panics \<Rightarrow> Panics)"

definition health_check :: "rtp_config \<Rightarrow> (nat \<Rightarrow> exchange) \<Rightarrow> unit go_outcome" where
  "health_check cfg net =
     (case snd (rtp_do cfg command_ping [] net) of
        Returns r \<Rightarrow> Returns ()
      | Errs e \<Rightarrow> Errs (Wrap ''RTPEngine health check failed: %w'' [] e)
      | Panics \<Rightarrow> Panics)"

text \<open>\<open>Offer\<close> and \<open>Answer\<close>: the answer's session description and the whole dictionary.\<close>

definition sdp_command ::
  "string \<Rightarrow> rtp_config \<Rightarrow> sdp_request \<Rightarrow> (nat \<Rightarrow> exchange) \<Rightarrow> (string \<times> (string \<times> goval) list) go_outcome" where
  "sdp_command command cfg r net =
     (case sdp_request_validate command r of
        Some e \<Rightarrow> Errs e
      | None \<Rightarrow>
          out_bind (snd (rtp_do cfg command (session_params (sr_session r) (sr_sdp r) (sr_flags r)) net))
            (\<lambda>response. case required_string ''sdp'' response of
               Inl e \<Rightarrow> Errs e
             | Inr sdp \<Rightarrow> Returns (sdp, rr_data response)))"

definition rtp_offer :: "rtp_config \<Rightarrow> sdp_request \<Rightarrow> (nat \<Rightarrow> exchange) \<Rightarrow> (string \<times> (string \<times> goval) list) go_outcome" where
  "rtp_offer = sdp_command command_offer"

definition rtp_answer :: "rtp_config \<Rightarrow> sdp_request \<Rightarrow> (nat \<Rightarrow> exchange) \<Rightarrow> (string \<times> (string \<times> goval) list) go_outcome" where
  "rtp_answer = sdp_command command_answer"

definition rtp_delete :: "rtp_config \<Rightarrow> rtp_session \<Rightarrow> string list \<Rightarrow> (nat \<Rightarrow> exchange) \<Rightarrow> unit go_outcome" where
  "rtp_delete cfg s flags net =
     (case rtp_session_validate s of
        Some e \<Rightarrow> Errs e
      | None \<Rightarrow> out_bind (snd (rtp_do cfg command_delete (session_params s [] flags) net)) (\<lambda>_. Returns ()))"

definition rtp_query :: "rtp_config \<Rightarrow> rtp_session \<Rightarrow> (nat \<Rightarrow> exchange) \<Rightarrow> (string \<times> goval) list go_outcome" where
  "rtp_query cfg s net =
     (case rtp_session_validate s of
        Some e \<Rightarrow> Errs e
      | None \<Rightarrow> out_bind (snd (rtp_do cfg command_query (session_params s [] []) net)) (\<lambda>r. Returns (rr_data r)))"

section \<open>The contract of the codec\<close>

text \<open>What a peer relies on: what is written can be read back, so equal bytes mean equal values.\<close>

locale message_codec =
  fixes enc :: "'a \<Rightarrow> 'e + string"
    and dec :: "string \<Rightarrow> 'b option"
    and norm :: "'a \<Rightarrow> 'b"
    and ok :: "'a \<Rightarrow> string \<Rightarrow> bool"
  assumes round_trip: "enc x = Inr bs \<Longrightarrow> ok x bs \<Longrightarrow> dec bs = Some (norm x)"
begin

lemma same_bytes: "enc x = Inr bs \<Longrightarrow> enc y = Inr bs \<Longrightarrow> ok x bs \<Longrightarrow> ok y bs \<Longrightarrow> norm x = norm y"
  using round_trip [of x bs] round_trip [of y bs] by simp

end

definition decoded_map :: "'a decoded \<Rightarrow> 'a option" where
  "decoded_map r = (case r of Decoded v n \<Rightarrow> Some v | _ \<Rightarrow> None)"

definition sorted_entries :: "(string \<times> goval) list \<Rightarrow> (string \<times> goval) list" where
  "sorted_entries kvs = sort_key fst (map (map_prod id read_back) kvs)"

lemma bdecode_encoded:
  assumes "encode_value (GMap kvs) = Inr bs" "go_value (GMap kvs)" "length bs < 2 ^ 62"
  shows "bdecode_map bs = Decoded (sorted_entries kvs) (length bs)"
proof -
  have "reads bs (read_back (GMap kvs))" by (rule encode_reads [OF assms(2,1)])
  from readsD [OF this, of "[]" "[]" "decode_fuel bs"] assms(3)
  have "decode_value (decode_fuel bs) bs 0 = Decoded (GMap (sorted_entries kvs)) (length bs)"
    by (simp add: decode_fuel_def sorted_entries_def)
  then show ?thesis by (simp add: bdecode_map_def)
qed

interpretation bencode: message_codec "\<lambda>kvs. encode_value (GMap kvs)" "\<lambda>bs. decoded_map (bdecode_map bs)"
  sorted_entries "\<lambda>kvs bs. go_value (GMap kvs) \<and> length bs < 2 ^ 62"
  by unfold_locales (simp add: bdecode_encoded decoded_map_def del: encode_value.simps go_value.simps)

section \<open>Properties\<close>

text \<open>C36: the decoder reads back every dictionary the encoder writes, with its keys in order,
  byte strings as strings and integers as 64-bit integers.\<close>

theorem bencode_round_trip:
  assumes "encode_value (GMap kvs) = Inr bs" "go_value (GMap kvs)" "length bs < 2 ^ 62"
  shows "bdecode_map bs = Decoded (sort_key fst (map (map_prod id read_back) kvs)) (length bs)"
  using bdecode_encoded [OF assms] by (simp add: sorted_entries_def)

definition demo_params :: "(string \<times> goval) list" where
  "demo_params = [(''to'', GStrings [''b'', ''a'']), (''flags'', GList [GBool True, GInt (- 5)])]"

lemma demo_params_encoded:
  "encode_value (GMap demo_params) = Inr ''d5:flagsli1ei-5ee2:tol1:b1:aee''"
  by code_simp

theorem bencode_round_trip_witness:
  "bdecode_map ''d5:flagsli1ei-5ee2:tol1:b1:aee''
     = Decoded [(''flags'', GList [GInt64 1, GInt64 (- 5)]), (''to'', GList [GString ''b'', GString ''a''])] 30"
proof -
  have "go_value (GMap demo_params)" by (simp add: demo_params_def in_int64_def)
  from bencode_round_trip [OF demo_params_encoded this] show ?thesis
    by (simp add: demo_params_def)
qed

text \<open>C37: on every packet the decoder comes to an end, and a value it returns lies within the
  packet.\<close>

theorem decode_ends_within_packet:
  "bdecode_map data \<noteq> NoFuel
   \<and> (case decode_value (decode_fuel data) data offset of Decoded v n \<Rightarrow> offset < n \<and> n \<le> length data | _ \<Rightarrow> True)"
  using bdecode_total decode_bounds(1) by (auto split: decoded.split)

lemma decode_value_string:
  "data \<noteq> [] \<Longrightarrow> hd data \<notin> {CHR ''d'', CHR ''l'', CHR ''i''} \<Longrightarrow>
     decode_value (decode_fuel data) data 0 = decode_string data 0"
  by (cases "decode_fuel data") (auto simp: decode_fuel_def hd_conv_nth)

lemma parse_max_int: "parse_int64 ''9223372036854775807'' = Some 9223372036854775807"
  by (simp add: parse_int64_def parse_unsigned_def is_digit_def digit_val_def in_int64_def)

lemma decode_huge_length: "decode_string ''9223372036854775807:x'' 0 = Panicked"
proof -
  have "index_byte (CHR '':'') ''9223372036854775807:x'' = Some 19"
    by (simp add: index_byte_def)
  moreover have "slice 0 19 ''9223372036854775807:x'' = ''9223372036854775807''"
    by (simp add: slice_def)
  moreover have "wrap64 (20 + 9223372036854775807) = - 9223372036854775789"
    by (simp add: wrap64_def)
  ultimately show ?thesis
    by (simp add: decode_string_def parse_max_int Let_def)
qed

text \<open>A string length close to the largest integer passes the decoder's range check,
  because the sum with the start offset wraps, and the slice expression then panics: one
  answer with the right cookie stops the process.\<close>

theorem decoder_panics:
  "decode_response (cookie @ '' 9223372036854775807:x'') cookie = Panics"
  if "CHR '' '' \<notin> set cookie"
proof -
  let ?body = "''9223372036854775807:x''"
  have i: "index_byte (CHR '' '') (cookie @ CHR '' '' # ?body) = Some (length cookie)"
    by (rule index_byte_append [OF that])
  have "decode_value (decode_fuel ?body) ?body 0 = decode_string ?body 0"
    by (rule decode_value_string) simp_all
  then have "bdecode_map ?body = Panicked"
    using decode_huge_length by (simp add: bdecode_map_def)
  then show ?thesis by (simp add: decode_response_def i)
qed

theorem decoder_panics_witness: "decode_response ''c1 9223372036854775807:x'' ''c1'' = Panics"
  using decoder_panics [of "''c1''"] by simp

lemma go_value_update:
  assumes "go_value (GMap params)" "go_value v"
  shows "go_value (GMap (AList.update k v params))"
proof -
  have "list_all snd (map (map_prod id go_value) params) \<Longrightarrow>
      list_all snd (map (map_prod id go_value) (AList.update k v params))"
    using assms(2) by (induction params) auto
  with assms(1) show ?thesis by (simp add: distinct_update)
qed

text \<open>A request is its cookie, a space and the dictionary of its parameters and command.\<close>

theorem request_framing:
  assumes "encode_request command params (Inr cookie) = Inr (packet, c)"
    and "CHR '' '' \<notin> set cookie" "go_value (GMap params)" "length packet < 2 ^ 62"
  shows "c = cookie \<and> index_byte (CHR '' '') packet = Some (length cookie)
    \<and> bdecode_map (drop (length cookie + 1) packet)
        = Decoded (sorted_entries (AList.update ''command'' (GString command) params))
            (length packet - length cookie - 1)"
proof -
  let ?kvs = "AList.update ''command'' (GString command) params"
  have nonempty: "command \<noteq> []" using assms(1) by (auto simp: encode_request_def)
  obtain body where b: "encode_value (GMap ?kvs) = Inr body" "packet = cookie @ CHR '' '' # body" "c = cookie"
  proof (cases "encode_value (GMap ?kvs)")
    case (Inl e)
    with assms(1) nonempty show ?thesis by (simp only: encode_request_def if_False sum.case) simp
  next
    case (Inr body)
    have "encode_request command params (Inr cookie) = Inr (cookie @ CHR '' '' # body, cookie)"
      by (simp only: encode_request_def nonempty if_False Inr sum.case)
    with assms(1) have "packet = cookie @ CHR '' '' # body" "c = cookie" by auto
    then show ?thesis by (rule that [OF Inr])
  qed
  have "go_value (GMap ?kvs)" by (rule go_value_update [OF assms(3)]) simp
  from bdecode_encoded [OF b(1) this] b assms(2,4) show ?thesis
    by (simp add: index_byte_append)
qed

lemma demo_request:
  "encode_request command_ping [] (Inr ''c1'') = Inr (''c1 d7:command4:pinge'', ''c1'')"
  by code_simp

theorem request_framing_witness:
  "bdecode_map ''d7:command4:pinge'' = Decoded [(''command'', GString ''ping'')] 17"
  using request_framing [OF demo_request] by (simp add: sorted_entries_def command_ping_def)

lemma do_loop_attempts: "fst (do_loop retries command params net attempt left) \<le> attempt + left + 1"
proof (induction left arbitrary: attempt)
  case 0
  show ?case by (simp add: do_loop.simps [of _ _ _ _ _ 0] split: go_outcome.split option.split)
next
  case (Suc left)
  have "fst (do_loop retries command params net (attempt + 1) left) \<le> attempt + left + 2"
    using Suc [of "attempt + 1"] by simp
  then show ?case
    by (simp add: do_loop.simps [of _ _ _ _ _ "Suc left"] split: go_outcome.split option.split)
qed

text \<open>What each attempt before the last one met.\<close>

lemma do_loop_retried:
  assumes "do_loop retries command params net attempt left = (n, r)" "attempt \<le> i" "i + 1 < n"
  shows "\<exists>e. do_once command params (net i) = Errs e \<and> rtp_retryable e \<and> ex_ctx (net i) = None
    \<and> ex_wait (net i) = None"
  using assms
proof (induction left arbitrary: attempt)
  case 0
  then show ?case
    by (auto simp: do_loop.simps [of _ _ _ _ _ 0] split: go_outcome.splits option.splits)
next
  case (Suc left)
  show ?case
  proof (cases "\<exists>e. do_once command params (net attempt) = Errs e \<and> rtp_retryable e
      \<and> ex_ctx (net attempt) = None \<and> ex_wait (net attempt) = None")
    case True
    then have "do_loop retries command params net (attempt + 1) left = (n, r)"
      using Suc.prems(1) by (auto simp: do_loop.simps [of _ _ _ _ _ "Suc left"])
    with Suc.IH [of "attempt + 1"] Suc.prems(2,3) True show ?thesis
      by (cases "i = attempt") auto
  next
    case False
    then have "n = attempt + 1"
      using Suc.prems(1)
      by (auto simp: do_loop.simps [of _ _ _ _ _ "Suc left"] split: go_outcome.splits option.splits if_splits)
    with Suc.prems(2,3) show ?thesis by simp
  qed
qed

lemma do_loop_last:
  assumes "do_loop retries command params net attempt left = (n, r)"
  shows "attempt < n \<and> (do_once command params (net (n - 1)) = Returns x \<longrightarrow> r = Returns x)
    \<and> (r = Returns x \<longrightarrow> do_once command params (net (n - 1)) = Returns x)"
  using assms
proof (induction left arbitrary: attempt)
  case 0
  then show ?case
    by (auto simp: do_loop.simps [of _ _ _ _ _ 0] split: go_outcome.splits option.splits)
next
  case (Suc left)
  show ?case
  proof (cases "\<exists>e. do_once command params (net attempt) = Errs e \<and> rtp_retryable e
      \<and> ex_ctx (net attempt) = None \<and> ex_wait (net attempt) = None")
    case True
    then have "do_loop retries command params net (attempt + 1) left = (n, r)"
      using Suc.prems by (auto simp: do_loop.simps [of _ _ _ _ _ "Suc left"])
    from Suc.IH [OF this] show ?thesis by auto
  next
    case False
    then show ?thesis
      using Suc.prems
      by (auto simp: do_loop.simps [of _ _ _ _ _ "Suc left"] split: go_outcome.splits option.splits if_splits)
  qed
qed

text \<open>A command makes at most one attempt more than its retries, repeats only after a
  network timeout while its context is live, and succeeds exactly when its last attempt did.\<close>

theorem command_retries:
  assumes "rtp_do cfg command params net = (n, r)"
  shows "n \<le> nat (rc_max_retries cfg) + 1
    \<and> list_all (\<lambda>i. \<exists>e. do_once command params (net i) = Errs e \<and> rtp_retryable e
        \<and> ex_ctx (net i) = None \<and> ex_wait (net i) = None) [0..<n - 1]
    \<and> ((\<exists>x. r = Returns x) \<longleftrightarrow> n > 0 \<and> (\<exists>x. do_once command params (net (n - 1)) = Returns x))"
proof (cases "command = []")
  case True
  with assms show ?thesis by (auto simp: rtp_do_def)
next
  case False
  let ?k = "nat (rc_max_retries cfg)"
  have loop: "do_loop ?k command params net 0 ?k = (n, r)" using assms False by (simp add: rtp_do_def)
  have "n \<le> ?k + 1" using do_loop_attempts [of ?k command params net 0 ?k] loop by simp
  moreover have "list_all (\<lambda>i. \<exists>e. do_once command params (net i) = Errs e \<and> rtp_retryable e
        \<and> ex_ctx (net i) = None \<and> ex_wait (net i) = None) [0..<n - 1]"
    unfolding list_all_iff
  proof
    fix i assume "i \<in> set [0..<n - 1]"
    then show "\<exists>e. do_once command params (net i) = Errs e \<and> rtp_retryable e
        \<and> ex_ctx (net i) = None \<and> ex_wait (net i) = None"
      by (intro do_loop_retried [OF loop]) auto
  qed
  moreover have "(\<exists>x. r = Returns x) \<longleftrightarrow> n > 0 \<and> (\<exists>x. do_once command params (net (n - 1)) = Returns x)"
    using do_loop_last [OF loop] by blast
  ultimately show ?thesis by blast
qed

definition demo_exchange :: "go_err + string \<Rightarrow> exchange" where
  "demo_exchange r =
     \<lparr>ex_dial = None, ex_deadline = None, ex_cookie = Inr ''c1'', ex_write = None, ex_read = r,
      ex_ctx = None, ex_wait = None\<rparr>"

definition demo_net :: "nat \<Rightarrow> exchange" where
  "demo_net i = demo_exchange (if i < 2 then Inl (NetErr ''i/o timeout'' True) else Inr ''c1 d6:result2:oke'')"

lemma demo_ok: "decode_response ''c1 d6:result2:oke'' ''c1''
    = Returns \<lparr>rr_result = ''ok'', rr_error = [], rr_data = [(''result'', GString ''ok'')]\<rparr>"
  by code_simp

lemma demo_do: "rtp_do (default_rtp_config ''media:22222'') command_ping [] demo_net
    = (3, Returns \<lparr>rr_result = ''ok'', rr_error = [], rr_data = [(''result'', GString ''ok'')]\<rparr>)"
proof -
  have enc: "encode_request command_ping [] (Inr ''c1'') = Inr (''c1 d7:command4:pinge'', ''c1'')"
    by (rule demo_request)
  have late: "do_once command_ping [] (demo_net i) =
      Errs (Wrap ''read RTPEngine response: %w'' [] (NetErr ''i/o timeout'' True))" if "i < 2" for i
    using that by (simp add: do_once_def demo_net_def demo_exchange_def enc)
  have last: "do_once command_ping [] (demo_net 2) =
      Returns \<lparr>rr_result = ''ok'', rr_error = [], rr_data = [(''result'', GString ''ok'')]\<rparr>"
    by (simp add: do_once_def demo_net_def demo_exchange_def enc demo_ok rtp_buffer_def)
  have ctx: "ex_ctx (demo_net i) = None" "ex_wait (demo_net i) = None" for i
    by (simp_all add: demo_net_def demo_exchange_def)
  have two: "nat (rc_max_retries (default_rtp_config ''media:22222'')) = Suc (Suc 0)"
    by (simp add: default_rtp_config_def)
  have ne: "command_ping \<noteq> []" by (simp add: command_ping_def)
  have "do_loop 2 command_ping [] demo_net 0 (Suc (Suc 0)) = (3, Returns
      \<lparr>rr_result = ''ok'', rr_error = [], rr_data = [(''result'', GString ''ok'')]\<rparr>)"
    by (simp add: do_loop.simps late ctx rtp_retryable_def last [unfolded numeral_2_eq_2])
  with two ne show ?thesis by (simp add: rtp_do_def numeral_2_eq_2)
qed

theorem command_retries_witness:
  "\<exists>e. do_once command_ping [] (demo_net 1) = Errs e \<and> rtp_retryable e"
  using command_retries [OF demo_do] by (auto simp: upt_rec)

text \<open>The health check takes nothing but the result \<open>ok\<close>: an engine that answers the
  command \<open>ping\<close> with \<open>pong\<close> is reported as failed.\<close>

theorem pong_is_unhealthy:
  assumes "ex_dial (net 0) = None" "ex_deadline (net 0) = None" "ex_cookie (net 0) = Inr ''c1''"
    and "ex_write (net 0) = None" "ex_read (net 0) = Inr ''c1 d6:result4:ponge''" "ex_ctx (net 0) = None"
  shows "\<exists>e. health_check cfg net = Errs e"
proof -
  have dec: "decode_response ''c1 d6:result4:ponge'' ''c1'' = Errs (Errf ''RTPEngine request failed: %s'' [[]])"
    by code_simp
  have one: "do_once command_ping [] (net 0) = Errs (Errf ''RTPEngine request failed: %s'' [[]])"
    using assms by (simp add: do_once_def demo_request dec rtp_buffer_def)
  have ne: "command_ping \<noteq> []" by (simp add: command_ping_def)
  show ?thesis
    using assms(6) one ne
    by (cases "nat (rc_max_retries cfg)")
      (simp_all add: health_check_def rtp_do_def do_loop.simps rtp_retryable_def)
qed

theorem pong_is_unhealthy_witness:
  "\<exists>e. health_check (default_rtp_config ''media:22222'')
     (\<lambda>i. demo_exchange (Inr ''c1 d6:result4:ponge'')) = Errs e"
  by (rule pong_is_unhealthy) (simp_all add: demo_exchange_def)

text \<open>An accepted offer or answer hands on a trimmed session description that is not
  empty, from a request whose session and description are not blank.\<close>

theorem sdp_command_result:
  assumes "sdp_command command cfg r net = Returns (sdp, values)"
  shows "sdp \<noteq> [] \<and> trim_space sdp = sdp \<and> sdp = trim_space (string_value (map_of values ''sdp''))
    \<and> \<not> blank (sr_sdp r) \<and> \<not> blank (rs_call_id (sr_session r))
    \<and> \<not> blank (rs_from_tag (sr_session r)) \<and> \<not> blank (rs_branch (sr_session r))"
  using assms
  by (auto simp: sdp_command_def out_bind_def required_string_def Let_def sdp_request_validate_def
      rtp_session_validate_def trim_space_idem
      split: option.splits go_outcome.splits sum.splits if_splits)

definition demo_rtp_session :: rtp_session where
  "demo_rtp_session = \<lparr>rs_call_id = ''call'', rs_from_tag = ''f'', rs_to_tag = [], rs_branch = ''b'', rs_created_at = 0\<rparr>"

definition demo_offer :: sdp_request where
  "demo_offer = \<lparr>sr_session = demo_rtp_session, sr_sdp = ''v=0'', sr_flags = []\<rparr>"

lemma demo_offer_valid: "sdp_request_validate command_offer demo_offer = None"
  by code_simp

lemma demo_offer_encoded:
  "\<exists>p. encode_request command_offer (session_params demo_rtp_session ''v=0'' []) (Inr ''c1'') = Inr (p, ''c1'')"
proof -
  have "encode_request command_offer (session_params demo_rtp_session ''v=0'' []) (Inr ''c1'')
      = Inr (''c1 d7:call-id4:call7:command5:offer8:from-tag1:f3:sdp3:v=010:via-branch1:be'', ''c1'')"
    by code_simp
  then show ?thesis by blast
qed

lemma demo_offer_answered: "decode_response ''c1 d6:result2:ok3:sdp4: v=0e'' ''c1''
    = Returns \<lparr>rr_result = ''ok'', rr_error = [],
        rr_data = [(''result'', GString ''ok''), (''sdp'', GString '' v=0'')]\<rparr>"
  by code_simp

theorem sdp_command_result_witness: "trim_space ''v=0'' = ''v=0''"
proof -
  let ?net = "\<lambda>i :: nat. demo_exchange (Inr ''c1 d6:result2:ok3:sdp4: v=0e'')"
  let ?params = "session_params demo_rtp_session ''v=0'' []"
  obtain p where p: "encode_request command_offer ?params (Inr ''c1'') = Inr (p, ''c1'')"
    using demo_offer_encoded by blast
  have "do_once command_offer ?params (?net i) = Returns \<lparr>rr_result = ''ok'', rr_error = [],
        rr_data = [(''result'', GString ''ok''), (''sdp'', GString '' v=0'')]\<rparr>" for i
    by (simp add: do_once_def demo_exchange_def p demo_offer_answered rtp_buffer_def)
  moreover have "trim_space '' v=0'' = ''v=0''" by code_simp
  moreover have "command_offer \<noteq> []" by (simp add: command_offer_def)
  ultimately have "sdp_command command_offer (default_rtp_config ''media:22222'') demo_offer ?net
      = Returns (''v=0'', [(''result'', GString ''ok''), (''sdp'', GString '' v=0'')])"
    using demo_offer_valid
    by (simp add: sdp_command_def demo_offer_def rtp_do_def do_loop.simps out_bind_def
        required_string_def string_value_def)
  from sdp_command_result [OF this] show ?thesis by blast
qed

end
