(* ===== verification/Redis_Store.thy ===== *)
theory Redis_Store
  imports Go_Errors
begin

text \<open>
  The Redis scripts of the shared state (\<open>integrations/redis/cache.go\<close>, \<open>media.go\<close>): rate-limit
  windows, call leases, media leases and metric series. The Redis server is not part of the
  repository: its commands are the fields of a \<open>redis\<close> value, an argument of every script, and
  the locale \<open>redis_server\<close> states what their documentation promises over four views of the
  server's state: sorted sets, counters, strings and hashes. An evaluation may fail on the
  network before or after the server has applied it.
\<close>

section \<open>The commands\<close>

record 's redis =
  zremrangebyscore :: "string \<Rightarrow> int \<Rightarrow> 's \<Rightarrow> 's"
  zscore :: "string \<Rightarrow> string \<Rightarrow> 's \<Rightarrow> int option"
  zadd :: "string \<Rightarrow> int \<Rightarrow> string \<Rightarrow> 's \<Rightarrow> 's"
  zrem :: "string \<Rightarrow> string \<Rightarrow> 's \<Rightarrow> 's"
  zcard :: "string \<Rightarrow> 's \<Rightarrow> int"
  incr :: "string \<Rightarrow> 's \<Rightarrow> int \<times> 's"
  pexpire :: "string \<Rightarrow> int \<Rightarrow> 's \<Rightarrow> 's"
  r_get :: "string \<Rightarrow> 's \<Rightarrow> string option"
  r_set :: "string \<Rightarrow> string \<Rightarrow> int \<Rightarrow> 's \<Rightarrow> 's"
  r_del :: "string list \<Rightarrow> 's \<Rightarrow> 's"
  r_exists :: "string \<Rightarrow> 's \<Rightarrow> bool"
  hexists :: "string \<Rightarrow> string \<Rightarrow> 's \<Rightarrow> bool"
  hlen :: "string \<Rightarrow> 's \<Rightarrow> int"
  hincrby :: "string \<Rightarrow> string \<Rightarrow> int \<Rightarrow> 's \<Rightarrow> 's"
  hset :: "string \<Rightarrow> string \<Rightarrow> string \<Rightarrow> 's \<Rightarrow> 's"

text \<open>A network fault of one evaluation: its error, and whether the server had applied it.\<close>

type_synonym fault = "(go_err \<times> bool) option"

definition eval_script :: "fault \<Rightarrow> string \<Rightarrow> ('s \<Rightarrow> 'r \<times> 's) \<Rightarrow> 's \<Rightarrow> (go_err + 'r) \<times> 's" where
  "eval_script fault what script s =
     (case fault of
        None \<Rightarrow> (case script s of (r, s') \<Rightarrow> (Inr r, s'))
      | Some (e, applied) \<Rightarrow> (Inl (Wrap what [] e), if applied then snd (script s) else s))"

definition milliseconds :: "int \<Rightarrow> int" where
  "milliseconds d = go_div d 1000000"

definition validate_key :: "string \<Rightarrow> go_err option" where
  "validate_key key = (if key = [] then Some (Errf ''redis key is required'' []) else None)"

section \<open>Fixed windows\<close>

definition fixed_window_script :: "'s redis \<Rightarrow> string \<Rightarrow> int \<Rightarrow> int \<Rightarrow> 's \<Rightarrow> bool \<times> 's" where
  "fixed_window_script R key window_ms limit s =
     (case incr R key s of (current, s1) \<Rightarrow>
        let s2 = (if current = 1 then pexpire R key window_ms s1 else s1)
        in (current \<le> limit, s2))"

definition allow_fixed_window ::
  "'s redis \<Rightarrow> fault \<Rightarrow> string \<Rightarrow> int \<Rightarrow> int \<Rightarrow> 's \<Rightarrow> (go_err + bool) \<times> 's" where
  "allow_fixed_window R fault key limit window s =
     (case first_error
        [(key = [], Errf ''redis key is required'' []),
         (limit \<le> 0, Errf ''rate limit must be positive'' []),
         (window \<le> 0, Errf ''rate limit window must be positive'' [])] of
        Some e \<Rightarrow> (Inl e, s)
      | None \<Rightarrow> eval_script fault ''apply Redis fixed-window rate limit: %w''
                  (fixed_window_script R key (milliseconds window) limit) s)"

section \<open>Call leases\<close>

definition leases_key :: "string \<Rightarrow> string" where "leases_key prefix = prefix @ '':leases''"
definition cps_key :: "string \<Rightarrow> string" where "cps_key prefix = prefix @ '':cps''"

definition call_lease_script ::
  "'s redis \<Rightarrow> string \<Rightarrow> string \<Rightarrow> int \<Rightarrow> int \<Rightarrow> int \<Rightarrow> int \<Rightarrow> string \<Rightarrow> int \<Rightarrow> 's \<Rightarrow> string \<times> 's" where
  "call_lease_script R cps_k leases_k now maxCPS maxConcurrent expiry leaseID ttl_ms s =
     (let s1 = zremrangebyscore R leases_k now s
      in case zscore R leases_k leaseID s1 of
           Some _ \<Rightarrow> (''ok'', pexpire R leases_k ttl_ms (zadd R leases_k expiry leaseID s1))
         | None \<Rightarrow>
             (case incr R cps_k s1 of (cps, s2) \<Rightarrow>
                let s3 = (if cps = 1 then pexpire R cps_k 1000 s2 else s2)
                in if cps > maxCPS then (''cps'', s3)
                   else if zcard R leases_k s3 \<ge> maxConcurrent then (''concurrent'', s3)
                   else (''ok'', pexpire R leases_k ttl_ms (zadd R leases_k expiry leaseID s3))))"

definition acquire_call_lease ::
  "'s redis \<Rightarrow> fault \<Rightarrow> string \<Rightarrow> string \<Rightarrow> int \<Rightarrow> int \<Rightarrow> int \<Rightarrow> int \<Rightarrow> 's \<Rightarrow> (go_err + bool \<times> string) \<times> 's" where
  "acquire_call_lease R fault prefix leaseID maxCPS maxConcurrent ttl now s =
     (case validate_key prefix of
        Some e \<Rightarrow> (Inl e, s)
      | None \<Rightarrow>
          if leaseID = [] \<or> maxCPS \<le> 0 \<or> maxConcurrent \<le> 0 \<or> ttl \<le> 0
          then (Inl (Errf ''valid call lease context, id, limits, and TTL are required'' []), s)
          else (case eval_script fault ''acquire Redis call lease: %w''
                  (call_lease_script R (cps_key prefix) (leases_key prefix) now maxCPS maxConcurrent
                     (now + milliseconds ttl) leaseID (milliseconds ttl)) s of
                  (Inl e, s') \<Rightarrow> (Inl e, s')
                | (Inr reason, s') \<Rightarrow> (Inr (reason = ''ok'', reason), s')))"

definition concurrent_lease_script ::
  "'s redis \<Rightarrow> string \<Rightarrow> int \<Rightarrow> int \<Rightarrow> int \<Rightarrow> string \<Rightarrow> int \<Rightarrow> 's \<Rightarrow> bool \<times> 's" where
  "concurrent_lease_script R leases_k now maxConcurrent expiry leaseID ttl_ms s =
     (let s1 = zremrangebyscore R leases_k now s
      in case zscore R leases_k leaseID s1 of
           Some _ \<Rightarrow> (True, pexpire R leases_k ttl_ms (zadd R leases_k expiry leaseID s1))
         | None \<Rightarrow>
             if zcard R leases_k s1 \<ge> maxConcurrent then (False, s1)
             else (True, pexpire R leases_k ttl_ms (zadd R leases_k expiry leaseID s1)))"

definition acquire_concurrent_lease ::
  "'s redis \<Rightarrow> fault \<Rightarrow> string \<Rightarrow> string \<Rightarrow> int \<Rightarrow> int \<Rightarrow> int \<Rightarrow> 's \<Rightarrow> (go_err + bool) \<times> 's" where
  "acquire_concurrent_lease R fault prefix leaseID maxConcurrent ttl now s =
     (case validate_key prefix of
        Some e \<Rightarrow> (Inl e, s)
      | None \<Rightarrow>
          if leaseID = [] \<or> maxConcurrent \<le> 0 \<or> ttl \<le> 0
          then (Inl (Errf ''valid concurrent lease context, id, limit, and TTL are required'' []), s)
          else eval_script fault ''acquire Redis concurrent lease: %w''
                 (concurrent_lease_script R (leases_key prefix) now maxConcurrent
                    (now + milliseconds ttl) leaseID (milliseconds ttl)) s)"

definition bind_script :: "'s redis \<Rightarrow> string \<Rightarrow> string \<Rightarrow> string \<Rightarrow> 's \<Rightarrow> bool \<times> 's" where
  "bind_script R leases_k leaseID callID s =
     (case zscore R leases_k leaseID s of
        None \<Rightarrow> (False, s)
      | Some score \<Rightarrow> (True, zadd R leases_k score callID (zrem R leases_k leaseID s)))"

definition bind_call_lease :: "'s redis \<Rightarrow> fault \<Rightarrow> string \<Rightarrow> string \<Rightarrow> string \<Rightarrow> 's \<Rightarrow> go_err option \<times> 's" where
  "bind_call_lease R fault prefix leaseID callID s =
     (case validate_key prefix of
        Some e \<Rightarrow> (Some e, s)
      | None \<Rightarrow>
          if leaseID = [] \<or> callID = []
          then (Some (Errf ''call lease context, lease id, and call id are required'' []), s)
          else (case eval_script fault ''bind Redis call lease: %w''
                  (bind_script R (leases_key prefix) leaseID callID) s of
                  (Inl e, s') \<Rightarrow> (Some e, s')
                | (Inr bound, s') \<Rightarrow>
                    (if bound then None else Some (Errf ''call lease expired before binding'' []), s')))"

definition release_call_lease :: "'s redis \<Rightarrow> fault \<Rightarrow> string \<Rightarrow> string \<Rightarrow> 's \<Rightarrow> go_err option \<times> 's" where
  "release_call_lease R fault prefix callOrLeaseID s =
     (case validate_key prefix of
        Some e \<Rightarrow> (Some e, s)
      | None \<Rightarrow>
          if callOrLeaseID = [] then (Some (Errf ''call lease context and id are required'' []), s)
          else (case eval_script fault ''release Redis call lease: %w''
                  (\<lambda>s. ((), zrem R (leases_key prefix) callOrLeaseID s)) s of
                  (Inl e, s') \<Rightarrow> (Some e, s')
                | (Inr _, s') \<Rightarrow> (None, s')))"

text \<open>Refreshing is two commands: the second can fail after the first has been applied.\<close>

definition refresh_call_lease ::
  "'s redis \<Rightarrow> fault \<Rightarrow> fault \<Rightarrow> string \<Rightarrow> string \<Rightarrow> int \<Rightarrow> int \<Rightarrow> 's \<Rightarrow> go_err option \<times> 's" where
  "refresh_call_lease R fault1 fault2 prefix callID ttl now s =
     (case validate_key prefix of
        Some e \<Rightarrow> (Some e, s)
      | None \<Rightarrow>
          if callID = [] \<or> ttl \<le> 0 then (Some (Errf ''call lease context, id, and TTL are required'' []), s)
          else (case eval_script fault1 ''refresh Redis call lease: %w''
                  (\<lambda>s. ((), zadd R (leases_key prefix) (now + milliseconds ttl) callID s)) s of
                  (Inl e, s1) \<Rightarrow> (Some e, s1)
                | (Inr _, s1) \<Rightarrow>
                    (case eval_script fault2 ''expire refreshed Redis call leases: %w''
                       (\<lambda>s. ((), pexpire R (leases_key prefix) (milliseconds ttl) s)) s1 of
                       (Inl e, s2) \<Rightarrow> (Some e, s2)
                     | (Inr _, s2) \<Rightarrow> (None, s2))))"

section \<open>Metric series\<close>

definition metric_counters :: string where "metric_counters = ''telecom:metrics:counters''"
definition metric_gauges :: string where "metric_gauges = ''telecom:metrics:gauges''"

definition increment_script :: "'s redis \<Rightarrow> string \<Rightarrow> int \<Rightarrow> 's \<Rightarrow> int \<times> 's" where
  "increment_script R field maxSeries s =
     (if \<not> hexists R metric_counters field s \<and> hlen R metric_counters s \<ge> maxSeries then (0, s)
      else (1, hincrby R metric_counters field 1 s))"

definition increment_metric :: "'s redis \<Rightarrow> fault \<Rightarrow> string \<Rightarrow> int \<Rightarrow> 's \<Rightarrow> go_err option \<times> 's" where
  "increment_metric R fault field maxSeries s =
     (if field = [] \<or> maxSeries \<le> 0
      then (Some (Errf ''metric context, field, and series limit are required'' []), s)
      else (case eval_script fault ''increment shared telecom metric: %w'' (increment_script R field maxSeries) s of
              (Inl e, s') \<Rightarrow> (Some e, s') | (Inr _, s') \<Rightarrow> (None, s')))"

definition gauge_script :: "'s redis \<Rightarrow> string \<Rightarrow> string \<Rightarrow> int \<Rightarrow> 's \<Rightarrow> int \<times> 's" where
  "gauge_script R field value maxSeries s =
     (if \<not> hexists R metric_gauges field s \<and> hlen R metric_gauges s \<ge> maxSeries then (0, s)
      else (1, hset R metric_gauges field value s))"

definition set_metric_gauge :: "'s redis \<Rightarrow> fault \<Rightarrow> string \<Rightarrow> string \<Rightarrow> int \<Rightarrow> 's \<Rightarrow> go_err option \<times> 's" where
  "set_metric_gauge R fault field value maxSeries s =
     (if field = [] \<or> maxSeries \<le> 0
      then (Some (Errf ''metric context, field, and series limit are required'' []), s)
      else (case eval_script fault ''set shared telecom metric gauge: %w'' (gauge_script R field value maxSeries) s of
              (Inl e, s') \<Rightarrow> (Some e, s') | (Inr _, s') \<Rightarrow> (None, s')))"

section \<open>Media leases\<close>

definition media_lease_script ::
  "'s redis \<Rightarrow> string \<Rightarrow> string \<Rightarrow> string \<Rightarrow> string \<Rightarrow> string \<Rightarrow> string \<Rightarrow> int \<Rightarrow> int \<Rightarrow> int \<Rightarrow> int \<Rightarrow> 's \<Rightarrow> string \<times> 's" where
  "media_lease_script R nodeKey drainingKey leasesKey ownerKey nodeID sessionID expiry ttl_ms now capacity s =
     (if \<not> r_exists R nodeKey s then (''missing'', s)
      else if r_exists R drainingKey s then (''draining'', s)
      else case r_get R ownerKey s of
        Some owner \<Rightarrow>
          if owner \<noteq> nodeID then (''owned'', s)
          else (''ok'', pexpire R ownerKey ttl_ms (pexpire R leasesKey ttl_ms (zadd R leasesKey expiry sessionID s)))
      | None \<Rightarrow>
          (let s1 = zremrangebyscore R leasesKey now s
           in if zcard R leasesKey s1 \<ge> capacity then (''capacity'', s1)
              else (''ok'', r_set R ownerKey nodeID ttl_ms
                             (pexpire R leasesKey ttl_ms (zadd R leasesKey expiry sessionID s1)))))"

definition acquire_media_lease ::
  "'s redis \<Rightarrow> fault \<Rightarrow> string \<Rightarrow> string \<Rightarrow> string \<Rightarrow> string \<Rightarrow> string \<Rightarrow> string \<Rightarrow> int \<Rightarrow> int \<Rightarrow> int \<Rightarrow> 's
   \<Rightarrow> (go_err + bool \<times> string) \<times> 's" where
  "acquire_media_lease R fault nodeKey drainingKey leasesKey ownerKey nodeID sessionID capacity ttl now s =
     (if nodeID = [] \<or> sessionID = [] \<or> capacity \<le> 0 \<or> ttl \<le> 0
      then (Inl (Errf ''valid media lease context, ids, capacity, and TTL are required'' []), s)
      else (case eval_script fault ''acquire Redis media lease: %w''
              (media_lease_script R nodeKey drainingKey leasesKey ownerKey nodeID sessionID
                 (now + milliseconds ttl) (milliseconds ttl) now capacity) s of
              (Inl e, s') \<Rightarrow> (Inl e, s')
            | (Inr reason, s') \<Rightarrow> (Inr (reason = ''ok'', reason), s')))"

definition media_refresh_script ::
  "'s redis \<Rightarrow> string \<Rightarrow> string \<Rightarrow> string \<Rightarrow> string \<Rightarrow> string \<Rightarrow> int \<Rightarrow> int \<Rightarrow> 's \<Rightarrow> bool \<times> 's" where
  "media_refresh_script R nodeKey leasesKey ownerKey nodeID sessionID expiry ttl_ms s =
     (if \<not> r_exists R nodeKey s then (False, s)
      else if r_get R ownerKey s \<noteq> Some nodeID then (False, s)
      else (True, pexpire R ownerKey ttl_ms (pexpire R leasesKey ttl_ms (zadd R leasesKey expiry sessionID s))))"

definition refresh_media_lease ::
  "'s redis \<Rightarrow> fault \<Rightarrow> string \<Rightarrow> string \<Rightarrow> string \<Rightarrow> string \<Rightarrow> string \<Rightarrow> int \<Rightarrow> int \<Rightarrow> 's \<Rightarrow> go_err option \<times> 's" where
  "refresh_media_lease R fault nodeKey leasesKey ownerKey nodeID sessionID ttl now s =
     (if nodeID = [] \<or> sessionID = [] \<or> ttl \<le> 0
      then (Some (Errf ''valid media lease refresh context, ids, and TTL are required'' []), s)
      else (case eval_script fault ''refresh Redis media lease: %w''
              (media_refresh_script R nodeKey leasesKey ownerKey nodeID sessionID
                 (now + milliseconds ttl) (milliseconds ttl)) s of
              (Inl e, s') \<Rightarrow> (Some e, s')
            | (Inr ok, s') \<Rightarrow>
                (if ok then None else Some (Errf ''media session ownership is unavailable'' []), s')))"

definition media_release_script :: "'s redis \<Rightarrow> string \<Rightarrow> string \<Rightarrow> string \<Rightarrow> string \<Rightarrow> 's \<Rightarrow> int \<times> 's" where
  "media_release_script R leasesKey ownerKey nodeID sessionID s =
     (let s1 = zrem R leasesKey sessionID s
      in (1, if r_get R ownerKey s1 = Some nodeID then r_del R [ownerKey] s1 else s1))"

definition release_media_lease ::
  "'s redis \<Rightarrow> fault \<Rightarrow> string \<Rightarrow> string \<Rightarrow> string \<Rightarrow> string \<Rightarrow> 's \<Rightarrow> go_err option \<times> 's" where
  "release_media_lease R fault leasesKey ownerKey nodeID sessionID s =
     (if nodeID = [] \<or> sessionID = []
      then (Some (Errf ''valid media lease release context and ids are required'' []), s)
      else (case eval_script fault ''release Redis media lease: %w''
              (media_release_script R leasesKey ownerKey nodeID sessionID) s of
              (Inl e, s') \<Rightarrow> (Some e, s') | (Inr _, s') \<Rightarrow> (None, s')))"

lemmas script_defs = eval_script_def fixed_window_script_def call_lease_script_def
  concurrent_lease_script_def bind_script_def media_lease_script_def media_refresh_script_def
  media_release_script_def increment_script_def gauge_script_def

end
