(* ===== verification/Redis_Leases.thy ===== *)
theory Redis_Leases
  imports Redis_Store
begin

text \<open>
  What the lease scripts guarantee on any server that keeps the documented laws of its
  commands: bounded concurrency, idempotent acquisition, exclusive ownership, bounded windows
  and metric series. A store of association lists shows that the laws can be met.
\<close>

text \<open>The leases of a key that have not expired at a time.\<close>

definition live :: "(string \<Rightarrow> 's \<Rightarrow> string \<Rightarrow> int option) \<Rightarrow> string \<Rightarrow> int \<Rightarrow> 's \<Rightarrow> string set" where
  "live zs k now s = {m. \<exists>sc. zs k s m = Some sc \<and> now < sc}"

section \<open>The contract of a lease pool\<close>

text \<open>
  What admission relies on: holders are counted up to a capacity, an admitted holder is in the
  pool, handing a lease on takes no further room.
\<close>

datatype pool_op = Pool_Acquire string int int | Pool_Bind string string | Pool_Release string

fun pool_step ::
  "(string \<Rightarrow> int \<Rightarrow> int \<Rightarrow> 's \<Rightarrow> bool \<times> 's) \<Rightarrow> (string \<Rightarrow> string \<Rightarrow> 's \<Rightarrow> bool \<times> 's) \<Rightarrow>
   (string \<Rightarrow> 's \<Rightarrow> 's) \<Rightarrow> pool_op \<Rightarrow> 's \<Rightarrow> 's" where
  "pool_step acquire bind release (Pool_Acquire i now expiry) s = snd (acquire i now expiry s)"
| "pool_step acquire bind release (Pool_Bind i j) s = snd (bind i j s)"
| "pool_step acquire bind release (Pool_Release i) s = release i s"

locale lease_pool =
  fixes acquire :: "string \<Rightarrow> int \<Rightarrow> int \<Rightarrow> 's \<Rightarrow> bool \<times> 's"
    and bind :: "string \<Rightarrow> string \<Rightarrow> 's \<Rightarrow> bool \<times> 's"
    and release :: "string \<Rightarrow> 's \<Rightarrow> 's"
    and held :: "'s \<Rightarrow> string set"
    and cap :: int
  assumes acquire_bound: "int (card (held s)) \<le> cap \<Longrightarrow> int (card (held (snd (acquire i now expiry s)))) \<le> cap"
    and acquire_held: "fst (acquire i now expiry s) \<Longrightarrow> i \<in> held (snd (acquire i now expiry s))"
    and bind_bound: "card (held (snd (bind i j s))) \<le> card (held s)"
    and release_bound: "card (held (release i s)) \<le> card (held s)"
begin

lemma step_bound: "int (card (held s)) \<le> cap \<Longrightarrow> int (card (held (pool_step acquire bind release op s))) \<le> cap"
proof (cases op)
  case (Pool_Bind i j)
  with bind_bound [of i j s] show "int (card (held s)) \<le> cap \<Longrightarrow> ?thesis" by simp
next
  case (Pool_Release i)
  with release_bound [of i s] show "int (card (held s)) \<le> cap \<Longrightarrow> ?thesis" by simp
qed (simp add: acquire_bound)

lemma run_bound:
  "int (card (held s)) \<le> cap \<Longrightarrow> int (card (held (fold (pool_step acquire bind release) ops s))) \<le> cap"
  by (induction ops arbitrary: s) (simp_all add: step_bound)

end

section \<open>The laws of the commands\<close>

text \<open>
  The views: the members of a sorted set with their scores, a counter, a string, the fields of
  a hash. Setting an expiry keeps the value; what has expired is gone before the next command,
  which no law excludes.
\<close>

locale redis_server =
  fixes R :: "'s redis"
    and zs :: "string \<Rightarrow> 's \<Rightarrow> string \<Rightarrow> int option"
    and cnt :: "string \<Rightarrow> 's \<Rightarrow> int"
    and str :: "string \<Rightarrow> 's \<Rightarrow> string option"
    and hs :: "string \<Rightarrow> 's \<Rightarrow> string set"
  assumes zs_finite: "finite (dom (zs k s))"
    and zscore_law: "zscore R k m s = zs k s m"
    and zcard_law: "zcard R k s = int (card (dom (zs k s)))"
    and zremrange_law: "zs k' (zremrangebyscore R k mx s) =
      (if k' = k then (\<lambda>m. case zs k s m of None \<Rightarrow> None | Some sc \<Rightarrow> if sc \<le> mx then None else Some sc)
       else zs k' s)"
    and zadd_law: "zs k' (zadd R k sc m s) = (if k' = k then (zs k s)(m \<mapsto> sc) else zs k' s)"
    and zrem_law: "zs k' (zrem R k m s) = (if k' = k then (zs k s)(m := None) else zs k' s)"
    and zs_other: "zs k' (pexpire R k t s) = zs k' s" "zs k' (snd (incr R k s)) = zs k' s"
      "zs k' (r_set R k v t s) = zs k' s" "k' \<notin> set ks \<Longrightarrow> zs k' (r_del R ks s) = zs k' s"
    and incr_law: "fst (incr R k s) = cnt k s + 1"
      "cnt k' (snd (incr R k s)) = (if k' = k then cnt k s + 1 else cnt k' s)"
    and cnt_other: "cnt k' (pexpire R k t s) = cnt k' s" "cnt k' (zadd R k sc m s) = cnt k' s"
      "cnt k' (zremrangebyscore R k mx s) = cnt k' s" "cnt k' (zrem R k m s) = cnt k' s"
    and get_law: "r_get R k s = str k s"
    and set_law: "str k' (r_set R k v t s) = (if k' = k then Some v else str k' s)"
    and del_law: "str k' (r_del R ks s) = (if k' \<in> set ks then None else str k' s)"
    and str_other: "str k' (pexpire R k t s) = str k' s" "str k' (zadd R k sc m s) = str k' s"
      "str k' (zremrangebyscore R k mx s) = str k' s" "str k' (zrem R k m s) = str k' s"
    and hs_finite: "finite (hs k s)"
    and hexists_law: "hexists R k f s \<longleftrightarrow> f \<in> hs k s"
    and hlen_law: "hlen R k s = int (card (hs k s))"
    and hincrby_law: "hs k' (hincrby R k f n s) = (if k' = k then insert f (hs k s) else hs k' s)"
    and hset_law: "hs k' (hset R k f v s) = (if k' = k then insert f (hs k s) else hs k' s)"
begin

lemmas laws = zscore_law zcard_law zremrange_law zadd_law zrem_law zs_other incr_law cnt_other
  get_law set_law del_law str_other hexists_law hlen_law hincrby_law hset_law

lemma live_finite: "finite (live zs k now s)"
  by (rule finite_subset [OF _ zs_finite [of k s]]) (auto simp: live_def)

lemma purge_dom: "dom (zs k (zremrangebyscore R k now s)) = live zs k now s"
  by (auto simp: laws live_def split: option.splits if_splits)

lemma purge_lookup: "zs k (zremrangebyscore R k now s) m \<noteq> None \<longleftrightarrow> m \<in> live zs k now s"
  using purge_dom [of k now s] by (auto simp: dom_def)

text \<open>The concurrency script: success, and the leases held after it.\<close>

lemma concurrent_exact:
  assumes "concurrent_lease_script R k now maxc expiry lid ttl s = (ok, s')"
  shows "ok \<longleftrightarrow> lid \<in> live zs k now s \<or> int (card (live zs k now s)) < maxc"
    and "dom (zs k s') = (if ok then insert lid (live zs k now s) else live zs k now s)"
proof -
  let ?s1 = "zremrangebyscore R k now s"
  have look: "zscore R k lid ?s1 \<noteq> None \<longleftrightarrow> lid \<in> live zs k now s"
    unfolding zscore_law by (rule purge_lookup)
  have card: "zcard R k ?s1 = int (card (live zs k now s))" by (simp only: zcard_law purge_dom)
  have add: "dom (zs k (pexpire R k t (zadd R k sc lid ?s1))) = insert lid (live zs k now s)" for t sc
    using purge_dom [of k now s] by (simp add: zs_other zadd_law)
  show "ok \<longleftrightarrow> lid \<in> live zs k now s \<or> int (card (live zs k now s)) < maxc"
    and "dom (zs k s') = (if ok then insert lid (live zs k now s) else live zs k now s)"
    using assms look card add purge_dom [of k now s]
    by (auto simp: concurrent_lease_script_def Let_def split: option.splits if_splits)
qed

lemma concurrent_bound:
  assumes "concurrent_lease_script R k now maxc expiry lid ttl s = (ok, s')"
    and "int (card (dom (zs k s))) \<le> maxc"
  shows "int (card (dom (zs k s'))) \<le> maxc"
proof -
  have sub: "live zs k now s \<subseteq> dom (zs k s)" by (auto simp: live_def)
  have le: "int (card (live zs k now s)) \<le> maxc"
    using card_mono [OF zs_finite sub] assms(2) by linarith
  show ?thesis
    using concurrent_exact [OF assms(1)] le live_finite [of k now s]
    by (auto simp: card_insert_if)
qed

text \<open>The trunk script: the same with a counter of admissions in the current second before it.\<close>

lemma call_lease_exact:
  assumes "call_lease_script R c k now maxCPS maxc expiry lid ttl s = (reason, s')"
  shows "reason = (if lid \<in> live zs k now s then ''ok''
      else if cnt c s + 1 > maxCPS then ''cps''
      else if int (card (live zs k now s)) \<ge> maxc then ''concurrent'' else ''ok'')"
    and "dom (zs k s') = (if reason = ''ok'' then insert lid (live zs k now s) else live zs k now s)"
    and "cnt c s' = (if lid \<in> live zs k now s then cnt c s else cnt c s + 1)"
proof -
  let ?s1 = "zremrangebyscore R k now s"
  obtain n s2 where i: "incr R c ?s1 = (n, s2)" by (cases "incr R c ?s1")
  let ?s3 = "if n = 1 then pexpire R c 1000 s2 else s2"
  have n: "n = cnt c s + 1" using incr_law(1) [of c ?s1] i by (simp add: cnt_other)
  have z3: "zs k ?s3 = zs k ?s1" using zs_other(2) [of k c ?s1] i by (simp add: zs_other)
  have c3: "cnt c ?s3 = cnt c s + 1" using incr_law(2) [of c c ?s1] i by (simp add: cnt_other)
  have look: "zscore R k lid ?s1 \<noteq> None \<longleftrightarrow> lid \<in> live zs k now s"
    unfolding zscore_law by (rule purge_lookup)
  have card: "zcard R k ?s3 = int (card (live zs k now s))"
    by (simp only: zcard_law z3 purge_dom)
  have add: "dom (zs k (pexpire R k t (zadd R k sc lid ?s1))) = insert lid (live zs k now s)"
    "dom (zs k (pexpire R k t (zadd R k sc lid ?s3))) = insert lid (live zs k now s)" for t sc
    using purge_dom [of k now s] z3 by (simp_all only: zs_other zadd_law) auto
  have keep: "dom (zs k ?s3) = live zs k now s" using z3 purge_dom [of k now s] by simp
  have cadd: "cnt c (pexpire R k t (zadd R k sc lid ?s1)) = cnt c s"
    "cnt c (pexpire R k t (zadd R k sc lid ?s3)) = cnt c s + 1" for t sc
    using c3 by (simp_all only: cnt_other)
  consider (held) sc where "zscore R k lid ?s1 = Some sc" "lid \<in> live zs k now s"
    | (fresh) "zscore R k lid ?s1 = None" "lid \<notin> live zs k now s"
    using look by (cases "zscore R k lid ?s1") auto
  then have "reason = (if lid \<in> live zs k now s then ''ok''
      else if cnt c s + 1 > maxCPS then ''cps''
      else if int (card (live zs k now s)) \<ge> maxc then ''concurrent'' else ''ok'')
    \<and> dom (zs k s') = (if reason = ''ok'' then insert lid (live zs k now s) else live zs k now s)
    \<and> cnt c s' = (if lid \<in> live zs k now s then cnt c s else cnt c s + 1)"
  proof cases
    case held
    then show ?thesis
      using assms add(1) [of ttl expiry] cadd(1) [of ttl expiry]
      by (auto simp: call_lease_script_def Let_def)
  next
    case fresh
    have "(reason, s') = (if n > maxCPS then (''cps'', ?s3)
        else if zcard R k ?s3 \<ge> maxc then (''concurrent'', ?s3)
        else (''ok'', pexpire R k ttl (zadd R k expiry lid ?s3)))"
      using assms fresh(1) i by (simp add: call_lease_script_def Let_def)
    then show ?thesis
      using fresh(2) n card keep c3 add(2) [of ttl expiry] cadd(2) [of ttl expiry]
      by (simp only: split: if_splits) auto
  qed
  then show "reason = (if lid \<in> live zs k now s then ''ok''
      else if cnt c s + 1 > maxCPS then ''cps''
      else if int (card (live zs k now s)) \<ge> maxc then ''concurrent'' else ''ok'')"
    and "dom (zs k s') = (if reason = ''ok'' then insert lid (live zs k now s) else live zs k now s)"
    and "cnt c s' = (if lid \<in> live zs k now s then cnt c s else cnt c s + 1)" by blast+
qed

lemma call_lease_bound:
  assumes "call_lease_script R c k now maxCPS maxc expiry lid ttl s = (reason, s')"
    and "int (card (dom (zs k s))) \<le> maxc"
  shows "int (card (dom (zs k s'))) \<le> maxc"
proof -
  have sub: "live zs k now s \<subseteq> dom (zs k s)" by (auto simp: live_def)
  have le: "int (card (live zs k now s)) \<le> maxc"
    using card_mono [OF zs_finite sub] assms(2) by linarith
  show ?thesis
    using call_lease_exact(1,2) [OF assms(1)] le live_finite [of k now s]
    by (auto simp: card_insert_if split: if_splits)
qed

lemma bind_exact:
  assumes "bind_script R k lid cid s = (ok, s')"
  shows "ok \<longleftrightarrow> zs k s lid \<noteq> None"
    and "ok \<Longrightarrow> zs k s' = (zs k s)(lid := None, cid := zs k s lid)"
    and "\<not> ok \<Longrightarrow> s' = s"
  using assms by (auto simp: bind_script_def laws split: option.splits)

lemma bind_card:
  assumes "bind_script R k lid cid s = (ok, s')"
  shows "card (dom (zs k s')) \<le> card (dom (zs k s))"
proof (cases ok)
  case True
  have lid: "lid \<in> dom (zs k s)" using bind_exact(1) [OF assms] True by (simp add: domIff)
  have sub: "dom (zs k s') \<subseteq> insert cid (dom (zs k s) - {lid})"
    using bind_exact(2) [OF assms True] by (auto split: if_splits)
  have "card (insert cid (dom (zs k s) - {lid})) \<le> card (dom (zs k s))"
    using lid zs_finite [of k s] card_Suc_Diff1 [OF zs_finite lid]
    by (metis card_insert_le_m1 finite_Diff card_gt_0_iff empty_iff diff_Suc_1 zero_less_Suc order_refl)
  then show ?thesis
    using card_mono [OF _ sub] zs_finite [of k s] by (meson finite_Diff finite_insert le_trans)
qed (use bind_exact(3) [OF assms] in simp)

text \<open>The media script: the owner of a session and the leases of the node.\<close>

lemma media_exact:
  assumes "media_lease_script R nk dk lk ok nid sid expiry ttl now cap s = (reason, s')" "lk \<noteq> ok"
  shows "reason = ''ok'' \<Longrightarrow> str ok s' = Some nid \<and> sid \<in> dom (zs lk s')
      \<and> (str ok s = None \<or> str ok s = Some nid)"
    and "reason \<noteq> ''ok'' \<Longrightarrow> str ok s' = str ok s"
    and "k' \<noteq> ok \<Longrightarrow> str k' s' = str k' s"
    and "str ok s = None \<Longrightarrow> int (card (dom (zs lk s))) \<le> cap \<Longrightarrow> int (card (dom (zs lk s'))) \<le> cap"
proof -
  let ?s1 = "zremrangebyscore R lk now s"
  show "reason = ''ok'' \<Longrightarrow> str ok s' = Some nid \<and> sid \<in> dom (zs lk s')
      \<and> (str ok s = None \<or> str ok s = Some nid)"
    and "reason \<noteq> ''ok'' \<Longrightarrow> str ok s' = str ok s"
    and "k' \<noteq> ok \<Longrightarrow> str k' s' = str k' s"
    using assms by (auto simp: media_lease_script_def Let_def get_law str_other set_law zs_other zadd_law
        split: option.splits if_splits)
  show "int (card (dom (zs lk s'))) \<le> cap" if "str ok s = None" "int (card (dom (zs lk s))) \<le> cap"
  proof -
    have sub: "live zs lk now s \<subseteq> dom (zs lk s)" by (auto simp: live_def)
    have le: "int (card (live zs lk now s)) \<le> cap"
      using card_mono [OF zs_finite sub] that(2) by linarith
    have card: "zcard R lk ?s1 = int (card (live zs lk now s))" by (simp only: zcard_law purge_dom)
    have add: "dom (zs lk (r_set R ok nid ttl (pexpire R lk ttl (zadd R lk expiry sid ?s1))))
        = insert sid (live zs lk now s)"
      using purge_dom [of lk now s] by (simp add: zs_other zadd_law)
    show ?thesis
      using assms(1) that le card add purge_dom [of lk now s] live_finite [of lk now s]
      by (auto simp: media_lease_script_def Let_def get_law card_insert_if split: if_splits)
  qed
qed

end

text \<open>Both lease scripts, with binding and removal, form a pool of the capacity they check.\<close>

sublocale redis_server \<subseteq> org_pool: lease_pool
  "\<lambda>lid now expiry. concurrent_lease_script R k now cap expiry lid ttl" "bind_script R k" "zrem R k"
  "\<lambda>s. dom (zs k s)" cap for k cap ttl
proof unfold_locales
  fix s :: 's and i j :: string and now expiry :: int
  obtain ok s' where r: "concurrent_lease_script R k now cap expiry i ttl s = (ok, s')"
    by (cases "concurrent_lease_script R k now cap expiry i ttl s")
  show "int (card (dom (zs k s))) \<le> cap \<Longrightarrow>
      int (card (dom (zs k (snd (concurrent_lease_script R k now cap expiry i ttl s))))) \<le> cap"
    using concurrent_bound [OF r] r by simp
  show "fst (concurrent_lease_script R k now cap expiry i ttl s) \<Longrightarrow>
      i \<in> dom (zs k (snd (concurrent_lease_script R k now cap expiry i ttl s)))"
    using concurrent_exact(2) [OF r] r by simp
  show "card (dom (zs k (snd (bind_script R k i j s)))) \<le> card (dom (zs k s))"
    using bind_card [of k i j s] by (cases "bind_script R k i j s") auto
  have "dom (zs k (zrem R k i s)) \<subseteq> dom (zs k s)" by (auto simp: zrem_law split: if_splits)
  then show "card (dom (zs k (zrem R k i s))) \<le> card (dom (zs k s))"
    using card_mono [OF zs_finite] by blast
qed

definition trunk_acquire :: "'s redis \<Rightarrow> string \<Rightarrow> string \<Rightarrow> int \<Rightarrow> int \<Rightarrow> int \<Rightarrow> string \<Rightarrow> int \<Rightarrow> int \<Rightarrow> 's \<Rightarrow> bool \<times> 's" where
  "trunk_acquire R c k maxCPS maxc ttl lid now expiry s =
     (case call_lease_script R c k now maxCPS maxc expiry lid ttl s of (reason, s') \<Rightarrow> (reason = ''ok'', s'))"

sublocale redis_server \<subseteq> trunk_pool: lease_pool
  "trunk_acquire R c k maxCPS cap ttl" "bind_script R k" "zrem R k" "\<lambda>s. dom (zs k s)" cap
  for c k maxCPS cap ttl
proof unfold_locales
  fix s :: 's and i j :: string and now expiry :: int
  obtain reason s' where r: "call_lease_script R c k now maxCPS cap expiry i ttl s = (reason, s')"
    by (cases "call_lease_script R c k now maxCPS cap expiry i ttl s")
  show "int (card (dom (zs k s))) \<le> cap \<Longrightarrow>
      int (card (dom (zs k (snd (trunk_acquire R c k maxCPS cap ttl i now expiry s))))) \<le> cap"
    using call_lease_bound [OF r] r by (simp add: trunk_acquire_def)
  show "fst (trunk_acquire R c k maxCPS cap ttl i now expiry s) \<Longrightarrow>
      i \<in> dom (zs k (snd (trunk_acquire R c k maxCPS cap ttl i now expiry s)))"
    using call_lease_exact(2) [OF r] r by (simp add: trunk_acquire_def)
qed (rule org_pool.bind_bound org_pool.release_bound)+

section \<open>A store that keeps the laws\<close>

record mem_store =
  ms_zsets :: "string \<Rightarrow> (string \<times> int) list"
  ms_counters :: "string \<Rightarrow> int"
  ms_strings :: "string \<Rightarrow> string option"
  ms_hashes :: "string \<Rightarrow> (string \<times> string) list"

definition mem_empty :: mem_store where
  "mem_empty = \<lparr>ms_zsets = (\<lambda>k. []), ms_counters = (\<lambda>k. 0), ms_strings = (\<lambda>k. None), ms_hashes = (\<lambda>k. [])\<rparr>"

definition mem_zset :: "string \<Rightarrow> ((string \<times> int) list \<Rightarrow> (string \<times> int) list) \<Rightarrow> mem_store \<Rightarrow> mem_store" where
  "mem_zset k f s = s\<lparr>ms_zsets := (ms_zsets s)(k := f (ms_zsets s k))\<rparr>"

definition mem_hash :: "string \<Rightarrow> ((string \<times> string) list \<Rightarrow> (string \<times> string) list) \<Rightarrow> mem_store \<Rightarrow> mem_store" where
  "mem_hash k f s = s\<lparr>ms_hashes := (ms_hashes s)(k := f (ms_hashes s k))\<rparr>"

definition mem_redis :: "mem_store redis" where
  "mem_redis =
     \<lparr>zremrangebyscore = (\<lambda>k mx. mem_zset k (filter (\<lambda>(m, sc). mx < sc) \<circ> AList.clearjunk)),
      zscore = (\<lambda>k m s. map_of (ms_zsets s k) m),
      zadd = (\<lambda>k sc m. mem_zset k (AList.update m sc)),
      zrem = (\<lambda>k m. mem_zset k (AList.delete m)),
      zcard = (\<lambda>k s. int (length (remdups (keys (ms_zsets s k))))),
      incr = (\<lambda>k s. (ms_counters s k + 1, s\<lparr>ms_counters := (ms_counters s)(k := ms_counters s k + 1)\<rparr>)),
      pexpire = (\<lambda>k t s. s),
      r_get = (\<lambda>k s. ms_strings s k),
      r_set = (\<lambda>k v t s. s\<lparr>ms_strings := (ms_strings s)(k \<mapsto> v)\<rparr>),
      r_del = (\<lambda>ks s. s\<lparr>ms_strings := (\<lambda>k. if k \<in> set ks then None else ms_strings s k),
                        ms_zsets := (\<lambda>k. if k \<in> set ks then [] else ms_zsets s k)\<rparr>),
      r_exists = (\<lambda>k s. ms_strings s k \<noteq> None \<or> ms_zsets s k \<noteq> []),
      hexists = (\<lambda>k f s. f \<in> set (keys (ms_hashes s k))),
      hlen = (\<lambda>k s. int (length (remdups (keys (ms_hashes s k))))),
      hincrby = (\<lambda>k f n. mem_hash k (\<lambda>h. AList.update f
         (int_dec ((case map_of h f of None \<Rightarrow> 0 | Some v \<Rightarrow> case parse_int64 v of None \<Rightarrow> 0 | Some i \<Rightarrow> i) + n)) h)),
      hset = (\<lambda>k f v. mem_hash k (AList.update f v))\<rparr>"

definition mem_zs :: "string \<Rightarrow> mem_store \<Rightarrow> string \<Rightarrow> int option" where
  "mem_zs k s = map_of (ms_zsets s k)"

definition mem_hs :: "string \<Rightarrow> mem_store \<Rightarrow> string set" where
  "mem_hs k s = set (keys (ms_hashes s k))"

lemma map_of_filter_distinct:
  "distinct (keys xs) \<Longrightarrow> map_of (filter (\<lambda>(m, sc). mx < sc) xs)
     = (\<lambda>m. case map_of xs m of None \<Rightarrow> None | Some (sc :: int) \<Rightarrow> if sc \<le> mx then None else Some sc)"
proof (induction xs)
  case (Cons x xs)
  obtain m sc where x: "x = (m, sc)" by (cases x)
  have "m \<notin> set (keys xs)" using Cons.prems x by simp
  then have "map_of xs m = None" by (simp add: map_of_eq_None_iff)
  with Cons x show ?case by (auto simp: fun_eq_iff split: option.splits)
qed (simp add: fun_eq_iff)

lemma length_remdups_keys: "length (remdups (keys xs)) = card (dom (map_of xs))"
  by (simp add: dom_map_of_conv_image_fst length_remdups_card_conv)

interpretation mem: redis_server mem_redis mem_zs "\<lambda>k s. ms_counters s k" "\<lambda>k s. ms_strings s k" mem_hs
proof unfold_locales
  fix k k' :: string and mx :: int and s :: mem_store
  show "mem_zs k' (zremrangebyscore mem_redis k mx s) =
      (if k' = k then (\<lambda>m. case mem_zs k s m of None \<Rightarrow> None | Some sc \<Rightarrow> if sc \<le> mx then None else Some sc)
       else mem_zs k' s)"
    using map_of_filter_distinct [OF distinct_clearjunk [of "ms_zsets s k"], of mx]
    by (auto simp: mem_redis_def mem_zs_def mem_zset_def map_of_clearjunk)
qed (auto simp: mem_redis_def mem_zs_def mem_hs_def mem_zset_def mem_hash_def update_conv' delete_conv'
      length_remdups_card_conv dom_map_of_conv_image_fst finite_dom_map_of dom_update fun_eq_iff)

end
