(* ===== verification/Media_Nodes.thy ===== *)
theory Media_Nodes
  imports Redis_Leases
begin

text \<open>
  The registry of media nodes (\<open>runtime/medianodes/registry.go\<close>): heartbeats, the least loaded
  placement of a session, its owner, refresh and release. A node is stored as JSON; the encoder
  and decoder of the standard library are the arguments \<open>encode\<close> and \<open>decode\<close>.
\<close>

section \<open>Keys and nodes\<close>

definition node_prefix :: string where "node_prefix = ''runtime:media:node:''"
definition node_key :: "string \<Rightarrow> string" where "node_key i = node_prefix @ i"
definition draining_key :: "string \<Rightarrow> string" where "draining_key i = ''runtime:media:draining:'' @ i"
definition node_leases_key :: "string \<Rightarrow> string" where "node_leases_key i = ''runtime:media:leases:'' @ i"
definition owner_key :: "uuid \<Rightarrow> string" where "owner_key u = ''runtime:media:session:'' @ uuid_string u"

definition heartbeat_ttl :: int where "heartbeat_ttl = 15000000000"
definition node_lease_ttl :: int where "node_lease_ttl = 45000000000"

record media_node =
  nd_id :: string
  nd_control_url :: string
  nd_audio_url :: string
  nd_capacity :: int
  nd_active :: int
  nd_draining :: bool
  nd_updated_at :: int

fun drop_slashes :: "string \<Rightarrow> string" where
  "drop_slashes (c # s) = (if c = CHR ''/'' then drop_slashes s else c # s)"
| "drop_slashes [] = []"

definition trim_right_slash :: "string \<Rightarrow> string" where
  "trim_right_slash s = rev (drop_slashes (rev s))"

definition run_cmd :: "fault \<Rightarrow> ('s \<Rightarrow> 's) \<Rightarrow> 's \<Rightarrow> go_err option \<times> 's" where
  "run_cmd fault f s =
     (case fault of None \<Rightarrow> (None, f s) | Some (e, applied) \<Rightarrow> (Some e, if applied then f s else s))"

definition heartbeat ::
  "(media_node \<Rightarrow> string) \<Rightarrow> 's redis \<Rightarrow> fault \<Rightarrow> fault \<Rightarrow> int \<Rightarrow> media_node \<Rightarrow> 's \<Rightarrow> go_err option \<times> 's" where
  "heartbeat encode R f1 f2 now node s =
     (let node = node\<lparr>nd_id := trim_space (nd_id node),
                      nd_control_url := trim_right_slash (trim_space (nd_control_url node)),
                      nd_audio_url := trim_space (nd_audio_url node)\<rparr>
      in if nd_id node = [] \<or> nd_control_url node = [] \<or> nd_audio_url node = []
            \<or> nd_capacity node \<le> 0 \<or> nd_active node < 0
         then (Some (Errf ''valid media node id, URLs, capacity, and active count are required'' []), s)
         else (case run_cmd f1 (r_set R (node_key (nd_id node)) (encode (node\<lparr>nd_updated_at := now\<rparr>)) heartbeat_ttl) s of
             (Some e, s1) \<Rightarrow> (Some (Wrap ''heartbeat media node: %w'' [] e), s1)
           | (None, s1) \<Rightarrow>
               if nd_draining node
               then (case run_cmd f2 (r_set R (draining_key (nd_id node)) ''1'' heartbeat_ttl) s1 of
                   (Some e, s2) \<Rightarrow> (Some (Wrap ''mark media node draining: %w'' [] e), s2)
                 | (None, s2) \<Rightarrow> (None, s2))
               else (case run_cmd f2 (r_del R [draining_key (nd_id node)]) s1 of
                   (Some e, s2) \<Rightarrow> (Some (Wrap ''clear media node draining: %w'' [] e), s2)
                 | (None, s2) \<Rightarrow> (None, s2))))"

definition remove_node :: "'s redis \<Rightarrow> fault \<Rightarrow> string \<Rightarrow> 's \<Rightarrow> go_err option \<times> 's" where
  "remove_node R f nodeID s =
     (let nodeID = trim_space nodeID
      in if nodeID = [] then (Some (Errf ''media node id is required'' []), s)
         else run_cmd f (r_del R [node_key nodeID, draining_key nodeID]) s)"

section \<open>The nodes and their load\<close>

text \<open>Pruning and counting are two commands; either may fail.\<close>

definition count_media_leases :: "'s redis \<Rightarrow> fault \<Rightarrow> go_err option \<Rightarrow> int \<Rightarrow> string \<Rightarrow> 's \<Rightarrow> (go_err + int) \<times> 's" where
  "count_media_leases R f1 f2 now leasesKey s =
     (if leasesKey = [] then (Inl (Errf ''media lease count context and key are required'' []), s)
      else (case run_cmd f1 (zremrangebyscore R leasesKey now) s of
          (Some e, s1) \<Rightarrow> (Inl (Wrap ''prune Redis media leases: %w'' [] e), s1)
        | (None, s1) \<Rightarrow> (case f2 of
            Some e \<Rightarrow> (Inl (Wrap ''count Redis media leases: %w'' [] e), s1)
          | None \<Rightarrow> (Inr (zcard R leasesKey s1), s1))))"

text \<open>
  One key of the scan: what the read of the node met (\<open>None\<close> no fault), the faults of the
  count, and whether the existence test of the draining mark failed.
\<close>

record node_read =
  nr_key :: string
  nr_get :: "go_err option"
  nr_prune :: fault
  nr_count :: "go_err option"
  nr_exists_fails :: bool

fun read_nodes ::
  "(string \<Rightarrow> go_err + media_node) \<Rightarrow> 's redis \<Rightarrow> int \<Rightarrow> node_read list \<Rightarrow> 's \<Rightarrow> (go_err + media_node list) \<times> 's" where
  "read_nodes decode R now [] s = (Inr [], s)"
| "read_nodes decode R now (q # qs) s =
     (case nr_get q of
        Some e \<Rightarrow> (Inl e, s)
      | None \<Rightarrow> (case r_get R (nr_key q) s of
          None \<Rightarrow> read_nodes decode R now qs s
        | Some v \<Rightarrow> (case decode v of
            Inl e \<Rightarrow> (Inl (Wrap ''decode redis value: %w'' [] e), s)
          | Inr node \<Rightarrow>
              (case count_media_leases R (nr_prune q) (nr_count q) now (node_leases_key (nd_id node)) s of
                 (Inl e, s1) \<Rightarrow> (Inl e, s1)
               | (Inr active, s1) \<Rightarrow>
                   (let node' = node\<lparr>nd_active := active,
                          nd_draining := nd_draining node \<or>
                            (\<not> nr_exists_fails q \<and> r_exists R (draining_key (nd_id node)) s1)\<rparr>
                    in (case read_nodes decode R now qs s1 of
                          (Inl e, s2) \<Rightarrow> (Inl e, s2)
                        | (Inr nodes, s2) \<Rightarrow> (Inr (node' # nodes), s2)))))))"

section \<open>Placement\<close>

text \<open>Most free room first, the smaller id among equals: the order of \<open>sort.Slice\<close>.\<close>

definition node_free :: "media_node \<Rightarrow> int" where
  "node_free n = nd_capacity n - nd_active n"

definition place_order :: "media_node list \<Rightarrow> media_node list" where
  "place_order nodes = sort_key (\<lambda>n. - node_free n) (sort_key nd_id nodes)"

definition acquire_node :: "'s redis \<Rightarrow> fault \<Rightarrow> int \<Rightarrow> uuid \<Rightarrow> media_node \<Rightarrow> 's \<Rightarrow> (go_err + bool \<times> string) \<times> 's" where
  "acquire_node R fault now sessionID node s =
     acquire_media_lease R fault (node_key (nd_id node)) (draining_key (nd_id node))
       (node_leases_key (nd_id node)) (owner_key sessionID) (nd_id node) (uuid_string sessionID)
       (nd_capacity node) node_lease_ttl now s"

text \<open>The loop over the candidates; the faults and the clock are per candidate.\<close>

fun place_loop :: "'s redis \<Rightarrow> uuid \<Rightarrow> (media_node \<times> fault \<times> int) list \<Rightarrow> 's \<Rightarrow> (go_err + media_node) \<times> 's" where
  "place_loop R sessionID [] s = (Inl (Errf ''no healthy media node has available capacity'' []), s)"
| "place_loop R sessionID ((node, fault, now) # rest) s =
     (if nd_draining node \<or> nd_active node \<ge> nd_capacity node then place_loop R sessionID rest s
      else (case acquire_node R fault now sessionID node s of
          (Inl e, s1) \<Rightarrow> (Inl e, s1)
        | (Inr (ok, _), s1) \<Rightarrow> if ok then (Inr node, s1) else place_loop R sessionID rest s1))"

definition place ::
  "'s redis \<Rightarrow> uuid \<Rightarrow> go_err + media_node list \<Rightarrow> (string \<Rightarrow> fault \<times> int) \<Rightarrow> 's \<Rightarrow> (go_err + media_node) \<times> 's" where
  "place R sessionID nodes env s =
     (if sessionID = uuid_nil then (Inl (Errf ''media session id is required'' []), s)
      else case nodes of
          Inl e \<Rightarrow> (Inl e, s)
        | Inr ns \<Rightarrow> place_loop R sessionID (map (\<lambda>n. (n, env (nd_id n))) (place_order ns)) s)"

definition node_owner ::
  "(string \<Rightarrow> go_err + media_node) \<Rightarrow> 's redis \<Rightarrow> go_err option \<Rightarrow> go_err option \<Rightarrow> uuid \<Rightarrow> 's \<Rightarrow> go_err + media_node" where
  "node_owner decode R f1 f2 sessionID s =
     (if sessionID = uuid_nil then Inl (Errf ''media session id is required'' [])
      else case f1 of Some e \<Rightarrow> Inl e
      | None \<Rightarrow> (case r_get R (owner_key sessionID) s of
          None \<Rightarrow> Inl (Errf ''media session ownership not found'' [])
        | Some nodeID \<Rightarrow> (case f2 of Some e \<Rightarrow> Inl e
          | None \<Rightarrow> (case r_get R (node_key nodeID) s of
              None \<Rightarrow> Inl (Errf ''media session owner node is unavailable'' [])
            | Some v \<Rightarrow> rmap_error (Wrap ''decode redis value: %w'' []) (decode v)))))"

definition node_release :: "'s redis \<Rightarrow> go_err option \<Rightarrow> fault \<Rightarrow> uuid \<Rightarrow> 's \<Rightarrow> go_err option \<times> 's" where
  "node_release R f1 f2 sessionID s =
     (if sessionID = uuid_nil then (Some (Errf ''media session id is required'' []), s)
      else case f1 of Some e \<Rightarrow> (Some e, s)
      | None \<Rightarrow> (case r_get R (owner_key sessionID) s of
          None \<Rightarrow> (None, s)
        | Some nodeID \<Rightarrow>
            release_media_lease R f2 (node_leases_key nodeID) (owner_key sessionID) nodeID (uuid_string sessionID) s))"

definition node_refresh :: "'s redis \<Rightarrow> fault \<Rightarrow> int \<Rightarrow> string \<Rightarrow> uuid \<Rightarrow> 's \<Rightarrow> go_err option \<times> 's" where
  "node_refresh R fault now nodeID sessionID s =
     refresh_media_lease R fault (node_key nodeID) (node_leases_key nodeID) (owner_key sessionID)
       nodeID (uuid_string sessionID) node_lease_ttl now s"

section \<open>Properties\<close>

lemma acquire_node_ok:
  assumes "redis_server R zs cnt str hs" "acquire_node R fault now sessionID node s = (Inr (ok, reason), s1)"
  shows "ok \<Longrightarrow> str (owner_key sessionID) s1 = Some (nd_id node)
      \<and> uuid_string sessionID \<in> dom (zs (node_leases_key (nd_id node)) s1)
      \<and> (str (owner_key sessionID) s = None \<or> str (owner_key sessionID) s = Some (nd_id node))"
    and "\<not> ok \<Longrightarrow> str (owner_key sessionID) s1 = str (owner_key sessionID) s"
proof -
  let ?scr = "media_lease_script R (node_key (nd_id node)) (draining_key (nd_id node)) (node_leases_key (nd_id node))
      (owner_key sessionID) (nd_id node) (uuid_string sessionID) (now + milliseconds node_lease_ttl)
      (milliseconds node_lease_ttl) now (nd_capacity node) s"
  have r: "?scr = (reason, s1)" "ok \<longleftrightarrow> reason = ''ok''"
    using assms(2)
    by (auto simp: acquire_node_def acquire_media_lease_def eval_script_def
        split: if_splits option.splits prod.splits)
  have ne: "node_leases_key (nd_id node) \<noteq> owner_key sessionID"
    by (simp add: node_leases_key_def owner_key_def)
  show "ok \<Longrightarrow> str (owner_key sessionID) s1 = Some (nd_id node)
      \<and> uuid_string sessionID \<in> dom (zs (node_leases_key (nd_id node)) s1)
      \<and> (str (owner_key sessionID) s = None \<or> str (owner_key sessionID) s = Some (nd_id node))"
    and "\<not> ok \<Longrightarrow> str (owner_key sessionID) s1 = str (owner_key sessionID) s"
    using redis_server.media_exact(1,2) [OF assms(1) r(1) ne] r(2) by auto
qed

lemma place_loop_owner:
  assumes "redis_server R zs cnt str hs" "place_loop R sessionID cs s = (Inr node, s1)"
  shows "str (owner_key sessionID) s1 = Some (nd_id node)
    \<and> uuid_string sessionID \<in> dom (zs (node_leases_key (nd_id node)) s1)
    \<and> (str (owner_key sessionID) s = None \<or> str (owner_key sessionID) s = Some (nd_id node))
    \<and> node \<in> fst ` set cs \<and> \<not> nd_draining node \<and> nd_active node < nd_capacity node"
  using assms(2)
proof (induction cs arbitrary: s)
  case (Cons c cs)
  obtain n f now where c: "c = (n, f, now)" by (cases c)
  show ?case
  proof (cases "nd_draining n \<or> nd_active n \<ge> nd_capacity n")
    case True
    with Cons.prems c have "place_loop R sessionID cs s = (Inr node, s1)" by auto
    from Cons.IH [OF this] show ?thesis by auto
  next
    case False
    with Cons.prems c obtain ok reason s2 where a: "acquire_node R f now sessionID n s = (Inr (ok, reason), s2)"
      by (cases "acquire_node R f now sessionID n s") (auto split: sum.splits)
    note own = acquire_node_ok [OF assms(1) a]
    show ?thesis
    proof (cases ok)
      case True
      with Cons.prems c a False have "node = n" "s1 = s2" by auto
      with own(1) True c False show ?thesis by auto
    next
      case nok: False
      with Cons.prems c a False have "place_loop R sessionID cs s2 = (Inr node, s1)" by auto
      from Cons.IH [OF this] own(2) nok show ?thesis by auto
    qed
  qed
qed simp

text \<open>A session is placed on a node that was neither draining nor full, holds its lease and
  owns it afterwards; a session that already has an owner is placed nowhere else.\<close>

theorem placement_exclusive:
  assumes "redis_server R zs cnt str hs" "place R sessionID (Inr nodes) env s = (Inr node, s1)"
  shows "str (owner_key sessionID) s1 = Some (nd_id node)
    \<and> uuid_string sessionID \<in> dom (zs (node_leases_key (nd_id node)) s1)
    \<and> (str (owner_key sessionID) s = None \<or> str (owner_key sessionID) s = Some (nd_id node))
    \<and> node \<in> set nodes \<and> \<not> nd_draining node \<and> nd_active node < nd_capacity node"
proof -
  have "place_loop R sessionID (map (\<lambda>n. (n, env (nd_id n))) (place_order nodes)) s = (Inr node, s1)"
    using assms(2) by (auto simp: place_def split: if_splits)
  from place_loop_owner [OF assms(1) this] show ?thesis
    by (auto simp: place_order_def image_image)
qed

definition demo_node :: media_node where
  "demo_node = \<lparr>nd_id = ''n1'', nd_control_url = ''http://n1'', nd_audio_url = ''ws://n1'', nd_capacity = 1,
     nd_active = 0, nd_draining = False, nd_updated_at = 0\<rparr>"

definition demo_cluster :: mem_store where
  "demo_cluster = snd (heartbeat (\<lambda>n. ''node'') mem_redis None None 1 demo_node mem_empty)"

theorem placement_exclusive_witness:
  "\<exists>s1. place mem_redis (UUID ''s1'') (Inr [demo_node]) (\<lambda>_. (None, 5)) demo_cluster = (Inr demo_node, s1)
     \<and> ms_strings s1 (owner_key (UUID ''s1'')) = Some ''n1''"
proof -
  have trim: "trim_space ''n1'' = ''n1''" "trim_space ''http://n1'' = ''http://n1''" "trim_space ''ws://n1'' = ''ws://n1''"
    by code_simp+
  have c: "demo_cluster = mem_empty\<lparr>ms_strings := (\<lambda>k. None)(node_key ''n1'' \<mapsto> ''node'', draining_key ''n1'' := None)\<rparr>"
    by (simp add: demo_cluster_def heartbeat_def demo_node_def trim trim_right_slash_def Let_def run_cmd_def
        mem_redis_def mem_empty_def fun_eq_iff node_key_def node_prefix_def draining_key_def)
  have "fst (place mem_redis (UUID ''s1'') (Inr [demo_node]) (\<lambda>_. (None, 5)) demo_cluster) = Inr demo_node"
    by (simp add: place_def place_order_def c demo_node_def uuid_nil_def acquire_node_def acquire_media_lease_def
        eval_script_def media_lease_script_def Let_def mem_redis_def mem_empty_def mem_zset_def node_lease_ttl_def
        node_key_def node_prefix_def draining_key_def owner_key_def node_leases_key_def)
  then obtain s1 where p: "place mem_redis (UUID ''s1'') (Inr [demo_node]) (\<lambda>_. (None, 5)) demo_cluster = (Inr demo_node, s1)"
    by (cases "place mem_redis (UUID ''s1'') (Inr [demo_node]) (\<lambda>_. (None, 5)) demo_cluster") auto
  from placement_exclusive [OF mem.redis_server_axioms p] p show ?thesis by (simp add: demo_node_def)
qed

end
