(* ===== verification/Call_Admission.thy ===== *)
theory Call_Admission
  imports Redis_Leases
begin

text \<open>
  The admission limiter (\<open>runtime/calling/admission.go\<close>) and the channel store (\<open>channel.go\<close>)
  over the scripts of \<open>Redis_Store\<close>: leases of a trunk and of an organization, and the two-way
  correlation of a call with its media channel.
\<close>

section \<open>Errors, keys and limits\<close>

definition err_channel_unavailable :: go_err where
  "err_channel_unavailable = Sentinel ''active call channel unavailable''"
definition err_admission_cps :: go_err where
  "err_admission_cps = Sentinel ''trunk CPS limit exceeded''"
definition err_admission_concurrent :: go_err where
  "err_admission_concurrent = Sentinel ''trunk concurrent call limit exceeded''"
definition err_plan_concurrent :: go_err where
  "err_plan_concurrent = Sentinel ''organization concurrent call limit exceeded''"

lemmas admission_errs = err_channel_unavailable_def err_admission_cps_def
  err_admission_concurrent_def err_plan_concurrent_def

definition lease_ttl :: int where "lease_ttl = 26 * 3600 * 1000000000"
definition channel_ttl :: int where "channel_ttl = 24 * 3600 * 1000000000"

definition admission_prefix :: "uuid \<Rightarrow> string" where
  "admission_prefix trunkID = ''telecom:admission:trunk:'' @ uuid_string trunkID"

definition organization_prefix :: "uuid \<Rightarrow> string" where
  "organization_prefix organizationID = ''telecom:admission:organization:'' @ uuid_string organizationID"

record limits =
  max_cps :: int
  max_concurrent_calls :: int

section \<open>The limiter\<close>

definition adm_acquire ::
  "'s redis \<Rightarrow> fault \<Rightarrow> int \<Rightarrow> uuid \<Rightarrow> string \<Rightarrow> limits \<Rightarrow> 's \<Rightarrow> go_err option \<times> 's" where
  "adm_acquire R fault now trunkID leaseID lim s =
     (if trunkID = uuid_nil \<or> leaseID = [] then (Some (Errf ''trunk id and lease id are required'' []), s)
      else if max_cps lim < 1 \<or> max_concurrent_calls lim < 1
      then (Some (Errf ''trunk admission limits must be positive'' []), s)
      else (case acquire_call_lease R fault (admission_prefix trunkID) leaseID (max_cps lim)
                   (max_concurrent_calls lim) lease_ttl now s of
              (Inl e, s') \<Rightarrow> (Some (Wrap ''acquire trunk call lease: %w'' [] e), s')
            | (Inr (allowed, reason), s') \<Rightarrow>
                (if allowed then None
                 else if reason = ''cps'' then Some err_admission_cps
                 else if reason = ''concurrent'' then Some err_admission_concurrent
                 else Some (Errf ''trunk admission rejected: %s'' [reason]), s')))"

definition adm_bind :: "'s redis \<Rightarrow> fault \<Rightarrow> uuid \<Rightarrow> string \<Rightarrow> uuid \<Rightarrow> 's \<Rightarrow> go_err option \<times> 's" where
  "adm_bind R fault trunkID leaseID callID s =
     (if trunkID = uuid_nil \<or> leaseID = [] \<or> callID = uuid_nil
      then (Some (Errf ''trunk id, lease id, and call id are required'' []), s)
      else bind_call_lease R fault (admission_prefix trunkID) leaseID (uuid_string callID) s)"

definition adm_release :: "'s redis \<Rightarrow> fault \<Rightarrow> uuid \<Rightarrow> string \<Rightarrow> 's \<Rightarrow> go_err option \<times> 's" where
  "adm_release R fault trunkID callOrLeaseID s =
     (if trunkID = uuid_nil \<or> callOrLeaseID = []
      then (Some (Errf ''trunk id and call or lease id are required'' []), s)
      else release_call_lease R fault (admission_prefix trunkID) callOrLeaseID s)"

definition adm_refresh :: "'s redis \<Rightarrow> fault \<Rightarrow> fault \<Rightarrow> int \<Rightarrow> uuid \<Rightarrow> uuid \<Rightarrow> 's \<Rightarrow> go_err option \<times> 's" where
  "adm_refresh R f1 f2 now trunkID callID s =
     (if trunkID = uuid_nil \<or> callID = uuid_nil
      then (Some (Errf ''trunk id and call id are required'' []), s)
      else refresh_call_lease R f1 f2 (admission_prefix trunkID) (uuid_string callID) lease_ttl now s)"

definition adm_acquire_org ::
  "'s redis \<Rightarrow> fault \<Rightarrow> int \<Rightarrow> uuid \<Rightarrow> string \<Rightarrow> int \<Rightarrow> 's \<Rightarrow> go_err option \<times> 's" where
  "adm_acquire_org R fault now organizationID leaseID maxConcurrent s =
     (if organizationID = uuid_nil \<or> leaseID = []
      then (Some (Errf ''organization id and lease id are required'' []), s)
      else if maxConcurrent < 1
      then (Some (Errf ''organization concurrent call limit must be positive'' []), s)
      else (case acquire_concurrent_lease R fault (organization_prefix organizationID) leaseID
                   maxConcurrent lease_ttl now s of
              (Inl e, s') \<Rightarrow> (Some (Wrap ''acquire organization call lease: %w'' [] e), s')
            | (Inr allowed, s') \<Rightarrow> (if allowed then None else Some err_plan_concurrent, s')))"

definition adm_bind_org :: "'s redis \<Rightarrow> fault \<Rightarrow> uuid \<Rightarrow> string \<Rightarrow> uuid \<Rightarrow> 's \<Rightarrow> go_err option \<times> 's" where
  "adm_bind_org R fault organizationID leaseID callID s =
     (if organizationID = uuid_nil \<or> leaseID = [] \<or> callID = uuid_nil
      then (Some (Errf ''organization id, lease id, and call id are required'' []), s)
      else bind_call_lease R fault (organization_prefix organizationID) leaseID (uuid_string callID) s)"

definition adm_release_org :: "'s redis \<Rightarrow> fault \<Rightarrow> uuid \<Rightarrow> string \<Rightarrow> 's \<Rightarrow> go_err option \<times> 's" where
  "adm_release_org R fault organizationID callOrLeaseID s =
     (if organizationID = uuid_nil \<or> callOrLeaseID = []
      then (Some (Errf ''organization id and call or lease id are required'' []), s)
      else release_call_lease R fault (organization_prefix organizationID) callOrLeaseID s)"

definition adm_refresh_org :: "'s redis \<Rightarrow> fault \<Rightarrow> fault \<Rightarrow> int \<Rightarrow> uuid \<Rightarrow> uuid \<Rightarrow> 's \<Rightarrow> go_err option \<times> 's" where
  "adm_refresh_org R f1 f2 now organizationID callID s =
     (if organizationID = uuid_nil \<or> callID = uuid_nil
      then (Some (Errf ''organization id and call id are required'' []), s)
      else refresh_call_lease R f1 f2 (organization_prefix organizationID) (uuid_string callID) lease_ttl now s)"

section \<open>The channel store\<close>

definition channel_key :: "uuid \<Rightarrow> string" where
  "channel_key callID = ''telecom:calls:channel:'' @ uuid_string callID"

definition channel_call_key :: "string \<Rightarrow> string" where
  "channel_call_key channelID = ''telecom:calls:channel-call:'' @ channelID"

definition run_set :: "'s redis \<Rightarrow> fault \<Rightarrow> string \<Rightarrow> string \<Rightarrow> int \<Rightarrow> 's \<Rightarrow> go_err option \<times> 's" where
  "run_set R fault key v ttl s =
     (case fault of None \<Rightarrow> (None, r_set R key v ttl s)
      | Some (e, applied) \<Rightarrow> (Some e, if applied then r_set R key v ttl s else s))"

definition run_del :: "'s redis \<Rightarrow> fault \<Rightarrow> string list \<Rightarrow> 's \<Rightarrow> go_err option \<times> 's" where
  "run_del R fault ks s =
     (case fault of None \<Rightarrow> (None, r_del R ks s)
      | Some (e, applied) \<Rightarrow> (Some e, if applied then r_del R ks s else s))"

definition channel_bind ::
  "'s redis \<Rightarrow> fault \<Rightarrow> fault \<Rightarrow> fault \<Rightarrow> uuid \<Rightarrow> string \<Rightarrow> 's \<Rightarrow> go_err option \<times> 's" where
  "channel_bind R f1 f2 f3 callID channelID s =
     (let channelID = trim_space channelID
      in if callID = uuid_nil \<or> channelID = [] then (Some (Errf ''call id and channel id are required'' []), s)
         else (case run_set R f1 (channel_key callID) channelID channel_ttl s of
                 (Some e, s1) \<Rightarrow> (Some e, s1)
               | (None, s1) \<Rightarrow>
                   (case run_set R f2 (channel_call_key channelID) (uuid_string callID) channel_ttl s1 of
                      (Some e, s2) \<Rightarrow> (Some e, snd (run_del R f3 [channel_key callID] s2))
                    | (None, s2) \<Rightarrow> (None, s2))))"

text \<open>A read fails with \<open>Some e\<close>; \<open>redis.Nil\<close> is the missing key.\<close>

definition channel_get :: "'s redis \<Rightarrow> go_err option \<Rightarrow> uuid \<Rightarrow> 's \<Rightarrow> go_err + string" where
  "channel_get R fail callID s =
     (if callID = uuid_nil then Inl (Errf ''call id is required'' [])
      else case fail of Some e \<Rightarrow> Inl e
      | None \<Rightarrow> (case r_get R (channel_key callID) s of
          None \<Rightarrow> Inl err_channel_unavailable
        | Some v \<Rightarrow> let channelID = trim_space v
                    in if channelID = [] then Inl err_channel_unavailable else Inr channelID))"

definition channel_get_call_id ::
  "(string \<Rightarrow> uuid option) \<Rightarrow> 's redis \<Rightarrow> go_err option \<Rightarrow> string \<Rightarrow> 's \<Rightarrow> go_err + uuid" where
  "channel_get_call_id parse R fail channelID s =
     (let channelID = trim_space channelID
      in if channelID = [] then Inl (Errf ''channel id is required'' [])
         else case fail of Some e \<Rightarrow> Inl e
         | None \<Rightarrow> (case r_get R (channel_call_key channelID) s of
             None \<Rightarrow> Inl err_channel_unavailable
           | Some v \<Rightarrow> (case parse (trim_space v) of
               None \<Rightarrow> Inl (Errf ''invalid call id stored for channel: %w'' [])
             | Some callID \<Rightarrow> Inr callID)))"

definition channel_delete :: "'s redis \<Rightarrow> go_err option \<Rightarrow> fault \<Rightarrow> uuid \<Rightarrow> 's \<Rightarrow> go_err option \<times> 's" where
  "channel_delete R fail f callID s =
     (if callID = uuid_nil then (Some (Errf ''call id is required'' []), s)
      else case fail of Some e \<Rightarrow> (Some e, s)
      | None \<Rightarrow>
          (let channelID = (case r_get R (channel_key callID) s of None \<Rightarrow> [] | Some v \<Rightarrow> trim_space v)
           in run_del R f (channel_key callID # (if channelID \<noteq> [] then [channel_call_key channelID] else [])) s))"

section \<open>Admission over time\<close>

text \<open>The requests about one trunk or one organization, with the faults they meet.\<close>

datatype adm_op =
    Adm_Acquire fault int string
  | Adm_Bind fault string uuid
  | Adm_Release fault string

definition org_op :: "'s redis \<Rightarrow> uuid \<Rightarrow> int \<Rightarrow> adm_op \<Rightarrow> 's \<Rightarrow> 's" where
  "org_op R organizationID maxConcurrent op s =
     (case op of
        Adm_Acquire f now leaseID \<Rightarrow> snd (adm_acquire_org R f now organizationID leaseID maxConcurrent s)
      | Adm_Bind f leaseID callID \<Rightarrow> snd (adm_bind_org R f organizationID leaseID callID s)
      | Adm_Release f i \<Rightarrow> snd (adm_release_org R f organizationID i s))"

definition trunk_op :: "'s redis \<Rightarrow> uuid \<Rightarrow> limits \<Rightarrow> adm_op \<Rightarrow> 's \<Rightarrow> 's" where
  "trunk_op R trunkID lim op s =
     (case op of
        Adm_Acquire f now leaseID \<Rightarrow> snd (adm_acquire R f now trunkID leaseID lim s)
      | Adm_Bind f leaseID callID \<Rightarrow> snd (adm_bind R f trunkID leaseID callID s)
      | Adm_Release f i \<Rightarrow> snd (adm_release R f trunkID i s))"

text \<open>Each of them is a step of the pool or leaves the store alone.\<close>

lemma eval_script_states:
  "snd (eval_script fault what script s) = s \<or> snd (eval_script fault what script s) = snd (script s)"
  by (auto simp: eval_script_def split: option.split prod.split)

lemma org_op_pool:
  "org_op R oid maxc op s = s \<or> (\<exists>pop. org_op R oid maxc op s =
     pool_step (\<lambda>lid now expiry. concurrent_lease_script R (leases_key (organization_prefix oid)) now maxc expiry lid
         (milliseconds lease_ttl))
       (bind_script R (leases_key (organization_prefix oid))) (zrem R (leases_key (organization_prefix oid))) pop s)"
proof (cases op)
  case (Adm_Acquire f now lid)
  let ?scr = "concurrent_lease_script R (leases_key (organization_prefix oid)) now maxc
      (now + milliseconds lease_ttl) lid (milliseconds lease_ttl)"
  have "org_op R oid maxc op s = s \<or> org_op R oid maxc op s = snd (?scr s)"
    using eval_script_states [of f "''acquire Redis concurrent lease: %w''" ?scr s]
    by (auto simp: org_op_def Adm_Acquire adm_acquire_org_def acquire_concurrent_lease_def
        split: option.split prod.split sum.split)
  then show ?thesis by (metis pool_step.simps(1))
next
  case (Adm_Bind f lid cid)
  let ?scr = "bind_script R (leases_key (organization_prefix oid)) lid (uuid_string cid)"
  have "org_op R oid maxc op s = s \<or> org_op R oid maxc op s = snd (?scr s)"
    using eval_script_states [of f "''bind Redis call lease: %w''" ?scr s]
    by (auto simp: org_op_def Adm_Bind adm_bind_org_def bind_call_lease_def
        split: option.split prod.split sum.split)
  then show ?thesis by (metis pool_step.simps(2))
next
  case (Adm_Release f i)
  let ?scr = "\<lambda>s. ((), zrem R (leases_key (organization_prefix oid)) i s)"
  have "org_op R oid maxc op s = s \<or> org_op R oid maxc op s = snd (?scr s)"
    using eval_script_states [of f "''release Redis call lease: %w''" ?scr s]
    by (auto simp: org_op_def Adm_Release adm_release_org_def release_call_lease_def
        split: option.split prod.split sum.split)
  then show ?thesis by (metis pool_step.simps(3) snd_conv)
qed

lemma trunk_op_pool:
  "trunk_op R tid lim op s = s \<or> (\<exists>pop. trunk_op R tid lim op s =
     pool_step (trunk_acquire R (cps_key (admission_prefix tid)) (leases_key (admission_prefix tid)) (max_cps lim)
         (max_concurrent_calls lim) (milliseconds lease_ttl))
       (bind_script R (leases_key (admission_prefix tid))) (zrem R (leases_key (admission_prefix tid))) pop s)"
proof (cases op)
  case (Adm_Acquire f now lid)
  let ?scr = "call_lease_script R (cps_key (admission_prefix tid)) (leases_key (admission_prefix tid)) now
      (max_cps lim) (max_concurrent_calls lim) (now + milliseconds lease_ttl) lid (milliseconds lease_ttl)"
  have "trunk_op R tid lim op s = s \<or> trunk_op R tid lim op s = snd (?scr s)"
    using eval_script_states [of f "''acquire Redis call lease: %w''" ?scr s]
    by (auto simp: trunk_op_def Adm_Acquire adm_acquire_def acquire_call_lease_def
        split: option.split prod.split sum.split)
  moreover have "snd (?scr s) = snd (trunk_acquire R (cps_key (admission_prefix tid)) (leases_key (admission_prefix tid))
      (max_cps lim) (max_concurrent_calls lim) (milliseconds lease_ttl) lid now (now + milliseconds lease_ttl) s)"
    by (simp add: trunk_acquire_def split: prod.split)
  ultimately show ?thesis by (metis pool_step.simps(1))
next
  case (Adm_Bind f lid cid)
  let ?scr = "bind_script R (leases_key (admission_prefix tid)) lid (uuid_string cid)"
  have "trunk_op R tid lim op s = s \<or> trunk_op R tid lim op s = snd (?scr s)"
    using eval_script_states [of f "''bind Redis call lease: %w''" ?scr s]
    by (auto simp: trunk_op_def Adm_Bind adm_bind_def bind_call_lease_def
        split: option.split prod.split sum.split)
  then show ?thesis by (metis pool_step.simps(2))
next
  case (Adm_Release f i)
  let ?scr = "\<lambda>s. ((), zrem R (leases_key (admission_prefix tid)) i s)"
  have "trunk_op R tid lim op s = s \<or> trunk_op R tid lim op s = snd (?scr s)"
    using eval_script_states [of f "''release Redis call lease: %w''" ?scr s]
    by (auto simp: trunk_op_def Adm_Release adm_release_def release_call_lease_def
        split: option.split prod.split sum.split)
  then show ?thesis by (metis pool_step.simps(3) snd_conv)
qed

section \<open>Properties\<close>

abbreviation org_leases :: "uuid \<Rightarrow> string" where
  "org_leases oid \<equiv> leases_key (organization_prefix oid)"

abbreviation trunk_leases :: "uuid \<Rightarrow> string" where
  "trunk_leases tid \<equiv> leases_key (admission_prefix tid)"

context redis_server begin

lemma org_ops_bound:
  "int (card (dom (zs (org_leases oid) s))) \<le> maxc \<Longrightarrow>
     int (card (dom (zs (org_leases oid) (fold (org_op R oid maxc) ops s)))) \<le> maxc"
proof (induction ops arbitrary: s)
  case (Cons op ops)
  have "int (card (dom (zs (org_leases oid) (org_op R oid maxc op s)))) \<le> maxc"
    using org_pool.step_bound [where k = "org_leases oid" and cap = maxc
        and ttl = "milliseconds lease_ttl", OF Cons.prems] org_op_pool [of R oid maxc op s] Cons.prems
    by auto
  with Cons.IH show ?case by simp
qed simp

lemma trunk_ops_bound:
  "int (card (dom (zs (trunk_leases tid) s))) \<le> max_concurrent_calls lim \<Longrightarrow>
     int (card (dom (zs (trunk_leases tid) (fold (trunk_op R tid lim) ops s)))) \<le> max_concurrent_calls lim"
proof (induction ops arbitrary: s)
  case (Cons op ops)
  have "int (card (dom (zs (trunk_leases tid) (trunk_op R tid lim op s)))) \<le> max_concurrent_calls lim"
    using trunk_pool.step_bound [where k = "trunk_leases tid" and cap = "max_concurrent_calls lim"
        and maxCPS = "max_cps lim" and c = "cps_key (admission_prefix tid)"
        and ttl = "milliseconds lease_ttl", OF Cons.prems] trunk_op_pool [of R tid lim op s] Cons.prems
    by auto
  with Cons.IH show ?case by simp
qed simp

end


definition demo_org :: uuid where "demo_org = UUID ''o1''"
definition demo_trunk :: uuid where "demo_trunk = UUID ''t1''"


text \<open>The same for the concurrent calls of a trunk.\<close>

theorem trunk_never_over_limit:
  assumes "redis_server R zs cnt str hs"
    and "int (card (dom (zs (trunk_leases tid) s))) \<le> max_concurrent_calls lim"
  shows "int (card (dom (zs (trunk_leases tid) (fold (trunk_op R tid lim) ops s)))) \<le> max_concurrent_calls lim"
  by (rule redis_server.trunk_ops_bound [OF assms])

theorem trunk_never_over_limit_witness:
  "int (card (dom (mem_zs (trunk_leases demo_trunk) (fold (trunk_op mem_redis demo_trunk
     \<lparr>max_cps = 3, max_concurrent_calls = 2\<rparr>)
     [Adm_Acquire None 5 ''a'', Adm_Bind None ''a'' (UUID ''c1''), Adm_Acquire None 7 ''c''] mem_empty)))) \<le> 2"
proof -
  let ?lim = "\<lparr>max_cps = 3, max_concurrent_calls = 2\<rparr>"
  have "int (card (dom (mem_zs (trunk_leases demo_trunk) mem_empty))) \<le> max_concurrent_calls ?lim"
    by (simp add: mem_zs_def mem_empty_def)
  from trunk_never_over_limit [OF mem.redis_server_axioms this,
      of "[Adm_Acquire None 5 ''a'', Adm_Bind None ''a'' (UUID ''c1''), Adm_Acquire None 7 ''c'']"]
  show ?thesis by simp
qed

text \<open>A reachable server admits a call of an organization exactly when its lease is still
  live or fewer live leases than the limit are held; the answer otherwise is the plan error.\<close>

theorem org_admission_exact:
  assumes "redis_server R zs cnt str hs"
    and "adm_acquire_org R None now oid lid maxc s = (e, s')"
    and "oid \<noteq> uuid_nil" "lid \<noteq> []" "1 \<le> maxc"
  shows "e = (if lid \<in> live zs (org_leases oid) now s \<or> int (card (live zs (org_leases oid) now s)) < maxc
        then None else Some err_plan_concurrent)
    \<and> dom (zs (org_leases oid) s') = (if e = None then insert lid (live zs (org_leases oid) now s)
        else live zs (org_leases oid) now s)"
proof -
  let ?k = "org_leases oid"
  obtain ok s1 where r: "concurrent_lease_script R ?k now maxc (now + milliseconds lease_ttl) lid
      (milliseconds lease_ttl) s = (ok, s1)" by (cases "concurrent_lease_script R ?k now maxc
      (now + milliseconds lease_ttl) lid (milliseconds lease_ttl) s")
  have ne: "organization_prefix oid \<noteq> []" "0 < lease_ttl"
    by (simp_all add: organization_prefix_def lease_ttl_def)
  from assms(2-5) ne r have "e = (if ok then None else Some err_plan_concurrent)" "s' = s1"
    by (simp_all add: adm_acquire_org_def acquire_concurrent_lease_def validate_key_def eval_script_def
        split: if_splits)
  then show ?thesis using redis_server.concurrent_exact [OF assms(1) r] by auto
qed

theorem org_admission_exact_witness:
  "fst (adm_acquire_org mem_redis None 5 demo_org ''a'' 1 mem_empty) = None"
proof -
  obtain e s' where r: "adm_acquire_org mem_redis None 5 demo_org ''a'' 1 mem_empty = (e, s')"
    by (cases "adm_acquire_org mem_redis None 5 demo_org ''a'' 1 mem_empty")
  have "live mem_zs (org_leases demo_org) 5 mem_empty = {}"
    by (simp add: live_def mem_zs_def mem_empty_def)
  with org_admission_exact [OF mem.redis_server_axioms r] r show ?thesis
    by (simp add: demo_org_def uuid_nil_def)
qed

text \<open>The answers of a trunk's admission: a live lease is renewed without being counted
  again, a new one is counted in the current second and refused beyond the calls per second,
  then beyond the concurrent calls.\<close>

theorem trunk_admission_exact:
  assumes "redis_server R zs cnt str hs"
    and "adm_acquire R None now tid lid lim s = (e, s')"
    and "tid \<noteq> uuid_nil" "lid \<noteq> []" "1 \<le> max_cps lim" "1 \<le> max_concurrent_calls lim"
  shows "e = (if lid \<in> live zs (trunk_leases tid) now s then None
        else if cnt (cps_key (admission_prefix tid)) s + 1 > max_cps lim then Some err_admission_cps
        else if int (card (live zs (trunk_leases tid) now s)) \<ge> max_concurrent_calls lim
        then Some err_admission_concurrent else None)
    \<and> (e = None \<longrightarrow> dom (zs (trunk_leases tid) s') = insert lid (live zs (trunk_leases tid) now s))
    \<and> cnt (cps_key (admission_prefix tid)) s' = cnt (cps_key (admission_prefix tid)) s
        + (if lid \<in> live zs (trunk_leases tid) now s then 0 else 1)"
proof -
  let ?k = "trunk_leases tid" and ?c = "cps_key (admission_prefix tid)"
  let ?scr = "call_lease_script R ?c ?k now (max_cps lim) (max_concurrent_calls lim)
      (now + milliseconds lease_ttl) lid (milliseconds lease_ttl) s"
  obtain reason s1 where r: "?scr = (reason, s1)" by (cases ?scr)
  have ne: "admission_prefix tid \<noteq> []" "0 < lease_ttl"
    by (simp_all add: admission_prefix_def lease_ttl_def)
  from assms(2-6) ne r have "e = (if reason = ''ok'' then None
       else if reason = ''cps'' then Some err_admission_cps
       else if reason = ''concurrent'' then Some err_admission_concurrent
       else Some (Errf ''trunk admission rejected: %s'' [reason]))" "s' = s1"
    by (simp_all add: adm_acquire_def acquire_call_lease_def validate_key_def eval_script_def split: if_splits)
  then show ?thesis using redis_server.call_lease_exact [OF assms(1) r] by auto
qed

theorem trunk_admission_exact_witness:
  "fst (adm_acquire mem_redis None 5 demo_trunk ''a'' \<lparr>max_cps = 1, max_concurrent_calls = 1\<rparr> mem_empty) = None"
proof -
  let ?lim = "\<lparr>max_cps = 1, max_concurrent_calls = 1\<rparr>"
  obtain e s' where r: "adm_acquire mem_redis None 5 demo_trunk ''a'' ?lim mem_empty = (e, s')"
    by (cases "adm_acquire mem_redis None 5 demo_trunk ''a'' ?lim mem_empty")
  have "live mem_zs (trunk_leases demo_trunk) 5 mem_empty = {}"
    by (simp add: live_def mem_zs_def mem_empty_def)
  with trunk_admission_exact [OF mem.redis_server_axioms r] r show ?thesis
    by (simp add: demo_trunk_def uuid_nil_def mem_empty_def)
qed

text \<open>After a call was bound to its media channel, each is found from the other, and after
  its deletion neither is.\<close>

theorem channel_round_trip:
  assumes "redis_server R zs cnt str hs" "parse (trim_space (uuid_string callID)) = Some callID"
    and "channel_bind R None None None callID channelID s = (None, s1)"
  shows "channel_get R None callID s1 = Inr (trim_space channelID)
    \<and> channel_get_call_id parse R None channelID s1 = Inr callID
    \<and> (\<exists>s2. channel_delete R None None callID s1 = (None, s2)
         \<and> channel_get R None callID s2 = Inl err_channel_unavailable
         \<and> channel_get_call_id parse R None channelID s2 = Inl err_channel_unavailable)"
proof -
  note L = redis_server.set_law [OF assms(1)] redis_server.get_law [OF assms(1)] redis_server.del_law [OF assms(1)]
  have ne: "callID \<noteq> uuid_nil" "trim_space channelID \<noteq> []"
    using assms(3) by (auto simp: channel_bind_def Let_def split: if_splits)
  have s1: "s1 = r_set R (channel_call_key (trim_space channelID)) (uuid_string callID) channel_ttl
      (r_set R (channel_key callID) (trim_space channelID) channel_ttl s)"
    using assms(3) ne by (simp add: channel_bind_def run_set_def Let_def)
  have keys: "channel_key callID \<noteq> channel_call_key c" for c
    by (simp add: channel_key_def channel_call_key_def)
  have g: "r_get R (channel_key callID) s1 = Some (trim_space channelID)"
    "r_get R (channel_call_key (trim_space channelID)) s1 = Some (uuid_string callID)"
    using keys by (simp_all add: s1 L)
  let ?s2 = "r_del R [channel_key callID, channel_call_key (trim_space channelID)] s1"
  have d: "channel_delete R None None callID s1 = (None, ?s2)"
    using ne g by (simp add: channel_delete_def run_del_def)
  have "r_get R (channel_key callID) ?s2 = None"
    "r_get R (channel_call_key (trim_space channelID)) ?s2 = None" by (simp_all add: L)
  with d g ne assms(2) show ?thesis
    by (simp add: channel_get_def channel_get_call_id_def Let_def)
qed

theorem channel_round_trip_witness:
  "channel_get mem_redis None demo_org (snd (channel_bind mem_redis None None None demo_org '' ch '' mem_empty)) = Inr ''ch''"
proof -
  have t: "trim_space '' ch '' = ''ch''" "trim_space ''o1'' = ''o1''" by code_simp+
  let ?s = "snd (channel_bind mem_redis None None None demo_org '' ch '' mem_empty)"
  have b: "channel_bind mem_redis None None None demo_org '' ch '' mem_empty = (None, ?s)"
    by (simp add: channel_bind_def t run_set_def demo_org_def uuid_nil_def Let_def)
  have p: "(\<lambda>v. Some (UUID v)) (trim_space (uuid_string demo_org)) = Some demo_org"
    by (simp add: demo_org_def t)
  show ?thesis
    using channel_round_trip [where parse = "\<lambda>v. Some (UUID v)", OF mem.redis_server_axioms p b] t by simp
qed

text \<open>The requests a fixed window lets through are the first \<open>limit\<close> ones since its counter
  was created.\<close>

theorem fixed_window_exact:
  assumes "redis_server R zs cnt str hs" "key \<noteq> []" "0 < limit" "0 < window" "cnt key s = int n"
    and "allow_fixed_window R None key limit window s = (r, s')"
  shows "r = Inr (int n < limit) \<and> cnt key s' = int (Suc n)"
proof -
  obtain c s1 where i: "incr R key s = (c, s1)" by (cases "incr R key s")
  have c: "c = int n + 1" "cnt key s1 = int n + 1"
    using redis_server.incr_law(1) [OF assms(1), where k = key and s = s] redis_server.incr_law(2) [OF assms(1), where k = key and k' = key and s = s]
      i assms(5) by auto
  show ?thesis
    using assms(2-4,6) c i redis_server.cnt_other(1) [OF assms(1)]
    by (auto simp: allow_fixed_window_def fixed_window_script_def eval_script_def)
qed

theorem fixed_window_exact_witness:
  "fst (allow_fixed_window mem_redis None ''turn'' 60 60000000000 mem_empty) = Inr True"
proof -
  obtain r s' where r: "allow_fixed_window mem_redis None ''turn'' 60 60000000000 mem_empty = (r, s')"
    by (cases "allow_fixed_window mem_redis None ''turn'' 60 60000000000 mem_empty")
  have "ms_counters mem_empty ''turn'' = int 0" by (simp add: mem_empty_def)
  from fixed_window_exact [OF mem.redis_server_axioms _ _ _ this r] r show ?thesis by simp
qed

end
