(* ===== verification/Call_Store.thy ===== *)
theory Call_Store
  imports Call_Admission "HOL-Library.State_Monad"
begin

text \<open>
  The durable state of calls: the tables \<open>calls\<close>, \<open>call_admission_cleanup\<close> and
  \<open>call_origination_attempts\<close>, the SQL statements on them (\<open>database/sqlc/calls.sql.go\<close>,
  \<open>call_admission_cleanup.sql.go\<close>, \<open>call_origination_attempts.sql.go\<close>), the transactional outbox
  and the repository (\<open>telephony/calls/repository.go\<close>). Operations are state monad actions on a
  world of database, Redis and the commands sent to FreeSWITCH; the environment gives every
  external operation its fault, its time and its random identity.
\<close>

section \<open>Calls\<close>

definition direction_inbound :: string where "direction_inbound = ''inbound''"
definition direction_outbound :: string where "direction_outbound = ''outbound''"

definition state_initiating :: string where "state_initiating = ''initiating''"
definition state_ringing :: string where "state_ringing = ''ringing''"
definition state_answered :: string where "state_answered = ''answered''"
definition state_active :: string where "state_active = ''active''"
definition state_completed :: string where "state_completed = ''completed''"
definition state_failed :: string where "state_failed = ''failed''"
definition state_cancelled :: string where "state_cancelled = ''cancelled''"
definition media_active :: string where "media_active = ''active''"
definition media_held :: string where "media_held = ''held''"

lemmas call_states = state_initiating_def state_ringing_def state_answered_def state_active_def
  state_completed_def state_failed_def state_cancelled_def media_active_def media_held_def

record call =
  cl_id :: uuid
  cl_org :: uuid
  cl_agent :: "uuid option"
  cl_trunk :: "uuid option"
  cl_endpoint :: "uuid option"
  cl_direction :: string
  cl_state :: string
  cl_media :: string
  cl_from :: string
  cl_to :: string
  cl_sip :: "string option"
  cl_started :: "int option"
  cl_answered :: "int option"
  cl_ended :: "int option"
  cl_reason :: "string option"
  cl_created :: int
  cl_updated :: int

definition is_terminal_state :: "string \<Rightarrow> bool" where
  "is_terminal_state s \<longleftrightarrow> s = state_completed \<or> s = state_failed \<or> s = state_cancelled"

record cleanup_row =
  cu_call :: uuid
  cu_org :: uuid
  cu_next :: int

record attempt_row =
  at_channel :: uuid
  at_call :: uuid
  at_org :: uuid
  at_trunk :: uuid
  at_endpoint :: uuid
  at_status :: string
  at_created :: int
  at_updated :: int

record outbox_event =
  ob_subject :: string
  ob_call :: call
  ob_at :: int

record database =
  db_calls :: "call list"
  db_cleanup :: "cleanup_row list"
  db_attempts :: "attempt_row list"
  db_outbox :: "outbox_event list"

section \<open>Statements\<close>

text \<open>
  \<open>UPDATE calls SET f WHERE p RETURNING\<close> of a single row, which is \<open>pgx.ErrNoRows\<close> without a
  match. The trigger \<open>set_calls_updated_at\<close> stamps every updated row.
\<close>

definition update_call :: "(call \<Rightarrow> bool) \<Rightarrow> (call \<Rightarrow> call) \<Rightarrow> int \<Rightarrow> database \<Rightarrow> (go_err + call) \<times> database" where
  "update_call p f now db =
     (case find p (db_calls db) of
        None \<Rightarrow> (Inl err_no_rows, db)
      | Some c \<Rightarrow> (Inr ((f c)\<lparr>cl_updated := now\<rparr>),
          db\<lparr>db_calls := map (\<lambda>c. if p c then (f c)\<lparr>cl_updated := now\<rparr> else c) (db_calls db)\<rparr>))"

definition coalesce :: "'a option \<Rightarrow> 'a option \<Rightarrow> 'a option" where
  "coalesce a b = (case a of None \<Rightarrow> b | Some x \<Rightarrow> Some x)"

definition sql_mark_ringing :: "uuid \<Rightarrow> uuid \<Rightarrow> int \<Rightarrow> database \<Rightarrow> (go_err + call) \<times> database" where
  "sql_mark_ringing org i = update_call
     (\<lambda>c. cl_org c = org \<and> cl_id c = i \<and> cl_state c = state_initiating)
     (\<lambda>c. c\<lparr>cl_state := state_ringing\<rparr>)"

definition sql_mark_answered :: "uuid \<Rightarrow> uuid \<Rightarrow> int \<Rightarrow> database \<Rightarrow> (go_err + call) \<times> database" where
  "sql_mark_answered org i now = update_call
     (\<lambda>c. cl_org c = org \<and> cl_id c = i \<and> cl_state c \<in> {state_initiating, state_ringing})
     (\<lambda>c. c\<lparr>cl_state := state_answered, cl_answered := coalesce (cl_answered c) (Some now)\<rparr>) now"

definition sql_mark_active :: "uuid \<Rightarrow> uuid \<Rightarrow> int \<Rightarrow> database \<Rightarrow> (go_err + call) \<times> database" where
  "sql_mark_active org i = update_call
     (\<lambda>c. cl_org c = org \<and> cl_id c = i \<and> cl_state c \<in> {state_answered, state_ringing})
     (\<lambda>c. c\<lparr>cl_state := state_active\<rparr>)"

definition sql_mark_held :: "uuid \<Rightarrow> uuid \<Rightarrow> int \<Rightarrow> database \<Rightarrow> (go_err + call) \<times> database" where
  "sql_mark_held org i = update_call
     (\<lambda>c. cl_org c = org \<and> cl_id c = i \<and> cl_state c \<in> {state_answered, state_active} \<and> cl_media c = media_active)
     (\<lambda>c. c\<lparr>cl_media := media_held\<rparr>)"

definition sql_mark_resumed :: "uuid \<Rightarrow> uuid \<Rightarrow> int \<Rightarrow> database \<Rightarrow> (go_err + call) \<times> database" where
  "sql_mark_resumed org i = update_call
     (\<lambda>c. cl_org c = org \<and> cl_id c = i \<and> cl_state c \<in> {state_answered, state_active} \<and> cl_media c = media_held)
     (\<lambda>c. c\<lparr>cl_media := media_active\<rparr>)"

definition end_call :: "string \<Rightarrow> string option \<Rightarrow> int \<Rightarrow> call \<Rightarrow> call" where
  "end_call state reason now c = c\<lparr>cl_state := state, cl_ended := coalesce (cl_ended c) (Some now),
     cl_reason := coalesce reason (cl_reason c)\<rparr>"

definition sql_mark_completed :: "string option \<Rightarrow> uuid \<Rightarrow> uuid \<Rightarrow> int \<Rightarrow> database \<Rightarrow> (go_err + call) \<times> database" where
  "sql_mark_completed reason org i now = update_call
     (\<lambda>c. cl_org c = org \<and> cl_id c = i \<and> cl_state c \<notin> {state_completed, state_failed, state_cancelled})
     (end_call state_completed reason now) now"

definition sql_mark_failed :: "string option \<Rightarrow> uuid \<Rightarrow> uuid \<Rightarrow> int \<Rightarrow> database \<Rightarrow> (go_err + call) \<times> database" where
  "sql_mark_failed reason org i now = update_call
     (\<lambda>c. cl_org c = org \<and> cl_id c = i \<and> cl_state c \<notin> {state_completed, state_failed, state_cancelled})
     (end_call state_failed reason now) now"

definition sql_mark_cancelled :: "string option \<Rightarrow> uuid \<Rightarrow> uuid \<Rightarrow> int \<Rightarrow> database \<Rightarrow> (go_err + call) \<times> database" where
  "sql_mark_cancelled reason org i now = update_call
     (\<lambda>c. cl_org c = org \<and> cl_id c = i \<and> cl_state c \<in> {state_initiating, state_ringing})
     (end_call state_cancelled reason now) now"

definition sql_set_route :: "uuid option \<Rightarrow> uuid option \<Rightarrow> uuid \<Rightarrow> uuid \<Rightarrow> int \<Rightarrow> database \<Rightarrow> (go_err + call) \<times> database" where
  "sql_set_route trunk endpoint org i = update_call
     (\<lambda>c. cl_org c = org \<and> cl_id c = i) (\<lambda>c. c\<lparr>cl_trunk := trunk, cl_endpoint := endpoint\<rparr>)"

definition sql_set_sip :: "string \<Rightarrow> uuid \<Rightarrow> uuid \<Rightarrow> int \<Rightarrow> database \<Rightarrow> (go_err + call) \<times> database" where
  "sql_set_sip sip org i now db =
     (if \<exists>c \<in> set (db_calls db). cl_sip c = Some sip \<and> cl_id c \<noteq> i
         \<and> (\<exists>d \<in> set (db_calls db). cl_org d = org \<and> cl_id d = i \<and> cl_direction d = direction_outbound
              \<and> cl_sip d = None)
      then (Inl (Sentinel ''duplicate key value violates unique constraint''), db)
      else update_call
        (\<lambda>c. cl_org c = org \<and> cl_id c = i \<and> cl_direction c = direction_outbound \<and> (cl_sip c = None \<or> cl_sip c = Some sip))
        (\<lambda>c. c\<lparr>cl_sip := Some sip\<rparr>) now db)"

text \<open>
  \<open>INSERT INTO calls\<close> with the identity the database generates: refused when the identity or the
  SIP Call-ID (a partial unique index) is taken.
\<close>

record new_call =
  nc_org :: uuid
  nc_agent :: "uuid option"
  nc_direction :: string
  nc_state :: "string option"
  nc_from :: string
  nc_to :: string
  nc_sip :: "string option"

definition sql_create_call :: "new_call \<Rightarrow> uuid \<Rightarrow> int \<Rightarrow> database \<Rightarrow> (go_err + call) \<times> database" where
  "sql_create_call n fresh now db =
     (if fresh \<in> set (map cl_id (db_calls db)) \<or> (nc_sip n \<noteq> None \<and> nc_sip n \<in> set (map cl_sip (db_calls db)))
      then (Inl (Sentinel ''duplicate key value violates unique constraint''), db)
      else
        (let c = \<lparr>cl_id = fresh, cl_org = nc_org n, cl_agent = nc_agent n, cl_trunk = None, cl_endpoint = None,
                  cl_direction = nc_direction n,
                  cl_state = (case nc_state n of None \<Rightarrow> state_initiating | Some s \<Rightarrow> s),
                  cl_media = media_active, cl_from = nc_from n, cl_to = nc_to n, cl_sip = nc_sip n,
                  cl_started = None, cl_answered = None, cl_ended = None, cl_reason = None,
                  cl_created = now, cl_updated = now\<rparr>
         in (Inr c, db\<lparr>db_calls := db_calls db @ [c]\<rparr>)))"

definition sql_get_call :: "uuid \<Rightarrow> uuid \<Rightarrow> database \<Rightarrow> go_err + call" where
  "sql_get_call org i db = (case find (\<lambda>c. cl_org c = org \<and> cl_id c = i) (db_calls db) of
     None \<Rightarrow> Inl err_no_rows | Some c \<Rightarrow> Inr c)"

definition sql_get_by_sip :: "string \<Rightarrow> database \<Rightarrow> go_err + call" where
  "sql_get_by_sip sip db = (case find (\<lambda>c. cl_sip c = Some sip) (db_calls db) of
     None \<Rightarrow> Inl err_no_rows | Some c \<Rightarrow> Inr c)"

definition sql_lifecycle_snapshot :: "uuid \<Rightarrow> database \<Rightarrow> go_err + call" where
  "sql_lifecycle_snapshot i db = (case find (\<lambda>c. cl_id c = i) (db_calls db) of
     None \<Rightarrow> Inl err_no_rows | Some c \<Rightarrow> Inr c)"

definition sql_list_active :: "database \<Rightarrow> call list" where
  "sql_list_active db = sort_key cl_created (filter (\<lambda>c. cl_state c \<in> {state_initiating, state_ringing, state_answered, state_active}
     \<and> cl_trunk c \<noteq> None) (db_calls db))"

definition sql_enqueue_cleanup :: "uuid \<Rightarrow> uuid \<Rightarrow> int \<Rightarrow> database \<Rightarrow> database" where
  "sql_enqueue_cleanup i org now db =
     (if i \<in> set (map cu_call (db_cleanup db)) then db
      else db\<lparr>db_cleanup := db_cleanup db @ [\<lparr>cu_call = i, cu_org = org, cu_next = now\<rparr>]\<rparr>)"

definition minute_us :: int where "minute_us = 60000000"

definition sql_defer_cleanup :: "uuid \<Rightarrow> int \<Rightarrow> database \<Rightarrow> database" where
  "sql_defer_cleanup i now db = db\<lparr>db_cleanup :=
     map (\<lambda>r. if cu_call r = i then r\<lparr>cu_next := now + minute_us\<rparr> else r) (db_cleanup db)\<rparr>"

definition sql_delete_cleanup :: "uuid \<Rightarrow> database \<Rightarrow> database" where
  "sql_delete_cleanup i db = db\<lparr>db_cleanup := filter (\<lambda>r. cu_call r \<noteq> i) (db_cleanup db)\<rparr>"

definition sql_due_cleanup :: "int \<Rightarrow> database \<Rightarrow> cleanup_row list" where
  "sql_due_cleanup now db = take 100 (sort_key cu_next (sort_key (uuid_string \<circ> cu_call)
     (filter (\<lambda>r. cu_next r \<le> now) (db_cleanup db))))"

definition sql_cleanup_trunks :: "uuid \<Rightarrow> database \<Rightarrow> uuid list" where
  "sql_cleanup_trunks i db = remdups
     (List.map_filter cl_trunk (filter (\<lambda>c. cl_id c = i) (db_calls db))
      @ map at_trunk (filter (\<lambda>a. at_call a = i) (db_attempts db)))"

definition unresolved_statuses :: "string list" where
  "unresolved_statuses = [''prepared'', ''submitted'', ''uncertain'']"

definition sql_update_attempts :: "(attempt_row \<Rightarrow> bool) \<Rightarrow> string \<Rightarrow> int \<Rightarrow> database \<Rightarrow> database" where
  "sql_update_attempts p status now db = db\<lparr>db_attempts :=
     map (\<lambda>a. if p a then a\<lparr>at_status := status, at_updated := now\<rparr> else a) (db_attempts db)\<rparr>"

definition sql_prepare_attempt ::
  "uuid \<Rightarrow> uuid \<Rightarrow> uuid \<Rightarrow> uuid \<Rightarrow> uuid \<Rightarrow> int \<Rightarrow> database \<Rightarrow> (go_err + unit) \<times> database" where
  "sql_prepare_attempt channel i org trunk endpoint now db =
     (if channel \<in> set (map at_channel (db_attempts db))
      then (Inl (Sentinel ''duplicate key value violates unique constraint''), db)
      else (Inr (), db\<lparr>db_attempts := db_attempts db @ [\<lparr>at_channel = channel, at_call = i, at_org = org, at_trunk = trunk,
             at_endpoint = endpoint, at_status = ''prepared'', at_created = now, at_updated = now\<rparr>]\<rparr>))"

definition sql_attempt_submitted :: "uuid \<Rightarrow> int \<Rightarrow> database \<Rightarrow> database" where
  "sql_attempt_submitted channel = sql_update_attempts (\<lambda>a. at_channel a = channel \<and> at_status a = ''prepared'') ''submitted''"

definition sql_attempt_uncertain :: "uuid \<Rightarrow> int \<Rightarrow> database \<Rightarrow> database" where
  "sql_attempt_uncertain channel = sql_update_attempts
     (\<lambda>a. at_channel a = channel \<and> at_status a \<in> {''prepared'', ''submitted''}) ''uncertain''"

definition sql_attempt_observed :: "uuid \<Rightarrow> uuid \<Rightarrow> int \<Rightarrow> database \<Rightarrow> database" where
  "sql_attempt_observed i channel = sql_update_attempts
     (\<lambda>a. at_call a = i \<and> at_channel a = channel \<and> at_status a \<in> set unresolved_statuses) ''observed''"

definition sql_finish_attempts :: "uuid \<Rightarrow> int \<Rightarrow> database \<Rightarrow> database" where
  "sql_finish_attempts i = sql_update_attempts
     (\<lambda>a. at_call a = i \<and> at_status a \<in> set (''observed'' # unresolved_statuses)) ''finished''"

definition sql_defer_attempt :: "uuid \<Rightarrow> int \<Rightarrow> database \<Rightarrow> database" where
  "sql_defer_attempt channel now db = db\<lparr>db_attempts :=
     map (\<lambda>a. if at_channel a = channel \<and> at_status a \<in> set unresolved_statuses then a\<lparr>at_updated := now\<rparr> else a)
       (db_attempts db)\<rparr>"

definition unresolved_attempt :: "database \<Rightarrow> attempt_row \<Rightarrow> bool" where
  "unresolved_attempt db a \<longleftrightarrow> at_status a \<in> set unresolved_statuses
     \<and> (\<exists>c \<in> set (db_calls db). cl_id c = at_call a \<and> cl_org c = at_org a \<and> cl_state c = state_initiating)"

definition sql_unresolved :: "database \<Rightarrow> attempt_row list" where
  "sql_unresolved db = take 100 (sort_key at_updated (sort_key (uuid_string \<circ> at_channel)
     (filter (unresolved_attempt db) (db_attempts db))))"

definition sql_count_unresolved :: "database \<Rightarrow> nat" where
  "sql_count_unresolved db = length (filter (unresolved_attempt db) (db_attempts db))"

definition sql_count_cleanup :: "database \<Rightarrow> nat" where
  "sql_count_cleanup db = length (db_cleanup db)"

end
