(* ===== verification/Call_Routing.thy ===== *)
theory Call_Routing
  imports Call_Admission
begin

text \<open>
  Route resolution (\<open>telephony/routing\<close>): the validated tuple of an inbound call, and the
  ordered endpoints of a customer's trunk for an outbound call. The four queries it reads are
  the fields of a \<open>routing_db\<close>; their rows belong to other components.
\<close>

section \<open>Requests and rows\<close>

record inbound_request =
  ir_org :: uuid
  ir_agent :: uuid
  ir_number :: uuid
  ir_binding :: uuid
  ir_trunk :: uuid
  ir_called :: string

record outbound_request =
  or_org :: uuid
  or_trunk :: "uuid option"
  or_destination :: string

record inbound_decision =
  id_request :: inbound_request
  id_limits :: limits

record outbound_route =
  rt_trunk :: uuid
  rt_endpoint :: uuid
  rt_host :: string
  rt_port :: int
  rt_transport :: string
  rt_limits :: limits

record binding_row =
  bd_agent :: uuid
  bd_number :: uuid

record trunk_row =
  tr_id :: uuid
  tr_status :: string
  tr_direction :: string
  tr_limits :: limits

record endpoint_row =
  ep_id :: uuid
  ep_host :: string
  ep_port :: int
  ep_transport :: string
  ep_health :: string

record routing_db =
  q_binding :: "uuid \<Rightarrow> uuid \<Rightarrow> go_err + binding_row"
  q_context :: "inbound_request \<Rightarrow> go_err + limits"
  q_trunk :: "uuid \<Rightarrow> uuid \<Rightarrow> go_err + trunk_row"
  q_endpoints :: "uuid \<Rightarrow> uuid \<Rightarrow> go_err + endpoint_row list"

section \<open>Validation\<close>

definition normalize_inbound_request :: "inbound_request \<Rightarrow> inbound_request" where
  "normalize_inbound_request req = req\<lparr>ir_called := trim_space (ir_called req)\<rparr>"

definition validate_inbound_request :: "inbound_request \<Rightarrow> go_err option" where
  "validate_inbound_request req = first_error
     [(ir_org req = uuid_nil, new_bad_request ''organization_id is required''),
      (ir_agent req = uuid_nil, new_bad_request ''voice_agent_id is required''),
      (ir_number req = uuid_nil, new_bad_request ''phone_number_id is required''),
      (ir_binding req = uuid_nil, new_bad_request ''voice_agent_binding_id is required''),
      (ir_trunk req = uuid_nil, new_bad_request ''trunk_id is required''),
      (ir_called req = [], new_bad_request ''called_number is required'')]"

definition policy_validate_inbound :: "inbound_request \<Rightarrow> go_err option" where
  "policy_validate_inbound req = validate_inbound_request req"

definition normalize_outbound_request :: "outbound_request \<Rightarrow> outbound_request" where
  "normalize_outbound_request req = req\<lparr>or_destination := trim_space (or_destination req)\<rparr>"

definition validate_outbound_request :: "outbound_request \<Rightarrow> go_err option" where
  "validate_outbound_request req = first_error
     [(or_org req = uuid_nil, new_bad_request ''organization_id is required''),
      (or_trunk req = Some uuid_nil, new_bad_request ''trunk_id is invalid''),
      (or_destination req = [], new_bad_request ''destination is required'')]"

text \<open>The expression \<open>^\+[1-9][0-9]{6,14}$\<close>.\<close>

definition is_managed_e164 :: "string \<Rightarrow> bool" where
  "is_managed_e164 s = (case s of
      p # d # ds \<Rightarrow> p = CHR ''+'' \<and> is_digit d \<and> d \<noteq> CHR ''0'' \<and> list_all is_digit ds
        \<and> 6 \<le> length ds \<and> length ds \<le> 14
    | _ \<Rightarrow> False)"

definition managed_destination :: "string \<Rightarrow> go_err + string \<times> string" where
  "managed_destination value =
     (let value = trim_space value;
          lower = to_lower value;
          value = (if starts_with ''sip:'' lower \<or> starts_with ''tel:'' lower then drop 4 value else value);
          value = takeWhile (\<lambda>c. c \<noteq> CHR ''@'') value;
          value = takeWhile (\<lambda>c. c \<noteq> CHR '';'') value
      in if \<not> is_managed_e164 value then Inl (new_bad_request ''managed destination must be an E.164 number'')
         else Inr (value, if starts_with ''+'' value then drop 1 value else value))"

section \<open>The repository\<close>

definition get_inbound_context :: "routing_db \<Rightarrow> inbound_request \<Rightarrow> go_err + limits" where
  "get_inbound_context q req =
     (case q_binding q (ir_binding req) (ir_org req) of
        Inl e \<Rightarrow> Inl e
      | Inr b \<Rightarrow> if bd_agent b \<noteq> ir_agent req \<or> bd_number b \<noteq> ir_number req then Inl err_no_rows
                 else q_context q req)"

fun byoc_routes :: "trunk_row \<Rightarrow> endpoint_row list \<Rightarrow> go_err + outbound_route list" where
  "byoc_routes trunk [] = Inr []"
| "byoc_routes trunk (endpoint # es) =
     (if ep_health endpoint = ''unhealthy'' then byoc_routes trunk es
      else if ep_port endpoint < 1 \<or> 65535 < ep_port endpoint
      then Inl (Errf ''invalid trunk endpoint port: %d'' [int_dec (ep_port endpoint)])
      else (case byoc_routes trunk es of
              Inl e \<Rightarrow> Inl e
            | Inr rs \<Rightarrow> Inr (\<lparr>rt_trunk = tr_id trunk, rt_endpoint = ep_id endpoint, rt_host = ep_host endpoint,
                              rt_port = ep_port endpoint, rt_transport = ep_transport endpoint,
                              rt_limits = tr_limits trunk\<rparr> # rs)))"

definition resolve_byoc_outbound :: "routing_db \<Rightarrow> uuid \<Rightarrow> uuid \<Rightarrow> go_err + outbound_route list" where
  "resolve_byoc_outbound q organizationID trunkID =
     (case q_trunk q trunkID organizationID of
        Inl e \<Rightarrow> Inl e
      | Inr trunk \<Rightarrow>
          if tr_status trunk \<noteq> ''active''
             \<or> (tr_direction trunk \<noteq> ''outbound'' \<and> tr_direction trunk \<noteq> ''bidirectional'')
          then Inl err_no_rows
          else (case q_endpoints q trunkID organizationID of
                  Inl e \<Rightarrow> Inl e
                | Inr endpoints \<Rightarrow>
                    (case byoc_routes trunk endpoints of
                       Inl e \<Rightarrow> Inl e
                     | Inr routes \<Rightarrow> if routes = [] then Inl err_no_rows else Inr routes)))"

section \<open>The service\<close>

definition resolve_inbound :: "routing_db \<Rightarrow> inbound_request \<Rightarrow> go_err + inbound_decision" where
  "resolve_inbound q req0 =
     (let req = normalize_inbound_request req0
      in case policy_validate_inbound req of
           Some e \<Rightarrow> Inl e
         | None \<Rightarrow>
             (case get_inbound_context q req of
                Inl e \<Rightarrow> Inl (if errors_is e err_no_rows then new_not_found ''no eligible inbound route''
                              else new_internal ''resolve inbound route'' (Some e))
              | Inr lim \<Rightarrow> Inr \<lparr>id_request = req, id_limits = lim\<rparr>))"

definition resolve_outbound :: "routing_db \<Rightarrow> outbound_request \<Rightarrow> go_err + outbound_route list" where
  "resolve_outbound q req0 =
     (let req = normalize_outbound_request req0
      in case validate_outbound_request req of
           Some e \<Rightarrow> Inl e
         | None \<Rightarrow>
             (case or_trunk req of
                None \<Rightarrow> Inl (new_bad_request ''trunk_id is required for outbound calls'')
              | Some trunkID \<Rightarrow>
                  (case resolve_byoc_outbound q (or_org req) trunkID of
                     Inl e \<Rightarrow> Inl (if errors_is e err_no_rows then new_not_found ''no eligible outbound route''
                                   else new_internal ''resolve outbound route'' (Some e))
                   | Inr routes \<Rightarrow> Inr routes)))"

definition decision_primary :: "outbound_route list \<Rightarrow> outbound_route option" where
  "decision_primary routes = (case routes of [] \<Rightarrow> None | r # _ \<Rightarrow> Some r)"

section \<open>Properties\<close>

text \<open>The endpoints the plan may use, in the order of the query.\<close>

definition usable_endpoints :: "endpoint_row list \<Rightarrow> endpoint_row list" where
  "usable_endpoints = filter (\<lambda>e. ep_health e \<noteq> ''unhealthy'')"

lemma byoc_routes_ok:
  "byoc_routes t es = Inr rs \<Longrightarrow> map rt_endpoint rs = map ep_id (usable_endpoints es)
     \<and> (\<forall>r \<in> set rs. rt_trunk r = tr_id t \<and> rt_limits r = tr_limits t \<and> 1 \<le> rt_port r \<and> rt_port r \<le> 65535)"
  by (induction es arbitrary: rs) (auto simp: usable_endpoints_def split: if_splits sum.splits)

lemma is_managed_e164_plus: "is_managed_e164 s \<Longrightarrow> s = CHR ''+'' # tl s"
  by (auto simp: is_managed_e164_def split: list.splits)

lemma managed_destination_e164:
  "managed_destination v = Inr (number, digits) \<Longrightarrow>
     is_managed_e164 number \<and> number = CHR ''+'' # digits \<and> list_all is_digit digits"
  by (auto simp: managed_destination_def Let_def is_managed_e164_def starts_with_def split: if_splits list.splits)

end
