(* ===== verification/Go_Text.thy ===== *)
theory Go_Text
  imports Go_Errors
begin

text \<open>
  More of the packages \<open>strings\<close>, \<open>unicode/utf8\<close> and \<open>time\<close> that the components use: splitting, cutting and
  joining of byte strings, the words of a line, valid UTF-8, and the checks of \<open>pkg/listquery\<close>.
\<close>

section \<open>Package strings\<close>

fun split_on :: "char \<Rightarrow> string \<Rightarrow> string list" where
  "split_on c [] = [[]]"
| "split_on c (x # xs) =
     (if x = c then [] # split_on c xs
      else case split_on c xs of [] \<Rightarrow> [[x]] | l # ls \<Rightarrow> (x # l) # ls)"

fun cut_at :: "string \<Rightarrow> string \<Rightarrow> (string \<times> string) option" where
  "cut_at sep [] = (if sep = [] then Some ([], []) else None)"
| "cut_at sep (x # xs) =
     (if starts_with sep (x # xs) then Some ([], drop (length sep) (x # xs))
      else case cut_at sep xs of None \<Rightarrow> None | Some (a, b) \<Rightarrow> Some (x # a, b))"

definition contains_any :: "string \<Rightarrow> char list \<Rightarrow> bool" where
  "contains_any s cs \<longleftrightarrow> list_ex (\<lambda>c. c \<in> set cs) s"

fun join_with :: "string \<Rightarrow> string list \<Rightarrow> string" where
  "join_with sep [] = []"
| "join_with sep [x] = x"
| "join_with sep (x # y # ys) = x @ sep @ join_with sep (y # ys)"

definition trim_suffix :: "string \<Rightarrow> string \<Rightarrow> string" where
  "trim_suffix s suf = (if suf \<noteq> [] \<and> length suf \<le> length s \<and> drop (length s - length suf) s = suf
     then take (length s - length suf) s else s)"

text \<open>
  \<open>strings.Fields\<close>: the maximal runs of bytes between white space. The code points of white space are
  those of \<open>trim_space\<close>, so a run ends where one of their encodings begins.
\<close>

function words_of :: "string \<Rightarrow> string \<Rightarrow> string list" where
  "words_of w [] = (if w = [] then [] else [rev w])"
| "words_of w (c # cs) =
     (case find (\<lambda>p. p \<noteq> [] \<and> starts_with p (c # cs)) go_spaces of
        None \<Rightarrow> words_of (c # w) cs
      | Some p \<Rightarrow> (if w = [] then [] else [rev w]) @ words_of [] (drop (length p) (c # cs)))"
  by pat_completeness auto
termination
proof (relation "measure (\<lambda>(w, s). length s)")
  fix w :: string and c cs p
  assume "find (\<lambda>p. p \<noteq> [] \<and> starts_with p (c # cs)) go_spaces = Some p"
  then have "0 < length p" by (auto simp: find_Some_iff)
  then show "(([], drop (length p) (c # cs)), (w, c # cs)) \<in> measure (\<lambda>(w, s). length s)" by simp
qed simp_all

definition go_fields :: "string \<Rightarrow> string list" where
  "go_fields s = words_of [] s"

section \<open>UTF-8\<close>

text \<open>The bytes of one encoded code point, and strings made of them (\<open>utf8.Valid\<close>).\<close>

definition cont_byte :: "nat \<Rightarrow> bool" where
  "cont_byte b \<longleftrightarrow> 0x80 \<le> b \<and> b \<le> 0xBF"

fun utf8_bytes :: "nat list \<Rightarrow> bool" where
  "utf8_bytes [] = True"
| "utf8_bytes (a # bs) =
     (if a < 0x80 then utf8_bytes bs
      else (case bs of
        [] \<Rightarrow> False
      | b # cs \<Rightarrow>
          if 0xC2 \<le> a \<and> a \<le> 0xDF then cont_byte b \<and> utf8_bytes cs
          else (case cs of
            [] \<Rightarrow> False
          | c # ds \<Rightarrow>
              if 0xE0 \<le> a \<and> a \<le> 0xEF
              then cont_byte b \<and> cont_byte c \<and> (a = 0xE0 \<longrightarrow> 0xA0 \<le> b) \<and> (a = 0xED \<longrightarrow> b \<le> 0x9F) \<and> utf8_bytes ds
              else (case ds of
                [] \<Rightarrow> False
              | d # es \<Rightarrow> 0xF0 \<le> a \<and> a \<le> 0xF4 \<and> cont_byte b \<and> cont_byte c \<and> cont_byte d
                  \<and> (a = 0xF0 \<longrightarrow> 0x90 \<le> b) \<and> (a = 0xF4 \<longrightarrow> b \<le> 0x8F) \<and> utf8_bytes es))))"

definition utf8_valid :: "string \<Rightarrow> bool" where
  "utf8_valid s = utf8_bytes (map of_char s)"

section \<open>Package listquery\<close>

text \<open>Times are microseconds since 1970; the zero \<open>time.Time\<close> is the first instant of year 1.\<close>

definition zero_time :: int where "zero_time = - 62135596800000000"

definition listquery_enum :: "string \<Rightarrow> string option \<Rightarrow> string list \<Rightarrow> go_err option" where
  "listquery_enum key value allowed = (case value of None \<Rightarrow> None
     | Some v \<Rightarrow> if v \<in> set allowed then None else Some (new_bad_request (''invalid '' @ key)))"

definition listquery_id :: "string \<Rightarrow> uuid option \<Rightarrow> go_err option" where
  "listquery_id key value = (if value = Some uuid_nil then Some (new_bad_request (''invalid '' @ key)) else None)"

definition listquery_range :: "int option \<Rightarrow> int option \<Rightarrow> go_err option" where
  "listquery_range a b =
     (if a = Some zero_time \<or> b = Some zero_time then Some (new_bad_request ''date bounds must not be zero'')
      else (case (a, b) of
              (Some x, Some y) \<Rightarrow> if \<not> x < y then Some (new_bad_request ''date range start must precede end'') else None
            | _ \<Rightarrow> None))"

section \<open>Lemmas\<close>

lemma cut_at_parts: "cut_at sep s = Some (a, b) \<Longrightarrow> s = a @ sep @ b"
proof (induction sep s arbitrary: a rule: cut_at.induct)
  case (2 sep x xs)
  show ?case
  proof (cases "starts_with sep (x # xs)")
    case True
    then have "take (length sep) (x # xs) = sep" by (simp add: starts_with_def)
    then have "x # xs = sep @ drop (length sep) (x # xs)" by (metis append_take_drop_id)
    with True 2 show ?thesis by simp
  qed (use 2 in \<open>auto split: option.splits\<close>)
qed (auto split: if_splits)

lemma utf8_ascii_prefix: "n < 0x80 \<Longrightarrow> utf8_bytes (replicate k n @ bs) = utf8_bytes bs"
  by (induction k) auto

lemma utf8_ascii: "list_all (\<lambda>c. (of_char c :: nat) < 0x80) s \<Longrightarrow> utf8_valid s"
  unfolding utf8_valid_def by (induction s) auto

text \<open>\<open>net.JoinHostPort\<close>: a host with a colon is an IPv6 address and gets brackets.\<close>

definition join_host_port :: "string \<Rightarrow> string \<Rightarrow> string" where
  "join_host_port host port = (if CHR '':'' \<in> set host then ''['' @ host @ '']:'' @ port else host @ '':'' @ port)"

end
