(* ===== verification/Fs_Frames.thy ===== *)
theory Fs_Frames
  imports Go_Text
begin

text \<open>
  Frames and events of FreeSWITCH's event socket (\<open>integrations/freeswitch/model.go\<close>,
  \<open>events.go\<close>): the headers of a reply, the percent-encoded headers in the body of a plain
  event, and the words of a command (\<open>commands.go\<close>).
\<close>

section \<open>Frames\<close>

record frame =
  fr_type :: string
  fr_headers :: "(string \<times> string) list"
  fr_body :: string

record fs_event =
  ev_name :: string
  ev_headers :: "(string \<times> string) list"
  ev_body :: string

text \<open>\<open>url.PathUnescape\<close>.\<close>

fun path_unescape :: "string \<Rightarrow> string option" where
  "path_unescape [] = Some []"
| "path_unescape (c # cs) =
     (if c = CHR ''%'' then
        (case cs of
           a # b # rest \<Rightarrow>
             (case (hex_val a, hex_val b) of
                (Some x, Some y) \<Rightarrow> map_option ((#) (char_of (16 * x + y))) (path_unescape rest)
              | _ \<Rightarrow> None)
         | _ \<Rightarrow> None)
      else map_option ((#) c) (path_unescape cs))"

definition trim_cr :: "string \<Rightarrow> string" where
  "trim_cr line = rev (dropWhile (\<lambda>c. c = CHR 0x0D) (rev line))"

fun event_lines_header :: "string list \<Rightarrow> string \<Rightarrow> string" where
  "event_lines_header [] name = []"
| "event_lines_header (line # ls) name =
     (case cut_at '': '' (trim_cr line) of
        None \<Rightarrow> event_lines_header ls name
      | Some (key, value) \<Rightarrow>
          if key \<noteq> name then event_lines_header ls name
          else case path_unescape value of None \<Rightarrow> value | Some decoded \<Rightarrow> decoded)"

definition plain_event_header :: "string \<Rightarrow> string \<Rightarrow> string" where
  "plain_event_header body name = event_lines_header (split_on (CHR 0x0A) body) name"

definition map_header :: "(string \<times> string) list \<Rightarrow> string \<Rightarrow> string" where
  "map_header h name = (case map_of h name of None \<Rightarrow> [] | Some v \<Rightarrow> v)"

definition frame_header :: "frame \<Rightarrow> string \<Rightarrow> string" where
  "frame_header f name =
     (if map_header (fr_headers f) name \<noteq> [] then map_header (fr_headers f) name
      else if fr_type f = ''text/event-plain'' then plain_event_header (fr_body f) name
      else [])"

definition event_header :: "fs_event \<Rightarrow> string \<Rightarrow> string" where
  "event_header e name =
     (if map_header (ev_headers e) name \<noteq> [] then map_header (ev_headers e) name
      else plain_event_header (ev_body e) name)"

definition frame_reply_text :: "frame \<Rightarrow> string" where
  "frame_reply_text f = frame_header f ''Reply-Text''"

definition frame_ok :: "frame \<Rightarrow> bool" where
  "frame_ok f \<longleftrightarrow> starts_with ''+OK'' (to_upper (frame_reply_text f))"

section \<open>Command words\<close>

definition escape_quotes :: "string \<Rightarrow> string" where
  "escape_quotes = List.maps (\<lambda>c. if c = CHR 0x22 then [CHR 0x5C, CHR 0x22] else [c])"

definition command_word :: "string \<Rightarrow> string" where
  "command_word value =
     (if contains_any value [CHR '' '', CHR 0x09, CHR 0x0D, CHR 0x0A, CHR 0x22, CHR 0x27]
      then CHR 0x22 # escape_quotes value @ [CHR 0x22] else value)"

definition command_words :: "string list \<Rightarrow> string" where
  "command_words values = join_with '' '' (map command_word values)"

text \<open>A Go map as the list of its pairs, the keys distinct; the keys are sorted before they are written.\<close>

definition format_variables :: "(string \<times> string) list \<Rightarrow> string" where
  "format_variables vs =
     (if vs = [] then []
      else ''{'' @ join_with '','' (map (\<lambda>k. k @ ''='' @ command_word (map_header vs k)) (sort (map fst vs))) @ ''}'')"

definition required_argument :: "string \<Rightarrow> string \<Rightarrow> go_err + string" where
  "required_argument name value =
     (let value = trim_space value
      in if value = [] then Inl (Errf ''FreeSWITCH %s is required'' [name]) else Inr value)"

definition command_reply_error :: "string \<Rightarrow> go_err option" where
  "command_reply_error body0 =
     (let body = trim_space body0
      in if starts_with ''-ERR'' (to_upper body) then Some (Errf ''FreeSWITCH command failed: %s'' [body]) else None)"

section \<open>Subscriptions\<close>

fun clean_events :: "string list \<Rightarrow> string list \<Rightarrow> string list" where
  "clean_events seen [] = []"
| "clean_events seen (e # es) =
     (let event = trim_space e
      in if event = [] \<or> event \<in> set seen then clean_events seen es
         else event # clean_events (event # seen) es)"

definition new_subscription :: "bool \<Rightarrow> string \<Rightarrow> string list \<Rightarrow> go_err + string list" where
  "new_subscription has_handler format events =
     (if \<not> has_handler then Inl (Errf ''FreeSWITCH event handler is required'' [])
      else if format \<noteq> ''plain'' then Inl (Errf ''unsupported FreeSWITCH event format: %q'' [format])
      else Inr (clean_events [] events))"

definition subscription_command :: "string \<Rightarrow> string list \<Rightarrow> string" where
  "subscription_command format events =
     ''event '' @ format @ (if events \<noteq> [] then '' '' @ join_with '' '' events else [])"

definition subscription_matches :: "string list \<Rightarrow> string \<Rightarrow> bool" where
  "subscription_matches events name \<longleftrightarrow> events = [] \<or> list_ex (\<lambda>e. e = name) events"

section \<open>Lemmas\<close>

lemma clean_events_distinct: "distinct (clean_events seen es) \<and> set (clean_events seen es) \<inter> set seen = {}
  \<and> [] \<notin> set (clean_events seen es)"
  by (induction seen es rule: clean_events.induct) (auto simp: Let_def)

end
