(* ===== verification/Go_Netip.thy ===== *)
theory Go_Netip
  imports Go_Errors "HOL-Library.Word"
begin

text \<open>
  The addresses of the package \<open>net/netip\<close>, as far as the program uses them: \<open>ParseAddr\<close>,
  \<open>String\<close>, \<open>Unmap\<close>, \<open>Zone\<close> and the predicates on address ranges. An IPv4 address is a 32-bit
  word, an IPv6 address a 128-bit word with its zone; equality compares the zone, as in Go.
\<close>

unbundle bit_operations_syntax

section \<open>Addresses\<close>

datatype ip_addr = V4 "32 word" | V6 "128 word" string

definition v4_byte :: "nat \<Rightarrow> 32 word \<Rightarrow> 8 word" where
  "v4_byte i a = ucast (drop_bit (24 - 8 * i) a)"

definition v6_group :: "nat \<Rightarrow> 128 word \<Rightarrow> 16 word" where
  "v6_group i a = ucast (drop_bit (112 - 16 * i) a)"

definition v4_of_bytes :: "nat list \<Rightarrow> 32 word" where
  "v4_of_bytes bs = foldl (\<lambda>acc b. 256 * acc + word_of_nat b) 0 bs"

definition v6_of_groups :: "nat list \<Rightarrow> 128 word" where
  "v6_of_groups gs = foldl (\<lambda>acc g. 65536 * acc + word_of_nat g) 0 gs"

definition is_4in6 :: "ip_addr \<Rightarrow> bool" where
  "is_4in6 ip = (case ip of V4 a \<Rightarrow> False | V6 a z \<Rightarrow> drop_bit 32 a = 0xFFFF)"

definition unmap :: "ip_addr \<Rightarrow> ip_addr" where
  "unmap ip = (case ip of V4 a \<Rightarrow> V4 a | V6 a z \<Rightarrow> if drop_bit 32 a = 0xFFFF then V4 (ucast a) else V6 a z)"

definition ip_zone :: "ip_addr \<Rightarrow> string" where
  "ip_zone ip = (case ip of V4 a \<Rightarrow> [] | V6 a z \<Rightarrow> z)"

definition is_unspecified :: "ip_addr \<Rightarrow> bool" where
  "is_unspecified ip \<longleftrightarrow> ip = V4 0 \<or> ip = V6 0 []"

definition is_loopback :: "ip_addr \<Rightarrow> bool" where
  "is_loopback ip = (case unmap ip of V4 a \<Rightarrow> v4_byte 0 a = 127 | V6 a z \<Rightarrow> a = 1)"

definition is_multicast :: "ip_addr \<Rightarrow> bool" where
  "is_multicast ip = (case unmap ip of V4 a \<Rightarrow> v4_byte 0 a AND 0xF0 = 0xE0 | V6 a z \<Rightarrow> drop_bit 120 a = 0xFF)"

definition is_link_local_unicast :: "ip_addr \<Rightarrow> bool" where
  "is_link_local_unicast ip = (case unmap ip of
     V4 a \<Rightarrow> v4_byte 0 a = 169 \<and> v4_byte 1 a = 254 | V6 a z \<Rightarrow> v6_group 0 a AND 0xFFC0 = 0xFE80)"

definition is_link_local_multicast :: "ip_addr \<Rightarrow> bool" where
  "is_link_local_multicast ip = (case unmap ip of
     V4 a \<Rightarrow> v4_byte 0 a = 224 \<and> v4_byte 1 a = 0 \<and> v4_byte 2 a = 0 | V6 a z \<Rightarrow> v6_group 0 a AND 0xFF0F = 0xFF02)"

definition is_private :: "ip_addr \<Rightarrow> bool" where
  "is_private ip = (case unmap ip of
     V4 a \<Rightarrow> v4_byte 0 a = 10 \<or> (v4_byte 0 a = 172 \<and> v4_byte 1 a AND 0xF0 = 16) \<or> (v4_byte 0 a = 192 \<and> v4_byte 1 a = 168)
   | V6 a z \<Rightarrow> drop_bit 120 a AND 0xFE = 0xFC)"

definition is_global_unicast :: "ip_addr \<Rightarrow> bool" where
  "is_global_unicast ip \<longleftrightarrow> ip \<noteq> V4 0 \<and> ip \<noteq> V4 0xFFFFFFFF \<and> ip \<noteq> V6 0 []
     \<and> \<not> is_loopback ip \<and> \<not> is_multicast ip \<and> \<not> is_link_local_unicast ip"

text \<open>\<open>Prefix.Contains\<close> of an IPv4 prefix.\<close>

definition v4_prefix_contains :: "32 word \<Rightarrow> nat \<Rightarrow> 32 word \<Rightarrow> bool" where
  "v4_prefix_contains p bits a \<longleftrightarrow> drop_bit (32 - bits) (a XOR p) = 0"

section \<open>Text\<close>

fun v4_loop :: "string \<Rightarrow> nat \<Rightarrow> nat \<Rightarrow> nat list \<Rightarrow> nat list option" where
  "v4_loop [] val len fields = (if length fields < 3 then None else Some (fields @ [val]))"
| "v4_loop (c # cs) val len fields =
     (if is_digit c then
        (if len = 1 \<and> val = 0 then None
         else if 255 < 10 * val + digit_val c then None
         else v4_loop cs (10 * val + digit_val c) (len + 1) fields)
      else if c = CHR ''.'' then
        (if len = 0 \<or> cs = [] \<or> length fields = 3 then None else v4_loop cs 0 0 (fields @ [val]))
      else None)"

definition parse_v4 :: "string \<Rightarrow> ip_addr option" where
  "parse_v4 s = map_option (\<lambda>bs. V4 (v4_of_bytes bs)) (v4_loop s 0 0 [])"

definition hex_field :: "string \<Rightarrow> (nat \<times> string) option" where
  "hex_field s =
     (let ds = takeWhile (\<lambda>c. hex_val c \<noteq> None) s
      in if ds = [] \<or> 4 < length ds then None
         else Some (foldl (\<lambda>acc c. 16 * acc + the (hex_val c)) 0 ds, drop (length ds) s))"

text \<open>The loop over the groups: the rest of the text, the groups and the place of \<open>::\<close>.\<close>

fun v6_loop :: "nat \<Rightarrow> string \<Rightarrow> nat list \<Rightarrow> nat option \<Rightarrow> (string \<times> nat list \<times> nat option) option" where
  "v6_loop 0 s groups ellipsis = Some (s, groups, ellipsis)"
| "v6_loop (Suc k) s groups ellipsis =
     (case hex_field s of None \<Rightarrow> None
      | Some (acc, rest) \<Rightarrow>
          if rest \<noteq> [] \<and> hd rest = CHR ''.'' then
            (if (ellipsis = None \<and> length groups \<noteq> 6) \<or> 6 < length groups then None
             else case v4_loop s 0 0 [] of
                    Some [a, b, c, d] \<Rightarrow> Some ([], groups @ [256 * a + b, 256 * c + d], ellipsis)
                  | _ \<Rightarrow> None)
          else (let groups' = groups @ [acc] in
            case rest of
              [] \<Rightarrow> Some ([], groups', ellipsis)
            | c # s1 \<Rightarrow>
                if c \<noteq> CHR '':'' \<or> s1 = [] then None
                else if hd s1 = CHR '':'' then
                  (if ellipsis \<noteq> None then None
                   else if tl s1 = [] then Some ([], groups', Some (length groups'))
                   else v6_loop k (tl s1) groups' (Some (length groups')))
                else v6_loop k s1 groups' ellipsis))"

definition split_zone :: "string \<Rightarrow> (string \<times> string) option" where
  "split_zone s =
     (let front = takeWhile (\<lambda>c. c \<noteq> CHR ''%'') s
      in if front = s then Some (s, [])
         else if drop (Suc (length front)) s = [] then None
         else Some (front, drop (Suc (length front)) s))"

definition parse_v6 :: "string \<Rightarrow> ip_addr option" where
  "parse_v6 s0 =
     (case split_zone s0 of None \<Rightarrow> None
      | Some (s, zone) \<Rightarrow>
          if s = ''::'' then Some (V6 0 zone)
          else (let lead = starts_with ''::'' s in
            case v6_loop 8 (if lead then drop 2 s else s) [] (if lead then Some 0 else None) of
              Some ([], groups, ellipsis) \<Rightarrow>
                if length groups < 8 then
                  (case ellipsis of None \<Rightarrow> None
                   | Some e \<Rightarrow> Some (V6 (v6_of_groups (take e groups @ replicate (8 - length groups) 0 @ drop e groups)) zone))
                else if ellipsis \<noteq> None then None
                else Some (V6 (v6_of_groups groups) zone)
            | _ \<Rightarrow> None))"

definition parse_addr :: "string \<Rightarrow> ip_addr option" where
  "parse_addr s =
     (case find (\<lambda>c. c = CHR ''.'' \<or> c = CHR '':'' \<or> c = CHR ''%'') s of
        None \<Rightarrow> None
      | Some c \<Rightarrow> if c = CHR ''.'' then parse_v4 s else if c = CHR '':'' then parse_v6 s else None)"

text \<open>A prefix: \<open>ParsePrefix\<close> and \<open>Masked\<close>.\<close>

type_synonym prefix = "ip_addr \<times> nat"

definition parse_prefix :: "string \<Rightarrow> prefix option" where
  "parse_prefix s =
     (if CHR ''/'' \<notin> set s then None
      else
        let bits = rev (takeWhile (\<lambda>c. c \<noteq> CHR ''/'') (rev s));
            addr = take (length s - Suc (length bits)) s
        in (case parse_addr addr of
              None \<Rightarrow> None
            | Some ip \<Rightarrow>
                if ip_zone ip \<noteq> [] then None
                else if 1 < length bits \<and> \<not> (is_digit (hd bits) \<and> hd bits \<noteq> CHR ''0'') then None
                else (case parse_int64 bits of
                        None \<Rightarrow> None
                      | Some n \<Rightarrow>
                          if n < 0 \<or> (case ip of V4 a \<Rightarrow> 32 | V6 a z \<Rightarrow> 128) < n then None else Some (ip, nat n))))"

definition masked :: "prefix \<Rightarrow> prefix" where
  "masked p = (case p of (ip, n) \<Rightarrow>
     (case ip of V4 a \<Rightarrow> V4 (push_bit (32 - n) (drop_bit (32 - n) a)) | V6 a z \<Rightarrow> V6 (push_bit (128 - n) (drop_bit (128 - n) a)) z, n))"

definition v4_string :: "32 word \<Rightarrow> string" where
  "v4_string a = nat_dec (unat (v4_byte 0 a)) @ ''.'' @ nat_dec (unat (v4_byte 1 a)) @ ''.''
     @ nat_dec (unat (v4_byte 2 a)) @ ''.'' @ nat_dec (unat (v4_byte 3 a))"

fun hex_text :: "nat \<Rightarrow> string" where
  "hex_text n =
     (let d = (\<lambda>k. if k < 10 then char_of (48 + k) else char_of (87 + k :: nat))
      in if n < 16 then [d n] else hex_text (n div 16) @ [d (n mod 16)])"

declare hex_text.simps [simp del]

text \<open>The longest run of at least two zero groups, the first of them: its start and end.\<close>

definition zero_run :: "nat list \<Rightarrow> nat \<times> nat" where
  "zero_run gs = foldl
     (\<lambda>(best, stop) i. let l = length (takeWhile (\<lambda>g. g = 0) (drop i gs))
        in if 2 \<le> l \<and> stop - best < l then (i, i + l) else (best, stop))
     (8, 8) [0..<8]"

definition v6_body :: "128 word \<Rightarrow> string" where
  "v6_body a =
     (let gs = map (\<lambda>i. unat (v6_group i a)) [0..<8]; (start, stop) = zero_run gs;
          text = (\<lambda>xs. concat (map (\<lambda>(i, g). (if i = 0 then [] else '':'') @ hex_text g) (zip [0..<length xs] xs)))
      in if start = 8 then text gs
         else text (take start gs) @ ''::'' @ text (drop stop gs))"

definition addr_string :: "ip_addr \<Rightarrow> string" where
  "addr_string ip =
     (case ip of
        V4 a \<Rightarrow> v4_string a
      | V6 a z \<Rightarrow> (if is_4in6 ip then ''::ffff:'' @ v4_string (ucast a) else v6_body a)
                  @ (if z = [] then [] else ''%'' @ z))"

section \<open>Reading back\<close>

lemma nat_dec_small: "n < 10 \<Longrightarrow> nat_dec n = [digit_char n]"
  by (simp add: nat_dec.simps)

lemma nat_dec_two: "10 \<le> n \<Longrightarrow> n < 100 \<Longrightarrow> nat_dec n = [digit_char (n div 10), digit_char (n mod 10)]"
  by (subst nat_dec.simps) (simp add: nat_dec_small)

lemma nat_dec_three: "100 \<le> n \<Longrightarrow> n < 1000 \<Longrightarrow> nat_dec n = [digit_char (n div 100), digit_char (n div 10 mod 10), digit_char (n mod 10)]"
proof -
  assume "100 \<le> n" "n < 1000"
  then have "nat_dec (n div 10) = [digit_char (n div 10 div 10), digit_char (n div 10 mod 10)]"
    by (intro nat_dec_two) simp_all
  with \<open>100 \<le> n\<close> show ?thesis by (subst nat_dec.simps) (simp add: div_mult2_eq [symmetric])
qed

lemma v4_loop_three:
  assumes "a < 10" "b < 10" "c < 10" "a \<noteq> 0" "100 * a + 10 * b + c < 256"
  shows "v4_loop (digit_char a # digit_char b # digit_char c # rest) 0 0 fields = v4_loop rest (100 * a + 10 * b + c) 3 fields"
proof -
  have "10 * (10 * a + b) + c = 100 * a + 10 * b + c" by simp
  then show ?thesis using assms by (simp add: numeral_3_eq_3)
qed

lemma v4_loop_dec:
  assumes "n < 256"
  shows "v4_loop (nat_dec n @ rest) 0 0 fields = v4_loop rest n (length (nat_dec n)) fields"
proof -
  consider "n < 10" | "10 \<le> n" "n < 100" | "100 \<le> n" using assms by linarith
  then show ?thesis
  proof cases
    case 1
    then show ?thesis by (simp add: nat_dec_small)
  next
    case 2
    then have "n div 10 \<noteq> 0" "n div 10 \<le> 255" by auto
    with 2 show ?thesis using assms by (simp add: nat_dec_two)
  next
    case 3
    have "10 * (10 * (n div 10 div 10) + n div 10 mod 10) + n mod 10 = n" by (simp only: mult_div_mod_eq)
    moreover have "n div 10 div 10 = n div 100" by (simp add: div_mult2_eq [symmetric])
    ultimately have n: "100 * (n div 100) + 10 * (n div 10 mod 10) + n mod 10 = n" by simp
    have d: "nat_dec n = [digit_char (n div 100), digit_char (n div 10 mod 10), digit_char (n mod 10)]"
      using 3 assms by (intro nat_dec_three) simp_all
    have "n div 100 < 10" "n div 100 \<noteq> 0" using 3 assms by auto
    then show ?thesis
      using v4_loop_three [of "n div 100" "n div 10 mod 10" "n mod 10" rest fields] assms unfolding d n
      by (simp add: numeral_3_eq_3 del: v4_loop.simps)
  qed
qed

lemma nat_dec_length: "length (nat_dec n) \<noteq> 0"
  by (simp add: nat_dec.simps)

lemma v4_bytes_join: "v4_of_bytes [unat (v4_byte 0 a), unat (v4_byte 1 a), unat (v4_byte 2 a), unat (v4_byte 3 a)] = a"
proof -
  let ?n = "unat a"
  have n: "?n < 4294967296" using unsigned_less [of a] by simp
  have b: "unat (v4_byte i a) = ?n div 2 ^ (24 - 8 * i) mod 256" for i
    unfolding v4_byte_def unsigned_ucast_eq unsigned_drop_bit_eq using n by (simp add: take_bit_eq_mod drop_bit_eq_div)
  have e0: "?n div 16777216 mod 256 = ?n div 256 div 256 div 256" using n by (simp add: div_mult2_eq [symmetric])
  have e1: "?n div 65536 = ?n div 256 div 256" by (simp add: div_mult2_eq [symmetric])
  have "256 * (256 * (256 * (?n div 16777216 mod 256) + ?n div 65536 mod 256) + ?n div 256 mod 256) + ?n mod 256 = ?n"
    unfolding e0 e1 by (simp only: mult_div_mod_eq)
  then have join: "256 * (256 * (256 * word_of_nat (?n div 16777216 mod 256) + word_of_nat (?n div 65536 mod 256))
      + word_of_nat (?n div 256 mod 256)) + word_of_nat (?n mod 256) = (word_of_nat ?n :: 32 word)"
    by (drule_tac f = word_of_nat in arg_cong) (simp only: of_nat_add of_nat_mult of_nat_numeral)
  then have "v4_of_bytes (map (\<lambda>i. unat (v4_byte i a)) [0, 1, 2, 3]) = word_of_nat ?n"
    unfolding v4_of_bytes_def using join by (simp add: b)
  then show ?thesis by simp
qed

lemma v4_loop_dot: "cs \<noteq> [] \<Longrightarrow> length fields \<noteq> 3 \<Longrightarrow> len \<noteq> 0 \<Longrightarrow> v4_loop (CHR ''.'' # cs) val len fields = v4_loop cs 0 0 (fields @ [val])"
  by (simp add: is_digit_def)

lemma v4_byte_small: "unat (v4_byte i a) < 256"
  using unsigned_less [of "v4_byte i a"] by simp

lemma v4_loop_string: "v4_loop (v4_string a) 0 0 [] = Some (map (\<lambda>i. unat (v4_byte i a)) [0, 1, 2, 3])"
proof -
  have last: "v4_loop (nat_dec (unat (v4_byte i a))) 0 0 fields = v4_loop [] (unat (v4_byte i a)) (length (nat_dec (unat (v4_byte i a)))) fields" for i fields
    using v4_loop_dec [OF v4_byte_small, of i a "[]"] by simp
  have "nat_dec n \<noteq> []" for n using nat_dec_length [of n] by simp
  then show ?thesis
    by (simp add: v4_string_def v4_loop_dec [OF v4_byte_small] v4_loop_dot last del: v4_loop.simps(2)) 
qed

lemma find_skip: "\<forall>c \<in> set xs. \<not> c = CHR ''.'' \<and> \<not> c = CHR '':'' \<and> \<not> c = CHR ''%'' \<Longrightarrow>
   find (\<lambda>c. c = CHR ''.'' \<or> c = CHR '':'' \<or> c = CHR ''%'') (xs @ CHR ''.'' # rest) = Some CHR ''.''"
  by (induction xs) auto

text \<open>The text of an IPv4 address parses to the address.\<close>

lemma parse_v4_string: "parse_addr (addr_string (V4 a)) = Some (V4 a)"
proof -
  let ?p = "\<lambda>c. c = CHR ''.'' \<or> c = CHR '':'' \<or> c = CHR ''%''"
  have skip: "find ?p (nat_dec n @ CHR ''.'' # rest) = Some CHR ''.''" for n rest
  proof -
    have "\<forall>c \<in> set (nat_dec n). \<not> c = CHR ''.'' \<and> \<not> c = CHR '':'' \<and> \<not> c = CHR ''%''" using nat_dec_digits by (fastforce simp: is_digit_def)
    then show ?thesis by (rule find_skip)
  qed
  show ?thesis
    using v4_bytes_join [of a] v4_loop_string [of a]
    by (simp add: parse_addr_def addr_string_def v4_string_def [of a] skip parse_v4_def)
qed

end
