(* ===== verification/Net_Egress.thy ===== *)
theory Net_Egress
  imports Go_Netip
begin

text \<open>
  The egress policy (\<open>security/egress/policy.go\<close>, \<open>resolver.go\<close>, \<open>transport.go\<close>): which addresses
  the server may connect to, the resolution that checks every answer before it returns one, and the
  dial over the checked addresses. \<open>reachable_v4\<close> and \<open>reachable_v6\<close> give the accepted ranges
  as a table of blocks, the reference the predicates are proved against. The invalid zero value
  of \<open>netip.Addr\<close> has no counterpart here: no code path hands one to the policy.
\<close>

section \<open>The policy\<close>

type_synonym policy = "ip_addr list"

definition carrier_grade_nat :: "ip_addr \<Rightarrow> bool" where
  "carrier_grade_nat ip = (case ip of V4 a \<Rightarrow> v4_prefix_contains 0x64400000 10 a | V6 a z \<Rightarrow> False)"

definition validate_address :: "policy \<Rightarrow> ip_addr \<Rightarrow> go_err option" where
  "validate_address p address0 =
     (let address = unmap address0 in
      if list_ex (\<lambda>allowed. address = unmap allowed) p then None
      else if \<not> is_global_unicast address \<or> is_private address \<or> is_loopback address \<or> is_link_local_unicast address
           \<or> is_link_local_multicast address \<or> is_multicast address \<or> is_unspecified address \<or> carrier_grade_nat address
      then Some (Errf ''destination resolves to a non-public address'' [])
      else None)"

fun validate_all :: "policy \<Rightarrow> ip_addr list \<Rightarrow> go_err option" where
  "validate_all p [] = None"
| "validate_all p (a # as) = or_else (validate_address p a) (validate_all p as)"

text \<open>The answer of the DNS resolver is the parameter \<open>lookup\<close>.\<close>

definition resolve_host :: "policy \<Rightarrow> (string \<Rightarrow> go_err + ip_addr list) \<Rightarrow> string \<Rightarrow> go_err + ip_addr list" where
  "resolve_host p lookup host =
     (case parse_addr host of
        Some parsed \<Rightarrow> checked (validate_address p parsed) [parsed]
      | None \<Rightarrow>
          (case lookup host of
             Inl e \<Rightarrow> Inl (Wrap ''resolve destination: %w'' [] e)
           | Inr addresses \<Rightarrow>
               if addresses = [] then Inl (Errf ''destination resolved to no addresses'' [])
               else checked (validate_all p addresses) addresses))"

text \<open>
  The dialer of the HTTP transport, after the address has been split: it tries the checked
  addresses in order and answers the address it reached.
\<close>

fun dial_addresses :: "(ip_addr \<Rightarrow> go_err option) \<Rightarrow> go_err option \<Rightarrow> ip_addr list \<Rightarrow> go_err + ip_addr" where
  "dial_addresses dial prev [] = Inl (Wrap ''dial webhook destination: %w'' []
     (case prev of None \<Rightarrow> Errf ''webhook destination resolved to no dialable addresses'' [] | Some e \<Rightarrow> e))"
| "dial_addresses dial prev (ip # ips) =
     (case dial ip of None \<Rightarrow> Inr ip | Some e \<Rightarrow> dial_addresses dial (Some e) ips)"

definition dial_context :: "(string \<Rightarrow> go_err + ip_addr list) \<Rightarrow> (ip_addr \<Rightarrow> go_err option) \<Rightarrow> string \<Rightarrow> go_err + ip_addr" where
  "dial_context lookup dial host = rbind (resolve_host [] lookup host) (dial_addresses dial None)"

text \<open>\<open>ParseHTTPS\<close> on the parts \<open>url.Parse\<close> finds; \<open>None\<close> is its error.\<close>

record url_parts =
  ur_scheme :: string
  ur_opaque :: string
  ur_has_user :: bool
  ur_hostname :: string
  ur_fragment :: string

definition parse_https :: "(string \<Rightarrow> url_parts option) \<Rightarrow> string \<Rightarrow> go_err + url_parts" where
  "parse_https url_parse raw =
     (case url_parse (trim_space raw) of
        None \<Rightarrow> Inl (Errf ''webhook destination must be an absolute HTTPS URL'' [])
      | Some u \<Rightarrow>
          if ur_scheme u \<noteq> ''https'' \<or> ur_hostname u = [] \<or> ur_opaque u \<noteq> []
          then Inl (Errf ''webhook destination must be an absolute HTTPS URL'' [])
          else if ur_has_user u then Inl (Errf ''webhook destination cannot contain userinfo'' [])
          else if ur_fragment u \<noteq> [] then Inl (Errf ''webhook destination cannot contain a fragment'' [])
          else (case parse_addr (ur_hostname u) of
                  None \<Rightarrow> Inr u
                | Some address \<Rightarrow> checked (validate_address [] address) u))"

section \<open>The table of blocks\<close>

definition in_block :: "nat \<Rightarrow> nat \<Rightarrow> nat \<times> nat \<Rightarrow> bool" where
  "in_block width x block = (case block of (base, bits) \<Rightarrow> x div 2 ^ (width - bits) = base div 2 ^ (width - bits))"

definition v4_blocks :: "(nat \<times> nat) list" where
  "v4_blocks = [(0x00000000, 32), (0x0A000000, 8), (0x64400000, 10), (0x7F000000, 8), (0xA9FE0000, 16),
     (0xAC100000, 12), (0xC0A80000, 16), (0xE0000000, 4), (0xFFFFFFFF, 32)]"

definition v6_blocks :: "(nat \<times> nat) list" where
  "v6_blocks = [(1, 128), (0xFC * 2 ^ 120, 7), (0xFE80 * 2 ^ 112, 10), (0xFF * 2 ^ 120, 8)]"

definition reachable :: "ip_addr \<Rightarrow> bool" where
  "reachable ip = (case ip of
     V4 a \<Rightarrow> list_all (\<lambda>b. \<not> in_block 32 (unat a) b) v4_blocks
   | V6 a z \<Rightarrow> list_all (\<lambda>b. \<not> in_block 128 (unat a) b) v6_blocks \<and> (a, z) \<noteq> (0, []))"

lemma unat_v4_byte: "unat (v4_byte i a) = unat a div 2 ^ (24 - 8 * i) mod 256"
proof -
  have "unat a < 4294967296" using unsigned_less [of a] by simp
  then show ?thesis
    unfolding v4_byte_def unsigned_ucast_eq unsigned_drop_bit_eq by (simp add: take_bit_eq_mod drop_bit_eq_div)
qed

lemma and_high_bits:
  assumes "n < 2 ^ m" "k \<le> m"
  shows "(n :: nat) AND (2 ^ m - 2 ^ k) = n div 2 ^ k * 2 ^ k"
proof -
  have m: "2 ^ m - 2 ^ k = push_bit k (mask (m - k) :: nat)"
    using assms(2) by (simp add: push_bit_eq_mult mask_eq_exp_minus_1 diff_mult_distrib flip: power_add)
  have n: "take_bit m n = n" using assms(1) by (simp add: take_bit_nat_eq_self_iff)
  have "n AND push_bit k (mask (m - k)) = push_bit k (drop_bit k n)"
  proof (rule bit_eqI)
    fix j
    have "bit n j \<Longrightarrow> j < m" using n by (metis bit_take_bit_iff)
    then show "bit (n AND push_bit k (mask (m - k))) j \<longleftrightarrow> bit (push_bit k (drop_bit k n)) j"
      using assms(2) by (auto simp: bit_and_iff bit_push_bit_iff bit_mask_iff bit_drop_bit_eq)
  qed
  then show ?thesis unfolding m by (simp add: push_bit_eq_mult drop_bit_eq_div)
qed

lemma unat_and_F0: "unat (x AND (0xF0 :: 8 word)) = unat x div 16 * 16"
  using and_high_bits [of "unat x" 8 4] unsigned_less [of x] by (simp add: unsigned_and_eq)

lemma unat_and_FE: "unat (x AND (0xFE :: 128 word)) = unat x AND 0xFE"
  by (simp add: unsigned_and_eq)

lemma unat_and_FFC0: "unat (x AND (0xFFC0 :: 16 word)) = unat x div 64 * 64"
  using and_high_bits [of "unat x" 16 6] unsigned_less [of x] by (simp add: unsigned_and_eq)

lemma unat_drop: "unat (drop_bit k (a :: 'a::len word)) = unat a div 2 ^ k"
proof -
  have "take_bit LENGTH('a) (unat a) = unat a" by (simp add: take_bit_nat_eq_self_iff unsigned_less)
  then show ?thesis unfolding unsigned_drop_bit_eq by (simp only: drop_bit_eq_div)
qed

lemma unat_v6_group0: "unat (v6_group 0 a) = unat a div 2 ^ 112"
proof -
  have "unat a div 2 ^ 112 < 2 ^ 16"
    using unsigned_less [of a] by (simp add: div_less_iff_less_mult)
  then show ?thesis
    unfolding v6_group_def unsigned_ucast_eq unat_drop by (simp add: take_bit_nat_eq_self)
qed

lemma xor_zero_iff: "(x :: 'a::len word) XOR y = 0 \<longleftrightarrow> x = y"
  by (auto simp: bit_eq_iff bit_simps)

lemma contains_same_top: "v4_prefix_contains p bits a \<longleftrightarrow> unat a div 2 ^ (32 - bits) = unat p div 2 ^ (32 - bits)"
proof -
  have "drop_bit k (a XOR p) = drop_bit k a XOR drop_bit k p" for k
    by (rule bit_word_eqI) (simp add: bit_simps)
  then have "v4_prefix_contains p bits a \<longleftrightarrow> drop_bit (32 - bits) a = drop_bit (32 - bits) p"
    unfolding v4_prefix_contains_def by (simp only: xor_zero_iff)
  then show ?thesis by (simp only: word_unat_eq_iff unat_drop)
qed

section \<open>The predicates as blocks\<close>

lemma v4_parts:
  fixes n :: nat
  assumes "n < 2 ^ 32"
  obtains b0 b1 where "b0 < 256" "b1 < 256" "n div 16777216 = b0" "n div 16777216 mod 256 = b0" "n div 65536 mod 256 = b1"
    "n div 65536 = 256 * b0 + b1" "n div 1048576 = 16 * b0 + b1 div 16" "n div 4194304 = 4 * b0 + b1 div 64"
    "n div 268435456 = b0 div 16"
proof -
  define b0 where "b0 = n div 16777216"
  define b1 where "b1 = n div 65536 mod 256"
  have "b0 < 256" using assms by (simp add: b0_def)
  have "n div 65536 div 256 = b0" by (simp add: b0_def div_mult2_eq [symmetric])
  then have top: "n div 65536 = 256 * b0 + b1" using mult_div_mod_eq [of 256 "n div 65536"] by (simp add: b1_def)
  have "n div 1048576 = n div 65536 div 16" "n div 4194304 = n div 65536 div 64" by (simp_all add: div_mult2_eq [symmetric])
  then have "n div 1048576 = 16 * b0 + b1 div 16" "n div 4194304 = 4 * b0 + b1 div 64"
    unfolding top by (simp_all add: div_add1_eq)
  moreover have "n div 268435456 = b0 div 16" by (simp add: b0_def div_mult2_eq [symmetric])
  moreover have "b1 < 256" "n div 16777216 = b0" "n div 65536 mod 256 = b1" by (simp_all add: b0_def b1_def)
  moreover have "n div 16777216 mod 256 = b0" using \<open>b0 < 256\<close> by (simp add: b0_def)
  ultimately show thesis by (intro that [of b0 b1] \<open>b0 < 256\<close> top)
qed

lemma base_unique: "x < k \<Longrightarrow> d < k \<Longrightarrow> k * b + x = k * c + d \<longleftrightarrow> b = c \<and> x = (d :: nat)"
proof
  assume l: "x < k" "d < k" and eq: "k * b + x = k * c + d"
  have "(k * b + x) mod k = x" "(k * c + d) mod k = d" "(k * b + x) div k = b" "(k * c + d) div k = c" using l by simp_all
  then show "b = c \<and> x = d" using eq by metis
qed simp

lemma v4_blocks_exact:
  "list_all (\<lambda>b. \<not> in_block 32 (unat a) b) v4_blocks \<longleftrightarrow>
     \<not> (\<not> is_global_unicast (V4 a) \<or> is_private (V4 a) \<or> is_loopback (V4 a) \<or> is_link_local_unicast (V4 a)
      \<or> is_link_local_multicast (V4 a) \<or> is_multicast (V4 a) \<or> is_unspecified (V4 a) \<or> carrier_grade_nat (V4 a))"
proof -
  obtain b0 b1 where b: "b0 < 256" "b1 < 256" "unat a div 16777216 = b0" "unat a div 16777216 mod 256 = b0" "unat a div 65536 mod 256 = b1"
    "unat a div 65536 = 256 * b0 + b1" "unat a div 1048576 = 16 * b0 + b1 div 16" "unat a div 4194304 = 4 * b0 + b1 div 64"
    "unat a div 268435456 = b0 div 16"
    using v4_parts [of "unat a"] unsigned_less [of a] by auto
  have A: "list_all (\<lambda>b. \<not> in_block 32 (unat a) b) v4_blocks \<longleftrightarrow>
      \<not> (unat a = 0 \<or> b0 = 10 \<or> 4 * b0 + b1 div 64 = 401 \<or> b0 = 127 \<or> 256 * b0 + b1 = 43518 \<or> 16 * b0 + b1 div 16 = 2753
        \<or> 256 * b0 + b1 = 49320 \<or> b0 div 16 = 14 \<or> unat a = 4294967295)"
    by (simp add: v4_blocks_def in_block_def b(3,6-9))
  have B: "is_loopback (V4 a) \<longleftrightarrow> b0 = 127" "is_link_local_unicast (V4 a) \<longleftrightarrow> b0 = 169 \<and> b1 = 254"
      "is_multicast (V4 a) \<longleftrightarrow> b0 div 16 = 14" "is_unspecified (V4 a) \<longleftrightarrow> unat a = 0"
      "carrier_grade_nat (V4 a) \<longleftrightarrow> 4 * b0 + b1 div 64 = 401"
      "is_private (V4 a) \<longleftrightarrow> b0 = 10 \<or> (b0 = 172 \<and> b1 div 16 = 1) \<or> (b0 = 192 \<and> b1 = 168)"
    using b by (simp_all add: is_private_def is_loopback_def is_link_local_unicast_def is_multicast_def
        is_unspecified_def carrier_grade_nat_def unmap_def word_unat_eq_iff unat_v4_byte unat_and_F0 contains_same_top)
  have G: "is_global_unicast (V4 a) \<longleftrightarrow> unat a \<noteq> 0 \<and> unat a \<noteq> 4294967295 \<and> b0 \<noteq> 127 \<and> b0 div 16 \<noteq> 14 \<and> \<not> (b0 = 169 \<and> b1 = 254)"
    unfolding is_global_unicast_def B by (simp add: word_unat_eq_iff)
  have L: "is_link_local_multicast (V4 a) \<longrightarrow> b0 = 224"
    using b by (simp add: is_link_local_multicast_def unmap_def word_unat_eq_iff unat_v4_byte)
  have C: "(b0 = 172 \<and> b1 div 16 = 1) \<longleftrightarrow> 16 * b0 + b1 div 16 = 2753" "(b0 = 169 \<and> b1 = 254) \<longleftrightarrow> 256 * b0 + b1 = 43518"
    "(b0 = 192 \<and> b1 = 168) \<longleftrightarrow> 256 * b0 + b1 = 49320"
    using base_unique [of "b1 div 16" 16 1 b0 172] base_unique [of b1 256 254 b0 169] base_unique [of b1 256 168 b0 192] b(1,2)
    by auto
  have D: "b0 = 224 \<longrightarrow> b0 div 16 = 14" by simp
  show ?thesis unfolding A B G using C D L by argo
qed


lemma v6_blocks_exact:
  assumes "drop_bit 32 a \<noteq> 0xFFFF"
  shows "list_all (\<lambda>b. \<not> in_block 128 (unat a) b) v6_blocks \<and> (a, z) \<noteq> (0, []) \<longleftrightarrow>
     \<not> (\<not> is_global_unicast (V6 a z) \<or> is_private (V6 a z) \<or> is_loopback (V6 a z) \<or> is_link_local_unicast (V6 a z)
      \<or> is_link_local_multicast (V6 a z) \<or> is_multicast (V6 a z) \<or> is_unspecified (V6 a z) \<or> carrier_grade_nat (V6 a z))"
proof -
  define g where "g = unat a div 2 ^ 112"
  have g: "g < 65536" using unsigned_less [of a] by (simp add: g_def div_less_iff_less_mult)
  have top: "unat a div 2 ^ 120 = g div 256" "unat a div 2 ^ 118 = g div 64" "unat a div 2 ^ 121 = g div 512"
    by (simp_all add: g_def div_mult2_eq [symmetric])
  have u: "unmap (V6 a z) = V6 a z" using assms by (simp add: unmap_def)
  have A: "list_all (\<lambda>b. \<not> in_block 128 (unat a) b) v6_blocks \<longleftrightarrow>
      \<not> (unat a = 1 \<or> g div 512 = 126 \<or> g div 64 = 1018 \<or> g div 256 = 255)"
    using top by (simp add: v6_blocks_def in_block_def)
  have fe: "(g div 256) AND 0xFE = 0xFC \<longleftrightarrow> g div 512 = 126"
  proof -
    have "(g div 256) AND (2 ^ 8 - 2 ^ 1) = g div 256 div 2 ^ 1 * 2 ^ 1" by (rule and_high_bits) (use g in auto)
    then show ?thesis by (simp add: div_mult2_eq [symmetric])
  qed
  have ll: "g AND 0xFFC0 = 0xFE80 \<longleftrightarrow> g div 64 = 1018"
    using and_high_bits [of g 16 6] g by simp
  have B: "is_loopback (V6 a z) \<longleftrightarrow> unat a = 1" "is_link_local_unicast (V6 a z) \<longleftrightarrow> g div 64 = 1018"
      "is_multicast (V6 a z) \<longleftrightarrow> g div 256 = 255" "is_private (V6 a z) \<longleftrightarrow> g div 512 = 126"
      "is_unspecified (V6 a z) \<longleftrightarrow> (a, z) = (0, [])" "\<not> carrier_grade_nat (V6 a z)"
    using top fe ll u by (simp_all add: is_loopback_def is_link_local_unicast_def is_multicast_def is_private_def is_unspecified_def
        carrier_grade_nat_def word_unat_eq_iff unat_and_FFC0 unat_v6_group0 [of a, folded g_def] unsigned_and_eq unat_drop)
  have G: "is_global_unicast (V6 a z) \<longleftrightarrow> (a, z) \<noteq> (0, []) \<and> unat a \<noteq> 1 \<and> g div 256 \<noteq> 255 \<and> g div 64 \<noteq> 1018"
    unfolding is_global_unicast_def B by simp
  have "is_link_local_multicast (V6 a z) \<longrightarrow> g div 256 = 255"
  proof
    assume "is_link_local_multicast (V6 a z)"
    then have "g AND 0xFF0F = 0xFF02"
      using u by (simp add: is_link_local_multicast_def word_unat_eq_iff unsigned_and_eq unat_v6_group0 g_def)
    then have "drop_bit 8 (g AND 0xFF0F) = 0xFF" by (simp add: drop_bit_eq_div)
    then have "drop_bit 8 g AND drop_bit 8 0xFF0F = 0xFF" by (simp only: drop_bit_and)
    then have "drop_bit 8 g AND mask 8 = 0xFF" by (simp add: drop_bit_eq_div mask_eq_exp_minus_1)
    then show "g div 256 = 255" using g by (simp add: drop_bit_eq_div flip: take_bit_eq_mask) (simp add: take_bit_eq_mod)
  qed
  then show ?thesis unfolding A B G using B(6) by argo
qed


text \<open>An address that is its own unmapped form is judged by its block alone.\<close>

lemma unmap_unmap: "unmap (unmap ip) = unmap ip"
  by (cases ip) (auto simp: unmap_def)

lemma reachable_exact:
  "validate_address p ip = None \<longleftrightarrow> unmap ip \<in> unmap ` set p \<or> reachable (unmap ip)"
proof -
  have plain: "reachable a \<longleftrightarrow> \<not> (\<not> is_global_unicast a \<or> is_private a \<or> is_loopback a \<or> is_link_local_unicast a
      \<or> is_link_local_multicast a \<or> is_multicast a \<or> is_unspecified a \<or> carrier_grade_nat a)" if "unmap a = a" for a
  proof (cases a)
    case (V4 x)
    then show ?thesis by (simp only: reachable_def ip_addr.case v4_blocks_exact)
  next
    case (V6 x z)
    then have "drop_bit 32 x \<noteq> 0xFFFF" using that by (auto simp: unmap_def split: if_splits)
    then show ?thesis unfolding V6 reachable_def ip_addr.case by (rule v6_blocks_exact)
  qed
  show ?thesis
    unfolding validate_address_def Let_def plain [OF unmap_unmap] by (auto simp: list_ex_iff)
qed

lemma validate_all_None: "validate_all p ips = None \<longleftrightarrow> (\<forall>ip \<in> set ips. validate_address p ip = None)"
  by (induction ips) (auto simp: or_else_def split: option.splits)

lemma dial_addresses_Inr: "dial_addresses dial prev ips = Inr ip \<Longrightarrow> ip \<in> set ips \<and> dial ip = None"
  by (induction ips arbitrary: prev) (auto split: option.splits)

lemma resolve_checked:
  assumes "resolve_host p lookup host = Inr ips"
  shows "ips \<noteq> [] \<and> list_all (\<lambda>a. validate_address p a = None) ips
      \<and> Some (Inr ips) = (case parse_addr host of None \<Rightarrow> Some (lookup host) | Some a \<Rightarrow> Some (Inr [a]))"
  using assms by (auto simp: resolve_host_def checked_Inr_conv validate_all_None list_all_iff split: option.splits sum.splits if_splits)

section \<open>Properties\<close>

text \<open>C24: the policy accepts exactly the addresses outside a fixed table of blocks, and those it lists itself;
  an IPv4 address inside an IPv6 one is judged as the IPv4 address. No resolution and no dial escapes
  that: what a resolution answers is a non-empty list of accepted addresses, and the dialer connects to one of them.\<close>

theorem egress_exact:
  "(validate_address p ip = None \<longleftrightarrow> unmap ip \<in> unmap ` set p \<or> reachable (unmap ip))
   \<and> (case resolve_host p lookup host of
        Inl e \<Rightarrow> True
      | Inr ips \<Rightarrow> ips \<noteq> [] \<and> list_all (\<lambda>a. validate_address p a = None) ips
          \<and> Some (Inr ips) = (case parse_addr host of None \<Rightarrow> Some (lookup host) | Some a \<Rightarrow> Some (Inr [a])))
   \<and> (case dial_context lookup dial host of Inl e \<Rightarrow> True | Inr a \<Rightarrow> reachable (unmap a) \<and> dial a = None)"
proof (intro conjI)
  note res = resolve_checked
  show "validate_address p ip = None \<longleftrightarrow> unmap ip \<in> unmap ` set p \<or> reachable (unmap ip)" by (rule reachable_exact)
  show "case resolve_host p lookup host of
        Inl e \<Rightarrow> True
      | Inr ips \<Rightarrow> ips \<noteq> [] \<and> list_all (\<lambda>a. validate_address p a = None) ips
          \<and> Some (Inr ips) = (case parse_addr host of None \<Rightarrow> Some (lookup host) | Some a \<Rightarrow> Some (Inr [a]))"
    using res by (cases "resolve_host p lookup host") simp_all
  show "case dial_context lookup dial host of Inl e \<Rightarrow> True | Inr a \<Rightarrow> reachable (unmap a) \<and> dial a = None"
  proof (cases "resolve_host [] lookup host")
    case (Inl e)
    then show ?thesis by (simp add: dial_context_def)
  next
    case (Inr ips)
    have ok: "a \<in> set ips \<Longrightarrow> reachable (unmap a)" for a
      using res [OF Inr] reachable_exact [of "[]" a] by (simp add: list_all_iff)
    show ?thesis
      using ok dial_addresses_Inr [of dial None ips]
      by (cases "dial_addresses dial None ips") (auto simp: dial_context_def Inr)
  qed
qed

text \<open>The unspecified IPv6 address with a zone is accepted although the one without is refused: the comparison
  with \<open>::\<close> includes the zone. Such a literal parses, is returned by the resolution and dialled, and a dial of the
  unspecified address reaches the server itself.\<close>

theorem zoned_unspecified_accepted:
  "parse_addr ''::%x'' = Some (V6 0 ''x'') \<and> resolve_host [] lookup ''::%x'' = Inr [V6 0 ''x'']
   \<and> resolve_host [] lookup ''::'' = Inl (Errf ''destination resolves to a non-public address'' [])"
proof -
  have p: "parse_addr ''::%x'' = Some (V6 0 ''x'')" "parse_addr ''::'' = Some (V6 0 [])"
    by (simp_all add: parse_addr_def parse_v6_def split_zone_def)
  have "validate_address [] (V6 0 ''x'') = None"
    by (simp add: reachable_exact reachable_def unmap_def v6_blocks_def in_block_def)
  moreover have "validate_address [] (V6 0 []) = Some (Errf ''destination resolves to a non-public address'' [])"
    by (simp add: validate_address_def unmap_def is_unspecified_def)
  ultimately show ?thesis using p by (simp add: resolve_host_def)
qed

end
