(* ===== verification/Go_Actions.thy ===== *)
theory Go_Actions
  imports Go_Errors "HOL-Library.State_Monad"
begin

text \<open>
  Go functions that act on a world and answer \<open>(value, error)\<close>, as actions of
  \<open>HOL-Library.State_Monad\<close> with a sum as result: the combinators for the error checks of the code,
  what they do on a given world, and guarantees, the relations an action never leaves.
\<close>

section \<open>Actions\<close>

abbreviation succeed :: "'a \<Rightarrow> ('w, 'e + 'a) state" where
  "succeed x \<equiv> State_Monad.return (Inr x)"

abbreviation fail :: "'e \<Rightarrow> ('w, 'e + 'a) state" where
  "fail e \<equiv> State_Monad.return (Inl e)"

text \<open>
  \<open>handle m f k\<close> is \<open>if err := m; err != nil { f } else { k }\<close>; \<open>chain m k\<close> returns the error
  itself, and \<open>ignore m k\<close> is \<open>_ = m\<close>.
\<close>

definition handle :: "('w, 'e + 'a) state \<Rightarrow> ('e \<Rightarrow> ('w, 'b) state) \<Rightarrow> ('a \<Rightarrow> ('w, 'b) state) \<Rightarrow> ('w, 'b) state" where
  "handle m f k = do { r \<leftarrow> m; case r of Inl e \<Rightarrow> f e | Inr x \<Rightarrow> k x }"

definition chain :: "('w, 'e + 'a) state \<Rightarrow> ('a \<Rightarrow> ('w, 'e + 'b) state) \<Rightarrow> ('w, 'e + 'b) state" where
  "chain m k = handle m (\<lambda>e. fail e) k"

definition ignore :: "('w, 'a) state \<Rightarrow> ('w, 'b) state \<Rightarrow> ('w, 'b) state" where
  "ignore m k = do { _ \<leftarrow> m; k }"

definition map_error :: "('e \<Rightarrow> 'f) \<Rightarrow> ('w, 'e + 'a) state \<Rightarrow> ('w, 'f + 'a) state" where
  "map_error h m = handle m (\<lambda>e. fail (h e)) (\<lambda>x. succeed x)"

definition of_check :: "'e option \<Rightarrow> ('w, 'e + unit) state" where
  "of_check c = State_Monad.return (case c of None \<Rightarrow> Inr () | Some e \<Rightarrow> Inl e)"

fun for_each :: "'a list \<Rightarrow> ('a \<Rightarrow> ('w, 'e + unit) state) \<Rightarrow> ('w, 'e + unit) state" where
  "for_each [] f = succeed ()"
| "for_each (x # xs) f = chain (f x) (\<lambda>_. for_each xs f)"

definition lift_err :: "go_err option \<Rightarrow> go_err + unit" where
  "lift_err r = (case r of None \<Rightarrow> Inr () | Some e \<Rightarrow> Inl e)"

lemma lift_err_simps [simp]: "lift_err None = Inr ()" "lift_err (Some e) = Inl e"
  by (simp_all add: lift_err_def)

section \<open>Guarantees\<close>

text \<open>
  A guarantee is a preorder on worlds that an action never leaves, whatever it returns and
  whatever faults it meets. It composes over the control structure, so an operation has it as soon as
  its primitive actions do.
\<close>

locale guarantee =
  fixes R :: "'w \<Rightarrow> 'w \<Rightarrow> bool"
  assumes g_refl: "R w w"
    and g_trans: "R u v \<Longrightarrow> R v w \<Longrightarrow> R u w"
begin

lemma g_return: "state_io_rel R (State_Monad.return x)"
  by (simp add: state_io_rel_def g_refl)

lemma g_bind:
  "state_io_rel R m \<Longrightarrow> (\<And>x. state_io_rel R (f x)) \<Longrightarrow> state_io_rel R (State_Monad.bind m f)"
  by (auto simp: state_io_rel_def split: prod.split) (metis g_trans snd_conv)

lemma g_handle:
  "state_io_rel R m \<Longrightarrow> (\<And>e. state_io_rel R (f e)) \<Longrightarrow> (\<And>x. state_io_rel R (k x)) \<Longrightarrow> state_io_rel R (handle m f k)"
  unfolding handle_def by (rule g_bind) (auto split: sum.split)

lemma g_chain: "state_io_rel R m \<Longrightarrow> (\<And>x. state_io_rel R (k x)) \<Longrightarrow> state_io_rel R (chain m k)"
  unfolding chain_def by (rule g_handle) (auto intro: g_return)

text \<open>The continuation only runs on what the action answered.\<close>

lemma g_chain_run:
  assumes "state_io_rel R m" and "\<And>w x w'. run_state m w = (Inr x, w') \<Longrightarrow> state_io_rel R (k x)"
  shows "state_io_rel R (chain m k)"
  unfolding state_io_rel_def chain_def handle_def
proof (simp add: split: prod.split, intro allI impI)
  fix w r w'
  assume r: "run_state m w = (r, w')"
  then have w': "R w w'" using assms(1) by (metis state_io_rel_def snd_conv)
  show "R w (snd (run_state (case r of Inl e \<Rightarrow> fail e | Inr x \<Rightarrow> k x) w'))"
  proof (cases r)
    case (Inr x)
    then have "R w' (snd (run_state (k x) w'))" using assms(2) r unfolding state_io_rel_def by blast
    with w' Inr show ?thesis by (simp add: g_trans)
  qed (use w' in simp)
qed

lemma g_return_check: "(\<And>x. r = Inr x \<Longrightarrow> state_io_rel R (k x)) \<Longrightarrow> state_io_rel R (chain (State_Monad.return r) k)"
  by (rule g_chain_run) (auto intro: g_return)

lemma g_ignore: "state_io_rel R m \<Longrightarrow> state_io_rel R k \<Longrightarrow> state_io_rel R (ignore m k)"
  unfolding ignore_def by (rule g_bind) auto

lemma g_map_error: "state_io_rel R m \<Longrightarrow> state_io_rel R (map_error h m)"
  unfolding map_error_def by (rule g_handle) (auto intro: g_return)

lemma g_of_check: "state_io_rel R (of_check c)"
  unfolding of_check_def by (rule g_return)

lemma g_for_each: "(\<And>x. state_io_rel R (f x)) \<Longrightarrow> state_io_rel R (for_each xs f)"
  by (induction xs) (auto intro: g_return g_chain)

lemma g_if: "state_io_rel R m \<Longrightarrow> state_io_rel R n \<Longrightarrow> state_io_rel R (if b then m else n)"
  by simp

lemma g_option: "state_io_rel R m \<Longrightarrow> (\<And>x. state_io_rel R (f x)) \<Longrightarrow> state_io_rel R (case c of None \<Rightarrow> m | Some x \<Rightarrow> f x)"
  by (cases c) auto

lemma g_sum: "(\<And>x. state_io_rel R (f x)) \<Longrightarrow> (\<And>x. state_io_rel R (g x)) \<Longrightarrow> state_io_rel R (case c of Inl x \<Rightarrow> f x | Inr x \<Rightarrow> g x)"
  by (cases c) auto

lemma g_prod: "(\<And>x y. state_io_rel R (f x y)) \<Longrightarrow> state_io_rel R (case c of (x, y) \<Rightarrow> f x y)"
  by (cases c) auto

lemma g_let: "(\<And>x. state_io_rel R (f x)) \<Longrightarrow> state_io_rel R (Let v f)"
  by (simp add: Let_def)

lemma g_run: "state_io_rel R m \<Longrightarrow> R w (snd (run_state m w))"
  by (simp add: state_io_rel_def)

lemmas g_rules = g_return g_bind g_handle g_chain g_ignore g_map_error g_of_check g_for_each g_if
  g_option g_sum g_prod g_let

end

text \<open>Running the combinators on a given world.\<close>

lemma run_handle:
  "run_state (handle m f k) w = (case run_state m w of (Inl e, w') \<Rightarrow> run_state (f e) w' | (Inr x, w') \<Rightarrow> run_state (k x) w')"
  by (simp add: handle_def split: prod.split sum.split)

lemma run_chain:
  "run_state (chain m k) w = (case run_state m w of (Inl e, w') \<Rightarrow> (Inl e, w') | (Inr x, w') \<Rightarrow> run_state (k x) w')"
  by (simp add: chain_def run_handle split: prod.split sum.split)

lemma run_ignore: "run_state (ignore m k) w = run_state k (snd (run_state m w))"
  by (simp add: ignore_def split: prod.split)

lemma run_map_error:
  "run_state (map_error h m) w = (case run_state m w of (Inl e, w') \<Rightarrow> (Inl (h e), w') | (Inr x, w') \<Rightarrow> (Inr x, w'))"
  by (simp add: map_error_def run_handle split: prod.split sum.split)

lemma run_of_check [simp]: "run_state (of_check c) w = (lift_err c, w)"
  by (simp add: of_check_def lift_err_def)

lemma chain_Inr:
  "run_state (chain m k) w = (Inr y, w'') \<longleftrightarrow> (\<exists>x w'. run_state m w = (Inr x, w') \<and> run_state (k x) w' = (Inr y, w''))"
  by (auto simp: run_chain split: prod.split sum.split)

lemma map_error_Inr: "run_state (map_error h m) w = (Inr y, w') \<longleftrightarrow> run_state m w = (Inr y, w')"
  by (auto simp: run_map_error split: prod.splits sum.splits)

lemmas run_combinators = run_handle run_chain run_ignore run_map_error

end
