(* ===== verification/Call_World.thy ===== *)
theory Call_World
  imports Call_Store Call_Routing Fs_Frames Net_Egress Go_Actions
begin

text \<open>
  The world the call operations act on and the monad they are written in: the database, the
  Redis state and the commands FreeSWITCH has received, threaded by \<open>HOL-Library.State_Monad\<close>.
  Every external operation takes the next \<open>step_env\<close> of the environment: its fault (the error
  and whether the other side had applied the operation), its clock, the identity it may draw
  and the frame FreeSWITCH answers. The fields of \<open>service\<close> are those of the \<open>Service\<close> of
  \<open>telephony/calls/service.go\<close> that the model does not open: connections, resolvers and the checks other components
  install, where \<open>None\<close> is a nil function. \<open>sv_lookup\<close> is the answer of the DNS resolver.
\<close>

section \<open>Environment and world\<close>

record step_env =
  se_fault :: fault
  se_now :: int
  se_fresh :: uuid
  se_frame :: frame

record 's service =
  sv_env :: "nat \<Rightarrow> step_env"
  sv_redis :: "'s redis"
  sv_parse :: "string \<Rightarrow> uuid option"
  sv_routing :: "nat \<Rightarrow> routing_db"
  sv_plan :: "(nat \<Rightarrow> uuid \<Rightarrow> go_err + int \<times> bool) option"
  sv_allowance :: "(nat \<Rightarrow> uuid \<Rightarrow> go_err option) option"
  sv_ready :: "(nat \<Rightarrow> uuid \<Rightarrow> uuid \<Rightarrow> go_err option) option"
  sv_storage :: "(nat \<Rightarrow> uuid \<Rightarrow> go_err option) option"
  sv_policy :: policy
  sv_lookup :: "nat \<Rightarrow> string \<Rightarrow> go_err + ip_addr list"
  sv_has_metrics :: bool

text \<open>The counters of the reconciliation job and the outcomes the route metrics received.\<close>

record job_counters =
  jc_failures :: nat
  jc_cleanup_retries :: nat
  jc_unconfirmed :: nat
  jc_recovered :: nat

record route_sample =
  rs_trunk :: uuid
  rs_endpoint :: uuid
  rs_outcome :: string
  rs_class :: string
  rs_attempt :: nat

record 's world =
  w_tick :: nat
  w_db :: database
  w_redis :: 's
  w_sent :: "string list"
  w_routes :: "route_sample list"
  w_job :: job_counters

section \<open>Steps\<close>

definition tick :: "'s service \<Rightarrow> ('s world, step_env) state" where
  "tick S = State (\<lambda>w. (sv_env S (w_tick w), w\<lparr>w_tick := Suc (w_tick w)\<rparr>))"

definition tick_no :: "('s world, nat) state" where
  "tick_no = State (\<lambda>w. (w_tick w, w\<lparr>w_tick := Suc (w_tick w)\<rparr>))"

definition unix_milli :: "step_env \<Rightarrow> int" where
  "unix_milli se = se_now se div 1000"

section \<open>The database\<close>

definition db_query :: "'s service \<Rightarrow> (step_env \<Rightarrow> database \<Rightarrow> go_err + 'a) \<Rightarrow> ('s world, go_err + 'a) state" where
  "db_query S q = do { se \<leftarrow> tick S;
     State (\<lambda>w. (case se_fault se of Some (e, _) \<Rightarrow> Inl e | None \<Rightarrow> q se (w_db w), w)) }"

definition db_exec ::
  "'s service \<Rightarrow> (step_env \<Rightarrow> database \<Rightarrow> (go_err + 'a) \<times> database) \<Rightarrow> ('s world, go_err + 'a) state" where
  "db_exec S q = do { se \<leftarrow> tick S;
     State (\<lambda>w. case q se (w_db w) of (r, db') \<Rightarrow>
       (case se_fault se of
          None \<Rightarrow> (r, w\<lparr>w_db := db'\<rparr>)
        | Some (e, applied) \<Rightarrow> (Inl e, if applied then w\<lparr>w_db := db'\<rparr> else w))) }"

abbreviation exec_unit :: "(int \<Rightarrow> database \<Rightarrow> database) \<Rightarrow> step_env \<Rightarrow> database \<Rightarrow> (go_err + unit) \<times> database" where
  "exec_unit f \<equiv> (\<lambda>se db. (Inr (), f (se_now se) db))"

section \<open>Redis\<close>

definition redis_do :: "('s \<Rightarrow> go_err option \<times> 's) \<Rightarrow> ('s world, go_err + unit) state" where
  "redis_do f = State (\<lambda>w. case f (w_redis w) of (e, s') \<Rightarrow> (lift_err e, w\<lparr>w_redis := s'\<rparr>))"

definition redis_read :: "('s \<Rightarrow> go_err + 'a) \<Rightarrow> ('s world, go_err + 'a) state" where
  "redis_read f = State (\<lambda>w. (f (w_redis w), w))"

definition admission_acquire :: "'s service \<Rightarrow> uuid \<Rightarrow> string \<Rightarrow> limits \<Rightarrow> ('s world, go_err + unit) state" where
  "admission_acquire S trunk lease lim = do { a \<leftarrow> tick S;
     redis_do (adm_acquire (sv_redis S) (se_fault a) (unix_milli a) trunk lease lim) }"

definition admission_bind :: "'s service \<Rightarrow> uuid \<Rightarrow> string \<Rightarrow> uuid \<Rightarrow> ('s world, go_err + unit) state" where
  "admission_bind S trunk lease call = do { a \<leftarrow> tick S;
     redis_do (adm_bind (sv_redis S) (se_fault a) trunk lease call) }"

definition admission_release :: "'s service \<Rightarrow> uuid \<Rightarrow> string \<Rightarrow> ('s world, go_err + unit) state" where
  "admission_release S trunk i = do { a \<leftarrow> tick S;
     redis_do (adm_release (sv_redis S) (se_fault a) trunk i) }"

definition admission_refresh :: "'s service \<Rightarrow> uuid \<Rightarrow> uuid \<Rightarrow> ('s world, go_err + unit) state" where
  "admission_refresh S trunk call = do { a \<leftarrow> tick S; b \<leftarrow> tick S;
     redis_do (adm_refresh (sv_redis S) (se_fault a) (se_fault b) (unix_milli a) trunk call) }"

definition admission_acquire_org :: "'s service \<Rightarrow> uuid \<Rightarrow> string \<Rightarrow> int \<Rightarrow> ('s world, go_err + unit) state" where
  "admission_acquire_org S org lease maxConcurrent = do { a \<leftarrow> tick S;
     redis_do (adm_acquire_org (sv_redis S) (se_fault a) (unix_milli a) org lease maxConcurrent) }"

definition admission_bind_org :: "'s service \<Rightarrow> uuid \<Rightarrow> string \<Rightarrow> uuid \<Rightarrow> ('s world, go_err + unit) state" where
  "admission_bind_org S org lease call = do { a \<leftarrow> tick S;
     redis_do (adm_bind_org (sv_redis S) (se_fault a) org lease call) }"

definition admission_release_org :: "'s service \<Rightarrow> uuid \<Rightarrow> string \<Rightarrow> ('s world, go_err + unit) state" where
  "admission_release_org S org i = do { a \<leftarrow> tick S;
     redis_do (adm_release_org (sv_redis S) (se_fault a) org i) }"

definition admission_refresh_org :: "'s service \<Rightarrow> uuid \<Rightarrow> uuid \<Rightarrow> ('s world, go_err + unit) state" where
  "admission_refresh_org S org call = do { a \<leftarrow> tick S; b \<leftarrow> tick S;
     redis_do (adm_refresh_org (sv_redis S) (se_fault a) (se_fault b) (unix_milli a) org call) }"

definition channels_bind :: "'s service \<Rightarrow> uuid \<Rightarrow> string \<Rightarrow> ('s world, go_err + unit) state" where
  "channels_bind S call channel = do { a \<leftarrow> tick S; b \<leftarrow> tick S; c \<leftarrow> tick S;
     redis_do (channel_bind (sv_redis S) (se_fault a) (se_fault b) (se_fault c) call channel) }"

definition channels_get :: "'s service \<Rightarrow> uuid \<Rightarrow> ('s world, go_err + string) state" where
  "channels_get S call = do { a \<leftarrow> tick S;
     redis_read (channel_get (sv_redis S) (map_option fst (se_fault a)) call) }"

definition channels_get_call_id :: "'s service \<Rightarrow> string \<Rightarrow> ('s world, go_err + uuid) state" where
  "channels_get_call_id S channel = do { a \<leftarrow> tick S;
     redis_read (channel_get_call_id (sv_parse S) (sv_redis S) (map_option fst (se_fault a)) channel) }"

definition channels_delete :: "'s service \<Rightarrow> uuid \<Rightarrow> ('s world, go_err + unit) state" where
  "channels_delete S call = do { a \<leftarrow> tick S; b \<leftarrow> tick S;
     redis_do (channel_delete (sv_redis S) (map_option fst (se_fault a)) (se_fault b) call) }"

lemma run_tick [simp]: "run_state (tick S) w = (sv_env S (w_tick w), w\<lparr>w_tick := Suc (w_tick w)\<rparr>)"
  by (simp add: tick_def)

lemma run_tick_no [simp]: "run_state tick_no w = (w_tick w, w\<lparr>w_tick := Suc (w_tick w)\<rparr>)"
  by (simp add: tick_no_def)

lemmas redis_actions = admission_acquire_def admission_bind_def admission_release_def admission_refresh_def
  admission_acquire_org_def admission_bind_org_def admission_release_org_def admission_refresh_org_def
  channels_bind_def channels_get_def channels_get_call_id_def channels_delete_def

end
