(* ===== verification/Sip_Egress.thy ===== *)
theory Sip_Egress
  imports Fs_Frames Net_Egress
begin

text \<open>
  The SIP egress of an outbound call (\<open>runtime/calling/origination.go\<close>, \<open>model.go\<close>): the
  checks on the resolved route, the dial string towards OpenSIPS, the channel variables that carry
  the route and the call's identity, and the classes of origination failures.
\<close>

record originate_request =
  oq_channel :: string
  oq_call :: uuid
  oq_destination :: string
  oq_caller :: string
  oq_trunk :: uuid
  oq_host :: string
  oq_pinned :: string
  oq_port :: int
  oq_transport :: string
  oq_privacy :: bool
  oq_dtmf :: string
  oq_encryption :: string
  oq_max_duration :: int

definition class_validation :: string where "class_validation = ''validation''"
definition class_transport :: string where "class_transport = ''transport''"
definition class_timeout :: string where "class_timeout = ''timeout''"
definition class_uncertain :: string where "class_uncertain = ''uncertain''"
definition class_sip :: string where "class_sip = ''sip''"
definition class_capacity :: string where "class_capacity = ''capacity''"
definition class_internal :: string where "class_internal = ''internal''"

lemmas originate_classes = class_validation_def class_transport_def class_timeout_def
  class_uncertain_def class_sip_def class_capacity_def class_internal_def

definition new_sip_originate_error :: "int \<Rightarrow> go_err option \<Rightarrow> go_err" where
  "new_sip_originate_error status err = OriginateErr class_sip status
     (case err of None \<Rightarrow> Sentinel ''SIP originate failed'' | Some e \<Rightarrow> e)"

text \<open>\<open>errors.As\<close> with an \<open>*OriginateError\<close> target.\<close>

fun as_originate_error :: "go_err \<Rightarrow> (string \<times> int) option" where
  "as_originate_error (OriginateErr c s e) = Some (c, s)"
| "as_originate_error (Wrap f args e) = as_originate_error e"
| "as_originate_error (Join a b) =
     (case as_originate_error a of None \<Rightarrow> as_originate_error b | Some r \<Rightarrow> Some r)"
| "as_originate_error (App c m s (Some e)) = as_originate_error e"
| "as_originate_error e = None"

definition err_originate_uncertain :: go_err where
  "err_originate_uncertain = Sentinel ''FreeSWITCH originate outcome uncertain''"

definition classify_client_originate_error :: "go_err \<Rightarrow> go_err" where
  "classify_client_originate_error err =
     OriginateErr
       (if errors_is err err_deadline then class_timeout
        else if errors_is err err_canceled then class_internal
        else (case as_net_error err of
                None \<Rightarrow> class_internal
              | Some timeout \<Rightarrow> if timeout then class_timeout else class_transport))
       0 (Wrap ''originate call: %w'' [] err)"

section \<open>Telephone addresses\<close>

text \<open>
  \<open>for i, r := range value\<close> decodes UTF-8; an invalid sequence is the code point 0xFFFD of
  width one. \<open>unicode.IsDigit\<close> is the category Nd: blocks of ten code points, and the
  fifty mathematical digits.
\<close>

definition is_cont :: "char \<Rightarrow> bool" where
  "is_cont c \<longleftrightarrow> 128 \<le> (of_char c :: nat) \<and> (of_char c :: nat) < 192"

definition cont_val :: "char \<Rightarrow> nat" where
  "cont_val c = of_char c - 128"

definition utf8_head :: "string \<Rightarrow> nat \<times> nat" where
  "utf8_head s =
     (case s of
        [] \<Rightarrow> (0xFFFD, 1)
      | a # as \<Rightarrow>
          (let x = (of_char a :: nat) in
           if x < 128 then (x, 1)
           else if 0xC2 \<le> x \<and> x < 0xE0 then
             (case as of b # _ \<Rightarrow> if is_cont b then (64 * (x - 0xC0) + cont_val b, 2) else (0xFFFD, 1)
              | _ \<Rightarrow> (0xFFFD, 1))
           else if 0xE0 \<le> x \<and> x < 0xF0 then
             (case as of b # c # _ \<Rightarrow>
                (let r = 4096 * (x - 0xE0) + 64 * cont_val b + cont_val c in
                 if is_cont b \<and> is_cont c \<and> 0x800 \<le> r \<and> \<not> (0xD800 \<le> r \<and> r < 0xE000) then (r, 3) else (0xFFFD, 1))
              | _ \<Rightarrow> (0xFFFD, 1))
           else if 0xF0 \<le> x \<and> x < 0xF5 then
             (case as of b # c # d # _ \<Rightarrow>
                (let r = 262144 * (x - 0xF0) + 4096 * cont_val b + 64 * cont_val c + cont_val d in
                 if is_cont b \<and> is_cont c \<and> is_cont d \<and> 0x10000 \<le> r \<and> r < 0x110000 then (r, 4) else (0xFFFD, 1))
              | _ \<Rightarrow> (0xFFFD, 1))
           else (0xFFFD, 1)))"

lemma utf8_head_width: "0 < snd (utf8_head s)"
  by (auto simp: utf8_head_def Let_def split: list.splits)

function utf8_runes :: "string \<Rightarrow> nat list" where
  "utf8_runes [] = []"
| "utf8_runes (c # cs) = fst (utf8_head (c # cs)) # utf8_runes (drop (snd (utf8_head (c # cs))) (c # cs))"
  by pat_completeness auto
termination
proof (relation "measure length")
  fix c :: char and cs
  show "(drop (snd (utf8_head (c # cs))) (c # cs), c # cs) \<in> measure length"
    using utf8_head_width [of "c # cs"] by simp
qed simp

definition digit_blocks :: "nat list" where
  "digit_blocks =
     [0x30, 0x660, 0x6F0, 0x7C0, 0x966, 0x9E6, 0xA66, 0xAE6, 0xB66, 0xBE6, 0xC66, 0xCE6, 0xD66, 0xDE6,
      0xE50, 0xED0, 0xF20, 0x1040, 0x1090, 0x17E0, 0x1810, 0x1946, 0x19D0, 0x1A80, 0x1A90, 0x1B50,
      0x1BB0, 0x1C40, 0x1C50, 0xA620, 0xA8D0, 0xA900, 0xA9D0, 0xA9F0, 0xAA50, 0xABF0, 0xFF10, 0x104A0,
      0x10D30, 0x11066, 0x110F0, 0x11136, 0x111D0, 0x112F0, 0x11450, 0x114D0, 0x11650, 0x116C0,
      0x11730, 0x118E0, 0x11950, 0x11C50, 0x11D50, 0x11DA0, 0x11F50, 0x16A60, 0x16AC0, 0x16B50,
      0x1D7CE, 0x1D7D8, 0x1D7E2, 0x1D7EC, 0x1D7F6, 0x1E140, 0x1E2F0, 0x1E4F0, 0x1E950, 0x1FBF0]"

definition unicode_is_digit :: "nat \<Rightarrow> bool" where
  "unicode_is_digit r \<longleftrightarrow> list_ex (\<lambda>b. b \<le> r \<and> r < b + 10) digit_blocks"

definition valid_pstn_address :: "string \<Rightarrow> bool" where
  "valid_pstn_address value \<longleftrightarrow>
     \<not> (value = [] \<or> 32 < length value)
     \<and> (let rs = utf8_runes value
        in list_all unicode_is_digit (if rs \<noteq> [] \<and> hd rs = 43 then tl rs else rs))
     \<and> value \<noteq> ''+''"

section \<open>The dial string\<close>

definition sip_uri :: "string \<Rightarrow> string \<Rightarrow> string" where
  "sip_uri target transport = ''sip:'' @ target @ '';transport='' @ transport"

definition free_switch_egress :: "originate_request \<Rightarrow> go_err + string \<times> string" where
  "free_switch_egress req =
     (let host = trim_space (oq_host req);
          transport = to_lower (trim_space (oq_transport req));
          destination = trim_space (oq_destination req);
          callerID = trim_space (oq_caller req)
      in checked (first_error
           [(host = [], Errf ''resolved route host is required'' []),
            (contains_any host [CHR '' '', CHR 0x09, CHR 0x0D, CHR 0x0A, CHR '','', CHR ''{'', CHR ''}'', CHR ''['', CHR '']''],
               Errf ''resolved route host is invalid'' []),
            (oq_port req = 0, Errf ''resolved route port is required'' []),
            (transport \<notin> {''udp'', ''tcp'', ''tls''}, Errf ''resolved route transport is invalid: %q'' [oq_transport req]),
            (\<not> valid_pstn_address destination, Errf ''resolved route destination is invalid'' []),
            (callerID \<noteq> [] \<and> \<not> valid_pstn_address callerID, Errf ''caller id is invalid'' [])])
           (''sofia/internal/'' @ destination @ ''@'' @ join_host_port ''opensips'' (int_dec 5060) @ '';transport=udp'',
            sip_uri (join_host_port host (int_dec (oq_port req))) transport))"

definition egress_variables ::
  "originate_request \<Rightarrow> string \<Rightarrow> go_err + (string \<times> string) list" where
  "egress_variables req routeURI =
     (let transport = to_lower (trim_space (oq_transport req));
          mode = to_lower (trim_space (oq_dtmf req));
          encryption = to_lower (trim_space (oq_encryption req));
          pinned = parse_addr (oq_pinned req)
      in checked (first_error
           [(oq_call req = uuid_nil, Errf ''call id is required'' []),
            (oq_trunk req = uuid_nil, Errf ''resolved trunk id is required'' []),
            (oq_max_duration req < 0, Errf ''maximum duration cannot be negative'' []),
            (pinned = None \<or> ip_zone (the pinned) \<noteq> [], Errf ''pinned SIP egress address must be an IP literal'' []),
            (oq_port req = 0, Errf ''pinned SIP egress port is required'' []),
            (transport \<notin> {''udp'', ''tcp'', ''tls''}, Errf ''pinned SIP egress transport is invalid'' []),
            (mode \<notin> {[], ''rfc2833'', ''info'', ''none''}, Errf ''DTMF mode is invalid: %q'' [oq_dtmf req]),
            (encryption \<notin> {[], ''none'', ''sdes_srtp''}, Errf ''media encryption is invalid: %q'' [oq_encryption req])])
           ([(''leamout_call_id'', uuid_string (oq_call req)),
             (''sip_h_X-Leamout-Route-URI'', routeURI),
             (''sip_h_X-Leamout-Pinned-Route-URI'',
                sip_uri (join_host_port (addr_string (unmap (the pinned))) (int_dec (oq_port req))) transport),
             (''sip_h_X-Leamout-Trunk-ID'', uuid_string (oq_trunk req))]
            @ (if 0 < oq_max_duration req
               then [(''execute_on_answer'', ''sched_hangup +'' @ int_dec (oq_max_duration req) @ '' ALLOTTED_TIMEOUT'')] else [])
            @ (if oq_privacy req then [(''sip_h_X-Leamout-Privacy'', ''id'')] else [])
            @ (if mode \<noteq> [] then [(''dtmf_type'', mode)] else [])
            @ (if encryption \<noteq> [] then [(''sip_h_X-Leamout-Media-Encryption'', encryption)] else [])))"

section \<open>Facts\<close>

lemma uncertain_only_from_client:
  "as_originate_error (classify_client_originate_error e) = Some (c, s) \<Longrightarrow> c \<noteq> class_uncertain \<and> c \<noteq> class_capacity \<and> c \<noteq> class_sip \<and> s = 0"
  by (auto simp: classify_client_originate_error_def originate_classes split: option.splits if_splits)

text \<open>
  The check of a telephone address accepts the digits of every script.
\<close>

lemma ascii_runes: "list_all (\<lambda>c. (of_char c :: nat) < 128) s \<Longrightarrow> utf8_runes s = map of_char s"
  by (induction s) (simp_all add: utf8_head_def)

lemma arabic_digits_are_accepted: "valid_pstn_address [CHR 0xD9, CHR 0xA3, CHR 0xD9, CHR 0xA3]"
proof -
  have "utf8_runes [CHR 0xD9, CHR 0xA3, CHR 0xD9, CHR 0xA3] = [0x663, 0x663]"
    by (simp add: utf8_head_def is_cont_def cont_val_def)
  then show ?thesis by (simp add: valid_pstn_address_def unicode_is_digit_def digit_blocks_def)
qed

end
