(* ===== verification/Fs_Control.thy ===== *)
theory Fs_Control
  imports Call_World Sip_Egress
begin

text \<open>
  The commands the control plane sends to FreeSWITCH: the client
  (\<open>integrations/freeswitch/client.go\<close>, \<open>commands.go\<close>, \<open>channel.go\<close>, \<open>call.go\<close>, \<open>status.go\<close>) and the
  controller over it (\<open>runtime/calling/controller.go\<close>, \<open>origination.go\<close>). A command is one step of
  the environment: it may fail before or after FreeSWITCH has received it, and otherwise is
  answered by the frame of the step. The received commands are \<open>w_sent\<close>.
\<close>

section \<open>The client\<close>

definition client_command :: "'s service \<Rightarrow> string \<Rightarrow> ('s world, go_err + frame) state" where
  "client_command S command0 =
     (let command = trim_space command0
      in if command = [] then fail (Errf ''FreeSWITCH command is required'' [])
         else do { se \<leftarrow> tick S;
           State (\<lambda>w.
             if contains_any command [CHR 0x0D, CHR 0x0A]
             then (Inl (case se_fault se of Some (e, _) \<Rightarrow> e
                        | None \<Rightarrow> Wrap ''write FreeSWITCH command: %w'' []
                                    (Errf ''FreeSWITCH command cannot contain line breaks'' [])), w)
             else (case se_fault se of
                     None \<Rightarrow> (Inr (se_frame se), w\<lparr>w_sent := w_sent w @ [command]\<rparr>)
                   | Some (e, applied) \<Rightarrow> (Inl e, if applied then w\<lparr>w_sent := w_sent w @ [command]\<rparr> else w))) })"

definition api_command :: "'s service \<Rightarrow> string \<Rightarrow> ('s world, go_err + string) state" where
  "api_command S command0 =
     (let command = trim_space command0
      in if command = [] then fail (Errf ''FreeSWITCH command is required'' [])
         else chain (client_command S (''api '' @ command)) (\<lambda>frame.
           if fr_type frame \<noteq> ''api/response''
           then fail (Errf ''unexpected FreeSWITCH command response: %q'' [fr_type frame])
           else succeed (fr_body frame)))"

definition bgapi :: "'s service \<Rightarrow> string \<Rightarrow> ('s world, go_err + string) state" where
  "bgapi S command0 =
     (let command = trim_space command0
      in if command = [] then fail (Errf ''FreeSWITCH background command is required'' [])
         else chain (client_command S (''bgapi '' @ command)) (\<lambda>frame.
           if \<not> frame_ok frame
           then fail (Errf ''FreeSWITCH background command failed: %s'' [frame_reply_text frame])
           else (let header = trim_space (frame_header frame ''Job-UUID'');
                     jobID = (if header \<noteq> [] then header
                              else (case cut_at ''Job-UUID:'' (frame_reply_text frame) of
                                      None \<Rightarrow> [] | Some (_, value) \<Rightarrow> trim_space value))
                 in if jobID = [] then fail (Errf ''FreeSWITCH background command returned an empty job UUID'' [])
                    else succeed jobID)))"

definition command_ok :: "'s service \<Rightarrow> string \<Rightarrow> ('s world, go_err + unit) state" where
  "command_ok S command = chain (api_command S command) (\<lambda>body. of_check (command_reply_error body))"

definition client_unary :: "'s service \<Rightarrow> string \<Rightarrow> string \<Rightarrow> ('s world, go_err + unit) state" where
  "client_unary S prefix channel =
     (case required_argument ''call ID'' channel of
        Inl e \<Rightarrow> fail e
      | Inr callID \<Rightarrow> command_ok S (prefix @ command_word callID))"

definition client_answer :: "'s service \<Rightarrow> string \<Rightarrow> ('s world, go_err + unit) state" where
  "client_answer S channel = client_unary S ''uuid_answer '' channel"

definition client_hangup :: "'s service \<Rightarrow> string \<Rightarrow> ('s world, go_err + unit) state" where
  "client_hangup S channel = client_unary S ''uuid_kill '' channel"

definition client_hold :: "'s service \<Rightarrow> string \<Rightarrow> ('s world, go_err + unit) state" where
  "client_hold S channel = client_unary S ''uuid_hold '' channel"

definition client_unhold :: "'s service \<Rightarrow> string \<Rightarrow> ('s world, go_err + unit) state" where
  "client_unhold S channel =
     (case required_argument ''call ID'' channel of
        Inl e \<Rightarrow> fail e
      | Inr callID \<Rightarrow> command_ok S (''uuid_hold '' @ command_words [''off'', callID]))"

definition variable_error :: go_err where
  "variable_error = Errf ''FreeSWITCH call ID and variable name are required'' []"

definition client_set_variable :: "'s service \<Rightarrow> string \<Rightarrow> string \<Rightarrow> string \<Rightarrow> ('s world, go_err + unit) state" where
  "client_set_variable S callID name value =
     (if blank callID \<or> blank name then fail variable_error
      else command_ok S (''uuid_setvar '' @ command_words [callID, name, value]))"

definition client_unset_variable :: "'s service \<Rightarrow> string \<Rightarrow> string \<Rightarrow> ('s world, go_err + unit) state" where
  "client_unset_variable S callID name =
     (if blank callID \<or> blank name then fail variable_error
      else command_ok S (''uuid_setvar '' @ command_words [callID, name]))"

definition client_get_variable :: "'s service \<Rightarrow> string \<Rightarrow> string \<Rightarrow> ('s world, go_err + string) state" where
  "client_get_variable S callID name =
     (if blank callID \<or> blank name then fail variable_error
      else chain (api_command S (''uuid_getvar '' @ command_words [callID, name])) (\<lambda>body. succeed (trim_space body)))"

definition playback_path_variable :: string where "playback_path_variable = ''leamout_playback_path''"
definition displace_hangup_var :: string where "displace_hangup_var = ''DISPLACE_HANGUP_ON_ERROR''"

definition contains_text :: "string \<Rightarrow> string \<Rightarrow> bool" where
  "contains_text s needle \<longleftrightarrow> cut_at needle s \<noteq> None"

definition stop_displace :: "'s service \<Rightarrow> string \<Rightarrow> string \<Rightarrow> ('s world, go_err + unit) state" where
  "stop_displace S callID path =
     chain (api_command S (''uuid_displace '' @ command_words [callID, ''stop'', path])) (\<lambda>body.
       if contains_text (to_lower body) ''cannot stop displace session'' then succeed ()
       else of_check (command_reply_error body))"

definition client_play_audio :: "'s service \<Rightarrow> string \<Rightarrow> string \<Rightarrow> ('s world, go_err + unit) state" where
  "client_play_audio S channel path0 =
     (case (required_argument ''call ID'' channel, required_argument ''audio file path'' path0) of
        (Inl e, _) \<Rightarrow> fail e
      | (Inr _, Inl e) \<Rightarrow> fail e
      | (Inr callID, Inr path) \<Rightarrow>
          chain (client_set_variable S callID displace_hangup_var ''false'') (\<lambda>_.
          chain (command_ok S (''uuid_displace '' @ command_words [callID, ''start'', path, ''0'', ''mux''])) (\<lambda>_.
          handle (client_set_variable S callID playback_path_variable path)
            (\<lambda>e. handle (stop_displace S callID path) (\<lambda>e'. fail (Join e e')) (\<lambda>_. fail e))
            (\<lambda>_. succeed ()))))"

definition client_stop_audio :: "'s service \<Rightarrow> string \<Rightarrow> ('s world, go_err + unit) state" where
  "client_stop_audio S channel =
     (case required_argument ''call ID'' channel of
        Inl e \<Rightarrow> fail e
      | Inr callID \<Rightarrow>
          chain (client_get_variable S callID playback_path_variable) (\<lambda>path.
            if path = [] \<or> path = ''_undef_'' then succeed ()
            else chain (stop_displace S callID path) (\<lambda>_. client_unset_variable S callID playback_path_variable)))"

definition client_send_dtmf :: "'s service \<Rightarrow> string \<Rightarrow> string \<Rightarrow> ('s world, go_err + unit) state" where
  "client_send_dtmf S channel digits0 =
     (case (required_argument ''call ID'' channel, required_argument ''DTMF digits'' digits0) of
        (Inl e, _) \<Rightarrow> fail e
      | (Inr _, Inl e) \<Rightarrow> fail e
      | (Inr callID, Inr digits) \<Rightarrow> command_ok S (''uuid_send_dtmf '' @ command_words [callID, digits]))"

definition client_transfer :: "'s service \<Rightarrow> string \<Rightarrow> string \<Rightarrow> string \<Rightarrow> string \<Rightarrow> ('s world, go_err + unit) state" where
  "client_transfer S callID destination dialplan context_name =
     (if blank callID then fail (Errf ''FreeSWITCH transfer call ID is required'' [])
      else if blank destination then fail (Errf ''FreeSWITCH transfer destination is required'' [])
      else command_ok S (''uuid_transfer '' @ command_words ([callID, destination]
             @ (if dialplan \<noteq> [] then [dialplan] else []) @ (if context_name \<noteq> [] then [context_name] else []))))"

definition client_record :: "'s service \<Rightarrow> string \<Rightarrow> string \<Rightarrow> string \<Rightarrow> ('s world, go_err + unit) state" where
  "client_record S callID path action0 =
     (case first_error
        [(blank callID, Errf ''FreeSWITCH record call ID is required'' []),
         (blank path, Errf ''FreeSWITCH record path is required'' []),
         (action0 \<notin> {[], ''start'', ''stop''}, Errf ''FreeSWITCH record action must be start or stop, got %q'' [action0])] of
        Some e \<Rightarrow> fail e
      | None \<Rightarrow> command_ok S (''uuid_record '' @ command_words [callID, if action0 = [] then ''start'' else action0, path]))"

definition client_channel_exists :: "'s service \<Rightarrow> string \<Rightarrow> ('s world, go_err + bool) state" where
  "client_channel_exists S channel =
     (if sv_parse S channel = None then fail (Errf ''invalid UUID'' [])
      else chain (api_command S (''uuid_exists '' @ channel)) (\<lambda>body.
        (let answer = to_lower (trim_space body)
         in if answer = ''true'' then succeed True
            else if answer = ''false'' then succeed False
            else fail (Errf ''unexpected uuid_exists response %q'' [body]))))"

text \<open>The endpoint with its variables and the caller's number.\<close>

definition originate_endpoint :: "(string \<times> string) list \<Rightarrow> string \<Rightarrow> string \<Rightarrow> string" where
  "originate_endpoint variables caller endpoint =
     (let prefix = format_variables variables;
          callerIDVar = ''origination_caller_id_number='' @ command_word caller
      in if caller \<noteq> []
         then (if prefix \<noteq> [] then trim_suffix prefix ''}'' @ '','' @ callerIDVar @ ''}'' @ endpoint
               else ''{'' @ callerIDVar @ ''}'' @ endpoint)
         else if prefix \<noteq> [] then prefix @ endpoint else endpoint)"

definition client_originate ::
  "'s service \<Rightarrow> string \<Rightarrow> string \<Rightarrow> string \<Rightarrow> string \<Rightarrow> (string \<times> string) list
   \<Rightarrow> ('s world, (go_err \<times> string) + string) state" where
  "client_originate S channel0 endpoint destination caller variables0 =
     (if blank endpoint then fail (Errf ''FreeSWITCH originate endpoint is required'' [], [])
      else if blank destination then fail (Errf ''FreeSWITCH originate destination is required'' [], [])
      else do { se \<leftarrow> (if channel0 = [] then tick S else State (\<lambda>w. (sv_env S (w_tick w), w)));
        (let channelID = (if channel0 = [] then uuid_string (se_fresh se) else channel0)
         in if sv_parse S channelID = None then fail (Wrap ''invalid originate channel UUID: %w'' [] (Errf ''invalid UUID'' []), [])
            else handle (bgapi S (''originate '' @ command_words
                   [originate_endpoint (AList.update ''origination_uuid'' channelID variables0) caller endpoint, ''&park()'']))
                 (\<lambda>e. fail (Join err_originate_uncertain e, channelID))
                 (\<lambda>_. succeed channelID)) })"

section \<open>The controller\<close>

definition named :: "string \<Rightarrow> ('s world, go_err + unit) state \<Rightarrow> ('s world, go_err + unit) state" where
  "named what m = map_error (Wrap (what @ '': %w'') []) m"

definition control_answer :: "'s service \<Rightarrow> string \<Rightarrow> ('s world, go_err + unit) state" where
  "control_answer S channel = named ''answer call'' (client_answer S channel)"

definition control_hangup :: "'s service \<Rightarrow> string \<Rightarrow> ('s world, go_err + unit) state" where
  "control_hangup S channel = named ''hangup call'' (client_hangup S channel)"

definition control_set_max_duration :: "'s service \<Rightarrow> string \<Rightarrow> int \<Rightarrow> ('s world, go_err + unit) state" where
  "control_set_max_duration S channel seconds =
     (if seconds \<le> 0 then fail (Errf ''maximum call duration must be positive'' [])
      else named ''set maximum call duration'' (client_set_variable S channel ''execute_on_answer''
             (''sched_hangup +'' @ int_dec seconds @ '' ALLOTTED_TIMEOUT'')))"

definition control_transfer :: "'s service \<Rightarrow> string \<Rightarrow> string \<Rightarrow> string \<Rightarrow> string \<Rightarrow> ('s world, go_err + unit) state" where
  "control_transfer S channel destination dialplan context_name =
     named ''transfer call'' (client_transfer S channel destination dialplan context_name)"

definition control_hold :: "'s service \<Rightarrow> string \<Rightarrow> ('s world, go_err + unit) state" where
  "control_hold S channel = named ''hold call'' (client_hold S channel)"

definition control_resume :: "'s service \<Rightarrow> string \<Rightarrow> ('s world, go_err + unit) state" where
  "control_resume S channel = named ''resume call'' (client_unhold S channel)"

definition control_play_audio :: "'s service \<Rightarrow> string \<Rightarrow> string \<Rightarrow> ('s world, go_err + unit) state" where
  "control_play_audio S channel path = named ''play audio'' (client_play_audio S channel path)"

definition control_stop_playback :: "'s service \<Rightarrow> string \<Rightarrow> ('s world, go_err + unit) state" where
  "control_stop_playback S channel = named ''stop audio'' (client_stop_audio S channel)"

definition control_record :: "'s service \<Rightarrow> string \<Rightarrow> string \<Rightarrow> string \<Rightarrow> ('s world, go_err + unit) state" where
  "control_record S channel path action = named ''record call'' (client_record S channel path action)"

definition control_send_dtmf :: "'s service \<Rightarrow> string \<Rightarrow> string \<Rightarrow> ('s world, go_err + unit) state" where
  "control_send_dtmf S channel digits = named ''send DTMF'' (client_send_dtmf S channel digits)"

definition control_set_call_id :: "'s service \<Rightarrow> string \<Rightarrow> uuid \<Rightarrow> ('s world, go_err + unit) state" where
  "control_set_call_id S channel callID =
     (if callID = uuid_nil then fail (Errf ''call id is required'' [])
      else named ''set call id'' (client_set_variable S channel ''leamout_call_id'' (uuid_string callID)))"

text \<open>An originate answers the channel, which an uncertain failure carries too.\<close>

definition control_originate :: "'s service \<Rightarrow> originate_request \<Rightarrow> ('s world, (go_err \<times> string) + string) state" where
  "control_originate S req =
     (case free_switch_egress req of
        Inl e \<Rightarrow> fail (OriginateErr class_validation 0 e, [])
      | Inr (endpoint, routeURI) \<Rightarrow>
          (case egress_variables req routeURI of
             Inl e \<Rightarrow> fail (OriginateErr class_validation 0 e, [])
           | Inr variables \<Rightarrow>
               handle (client_originate S (oq_channel req) endpoint (oq_destination req) (oq_caller req) variables)
                 (\<lambda>(e, channel).
                    if errors_is e err_originate_uncertain then fail (OriginateErr class_uncertain 0 e, channel)
                    else fail (classify_client_originate_error e, []))
                 (\<lambda>channel. if blank channel then fail (Errf ''FreeSWITCH returned empty channel UUID'' [], [])
                            else succeed channel)))"

lemmas client_defs = client_answer_def client_hangup_def client_hold_def client_unhold_def
  client_unary_def client_set_variable_def client_unset_variable_def client_get_variable_def
  client_play_audio_def client_stop_audio_def client_send_dtmf_def client_transfer_def client_record_def
  stop_displace_def command_ok_def

lemmas control_defs = control_answer_def control_hangup_def control_set_max_duration_def control_transfer_def
  control_hold_def control_resume_def control_play_audio_def control_stop_playback_def control_record_def
  control_send_dtmf_def control_set_call_id_def named_def

end
