(* ===== verification/Call_Repository.thy ===== *)
theory Call_Repository
  imports Fs_Control
begin

text \<open>
  The call repository (\<open>telephony/calls/repository.go\<close>): the transaction that changes a call
  together with its outbox event, its cleanup marker and its origination attempts, and the
  single statements. The relation \<open>db_step\<close> is its abstract specification: the committed effects a
  database can show, one transaction or statement at a time.
\<close>

section \<open>Transactions\<close>

text \<open>
  A statement inside a transaction works on the transaction's own database; a fault leaves it to
  the deferred rollback. A failed commit may have been applied.
\<close>

definition tx_step ::
  "'s service \<Rightarrow> (go_err \<Rightarrow> go_err) \<Rightarrow> (step_env \<Rightarrow> (go_err + 'a) \<times> database) \<Rightarrow> ('s world, go_err + 'a \<times> database) state" where
  "tx_step S wrap q = do { se \<leftarrow> tick S;
     State_Monad.return (case se_fault se of
         Some (e, _) \<Rightarrow> Inl (wrap e)
       | None \<Rightarrow> (case q se of (Inl e, _) \<Rightarrow> Inl (wrap e) | (Inr x, db) \<Rightarrow> Inr (x, db))) }"

definition tx_begin :: "'s service \<Rightarrow> ('s world, go_err + database) state" where
  "tx_begin S = do { se \<leftarrow> tick S;
     State (\<lambda>w. (case se_fault se of
         Some (e, _) \<Rightarrow> Inl (Wrap ''begin call transaction: %w'' [] e)
       | None \<Rightarrow> Inr (w_db w), w)) }"

definition tx_commit :: "'s service \<Rightarrow> database \<Rightarrow> ('s world, go_err + unit) state" where
  "tx_commit S db = do { se \<leftarrow> tick S;
     State (\<lambda>w. case se_fault se of
         None \<Rightarrow> (Inr (), w\<lparr>w_db := db\<rparr>)
       | Some (e, applied) \<Rightarrow> (Inl (Wrap ''commit call transaction: %w'' [] e), if applied then w\<lparr>w_db := db\<rparr> else w)) }"

definition outbox_insert :: "string \<Rightarrow> call \<Rightarrow> int \<Rightarrow> database \<Rightarrow> database" where
  "outbox_insert subject c now db = db\<lparr>db_outbox := db_outbox db @ [\<lparr>ob_subject = subject, ob_call = c, ob_at = now\<rparr>]\<rparr>"

type_synonym mutation = "step_env \<Rightarrow> database \<Rightarrow> (go_err + call) \<times> database"

definition repo_mutate :: "'s service \<Rightarrow> string \<Rightarrow> mutation \<Rightarrow> ('s world, go_err + call) state" where
  "repo_mutate S eventType mutate =
     chain (tx_begin S) (\<lambda>db0.
     chain (tx_step S (\<lambda>e. e) (\<lambda>se. mutate se db0)) (\<lambda>(call, db1).
     chain (if is_terminal_state (cl_state call)
            then chain (tx_step S (Wrap ''enqueue terminal call admission cleanup: %w'' [])
                        (\<lambda>se. (Inr (), sql_enqueue_cleanup (cl_id call) (cl_org call) (se_now se) db1))) (\<lambda>(_, db2).
                 tx_step S (Wrap ''finish origination tracking for terminal call: %w'' [])
                   (\<lambda>se. (Inr (), sql_finish_attempts (cl_id call) (se_now se) db2)))
            else succeed ((), db1)) (\<lambda>(_, db3).
     chain (tx_step S (Wrap ''insert call outbox event: %w'' [])
              (\<lambda>se. (Inr (), outbox_insert eventType call (se_now se) db3))) (\<lambda>(_, db4).
     chain (tx_commit S db4) (\<lambda>_. succeed call)))))"

section \<open>Operations\<close>

record create_request =
  cr_agent :: "uuid option"
  cr_trunk :: "uuid option"
  cr_from :: string
  cr_to :: string
  cr_privacy :: bool
  cr_dtmf :: string
  cr_encryption :: string
  cr_direction :: string
  cr_sip :: "string option"

record admission_request =
  aq_channel :: string
  aq_sip :: string
  aq_org :: uuid
  aq_agent :: uuid
  aq_number :: uuid
  aq_binding :: uuid
  aq_trunk :: uuid
  aq_from :: string
  aq_to :: string

definition repo_create :: "'s service \<Rightarrow> uuid \<Rightarrow> create_request \<Rightarrow> ('s world, go_err + call) state" where
  "repo_create S org req = repo_mutate S ''call.initiated'' (\<lambda>se. sql_create_call
     \<lparr>nc_org = org, nc_agent = cr_agent req, nc_direction = cr_direction req, nc_state = None,
      nc_from = cr_from req, nc_to = cr_to req, nc_sip = cr_sip req\<rparr> (se_fresh se) (se_now se))"

definition repo_create_inbound :: "'s service \<Rightarrow> admission_request \<Rightarrow> ('s world, go_err + call) state" where
  "repo_create_inbound S req = repo_mutate S ''call.ringing'' (\<lambda>se. sql_create_call
     \<lparr>nc_org = aq_org req, nc_agent = Some (aq_agent req), nc_direction = direction_inbound,
      nc_state = Some state_ringing, nc_from = aq_from req, nc_to = aq_to req, nc_sip = Some (aq_sip req)\<rparr>
     (se_fresh se) (se_now se))"

definition repo_bind_sip :: "'s service \<Rightarrow> uuid \<Rightarrow> uuid \<Rightarrow> string \<Rightarrow> ('s world, go_err + unit) state" where
  "repo_bind_sip S org i sip =
     handle (db_exec S (\<lambda>se. sql_set_sip sip org i (se_now se))) (\<lambda>e. fail e) (\<lambda>_. succeed ())"

definition repo_get_by_sip :: "'s service \<Rightarrow> string \<Rightarrow> ('s world, go_err + call) state" where
  "repo_get_by_sip S sip = db_query S (\<lambda>_. sql_get_by_sip sip)"

definition repo_get :: "'s service \<Rightarrow> uuid \<Rightarrow> uuid \<Rightarrow> ('s world, go_err + call) state" where
  "repo_get S org i = db_query S (\<lambda>_. sql_get_call org i)"

definition repo_snapshot :: "'s service \<Rightarrow> uuid \<Rightarrow> ('s world, go_err + call) state" where
  "repo_snapshot S i = db_query S (\<lambda>_. sql_lifecycle_snapshot i)"

record active_call =
  ac_id :: uuid
  ac_org :: uuid
  ac_trunk :: uuid

definition repo_list_active :: "'s service \<Rightarrow> ('s world, go_err + active_call list) state" where
  "repo_list_active S = db_query S (\<lambda>_ db. Inr (List.map_filter
     (\<lambda>c. case cl_trunk c of None \<Rightarrow> None
          | Some t \<Rightarrow> Some \<lparr>ac_id = cl_id c, ac_org = cl_org c, ac_trunk = t\<rparr>) (sql_list_active db)))"

definition repo_set_route ::
  "'s service \<Rightarrow> uuid \<Rightarrow> uuid \<Rightarrow> uuid option \<Rightarrow> uuid option \<Rightarrow> ('s world, go_err + call) state" where
  "repo_set_route S org i trunk endpoint = db_exec S (\<lambda>se. sql_set_route trunk endpoint org i (se_now se))"

definition repo_mark_ringing :: "'s service \<Rightarrow> uuid \<Rightarrow> uuid \<Rightarrow> ('s world, go_err + call) state" where
  "repo_mark_ringing S org i = repo_mutate S ''call.ringing'' (\<lambda>se. sql_mark_ringing org i (se_now se))"

definition repo_mark_answered :: "'s service \<Rightarrow> uuid \<Rightarrow> uuid \<Rightarrow> ('s world, go_err + call) state" where
  "repo_mark_answered S org i = repo_mutate S ''call.answered'' (\<lambda>se. sql_mark_answered org i (se_now se))"

definition repo_mark_active :: "'s service \<Rightarrow> uuid \<Rightarrow> uuid \<Rightarrow> ('s world, go_err + call) state" where
  "repo_mark_active S org i = repo_mutate S ''call.active'' (\<lambda>se. sql_mark_active org i (se_now se))"

definition repo_mark_held :: "'s service \<Rightarrow> uuid \<Rightarrow> uuid \<Rightarrow> ('s world, go_err + call) state" where
  "repo_mark_held S org i = repo_mutate S ''call.held'' (\<lambda>se. sql_mark_held org i (se_now se))"

definition repo_mark_resumed :: "'s service \<Rightarrow> uuid \<Rightarrow> uuid \<Rightarrow> ('s world, go_err + call) state" where
  "repo_mark_resumed S org i = repo_mutate S ''call.resumed'' (\<lambda>se. sql_mark_resumed org i (se_now se))"

definition repo_mark_completed :: "'s service \<Rightarrow> uuid \<Rightarrow> uuid \<Rightarrow> string option \<Rightarrow> ('s world, go_err + call) state" where
  "repo_mark_completed S org i reason = repo_mutate S ''call.completed'' (\<lambda>se. sql_mark_completed reason org i (se_now se))"

definition repo_mark_failed :: "'s service \<Rightarrow> uuid \<Rightarrow> uuid \<Rightarrow> string option \<Rightarrow> ('s world, go_err + call) state" where
  "repo_mark_failed S org i reason = repo_mutate S ''call.failed'' (\<lambda>se. sql_mark_failed reason org i (se_now se))"

definition repo_mark_cancelled :: "'s service \<Rightarrow> uuid \<Rightarrow> uuid \<Rightarrow> string option \<Rightarrow> ('s world, go_err + call) state" where
  "repo_mark_cancelled S org i reason = repo_mutate S ''call.cancelled'' (\<lambda>se. sql_mark_cancelled reason org i (se_now se))"

definition with_channel :: "'s service \<Rightarrow> (go_err \<Rightarrow> go_err) \<Rightarrow> string \<Rightarrow> (uuid \<Rightarrow> ('s world, go_err + 'a) state) \<Rightarrow> ('s world, go_err + 'a) state" where
  "with_channel S wrap channel k =
     (case sv_parse S channel of None \<Rightarrow> fail (wrap (Errf ''invalid UUID'' [])) | Some i \<Rightarrow> k i)"

definition repo_prepare_origination ::
  "'s service \<Rightarrow> string \<Rightarrow> uuid \<Rightarrow> uuid \<Rightarrow> uuid \<Rightarrow> uuid \<Rightarrow> ('s world, go_err + unit) state" where
  "repo_prepare_origination S channel i org trunk endpoint =
     with_channel S (Wrap ''parse originate channel UUID: %w'' []) channel (\<lambda>ch.
       db_exec S (\<lambda>se. sql_prepare_attempt ch i org trunk endpoint (se_now se)))"

definition repo_origination_submitted :: "'s service \<Rightarrow> string \<Rightarrow> ('s world, go_err + unit) state" where
  "repo_origination_submitted S channel = with_channel S (\<lambda>e. e) channel (\<lambda>ch. db_exec S (exec_unit (sql_attempt_submitted ch)))"

definition repo_origination_uncertain :: "'s service \<Rightarrow> string \<Rightarrow> ('s world, go_err + unit) state" where
  "repo_origination_uncertain S channel = with_channel S (\<lambda>e. e) channel (\<lambda>ch. db_exec S (exec_unit (sql_attempt_uncertain ch)))"

definition repo_origination_observed :: "'s service \<Rightarrow> uuid \<Rightarrow> string \<Rightarrow> ('s world, go_err + unit) state" where
  "repo_origination_observed S i channel = with_channel S (\<lambda>e. e) channel (\<lambda>ch. db_exec S (exec_unit (sql_attempt_observed i ch)))"

definition repo_origination_finished :: "'s service \<Rightarrow> uuid \<Rightarrow> ('s world, go_err + unit) state" where
  "repo_origination_finished S i = db_exec S (exec_unit (sql_finish_attempts i))"

definition repo_defer_origination :: "'s service \<Rightarrow> string \<Rightarrow> ('s world, go_err + unit) state" where
  "repo_defer_origination S channel = with_channel S (\<lambda>e. e) channel (\<lambda>ch. db_exec S (exec_unit (sql_defer_attempt ch)))"

definition repo_list_unresolved :: "'s service \<Rightarrow> ('s world, go_err + attempt_row list) state" where
  "repo_list_unresolved S = db_query S (\<lambda>_ db. Inr (sql_unresolved db))"

definition repo_list_due_cleanup :: "'s service \<Rightarrow> ('s world, go_err + cleanup_row list) state" where
  "repo_list_due_cleanup S = db_query S (\<lambda>se db. Inr (sql_due_cleanup (se_now se) db))"

definition repo_cleanup_trunks :: "'s service \<Rightarrow> uuid \<Rightarrow> ('s world, go_err + uuid list) state" where
  "repo_cleanup_trunks S i = db_query S (\<lambda>_ db. Inr (sql_cleanup_trunks i db))"

definition repo_defer_cleanup :: "'s service \<Rightarrow> uuid \<Rightarrow> ('s world, go_err + unit) state" where
  "repo_defer_cleanup S i = db_exec S (exec_unit (sql_defer_cleanup i))"

definition repo_finish_cleanup :: "'s service \<Rightarrow> uuid \<Rightarrow> ('s world, go_err + unit) state" where
  "repo_finish_cleanup S i = db_exec S (exec_unit (\<lambda>_. sql_delete_cleanup i))"

definition repo_count_unresolved :: "'s service \<Rightarrow> ('s world, go_err + nat) state" where
  "repo_count_unresolved S = db_query S (\<lambda>_ db. Inr (sql_count_unresolved db))"

definition repo_count_cleanup :: "'s service \<Rightarrow> ('s world, go_err + nat) state" where
  "repo_count_cleanup S = db_query S (\<lambda>_ db. Inr (sql_count_cleanup db))"

lemmas repo_marks = repo_mark_ringing_def repo_mark_answered_def repo_mark_active_def repo_mark_held_def
  repo_mark_resumed_def repo_mark_completed_def repo_mark_failed_def repo_mark_cancelled_def

end
