(* ===== verification/Call_Service.thy ===== *)
theory Call_Service
  imports Call_Repository
begin

text \<open>
  The call service (\<open>telephony/calls/service.go\<close>, \<open>validation.go\<close>): validation of requests, the
  control operations on a live call, the lifecycle transitions and the handler of lifecycle
  events with its terminal cleanup.
\<close>

section \<open>Validation\<close>

definition validate_organization_id :: "uuid \<Rightarrow> go_err option" where
  "validate_organization_id i = (if i = uuid_nil then Some (new_bad_request ''organization_id is required'') else None)"

definition validate_call_id :: "uuid \<Rightarrow> go_err option" where
  "validate_call_id i = (if i = uuid_nil then Some (new_bad_request ''call id is required'') else None)"

definition validate_ids :: "uuid \<Rightarrow> uuid \<Rightarrow> go_err option" where
  "validate_ids org i = (case validate_organization_id org of Some e \<Rightarrow> Some e | None \<Rightarrow> validate_call_id i)"

definition normalize_create_request :: "create_request \<Rightarrow> go_err + create_request" where
  "normalize_create_request req0 =
     (let req = req0\<lparr>cr_direction := direction_outbound, cr_from := trim_space (cr_from req0),
                     cr_to := trim_space (cr_to req0), cr_dtmf := to_lower (trim_space (cr_dtmf req0)),
                     cr_encryption := to_lower (trim_space (cr_encryption req0))\<rparr>
      in checked (first_error
           [(cr_from req = [], new_bad_request ''from_uri is required''),
            (cr_to req = [], new_bad_request ''to_uri is required''),
            (cr_agent req = Some uuid_nil, new_bad_request ''voice_agent_id is invalid''),
            (cr_trunk req = Some uuid_nil, new_bad_request ''trunk_id is invalid''),
            (cr_dtmf req \<notin> {[], ''rfc2833'', ''info'', ''none''}, new_bad_request ''dtmf_mode is invalid''),
            (cr_encryption req \<notin> {[], ''none'', ''sdes_srtp''}, new_bad_request ''media_encryption is invalid'')]) req)"

record list_request =
  lq_state :: "string option"
  lq_direction :: "string option"
  lq_trunk :: "uuid option"
  lq_agent :: "uuid option"
  lq_from :: "int option"
  lq_before :: "int option"
  lq_offset :: int
  lq_limit :: int

definition validate_filters :: "list_request \<Rightarrow> go_err option" where
  "validate_filters req =
     or_else (listquery_enum ''direction'' (lq_direction req) [''inbound'', ''outbound''])
     (or_else (listquery_id ''trunk_id'' (lq_trunk req))
     (or_else (listquery_id ''voice_agent_id'' (lq_agent req))
     (listquery_range (lq_from req) (lq_before req))))"

definition validate_list_request :: "list_request \<Rightarrow> go_err option" where
  "validate_list_request req =
     or_else (validate_filters req)
     (first_error
        [(lq_offset req < 0, new_bad_request ''offset must not be negative''),
         (lq_limit req < 1 \<or> 200 < lq_limit req, new_bad_request ''limit must be between 1 and 200''),
         (case lq_state req of None \<Rightarrow> False
          | Some s \<Rightarrow> trim_space s \<notin> {state_initiating, state_ringing, state_answered, state_active,
                                      state_completed, state_failed, state_cancelled},
          new_bad_request ''invalid call state'')])"

definition validate_route_attribution :: "uuid option \<Rightarrow> uuid option \<Rightarrow> go_err option" where
  "validate_route_attribution trunk endpoint = first_error
     [(trunk = Some uuid_nil, new_bad_request ''trunk_id is invalid''),
      (endpoint = Some uuid_nil, new_bad_request ''trunk_endpoint_id is invalid'')]"

definition normalize_optional_reason :: "string option \<Rightarrow> string option" where
  "normalize_optional_reason reason = (case reason of None \<Rightarrow> None
     | Some r \<Rightarrow> if trim_space r = [] then None else Some (trim_space r))"

definition normalize_required :: "string \<Rightarrow> string \<Rightarrow> go_err + string" where
  "normalize_required message value =
     (if trim_space value = [] then Inl (new_bad_request message) else Inr (trim_space value))"

definition normalize_transfer :: "string \<Rightarrow> go_err + string" where
  "normalize_transfer = normalize_required ''destination is required''"

definition normalize_play :: "string \<Rightarrow> go_err + string" where
  "normalize_play = normalize_required ''path is required''"

definition normalize_dtmf :: "string \<Rightarrow> go_err + string" where
  "normalize_dtmf = normalize_required ''digits are required''"

definition normalize_record :: "string \<Rightarrow> string \<Rightarrow> go_err + string \<times> string" where
  "normalize_record path0 action0 =
     (let path = trim_space path0;
          act = to_lower (trim_space action0);
          act = (if act = [] then ''start'' else act)
      in if path = [] then Inl (new_bad_request ''path is required'')
         else if act \<noteq> ''start'' \<and> act \<noteq> ''stop'' then Inl (new_bad_request ''action must be start or stop'')
         else Inr (path, act))"

definition validate_inbound_admission :: "admission_request \<Rightarrow> go_err option" where
  "validate_inbound_admission req = first_error
     [(blank (aq_channel req), new_bad_request ''inbound channel id is required''),
      (blank (aq_sip req), new_bad_request ''inbound SIP Call-ID is required''),
      (aq_org req = uuid_nil, new_bad_request ''organization_id is required''),
      (aq_agent req = uuid_nil, new_bad_request ''voice_agent_id is required''),
      (aq_number req = uuid_nil, new_bad_request ''phone_number_id is required''),
      (aq_binding req = uuid_nil, new_bad_request ''voice_agent_binding_id is required''),
      (aq_trunk req = uuid_nil, new_bad_request ''trunk_id is required''),
      (blank (aq_from req), new_bad_request ''from_uri is required''),
      (blank (aq_to req), new_bad_request ''to_uri is required'')]"

definition validate_existing_inbound :: "call \<Rightarrow> admission_request \<Rightarrow> go_err option" where
  "validate_existing_inbound c req = first_error
     [(cl_direction c \<noteq> direction_inbound \<or> cl_org c \<noteq> aq_org req \<or> cl_agent c \<noteq> Some (aq_agent req)
         \<or> cl_to c \<noteq> aq_to req,
       new_conflict ''SIP Call-ID is already associated with a different call''),
      (cl_trunk c \<noteq> None \<and> cl_trunk c \<noteq> Some (aq_trunk req),
       new_conflict ''SIP Call-ID trunk attribution does not match''),
      (is_terminal_state (cl_state c), new_conflict ''inbound SIP call is already terminal'')]"

definition translate_read_error :: "go_err \<Rightarrow> go_err" where
  "translate_read_error e = (if errors_is e err_no_rows then new_not_found ''call not found''
     else new_internal ''get call'' (Some e))"

definition translate_mutation_error :: "go_err \<Rightarrow> go_err" where
  "translate_mutation_error e = (if errors_is e err_no_rows
     then new_conflict ''call state transition or route attribution is not allowed''
     else new_internal ''update call'' (Some e))"

section \<open>Reads and installed checks\<close>

definition require_recording_storage :: "'s service \<Rightarrow> uuid \<Rightarrow> ('s world, go_err + unit) state" where
  "require_recording_storage S org = (case sv_storage S of
     None \<Rightarrow> fail (new_service_unavailable ''recording storage admission is unavailable'' None)
   | Some f \<Rightarrow> do { n \<leftarrow> tick_no; of_check (f n org) })"

definition require_runtime_allowance :: "'s service \<Rightarrow> uuid \<Rightarrow> ('s world, go_err + unit) state" where
  "require_runtime_allowance S org = (case sv_allowance S of
     None \<Rightarrow> fail (new_service_unavailable ''runtime allowance service unavailable'' None)
   | Some f \<Rightarrow> do { n \<leftarrow> tick_no; of_check (f n org) })"

definition require_voice_agent_ready :: "'s service \<Rightarrow> uuid \<Rightarrow> uuid \<Rightarrow> ('s world, go_err + unit) state" where
  "require_voice_agent_ready S org agent = (case sv_ready S of
     None \<Rightarrow> fail (new_service_unavailable ''voice agent readiness service is unavailable'' None)
   | Some f \<Rightarrow> do { n \<leftarrow> tick_no; of_check (f n org agent) })"

definition require_call_agent_ready :: "'s service \<Rightarrow> call \<Rightarrow> ('s world, go_err + unit) state" where
  "require_call_agent_ready S c = (case cl_agent c of
     None \<Rightarrow> succeed () | Some a \<Rightarrow> require_voice_agent_ready S (cl_org c) a)"

definition service_get :: "'s service \<Rightarrow> uuid \<Rightarrow> uuid \<Rightarrow> ('s world, go_err + call) state" where
  "service_get S org i = chain (of_check (validate_ids org i)) (\<lambda>_. map_error translate_read_error (repo_get S org i))"

definition sql_list_calls :: "uuid \<Rightarrow> list_request \<Rightarrow> database \<Rightarrow> call list" where
  "sql_list_calls org req db =
     take (nat (lq_limit req)) (drop (nat (lq_offset req))
       (rev (sort_key cl_created (sort_key (uuid_string \<circ> cl_id) (filter (\<lambda>c. cl_org c = org
          \<and> (lq_state req = None \<or> lq_state req = Some (cl_state c))
          \<and> (lq_direction req = None \<or> lq_direction req = Some (cl_direction c))
          \<and> (lq_trunk req = None \<or> lq_trunk req = cl_trunk c)
          \<and> (lq_agent req = None \<or> lq_agent req = cl_agent c)
          \<and> (case lq_from req of None \<Rightarrow> True | Some t \<Rightarrow> t \<le> cl_created c)
          \<and> (case lq_before req of None \<Rightarrow> True | Some t \<Rightarrow> cl_created c < t)) (db_calls db))))))"

definition repo_list :: "'s service \<Rightarrow> uuid \<Rightarrow> list_request \<Rightarrow> ('s world, go_err + call list) state" where
  "repo_list S org req = db_query S (\<lambda>_ db. Inr (sql_list_calls org req db))"

definition service_list :: "'s service \<Rightarrow> uuid \<Rightarrow> list_request \<Rightarrow> ('s world, go_err + call list) state" where
  "service_list S org req =
     chain (of_check (validate_organization_id org)) (\<lambda>_.
     chain (of_check (validate_list_request req)) (\<lambda>_.
     map_error (\<lambda>e. new_internal ''list calls'' (Some e)) (repo_list S org req)))"

definition service_set_route :: "'s service \<Rightarrow> uuid \<Rightarrow> uuid \<Rightarrow> uuid option \<Rightarrow> uuid option \<Rightarrow> ('s world, go_err + call) state" where
  "service_set_route S org i trunk endpoint =
     chain (of_check (validate_ids org i)) (\<lambda>_.
     chain (of_check (validate_route_attribution trunk endpoint)) (\<lambda>_.
     map_error translate_mutation_error (repo_set_route S org i trunk endpoint)))"

section \<open>Control of a live call\<close>

definition internal_as :: "string \<Rightarrow> ('s world, go_err + unit) state \<Rightarrow> ('s world, go_err + unit) state" where
  "internal_as what m = map_error (\<lambda>e. new_internal what (Some e)) m"

definition control_context :: "'s service \<Rightarrow> uuid \<Rightarrow> uuid \<Rightarrow> ('s world, go_err + call \<times> string) state" where
  "control_context S org i =
     chain (service_get S org i) (\<lambda>c.
     handle (channels_get S i)
       (\<lambda>e. fail (if errors_is e err_channel_unavailable then new_conflict ''call has no active media channel''
                  else new_internal ''resolve call channel'' (Some e)))
       (\<lambda>channel. succeed (c, channel)))"

definition service_answer :: "'s service \<Rightarrow> uuid \<Rightarrow> uuid \<Rightarrow> ('s world, go_err + unit) state" where
  "service_answer S org i =
     chain (control_context S org i) (\<lambda>(c, channel).
     if cl_state c \<noteq> state_initiating \<and> cl_state c \<noteq> state_ringing
     then fail (new_conflict ''call control is not allowed in the current state'')
     else chain (require_call_agent_ready S c) (\<lambda>_.
     internal_as ''control call'' (control_answer S channel)))"

definition service_hangup :: "'s service \<Rightarrow> uuid \<Rightarrow> uuid \<Rightarrow> ('s world, go_err + unit) state" where
  "service_hangup S org i =
     chain (control_context S org i) (\<lambda>(c, channel).
     if is_terminal_state (cl_state c) then succeed ()
     else internal_as ''hangup call'' (control_hangup S channel))"

definition controlled :: "'s service \<Rightarrow> uuid \<Rightarrow> uuid \<Rightarrow> string list \<Rightarrow> (string \<Rightarrow> ('s world, go_err + unit) state) \<Rightarrow> ('s world, go_err + unit) state" where
  "controlled S org i allowed f =
     chain (control_context S org i) (\<lambda>(c, channel).
     if \<not> list_ex (\<lambda>st. cl_state c = st) allowed
     then fail (new_conflict ''call control is not allowed in the current state'')
     else internal_as ''control call'' (f channel))"

definition service_transfer :: "'s service \<Rightarrow> uuid \<Rightarrow> uuid \<Rightarrow> string \<Rightarrow> ('s world, go_err + unit) state" where
  "service_transfer S org i destination0 =
     (case normalize_transfer destination0 of Inl e \<Rightarrow> fail e
      | Inr destination \<Rightarrow> controlled S org i [state_answered, state_active] (\<lambda>ch. control_transfer S ch destination [] []))"

definition service_hold :: "'s service \<Rightarrow> uuid \<Rightarrow> uuid \<Rightarrow> ('s world, go_err + unit) state" where
  "service_hold S org i =
     chain (control_context S org i) (\<lambda>(c, channel).
     if cl_state c \<noteq> state_answered \<and> cl_state c \<noteq> state_active
     then fail (new_conflict ''call cannot be held in its current state'')
     else if cl_media c = media_held then succeed ()
     else internal_as ''hold call'' (control_hold S channel))"

definition service_resume :: "'s service \<Rightarrow> uuid \<Rightarrow> uuid \<Rightarrow> ('s world, go_err + unit) state" where
  "service_resume S org i =
     chain (control_context S org i) (\<lambda>(c, channel).
     if cl_state c \<noteq> state_answered \<and> cl_state c \<noteq> state_active
     then fail (new_conflict ''call cannot be resumed in its current state'')
     else if cl_media c = media_active then succeed ()
     else internal_as ''resume call'' (control_resume S channel))"

definition service_play :: "'s service \<Rightarrow> uuid \<Rightarrow> uuid \<Rightarrow> string \<Rightarrow> ('s world, go_err + unit) state" where
  "service_play S org i path0 =
     (case normalize_play path0 of Inl e \<Rightarrow> fail e
      | Inr path \<Rightarrow> controlled S org i [state_answered, state_active] (\<lambda>ch. control_play_audio S ch path))"

definition service_stop :: "'s service \<Rightarrow> uuid \<Rightarrow> uuid \<Rightarrow> ('s world, go_err + unit) state" where
  "service_stop S org i = controlled S org i [state_answered, state_active] (control_stop_playback S)"

definition service_record :: "'s service \<Rightarrow> uuid \<Rightarrow> uuid \<Rightarrow> string \<Rightarrow> string \<Rightarrow> ('s world, go_err + unit) state" where
  "service_record S org i path0 action0 =
     (case normalize_record path0 action0 of Inl e \<Rightarrow> fail e
      | Inr (path, act) \<Rightarrow>
          chain (if act = ''start'' then require_recording_storage S org else succeed ()) (\<lambda>_.
          controlled S org i [state_answered, state_active] (\<lambda>ch. control_record S ch path act)))"

definition service_dtmf :: "'s service \<Rightarrow> uuid \<Rightarrow> uuid \<Rightarrow> string \<Rightarrow> ('s world, go_err + unit) state" where
  "service_dtmf S org i digits0 =
     (case normalize_dtmf digits0 of Inl e \<Rightarrow> fail e
      | Inr digits \<Rightarrow> controlled S org i [state_answered, state_active] (\<lambda>ch. control_send_dtmf S ch digits))"

section \<open>Lifecycle\<close>

definition lc_initiated :: string where "lc_initiated = ''initiated''"
definition lc_ringing :: string where "lc_ringing = ''ringing''"
definition lc_answered :: string where "lc_answered = ''answered''"
definition lc_active :: string where "lc_active = ''active''"
definition lc_held :: string where "lc_held = ''held''"
definition lc_resumed :: string where "lc_resumed = ''resumed''"
definition lc_completed :: string where "lc_completed = ''completed''"
definition lc_failed :: string where "lc_failed = ''failed''"
definition lc_cancelled :: string where "lc_cancelled = ''cancelled''"

lemmas lifecycle_types = lc_initiated_def lc_ringing_def lc_answered_def lc_active_def lc_held_def
  lc_resumed_def lc_completed_def lc_failed_def lc_cancelled_def

record lifecycle_event =
  le_call :: uuid
  le_channel :: string
  le_sip :: string
  le_type :: string
  le_at :: int
  le_reason :: "string option"

definition is_terminal_lifecycle :: "string \<Rightarrow> bool" where
  "is_terminal_lifecycle t \<longleftrightarrow> t = lc_completed \<or> t = lc_failed \<or> t = lc_cancelled"

definition lifecycle_already_applied :: "call \<Rightarrow> string \<Rightarrow> bool" where
  "lifecycle_already_applied c t =
     (if t = lc_initiated then True
      else if t = lc_ringing then cl_state c \<noteq> state_initiating
      else if t = lc_answered then cl_state c = state_answered \<or> cl_state c = state_active \<or> is_terminal_state (cl_state c)
      else if t = lc_active then cl_state c = state_active \<or> is_terminal_state (cl_state c)
      else if t = lc_held then cl_media c = media_held \<or> is_terminal_state (cl_state c)
      else if t = lc_resumed then cl_media c = media_active \<or> is_terminal_state (cl_state c)
      else if t = lc_completed \<or> t = lc_failed \<or> t = lc_cancelled then is_terminal_state (cl_state c)
      else False)"

definition transition :: "uuid \<Rightarrow> uuid \<Rightarrow> ('s world, go_err + call) state \<Rightarrow> ('s world, go_err + call) state" where
  "transition org i m = chain (of_check (validate_ids org i)) (\<lambda>_. map_error translate_mutation_error m)"

definition mark_ringing :: "'s service \<Rightarrow> uuid \<Rightarrow> uuid \<Rightarrow> ('s world, go_err + call) state" where
  "mark_ringing S org i = transition org i (repo_mark_ringing S org i)"

definition mark_answered :: "'s service \<Rightarrow> uuid \<Rightarrow> uuid \<Rightarrow> ('s world, go_err + call) state" where
  "mark_answered S org i = transition org i (repo_mark_answered S org i)"

definition mark_active :: "'s service \<Rightarrow> uuid \<Rightarrow> uuid \<Rightarrow> ('s world, go_err + call) state" where
  "mark_active S org i = transition org i (repo_mark_active S org i)"

definition mark_held :: "'s service \<Rightarrow> uuid \<Rightarrow> uuid \<Rightarrow> ('s world, go_err + call) state" where
  "mark_held S org i = transition org i (repo_mark_held S org i)"

definition mark_resumed :: "'s service \<Rightarrow> uuid \<Rightarrow> uuid \<Rightarrow> ('s world, go_err + call) state" where
  "mark_resumed S org i = transition org i (repo_mark_resumed S org i)"

definition mark_completed :: "'s service \<Rightarrow> uuid \<Rightarrow> uuid \<Rightarrow> string option \<Rightarrow> ('s world, go_err + call) state" where
  "mark_completed S org i reason = transition org i (repo_mark_completed S org i (normalize_optional_reason reason))"

definition mark_failed :: "'s service \<Rightarrow> uuid \<Rightarrow> uuid \<Rightarrow> string option \<Rightarrow> ('s world, go_err + call) state" where
  "mark_failed S org i reason = transition org i (repo_mark_failed S org i (normalize_optional_reason reason))"

definition mark_cancelled :: "'s service \<Rightarrow> uuid \<Rightarrow> uuid \<Rightarrow> string option \<Rightarrow> ('s world, go_err + call) state" where
  "mark_cancelled S org i reason = transition org i (repo_mark_cancelled S org i (normalize_optional_reason reason))"

definition cleanup_terminal_admission :: "'s service \<Rightarrow> uuid \<Rightarrow> uuid \<Rightarrow> ('s world, go_err + unit) state" where
  "cleanup_terminal_admission S i org =
     chain (map_error (Wrap ''list admission trunks for call %s: %w'' [uuid_string i]) (repo_cleanup_trunks S i)) (\<lambda>trunks.
     chain (map_error (Wrap ''delete channel for call %s: %w'' [uuid_string i]) (channels_delete S i)) (\<lambda>_.
     chain (map_error (Wrap ''release organization admission for call %s: %w'' [uuid_string i])
              (admission_release_org S org (uuid_string i))) (\<lambda>_.
     chain (for_each trunks (\<lambda>trunk.
              map_error (Wrap ''release trunk %s admission for call %s: %w'' [uuid_string trunk, uuid_string i])
                (admission_release S trunk (uuid_string i)))) (\<lambda>_.
     map_error (Wrap ''finish admission cleanup for call %s: %w'' [uuid_string i]) (repo_finish_cleanup S i)))))"

definition cleanup_after_lifecycle :: "'s service \<Rightarrow> uuid \<Rightarrow> uuid \<Rightarrow> ('s world, go_err + unit) state" where
  "cleanup_after_lifecycle S i org = ignore (cleanup_terminal_admission S i org) (succeed ())"

definition observe_outbound :: "'s service \<Rightarrow> lifecycle_event \<Rightarrow> call \<Rightarrow> ('s world, go_err + unit) state" where
  "observe_outbound S ev c =
     (if cl_direction c \<noteq> direction_outbound then succeed ()
      else chain (if \<not> is_terminal_lifecycle (le_type ev) \<and> le_channel ev \<noteq> []
                  then internal_as ''observe outbound origination tracking''
                         (repo_origination_observed S (le_call ev) (le_channel ev))
                  else succeed ()) (\<lambda>_.
           let sip = trim_space (le_sip ev)
           in if sip = [] then succeed ()
              else map_error (\<lambda>e. if errors_is e err_no_rows
                     then new_conflict ''outbound SIP Call-ID conflicts with existing call identity''
                     else new_internal ''persist outbound SIP Call-ID'' (Some e))
                   (repo_bind_sip S (cl_org c) (le_call ev) sip)))"

definition refresh_call_leases :: "'s service \<Rightarrow> uuid \<Rightarrow> call \<Rightarrow> string \<Rightarrow> string \<Rightarrow> ('s world, go_err + unit) state" where
  "refresh_call_leases S i c org_message trunk_message =
     chain (map_error (\<lambda>e. new_service_unavailable org_message (Some e)) (admission_refresh_org S (cl_org c) i)) (\<lambda>_.
     case cl_trunk c of
       None \<Rightarrow> succeed ()
     | Some trunk \<Rightarrow> map_error (\<lambda>e. new_service_unavailable trunk_message (Some e)) (admission_refresh S trunk i))"

definition unit_result :: "('w, go_err + 'a) state \<Rightarrow> ('w, go_err + unit) state" where
  "unit_result m = chain m (\<lambda>_. succeed ())"

definition apply_lifecycle :: "'s service \<Rightarrow> lifecycle_event \<Rightarrow> call \<Rightarrow> ('s world, go_err + unit) state" where
  "apply_lifecycle S ev c =
     (let org = cl_org c; i = le_call ev; t = le_type ev in
      if t = lc_ringing then unit_result (mark_ringing S org i)
      else if t = lc_answered then unit_result (mark_answered S org i)
      else if t = lc_active then unit_result (mark_active S org i)
      else if t = lc_held then unit_result (mark_held S org i)
      else if t = lc_resumed then unit_result (mark_resumed S org i)
      else if t = lc_completed then unit_result (mark_completed S org i (le_reason ev))
      else if t = lc_failed then unit_result (mark_failed S org i (le_reason ev))
      else if t = lc_cancelled then unit_result (mark_cancelled S org i (le_reason ev))
      else fail (new_bad_request ''unsupported call lifecycle event''))"

definition observe_lifecycle :: "'s service \<Rightarrow> lifecycle_event \<Rightarrow> ('s world, go_err + unit) state" where
  "observe_lifecycle S ev =
     (if le_call ev = uuid_nil then fail (new_bad_request ''call lifecycle event requires call id'')
      else
        chain (if le_channel ev \<noteq> [] \<and> \<not> is_terminal_lifecycle (le_type ev)
               then internal_as ''bind call channel'' (channels_bind S (le_call ev) (le_channel ev))
               else succeed ()) (\<lambda>_.
        handle (repo_snapshot S (le_call ev))
          (\<lambda>e. if errors_is e err_no_rows then succeed () else fail (new_internal ''resolve lifecycle call'' (Some e)))
          (\<lambda>c.
            chain (observe_outbound S ev c) (\<lambda>_.
            chain (if \<not> is_terminal_lifecycle (le_type ev)
                   then refresh_call_leases S (le_call ev) c ''refresh organization call lease'' ''refresh trunk call lease''
                   else succeed ()) (\<lambda>_.
            if lifecycle_already_applied c (le_type ev)
            then if is_terminal_lifecycle (le_type ev) then cleanup_after_lifecycle S (le_call ev) (cl_org c)
                 else succeed ()
            else if le_type ev = lc_initiated then succeed ()
            else chain (apply_lifecycle S ev c) (\<lambda>_.
              if is_terminal_lifecycle (le_type ev) then cleanup_after_lifecycle S (le_call ev) (cl_org c)
              else succeed ()))))))"

definition resolve_lifecycle_call :: "'s service \<Rightarrow> uuid \<Rightarrow> ('s world, go_err + call option) state" where
  "resolve_lifecycle_call S i =
     (if i = uuid_nil then fail (new_bad_request ''call lifecycle event requires call id'')
      else handle (repo_snapshot S i)
        (\<lambda>e. if errors_is e err_no_rows then succeed None else fail (new_internal ''resolve lifecycle call'' (Some e)))
        (\<lambda>s. handle (repo_get S (cl_org s) i)
           (\<lambda>e. if errors_is e err_no_rows then succeed None else fail (new_internal ''get lifecycle call'' (Some e)))
           (\<lambda>c. succeed (Some c))))"

definition resolve_channel_call_id :: "'s service \<Rightarrow> string \<Rightarrow> ('s world, go_err + uuid) state" where
  "resolve_channel_call_id S channel = channels_get_call_id S channel"

definition consume_lifecycle :: "'s service \<Rightarrow> lifecycle_event \<Rightarrow> ('s world, go_err + unit) state" where
  "consume_lifecycle S ev = map_error (Wrap ''handle call lifecycle event: %w'' []) (observe_lifecycle S ev)"

lemmas service_marks = mark_ringing_def mark_answered_def mark_active_def mark_held_def mark_resumed_def
  mark_completed_def mark_failed_def mark_cancelled_def transition_def

end
