(* ===== verification/Call_Flows.thy ===== *)
theory Call_Flows
  imports Call_Service
begin

text \<open>
  The flows that admit a call and keep it consistent: the admission of an inbound SIP call
  (\<open>Service.AdmitInbound\<close>), the creation of an outbound call with its route plan
  (\<open>telephony/calls/outbound.go\<close>) and the reconciliation job (\<open>telephony/calls/jobs.go\<close>).
\<close>

section \<open>Shared steps\<close>

definition acquire_organization_admission :: "'s service \<Rightarrow> uuid \<Rightarrow> string \<Rightarrow> ('s world, go_err + unit) state" where
  "acquire_organization_admission S org lease =
     (case sv_plan S of
        None \<Rightarrow> fail (new_service_unavailable ''commercial plan limit service is unavailable'' None)
      | Some f \<Rightarrow> do { n \<leftarrow> tick_no;
          (case f n org of
             Inl e \<Rightarrow> fail e
           | Inr (maxConcurrent, limited) \<Rightarrow>
               if \<not> limited then succeed ()
               else map_error (\<lambda>e. if errors_is e err_plan_concurrent
                      then new_payment_required ''organization concurrent call limit exceeded''
                      else new_service_unavailable ''organization admission service unavailable'' (Some e))
                    (admission_acquire_org S org lease maxConcurrent)) })"

definition admission_error :: "go_err \<Rightarrow> go_err" where
  "admission_error e =
     (if errors_is e err_admission_cps then new_too_many_requests ''trunk CPS limit exceeded''
      else if errors_is e err_admission_concurrent then new_too_many_requests ''trunk concurrent call limit exceeded''
      else new_service_unavailable ''trunk admission service unavailable'' (Some e))"

definition admission_failure_reason :: "go_err \<Rightarrow> string" where
  "admission_failure_reason e =
     (if errors_is e err_admission_cps then ''trunk_cps_limit''
      else if errors_is e err_admission_concurrent then ''trunk_concurrent_limit''
      else ''trunk_admission_failed'')"

section \<open>Inbound calls\<close>

definition bind_inbound_channel :: "'s service \<Rightarrow> call \<Rightarrow> string \<Rightarrow> ('s world, go_err + unit) state" where
  "bind_inbound_channel S c channel =
     chain (internal_as ''bind inbound call channel'' (channels_bind S (cl_id c) channel)) (\<lambda>_.
     handle (control_set_call_id S channel (cl_id c))
       (\<lambda>e. ignore (channels_delete S (cl_id c)) (fail (new_internal ''correlate inbound FreeSWITCH channel'' (Some e))))
       (\<lambda>_. succeed ()))"

definition reject_inbound :: "'s service \<Rightarrow> string \<Rightarrow> go_err \<Rightarrow> ('s world, go_err + 'a) state" where
  "reject_inbound S channel cause =
     handle (control_hangup S channel) (\<lambda>e. fail (Join cause e)) (\<lambda>_. fail cause)"

definition ensure_inbound_attribution :: "'s service \<Rightarrow> call \<Rightarrow> admission_request \<Rightarrow> ('s world, go_err + call) state" where
  "ensure_inbound_attribution S c req =
     (if cl_trunk c \<noteq> None then succeed c
      else map_error (\<lambda>e. new_internal ''set inbound route attribution'' (Some e))
             (repo_set_route S (aq_org req) (cl_id c) (Some (aq_trunk req)) None))"

text \<open>The part shared by the duplicate found first and the one found after a lost insert.\<close>

definition resume_inbound :: "'s service \<Rightarrow> call \<Rightarrow> admission_request \<Rightarrow> ('s world, go_err + call) state" where
  "resume_inbound S existing req =
     (let reject = reject_inbound S (aq_channel req) in
      handle (of_check (validate_existing_inbound existing req)) reject (\<lambda>_.
      handle (ensure_inbound_attribution S existing req) reject (\<lambda>c.
      handle (refresh_call_leases S (cl_id c) c ''refresh organization admission lease''
                ''refresh inbound admission lease'') reject (\<lambda>_.
      handle (bind_inbound_channel S c (aq_channel req)) reject (\<lambda>_. succeed c)))))"

definition failed_inbound :: "'s service \<Rightarrow> admission_request \<Rightarrow> uuid \<Rightarrow> string \<Rightarrow> ('s world, 'a) state \<Rightarrow> ('s world, 'a) state" where
  "failed_inbound S req i reason k = ignore (repo_mark_failed S (aq_org req) i (Some reason)) k"

definition release_both :: "'s service \<Rightarrow> uuid \<Rightarrow> string \<Rightarrow> uuid \<Rightarrow> string \<Rightarrow> ('s world, 'a) state \<Rightarrow> ('s world, 'a) state" where
  "release_both S trunk tlease org olease k =
     ignore (admission_release S trunk tlease) (ignore (admission_release_org S org olease) k)"

text \<open>
  \<open>call, err = s.repo.SetRouteAttribution(...)\<close> overwrites the created call: on an error its
  identity is the nil UUID when the call is marked failed.
\<close>

definition admit_new_inbound :: "'s service \<Rightarrow> admission_request \<Rightarrow> uuid \<Rightarrow> ('s world, go_err + call) state" where
  "admit_new_inbound S req trunk =
     (let channel = aq_channel req; org = aq_org req; reject = reject_inbound S channel in
      handle (repo_create_inbound S req)
        (\<lambda>e. handle (repo_get_by_sip S (aq_sip req))
           (\<lambda>_. release_both S trunk channel org channel (reject (new_internal ''create inbound call'' (Some e))))
           (\<lambda>existing.
              if uuid_string (cl_id existing) \<noteq> channel
              then release_both S trunk channel org channel (resume_inbound S existing req)
              else resume_inbound S existing req))
        (\<lambda>c0.
          handle (repo_set_route S org (cl_id c0) (Some (aq_trunk req)) None)
            (\<lambda>e. release_both S trunk channel org channel
               (failed_inbound S req uuid_nil ''inbound_attribution_failed''
               (reject (new_internal ''set inbound route attribution'' (Some e)))))
            (\<lambda>c.
              handle (admission_bind_org S org channel (cl_id c))
                (\<lambda>e. failed_inbound S req (cl_id c) ''organization_admission_binding_failed''
                   (release_both S trunk channel org channel
                   (reject (new_internal ''bind organization admission lease'' (Some e)))))
                (\<lambda>_.
              handle (admission_bind S trunk channel (cl_id c))
                (\<lambda>e. failed_inbound S req (cl_id c) ''inbound_admission_binding_failed''
                   (release_both S trunk channel org (uuid_string (cl_id c))
                   (reject (new_internal ''bind inbound admission lease'' (Some e)))))
                (\<lambda>_.
              handle (bind_inbound_channel S c channel)
                (\<lambda>e. release_both S trunk (uuid_string (cl_id c)) org (uuid_string (cl_id c))
                   (failed_inbound S req (cl_id c) ''inbound_channel_binding_failed'' (reject e)))
                (\<lambda>_. succeed c))))))"

definition admit_inbound :: "'s service \<Rightarrow> admission_request \<Rightarrow> ('s world, go_err + call) state" where
  "admit_inbound S req =
     (let channel = aq_channel req; org = aq_org req; reject = reject_inbound S channel in
      chain (of_check (validate_inbound_admission req)) (\<lambda>_.
      handle (repo_get_by_sip S (aq_sip req))
        (\<lambda>e. if \<not> errors_is e err_no_rows then reject (new_internal ''lookup inbound SIP call'' (Some e))
             else do { n \<leftarrow> tick_no;
               (case resolve_inbound (sv_routing S n) \<lparr>ir_org = org, ir_agent = aq_agent req,
                       ir_number = aq_number req, ir_binding = aq_binding req, ir_trunk = aq_trunk req,
                       ir_called = aq_to req\<rparr> of
                  Inl e \<Rightarrow> reject e
                | Inr decision \<Rightarrow>
                    (let trunk = ir_trunk (id_request decision) in
                     handle (require_runtime_allowance S org) reject (\<lambda>_.
                     handle (acquire_organization_admission S org channel) reject (\<lambda>_.
                     handle (admission_acquire S trunk channel (id_limits decision))
                       (\<lambda>e. ignore (admission_release_org S org channel) (reject (admission_error e)))
                       (\<lambda>_. admit_new_inbound S req trunk))))) })
        (\<lambda>existing. resume_inbound S existing req)))"

definition consume_inbound :: "'s service \<Rightarrow> admission_request \<Rightarrow> ('s world, go_err + unit) state" where
  "consume_inbound S req = unit_result (map_error (Wrap ''admit inbound call: %w'' []) (admit_inbound S req))"

section \<open>Route plans\<close>

definition max_outbound_attempts :: nat where "max_outbound_attempts = 3"

definition classify_originate_failure :: "go_err \<Rightarrow> string \<times> int \<times> string" where
  "classify_originate_failure err =
     (case as_originate_error err of
        None \<Rightarrow> (class_internal, 0, ''terminal_failure'')
      | Some (class, sip) \<Rightarrow>
          (class, sip, if class = class_capacity \<or> (class = class_sip \<and> 500 \<le> sip \<and> sip \<le> 599)
                       then ''retryable_failure'' else ''terminal_failure''))"

text \<open>
  An attempt answers its channel, or its error with the channel it may have opened. The loop
  keeps the last failure; a cancelled context ends it, which is the fault of the step.
\<close>

type_synonym attempt_result = "(go_err \<times> string) + string"

definition ctx_err :: "'s service \<Rightarrow> ('s world, go_err + unit) state" where
  "ctx_err S = do { se \<leftarrow> tick S; of_check (map_option fst (se_fault se)) }"

definition observe_route :: "'s service \<Rightarrow> outbound_route \<Rightarrow> nat \<Rightarrow> string \<Rightarrow> string \<Rightarrow> ('s world, unit) state" where
  "observe_route S r k outcome class = State (\<lambda>w. ((),
     if sv_has_metrics S then w\<lparr>w_routes := w_routes w @ [\<lparr>rs_trunk = rt_trunk r, rs_endpoint = rt_endpoint r,
        rs_outcome = outcome, rs_class = class, rs_attempt = k\<rparr>]\<rparr> else w))"

fun route_loop ::
  "'s service \<Rightarrow> (outbound_route \<Rightarrow> ('s world, attempt_result) state) \<Rightarrow> nat \<Rightarrow> outbound_route list
   \<Rightarrow> (go_err \<times> string) option \<Rightarrow> ('s world, (go_err \<times> string) + (string \<times> outbound_route)) state" where
  "route_loop S attempt k [] prev =
     fail (case prev of None \<Rightarrow> (Sentinel ''outbound route plan is empty'', []) | Some f \<Rightarrow> f)"
| "route_loop S attempt k (route # routes) prev =
     handle (ctx_err S) (\<lambda>e. fail (e, [])) (\<lambda>_.
     handle (attempt route)
       (\<lambda>(err, channel).
          (let (class, sip, outcome0) = classify_originate_failure err;
               outcome = (if channel \<noteq> [] then ''terminal_failure'' else outcome0)
           in do { observe_route S route k outcome class;
                (if outcome \<noteq> ''retryable_failure'' then fail (err, channel)
                 else route_loop S attempt (Suc k) routes (Some (err, channel))) }))
       (\<lambda>channel. do { observe_route S route k ''succeeded'' []; succeed (channel, route) }))"

definition execute_route_plan ::
  "'s service \<Rightarrow> outbound_route list \<Rightarrow> (outbound_route \<Rightarrow> ('s world, attempt_result) state)
   \<Rightarrow> ('s world, (go_err \<times> string) + (string \<times> outbound_route)) state" where
  "execute_route_plan S routes attempt = route_loop S attempt 1 (take max_outbound_attempts routes) None"

section \<open>Outbound calls\<close>

definition originate_fail :: "string \<Rightarrow> go_err \<Rightarrow> go_err \<times> string" where
  "originate_fail class e = (OriginateErr class 0 e, [])"

definition attempt_route :: "'s service \<Rightarrow> uuid \<Rightarrow> create_request \<Rightarrow> call \<Rightarrow> outbound_route \<Rightarrow> ('s world, attempt_result) state" where
  "attempt_route S org req c route =
     (let i = cl_id c; lease = uuid_string i; trunk = rt_trunk route in
      handle (repo_set_route S org i (Some trunk) (Some (rt_endpoint route)))
        (\<lambda>e. fail (originate_fail class_internal e)) (\<lambda>_.
      handle (admission_acquire S trunk lease (rt_limits route))
        (\<lambda>e. fail (originate_fail class_capacity e)) (\<lambda>_. do { n \<leftarrow> tick_no;
      (case resolve_host (sv_policy S) (sv_lookup S n) (rt_host route) of
         Inl e \<Rightarrow> ignore (admission_release S trunk lease)
           (fail (originate_fail class_validation (Wrap ''resolve public SIP trunk endpoint: %w'' [] e)))
       | Inr addresses \<Rightarrow> do { se \<leftarrow> tick S;
           (let channelID = uuid_string (se_fresh se) in
            handle (repo_prepare_origination S channelID i org trunk (rt_endpoint route))
              (\<lambda>e. ignore (admission_release S trunk lease) (fail (originate_fail class_internal e))) (\<lambda>_.
            handle (control_originate S
                \<lparr>oq_channel = channelID, oq_call = i, oq_destination = cr_to req, oq_caller = cr_from req,
                 oq_trunk = trunk, oq_host = rt_host route, oq_pinned = addr_string (hd addresses), oq_port = rt_port route,
                 oq_transport = rt_transport route, oq_privacy = cr_privacy req, oq_dtmf = cr_dtmf req,
                 oq_encryption = cr_encryption req, oq_max_duration = 0\<rparr>)
              (\<lambda>(e, channel). ignore (repo_origination_uncertain S channelID)
                 (if (case as_originate_error e of None \<Rightarrow> True | Some (class, _) \<Rightarrow> class \<noteq> class_uncertain)
                  then ignore (admission_release S trunk lease) (fail (e, channel))
                  else fail (e, channel)))
              (\<lambda>channel. handle (repo_origination_submitted S channelID)
                 (\<lambda>e. fail (OriginateErr class_uncertain 0 e, channel)) (\<lambda>_. succeed channel)))) }) })))"

definition fail_call :: "'s service \<Rightarrow> uuid \<Rightarrow> call \<Rightarrow> string \<Rightarrow> ('s world, 'a) state \<Rightarrow> ('s world, 'a) state" where
  "fail_call S org c reason k = ignore (repo_mark_failed S org (cl_id c) (Some reason)) k"

definition release_org :: "'s service \<Rightarrow> uuid \<Rightarrow> call \<Rightarrow> ('s world, 'a) state \<Rightarrow> ('s world, 'a) state" where
  "release_org S org c k = ignore (admission_release_org S org (uuid_string (cl_id c))) k"

text \<open>\<open>Create\<close> answers an error together with the call when the origination is uncertain.\<close>

definition originate_call ::
  "'s service \<Rightarrow> uuid \<Rightarrow> create_request \<Rightarrow> call \<Rightarrow> outbound_route list \<Rightarrow> ('s world, (go_err \<times> call option) + call) state" where
  "originate_call S org req c routes =
     handle (execute_route_plan S routes (attempt_route S org req c))
       (\<lambda>(e, _).
          if (case as_originate_error e of None \<Rightarrow> False | Some (class, _) \<Rightarrow> class = class_uncertain)
          then fail (new_service_unavailable ''call origination outcome is uncertain; do not retry'' (Some e), Some c)
          else fail_call S org c ''originate_failed'' (release_org S org c
                 (fail (new_internal ''originate call'' (Some e), None))))
       (\<lambda>(channel, selected).
          handle (channels_bind S (cl_id c) channel)
            (\<lambda>e. ignore (control_hangup S channel)
               (ignore (admission_release S (rt_trunk selected) (uuid_string (cl_id c)))
               (release_org S org c (fail_call S org c ''channel_binding_failed''
               (fail (new_internal ''bind call channel'' (Some e), None))))))
            (\<lambda>_. map_error (\<lambda>e. (e, None)) (repo_get S org (cl_id c))))"

definition create_call :: "'s service \<Rightarrow> uuid \<Rightarrow> create_request \<Rightarrow> ('s world, (go_err \<times> call option) + call) state" where
  "create_call S org req0 =
     (let plain = (\<lambda>e. fail (e, None)) in
      handle (of_check (validate_organization_id org)) plain (\<lambda>_.
      case normalize_create_request req0 of
        Inl e \<Rightarrow> plain e
      | Inr req \<Rightarrow>
          handle (case cr_agent req of None \<Rightarrow> succeed ()
                  | Some a \<Rightarrow> chain (require_runtime_allowance S org) (\<lambda>_. require_voice_agent_ready S org a)) plain (\<lambda>_.
          handle (repo_create S org req) (\<lambda>e. plain (new_internal ''create call'' (Some e))) (\<lambda>c.
          handle (acquire_organization_admission S org (uuid_string (cl_id c)))
            (\<lambda>e. fail_call S org c ''plan_concurrent_limit'' (plain e)) (\<lambda>_. do { n \<leftarrow> tick_no;
          (case resolve_outbound (sv_routing S n) \<lparr>or_org = org, or_trunk = cr_trunk req, or_destination = cr_to req\<rparr> of
             Inl e \<Rightarrow> fail_call S org c ''route_resolution_failed'' (release_org S org c (plain e))
           | Inr routes \<Rightarrow>
               (case decision_primary routes of
                  None \<Rightarrow> fail_call S org c ''route_resolution_failed''
                    (release_org S org c (plain (new_not_found ''no eligible outbound route'')))
                | Some _ \<Rightarrow> originate_call S org req c routes)) })))))"

section \<open>Reconciliation\<close>

definition bump :: "(job_counters \<Rightarrow> job_counters) \<Rightarrow> ('s world, 'e + unit) state" where
  "bump f = State (\<lambda>w. (Inr (), w\<lparr>w_job := f (w_job w)\<rparr>))"

definition reconcile_one_origination :: "'s service \<Rightarrow> attempt_row \<Rightarrow> ('s world, go_err + unit) state" where
  "reconcile_one_origination S a =
     (let channel = uuid_string (at_channel a) in
      chain (map_error (Wrap ''query originate channel %s: %w'' [channel]) (client_channel_exists S channel)) (\<lambda>found.
      if \<not> found
      then chain (bump (\<lambda>j. j\<lparr>jc_unconfirmed := Suc (jc_unconfirmed j)\<rparr>)) (\<lambda>_.
           map_error (Wrap ''defer unresolved originate channel %s: %w'' [channel]) (repo_defer_origination S channel))
      else
        chain (map_error (Wrap ''bind recovered channel %s: %w'' [channel]) (channels_bind S (at_call a) channel)) (\<lambda>_.
        chain (map_error (Wrap ''mark recovered channel %s: %w'' [channel])
                 (repo_origination_observed S (at_call a) channel)) (\<lambda>_.
        bump (\<lambda>j. j\<lparr>jc_recovered := Suc (jc_recovered j)\<rparr>)))))"

definition reconcile_originations :: "'s service \<Rightarrow> ('s world, go_err + unit) state" where
  "reconcile_originations S = chain (repo_list_unresolved S) (\<lambda>attempts. for_each attempts (reconcile_one_origination S))"

definition reconcile_one_cleanup :: "'s service \<Rightarrow> cleanup_row \<Rightarrow> ('s world, go_err + unit) state" where
  "reconcile_one_cleanup S item =
     handle (cleanup_terminal_admission S (cu_call item) (cu_org item))
       (\<lambda>e. chain (bump (\<lambda>j. j\<lparr>jc_cleanup_retries := Suc (jc_cleanup_retries j)\<rparr>)) (\<lambda>_.
          map_error (\<lambda>e'. Join e (Wrap ''defer terminal cleanup for %s: %w'' [uuid_string (cu_call item)] e'))
            (repo_defer_cleanup S (cu_call item))))
       (\<lambda>_. succeed ())"

definition reconcile_terminal_cleanup :: "'s service \<Rightarrow> ('s world, go_err + unit) state" where
  "reconcile_terminal_cleanup S = chain (repo_list_due_cleanup S) (\<lambda>pending. for_each pending (reconcile_one_cleanup S))"

definition refresh_active :: "'s service \<Rightarrow> active_call \<Rightarrow> ('s world, go_err + unit) state" where
  "refresh_active S a =
     chain (map_error (Wrap ''refresh trunk admission lease for call %s: %w'' [uuid_string (ac_id a)])
              (admission_refresh S (ac_trunk a) (ac_id a))) (\<lambda>_.
     map_error (Wrap ''refresh organization admission lease for call %s: %w'' [uuid_string (ac_id a)])
              (admission_refresh_org S (ac_org a) (ac_id a)))"

definition reconcile :: "'s service \<Rightarrow> ('s world, go_err + unit) state" where
  "reconcile S =
     chain (map_error (Wrap ''list calls for admission reconciliation: %w'' []) (repo_list_active S)) (\<lambda>active.
     chain (for_each active (refresh_active S)) (\<lambda>_.
     chain (map_error (Wrap ''reconcile outbound originations: %w'' []) (reconcile_originations S)) (\<lambda>_.
     map_error (Wrap ''reconcile terminal admission cleanup: %w'' []) (reconcile_terminal_cleanup S))))"

definition run_pass :: "'s service \<Rightarrow> ('s world, unit) state" where
  "run_pass S = handle (reconcile S)
     (\<lambda>e. if errors_is e err_canceled then State_Monad.return ()
          else State (\<lambda>w. ((), w\<lparr>w_job := (w_job w)\<lparr>jc_failures := Suc (jc_failures (w_job w))\<rparr>\<rparr>)))
     (\<lambda>_. State_Monad.return ())"

record reliability_stats =
  rl_unresolved :: nat
  rl_pending :: nat
  rl_counters :: job_counters

definition reliability_stats_of :: "'s service \<Rightarrow> ('s world, go_err + reliability_stats) state" where
  "reliability_stats_of S =
     chain (map_error (Wrap ''count unresolved originations: %w'' []) (repo_count_unresolved S)) (\<lambda>u.
     chain (map_error (Wrap ''count pending admission cleanup: %w'' []) (repo_count_cleanup S)) (\<lambda>p.
     State (\<lambda>w. (Inr \<lparr>rl_unresolved = u, rl_pending = p, rl_counters = w_job w\<rparr>, w))))"

end
