(* ===== verification/Fs_Events.thy ===== *)
theory Fs_Events
  imports Call_Flows
begin

text \<open>
  The events FreeSWITCH sends: their translation into admissions and lifecycle events
  (\<open>runtime/calling/translator.go\<close>), the handler the worker subscribes (\<open>runtime/worker/consumers.go\<close>), and the
  dispatch of events to sixteen bounded queues (\<open>integrations/freeswitch/events.go\<close>). The identifier parser of
  google/uuid is \<open>sv_parse\<close>; the agent runtime and the recording consumer act on tables of their own and
  are parameters of the handler.
\<close>

section \<open>Translation\<close>

definition freeswitch_events :: "string list" where
  "freeswitch_events =
     [''CHANNEL_CREATE'', ''CHANNEL_PROGRESS'', ''CHANNEL_PROGRESS_MEDIA'', ''CHANNEL_ANSWER'',
      ''CHANNEL_HOLD'', ''CHANNEL_UNHOLD'', ''CHANNEL_HANGUP_COMPLETE'']"

definition err_unsupported_event :: go_err where
  "err_unsupported_event = Sentinel ''unsupported FreeSWITCH call event''"

definition err_uncorrelated_event :: go_err where
  "err_uncorrelated_event = Sentinel ''uncorrelated FreeSWITCH call event''"

definition err_not_inbound_admission :: go_err where
  "err_not_inbound_admission = Sentinel ''not an inbound FreeSWITCH admission event''"

lemmas translation_errs = err_unsupported_event_def err_uncorrelated_event_def err_not_inbound_admission_def

fun first_non_empty :: "string list \<Rightarrow> string" where
  "first_non_empty [] = []"
| "first_non_empty (v # vs) = (if trim_space v \<noteq> [] then trim_space v else first_non_empty vs)"

definition freeswitch_event_time :: "int \<Rightarrow> fs_event \<Rightarrow> go_err + int" where
  "freeswitch_event_time now ev =
     (let raw = trim_space (event_header ev ''Event-Date-Timestamp'')
      in if raw = [] then Inr now
         else (case parse_int64 raw of
                 None \<Rightarrow> Inl (Wrap ''parse FreeSWITCH event timestamp: %w'' [] (Errf ''invalid integer'' [raw]))
               | Some micros \<Rightarrow> Inr micros))"

record inbound_event =
  ie_channel :: string
  ie_sip :: string
  ie_org :: uuid
  ie_agent :: uuid
  ie_number :: uuid
  ie_binding :: uuid
  ie_trunk :: uuid
  ie_from :: string
  ie_to :: string
  ie_at :: int

definition trusted_headers :: "(string \<times> string) list" where
  "trusted_headers =
     [(''organization_id'', ''variable_sip_h_X-Leamout-Organization-ID''),
      (''trunk_id'', ''variable_sip_h_X-Leamout-Trunk-ID''),
      (''phone_number_id'', ''variable_sip_h_X-Leamout-Phone-Number-ID''),
      (''voice_agent_binding_id'', ''variable_sip_h_X-Leamout-Voice-Agent-Binding-ID''),
      (''voice_agent_id'', ''variable_sip_h_X-Leamout-Voice-Agent-ID'')]"

definition trusted_metadata :: "fs_event \<Rightarrow> (string \<times> string) list" where
  "trusted_metadata ev = map (\<lambda>(name, header). (name, event_header ev header)) trusted_headers"

definition parse_trusted_id :: "(string \<Rightarrow> uuid option) \<Rightarrow> fs_event \<Rightarrow> string \<Rightarrow> go_err + uuid" where
  "parse_trusted_id parse ev name =
     (case parse (trim_space (map_header (trusted_metadata ev) name)) of
        None \<Rightarrow> Inl (Errf ''invalid inbound %s'' [name])
      | Some i \<Rightarrow> Inr i)"

definition required_text :: "string \<Rightarrow> string \<Rightarrow> go_err + string" where
  "required_text message v = (if v = [] then Inl (Errf message []) else Inr v)"

definition translate_inbound :: "(string \<Rightarrow> uuid option) \<Rightarrow> int \<Rightarrow> fs_event \<Rightarrow> go_err + inbound_event" where
  "translate_inbound parse now ev =
     (if ev_name ev \<noteq> ''CHANNEL_CREATE'' then Inl (Wrap ''%w: %s'' [ev_name ev] err_not_inbound_admission)
      else if trim_space (event_header ev ''variable_leamout_call_id'') \<noteq> [] then Inl err_not_inbound_admission
      else if list_all (\<lambda>(name, v). trim_space v = []) (trusted_metadata ev) then Inl err_not_inbound_admission
      else rbind (parse_trusted_id parse ev ''organization_id'') (\<lambda>org.
           rbind (parse_trusted_id parse ev ''trunk_id'') (\<lambda>trunk.
           rbind (parse_trusted_id parse ev ''phone_number_id'') (\<lambda>number.
           rbind (parse_trusted_id parse ev ''voice_agent_binding_id'') (\<lambda>binding.
           rbind (parse_trusted_id parse ev ''voice_agent_id'') (\<lambda>agent.
           rbind (required_text ''FreeSWITCH inbound event is missing Unique-ID''
                    (trim_space (event_header ev ''Unique-ID''))) (\<lambda>channel.
           rbind (required_text ''FreeSWITCH inbound event is missing SIP Call-ID''
                    (trim_space (event_header ev ''variable_sip_call_id''))) (\<lambda>sip.
           rbind (required_text ''FreeSWITCH inbound event is missing caller identity''
                    (first_non_empty [event_header ev ''variable_sip_from_uri'',
                       event_header ev ''Caller-Caller-ID-Number'', event_header ev ''Caller-ANI''])) (\<lambda>from_uri.
           rbind (required_text ''FreeSWITCH inbound event is missing called number''
                    (first_non_empty [event_header ev ''Caller-Destination-Number'', event_header ev ''variable_sip_to_user''])) (\<lambda>to_uri.
           rbind (freeswitch_event_time now ev) (\<lambda>at.
           Inr \<lparr>ie_channel = channel, ie_sip = sip, ie_org = org, ie_agent = agent, ie_number = number,
                ie_binding = binding, ie_trunk = trunk, ie_from = trim_space from_uri, ie_to = trim_space to_uri,
                ie_at = at\<rparr>)))))))))))"

text \<open>\<open>strings.EqualFold(v, "true")\<close>: no letter outside ASCII folds to one of these four.\<close>

definition event_answered :: "fs_event \<Rightarrow> bool" where
  "event_answered ev \<longleftrightarrow>
     list_ex (\<lambda>v. to_lower (trim_space v) = ''true'') [event_header ev ''Answered'', event_header ev ''variable_answered'']
     \<or> list_ex (\<lambda>v. case parse_int64 (trim_space v) of None \<Rightarrow> False | Some n \<Rightarrow> 0 < n)
         [event_header ev ''variable_answer_epoch'', event_header ev ''answer_epoch'',
          event_header ev ''billmsec'', event_header ev ''variable_billmsec'']"

definition hangup_cause :: "fs_event \<Rightarrow> string" where
  "hangup_cause ev = first_non_empty [event_header ev ''Hangup-Cause'', event_header ev ''variable_hangup_cause'']"

definition lifecycle_event_type :: "fs_event \<Rightarrow> go_err + string" where
  "lifecycle_event_type ev =
     (let n = ev_name ev in
      if n = ''CHANNEL_CREATE'' then Inr lc_initiated
      else if n = ''CHANNEL_PROGRESS'' \<or> n = ''CHANNEL_PROGRESS_MEDIA'' then Inr lc_ringing
      else if n = ''CHANNEL_ANSWER'' then Inr lc_answered
      else if n = ''CHANNEL_HOLD'' then Inr lc_held
      else if n = ''CHANNEL_UNHOLD'' then Inr lc_resumed
      else if n = ''CHANNEL_HANGUP_COMPLETE'' then
        (if event_answered ev then Inr lc_completed
         else let cause = to_upper (trim_space (hangup_cause ev))
              in if cause = ''ORIGINATOR_CANCEL'' \<or> cause = ''NORMAL_CLEARING'' then Inr lc_cancelled else Inr lc_failed)
      else Inl (Wrap ''%w: %s'' [n] err_unsupported_event))"

definition translate_for_call :: "int \<Rightarrow> fs_event \<Rightarrow> uuid \<Rightarrow> go_err + lifecycle_event" where
  "translate_for_call now ev callID =
     (if callID = uuid_nil then Inl (Wrap ''%w: missing valid Leamout call id'' [] err_uncorrelated_event)
      else rbind (lifecycle_event_type ev) (\<lambda>t.
           rbind (required_text ''FreeSWITCH call event is missing Unique-ID''
                    (trim_space (event_header ev ''Unique-ID''))) (\<lambda>channel.
           rbind (freeswitch_event_time now ev) (\<lambda>at.
           Inr \<lparr>le_call = callID, le_channel = channel, le_sip = trim_space (event_header ev ''variable_sip_call_id''),
                le_type = t, le_at = at,
                le_reason = (if ev_name ev = ''CHANNEL_HANGUP_COMPLETE'' \<and> trim_space (hangup_cause ev) \<noteq> []
                             then Some (trim_space (hangup_cause ev)) else None)\<rparr>))))"

definition translate_event :: "(string \<Rightarrow> uuid option) \<Rightarrow> int \<Rightarrow> fs_event \<Rightarrow> go_err + lifecycle_event" where
  "translate_event parse now ev =
     (case parse (trim_space (event_header ev ''variable_leamout_call_id'')) of
        None \<Rightarrow> Inl (Wrap ''%w: missing valid Leamout call id'' [] err_uncorrelated_event)
      | Some callID \<Rightarrow> translate_for_call now ev callID)"

section \<open>The handler of the worker\<close>

definition admission_of :: "inbound_event \<Rightarrow> admission_request" where
  "admission_of e = \<lparr>aq_channel = ie_channel e, aq_sip = ie_sip e, aq_org = ie_org e, aq_agent = ie_agent e,
     aq_number = ie_number e, aq_binding = ie_binding e, aq_trunk = ie_trunk e, aq_from = ie_from e, aq_to = ie_to e\<rparr>"

definition handle_inbound :: "'s service \<Rightarrow> inbound_event \<Rightarrow> ('s world, go_err + unit) state" where
  "handle_inbound S e = consume_inbound S (admission_of e)"

text \<open>
  The parts of the worker that the call service does not know: the agent runtime and the
  recording consumer answer at a step of the environment.
\<close>

record worker_hooks =
  wh_agent :: "nat \<Rightarrow> call \<Rightarrow> lifecycle_event \<Rightarrow> go_err option"
  wh_recording :: "nat \<Rightarrow> fs_event \<Rightarrow> go_err option"

definition hook :: "(nat \<Rightarrow> go_err option) \<Rightarrow> ('s world, go_err + unit) state" where
  "hook f = do { n \<leftarrow> tick_no; of_check (f n) }"

definition logged :: "('s world, go_err + 'a) state \<Rightarrow> ('s world, unit) state" where
  "logged m = ignore m (State_Monad.return ())"

definition attach_agent :: "'s service \<Rightarrow> worker_hooks \<Rightarrow> lifecycle_event \<Rightarrow> ('s world, unit) state" where
  "attach_agent S H le =
     handle (resolve_lifecycle_call S (le_call le))
       (\<lambda>_. State_Monad.return ())
       (\<lambda>found. case found of
          None \<Rightarrow> State_Monad.return ()
        | Some c \<Rightarrow>
            if cl_id c = le_call le
            then handle (hook (\<lambda>n. wh_agent H n c le))
                   (\<lambda>_. if le_type le = lc_answered then logged (client_hangup S (le_channel le)) else State_Monad.return ())
                   (\<lambda>_. State_Monad.return ())
            else State_Monad.return ())"

definition correlate :: "'s service \<Rightarrow> int \<Rightarrow> fs_event \<Rightarrow> ('s world, go_err + lifecycle_event) state" where
  "correlate S now ev =
     (case translate_event (sv_parse S) now ev of
        Inr le \<Rightarrow> succeed le
      | Inl e \<Rightarrow>
          (let channel = trim_space (event_header ev ''Unique-ID'')
           in if errors_is e err_uncorrelated_event \<and> channel \<noteq> []
              then handle (resolve_channel_call_id S channel) (\<lambda>_. fail e)
                     (\<lambda>callID. State_Monad.return (translate_for_call now ev callID))
              else fail e))"

definition record_event :: "worker_hooks \<Rightarrow> fs_event \<Rightarrow> ('s world, unit) state" where
  "record_event H ev = logged (hook (\<lambda>n. wh_recording H n ev))"

definition observe_event :: "'s service \<Rightarrow> worker_hooks \<Rightarrow> int \<Rightarrow> fs_event \<Rightarrow> ('s world, unit) state" where
  "observe_event S H now ev =
     do { _ \<leftarrow> handle (correlate S now ev) (\<lambda>_. State_Monad.return ())
            (\<lambda>le. handle (consume_lifecycle S le) (\<lambda>_. State_Monad.return ()) (\<lambda>_. attach_agent S H le));
          record_event H ev }"

definition handle_event :: "'s service \<Rightarrow> worker_hooks \<Rightarrow> fs_event \<Rightarrow> ('s world, unit) state" where
  "handle_event S H ev =
     (if ev_name ev = ''CUSTOM'' then State_Monad.return ()
      else do { se \<leftarrow> tick S;
        if ev_name ev = ''CHANNEL_CREATE'' \<and> trim_space (event_header ev ''variable_leamout_call_id'') = []
        then (case translate_inbound (sv_parse S) (se_now se) ev of
                Inr admission \<Rightarrow> logged (handle_inbound S admission)
              | Inl e \<Rightarrow>
                  if errors_is e err_not_inbound_admission then observe_event S H (se_now se) ev
                  else (let channel = trim_space (event_header ev ''Unique-ID'')
                        in do { _ \<leftarrow> (if channel \<noteq> [] then logged (client_hangup S channel) else State_Monad.return ());
                                observe_event S H (se_now se) ev }))
        else observe_event S H (se_now se) ev })"

section \<open>What a translated event says\<close>

lemma rbind_cases: "(case rbind r f of Inl e \<Rightarrow> P e | Inr y \<Rightarrow> Q y) \<longleftrightarrow> (case r of Inl e \<Rightarrow> P e | Inr x \<Rightarrow> (case f x of Inl e \<Rightarrow> P e | Inr y \<Rightarrow> Q y))"
  by (cases r) simp_all

lemma lifecycle_event_type_cases:
  "case lifecycle_event_type ev of
     Inl e \<Rightarrow> ev_name ev \<notin> set freeswitch_events \<and> errors_is e err_unsupported_event \<and> \<not> errors_is e err_uncorrelated_event
   | Inr t \<Rightarrow> ev_name ev \<in> set freeswitch_events
       \<and> t \<in> {lc_initiated, lc_ringing, lc_answered, lc_held, lc_resumed, lc_completed, lc_failed, lc_cancelled}
       \<and> (is_terminal_lifecycle t \<longleftrightarrow> ev_name ev = ''CHANNEL_HANGUP_COMPLETE'')
       \<and> (t = lc_completed \<longleftrightarrow> ev_name ev = ''CHANNEL_HANGUP_COMPLETE'' \<and> event_answered ev)"
  by (simp add: lifecycle_event_type_def Let_def freeswitch_events_def lifecycle_types is_terminal_lifecycle_def translation_errs)

lemma required_text_cases: "(case required_text m v of Inl e \<Rightarrow> P e | Inr x \<Rightarrow> Q x) \<longleftrightarrow> (if v = [] then P (Errf m []) else Q v)"
  by (simp add: required_text_def)

lemma freeswitch_event_time_Inl:
  "freeswitch_event_time now ev = Inl e \<Longrightarrow> \<not> errors_is e err_uncorrelated_event \<and> \<not> errors_is e err_unsupported_event"
  by (auto simp: freeswitch_event_time_def Let_def translation_errs split: if_splits option.splits)


end
