(* ===== verification/Call_Spec.thy ===== *)
theory Call_Spec
  imports Fs_Events
begin

text \<open>
  The abstract specification of the call store and the refinement to it: \<open>db_step\<close> lists the
  committed effects, one SQL statement or transaction each, and every operation of
  \<open>Call_Service\<close> and \<open>Call_Flows\<close> only ever performs such steps, whatever faults it meets. The
  safety of calls is then an invariant of \<open>db_step\<close>.
\<close>

section \<open>Committed effects\<close>

datatype call_transition =
    Tr_Ringing | Tr_Answered | Tr_Active | Tr_Held | Tr_Resumed
  | Tr_Completed "string option" | Tr_Failed "string option" | Tr_Cancelled "string option"

fun subject_of :: "call_transition \<Rightarrow> string" where
  "subject_of Tr_Ringing = ''call.ringing''"
| "subject_of Tr_Answered = ''call.answered''"
| "subject_of Tr_Active = ''call.active''"
| "subject_of Tr_Held = ''call.held''"
| "subject_of Tr_Resumed = ''call.resumed''"
| "subject_of (Tr_Completed r) = ''call.completed''"
| "subject_of (Tr_Failed r) = ''call.failed''"
| "subject_of (Tr_Cancelled r) = ''call.cancelled''"

fun statement_of :: "call_transition \<Rightarrow> uuid \<Rightarrow> uuid \<Rightarrow> int \<Rightarrow> database \<Rightarrow> (go_err + call) \<times> database" where
  "statement_of Tr_Ringing = sql_mark_ringing"
| "statement_of Tr_Answered = sql_mark_answered"
| "statement_of Tr_Active = sql_mark_active"
| "statement_of Tr_Held = sql_mark_held"
| "statement_of Tr_Resumed = sql_mark_resumed"
| "statement_of (Tr_Completed r) = sql_mark_completed r"
| "statement_of (Tr_Failed r) = sql_mark_failed r"
| "statement_of (Tr_Cancelled r) = sql_mark_cancelled r"

definition tx_effects :: "string \<Rightarrow> call \<Rightarrow> int \<Rightarrow> int \<Rightarrow> int \<Rightarrow> database \<Rightarrow> database" where
  "tx_effects subject c t1 t2 t3 db = outbox_insert subject c t3
     (if is_terminal_state (cl_state c)
      then sql_finish_attempts (cl_id c) t2 (sql_enqueue_cleanup (cl_id c) (cl_org c) t1 db) else db)"

inductive db_step :: "database \<Rightarrow> database \<Rightarrow> bool" where
  db_create: "sql_create_call n i t db = (Inr c, db1) \<Longrightarrow> nc_state n \<in> {None, Some state_ringing}
     \<Longrightarrow> db_step db (tx_effects subject c t1 t2 t3 db1)"
| db_mark: "statement_of tr org i t db = (Inr c, db1) \<Longrightarrow> db_step db (tx_effects (subject_of tr) c t1 t2 t3 db1)"
| db_route: "db_step db (snd (sql_set_route trunk endpoint org i t db))"
| db_sip: "db_step db (snd (sql_set_sip sip org i t db))"
| db_prepare: "db_step db (snd (sql_prepare_attempt ch i org trunk endpoint t db))"
| db_attempts: "db_step db (sql_update_attempts p status t db)"
| db_defer_attempt: "db_step db (sql_defer_attempt ch t db)"
| db_defer_cleanup: "db_step db (sql_defer_cleanup i t db)"
| db_finish_cleanup: "db_step db (sql_delete_cleanup i db)"

inductive_cases db_stepE: "db_step db db'"

section \<open>The refinement\<close>

abbreviation db_rel :: "'s world \<Rightarrow> 's world \<Rightarrow> bool" where
  "db_rel w w' \<equiv> db_step\<^sup>*\<^sup>* (w_db w) (w_db w')"

interpretation gdb: guarantee "db_rel :: 's world \<Rightarrow> 's world \<Rightarrow> bool"
  by unfold_locales (auto intro: rtranclp_trans)

lemma g_same_db: "(\<And>w. w_db (snd (run_state m w)) = w_db w) \<Longrightarrow> state_io_rel db_rel m"
  by (simp add: state_io_rel_def)

lemma g_tick: "state_io_rel db_rel (tick S)"
  by (rule g_same_db) simp

lemma g_tick_no: "state_io_rel db_rel tick_no"
  by (rule g_same_db) simp

lemma g_state: "(\<And>w. w_db (snd (f w)) = w_db w) \<Longrightarrow> state_io_rel db_rel (State f)"
  by (rule g_same_db) simp

lemma g_redis_do: "state_io_rel db_rel (redis_do f)"
  unfolding redis_do_def by (rule g_state) (simp split: prod.split)

lemma g_redis_read: "state_io_rel db_rel (redis_read f)"
  unfolding redis_read_def by (rule g_state) simp

lemma g_db_query: "state_io_rel db_rel (db_query S q)"
  unfolding db_query_def by (intro gdb.g_bind g_tick g_state) simp

lemma g_db_exec:
  assumes "\<And>se db. db_step\<^sup>*\<^sup>* db (snd (q se db))"
  shows "state_io_rel db_rel (db_exec S q)"
  unfolding db_exec_def
proof (intro gdb.g_bind g_tick)
  fix se
  show "state_io_rel db_rel (State (\<lambda>w. case q se (w_db w) of (r, db') \<Rightarrow>
       (case se_fault se of None \<Rightarrow> (r, w\<lparr>w_db := db'\<rparr>)
        | Some (e, applied) \<Rightarrow> (Inl e, if applied then w\<lparr>w_db := db'\<rparr> else w))))"
    using assms [of _ se] by (auto simp: state_io_rel_def split: prod.split option.split) (metis snd_conv)+
qed

lemma g_db_exec1: "(\<And>se db. db_step db (snd (q se db))) \<Longrightarrow> state_io_rel db_rel (db_exec S q)"
  by (rule g_db_exec) (blast intro: r_into_rtranclp)

lemma run_tx_step: "w_db (snd (run_state (tx_step S wrap q) w)) = w_db w"
  by (simp add: tx_step_def)

lemma tx_step_Inr: "run_state (tx_step S wrap q) w = (Inr (x, db), w') \<Longrightarrow> \<exists>se. q se = (Inr x, db) \<and> w_db w' = w_db w"
  by (auto simp: tx_step_def split: option.splits prod.splits sum.splits)

lemma tx_step_Inl: "run_state (tx_step S wrap q) w = (Inl e, w') \<Longrightarrow> w_db w' = w_db w"
  by (auto simp: tx_step_def split: option.splits prod.splits sum.splits)

lemma tx_begin_run: "run_state (tx_begin S) w = (r, w') \<Longrightarrow> w_db w' = w_db w \<and> (\<forall>db. r = Inr db \<longrightarrow> db = w_db w)"
  by (auto simp: tx_begin_def split: option.splits prod.splits)

lemma tx_commit_run: "run_state (tx_commit S db) w = (r, w') \<Longrightarrow> (w_db w' = db) \<or> (w_db w' = w_db w \<and> (\<exists>e. r = Inl e))"
  by (auto simp: tx_commit_def split: option.splits prod.splits if_splits)

text \<open>
  A transaction that answers a call has committed exactly its effects; one that fails has committed
  nothing, unless the commit itself failed after it was applied.
\<close>

lemma repo_mutate_run:
  assumes "run_state (repo_mutate S subject m) w = (r, w')"
  shows "(w_db w' = w_db w \<and> (\<exists>e. r = Inl e)) \<or>
     (\<exists>se c db1 t1 t2 t3. m se (w_db w) = (Inr c, db1) \<and> w_db w' = tx_effects subject c t1 t2 t3 db1
        \<and> (r = Inr c \<or> (\<exists>e. r = Inl (Wrap ''commit call transaction: %w'' [] e))))"
proof -
  obtain r0 w0 where b: "run_state (tx_begin S) w = (r0, w0)" by (cases "run_state (tx_begin S) w")
  note b' = tx_begin_run [OF b]
  show ?thesis
  proof (cases r0)
    case (Inl e)
    then show ?thesis using assms b b' by (auto simp: repo_mutate_def run_chain)
  next
    case (Inr db0)
    then have db0: "db0 = w_db w" using b' by simp
    obtain r1 w1 where s1: "run_state (tx_step S (\<lambda>e. e) (\<lambda>se. m se db0)) w0 = (r1, w1)"
      by (cases "run_state (tx_step S (\<lambda>e. e) (\<lambda>se. m se db0)) w0")
    show ?thesis
    proof (cases r1)
      case (Inl e)
      then show ?thesis using assms b b' Inr s1 tx_step_Inl [of S "\<lambda>e. e" _ w0 e w1]
        by (auto simp: repo_mutate_def run_chain)
    next
      case Inr1: (Inr p)
      obtain c db1 where p: "p = (c, db1)" by (cases p)
      obtain se where m: "m se db0 = (Inr c, db1)" and w1: "w_db w1 = w_db w0"
        using tx_step_Inr [of S "\<lambda>e. e" "\<lambda>se. m se db0" w0 c db1 w1] s1 Inr1 p by auto
      let ?fin = "if is_terminal_state (cl_state c)
            then chain (tx_step S (Wrap ''enqueue terminal call admission cleanup: %w'' [])
                        (\<lambda>se. (Inr (), sql_enqueue_cleanup (cl_id c) (cl_org c) (se_now se) db1))) (\<lambda>(_, db2).
                 tx_step S (Wrap ''finish origination tracking for terminal call: %w'' [])
                   (\<lambda>se. (Inr (), sql_finish_attempts (cl_id c) (se_now se) db2)))
            else succeed ((), db1)"
      obtain r2 w2 where s2: "run_state ?fin w1 = (r2, w2)" by (cases "run_state ?fin w1")
      have w2: "w_db w2 = w_db w1 \<and> (\<forall>db3. r2 = Inr ((), db3) \<longrightarrow> (\<exists>t1 t2. db3 =
          (if is_terminal_state (cl_state c) then sql_finish_attempts (cl_id c) t2
             (sql_enqueue_cleanup (cl_id c) (cl_org c) t1 db1) else db1)))"
        using s2 by (auto simp: run_chain tx_step_def split: option.splits prod.splits sum.splits if_splits)
      show ?thesis
      proof (cases r2)
        case (Inl e)
        then show ?thesis using assms b b' Inr s1 Inr1 p s2 w1 w2 by (auto simp: repo_mutate_def run_chain)
      next
        case Inr2: (Inr q)
        obtain db3 where q: "q = ((), db3)" by (cases q) auto
        obtain r3 w3 where s3: "run_state (tx_step S (Wrap ''insert call outbox event: %w'' [])
              (\<lambda>se. (Inr (), outbox_insert subject c (se_now se) db3))) w2 = (r3, w3)"
          by (cases "run_state (tx_step S (Wrap ''insert call outbox event: %w'' [])
              (\<lambda>se. (Inr (), outbox_insert subject c (se_now se) db3))) w2")
        have w3: "w_db w3 = w_db w2 \<and> (\<forall>db4. r3 = Inr ((), db4) \<longrightarrow> (\<exists>t3. db4 = outbox_insert subject c t3 db3))"
          using s3 by (auto simp: tx_step_def split: option.splits)
        show ?thesis
        proof (cases r3)
          case (Inl e)
          then show ?thesis using assms b b' Inr s1 Inr1 p s2 w1 w2 Inr2 q s3 w3
            by (auto simp: repo_mutate_def run_chain)
        next
          case Inr3: (Inr q')
          obtain db4 where q': "q' = ((), db4)" by (cases q') auto
          obtain r4 w4 where s4: "run_state (tx_commit S db4) w3 = (r4, w4)" by (cases "run_state (tx_commit S db4) w3")
          obtain t1 t2 t3 where eff: "db4 = tx_effects subject c t1 t2 t3 db1"
            using w2 w3 Inr2 q Inr3 q' by (fastforce simp: tx_effects_def)
          have fin: "r = (case r4 of Inl e \<Rightarrow> Inl e | Inr _ \<Rightarrow> Inr c)" "w' = w4"
            using assms b Inr s1 Inr1 p s2 Inr2 q s3 Inr3 q' s4
            by (auto simp: repo_mutate_def run_chain split: sum.splits)
          have ce: "\<exists>e'. e = Wrap ''commit call transaction: %w'' [] e'" if "r4 = Inl e" for e
            using s4 that by (auto simp: tx_commit_def split: option.splits prod.splits)
          show ?thesis
            using tx_commit_run [OF s4] fin m db0 eff w1 w2 w3 b' ce
            by (cases r4) (auto, blast+)
        qed
      qed
    qed
  qed
qed

lemma g_mutate:
  assumes "\<And>se db c db1 t1 t2 t3. m se db = (Inr c, db1) \<Longrightarrow> db_step db (tx_effects subject c t1 t2 t3 db1)"
  shows "state_io_rel db_rel (repo_mutate S subject m)"
proof (rule state_io_relI)
  fix r w w'
  assume "run_state (repo_mutate S subject m) w = (r, w')"
  from repo_mutate_run [OF this] show "db_rel w w'"
    using assms by (auto intro: r_into_rtranclp)
qed

lemma g_mark:
  assumes "m = (\<lambda>se. statement_of tr org i (se_now se))" "subject = subject_of tr"
  shows "state_io_rel db_rel (repo_mutate S subject m)"
  by (rule g_mutate) (auto simp: assms intro: db_mark)

section \<open>Every operation refines the specification\<close>

named_theorems guar \<open>actions whose effect on the database is a run of \<open>db_step\<close>\<close>

lemma g_repo_create [guar]: "state_io_rel db_rel (repo_create S org req)"
  unfolding repo_create_def
  by (rule g_mutate) (erule db_create, simp)

lemma g_repo_create_inbound [guar]: "state_io_rel db_rel (repo_create_inbound S req)"
  unfolding repo_create_inbound_def
  by (rule g_mutate) (erule db_create, simp)

lemma g_repo_marks [guar]:
  "state_io_rel db_rel (repo_mark_ringing S org i)"
  "state_io_rel db_rel (repo_mark_answered S org i)"
  "state_io_rel db_rel (repo_mark_active S org i)"
  "state_io_rel db_rel (repo_mark_held S org i)"
  "state_io_rel db_rel (repo_mark_resumed S org i)"
  "state_io_rel db_rel (repo_mark_completed S org i reason)"
  "state_io_rel db_rel (repo_mark_failed S org i reason)"
  "state_io_rel db_rel (repo_mark_cancelled S org i reason)"
  unfolding repo_marks
  by (rule g_mark [where tr = Tr_Ringing], simp, simp)
    (rule g_mark [where tr = Tr_Answered], simp, simp,
     rule g_mark [where tr = Tr_Active], simp, simp,
     rule g_mark [where tr = Tr_Held], simp, simp,
     rule g_mark [where tr = Tr_Resumed], simp, simp,
     rule g_mark [where tr = "Tr_Completed reason"], simp, simp,
     rule g_mark [where tr = "Tr_Failed reason"], simp, simp,
     rule g_mark [where tr = "Tr_Cancelled reason"], simp, simp)

lemma g_repo_statements [guar]:
  "state_io_rel db_rel (repo_set_route S org i trunk endpoint)"
  "state_io_rel db_rel (repo_bind_sip S org i sip)"
  "state_io_rel db_rel (repo_prepare_origination S channel i org t e)"
  "state_io_rel db_rel (repo_origination_submitted S channel)"
  "state_io_rel db_rel (repo_origination_uncertain S channel)"
  "state_io_rel db_rel (repo_origination_observed S i channel)"
  "state_io_rel db_rel (repo_origination_finished S i)"
  "state_io_rel db_rel (repo_defer_origination S channel)"
  "state_io_rel db_rel (repo_defer_cleanup S i)"
  "state_io_rel db_rel (repo_finish_cleanup S i)"
  unfolding repo_set_route_def repo_bind_sip_def repo_prepare_origination_def repo_origination_submitted_def
    repo_origination_uncertain_def repo_origination_observed_def repo_origination_finished_def
    repo_defer_origination_def repo_defer_cleanup_def repo_finish_cleanup_def with_channel_def
    sql_attempt_submitted_def sql_attempt_uncertain_def sql_attempt_observed_def sql_finish_attempts_def
  by (intro gdb.g_rules g_db_exec1, simp add: db_step.intros)+

lemma g_reads [guar]:
  "state_io_rel db_rel (repo_get_by_sip S sip)" "state_io_rel db_rel (repo_get S org i)"
  "state_io_rel db_rel (repo_snapshot S i)" "state_io_rel db_rel (repo_list_active S)"
  "state_io_rel db_rel (repo_list_unresolved S)" "state_io_rel db_rel (repo_list_due_cleanup S)"
  "state_io_rel db_rel (repo_cleanup_trunks S i)" "state_io_rel db_rel (repo_count_unresolved S)"
  "state_io_rel db_rel (repo_count_cleanup S)" "state_io_rel db_rel (repo_list S org lreq)"
  unfolding repo_get_by_sip_def repo_get_def repo_snapshot_def repo_list_active_def repo_list_unresolved_def
    repo_list_due_cleanup_def repo_cleanup_trunks_def repo_count_unresolved_def repo_count_cleanup_def repo_list_def
  by (rule g_db_query)+

lemma g_redis_actions [guar]:
  "state_io_rel db_rel (admission_acquire S t l lim)" "state_io_rel db_rel (admission_bind S t l i)"
  "state_io_rel db_rel (admission_release S t l)" "state_io_rel db_rel (admission_refresh S t i)"
  "state_io_rel db_rel (admission_acquire_org S t l m)" "state_io_rel db_rel (admission_bind_org S t l i)"
  "state_io_rel db_rel (admission_release_org S t l)" "state_io_rel db_rel (admission_refresh_org S t i)"
  "state_io_rel db_rel (channels_bind S i ch)" "state_io_rel db_rel (channels_get S i)"
  "state_io_rel db_rel (channels_get_call_id S ch)" "state_io_rel db_rel (channels_delete S i)"
  unfolding redis_actions by (intro gdb.g_rules g_tick g_redis_do g_redis_read)+

lemma g_client_command [guar]: "state_io_rel db_rel (client_command S command)"
  unfolding client_command_def by (intro gdb.g_rules g_tick g_state) (simp split: option.split)

lemma g_api [guar]: "state_io_rel db_rel (api_command S command)" "state_io_rel db_rel (bgapi S command)"
  unfolding api_command_def bgapi_def by (intro gdb.g_rules guar)+

lemma g_control [guar]:
  "state_io_rel db_rel (control_answer S ch)" "state_io_rel db_rel (control_hangup S ch)"
  "state_io_rel db_rel (control_transfer S ch d p x)" "state_io_rel db_rel (control_hold S ch)"
  "state_io_rel db_rel (control_resume S ch)" "state_io_rel db_rel (control_play_audio S ch path)"
  "state_io_rel db_rel (control_stop_playback S ch)" "state_io_rel db_rel (control_record S ch path a)"
  "state_io_rel db_rel (control_send_dtmf S ch d)" "state_io_rel db_rel (control_set_call_id S ch i)"
  "state_io_rel db_rel (client_channel_exists S ch)"
  unfolding control_defs client_defs client_channel_exists_def by (intro gdb.g_rules guar)+

lemma g_originate [guar]: "state_io_rel db_rel (control_originate S req)"
  unfolding control_originate_def client_originate_def
  by (intro gdb.g_rules guar g_tick g_state) simp

lemma g_checks [guar]:
  "state_io_rel db_rel (require_recording_storage S org)" "state_io_rel db_rel (require_runtime_allowance S org)"
  "state_io_rel db_rel (require_voice_agent_ready S org a)" "state_io_rel db_rel (require_call_agent_ready S c)"
  unfolding require_recording_storage_def require_runtime_allowance_def require_voice_agent_ready_def
    require_call_agent_ready_def by (intro gdb.g_rules g_tick_no)+

lemma g_service_marks [guar]:
  "state_io_rel db_rel (mark_ringing S org i)" "state_io_rel db_rel (mark_answered S org i)"
  "state_io_rel db_rel (mark_active S org i)" "state_io_rel db_rel (mark_held S org i)"
  "state_io_rel db_rel (mark_resumed S org i)" "state_io_rel db_rel (mark_completed S org i r)"
  "state_io_rel db_rel (mark_failed S org i r)" "state_io_rel db_rel (mark_cancelled S org i r)"
  unfolding service_marks by (intro gdb.g_rules guar)+

lemma g_cleanup [guar]: "state_io_rel db_rel (cleanup_terminal_admission S i org)"
  unfolding cleanup_terminal_admission_def by (intro gdb.g_rules guar)

lemma g_cleanup_after [guar]: "state_io_rel db_rel (cleanup_after_lifecycle S i org)"
  unfolding cleanup_after_lifecycle_def by (intro gdb.g_rules guar)

lemma g_lifecycle_parts [guar]:
  "state_io_rel db_rel (observe_outbound S ev c)" "state_io_rel db_rel (refresh_call_leases S i c m1 m2)"
  "state_io_rel db_rel (apply_lifecycle S ev c)"
  unfolding observe_outbound_def refresh_call_leases_def apply_lifecycle_def unit_result_def internal_as_def
  by (intro gdb.g_rules guar)+

lemma g_observe_lifecycle [guar]: "state_io_rel db_rel (observe_lifecycle S ev)"
  unfolding observe_lifecycle_def internal_as_def by (intro gdb.g_rules guar)

lemma g_control_context [guar]: "state_io_rel db_rel (control_context S org i)"
  unfolding control_context_def service_get_def by (intro gdb.g_rules guar)

lemma g_controlled [guar]: "(\<And>ch. state_io_rel db_rel (f ch)) \<Longrightarrow> state_io_rel db_rel (controlled S org i allowed f)"
  unfolding controlled_def internal_as_def by (intro gdb.g_rules guar)

lemma g_service_control [guar]:
  "state_io_rel db_rel (service_answer S org i)" "state_io_rel db_rel (service_hangup S org i)"
  "state_io_rel db_rel (service_transfer S org i d)" "state_io_rel db_rel (service_hold S org i)"
  "state_io_rel db_rel (service_resume S org i)" "state_io_rel db_rel (service_play S org i path)"
  "state_io_rel db_rel (service_stop S org i)" "state_io_rel db_rel (service_record S org i path a)"
  "state_io_rel db_rel (service_dtmf S org i d)" "state_io_rel db_rel (service_set_route S org i t e)"
  unfolding service_answer_def service_hangup_def service_transfer_def service_hold_def service_resume_def
    service_play_def service_stop_def service_record_def service_dtmf_def service_set_route_def internal_as_def
  by (intro gdb.g_rules guar)+

lemma g_inbound_parts [guar]:
  "state_io_rel db_rel (acquire_organization_admission S org lease)"
  "state_io_rel db_rel (bind_inbound_channel S c ch)"
  "state_io_rel db_rel (reject_inbound S ch e)"
  "state_io_rel db_rel (ensure_inbound_attribution S c req)"
  unfolding acquire_organization_admission_def bind_inbound_channel_def reject_inbound_def
    ensure_inbound_attribution_def internal_as_def by (intro gdb.g_rules guar g_tick_no)+

lemma g_failed_release [guar]:
  "state_io_rel db_rel k \<Longrightarrow> state_io_rel db_rel (failed_inbound S req i r k)"
  "state_io_rel db_rel k \<Longrightarrow> state_io_rel db_rel (release_both S t a org b k)"
  "state_io_rel db_rel k \<Longrightarrow> state_io_rel db_rel (fail_call S org c r k)"
  "state_io_rel db_rel k \<Longrightarrow> state_io_rel db_rel (release_org S org c k)"
  unfolding failed_inbound_def release_both_def fail_call_def release_org_def by (auto intro!: gdb.g_ignore guar)

lemma g_resume_inbound [guar]: "state_io_rel db_rel (resume_inbound S c req)"
  unfolding resume_inbound_def Let_def by (intro gdb.g_rules guar)

lemma g_admit_new [guar]: "state_io_rel db_rel (admit_new_inbound S req trunk)"
  unfolding admit_new_inbound_def Let_def by (intro gdb.g_rules guar)

lemma g_admit_inbound [guar]: "state_io_rel db_rel (admit_inbound S req)"
  unfolding admit_inbound_def Let_def by (intro gdb.g_rules guar g_tick_no)

lemma g_observe_route [guar]: "state_io_rel db_rel (observe_route S r k o' c)"
  unfolding observe_route_def by (rule g_state) simp

lemma g_route_loop: "(\<And>r. state_io_rel db_rel (attempt r)) \<Longrightarrow> state_io_rel db_rel (route_loop S attempt k routes prev)"
proof (induction routes arbitrary: k prev)
  case Nil
  then show ?case by (simp add: gdb.g_return)
next
  case (Cons r routes)
  have c: "state_io_rel db_rel (ctx_err S)" unfolding ctx_err_def by (intro gdb.g_rules g_tick)
  show ?case unfolding route_loop.simps by (intro gdb.g_rules guar c Cons.prems Cons.IH)
qed

lemma g_attempt_route [guar]: "state_io_rel db_rel (attempt_route S org req c r)"
  unfolding attempt_route_def Let_def by (intro gdb.g_rules guar g_tick g_tick_no)

lemma g_originate_call [guar]: "state_io_rel db_rel (originate_call S org req c routes)"
  unfolding originate_call_def execute_route_plan_def
  by (intro gdb.g_rules guar g_route_loop)

lemma g_create_call [guar]: "state_io_rel db_rel (create_call S org req)"
  unfolding create_call_def Let_def by (intro gdb.g_rules guar g_tick_no)

lemma g_bump [guar]: "state_io_rel db_rel (bump f)"
  unfolding bump_def by (rule g_state) simp

lemma g_reconcile_parts [guar]:
  "state_io_rel db_rel (reconcile_one_origination S a)" "state_io_rel db_rel (reconcile_one_cleanup S item)"
  "state_io_rel db_rel (refresh_active S ac)"
  unfolding reconcile_one_origination_def reconcile_one_cleanup_def refresh_active_def Let_def
  by (intro gdb.g_rules guar)+

lemma g_run_pass [guar]: "state_io_rel db_rel (run_pass S)"
  unfolding run_pass_def reconcile_def reconcile_originations_def reconcile_terminal_cleanup_def
  by (intro gdb.g_rules guar g_state) simp

lemma g_handle_event [guar]: "state_io_rel db_rel (handle_event S H ev)"
  unfolding handle_event_def observe_event_def record_event_def attach_agent_def correlate_def logged_def hook_def
    handle_inbound_def consume_inbound_def consume_lifecycle_def resolve_lifecycle_call_def resolve_channel_call_id_def
    unit_result_def client_hangup_def client_unary_def command_ok_def Let_def
  by (intro gdb.g_rules guar g_tick g_tick_no)+

section \<open>Histories of operations\<close>

text \<open>What reaches the call service: requests, events of FreeSWITCH (translated, or raw as the worker receives them) and passes of the job.\<close>

datatype call_op =
    Op_Create uuid create_request
  | Op_Inbound admission_request
  | Op_Event lifecycle_event
  | Op_Frame worker_hooks fs_event
  | Op_Reconcile
  | Op_Answer uuid uuid | Op_Hangup uuid uuid | Op_Hold uuid uuid | Op_Resume uuid uuid | Op_Stop uuid uuid
  | Op_Transfer uuid uuid string | Op_Play uuid uuid string | Op_Record uuid uuid string string | Op_Dtmf uuid uuid string
  | Op_Route uuid uuid "uuid option" "uuid option"

fun run_op :: "'s service \<Rightarrow> call_op \<Rightarrow> 's world \<Rightarrow> 's world" where
  "run_op S (Op_Create org req) w = snd (run_state (create_call S org req) w)"
| "run_op S (Op_Inbound req) w = snd (run_state (admit_inbound S req) w)"
| "run_op S (Op_Event ev) w = snd (run_state (observe_lifecycle S ev) w)"
| "run_op S (Op_Frame H ev) w = snd (run_state (handle_event S H ev) w)"
| "run_op S Op_Reconcile w = snd (run_state (run_pass S) w)"
| "run_op S (Op_Answer org i) w = snd (run_state (service_answer S org i) w)"
| "run_op S (Op_Hangup org i) w = snd (run_state (service_hangup S org i) w)"
| "run_op S (Op_Hold org i) w = snd (run_state (service_hold S org i) w)"
| "run_op S (Op_Resume org i) w = snd (run_state (service_resume S org i) w)"
| "run_op S (Op_Stop org i) w = snd (run_state (service_stop S org i) w)"
| "run_op S (Op_Transfer org i d) w = snd (run_state (service_transfer S org i d) w)"
| "run_op S (Op_Play org i p) w = snd (run_state (service_play S org i p) w)"
| "run_op S (Op_Record org i p a) w = snd (run_state (service_record S org i p a) w)"
| "run_op S (Op_Dtmf org i d) w = snd (run_state (service_dtmf S org i d) w)"
| "run_op S (Op_Route org i t e) w = snd (run_state (service_set_route S org i t e) w)"

lemma run_op_refines: "db_rel w (run_op S op w)"
  by (cases op) (simp_all add: gdb.g_run guar)

lemma run_ops_refine: "db_rel w (fold (run_op S) ops w)"
proof (induction ops arbitrary: w)
  case (Cons op ops)
  have "db_rel (run_op S op w) (fold (run_op S) ops (run_op S op w))" by (rule Cons.IH)
  with run_op_refines [of w S op] show ?case by simp
qed simp

end
