(* ===== verification/Call_Lifecycle.thy ===== *)
theory Call_Lifecycle
  imports Call_Spec
begin

text \<open>
  The life of a call in the database, proved on \<open>db_step\<close> and carried to every history of service
  operations by the refinement: rows are never lost, states only move forward and a terminal call is
  final, identities stay unique, and the outbox ends in the durable state of every call.
\<close>

section \<open>Statements as updates\<close>

lemma update_call_snd:
  "snd (update_call p f t db) = db\<lparr>db_calls := map (\<lambda>c. if p c then (f c)\<lparr>cl_updated := t\<rparr> else c) (db_calls db)\<rparr>"
proof (cases "find p (db_calls db)")
  case None
  then have "map (\<lambda>c. if p c then (f c)\<lparr>cl_updated := t\<rparr> else c) (db_calls db) = db_calls db"
    by (auto simp: find_None_iff intro: map_idI)
  then show ?thesis by (simp add: update_call_def None)
qed (simp add: update_call_def)

lemma update_call_Inr:
  "update_call p f t db = (Inr c, db1) \<Longrightarrow> \<exists>c0 \<in> set (db_calls db). p c0 \<and> c = (f c0)\<lparr>cl_updated := t\<rparr>
     \<and> db1 = db\<lparr>db_calls := map (\<lambda>c. if p c then (f c)\<lparr>cl_updated := t\<rparr> else c) (db_calls db)\<rparr>"
  by (auto simp: update_call_def find_Some_iff split: option.splits)

lemmas mark_defs = sql_mark_ringing_def sql_mark_answered_def sql_mark_active_def sql_mark_held_def
  sql_mark_resumed_def sql_mark_completed_def sql_mark_failed_def sql_mark_cancelled_def

lemma db_calls_bookkeeping [simp]:
  "db_calls (outbox_insert s c t db) = db_calls db"
  "db_calls (sql_enqueue_cleanup i org t db) = db_calls db"
  "db_calls (sql_update_attempts q st t db) = db_calls db"
  "db_calls (sql_finish_attempts i t db) = db_calls db"
  "db_calls (sql_defer_attempt ch t db) = db_calls db"
  "db_calls (sql_defer_cleanup i t db) = db_calls db"
  "db_calls (sql_delete_cleanup i db) = db_calls db"
  "db_calls (tx_effects s c t1 t2 t3 db) = db_calls db"
  by (simp_all add: outbox_insert_def sql_enqueue_cleanup_def sql_update_attempts_def sql_finish_attempts_def
      sql_defer_attempt_def sql_defer_cleanup_def sql_delete_cleanup_def tx_effects_def)

lemma db_outbox_bookkeeping [simp]:
  "db_outbox (outbox_insert s c t db) = db_outbox db @ [\<lparr>ob_subject = s, ob_call = c, ob_at = t\<rparr>]"
  "db_outbox (sql_enqueue_cleanup i org t db) = db_outbox db"
  "db_outbox (sql_update_attempts q st t db) = db_outbox db"
  "db_outbox (sql_finish_attempts i t db) = db_outbox db"
  "db_outbox (sql_defer_attempt ch t db) = db_outbox db"
  "db_outbox (sql_defer_cleanup i t db) = db_outbox db"
  "db_outbox (sql_delete_cleanup i db) = db_outbox db"
  "db_outbox (tx_effects s c t1 t2 t3 db) = db_outbox db @ [\<lparr>ob_subject = s, ob_call = c, ob_at = t3\<rparr>]"
  by (simp_all add: outbox_insert_def sql_enqueue_cleanup_def sql_update_attempts_def sql_finish_attempts_def
      sql_defer_attempt_def sql_defer_cleanup_def sql_delete_cleanup_def tx_effects_def)

lemma prepare_bookkeeping [simp]:
  "db_calls (snd (sql_prepare_attempt ch i org trunk endpoint t db)) = db_calls db"
  "db_outbox (snd (sql_prepare_attempt ch i org trunk endpoint t db)) = db_outbox db"
  by (simp_all add: sql_prepare_attempt_def)

section \<open>Rows only move forward\<close>

definition state_rank :: "string \<Rightarrow> nat" where
  "state_rank s = (if s = state_initiating then 0 else if s = state_ringing then 1
     else if s = state_answered then 2 else if s = state_active then 3 else 4)"

definition evolves :: "call \<Rightarrow> call \<Rightarrow> bool" where
  "evolves c c' \<longleftrightarrow>
     (cl_id c', cl_org c', cl_agent c', cl_direction c', cl_from c', cl_to c', cl_created c')
       = (cl_id c, cl_org c, cl_agent c, cl_direction c, cl_from c, cl_to c, cl_created c)
   \<and> state_rank (cl_state c) \<le> state_rank (cl_state c')
   \<and> (is_terminal_state (cl_state c) \<longrightarrow>
        (cl_state c', cl_media c', cl_answered c', cl_ended c', cl_reason c')
          = (cl_state c, cl_media c, cl_answered c, cl_ended c, cl_reason c))
   \<and> (cl_sip c \<noteq> None \<longrightarrow> cl_sip c' = cl_sip c)"

lemma evolves_refl [simp]: "evolves c c"
  by (simp add: evolves_def)

lemma evolves_trans: "evolves a b \<Longrightarrow> evolves b c \<Longrightarrow> evolves a c"
  by (auto simp: evolves_def)

lemma evolves_stamp [simp]: "evolves c (c'\<lparr>cl_updated := t\<rparr>) \<longleftrightarrow> evolves c c'"
  by (simp add: evolves_def)

definition keeps_rows :: "database \<Rightarrow> database \<Rightarrow> bool" where
  "keeps_rows db db' \<longleftrightarrow> (\<forall>c \<in> set (db_calls db). \<exists>c' \<in> set (db_calls db'). evolves c c')"

lemma keeps_rows_superset: "set (db_calls db) \<subseteq> set (db_calls db') \<Longrightarrow> keeps_rows db db'"
  unfolding keeps_rows_def using evolves_refl by blast

lemma keeps_rows_same: "db_calls db' = db_calls db \<Longrightarrow> keeps_rows db db'"
  by (rule keeps_rows_superset) simp

lemma keeps_rows_update:
  assumes "\<And>c. p c \<Longrightarrow> evolves c (f c)"
  shows "keeps_rows db (snd (update_call p f t db))"
  unfolding keeps_rows_def
proof
  fix c
  let ?g = "\<lambda>c. if p c then (f c)\<lparr>cl_updated := t\<rparr> else c"
  assume "c \<in> set (db_calls db)"
  then have "?g c \<in> set (db_calls (snd (update_call p f t db)))" by (simp add: update_call_snd)
  moreover have "evolves c (?g c)" using assms by simp
  ultimately show "\<exists>c' \<in> set (db_calls (snd (update_call p f t db))). evolves c c'" by blast
qed

lemma state_facts [simp]:
  "state_rank state_initiating = 0" "state_rank state_ringing = 1" "state_rank state_answered = 2"
  "state_rank state_active = 3" "state_rank state_completed = 4" "state_rank state_failed = 4"
  "state_rank state_cancelled = 4"
  "\<not> is_terminal_state state_initiating" "\<not> is_terminal_state state_ringing"
  "\<not> is_terminal_state state_answered" "\<not> is_terminal_state state_active"
  "is_terminal_state state_completed" "is_terminal_state state_failed" "is_terminal_state state_cancelled"
  "media_active \<noteq> media_held" "state_ringing \<noteq> state_answered" "state_active \<noteq> state_answered"
  "state_completed \<noteq> state_answered" "state_failed \<noteq> state_answered" "state_cancelled \<noteq> state_answered"
  "state_initiating \<noteq> state_answered" "state_answered \<noteq> state_initiating" "state_active \<noteq> state_initiating"
  by (simp_all add: state_rank_def call_states is_terminal_state_def)

lemma state_rank_le: "state_rank s \<le> 4"
  by (simp add: state_rank_def)

lemma evolves_end_call:
  "state \<in> {state_completed, state_failed, state_cancelled} \<Longrightarrow> \<not> is_terminal_state (cl_state c) \<Longrightarrow>
     evolves c (end_call state reason t c)"
  by (auto simp: evolves_def end_call_def state_rank_le)

lemma live_state: "s \<in> {state_initiating, state_ringing} \<Longrightarrow> \<not> is_terminal_state s"
  by auto

lemma statement_evolves: "keeps_rows db (snd (statement_of tr org i t db))"
proof (cases tr)
  case (Tr_Completed r)
  then show ?thesis by (auto simp: mark_defs is_terminal_state_def intro!: keeps_rows_update evolves_end_call)
next
  case (Tr_Failed r)
  then show ?thesis by (auto simp: mark_defs is_terminal_state_def intro!: keeps_rows_update evolves_end_call)
next
  case (Tr_Cancelled r)
  then show ?thesis by (auto simp: mark_defs intro!: keeps_rows_update evolves_end_call)
qed (auto simp: mark_defs evolves_def intro!: keeps_rows_update)

lemma db_step_keeps_rows: "db_step db db' \<Longrightarrow> keeps_rows db db'"
proof (induction rule: db_step.induct)
  case (db_create n i t db c db1 subject t1 t2 t3)
  then show ?case by (intro keeps_rows_superset) (auto simp: sql_create_call_def Let_def split: if_splits)
next
  case (db_mark tr org i t db c db1 t1 t2 t3)
  then show ?case using statement_evolves [of db tr org i t] by (simp add: keeps_rows_def)
next
  case (db_route db trunk endpoint org i t)
  show ?case unfolding sql_set_route_def by (rule keeps_rows_update) (simp add: evolves_def)
next
  case (db_sip db sip org i t)
  have "keeps_rows db (snd (update_call (\<lambda>c. cl_org c = org \<and> cl_id c = i \<and> cl_direction c = direction_outbound
      \<and> (cl_sip c = None \<or> cl_sip c = Some sip)) (\<lambda>c. c\<lparr>cl_sip := Some sip\<rparr>) t db))"
    by (rule keeps_rows_update) (auto simp: evolves_def)
  then show ?case by (simp add: sql_set_sip_def keeps_rows_same)
qed (simp_all add: keeps_rows_same)

lemma keeps_rows_trans: "keeps_rows a b \<Longrightarrow> keeps_rows b c \<Longrightarrow> keeps_rows a c"
  unfolding keeps_rows_def by (meson evolves_trans)

lemma db_steps_keep_rows: "db_step\<^sup>*\<^sup>* db db' \<Longrightarrow> keeps_rows db db'"
  by (induction rule: rtranclp_induct) (auto intro: keeps_rows_same keeps_rows_trans db_step_keeps_rows)

section \<open>Well-formed tables\<close>

definition call_ok :: "call \<Rightarrow> bool" where
  "call_ok c \<longleftrightarrow> cl_state c \<in> {state_initiating, state_ringing, state_answered, state_active,
        state_completed, state_failed, state_cancelled}
     \<and> cl_media c \<in> {media_active, media_held}
     \<and> (cl_media c = media_held \<longrightarrow> 2 \<le> state_rank (cl_state c))
     \<and> (is_terminal_state (cl_state c) \<longleftrightarrow> cl_ended c \<noteq> None)
     \<and> (cl_state c = state_answered \<longrightarrow> cl_answered c \<noteq> None)"

definition unique_sip :: "call list \<Rightarrow> bool" where
  "unique_sip cs \<longleftrightarrow> (\<forall>c \<in> set cs. \<forall>d \<in> set cs. \<forall>s. cl_sip c = Some s \<longrightarrow> cl_sip d = Some s \<longrightarrow> cl_id c = cl_id d)"

definition last_event :: "database \<Rightarrow> uuid \<Rightarrow> outbox_event option" where
  "last_event db i = find (\<lambda>e. cl_id (ob_call e) = i) (rev (db_outbox db))"

definition outbox_current :: "database \<Rightarrow> call \<Rightarrow> bool" where
  "outbox_current db c \<longleftrightarrow> (\<exists>e. last_event db (cl_id c) = Some e
     \<and> cl_state (ob_call e) = cl_state c \<and> cl_media (ob_call e) = cl_media c)"

definition wf_db :: "database \<Rightarrow> bool" where
  "wf_db db \<longleftrightarrow> distinct (map cl_id (db_calls db)) \<and> unique_sip (db_calls db)
     \<and> (\<forall>c \<in> set (db_calls db). call_ok c \<and> outbox_current db c)"

lemma wf_dbD:
  assumes "wf_db db"
  shows "distinct (map cl_id (db_calls db))" "unique_sip (db_calls db)"
    "c \<in> set (db_calls db) \<Longrightarrow> call_ok c" "c \<in> set (db_calls db) \<Longrightarrow> outbox_current db c"
  using assms by (simp_all add: wf_db_def)

lemma wf_dbI:
  "distinct (map cl_id (db_calls db)) \<Longrightarrow> unique_sip (db_calls db) \<Longrightarrow>
     (\<And>c. c \<in> set (db_calls db) \<Longrightarrow> call_ok c \<and> outbox_current db c) \<Longrightarrow> wf_db db"
  by (simp add: wf_db_def)

lemma wf_db_same: "db_calls db' = db_calls db \<Longrightarrow> db_outbox db' = db_outbox db \<Longrightarrow> wf_db db' \<longleftrightarrow> wf_db db"
  by (simp add: wf_db_def outbox_current_def last_event_def)

lemma map_ids [simp]:
  "map cl_id (map (\<lambda>c. if p c then (f c)\<lparr>cl_updated := t\<rparr> else c) cs) = map cl_id cs" if "\<And>c. cl_id (f c) = cl_id c"
  using that by (induction cs) auto

lemma unique_sip_same:
  "unique_sip cs \<Longrightarrow> (\<And>d. d \<in> set cs' \<Longrightarrow> \<exists>e \<in> set cs. cl_sip d = cl_sip e \<and> cl_id d = cl_id e) \<Longrightarrow> unique_sip cs'"
  unfolding unique_sip_def by metis

text \<open>A single-row update followed by its event.\<close>

lemma wf_update_tx:
  assumes wf: "wf_db db"
    and u: "update_call p f t db = (Inr c, db1)"
    and p: "\<And>c. p c \<Longrightarrow> cl_id c = i"
    and f: "\<And>c. cl_id (f c) = cl_id c" "\<And>c. cl_sip (f c) = cl_sip c" "\<And>c. p c \<Longrightarrow> call_ok c \<Longrightarrow> call_ok ((f c)\<lparr>cl_updated := t\<rparr>)"
  shows "wf_db (tx_effects subject c t1 t2 t3 db1)"
proof -
  obtain c0 where c0: "c0 \<in> set (db_calls db)" "p c0" "c = (f c0)\<lparr>cl_updated := t\<rparr>"
    and db1: "db1 = db\<lparr>db_calls := map (\<lambda>c. if p c then (f c)\<lparr>cl_updated := t\<rparr> else c) (db_calls db)\<rparr>"
    using update_call_Inr [OF u] by blast
  have dist: "distinct (map cl_id (db_calls db))" using wf by (simp add: wf_db_def)
  have only: "p d \<Longrightarrow> d \<in> set (db_calls db) \<Longrightarrow> d = c0" for d
    using p c0 dist by (metis distinct_map inj_on_eq_iff)
  let ?cs = "map (\<lambda>c. if p c then (f c)\<lparr>cl_updated := t\<rparr> else c) (db_calls db)"
  have us: "unique_sip ?cs"
    by (rule unique_sip_same [of "db_calls db"]) (use wf f(1,2) in \<open>auto simp: wf_dbD\<close>)
  have ok: "call_ok d \<and> outbox_current (tx_effects subject c t1 t2 t3 db1) d" if d: "d \<in> set ?cs" for d
  proof -
    from d obtain e where e: "e \<in> set (db_calls db)" "d = (if p e then (f e)\<lparr>cl_updated := t\<rparr> else e)" by auto
    show ?thesis
    proof (cases "p e")
      case True
      then have "e = c0" using only e by blast
      then show ?thesis using True e c0 f wf by (auto simp: wf_db_def outbox_current_def last_event_def)
    next
      case False
      then have "cl_id e \<noteq> cl_id c0" using e c0 dist by (metis distinct_map inj_on_eq_iff)
      then show ?thesis using False e c0 wf f(1) db1
        by (auto simp: wf_db_def outbox_current_def last_event_def)
    qed
  qed
  have "distinct (map cl_id ?cs)" using dist by (simp only: map_ids [OF f(1)])
  moreover have calls: "db_calls (tx_effects subject c t1 t2 t3 db1) = ?cs" by (simp add: db1)
  ultimately show ?thesis unfolding wf_db_def calls using us ok by blast
qed

lemma call_ok_end_call:
  "state \<in> {state_completed, state_failed, state_cancelled} \<Longrightarrow> call_ok c \<Longrightarrow>
     call_ok ((end_call state reason t' c)\<lparr>cl_updated := t\<rparr>)"
  by (elim insertE emptyE) (simp_all add: call_ok_def end_call_def coalesce_def split: option.split)

lemma call_ok_answered:
  assumes "cl_state c \<in> {state_initiating, state_ringing}" "call_ok c"
  shows "call_ok (c\<lparr>cl_state := state_answered, cl_answered := coalesce a (Some t'), cl_updated := t\<rparr>)"
proof -
  have "coalesce a (Some t') \<noteq> None" by (simp add: coalesce_def split: option.split)
  moreover have "cl_ended c = None" using assms live_state unfolding call_ok_def by blast
  ultimately show ?thesis using assms(2) by (simp add: call_ok_def)
qed

lemma wf_statement:
  assumes wf: "wf_db db" and r: "statement_of tr org i t db = (Inr c, db1)"
  shows "wf_db (tx_effects subject c t1 t2 t3 db1)"
proof (cases tr)
  case (Tr_Completed q)
  with r have "update_call (\<lambda>c. cl_org c = org \<and> cl_id c = i \<and> cl_state c \<notin> {state_completed, state_failed, state_cancelled})
     (end_call state_completed q t) t db = (Inr c, db1)" by (simp add: mark_defs)
  from wf this show ?thesis by (rule wf_update_tx [where i = i]) (simp_all add: call_ok_end_call, simp_all add: end_call_def)
next
  case (Tr_Failed q)
  with r have "update_call (\<lambda>c. cl_org c = org \<and> cl_id c = i \<and> cl_state c \<notin> {state_completed, state_failed, state_cancelled})
     (end_call state_failed q t) t db = (Inr c, db1)" by (simp add: mark_defs)
  from wf this show ?thesis by (rule wf_update_tx [where i = i]) (simp_all add: call_ok_end_call, simp_all add: end_call_def)
next
  case (Tr_Cancelled q)
  with r have "update_call (\<lambda>c. cl_org c = org \<and> cl_id c = i \<and> cl_state c \<in> {state_initiating, state_ringing})
     (end_call state_cancelled q t) t db = (Inr c, db1)" by (simp add: mark_defs)
  from wf this show ?thesis by (rule wf_update_tx [where i = i]) (simp_all add: call_ok_end_call, simp_all add: end_call_def)
next
  case Tr_Ringing
  with r have "update_call (\<lambda>c. cl_org c = org \<and> cl_id c = i \<and> cl_state c = state_initiating)
     (\<lambda>c. c\<lparr>cl_state := state_ringing\<rparr>) t db = (Inr c, db1)" by (simp add: mark_defs)
  from wf this show ?thesis by (rule wf_update_tx [where i = i]) (auto simp: call_ok_def)
next
  case Tr_Answered
  with r have "update_call (\<lambda>c. cl_org c = org \<and> cl_id c = i \<and> cl_state c \<in> {state_initiating, state_ringing})
     (\<lambda>c. c\<lparr>cl_state := state_answered, cl_answered := coalesce (cl_answered c) (Some t)\<rparr>) t db = (Inr c, db1)"
    by (simp add: mark_defs)
  from wf this show ?thesis
    by (rule wf_update_tx [where i = i]) (simp_all add: call_ok_answered)
next
  case Tr_Active
  with r have "update_call (\<lambda>c. cl_org c = org \<and> cl_id c = i \<and> cl_state c \<in> {state_answered, state_ringing})
     (\<lambda>c. c\<lparr>cl_state := state_active\<rparr>) t db = (Inr c, db1)" by (simp add: mark_defs)
  from wf this show ?thesis by (rule wf_update_tx [where i = i]) (auto simp: call_ok_def)
next
  case Tr_Held
  with r have "update_call (\<lambda>c. cl_org c = org \<and> cl_id c = i \<and> cl_state c \<in> {state_answered, state_active} \<and> cl_media c = media_active)
     (\<lambda>c. c\<lparr>cl_media := media_held\<rparr>) t db = (Inr c, db1)" by (simp add: mark_defs)
  from wf this show ?thesis by (rule wf_update_tx [where i = i]) (auto simp: call_ok_def)
next
  case Tr_Resumed
  with r have "update_call (\<lambda>c. cl_org c = org \<and> cl_id c = i \<and> cl_state c \<in> {state_answered, state_active} \<and> cl_media c = media_held)
     (\<lambda>c. c\<lparr>cl_media := media_active\<rparr>) t db = (Inr c, db1)" by (simp add: mark_defs)
  from wf this show ?thesis by (rule wf_update_tx [where i = i]) (auto simp: call_ok_def)
qed

text \<open>An update that changes neither state nor media needs no event.\<close>

lemma wf_update_quiet:
  assumes wf: "wf_db db"
    and f: "\<And>c. cl_id (f c) = cl_id c" "\<And>c. cl_state (f c) = cl_state c" "\<And>c. cl_media (f c) = cl_media c"
      "\<And>c. cl_ended (f c) = cl_ended c" "\<And>c. cl_answered (f c) = cl_answered c"
    and us: "unique_sip (map (\<lambda>c. if p c then (f c)\<lparr>cl_updated := t\<rparr> else c) (db_calls db))"
  shows "wf_db (snd (update_call p f t db))"
proof -
  let ?cs = "map (\<lambda>c. if p c then (f c)\<lparr>cl_updated := t\<rparr> else c) (db_calls db)"
  have calls: "db_calls (snd (update_call p f t db)) = ?cs" and ob: "db_outbox (snd (update_call p f t db)) = db_outbox db"
    by (simp_all add: update_call_snd)
  show ?thesis
  proof (rule wf_dbI, unfold calls)
    show "distinct (map cl_id ?cs)" using wf_dbD(1) [OF wf] by (simp only: map_ids [OF f(1)])
    fix d assume "d \<in> set ?cs"
    then obtain e where e: "e \<in> set (db_calls db)" "d = (if p e then (f e)\<lparr>cl_updated := t\<rparr> else e)" by auto
    then show "call_ok d \<and> outbox_current (snd (update_call p f t db)) d"
      using wf_dbD(3,4) [OF wf e(1)] f ob by (simp add: outbox_current_def last_event_def call_ok_def)
  qed (rule us)
qed

lemma wf_set_route: "wf_db db \<Longrightarrow> wf_db (snd (sql_set_route trunk endpoint org i t db))"
  unfolding sql_set_route_def
  by (rule wf_update_quiet, assumption, simp_all, rule unique_sip_same [of "db_calls db"]) (auto simp: wf_dbD)

lemma unique_sipD: "unique_sip cs \<Longrightarrow> c \<in> set cs \<Longrightarrow> d \<in> set cs \<Longrightarrow> cl_sip c = Some s \<Longrightarrow> cl_sip d = Some s \<Longrightarrow> cl_id c = cl_id d"
  unfolding unique_sip_def by blast

lemma unique_choice:
  assumes "x = (if P then Some v else a)" "y = (if Q then Some v else b)" "x = Some s" "y = Some s"
    and "P \<Longrightarrow> k = i" "Q \<Longrightarrow> l = i" "P \<Longrightarrow> b = Some v \<Longrightarrow> l = i" "Q \<Longrightarrow> a = Some v \<Longrightarrow> k = i"
    and "a = Some s \<Longrightarrow> b = Some s \<Longrightarrow> k = l"
  shows "k = l"
proof (cases P; cases Q)
  assume P Q
  then show ?thesis using assms(5,6) by simp
next
  assume P "\<not> Q"
  then have "b = Some v" using assms(1-4) by simp
  with \<open>P\<close> show ?thesis using assms(5,7) by simp
next
  assume "\<not> P" Q
  then have "a = Some v" using assms(1-4) by simp
  with \<open>Q\<close> show ?thesis using assms(6,8) by simp
next
  assume "\<not> P" "\<not> Q"
  then have "a = Some s" "b = Some s" using assms(1-4) by simp_all
  then show ?thesis by (rule assms(9))
qed

lemma unique_sip_snoc:
  assumes "unique_sip cs" "cl_sip c \<noteq> None \<Longrightarrow> cl_sip c \<notin> cl_sip ` set cs"
  shows "unique_sip (cs @ [c])"
  unfolding unique_sip_def
proof (intro ballI allI impI)
  fix x y s
  assume "x \<in> set (cs @ [c])" "y \<in> set (cs @ [c])" "cl_sip x = Some s" "cl_sip y = Some s"
  then show "cl_id x = cl_id y"
    using assms unique_sipD [of cs x y s] by (cases "x = c"; cases "y = c") (force+)
qed

lemma wf_set_sip:
  assumes wf: "wf_db db"
  shows "wf_db (snd (sql_set_sip sip org i t db))"
proof (cases "\<exists>c \<in> set (db_calls db). cl_sip c = Some sip \<and> cl_id c \<noteq> i
         \<and> (\<exists>d \<in> set (db_calls db). cl_org d = org \<and> cl_id d = i \<and> cl_direction d = direction_outbound \<and> cl_sip d = None)")
  case True
  then show ?thesis using wf by (simp add: sql_set_sip_def)
next
  case False
  let ?p = "\<lambda>c. cl_org c = org \<and> cl_id c = i \<and> cl_direction c = direction_outbound \<and> (cl_sip c = None \<or> cl_sip c = Some sip)"
  let ?g = "\<lambda>c. if ?p c then (c\<lparr>cl_sip := Some sip\<rparr>)\<lparr>cl_updated := t\<rparr> else c"
  have us: "unique_sip (db_calls db)" using wf by (simp add: wf_db_def)
  have cross: "cl_id c = i" if "?p d" "d \<in> set (db_calls db)" "c \<in> set (db_calls db)" "cl_sip c = Some sip" for c d
  proof (cases "cl_sip d")
    case None
    with that have "\<exists>d \<in> set (db_calls db). cl_org d = org \<and> cl_id d = i \<and> cl_direction d = direction_outbound \<and> cl_sip d = None"
      by auto
    with False that(3,4) show ?thesis by blast
  next
    case (Some s)
    with that unique_sipD [OF us that(3,2,4)] show ?thesis by auto
  qed
  have g: "(cl_id (?g c) = cl_id c) \<and> (cl_sip (?g c) = (if ?p c then Some sip else cl_sip c))" for c by auto
  have "unique_sip (map ?g (db_calls db))"
    unfolding unique_sip_def
  proof (intro ballI allI impI)
    fix x y s
    assume x: "x \<in> set (map ?g (db_calls db))" and y: "y \<in> set (map ?g (db_calls db))"
      and eq: "cl_sip x = Some s" "cl_sip y = Some s"
    from x obtain c where c: "c \<in> set (db_calls db)" "x = ?g c" unfolding set_map by (elim imageE)
    from y obtain d where d: "d \<in> set (db_calls db)" "y = ?g d" unfolding set_map by (elim imageE)
    have "cl_sip x = (if ?p c then Some sip else cl_sip c)" "cl_sip y = (if ?p d then Some sip else cl_sip d)"
      unfolding c(2) d(2) by (rule conjunct2 [OF g])+
    then have "cl_id c = cl_id d"
      by (rule unique_choice [where P = "?p c" and Q = "?p d" and a = "cl_sip c" and b = "cl_sip d" and i = i and v = sip, OF _ _ eq])
        (use cross [of c d] cross [of d c] c(1) d(1) unique_sipD [OF us c(1) d(1), of s] in blast)+
    moreover have "cl_id x = cl_id c" "cl_id y = cl_id d"
      unfolding c(2) d(2) by (rule conjunct1 [OF g])+
    ultimately show "cl_id x = cl_id y" by (simp only:)
  qed
  then have "wf_db (snd (update_call ?p (\<lambda>c. c\<lparr>cl_sip := Some sip\<rparr>) t db))"
    by (intro wf_update_quiet [OF wf]) simp_all
  then show ?thesis unfolding sql_set_sip_def if_not_P [OF False] .
qed

lemma wf_create:
  assumes wf: "wf_db db" and r: "sql_create_call n i t db = (Inr c, db1)" and st: "nc_state n \<in> {None, Some state_ringing}"
  shows "wf_db (tx_effects subject c t1 t2 t3 db1)"
proof -
  have fresh: "i \<notin> cl_id ` set (db_calls db)" "nc_sip n \<noteq> None \<Longrightarrow> nc_sip n \<notin> cl_sip ` set (db_calls db)"
    using r by (auto simp: sql_create_call_def split: if_splits)
  have c: "cl_id c = i" "cl_sip c = nc_sip n" "cl_state c = (case nc_state n of None \<Rightarrow> state_initiating | Some s \<Rightarrow> s)"
    "cl_media c = media_active" "cl_ended c = None" and calls: "db_calls db1 = db_calls db @ [c]" and ob: "db_outbox db1 = db_outbox db"
    using r by (auto simp: sql_create_call_def Let_def split: if_splits)
  have ok: "call_ok c" using c st by (auto simp: call_ok_def)
  have new: "outbox_current (tx_effects subject c t1 t2 t3 db1) c"
    by (simp add: outbox_current_def last_event_def)
  have old: "outbox_current (tx_effects subject c t1 t2 t3 db1) d" if "d \<in> set (db_calls db)" for d
  proof -
    have "cl_id d \<noteq> cl_id c" using that fresh(1) unfolding c(1) by blast
    then have "last_event (tx_effects subject c t1 t2 t3 db1) (cl_id d) = last_event db (cl_id d)"
      by (simp add: last_event_def ob eq_commute)
    then show ?thesis using wf_dbD(4) [OF wf that] by (simp only: outbox_current_def)
  qed
  have "unique_sip (db_calls db @ [c])"
    by (rule unique_sip_snoc [OF wf_dbD(2) [OF wf]]) (use fresh(2) c(2) in simp)
  then show ?thesis
    by (intro wf_dbI) (use wf_dbD [OF wf] fresh(1) c(1) ok new old in \<open>auto simp: calls\<close>)
qed

lemma db_step_wf: "db_step db db' \<Longrightarrow> wf_db db \<Longrightarrow> wf_db db'"
proof (induction rule: db_step.induct)
  case (db_create n i t db c db1 subject t1 t2 t3)
  then show ?case by (intro wf_create)
next
  case (db_mark tr org i t db c db1 t1 t2 t3)
  then show ?case by (intro wf_statement)
next
  case (db_route db trunk endpoint org i t)
  then show ?case by (rule wf_set_route)
next
  case (db_sip db sip org i t)
  then show ?case by (rule wf_set_sip)
qed (erule iffD2 [OF wf_db_same, rotated 2]; rule db_calls_bookkeeping db_outbox_bookkeeping prepare_bookkeeping)+

interpretation call_table: safe_system wf_db db_step wf_db
  by unfold_locales (auto intro: db_step_wf)

end
