(* ===== verification/Call_Cleanup.thy ===== *)
theory Call_Cleanup
  imports Call_Lifecycle
begin

text \<open>
  Terminal cleanup against the laws of the Redis server: what a run of
  \<open>cleanup_terminal_admission\<close> has released when its durable marker goes, and what a late event
  of an ended call puts back.
\<close>

context redis_server
begin

lemma release_run:
  assumes "release_call_lease R f prefix i s = (e, s')"
  shows "s' = s \<or> s' = zrem R (leases_key prefix) i s" and "e = None \<Longrightarrow> s' = zrem R (leases_key prefix) i s"
  using assms by (auto simp: release_call_lease_def eval_script_def split: option.splits if_splits)

definition released :: "string \<Rightarrow> string \<Rightarrow> 's \<Rightarrow> bool" where
  "released prefix i s \<longleftrightarrow> zs (leases_key prefix) s i = None"

text \<open>Nothing a release does can bring a lease or a channel back.\<close>

definition only_removes :: "'s \<Rightarrow> 's \<Rightarrow> bool" where
  "only_removes s s' \<longleftrightarrow> (\<forall>k m. zs k s m = None \<longrightarrow> zs k s' m = None) \<and> (\<forall>k. str k s = None \<longrightarrow> str k s' = None)"

lemma only_removes_refl [simp]: "only_removes s s"
  by (simp add: only_removes_def)

lemma only_removes_trans: "only_removes a b \<Longrightarrow> only_removes b c \<Longrightarrow> only_removes a c"
  by (auto simp: only_removes_def)

lemma only_removes_zrem [simp]: "only_removes s (zrem R k i s)"
  by (auto simp: only_removes_def zrem_law str_other)

lemma only_removes_released: "only_removes s s' \<Longrightarrow> released p i s \<Longrightarrow> released p i s'"
  by (auto simp: only_removes_def released_def)

lemma adm_release_run:
  assumes "adm_release R f t i s = (e, s')"
  shows "only_removes s s'" and "e = None \<Longrightarrow> released (admission_prefix t) i s'"
  using assms release_run [of f "admission_prefix t" i s]
  by (auto simp: adm_release_def released_def zrem_law split: if_splits)

lemma adm_release_org_run:
  assumes "adm_release_org R f org i s = (e, s')"
  shows "only_removes s s'" and "e = None \<Longrightarrow> released (organization_prefix org) i s'"
  using assms release_run [of f "organization_prefix org" i s]
  by (auto simp: adm_release_org_def released_def zrem_law split: if_splits)

lemma channel_delete_run:
  "channel_delete R g f i s = (None, s') \<Longrightarrow> str (channel_key i) s' = None"
  by (auto simp: channel_delete_def run_del_def del_law Let_def split: if_splits option.splits prod.splits)

end

section \<open>The run of a cleanup\<close>

lemma releases_run:
  assumes "redis_server (sv_redis S) zs cnt str hs"
  shows "run_state (for_each trunks (\<lambda>t. map_error (h t) (admission_release S t i))) w = (r, w') \<Longrightarrow>
     w_db w' = w_db w \<and> redis_server.only_removes zs str (w_redis w) (w_redis w')
     \<and> (r = Inr () \<longrightarrow> (\<forall>t \<in> set trunks. redis_server.released zs (admission_prefix t) i (w_redis w')))"
proof (induction trunks arbitrary: w)
  case Nil
  then show ?case using redis_server.only_removes_refl [OF assms] by simp
next
  case (Cons t ts)
  obtain e s1 where a: "adm_release (sv_redis S) (se_fault (sv_env S (w_tick w))) t i (w_redis w) = (e, s1)" by fastforce
  let ?w1 = "w\<lparr>w_tick := Suc (w_tick w), w_redis := s1\<rparr>"
  note run = redis_server.adm_release_run [OF assms a]
  have first: "run_state (map_error (h t) (admission_release S t i)) w
      = (case e of None \<Rightarrow> Inr () | Some x \<Rightarrow> Inl (h t x), ?w1)"
    using a by (simp add: run_map_error admission_release_def redis_do_def lift_err_def split: option.split)
  show ?case
  proof (cases e)
    case (Some x)
    then show ?thesis using Cons.prems run(1) first by (auto simp: run_chain)
  next
    case None
    have rest: "run_state (for_each ts (\<lambda>t. map_error (h t) (admission_release S t i))) ?w1 = (r, w')"
      using Cons.prems None first by (simp add: run_chain)
    have mono: "redis_server.only_removes zs str s1 (w_redis w')" using Cons.IH [OF rest] by simp
    have "redis_server.released zs (admission_prefix t) i (w_redis w')"
      by (rule redis_server.only_removes_released [OF assms mono]) (use run(2) None in simp)
    then show ?thesis using Cons.IH [OF rest] redis_server.only_removes_trans [OF assms run(1) mono] by simp
  qed
qed

definition has_marker :: "uuid \<Rightarrow> 's world \<Rightarrow> bool" where
  "has_marker i w \<longleftrightarrow> i \<in> cu_call ` set (db_cleanup (w_db w))"

lemma cleanup_run:
  assumes R: "redis_server (sv_redis S) zs cnt str hs"
    and run: "run_state (cleanup_terminal_admission S i org) w = (r, w')"
    and fin: "r = Inr () \<or> (has_marker i w \<and> \<not> has_marker i w')"
  shows "redis_server.released zs (organization_prefix org) (uuid_string i) (w_redis w')
     \<and> (\<forall>t \<in> set (sql_cleanup_trunks i (w_db w)). redis_server.released zs (admission_prefix t) (uuid_string i) (w_redis w'))
     \<and> str (channel_key i) (w_redis w') = None
     \<and> (r = Inr () \<longrightarrow> \<not> has_marker i w')"
proof -
  let ?u = "uuid_string i"
  obtain r1 w1 where s1: "run_state (map_error (Wrap ''list admission trunks for call %s: %w'' [?u]) (repo_cleanup_trunks S i)) w = (r1, w1)"
    by (cases "run_state (map_error (Wrap ''list admission trunks for call %s: %w'' [?u]) (repo_cleanup_trunks S i)) w")
  have db1: "w_db w1 = w_db w" and tr: "r1 = Inr trunks \<Longrightarrow> trunks = sql_cleanup_trunks i (w_db w)" for trunks
    using s1 by (auto simp: run_map_error repo_cleanup_trunks_def db_query_def split: option.splits sum.splits prod.splits)
  show ?thesis
  proof (cases r1)
    case (Inl e)
    then show ?thesis using run s1 fin db1 by (simp add: cleanup_terminal_admission_def run_chain has_marker_def)
  next
    case (Inr trunks)
    obtain r2 w2 where s2: "run_state (map_error (Wrap ''delete channel for call %s: %w'' [?u]) (channels_delete S i)) w1 = (r2, w2)"
      by (cases "run_state (map_error (Wrap ''delete channel for call %s: %w'' [?u]) (channels_delete S i)) w1")
    have db2: "w_db w2 = w_db w" and ch: "r2 = Inr () \<Longrightarrow> str (channel_key i) (w_redis w2) = None"
      using s2 db1 redis_server.channel_delete_run [OF R]
      by (auto simp: run_map_error channels_delete_def redis_do_def lift_err_def split: option.splits sum.splits prod.splits)
    show ?thesis
    proof (cases r2)
      case (Inl e)
      then show ?thesis using run s1 s2 Inr fin db2 by (simp add: cleanup_terminal_admission_def run_chain has_marker_def)
    next
      case Inr2: (Inr u2)
      obtain r3 w3 where s3: "run_state (map_error (Wrap ''release organization admission for call %s: %w'' [?u]) (admission_release_org S org ?u)) w2 = (r3, w3)"
        by (cases "run_state (map_error (Wrap ''release organization admission for call %s: %w'' [?u]) (admission_release_org S org ?u)) w2")
      have db3: "w_db w3 = w_db w" and m3: "redis_server.only_removes zs str (w_redis w2) (w_redis w3)"
        and o3: "r3 = Inr () \<Longrightarrow> redis_server.released zs (organization_prefix org) ?u (w_redis w3)"
        using s3 db2 redis_server.adm_release_org_run [OF R]
        by (auto simp: run_map_error admission_release_org_def redis_do_def lift_err_def split: option.splits sum.splits prod.splits)
      show ?thesis
      proof (cases r3)
        case (Inl e)
        then show ?thesis using run s1 s2 s3 Inr Inr2 fin db3 by (simp add: cleanup_terminal_admission_def run_chain has_marker_def)
      next
        case Inr3: (Inr u3)
        let ?rel = "for_each trunks (\<lambda>trunk. map_error (Wrap ''release trunk %s admission for call %s: %w'' [uuid_string trunk, ?u]) (admission_release S trunk ?u))"
        obtain r4 w4 where s4: "run_state ?rel w3 = (r4, w4)" by (cases "run_state ?rel w3")
        note t4 = releases_run [OF R s4]
        show ?thesis
        proof (cases r4)
          case (Inl e)
          then show ?thesis using run s1 s2 s3 s4 Inr Inr2 Inr3 fin db3 t4
            by (simp add: cleanup_terminal_admission_def run_chain has_marker_def)
        next
          case Inr4: (Inr u4)
          have s5: "run_state (map_error (Wrap ''finish admission cleanup for call %s: %w'' [?u]) (repo_finish_cleanup S i)) w4 = (r, w')"
            using run s1 s2 s3 s4 Inr Inr2 Inr3 Inr4 by (simp add: cleanup_terminal_admission_def run_chain)
          have w': "w_redis w' = w_redis w4" and gone: "r = Inr () \<longrightarrow> \<not> has_marker i w'"
            using s5 by (auto simp: run_map_error repo_finish_cleanup_def db_exec_def has_marker_def sql_delete_cleanup_def
                split: option.splits sum.splits prod.splits if_splits)
          have "redis_server.released zs (organization_prefix org) ?u (w_redis w')"
            unfolding w' by (rule redis_server.only_removes_released [OF R]) (use t4 o3 Inr3 in simp_all)
          moreover have "str (channel_key i) (w_redis w') = None"
            unfolding w' using ch Inr2 m3 t4 by (simp add: redis_server.only_removes_def [OF R])
          ultimately show ?thesis using t4 Inr4 tr [OF Inr] w' gone by simp
        qed
      qed
    qed
  qed
qed


section \<open>Late events\<close>

context redis_server
begin

lemma refresh_run:
  "refresh_call_lease R None None prefix i ttl now s = (None, s') \<Longrightarrow> \<not> released prefix i s'"
  by (auto simp: refresh_call_lease_def eval_script_def released_def zs_other zadd_law split: option.splits if_splits)

lemma adm_refresh_org_now:
  assumes "org \<noteq> uuid_nil" "i \<noteq> uuid_nil" "uuid_string i \<noteq> []"
  shows "\<exists>s'. adm_refresh_org R None None now org i s = (None, s')
     \<and> \<not> released (organization_prefix org) (uuid_string i) s'"
proof -
  have "fst (adm_refresh_org R None None now org i s) = None"
    using assms by (simp add: adm_refresh_org_def refresh_call_lease_def validate_key_def organization_prefix_def
        lease_ttl_def eval_script_def)
  moreover have "adm_refresh_org R None None now org i s =
      refresh_call_lease R None None (organization_prefix org) (uuid_string i) lease_ttl now s"
    using assms by (simp add: adm_refresh_org_def)
  ultimately show ?thesis using refresh_run by (metis prod.collapse)
qed

lemma adm_refresh_now:
  assumes "t \<noteq> uuid_nil" "i \<noteq> uuid_nil" "uuid_string i \<noteq> []"
  shows "\<exists>s'. adm_refresh R None None now t i s = (None, s') \<and> (\<forall>p j. \<not> released p j s \<longrightarrow> \<not> released p j s')"
  using assms by (auto simp: adm_refresh_def refresh_call_lease_def validate_key_def admission_prefix_def
        lease_ttl_def eval_script_def released_def zs_other zadd_law)

end

lemma late_event_run:
  assumes R: "redis_server (sv_redis S) zs cnt str hs"
    and env: "\<And>n. se_fault (sv_env S n) = None"
    and row: "find (\<lambda>c. cl_id c = i) (db_calls (w_db w)) = Some c"
    and c: "cl_direction c = direction_inbound" "is_terminal_state (cl_state c)" "cl_trunk c \<noteq> Some uuid_nil" "cl_org c \<noteq> uuid_nil"
    and ev: "le_call ev = i" "le_type ev = lc_active" "le_channel ev \<noteq> []" "\<not> blank (le_channel ev)"
    and i: "i \<noteq> uuid_nil" "uuid_string i \<noteq> []"
  shows "case run_state (observe_lifecycle S ev) w of (r, w') \<Rightarrow>
     r = Inr () \<and> w_db w' = w_db w
     \<and> \<not> redis_server.released zs (organization_prefix (cl_org c)) (uuid_string i) (w_redis w')"
proof -
  have nt: "\<not> is_terminal_lifecycle (le_type ev)" using ev by (simp add: is_terminal_lifecycle_def lifecycle_types)
  have applied: "lifecycle_already_applied c (le_type ev)"
    using ev c by (simp add: lifecycle_already_applied_def lifecycle_types)
  obtain s1 where b: "channel_bind (sv_redis S) None None None i (le_channel ev) (w_redis w) = (None, s1)"
    using i ev by (simp add: channel_bind_def Let_def blank_def run_set_def)
  let ?w1 = "w\<lparr>w_tick := w_tick w + 3, w_redis := s1\<rparr>"
  have bind: "run_state (internal_as ''bind call channel'' (channels_bind S i (le_channel ev))) w = (Inr (), ?w1)"
    using b env by (simp add: internal_as_def run_map_error channels_bind_def redis_do_def numeral_3_eq_3)
  let ?w2 = "?w1\<lparr>w_tick := w_tick w + 4\<rparr>"
  have snap: "run_state (repo_snapshot S i) ?w1 = (Inr c, ?w2)"
    using row env by (simp add: repo_snapshot_def db_query_def sql_lifecycle_snapshot_def)
  obtain s2 where f: "adm_refresh_org (sv_redis S) None None (unix_milli (sv_env S (w_tick w + 4))) (cl_org c) i s1 = (None, s2)"
      "\<not> redis_server.released zs (organization_prefix (cl_org c)) (uuid_string i) s2"
    using redis_server.adm_refresh_org_now [OF R c(4) i] by blast
  let ?p = "organization_prefix (cl_org c)"
  have "\<exists>w3. (\<forall>m1 m2. run_state (refresh_call_leases S i c m1 m2) ?w2 = (Inr (), w3)) \<and> w_db w3 = w_db w
      \<and> \<not> redis_server.released zs ?p (uuid_string i) (w_redis w3)"
  proof (cases "cl_trunk c")
    case None
    then show ?thesis
      using f env by (simp add: refresh_call_leases_def run_chain run_map_error admission_refresh_org_def redis_do_def)
  next
    case (Some t)
    then have "t \<noteq> uuid_nil" using c by simp
    from redis_server.adm_refresh_now [OF R this i, of "unix_milli (sv_env S (6 + w_tick w))" s2]
    obtain s3 where "adm_refresh (sv_redis S) None None (unix_milli (sv_env S (6 + w_tick w))) t i s2 = (None, s3)"
      "\<not> redis_server.released zs ?p (uuid_string i) s3" using f(2) by blast
    then show ?thesis
      using f env Some by (simp add: refresh_call_leases_def run_chain run_map_error admission_refresh_org_def
          admission_refresh_def redis_do_def)
  qed
  then obtain w3 where w3: "\<And>m1 m2. run_state (refresh_call_leases S i c m1 m2) ?w2 = (Inr (), w3)" "w_db w3 = w_db w"
      "\<not> redis_server.released zs ?p (uuid_string i) (w_redis w3)" by blast
  have out: "run_state (observe_outbound S ev c) ?w2 = (Inr (), ?w2)"
    using c by (simp add: observe_outbound_def direction_inbound_def direction_outbound_def)
  have "run_state (observe_lifecycle S ev) w = (Inr (), w3)"
    using ev i nt applied bind snap out w3(1)
    by (simp add: observe_lifecycle_def run_chain run_handle)
  then show ?thesis using w3 by simp
qed


section \<open>A created call without attribution\<close>

abbreviation same_db :: "'s world \<Rightarrow> 's world \<Rightarrow> bool" where
  "same_db w w' \<equiv> w_db w' = w_db w"

interpretation gs: guarantee "same_db :: 's world \<Rightarrow> 's world \<Rightarrow> bool"
  by unfold_locales simp_all

lemma s_redis_actions: "state_io_rel same_db (admission_release S t l)" "state_io_rel same_db (admission_release_org S t l)"
  unfolding redis_actions redis_do_def tick_def by (intro gs.g_rules, simp_all add: state_io_rel_def split: prod.split)+

lemma s_reject: "state_io_rel same_db (reject_inbound S ch e)"
proof -
  have "state_io_rel same_db (client_command S command)" for command
    by (auto simp: client_command_def Let_def state_io_rel_def split: option.split)
  then show ?thesis
    unfolding reject_inbound_def control_defs client_defs api_command_def by (intro gs.g_rules)
qed

text \<open>A transition of a call the table does not have commits nothing.\<close>

lemma update_call_none: "\<forall>c \<in> set (db_calls db). \<not> p c \<Longrightarrow> update_call p f t db = (Inl err_no_rows, db)"
proof -
  assume "\<forall>c \<in> set (db_calls db). \<not> p c"
  then have "find p (db_calls db) = None" by (simp add: find_None_iff)
  then show ?thesis by (simp add: update_call_def)
qed

lemma mark_failed_absent:
  assumes "\<forall>c \<in> set (db_calls (w_db w)). cl_id c \<noteq> i"
  shows "w_db (snd (run_state (repo_mark_failed S org i reason) w)) = w_db w"
proof -
  obtain r w' where run: "run_state (repo_mark_failed S org i reason) w = (r, w')"
    by (cases "run_state (repo_mark_failed S org i reason) w")
  have "sql_mark_failed reason org i t (w_db w) = (Inl err_no_rows, w_db w)" for t
    unfolding sql_mark_failed_def by (rule update_call_none) (use assms in simp)
  then have "w_db w' = w_db w"
    using repo_mutate_run [OF run [unfolded repo_mark_failed_def]] by auto
  then show ?thesis using run by simp
qed

lemma lost_attribution_run:
  assumes cr: "run_state (repo_create_inbound S req) w = (Inr c, w1)"
    and rt: "run_state (repo_set_route S (aq_org req) (cl_id c) (Some (aq_trunk req)) None) w1 = (Inl e, w2)"
    and same: "w_db w2 = w_db w1"
    and ids: "\<forall>d \<in> set (db_calls (w_db w1)). cl_id d \<noteq> uuid_nil"
  shows "w_db (snd (run_state (admit_new_inbound S req trunk) w)) = w_db w1"
proof -
  let ?e = "new_internal ''set inbound route attribution'' (Some e)"
  let ?w3 = "snd (run_state (admission_release S trunk (aq_channel req)) w2)"
  let ?w4 = "snd (run_state (admission_release_org S (aq_org req) (aq_channel req)) ?w3)"
  let ?w5 = "snd (run_state (repo_mark_failed S (aq_org req) uuid_nil (Some ''inbound_attribution_failed'')) ?w4)"
  have run: "run_state (admit_new_inbound S req trunk) w = run_state (reject_inbound S (aq_channel req) ?e) ?w5"
    using cr rt by (simp add: admit_new_inbound_def Let_def run_handle release_both_def failed_inbound_def run_ignore)
  have "w_db ?w4 = w_db w1"
    using gs.g_run [OF s_redis_actions(1), where w = w2] gs.g_run [OF s_redis_actions(2), where w = ?w3] same by simp
  then have "w_db ?w5 = w_db w1" using mark_failed_absent [of ?w4 uuid_nil] ids by simp
  then show ?thesis unfolding run using gs.g_run [OF s_reject, where w = ?w5] by simp
qed

end
