(* ===== verification/Call_Dialling.thy ===== *)
theory Call_Dialling
  imports Call_Spec
begin

text \<open>
  How often a call is dialled. A background command is the only way to originate, so the number
  of dials is the number of background commands FreeSWITCH has received. Everything but an
  originate leaves it alone (a \<open>guarantee\<close>), and an attempt that may have dialled ends the plan.
\<close>

definition is_background :: "string \<Rightarrow> bool" where
  "is_background command \<longleftrightarrow> starts_with ''bgapi'' command"

definition dials :: "'s world \<Rightarrow> nat" where
  "dials w = length (filter is_background (w_sent w))"

abbreviation same_dials :: "'s world \<Rightarrow> 's world \<Rightarrow> bool" where
  "same_dials w w' \<equiv> dials w' = dials w"

interpretation gq: guarantee "same_dials :: 's world \<Rightarrow> 's world \<Rightarrow> bool"
  by unfold_locales simp_all

named_theorems quiet \<open>actions that do not dial\<close>

lemma trim_space_keeps_head:
  "find (\<lambda>p. p \<noteq> [] \<and> starts_with p (c # s)) go_spaces = None \<Longrightarrow> trim_space (c # s) = [] \<or> (\<exists>t. trim_space (c # s) = c # t)"
proof -
  assume "find (\<lambda>p. p \<noteq> [] \<and> starts_with p (c # s)) go_spaces = None"
  then have t: "trim_space (c # s) = trim_right (c # s)" by (simp add: trim_space_def trim_left_def trim_front_none)
  obtain k where "trim_right (c # s) = take k (c # s)" using trim_right_prefix by blast
  then show ?thesis unfolding t by (cases k) simp_all
qed

lemma api_is_not_background: "\<not> is_background (trim_space (''api '' @ command))"
proof -
  have "find (\<lambda>p. p \<noteq> [] \<and> starts_with p (CHR ''a'' # ''pi '' @ command)) go_spaces = None"
    by (simp add: go_spaces_def starts_with_def)
  from trim_space_keeps_head [OF this] show ?thesis
    by (auto simp: is_background_def starts_with_def)
qed

section \<open>Quiet actions\<close>

lemma q_state: "(\<And>w. w_sent (snd (f w)) = w_sent w) \<Longrightarrow> state_io_rel same_dials (State f)"
  by (simp add: state_io_rel_def dials_def)

lemma q_tick [quiet]: "state_io_rel same_dials (tick S)" "state_io_rel same_dials tick_no"
  unfolding tick_def tick_no_def by (rule q_state, simp)+

lemma q_redis [quiet]: "state_io_rel same_dials (redis_do f)" "state_io_rel same_dials (redis_read g)"
  unfolding redis_do_def redis_read_def by (rule q_state, simp split: prod.split)+

lemma q_db [quiet]: "state_io_rel same_dials (db_query S q)" "state_io_rel same_dials (db_exec S u)"
  unfolding db_query_def db_exec_def
  by (intro gq.g_bind quiet q_state, simp split: prod.split option.split)+

lemma q_tx [quiet]: "state_io_rel same_dials (tx_begin S)" "state_io_rel same_dials (tx_step S wr t)"
  "state_io_rel same_dials (tx_commit S db)"
  unfolding tx_begin_def tx_step_def tx_commit_def
  by (intro gq.g_bind gq.g_return quiet q_state; simp split: option.split)+

lemma q_mutate [quiet]: "state_io_rel same_dials (repo_mutate S subject m)"
  unfolding repo_mutate_def by (intro gq.g_rules quiet)

lemma q_repo [quiet]:
  "state_io_rel same_dials (repo_create S org req)" "state_io_rel same_dials (repo_mark_failed S org i reason)"
  "state_io_rel same_dials (repo_set_route S org i t e)" "state_io_rel same_dials (repo_get S org i)"
  "state_io_rel same_dials (repo_prepare_origination S ch i org trunk endpoint)"
  "state_io_rel same_dials (repo_origination_submitted S ch)" "state_io_rel same_dials (repo_origination_uncertain S ch)"
  unfolding repo_create_def repo_mark_failed_def repo_set_route_def repo_get_def repo_prepare_origination_def
    repo_origination_submitted_def repo_origination_uncertain_def with_channel_def
  by (intro gq.g_rules quiet)+

lemma q_redis_actions [quiet]:
  "state_io_rel same_dials (admission_acquire S t l lim)" "state_io_rel same_dials (admission_release S t l)"
  "state_io_rel same_dials (admission_acquire_org S t l m)" "state_io_rel same_dials (admission_release_org S t l)"
  "state_io_rel same_dials (channels_bind S i ch)"
  unfolding redis_actions by (intro gq.g_rules quiet)+

lemma q_client_command:
  assumes "\<not> is_background (trim_space command)"
  shows "state_io_rel same_dials (client_command S command)"
  unfolding client_command_def Let_def
  by (intro gq.g_rules quiet) (use assms in \<open>auto simp: state_io_rel_def dials_def split: option.splits\<close>)

lemma q_api [quiet]: "state_io_rel same_dials (api_command S command)"
  unfolding api_command_def by (intro gq.g_rules q_client_command api_is_not_background)

lemma q_hangup [quiet]: "state_io_rel same_dials (control_hangup S ch)"
  unfolding control_defs client_defs by (intro gq.g_rules quiet)

lemma q_checks [quiet]:
  "state_io_rel same_dials (require_runtime_allowance S org)" "state_io_rel same_dials (require_voice_agent_ready S org a)"
  "state_io_rel same_dials (acquire_organization_admission S org lease)"
  unfolding require_runtime_allowance_def require_voice_agent_ready_def acquire_organization_admission_def
  by (intro gq.g_rules quiet)+

lemma q_failed [quiet]:
  "state_io_rel same_dials k \<Longrightarrow> state_io_rel same_dials (fail_call S org c r k)"
  "state_io_rel same_dials k \<Longrightarrow> state_io_rel same_dials (release_org S org c k)"
  unfolding fail_call_def release_org_def by (auto intro!: gq.g_ignore quiet)

lemma q_route_parts [quiet]: "state_io_rel same_dials (ctx_err S)" "state_io_rel same_dials (observe_route S r k o' c)"
  unfolding ctx_err_def observe_route_def by (intro gq.g_rules quiet) (rule q_state, simp)

section \<open>At most one dial\<close>

definition dials_once :: "('r \<Rightarrow> bool) \<Rightarrow> ('s world, 'r) state \<Rightarrow> bool" where
  "dials_once fin m \<longleftrightarrow> (\<forall>w. case run_state m w of (r, w') \<Rightarrow>
     dials w' = dials w \<or> (dials w' = Suc (dials w) \<and> fin r))"

lemma once_quiet: "state_io_rel same_dials m \<Longrightarrow> dials_once fin m"
  by (auto simp: dials_once_def dest: gq.g_run split: prod.split)

lemma quietD: "state_io_rel same_dials m \<Longrightarrow> run_state m w = (r, w') \<Longrightarrow> dials w' = dials w"
  by (drule gq.g_run [of m w]) simp

lemma once_bind: "state_io_rel same_dials m \<Longrightarrow> (\<And>x. dials_once fin (f x)) \<Longrightarrow> dials_once fin (State_Monad.bind m f)"
  unfolding dials_once_def
proof
  fix w
  assume m: "state_io_rel same_dials m"
    and f: "\<And>x. \<forall>w. case run_state (f x) w of (r, w') \<Rightarrow> dials w' = dials w \<or> (dials w' = Suc (dials w) \<and> fin r)"
  obtain x w1 where r: "run_state m w = (x, w1)" by (cases "run_state m w")
  show "case run_state (State_Monad.bind m f) w of (r, w') \<Rightarrow> dials w' = dials w \<or> (dials w' = Suc (dials w) \<and> fin r)"
    using spec [OF f [of x], of w1] quietD [OF m r] by (simp add: r)
qed

lemma once_handle: "state_io_rel same_dials m \<Longrightarrow> (\<And>e. dials_once fin (f e)) \<Longrightarrow> (\<And>x. dials_once fin (k x)) \<Longrightarrow> dials_once fin (handle m f k)"
  unfolding handle_def by (rule once_bind) (auto split: sum.split)

lemma once_handle_last:
  assumes m: "dials_once fin m"
    and f: "\<And>e. state_io_rel same_dials (f e)" "\<And>e w. fin (Inl e) \<Longrightarrow> fin' (fst (run_state (f e) w))"
    and k: "\<And>x. state_io_rel same_dials (k x)" "\<And>x w. fin (Inr x) \<Longrightarrow> fin' (fst (run_state (k x) w))"
  shows "dials_once fin' (handle m f k)"
  unfolding dials_once_def
proof
  fix w
  obtain r w1 where r: "run_state m w = (r, w1)" by (cases "run_state m w")
  have d: "dials w1 = dials w \<or> (dials w1 = Suc (dials w) \<and> fin r)"
    using m r by (auto simp: dials_once_def dest: spec [of _ w])
  show "case run_state (handle m f k) w of (r, w') \<Rightarrow> dials w' = dials w \<or> (dials w' = Suc (dials w) \<and> fin' r)"
  proof (cases r)
    case (Inl e)
    then show ?thesis using d r f(2) [of e w1] gq.g_run [OF f(1) [of e], of w1] by (auto simp: run_handle split: prod.split)
  next
    case (Inr x)
    then show ?thesis using d r k(2) [of x w1] gq.g_run [OF k(1) [of x], of w1] by (auto simp: run_handle split: prod.split)
  qed
qed

lemma once_if: "(b \<Longrightarrow> dials_once fin m) \<Longrightarrow> (\<not> b \<Longrightarrow> dials_once fin n) \<Longrightarrow> dials_once fin (if b then m else n)"
  by simp

lemma once_sum: "(\<And>x. c = Inl x \<Longrightarrow> dials_once fin (f x)) \<Longrightarrow> (\<And>x. c = Inr x \<Longrightarrow> dials_once fin (g x)) \<Longrightarrow>
   dials_once fin (case c of Inl x \<Rightarrow> f x | Inr x \<Rightarrow> g x)"
  by (cases c) auto

lemma once_option: "dials_once fin m \<Longrightarrow> (\<And>x. dials_once fin (f x)) \<Longrightarrow> dials_once fin (case c of None \<Rightarrow> m | Some x \<Rightarrow> f x)"
  by (cases c) auto

lemma once_prod: "(\<And>x y. dials_once fin (f x y)) \<Longrightarrow> dials_once fin (case c of (x, y) \<Rightarrow> f x y)"
  by (cases c) auto

lemma once_command: "dials_once (\<lambda>r. True) (client_command S command)"
  unfolding dials_once_def client_command_def Let_def
  by (auto simp: dials_def split: option.split)

lemma once_bgapi: "dials_once (\<lambda>r. True) (bgapi S command)"
  unfolding bgapi_def Let_def chain_def
  by (rule once_if, rule once_quiet, rule gq.g_return, rule once_handle_last [OF once_command]) (intro gq.g_rules | simp)+

definition sure_fail :: "(go_err \<times> string) + 'a \<Rightarrow> bool" where
  "sure_fail r = (case r of Inr _ \<Rightarrow> True | Inl (e, _) \<Rightarrow> snd (snd (classify_originate_failure e)) \<noteq> ''retryable_failure'')"

lemma once_client_originate:
  "dials_once (\<lambda>r. case r of Inr _ \<Rightarrow> True | Inl (e, ch) \<Rightarrow> errors_is e err_originate_uncertain)
     (client_originate S ch0 endpoint destination caller vars)"
proof -
  have inner: "dials_once (\<lambda>r. case r of Inr _ \<Rightarrow> True | Inl (e, ch) \<Rightarrow> errors_is e err_originate_uncertain)
      (handle (bgapi S cmd) (\<lambda>e. fail (Join err_originate_uncertain e, channelID)) (\<lambda>_. succeed channelID))" for cmd channelID
    by (rule once_handle_last [OF once_bgapi]) (simp_all add: gq.g_return err_originate_uncertain_def)
  show ?thesis
    unfolding client_originate_def Let_def
    by (intro once_if once_bind inner once_quiet gq.g_rules quiet q_state) simp_all
qed

lemma once_control_originate: "dials_once sure_fail (control_originate S req)"
proof -
  have fin: "sure_fail (Inl (OriginateErr class_uncertain 0 e, ch))" for e :: go_err and ch
    by (simp add: sure_fail_def classify_originate_failure_def originate_classes)
  show ?thesis
    unfolding control_originate_def
    by (intro once_sum once_prod once_quiet gq.g_rules once_handle_last [OF once_client_originate])
      (auto simp: fin gq.g_return sure_fail_def [of "Inr _"], simp_all add: sure_fail_def classify_originate_failure_def)
qed


lemma once_attempt_route: "dials_once sure_fail (attempt_route S org req c route)"
proof -
  have after: "dials_once sure_fail (handle (control_originate S oreq)
       (\<lambda>(e, channel). ignore (repo_origination_uncertain S ch)
           (if b e then ignore (admission_release S trunk lease) (fail (e, channel)) else fail (e, channel)))
       (\<lambda>channel. handle (repo_origination_submitted S ch)
           (\<lambda>e. fail (OriginateErr class_uncertain 0 e, channel)) (\<lambda>_. succeed channel)))" for oreq ch trunk lease b
  proof (rule once_handle_last [OF once_control_originate])
    fix e :: "go_err \<times> string" and w :: "'a world"
    assume "sure_fail (Inl e)"
    then show "sure_fail (fst (run_state (case e of (e, channel) \<Rightarrow> ignore (repo_origination_uncertain S ch)
           (if b e then ignore (admission_release S trunk lease) (fail (e, channel)) else fail (e, channel))) w))"
      by (cases e) (simp add: run_ignore sure_fail_def)
  next
    fix x :: string and w :: "'a world"
    show "sure_fail (fst (run_state (handle (repo_origination_submitted S ch)
           (\<lambda>e. fail (OriginateErr class_uncertain 0 e, x)) (\<lambda>_. succeed x)) w))"
      by (auto simp: run_handle sure_fail_def classify_originate_failure_def originate_classes split: prod.split sum.split)
  qed (intro gq.g_rules quiet)+
  show ?thesis
    unfolding attempt_route_def Let_def
    by (intro after once_handle once_bind once_sum once_prod once_quiet [OF gq.g_return] quiet)
      (intro once_quiet gq.g_rules quiet)+
qed

lemma once_route_loop:
  assumes "\<And>r. dials_once sure_fail (attempt r)"
  shows "dials_once (\<lambda>r. True) (route_loop S attempt k routes prev)"
proof (induction routes arbitrary: k prev)
  case Nil
  then show ?case by (simp add: once_quiet gq.g_return)
next
  case (Cons route routes)
  have "dials_once (\<lambda>r. True) (handle (attempt route)
       (\<lambda>(err, channel).
          (let (class, sip, outcome0) = classify_originate_failure err;
               outcome = (if channel \<noteq> [] then ''terminal_failure'' else outcome0)
           in do { observe_route S route k outcome class;
                (if outcome \<noteq> ''retryable_failure'' then fail (err, channel)
                 else route_loop S attempt (Suc k) routes (Some (err, channel))) }))
       (\<lambda>channel. do { observe_route S route k ''succeeded'' []; succeed (channel, route) }))" (is "dials_once _ ?m")
    unfolding dials_once_def
  proof
    fix w
    obtain r w1 where r: "run_state (attempt route) w = (r, w1)" by (cases "run_state (attempt route) w")
    have d: "dials w1 = dials w \<or> (dials w1 = Suc (dials w) \<and> sure_fail r)"
      using assms [of route] r by (auto simp: dials_once_def dest: spec [of _ w])
    have o: "dials (snd (run_state (observe_route S route k oc cl) v)) = dials v" for oc cl v
      by (rule gq.g_run [OF q_route_parts(2)])
    show "case run_state ?m w of (r, w') \<Rightarrow> dials w' = dials w \<or> (dials w' = Suc (dials w) \<and> True)"
    proof (cases r)
      case (Inr ch)
      then show ?thesis using d r o [of "''succeeded''" "[]" w1] by (auto simp: run_handle split: prod.split)
    next
      case (Inl ec)
      obtain err ch where ec: "ec = (err, ch)" by (cases ec)
      obtain cl sip oc0 where cf: "classify_originate_failure err = (cl, sip, oc0)" by (cases "classify_originate_failure err")
      let ?oc = "if ch \<noteq> [] then ''terminal_failure'' else oc0"
      let ?w2 = "snd (run_state (observe_route S route k ?oc cl) w1)"
      have run: "run_state ?m w = (if ?oc \<noteq> ''retryable_failure'' then (Inl (err, ch), ?w2)
          else run_state (route_loop S attempt (Suc k) routes (Some (err, ch))) ?w2)"
        using r Inl ec cf by (simp add: run_handle split: prod.split)
      show ?thesis
      proof (cases "?oc \<noteq> ''retryable_failure''")
        case True
        show ?thesis unfolding run if_P [OF True] using d o [of ?oc cl w1] by auto
      next
        case False
        then have "\<not> sure_fail r" using Inl ec cf by (simp add: sure_fail_def split: if_splits)
        then have "dials ?w2 = dials w" using d o [of ?oc cl w1] by simp
        moreover have "case run_state (route_loop S attempt (Suc k) routes (Some (err, ch))) ?w2 of
            (r, w') \<Rightarrow> dials w' = dials ?w2 \<or> (dials w' = Suc (dials ?w2) \<and> True)"
          using Cons.IH [of "Suc k" "Some (err, ch)"] unfolding dials_once_def by (rule spec)
        ultimately show ?thesis unfolding run if_not_P [OF False] by (simp only:)
      qed
    qed
  qed
  then show ?case unfolding route_loop.simps
    by (rule once_handle [OF q_route_parts(1) once_quiet [OF gq.g_return]])
qed

lemma once_create_call: "dials_once (\<lambda>r. True) (create_call S org req)"
proof -
  have plan: "dials_once (\<lambda>r. True) (originate_call S org req' c routes)" for req' c routes
    unfolding originate_call_def execute_route_plan_def
    by (rule once_handle_last [OF once_route_loop [OF once_attempt_route]]; (intro gq.g_rules quiet)?; simp)
  show ?thesis
    unfolding create_call_def Let_def
    by (intro plan once_handle once_bind once_sum once_option quiet once_quiet [OF gq.g_return] gq.g_of_check)
      (intro once_quiet gq.g_rules quiet)+
qed

end
