(* ===== verification/Call_Safety.thy ===== *)
theory Call_Safety
  imports Call_Cleanup Call_Dialling
begin

text \<open>
  The properties of the call service: every history of requests, events and job passes refines
  \<open>db_step\<close>, calls only move forward, the tables stay well formed, a transaction is all or nothing,
  a call is dialled at most once, and a cleanup marker outlives the leases it stands for.
\<close>

section \<open>A service to evaluate\<close>

definition demo_call :: call where
  "demo_call = \<lparr>cl_id = UUID ''c1'', cl_org = UUID ''o1'', cl_agent = None, cl_trunk = Some (UUID ''t1''),
     cl_endpoint = None, cl_direction = direction_inbound, cl_state = state_completed, cl_media = media_active,
     cl_from = ''a'', cl_to = ''b'', cl_sip = Some ''s1'', cl_started = None, cl_answered = None, cl_ended = Some 7,
     cl_reason = None, cl_created = 1, cl_updated = 7\<rparr>"

definition demo_env :: step_env where
  "demo_env = \<lparr>se_fault = None, se_now = 9, se_fresh = UUID ''f1'',
     se_frame = \<lparr>fr_type = ''api/response'', fr_headers = [], fr_body = []\<rparr>\<rparr>"

definition demo_service :: "mem_store service" where
  "demo_service = \<lparr>sv_env = (\<lambda>n. demo_env), sv_redis = mem_redis, sv_parse = (\<lambda>s. Some (UUID s)),
     sv_routing = (\<lambda>n. \<lparr>q_binding = (\<lambda>o1 n1. Inl err_no_rows), q_context = (\<lambda>r. Inl err_no_rows),
        q_trunk = (\<lambda>o1 t1. Inl err_no_rows), q_endpoints = (\<lambda>o1 t1. Inr [])\<rparr>), sv_plan = None, sv_allowance = None, sv_ready = None, sv_storage = None,
     sv_policy = [], sv_lookup = (\<lambda>n h. Inl (Errf ''no host'' [])), sv_has_metrics = False\<rparr>"

definition demo_db :: database where
  "demo_db = \<lparr>db_calls = [demo_call],
     db_cleanup = [\<lparr>cu_call = UUID ''c1'', cu_org = UUID ''o1'', cu_next = 8\<rparr>], db_attempts = [],
     db_outbox = [\<lparr>ob_subject = ''call.completed'', ob_call = demo_call, ob_at = 7\<rparr>]\<rparr>"

definition demo_world :: "mem_store world" where
  "demo_world = \<lparr>w_tick = 0, w_db = demo_db, w_redis = mem_empty, w_sent = [], w_routes = [],
     w_job = \<lparr>jc_failures = 0, jc_cleanup_retries = 0, jc_unconfirmed = 0, jc_recovered = 0\<rparr>\<rparr>"

lemmas demo_defs = demo_call_def demo_env_def demo_service_def demo_db_def demo_world_def

section \<open>Histories\<close>


text \<open>C2: along such a history no call is lost: its row keeps its identity, its parties and its SIP Call-ID,
  its state only moves forward, and once it has ended neither its state nor its end changes again.\<close>

theorem calls_only_move_forward:
  assumes "c \<in> set (db_calls (w_db w))"
  shows "\<exists>c' \<in> set (db_calls (w_db (fold (run_op S) ops w))). evolves c c'"
  using db_steps_keep_rows [OF run_ops_refine [of w S ops]] assms by (simp add: keeps_rows_def)

theorem calls_only_move_forward_witness:
  "\<exists>c' \<in> set (db_calls (w_db (fold (run_op demo_service) [Op_Reconcile, Op_Hangup (UUID ''o1'') (UUID ''c1'')] demo_world))).
     evolves demo_call c'"
  by (rule calls_only_move_forward) (simp add: demo_defs)

text \<open>C3: the tables stay well formed along such a history: call identities and SIP Call-IDs are unique, every
  state and media state is a known one, a call is ended exactly when it has an end, held only once answered,
  and the last outbox event of a call shows its durable state.\<close>

theorem call_tables_well_formed:
  assumes "wf_db (w_db w)"
  shows "wf_db (w_db (fold (run_op S) ops w))"
  by (rule call_table.steps_inv [OF run_ops_refine assms])

theorem call_tables_well_formed_witness:
  "wf_db (w_db (fold (run_op demo_service) [Op_Event \<lparr>le_call = UUID ''c1'', le_channel = ''ch'', le_sip = [],
     le_type = lc_active, le_at = 3, le_reason = None\<rparr>] demo_world))"
proof (rule call_tables_well_formed)
  show "wf_db (w_db demo_world)"
    by (simp add: demo_world_def demo_db_def wf_db_def unique_sip_def outbox_current_def last_event_def)
      (simp add: demo_call_def call_ok_def)
qed

text \<open>C4: a transaction of the repository either leaves the database as it was and answers an error, or commits
  its statement together with the outbox event and, for a terminal state, the cleanup marker and the end of
  the origination attempts; it then answers the call, unless the commit itself was not confirmed.\<close>

theorem mutation_is_atomic:
  "case run_state (repo_mutate S subject m) w of (r, w') \<Rightarrow>
     (w_db w' = w_db w \<and> (\<exists>e. r = Inl e)) \<or>
     (\<exists>se c db1 t1 t2 t3. m se (w_db w) = (Inr c, db1) \<and> w_db w' = tx_effects subject c t1 t2 t3 db1
        \<and> (r = Inr c \<or> (\<exists>e. r = Inl (Wrap ''commit call transaction: %w'' [] e))))"
proof (cases "run_state (repo_mutate S subject m) w")
  case (Pair r w')
  then show ?thesis using repo_mutate_run [OF Pair] by (simp only: prod.case)
qed


section \<open>Dialling\<close>

text \<open>C5: creating a call dials at most once. However many routes the plan has and whatever fails, FreeSWITCH
  receives at most one background command: an attempt that may have reached FreeSWITCH is never retried.\<close>

theorem call_dialled_at_most_once:
  "dials (snd (run_state (create_call S org req) w)) \<le> Suc (dials w)"
  using once_create_call [of S org req] unfolding dials_once_def
  by (cases "run_state (create_call S org req) w") (auto dest: spec [of _ w])


section \<open>Terminal cleanup\<close>

text \<open>C28: the marker of an ended call goes only when everything the call held is released: when the cleanup
  succeeds, or when the marker has disappeared during it, Redis holds neither the lease of the organization, nor
  the lease of any trunk the call or one of its attempts used, nor the channel; and a success leaves no marker.\<close>

theorem marker_outlives_leases:
  assumes "redis_server (sv_redis S) zs cnt str hs"
    and "run_state (cleanup_terminal_admission S i org) w = (r, w')"
    and "r = Inr () \<or> (has_marker i w \<and> \<not> has_marker i w')"
  shows "zs (leases_key (organization_prefix org)) (w_redis w') (uuid_string i) = None
     \<and> (\<forall>t \<in> set (sql_cleanup_trunks i (w_db w)). zs (leases_key (admission_prefix t)) (w_redis w') (uuid_string i) = None)
     \<and> str (channel_key i) (w_redis w') = None
     \<and> (r = Inr () \<longrightarrow> \<not> has_marker i w')"
  using cleanup_run [OF assms] redis_server.released_def [OF assms(1)] by simp

theorem marker_outlives_leases_witness:
  "mem_zs (leases_key (organization_prefix (UUID ''o1'')))
     (w_redis (snd (run_state (cleanup_terminal_admission demo_service (UUID ''c1'') (UUID ''o1'')) demo_world))) ''c1'' = None"
proof -
  obtain r w' where run: "run_state (cleanup_terminal_admission demo_service (UUID ''c1'') (UUID ''o1'')) demo_world = (r, w')"
    by (cases "run_state (cleanup_terminal_admission demo_service (UUID ''c1'') (UUID ''o1'')) demo_world")
  have "fst (run_state (cleanup_terminal_admission demo_service (UUID ''c1'') (UUID ''o1'')) demo_world) = Inr ()"
    by (simp add: cleanup_terminal_admission_def run_chain run_map_error demo_defs repo_cleanup_trunks_def db_query_def
        channels_delete_def redis_do_def channel_delete_def run_del_def mem_redis_def mem_empty_def uuid_nil_def
        admission_release_org_def adm_release_org_def release_call_lease_def validate_key_def organization_prefix_def
        eval_script_def sql_cleanup_trunks_def admission_release_def adm_release_def admission_prefix_def
        repo_finish_cleanup_def db_exec_def map_filter_simps)
  then have r: "r = Inr ()" using run by simp
  have R: "redis_server (sv_redis demo_service) mem_zs (\<lambda>k s. ms_counters s k) (\<lambda>k s. ms_strings s k) mem_hs"
    using mem.redis_server_axioms by (simp add: demo_service_def)
  show ?thesis using marker_outlives_leases [OF R run] r run by simp
qed

section \<open>Where the code falls short\<close>


definition late_event :: lifecycle_event where
  "late_event = \<lparr>le_call = UUID ''c1'', le_channel = ''ch'', le_sip = [], le_type = lc_active, le_at = 3, le_reason = None\<rparr>"


text \<open>When the attribution of a new inbound call cannot be stored, the call is stranded: its row has just been
  committed as ringing, but the handler overwrites its variable with the zero call and marks the nil identity
  failed, so the row stays as it was created, without an end, while the caller is hung up.\<close>

theorem lost_attribution_strands_call:
  assumes "run_state (repo_create_inbound S req) w = (Inr c, w1)"
    and "run_state (repo_set_route S (aq_org req) (cl_id c) (Some (aq_trunk req)) None) w1 = (Inl e, w2)"
    and "w_db w2 = w_db w1" "\<forall>d \<in> set (db_calls (w_db w1)). cl_id d \<noteq> uuid_nil"
  shows "w_db (snd (run_state (admit_new_inbound S req trunk) w)) = w_db w1"
  by (rule lost_attribution_run [OF assms])

definition demo_request :: admission_request where
  "demo_request = \<lparr>aq_channel = ''ch'', aq_sip = ''s2'', aq_org = UUID ''o1'', aq_agent = UUID ''a1'',
     aq_number = UUID ''n1'', aq_binding = UUID ''b1'', aq_trunk = UUID ''t1'', aq_from = ''a'', aq_to = ''b''\<rparr>"

definition faulty_service :: "mem_store service" where
  "faulty_service = demo_service\<lparr>sv_env := (\<lambda>n. if n = 4 then demo_env\<lparr>se_fault := Some (err_deadline, False)\<rparr> else demo_env)\<rparr>"

theorem lost_attribution_strands_call_witness:
  "\<exists>c \<in> set (db_calls (w_db (snd (run_state (admit_new_inbound faulty_service demo_request (UUID ''t1'')) demo_world)))).
     cl_id c = UUID ''f1'' \<and> cl_state c = state_ringing"
proof -
  let ?c = "\<lparr>cl_id = UUID ''f1'', cl_org = UUID ''o1'', cl_agent = Some (UUID ''a1''), cl_trunk = None, cl_endpoint = None,
     cl_direction = direction_inbound, cl_state = state_ringing, cl_media = media_active, cl_from = ''a'', cl_to = ''b'',
     cl_sip = Some ''s2'', cl_started = None, cl_answered = None, cl_ended = None, cl_reason = None, cl_created = 9, cl_updated = 9\<rparr>"
  let ?w1 = "demo_world\<lparr>w_tick := 4, w_db := demo_db\<lparr>db_calls := [demo_call, ?c],
     db_outbox := db_outbox demo_db @ [\<lparr>ob_subject = ''call.ringing'', ob_call = ?c, ob_at = 9\<rparr>]\<rparr>\<rparr>"
  have cr: "run_state (repo_create_inbound faulty_service demo_request) demo_world = (Inr ?c, ?w1)"
    by (simp add: repo_create_inbound_def repo_mutate_def run_chain tx_begin_def tx_step_def tx_commit_def faulty_service_def
        demo_request_def demo_defs sql_create_call_def Let_def outbox_insert_def numeral_eq_Suc)
  have rt: "run_state (repo_set_route faulty_service (aq_org demo_request) (cl_id ?c) (Some (aq_trunk demo_request)) None) ?w1
      = (Inl err_deadline, ?w1\<lparr>w_tick := 5\<rparr>)"
    by (simp add: repo_set_route_def db_exec_def faulty_service_def demo_service_def demo_env_def split: prod.split)
  have "w_db (snd (run_state (admit_new_inbound faulty_service demo_request (UUID ''t1'')) demo_world)) = w_db ?w1"
    by (rule lost_attribution_strands_call [OF cr rt]) (simp_all add: demo_defs uuid_nil_def)
  then show ?thesis by simp
qed

end
