(* ===== verification/Fs_Dispatch.thy ===== *)
theory Fs_Dispatch
  imports Fs_Events "HOL-Library.Word"
begin

text \<open>
  The dispatch of FreeSWITCH events (\<open>integrations/freeswitch/events.go\<close>): every frame goes to one of sixteen
  bounded queues, chosen by a hash of its channel, and one goroutine per queue runs the handlers. The
  goroutines are a step relation; what they have handled is a log.
\<close>

section \<open>Events, keys and shards\<close>

unbundle bit_operations_syntax

definition event_dispatch_shards :: nat where "event_dispatch_shards = 16"
definition event_queue_depth :: nat where "event_queue_depth = 128"

definition event_of_frame :: "frame \<Rightarrow> fs_event" where
  "event_of_frame f = \<lparr>ev_name = frame_header f ''Event-Name'', ev_headers = fr_headers f, ev_body = fr_body f\<rparr>"

text \<open>\<open>hash/fnv\<close>'s 32-bit FNV-1a.\<close>

definition fnv32a :: "string \<Rightarrow> 32 word" where
  "fnv32a key = fold (\<lambda>c h. (h XOR of_nat (of_char c)) * 16777619) key 2166136261"

definition event_dispatch_shard :: "string \<Rightarrow> nat" where
  "event_dispatch_shard key = unat (fnv32a key) mod event_dispatch_shards"

definition event_key :: "fs_event \<Rightarrow> string" where
  "event_key ev =
     (let channel = trim_space (event_header ev ''Unique-ID'');
          call = trim_space (event_header ev ''variable_leamout_call_id'')
      in if channel \<noteq> [] then channel else if call \<noteq> [] then call else ''unkeyed'')"

section \<open>The dispatcher\<close>

text \<open>
  A subscription is its event names and the number of its handler. A worker is idle, running the
  handlers of an event, or stopped with what it had not yet run. \<open>dp_accepted\<close> and \<open>dp_log\<close> record
  what the queues took and which handler has run on which event.
\<close>

type_synonym subscription = "string list \<times> nat"
type_synonym queued_event = "fs_event \<times> nat list"

datatype queue_worker = W_Idle | W_Running fs_event "nat list" | W_Stopped "(fs_event \<times> nat) list"

record dispatcher =
  dp_queues :: "nat \<Rightarrow> queued_event list"
  dp_workers :: "nat \<Rightarrow> queue_worker"
  dp_closed :: bool
  dp_overflows :: int
  dp_accepted :: "queued_event list"
  dp_log :: "(fs_event \<times> nat) list"

definition start_event_dispatch :: dispatcher where
  "start_event_dispatch = \<lparr>dp_queues = (\<lambda>_. []), dp_workers = (\<lambda>_. W_Idle), dp_closed = False, dp_overflows = 0,
     dp_accepted = [], dp_log = []\<rparr>"

definition matching_handlers :: "subscription list \<Rightarrow> fs_event \<Rightarrow> nat list" where
  "matching_handlers subs ev = map snd (filter (\<lambda>(events, _). subscription_matches events (ev_name ev)) subs)"

definition dispatch_event :: "subscription list \<Rightarrow> frame \<Rightarrow> dispatcher \<Rightarrow> go_err option \<times> dispatcher" where
  "dispatch_event subs f d =
     (let ev = event_of_frame f; handlers = matching_handlers subs ev; i = event_dispatch_shard (event_key ev) in
      if handlers = [] then (None, d)
      else if dp_closed d then (Some err_canceled, d)
      else if length (dp_queues d i) < event_queue_depth
      then (None, d\<lparr>dp_queues := (dp_queues d)(i := dp_queues d i @ [(ev, handlers)]),
                    dp_accepted := dp_accepted d @ [(ev, handlers)]\<rparr>)
      else (Some (Errf ''FreeSWITCH event queue full: event=%s channel=%s''
                    [ev_name ev, trim_space (event_header ev ''Unique-ID'')]),
            d\<lparr>dp_overflows := wrapu64 (dp_overflows d + 1)\<rparr>))"

text \<open>
  One worker: it takes the head of its queue or sees the end of the lifecycle context, and after every
  handler it looks at the context again.
\<close>

definition handler_runs :: "queued_event \<Rightarrow> (fs_event \<times> nat) list" where
  "handler_runs q = map (Pair (fst q)) (snd q)"

definition worker_take :: "nat \<Rightarrow> dispatcher \<Rightarrow> dispatcher" where
  "worker_take i d = (case (dp_workers d i, dp_queues d i) of
     (W_Idle, q # rest) \<Rightarrow>
       d\<lparr>dp_queues := (dp_queues d)(i := rest), dp_workers := (dp_workers d)(i := W_Running (fst q) (snd q))\<rparr>
   | _ \<Rightarrow> d)"

definition worker_handle :: "nat \<Rightarrow> dispatcher \<Rightarrow> dispatcher" where
  "worker_handle i d = (case dp_workers d i of
     W_Running ev (h # hs) \<Rightarrow>
       d\<lparr>dp_log := dp_log d @ [(ev, h)],
         dp_workers := (dp_workers d)(i := if dp_closed d then W_Stopped (handler_runs (ev, hs)) else W_Running ev hs)\<rparr>
   | W_Running ev [] \<Rightarrow> d\<lparr>dp_workers := (dp_workers d)(i := W_Idle)\<rparr>
   | _ \<Rightarrow> d)"

definition worker_stop :: "nat \<Rightarrow> dispatcher \<Rightarrow> dispatcher" where
  "worker_stop i d =
     (if dp_workers d i = W_Idle \<and> dp_closed d then d\<lparr>dp_workers := (dp_workers d)(i := W_Stopped [])\<rparr> else d)"

definition close_dispatch :: "dispatcher \<Rightarrow> dispatcher" where
  "close_dispatch d = d\<lparr>dp_closed := True\<rparr>"

inductive dispatch_step :: "subscription list \<Rightarrow> dispatcher \<Rightarrow> dispatcher \<Rightarrow> bool" for subs where
  arrive: "dispatch_step subs d (snd (dispatch_event subs f d))"
| take: "dispatch_step subs d (worker_take i d)"
| handle: "dispatch_step subs d (worker_handle i d)"
| stop: "dispatch_step subs d (worker_stop i d)"
| close: "dispatch_step subs d (close_dispatch d)"

abbreviation dispatch_reachable :: "subscription list \<Rightarrow> dispatcher \<Rightarrow> bool" where
  "dispatch_reachable subs \<equiv> (dispatch_step subs)\<^sup>*\<^sup>* start_event_dispatch"

section \<open>Order within a shard\<close>

definition on_shard :: "nat \<Rightarrow> fs_event \<Rightarrow> bool" where
  "on_shard i ev \<longleftrightarrow> event_dispatch_shard (event_key ev) = i"

fun unfinished :: "queue_worker \<Rightarrow> (fs_event \<times> nat) list" where
  "unfinished W_Idle = []"
| "unfinished (W_Running ev hs) = handler_runs (ev, hs)"
| "unfinished (W_Stopped runs) = runs"

definition runs_of :: "queued_event list \<Rightarrow> (fs_event \<times> nat) list" where
  "runs_of qs = concat (map handler_runs qs)"

definition shard_order :: "dispatcher \<Rightarrow> bool" where
  "shard_order d \<longleftrightarrow> (\<forall>i. length (dp_queues d i) \<le> event_queue_depth
     \<and> filter (on_shard i \<circ> fst) (dp_log d) @ unfinished (dp_workers d i) @ runs_of (dp_queues d i)
       = runs_of (filter (on_shard i \<circ> fst) (dp_accepted d)))"

lemma runs_of_simps [simp]:
  "runs_of [] = []" "runs_of (q # qs) = handler_runs q @ runs_of qs" "runs_of (qs @ rs) = runs_of qs @ runs_of rs"
  "handler_runs (ev, []) = []" "handler_runs (ev, h # hs) = (ev, h) # handler_runs (ev, hs)"
  by (simp_all add: runs_of_def handler_runs_def)

lemma filter_handler_runs: "filter (\<lambda>r. P (fst r)) (handler_runs q) = (if P (fst q) then handler_runs q else [])"
  by (auto simp: handler_runs_def filter_map o_def)

lemma filter_runs_of: "filter (\<lambda>r. P (fst r)) (runs_of qs) = runs_of (filter (\<lambda>q. P (fst q)) qs)"
  by (induction qs) (auto simp: filter_handler_runs)

lemma set_runs_of: "(ev, h) \<in> set (runs_of qs) \<Longrightarrow> ev \<in> fst ` set qs"
  by (induction qs) (auto simp: handler_runs_def)

lemma shard_order_at: "shard_order d \<Longrightarrow>
    filter (on_shard i \<circ> fst) (dp_log d) @ unfinished (dp_workers d i) @ runs_of (dp_queues d i)
      = runs_of (filter (on_shard i \<circ> fst) (dp_accepted d))"
  by (simp add: shard_order_def)

lemma shard_order_depth: "shard_order d \<Longrightarrow> length (dp_queues d i) \<le> event_queue_depth"
  by (simp add: shard_order_def)

text \<open>What a worker holds belongs to its shard.\<close>

lemma unfinished_on_shard:
  assumes "shard_order d" "(ev, h) \<in> set (unfinished (dp_workers d i))"
  shows "on_shard i ev"
proof -
  have "(ev, h) \<in> set (runs_of (filter (on_shard i \<circ> fst) (dp_accepted d)))"
    using assms unfolding shard_order_def by (metis Un_iff set_append)
  from set_runs_of [OF this] show ?thesis by auto
qed

lemma dispatch_event_order: "shard_order d \<Longrightarrow> shard_order (snd (dispatch_event subs f d))"
  by (auto simp: shard_order_def dispatch_event_def Let_def on_shard_def)

lemma shard_order_upd:
  assumes "shard_order d"
    and "\<And>j. j \<noteq> i \<Longrightarrow> dp_queues e j = dp_queues d j \<and> dp_workers e j = dp_workers d j
          \<and> filter (on_shard j \<circ> fst) (dp_log e) = filter (on_shard j \<circ> fst) (dp_log d)"
    and "dp_accepted e = dp_accepted d" "length (dp_queues e i) \<le> length (dp_queues d i)"
    and "filter (on_shard i \<circ> fst) (dp_log e) @ unfinished (dp_workers e i) @ runs_of (dp_queues e i)
       = filter (on_shard i \<circ> fst) (dp_log d) @ unfinished (dp_workers d i) @ runs_of (dp_queues d i)"
  shows "shard_order e"
  unfolding shard_order_def
proof
  fix j
  show "length (dp_queues e j) \<le> event_queue_depth
     \<and> filter (on_shard j \<circ> fst) (dp_log e) @ unfinished (dp_workers e j) @ runs_of (dp_queues e j)
       = runs_of (filter (on_shard j \<circ> fst) (dp_accepted e))"
    using shard_order_at [OF assms(1), of j] shard_order_depth [OF assms(1), of j] assms(2) [of j] assms(3-5)
    by (cases "j = i") auto
qed

lemma worker_take_order: "shard_order d \<Longrightarrow> shard_order (worker_take i d)"
  by (rule shard_order_upd [where d = d and i = i]) (auto simp: worker_take_def split: queue_worker.split list.split)

lemma worker_stop_order: "shard_order d \<Longrightarrow> shard_order (worker_stop i d)"
  by (rule shard_order_upd [where d = d and i = i]) (auto simp: worker_stop_def)

lemma worker_handle_order:
  assumes "shard_order d"
  shows "shard_order (worker_handle i d)"
proof -
  have "on_shard j ev \<longleftrightarrow> j = i" if "dp_workers d i = W_Running ev (h # hs)" for j ev h hs
    using unfinished_on_shard [OF assms, of ev h i] that by (auto simp: on_shard_def)
  then show ?thesis
    by (intro shard_order_upd [OF assms, where i = i]) (auto simp: worker_handle_def split: queue_worker.split list.split)
qed

lemma shard_order_reachable: "dispatch_reachable subs d \<Longrightarrow> shard_order d"
proof (induction rule: rtranclp_induct)
  case base
  then show ?case by (simp add: shard_order_def start_event_dispatch_def)
next
  case (step d e)
  from step(2) step(3) show ?case
  proof cases
    case close
    with step(3) show ?thesis by (auto simp: shard_order_def close_dispatch_def)
  qed (simp_all add: dispatch_event_order worker_take_order worker_handle_order worker_stop_order)
qed

section \<open>Order within a channel\<close>

text \<open>C31: the handlers of a channel run in the order its events arrived, whatever the other channels do and
  however the sixteen workers interleave: what they have run and what is still unfinished or queued on the channel's
  shard are together exactly the runs of the channel's accepted events, and no queue exceeds its depth.\<close>

theorem channel_events_in_order:
  assumes "(dispatch_step subs)\<^sup>*\<^sup>* start_event_dispatch d"
  shows "filter (\<lambda>r. event_key (fst r) = k) (dp_log d)
      @ filter (\<lambda>r. event_key (fst r) = k) (unfinished (dp_workers d (event_dispatch_shard k)) @ runs_of (dp_queues d (event_dispatch_shard k)))
    = runs_of (filter (\<lambda>q. event_key (fst q) = k) (dp_accepted d))
    \<and> length (dp_queues d i) \<le> event_queue_depth \<and> event_dispatch_shard k < event_dispatch_shards"
proof (intro conjI)
  let ?k = "\<lambda>r. event_key (fst r) = k"
  let ?i = "event_dispatch_shard k"
  have order: "shard_order d" using assms by (rule shard_order_reachable)
  have sub: "filter ?k (filter (on_shard ?i \<circ> fst) xs) = filter ?k xs" for xs :: "(fs_event \<times> 'a) list"
    unfolding filter_filter by (rule filter_cong) (auto simp: on_shard_def)
  have "filter ?k (dp_log d) @ filter ?k (unfinished (dp_workers d ?i) @ runs_of (dp_queues d ?i))
      = filter ?k (filter (on_shard ?i \<circ> fst) (dp_log d) @ unfinished (dp_workers d ?i) @ runs_of (dp_queues d ?i))"
    unfolding filter_append sub ..
  also have "\<dots> = runs_of (filter (\<lambda>q. event_key (fst q) = k) (dp_accepted d))"
    unfolding shard_order_at [OF order] unfolding filter_runs_of [of "\<lambda>ev. event_key ev = k"] sub ..
  finally show "filter ?k (dp_log d) @ filter ?k (unfinished (dp_workers d ?i) @ runs_of (dp_queues d ?i))
      = runs_of (filter (\<lambda>q. event_key (fst q) = k) (dp_accepted d))" .
  show "length (dp_queues d i) \<le> event_queue_depth" by (rule shard_order_depth [OF order])
  show "?i < event_dispatch_shards" by (simp add: event_dispatch_shard_def event_dispatch_shards_def)
qed

definition demo_frame :: frame where
  "demo_frame = \<lparr>fr_type = ''text/event-plain'', fr_headers = [(''Event-Name'', ''CHANNEL_ANSWER''), (''Unique-ID'', ''c1'')], fr_body = []\<rparr>"

definition demo_dispatcher :: dispatcher where
  "demo_dispatcher = worker_handle 3 (worker_take 3 (snd (dispatch_event [([], 7)] demo_frame start_event_dispatch)))"

theorem channel_events_in_order_witness:
  "filter (\<lambda>r. event_key (fst r) = ''c1'') (dp_log demo_dispatcher)
      @ filter (\<lambda>r. event_key (fst r) = ''c1'') (unfinished (dp_workers demo_dispatcher (event_dispatch_shard ''c1''))
          @ runs_of (dp_queues demo_dispatcher (event_dispatch_shard ''c1'')))
    = runs_of (filter (\<lambda>q. event_key (fst q) = ''c1'') (dp_accepted demo_dispatcher))
    \<and> length (dp_queues demo_dispatcher 0) \<le> event_queue_depth \<and> event_dispatch_shard ''c1'' < event_dispatch_shards"
proof (rule channel_events_in_order)
  show "(dispatch_step [([], 7)])\<^sup>*\<^sup>* start_event_dispatch demo_dispatcher"
    unfolding demo_dispatcher_def by (meson dispatch_step.intros rtranclp.intros)
qed

end
