(* ===== verification/Trunk_Model.thy ===== *)
theory Trunk_Model
  imports Go_Text Net_Egress
begin

text \<open>
  SIP trunks (\<open>telephony/trunks/model.go\<close>, \<open>validation.go\<close>): the rows, the requests and their
  normalization. An \<open>*int32\<close> or \<open>*string\<close> of a request is an option; 32-bit numbers are integers, which the
  JSON decoder has already bounded. A \<open>nil\<close> slice of codecs is the empty list.
\<close>

section \<open>Rows\<close>

record trunk =
  tk_id :: uuid
  tk_org :: uuid
  tk_name :: string
  tk_direction :: string
  tk_status :: string
  tk_out_method :: string
  tk_out_user :: "string option"
  tk_out_realm :: "string option"
  tk_out_cipher :: "string option"
  tk_in_enabled :: bool
  tk_in_method :: string
  tk_in_user :: "string option"
  tk_in_realm :: "string option"
  tk_in_cipher :: "string option"
  tk_cps :: int
  tk_calls :: int
  tk_codecs :: "string list"
  tk_video :: bool
  tk_fax :: bool
  tk_created :: int
  tk_updated :: int

record digest_row =
  dg_trunk :: uuid
  dg_org :: uuid
  dg_direction :: string
  dg_user :: string
  dg_realm :: string
  dg_ha1 :: string

record source_ip =
  si_id :: uuid
  si_org :: uuid
  si_trunk :: uuid
  si_cidr :: prefix
  si_created :: int

record endpoint =
  ep_id :: uuid
  ep_org :: uuid
  ep_trunk :: uuid
  ep_host :: string
  ep_port :: int
  ep_transport :: string
  ep_direction :: string
  ep_priority :: int
  ep_weight :: int
  ep_enabled :: bool
  ep_health :: string
  ep_failures :: int
  ep_checked :: "int option"
  ep_code :: "int option"
  ep_latency :: "int option"
  ep_error :: "string option"
  ep_cooldown :: "int option"
  ep_created :: int
  ep_updated :: int

section \<open>Requests\<close>

record digest_credential =
  dc_user :: string
  dc_realm :: string
  dc_secret :: string

record trunk_create =
  tc_name :: string
  tc_direction :: "string option"
  tc_status :: "string option"
  tc_outbound :: "digest_credential option"
  tc_in_enabled :: "bool option"
  tc_in_method :: "string option"
  tc_inbound :: "digest_credential option"
  tc_cps :: "int option"
  tc_calls :: "int option"
  tc_codecs :: "string list"
  tc_video :: "bool option"
  tc_fax :: "bool option"

record trunk_update =
  tu_name :: "string option"
  tu_direction :: "string option"
  tu_status :: "string option"
  tu_in_enabled :: "bool option"
  tu_cps :: "int option"
  tu_calls :: "int option"
  tu_codecs :: "string list option"
  tu_video :: "bool option"
  tu_fax :: "bool option"

record auth_request =
  ar_method :: string
  ar_user :: "string option"
  ar_realm :: "string option"
  ar_secret :: "string option"

record endpoint_create =
  ec_host :: string
  ec_port :: "int option"
  ec_transport :: "string option"
  ec_direction :: "string option"
  ec_priority :: "int option"
  ec_weight :: "int option"
  ec_enabled :: "bool option"

record endpoint_update =
  eu_host :: "string option"
  eu_port :: "int option"
  eu_transport :: "string option"
  eu_direction :: "string option"
  eu_priority :: "int option"
  eu_weight :: "int option"
  eu_enabled :: "bool option"

record trunk_list_request =
  tl_status :: "string option"
  tl_direction :: "string option"
  tl_in_enabled :: "bool option"

section \<open>Responses and events\<close>

record trunk_response =
  tr_id :: uuid
  tr_org :: uuid
  tr_name :: string
  tr_direction :: string
  tr_status :: string
  tr_out_method :: string
  tr_out_user :: "string option"
  tr_out_realm :: "string option"
  tr_has_out :: bool
  tr_in_enabled :: bool
  tr_in_method :: string
  tr_in_user :: "string option"
  tr_in_realm :: "string option"
  tr_has_in :: bool
  tr_cps :: int
  tr_calls :: int
  tr_codecs :: "string list"
  tr_video :: bool
  tr_fax :: bool
  tr_created :: int
  tr_updated :: int

definition trunk_response_of :: "trunk \<Rightarrow> trunk_response" where
  "trunk_response_of t = \<lparr>tr_id = tk_id t, tr_org = tk_org t, tr_name = tk_name t, tr_direction = tk_direction t,
     tr_status = tk_status t, tr_out_method = tk_out_method t, tr_out_user = tk_out_user t, tr_out_realm = tk_out_realm t,
     tr_has_out = (tk_out_cipher t \<noteq> None), tr_in_enabled = tk_in_enabled t, tr_in_method = tk_in_method t,
     tr_in_user = tk_in_user t, tr_in_realm = tk_in_realm t, tr_has_in = (tk_in_cipher t \<noteq> None),
     tr_cps = tk_cps t, tr_calls = tk_calls t, tr_codecs = tk_codecs t, tr_video = tk_video t, tr_fax = tk_fax t,
     tr_created = tk_created t, tr_updated = tk_updated t\<rparr>"

text \<open>\<open>SourceIPResponse\<close> drops the organization; \<open>EndpointResponse\<close> has the fields of the row.\<close>

record source_ip_response =
  sr_id :: uuid
  sr_trunk :: uuid
  sr_cidr :: prefix
  sr_created :: int

definition source_ip_response_of :: "source_ip \<Rightarrow> source_ip_response" where
  "source_ip_response_of r = \<lparr>sr_id = si_id r, sr_trunk = si_trunk r, sr_cidr = si_cidr r, sr_created = si_created r\<rparr>"

datatype event_resource = TrunkResource trunk_response | EndpointResource endpoint

record trunk_event =
  te_subject :: string
  te_org :: uuid
  te_trunk :: uuid
  te_endpoint :: "uuid option"
  te_resource :: event_resource
  te_at :: int

section \<open>Normalization\<close>

abbreviation bad :: "string \<Rightarrow> go_err" where
  "bad m \<equiv> new_bad_request m"

definition directions :: "string list" where "directions = [''inbound'', ''outbound'', ''bidirectional'']"
definition statuses :: "string list" where "statuses = [''active'', ''disabled'']"
definition transports :: "string list" where "transports = [''udp'', ''tcp'', ''tls'']"
definition supported_codecs :: "string list" where
  "supported_codecs = [''PCMU'', ''PCMA'', ''G722'', ''OPUS'', ''G729'']"

definition validate_id :: "uuid \<Rightarrow> string \<Rightarrow> go_err option" where
  "validate_id i field = (if i = uuid_nil then Some (bad (field @ '' is required'')) else None)"

definition normalize_choice :: "string \<Rightarrow> string list \<Rightarrow> string \<Rightarrow> go_err + string" where
  "normalize_choice value choices field =
     (let v = to_lower (trim_space value) in if v \<in> set choices then Inr v else Inl (bad (''invalid '' @ field)))"

text \<open>An optional field: the code normalizes what is present.\<close>

definition optional :: "('a \<Rightarrow> go_err + 'b) \<Rightarrow> 'a option \<Rightarrow> go_err + 'b option" where
  "optional f v = (case v of None \<Rightarrow> Inr None | Some x \<Rightarrow> rbind (f x) (\<lambda>y. Inr (Some y)))"

definition normalize_name :: "string \<Rightarrow> go_err + string" where
  "normalize_name value =
     (let v = trim_space value in
      if v = [] \<or> 255 < length v then Inl (bad ''name must be between 1 and 255 characters'') else Inr v)"

text \<open>The error is the message \<open>fmt.Errorf\<close> makes; the callers put it into an application error.\<close>

definition normalize_credential :: "digest_credential \<Rightarrow> string + digest_credential" where
  "normalize_credential c0 =
     (let c = c0\<lparr>dc_user := trim_space (dc_user c0), dc_realm := trim_space (dc_realm c0)\<rparr> in
      checked (first_error
        [(dc_user c = [] \<or> 255 < length (dc_user c), ''username must be between 1 and 255 characters''),
         (dc_secret c = [] \<or> 4096 < length (dc_secret c), ''secret must be between 1 and 4096 characters''),
         (dc_realm c = [] \<or> 255 < length (dc_realm c) \<or> contains_any (dc_realm c) [CHR 0x0D, CHR 0x0A],
            ''realm must be between 1 and 255 characters'')]) c)"

text \<open>\<open>%q\<close> on printable text: quotes and backslashes are escaped; the escapes of control characters are not modelled.\<close>

definition quoted :: "string \<Rightarrow> string" where
  "quoted s = CHR 0x22 # List.maps (\<lambda>c. if c = CHR 0x22 \<or> c = CHR 0x5C then [CHR 0x5C, c] else [c]) s @ [CHR 0x22]"

fun codec_loop :: "string list \<Rightarrow> string list \<Rightarrow> go_err + string list" where
  "codec_loop result [] = Inr result"
| "codec_loop result (v # vs) =
     (let c = to_upper (trim_space v) in
      if c \<notin> set supported_codecs then Inl (bad (''unsupported codec '' @ quoted c))
      else if c \<in> set result then codec_loop result vs
      else codec_loop (result @ [c]) vs)"

definition normalize_codecs :: "string list \<Rightarrow> go_err + string list" where
  "normalize_codecs values = (if values = [] then Inr [] else codec_loop [] values)"

definition positive :: "string \<Rightarrow> int option \<Rightarrow> go_err option" where
  "positive field v = (case v of None \<Rightarrow> None
     | Some n \<Rightarrow> if n < 1 then Some (bad (field @ '' must be greater than zero'')) else None)"

definition prefixed :: "string \<Rightarrow> string + 'a \<Rightarrow> go_err + 'a" where
  "prefixed p r = rmap_error (\<lambda>m. bad (p @ m)) r"

definition normalize_create :: "trunk_create \<Rightarrow> go_err + trunk_create" where
  "normalize_create req =
     rbind (normalize_name (tc_name req)) (\<lambda>name.
     rbind (optional (\<lambda>v. normalize_choice v directions ''direction'') (tc_direction req)) (\<lambda>direction.
     rbind (optional (\<lambda>v. normalize_choice v statuses ''status'') (tc_status req)) (\<lambda>status.
     rbind (checked (or_else (positive ''max_cps'' (tc_cps req)) (positive ''max_concurrent_calls'' (tc_calls req))) ()) (\<lambda>_.
     rbind (normalize_codecs (tc_codecs req)) (\<lambda>codecs.
     rbind (optional (\<lambda>c. prefixed ''outbound credential: '' (normalize_credential c)) (tc_outbound req)) (\<lambda>outbound.
     let method = (case tc_in_method req of None \<Rightarrow> ''ip'' | Some m \<Rightarrow> to_lower (trim_space m)) in
     if method \<noteq> ''ip'' \<and> method \<noteq> ''digest'' then Inl (bad ''inbound_auth_method must be ip or digest'')
     else
       rbind (if method = ''digest''
              then (case tc_inbound req of
                      None \<Rightarrow> Inl (bad ''inbound credential is required for digest authentication'')
                    | Some c \<Rightarrow> rbind (prefixed ''inbound credential: '' (normalize_credential c)) (\<lambda>c'. Inr (Some c')))
              else if tc_inbound req \<noteq> None
              then Inl (bad ''inbound credential is only accepted for digest authentication'')
              else Inr None) (\<lambda>inbound.
       Inr (req\<lparr>tc_name := name, tc_direction := direction, tc_status := status, tc_codecs := codecs,
                tc_outbound := outbound, tc_in_method := Some method, tc_inbound := inbound\<rparr>))))))))"

definition normalize_update :: "trunk_update \<Rightarrow> go_err + trunk_update" where
  "normalize_update req =
     (if tu_name req = None \<and> tu_direction req = None \<and> tu_status req = None \<and> tu_in_enabled req = None
         \<and> tu_cps req = None \<and> tu_calls req = None \<and> tu_codecs req = None \<and> tu_video req = None \<and> tu_fax req = None
      then Inl (bad ''at least one field is required'')
      else
        rbind (optional normalize_name (tu_name req)) (\<lambda>name.
        rbind (optional (\<lambda>v. normalize_choice v directions ''direction'') (tu_direction req)) (\<lambda>direction.
        rbind (optional (\<lambda>v. normalize_choice v statuses ''status'') (tu_status req)) (\<lambda>status.
        rbind (checked (or_else (positive ''max_cps'' (tu_cps req)) (positive ''max_concurrent_calls'' (tu_calls req))) ()) (\<lambda>_.
        rbind (optional normalize_codecs (tu_codecs req)) (\<lambda>codecs.
        Inr (req\<lparr>tu_name := name, tu_direction := direction, tu_status := status, tu_codecs := codecs\<rparr>)))))))"

definition normalize_auth :: "auth_request \<Rightarrow> bool \<Rightarrow> go_err + auth_request" where
  "normalize_auth req inbound =
     (let method = to_lower (trim_space (ar_method req)); req = req\<lparr>ar_method := method\<rparr> in
      if \<not> (method = ''digest'' \<or> (\<not> inbound \<and> method = ''none'') \<or> (inbound \<and> method = ''ip''))
      then Inl (bad ''invalid authentication method'')
      else if method \<noteq> ''digest'' then
        (if ar_user req \<noteq> None \<or> ar_realm req \<noteq> None \<or> ar_secret req \<noteq> None
         then Inl (bad ''username, realm, and secret are only accepted for digest authentication'')
         else Inr req)
      else
        (case (ar_user req, ar_realm req, ar_secret req) of
           (Some u, Some r, Some s) \<Rightarrow>
             rbind (prefixed [] (normalize_credential \<lparr>dc_user = u, dc_realm = r, dc_secret = s\<rparr>)) (\<lambda>c.
               Inr (req\<lparr>ar_user := Some (dc_user c), ar_realm := Some (dc_realm c), ar_secret := Some (dc_secret c)\<rparr>))
         | _ \<Rightarrow> Inl (bad ''username, realm, and secret are required for digest authentication'')))"

definition parse_cidr :: "string \<Rightarrow> go_err + prefix" where
  "parse_cidr value =
     (case parse_prefix (trim_space value) of
        None \<Rightarrow> Inl (bad ''cidr must be a valid network prefix'')
      | Some p \<Rightarrow> Inr (masked p))"

section \<open>Hosts\<close>

definition host_char :: "char \<Rightarrow> bool" where
  "host_char c \<longleftrightarrow> (let n = (of_char c :: nat) in 97 \<le> n \<and> n \<le> 122 \<or> 48 \<le> n \<and> n \<le> 57 \<or> c = CHR ''-'')"

definition host_label :: "string \<Rightarrow> bool" where
  "host_label l \<longleftrightarrow> l \<noteq> [] \<and> length l \<le> 63 \<and> hd l \<noteq> CHR ''-'' \<and> List.last l \<noteq> CHR ''-'' \<and> list_all host_char l"

definition has_suffix :: "string \<Rightarrow> string \<Rightarrow> bool" where
  "has_suffix s suf \<longleftrightarrow> length suf \<le> length s \<and> drop (length s - length suf) s = suf"

definition normalize_host :: "string \<Rightarrow> go_err + string" where
  "normalize_host value0 =
     (let value = to_lower (trim_suffix (trim_space value0) ''.'') in
      if value = [] \<or> 253 < length value \<or> contains_any value [CHR '' '', CHR 0x09, CHR 0x0D, CHR 0x0A]
      then Inl (bad ''host must be a valid IP address or hostname'')
      else (case parse_addr value of
          Some address \<Rightarrow>
            (case validate_address [] address of
               Some _ \<Rightarrow> Inl (bad ''SIP trunk endpoints must use public IP addresses'')
             | None \<Rightarrow> Inr (addr_string (unmap address)))
        | None \<Rightarrow>
            if value = ''localhost'' \<or> has_suffix value ''.localhost'' \<or> has_suffix value ''.local'' \<or> has_suffix value ''.internal''
            then Inl (bad ''SIP trunk endpoint must use a public hostname'')
            else if list_all host_label (split_on CHR ''.'' value) then Inr value
            else Inl (bad ''host must be a valid IP address or hostname'')))"

definition validate_port :: "int \<Rightarrow> go_err option" where
  "validate_port port = (if port < 1 \<or> 65535 < port then Some (bad ''port must be between 1 and 65535'') else None)"

definition validate_priority :: "int \<Rightarrow> go_err option" where
  "validate_priority p = (if p < 0 then Some (bad ''priority must be non-negative'') else None)"

definition validate_weight :: "int \<Rightarrow> go_err option" where
  "validate_weight w = (if w < 1 then Some (bad ''weight must be greater than zero'') else None)"

definition validate_trunk_filters :: "trunk_list_request \<Rightarrow> go_err option" where
  "validate_trunk_filters req =
     or_else (listquery_enum ''status'' (tl_status req) statuses) (listquery_enum ''direction'' (tl_direction req) directions)"

end
