(* ===== verification/Sql_World.thy ===== *)
theory Sql_World
  imports Go_Actions Go_Text
begin

text \<open>
  Services over a relational database: a world with the database \<open>'d\<close>, the statements that read or
  change it and the transactions that group them. Every statement, begin and commit takes the next
  \<open>sql_env\<close> of the environment \<open>E\<close>: its fault (the error the driver returns and whether the server had
  applied the statement before it was lost), the clock of the server and the identity a default of
  the schema draws. A transaction works on its own copy of the database and leaves nothing unless it commits.
\<close>

section \<open>Statements and transactions\<close>

record sql_env =
  sq_fault :: "(go_err \<times> bool) option"
  sq_now :: int
  sq_fresh :: uuid

record 'd sql_world =
  sw_tick :: nat
  sw_db :: 'd

type_synonym ('d, 'a) sql_action = "('d sql_world, go_err + 'a) state"

definition sql_query :: "(nat \<Rightarrow> sql_env) \<Rightarrow> (sql_env \<Rightarrow> 'd \<Rightarrow> go_err + 'a) \<Rightarrow> ('d, 'a) sql_action" where
  "sql_query E q = State (\<lambda>w.
     let se = E (sw_tick w) in
     (case sq_fault se of Some (e, _) \<Rightarrow> Inl e | None \<Rightarrow> q se (sw_db w), w\<lparr>sw_tick := Suc (sw_tick w)\<rparr>))"

definition sql_exec :: "(nat \<Rightarrow> sql_env) \<Rightarrow> (sql_env \<Rightarrow> 'd \<Rightarrow> (go_err + 'a) \<times> 'd) \<Rightarrow> ('d, 'a) sql_action" where
  "sql_exec E q = State (\<lambda>w.
     let se = E (sw_tick w) in
     (case q se (sw_db w) of (r, db) \<Rightarrow>
       (case sq_fault se of
          None \<Rightarrow> (r, w\<lparr>sw_tick := Suc (sw_tick w), sw_db := db\<rparr>)
        | Some (e, applied) \<Rightarrow> (Inl e, w\<lparr>sw_tick := Suc (sw_tick w), sw_db := if applied then db else sw_db w\<rparr>))))"

text \<open>A step of the environment without the database: a clock, a random identity, a call to another service.\<close>

definition sql_tick :: "('d sql_world, nat) state" where
  "sql_tick = State (\<lambda>w. (sw_tick w, w\<lparr>sw_tick := Suc (sw_tick w)\<rparr>))"

text \<open>
  \<open>db.Begin\<close>, the body, \<open>tx.Commit\<close> with the deferred \<open>tx.Rollback\<close>. The wrappers are those the code puts on
  a failed begin and a failed commit; a commit that fails may have been applied.
\<close>

definition sql_begin :: "(nat \<Rightarrow> sql_env) \<Rightarrow> (go_err \<Rightarrow> go_err) \<Rightarrow> ('d, unit) sql_action" where
  "sql_begin E wrap = map_error wrap (sql_query E (\<lambda>_ _. Inr ()))"

definition sql_commit :: "(nat \<Rightarrow> sql_env) \<Rightarrow> (go_err \<Rightarrow> go_err) \<Rightarrow> 'd \<Rightarrow> ('d, unit) sql_action" where
  "sql_commit E wrap old = State (\<lambda>w.
     (case sq_fault (E (sw_tick w)) of
        None \<Rightarrow> (Inr (), w\<lparr>sw_tick := Suc (sw_tick w)\<rparr>)
      | Some (e, applied) \<Rightarrow> (Inl (wrap e), w\<lparr>sw_tick := Suc (sw_tick w), sw_db := if applied then sw_db w else old\<rparr>)))"

definition rollback_to :: "'d \<Rightarrow> ('d sql_world, 'a) state \<Rightarrow> ('d sql_world, 'a) state" where
  "rollback_to old m = State (\<lambda>w. case run_state m w of (r, w') \<Rightarrow> (r, w'\<lparr>sw_db := old\<rparr>))"

definition in_tx ::
  "(nat \<Rightarrow> sql_env) \<Rightarrow> (go_err \<Rightarrow> go_err) \<Rightarrow> (go_err \<Rightarrow> go_err) \<Rightarrow> ('d, 'a) sql_action \<Rightarrow> ('d, 'a) sql_action" where
  "in_tx E wrap_begin wrap_commit body =
     chain (sql_begin E wrap_begin) (\<lambda>_.
       State (\<lambda>w. run_state
         (handle body (\<lambda>e. rollback_to (sw_db w) (fail e))
           (\<lambda>x. chain (sql_commit E wrap_commit (sw_db w)) (\<lambda>_. succeed x))) w))"

section \<open>Tables\<close>

text \<open>
  \<open>update_rows\<close> is \<open>UPDATE ... SET f WHERE p\<close>; a statement with \<open>RETURNING\<close> that has no row is \<open>pgx.ErrNoRows\<close>.
  A schema is the list of its constraints with their SQLSTATE: a statement whose result violates one
  fails with the code of the first and changes nothing. A text parameter has to be valid UTF-8 without a zero byte (22021).
\<close>

definition update_rows :: "('r \<Rightarrow> bool) \<Rightarrow> ('r \<Rightarrow> 'r) \<Rightarrow> 'r list \<Rightarrow> 'r list" where
  "update_rows p f rows = map (\<lambda>r. if p r then f r else r) rows"

definition one_row :: "('r \<Rightarrow> bool) \<Rightarrow> 'r list \<Rightarrow> go_err + 'r" where
  "one_row p rows = (case find p rows of None \<Rightarrow> Inl err_no_rows | Some r \<Rightarrow> Inr r)"

fun violation :: "(string \<times> ('d \<Rightarrow> bool)) list \<Rightarrow> 'd \<Rightarrow> go_err option" where
  "violation [] d = None"
| "violation ((code, ok) # cs) d = (if ok d then violation cs d else Some (PgErr code))"

definition constrained :: "(string \<times> ('d \<Rightarrow> bool)) list \<Rightarrow> 'd \<Rightarrow> (go_err + 'a) \<times> 'd \<Rightarrow> (go_err + 'a) \<times> 'd" where
  "constrained schema old r = (case violation schema (snd r) of None \<Rightarrow> r | Some e \<Rightarrow> (Inl e, old))"

text \<open>An organization as the statements of other tables see it, and the parameters of a statement that are not NULL.\<close>

record organization_row =
  og_id :: uuid
  og_status :: string
  og_deleted :: bool

definition texts :: "string option list \<Rightarrow> string list" where
  "texts vs = List.map_filter (\<lambda>v. v) vs"

text \<open>\<open>length(trim(s)) > 0\<close>, \<open>ORDER BY\<close> and \<open>COALESCE($n, column)\<close> of a parameter that may be NULL.\<close>

definition not_blank :: "string \<Rightarrow> bool" where
  "not_blank s \<longleftrightarrow> list_ex (\<lambda>c. c \<noteq> CHR '' '') s"

fun insert_row :: "('r \<Rightarrow> 'r \<Rightarrow> bool) \<Rightarrow> 'r \<Rightarrow> 'r list \<Rightarrow> 'r list" where
  "insert_row le r [] = [r]"
| "insert_row le r (x # xs) = (if le r x then r # x # xs else x # insert_row le r xs)"

definition order_by :: "('r \<Rightarrow> 'r \<Rightarrow> bool) \<Rightarrow> 'r list \<Rightarrow> 'r list" where
  "order_by le rows = foldr (insert_row le) rows []"

definition keep_or :: "'a option \<Rightarrow> 'a \<Rightarrow> 'a" where
  "keep_or v dflt = (case v of None \<Rightarrow> dflt | Some x \<Rightarrow> x)"

definition pg_text :: "string \<Rightarrow> bool" where
  "pg_text s \<longleftrightarrow> utf8_valid s \<and> CHR 0x00 \<notin> set s"

definition with_texts :: "string list \<Rightarrow> 'd \<Rightarrow> (go_err + 'a) \<times> 'd \<Rightarrow> (go_err + 'a) \<times> 'd" where
  "with_texts ps old r = (if list_all pg_text ps then r else (Inl (PgErr ''22021''), old))"

lemma violation_None: "violation cs d = None \<longleftrightarrow> (\<forall>(code, ok) \<in> set cs. ok d)"
  by (induction cs d rule: violation.induct) auto

lemma violation_pg: "violation cs d = Some e \<Longrightarrow> \<exists>code. e = PgErr code"
  by (induction cs d rule: violation.induct) (auto split: if_splits)

text \<open>A constrained statement keeps every constraint that held before.\<close>

lemma constrained_cases:
  "constrained schema old r = r \<and> (\<forall>(code, ok) \<in> set schema. ok (snd r)) \<or> (\<exists>e. constrained schema old r = (Inl e, old))"
  unfolding constrained_def using violation_None [of schema "snd r"] by (cases "violation schema (snd r)") auto

lemma constrained_Inr: "constrained schema old r = (Inr x, d) \<Longrightarrow> r = (Inr x, d) \<and> (\<forall>(code, ok) \<in> set schema. ok d)"
  using constrained_cases [of schema old r] by auto

lemma with_texts_Inr: "with_texts ps old r = (Inr x, d) \<Longrightarrow> r = (Inr x, d)"
  by (simp add: with_texts_def split: if_splits)

lemma set_update_rows: "x \<in> set (update_rows p f rows) \<Longrightarrow> \<exists>r \<in> set rows. x = (if p r then f r else r)"
  by (auto simp: update_rows_def)

lemma map_update_rows: "(\<And>r. p r \<Longrightarrow> g (f r) = g r) \<Longrightarrow> map g (update_rows p f rows) = map g rows"
  by (auto simp: update_rows_def)

lemma one_row_Inr: "one_row p rows = Inr r \<Longrightarrow> r \<in> set rows \<and> p r"
  by (auto simp: one_row_def find_Some_iff split: option.splits)

lemma set_order_by [simp]: "set (order_by le xs) = set xs"
proof -
  have "set (insert_row le x xs) = insert x (set xs)" for x and xs :: "'a list"
    by (induction xs) auto
  then show ?thesis unfolding order_by_def by (induction xs) auto
qed

section \<open>What a transaction leaves\<close>

lemma run_sql_query: "run_state (sql_query E q) w =
   (case sq_fault (E (sw_tick w)) of Some (e, _) \<Rightarrow> Inl e | None \<Rightarrow> q (E (sw_tick w)) (sw_db w), w\<lparr>sw_tick := Suc (sw_tick w)\<rparr>)"
  by (simp add: sql_query_def Let_def)

lemma run_sql_tick [simp]: "run_state sql_tick w = (sw_tick w, w\<lparr>sw_tick := Suc (sw_tick w)\<rparr>)"
  by (simp add: sql_tick_def)

lemma sql_query_db [simp]: "sw_db (snd (run_state (sql_query E q) w)) = sw_db w"
  by (simp add: run_sql_query)

lemma sql_begin_db [simp]: "sw_db (snd (run_state (sql_begin E wrap) w)) = sw_db w"
  by (simp add: sql_begin_def run_combinators run_sql_query split: sum.split prod.split option.split)

text \<open>A statement that succeeds has had its effect on the database it met.\<close>

lemma sql_exec_Inr:
  "run_state (sql_exec E q) w = (Inr x, w') \<Longrightarrow> q (E (sw_tick w)) (sw_db w) = (Inr x, sw_db w')"
  by (auto simp: sql_exec_def Let_def split: prod.splits option.splits)

lemma sql_exec_failed:
  assumes "q (E (sw_tick w)) (sw_db w) = (Inl e, sw_db w)"
  shows "\<exists>e'. run_state (sql_exec E q) w = (Inl e', w\<lparr>sw_tick := Suc (sw_tick w)\<rparr>) \<and> (sq_fault (E (sw_tick w)) = None \<longrightarrow> e' = e)"
proof (cases "sq_fault (E (sw_tick w))")
  case (Some f)
  obtain e' applied where "f = (e', applied)" by force
  with assms Some show ?thesis by (simp add: sql_exec_def)
qed (use assms in \<open>simp add: sql_exec_def\<close>)

lemma sql_query_Inr:
  "run_state (sql_query E q) w = (Inr x, w') \<Longrightarrow> q (E (sw_tick w)) (sw_db w) = Inr x \<and> sw_db w' = sw_db w"
  by (auto simp: run_sql_query split: option.splits)

lemma sql_exec_fst: "sq_fault (E (sw_tick w)) = None \<Longrightarrow> fst (run_state (sql_exec E q) w) = fst (q (E (sw_tick w)) (sw_db w))"
  by (simp add: sql_exec_def Let_def split: prod.split)

text \<open>A statement either leaves the database or applies its effect.\<close>

lemma sql_exec_db:
  "sw_db (snd (run_state (sql_exec E q) w)) = sw_db w
   \<or> sw_db (snd (run_state (sql_exec E q) w)) = snd (q (E (sw_tick w)) (sw_db w))"
  by (simp add: sql_exec_def Let_def split: prod.split option.split)

text \<open>
  A transaction leaves the database, or what its body made of it after a body that succeeded; when
  it succeeds it has left the latter.
\<close>

lemma in_tx_cases:
  obtains (nothing) e where "fst (run_state (in_tx E wb wc body) w) = Inl e" "sw_db (snd (run_state (in_tx E wb wc body) w)) = sw_db w"
  | (committed) x u v where "sw_db u = sw_db w" "run_state body u = (Inr x, v)"
      "sw_db (snd (run_state (in_tx E wb wc body) w)) = sw_db v"
      "fst (run_state (in_tx E wb wc body) w) = Inr x \<or> (\<exists>e. fst (run_state (in_tx E wb wc body) w) = Inl (wc e))"
proof -
  obtain b u where b: "run_state (sql_begin E wb) w = (b, u)" by force
  then have u: "sw_db u = sw_db w" using sql_begin_db [of E wb w] by simp
  obtain r v where r: "run_state body u = (r, v)" by force
  show thesis
  proof (cases "\<exists>x. b = Inr () \<and> r = Inr x")
    case True
    then obtain x where x: "b = Inr ()" "r = Inr x" by blast
    show thesis
    proof (cases "sq_fault (E (sw_tick v))")
      case None
      then show thesis
        by (intro committed [of u x v])
          (simp_all add: u in_tx_def run_combinators b r x sql_commit_def)
    next
      case (Some f)
      obtain e applied where f: "f = (e, applied)" by force
      note simps = u in_tx_def run_combinators b r x sql_commit_def Some f
      show thesis
      proof (cases applied)
        case True
        then show thesis by - (rule committed [of u x v], simp_all add: simps, blast)
      next
        case False
        then show thesis by - (rule nothing [of "wc e"], simp_all add: simps)
      qed
    qed
  next
    case False
    then obtain e where e: "b = Inl e \<or> b = Inr () \<and> r = Inl e" by (metis sum.exhaust unit.exhaust)
    show thesis
      by (rule nothing [of e]) (use e in \<open>auto simp: in_tx_def run_combinators b r rollback_to_def u\<close>)
  qed
qed

lemma in_tx_Inr:
  assumes "run_state (in_tx E wb wc body) w = (Inr x, w')"
  shows "\<exists>u v. sw_db u = sw_db w \<and> run_state body u = (Inr x, v) \<and> sw_db w' = sw_db v"
  using assms by (cases rule: in_tx_cases [of E wb wc body w]) force+

section \<open>Guarantees on the database\<close>

text \<open>
  A relation on databases that the committed effects stay in. A statement has it when its effect
  does; a transaction has it when the whole of its body does.
\<close>

locale sql_guarantee =
  fixes D :: "'d \<Rightarrow> 'd \<Rightarrow> bool"
  assumes d_refl: "D d d"
    and d_trans: "D a b \<Longrightarrow> D b c \<Longrightarrow> D a c"
begin

definition R :: "'d sql_world \<Rightarrow> 'd sql_world \<Rightarrow> bool" where
  "R w w' \<longleftrightarrow> D (sw_db w) (sw_db w')"

lemma same_db: "(\<And>w. sw_db (snd (run_state m w)) = sw_db w) \<Longrightarrow> state_io_rel R m"
  by (simp add: state_io_rel_def R_def d_refl)

lemma query: "state_io_rel R (sql_query E q)"
  by (rule same_db) simp

lemma tick: "state_io_rel R sql_tick"
  by (rule same_db) simp

lemma exec: "(\<And>se d. D d (snd (q se d))) \<Longrightarrow> state_io_rel R (sql_exec E q)"
  unfolding state_io_rel_def R_def using sql_exec_db [of E q] d_refl by metis

lemma tx:
  assumes "\<And>w x w'. run_state body w = (Inr x, w') \<Longrightarrow> D (sw_db w) (sw_db w')"
  shows "state_io_rel R (in_tx E wb wc body)"
  unfolding state_io_rel_def
proof
  fix w
  show "R w (snd (run_state (in_tx E wb wc body) w))"
  proof (cases rule: in_tx_cases [of E wb wc body w])
    case (committed x u v)
    then show ?thesis using assms [of u x v] by (simp add: R_def)
  qed (simp add: R_def d_refl)
qed

lemma run: "state_io_rel R m \<Longrightarrow> D (sw_db w) (sw_db (snd (run_state m w)))"
  by (simp add: state_io_rel_def R_def)

end

sublocale sql_guarantee \<subseteq> world: guarantee R
  by unfold_locales (auto simp: R_def intro: d_refl d_trans)

section \<open>Histories\<close>

text \<open>Operations that only take committed steps of a specification: every history of them does, and keeps what the steps keep.\<close>

lemma history_refines:
  assumes "\<And>op w. step\<^sup>*\<^sup>* (view w) (view (run op w))"
  shows "step\<^sup>*\<^sup>* (view w) (view (fold run ops w))"
proof (induction ops arbitrary: w)
  case (Cons op ops)
  from assms [of w op] Cons [of "run op w"] show ?case by simp
qed simp

lemma star_invariant: "step\<^sup>*\<^sup>* d d' \<Longrightarrow> I d \<Longrightarrow> (\<And>d d'. step d d' \<Longrightarrow> I d \<Longrightarrow> I d') \<Longrightarrow> I d'"
  by (induction rule: rtranclp_induct) auto

lemma history_invariant:
  assumes "\<And>op w. step\<^sup>*\<^sup>* (view w) (view (run op w))" and "\<And>d d'. step d d' \<Longrightarrow> I d \<Longrightarrow> I d'" and "I (view w)"
  shows "I (view (fold run ops w))"
  using history_refines [where run = run and view = view, OF assms(1)] assms(3,2) by (rule star_invariant)

end
