(* ===== verification/Trunk_Store.thy ===== *)
theory Trunk_Store
  imports Trunk_Model Sql_World
begin

text \<open>
  The tables of trunks with their constraints (\<open>migrations/011\<close> to \<open>013\<close>) and the statements of
  \<open>database/sqlc/trunks.sql.go\<close> the trunk service executes. A table is the list of its rows in the order of their
  insertion. \<open>td_call_endpoints\<close> are the endpoints that rows of the table \<open>calls\<close> name, which the foreign key of
  that table keeps from being deleted.
\<close>

section \<open>Tables\<close>

record trunk_db =
  td_orgs :: "organization_row list"
  td_trunks :: "trunk list"
  td_digests :: "digest_row list"
  td_ips :: "source_ip list"
  td_endpoints :: "endpoint list"
  td_call_endpoints :: "uuid list"
  td_outbox :: "trunk_event list"

definition present :: "string option \<Rightarrow> bool" where
  "present s = (case s of None \<Rightarrow> False | Some v \<Rightarrow> not_blank v)"

definition trunk_ok :: "trunk \<Rightarrow> bool" where
  "trunk_ok t \<longleftrightarrow> not_blank (tk_name t) \<and> tk_direction t \<in> set directions \<and> tk_status t \<in> set statuses
     \<and> (tk_out_method t = ''none'' \<and> tk_out_user t = None \<and> tk_out_realm t = None \<and> tk_out_cipher t = None
        \<or> tk_out_method t = ''digest'' \<and> present (tk_out_user t) \<and> present (tk_out_realm t)
          \<and> tk_out_cipher t \<noteq> None \<and> tk_out_cipher t \<noteq> Some [])
     \<and> (tk_in_method t = ''ip'' \<and> tk_in_user t = None \<and> tk_in_realm t = None \<and> tk_in_cipher t = None
        \<or> tk_in_method t = ''digest'' \<and> present (tk_in_user t) \<and> present (tk_in_realm t)
          \<and> tk_in_cipher t \<noteq> None \<and> tk_in_cipher t \<noteq> Some [])
     \<and> 0 < tk_cps t \<and> 0 < tk_calls t"

definition is_lower_hex :: "char \<Rightarrow> bool" where
  "is_lower_hex c \<longleftrightarrow> is_digit c \<or> (97 \<le> (of_char c :: nat) \<and> (of_char c :: nat) \<le> 102)"

definition digest_ok :: "digest_row \<Rightarrow> bool" where
  "digest_ok d \<longleftrightarrow> dg_direction d \<in> {''inbound'', ''outbound''} \<and> not_blank (dg_user d) \<and> not_blank (dg_realm d)
     \<and> length (dg_ha1 d) = 32 \<and> list_all is_lower_hex (dg_ha1 d)"

definition endpoint_ok :: "endpoint \<Rightarrow> bool" where
  "endpoint_ok e \<longleftrightarrow> not_blank (ep_host e) \<and> \<not> contains_any (ep_host e) [CHR '' '', CHR 0x09, CHR 0x0A, CHR 0x0B, CHR 0x0C, CHR 0x0D]
     \<and> 1 \<le> ep_port e \<and> ep_port e \<le> 65535 \<and> ep_transport e \<in> set transports \<and> ep_direction e \<in> set directions
     \<and> 0 \<le> ep_priority e \<and> 0 < ep_weight e \<and> ep_health e \<in> {''unknown'', ''healthy'', ''unhealthy''}
     \<and> 0 \<le> ep_failures e
     \<and> (case ep_code e of None \<Rightarrow> True | Some c \<Rightarrow> 100 \<le> c \<and> c \<le> 699)
     \<and> (case ep_latency e of None \<Rightarrow> True | Some l \<Rightarrow> 0 \<le> l)"

abbreviation trunk_keys :: "trunk_db \<Rightarrow> (uuid \<times> uuid) list" where
  "trunk_keys d \<equiv> map (\<lambda>t. (tk_id t, tk_org t)) (td_trunks d)"

definition trunk_schema :: "(string \<times> (trunk_db \<Rightarrow> bool)) list" where
  "trunk_schema =
     [(''23514'', \<lambda>d. list_all trunk_ok (td_trunks d)),
      (''23505'', \<lambda>d. distinct (map tk_id (td_trunks d))),
      (''23505'', \<lambda>d. distinct (map (\<lambda>t. (tk_org t, tk_name t)) (td_trunks d))),
      (''23514'', \<lambda>d. list_all digest_ok (td_digests d)),
      (''23505'', \<lambda>d. distinct (map (\<lambda>r. (dg_trunk r, dg_direction r)) (td_digests d))),
      (''23505'', \<lambda>d. distinct (map (\<lambda>r. (dg_user r, dg_realm r)) (filter (\<lambda>r. dg_direction r = ''inbound'') (td_digests d)))),
      (''23505'', \<lambda>d. distinct (map si_id (td_ips d))),
      (''23505'', \<lambda>d. distinct (map (\<lambda>r. (si_trunk r, si_cidr r)) (td_ips d))),
      (''23514'', \<lambda>d. list_all endpoint_ok (td_endpoints d)),
      (''23505'', \<lambda>d. distinct (map ep_id (td_endpoints d))),
      (''23505'', \<lambda>d. distinct (map (\<lambda>e. (ep_trunk e, ep_host e, ep_port e, ep_transport e, ep_direction e)) (td_endpoints d))),
      (''23503'', \<lambda>d. list_all (\<lambda>t. tk_org t \<in> og_id ` set (td_orgs d)) (td_trunks d)),
      (''23503'', \<lambda>d. list_all (\<lambda>r. (dg_trunk r, dg_org r) \<in> set (trunk_keys d)) (td_digests d)),
      (''23503'', \<lambda>d. list_all (\<lambda>r. (si_trunk r, si_org r) \<in> set (trunk_keys d)) (td_ips d)),
      (''23503'', \<lambda>d. list_all (\<lambda>e. (ep_trunk e, ep_org e) \<in> set (trunk_keys d)) (td_endpoints d)),
      (''23503'', \<lambda>d. set (td_call_endpoints d) \<subseteq> ep_id ` set (td_endpoints d))]"

abbreviation stored :: "trunk_db \<Rightarrow> (go_err + 'a) \<times> trunk_db \<Rightarrow> (go_err + 'a) \<times> trunk_db" where
  "stored \<equiv> constrained trunk_schema"

section \<open>Trunks\<close>

record new_trunk =
  nt_id :: uuid
  nt_org :: uuid
  nt_name :: string
  nt_direction :: "string option"
  nt_status :: "string option"
  nt_out_method :: "string option"
  nt_out_user :: "string option"
  nt_out_realm :: "string option"
  nt_out_cipher :: "string option"
  nt_in_enabled :: "bool option"
  nt_in_method :: "string option"
  nt_in_user :: "string option"
  nt_in_realm :: "string option"
  nt_in_cipher :: "string option"
  nt_cps :: "int option"
  nt_calls :: "int option"
  nt_codecs :: "string list"
  nt_video :: "bool option"
  nt_fax :: "bool option"

text \<open>A nil slice is NULL.\<close>

definition keep_or_list :: "'a list \<Rightarrow> 'a list \<Rightarrow> 'a list" where
  "keep_or_list v dflt = (if v = [] then dflt else v)"



definition org_active :: "uuid \<Rightarrow> trunk_db \<Rightarrow> bool" where
  "org_active org d \<longleftrightarrow> list_ex (\<lambda>o'. og_id o' = org \<and> og_status o' = ''active'' \<and> \<not> og_deleted o') (td_orgs d)"

definition sql_lock_org :: "uuid \<Rightarrow> trunk_db \<Rightarrow> go_err + uuid" where
  "sql_lock_org org d = (if org_active org d then Inr org else Inl err_no_rows)"

definition sql_count_trunks :: "uuid \<Rightarrow> trunk_db \<Rightarrow> int" where
  "sql_count_trunks org d = int (length (filter (\<lambda>t. tk_org t = org) (td_trunks d)))"

definition trunk_of_params :: "new_trunk \<Rightarrow> int \<Rightarrow> trunk" where
  "trunk_of_params n now = \<lparr>tk_id = nt_id n, tk_org = nt_org n, tk_name = nt_name n,
     tk_direction = keep_or (nt_direction n) ''bidirectional'', tk_status = keep_or (nt_status n) ''active'',
     tk_out_method = keep_or (nt_out_method n) ''none'', tk_out_user = nt_out_user n, tk_out_realm = nt_out_realm n,
     tk_out_cipher = nt_out_cipher n, tk_in_enabled = keep_or (nt_in_enabled n) False,
     tk_in_method = keep_or (nt_in_method n) ''ip'', tk_in_user = nt_in_user n, tk_in_realm = nt_in_realm n,
     tk_in_cipher = nt_in_cipher n, tk_cps = keep_or (nt_cps n) 10, tk_calls = keep_or (nt_calls n) 100,
     tk_codecs = keep_or_list (nt_codecs n) [''PCMU'', ''PCMA''], tk_video = keep_or (nt_video n) False,
     tk_fax = keep_or (nt_fax n) False, tk_created = now, tk_updated = now\<rparr>"

definition sql_create_trunk :: "new_trunk \<Rightarrow> int \<Rightarrow> trunk_db \<Rightarrow> (go_err + trunk) \<times> trunk_db" where
  "sql_create_trunk n now d =
     with_texts (nt_name n # nt_codecs n @ texts [nt_direction n, nt_status n, nt_out_method n, nt_out_user n, nt_out_realm n,
         nt_out_cipher n, nt_in_method n, nt_in_user n, nt_in_realm n, nt_in_cipher n]) d
       (if org_active (nt_org n) d
        then stored d (Inr (trunk_of_params n now), d\<lparr>td_trunks := td_trunks d @ [trunk_of_params n now]\<rparr>)
        else (Inl err_no_rows, d))"

definition the_trunk :: "uuid \<Rightarrow> uuid \<Rightarrow> trunk \<Rightarrow> bool" where
  "the_trunk org i t \<longleftrightarrow> tk_id t = i \<and> tk_org t = org"

definition sql_get_trunk :: "uuid \<Rightarrow> uuid \<Rightarrow> trunk_db \<Rightarrow> go_err + trunk" where
  "sql_get_trunk org i d = one_row (the_trunk org i) (td_trunks d)"

text \<open>\<open>ORDER BY created_at DESC, id DESC\<close>.\<close>

definition trunk_key :: "trunk \<Rightarrow> int \<times> string" where
  "trunk_key t = (tk_created t, uuid_string (tk_id t))"

definition later :: "int \<times> string \<Rightarrow> int \<times> string \<Rightarrow> bool" where
  "later a b \<longleftrightarrow> fst b < fst a \<or> fst a = fst b \<and> snd b \<le> snd a"

definition sql_list_trunks :: "uuid \<Rightarrow> trunk_list_request \<Rightarrow> trunk_db \<Rightarrow> trunk list" where
  "sql_list_trunks org req d =
     order_by (\<lambda>a b. later (trunk_key a) (trunk_key b))
       (filter (\<lambda>t. tk_org t = org \<and> tk_status t = keep_or (tl_status req) (tk_status t)
          \<and> tk_direction t = keep_or (tl_direction req) (tk_direction t)
          \<and> tk_in_enabled t = keep_or (tl_in_enabled req) (tk_in_enabled t)) (td_trunks d))"

text \<open>\<open>UPDATE trunks SET f WHERE p RETURNING\<close> of the trunk the key selects.\<close>

definition update_trunk :: "(trunk \<Rightarrow> bool) \<Rightarrow> (trunk \<Rightarrow> trunk) \<Rightarrow> trunk_db \<Rightarrow> (go_err + trunk) \<times> trunk_db" where
  "update_trunk p f d =
     (case one_row p (td_trunks d) of
        Inl e \<Rightarrow> (Inl e, d)
      | Inr t \<Rightarrow> stored d (Inr (f t), d\<lparr>td_trunks := update_rows p f (td_trunks d)\<rparr>))"

definition updated_trunk :: "trunk_update \<Rightarrow> int \<Rightarrow> trunk \<Rightarrow> trunk" where
  "updated_trunk u now t = t\<lparr>tk_name := keep_or (tu_name u) (tk_name t), tk_direction := keep_or (tu_direction u) (tk_direction t),
     tk_status := keep_or (tu_status u) (tk_status t), tk_in_enabled := keep_or (tu_in_enabled u) (tk_in_enabled t),
     tk_cps := keep_or (tu_cps u) (tk_cps t), tk_calls := keep_or (tu_calls u) (tk_calls t),
     tk_codecs := keep_or_list (keep_or (tu_codecs u) []) (tk_codecs t), tk_video := keep_or (tu_video u) (tk_video t),
     tk_fax := keep_or (tu_fax u) (tk_fax t), tk_updated := now\<rparr>"

definition sql_update_trunk :: "trunk_update \<Rightarrow> uuid \<Rightarrow> uuid \<Rightarrow> int \<Rightarrow> trunk_db \<Rightarrow> (go_err + trunk) \<times> trunk_db" where
  "sql_update_trunk u org i now d =
     with_texts (keep_or (tu_codecs u) [] @ texts [tu_name u, tu_direction u, tu_status u]) d
       (update_trunk (the_trunk org i) (updated_trunk u now) d)"

definition sql_disable_trunk :: "uuid \<Rightarrow> uuid \<Rightarrow> int \<Rightarrow> trunk_db \<Rightarrow> (go_err + trunk) \<times> trunk_db" where
  "sql_disable_trunk org i now d =
     update_trunk (\<lambda>t. the_trunk org i t \<and> tk_status t = ''active'') (\<lambda>t. t\<lparr>tk_status := ''disabled'', tk_updated := now\<rparr>) d"

section \<open>Digest credentials\<close>

definition sql_insert_digest :: "digest_row \<Rightarrow> trunk_db \<Rightarrow> (go_err + unit) \<times> trunk_db" where
  "sql_insert_digest r d =
     with_texts [dg_direction r, dg_user r, dg_realm r, dg_ha1 r] d
       (if list_ex (the_trunk (dg_org r) (dg_trunk r)) (td_trunks d)
        then stored d (Inr (), d\<lparr>td_digests := td_digests d @ [r]\<rparr>) else (Inr (), d))"

definition digest_key :: "uuid \<Rightarrow> string \<Rightarrow> digest_row \<Rightarrow> bool" where
  "digest_key i direction r \<longleftrightarrow> dg_trunk r = i \<and> dg_direction r = direction"

text \<open>\<open>INSERT ... ON CONFLICT (trunk_id, direction) DO UPDATE\<close>.\<close>

definition upsert_digest :: "digest_row \<Rightarrow> digest_row list \<Rightarrow> digest_row list" where
  "upsert_digest r rows =
     (if list_ex (digest_key (dg_trunk r) (dg_direction r)) rows
      then update_rows (digest_key (dg_trunk r) (dg_direction r))
             (\<lambda>x. x\<lparr>dg_user := dg_user r, dg_realm := dg_realm r, dg_ha1 := dg_ha1 r\<rparr>) rows
      else rows @ [r])"

text \<open>
  The statements that change a trunk and its credential row together: without a matching trunk they
  do nothing, and succeed.
\<close>

definition with_digest :: "uuid \<Rightarrow> uuid \<Rightarrow> (trunk \<Rightarrow> trunk) \<Rightarrow> (digest_row list \<Rightarrow> digest_row list) \<Rightarrow> trunk_db \<Rightarrow> (go_err + unit) \<times> trunk_db" where
  "with_digest org i f g d =
     (if list_ex (the_trunk org i) (td_trunks d)
      then stored d (Inr (), d\<lparr>td_trunks := update_rows (the_trunk org i) f (td_trunks d), td_digests := g (td_digests d)\<rparr>)
      else (Inr (), d))"

definition sql_set_outbound :: "uuid \<Rightarrow> uuid \<Rightarrow> string \<Rightarrow> string \<Rightarrow> string \<Rightarrow> string \<Rightarrow> int \<Rightarrow> trunk_db \<Rightarrow> (go_err + unit) \<times> trunk_db" where
  "sql_set_outbound org i user realm cipher ha1 now d =
     with_texts [user, realm, cipher, ha1] d
       (with_digest org i
         (\<lambda>t. t\<lparr>tk_out_method := ''digest'', tk_out_user := Some user, tk_out_realm := Some realm, tk_out_cipher := Some cipher, tk_updated := now\<rparr>)
         (upsert_digest \<lparr>dg_trunk = i, dg_org = org, dg_direction = ''outbound'', dg_user = user, dg_realm = realm, dg_ha1 = ha1\<rparr>) d)"

definition sql_clear_outbound :: "uuid \<Rightarrow> uuid \<Rightarrow> int \<Rightarrow> trunk_db \<Rightarrow> (go_err + unit) \<times> trunk_db" where
  "sql_clear_outbound org i now d = with_digest org i
     (\<lambda>t. t\<lparr>tk_out_method := ''none'', tk_out_user := None, tk_out_realm := None, tk_out_cipher := None, tk_updated := now\<rparr>)
     (filter (\<lambda>r. \<not> digest_key i ''outbound'' r)) d"

definition sql_set_inbound :: "uuid \<Rightarrow> uuid \<Rightarrow> string \<Rightarrow> string \<Rightarrow> string \<Rightarrow> string \<Rightarrow> int \<Rightarrow> trunk_db \<Rightarrow> (go_err + unit) \<times> trunk_db" where
  "sql_set_inbound org i user realm cipher ha1 now d =
     with_texts [user, realm, cipher, ha1] d
       (with_digest org i
         (\<lambda>t. t\<lparr>tk_in_method := ''digest'', tk_in_user := Some user, tk_in_realm := Some realm, tk_in_cipher := Some cipher, tk_updated := now\<rparr>)
         (upsert_digest \<lparr>dg_trunk = i, dg_org = org, dg_direction = ''inbound'', dg_user = user, dg_realm = realm, dg_ha1 = ha1\<rparr>) d)"

definition sql_set_inbound_ip :: "uuid \<Rightarrow> uuid \<Rightarrow> int \<Rightarrow> trunk_db \<Rightarrow> (go_err + unit) \<times> trunk_db" where
  "sql_set_inbound_ip org i now d = with_digest org i
     (\<lambda>t. t\<lparr>tk_in_method := ''ip'', tk_in_user := None, tk_in_realm := None, tk_in_cipher := None, tk_updated := now\<rparr>)
     (filter (\<lambda>r. \<not> digest_key i ''inbound'' r)) d"

section \<open>Source addresses\<close>

definition sql_create_ip :: "uuid \<Rightarrow> uuid \<Rightarrow> prefix \<Rightarrow> uuid \<Rightarrow> int \<Rightarrow> trunk_db \<Rightarrow> (go_err + source_ip) \<times> trunk_db" where
  "sql_create_ip org i cidr fresh now d =
     (let row = \<lparr>si_id = fresh, si_org = org, si_trunk = i, si_cidr = cidr, si_created = now\<rparr> in
      if list_ex (the_trunk org i) (td_trunks d)
      then stored d (Inr row, d\<lparr>td_ips := td_ips d @ [row]\<rparr>)
      else (Inl err_no_rows, d))"

definition sql_list_ips :: "uuid \<Rightarrow> uuid \<Rightarrow> trunk_db \<Rightarrow> source_ip list" where
  "sql_list_ips org i d = order_by (\<lambda>a b. si_created a \<le> si_created b)
     (filter (\<lambda>r. si_trunk r = i \<and> si_org r = org) (td_ips d))"

definition sql_delete_ip :: "uuid \<Rightarrow> uuid \<Rightarrow> uuid \<Rightarrow> trunk_db \<Rightarrow> trunk_db" where
  "sql_delete_ip org i ip d = d\<lparr>td_ips := filter (\<lambda>r. \<not> (si_id r = ip \<and> si_trunk r = i \<and> si_org r = org)) (td_ips d)\<rparr>"

section \<open>Endpoints\<close>

definition the_endpoint :: "uuid \<Rightarrow> uuid \<Rightarrow> uuid \<Rightarrow> endpoint \<Rightarrow> bool" where
  "the_endpoint org i e r \<longleftrightarrow> ep_id r = e \<and> ep_trunk r = i \<and> ep_org r = org"

definition endpoint_of_params :: "uuid \<Rightarrow> uuid \<Rightarrow> endpoint_create \<Rightarrow> uuid \<Rightarrow> int \<Rightarrow> endpoint" where
  "endpoint_of_params org i c fresh now = \<lparr>ep_id = fresh, ep_org = org, ep_trunk = i, ep_host = ec_host c,
     ep_port = keep_or (ec_port c) 5060, ep_transport = keep_or (ec_transport c) ''udp'',
     ep_direction = keep_or (ec_direction c) ''bidirectional'', ep_priority = keep_or (ec_priority c) 10,
     ep_weight = keep_or (ec_weight c) 100, ep_enabled = keep_or (ec_enabled c) True,
     ep_health = ''unknown'', ep_failures = 0, ep_checked = None, ep_code = None, ep_latency = None, ep_error = None,
     ep_cooldown = None, ep_created = now, ep_updated = now\<rparr>"

definition sql_create_endpoint :: "uuid \<Rightarrow> uuid \<Rightarrow> endpoint_create \<Rightarrow> uuid \<Rightarrow> int \<Rightarrow> trunk_db \<Rightarrow> (go_err + endpoint) \<times> trunk_db" where
  "sql_create_endpoint org i c fresh now d =
     with_texts (ec_host c # texts [ec_transport c, ec_direction c]) d
       (if list_ex (the_trunk org i) (td_trunks d)
        then stored d (Inr (endpoint_of_params org i c fresh now), d\<lparr>td_endpoints := td_endpoints d @ [endpoint_of_params org i c fresh now]\<rparr>)
        else (Inl err_no_rows, d))"

text \<open>\<open>ORDER BY priority ASC, weight DESC, created_at ASC\<close>.\<close>

definition endpoint_before :: "endpoint \<Rightarrow> endpoint \<Rightarrow> bool" where
  "endpoint_before a b \<longleftrightarrow> ep_priority a < ep_priority b \<or> ep_priority a = ep_priority b \<and>
     (ep_weight b < ep_weight a \<or> ep_weight a = ep_weight b \<and> ep_created a \<le> ep_created b)"

definition sql_list_endpoints :: "uuid \<Rightarrow> uuid \<Rightarrow> trunk_db \<Rightarrow> endpoint list" where
  "sql_list_endpoints org i d = order_by endpoint_before
     (filter (\<lambda>e. ep_trunk e = i \<and> ep_org e = org \<and> list_ex (the_trunk org i) (td_trunks d)) (td_endpoints d))"

definition sql_get_endpoint :: "uuid \<Rightarrow> uuid \<Rightarrow> uuid \<Rightarrow> trunk_db \<Rightarrow> go_err + endpoint" where
  "sql_get_endpoint org i e d =
     one_row (\<lambda>r. the_endpoint org i e r \<and> list_ex (the_trunk org i) (td_trunks d)) (td_endpoints d)"

text \<open>A change of the host, the port or the transport makes the endpoint another target and resets its health.\<close>

definition retargets :: "endpoint_update \<Rightarrow> bool" where
  "retargets u \<longleftrightarrow> eu_host u \<noteq> None \<or> eu_port u \<noteq> None \<or> eu_transport u \<noteq> None"

definition updated_endpoint :: "endpoint_update \<Rightarrow> int \<Rightarrow> endpoint \<Rightarrow> endpoint" where
  "updated_endpoint u now e = e\<lparr>ep_host := keep_or (eu_host u) (ep_host e), ep_port := keep_or (eu_port u) (ep_port e),
     ep_transport := keep_or (eu_transport u) (ep_transport e), ep_direction := keep_or (eu_direction u) (ep_direction e),
     ep_priority := keep_or (eu_priority u) (ep_priority e), ep_weight := keep_or (eu_weight u) (ep_weight e),
     ep_enabled := keep_or (eu_enabled u) (ep_enabled e),
     ep_health := (if retargets u then ''unknown'' else ep_health e),
     ep_failures := (if retargets u then 0 else ep_failures e),
     ep_checked := (if retargets u then None else ep_checked e),
     ep_code := (if retargets u then None else ep_code e),
     ep_latency := (if retargets u then None else ep_latency e),
     ep_error := (if retargets u then None else ep_error e),
     ep_cooldown := (if retargets u then None else ep_cooldown e),
     ep_updated := now\<rparr>"

definition update_endpoint :: "(endpoint \<Rightarrow> bool) \<Rightarrow> (endpoint \<Rightarrow> endpoint) \<Rightarrow> trunk_db \<Rightarrow> (go_err + endpoint) \<times> trunk_db" where
  "update_endpoint p f d =
     (case one_row p (td_endpoints d) of
        Inl e \<Rightarrow> (Inl e, d)
      | Inr e \<Rightarrow> stored d (Inr (f e), d\<lparr>td_endpoints := update_rows p f (td_endpoints d)\<rparr>))"

definition sql_update_endpoint :: "endpoint_update \<Rightarrow> uuid \<Rightarrow> uuid \<Rightarrow> uuid \<Rightarrow> int \<Rightarrow> trunk_db \<Rightarrow> (go_err + endpoint) \<times> trunk_db" where
  "sql_update_endpoint u org i e now d =
     with_texts (texts [eu_host u, eu_transport u, eu_direction u]) d
       (update_endpoint (\<lambda>r. the_endpoint org i e r \<and> list_ex (the_trunk org i) (td_trunks d)) (updated_endpoint u now) d)"

definition sql_delete_endpoint :: "uuid \<Rightarrow> uuid \<Rightarrow> uuid \<Rightarrow> trunk_db \<Rightarrow> (go_err + endpoint) \<times> trunk_db" where
  "sql_delete_endpoint org i e d =
     (case sql_get_endpoint org i e d of
        Inl err \<Rightarrow> (Inl err, d)
      | Inr r \<Rightarrow> stored d (Inr r, d\<lparr>td_endpoints := filter (\<lambda>r. \<not> the_endpoint org i e r) (td_endpoints d)\<rparr>))"

section \<open>Health checks\<close>

text \<open>
  The claim of due endpoints, \<open>ORDER BY last_checked_at ASC NULLS FIRST LIMIT\<close>, stamps what it claims. The
  order of the returned rows is not fixed by the statement; the model returns them in the order of the table.
  The trigger \<open>set_updated_at\<close> stamps \<open>updated_at\<close> of every row an update touches.
\<close>

definition checked_before :: "endpoint \<Rightarrow> endpoint \<Rightarrow> bool" where
  "checked_before a b = (case (ep_checked a, ep_checked b) of
     (None, _) \<Rightarrow> True | (Some x, None) \<Rightarrow> False | (Some x, Some y) \<Rightarrow> x \<le> y)"

definition probe_due :: "int \<Rightarrow> int \<Rightarrow> trunk_db \<Rightarrow> endpoint \<Rightarrow> bool" where
  "probe_due at before d e \<longleftrightarrow> ep_enabled e
     \<and> list_ex (\<lambda>t. the_trunk (ep_org e) (ep_trunk e) t \<and> tk_status t = ''active'') (td_trunks d)
     \<and> (case ep_cooldown e of None \<Rightarrow> True | Some c \<Rightarrow> c \<le> at)
     \<and> (case ep_checked e of None \<Rightarrow> True | Some c \<Rightarrow> c \<le> before)"

definition sql_claim_probes :: "int \<Rightarrow> int \<Rightarrow> int \<Rightarrow> int \<Rightarrow> trunk_db \<Rightarrow> (go_err + endpoint list) \<times> trunk_db" where
  "sql_claim_probes at before batch now d =
     (let due = take (nat batch) (order_by checked_before (filter (probe_due at before d) (td_endpoints d)));
          claimed = (\<lambda>e. ep_id e \<in> ep_id ` set due);
          stamp = (\<lambda>e. e\<lparr>ep_checked := Some at, ep_updated := now\<rparr>);
          rows = update_rows claimed stamp (td_endpoints d)
      in stored d (Inr (map stamp (filter claimed (td_endpoints d))), d\<lparr>td_endpoints := rows\<rparr>))"

definition healthy_endpoint :: "int \<Rightarrow> int \<Rightarrow> int \<Rightarrow> int \<Rightarrow> endpoint \<Rightarrow> endpoint" where
  "healthy_endpoint at code latency now e = e\<lparr>ep_health := ''healthy'', ep_failures := 0, ep_checked := Some at,
     ep_code := Some code, ep_latency := Some latency, ep_error := None, ep_cooldown := None, ep_updated := now\<rparr>"

definition failed_endpoint :: "int \<Rightarrow> int \<Rightarrow> int \<Rightarrow> string \<Rightarrow> int \<Rightarrow> int \<Rightarrow> endpoint \<Rightarrow> endpoint" where
  "failed_endpoint threshold at latency message cooldown now e = e\<lparr>
     ep_failures := ep_failures e + 1,
     ep_health := (if threshold \<le> ep_failures e + 1 then ''unhealthy'' else ep_health e),
     ep_checked := Some at, ep_code := None, ep_latency := Some latency, ep_error := Some message,
     ep_cooldown := (if threshold \<le> ep_failures e + 1 then Some cooldown else None), ep_updated := now\<rparr>"

definition sql_mark_healthy :: "uuid \<Rightarrow> int \<Rightarrow> int \<Rightarrow> int \<Rightarrow> int \<Rightarrow> trunk_db \<Rightarrow> (go_err + endpoint) \<times> trunk_db" where
  "sql_mark_healthy i at code latency now d =
     update_endpoint (\<lambda>e. ep_id e = i) (healthy_endpoint at code latency now) d"

text \<open>The counter is a 32-bit column: past its range the statement fails with 22003.\<close>

definition sql_mark_probe_failed :: "uuid \<Rightarrow> int \<Rightarrow> int \<Rightarrow> string \<Rightarrow> int \<Rightarrow> int \<Rightarrow> int \<Rightarrow> trunk_db \<Rightarrow> (go_err + endpoint) \<times> trunk_db" where
  "sql_mark_probe_failed i at latency message threshold cooldown now d =
     with_texts [message] d
       (if list_ex (\<lambda>e. ep_id e = i \<and> 2147483647 \<le> ep_failures e) (td_endpoints d) then (Inl (PgErr ''22003''), d)
        else update_endpoint (\<lambda>e. ep_id e = i) (failed_endpoint threshold at latency message cooldown now) d)"

end
