(* ===== verification/Cred_Cipher.thy ===== *)
theory Cred_Cipher
  imports Go_Text "HOL-Library.Word"
begin

text \<open>
  The encryption of stored credentials (\<open>security/encryption\<close>) and the SIP digest hash of \<open>pkg/hasher\<close>:
  the unpadded URL alphabet of \<open>encoding/base64\<close>, the versioned envelope and the scope that is
  authenticated with it. AES-GCM is the parameter \<open>aead\<close> with the law \<open>lawful_aead\<close>; MD5 in
  hexadecimal is a parameter of \<open>compute_ha1_md5\<close>.
\<close>

section \<open>base64.RawURLEncoding\<close>

definition b64_char :: "nat \<Rightarrow> char" where
  "b64_char n =
     (if n < 26 then char_of (65 + n) else if n < 52 then char_of (71 + n) else if n < 62 then char_of (n - 4)
      else if n = 62 then CHR ''-'' else CHR ''_'')"

definition b64_val :: "char \<Rightarrow> nat option" where
  "b64_val c =
     (let n = (of_char c :: nat) in
      if 65 \<le> n \<and> n \<le> 90 then Some (n - 65) else if 97 \<le> n \<and> n \<le> 122 then Some (n - 71)
      else if 48 \<le> n \<and> n \<le> 57 then Some (n + 4) else if c = CHR ''-'' then Some 62
      else if c = CHR ''_'' then Some 63 else None)"

fun b64_encode :: "string \<Rightarrow> string" where
  "b64_encode [] = []"
| "b64_encode [a] = (let x = of_char a * 16 in [b64_char (x div 64), b64_char (x mod 64)])"
| "b64_encode [a, b] = (let x = (of_char a * 256 + of_char b) * 4 in
     [b64_char (x div 4096), b64_char (x div 64 mod 64), b64_char (x mod 64)])"
| "b64_encode (a # b # c # rest) = (let x = (of_char a * 256 + of_char b) * 256 + of_char c in
     b64_char (x div 262144) # b64_char (x div 4096 mod 64) # b64_char (x div 64 mod 64) # b64_char (x mod 64) # b64_encode rest)"

text \<open>The decoder on the values of the characters; the unused bits of the last character are not checked.\<close>

fun b64_quads :: "nat list \<Rightarrow> string option" where
  "b64_quads [] = Some []"
| "b64_quads [p] = None"
| "b64_quads [p, q] = Some [char_of ((p * 64 + q) div 16)]"
| "b64_quads [p, q, r] = (let x = ((p * 64 + q) * 64 + r) div 4 in Some [char_of (x div 256), char_of (x mod 256)])"
| "b64_quads (p # q # r # s # rest) =
     (let x = ((p * 64 + q) * 64 + r) * 64 + s in
      map_option (\<lambda>t. char_of (x div 65536) # char_of (x div 256 mod 256) # char_of (x mod 256) # t) (b64_quads rest))"

text \<open>\<open>DecodeString\<close> skips carriage returns and line feeds; every other character has to be of the alphabet.\<close>

definition b64_decode :: "string \<Rightarrow> string option" where
  "b64_decode s =
     (let t = filter (\<lambda>c. c \<noteq> CHR 0x0A \<and> c \<noteq> CHR 0x0D) s in
      if list_all (\<lambda>c. b64_val c \<noteq> None) t then b64_quads (map (\<lambda>c. the (b64_val c)) t) else None)"

section \<open>The cipher\<close>

record aead =
  ae_nonce_size :: nat
  ae_seal :: "string \<Rightarrow> string \<Rightarrow> string \<Rightarrow> string"
  ae_open :: "string \<Rightarrow> string \<Rightarrow> string \<Rightarrow> string option"

definition scoped_associated_data :: "string \<Rightarrow> go_err + string" where
  "scoped_associated_data scope =
     (let s = trim_space scope in
      if s = [] then Inl (Errf ''credential encryption scope is required'' []) else Inr (''leamout:credential:v1:'' @ s))"

text \<open>\<open>nonce\<close> is the answer of \<open>io.ReadFull(rand.Reader, ...)\<close>.\<close>

definition sealed :: "aead \<Rightarrow> go_err + string \<Rightarrow> string \<Rightarrow> string \<Rightarrow> go_err + string" where
  "sealed A nonce plaintext ad =
     (case nonce of
        Inl e \<Rightarrow> Inl (Wrap ''generate credential nonce: %w'' [] e)
      | Inr n \<Rightarrow> Inr (b64_encode (n @ ae_seal A n plaintext ad)))"

definition cipher_encrypt :: "aead \<Rightarrow> go_err + string \<Rightarrow> string \<Rightarrow> go_err + string" where
  "cipher_encrypt A nonce plaintext = sealed A nonce plaintext []"

definition encrypt_for_scope :: "aead \<Rightarrow> go_err + string \<Rightarrow> string \<Rightarrow> string \<Rightarrow> go_err + string" where
  "encrypt_for_scope A nonce scope plaintext =
     rbind (scoped_associated_data scope) (\<lambda>ad.
     rbind (sealed A nonce plaintext ad) (\<lambda>text. Inr (''v1.'' @ text)))"

definition cipher_open :: "aead \<Rightarrow> string \<Rightarrow> string \<Rightarrow> go_err + string" where
  "cipher_open A encoded ad =
     (case b64_decode encoded of
        None \<Rightarrow> Inl (Errf ''decode encrypted credential: %w'' [])
      | Some bytes \<Rightarrow>
          if length bytes < ae_nonce_size A then Inl (Errf ''encrypted credential is truncated'' [])
          else (case ae_open A (take (ae_nonce_size A) bytes) (drop (ae_nonce_size A) bytes) ad of
                  None \<Rightarrow> Inl (Errf ''decrypt credential: %w'' [])
                | Some plaintext \<Rightarrow> Inr plaintext))"

definition cipher_decrypt :: "aead \<Rightarrow> string \<Rightarrow> go_err + string" where
  "cipher_decrypt A encoded = cipher_open A encoded []"

definition decrypt_for_scope :: "aead \<Rightarrow> string \<Rightarrow> string \<Rightarrow> go_err + string" where
  "decrypt_for_scope A scope encoded =
     rbind (scoped_associated_data scope) (\<lambda>ad.
     case cut_at ''.'' encoded of
       Some (version, payload) \<Rightarrow>
         if version = ''v1'' then cipher_open A payload ad
         else Inl (Errf ''unsupported scoped credential envelope'' [])
     | None \<Rightarrow> Inl (Errf ''unsupported scoped credential envelope'' []))"

definition compute_ha1_md5 :: "(string \<Rightarrow> string) \<Rightarrow> string \<Rightarrow> string \<Rightarrow> string \<Rightarrow> string" where
  "compute_ha1_md5 md5_hex username domain password = md5_hex (join_with '':'' [username, domain, password])"

section \<open>The encoding can be undone\<close>

lemma of_b64_char: "n < 64 \<Longrightarrow> (of_char (b64_char n) :: nat) =
   (if n < 26 then 65 + n else if n < 52 then 71 + n else if n < 62 then n - 4 else if n = 62 then 45 else 95)"
  by (simp add: b64_char_def)

lemma char_codes: "c = CHR ''-'' \<longleftrightarrow> of_char c = (45 :: nat)" "c = CHR ''_'' \<longleftrightarrow> of_char c = (95 :: nat)"
  "c = CHR 0x0A \<longleftrightarrow> of_char c = (10 :: nat)" "c = CHR 0x0D \<longleftrightarrow> of_char c = (13 :: nat)" "c = CHR ''.'' \<longleftrightarrow> of_char c = (46 :: nat)"
  by (simp_all flip: of_char_eq_iff [where 'a = nat])

lemma b64_val_char: "n < 64 \<Longrightarrow> b64_val (b64_char n) = Some n"
  unfolding b64_val_def Let_def char_codes by (auto simp: of_b64_char)

lemma b64_char_text: "n < 64 \<Longrightarrow> b64_char n \<noteq> CHR 0x0A \<and> b64_char n \<noteq> CHR 0x0D \<and> b64_char n \<noteq> CHR ''.'' \<and> b64_val (b64_char n) \<noteq> None"
  unfolding b64_val_char char_codes by (auto simp: of_b64_char)

lemma of_char_less: "(of_char (c :: char) :: nat) < 256"
  by (metis of_char_mod_256 mod_less_divisor zero_less_numeral)

text \<open>The values \<open>b64_encode\<close> writes, without their letters.\<close>

fun b64_digits :: "string \<Rightarrow> nat list" where
  "b64_digits [] = []"
| "b64_digits [a] = (let x = of_char a * 16 in [x div 64, x mod 64])"
| "b64_digits [a, b] = (let x = (of_char a * 256 + of_char b) * 4 in [x div 4096, x div 64 mod 64, x mod 64])"
| "b64_digits (a # b # c # rest) = (let x = (of_char a * 256 + of_char b) * 256 + of_char c in
     x div 262144 # x div 4096 mod 64 # x div 64 mod 64 # x mod 64 # b64_digits rest)"

lemma b64_encode_digits: "b64_encode s = map b64_char (b64_digits s)"
  by (induction s rule: b64_digits.induct) (simp_all add: Let_def)

lemma b64_digits_small: "list_all (\<lambda>n. n < 64) (b64_digits s)"
proof (induction s rule: b64_digits.induct)
  case (2 a)
  show ?case using of_char_less [of a] by (simp add: Let_def, arith)
next
  case (3 a b)
  show ?case using of_char_less [of a] of_char_less [of b] by (simp add: Let_def div_less_iff_less_mult, linarith)
next
  case (4 a b c rest)
  show ?case using of_char_less [of a] of_char_less [of b] of_char_less [of c] 4 by (simp add: Let_def div_less_iff_less_mult, linarith)
qed simp

lemma two_digits: "(x div 64 * 64 + x mod 64 :: nat) = x"
  by (rule div_mult_mod_eq)

lemma three_digits: "((x div 4096 * 64 + x div 64 mod 64) * 64 + x mod 64 :: nat) = x"
proof -
  have "x div 4096 = x div 64 div 64" by (simp flip: div_mult2_eq)
  then have "x div 4096 * 64 + x div 64 mod 64 = x div 64" by (simp only: div_mult_mod_eq)
  then show ?thesis by (simp only: div_mult_mod_eq)
qed

lemma four_digits: "(((x div 262144 * 64 + x div 4096 mod 64) * 64 + x div 64 mod 64) * 64 + x mod 64 :: nat) = x"
proof -
  have "x div 262144 = x div 64 div 4096" "x div 4096 = x div 64 div 64" by (simp_all flip: div_mult2_eq)
  then have "(x div 262144 * 64 + x div 4096 mod 64) * 64 + x div 64 mod 64 = x div 64"
    using three_digits [of "x div 64"] by simp
  then show ?thesis by (simp only: div_mult_mod_eq)
qed

lemma low_byte: "(y * 256 + of_char (c :: char) :: nat) div 256 = y" "(y * 256 + of_char (c :: char) :: nat) mod 256 = of_char c"
  using of_char_less [of c] by simp_all

lemma b64_quads_digits: "b64_quads (b64_digits s) = Some s"
proof (induction s rule: b64_digits.induct)
  case (2 a)
  have "(of_char a * 16 div 64 * 64 + of_char a * 16 mod 64 :: nat) div 16 = of_char a" unfolding two_digits by simp
  then show ?case by (simp only: b64_digits.simps Let_def b64_quads.simps char_of_char)
next
  case (3 a b)
  let ?x = "(of_char a * 256 + of_char b) * 4 :: nat"
  have "((?x div 4096 * 64 + ?x div 64 mod 64) * 64 + ?x mod 64) div 4 = of_char a * 256 + of_char b"
    unfolding three_digits by simp
  then show ?case by (simp only: b64_digits.simps Let_def b64_quads.simps char_of_char low_byte)
next
  case (4 a b c rest)
  let ?x = "(of_char a * 256 + of_char b) * 256 + of_char c :: nat"
  have "?x div 65536 = ?x div 256 div 256" by (simp flip: div_mult2_eq)
  then show ?case
    by (simp only: b64_digits.simps Let_def b64_quads.simps four_digits low_byte char_of_char 4 option.map)
qed simp

lemma b64_round_trip: "b64_decode (b64_encode s) = Some s"
proof -
  have safe: "list_all (\<lambda>n. b64_char n \<noteq> CHR 0x0A \<and> b64_char n \<noteq> CHR 0x0D \<and> b64_val (b64_char n) \<noteq> None) (b64_digits s)"
    using b64_digits_small [of s] b64_char_text by (simp add: list_all_iff)
  then have "filter (\<lambda>c. c \<noteq> CHR 0x0A \<and> c \<noteq> CHR 0x0D) (b64_encode s) = b64_encode s"
    unfolding b64_encode_digits by (simp add: list_all_iff filter_id_conv)
  moreover have "map (\<lambda>n. the (b64_val (b64_char n))) (b64_digits s) = b64_digits s"
    using b64_digits_small [of s] by (simp add: list_all_iff b64_val_char map_idI)
  ultimately show ?thesis
    using safe unfolding b64_decode_def Let_def
    by (simp add: b64_encode_digits list_all_iff comp_def b64_quads_digits)
qed

section \<open>Authenticated encryption\<close>

text \<open>
  What the code relies on of AES-GCM: opening a seal with its nonce and data gives the plaintext, and a
  seal opens with no other data (authenticity, of which this is the functional part).
\<close>

definition lawful_aead :: "aead \<Rightarrow> bool" where
  "lawful_aead A \<longleftrightarrow> (\<forall>n p ad ad'. length n = ae_nonce_size A \<longrightarrow>
     ae_open A n (ae_seal A n p ad) ad' = (if ad' = ad then Some p else None))"

lemma open_sealed:
  assumes "lawful_aead A" and "length n = ae_nonce_size A"
  shows "cipher_open A (b64_encode (n @ ae_seal A n p ad)) ad' = (if ad' = ad then Inr p else Inl (Errf ''decrypt credential: %w'' []))"
  using assms by (simp add: lawful_aead_def cipher_open_def b64_round_trip)

lemma associated_data_cases:
  "scoped_associated_data s = (if blank s then Inl (Errf ''credential encryption scope is required'' [])
     else Inr (''leamout:credential:v1:'' @ trim_space s))"
  by (simp add: scoped_associated_data_def Let_def blank_def)

lemma cut_version: "cut_at ''.'' (''v1.'' @ t) = Some (''v1'', t)"
  by (simp add: starts_with_def)

text \<open>A toy cipher that satisfies the laws: the seal carries its associated data in front, with its length.\<close>

definition tagging_aead :: aead where
  "tagging_aead = \<lparr>ae_nonce_size = 2, ae_seal = (\<lambda>n p ad. replicate (length ad) CHR ''a'' @ CHR ''.'' # ad @ p),
     ae_open = (\<lambda>n c ad. if take (length ad + 1 + length ad) c = replicate (length ad) CHR ''a'' @ CHR ''.'' # ad
                    then Some (drop (length ad + 1 + length ad) c) else None)\<rparr>"

lemma replicate_dot_inj:
  "replicate m CHR ''a'' @ CHR ''.'' # s = replicate n CHR ''a'' @ CHR ''.'' # t \<Longrightarrow> m = n \<and> s = t"
proof (induction m arbitrary: n)
  case 0
  then show ?case by (cases n) auto
next
  case (Suc m)
  then show ?case by (cases n) auto
qed

lemma tagging_open:
  "ae_open tagging_aead n (ae_seal tagging_aead n p ad) ad' = (if ad' = ad then Some p else None)"
proof (cases "ad' = ad")
  case True
  then show ?thesis by (simp add: tagging_aead_def)
next
  case False
  have "take (length ad' + 1 + length ad') (replicate (length ad) CHR ''a'' @ CHR ''.'' # ad @ p)
      \<noteq> replicate (length ad') CHR ''a'' @ CHR ''.'' # ad'"
  proof
    assume "take (length ad' + 1 + length ad') (replicate (length ad) CHR ''a'' @ CHR ''.'' # ad @ p)
      = replicate (length ad') CHR ''a'' @ CHR ''.'' # ad'"
    then have "replicate (length ad) CHR ''a'' @ CHR ''.'' # (ad @ p)
      = replicate (length ad') CHR ''a'' @ CHR ''.'' # (ad' @ drop (length ad' + 1 + length ad') (replicate (length ad) CHR ''a'' @ CHR ''.'' # ad @ p))"
      by (metis append_Cons append_assoc append_take_drop_id)
    from replicate_dot_inj [OF this] False show False by (metis append_eq_append_conv)
  qed
  with False show ?thesis by (simp add: tagging_aead_def)
qed

lemma tagging_lawful: "lawful_aead tagging_aead"
  by (simp add: lawful_aead_def tagging_open)

section \<open>Properties\<close>

text \<open>A credential encrypted for a scope is read back exactly under that scope, up to white space around it: under any other
  scope, and as an unscoped credential, the envelope is refused. A blank scope encrypts nothing.\<close>

theorem scoped_envelope_round_trip:
  assumes "lawful_aead A" and "length n = ae_nonce_size A"
  shows "(case encrypt_for_scope A (Inr n) scope secret of
            Inl e \<Rightarrow> blank scope
          | Inr envelope \<Rightarrow> \<not> blank scope \<and> starts_with ''v1.'' envelope
              \<and> decrypt_for_scope A scope' envelope =
                  (if blank scope' then Inl (Errf ''credential encryption scope is required'' [])
                   else if trim_space scope' = trim_space scope then Inr secret
                   else Inl (Errf ''decrypt credential: %w'' []))
              \<and> cipher_decrypt A envelope = Inl (Errf ''decode encrypted credential: %w'' []))"
proof -
  have "b64_decode (''v1.'' @ t) = None" for t
    by (simp add: b64_decode_def b64_val_def Let_def)
  then have "cipher_decrypt A (''v1.'' @ t) = Inl (Errf ''decode encrypted credential: %w'' [])" for t
    by (simp add: cipher_decrypt_def cipher_open_def)
  then show ?thesis
    using open_sealed [OF assms, of secret]
    by (auto simp: encrypt_for_scope_def associated_data_cases sealed_def decrypt_for_scope_def cut_version starts_with_def)
qed

theorem scoped_envelope_round_trip_witness:
  "case encrypt_for_scope tagging_aead (Inr ''nn'') ''a'' ''s3cret'' of
     Inl e \<Rightarrow> False | Inr envelope \<Rightarrow> decrypt_for_scope tagging_aead ''a'' envelope = Inr ''s3cret''"
proof -
  have "\<not> blank ''a''" by code_simp
  moreover have "length ''nn'' = ae_nonce_size tagging_aead" by (simp add: tagging_aead_def)
  note scoped_envelope_round_trip [OF tagging_lawful this, where scope = "''a''" and scope' = "''a''" and secret = "''s3cret''"]
  ultimately show ?thesis by (simp split: sum.splits)
qed

end
