(* ===== verification/Trunk_Service.thy ===== *)
theory Trunk_Service
  imports Trunk_Store Cred_Cipher
begin

text \<open>
  The trunk service (\<open>telephony/trunks/service.go\<close>, \<open>repository.go\<close>). An operation is an action on the
  world of \<open>Sql_World\<close>; the fields of \<open>trunk_service\<close> are the environment, the plan limit other components
  install (\<open>None\<close> is a nil function), the cipher (\<open>None\<close> is nil) with its random nonces, and MD5. The pool
  and the outbox repository are those \<open>NewService\<close> installs, never nil.
\<close>

record trunk_service =
  ts_env :: "nat \<Rightarrow> sql_env"
  ts_plan :: "(nat \<Rightarrow> uuid \<Rightarrow> go_err + int \<times> bool) option"
  ts_cipher :: "aead option"
  ts_nonce :: "nat \<Rightarrow> go_err + string"
  ts_md5 :: "string \<Rightarrow> string"

type_synonym 'a trunk_action = "(trunk_db, 'a) sql_action"

section \<open>Errors\<close>

definition read_error :: "string \<Rightarrow> go_err \<Rightarrow> go_err" where
  "read_error message e = (if errors_is e err_no_rows then new_not_found message else new_internal message (Some e))"

definition write_error :: "string \<Rightarrow> go_err \<Rightarrow> go_err" where
  "write_error message e =
     (if pg_code e = Some ''23505'' then new_conflict ''trunk resource already exists''
      else if pg_code e \<in> {Some ''23503'', Some ''23514'', Some ''23502''} then new_bad_request message
      else if errors_is e err_no_rows then new_not_found message
      else new_internal message (Some e))"

section \<open>Repository\<close>

definition trunk_repo_get :: "trunk_service \<Rightarrow> uuid \<Rightarrow> uuid \<Rightarrow> trunk trunk_action" where
  "trunk_repo_get S org i = sql_query (ts_env S) (\<lambda>_. sql_get_trunk org i)"

definition trunk_repo_list :: "trunk_service \<Rightarrow> uuid \<Rightarrow> trunk_list_request \<Rightarrow> trunk list trunk_action" where
  "trunk_repo_list S org req = sql_query (ts_env S) (\<lambda>_ d. Inr (sql_list_trunks org req d))"

definition trunk_repo_create :: "trunk_service \<Rightarrow> new_trunk \<Rightarrow> trunk trunk_action" where
  "trunk_repo_create S n = sql_exec (ts_env S) (\<lambda>se. sql_create_trunk n (sq_now se))"

definition trunk_repo_insert_digest :: "trunk_service \<Rightarrow> uuid \<Rightarrow> uuid \<Rightarrow> string \<Rightarrow> string \<Rightarrow> string \<Rightarrow> string \<Rightarrow> unit trunk_action" where
  "trunk_repo_insert_digest S org i direction user realm ha1 = sql_exec (ts_env S) (\<lambda>_. sql_insert_digest
     \<lparr>dg_trunk = i, dg_org = org, dg_direction = direction, dg_user = user, dg_realm = realm, dg_ha1 = ha1\<rparr>)"

definition trunk_repo_update :: "trunk_service \<Rightarrow> trunk_update \<Rightarrow> uuid \<Rightarrow> uuid \<Rightarrow> trunk trunk_action" where
  "trunk_repo_update S u org i = sql_exec (ts_env S) (\<lambda>se. sql_update_trunk u org i (sq_now se))"

definition trunk_repo_disable :: "trunk_service \<Rightarrow> uuid \<Rightarrow> uuid \<Rightarrow> trunk trunk_action" where
  "trunk_repo_disable S org i = sql_exec (ts_env S) (\<lambda>se. sql_disable_trunk org i (sq_now se))"

definition trunk_repo_set_outbound :: "trunk_service \<Rightarrow> uuid \<Rightarrow> uuid \<Rightarrow> string \<Rightarrow> string \<Rightarrow> string \<Rightarrow> string \<Rightarrow> unit trunk_action" where
  "trunk_repo_set_outbound S org i user realm cipher ha1 =
     sql_exec (ts_env S) (\<lambda>se. sql_set_outbound org i user realm cipher ha1 (sq_now se))"

definition trunk_repo_clear_outbound :: "trunk_service \<Rightarrow> uuid \<Rightarrow> uuid \<Rightarrow> unit trunk_action" where
  "trunk_repo_clear_outbound S org i = sql_exec (ts_env S) (\<lambda>se. sql_clear_outbound org i (sq_now se))"

definition trunk_repo_set_inbound :: "trunk_service \<Rightarrow> uuid \<Rightarrow> uuid \<Rightarrow> string \<Rightarrow> string \<Rightarrow> string \<Rightarrow> string \<Rightarrow> unit trunk_action" where
  "trunk_repo_set_inbound S org i user realm cipher ha1 =
     sql_exec (ts_env S) (\<lambda>se. sql_set_inbound org i user realm cipher ha1 (sq_now se))"

definition trunk_repo_set_inbound_ip :: "trunk_service \<Rightarrow> uuid \<Rightarrow> uuid \<Rightarrow> unit trunk_action" where
  "trunk_repo_set_inbound_ip S org i = sql_exec (ts_env S) (\<lambda>se. sql_set_inbound_ip org i (sq_now se))"

definition trunk_repo_create_ip :: "trunk_service \<Rightarrow> uuid \<Rightarrow> uuid \<Rightarrow> prefix \<Rightarrow> source_ip trunk_action" where
  "trunk_repo_create_ip S org i cidr = sql_exec (ts_env S) (\<lambda>se. sql_create_ip org i cidr (sq_fresh se) (sq_now se))"

definition trunk_repo_list_ips :: "trunk_service \<Rightarrow> uuid \<Rightarrow> uuid \<Rightarrow> source_ip list trunk_action" where
  "trunk_repo_list_ips S org i = sql_query (ts_env S) (\<lambda>_ d. Inr (sql_list_ips org i d))"

definition trunk_repo_delete_ip :: "trunk_service \<Rightarrow> uuid \<Rightarrow> uuid \<Rightarrow> uuid \<Rightarrow> unit trunk_action" where
  "trunk_repo_delete_ip S org i ip = sql_exec (ts_env S) (\<lambda>_ d. (Inr (), sql_delete_ip org i ip d))"

definition trunk_repo_create_endpoint :: "trunk_service \<Rightarrow> uuid \<Rightarrow> uuid \<Rightarrow> endpoint_create \<Rightarrow> endpoint trunk_action" where
  "trunk_repo_create_endpoint S org i c =
     sql_exec (ts_env S) (\<lambda>se. sql_create_endpoint org i c (sq_fresh se) (sq_now se))"

definition trunk_repo_list_endpoints :: "trunk_service \<Rightarrow> uuid \<Rightarrow> uuid \<Rightarrow> endpoint list trunk_action" where
  "trunk_repo_list_endpoints S org i = sql_query (ts_env S) (\<lambda>_ d. Inr (sql_list_endpoints org i d))"

definition trunk_repo_get_endpoint :: "trunk_service \<Rightarrow> uuid \<Rightarrow> uuid \<Rightarrow> uuid \<Rightarrow> endpoint trunk_action" where
  "trunk_repo_get_endpoint S org i e = sql_query (ts_env S) (\<lambda>_. sql_get_endpoint org i e)"

definition trunk_repo_update_endpoint :: "trunk_service \<Rightarrow> endpoint_update \<Rightarrow> uuid \<Rightarrow> uuid \<Rightarrow> uuid \<Rightarrow> endpoint trunk_action" where
  "trunk_repo_update_endpoint S u org i e = sql_exec (ts_env S) (\<lambda>se. sql_update_endpoint u org i e (sq_now se))"

definition trunk_repo_delete_endpoint :: "trunk_service \<Rightarrow> uuid \<Rightarrow> uuid \<Rightarrow> uuid \<Rightarrow> endpoint trunk_action" where
  "trunk_repo_delete_endpoint S org i e = sql_exec (ts_env S) (\<lambda>_. sql_delete_endpoint org i e)"

definition lock_and_check_capacity :: "trunk_service \<Rightarrow> uuid \<Rightarrow> int \<Rightarrow> unit trunk_action" where
  "lock_and_check_capacity S org maxTrunks =
     handle (sql_query (ts_env S) (\<lambda>_. sql_lock_org org))
       (\<lambda>e. fail (if errors_is e err_no_rows then new_not_found ''organization not found'' else e))
       (\<lambda>_. chain (sql_query (ts_env S) (\<lambda>_ d. Inr (sql_count_trunks org d))) (\<lambda>count.
          if maxTrunks \<le> count then fail (new_payment_required ''organization SIP trunk limit reached'') else succeed ()))"

section \<open>Events and transactions\<close>

definition insert_trunk_event :: "trunk_service \<Rightarrow> string \<Rightarrow> trunk \<Rightarrow> uuid option \<Rightarrow> event_resource \<Rightarrow> unit trunk_action" where
  "insert_trunk_event S subject t endpoint resource =
     map_error (Wrap ''insert trunk outbox event: %w'' [])
       (sql_exec (ts_env S) (\<lambda>se d. (Inr (), d\<lparr>td_outbox := td_outbox d @
          [\<lparr>te_subject = subject, te_org = tk_org t, te_trunk = tk_id t, te_endpoint = endpoint, te_resource = resource,
            te_at = sq_now se\<rparr>]\<rparr>)))"

definition mutate_trunk :: "trunk_service \<Rightarrow> string \<Rightarrow> trunk trunk_action \<Rightarrow> trunk trunk_action" where
  "mutate_trunk S subject mutation =
     in_tx (ts_env S) (Wrap ''begin trunk transaction: %w'' []) (Wrap ''commit trunk transaction: %w'' [])
       (chain mutation (\<lambda>item.
        chain (insert_trunk_event S subject item None (TrunkResource (trunk_response_of item))) (\<lambda>_.
        succeed item)))"

definition mutate_endpoint :: "trunk_service \<Rightarrow> string \<Rightarrow> endpoint trunk_action \<Rightarrow> endpoint trunk_action" where
  "mutate_endpoint S subject mutation =
     in_tx (ts_env S) (Wrap ''begin trunk endpoint transaction: %w'' []) (Wrap ''commit trunk endpoint transaction: %w'' [])
       (chain mutation (\<lambda>item.
        chain (trunk_repo_get S (ep_org item) (ep_trunk item)) (\<lambda>t.
        chain (insert_trunk_event S subject t (Some (ep_id item)) (EndpointResource item)) (\<lambda>_.
        succeed item))))"

section \<open>Credentials\<close>

definition credential_scope :: "uuid \<Rightarrow> uuid \<Rightarrow> string \<Rightarrow> string" where
  "credential_scope org i direction =
     ''organization:'' @ uuid_string org @ '':trunk:'' @ uuid_string i @ '':'' @ direction"

definition encrypt_secret :: "trunk_service \<Rightarrow> aead \<Rightarrow> uuid \<Rightarrow> uuid \<Rightarrow> string \<Rightarrow> string \<Rightarrow> string trunk_action" where
  "encrypt_secret S A org i direction secret =
     map_error (\<lambda>e. new_internal (''encrypt '' @ direction @ '' trunk credential'') (Some e))
       (do { n \<leftarrow> sql_tick; State_Monad.return (encrypt_for_scope A (ts_nonce S n) (credential_scope org i direction) secret) })"

text \<open>What \<open>Create\<close> stores of an optional credential: its ciphertext, or nothing.\<close>

definition encrypt_optional :: "trunk_service \<Rightarrow> aead \<Rightarrow> uuid \<Rightarrow> uuid \<Rightarrow> string \<Rightarrow> digest_credential option \<Rightarrow> string option trunk_action" where
  "encrypt_optional S A org i direction c =
     (case c of None \<Rightarrow> succeed None
      | Some c \<Rightarrow> chain (encrypt_secret S A org i direction (dc_secret c)) (\<lambda>text. succeed (Some text)))"

definition insert_credential :: "trunk_service \<Rightarrow> uuid \<Rightarrow> uuid \<Rightarrow> string \<Rightarrow> digest_credential option \<Rightarrow> unit trunk_action" where
  "insert_credential S org i direction c =
     (case c of None \<Rightarrow> succeed ()
      | Some c \<Rightarrow> map_error (write_error (direction @ '' trunk credentials could not be created''))
          (trunk_repo_insert_digest S org i direction (dc_user c) (dc_realm c)
             (compute_ha1_md5 (ts_md5 S) (dc_user c) (dc_realm c) (dc_secret c))))"

definition create_params :: "trunk_create \<Rightarrow> uuid \<Rightarrow> uuid \<Rightarrow> string option \<Rightarrow> string option \<Rightarrow> new_trunk" where
  "create_params req org i out_text in_text = \<lparr>nt_id = i, nt_org = org, nt_name = tc_name req, nt_direction = tc_direction req,
     nt_status = tc_status req, nt_out_method = Some (if tc_outbound req = None then ''none'' else ''digest''),
     nt_out_user = map_option dc_user (tc_outbound req), nt_out_realm = map_option dc_realm (tc_outbound req),
     nt_out_cipher = out_text, nt_in_enabled = tc_in_enabled req, nt_in_method = tc_in_method req,
     nt_in_user = map_option dc_user (tc_inbound req), nt_in_realm = map_option dc_realm (tc_inbound req),
     nt_in_cipher = in_text, nt_cps = tc_cps req, nt_calls = tc_calls req, nt_codecs = tc_codecs req,
     nt_video = tc_video req, nt_fax = tc_fax req\<rparr>"

definition check_plan_limit :: "trunk_service \<Rightarrow> uuid \<Rightarrow> unit trunk_action" where
  "check_plan_limit S org =
     (case ts_plan S of
        None \<Rightarrow> fail (new_service_unavailable ''plan trunk limits unavailable'' None)
      | Some limit \<Rightarrow> chain (do { n \<leftarrow> sql_tick; State_Monad.return (limit n org) }) (\<lambda>(cap, limited).
          if \<not> limited \<or> cap \<le> 0 then fail (new_service_unavailable ''plan trunk limit is required'' None)
          else lock_and_check_capacity S org cap))"

definition create_trunk_tx :: "trunk_service \<Rightarrow> uuid \<Rightarrow> uuid \<Rightarrow> trunk_create \<Rightarrow> string option \<Rightarrow> string option \<Rightarrow> trunk trunk_action" where
  "create_trunk_tx S org i req out_text in_text =
     chain (check_plan_limit S org) (\<lambda>_.
     chain (map_error (write_error ''trunk could not be created'') (trunk_repo_create S (create_params req org i out_text in_text))) (\<lambda>item.
     chain (insert_credential S org i ''outbound'' (tc_outbound req)) (\<lambda>_.
     chain (insert_credential S org i ''inbound'' (tc_inbound req)) (\<lambda>_.
     chain (insert_trunk_event S ''trunk.created'' item None (TrunkResource (trunk_response_of item))) (\<lambda>_.
     succeed item)))))"

definition create_trunk :: "trunk_service \<Rightarrow> uuid \<Rightarrow> trunk_create \<Rightarrow> trunk trunk_action" where
  "create_trunk S org req0 =
     chain (of_check (validate_id org ''organization_id'')) (\<lambda>_.
     chain (State_Monad.return (normalize_create req0)) (\<lambda>req.
     case ts_cipher S of
       None \<Rightarrow> fail (new_service_unavailable ''trunk credential store is unavailable'' None)
     | Some A \<Rightarrow> do { n \<leftarrow> sql_tick;
         let i = sq_fresh (ts_env S n) in
         chain (encrypt_optional S A org i ''outbound'' (tc_outbound req)) (\<lambda>out_text.
         chain (encrypt_optional S A org i ''inbound'' (tc_inbound req)) (\<lambda>in_text.
         in_tx (ts_env S) (\<lambda>e. new_internal ''begin trunk creation'' (Some e)) (\<lambda>e. new_internal ''commit trunk creation'' (Some e))
           (create_trunk_tx S org i req out_text in_text))) }))"

section \<open>Reading\<close>

definition get_trunk :: "trunk_service \<Rightarrow> uuid \<Rightarrow> uuid \<Rightarrow> trunk trunk_action" where
  "get_trunk S org i =
     chain (of_check (or_else (validate_id org ''organization_id'') (validate_id i ''trunk_id''))) (\<lambda>_.
     map_error (read_error ''trunk not found'') (trunk_repo_get S org i))"

definition list_trunks :: "trunk_service \<Rightarrow> uuid \<Rightarrow> trunk_list_request \<Rightarrow> trunk list trunk_action" where
  "list_trunks S org req =
     chain (of_check (or_else (validate_trunk_filters req) (validate_id org ''organization_id''))) (\<lambda>_.
     map_error (\<lambda>e. new_internal ''list trunks'' (Some e)) (trunk_repo_list S org req))"

definition list_source_ips :: "trunk_service \<Rightarrow> uuid \<Rightarrow> uuid \<Rightarrow> source_ip_response list trunk_action" where
  "list_source_ips S org i =
     chain (get_trunk S org i) (\<lambda>_.
     chain (map_error (\<lambda>e. new_internal ''list trunk source IPs'' (Some e)) (trunk_repo_list_ips S org i)) (\<lambda>rows.
     succeed (map source_ip_response_of rows)))"

definition list_endpoints :: "trunk_service \<Rightarrow> uuid \<Rightarrow> uuid \<Rightarrow> endpoint list trunk_action" where
  "list_endpoints S org i =
     chain (get_trunk S org i) (\<lambda>_.
     map_error (\<lambda>e. new_internal ''list trunk endpoints'' (Some e)) (trunk_repo_list_endpoints S org i))"

definition get_endpoint :: "trunk_service \<Rightarrow> uuid \<Rightarrow> uuid \<Rightarrow> uuid \<Rightarrow> endpoint trunk_action" where
  "get_endpoint S org i e =
     chain (get_trunk S org i) (\<lambda>_.
     chain (of_check (validate_id e ''endpoint_id'')) (\<lambda>_.
     map_error (read_error ''trunk endpoint not found'') (trunk_repo_get_endpoint S org i e)))"

section \<open>Validation of a trunk\<close>

record trunk_report =
  rp_errors :: "string list"
  rp_warnings :: "string list"

definition outbound_problems :: "trunk \<Rightarrow> string list" where
  "outbound_problems t =
     (if tk_out_method t = ''digest'' \<and> (tk_out_cipher t = None \<or> tk_out_realm t = None)
      then [''outbound digest credentials and realm are missing''] else [])"

definition inbound_problems :: "trunk_service \<Rightarrow> uuid \<Rightarrow> uuid \<Rightarrow> trunk \<Rightarrow> string list trunk_action" where
  "inbound_problems S org i t =
     (if \<not> tk_in_enabled t then succeed []
      else if tk_in_method t = ''digest'' then
        succeed (if tk_in_cipher t = None \<or> tk_in_realm t = None then [''inbound digest credentials and realm are missing''] else [])
      else if tk_in_method t = ''ip'' then
        chain (list_source_ips S org i) (\<lambda>ips.
          succeed (if ips = [] then [''inbound IP authentication requires at least one source CIDR''] else []))
      else succeed [''inbound authentication method is invalid''])"

definition endpoint_dials_out :: "endpoint \<Rightarrow> bool" where
  "endpoint_dials_out e \<longleftrightarrow> ep_enabled e \<and> (ep_direction e = ''outbound'' \<or> ep_direction e = ''bidirectional'')"

definition endpoint_problems :: "trunk \<Rightarrow> endpoint list \<Rightarrow> string list" where
  "endpoint_problems t es =
     (if tk_direction t = ''outbound'' \<or> tk_direction t = ''bidirectional'' then
        let enabled = filter endpoint_dials_out es; routable = filter (\<lambda>e. ep_health e \<noteq> ''unhealthy'') enabled
        in if enabled = [] then [''trunk has no enabled outbound endpoint'']
           else if routable = [] then [''trunk has no healthy outbound endpoint''] else []
      else [])"

definition validate_trunk :: "trunk_service \<Rightarrow> uuid \<Rightarrow> uuid \<Rightarrow> trunk_report trunk_action" where
  "validate_trunk S org i =
     chain (get_trunk S org i) (\<lambda>t.
     chain (inbound_problems S org i t) (\<lambda>inbound.
     chain (map_error (\<lambda>e. new_internal ''list trunk endpoints'' (Some e)) (trunk_repo_list_endpoints S org i)) (\<lambda>es.
     succeed \<lparr>rp_errors = outbound_problems t @ inbound @ endpoint_problems t es,
              rp_warnings = (if tk_status t \<noteq> ''active'' then [''trunk is disabled''] else [])\<rparr>)))"

definition report_valid :: "trunk_report \<Rightarrow> bool" where
  "report_valid r \<longleftrightarrow> rp_errors r = []"

section \<open>Changes of a trunk\<close>

definition update_trunk_op :: "trunk_service \<Rightarrow> uuid \<Rightarrow> uuid \<Rightarrow> trunk_update \<Rightarrow> trunk trunk_action" where
  "update_trunk_op S org i req0 =
     chain (get_trunk S org i) (\<lambda>_.
     chain (State_Monad.return (normalize_update req0)) (\<lambda>req.
     map_error (write_error ''trunk not found'')
       (mutate_trunk S ''trunk.updated'' (trunk_repo_update S req org i))))"

definition delete_trunk :: "trunk_service \<Rightarrow> uuid \<Rightarrow> uuid \<Rightarrow> unit trunk_action" where
  "delete_trunk S org i =
     chain (get_trunk S org i) (\<lambda>item.
     if tk_status item = ''disabled'' then succeed ()
     else chain (map_error (write_error ''trunk not found'') (mutate_trunk S ''trunk.disabled'' (trunk_repo_disable S org i))) (\<lambda>_.
       succeed ()))"

text \<open>After \<open>normalizeAuth\<close> a digest request carries its three fields.\<close>

definition set_outbound_auth :: "trunk_service \<Rightarrow> uuid \<Rightarrow> uuid \<Rightarrow> auth_request \<Rightarrow> unit trunk_action" where
  "set_outbound_auth S org i req0 =
     chain (State_Monad.return (normalize_auth req0 False)) (\<lambda>req.
     chain (get_trunk S org i) (\<lambda>_.
     if ar_method req = ''none'' then trunk_repo_clear_outbound S org i
     else (case ts_cipher S of
       None \<Rightarrow> fail (new_service_unavailable ''trunk credential store is unavailable'' None)
     | Some A \<Rightarrow>
         let user = the (ar_user req); realm = the (ar_realm req); secret = the (ar_secret req) in
         chain (encrypt_secret S A org i ''outbound'' secret) (\<lambda>text.
         trunk_repo_set_outbound S org i user realm text (compute_ha1_md5 (ts_md5 S) user realm secret)))))"

definition clear_outbound_auth :: "trunk_service \<Rightarrow> uuid \<Rightarrow> uuid \<Rightarrow> unit trunk_action" where
  "clear_outbound_auth S org i = chain (get_trunk S org i) (\<lambda>_. trunk_repo_clear_outbound S org i)"

definition set_inbound_auth :: "trunk_service \<Rightarrow> uuid \<Rightarrow> uuid \<Rightarrow> auth_request \<Rightarrow> unit trunk_action" where
  "set_inbound_auth S org i req0 =
     chain (State_Monad.return (normalize_auth req0 True)) (\<lambda>req.
     chain (get_trunk S org i) (\<lambda>_.
     if ar_method req = ''ip'' then trunk_repo_set_inbound_ip S org i
     else (case ts_cipher S of
       None \<Rightarrow> fail (new_service_unavailable ''trunk credential store is unavailable'' None)
     | Some A \<Rightarrow>
         let user = the (ar_user req); realm = the (ar_realm req); secret = the (ar_secret req) in
         chain (encrypt_secret S A org i ''inbound'' secret) (\<lambda>text.
         trunk_repo_set_inbound S org i user realm text (compute_ha1_md5 (ts_md5 S) user realm secret)))))"

definition clear_inbound_auth :: "trunk_service \<Rightarrow> uuid \<Rightarrow> uuid \<Rightarrow> unit trunk_action" where
  "clear_inbound_auth S org i = chain (get_trunk S org i) (\<lambda>_. trunk_repo_set_inbound_ip S org i)"

definition create_source_ip :: "trunk_service \<Rightarrow> uuid \<Rightarrow> uuid \<Rightarrow> string \<Rightarrow> source_ip_response trunk_action" where
  "create_source_ip S org i value =
     chain (get_trunk S org i) (\<lambda>_.
     chain (State_Monad.return (parse_cidr value)) (\<lambda>cidr.
     chain (map_error (write_error ''trunk source IP could not be created'') (trunk_repo_create_ip S org i cidr)) (\<lambda>row.
     succeed (source_ip_response_of row))))"

definition delete_source_ip :: "trunk_service \<Rightarrow> uuid \<Rightarrow> uuid \<Rightarrow> uuid \<Rightarrow> unit trunk_action" where
  "delete_source_ip S org i ip =
     chain (get_trunk S org i) (\<lambda>_.
     if ip = uuid_nil then fail (bad ''source_ip_id is required'') else trunk_repo_delete_ip S org i ip)"

section \<open>Changes of an endpoint\<close>

definition check_optional :: "('a \<Rightarrow> go_err option) \<Rightarrow> 'a option \<Rightarrow> go_err + unit" where
  "check_optional f v = (case v of None \<Rightarrow> Inr () | Some x \<Rightarrow> lift_err (f x))"

definition normalize_endpoint_create :: "endpoint_create \<Rightarrow> go_err + endpoint_create" where
  "normalize_endpoint_create req =
     rbind (normalize_host (ec_host req)) (\<lambda>host.
     rbind (check_optional validate_port (ec_port req)) (\<lambda>_.
     rbind (optional (\<lambda>v. normalize_choice v transports ''transport'') (ec_transport req)) (\<lambda>transport.
     rbind (optional (\<lambda>v. normalize_choice v directions ''direction'') (ec_direction req)) (\<lambda>direction.
     rbind (check_optional validate_priority (ec_priority req)) (\<lambda>_.
     rbind (check_optional validate_weight (ec_weight req)) (\<lambda>_.
     Inr (req\<lparr>ec_host := host, ec_transport := transport, ec_direction := direction\<rparr>)))))))"

definition create_endpoint :: "trunk_service \<Rightarrow> uuid \<Rightarrow> uuid \<Rightarrow> endpoint_create \<Rightarrow> endpoint trunk_action" where
  "create_endpoint S org i req0 =
     chain (get_trunk S org i) (\<lambda>_.
     chain (State_Monad.return (normalize_endpoint_create req0)) (\<lambda>req.
     map_error (write_error ''trunk endpoint not found'')
       (mutate_endpoint S ''trunk.endpoint.created'' (trunk_repo_create_endpoint S org i req))))"

definition normalize_endpoint_update :: "endpoint_update \<Rightarrow> go_err + endpoint_update" where
  "normalize_endpoint_update req =
     (if eu_host req = None \<and> eu_port req = None \<and> eu_transport req = None \<and> eu_direction req = None
         \<and> eu_priority req = None \<and> eu_weight req = None \<and> eu_enabled req = None
      then Inl (bad ''at least one field is required'')
      else
        rbind (optional normalize_host (eu_host req)) (\<lambda>host.
        rbind (check_optional validate_port (eu_port req)) (\<lambda>_.
        rbind (optional (\<lambda>v. normalize_choice v transports ''transport'') (eu_transport req)) (\<lambda>transport.
        rbind (optional (\<lambda>v. normalize_choice v directions ''direction'') (eu_direction req)) (\<lambda>direction.
        rbind (check_optional validate_priority (eu_priority req)) (\<lambda>_.
        rbind (check_optional validate_weight (eu_weight req)) (\<lambda>_.
        Inr (req\<lparr>eu_host := host, eu_transport := transport, eu_direction := direction\<rparr>))))))))"

definition update_endpoint_op :: "trunk_service \<Rightarrow> uuid \<Rightarrow> uuid \<Rightarrow> uuid \<Rightarrow> endpoint_update \<Rightarrow> endpoint trunk_action" where
  "update_endpoint_op S org i e req0 =
     chain (get_endpoint S org i e) (\<lambda>_.
     chain (State_Monad.return (normalize_endpoint_update req0)) (\<lambda>req.
     map_error (write_error ''trunk endpoint not found'')
       (mutate_endpoint S ''trunk.endpoint.updated'' (trunk_repo_update_endpoint S req org i e))))"

definition delete_endpoint :: "trunk_service \<Rightarrow> uuid \<Rightarrow> uuid \<Rightarrow> uuid \<Rightarrow> unit trunk_action" where
  "delete_endpoint S org i e =
     chain (get_endpoint S org i e) (\<lambda>_.
     chain (map_error (write_error ''trunk endpoint not found'')
       (mutate_endpoint S ''trunk.endpoint.deleted'' (trunk_repo_delete_endpoint S org i e))) (\<lambda>_.
     succeed ()))"

end
