(* ===== verification/Trunk_Health.thy ===== *)
theory Trunk_Health
  imports Trunk_Service
begin

text \<open>
  The health checks of trunk endpoints (\<open>telephony/trunks/health.go\<close>): the SIP OPTIONS probe and the job that
  claims due endpoints, probes them and records the outcome. The network, the DNS resolver, the
  random Call-IDs and the text of an error are fields of \<open>prober\<close>. Times are microseconds.
\<close>

section \<open>The job's configuration\<close>

record health_config =
  hc_interval :: int
  hc_timeout :: int
  hc_threshold :: int
  hc_cooldown :: int
  hc_batch :: int

definition default_health_config :: health_config where
  "default_health_config = \<lparr>hc_interval = 30000000, hc_timeout = 3000000, hc_threshold = 3, hc_cooldown = 120000000, hc_batch = 100\<rparr>"

text \<open>\<open>NewHealthCheckJob\<close> with a repository and a prober.\<close>

definition new_health_job :: "health_config \<Rightarrow> health_config" where
  "new_health_job c =
     (let pick = (\<lambda>v d. if v \<le> (0 :: int) then d else v); d = default_health_config in
      \<lparr>hc_interval = pick (hc_interval c) (hc_interval d), hc_timeout = pick (hc_timeout c) (hc_timeout d),
       hc_threshold = pick (hc_threshold c) (hc_threshold d), hc_cooldown = pick (hc_cooldown c) (hc_cooldown d),
       hc_batch = pick (hc_batch c) (hc_batch d)\<rparr>)"

section \<open>The probe\<close>

definition parse_sip_status :: "string \<Rightarrow> go_err + int" where
  "parse_sip_status value =
     (let parts = go_fields (trim_space (hd (split_on CHR 0x0A value))) in
      case parts of
        version # code # rest \<Rightarrow>
          if version \<noteq> ''SIP/2.0'' then Inl (Errf ''endpoint returned an invalid SIP response'' [])
          else (case parse_int64 code of
                  None \<Rightarrow> Inl (Errf ''endpoint returned an invalid SIP status'' [])
                | Some n \<Rightarrow> if n < 100 \<or> 699 < n then Inl (Errf ''endpoint returned an invalid SIP status'' []) else Inr n)
      | _ \<Rightarrow> Inl (Errf ''endpoint returned an invalid SIP response'' []))"

text \<open>
  An probe_exchange over the network: where it failed, or the answer. A datagram is its bytes; of a stream it
  is the bytes that arrived and the error that ended it, which is met when no line is complete.
\<close>

datatype 'a probe_exchange = Dial_Failed go_err | Write_Failed go_err | Read_Failed go_err | Answered 'a

record prober =
  pb_policy :: policy
  pb_lookup :: "nat \<Rightarrow> string \<Rightarrow> go_err + ip_addr list"
  pb_nonce :: "nat \<Rightarrow> go_err + string"
  pb_udp :: "nat \<Rightarrow> string \<Rightarrow> string \<Rightarrow> string probe_exchange"
  pb_tcp :: "nat \<Rightarrow> string \<Rightarrow> string \<Rightarrow> (string \<times> go_err) probe_exchange"
  pb_tls :: "nat \<Rightarrow> string \<Rightarrow> string \<Rightarrow> string \<Rightarrow> (string \<times> go_err) probe_exchange"
  pb_text :: "go_err \<Rightarrow> string"

definition crlf :: string where "crlf = [CHR 0x0D, CHR 0x0A]"

definition options_request :: "go_err + string \<Rightarrow> string \<Rightarrow> int \<Rightarrow> string \<Rightarrow> go_err + string" where
  "options_request nonce host port transport =
     (case nonce of
        Inl e \<Rightarrow> Inl (Wrap ''generate SIP probe id: %w'' [] e)
      | Inr i \<Rightarrow>
          let target = join_host_port host (int_dec port) in
          Inr (List.concat (map (\<lambda>line. line @ crlf)
            [''OPTIONS sip:'' @ target @ '' SIP/2.0'',
             ''Via: SIP/2.0/'' @ to_upper transport @ '' 127.0.0.1:5060;branch=z9hG4bK-'' @ i @ '';rport'',
             ''Max-Forwards: 1'',
             ''From: <sip:health@localhost>;tag='' @ i,
             ''To: <sip:'' @ target @ ''>'',
             ''Call-ID: '' @ i @ ''@localhost'',
             ''CSeq: 1 OPTIONS'',
             ''Contact: <sip:health@127.0.0.1:5060>'',
             ''Content-Length: 0'', []])))"

definition read_sip_status :: "string \<times> go_err \<Rightarrow> go_err + int" where
  "read_sip_status stream = (case stream of (bytes, e) \<Rightarrow>
     if CHR 0x0A \<in> set bytes then parse_sip_status (takeWhile (\<lambda>c. c \<noteq> CHR 0x0A) bytes @ [CHR 0x0A])
     else Inl (Wrap ''read SIP response: %w'' [] e))"

definition probe_udp :: "string probe_exchange \<Rightarrow> go_err + int" where
  "probe_udp x = (case x of
     Dial_Failed e \<Rightarrow> Inl (Wrap ''dial SIP UDP endpoint: %w'' [] e)
   | Write_Failed e \<Rightarrow> Inl (Wrap ''write SIP OPTIONS: %w'' [] e)
   | Read_Failed e \<Rightarrow> Inl (Wrap ''read SIP response: %w'' [] e)
   | Answered bytes \<Rightarrow> parse_sip_status (take 65536 bytes))"

definition probe_stream :: "string \<Rightarrow> (string \<times> go_err) probe_exchange \<Rightarrow> go_err + int" where
  "probe_stream dial x = (case x of
     Dial_Failed e \<Rightarrow> Inl (Wrap dial [] e)
   | Write_Failed e \<Rightarrow> Inl (Wrap ''write SIP OPTIONS: %w'' [] e)
   | Read_Failed e \<Rightarrow> Inl (Wrap ''read SIP response: %w'' [] e)
   | Answered stream \<Rightarrow> read_sip_status stream)"

definition probe_address :: "prober \<Rightarrow> nat \<Rightarrow> endpoint \<Rightarrow> string \<Rightarrow> string \<Rightarrow> go_err + int" where
  "probe_address P n e address payload =
     (if ep_transport e = ''udp'' then probe_udp (pb_udp P n address payload)
      else if ep_transport e = ''tls'' then probe_stream ''dial SIP TLS endpoint: %w'' (pb_tls P n (ep_host e) address payload)
      else if ep_transport e = ''tcp'' then probe_stream ''dial SIP endpoint: %w'' (pb_tcp P n address payload)
      else Inl (Errf ''unsupported SIP transport %q'' [ep_transport e]))"

fun probe_addresses :: "(ip_addr \<Rightarrow> go_err + int) \<Rightarrow> go_err \<Rightarrow> ip_addr list \<Rightarrow> go_err + int" where
  "probe_addresses f err [] = Inl err"
| "probe_addresses f err (ip # ips) = (case f ip of Inr code \<Rightarrow> Inr code | Inl e \<Rightarrow> probe_addresses f e ips)"

text \<open>The resolution answers at least one address, so the initial error, a nil of the code, is never the result.\<close>

definition probe :: "prober \<Rightarrow> nat \<Rightarrow> endpoint \<Rightarrow> go_err + int" where
  "probe P n e =
     (case resolve_host (pb_policy P) (pb_lookup P n) (ep_host e) of
        Inl err \<Rightarrow> Inl (Wrap ''reject SIP trunk endpoint %q: %w'' [ep_host e] err)
      | Inr addresses \<Rightarrow>
          rbind (options_request (pb_nonce P n) (ep_host e) (ep_port e) (ep_transport e)) (\<lambda>payload.
          probe_addresses (\<lambda>ip. probe_address P n e (join_host_port (addr_string ip) (int_dec (ep_port e))) payload)
            (Sentinel ''nil'') addresses))"

section \<open>The job\<close>

definition wrap32 :: "int \<Rightarrow> int" where
  "wrap32 n = (n + 2147483648) mod 4294967296 - 2147483648"

definition latency_ms :: "int \<Rightarrow> int \<Rightarrow> int" where
  "latency_ms started finished = wrap32 (max ((finished - started) div 1000) 0)"

definition health_claim :: "trunk_service \<Rightarrow> int \<Rightarrow> int \<Rightarrow> int \<Rightarrow> endpoint list trunk_action" where
  "health_claim S at before batch = sql_exec (ts_env S) (\<lambda>se. sql_claim_probes at before batch (sq_now se))"

definition health_mark_healthy :: "trunk_service \<Rightarrow> uuid \<Rightarrow> int \<Rightarrow> int \<Rightarrow> int \<Rightarrow> unit trunk_action" where
  "health_mark_healthy S i at code latency =
     handle (sql_exec (ts_env S) (\<lambda>se. sql_mark_healthy i at code latency (sq_now se))) (\<lambda>e. fail e) (\<lambda>_. succeed ())"

definition health_mark_failed :: "trunk_service \<Rightarrow> uuid \<Rightarrow> int \<Rightarrow> int \<Rightarrow> string \<Rightarrow> int \<Rightarrow> int \<Rightarrow> unit trunk_action" where
  "health_mark_failed S i at latency message threshold cooldown =
     handle (sql_exec (ts_env S) (\<lambda>se. sql_mark_probe_failed i at latency message threshold cooldown (sq_now se)))
       (\<lambda>e. fail e) (\<lambda>_. succeed ())"

definition check_endpoint :: "trunk_service \<Rightarrow> prober \<Rightarrow> health_config \<Rightarrow> endpoint \<Rightarrow> unit trunk_action" where
  "check_endpoint S P c e =
     do { a \<leftarrow> sql_tick; n \<leftarrow> sql_tick; b \<leftarrow> sql_tick;
          let finished = sq_now (ts_env S b);
              latency = latency_ms (sq_now (ts_env S a)) finished in
          (case probe P n e of
             Inr code \<Rightarrow> map_error (Wrap ''mark trunk endpoint healthy: %w'' []) (health_mark_healthy S (ep_id e) finished code latency)
           | Inl err \<Rightarrow>
               let message = take 500 (pb_text P err) in
               map_error (Wrap ''mark trunk endpoint failed: %w'' [])
                 (health_mark_failed S (ep_id e) finished latency message (hc_threshold c) (finished + hc_cooldown c))) }"

definition health_job_check :: "trunk_service \<Rightarrow> prober \<Rightarrow> health_config \<Rightarrow> unit trunk_action" where
  "health_job_check S P c =
     do { n \<leftarrow> sql_tick;
          let now = sq_now (ts_env S n) in
          chain (map_error (Wrap ''claim trunk endpoints: %w'' []) (health_claim S now (now - hc_interval c) (hc_batch c))) (\<lambda>es.
          for_each es (check_endpoint S P c)) }"

text \<open>A pass of the job logs what failed and goes on at the next tick.\<close>

definition health_pass :: "trunk_service \<Rightarrow> prober \<Rightarrow> health_config \<Rightarrow> (trunk_db sql_world, unit) state" where
  "health_pass S P c = ignore (health_job_check S P c) (State_Monad.return ())"

end
