(* ===== verification/Trunk_Spec.thy ===== *)
theory Trunk_Spec
  imports Trunk_Health
begin

text \<open>
  The abstract specification of the trunk tables: \<open>trunk_step\<close> lists the committed effects, one statement
  or one transaction with its event each, and every operation of the service and every pass of the health
  job only ever performs such steps, whatever faults it meets.
\<close>

section \<open>Committed effects\<close>

definition log_event :: "string \<Rightarrow> trunk \<Rightarrow> uuid option \<Rightarrow> event_resource \<Rightarrow> int \<Rightarrow> trunk_db \<Rightarrow> trunk_db" where
  "log_event subject t endpoint resource at d = d\<lparr>td_outbox := td_outbox d @
     [\<lparr>te_subject = subject, te_org = tk_org t, te_trunk = tk_id t, te_endpoint = endpoint, te_resource = resource, te_at = at\<rparr>]\<rparr>"

text \<open>The ciphertext is an encryption of the secret under the scope of the trunk and the direction.\<close>

definition sealed_secret :: "trunk_service \<Rightarrow> uuid \<Rightarrow> uuid \<Rightarrow> string \<Rightarrow> string \<Rightarrow> string \<Rightarrow> bool" where
  "sealed_secret S org i direction secret text \<longleftrightarrow>
     (\<exists>A n. ts_cipher S = Some A \<and> encrypt_for_scope A (ts_nonce S n) (credential_scope org i direction) secret = Inr text)"

definition sealed_credential :: "trunk_service \<Rightarrow> uuid \<Rightarrow> uuid \<Rightarrow> string \<Rightarrow> digest_credential option \<Rightarrow> string option \<Rightarrow> bool" where
  "sealed_credential S org i direction c text \<longleftrightarrow>
     (case c of None \<Rightarrow> text = None | Some c \<Rightarrow> \<exists>x. text = Some x \<and> sealed_secret S org i direction (dc_secret c) x)"

abbreviation ha1_of :: "trunk_service \<Rightarrow> digest_credential \<Rightarrow> string" where
  "ha1_of S c \<equiv> compute_ha1_md5 (ts_md5 S) (dc_user c) (dc_realm c) (dc_secret c)"

definition insert_optional_digest ::
  "trunk_service \<Rightarrow> uuid \<Rightarrow> uuid \<Rightarrow> string \<Rightarrow> digest_credential option \<Rightarrow> trunk_db \<Rightarrow> (go_err + unit) \<times> trunk_db" where
  "insert_optional_digest S org i direction c d =
     (case c of None \<Rightarrow> (Inr (), d)
      | Some c \<Rightarrow> sql_insert_digest \<lparr>dg_trunk = i, dg_org = org, dg_direction = direction, dg_user = dc_user c,
          dg_realm = dc_realm c, dg_ha1 = ha1_of S c\<rparr> d)"

definition plan_allows :: "trunk_service \<Rightarrow> uuid \<Rightarrow> trunk_db \<Rightarrow> bool" where
  "plan_allows S org d \<longleftrightarrow> (\<exists>limit n cap. ts_plan S = Some limit \<and> limit n org = Inr (cap, True) \<and> sql_count_trunks org d < cap)"

inductive trunk_step :: "trunk_service \<Rightarrow> int \<Rightarrow> trunk_db \<Rightarrow> trunk_db \<Rightarrow> bool" for S :: trunk_service and thr :: int where
  st_create: "normalize_create req0 = Inr req \<Longrightarrow> sealed_credential S org i ''outbound'' (tc_outbound req) ot
     \<Longrightarrow> sealed_credential S org i ''inbound'' (tc_inbound req) it \<Longrightarrow> plan_allows S org d
     \<Longrightarrow> sql_create_trunk (create_params req org i ot it) t d = (Inr item, d1)
     \<Longrightarrow> insert_optional_digest S org i ''outbound'' (tc_outbound req) d1 = (Inr (), d2)
     \<Longrightarrow> insert_optional_digest S org i ''inbound'' (tc_inbound req) d2 = (Inr (), d3)
     \<Longrightarrow> trunk_step S thr d (log_event ''trunk.created'' item None (TrunkResource (trunk_response_of item)) t' d3)"
| st_update: "sql_update_trunk u org i t d = (Inr item, d1)
     \<Longrightarrow> trunk_step S thr d (log_event ''trunk.updated'' item None (TrunkResource (trunk_response_of item)) t' d1)"
| st_disable: "sql_disable_trunk org i t d = (Inr item, d1)
     \<Longrightarrow> trunk_step S thr d (log_event ''trunk.disabled'' item None (TrunkResource (trunk_response_of item)) t' d1)"
| st_set_outbound: "sealed_secret S org i ''outbound'' (dc_secret c) text
     \<Longrightarrow> trunk_step S thr d (snd (sql_set_outbound org i (dc_user c) (dc_realm c) text (ha1_of S c) t d))"
| st_clear_outbound: "trunk_step S thr d (snd (sql_clear_outbound org i t d))"
| st_set_inbound: "sealed_secret S org i ''inbound'' (dc_secret c) text
     \<Longrightarrow> trunk_step S thr d (snd (sql_set_inbound org i (dc_user c) (dc_realm c) text (ha1_of S c) t d))"
| st_inbound_ip: "trunk_step S thr d (snd (sql_set_inbound_ip org i t d))"
| st_create_ip: "trunk_step S thr d (snd (sql_create_ip org i (masked cidr) fresh t d))"
| st_delete_ip: "trunk_step S thr d (sql_delete_ip org i ip d)"
| st_create_endpoint: "normalize_endpoint_create c0 = Inr c \<Longrightarrow> sql_create_endpoint org i c fresh t d = (Inr e, d1)
     \<Longrightarrow> sql_get_trunk (ep_org e) (ep_trunk e) d1 = Inr item
     \<Longrightarrow> trunk_step S thr d (log_event ''trunk.endpoint.created'' item (Some (ep_id e)) (EndpointResource e) t' d1)"
| st_update_endpoint: "normalize_endpoint_update u0 = Inr u \<Longrightarrow> sql_update_endpoint u org i e0 t d = (Inr e, d1)
     \<Longrightarrow> sql_get_trunk (ep_org e) (ep_trunk e) d1 = Inr item
     \<Longrightarrow> trunk_step S thr d (log_event ''trunk.endpoint.updated'' item (Some (ep_id e)) (EndpointResource e) t' d1)"
| st_delete_endpoint: "sql_delete_endpoint org i e0 d = (Inr e, d1)
     \<Longrightarrow> sql_get_trunk (ep_org e) (ep_trunk e) d1 = Inr item
     \<Longrightarrow> trunk_step S thr d (log_event ''trunk.endpoint.deleted'' item (Some (ep_id e)) (EndpointResource e) t' d1)"
| st_claim: "trunk_step S thr d (snd (sql_claim_probes at before batch t d))"
| st_healthy: "trunk_step S thr d (snd (sql_mark_healthy i at code latency t d))"
| st_failed: "trunk_step S thr d (snd (sql_mark_probe_failed i at latency message thr cooldown t d))"

inductive_cases trunk_stepE: "trunk_step S thr d d'"

section \<open>The refinement\<close>

interpretation tg: sql_guarantee "(trunk_step S thr)\<^sup>*\<^sup>*" for S thr
  by unfold_locales auto

named_theorems tguar \<open>operations that only perform committed effects\<close>

abbreviation t_rel :: "trunk_service \<Rightarrow> int \<Rightarrow> trunk_db sql_world \<Rightarrow> trunk_db sql_world \<Rightarrow> bool" where
  "t_rel S thr \<equiv> tg.R S thr"

lemma t_exec: "(\<And>se d. trunk_step S thr d (snd (q se d))) \<Longrightarrow> state_io_rel (t_rel S thr) (sql_exec E q)"
  by (rule tg.exec) blast

lemma t_tx:
  assumes "\<And>w x w'. run_state body w = (Inr x, w') \<Longrightarrow> trunk_step S thr (sw_db w) (sw_db w')"
  shows "state_io_rel (t_rel S thr) (in_tx E wb wc body)"
  by (rule tg.tx) (use assms in blast)

lemma run_tick_return:
  "run_state (do { n \<leftarrow> sql_tick; State_Monad.return (f n) }) w = (f (sw_tick w), w\<lparr>sw_tick := Suc (sw_tick w)\<rparr>)"
  by simp

lemma t_tick_return: "state_io_rel (t_rel S thr) (do { n \<leftarrow> sql_tick; State_Monad.return (f n) })"
  by (intro tg.world.g_bind tg.tick tg.world.g_return)

lemma insert_event_Inr: "run_state (insert_trunk_event S subject item e res) w = (Inr x, w') \<Longrightarrow>
    \<exists>t. sw_db w' = log_event subject item e res t (sw_db w)"
  unfolding insert_trunk_event_def map_error_Inr log_event_def by (drule sql_exec_Inr) (metis prod.inject)

lemma insert_credential_Inr: "run_state (insert_credential S org i direction c) w = (Inr x, w') \<Longrightarrow>
    insert_optional_digest S org i direction c (sw_db w) = (Inr (), sw_db w')"
  unfolding insert_credential_def insert_optional_digest_def trunk_repo_insert_digest_def
  by (cases c) (auto simp: map_error_Inr dest!: sql_exec_Inr)

lemma encrypt_secret_Inr: "run_state (encrypt_secret S A org i direction secret) w = (Inr text, w') \<Longrightarrow>
    ts_cipher S = Some A \<Longrightarrow> sealed_secret S org i direction secret text"
  unfolding encrypt_secret_def map_error_Inr by (auto simp: sealed_secret_def)

lemma encrypt_optional_Inr: "run_state (encrypt_optional S A org i direction c) w = (Inr text, w') \<Longrightarrow>
    ts_cipher S = Some A \<Longrightarrow> sealed_credential S org i direction c text"
  unfolding encrypt_optional_def sealed_credential_def
  by (cases c) (auto simp: chain_Inr dest: encrypt_secret_Inr)

lemma t_encrypt_secret: "state_io_rel (t_rel S thr) (encrypt_secret S A org i direction secret)"
  unfolding encrypt_secret_def by (intro tg.world.g_map_error t_tick_return)

lemma t_encrypt_optional: "state_io_rel (t_rel S thr) (encrypt_optional S A org i direction c)"
  unfolding encrypt_optional_def by (intro tg.world.g_rules t_encrypt_secret)

lemma plan_limit_Inr:
  assumes "run_state (check_plan_limit S org) w = (Inr x, w')"
  shows "plan_allows S org (sw_db w) \<and> sw_db w' = sw_db w"
  using assms
  by (auto simp: check_plan_limit_def lock_and_check_capacity_def chain_Inr run_handle plan_allows_def
      split: option.splits if_splits prod.splits sum.splits dest!: sql_query_Inr)
    (metis not_le)

lemma mutate_trunk_step:
  assumes "\<And>w item w'. run_state m w = (Inr item, w') \<Longrightarrow> \<exists>t. step_of t (sw_db w) = (Inr item, sw_db w')"
    and "\<And>t d item d1 t'. step_of t d = (Inr item, d1) \<Longrightarrow>
      trunk_step S thr d (log_event subject item None (TrunkResource (trunk_response_of item)) t' d1)"
  shows "state_io_rel (t_rel S thr) (mutate_trunk S subject m)"
  unfolding mutate_trunk_def
proof (rule t_tx)
  fix w x w'
  assume "run_state (chain m (\<lambda>item. chain (insert_trunk_event S subject item None (TrunkResource (trunk_response_of item))) (\<lambda>_. succeed item))) w = (Inr x, w')"
  then obtain item w1 where "run_state m w = (Inr item, w1)"
      "run_state (insert_trunk_event S subject item None (TrunkResource (trunk_response_of item))) w1 = (Inr (), w')"
    by (auto simp: chain_Inr)
  then show "trunk_step S thr (sw_db w) (sw_db w')"
    using assms by (metis insert_event_Inr)
qed

lemma mutate_endpoint_step:
  assumes "\<And>w e w'. run_state m w = (Inr e, w') \<Longrightarrow> \<exists>t. step_of t (sw_db w) = (Inr e, sw_db w')"
    and "\<And>t d e d1 item t'. step_of t d = (Inr e, d1) \<Longrightarrow> sql_get_trunk (ep_org e) (ep_trunk e) d1 = Inr item \<Longrightarrow>
      trunk_step S thr d (log_event subject item (Some (ep_id e)) (EndpointResource e) t' d1)"
  shows "state_io_rel (t_rel S thr) (mutate_endpoint S subject m)"
  unfolding mutate_endpoint_def
proof (rule t_tx)
  fix w x w'
  assume "run_state (chain m (\<lambda>e. chain (trunk_repo_get S (ep_org e) (ep_trunk e)) (\<lambda>t.
      chain (insert_trunk_event S subject t (Some (ep_id e)) (EndpointResource e)) (\<lambda>_. succeed e)))) w = (Inr x, w')"
  then obtain e w1 item w2 where m: "run_state m w = (Inr e, w1)"
      and g: "run_state (trunk_repo_get S (ep_org e) (ep_trunk e)) w1 = (Inr item, w2)"
      and i: "run_state (insert_trunk_event S subject item (Some (ep_id e)) (EndpointResource e)) w2 = (Inr (), w')"
    by (auto simp: chain_Inr)
  from g have "sql_get_trunk (ep_org e) (ep_trunk e) (sw_db w1) = Inr item" "sw_db w2 = sw_db w1"
    unfolding trunk_repo_get_def by (auto dest!: sql_query_Inr)
  then show "trunk_step S thr (sw_db w) (sw_db w')"
    using assms m i by (metis insert_event_Inr)
qed

lemma create_tx_step:
  assumes "normalize_create req0 = Inr req" "sealed_credential S org i ''outbound'' (tc_outbound req) ot"
    and "sealed_credential S org i ''inbound'' (tc_inbound req) it"
    and "run_state (create_trunk_tx S org i req ot it) w = (Inr x, w')"
  shows "trunk_step S thr (sw_db w) (sw_db w')"
proof -
  from assms(4) obtain w1 item w2 w3 w4 where
      "run_state (check_plan_limit S org) w = (Inr (), w1)"
      "run_state (trunk_repo_create S (create_params req org i ot it)) w1 = (Inr item, w2)"
      "run_state (insert_credential S org i ''outbound'' (tc_outbound req)) w2 = (Inr (), w3)"
      "run_state (insert_credential S org i ''inbound'' (tc_inbound req)) w3 = (Inr (), w4)"
      "run_state (insert_trunk_event S ''trunk.created'' item None (TrunkResource (trunk_response_of item))) w4 = (Inr (), w')"
    by (auto simp: create_trunk_tx_def chain_Inr map_error_Inr)
  note runs = this
  obtain t' where "sw_db w' = log_event ''trunk.created'' item None (TrunkResource (trunk_response_of item)) t' (sw_db w4)"
    using insert_event_Inr [OF runs(5)] by blast
  then show ?thesis
    using st_create [OF assms(1-3)] plan_limit_Inr [OF runs(1)] sql_exec_Inr [OF runs(2) [unfolded trunk_repo_create_def]]
      insert_credential_Inr [OF runs(3)] insert_credential_Inr [OF runs(4)] by auto
qed

section \<open>Every operation\<close>

lemma t_reads [tguar]:
  "state_io_rel (t_rel S thr) (get_trunk S org i)" "state_io_rel (t_rel S thr) (list_trunks S org lreq)"
  "state_io_rel (t_rel S thr) (list_source_ips S org i)" "state_io_rel (t_rel S thr) (list_endpoints S org i)"
  "state_io_rel (t_rel S thr) (get_endpoint S org i e)" "state_io_rel (t_rel S thr) (trunk_repo_list_endpoints S org i)"
  unfolding get_trunk_def list_trunks_def list_source_ips_def list_endpoints_def get_endpoint_def trunk_repo_get_def
    trunk_repo_list_def trunk_repo_list_ips_def trunk_repo_list_endpoints_def trunk_repo_get_endpoint_def
  by (intro tg.world.g_rules tg.query)+

lemma t_create_trunk [tguar]: "state_io_rel (t_rel S thr) (create_trunk S org req0)"
  unfolding create_trunk_def Let_def
proof (rule tg.world.g_chain [OF tg.world.g_of_check], rule tg.world.g_return_check)
  fix req assume req: "normalize_create req0 = Inr req"
  show "state_io_rel (t_rel S thr) (case ts_cipher S of
      None \<Rightarrow> fail (new_service_unavailable ''trunk credential store is unavailable'' None)
    | Some A \<Rightarrow> do { n \<leftarrow> sql_tick;
        chain (encrypt_optional S A org (sq_fresh (ts_env S n)) ''outbound'' (tc_outbound req)) (\<lambda>out_text.
        chain (encrypt_optional S A org (sq_fresh (ts_env S n)) ''inbound'' (tc_inbound req)) (\<lambda>in_text.
        in_tx (ts_env S) (\<lambda>e. new_internal ''begin trunk creation'' (Some e)) (\<lambda>e. new_internal ''commit trunk creation'' (Some e))
          (create_trunk_tx S org (sq_fresh (ts_env S n)) req out_text in_text))) })"
  proof (cases "ts_cipher S")
    case (Some A)
    show ?thesis unfolding Some option.case
      by (intro tg.world.g_bind tg.tick tg.world.g_chain_run t_encrypt_optional t_tx)
        (blast intro: create_tx_step [OF req] encrypt_optional_Inr [OF _ Some])
  qed (simp add: tg.world.g_return)
qed

lemma t_update_trunk [tguar]: "state_io_rel (t_rel S thr) (update_trunk_op S org i u)"
  unfolding update_trunk_op_def
  by (intro tg.world.g_rules tguar mutate_trunk_step [where step_of = "\<lambda>t. sql_update_trunk x org i t" for x] st_update)
    (auto simp: trunk_repo_update_def dest: sql_exec_Inr)

lemma t_delete_trunk [tguar]: "state_io_rel (t_rel S thr) (delete_trunk S org i)"
  unfolding delete_trunk_def
  by (intro tg.world.g_rules tguar mutate_trunk_step [where step_of = "\<lambda>t. sql_disable_trunk org i t"] st_disable)
    (auto simp: trunk_repo_disable_def dest: sql_exec_Inr)

lemma t_auth_statements:
  "state_io_rel (t_rel S thr) (trunk_repo_clear_outbound S org i)" "state_io_rel (t_rel S thr) (trunk_repo_set_inbound_ip S org i)"
  unfolding trunk_repo_clear_outbound_def trunk_repo_set_inbound_ip_def
  by (intro t_exec st_clear_outbound st_inbound_ip)+

lemma t_set_outbound_auth [tguar]: "state_io_rel (t_rel S thr) (set_outbound_auth S org i req)"
  unfolding set_outbound_auth_def Let_def trunk_repo_set_outbound_def
  by (intro tg.world.g_return_check tg.world.g_chain [OF t_reads(1)] tg.world.g_if t_auth_statements)
    (auto split: option.split intro!: tg.world.g_return tg.world.g_chain_run t_encrypt_secret t_exec
      st_set_outbound [where c = "\<lparr>dc_user = u, dc_realm = r, dc_secret = s\<rparr>" for u r s, simplified] dest: encrypt_secret_Inr)

lemma t_set_inbound_auth [tguar]: "state_io_rel (t_rel S thr) (set_inbound_auth S org i req)"
  unfolding set_inbound_auth_def Let_def trunk_repo_set_inbound_def
  by (intro tg.world.g_return_check tg.world.g_chain [OF t_reads(1)] tg.world.g_if t_auth_statements)
    (auto split: option.split intro!: tg.world.g_return tg.world.g_chain_run t_encrypt_secret t_exec
      st_set_inbound [where c = "\<lparr>dc_user = u, dc_realm = r, dc_secret = s\<rparr>" for u r s, simplified] dest: encrypt_secret_Inr)

lemma t_clear_auth [tguar]:
  "state_io_rel (t_rel S thr) (clear_outbound_auth S org i)" "state_io_rel (t_rel S thr) (clear_inbound_auth S org i)"
  unfolding clear_outbound_auth_def clear_inbound_auth_def by (intro tg.world.g_chain tguar t_auth_statements)+

lemma parse_cidr_masked: "parse_cidr v = Inr p \<Longrightarrow> \<exists>q. p = masked q"
  by (auto simp: parse_cidr_def split: option.splits)

lemma t_create_source_ip [tguar]: "state_io_rel (t_rel S thr) (create_source_ip S org i v)"
  unfolding create_source_ip_def trunk_repo_create_ip_def
  by (intro tg.world.g_chain [OF t_reads(1)] tg.world.g_return_check tg.world.g_chain tg.world.g_map_error tg.world.g_return t_exec)
    (auto dest!: parse_cidr_masked intro: st_create_ip)

lemma t_delete_source_ip [tguar]: "state_io_rel (t_rel S thr) (delete_source_ip S org i ip)"
  unfolding delete_source_ip_def trunk_repo_delete_ip_def
  by (intro tg.world.g_rules tguar t_exec) (simp add: st_delete_ip)

lemma t_create_endpoint [tguar]: "state_io_rel (t_rel S thr) (create_endpoint S org i c0)"
  unfolding create_endpoint_def
  apply (intro tg.world.g_chain [OF t_reads(1)] tg.world.g_return_check tg.world.g_map_error)
  subgoal for t c
    by (rule mutate_endpoint_step [where step_of = "\<lambda>(t, fresh). sql_create_endpoint org i c fresh t"])
      (auto simp: trunk_repo_create_endpoint_def dest: sql_exec_Inr intro: st_create_endpoint)
  done

lemma t_update_endpoint [tguar]: "state_io_rel (t_rel S thr) (update_endpoint_op S org i e u0)"
  unfolding update_endpoint_op_def
  apply (intro tg.world.g_chain [OF t_reads(5)] tg.world.g_return_check tg.world.g_map_error)
  subgoal for e0 u
    by (rule mutate_endpoint_step [where step_of = "\<lambda>t. sql_update_endpoint u org i e t"])
      (auto simp: trunk_repo_update_endpoint_def dest: sql_exec_Inr intro: st_update_endpoint)
  done

lemma t_delete_endpoint [tguar]: "state_io_rel (t_rel S thr) (delete_endpoint S org i e)"
  unfolding delete_endpoint_def
  by (intro tg.world.g_chain [OF t_reads(5)] tg.world.g_chain tg.world.g_map_error tg.world.g_return
      mutate_endpoint_step [where step_of = "\<lambda>t. sql_delete_endpoint org i e"] st_delete_endpoint)
    (auto simp: trunk_repo_delete_endpoint_def dest: sql_exec_Inr)

lemma t_validate_trunk [tguar]: "state_io_rel (t_rel S thr) (validate_trunk S org i)"
  unfolding validate_trunk_def inbound_problems_def by (intro tg.world.g_rules tguar)

lemma t_health_pass [tguar]: "state_io_rel (t_rel S (hc_threshold c)) (health_pass S P c)"
  unfolding health_pass_def health_job_check_def check_endpoint_def health_claim_def health_mark_healthy_def health_mark_failed_def Let_def
  by (intro tg.world.g_rules tg.tick t_exec st_claim st_healthy st_failed)

section \<open>Histories\<close>

text \<open>What reaches the trunk service: requests of the API and passes of the health job.\<close>

datatype trunk_operation =
    T_Create uuid trunk_create | T_Update uuid uuid trunk_update | T_Delete uuid uuid
  | T_Get uuid uuid | T_List uuid trunk_list_request | T_Validate uuid uuid
  | T_Set_Outbound uuid uuid auth_request | T_Clear_Outbound uuid uuid
  | T_Set_Inbound uuid uuid auth_request | T_Clear_Inbound uuid uuid
  | T_Create_IP uuid uuid string | T_List_IPs uuid uuid | T_Delete_IP uuid uuid uuid
  | T_Create_Endpoint uuid uuid endpoint_create | T_Update_Endpoint uuid uuid uuid endpoint_update
  | T_Delete_Endpoint uuid uuid uuid | T_Get_Endpoint uuid uuid uuid | T_List_Endpoints uuid uuid
  | T_Health prober

fun run_trunk_op :: "trunk_service \<Rightarrow> health_config \<Rightarrow> trunk_operation \<Rightarrow> trunk_db sql_world \<Rightarrow> trunk_db sql_world" where
  "run_trunk_op S c (T_Create org req) w = snd (run_state (create_trunk S org req) w)"
| "run_trunk_op S c (T_Update org i u) w = snd (run_state (update_trunk_op S org i u) w)"
| "run_trunk_op S c (T_Delete org i) w = snd (run_state (delete_trunk S org i) w)"
| "run_trunk_op S c (T_Get org i) w = snd (run_state (get_trunk S org i) w)"
| "run_trunk_op S c (T_List org req) w = snd (run_state (list_trunks S org req) w)"
| "run_trunk_op S c (T_Validate org i) w = snd (run_state (validate_trunk S org i) w)"
| "run_trunk_op S c (T_Set_Outbound org i a) w = snd (run_state (set_outbound_auth S org i a) w)"
| "run_trunk_op S c (T_Clear_Outbound org i) w = snd (run_state (clear_outbound_auth S org i) w)"
| "run_trunk_op S c (T_Set_Inbound org i a) w = snd (run_state (set_inbound_auth S org i a) w)"
| "run_trunk_op S c (T_Clear_Inbound org i) w = snd (run_state (clear_inbound_auth S org i) w)"
| "run_trunk_op S c (T_Create_IP org i v) w = snd (run_state (create_source_ip S org i v) w)"
| "run_trunk_op S c (T_List_IPs org i) w = snd (run_state (list_source_ips S org i) w)"
| "run_trunk_op S c (T_Delete_IP org i ip) w = snd (run_state (delete_source_ip S org i ip) w)"
| "run_trunk_op S c (T_Create_Endpoint org i e) w = snd (run_state (create_endpoint S org i e) w)"
| "run_trunk_op S c (T_Update_Endpoint org i e u) w = snd (run_state (update_endpoint_op S org i e u) w)"
| "run_trunk_op S c (T_Delete_Endpoint org i e) w = snd (run_state (delete_endpoint S org i e) w)"
| "run_trunk_op S c (T_Get_Endpoint org i e) w = snd (run_state (get_endpoint S org i e) w)"
| "run_trunk_op S c (T_List_Endpoints org i) w = snd (run_state (list_endpoints S org i) w)"
| "run_trunk_op S c (T_Health P) w = snd (run_state (health_pass S P c) w)"

lemma run_trunk_op_refines: "(trunk_step S (hc_threshold c))\<^sup>*\<^sup>* (sw_db w) (sw_db (run_trunk_op S c op w))"
  by (cases op) (simp_all add: tg.run tguar)

lemma run_trunk_ops_refine: "(trunk_step S (hc_threshold c))\<^sup>*\<^sup>* (sw_db w) (sw_db (fold (run_trunk_op S c) ops w))"
  by (rule history_refines) (rule run_trunk_op_refines)

text \<open>An invariant of the committed effects holds after every history.\<close>

lemma trunk_history_invariant:
  assumes "\<And>d d'. trunk_step S (hc_threshold c) d d' \<Longrightarrow> I d \<Longrightarrow> I d'" and "I (sw_db w)"
  shows "I (sw_db (fold (run_trunk_op S c) ops w))"
  using run_trunk_op_refines assms by (rule history_invariant)

end
