(* ===== verification/Trunk_Invariants.thy ===== *)
theory Trunk_Invariants
  imports Trunk_Spec
begin

text \<open>
  The invariants of the trunk tables: the constraints of the schema, the agreement of a trunk with the
  credential rows the SIP proxy reads, the health of endpoints, and the number of trunks of an organization.
\<close>

section \<open>The schema\<close>

definition schema_ok :: "trunk_db \<Rightarrow> bool" where
  "schema_ok d \<longleftrightarrow> violation trunk_schema d = None"

lemma schema_ok_iff: "schema_ok d \<longleftrightarrow> (\<forall>(code, ok) \<in> set trunk_schema. ok d)"
  by (simp add: schema_ok_def violation_None)

lemma schema_facts:
  assumes "schema_ok d"
  shows "list_all trunk_ok (td_trunks d)" "distinct (map tk_id (td_trunks d))" "distinct (map (\<lambda>t. (tk_org t, tk_name t)) (td_trunks d))"
    "distinct (map (\<lambda>r. (dg_trunk r, dg_direction r)) (td_digests d))"
    "distinct (map (\<lambda>r. (dg_user r, dg_realm r)) (filter (\<lambda>r. dg_direction r = ''inbound'') (td_digests d)))"
    "list_all endpoint_ok (td_endpoints d)" "distinct (map ep_id (td_endpoints d))"
    "list_all (\<lambda>r. (dg_trunk r, dg_org r) \<in> set (trunk_keys d)) (td_digests d)"
    "list_all (\<lambda>e. (ep_trunk e, ep_org e) \<in> set (trunk_keys d)) (td_endpoints d)"
  using assms unfolding schema_ok_iff trunk_schema_def by simp_all

lemma schema_outbox [simp]: "schema_ok (d\<lparr>td_outbox := x\<rparr>) = schema_ok d"
  by (simp add: schema_ok_def violation_None trunk_schema_def)

lemma schema_log [simp]: "schema_ok (log_event a b c e t d) = schema_ok d"
  by (simp add: log_event_def)

lemma stored_schema: "schema_ok d \<Longrightarrow> schema_ok (snd (stored d r))"
  using constrained_cases [of trunk_schema d r] by (auto simp: schema_ok_def violation_None)

lemma schema_if: "schema_ok (snd a) \<Longrightarrow> schema_ok (snd b) \<Longrightarrow> schema_ok (snd (if c then a else b))"
  by simp

lemma schema_same: "schema_ok d \<Longrightarrow> schema_ok (snd (x, d))"
  by simp

lemma schema_sum: "(\<And>x. schema_ok (snd (f x))) \<Longrightarrow> (\<And>x. schema_ok (snd (g x))) \<Longrightarrow> schema_ok (snd (case r of Inl x \<Rightarrow> f x | Inr x \<Rightarrow> g x))"
  by (cases r) auto

lemma with_texts_schema: "schema_ok d \<Longrightarrow> schema_ok (snd r) \<Longrightarrow> schema_ok (snd (with_texts ps d r))"
  by (simp add: with_texts_def)

lemma update_trunk_schema: "schema_ok d \<Longrightarrow> schema_ok (snd (update_trunk p f d))"
  unfolding update_trunk_def by (intro schema_sum schema_same stored_schema)

lemma update_endpoint_schema: "schema_ok d \<Longrightarrow> schema_ok (snd (update_endpoint p f d))"
  unfolding update_endpoint_def by (intro schema_sum schema_same stored_schema)

lemma with_digest_schema: "schema_ok d \<Longrightarrow> schema_ok (snd (with_digest org i f g d))"
  unfolding with_digest_def by (intro schema_if stored_schema schema_same)

lemmas schema_rules = with_texts_schema schema_if schema_same schema_sum update_trunk_schema update_endpoint_schema
  with_digest_schema stored_schema

lemma create_trunk_keeps: "schema_ok d \<Longrightarrow> schema_ok (snd (sql_create_trunk n t d))"
  unfolding sql_create_trunk_def by (intro schema_rules)

lemma update_trunk_keeps: "schema_ok d \<Longrightarrow> schema_ok (snd (sql_update_trunk u org i t d))"
  unfolding sql_update_trunk_def by (intro schema_rules)

lemma disable_trunk_keeps: "schema_ok d \<Longrightarrow> schema_ok (snd (sql_disable_trunk org i t d))"
  unfolding sql_disable_trunk_def by (intro schema_rules)

lemma insert_digest_keeps: "schema_ok d \<Longrightarrow> schema_ok (snd (sql_insert_digest r d))"
  unfolding sql_insert_digest_def by (intro schema_rules)

lemma set_outbound_keeps: "schema_ok d \<Longrightarrow> schema_ok (snd (sql_set_outbound org i user realm text ha1 t d))"
  unfolding sql_set_outbound_def by (intro schema_rules)

lemma clear_outbound_keeps: "schema_ok d \<Longrightarrow> schema_ok (snd (sql_clear_outbound org i t d))"
  unfolding sql_clear_outbound_def by (intro schema_rules)

lemma set_inbound_keeps: "schema_ok d \<Longrightarrow> schema_ok (snd (sql_set_inbound org i user realm text ha1 t d))"
  unfolding sql_set_inbound_def by (intro schema_rules)

lemma set_inbound_ip_keeps: "schema_ok d \<Longrightarrow> schema_ok (snd (sql_set_inbound_ip org i t d))"
  unfolding sql_set_inbound_ip_def by (intro schema_rules)

lemma create_ip_keeps: "schema_ok d \<Longrightarrow> schema_ok (snd (sql_create_ip org i cidr fresh t d))"
  unfolding sql_create_ip_def Let_def by (intro schema_rules)

lemma create_endpoint_keeps: "schema_ok d \<Longrightarrow> schema_ok (snd (sql_create_endpoint org i c fresh t d))"
  unfolding sql_create_endpoint_def by (intro schema_rules)

lemma update_endpoint_keeps: "schema_ok d \<Longrightarrow> schema_ok (snd (sql_update_endpoint u org i e t d))"
  unfolding sql_update_endpoint_def by (intro schema_rules)

lemma delete_endpoint_keeps: "schema_ok d \<Longrightarrow> schema_ok (snd (sql_delete_endpoint org i e d))"
  unfolding sql_delete_endpoint_def by (cases "sql_get_endpoint org i e d") (simp_all add: stored_schema)

lemma claim_keeps: "schema_ok d \<Longrightarrow> schema_ok (snd (sql_claim_probes at before batch t d))"
  unfolding sql_claim_probes_def Let_def by (rule stored_schema)

lemma healthy_keeps: "schema_ok d \<Longrightarrow> schema_ok (snd (sql_mark_healthy i at code latency t d))"
  unfolding sql_mark_healthy_def by (intro schema_rules)

lemma failed_keeps: "schema_ok d \<Longrightarrow> schema_ok (snd (sql_mark_probe_failed i at latency message thr cooldown t d))"
  unfolding sql_mark_probe_failed_def by (intro schema_rules)

lemmas statements_schema = create_trunk_keeps update_trunk_keeps disable_trunk_keeps insert_digest_keeps set_outbound_keeps clear_outbound_keeps set_inbound_keeps set_inbound_ip_keeps create_ip_keeps create_endpoint_keeps update_endpoint_keeps delete_endpoint_keeps claim_keeps healthy_keeps failed_keeps

text \<open>A result of a statement, as the steps name it.\<close>

lemma result_schema: "q = (r, d') \<Longrightarrow> schema_ok (snd q) \<Longrightarrow> schema_ok d'"
  by simp

lemma delete_ip_schema: "schema_ok d \<Longrightarrow> schema_ok (sql_delete_ip org i ip d)"
  unfolding schema_ok_iff trunk_schema_def by (simp add: sql_delete_ip_def list_all_iff distinct_map_filter)

lemma optional_digest_schema: "schema_ok d \<Longrightarrow> schema_ok (snd (insert_optional_digest S org i dir c d))"
  unfolding insert_optional_digest_def by (cases c) (simp_all add: statements_schema(4))

lemma step_schema: "trunk_step S thr d d' \<Longrightarrow> schema_ok d \<Longrightarrow> schema_ok d'"
proof (induction rule: trunk_step.induct)
  case (st_create req0 req org i ot it d t item d1 d2 d3 t')
  have "schema_ok d1" using st_create(5) statements_schema(1) [OF st_create.prems] by (rule result_schema)
  then have "schema_ok d2" using st_create(6) optional_digest_schema by (metis result_schema)
  then have "schema_ok d3" using st_create(7) optional_digest_schema by (metis result_schema)
  then show ?case by simp
next
  case (st_update u org i t d item d1 t')
  then show ?case using statements_schema(2) result_schema by (metis schema_log)
next
  case (st_disable org i t d item d1 t')
  then show ?case using statements_schema(3) result_schema by (metis schema_log)
next
  case (st_create_endpoint c0 c org i fresh t d e d1 item t')
  then show ?case using statements_schema(10) result_schema by (metis schema_log)
next
  case (st_update_endpoint u0 u org i e0 t d e d1 item t')
  then show ?case using statements_schema(11) result_schema by (metis schema_log)
next
  case (st_delete_endpoint org i e0 d e d1 item t')
  then show ?case using statements_schema(12) result_schema by (metis schema_log)
next
  case (st_delete_ip d org i ip)
  then show ?case by (rule delete_ip_schema)
qed (rule statements_schema, assumption)+

section \<open>Credentials\<close>

text \<open>
  One side of a trunk: its method, user name, realm and ciphertext. It agrees with the credential table when
  the table has no row for it and the method is not digest, or exactly one row with the same user and realm,
  whose HA1 is the digest of a secret that the ciphertext seals under the scope of the trunk.
\<close>

definition tk_side :: "string \<Rightarrow> trunk \<Rightarrow> string \<times> string option \<times> string option \<times> string option" where
  "tk_side dir t = (if dir = ''outbound'' then (tk_out_method t, tk_out_user t, tk_out_realm t, tk_out_cipher t)
     else (tk_in_method t, tk_in_user t, tk_in_realm t, tk_in_cipher t))"

definition row_matches :: "trunk_service \<Rightarrow> string \<Rightarrow> trunk \<Rightarrow> digest_row \<Rightarrow> bool" where
  "row_matches S dir t r \<longleftrightarrow> dg_org r = tk_org t \<and> (\<exists>secret text.
     tk_side dir t = (''digest'', Some (dg_user r), Some (dg_realm r), Some text)
     \<and> sealed_secret S (tk_org t) (tk_id t) dir secret text
     \<and> dg_ha1 r = compute_ha1_md5 (ts_md5 S) (dg_user r) (dg_realm r) secret)"

definition side_agrees :: "trunk_service \<Rightarrow> string \<Rightarrow> digest_row list \<Rightarrow> trunk \<Rightarrow> bool" where
  "side_agrees S dir rows t = (case filter (digest_key (tk_id t) dir) rows of
     [] \<Rightarrow> fst (tk_side dir t) \<noteq> ''digest'' | [r] \<Rightarrow> row_matches S dir t r | _ \<Rightarrow> False)"

definition credentials_agree :: "trunk_service \<Rightarrow> trunk_db \<Rightarrow> bool" where
  "credentials_agree S d \<longleftrightarrow>
     (\<forall>t \<in> set (td_trunks d). side_agrees S ''outbound'' (td_digests d) t \<and> side_agrees S ''inbound'' (td_digests d) t)"

lemma agree_same:
  assumes "side_agrees S dir rows t" "filter (digest_key (tk_id t) dir) rows' = filter (digest_key (tk_id t) dir) rows"
    and "tk_side dir t' = tk_side dir t" "tk_id t' = tk_id t" "tk_org t' = tk_org t"
  shows "side_agrees S dir rows' t'"
proof -
  have "row_matches S dir t' = row_matches S dir t" by (rule ext) (simp add: row_matches_def assms)
  then show ?thesis using assms by (auto simp: side_agrees_def split: list.split list.split_asm)
qed

lemma agree_none: "filter (digest_key (tk_id t) dir) rows = [] \<Longrightarrow> fst (tk_side dir t) \<noteq> ''digest'' \<Longrightarrow> side_agrees S dir rows t"
  by (simp add: side_agrees_def)

lemma agree_one: "filter (digest_key (tk_id t) dir) rows = [r] \<Longrightarrow> row_matches S dir t r \<Longrightarrow> side_agrees S dir rows t"
  by (simp add: side_agrees_def)

lemma credentials_same:
  assumes "credentials_agree S d" "td_trunks d' = td_trunks d" "td_digests d' = td_digests d"
  shows "credentials_agree S d'"
  using assms by (simp add: credentials_agree_def)

lemma credentials_log [simp]: "credentials_agree S (log_event a b c e t d) = credentials_agree S d"
  by (simp add: credentials_agree_def log_event_def)

text \<open>Changes of the credential table seen from one key.\<close>

lemma filter_update_other: "(\<And>x. p x \<Longrightarrow> \<not> q x \<and> \<not> q (f x)) \<Longrightarrow> filter q (update_rows p f rows) = filter q rows"
  by (induction rows) (auto simp: update_rows_def)

lemma filter_update_same: "(\<And>x. q (f x) = q x) \<Longrightarrow> filter q (update_rows q f rows) = map f (filter q rows)"
  by (induction rows) (auto simp: update_rows_def)

lemma filter_upsert_other:
  assumes "\<not> (dg_trunk r = i \<and> dg_direction r = dir)"
  shows "filter (digest_key i dir) (upsert_digest r rows) = filter (digest_key i dir) rows"
proof -
  have "filter (digest_key i dir) (update_rows (digest_key (dg_trunk r) (dg_direction r)) f rows) = filter (digest_key i dir) rows"
    if "\<And>x. dg_trunk (f x) = dg_trunk x \<and> dg_direction (f x) = dg_direction x" for f
    by (rule filter_update_other) (use assms that in \<open>auto simp: digest_key_def\<close>)
  then show ?thesis using assms by (auto simp: upsert_digest_def digest_key_def)
qed

lemma filter_upsert_same:
  assumes "filter (digest_key (dg_trunk r) (dg_direction r)) rows \<in> {[], [x]}"
    and "\<And>x. x \<in> set rows \<Longrightarrow> digest_key (dg_trunk r) (dg_direction r) x \<Longrightarrow> dg_org x = dg_org r"
  shows "filter (digest_key (dg_trunk r) (dg_direction r)) (upsert_digest r rows) = [r]"
proof (cases "filter (digest_key (dg_trunk r) (dg_direction r)) rows = []")
  case True
  then have "\<not> list_ex (digest_key (dg_trunk r) (dg_direction r)) rows" by (auto simp: list_ex_iff filter_empty_conv)
  then show ?thesis using True by (simp add: upsert_digest_def) (simp add: digest_key_def)
next
  case False
  then have x: "filter (digest_key (dg_trunk r) (dg_direction r)) rows = [x]" using assms(1) by auto
  then have mem: "x \<in> set rows" "digest_key (dg_trunk r) (dg_direction r) x"
    using filter_set [of "digest_key (dg_trunk r) (dg_direction r)" rows] by auto
  let ?f = "\<lambda>y. y\<lparr>dg_user := dg_user r, dg_realm := dg_realm r, dg_ha1 := dg_ha1 r\<rparr>"
  have "list_ex (digest_key (dg_trunk r) (dg_direction r)) rows" using mem by (auto simp: list_ex_iff)
  moreover have "filter (digest_key (dg_trunk r) (dg_direction r)) (update_rows (digest_key (dg_trunk r) (dg_direction r)) ?f rows) = map ?f [x]"
    unfolding x [symmetric] by (rule filter_update_same) (simp add: digest_key_def)
  moreover have "?f x = r" using mem(2) assms(2) [OF mem] by (simp add: digest_key_def)
  ultimately show ?thesis by (simp add: upsert_digest_def)
qed

lemma filter_delete:
  "filter (digest_key i dir) (filter (\<lambda>r. \<not> digest_key i' dir' r) rows) =
     (if i = i' \<and> dir = dir' then [] else filter (digest_key i dir) rows)"
  by (auto simp: filter_empty_conv digest_key_def intro!: filter_cong)

lemma stored_cases: "snd (stored d r) = snd r \<or> snd (stored d r) = d"
  using constrained_cases [of trunk_schema d r] by auto

lemma trunk_id_unique:
  assumes "schema_ok d" "t \<in> set (td_trunks d)" "t' \<in> set (td_trunks d)" "tk_id t = tk_id t'"
  shows "t = t'"
  using schema_facts(2) [OF assms(1)] assms(2-4) by (auto simp: distinct_map inj_on_def)

lemma with_digest_agree:
  assumes d: "schema_ok d" "credentials_agree S d" and f: "\<And>t. tk_id (f t) = tk_id t \<and> tk_org (f t) = tk_org t"
    and self: "\<And>t dir. t \<in> set (td_trunks d) \<Longrightarrow> the_trunk org i t \<Longrightarrow> dir \<in> {''outbound'', ''inbound''} \<Longrightarrow>
      side_agrees S dir (g (td_digests d)) (f t)"
    and other: "\<And>j dir. j \<noteq> i \<Longrightarrow> filter (digest_key j dir) (g (td_digests d)) = filter (digest_key j dir) (td_digests d)"
  shows "credentials_agree S (snd (with_digest org i f g d))"
proof (cases "list_ex (the_trunk org i) (td_trunks d)")
  case False
  then show ?thesis using d by (simp add: with_digest_def)
next
  case True
  then obtain t0 where t0: "t0 \<in> set (td_trunks d)" "the_trunk org i t0" by (auto simp: list_ex_iff)
  let ?d = "d\<lparr>td_trunks := update_rows (the_trunk org i) f (td_trunks d), td_digests := g (td_digests d)\<rparr>"
  have "side_agrees S dir (g (td_digests d)) t'" if t': "t' \<in> set (td_trunks ?d)" and dir: "dir \<in> {''outbound'', ''inbound''}" for t' dir
  proof -
    from t' have "t' \<in> set (update_rows (the_trunk org i) f (td_trunks d))" by simp
    from set_update_rows [OF this] obtain t where t: "t \<in> set (td_trunks d)" "t' = (if the_trunk org i t then f t else t)" by blast
    show ?thesis
    proof (cases "the_trunk org i t")
      case True
      with t self dir show ?thesis by simp
    next
      case False
      have "tk_id t \<noteq> i"
      proof
        assume "tk_id t = i"
        then have "t = t0" using trunk_id_unique [OF d(1) t(1) t0(1)] t0(2) by (simp add: the_trunk_def)
        with False t0(2) show False by simp
      qed
      then have "filter (digest_key (tk_id t) dir) (g (td_digests d)) = filter (digest_key (tk_id t) dir) (td_digests d)" by (rule other)
      moreover have "side_agrees S dir (td_digests d) t" using d(2) t(1) dir by (auto simp: credentials_agree_def)
      ultimately show ?thesis using t(2) False by (simp add: agree_same)
    qed
  qed
  then have "credentials_agree S ?d" by (simp add: credentials_agree_def)
  moreover have "snd (stored d (Inr (), ?d) :: (go_err + unit) \<times> trunk_db) \<in> {?d, d}"
    using stored_cases [of d "(Inr (), ?d)"] by simp
  ultimately have "credentials_agree S (snd (stored d (Inr (), ?d) :: (go_err + unit) \<times> trunk_db))" using d(2) by (elim insertE) (simp_all only:, simp)
  then show ?thesis using True by (simp add: with_digest_def)
qed

lemma update_trunk_agree:
  assumes d: "credentials_agree S d" and f: "\<And>t dir. tk_id (f t) = tk_id t \<and> tk_org (f t) = tk_org t \<and> tk_side dir (f t) = tk_side dir t"
  shows "credentials_agree S (snd (update_trunk p f d))"
proof -
  let ?d = "d\<lparr>td_trunks := update_rows p f (td_trunks d)\<rparr>"
  have "credentials_agree S ?d"
    using d f by (auto simp: credentials_agree_def dest!: set_update_rows intro: agree_same)
  moreover have "snd (stored d (x, ?d)) = ?d \<or> snd (stored d (x, ?d)) = d" for x :: "go_err + trunk"
    using stored_cases [of d "(x, ?d)"] by simp
  ultimately show ?thesis using d unfolding update_trunk_def by (cases "one_row p (td_trunks d)") (simp, metis sum.case(2))
qed

lemma with_texts_agree: "credentials_agree S d \<Longrightarrow> credentials_agree S (snd r) \<Longrightarrow> credentials_agree S (snd (with_texts ps d r))"
  by (simp add: with_texts_def)

lemma filter_one:
  assumes "side_agrees S dir rows t"
  shows "\<exists>x. filter (digest_key (tk_id t) dir) rows \<in> {[], [x]}"
    and "\<And>x. x \<in> set rows \<Longrightarrow> digest_key (tk_id t) dir x \<Longrightarrow> dg_org x = tk_org t"
proof -
  show "\<exists>x. filter (digest_key (tk_id t) dir) rows \<in> {[], [x]}"
    using assms by (auto simp: side_agrees_def split: list.split_asm)
  show "dg_org x = tk_org t" if "x \<in> set rows" "digest_key (tk_id t) dir x" for x
  proof -
    from that have mem: "x \<in> set (filter (digest_key (tk_id t) dir) rows)" by simp
    show ?thesis
    proof (cases "filter (digest_key (tk_id t) dir) rows")
      case (Cons y ys)
      with assms have "ys = []" "row_matches S dir t y" by (auto simp: side_agrees_def split: list.split_asm)
      moreover from mem have "x \<in> set (y # ys)" by (simp only: Cons)
      ultimately show ?thesis by (simp add: row_matches_def)
    qed (use mem in \<open>simp only: list.set empty_iff\<close>)
  qed
qed

lemma set_side_agree:
  assumes d: "schema_ok d" "credentials_agree S d" and dir: "dir \<in> {''outbound'', ''inbound''}"
    and f: "\<And>t. tk_id (f t) = tk_id t \<and> tk_org (f t) = tk_org t"
      "\<And>t. tk_side dir (f t) = (''digest'', Some user, Some realm, Some text)"
      "\<And>t dir'. dir' \<in> {''outbound'', ''inbound''} \<Longrightarrow> dir' \<noteq> dir \<Longrightarrow> tk_side dir' (f t) = tk_side dir' t"
    and sealed: "sealed_secret S org i dir secret text"
  shows "credentials_agree S (snd (with_digest org i f (upsert_digest \<lparr>dg_trunk = i, dg_org = org, dg_direction = dir, dg_user = user,
    dg_realm = realm, dg_ha1 = compute_ha1_md5 (ts_md5 S) user realm secret\<rparr>) d))"
proof (rule with_digest_agree [OF d f(1)])
  let ?r = "\<lparr>dg_trunk = i, dg_org = org, dg_direction = dir, dg_user = user, dg_realm = realm,
    dg_ha1 = compute_ha1_md5 (ts_md5 S) user realm secret\<rparr>"
  fix t dir' assume t: "t \<in> set (td_trunks d)" "the_trunk org i t" and dir': "dir' \<in> {''outbound'', ''inbound''}"
  then have key: "tk_id t = i" "tk_org t = org" by (simp_all add: the_trunk_def)
  show "side_agrees S dir' (upsert_digest ?r (td_digests d)) (f t)"
  proof (cases "dir' = dir")
    case True
    have agree: "side_agrees S dir (td_digests d) t" using d(2) t(1) dir by (auto simp: credentials_agree_def)
    obtain x where x: "filter (digest_key i dir) (td_digests d) \<in> {[], [x]}" using filter_one(1) [OF agree] key by auto
    have "filter (digest_key (dg_trunk ?r) (dg_direction ?r)) (upsert_digest ?r (td_digests d)) = [?r]"
      by (rule filter_upsert_same [where x = x]) (use x filter_one(2) [OF agree] key in simp_all)
    then have one: "filter (digest_key (tk_id (f t)) dir) (upsert_digest ?r (td_digests d)) = [?r]" by (simp add: f key)
    have "row_matches S dir (f t) ?r" unfolding row_matches_def using sealed by (simp add: f key) blast
    then show ?thesis unfolding True by (rule agree_one [OF one])
  next
    case False
    have "side_agrees S dir' (td_digests d) t" using d(2) t(1) dir' by (auto simp: credentials_agree_def)
    then show ?thesis by (rule agree_same) (use False dir' in \<open>simp_all add: f key filter_upsert_other\<close>)
  qed
next
  fix j dir' assume "j \<noteq> i"
  then show "filter (digest_key j dir') (upsert_digest \<lparr>dg_trunk = i, dg_org = org, dg_direction = dir, dg_user = user,
    dg_realm = realm, dg_ha1 = compute_ha1_md5 (ts_md5 S) user realm secret\<rparr> (td_digests d)) = filter (digest_key j dir') (td_digests d)"
    by (intro filter_upsert_other) simp
qed

lemma clear_side_agree:
  assumes d: "schema_ok d" "credentials_agree S d" and dir: "dir \<in> {''outbound'', ''inbound''}"
    and f: "\<And>t. tk_id (f t) = tk_id t \<and> tk_org (f t) = tk_org t" "\<And>t. fst (tk_side dir (f t)) \<noteq> ''digest''"
      "\<And>t dir'. dir' \<in> {''outbound'', ''inbound''} \<Longrightarrow> dir' \<noteq> dir \<Longrightarrow> tk_side dir' (f t) = tk_side dir' t"
  shows "credentials_agree S (snd (with_digest org i f (filter (\<lambda>r. \<not> digest_key i dir r)) d))"
proof (rule with_digest_agree [OF d f(1)])
  fix t dir' assume t: "t \<in> set (td_trunks d)" "the_trunk org i t" and dir': "dir' \<in> {''outbound'', ''inbound''}"
  then have key: "tk_id t = i" "tk_org t = org" by (simp_all add: the_trunk_def)
  show "side_agrees S dir' (filter (\<lambda>r. \<not> digest_key i dir r) (td_digests d)) (f t)"
  proof (cases "dir' = dir")
    case True
    then show ?thesis by (intro agree_none) (simp_all add: f key filter_delete)
  next
    case False
    have "side_agrees S dir' (td_digests d) t" using d(2) t(1) dir' by (auto simp: credentials_agree_def)
    moreover have "filter (digest_key (tk_id t) dir') (filter (\<lambda>r. \<not> digest_key i dir r) (td_digests d)) = filter (digest_key (tk_id t) dir') (td_digests d)"
      unfolding filter_delete using False by simp
    ultimately show ?thesis by (rule agree_same) (use False dir' in \<open>simp_all add: f\<close>)
  qed
qed (simp only: filter_delete, simp)

text \<open>Statements on other tables.\<close>

definition same_credentials :: "trunk_db \<Rightarrow> trunk_db \<Rightarrow> bool" where
  "same_credentials d d' \<longleftrightarrow> td_trunks d' = td_trunks d \<and> td_digests d' = td_digests d"

lemma same_refl: "same_credentials d (snd (x, d))"
  by (simp add: same_credentials_def)

lemma same_stored: "td_trunks d' = td_trunks d \<Longrightarrow> td_digests d' = td_digests d \<Longrightarrow> same_credentials d (snd (stored d (x, d')))"
  using stored_cases [of d "(x, d')"] by (auto simp: same_credentials_def)

lemma same_texts: "same_credentials d (snd r) \<Longrightarrow> same_credentials d (snd (with_texts ps d r))"
  by (simp add: with_texts_def same_credentials_def)

lemma same_if: "same_credentials d (snd a) \<Longrightarrow> same_credentials d (snd b) \<Longrightarrow> same_credentials d (snd (if c then a else b))"
  by simp

lemma same_update_endpoint: "same_credentials d (snd (update_endpoint p f d))"
  unfolding update_endpoint_def by (cases "one_row p (td_endpoints d)") (simp_all add: same_stored same_refl [simplified])

lemma same_create_ip: "same_credentials d (snd (sql_create_ip org i cidr fresh t d))"
  unfolding sql_create_ip_def Let_def by (intro same_if same_stored same_refl) simp_all

lemma same_delete_ip: "same_credentials d (sql_delete_ip org i ip d)"
  by (simp add: sql_delete_ip_def same_credentials_def)

lemma same_create_endpoint: "same_credentials d (snd (sql_create_endpoint org i c fresh t d))"
  unfolding sql_create_endpoint_def by (intro same_texts same_if same_stored same_refl) simp_all

lemma same_delete_endpoint: "same_credentials d (snd (sql_delete_endpoint org i e d))"
  unfolding sql_delete_endpoint_def by (cases "sql_get_endpoint org i e d") (simp_all add: same_stored same_refl [simplified])

lemma same_update: "same_credentials d (snd (sql_update_endpoint u org i e t d))"
  unfolding sql_update_endpoint_def by (intro same_texts same_update_endpoint)

lemma same_claim: "same_credentials d (snd (sql_claim_probes at before batch t d))"
  unfolding sql_claim_probes_def Let_def by (rule same_stored) simp_all

lemma same_healthy: "same_credentials d (snd (sql_mark_healthy i at code latency t d))"
  unfolding sql_mark_healthy_def by (rule same_update_endpoint)

lemma same_failed: "same_credentials d (snd (sql_mark_probe_failed i at latency message thr cooldown t d))"
  unfolding sql_mark_probe_failed_def by (intro same_texts same_if same_refl same_update_endpoint)

lemma same_result: "q = (r, d') \<Longrightarrow> same_credentials d (snd q) \<Longrightarrow> same_credentials d d'"
  by simp

lemma same_agree: "same_credentials d d' \<Longrightarrow> credentials_agree S d \<Longrightarrow> credentials_agree S d'"
  by (simp add: same_credentials_def credentials_agree_def)

section \<open>The creation of a trunk\<close>

lemma create_trunk_Inr:
  assumes "sql_create_trunk n t d = (Inr item, d1)"
  shows "item = trunk_of_params n t \<and> d1 = d\<lparr>td_trunks := td_trunks d @ [item]\<rparr> \<and> schema_ok d1"
proof -
  from assms have "stored d (Inr (trunk_of_params n t), d\<lparr>td_trunks := td_trunks d @ [trunk_of_params n t]\<rparr>) = (Inr item, d1)"
    unfolding sql_create_trunk_def by (auto dest!: with_texts_Inr split: if_splits)
  then show ?thesis using constrained_Inr [of trunk_schema d] by (fastforce simp: schema_ok_iff)
qed

text \<open>The row an optional credential leaves.\<close>

definition digest_rows :: "trunk_service \<Rightarrow> uuid \<Rightarrow> uuid \<Rightarrow> string \<Rightarrow> digest_credential option \<Rightarrow> digest_row list" where
  "digest_rows S org i dir c = (case c of None \<Rightarrow> [] | Some c \<Rightarrow>
     [\<lparr>dg_trunk = i, dg_org = org, dg_direction = dir, dg_user = dc_user c, dg_realm = dc_realm c, dg_ha1 = ha1_of S c\<rparr>])"

lemma insert_digest_Inr:
  assumes "insert_optional_digest S org i dir c d = (Inr (), d')" "list_ex (the_trunk org i) (td_trunks d)"
  shows "d' = d\<lparr>td_digests := td_digests d @ digest_rows S org i dir c\<rparr>"
proof (cases c)
  case (Some x)
  let ?r = "\<lparr>dg_trunk = i, dg_org = org, dg_direction = dir, dg_user = dc_user x, dg_realm = dc_realm x, dg_ha1 = ha1_of S x\<rparr>"
  from assms Some have "stored d (Inr (), d\<lparr>td_digests := td_digests d @ [?r]\<rparr>) = (Inr (), d')"
    by (auto simp: insert_optional_digest_def sql_insert_digest_def dest!: with_texts_Inr)
  then have "(Inr () :: go_err + unit, d\<lparr>td_digests := td_digests d @ [?r]\<rparr>) = (Inr (), d')" by (blast dest: constrained_Inr)
  then show ?thesis using Some by (simp add: digest_rows_def)
qed (use assms in \<open>simp add: insert_optional_digest_def digest_rows_def\<close>)

lemma normalize_create_method:
  assumes "normalize_create req0 = Inr req"
  shows "tc_in_method req = Some (if tc_inbound req = None then ''ip'' else ''digest'')"
  using assms
  by (auto simp: normalize_create_def rbind_Inr_conv Let_def split: option.splits if_splits)

lemma created_agree:
  assumes d: "schema_ok d" "credentials_agree S d" and req: "normalize_create req0 = Inr req"
    and out: "sealed_credential S org i ''outbound'' (tc_outbound req) ot"
    and inb: "sealed_credential S org i ''inbound'' (tc_inbound req) it"
    and create: "sql_create_trunk (create_params req org i ot it) t d = (Inr item, d1)"
    and dig: "insert_optional_digest S org i ''outbound'' (tc_outbound req) d1 = (Inr (), d2)"
      "insert_optional_digest S org i ''inbound'' (tc_inbound req) d2 = (Inr (), d3)"
  shows "credentials_agree S d3"
proof -
  note item = create_trunk_Inr [OF create]
  have ids: "tk_id item = i" "tk_org item = org" using item by (simp_all add: trunk_of_params_def create_params_def)
  have ex: "list_ex (the_trunk org i) (td_trunks d1)" using item ids by (simp add: the_trunk_def)
  note d2 = insert_digest_Inr [OF dig(1) ex]
  note d3 = insert_digest_Inr [OF dig(2), unfolded d2, simplified, OF ex]
  let ?new = "digest_rows S org i ''outbound'' (tc_outbound req) @ digest_rows S org i ''inbound'' (tc_inbound req)"
  have rows: "td_digests d3 = td_digests d @ ?new" "td_trunks d3 = td_trunks d @ [item]" using d3 item by simp_all
  have fresh: "i \<notin> tk_id ` set (td_trunks d)" using schema_facts(2) [of d1] item ids by auto
  have old: "filter (digest_key i dir) (td_digests d) = []" for dir
    using schema_facts(8) [OF d(1)] fresh by (fastforce simp: filter_empty_conv list_all_iff digest_key_def)
  have new: "filter (digest_key j dir) ?new = []" if "j \<noteq> i" for j dir
    using that by (auto simp: digest_rows_def digest_key_def split: option.split)
  have side: "side_agrees S dir (td_digests d3) t" if t: "t \<in> set (td_trunks d)" and dir: "dir \<in> {''outbound'', ''inbound''}" for t dir
  proof -
    have "tk_id t \<noteq> i" using t fresh by auto
    then have "filter (digest_key (tk_id t) dir) (td_digests d3) = filter (digest_key (tk_id t) dir) (td_digests d)"
      unfolding rows filter_append [of _ "td_digests d"] new [OF \<open>tk_id t \<noteq> i\<close>] by simp
    moreover have "side_agrees S dir (td_digests d) t" using d(2) t dir by (auto simp: credentials_agree_def)
    ultimately show ?thesis by (simp add: agree_same)
  qed
  have out_rows: "filter (digest_key (tk_id item) ''outbound'') (td_digests d3) = digest_rows S org i ''outbound'' (tc_outbound req)"
    by (simp add: rows old ids) (auto simp: digest_rows_def digest_key_def split: option.split)
  have in_rows: "filter (digest_key (tk_id item) ''inbound'') (td_digests d3) = digest_rows S org i ''inbound'' (tc_inbound req)"
    by (simp add: rows old ids) (auto simp: digest_rows_def digest_key_def split: option.split)
  have "side_agrees S ''outbound'' (td_digests d3) item"
    using out out_rows item
    by (cases "tc_outbound req")
      (auto simp: side_agrees_def digest_rows_def tk_side_def trunk_of_params_def create_params_def keep_or_def row_matches_def sealed_credential_def ids)
  moreover have "side_agrees S ''inbound'' (td_digests d3) item"
    using inb in_rows item normalize_create_method [OF req]
    by (cases "tc_inbound req")
      (auto simp: side_agrees_def digest_rows_def tk_side_def trunk_of_params_def create_params_def keep_or_def row_matches_def sealed_credential_def ids)
  ultimately show ?thesis using side rows(2) by (auto simp: credentials_agree_def)
qed

lemma updated_trunk_sides: "tk_id (updated_trunk u now t) = tk_id t \<and> tk_org (updated_trunk u now t) = tk_org t
    \<and> tk_side dir (updated_trunk u now t) = tk_side dir t"
  by (simp add: updated_trunk_def tk_side_def)

lemma step_credentials: "trunk_step S thr d d' \<Longrightarrow> schema_ok d \<Longrightarrow> credentials_agree S d \<Longrightarrow> credentials_agree S d'"
proof (induction rule: trunk_step.induct)
  case (st_create req0 req org i ot it d t item d1 d2 d3 t')
  show ?case unfolding credentials_log
    using st_create.prems st_create.hyps(1,2,3,5,6,7) by (rule created_agree)
next
  case (st_update u org i t d item d1 t')
  have "credentials_agree S (snd (sql_update_trunk u org i t d))"
    unfolding sql_update_trunk_def
    by (intro with_texts_agree update_trunk_agree st_update.prems(2)) (simp add: updated_trunk_sides)
  then show ?case using st_update.hyps by simp
next
  case (st_disable org i t d item d1 t')
  have "credentials_agree S (snd (sql_disable_trunk org i t d))"
    unfolding sql_disable_trunk_def by (rule update_trunk_agree [OF st_disable.prems(2)]) (simp add: tk_side_def)
  then show ?case using st_disable.hyps by simp
next
  case (st_set_outbound org i c sealed t d)
  show ?case unfolding sql_set_outbound_def
    by (intro with_texts_agree set_side_agree [OF st_set_outbound.prems _ _ _ _ st_set_outbound.hyps] st_set_outbound.prems(2))
      (auto simp: tk_side_def)
next
  case (st_clear_outbound org i t d)
  show ?case unfolding sql_clear_outbound_def
    by (rule clear_side_agree [OF st_clear_outbound.prems]) (auto simp: tk_side_def)
next
  case (st_set_inbound org i c sealed t d)
  show ?case unfolding sql_set_inbound_def
    by (intro with_texts_agree set_side_agree [OF st_set_inbound.prems _ _ _ _ st_set_inbound.hyps] st_set_inbound.prems(2))
      (auto simp: tk_side_def)
next
  case (st_inbound_ip org i t d)
  show ?case unfolding sql_set_inbound_ip_def
    by (rule clear_side_agree [OF st_inbound_ip.prems]) (auto simp: tk_side_def)
next
  case (st_create_endpoint c0 c org i fresh t d e d1 item t')
  then show ?case using same_result [OF st_create_endpoint.hyps(2) same_create_endpoint] by (simp add: same_agree)
next
  case (st_update_endpoint u0 u org i e0 t d e d1 item t')
  then show ?case using same_result [OF st_update_endpoint.hyps(2) same_update] by (simp add: same_agree)
next
  case (st_delete_endpoint org i e0 d e d1 item t')
  then show ?case using same_result [OF st_delete_endpoint.hyps(1) same_delete_endpoint] by (simp add: same_agree)
qed (rule same_agree [OF same_create_ip] same_agree [OF same_delete_ip] same_agree [OF same_claim]
    same_agree [OF same_healthy] same_agree [OF same_failed], assumption)+

section \<open>Health\<close>

text \<open>An endpoint is unhealthy exactly when its failures have reached the threshold, and exactly then it cools down.\<close>

definition health_ok :: "int \<Rightarrow> endpoint \<Rightarrow> bool" where
  "health_ok thr e \<longleftrightarrow> (ep_health e = ''unhealthy'' \<longleftrightarrow> thr \<le> ep_failures e) \<and> (ep_cooldown e \<noteq> None \<longleftrightarrow> ep_health e = ''unhealthy'')"

definition endpoints_satisfy :: "(endpoint \<Rightarrow> bool) \<Rightarrow> trunk_db \<Rightarrow> bool" where
  "endpoints_satisfy Q d \<longleftrightarrow> (\<forall>e \<in> set (td_endpoints d). Q e)"

lemma satisfy_stored: "endpoints_satisfy Q d \<Longrightarrow> endpoints_satisfy Q d' \<Longrightarrow> endpoints_satisfy Q (snd (stored d (x, d')))"
  using stored_cases [of d "(x, d')"] by auto

lemma satisfy_texts: "endpoints_satisfy Q d \<Longrightarrow> endpoints_satisfy Q (snd r) \<Longrightarrow> endpoints_satisfy Q (snd (with_texts ps d r))"
  by (simp add: with_texts_def)

lemma satisfy_same: "endpoints_satisfy Q d \<Longrightarrow> endpoints_satisfy Q (snd (x, d))"
  by simp

lemma satisfy_if: "endpoints_satisfy Q (snd a) \<Longrightarrow> endpoints_satisfy Q (snd b) \<Longrightarrow> endpoints_satisfy Q (snd (if c then a else b))"
  by simp

lemma satisfy_log [simp]: "endpoints_satisfy Q (log_event a b c e t d) = endpoints_satisfy Q d"
  by (simp add: endpoints_satisfy_def log_event_def)

lemma satisfy_update_trunk: "endpoints_satisfy Q d \<Longrightarrow> endpoints_satisfy Q (snd (update_trunk p f d))"
  unfolding update_trunk_def
  by (cases "one_row p (td_trunks d)") (simp_all add: satisfy_stored, rule satisfy_stored, simp_all add: endpoints_satisfy_def)

lemma satisfy_with_digest: "endpoints_satisfy Q d \<Longrightarrow> endpoints_satisfy Q (snd (with_digest org i f g d))"
  unfolding with_digest_def by (intro satisfy_if satisfy_stored satisfy_same) (simp_all add: endpoints_satisfy_def)

lemma satisfy_update_rows:
  "endpoints_satisfy Q d \<Longrightarrow> (\<And>e. Q e \<Longrightarrow> Q (f e)) \<Longrightarrow> endpoints_satisfy Q (d\<lparr>td_endpoints := update_rows p f (td_endpoints d)\<rparr>)"
  by (auto simp: endpoints_satisfy_def dest!: set_update_rows)

lemma satisfy_update_endpoint:
  "endpoints_satisfy Q d \<Longrightarrow> (\<And>e. Q e \<Longrightarrow> Q (f e)) \<Longrightarrow> endpoints_satisfy Q (snd (update_endpoint p f d))"
  unfolding update_endpoint_def
  by (cases "one_row p (td_endpoints d)") (simp_all add: satisfy_stored satisfy_update_rows)

lemma satisfy_insert_digest: "endpoints_satisfy Q d \<Longrightarrow> endpoints_satisfy Q (snd (insert_optional_digest S org i dir c d))"
proof (cases c)
  case (Some x)
  assume d: "endpoints_satisfy Q d"
  show ?thesis unfolding insert_optional_digest_def Some option.case sql_insert_digest_def
    by (intro satisfy_texts satisfy_if satisfy_stored satisfy_same d) (use d in \<open>simp add: endpoints_satisfy_def\<close>)
qed (simp add: insert_optional_digest_def)

lemma satisfy_delete_ip: "endpoints_satisfy Q d \<Longrightarrow> endpoints_satisfy Q (sql_delete_ip org i ip d)"
  by (simp add: sql_delete_ip_def endpoints_satisfy_def)

lemma satisfy_result: "q = (r, d') \<Longrightarrow> endpoints_satisfy Q (snd q) \<Longrightarrow> endpoints_satisfy Q d'"
  by simp

lemma health_changes:
  assumes "health_ok thr e" "0 < thr"
  shows "health_ok thr (healthy_endpoint at code latency now e)"
    "health_ok thr (failed_endpoint thr at latency message cooldown now e)"
    "health_ok thr (updated_endpoint u now e)"
    "health_ok thr (e\<lparr>ep_checked := x, ep_updated := now\<rparr>)"
  using assms
  by (auto simp: health_ok_def healthy_endpoint_def failed_endpoint_def updated_endpoint_def)

lemma step_health:
  assumes thr: "0 < thr"
  shows "trunk_step S thr d d' \<Longrightarrow> endpoints_satisfy (health_ok thr) d \<Longrightarrow> endpoints_satisfy (health_ok thr) d'"
proof (induction rule: trunk_step.induct)
  case (st_create req0 req org i ot it d t item d1 d2 d3 t')
  have "endpoints_satisfy (health_ok thr) d1"
    using create_trunk_Inr [OF st_create.hyps(5)] st_create.prems by (simp add: endpoints_satisfy_def)
  then have "endpoints_satisfy (health_ok thr) d2" using satisfy_insert_digest satisfy_result st_create.hyps(6) by metis
  then have "endpoints_satisfy (health_ok thr) d3" using satisfy_insert_digest satisfy_result st_create.hyps(7) by metis
  then show ?case by simp
next
  case (st_update u org i t d item d1 t')
  show ?case unfolding satisfy_log
    by (rule satisfy_result [OF st_update.hyps]) (simp add: sql_update_trunk_def satisfy_texts satisfy_update_trunk st_update.prems)
next
  case (st_disable org i t d item d1 t')
  show ?case unfolding satisfy_log
    by (rule satisfy_result [OF st_disable.hyps]) (simp add: sql_disable_trunk_def satisfy_update_trunk st_disable.prems)
next
  case (st_create_ip org i cidr fresh t d)
  show ?case unfolding sql_create_ip_def Let_def
    by (intro satisfy_if satisfy_stored satisfy_same st_create_ip.prems) (use st_create_ip.prems in \<open>simp add: endpoints_satisfy_def\<close>)
next
  case (st_create_endpoint c0 c org i fresh t d e d1 item t')
  have "endpoints_satisfy (health_ok thr) (d\<lparr>td_endpoints := td_endpoints d @ [endpoint_of_params org i c fresh t]\<rparr>)"
    using st_create_endpoint.prems thr by (auto simp: endpoints_satisfy_def health_ok_def endpoint_of_params_def)
  then have "endpoints_satisfy (health_ok thr) (snd (sql_create_endpoint org i c fresh t d))"
    unfolding sql_create_endpoint_def by (intro satisfy_texts satisfy_if satisfy_stored satisfy_same st_create_endpoint.prems)
  then show ?case using st_create_endpoint.hyps(2) by simp
next
  case (st_update_endpoint u0 u org i e0 t d e d1 item t')
  have "endpoints_satisfy (health_ok thr) (snd (sql_update_endpoint u org i e0 t d))"
    unfolding sql_update_endpoint_def
    by (intro satisfy_texts satisfy_update_endpoint st_update_endpoint.prems health_changes(3) thr)
  then show ?case using st_update_endpoint.hyps(2) by simp
next
  case (st_delete_endpoint org i e0 d e d1 item t')
  have "endpoints_satisfy (health_ok thr) (snd (sql_delete_endpoint org i e0 d))"
    unfolding sql_delete_endpoint_def using st_delete_endpoint.prems
    by (cases "sql_get_endpoint org i e0 d") (simp_all, rule satisfy_stored, simp_all add: endpoints_satisfy_def)
  then show ?case using st_delete_endpoint.hyps(1) by simp
next
  case (st_claim at before batch t d)
  show ?case unfolding sql_claim_probes_def Let_def
    by (intro satisfy_stored satisfy_update_rows st_claim health_changes(4) thr)
next
  case (st_healthy i at code latency t d)
  show ?case unfolding sql_mark_healthy_def by (intro satisfy_update_endpoint st_healthy health_changes(1) thr)
next
  case (st_failed i at latency message cooldown t d)
  show ?case unfolding sql_mark_probe_failed_def
    by (intro satisfy_texts satisfy_if satisfy_same satisfy_update_endpoint st_failed health_changes(2) thr)
qed (simp_all add: sql_set_outbound_def sql_clear_outbound_def sql_set_inbound_def sql_set_inbound_ip_def satisfy_texts
    satisfy_with_digest satisfy_delete_ip)

section \<open>The number of trunks\<close>

definition trunk_orgs :: "trunk_db \<Rightarrow> uuid list" where
  "trunk_orgs d = map tk_org (td_trunks d)"

lemma count_orgs: "sql_count_trunks org d = int (count_list (trunk_orgs d) org)"
  by (simp add: sql_count_trunks_def trunk_orgs_def count_list_eq_length_filter filter_map comp_def)
    (metis (mono_tags, lifting) filter_cong)

lemma orgs_stored: "trunk_orgs d' = trunk_orgs d \<Longrightarrow> trunk_orgs (snd (stored d (x, d'))) = trunk_orgs d"
  using stored_cases [of d "(x, d')"] by auto

lemma orgs_update_rows: "(\<And>t. tk_org (f t) = tk_org t) \<Longrightarrow> trunk_orgs (d\<lparr>td_trunks := update_rows p f (td_trunks d)\<rparr>) = trunk_orgs d"
  by (simp add: trunk_orgs_def map_update_rows)

lemma orgs_update_trunk: "(\<And>t. tk_org (f t) = tk_org t) \<Longrightarrow> trunk_orgs (snd (update_trunk p f d)) = trunk_orgs d"
  unfolding update_trunk_def by (cases "one_row p (td_trunks d)") (simp_all add: orgs_stored orgs_update_rows)

lemma orgs_with_digest: "(\<And>t. tk_org (f t) = tk_org t) \<Longrightarrow> trunk_orgs (snd (with_digest org i f g d)) = trunk_orgs d"
  unfolding with_digest_def by (cases "list_ex (the_trunk org i) (td_trunks d)") (simp_all, rule orgs_stored, simp add: trunk_orgs_def map_update_rows)

lemma orgs_texts: "trunk_orgs (snd r) = trunk_orgs d \<Longrightarrow> trunk_orgs (snd (with_texts ps d r)) = trunk_orgs d"
  by (simp add: with_texts_def)

lemma orgs_same: "same_credentials d d' \<Longrightarrow> trunk_orgs d' = trunk_orgs d"
  by (simp add: same_credentials_def trunk_orgs_def)

lemma orgs_log [simp]: "trunk_orgs (log_event a b c e t d) = trunk_orgs d"
  by (simp add: trunk_orgs_def log_event_def)

text \<open>Only the creation adds a trunk, and only where the plan has room.\<close>

lemma orgs_result: "q = (r, d') \<Longrightarrow> trunk_orgs (snd q) = trunk_orgs d \<Longrightarrow> trunk_orgs d' = trunk_orgs d"
  by simp

lemma step_orgs:
  "trunk_step S thr d d' \<Longrightarrow> trunk_orgs d' = trunk_orgs d \<or> (\<exists>org. trunk_orgs d' = trunk_orgs d @ [org] \<and> plan_allows S org d)"
proof (induction rule: trunk_step.induct)
  case (st_create req0 req org i ot it d t item d1 d2 d3 t')
  note item = create_trunk_Inr [OF st_create.hyps(5)]
  have ids: "tk_id item = i" "tk_org item = org" using item by (simp_all add: trunk_of_params_def create_params_def)
  have ex: "list_ex (the_trunk org i) (td_trunks d1)" using item ids by (simp add: the_trunk_def)
  note d2 = insert_digest_Inr [OF st_create.hyps(6) ex]
  note d3 = insert_digest_Inr [OF st_create.hyps(7), unfolded d2, simplified, OF ex]
  have "trunk_orgs d3 = trunk_orgs d @ [org]" using d3 item ids by (simp add: trunk_orgs_def)
  then show ?case using st_create.hyps(4) by auto
next
  case (st_update u org i t d item d1 t')
  have "trunk_orgs d1 = trunk_orgs d"
    by (rule orgs_result [OF st_update.hyps]) (simp add: sql_update_trunk_def orgs_texts orgs_update_trunk updated_trunk_sides)
  then show ?case by simp
next
  case (st_disable org i t d item d1 t')
  have "trunk_orgs d1 = trunk_orgs d"
    by (rule orgs_result [OF st_disable.hyps]) (simp add: sql_disable_trunk_def orgs_update_trunk)
  then show ?case by simp
next
  case (st_create_endpoint c0 c org i fresh t d e d1 item t')
  then show ?case using same_result [OF st_create_endpoint.hyps(2) same_create_endpoint] by (simp add: orgs_same)
next
  case (st_update_endpoint u0 u org i e0 t d e d1 item t')
  then show ?case using same_result [OF st_update_endpoint.hyps(2) same_update] by (simp add: orgs_same)
next
  case (st_delete_endpoint org i e0 d e d1 item t')
  then show ?case using same_result [OF st_delete_endpoint.hyps(1) same_delete_endpoint] by (simp add: orgs_same)
qed (simp_all add: sql_set_outbound_def sql_clear_outbound_def sql_set_inbound_def sql_set_inbound_ip_def orgs_texts orgs_with_digest
    orgs_same [OF same_create_ip] orgs_same [OF same_delete_ip] orgs_same [OF same_claim] orgs_same [OF same_healthy] orgs_same [OF same_failed])

definition plan_at_most :: "trunk_service \<Rightarrow> uuid \<Rightarrow> int \<Rightarrow> bool" where
  "plan_at_most S org cap \<longleftrightarrow> (\<forall>limit n c. ts_plan S = Some limit \<longrightarrow> limit n org = Inr (c, True) \<longrightarrow> c \<le> cap)"

lemma step_count:
  assumes "trunk_step S thr d d'" "plan_at_most S org cap" "sql_count_trunks org d \<le> cap"
  shows "sql_count_trunks org d' \<le> cap"
  using step_orgs [OF assms(1)]
proof (elim disjE exE conjE)
  assume "trunk_orgs d' = trunk_orgs d"
  then show ?thesis using assms(3) by (simp add: count_orgs)
next
  fix org' assume n: "trunk_orgs d' = trunk_orgs d @ [org']" "plan_allows S org' d"
  show ?thesis
  proof (cases "org' = org")
    case True
    then have "sql_count_trunks org d < cap" using n(2) assms(2) by (fastforce simp: plan_allows_def plan_at_most_def)
    then show ?thesis using n(1) True by (simp add: count_orgs)
  qed (use n assms(3) in \<open>simp add: count_orgs\<close>)
qed

section \<open>Consistency\<close>

definition trunks_consistent :: "trunk_service \<Rightarrow> int \<Rightarrow> trunk_db \<Rightarrow> bool" where
  "trunks_consistent S thr d \<longleftrightarrow> schema_ok d \<and> credentials_agree S d \<and> endpoints_satisfy (health_ok thr) d"

lemma step_consistent: "trunk_step S thr d d' \<Longrightarrow> 0 < thr \<Longrightarrow> trunks_consistent S thr d \<Longrightarrow> trunks_consistent S thr d'"
  unfolding trunks_consistent_def using step_schema step_credentials step_health by blast

end
