(* ===== verification/Trunk_Safety.thy ===== *)
theory Trunk_Safety
  imports Trunk_Invariants
begin

text \<open>
  The properties of SIP trunks: consistency of the tables and the plan limit over every history, the
  creation as one unit, the verdict of the validation, the health of an endpoint as a function of its
  probes, the destinations of a probe, and two error paths that do not do what they should.
\<close>

section \<open>Lemmas\<close>

lemma health_job_threshold: "0 < hc_threshold (new_health_job c)"
  by (simp add: new_health_job_def default_health_config_def Let_def)

lemma set_insert_row [simp]: "set (insert_row le r xs) = insert r (set xs)"
  by (induction xs) auto

lemma order_by_empty [simp]: "order_by le xs = [] \<longleftrightarrow> xs = []"
  by (metis set_order_by set_empty)

text \<open>The sequence of outcomes the probes of an endpoint had.\<close>

datatype probe_outcome = Up int int int int | Down int int string int int

fun record_outcome :: "int \<Rightarrow> probe_outcome \<Rightarrow> endpoint \<Rightarrow> endpoint" where
  "record_outcome thr (Up at code latency now) e = healthy_endpoint at code latency now e"
| "record_outcome thr (Down at latency message cooldown now) e = failed_endpoint thr at latency message cooldown now e"

fun is_down :: "probe_outcome \<Rightarrow> bool" where
  "is_down (Up at code latency now) = False"
| "is_down (Down at latency message cooldown now) = True"

fun cooldown_of :: "probe_outcome \<Rightarrow> int" where
  "cooldown_of (Up at code latency now) = 0"
| "cooldown_of (Down at latency message cooldown now) = cooldown"

definition trailing_failures :: "probe_outcome list \<Rightarrow> int" where
  "trailing_failures os = int (length (takeWhile is_down (rev os)))"

lemma trailing_snoc: "trailing_failures (os @ [x]) = (if is_down x then trailing_failures os + 1 else 0)"
  by (simp add: trailing_failures_def)

lemma trailing_nonneg: "0 \<le> trailing_failures os"
  by (simp add: trailing_failures_def)

lemma get_trunk_Inr:
  "run_state (get_trunk S org i) w = (Inr t, w') \<Longrightarrow> t \<in> set (td_trunks (sw_db w)) \<and> the_trunk org i t \<and> sw_db w' = sw_db w"
  unfolding get_trunk_def trunk_repo_get_def
  by (auto simp: chain_Inr map_error_Inr sql_get_trunk_def dest!: sql_query_Inr one_row_Inr)

lemma list_ips_Inr:
  "run_state (list_source_ips S org i) w = (Inr ips, w') \<Longrightarrow>
     (ips = [] \<longleftrightarrow> (\<forall>r \<in> set (td_ips (sw_db w)). \<not> (si_trunk r = i \<and> si_org r = org))) \<and> sw_db w' = sw_db w"
  unfolding list_source_ips_def trunk_repo_list_ips_def
  by (auto simp: chain_Inr map_error_Inr sql_list_ips_def filter_empty_conv dest!: sql_query_Inr get_trunk_Inr)

lemma endpoint_problems_empty:
  "endpoint_problems t es = [] \<longleftrightarrow> (tk_direction t = ''outbound'' \<or> tk_direction t = ''bidirectional'' \<longrightarrow>
     (\<exists>e \<in> set es. endpoint_dials_out e \<and> ep_health e \<noteq> ''unhealthy''))"
  by (auto simp: endpoint_problems_def Let_def filter_empty_conv)

text \<open>What the creation leaves when its transaction ran to the end.\<close>

definition created_in :: "trunk_service \<Rightarrow> uuid \<Rightarrow> trunk_create \<Rightarrow> trunk \<Rightarrow> trunk_db \<Rightarrow> trunk_db \<Rightarrow> bool" where
  "created_in S org req t d d' \<longleftrightarrow> plan_allows S org d \<and> tk_org t = org \<and> tk_name t = tc_name req \<and>
     (\<exists>at. d' = d\<lparr>td_trunks := td_trunks d @ [t],
              td_digests := td_digests d @ digest_rows S org (tk_id t) ''outbound'' (tc_outbound req)
                 @ digest_rows S org (tk_id t) ''inbound'' (tc_inbound req),
              td_outbox := td_outbox d @ [\<lparr>te_subject = ''trunk.created'', te_org = org, te_trunk = tk_id t,
                 te_endpoint = None, te_resource = TrunkResource (trunk_response_of t), te_at = at\<rparr>]\<rparr>)"

lemma create_tx_result:
  assumes "run_state (create_trunk_tx S org i req ot it) u = (Inr t, v)"
  shows "created_in S org req t (sw_db u) (sw_db v)"
proof -
  from assms obtain w1 w2 w3 w4 where
      "run_state (check_plan_limit S org) u = (Inr (), w1)"
      "run_state (trunk_repo_create S (create_params req org i ot it)) w1 = (Inr t, w2)"
      "run_state (insert_credential S org i ''outbound'' (tc_outbound req)) w2 = (Inr (), w3)"
      "run_state (insert_credential S org i ''inbound'' (tc_inbound req)) w3 = (Inr (), w4)"
      "run_state (insert_trunk_event S ''trunk.created'' t None (TrunkResource (trunk_response_of t))) w4 = (Inr (), v)"
    by (auto simp: create_trunk_tx_def chain_Inr map_error_Inr)
  note runs = this
  obtain tm where made: "sql_create_trunk (create_params req org i ot it) tm (sw_db u) = (Inr t, sw_db w2)"
    using sql_exec_Inr [OF runs(2) [unfolded trunk_repo_create_def]] plan_limit_Inr [OF runs(1)] by metis
  note item = create_trunk_Inr [OF made]
  have ids: "tk_id t = i" "tk_org t = org" "tk_name t = tc_name req"
    using item by (simp_all add: trunk_of_params_def create_params_def)
  have ex: "list_ex (the_trunk org i) (td_trunks (sw_db w2))" using item ids by (simp add: the_trunk_def)
  note d3 = insert_digest_Inr [OF insert_credential_Inr [OF runs(3)] ex]
  note d4 = insert_digest_Inr [OF insert_credential_Inr [OF runs(4)], unfolded d3, simplified, OF ex]
  obtain at where "sw_db v = log_event ''trunk.created'' t None (TrunkResource (trunk_response_of t)) at (sw_db w4)"
    using insert_event_Inr [OF runs(5)] by blast
  then show ?thesis
    using plan_limit_Inr [OF runs(1)] item ids by (auto simp: created_in_def log_event_def d4)
qed

lemma encrypt_optional_db: "sw_db (snd (run_state (encrypt_optional S A org i dir c) w)) = sw_db w"
  by (cases c) (simp_all add: encrypt_optional_def encrypt_secret_def run_chain run_map_error split: prod.split sum.split)

lemma create_trunk_cases:
  assumes "run_state (create_trunk S org req0) w = (r, w')"
  shows "(\<exists>e. r = Inl e) \<and> sw_db w' = sw_db w
     \<or> (\<exists>t req. normalize_create req0 = Inr req \<and> created_in S org req t (sw_db w) (sw_db w')
          \<and> (r = Inr t \<or> (\<exists>e. r = Inl (new_internal ''commit trunk creation'' (Some e)))))"
proof (cases "validate_id org ''organization_id'' = None \<and> (\<exists>req A. normalize_create req0 = Inr req \<and> ts_cipher S = Some A)")
  case False
  then show ?thesis
    using assms by (cases "validate_id org ''organization_id''"; cases "normalize_create req0"; cases "ts_cipher S")
      (auto simp: create_trunk_def run_chain)
next
  case True
  then obtain req A where req: "validate_id org ''organization_id'' = None" "normalize_create req0 = Inr req" "ts_cipher S = Some A" by blast
  let ?i = "sq_fresh (ts_env S (sw_tick w))" and ?w = "w\<lparr>sw_tick := Suc (sw_tick w)\<rparr>"
  obtain ot w1 where o1: "run_state (encrypt_optional S A org ?i ''outbound'' (tc_outbound req)) ?w = (ot, w1)" by force
  have w1: "sw_db w1 = sw_db w" using encrypt_optional_db [of S A org ?i "''outbound''" "tc_outbound req" ?w] o1 by simp
  obtain it w2 where o2: "run_state (encrypt_optional S A org ?i ''inbound'' (tc_inbound req)) w1 = (it, w2)" by force
  have w2: "sw_db w2 = sw_db w" using encrypt_optional_db [of S A org ?i "''inbound''" "tc_inbound req" w1] o2 w1 by simp
  note run = assms [unfolded create_trunk_def Let_def run_chain]
  show ?thesis
  proof (cases "\<exists>x y. ot = Inr x \<and> it = Inr y")
    case False
    then show ?thesis using run o1 o2 w1 w2 by (cases ot; cases it) (auto simp: req run_chain)
  next
    case True
    then obtain x y where xy: "ot = Inr x" "it = Inr y" by blast
    let ?tx = "in_tx (ts_env S) (\<lambda>e. new_internal ''begin trunk creation'' (Some e)) (\<lambda>e. new_internal ''commit trunk creation'' (Some e))
      (create_trunk_tx S org ?i req x y)"
    have tx: "run_state ?tx w2 = (r, w')" using run o1 o2 by (simp add: req run_chain xy)
    show ?thesis
    proof (cases rule: in_tx_cases [of "ts_env S" "\<lambda>e. new_internal ''begin trunk creation'' (Some e)"
        "\<lambda>e. new_internal ''commit trunk creation'' (Some e)" "create_trunk_tx S org ?i req x y" w2])
      case (nothing e)
      then show ?thesis using tx w2 by simp
    next
      case (committed t u v)
      then have "created_in S org req t (sw_db w) (sw_db w')"
        using create_tx_result [OF committed(2)] tx w2 by simp
      then show ?thesis using committed(4) tx req(2) by auto
    qed
  qed
qed

text \<open>Reading changes nothing.\<close>

interpretation ro: sql_guarantee "(=) :: trunk_db \<Rightarrow> trunk_db \<Rightarrow> bool"
  by unfold_locales simp_all

lemma ro_get: "state_io_rel ro.R (get_trunk S org i)"
  unfolding get_trunk_def trunk_repo_get_def by (intro ro.world.g_rules ro.query)

lemma ro_validate: "state_io_rel ro.R (validate_trunk S org i)"
  unfolding validate_trunk_def inbound_problems_def list_source_ips_def trunk_repo_list_ips_def trunk_repo_list_endpoints_def
  by (intro ro.world.g_rules ro_get ro.query)

lemma validate_trunk_db: "sw_db (snd (run_state (validate_trunk S org i) w)) = sw_db w"
  using ro.run [OF ro_validate] by simp

lemma inbound_problems_Inr:
  assumes "run_state (inbound_problems S org i t) w = (Inr ps, w')"
  shows "sw_db w' = sw_db w \<and> (ps = [] \<longleftrightarrow> (tk_in_enabled t \<longrightarrow>
      tk_in_method t = ''digest'' \<and> tk_in_cipher t \<noteq> None \<and> tk_in_realm t \<noteq> None
      \<or> tk_in_method t = ''ip'' \<and> (\<exists>r \<in> set (td_ips (sw_db w)). si_trunk r = i \<and> si_org r = org)))"
proof (cases "tk_in_enabled t \<and> tk_in_method t = ''ip''")
  case True
  then obtain ips where "run_state (list_source_ips S org i) w = (Inr ips, w')"
      "ps = (if ips = [] then [''inbound IP authentication requires at least one source CIDR''] else [])"
    using assms by (auto simp: inbound_problems_def chain_Inr)
  then show ?thesis using True list_ips_Inr by auto
next
  case False
  then show ?thesis using assms by (auto simp: inbound_problems_def split: if_splits)
qed

text \<open>The unique index on inbound identities refuses a second trunk with the same user and realm.\<close>

lemma inbound_refused:
  assumes "list_ex (the_trunk org i) (td_trunks d)" "r \<in> set (td_digests d)" "dg_trunk r \<noteq> i" "dg_direction r = ''inbound''"
  shows "\<exists>e. fst (sql_set_inbound org i (dg_user r) (dg_realm r) x h now d) = Inl e \<and> as_app_status e = None"
proof -
  let ?row = "\<lparr>dg_trunk = i, dg_org = org, dg_direction = ''inbound'', dg_user = dg_user r, dg_realm = dg_realm r, dg_ha1 = h\<rparr>"
  let ?f = "\<lambda>t. t\<lparr>tk_in_method := ''digest'', tk_in_user := Some (dg_user r), tk_in_realm := Some (dg_realm r), tk_in_cipher := Some x, tk_updated := now\<rparr>"
  let ?d = "d\<lparr>td_trunks := update_rows (the_trunk org i) ?f (td_trunks d), td_digests := upsert_digest ?row (td_digests d)\<rparr>"
  have keep: "filter (digest_key (dg_trunk r) ''inbound'') (upsert_digest ?row (td_digests d)) = filter (digest_key (dg_trunk r) ''inbound'') (td_digests d)"
    using assms(3) by (intro filter_upsert_other) simp
  have "r \<in> set (filter (digest_key (dg_trunk r) ''inbound'') (td_digests d))"
    using assms(2,4) by (simp add: digest_key_def)
  then have "r \<in> set (upsert_digest ?row (td_digests d))" unfolding keep [symmetric] by simp
  moreover have "\<exists>r' \<in> set (upsert_digest ?row (td_digests d)). digest_key i ''inbound'' r' \<and> dg_user r' = dg_user r \<and> dg_realm r' = dg_realm r"
  proof (cases "list_ex (digest_key i ''inbound'') (td_digests d)")
    case True
    then obtain x where x: "x \<in> set (td_digests d)" "digest_key i ''inbound'' x" by (auto simp: list_ex_iff)
    then have "x\<lparr>dg_user := dg_user r, dg_realm := dg_realm r, dg_ha1 := h\<rparr> \<in> set (upsert_digest ?row (td_digests d))"
      using True by (force simp: upsert_digest_def update_rows_def)
    with x(2) show ?thesis by (intro bexI) (simp_all add: digest_key_def)
  next
    case False
    then show ?thesis by (simp add: upsert_digest_def digest_key_def)
  qed
  ultimately have "\<not> distinct (map (\<lambda>r. (dg_user r, dg_realm r)) (filter (\<lambda>r. dg_direction r = ''inbound'') (upsert_digest ?row (td_digests d))))"
    using assms(3,4) by (auto simp: distinct_map inj_on_def digest_key_def)
  then have "\<not> schema_ok ?d" using schema_facts(5) [of ?d] by auto
  then obtain code where "stored d (Inr () :: go_err + unit, ?d) = (Inl (PgErr code), d)"
    using violation_pg [of trunk_schema ?d] by (auto simp: constrained_def schema_ok_def)
  then show ?thesis
    using assms(1) by (auto simp: sql_set_inbound_def with_texts_def with_digest_def)
qed

section \<open>An example\<close>

definition demo_sip_trunk :: "string \<Rightarrow> string \<Rightarrow> trunk" where
  "demo_sip_trunk i name = \<lparr>tk_id = UUID i, tk_org = UUID ''o1'', tk_name = name, tk_direction = ''bidirectional'', tk_status = ''active'',
     tk_out_method = ''none'', tk_out_user = None, tk_out_realm = None, tk_out_cipher = None, tk_in_enabled = True,
     tk_in_method = ''ip'', tk_in_user = None, tk_in_realm = None, tk_in_cipher = None, tk_cps = 10, tk_calls = 100,
     tk_codecs = [''PCMU''], tk_video = False, tk_fax = False, tk_created = 0, tk_updated = 0\<rparr>"

definition demo_endpoint :: endpoint where
  "demo_endpoint = endpoint_of_params (UUID ''o1'') (UUID ''t1'')
     \<lparr>ec_host = ''sip.example.org'', ec_port = None, ec_transport = None, ec_direction = None, ec_priority = None, ec_weight = None, ec_enabled = None\<rparr>
     (UUID ''e1'') 0"

definition demo_trunk_db :: trunk_db where
  "demo_trunk_db = \<lparr>td_orgs = [\<lparr>og_id = UUID ''o1'', og_status = ''active'', og_deleted = False\<rparr>],
     td_trunks = [demo_sip_trunk ''t1'' ''a''], td_digests = [], td_ips = [], td_endpoints = [demo_endpoint],
     td_call_endpoints = [], td_outbox = []\<rparr>"

definition demo_trunks :: trunk_service where
  "demo_trunks = \<lparr>ts_env = (\<lambda>n. \<lparr>sq_fault = None, sq_now = 0, sq_fresh = UUID ''f1''\<rparr>), ts_plan = Some (\<lambda>n org. Inr (2, True)),
     ts_cipher = Some tagging_aead, ts_nonce = (\<lambda>n. Inr ''nn''), ts_md5 = (\<lambda>s. replicate 32 CHR ''0'')\<rparr>"

text \<open>A resolver that fails with a long text whose 500th byte begins a code point.\<close>

definition demo_prober :: prober where
  "demo_prober = \<lparr>pb_policy = [], pb_lookup = (\<lambda>n host. Inl (Errf ''no such host'' [])), pb_nonce = (\<lambda>n. Inr ''ab''),
     pb_udp = (\<lambda>n a p. Read_Failed err_deadline), pb_tcp = (\<lambda>n a p. Dial_Failed err_deadline),
     pb_tls = (\<lambda>n h a p. Dial_Failed err_deadline), pb_text = (\<lambda>e. replicate 499 CHR ''a'' @ [CHR 0xC3, CHR 0xA9])\<rparr>"

definition demo_create :: trunk_create where
  "demo_create = \<lparr>tc_name = ''b'', tc_direction = None, tc_status = None, tc_outbound = None, tc_in_enabled = None, tc_in_method = None,
     tc_inbound = None, tc_cps = None, tc_calls = None, tc_codecs = [], tc_video = None, tc_fax = None\<rparr>"

abbreviation demo_start :: "trunk_db sql_world" where
  "demo_start \<equiv> \<lparr>sw_tick = 0, sw_db = demo_trunk_db\<rparr>"

abbreviation demo_history :: "trunk_operation list" where
  "demo_history \<equiv> [T_Create (UUID ''o1'') demo_create, T_Health demo_prober]"

lemma demo_consistent: "trunks_consistent demo_trunks (hc_threshold (new_health_job default_health_config)) demo_trunk_db"
proof -
  have "schema_ok demo_trunk_db"
    unfolding schema_ok_iff trunk_schema_def
    by (simp add: demo_trunk_db_def demo_sip_trunk_def demo_endpoint_def endpoint_of_params_def keep_or_def trunk_ok_def not_blank_def
      directions_def statuses_def transports_def endpoint_ok_def contains_any_def)
  then show ?thesis
    by (simp add: trunks_consistent_def credentials_agree_def side_agrees_def tk_side_def endpoints_satisfy_def health_ok_def
      demo_trunk_db_def demo_sip_trunk_def demo_endpoint_def endpoint_of_params_def new_health_job_def default_health_config_def)
qed

section \<open>Properties\<close>

text \<open>C20: every history of requests and health checks, whatever statement fails and whether a failed statement or commit had
  been applied, keeps the trunk tables consistent: the constraints of the schema, exactly one credential row for every digest side of a
  trunk and none for another, with the user and realm of the trunk and the HA1 of a secret that the stored ciphertext seals under the
  scope of that trunk, and an endpoint in cooldown exactly when it is unhealthy, that is when its failures have reached the threshold.\<close>

theorem trunk_tables_consistent:
  assumes "trunks_consistent S (hc_threshold (new_health_job c)) (sw_db w)"
  shows "trunks_consistent S (hc_threshold (new_health_job c)) (sw_db (fold (run_trunk_op S (new_health_job c)) ops w))"
  using step_consistent [OF _ health_job_threshold] assms by (rule trunk_history_invariant)

theorem trunk_tables_consistent_witness:
  "trunks_consistent demo_trunks (hc_threshold (new_health_job default_health_config))
     (sw_db (fold (run_trunk_op demo_trunks (new_health_job default_health_config)) demo_history demo_start))"
  by (rule trunk_tables_consistent) (simp add: demo_consistent)

text \<open>C21: an organization whose plan never grants more than \<open>cap\<close> trunks never has more than \<open>cap\<close>, over every history of requests and
  whatever fails.\<close>

theorem trunks_within_plan:
  assumes "plan_at_most S org cap" and "sql_count_trunks org (sw_db w) \<le> cap"
  shows "sql_count_trunks org (sw_db (fold (run_trunk_op S c) ops w)) \<le> cap"
  using step_count [OF _ assms(1)] assms(2) by (rule trunk_history_invariant)

theorem trunks_within_plan_witness:
  "sql_count_trunks (UUID ''o1'') (sw_db (fold (run_trunk_op demo_trunks default_health_config) demo_history demo_start)) \<le> 2"
  by (rule trunks_within_plan) (simp_all add: plan_at_most_def demo_trunks_def sql_count_trunks_def demo_trunk_db_def demo_sip_trunk_def)

text \<open>The creation of a trunk is one unit. Either it fails and the database is as before, or exactly one trunk has been added with
  its credential rows and its event, in an organization that had room in its plan; only a failed commit can report an error then.\<close>

theorem trunk_creation_atomic:
  "case run_state (create_trunk S org req0) w of (r, w') \<Rightarrow>
     (\<exists>e. r = Inl e) \<and> sw_db w' = sw_db w
     \<or> (\<exists>t req at. normalize_create req0 = Inr req \<and> plan_allows S org (sw_db w) \<and> tk_org t = org \<and> tk_name t = tc_name req
          \<and> sw_db w' = (sw_db w)\<lparr>td_trunks := td_trunks (sw_db w) @ [t],
              td_digests := td_digests (sw_db w) @ digest_rows S org (tk_id t) ''outbound'' (tc_outbound req)
                 @ digest_rows S org (tk_id t) ''inbound'' (tc_inbound req),
              td_outbox := td_outbox (sw_db w) @ [\<lparr>te_subject = ''trunk.created'', te_org = org, te_trunk = tk_id t,
                 te_endpoint = None, te_resource = TrunkResource (trunk_response_of t), te_at = at\<rparr>]\<rparr>
          \<and> (r = Inr t \<or> (\<exists>e. r = Inl (new_internal ''commit trunk creation'' (Some e)))))"
proof -
  obtain r w' where run: "run_state (create_trunk S org req0) w = (r, w')" by force
  show ?thesis using create_trunk_cases [OF run] unfolding run prod.case created_in_def by blast
qed

text \<open>When the validation of a trunk answers, it finds the trunk valid exactly when a digest side has its ciphertext and realm, an
  enabled inbound side with address authentication has a source address, and a trunk that dials out has an enabled outbound endpoint
  that is not unhealthy. It changes nothing.\<close>

theorem trunk_validation_exact:
  "case run_state (validate_trunk S org i) w of (Inl e, w') \<Rightarrow> sw_db w' = sw_db w
   | (Inr report, w') \<Rightarrow> sw_db w' = sw_db w \<and> (\<exists>t \<in> set (td_trunks (sw_db w)). the_trunk org i t \<and>
       (report_valid report \<longleftrightarrow>
          (tk_out_method t = ''digest'' \<longrightarrow> tk_out_cipher t \<noteq> None \<and> tk_out_realm t \<noteq> None)
          \<and> (tk_in_enabled t \<longrightarrow>
               tk_in_method t = ''digest'' \<and> tk_in_cipher t \<noteq> None \<and> tk_in_realm t \<noteq> None
               \<or> tk_in_method t = ''ip'' \<and> (\<exists>r \<in> set (td_ips (sw_db w)). si_trunk r = i \<and> si_org r = org))
          \<and> (tk_direction t = ''outbound'' \<or> tk_direction t = ''bidirectional'' \<longrightarrow>
               (\<exists>e \<in> set (td_endpoints (sw_db w)). ep_trunk e = i \<and> ep_org e = org \<and> endpoint_dials_out e \<and> ep_health e \<noteq> ''unhealthy'')))
       \<and> (rp_warnings report = [] \<longleftrightarrow> tk_status t = ''active''))"
proof -
  obtain r w' where run: "run_state (validate_trunk S org i) w = (r, w')" by force
  have same: "sw_db w' = sw_db w" using validate_trunk_db [of S org i w] run by simp
  show ?thesis
  proof (cases r)
    case (Inr report)
    from run Inr obtain t w1 inbound w2 es where
        t: "run_state (get_trunk S org i) w = (Inr t, w1)" and inb: "run_state (inbound_problems S org i t) w1 = (Inr inbound, w2)"
        and es: "run_state (trunk_repo_list_endpoints S org i) w2 = (Inr es, w')"
        and rep: "report = \<lparr>rp_errors = outbound_problems t @ inbound @ endpoint_problems t es,
              rp_warnings = (if tk_status t \<noteq> ''active'' then [''trunk is disabled''] else [])\<rparr>"
      unfolding validate_trunk_def by (auto simp: chain_Inr map_error_Inr)
    note t' = get_trunk_Inr [OF t]
    note inb' = inbound_problems_Inr [OF inb]
    have "set es = {e \<in> set (td_endpoints (sw_db w)). ep_trunk e = i \<and> ep_org e = org}"
      using es t' inb' unfolding trunk_repo_list_endpoints_def
      by (auto simp: sql_list_endpoints_def list_ex_iff dest!: sql_query_Inr)
    then show ?thesis
      using t' inb' same unfolding run Inr prod.case sum.case
      by (intro conjI bexI [of _ t]) (auto simp: rep report_valid_def endpoint_problems_empty outbound_problems_def)
  qed (simp add: run same)
qed

theorem trunk_validation_exact_witness:
  "case run_state (validate_trunk demo_trunks (UUID ''o1'') (UUID ''t1'')) demo_start of
     (Inl e, w') \<Rightarrow> sw_db w' = demo_trunk_db | (Inr report, w') \<Rightarrow> \<not> report_valid report \<and> rp_warnings report = []"
  using trunk_validation_exact [where S = demo_trunks and org = "UUID ''o1''" and i = "UUID ''t1''" and w = demo_start]
  by (auto split: prod.splits sum.splits simp: demo_trunk_db_def demo_sip_trunk_def the_trunk_def)

text \<open>The health of an endpoint after any sequence of probes is a function of its last ones: unhealthy, and cooling down until the
  time the last failure set, when the failures since the last success reach the threshold; otherwise healthy if a probe ever
  succeeded, unknown if none did, and with no cooldown. The counter is the number of failures since the last success.\<close>

theorem endpoint_health_history:
  assumes "0 < thr"
  shows "let e = fold (record_outcome thr) os (endpoint_of_params org i c fresh now) in
     ep_failures e = trailing_failures os
     \<and> ep_health e = (if thr \<le> trailing_failures os then ''unhealthy'' else if list_all is_down os then ''unknown'' else ''healthy'')
     \<and> ep_cooldown e = (if thr \<le> trailing_failures os then Some (cooldown_of (List.last os)) else None)"
proof (induction os rule: rev_induct)
  case Nil
  then show ?case using assms by (simp add: endpoint_of_params_def trailing_failures_def)
next
  case (snoc x os)
  then show ?case
    using assms trailing_nonneg [of os]
    by (cases x) (auto simp: Let_def trailing_snoc healthy_endpoint_def failed_endpoint_def)
qed

theorem endpoint_health_history_witness:
  "ep_health (fold (record_outcome 2) [Up 1 200 5 1, Down 2 5 ''x'' 9 2, Down 3 5 ''x'' 10 3] demo_endpoint) = ''unhealthy''"
  unfolding demo_endpoint_def
  using endpoint_health_history [of 2 "[Up 1 200 5 1, Down 2 5 ''x'' 9 2, Down 3 5 ''x'' 10 3]" "UUID ''o1''" "UUID ''t1''"
     "\<lparr>ec_host = ''sip.example.org'', ec_port = None, ec_transport = None, ec_direction = None, ec_priority = None, ec_weight = None, ec_enabled = None\<rparr>"
     "UUID ''e1''" 0]
  by (simp add: Let_def trailing_failures_def)

text \<open>A probe is determined by what the network answers at the addresses the egress policy accepts: two networks that agree on those
  give the same result, whatever they would answer elsewhere, so a probe contacts no other address.\<close>

theorem probe_stays_in_policy:
  assumes "pb_policy P' = pb_policy P" "pb_lookup P' = pb_lookup P" "pb_nonce P' = pb_nonce P"
    and "\<And>ip payload host. validate_address (pb_policy P) ip = None \<Longrightarrow>
      (let a = join_host_port (addr_string ip) (int_dec (ep_port e)) in
       pb_udp P' n a payload = pb_udp P n a payload \<and> pb_tcp P' n a payload = pb_tcp P n a payload
       \<and> pb_tls P' n host a payload = pb_tls P n host a payload)"
  shows "probe P' n e = probe P n e"
proof -
  have "probe_addresses (\<lambda>ip. probe_address P' n e (join_host_port (addr_string ip) (int_dec (ep_port e))) payload) err ips
      = probe_addresses (\<lambda>ip. probe_address P n e (join_host_port (addr_string ip) (int_dec (ep_port e))) payload) err ips"
    if "list_all (\<lambda>a. validate_address (pb_policy P) a = None) ips" for payload err ips
    using that assms(4) by (induction ips arbitrary: err) (auto simp: probe_address_def Let_def split: sum.split)
  moreover have "list_all (\<lambda>a. validate_address (pb_policy P) a = None) ips"
    if "resolve_host (pb_policy P) (pb_lookup P n) (ep_host e) = Inr ips" for ips
    using resolve_checked [OF that] by simp
  ultimately show ?thesis using assms(1-3) by (simp add: probe_def rbind_def split: sum.split)
qed

theorem probe_stays_in_policy_witness:
  "probe (demo_prober\<lparr>pb_udp := (\<lambda>n a p. if a = ''localhost'' then Answered ''SIP/2.0 200 OK'' else Read_Failed err_deadline)\<rparr>) 0 demo_endpoint
     = probe demo_prober 0 demo_endpoint"
  by (rule probe_stays_in_policy) (auto simp: demo_prober_def Let_def join_host_port_def append_eq_Cons_conv Cons_eq_append_conv)

text \<open>Giving a trunk an inbound identity that another trunk has is answered with status 500: the violated unique index reaches the
  client as an unexpected error, although the creation of a trunk reports the same violation as a conflict, 409.\<close>

theorem inbound_identity_conflict:
  assumes "\<And>n. sq_fault (ts_env S n) = None" and "ts_cipher S = Some A"
    and "normalize_auth req0 True = Inr req" "ar_method req = ''digest''"
    and "org \<noteq> uuid_nil" "i \<noteq> uuid_nil" "list_ex (the_trunk org i) (td_trunks (sw_db w))"
    and "r \<in> set (td_digests (sw_db w))" "dg_trunk r \<noteq> i" "dg_direction r = ''inbound''"
      "dg_user r = the (ar_user req)" "dg_realm r = the (ar_realm req)"
  shows "(\<exists>e. fst (run_state (set_inbound_auth S org i req0) w) = Inl e \<and> http_status e = 500)
    \<and> http_status (write_error m (PgErr ''23505'')) = 409"
proof -
  obtain t where "find (the_trunk org i) (td_trunks (sw_db w)) = Some t"
    using assms(7) by (cases "find (the_trunk org i) (td_trunks (sw_db w))") (auto simp: find_None_iff list_ex_iff)
  then have get: "run_state (get_trunk S org i) w = (Inr t, w\<lparr>sw_tick := Suc (sw_tick w)\<rparr>)"
    using assms(1,5,6) by (simp add: get_trunk_def trunk_repo_get_def validate_id_def or_else_def run_chain run_map_error run_sql_query
      sql_get_trunk_def one_row_def)
  let ?u = "the (ar_user req)" and ?r = "the (ar_realm req)" and ?s = "the (ar_secret req)"
  have refused: "\<exists>e. fst (sql_set_inbound org i ?u ?r x h now (sw_db w)) = Inl e \<and> as_app_status e = None" for x h now
    using inbound_refused [OF assms(7-10)] assms(11,12) by simp
  obtain x w1 where enc: "run_state (encrypt_secret S A org i ''inbound'' ?s) (w\<lparr>sw_tick := Suc (sw_tick w)\<rparr>) = (x, w1)" by force
  then have w1: "sw_db w1 = sw_db w" by (auto simp: encrypt_secret_def run_map_error split: sum.splits)
  have "\<exists>e. fst (run_state (set_inbound_auth S org i req0) w) = Inl e \<and> http_status e = 500"
  proof (cases x)
    case (Inl e)
    then have "as_app_status e = Some 500"
      using enc by (auto simp: encrypt_secret_def run_map_error new_internal_def split: sum.splits)
    then show ?thesis using Inl enc get assms(2-4)
      by (simp add: set_inbound_auth_def run_chain Let_def http_status_def)
  next
    case (Inr envelope)
    have "\<exists>e. fst (run_state (trunk_repo_set_inbound S org i ?u ?r envelope (compute_ha1_md5 (ts_md5 S) ?u ?r ?s)) w1) = Inl e \<and> as_app_status e = None"
      using refused [of envelope "compute_ha1_md5 (ts_md5 S) ?u ?r ?s" "sq_now (ts_env S (sw_tick w1))"]
      by (simp add: trunk_repo_set_inbound_def sql_exec_fst assms(1) w1)
    then show ?thesis using Inr enc get assms(2-4)
      by (auto simp: set_inbound_auth_def run_chain Let_def http_status_def)
  qed
  moreover have "http_status (write_error m (PgErr ''23505'')) = 409"
    by (simp add: write_error_def http_status_def new_conflict_def)
  ultimately show ?thesis by blast
qed

theorem inbound_identity_conflict_witness:
  "\<exists>e. fst (run_state (set_inbound_auth demo_trunks (UUID ''o1'') (UUID ''t1'')
       \<lparr>ar_method = ''digest'', ar_user = Some ''u'', ar_realm = Some ''r'', ar_secret = Some ''s''\<rparr>)
     (demo_start\<lparr>sw_db := demo_trunk_db\<lparr>td_trunks := [demo_sip_trunk ''t1'' ''a'', demo_sip_trunk ''t2'' ''b''],
        td_digests := [\<lparr>dg_trunk = UUID ''t2'', dg_org = UUID ''o1'', dg_direction = ''inbound'', dg_user = ''u'', dg_realm = ''r'',
          dg_ha1 = replicate 32 CHR ''0''\<rparr>]\<rparr>\<rparr>)) = Inl e \<and> http_status e = 500"
proof -
  have auth: "normalize_auth \<lparr>ar_method = ''digest'', ar_user = Some ''u'', ar_realm = Some ''r'', ar_secret = Some ''s''\<rparr> True
      = Inr \<lparr>ar_method = ''digest'', ar_user = Some ''u'', ar_realm = Some ''r'', ar_secret = Some ''s''\<rparr>"
    by code_simp
  show ?thesis
    by (rule inbound_identity_conflict [where A = tagging_aead and
        r = "\<lparr>dg_trunk = UUID ''t2'', dg_org = UUID ''o1'', dg_direction = ''inbound'', dg_user = ''u'', dg_realm = ''r'',
          dg_ha1 = replicate 32 CHR ''0''\<rparr>", OF _ _ auth, THEN conjunct1])
      (simp_all add: demo_trunks_def uuid_nil_def the_trunk_def demo_sip_trunk_def)
qed

text \<open>When the text of a probe's error is cut at 500 bytes inside a code point, the database refuses the outcome, the pass of the
  health job ends with the error, nothing is recorded of the endpoint, and the endpoints claimed after it are not probed.\<close>

theorem cut_error_ends_pass:
  assumes "probe P (Suc (sw_tick w)) e = Inl err" and "\<not> pg_text (take 500 (pb_text P err))"
  shows "\<exists>e'. fst (run_state (for_each (e # es) (check_endpoint S P c)) w) = Inl (Wrap ''mark trunk endpoint failed: %w'' [] e')
    \<and> sw_db (snd (run_state (for_each (e # es) (check_endpoint S P c)) w)) = sw_db w"
  using assms
  by (auto simp: check_endpoint_def Let_def run_chain run_map_error health_mark_failed_def run_handle sql_exec_def sql_mark_probe_failed_def
      with_texts_def split: prod.split option.split)

theorem cut_error_ends_pass_witness:
  "\<exists>e'. fst (run_state (for_each [demo_endpoint, demo_endpoint] (check_endpoint demo_trunks demo_prober default_health_config)) demo_start)
     = Inl (Wrap ''mark trunk endpoint failed: %w'' [] e')"
proof -
  have "parse_addr ''sip.example.org'' = None" by code_simp
  then have "probe demo_prober (Suc 0) demo_endpoint = Inl (Wrap ''reject SIP trunk endpoint %q: %w'' [''sip.example.org'']
      (Wrap ''resolve destination: %w'' [] (Errf ''no such host'' [])))"
    by (simp add: probe_def demo_prober_def demo_endpoint_def endpoint_of_params_def resolve_host_def)
  moreover have "\<not> utf8_valid (replicate 499 CHR ''a'' @ [CHR 0xC3])"
    by (simp add: utf8_valid_def utf8_ascii_prefix)
  ultimately show ?thesis
    using cut_error_ends_pass [of demo_prober demo_start demo_endpoint _ "[demo_endpoint]" demo_trunks default_health_config]
    by (simp add: demo_prober_def pg_text_def)
qed

end
