(* ===== verification/Event_Outbox.thy ===== *)
theory Event_Outbox
  imports Sql_World "HOL-Library.AList"
begin

text \<open>
  The transactional outbox (\<open>platform/outbox\<close>) and the publishing side of the NATS client
  (\<open>integrations/nats/publisher.go\<close>): rows of the table \<open>outbox_events\<close>, the statements on them
  (\<open>outbox.sql.go\<close>), and the publisher job that claims due rows, publishes them to JetStream and
  records the outcome. The world holds the table and the messages the stream has accepted; a publish is a step of the environment like a
  statement, so it may fail before or after the stream has taken the message. The column \<open>headers\<close> holds what
  \<open>Insert\<close> writes, an object of strings.
\<close>

section \<open>Messages\<close>

record nats_msg =
  nm_subject :: string
  nm_data :: string
  nm_headers :: "(string \<times> string) list"
  nm_id :: string

definition max_message_size :: nat where "max_message_size = 64 * 1024"

definition events_subject_prefix :: string where "events_subject_prefix = ''leamout.event.''"

definition set_headers :: "(string \<times> string) list \<Rightarrow> (string \<times> string) list" where
  "set_headers hs = fold (\<lambda>(k, v) h. if trim_space k \<noteq> [] then AList.update (trim_space k) v h else h) hs []"

definition nats_message :: "string \<Rightarrow> string \<Rightarrow> (string \<times> string) list \<Rightarrow> string \<Rightarrow> nats_msg" where
  "nats_message subject payload headers mid =
     \<lparr>nm_subject = subject, nm_data = payload, nm_headers = set_headers headers, nm_id = trim_space mid\<rparr>"

definition validate_publish :: "string \<Rightarrow> string \<Rightarrow> go_err option" where
  "validate_publish subject payload = first_error
     [(trim_space subject = [], Errf ''NATS subject is required'' []),
      (max_message_size < length payload,
       Errf ''NATS message payload is %d bytes; maximum is %d'' [int_dec (int (length payload)), int_dec (int max_message_size)])]"

section \<open>Rows\<close>

record outbox_row =
  ob_id :: uuid
  ob_subject :: string
  ob_kind :: string
  ob_object :: uuid
  ob_payload :: string
  ob_headers :: "(string \<times> string) list"
  ob_available :: int
  ob_published :: "int option"
  ob_attempts :: int
  ob_error :: "string option"
  ob_locked :: "int option"
  ob_worker :: "string option"
  ob_created :: int
  ob_updated :: int

record outbox_db =
  ox_rows :: "outbox_row list"
  ox_stream :: "nats_msg list"

record new_event =
  ne_subject :: string
  ne_kind :: string
  ne_object :: uuid
  ne_payload :: "go_err + string"
  ne_headers :: "(string \<times> string) list"
  ne_available :: "int option"

definition pg_spaces :: "char list" where
  "pg_spaces = [CHR '' '', CHR 0x09, CHR 0x0A, CHR 0x0B, CHR 0x0C, CHR 0x0D]"

definition outbox_ok :: "outbox_row \<Rightarrow> bool" where
  "outbox_ok r \<longleftrightarrow> not_blank (ob_subject r) \<and> \<not> contains_any (ob_subject r) pg_spaces \<and> not_blank (ob_kind r)
     \<and> 0 \<le> ob_attempts r \<and> (ob_locked r = None \<longleftrightarrow> ob_worker r = None)"

definition outbox_schema :: "(string \<times> (outbox_db \<Rightarrow> bool)) list" where
  "outbox_schema = [(''23514'', \<lambda>d. list_all outbox_ok (ox_rows d)), (''23505'', \<lambda>d. distinct (map ob_id (ox_rows d)))]"

section \<open>Statements\<close>

definition sql_insert_outbox :: "new_event \<Rightarrow> string \<Rightarrow> uuid \<Rightarrow> int \<Rightarrow> outbox_db \<Rightarrow> (go_err + outbox_row) \<times> outbox_db" where
  "sql_insert_outbox ev payload fresh now d =
     (let r = \<lparr>ob_id = fresh, ob_subject = ne_subject ev, ob_kind = ne_kind ev, ob_object = ne_object ev, ob_payload = payload,
               ob_headers = ne_headers ev, ob_available = keep_or (ne_available ev) now, ob_published = None, ob_attempts = 0,
               ob_error = None, ob_locked = None, ob_worker = None, ob_created = now, ob_updated = now\<rparr>
      in with_texts [ne_subject ev, ne_kind ev] d (constrained outbox_schema d (Inr r, d\<lparr>ox_rows := ox_rows d @ [r]\<rparr>)))"

definition pending_event :: "int \<Rightarrow> outbox_row \<Rightarrow> bool" where
  "pending_event now r \<longleftrightarrow> ob_published r = None \<and> ob_locked r = None \<and> ob_available r \<le> now"

definition earlier_event :: "outbox_row \<Rightarrow> outbox_row \<Rightarrow> bool" where
  "earlier_event a b \<longleftrightarrow> ob_available a < ob_available b \<or> ob_available a = ob_available b \<and> ob_created a \<le> ob_created b"

definition claimed_event :: "string \<Rightarrow> int \<Rightarrow> outbox_row \<Rightarrow> outbox_row" where
  "claimed_event worker now r = r\<lparr>ob_locked := Some now, ob_worker := Some worker, ob_attempts := ob_attempts r + 1, ob_updated := now\<rparr>"

definition sql_claim_events :: "string \<Rightarrow> int \<Rightarrow> int \<Rightarrow> outbox_db \<Rightarrow> (go_err + outbox_row list) \<times> outbox_db" where
  "sql_claim_events worker batch now d =
     (let due = take (nat batch) (order_by earlier_event (filter (pending_event now) (ox_rows d)));
          p = (\<lambda>r. ob_id r \<in> ob_id ` set due)
      in (Inr (map (claimed_event worker now) (filter p (ox_rows d))),
          d\<lparr>ox_rows := update_rows p (claimed_event worker now) (ox_rows d)\<rparr>))"

definition published_event :: "int \<Rightarrow> outbox_row \<Rightarrow> outbox_row" where
  "published_event now r = r\<lparr>ob_published := Some now, ob_locked := None, ob_worker := None, ob_error := None, ob_updated := now\<rparr>"

definition sql_mark_event_published :: "uuid \<Rightarrow> int \<Rightarrow> outbox_db \<Rightarrow> (go_err + unit) \<times> outbox_db" where
  "sql_mark_event_published i now d =
     (Inr (), d\<lparr>ox_rows := update_rows (\<lambda>r. ob_id r = i \<and> ob_published r = None) (published_event now) (ox_rows d)\<rparr>)"

definition deferred_event :: "string \<Rightarrow> int \<Rightarrow> int \<Rightarrow> outbox_row \<Rightarrow> outbox_row" where
  "deferred_event message seconds now r = r\<lparr>ob_locked := None, ob_worker := None, ob_error := Some message,
     ob_available := now + seconds * 1000000, ob_updated := now\<rparr>"

definition sql_mark_event_failed :: "uuid \<Rightarrow> string \<Rightarrow> int \<Rightarrow> int \<Rightarrow> outbox_db \<Rightarrow> (go_err + unit) \<times> outbox_db" where
  "sql_mark_event_failed i message seconds now d = with_texts [message] d
     (Inr (), d\<lparr>ox_rows := update_rows (\<lambda>r. ob_id r = i \<and> ob_published r = None) (deferred_event message seconds now) (ox_rows d)\<rparr>)"

definition stale_event :: "int \<Rightarrow> int \<Rightarrow> outbox_row \<Rightarrow> bool" where
  "stale_event timeout now r \<longleftrightarrow> ob_published r = None
     \<and> (case ob_locked r of None \<Rightarrow> False | Some at \<Rightarrow> at < now - timeout * 1000000)"

definition sql_release_stale :: "int \<Rightarrow> int \<Rightarrow> outbox_db \<Rightarrow> (go_err + unit) \<times> outbox_db" where
  "sql_release_stale timeout now d =
     (Inr (), d\<lparr>ox_rows := update_rows (stale_event timeout now) (\<lambda>r. r\<lparr>ob_locked := None, ob_worker := None, ob_updated := now\<rparr>) (ox_rows d)\<rparr>)"

section \<open>The publisher\<close>

text \<open>
  The environment of the statements and of the broker, and the text of an error (\<open>err.Error()\<close>).
\<close>

record outbox_env =
  oe_env :: "nat \<Rightarrow> sql_env"
  oe_text :: "go_err \<Rightarrow> string"

type_synonym 'a outbox_action = "(outbox_db, 'a) sql_action"

definition insert_event :: "outbox_env \<Rightarrow> new_event \<Rightarrow> outbox_row outbox_action" where
  "insert_event E ev = (case ne_payload ev of
     Inl e \<Rightarrow> fail (Wrap ''marshal outbox payload: %w'' [] e)
   | Inr payload \<Rightarrow> sql_exec (oe_env E) (\<lambda>se. sql_insert_outbox ev payload (sq_fresh se) (sq_now se)))"

definition publish_with_options :: "outbox_env \<Rightarrow> string \<Rightarrow> string \<Rightarrow> (string \<times> string) list \<Rightarrow> string \<Rightarrow> unit outbox_action" where
  "publish_with_options E subject payload headers mid =
     chain (of_check (validate_publish subject payload)) (\<lambda>_.
     map_error (Wrap ''publish NATS message to %q: %w'' [subject])
       (sql_exec (oe_env E) (\<lambda>_ d. (Inr (), d\<lparr>ox_stream := ox_stream d @ [nats_message subject payload headers mid]\<rparr>))))"

definition event_subject :: "string \<Rightarrow> go_err + string" where
  "event_subject subject0 =
     (let subject = trim_space subject0 in
      if subject = [] then Inl (Errf ''outbox event subject is required'' [])
      else if contains_any subject [CHR '' '', CHR 0x09, CHR 0x0D, CHR 0x0A, CHR ''*'', CHR ''>'']
      then Inl (Errf ''invalid outbox event subject %q'' [subject])
      else if starts_with events_subject_prefix subject then Inr subject
      else Inr (events_subject_prefix @ subject))"

definition header_event_id :: string where "header_event_id = ''X-Leamout-Event-ID''"
definition header_aggregate_type :: string where "header_aggregate_type = ''X-Leamout-Aggregate-Type''"
definition header_aggregate_id :: string where "header_aggregate_id = ''X-Leamout-Aggregate-ID''"

definition event_headers :: "outbox_row \<Rightarrow> (string \<times> string) list" where
  "event_headers r = AList.update header_aggregate_id (uuid_string (ob_object r))
     (AList.update header_aggregate_type (ob_kind r)
     (AList.update header_event_id (uuid_string (ob_id r)) (ob_headers r)))"

definition publish_event :: "outbox_env \<Rightarrow> outbox_row \<Rightarrow> unit outbox_action" where
  "publish_event E r = (case event_subject (ob_subject r) of
     Inl e \<Rightarrow> fail e
   | Inr subject \<Rightarrow>
       map_error (Wrap ''publish outbox event %s: %w'' [uuid_string (ob_id r)])
         (publish_with_options E subject (ob_payload r) (event_headers r) (uuid_string (ob_id r))))"

section \<open>The job\<close>

text \<open>Durations are nanoseconds. The loop that doubles the delay runs on the number of its rounds.\<close>

definition second_ns :: int where "second_ns = 1000000000"

record publisher_config =
  pc_worker :: string
  pc_batch :: int
  pc_poll :: int
  pc_lock :: int
  pc_stale :: int
  pc_base :: int
  pc_max :: int

definition default_publisher_config :: "string \<Rightarrow> publisher_config" where
  "default_publisher_config worker = \<lparr>pc_worker = worker, pc_batch = 100, pc_poll = 500000000, pc_lock = 60 * second_ns,
     pc_stale = 30 * second_ns, pc_base = 2 * second_ns, pc_max = 300 * second_ns\<rparr>"

definition new_publisher_job :: "bool \<Rightarrow> bool \<Rightarrow> publisher_config \<Rightarrow> go_err + publisher_config" where
  "new_publisher_job has_repo has_publisher c0 =
     (let c1 = c0\<lparr>pc_batch := if pc_batch c0 \<le> 0 then 100 else pc_batch c0,
                  pc_poll := if pc_poll c0 \<le> 0 then 500000000 else pc_poll c0,
                  pc_lock := if pc_lock c0 \<le> 0 then 60 * second_ns else pc_lock c0,
                  pc_stale := if pc_stale c0 \<le> 0 then 30 * second_ns else pc_stale c0,
                  pc_base := if pc_base c0 \<le> 0 then 2 * second_ns else pc_base c0\<rparr>
      in checked (first_error
           [(\<not> has_repo, Errf ''outbox repository is required'' []),
            (\<not> has_publisher, Errf ''outbox publisher is required'' []),
            (pc_worker c0 = [], Errf ''outbox publisher worker id is required'' [])])
         (c1\<lparr>pc_max := if pc_max c1 < pc_base c1 then 300 * second_ns else pc_max c1\<rparr>))"

fun double_delay :: "int \<Rightarrow> nat \<Rightarrow> int \<Rightarrow> int" where
  "double_delay limit 0 delay = (if limit < delay then limit else delay)"
| "double_delay limit (Suc n) delay =
     (if delay < limit then (let delay' = wrap64 (delay * 2) in if limit \<le> delay' then limit else double_delay limit n delay')
      else if limit < delay then limit else delay)"

definition retry_delay :: "int \<Rightarrow> int \<Rightarrow> int \<Rightarrow> int" where
  "retry_delay base limit attempt = double_delay limit (nat (attempt - 1)) base"

definition duration_seconds :: "int \<Rightarrow> int" where
  "duration_seconds v =
     (let seconds = go_div v second_ns in
      if seconds < 1 then 1 else if seconds > 2147483647 then 2147483647 else seconds)"

definition claim_pending :: "outbox_env \<Rightarrow> string \<Rightarrow> int \<Rightarrow> outbox_row list outbox_action" where
  "claim_pending E worker batch = sql_exec (oe_env E) (\<lambda>se. sql_claim_events worker batch (sq_now se))"

definition mark_published :: "outbox_env \<Rightarrow> uuid \<Rightarrow> unit outbox_action" where
  "mark_published E i = sql_exec (oe_env E) (\<lambda>se. sql_mark_event_published i (sq_now se))"

definition mark_event_failed :: "outbox_env \<Rightarrow> uuid \<Rightarrow> go_err \<Rightarrow> int \<Rightarrow> unit outbox_action" where
  "mark_event_failed E i cause seconds = sql_exec (oe_env E) (\<lambda>se. sql_mark_event_failed i (oe_text E cause) seconds (sq_now se))"

definition publish_one :: "outbox_env \<Rightarrow> publisher_config \<Rightarrow> outbox_row \<Rightarrow> unit outbox_action" where
  "publish_one E c r =
     handle (publish_event E r)
       (\<lambda>e. map_error (Wrap ''mark outbox event %s failed after publish error: %w'' [uuid_string (ob_id r)])
              (mark_event_failed E (ob_id r) e (duration_seconds (retry_delay (pc_base c) (pc_max c) (ob_attempts r)))))
       (\<lambda>_. map_error (Wrap ''mark outbox event %s published: %w'' [uuid_string (ob_id r)]) (mark_published E (ob_id r)))"

definition publish_batch :: "outbox_env \<Rightarrow> publisher_config \<Rightarrow> unit outbox_action" where
  "publish_batch E c =
     chain (map_error (Wrap ''claim pending outbox events: %w'' []) (claim_pending E (pc_worker c) (pc_batch c))) (\<lambda>events.
     for_each events (publish_one E c))"

definition release_stale_locks :: "outbox_env \<Rightarrow> publisher_config \<Rightarrow> unit outbox_action" where
  "release_stale_locks E c = map_error (Wrap ''release stale outbox locks: %w'' [])
     (sql_exec (oe_env E) (\<lambda>se. sql_release_stale (duration_seconds (pc_lock c)) (sq_now se)))"

text \<open>
  \<open>Run\<close>: the locks of a predecessor are released, then batches, with a release whenever its ticker fired. The list
  says which of the two tickers ended each wait; the loop ends with the first error or when the context is done.
\<close>

fun publisher_loop :: "outbox_env \<Rightarrow> publisher_config \<Rightarrow> bool list \<Rightarrow> unit outbox_action" where
  "publisher_loop E c [] = publish_batch E c"
| "publisher_loop E c (stale # ticks) =
     chain (publish_batch E c) (\<lambda>_.
     chain (if stale then release_stale_locks E c else succeed ()) (\<lambda>_. publisher_loop E c ticks))"

definition publisher_run :: "outbox_env \<Rightarrow> publisher_config \<Rightarrow> bool list \<Rightarrow> unit outbox_action" where
  "publisher_run E c ticks = chain (release_stale_locks E c) (\<lambda>_. publisher_loop E c ticks)"

end
