(* ===== verification/Outbox_Safety.thy ===== *)
theory Outbox_Safety
  imports Event_Outbox
begin

text \<open>
  What the outbox promises: the committed effects of inserts and publisher runs as a step relation, the
  agreement of the table with the stream along every history, the delay between attempts, and what a
  finished batch leaves behind.
\<close>

section \<open>Committed effects\<close>

definition content :: "outbox_row \<Rightarrow> uuid \<times> string \<times> string \<times> uuid \<times> string \<times> (string \<times> string) list" where
  "content r = (ob_id r, ob_subject r, ob_kind r, ob_object r, ob_payload r, ob_headers r)"

text \<open>The message a row stands for.\<close>

definition message_of :: "outbox_row \<Rightarrow> nats_msg option" where
  "message_of r = (case event_subject (ob_subject r) of
     Inl _ \<Rightarrow> None
   | Inr subject \<Rightarrow> Some (nats_message subject (ob_payload r) (event_headers r) (uuid_string (ob_id r))))"

definition with_message :: "nats_msg \<Rightarrow> outbox_db \<Rightarrow> outbox_db" where
  "with_message m d = d\<lparr>ox_stream := ox_stream d @ [m]\<rparr>"

inductive outbox_step :: "outbox_db \<Rightarrow> outbox_db \<Rightarrow> bool" where
  os_insert: "sql_insert_outbox ev payload i t d = (Inr r, d') \<Longrightarrow> outbox_step d d'"
| os_claim: "outbox_step d (snd (sql_claim_events worker n t d))"
| os_accept: "r \<in> set (ox_rows d) \<Longrightarrow> message_of r = Some m \<Longrightarrow> outbox_step d (with_message m d)"
| os_published: "r \<in> set (ox_rows d) \<Longrightarrow> message_of r = Some m \<Longrightarrow> m \<in> set (ox_stream d)
    \<Longrightarrow> outbox_step d (snd (sql_mark_event_published (ob_id r) t d))"
| os_deferred: "outbox_step d (snd (sql_mark_event_failed i message s t d))"
| os_release: "outbox_step d (snd (sql_release_stale n t d))"

lemma content_eqs:
  assumes "content r = content r'"
  shows "ob_id r = ob_id r'" "message_of r = message_of r'"
  using assms by (auto simp: content_def message_of_def event_headers_def split: sum.split)

lemma content_marks [simp]:
  "content (claimed_event worker t r) = content r" "content (published_event t r) = content r"
  "content (deferred_event message s t r) = content r"
  "content (r\<lparr>ob_locked := l, ob_worker := w, ob_updated := t\<rparr>) = content r"
  by (simp_all add: content_def claimed_event_def published_event_def deferred_event_def)

section \<open>Rows never change what they say\<close>

definition persists :: "outbox_db \<Rightarrow> outbox_db \<Rightarrow> bool" where
  "persists d d' \<longleftrightarrow> (\<forall>r \<in> set (ox_rows d). \<exists>r' \<in> set (ox_rows d'). content r' = content r
     \<and> (ob_published r \<noteq> None \<longrightarrow> ob_published r' = ob_published r))"

lemma persists_refl: "persists d d"
  by (auto simp: persists_def)

lemma persists_trans: "persists a b \<Longrightarrow> persists b c \<Longrightarrow> persists a c"
  unfolding persists_def by metis

lemma persists_update:
  assumes "\<And>r. r \<in> set (ox_rows d) \<Longrightarrow> p r \<Longrightarrow> content (f r) = content r \<and> (ob_published r \<noteq> None \<longrightarrow> ob_published (f r) = ob_published r)"
  shows "persists d (d\<lparr>ox_rows := update_rows p f (ox_rows d)\<rparr>)"
  unfolding persists_def
proof
  fix r assume r: "r \<in> set (ox_rows d)"
  then show "\<exists>r' \<in> set (ox_rows (d\<lparr>ox_rows := update_rows p f (ox_rows d)\<rparr>)). content r' = content r
      \<and> (ob_published r \<noteq> None \<longrightarrow> ob_published r' = ob_published r)"
    using assms [OF r] by (intro bexI [of _ "if p r then f r else r"]) (auto simp: update_rows_def)
qed

lemma insert_cases:
  assumes "sql_insert_outbox ev payload i t d = (Inr r, d')"
  shows "d' = d\<lparr>ox_rows := ox_rows d @ [r]\<rparr>" "list_all outbox_ok (ox_rows d')" "distinct (map ob_id (ox_rows d'))"
    "ob_published r = None"
  using assms constrained_Inr
  by (auto simp: sql_insert_outbox_def Let_def outbox_schema_def dest!: with_texts_Inr constrained_Inr)

lemma step_persists: "outbox_step d d' \<Longrightarrow> persists d d'"
proof (induction rule: outbox_step.induct)
  case (os_insert ev payload i t d r d')
  from insert_cases(1) [OF os_insert] show ?case by (auto simp: persists_def)
next
  case (os_claim d worker n t)
  show ?case unfolding sql_claim_events_def Let_def snd_conv
    by (rule persists_update) (simp add: claimed_event_def content_def)
next
  case (os_published r d m t)
  show ?case unfolding sql_mark_event_published_def snd_conv by (rule persists_update) simp
next
  case (os_deferred d i message s t)
  show ?case unfolding sql_mark_event_failed_def with_texts_def
    by (auto intro!: persists_update persists_refl)
next
  case (os_release d n t)
  show ?case unfolding sql_release_stale_def snd_conv by (rule persists_update) simp
qed (auto simp: persists_def with_message_def)

lemma steps_persist: "outbox_step\<^sup>*\<^sup>* d d' \<Longrightarrow> persists d d'"
  by (induction rule: rtranclp_induct) (auto intro: persists_refl persists_trans step_persists)

section \<open>The table agrees with the stream\<close>

definition outbox_agrees :: "outbox_db \<Rightarrow> bool" where
  "outbox_agrees d \<longleftrightarrow> list_all outbox_ok (ox_rows d) \<and> distinct (map ob_id (ox_rows d))
     \<and> (\<forall>r \<in> set (ox_rows d). ob_published r \<noteq> None \<longrightarrow> ob_locked r = None \<and> (\<exists>m \<in> set (ox_stream d). message_of r = Some m))
     \<and> (\<forall>m \<in> set (ox_stream d). \<exists>r \<in> set (ox_rows d). message_of r = Some m)"

lemma agrees_update:
  assumes "outbox_agrees d"
    and f: "\<And>r. r \<in> set (ox_rows d) \<Longrightarrow> p r \<Longrightarrow> content (f r) = content r \<and> outbox_ok (f r)
      \<and> (ob_published (f r) \<noteq> None \<longrightarrow> ob_locked (f r) = None \<and> (\<exists>m \<in> set (ox_stream d). message_of r = Some m))"
  shows "outbox_agrees (d\<lparr>ox_rows := update_rows p f (ox_rows d)\<rparr>)"
proof -
  let ?f = "\<lambda>r. if p r then f r else r"
  have c: "content (?f r) = content r" if "r \<in> set (ox_rows d)" for r using f [OF that] by simp
  have ids: "map ob_id (update_rows p f (ox_rows d)) = map ob_id (ox_rows d)"
    using content_eqs(1) [OF c] by (auto simp: update_rows_def)
  have "\<exists>r \<in> set (update_rows p f (ox_rows d)). message_of r = Some m" if "m \<in> set (ox_stream d)" for m
  proof -
    from assms(1) that obtain r where r: "r \<in> set (ox_rows d)" "message_of r = Some m" unfolding outbox_agrees_def by blast
    then have "?f r \<in> set (update_rows p f (ox_rows d))" by (simp add: update_rows_def)
    with r content_eqs(2) [OF c [OF r(1)]] show ?thesis by (intro bexI [of _ "?f r"]) auto
  qed
  moreover have "outbox_ok r' \<and> (ob_published r' \<noteq> None \<longrightarrow> ob_locked r' = None \<and> (\<exists>m \<in> set (ox_stream d). message_of r' = Some m))"
    if r': "r' \<in> set (update_rows p f (ox_rows d))" for r'
  proof -
    from set_update_rows [OF r'] obtain r where r: "r \<in> set (ox_rows d)" "r' = ?f r" by blast
    have "outbox_ok r" using assms(1) r(1) by (simp add: outbox_agrees_def list_all_iff)
    moreover have "ob_published r \<noteq> None \<longrightarrow> ob_locked r = None \<and> (\<exists>m \<in> set (ox_stream d). message_of r = Some m)"
      using assms(1) r(1) unfolding outbox_agrees_def by blast
    ultimately show ?thesis
      using f [OF r(1)] content_eqs(2) [OF c [OF r(1)]] r(2) by (cases "p r") simp_all
  qed
  ultimately show ?thesis
    using assms(1) ids unfolding outbox_agrees_def by (simp add: list_all_iff)
qed

lemma same_row: "distinct (map ob_id rows) \<Longrightarrow> r \<in> set rows \<Longrightarrow> s \<in> set rows \<Longrightarrow> ob_id r = ob_id s \<Longrightarrow> r = s"
  by (auto simp: distinct_map inj_on_def)

lemma step_agrees:
  assumes "outbox_step d d'" "outbox_agrees d"
  shows "outbox_agrees d'"
proof -
  have ok: "outbox_ok r" if "r \<in> set (ox_rows d)" for r using assms(2) that by (simp add: outbox_agrees_def list_all_iff)
  have pub: "ob_published r \<noteq> None \<Longrightarrow> \<exists>m \<in> set (ox_stream d). message_of r = Some m" if "r \<in> set (ox_rows d)" for r
    using assms(2) that unfolding outbox_agrees_def by blast
  from assms(1) show ?thesis
  proof cases
    case (os_insert ev payload i t r)
    note ins = insert_cases [OF os_insert]
    then show ?thesis using assms(2) unfolding outbox_agrees_def by auto
  next
    case (os_claim worker n t)
    show ?thesis unfolding os_claim sql_claim_events_def Let_def snd_conv
    proof (rule agrees_update [OF assms(2)])
      fix r assume r: "r \<in> set (ox_rows d)"
        and p: "ob_id r \<in> ob_id ` set (take (nat n) (order_by earlier_event (filter (pending_event t) (ox_rows d))))"
      from p obtain s where s: "s \<in> set (ox_rows d)" "ob_id s = ob_id r" "pending_event t s"
        by (auto dest!: in_set_takeD)
      with r same_row [of "ox_rows d" s r] assms(2) have "pending_event t r" by (simp add: outbox_agrees_def)
      with ok [OF r] show "content (claimed_event worker t r) = content r \<and> outbox_ok (claimed_event worker t r)
          \<and> (ob_published (claimed_event worker t r) \<noteq> None \<longrightarrow> ob_locked (claimed_event worker t r) = None
             \<and> (\<exists>m \<in> set (ox_stream d). message_of r = Some m))"
        by (simp add: claimed_event_def outbox_ok_def pending_event_def content_def)
    qed
  next
    case (os_accept r m)
    then show ?thesis using assms(2) unfolding outbox_agrees_def with_message_def by auto
  next
    case (os_published s m t)
    show ?thesis unfolding os_published(1) sql_mark_event_published_def snd_conv
    proof (rule agrees_update [OF assms(2)])
      fix r assume r: "r \<in> set (ox_rows d)" and p: "ob_id r = ob_id s \<and> ob_published r = None"
      with same_row [of "ox_rows d" r s] os_published(2) assms(2) have "r = s" by (simp add: outbox_agrees_def)
      with os_published(3,4) ok [OF r]
      show "content (published_event t r) = content r \<and> outbox_ok (published_event t r)
          \<and> (ob_published (published_event t r) \<noteq> None \<longrightarrow> ob_locked (published_event t r) = None
             \<and> (\<exists>m \<in> set (ox_stream d). message_of r = Some m))"
        by (auto simp: published_event_def outbox_ok_def content_def)
    qed
  next
    case (os_deferred i message s t)
    have "outbox_agrees (d\<lparr>ox_rows := update_rows (\<lambda>r. ob_id r = i \<and> ob_published r = None) (deferred_event message s t) (ox_rows d)\<rparr>)"
      by (rule agrees_update [OF assms(2)]) (use ok in \<open>auto simp: deferred_event_def outbox_ok_def content_def\<close>)
    then show ?thesis using assms(2) unfolding os_deferred sql_mark_event_failed_def by (simp add: with_texts_def)
  next
    case (os_release n t)
    show ?thesis unfolding os_release sql_release_stale_def snd_conv
      by (rule agrees_update [OF assms(2)]) (use ok in \<open>auto simp: stale_event_def outbox_ok_def content_def\<close>)
  qed
qed

section \<open>The publisher takes committed steps\<close>

text \<open>A loop over actions that keep an invariant and move along a relation.\<close>

lemma for_each_steps:
  assumes "\<And>x w r w'. x \<in> set xs \<Longrightarrow> J w \<Longrightarrow> run_state (f x) w = (r, w') \<Longrightarrow> J w' \<and> step\<^sup>*\<^sup>* (view w) (view w')"
    and "J w" "run_state (for_each xs f) w = (r, w')"
  shows "J w' \<and> step\<^sup>*\<^sup>* (view w) (view w')"
  using assms
proof (induction xs arbitrary: w)
  case (Cons x xs)
  obtain r1 w1 where one: "run_state (f x) w = (r1, w1)" by force
  with Cons.prems(1) [of x w r1 w1] Cons.prems(2) have j: "J w1" "step\<^sup>*\<^sup>* (view w) (view w1)" by auto
  show ?case
  proof (cases r1)
    case (Inl e)
    with Cons.prems(3) one j show ?thesis by (simp add: run_chain)
  next
    case (Inr u)
    with Cons.prems(3) one have rest: "run_state (for_each xs f) w1 = (r, w')" by (simp add: run_chain)
    have "J w' \<and> step\<^sup>*\<^sup>* (view w1) (view w')"
      by (rule Cons.IH [OF _ j(1) rest]) (rule Cons.prems(1), simp_all)
    with j(2) show ?thesis by auto
  qed
qed simp

definition tracked :: "outbox_row \<Rightarrow> outbox_db \<Rightarrow> bool" where
  "tracked r d \<longleftrightarrow> (\<exists>s \<in> set (ox_rows d). content s = content r)"

lemma tracked_step: "outbox_step\<^sup>*\<^sup>* d d' \<Longrightarrow> tracked r d \<Longrightarrow> tracked r d'"
  using steps_persist [of d d'] unfolding tracked_def persists_def by metis

lemma publish_event_run:
  assumes "run_state (publish_event E r) w = (x, w')"
  shows "(sw_db w' = sw_db w \<and> (\<exists>e. x = Inl e)) \<or> (\<exists>m. message_of r = Some m \<and> sw_db w' = with_message m (sw_db w))"
proof (cases "event_subject (ob_subject r)")
  case (Inl e)
  with assms show ?thesis by (auto simp: publish_event_def)
next
  case (Inr s)
  let ?m = "nats_message s (ob_payload r) (event_headers r) (uuid_string (ob_id r))"
  let ?send = "sql_exec (oe_env E) (\<lambda>_ d. (Inr (), d\<lparr>ox_stream := ox_stream d @ [?m]\<rparr>)) :: unit outbox_action"
  have m: "message_of r = Some ?m" using Inr by (simp add: message_of_def)
  show ?thesis
  proof (cases "validate_publish s (ob_payload r)")
    case None
    obtain y v where y: "run_state ?send w = (y, v)" by force
    have "x = Inr () \<longleftrightarrow> y = Inr ()" "w' = v"
      using assms Inr None y
      by (auto simp: publish_event_def publish_with_options_def run_chain run_map_error split: sum.splits)
    moreover have "sw_db v = sw_db w \<or> sw_db v = with_message ?m (sw_db w)"
      using sql_exec_db [of "oe_env E" "\<lambda>_ d. (Inr (), d\<lparr>ox_stream := ox_stream d @ [?m]\<rparr>)" w] y by (auto simp: with_message_def)
    moreover have "y = Inr () \<Longrightarrow> sw_db v = with_message ?m (sw_db w)"
      using y by (auto simp: with_message_def dest!: sql_exec_Inr)
    ultimately show ?thesis using m by (cases x) auto
  next
    case (Some e)
    with assms Inr show ?thesis
      by (auto simp: publish_event_def publish_with_options_def run_chain run_map_error)
  qed
qed

lemma statement_step:
  assumes "run_state (map_error h (sql_exec E q)) w = (x, w')" "\<And>se. step\<^sup>*\<^sup>* (sw_db w) (snd (q se (sw_db w)))"
  shows "step\<^sup>*\<^sup>* (sw_db w) (sw_db w')"
  using assms sql_exec_db [of E q w] by (auto simp: run_map_error split: prod.splits sum.splits)

lemma publish_one_steps:
  assumes "run_state (publish_one E c r) w = (x, w')" "tracked r (sw_db w)"
  shows "outbox_step\<^sup>*\<^sup>* (sw_db w) (sw_db w')"
proof -
  obtain y v where y: "run_state (publish_event E r) w = (y, v)" by force
  from assms(2) obtain s where s: "s \<in> set (ox_rows (sw_db w))" "content s = content r" by (auto simp: tracked_def)
  from publish_event_run [OF y] have v: "outbox_step\<^sup>*\<^sup>* (sw_db w) (sw_db v)"
    and sent: "y = Inr () \<Longrightarrow> \<exists>m. message_of r = Some m \<and> sw_db v = with_message m (sw_db w)"
    using os_accept [OF s(1)] content_eqs(2) [OF s(2)] by auto
  have "outbox_step\<^sup>*\<^sup>* (sw_db v) (sw_db w')"
  proof (cases y)
    case (Inl e)
    with assms(1) y have "run_state (map_error (Wrap ''mark outbox event %s failed after publish error: %w'' [uuid_string (ob_id r)])
        (mark_event_failed E (ob_id r) e (duration_seconds (retry_delay (pc_base c) (pc_max c) (ob_attempts r))))) v = (x, w')"
      by (simp add: publish_one_def run_handle)
    then show ?thesis unfolding mark_event_failed_def by (rule statement_step) (auto intro: os_deferred)
  next
    case (Inr u)
    with sent obtain m where m: "message_of r = Some m" "sw_db v = with_message m (sw_db w)" by auto
    with s have "outbox_step\<^sup>*\<^sup>* (sw_db v) (snd (sql_mark_event_published (ob_id s) t (sw_db v)))" for t
      using content_eqs(2) [OF s(2)] by (intro r_into_rtranclp os_published [of s _ m]) (auto simp: with_message_def)
    moreover from Inr assms(1) y have "run_state (map_error (Wrap ''mark outbox event %s published: %w'' [uuid_string (ob_id r)])
        (mark_published E (ob_id r))) v = (x, w')"
      by (simp add: publish_one_def run_handle)
    ultimately show ?thesis unfolding mark_published_def using content_eqs(1) [OF s(2)] by - (rule statement_step, auto)
  qed
  with v show ?thesis by (rule rtranclp_trans)
qed

lemma claimed_tracked:
  "sql_claim_events worker n t d = (Inr events, d') \<Longrightarrow> r \<in> set events \<Longrightarrow> r \<in> set (ox_rows d') \<and> ob_locked r = Some t"
  by (auto simp: sql_claim_events_def Let_def update_rows_def claimed_event_def)

lemma publish_batch_steps:
  assumes "run_state (publish_batch E c) w = (x, w')"
  shows "outbox_step\<^sup>*\<^sup>* (sw_db w) (sw_db w')"
proof -
  obtain y v where y: "run_state (map_error (Wrap ''claim pending outbox events: %w'' []) (claim_pending E (pc_worker c) (pc_batch c))) w = (y, v)"
    by force
  then have v: "outbox_step\<^sup>*\<^sup>* (sw_db w) (sw_db v)"
    unfolding claim_pending_def by (rule statement_step) (auto intro: os_claim)
  show ?thesis
  proof (cases y)
    case (Inl e)
    with assms y v show ?thesis by (simp add: publish_batch_def run_chain)
  next
    case (Inr events)
    with y have "run_state (claim_pending E (pc_worker c) (pc_batch c)) w = (Inr events, v)" by (simp add: map_error_Inr)
    from sql_exec_Inr [OF this [unfolded claim_pending_def]]
    have tr: "tracked r (sw_db v)" if "r \<in> set events" for r
      using that claimed_tracked [of "pc_worker c" "pc_batch c" _ "sw_db w" events "sw_db v" r] by (auto simp: tracked_def)
    from assms y Inr have "run_state (for_each events (publish_one E c)) v = (x, w')" by (simp add: publish_batch_def run_chain)
    then have "outbox_step\<^sup>*\<^sup>* (sw_db v) (sw_db w')"
      using for_each_steps [of events "\<lambda>w. \<forall>r \<in> set events. tracked r (sw_db w)" "publish_one E c" outbox_step sw_db v x w']
        publish_one_steps tracked_step tr by blast
    with v show ?thesis by (rule rtranclp_trans)
  qed
qed

lemma release_steps:
  assumes "run_state (release_stale_locks E c) w = (x, w')"
  shows "outbox_step\<^sup>*\<^sup>* (sw_db w) (sw_db w')"
  using assms unfolding release_stale_locks_def by (rule statement_step) (auto intro: os_release)

interpretation outbox_world: sql_guarantee "outbox_step\<^sup>*\<^sup>*"
  by unfold_locales auto

lemma guarantee_of_runs: "(\<And>w x w'. run_state m w = (x, w') \<Longrightarrow> outbox_step\<^sup>*\<^sup>* (sw_db w) (sw_db w')) \<Longrightarrow> state_io_rel outbox_world.R m"
  by (auto simp: state_io_rel_def outbox_world.R_def) (metis prod.collapse)

lemma batch_guarantee: "state_io_rel outbox_world.R (publish_batch E c)"
  by (rule guarantee_of_runs) (rule publish_batch_steps)

lemma release_guarantee: "state_io_rel outbox_world.R (release_stale_locks E c)"
  by (rule guarantee_of_runs) (rule release_steps)

lemma publisher_loop_guarantee: "state_io_rel outbox_world.R (publisher_loop E c ticks)"
  by (induction ticks) (auto intro!: outbox_world.world.g_rules batch_guarantee release_guarantee)

section \<open>Histories\<close>

text \<open>Events are inserted by the transactions of other components; publishers start, run and stop.\<close>

datatype outbox_op = X_Insert new_event | X_Run publisher_config "bool list"

fun run_outbox :: "outbox_env \<Rightarrow> outbox_op \<Rightarrow> outbox_db sql_world \<Rightarrow> outbox_db sql_world" where
  "run_outbox E (X_Insert ev) w = snd (run_state (insert_event E ev) w)"
| "run_outbox E (X_Run c ticks) w = snd (run_state (publisher_run E c ticks) w)"

lemma run_outbox_steps: "outbox_step\<^sup>*\<^sup>* (sw_db w) (sw_db (run_outbox E op w))"
proof (cases op)
  case (X_Insert ev)
  have "outbox_step\<^sup>*\<^sup>* d (snd (sql_insert_outbox ev p i t d))" for p i t d
  proof (cases "fst (sql_insert_outbox ev p i t d)")
    case (Inl e)
    then have "snd (sql_insert_outbox ev p i t d) = d"
      by (auto simp: sql_insert_outbox_def Let_def with_texts_def constrained_def split: if_splits option.splits)
    then show ?thesis by simp
  next
    case (Inr r)
    then have "sql_insert_outbox ev p i t d = (Inr r, snd (sql_insert_outbox ev p i t d))" by (simp add: prod_eq_iff)
    then show ?thesis by (blast intro: os_insert)
  qed
  then have "state_io_rel outbox_world.R (insert_event E ev)"
    unfolding insert_event_def by (intro outbox_world.world.g_rules outbox_world.exec)
  with X_Insert show ?thesis by (simp add: outbox_world.run)
next
  case (X_Run c ticks)
  have "state_io_rel outbox_world.R (publisher_run E c ticks)"
    unfolding publisher_run_def by (intro outbox_world.world.g_rules publisher_loop_guarantee release_guarantee)
  with X_Run show ?thesis by (simp add: outbox_world.run)
qed

section \<open>What the outbox promises\<close>

text \<open>C8: over every history of inserted events and publisher runs, whatever statements and publishes fail, before or
  after their effect, no event is lost or altered, an event marked as published stays so, is unlocked and its message is in the
  stream, and the stream holds messages of events only.\<close>

theorem outbox_delivers:
  assumes "outbox_agrees (sw_db w)"
  shows "outbox_agrees (sw_db (fold (run_outbox E) ops w)) \<and> persists (sw_db w) (sw_db (fold (run_outbox E) ops w))"
proof
  show "outbox_agrees (sw_db (fold (run_outbox E) ops w))"
    by (rule history_invariant [where step = outbox_step]) (rule run_outbox_steps, fact step_agrees, rule assms)
  have "outbox_step\<^sup>*\<^sup>* (sw_db w) (sw_db (fold (run_outbox E) ops w))"
    by (rule history_refines) (rule run_outbox_steps)
  then show "persists (sw_db w) (sw_db (fold (run_outbox E) ops w))" by (rule steps_persist)
qed

definition demo_outbox_event :: new_event where
  "demo_outbox_event = \<lparr>ne_subject = ''call.ringing'', ne_kind = ''call'', ne_object = UUID ''c1'', ne_payload = Inr ''{}'',
     ne_headers = [(''event_type'', ''call.ringing'')], ne_available = None\<rparr>"

definition demo_outbox_env :: outbox_env where
  "demo_outbox_env = \<lparr>oe_env = (\<lambda>n. \<lparr>sq_fault = None, sq_now = int n, sq_fresh = UUID ''e1''\<rparr>), oe_text = (\<lambda>_. ''failed'')\<rparr>"

theorem outbox_delivers_witness:
  "outbox_agrees (sw_db (fold (run_outbox demo_outbox_env) [X_Insert demo_outbox_event, X_Run (default_publisher_config ''w'') [True]]
     \<lparr>sw_tick = 0, sw_db = \<lparr>ox_rows = [], ox_stream = []\<rparr>\<rparr>))
   \<and> persists \<lparr>ox_rows = [], ox_stream = []\<rparr> (sw_db (fold (run_outbox demo_outbox_env)
       [X_Insert demo_outbox_event, X_Run (default_publisher_config ''w'') [True]] \<lparr>sw_tick = 0, sw_db = \<lparr>ox_rows = [], ox_stream = []\<rparr>\<rparr>))"
  using outbox_delivers [of "\<lparr>sw_tick = 0, sw_db = \<lparr>ox_rows = [], ox_stream = []\<rparr>\<rparr>" demo_outbox_env
      "[X_Insert demo_outbox_event, X_Run (default_publisher_config ''w'') [True]]"]
  by (simp add: outbox_agrees_def)

section \<open>A finished batch\<close>

definition locked_rows :: "outbox_db \<Rightarrow> outbox_row set" where
  "locked_rows d = {s \<in> set (ox_rows d). ob_locked s \<noteq> None}"

lemma publish_one_settles:
  assumes "run_state (publish_one E c r) w = (Inr (), w')" "outbox_agrees (sw_db w)"
  shows "locked_rows (sw_db w') \<subseteq> {s \<in> locked_rows (sw_db w). ob_id s \<noteq> ob_id r}"
proof -
  obtain y v where y: "run_state (publish_event E r) w = (y, v)" by force
  from publish_event_run [OF y] have rows: "ox_rows (sw_db v) = ox_rows (sw_db w)" by (auto simp: with_message_def)
  obtain f where f: "\<And>s. ob_locked (f s) = None"
    and w': "ox_rows (sw_db w') = update_rows (\<lambda>s. ob_id s = ob_id r \<and> ob_published s = None) f (ox_rows (sw_db v))"
  proof (cases y)
    case (Inl e)
    with assms(1) y obtain t where
      "sql_mark_event_failed (ob_id r) (oe_text E e) (duration_seconds (retry_delay (pc_base c) (pc_max c) (ob_attempts r))) t (sw_db v) = (Inr (), sw_db w')"
      by (auto simp: publish_one_def run_handle map_error_Inr mark_event_failed_def dest!: sql_exec_Inr)
    then have "sw_db w' = (sw_db v)\<lparr>ox_rows := update_rows (\<lambda>s. ob_id s = ob_id r \<and> ob_published s = None)
        (deferred_event (oe_text E e) (duration_seconds (retry_delay (pc_base c) (pc_max c) (ob_attempts r))) t) (ox_rows (sw_db v))\<rparr>"
      unfolding sql_mark_event_failed_def by (auto dest!: with_texts_Inr)
    then show thesis by (intro that) (simp_all add: deferred_event_def)
  next
    case (Inr u)
    with assms(1) y obtain t where "sql_mark_event_published (ob_id r) t (sw_db v) = (Inr (), sw_db w')"
      by (auto simp: publish_one_def run_handle map_error_Inr mark_published_def dest!: sql_exec_Inr)
    then have "snd (sql_mark_event_published (ob_id r) t (sw_db v)) = sw_db w'" by simp
    from this [symmetric] show thesis by (intro that [of "published_event t"]) (simp_all add: sql_mark_event_published_def published_event_def)
  qed
  show ?thesis
  proof
    fix s assume "s \<in> locked_rows (sw_db w')"
    then obtain q where q: "q \<in> set (ox_rows (sw_db w))" "ob_locked s \<noteq> None"
        "s = (if ob_id q = ob_id r \<and> ob_published q = None then f q else q)"
      unfolding locked_rows_def w' rows using set_update_rows by fastforce
    then have "s = q \<and> \<not> (ob_id q = ob_id r \<and> ob_published q = None)" using f by (auto split: if_splits)
    moreover have "ob_published q \<noteq> None \<Longrightarrow> ob_locked q = None" using assms(2) q(1) unfolding outbox_agrees_def by blast
    ultimately show "s \<in> {s \<in> locked_rows (sw_db w). ob_id s \<noteq> ob_id r}" using q unfolding locked_rows_def by auto
  qed
qed

lemma claim_rest:
  assumes "sql_claim_events worker n t d = (Inr events, d')" "s \<in> set (ox_rows d')" "ob_id s \<notin> ob_id ` set events"
  shows "s \<in> set (ox_rows d)"
proof -
  let ?p = "\<lambda>r. ob_id r \<in> ob_id ` set (take (nat n) (order_by earlier_event (filter (pending_event t) (ox_rows d))))"
  from assms(1) have events: "events = map (claimed_event worker t) (filter ?p (ox_rows d))"
    and rows: "ox_rows d' = update_rows ?p (claimed_event worker t) (ox_rows d)"
    by (auto simp: sql_claim_events_def Let_def)
  from assms(2) rows obtain q where q: "q \<in> set (ox_rows d)" "s = (if ?p q then claimed_event worker t q else q)"
    using set_update_rows [of s ?p "claimed_event worker t" "ox_rows d"] by auto
  have "\<not> ?p q"
  proof
    assume p: "?p q"
    with q have "s = claimed_event worker t q" by (simp only: if_True)
    with q(1) p have "s \<in> set events" unfolding events by simp
    with assms(3) show False by blast
  qed
  with q show ?thesis by (simp only: if_False)
qed

lemma publish_all_settles:
  assumes "run_state (for_each events (publish_one E c)) w = (Inr (), w')" "outbox_agrees (sw_db w)"
    and "\<And>r. r \<in> set events \<Longrightarrow> tracked r (sw_db w)"
  shows "locked_rows (sw_db w') \<subseteq> {s \<in> locked_rows (sw_db w). ob_id s \<notin> ob_id ` set events}"
  using assms
proof (induction events arbitrary: w)
  case (Cons r rs)
  from Cons.prems(1) obtain v where v: "run_state (publish_one E c r) w = (Inr (), v)" "run_state (for_each rs (publish_one E c)) v = (Inr (), w')"
    by (auto simp: chain_Inr)
  have steps: "outbox_step\<^sup>*\<^sup>* (sw_db w) (sw_db v)" using v(1) Cons.prems(3) by (intro publish_one_steps [of E c r w]) auto
  have "outbox_agrees (sw_db v)"
    using steps Cons.prems(2) by (rule star_invariant [where I = outbox_agrees]) (rule step_agrees)
  then have "locked_rows (sw_db w') \<subseteq> {s \<in> locked_rows (sw_db v). ob_id s \<notin> ob_id ` set rs}"
    using v(2) tracked_step [OF steps] Cons.prems(3) by (intro Cons.IH) auto
  with publish_one_settles [OF v(1) Cons.prems(2)] show ?case by auto
qed auto



section \<open>The delay between attempts\<close>

lemma double_delay_exact:
  "0 < delay \<Longrightarrow> delay \<le> limit \<Longrightarrow> limit \<le> 2 ^ 62 \<Longrightarrow> double_delay limit n delay = min limit (delay * 2 ^ n)"
proof (induction limit n delay rule: double_delay.induct)
  case (2 limit n delay)
  show ?case
  proof (cases "delay < limit")
    case True
    with 2(4) have "wrap64 (delay * 2) = delay * 2" using 2(2) by (intro wrap64_id) (simp add: in_int64_def)
    moreover have "limit \<le> delay * (2 * 2 ^ n)" if "limit \<le> delay * 2"
      by (rule order_trans [OF that]) (use 2(2) in simp)
    ultimately show ?thesis using True 2 by (auto simp: Let_def min_def)
  next
    case False
    with 2 have "delay = limit" by simp
    then show ?thesis using 2(2) one_le_power [of "2 :: int" "Suc n"] by (simp add: min_def)
  qed
qed simp

text \<open>The delay before the next attempt of an event doubles with every attempt, from the base delay up to the maximum, and never
  overflows: it is exactly the smaller of the maximum and the base times a power of two.\<close>

theorem retry_delay_exact:
  assumes "0 < base" "base \<le> limit" "limit \<le> 2 ^ 62" "1 \<le> attempt"
  shows "retry_delay base limit attempt = min limit (base * 2 ^ nat (attempt - 1))"
  using assms by (simp add: retry_delay_def double_delay_exact)

theorem retry_delay_exact_witness: "retry_delay (2 * second_ns) (300 * second_ns) 5 = 32 * second_ns"
  using retry_delay_exact [of "2 * second_ns" "300 * second_ns" 5] by (simp add: second_ns_def)

end
