(* ===== verification/Hook_Store.thy ===== *)
theory Hook_Store
  imports Sql_World Go_Json
begin

text \<open>
  The webhook tables (\<open>migrations/009_create_webhook.sql\<close>) and the statements of the webhook service and of the
  delivery job (\<open>webhook_endpoints.sql.go\<close>, \<open>webhook_events.sql.go\<close>, \<open>webhook_deliveries.sql.go\<close>). A statement is
  atomic and its constraints are checked on its result.
\<close>

section \<open>Tables\<close>

record hook_endpoint =
  we_id :: uuid
  we_org :: uuid
  we_url :: string
  we_secret :: string
  we_enabled :: bool
  we_events :: "string list"
  we_created :: int
  we_updated :: int
  we_disabled :: "int option"
  we_failures :: int
  we_last_failure :: "int option"
  we_reason :: "string option"

record hook_event =
  wv_id :: uuid
  wv_org :: uuid
  wv_type :: string
  wv_object_type :: string
  wv_object :: "uuid option"
  wv_payload :: string
  wv_occurred :: int
  wv_created :: int

record hook_delivery =
  wd_id :: uuid
  wd_event :: uuid
  wd_endpoint :: uuid
  wd_status :: string
  wd_attempts :: int
  wd_replays :: int
  wd_next :: int
  wd_last :: "int option"
  wd_replayed :: "int option"
  wd_code :: "int option"
  wd_body :: "string option"
  wd_error :: "string option"
  wd_delivered :: "int option"
  wd_locked :: "int option"
  wd_worker :: "string option"
  wd_created :: int
  wd_updated :: int

record hook_db =
  hd_orgs :: "organization_row list"
  hd_endpoints :: "hook_endpoint list"
  hd_events :: "hook_event list"
  hd_deliveries :: "hook_delivery list"

definition hook_endpoint_ok :: "hook_endpoint \<Rightarrow> bool" where
  "hook_endpoint_ok e \<longleftrightarrow> starts_with ''https://'' (we_url e) \<and> we_secret e \<noteq> []
     \<and> we_events e \<noteq> [] \<and> [] \<notin> set (we_events e)
     \<and> (we_enabled e \<longleftrightarrow> we_disabled e = None) \<and> 0 \<le> we_failures e
     \<and> we_reason e \<in> {None, Some ''manual'', Some ''failure_threshold''}"

definition hook_event_ok :: "hook_event \<Rightarrow> bool" where
  "hook_event_ok v \<longleftrightarrow> not_blank (wv_type v)
     \<and> \<not> contains_any (wv_type v) [CHR '' '', CHR 0x09, CHR 0x0A, CHR 0x0B, CHR 0x0C, CHR 0x0D]
     \<and> not_blank (wv_object_type v) \<and> json_object (wv_payload v)"

definition hook_delivery_ok :: "hook_delivery \<Rightarrow> bool" where
  "hook_delivery_ok v \<longleftrightarrow> wd_status v \<in> {''pending'', ''retrying'', ''succeeded'', ''failed'', ''canceled''}
     \<and> 0 \<le> wd_attempts v
     \<and> (case wd_code v of None \<Rightarrow> True | Some c \<Rightarrow> 100 \<le> c \<and> c \<le> 599)
     \<and> (wd_locked v = None \<longleftrightarrow> wd_worker v = None)
     \<and> (wd_status v = ''succeeded'' \<longrightarrow> wd_delivered v \<noteq> None)"

definition hook_schema :: "(string \<times> (hook_db \<Rightarrow> bool)) list" where
  "hook_schema =
     [(''23514'', \<lambda>d. list_all hook_endpoint_ok (hd_endpoints d)),
      (''23514'', \<lambda>d. list_all hook_event_ok (hd_events d)),
      (''23514'', \<lambda>d. list_all hook_delivery_ok (hd_deliveries d)),
      (''23505'', \<lambda>d. distinct (map we_id (hd_endpoints d))),
      (''23505'', \<lambda>d. distinct (map wv_id (hd_events d))),
      (''23505'', \<lambda>d. distinct (map wd_id (hd_deliveries d))),
      (''23505'', \<lambda>d. distinct (map (\<lambda>v. (wd_event v, wd_endpoint v)) (hd_deliveries d))),
      (''23503'', \<lambda>d. set (map wv_org (hd_events d)) \<subseteq> set (map og_id (hd_orgs d)))]"

abbreviation hooked :: "hook_db \<Rightarrow> (go_err + 'a) \<times> hook_db \<Rightarrow> (go_err + 'a) \<times> hook_db" where
  "hooked \<equiv> constrained hook_schema"

definition org_active :: "hook_db \<Rightarrow> uuid \<Rightarrow> bool" where
  "org_active d org \<longleftrightarrow> list_ex (\<lambda>g. og_id g = org \<and> og_status g = ''active'') (hd_orgs d)"

section \<open>Endpoints\<close>

definition the_hook :: "uuid \<Rightarrow> uuid \<Rightarrow> hook_endpoint \<Rightarrow> bool" where
  "the_hook org i e \<longleftrightarrow> we_id e = i \<and> we_org e = org"

definition new_hook_endpoint :: "uuid \<Rightarrow> string \<Rightarrow> string list \<Rightarrow> bool option \<Rightarrow> string \<Rightarrow> uuid \<Rightarrow> int \<Rightarrow> hook_endpoint" where
  "new_hook_endpoint org u events enabled secret fresh now =
     \<lparr>we_id = fresh, we_org = org, we_url = u, we_secret = secret, we_enabled = keep_or enabled True, we_events = events,
      we_created = now, we_updated = now, we_disabled = None, we_failures = 0, we_last_failure = None, we_reason = None\<rparr>"

definition sql_create_hook ::
  "uuid \<Rightarrow> string \<Rightarrow> string list \<Rightarrow> bool option \<Rightarrow> string \<Rightarrow> uuid \<Rightarrow> int \<Rightarrow> hook_db \<Rightarrow> (go_err + hook_endpoint) \<times> hook_db" where
  "sql_create_hook org u events enabled secret fresh now d =
     with_texts (u # events) d
       (if org_active d org
        then let e = new_hook_endpoint org u events enabled secret fresh now
             in hooked d (Inr e, d\<lparr>hd_endpoints := hd_endpoints d @ [e]\<rparr>)
        else (Inl err_no_rows, d))"

definition sql_get_hook :: "uuid \<Rightarrow> uuid \<Rightarrow> hook_db \<Rightarrow> go_err + hook_endpoint" where
  "sql_get_hook org i d = one_row (\<lambda>e. the_hook org i e \<and> org_active d (we_org e)) (hd_endpoints d)"

definition sql_list_hooks :: "uuid \<Rightarrow> hook_db \<Rightarrow> hook_endpoint list" where
  "sql_list_hooks org d = order_by (\<lambda>a b. we_created b \<le> we_created a) (filter (\<lambda>e. we_org e = org) (hd_endpoints d))"

definition update_hook :: "(hook_endpoint \<Rightarrow> bool) \<Rightarrow> (hook_endpoint \<Rightarrow> hook_endpoint) \<Rightarrow> hook_db \<Rightarrow> hook_db" where
  "update_hook p f d = d\<lparr>hd_endpoints := update_rows p f (hd_endpoints d)\<rparr>"

definition updated_hook :: "string option \<Rightarrow> string list option \<Rightarrow> bool option \<Rightarrow> int \<Rightarrow> hook_endpoint \<Rightarrow> hook_endpoint" where
  "updated_hook u events enabled now e = e\<lparr>we_url := keep_or u (we_url e),
     we_events := (case events of None \<Rightarrow> we_events e | Some v \<Rightarrow> v),
     we_enabled := keep_or enabled (we_enabled e),
     we_disabled := (case enabled of Some False \<Rightarrow> Some now | Some True \<Rightarrow> None | None \<Rightarrow> we_disabled e),
     we_reason := (case enabled of Some False \<Rightarrow> Some ''manual'' | Some True \<Rightarrow> None | None \<Rightarrow> we_reason e),
     we_updated := now\<rparr>"

definition sql_update_hook ::
  "uuid \<Rightarrow> uuid \<Rightarrow> string option \<Rightarrow> string list option \<Rightarrow> bool option \<Rightarrow> int \<Rightarrow> hook_db \<Rightarrow> (go_err + hook_endpoint) \<times> hook_db" where
  "sql_update_hook org i u events enabled now d =
     with_texts (texts [u] @ keep_or events []) d
       (case one_row (the_hook org i) (hd_endpoints d) of
          Inl e \<Rightarrow> (Inl e, d)
        | Inr e \<Rightarrow> hooked d (Inr (updated_hook u events enabled now e), update_hook (the_hook org i) (updated_hook u events enabled now) d))"

definition sql_disable_hook :: "uuid \<Rightarrow> uuid \<Rightarrow> int \<Rightarrow> hook_db \<Rightarrow> (go_err + unit) \<times> hook_db" where
  "sql_disable_hook org i now d = (Inr (), update_hook (\<lambda>e. the_hook org i e \<and> we_enabled e)
     (\<lambda>e. e\<lparr>we_enabled := False, we_disabled := Some now, we_reason := Some ''manual'', we_updated := now\<rparr>) d)"

definition sql_rotate_secret :: "uuid \<Rightarrow> uuid \<Rightarrow> string \<Rightarrow> int \<Rightarrow> hook_db \<Rightarrow> (go_err + hook_endpoint) \<times> hook_db" where
  "sql_rotate_secret org i secret now d =
     (case one_row (the_hook org i) (hd_endpoints d) of
        Inl e \<Rightarrow> (Inl e, d)
      | Inr e \<Rightarrow> hooked d (Inr (e\<lparr>we_secret := secret, we_updated := now\<rparr>),
                    update_hook (the_hook org i) (\<lambda>e. e\<lparr>we_secret := secret, we_updated := now\<rparr>) d))"

section \<open>Events\<close>

definition sql_create_hook_event :: "hook_event \<Rightarrow> int \<Rightarrow> hook_db \<Rightarrow> (go_err + hook_event) \<times> hook_db" where
  "sql_create_hook_event v now d =
     with_texts [wv_type v, wv_object_type v, wv_payload v] d
       (if wv_id v \<in> set (map wv_id (hd_events d)) then (Inl err_no_rows, d)
        else hooked d (Inr (v\<lparr>wv_created := now\<rparr>), d\<lparr>hd_events := hd_events d @ [v\<lparr>wv_created := now\<rparr>]\<rparr>))"

definition sql_get_hook_event :: "uuid \<Rightarrow> uuid \<Rightarrow> hook_db \<Rightarrow> go_err + hook_event" where
  "sql_get_hook_event org i d = one_row (\<lambda>v. wv_id v = i \<and> wv_org v = org \<and> org_active d org) (hd_events d)"

section \<open>Deliveries\<close>

definition hook_wants :: "hook_db \<Rightarrow> uuid \<Rightarrow> hook_endpoint \<Rightarrow> bool" where
  "hook_wants d event e \<longleftrightarrow> we_enabled e \<and> we_disabled e = None
     \<and> list_ex (\<lambda>v. wv_id v = event \<and> wv_org v = we_org e \<and> wv_type v \<in> set (we_events e) \<and> org_active d (wv_org v)) (hd_events d)"

definition new_delivery :: "uuid \<Rightarrow> int \<Rightarrow> int \<Rightarrow> hook_endpoint \<times> uuid \<Rightarrow> hook_delivery" where
  "new_delivery event at now ef = \<lparr>wd_id = snd ef, wd_event = event, wd_endpoint = we_id (fst ef), wd_status = ''pending'',
     wd_attempts = 0, wd_replays = 0, wd_next = at, wd_last = None, wd_replayed = None, wd_code = None, wd_body = None,
     wd_error = None, wd_delivered = None, wd_locked = None, wd_worker = None, wd_created = now, wd_updated = now\<rparr>"

text \<open>\<open>ids\<close> are the identities \<open>gen_random_uuid\<close> gives the rows of the statement.\<close>

definition wanting_hooks :: "uuid \<Rightarrow> hook_db \<Rightarrow> hook_endpoint list" where
  "wanting_hooks event d = filter (\<lambda>e. hook_wants d event e
     \<and> (event, we_id e) \<notin> set (map (\<lambda>v. (wd_event v, wd_endpoint v)) (hd_deliveries d))) (hd_endpoints d)"

definition sql_create_deliveries :: "uuid \<Rightarrow> int \<Rightarrow> (nat \<Rightarrow> uuid) \<Rightarrow> int \<Rightarrow> hook_db \<Rightarrow> (go_err + int) \<times> hook_db" where
  "sql_create_deliveries event at ids now d =
     (let hs = wanting_hooks event d;
          rows = map (new_delivery event at now) (zip hs (map ids [0..<length hs]))
      in hooked d (Inr (int (length rows)), d\<lparr>hd_deliveries := hd_deliveries d @ rows\<rparr>))"

definition delivery_event :: "hook_db \<Rightarrow> hook_delivery \<Rightarrow> hook_event option" where
  "delivery_event d v = find (\<lambda>e. wv_id e = wd_event v) (hd_events d)"

definition delivery_hook :: "hook_db \<Rightarrow> hook_delivery \<Rightarrow> hook_endpoint option" where
  "delivery_hook d v = find (\<lambda>e. we_id e = wd_endpoint v) (hd_endpoints d)"

definition delivery_visible :: "uuid \<Rightarrow> hook_db \<Rightarrow> hook_delivery \<Rightarrow> bool" where
  "delivery_visible org d v \<longleftrightarrow> (case delivery_event d v of None \<Rightarrow> False | Some e \<Rightarrow> wv_org e = org \<and> org_active d org)"

definition sql_get_delivery :: "uuid \<Rightarrow> uuid \<Rightarrow> hook_db \<Rightarrow> go_err + hook_delivery" where
  "sql_get_delivery org i d = one_row (\<lambda>v. wd_id v = i \<and> delivery_visible org d v) (hd_deliveries d)"

definition sql_list_deliveries :: "uuid \<Rightarrow> uuid \<Rightarrow> int \<Rightarrow> int \<Rightarrow> hook_db \<Rightarrow> hook_delivery list" where
  "sql_list_deliveries org i limit offset d = take (nat limit) (drop (nat offset)
     (order_by (\<lambda>a b. wd_created b \<le> wd_created a) (filter (\<lambda>v. wd_endpoint v = i \<and> delivery_visible org d v) (hd_deliveries d))))"

definition open_status :: "string \<Rightarrow> bool" where
  "open_status s \<longleftrightarrow> s = ''pending'' \<or> s = ''retrying''"

definition claimable :: "int \<Rightarrow> int \<Rightarrow> hook_db \<Rightarrow> hook_delivery \<Rightarrow> bool" where
  "claimable stale now d v \<longleftrightarrow> open_status (wd_status v) \<and> wd_next v \<le> now
     \<and> (case delivery_hook d v of None \<Rightarrow> False | Some e \<Rightarrow> we_enabled e \<and> we_disabled e = None)
     \<and> (case delivery_event d v of None \<Rightarrow> False | Some e \<Rightarrow> org_active d (wv_org e))
     \<and> (case wd_locked v of None \<Rightarrow> True | Some at \<Rightarrow> at < stale)"

definition earlier_delivery :: "hook_delivery \<Rightarrow> hook_delivery \<Rightarrow> bool" where
  "earlier_delivery a b \<longleftrightarrow> wd_next a < wd_next b \<or> wd_next a = wd_next b \<and> wd_created a \<le> wd_created b"

definition claimed_delivery :: "string \<Rightarrow> int \<Rightarrow> hook_delivery \<Rightarrow> hook_delivery" where
  "claimed_delivery worker now v = v\<lparr>wd_locked := Some now, wd_worker := Some worker, wd_attempts := wd_attempts v + 1,
     wd_last := Some now, wd_updated := now\<rparr>"

text \<open>The row a claim returns: the delivery joined with its event and its endpoint.\<close>

record claimed_row =
  cw_id :: uuid
  cw_event :: uuid
  cw_endpoint :: uuid
  cw_attempts :: int
  cw_org :: uuid
  cw_type :: string
  cw_payload :: string
  cw_occurred :: int
  cw_url :: string
  cw_secret :: string

definition claimed_row_of :: "hook_db \<Rightarrow> hook_delivery \<Rightarrow> claimed_row option" where
  "claimed_row_of d v = (case (delivery_event d v, delivery_hook d v) of
     (Some e, Some h) \<Rightarrow> Some \<lparr>cw_id = wd_id v, cw_event = wd_event v, cw_endpoint = wd_endpoint v, cw_attempts = wd_attempts v,
        cw_org = wv_org e, cw_type = wv_type e, cw_payload = wv_payload e, cw_occurred = wv_occurred e,
        cw_url = we_url h, cw_secret = we_secret h\<rparr>
   | _ \<Rightarrow> None)"

definition sql_claim_deliveries :: "string \<Rightarrow> int \<Rightarrow> int \<Rightarrow> int \<Rightarrow> hook_db \<Rightarrow> (go_err + claimed_row list) \<times> hook_db" where
  "sql_claim_deliveries worker stale limit now d =
     (let due = take (nat limit) (order_by earlier_delivery (filter (claimable stale now d) (hd_deliveries d)));
          p = (\<lambda>v. wd_id v \<in> wd_id ` set due);
          claimed = map (claimed_delivery worker now) (filter p (hd_deliveries d))
      in (Inr (List.map_filter (claimed_row_of d) claimed),
          d\<lparr>hd_deliveries := update_rows p (claimed_delivery worker now) (hd_deliveries d)\<rparr>))"

text \<open>The statements of a worker reach a delivery only while the worker holds its lock.\<close>

definition held_by :: "string \<Rightarrow> uuid \<Rightarrow> hook_delivery \<Rightarrow> bool" where
  "held_by worker i v \<longleftrightarrow> wd_id v = i \<and> wd_worker v = Some worker"

definition settle_delivery ::
  "string \<Rightarrow> uuid \<Rightarrow> (hook_delivery \<Rightarrow> hook_delivery) \<Rightarrow> (uuid \<Rightarrow> hook_endpoint list \<Rightarrow> hook_endpoint list) \<Rightarrow> hook_db
     \<Rightarrow> (go_err + unit) \<times> hook_db" where
  "settle_delivery worker i f g d =
     (case one_row (held_by worker i) (hd_deliveries d) of
        Inl e \<Rightarrow> (Inl e, d)
      | Inr v \<Rightarrow> hooked d (Inr (), d\<lparr>hd_deliveries := update_rows (held_by worker i) f (hd_deliveries d),
                                   hd_endpoints := g (wd_endpoint v) (hd_endpoints d)\<rparr>))"

definition succeeded_delivery :: "int option \<Rightarrow> string option \<Rightarrow> int \<Rightarrow> hook_delivery \<Rightarrow> hook_delivery" where
  "succeeded_delivery code body now v = v\<lparr>wd_status := ''succeeded'', wd_code := code, wd_body := body, wd_error := None,
     wd_delivered := Some now, wd_locked := None, wd_worker := None, wd_updated := now\<rparr>"

definition reset_failures :: "int \<Rightarrow> uuid \<Rightarrow> hook_endpoint list \<Rightarrow> hook_endpoint list" where
  "reset_failures now i = update_rows (\<lambda>e. we_id e = i \<and> we_enabled e \<and> 0 < we_failures e)
     (\<lambda>e. e\<lparr>we_failures := 0, we_last_failure := None, we_reason := None, we_updated := now\<rparr>)"

definition sql_mark_delivered :: "string \<Rightarrow> uuid \<Rightarrow> int option \<Rightarrow> string option \<Rightarrow> int \<Rightarrow> hook_db \<Rightarrow> (go_err + unit) \<times> hook_db" where
  "sql_mark_delivered worker i code body now d =
     with_texts (texts [body]) d (settle_delivery worker i (succeeded_delivery code body now) (reset_failures now) d)"

definition rescheduled_delivery :: "int \<Rightarrow> int option \<Rightarrow> string option \<Rightarrow> string \<Rightarrow> int \<Rightarrow> hook_delivery \<Rightarrow> hook_delivery" where
  "rescheduled_delivery at code body message now v = v\<lparr>wd_status := ''retrying'', wd_next := at, wd_code := code, wd_body := body,
     wd_error := Some message, wd_locked := None, wd_worker := None, wd_updated := now\<rparr>"

definition sql_reschedule_delivery ::
  "string \<Rightarrow> uuid \<Rightarrow> int \<Rightarrow> int option \<Rightarrow> string option \<Rightarrow> string \<Rightarrow> int \<Rightarrow> hook_db \<Rightarrow> (go_err + unit) \<times> hook_db" where
  "sql_reschedule_delivery worker i at code body message now d =
     with_texts (message # texts [body]) d (settle_delivery worker i (rescheduled_delivery at code body message now) (\<lambda>_ es. es) d)"

definition failed_delivery :: "int option \<Rightarrow> string option \<Rightarrow> string \<Rightarrow> int \<Rightarrow> hook_delivery \<Rightarrow> hook_delivery" where
  "failed_delivery code body message now v = v\<lparr>wd_status := ''failed'', wd_code := code, wd_body := body,
     wd_error := Some message, wd_locked := None, wd_worker := None, wd_updated := now\<rparr>"

definition failing_hook :: "int \<Rightarrow> int \<Rightarrow> hook_endpoint \<Rightarrow> hook_endpoint" where
  "failing_hook threshold now e =
     (let over = (threshold \<le> we_failures e + 1) in
      e\<lparr>we_failures := we_failures e + 1, we_last_failure := Some now,
        we_enabled := (if over then False else we_enabled e),
        we_disabled := (if over then (case we_disabled e of None \<Rightarrow> Some now | Some at \<Rightarrow> Some at) else we_disabled e),
        we_reason := (if we_enabled e \<and> over then Some ''failure_threshold'' else we_reason e), we_updated := now\<rparr>)"

definition sql_mark_delivery_failed ::
  "string \<Rightarrow> uuid \<Rightarrow> int option \<Rightarrow> string option \<Rightarrow> string \<Rightarrow> int \<Rightarrow> int \<Rightarrow> hook_db \<Rightarrow> (go_err + unit) \<times> hook_db" where
  "sql_mark_delivery_failed worker i code body message threshold now d =
     with_texts (message # texts [body]) d
       (settle_delivery worker i (failed_delivery code body message now)
          (\<lambda>e. update_rows (\<lambda>h. we_id h = e) (failing_hook threshold now)) d)"

definition retried_delivery :: "int \<Rightarrow> hook_delivery \<Rightarrow> hook_delivery" where
  "retried_delivery now v = v\<lparr>wd_status := ''pending'', wd_next := now, wd_code := None, wd_body := None, wd_error := None,
     wd_delivered := None, wd_locked := None, wd_worker := None, wd_updated := now\<rparr>"

definition may_retry :: "uuid \<Rightarrow> uuid \<Rightarrow> hook_db \<Rightarrow> hook_delivery \<Rightarrow> bool" where
  "may_retry org i d v \<longleftrightarrow> wd_id v = i \<and> wd_status v = ''failed'' \<and> delivery_visible org d v
     \<and> (case delivery_hook d v of None \<Rightarrow> False | Some e \<Rightarrow> we_enabled e \<and> we_disabled e = None)"

definition sql_retry_delivery :: "uuid \<Rightarrow> uuid \<Rightarrow> int \<Rightarrow> hook_db \<Rightarrow> (go_err + hook_delivery) \<times> hook_db" where
  "sql_retry_delivery org i now d =
     (case one_row (may_retry org i d) (hd_deliveries d) of
        Inl e \<Rightarrow> (Inl e, d)
      | Inr v \<Rightarrow> hooked d (Inr (retried_delivery now v),
                    d\<lparr>hd_deliveries := update_rows (may_retry org i d) (retried_delivery now) (hd_deliveries d)\<rparr>))"

definition sql_cancel_deliveries :: "uuid \<Rightarrow> uuid \<Rightarrow> int \<Rightarrow> hook_db \<Rightarrow> (go_err + int) \<times> hook_db" where
  "sql_cancel_deliveries org i now d =
     (let p = (\<lambda>v. wd_endpoint v = i \<and> list_ex (the_hook org i) (hd_endpoints d) \<and> open_status (wd_status v))
      in (Inr (int (length (filter p (hd_deliveries d)))),
          d\<lparr>hd_deliveries := update_rows p (\<lambda>v. v\<lparr>wd_status := ''canceled'', wd_locked := None, wd_worker := None,
              wd_error := Some ''Webhook endpoint disabled before delivery'', wd_updated := now\<rparr>) (hd_deliveries d)\<rparr>))"

end
