(* ===== verification/Hook_Service.thy ===== *)
theory Hook_Service
  imports Hook_Store Event_Outbox Net_Egress
begin

text \<open>
  The webhook service (\<open>platform/webhooks\<close>: \<open>validation.go\<close>, \<open>repository.go\<close>, \<open>service.go\<close>, \<open>signing.go\<close>), the
  consumer that turns messages of the event stream into deliveries (\<open>consumer.go\<close>), the HTTP sender
  (\<open>delivery.go\<close>) and the delivery job (\<open>jobs.go\<close>). What is not code of the repository is a field of
  \<open>hook_service\<close>: random bytes, \<open>net/url\<close>, the JSON encoder of the envelope, HMAC-SHA256, the HTTP exchange, the
  text of an error and the end of the context.
\<close>

section \<open>Environment\<close>

record http_request =
  rq_url :: url_parts
  rq_headers :: "(string \<times> string) list"
  rq_body :: string

text \<open>A response is its status, the bytes of its body and the error that ends them.\<close>

record http_response =
  rp_code :: int
  rp_bytes :: string
  rp_end :: "go_err option"

record hook_service =
  hk_env :: "nat \<Rightarrow> sql_env"
  hk_ids :: "nat \<Rightarrow> nat \<Rightarrow> uuid"
  hk_random :: "nat \<Rightarrow> go_err + string"
  hk_url :: "string \<Rightarrow> url_parts option"
  hk_envelope :: "uuid \<Rightarrow> string \<Rightarrow> int \<Rightarrow> string \<Rightarrow> go_err + string"
  hk_hmac :: "string \<Rightarrow> string \<Rightarrow> string"
  hk_http :: "nat \<Rightarrow> http_request \<Rightarrow> go_err + http_response"
  hk_text :: "go_err \<Rightarrow> string"
  hk_done :: "nat \<Rightarrow> bool"
  hk_has_db :: bool

type_synonym 'a hook_action = "(hook_db, 'a) sql_action"

section \<open>Validation\<close>

definition hook_valid_org :: "uuid \<Rightarrow> go_err option" where
  "hook_valid_org v = (if v = uuid_nil then Some (new_bad_request ''organization_id is required'') else None)"

definition hook_valid_ids :: "uuid \<Rightarrow> uuid \<Rightarrow> go_err option" where
  "hook_valid_ids org i = or_else (hook_valid_org org) (if i = uuid_nil then Some (new_bad_request ''webhook id is required'') else None)"

record hook_inbound =
  hi_id :: uuid
  hi_org :: uuid
  hi_type :: string
  hi_object_type :: string
  hi_object :: "uuid option"
  hi_payload :: string
  hi_at :: int

definition validate_inbound_event :: "hook_inbound \<Rightarrow> go_err option" where
  "validate_inbound_event ev = first_error
     [(hi_id ev = uuid_nil, Errf ''webhook event id is required'' []),
      (hi_org ev = uuid_nil, Errf ''webhook event organization id is required'' []),
      (trim_space (hi_type ev) = [], Errf ''webhook event type is required'' []),
      (trim_space (hi_object_type ev) = [], Errf ''webhook event object type is required'' []),
      (hi_at ev = zero_time, Errf ''webhook event occurred_at is required'' []),
      (\<not> json_object (hi_payload ev), Errf ''webhook event payload must be a JSON object'' [])]"

definition normalize_hook_url :: "hook_service \<Rightarrow> string \<Rightarrow> go_err + string" where
  "normalize_hook_url S v0 =
     (let v = trim_space v0 in
      (case parse_https (hk_url S) v of
         Inl e \<Rightarrow> Inl (new_bad_request (''invalid webhook URL: '' @ hk_text S e))
       | Inr _ \<Rightarrow> Inr v))"

fun hook_event_loop :: "string list \<Rightarrow> string list \<Rightarrow> go_err + string list" where
  "hook_event_loop seen [] = Inr []"
| "hook_event_loop seen (e # es) =
     (let event = trim_space e in
      if event = [] \<or> contains_any event [CHR '' '', CHR 0x09, CHR 0x0D, CHR 0x0A]
      then Inl (new_bad_request ''subscribed_events must contain non-empty event names'')
      else if event \<in> set seen then hook_event_loop seen es
      else rbind (hook_event_loop (event # seen) es) (\<lambda>out. Inr (event # out)))"

definition normalize_events :: "string list \<Rightarrow> go_err + string list" where
  "normalize_events v = (if v = [] then Inl (new_bad_request ''subscribed_events is required'') else hook_event_loop [] v)"

record hook_create =
  hc_url :: string
  hc_events :: "string list"
  hc_enabled :: "bool option"

record hook_update =
  hu_url :: "string option"
  hu_events :: "string list option"
  hu_enabled :: "bool option"

definition normalize_hook_create :: "hook_service \<Rightarrow> hook_create \<Rightarrow> go_err + hook_create" where
  "normalize_hook_create S r =
     rbind (normalize_hook_url S (hc_url r)) (\<lambda>u. rbind (normalize_events (hc_events r)) (\<lambda>es. Inr (r\<lparr>hc_url := u, hc_events := es\<rparr>)))"

definition normalize_hook_update :: "hook_service \<Rightarrow> hook_update \<Rightarrow> go_err + hook_update" where
  "normalize_hook_update S r =
     rbind (case hu_url r of None \<Rightarrow> Inr None | Some u \<Rightarrow> rbind (normalize_hook_url S u) (\<lambda>x. Inr (Some x))) (\<lambda>u.
     rbind (case hu_events r of None \<Rightarrow> Inr None | Some es \<Rightarrow> rbind (normalize_events es) (\<lambda>x. Inr (Some x))) (\<lambda>es.
     Inr (r\<lparr>hu_url := u, hu_events := es\<rparr>)))"

section \<open>Signing\<close>

definition hex_digit :: "nat \<Rightarrow> char" where
  "hex_digit n = (if n < 10 then char_of (48 + n) else char_of (87 + n))"

definition hex_encode :: "string \<Rightarrow> string" where
  "hex_encode = List.maps (\<lambda>c. let n = (of_char c :: nat) in [hex_digit (n div 16), hex_digit (n mod 16)])"

definition signed_payload :: "int \<Rightarrow> string \<Rightarrow> string" where
  "signed_payload unix body = int_dec unix @ ''.'' @ body"

definition sign :: "hook_service \<Rightarrow> string \<Rightarrow> string \<Rightarrow> int \<Rightarrow> string" where
  "sign S secret body unix = ''v1='' @ hex_encode (hk_hmac S secret (signed_payload unix body))"

definition new_signing_secret :: "hook_service \<Rightarrow> string hook_action" where
  "new_signing_secret S = do { n \<leftarrow> sql_tick;
     State_Monad.return (rmap_error (Wrap ''generate signing secret: %w'' []) (hk_random S n)) }"

section \<open>The service\<close>

definition hook_read_err :: "string \<Rightarrow> 'a hook_action \<Rightarrow> 'a hook_action" where
  "hook_read_err msg = map_error (\<lambda>e. if errors_is e err_no_rows then new_not_found msg else new_internal msg (Some e))"

definition hook_exec :: "hook_service \<Rightarrow> (sql_env \<Rightarrow> hook_db \<Rightarrow> (go_err + 'a) \<times> hook_db) \<Rightarrow> 'a hook_action" where
  "hook_exec S q = sql_exec (hk_env S) q"

definition hook_query :: "hook_service \<Rightarrow> (hook_db \<Rightarrow> go_err + 'a) \<Rightarrow> 'a hook_action" where
  "hook_query S q = sql_query (hk_env S) (\<lambda>_. q)"

definition hook_create_op :: "hook_service \<Rightarrow> uuid \<Rightarrow> hook_create \<Rightarrow> (hook_endpoint \<times> string) hook_action" where
  "hook_create_op S org req0 =
     chain (of_check (hook_valid_org org)) (\<lambda>_.
     chain (State_Monad.return (normalize_hook_create S req0)) (\<lambda>req.
     chain (map_error (\<lambda>e. new_internal ''generate webhook secret'' (Some e)) (new_signing_secret S)) (\<lambda>secret.
     chain (hook_read_err ''create webhook''
              (hook_exec S (\<lambda>se. sql_create_hook org (hc_url req) (hc_events req) (hc_enabled req) secret (sq_fresh se) (sq_now se)))) (\<lambda>v.
     succeed (v, secret)))))"

definition hook_list_op :: "hook_service \<Rightarrow> uuid \<Rightarrow> hook_endpoint list hook_action" where
  "hook_list_op S org = chain (of_check (hook_valid_org org)) (\<lambda>_. hook_query S (\<lambda>d. Inr (sql_list_hooks org d)))"

definition hook_get_op :: "hook_service \<Rightarrow> uuid \<Rightarrow> uuid \<Rightarrow> hook_endpoint hook_action" where
  "hook_get_op S org i = chain (of_check (hook_valid_ids org i)) (\<lambda>_.
     hook_read_err ''webhook not found'' (hook_query S (sql_get_hook org i)))"

definition hook_update_op :: "hook_service \<Rightarrow> uuid \<Rightarrow> uuid \<Rightarrow> hook_update \<Rightarrow> hook_endpoint hook_action" where
  "hook_update_op S org i req0 =
     chain (of_check (hook_valid_ids org i)) (\<lambda>_.
     chain (State_Monad.return (normalize_hook_update S req0)) (\<lambda>req.
     hook_read_err ''webhook not found''
       (hook_exec S (\<lambda>se. sql_update_hook org i (hu_url req) (hu_events req) (hu_enabled req) (sq_now se)))))"

definition hook_delete_op :: "hook_service \<Rightarrow> uuid \<Rightarrow> uuid \<Rightarrow> unit hook_action" where
  "hook_delete_op S org i =
     chain (of_check (hook_valid_ids org i)) (\<lambda>_.
     chain (hook_get_op S org i) (\<lambda>_.
     chain (hook_read_err ''disable webhook'' (hook_exec S (\<lambda>se. sql_disable_hook org i (sq_now se)))) (\<lambda>_.
     chain (hook_read_err ''cancel webhook deliveries'' (hook_exec S (\<lambda>se. sql_cancel_deliveries org i (sq_now se)))) (\<lambda>_.
     succeed ()))))"

definition hook_rotate_op :: "hook_service \<Rightarrow> uuid \<Rightarrow> uuid \<Rightarrow> (hook_endpoint \<times> string) hook_action" where
  "hook_rotate_op S org i =
     chain (of_check (hook_valid_ids org i)) (\<lambda>_.
     chain (map_error (\<lambda>e. new_internal ''generate webhook secret'' (Some e)) (new_signing_secret S)) (\<lambda>secret.
     chain (hook_read_err ''webhook not found'' (hook_exec S (\<lambda>se. sql_rotate_secret org i secret (sq_now se)))) (\<lambda>v.
     succeed (v, secret))))"

definition hook_list_deliveries_op :: "hook_service \<Rightarrow> uuid \<Rightarrow> uuid \<Rightarrow> int \<Rightarrow> int \<Rightarrow> hook_delivery list hook_action" where
  "hook_list_deliveries_op S org i limit offset =
     chain (of_check (hook_valid_ids org i)) (\<lambda>_.
     chain (of_check (first_error
        [(limit < 1 \<or> 100 < limit, new_bad_request ''limit must be between 1 and 100''),
         (offset < 0, new_bad_request ''offset must not be negative'')])) (\<lambda>_.
     hook_query S (\<lambda>d. Inr (sql_list_deliveries org i limit offset d))))"

definition hook_get_delivery_op :: "hook_service \<Rightarrow> uuid \<Rightarrow> uuid \<Rightarrow> uuid \<Rightarrow> hook_delivery hook_action" where
  "hook_get_delivery_op S org endpoint i =
     chain (of_check (hook_valid_ids org endpoint)) (\<lambda>_.
     chain (hook_read_err ''webhook delivery not found'' (hook_query S (sql_get_delivery org i))) (\<lambda>v.
     if wd_endpoint v \<noteq> endpoint then fail (new_not_found ''webhook delivery not found'') else succeed v))"

definition hook_retry_op :: "hook_service \<Rightarrow> uuid \<Rightarrow> uuid \<Rightarrow> uuid \<Rightarrow> hook_delivery hook_action" where
  "hook_retry_op S org endpoint i =
     chain (hook_get_delivery_op S org endpoint i) (\<lambda>_.
     hook_read_err ''webhook delivery is not retryable'' (hook_exec S (\<lambda>se. sql_retry_delivery org i (sq_now se))))"

section \<open>Ingestion\<close>

definition hook_event_of :: "hook_inbound \<Rightarrow> hook_event" where
  "hook_event_of ev = \<lparr>wv_id = hi_id ev, wv_org = hi_org ev, wv_type = hi_type ev, wv_object_type = hi_object_type ev,
     wv_object = hi_object ev, wv_payload = hi_payload ev, wv_occurred = hi_at ev, wv_created = 0\<rparr>"

definition ingest_tx :: "hook_service \<Rightarrow> hook_inbound \<Rightarrow> unit hook_action" where
  "ingest_tx S ev =
     chain (handle (hook_exec S (\<lambda>se. sql_create_hook_event (hook_event_of ev) (sq_now se)))
       (\<lambda>e. if \<not> errors_is e err_no_rows then fail (Wrap ''create webhook event: %w'' [] e)
            else chain (map_error (Wrap ''get existing webhook event: %w'' []) (hook_query S (sql_get_hook_event (hi_org ev) (hi_id ev)))) (\<lambda>existing.
              if wv_type existing \<noteq> hi_type ev \<or> wv_object_type existing \<noteq> hi_object_type ev
              then fail (Errf ''webhook event %s conflicts with existing event metadata'' [uuid_string (hi_id ev)])
              else succeed ()))
       (\<lambda>_. succeed ())) (\<lambda>_.
     do { n \<leftarrow> sql_tick;
       chain (map_error (Wrap ''create webhook deliveries: %w'' [])
         (hook_exec S (\<lambda>se. sql_create_deliveries (hi_id ev) (sq_now (hk_env S n)) (hk_ids S n) (sq_now se)))) (\<lambda>_.
       succeed ()) })"

definition ingest :: "hook_service \<Rightarrow> hook_inbound \<Rightarrow> unit hook_action" where
  "ingest S ev =
     chain (of_check (validate_inbound_event ev)) (\<lambda>_.
     if \<not> hk_has_db S then fail (Errf ''webhook database is required for event ingestion'' [])
     else in_tx (hk_env S) (Wrap ''begin webhook event transaction: %w'' []) (Wrap ''commit webhook event transaction: %w'' [])
            (ingest_tx S ev))"

text \<open>
  \<open>inboundEventFromMessage\<close>: \<open>parse\<close> is google/uuid's parser, \<open>decode\<close> the JSON decoder of the one field
  \<open>occurred_at\<close>, whose absence is the zero time.
\<close>

definition nats_get :: "nats_msg \<Rightarrow> string \<Rightarrow> string" where
  "nats_get m name = (case map_of (nm_headers m) name of None \<Rightarrow> [] | Some v \<Rightarrow> v)"

definition header_uuid :: "(string \<Rightarrow> uuid option) \<Rightarrow> string \<Rightarrow> string \<Rightarrow> go_err + uuid" where
  "header_uuid parse message v = (case parse (trim_space v) of
     None \<Rightarrow> Inl (Wrap message [] (Errf ''invalid UUID'' [])) | Some i \<Rightarrow> Inr i)"

definition trim_prefix :: "string \<Rightarrow> string \<Rightarrow> string" where
  "trim_prefix p s = (if starts_with p s then drop (length p) s else s)"

definition message_type :: "nats_msg \<Rightarrow> string" where
  "message_type m = (let t = trim_space (nats_get m ''event_type'')
     in if t = [] then trim_prefix events_subject_prefix (nm_subject m) else t)"

definition inbound_event_of ::
  "(string \<Rightarrow> uuid option) \<Rightarrow> (string \<Rightarrow> go_err + int) \<Rightarrow> nats_msg \<Rightarrow> go_err + hook_inbound" where
  "inbound_event_of parse decode m =
     rbind (header_uuid parse ''invalid webhook event id: %w'' (nats_get m header_event_id)) (\<lambda>i.
     rbind (header_uuid parse ''invalid webhook organization id: %w'' (nats_get m ''organization_id'')) (\<lambda>org.
     let kind = trim_space (nats_get m header_aggregate_type) in
     if message_type m = [] \<or> kind = [] then Inl (Errf ''webhook event metadata is incomplete'' [])
     else rbind (if trim_space (nats_get m header_aggregate_id) = [] then Inr None
                 else rbind (header_uuid parse ''invalid webhook object id: %w'' (nats_get m header_aggregate_id)) (\<lambda>x. Inr (Some x))) (\<lambda>obj.
          rbind (rmap_error (Wrap ''decode webhook event payload: %w'' []) (decode (nm_data m))) (\<lambda>at.
          Inr \<lparr>hi_id = i, hi_org = org, hi_type = message_type m, hi_object_type = kind, hi_object = obj,
               hi_payload = nm_data m, hi_at = at\<rparr>))))"

datatype ack_action = Ack | Nak | Term

definition consume_hook ::
  "hook_service \<Rightarrow> (string \<Rightarrow> uuid option) \<Rightarrow> (string \<Rightarrow> go_err + int) \<Rightarrow> nats_msg \<Rightarrow> (hook_db sql_world, ack_action) state" where
  "consume_hook S parse decode m = (case inbound_event_of parse decode m of
     Inl _ \<Rightarrow> State_Monad.return Term
   | Inr ev \<Rightarrow> handle (ingest S ev) (\<lambda>_. State_Monad.return Nak) (\<lambda>_. State_Monad.return Ack))"

section \<open>Sending\<close>

record attempt =
  at_code :: "int option"
  at_body :: "string option"
  at_err :: "go_err option"

definition attempt_failure :: "string \<Rightarrow> go_err \<Rightarrow> attempt" where
  "attempt_failure message e = \<lparr>at_code = None, at_body = None, at_err = Some (Wrap message [] e)\<rparr>"

definition max_response_body :: nat where "max_response_body = 4096"

text \<open>\<open>io.ReadAll(io.LimitReader(body, n))\<close>: an error after the limit is not read.\<close>

definition read_limited :: "nat \<Rightarrow> http_response \<Rightarrow> string \<times> go_err option" where
  "read_limited n r = (take n (rp_bytes r), if length (rp_bytes r) < n then rp_end r else None)"

definition delivery_request :: "hook_service \<Rightarrow> int \<Rightarrow> claimed_row \<Rightarrow> url_parts \<Rightarrow> string \<Rightarrow> http_request" where
  "delivery_request S now v u body =
     \<lparr>rq_url = u,
      rq_headers = [(''Content-Type'', ''application/json''), (''User-Agent'', ''Leamout-Webhooks/1.0''),
        (''X-Leamout-Event'', cw_type v), (''X-Leamout-Event-ID'', uuid_string (cw_event v)),
        (''X-Leamout-Timestamp'', int_dec (now div 1000000)),
        (''X-Leamout-Signature'', sign S (cw_secret v) body (now div 1000000))],
      rq_body = body\<rparr>"

definition http_send :: "hook_service \<Rightarrow> nat \<Rightarrow> int \<Rightarrow> claimed_row \<Rightarrow> attempt" where
  "http_send S n now v = (case hk_envelope S (cw_event v) (cw_type v) (cw_occurred v) (cw_payload v) of
     Inl e \<Rightarrow> attempt_failure ''marshal webhook delivery: %w'' e
   | Inr body \<Rightarrow> (case parse_https (hk_url S) (cw_url v) of
       Inl e \<Rightarrow> attempt_failure ''validate webhook destination: %w'' e
     | Inr u \<Rightarrow> (case hk_http S n (delivery_request S now v u body) of
         Inl e \<Rightarrow> \<lparr>at_code = None, at_body = None, at_err = Some e\<rparr>
       | Inr r \<Rightarrow> (case read_limited max_response_body r of (text, e) \<Rightarrow>
           \<lparr>at_code = Some (rp_code r), at_body = Some text, at_err = map_option (Wrap ''read webhook response: %w'' []) e\<rparr>))))"

definition attempt_error :: "hook_service \<Rightarrow> attempt \<Rightarrow> string" where
  "attempt_error S a = (case at_err a of Some e \<Rightarrow> hk_text S e
     | None \<Rightarrow> (case at_code a of Some c \<Rightarrow> ''webhook endpoint returned HTTP '' @ int_dec c | None \<Rightarrow> ''webhook delivery failed''))"

definition delivery_succeeded :: "attempt \<Rightarrow> bool" where
  "delivery_succeeded a \<longleftrightarrow> at_err a = None \<and> (case at_code a of None \<Rightarrow> False | Some c \<Rightarrow> 200 \<le> c \<and> c < 300)"

definition retryable_delivery :: "attempt \<Rightarrow> bool" where
  "retryable_delivery a \<longleftrightarrow> at_err a \<noteq> None
     \<or> (case at_code a of None \<Rightarrow> True | Some c \<Rightarrow> c = 408 \<or> c = 425 \<or> c = 429 \<or> 500 \<le> c)"

section \<open>The delivery job\<close>

record delivery_config =
  dj_worker :: string
  dj_batch :: int
  dj_poll :: int
  dj_lock :: int
  dj_base :: int
  dj_max :: int
  dj_attempts :: int
  dj_disable :: int

definition default_delivery_config :: "string \<Rightarrow> delivery_config" where
  "default_delivery_config worker = \<lparr>dj_worker = worker, dj_batch = 50, dj_poll = 500000000, dj_lock = 30 * second_ns,
     dj_base = 2 * second_ns, dj_max = 300 * second_ns, dj_attempts = 8, dj_disable = 5\<rparr>"

definition new_delivery_job :: "bool \<Rightarrow> bool \<Rightarrow> delivery_config \<Rightarrow> go_err + delivery_config" where
  "new_delivery_job has_repo has_sender c0 =
     (let c1 = c0\<lparr>dj_batch := if dj_batch c0 \<le> 0 then 50 else dj_batch c0,
                  dj_poll := if dj_poll c0 \<le> 0 then 500000000 else dj_poll c0,
                  dj_lock := if dj_lock c0 \<le> 0 then 30 * second_ns else dj_lock c0,
                  dj_base := if dj_base c0 \<le> 0 then 2 * second_ns else dj_base c0\<rparr>
      in checked (first_error
           [(\<not> has_repo, Errf ''webhook repository is required'' []),
            (\<not> has_sender, Errf ''webhook delivery sender is required'' []),
            (dj_worker c0 = [], Errf ''webhook delivery worker id is required'' [])])
         (c1\<lparr>dj_max := if dj_max c1 < dj_base c1 then 300 * second_ns else dj_max c1,
             dj_attempts := if dj_attempts c1 \<le> 0 then 8 else dj_attempts c1,
             dj_disable := if dj_disable c1 \<le> 0 then 5 else dj_disable c1\<rparr>))"

definition deliver_one :: "hook_service \<Rightarrow> delivery_config \<Rightarrow> claimed_row \<Rightarrow> unit hook_action" where
  "deliver_one S c v =
     do { n \<leftarrow> sql_tick;
       let a = http_send S n (sq_now (hk_env S n)) v;
           i = cw_id v in
       if delivery_succeeded a
       then map_error (Wrap ''mark webhook delivery %s succeeded: %w'' [uuid_string i])
              (hook_exec S (\<lambda>se. sql_mark_delivered (dj_worker c) i (at_code a) (at_body a) (sq_now se)))
       else if retryable_delivery a \<and> cw_attempts v < dj_attempts c
       then do { m \<leftarrow> sql_tick;
              map_error (Wrap ''schedule webhook delivery %s retry: %w'' [uuid_string i])
                (hook_exec S (\<lambda>se. sql_reschedule_delivery (dj_worker c) i
                   (sq_now (hk_env S m) + retry_delay (dj_base c) (dj_max c) (cw_attempts v) div 1000)
                   (at_code a) (at_body a) (attempt_error S a) (sq_now se))) }
       else map_error (Wrap ''mark webhook delivery %s failed: %w'' [uuid_string i])
              (hook_exec S (\<lambda>se. sql_mark_delivery_failed (dj_worker c) i (at_code a) (at_body a) (attempt_error S a) (dj_disable c) (sq_now se))) }"

fun deliver_all :: "hook_service \<Rightarrow> delivery_config \<Rightarrow> claimed_row list \<Rightarrow> unit hook_action" where
  "deliver_all S c [] = succeed ()"
| "deliver_all S c (v # vs) =
     do { n \<leftarrow> sql_tick;
       if hk_done S n then succeed () else chain (deliver_one S c v) (\<lambda>_. deliver_all S c vs) }"

definition claim_deliveries :: "hook_service \<Rightarrow> delivery_config \<Rightarrow> nat \<Rightarrow> claimed_row list hook_action" where
  "claim_deliveries S c n = hook_exec S (\<lambda>se.
     sql_claim_deliveries (dj_worker c) (sq_now (hk_env S n) - dj_lock c div 1000) (dj_batch c) (sq_now se))"

definition deliver_batch :: "hook_service \<Rightarrow> delivery_config \<Rightarrow> unit hook_action" where
  "deliver_batch S c =
     do { n \<leftarrow> sql_tick;
       chain (map_error (Wrap ''claim webhook deliveries: %w'' []) (claim_deliveries S c n)) (deliver_all S c) }"

text \<open>\<open>Run\<close>: batches until one fails or the context is done; \<open>rounds\<close> counts the ticks before that.\<close>

fun delivery_run :: "hook_service \<Rightarrow> delivery_config \<Rightarrow> nat \<Rightarrow> unit hook_action" where
  "delivery_run S c 0 = deliver_batch S c"
| "delivery_run S c (Suc rounds) = chain (deliver_batch S c) (\<lambda>_. delivery_run S c rounds)"

section \<open>Test deliveries\<close>

definition send_test :: "hook_service \<Rightarrow> (int \<Rightarrow> go_err + string) \<Rightarrow> nat \<Rightarrow> int \<Rightarrow> hook_endpoint \<Rightarrow> go_err + int" where
  "send_test S envelope n now e =
     rbind (envelope now) (\<lambda>body.
     rbind (rmap_error (Wrap ''validate webhook destination: %w'' []) (parse_https (hk_url S) (we_url e))) (\<lambda>u.
     rbind (hk_http S n \<lparr>rq_url = u,
        rq_headers = [(''Content-Type'', ''application/json''), (''User-Agent'', ''Leamout-Webhooks/1.0''),
          (''X-Leamout-Event'', ''webhook.test''), (''X-Leamout-Timestamp'', int_dec (now div 1000000)),
          (''X-Leamout-Signature'', sign S (we_secret e) body (now div 1000000))],
        rq_body = body\<rparr>) (\<lambda>r. Inr (rp_code r))))"

definition hook_test_op :: "hook_service \<Rightarrow> (int \<Rightarrow> go_err + string) \<Rightarrow> uuid \<Rightarrow> uuid \<Rightarrow> int hook_action" where
  "hook_test_op S envelope org i =
     chain (hook_get_op S org i) (\<lambda>v.
     if \<not> we_enabled v then fail (new_bad_request ''webhook is disabled'')
     else do { n \<leftarrow> sql_tick;
       State_Monad.return (rmap_error (\<lambda>e. new_internal ''send webhook test'' (Some e)) (send_test S envelope n (sq_now (hk_env S n)) v)) })"

end
