(* ===== verification/Hook_Spec.thy ===== *)
theory Hook_Spec
  imports Hook_Service
begin

text \<open>
  The abstract specification of the webhook tables: \<open>hook_step\<close> lists the committed effects of the service, the
  ingestion and the delivery workers, and every history of their operations only performs such
  steps. On it: the schema, the references between the tables, and the life of a delivery.
\<close>

section \<open>Committed effects\<close>

inductive hook_step :: "hook_db \<Rightarrow> hook_db \<Rightarrow> bool" where
  hs_create: "hook_step d (snd (sql_create_hook org u es en secret i t d))"
| hs_update: "hook_step d (snd (sql_update_hook org i u es en t d))"
| hs_disable: "hook_step d (snd (sql_disable_hook org i t d))"
| hs_rotate: "hook_step d (snd (sql_rotate_secret org i secret t d))"
| hs_cancel: "hook_step d (snd (sql_cancel_deliveries org i t d))"
| hs_retry: "hook_step d (snd (sql_retry_delivery org i t d))"
| hs_ingest: "sql_create_hook_event v t d = (r, d1) \<Longrightarrow> sql_create_deliveries (wv_id v) at ids t' d1 = (Inr n, d2)
    \<Longrightarrow> hook_step d d2"
| hs_ingest_again: "sql_create_deliveries i at ids t d = (Inr n, d2) \<Longrightarrow> hook_step d d2"
| hs_claim: "hook_step d (snd (sql_claim_deliveries worker stale n t d))"
| hs_delivered: "hook_step d (snd (sql_mark_delivered worker i code body t d))"
| hs_rescheduled: "hook_step d (snd (sql_reschedule_delivery worker i at code body message t d))"
| hs_failed: "hook_step d (snd (sql_mark_delivery_failed worker i code body message threshold t d))"

interpretation hg: sql_guarantee "hook_step\<^sup>*\<^sup>*"
  by unfold_locales auto

named_theorems hguar \<open>guarantees of webhook operations\<close>

lemma h_exec: "(\<And>se d. hook_step d (snd (q se d))) \<Longrightarrow> state_io_rel hg.R (hook_exec S q)"
  unfolding hook_exec_def by (rule hg.exec) blast

lemma h_query [hguar]: "state_io_rel hg.R (hook_query S q)"
  unfolding hook_query_def by (rule hg.query)

lemma h_statements [hguar]:
  "state_io_rel hg.R (hook_exec S (\<lambda>se. sql_create_hook org u es en secret (sq_fresh se) (sq_now se)))"
  "state_io_rel hg.R (hook_exec S (\<lambda>se. sql_update_hook org i u' es' en (sq_now se)))"
  "state_io_rel hg.R (hook_exec S (\<lambda>se. sql_disable_hook org i (sq_now se)))"
  "state_io_rel hg.R (hook_exec S (\<lambda>se. sql_rotate_secret org i secret (sq_now se)))"
  "state_io_rel hg.R (hook_exec S (\<lambda>se. sql_cancel_deliveries org i (sq_now se)))"
  "state_io_rel hg.R (hook_exec S (\<lambda>se. sql_retry_delivery org i (sq_now se)))"
  "state_io_rel hg.R (hook_exec S (\<lambda>se. sql_claim_deliveries worker stale n (sq_now se)))"
  "state_io_rel hg.R (hook_exec S (\<lambda>se. sql_mark_delivered worker i code body (sq_now se)))"
  "state_io_rel hg.R (hook_exec S (\<lambda>se. sql_reschedule_delivery worker i at code body message (sq_now se)))"
  "state_io_rel hg.R (hook_exec S (\<lambda>se. sql_mark_delivery_failed worker i code body message threshold (sq_now se)))"
  by (rule h_exec, rule hook_step.intros)+

lemma h_read_err [hguar]: "state_io_rel hg.R m \<Longrightarrow> state_io_rel hg.R (hook_read_err msg m)"
  unfolding hook_read_err_def by (rule hg.world.g_map_error)

lemma h_secret [hguar]: "state_io_rel hg.R (new_signing_secret S)"
  unfolding new_signing_secret_def by (intro hg.world.g_rules hg.tick)

lemma h_operations [hguar]:
  "state_io_rel hg.R (hook_create_op S org c)" "state_io_rel hg.R (hook_list_op S org)" "state_io_rel hg.R (hook_get_op S org i)"
  "state_io_rel hg.R (hook_update_op S org i req)" "state_io_rel hg.R (hook_rotate_op S org i)"
  "state_io_rel hg.R (hook_list_deliveries_op S org i l off)" "state_io_rel hg.R (hook_get_delivery_op S org e i)"
  unfolding hook_create_op_def hook_list_op_def hook_get_op_def hook_update_op_def hook_rotate_op_def
    hook_list_deliveries_op_def hook_get_delivery_op_def
  by (intro hg.world.g_rules hguar)+

lemma h_operations' [hguar]:
  "state_io_rel hg.R (hook_delete_op S org i)" "state_io_rel hg.R (hook_retry_op S org e i)" "state_io_rel hg.R (hook_test_op S env org i)"
  unfolding hook_delete_op_def hook_retry_op_def hook_test_op_def by (intro hg.world.g_rules hguar hg.tick)+

lemma ingest_tx_runs:
  assumes "run_state (ingest_tx S ev) w = (Inr (), w')"
  obtains r w1 n t count where
    "run_state (hook_exec S (\<lambda>se. sql_create_hook_event (hook_event_of ev) (sq_now se))) w = (r, w1)"
    "(\<exists>x. r = Inr x) \<or> (\<exists>x. sql_get_hook_event (hi_org ev) (hi_id ev) (sw_db w1) = Inr x
       \<and> wv_type x = hi_type ev \<and> wv_object_type x = hi_object_type ev)"
    "sql_create_deliveries (hi_id ev) (sq_now (hk_env S n)) (hk_ids S n) t (sw_db w1) = (Inr count, sw_db w')"
proof -
  let ?create = "hook_exec S (\<lambda>se. sql_create_hook_event (hook_event_of ev) (sq_now se)) :: hook_event hook_action"
  obtain r w1 where r: "run_state ?create w = (r, w1)" by force
  from assms obtain w2 x where first: "run_state (handle ?create (\<lambda>e. if \<not> errors_is e err_no_rows then fail (Wrap ''create webhook event: %w'' [] e)
            else chain (map_error (Wrap ''get existing webhook event: %w'' []) (hook_query S (sql_get_hook_event (hi_org ev) (hi_id ev)))) (\<lambda>existing.
              if wv_type existing \<noteq> hi_type ev \<or> wv_object_type existing \<noteq> hi_object_type ev
              then fail (Errf ''webhook event %s conflicts with existing event metadata'' [uuid_string (hi_id ev)])
              else succeed ())) (\<lambda>_. succeed ())) w = (Inr x, w2)"
    and rest: "run_state (do { n \<leftarrow> sql_tick;
       chain (map_error (Wrap ''create webhook deliveries: %w'' [])
         (hook_exec S (\<lambda>se. sql_create_deliveries (hi_id ev) (sq_now (hk_env S n)) (hk_ids S n) (sq_now se)))) (\<lambda>_.
       succeed ()) }) w2 = (Inr (), w')"
    unfolding ingest_tx_def by (auto simp: chain_Inr)
  from first have w2: "sw_db w2 = sw_db w1 \<and> ((\<exists>x. r = Inr x) \<or> (\<exists>x. sql_get_hook_event (hi_org ev) (hi_id ev) (sw_db w1) = Inr x
       \<and> wv_type x = hi_type ev \<and> wv_object_type x = hi_object_type ev))"
    by (cases r) (auto simp: run_handle r chain_Inr map_error_Inr hook_query_def split: if_splits dest!: sql_query_Inr)
  define n where "n = sw_tick w2"
  from rest obtain count where "run_state (hook_exec S (\<lambda>se. sql_create_deliveries (hi_id ev) (sq_now (hk_env S n)) (hk_ids S n) (sq_now se)))
      (w2\<lparr>sw_tick := Suc n\<rparr>) = (Inr count, w')"
    by (auto simp: chain_Inr map_error_Inr n_def)
  then obtain t where "sql_create_deliveries (hi_id ev) (sq_now (hk_env S n)) (hk_ids S n) t (sw_db w2) = (Inr count, sw_db w')"
    unfolding hook_exec_def by (auto dest!: sql_exec_Inr)
  with r w2 that show thesis by metis
qed

lemma ingest_tx_step:
  assumes "run_state (ingest_tx S ev) w = (Inr (), w')"
  shows "hook_step (sw_db w) (sw_db w')"
  using assms
proof (cases rule: ingest_tx_runs)
  case (1 r w1 n t count)
  define t' where "t' = sq_now (hk_env S (sw_tick w))"
  let ?v = "hook_event_of ev"
  from 1(3) have deliveries: "sql_create_deliveries (wv_id ?v) (sq_now (hk_env S n)) (hk_ids S n) t (sw_db w1) = (Inr count, sw_db w')"
    by (simp add: hook_event_of_def)
  have "sw_db w1 = sw_db w \<or> sw_db w1 = snd (sql_create_hook_event ?v t' (sw_db w))"
    using sql_exec_db [of "hk_env S" "\<lambda>se. sql_create_hook_event ?v (sq_now se)" w] 1(1) by (simp add: hook_exec_def t'_def)
  then show ?thesis
  proof
    assume "sw_db w1 = sw_db w"
    with deliveries show ?thesis by (auto intro: hs_ingest_again)
  next
    assume "sw_db w1 = snd (sql_create_hook_event ?v t' (sw_db w))"
    then have "sql_create_hook_event ?v t' (sw_db w) = (fst (sql_create_hook_event ?v t' (sw_db w)), sw_db w1)" by (simp add: prod_eq_iff)
    with deliveries show ?thesis by (blast intro: hs_ingest)
  qed
qed

lemma h_ingest [hguar]: "state_io_rel hg.R (ingest S ev)"
  unfolding ingest_def
  by (intro hg.world.g_rules hg.tx) (use ingest_tx_step in \<open>metis (full_types) r_into_rtranclp old.unit.exhaust\<close>)

lemma h_consume [hguar]: "state_io_rel hg.R (consume_hook S parse decode m)"
  unfolding consume_hook_def by (intro hg.world.g_rules hguar)

lemma h_deliver_one [hguar]: "state_io_rel hg.R (deliver_one S c v)"
  unfolding deliver_one_def by (intro hg.world.g_rules hguar hg.tick)

lemma h_deliver_all [hguar]: "state_io_rel hg.R (deliver_all S c vs)"
  by (induction vs) (auto intro!: hg.world.g_rules hguar hg.tick)

lemma h_deliver_batch [hguar]: "state_io_rel hg.R (deliver_batch S c)"
  unfolding deliver_batch_def claim_deliveries_def by (intro hg.world.g_rules hguar hg.tick)

lemma h_delivery_run [hguar]: "state_io_rel hg.R (delivery_run S c rounds)"
  by (induction rounds) (auto intro!: hg.world.g_rules hguar)

section \<open>Histories\<close>

text \<open>What reaches the webhook tables: requests of the API, messages of the event stream, runs of the delivery job.\<close>

datatype hook_op =
    H_Create uuid hook_create | H_List uuid | H_Get uuid uuid | H_Update uuid uuid hook_update | H_Delete uuid uuid
  | H_Rotate uuid uuid | H_List_Deliveries uuid uuid int int | H_Get_Delivery uuid uuid uuid | H_Retry uuid uuid uuid
  | H_Test "int \<Rightarrow> go_err + string" uuid uuid
  | H_Message "string \<Rightarrow> uuid option" "string \<Rightarrow> go_err + int" nats_msg | H_Run delivery_config nat

fun run_hook :: "hook_service \<Rightarrow> hook_op \<Rightarrow> hook_db sql_world \<Rightarrow> hook_db sql_world" where
  "run_hook S (H_Create org req) w = snd (run_state (hook_create_op S org req) w)"
| "run_hook S (H_List org) w = snd (run_state (hook_list_op S org) w)"
| "run_hook S (H_Get org i) w = snd (run_state (hook_get_op S org i) w)"
| "run_hook S (H_Update org i u) w = snd (run_state (hook_update_op S org i u) w)"
| "run_hook S (H_Delete org i) w = snd (run_state (hook_delete_op S org i) w)"
| "run_hook S (H_Rotate org i) w = snd (run_state (hook_rotate_op S org i) w)"
| "run_hook S (H_List_Deliveries org i l off) w = snd (run_state (hook_list_deliveries_op S org i l off) w)"
| "run_hook S (H_Get_Delivery org e i) w = snd (run_state (hook_get_delivery_op S org e i) w)"
| "run_hook S (H_Retry org e i) w = snd (run_state (hook_retry_op S org e i) w)"
| "run_hook S (H_Test envelope org i) w = snd (run_state (hook_test_op S envelope org i) w)"
| "run_hook S (H_Message parse decode m) w = snd (run_state (consume_hook S parse decode m) w)"
| "run_hook S (H_Run c rounds) w = snd (run_state (delivery_run S c rounds) w)"

lemma run_hook_steps: "hook_step\<^sup>*\<^sup>* (sw_db w) (sw_db (run_hook S op w))"
  by (cases op) (simp_all add: hg.run hguar)

end
