(* ===== verification/Hook_Invariants.thy ===== *)
theory Hook_Invariants
  imports Hook_Spec
begin

text \<open>
  What holds of the webhook tables over every history: the constraints of the schema, the references between the
  tables, the locks, and the life of a delivery.
\<close>

section \<open>The tables\<close>

definition schema_ok :: "hook_db \<Rightarrow> bool" where
  "schema_ok d \<longleftrightarrow> (\<forall>(code, ok) \<in> set hook_schema. ok d)"

definition delivery_keys :: "hook_db \<Rightarrow> (uuid \<times> uuid) set" where
  "delivery_keys d = (\<lambda>v. (wd_event v, wd_endpoint v)) ` set (hd_deliveries d)"

definition event_keys :: "hook_db \<Rightarrow> (uuid \<times> uuid) set" where
  "event_keys d = (\<lambda>e. (wv_id e, wv_org e)) ` set (hd_events d)"

definition endpoint_keys :: "hook_db \<Rightarrow> (uuid \<times> uuid) set" where
  "endpoint_keys d = (\<lambda>h. (we_id h, we_org h)) ` set (hd_endpoints d)"

text \<open>Every delivery carries an event of an organization to an endpoint of the same organization.\<close>

definition linked :: "hook_db \<Rightarrow> bool" where
  "linked d \<longleftrightarrow> (\<forall>k \<in> delivery_keys d. \<exists>org. (fst k, org) \<in> event_keys d \<and> (snd k, org) \<in> endpoint_keys d)"

definition settled_unlocked :: "hook_delivery \<Rightarrow> bool" where
  "settled_unlocked v \<longleftrightarrow> open_status (wd_status v) \<or> wd_locked v = None \<and> wd_worker v = None"

definition hook_tables :: "hook_db \<Rightarrow> bool" where
  "hook_tables d \<longleftrightarrow> schema_ok d \<and> linked d \<and> (\<forall>v \<in> set (hd_deliveries d). settled_unlocked v)"

definition final_status :: "string \<Rightarrow> bool" where
  "final_status s \<longleftrightarrow> s = ''succeeded'' \<or> s = ''canceled''"

text \<open>The life of a delivery: it stays, its attempts grow, and a success or a cancellation is final.\<close>

definition follows :: "hook_delivery \<Rightarrow> hook_delivery \<Rightarrow> bool" where
  "follows v v' \<longleftrightarrow> wd_id v' = wd_id v \<and> wd_event v' = wd_event v \<and> wd_endpoint v' = wd_endpoint v
     \<and> wd_attempts v \<le> wd_attempts v' \<and> (final_status (wd_status v) \<longrightarrow> v' = v)"

definition life :: "hook_db \<Rightarrow> hook_db \<Rightarrow> bool" where
  "life d d' \<longleftrightarrow> (\<forall>v \<in> set (hd_deliveries d). \<exists>v' \<in> set (hd_deliveries d'). follows v v')"

lemma follows_refl: "follows v v"
  by (simp add: follows_def)

lemma life_refl: "life d d"
  unfolding life_def using follows_refl by blast

lemma follows_trans: "follows a b \<Longrightarrow> follows b c \<Longrightarrow> follows a c"
  unfolding follows_def by auto

lemma life_trans: "life a b \<Longrightarrow> life b c \<Longrightarrow> life a c"
  unfolding life_def by (meson follows_trans)

section \<open>Statements keep them\<close>

definition keeps :: "hook_db \<Rightarrow> hook_db \<Rightarrow> bool" where
  "keeps d d' \<longleftrightarrow> hook_tables d' \<and> life d d'"

lemma keeps_refl: "hook_tables d \<Longrightarrow> keeps d d"
  by (simp add: keeps_def life_refl)

lemma keeps_texts: "keeps d old \<Longrightarrow> keeps d (snd r) \<Longrightarrow> keeps d (snd (with_texts ps old r))"
  by (simp add: with_texts_def)

lemma keeps_hooked: "keeps d old \<Longrightarrow> (schema_ok (snd r) \<Longrightarrow> keeps d (snd r)) \<Longrightarrow> keeps d (snd (hooked old r))"
  using constrained_cases [of hook_schema old r] by (auto simp: schema_ok_def)

definition moves :: "hook_delivery \<Rightarrow> hook_delivery \<Rightarrow> bool" where
  "moves v v' \<longleftrightarrow> follows v v' \<and> settled_unlocked v'"

lemma keeps_update:
  assumes d: "hook_tables d" and s: "schema_ok d'"
    and rows: "hd_deliveries d' = update_rows p f (hd_deliveries d)"
    and moves: "\<And>v. v \<in> set (hd_deliveries d) \<Longrightarrow> p v \<Longrightarrow> moves v (f v)"
    and keys: "event_keys d \<subseteq> event_keys d'" "endpoint_keys d \<subseteq> endpoint_keys d'"
  shows "keeps d d'"
proof -
  let ?g = "\<lambda>v. if p v then f v else v"
  have m: "moves v (?g v)" if "v \<in> set (hd_deliveries d)" for v
    using moves [OF that] d that by (auto simp: moves_def hook_tables_def follows_refl)
  have "delivery_keys d' = delivery_keys d"
    unfolding delivery_keys_def rows update_rows_def set_map image_image
    by (rule image_cong [OF refl]) (use m in \<open>simp add: moves_def follows_def\<close>)
  then have "linked d'" using d keys unfolding hook_tables_def linked_def by blast
  moreover have "settled_unlocked v" if "v \<in> set (hd_deliveries d')" for v
    using that m unfolding rows update_rows_def set_map moves_def by blast
  moreover have "life d d'"
    unfolding life_def rows update_rows_def set_map using m unfolding moves_def by blast
  ultimately show ?thesis using s by (simp add: keeps_def hook_tables_def)
qed

lemma keeps_add:
  assumes d: "hook_tables d" and s: "schema_ok d'"
    and rows: "hd_deliveries d' = hd_deliveries d @ new"
    and new: "\<And>v. v \<in> set new \<Longrightarrow> settled_unlocked v \<and> (\<exists>org. (wd_event v, org) \<in> event_keys d' \<and> (wd_endpoint v, org) \<in> endpoint_keys d')"
    and keys: "event_keys d \<subseteq> event_keys d'" "endpoint_keys d \<subseteq> endpoint_keys d'"
  shows "keeps d d'"
proof -
  have "linked d'"
    unfolding linked_def
  proof
    fix k assume "k \<in> delivery_keys d'"
    then consider "k \<in> delivery_keys d" | v where "v \<in> set new" "k = (wd_event v, wd_endpoint v)"
      unfolding delivery_keys_def rows set_append image_Un by blast
    then show "\<exists>org. (fst k, org) \<in> event_keys d' \<and> (snd k, org) \<in> endpoint_keys d'"
    proof cases
      case 1
      with d keys show ?thesis unfolding hook_tables_def linked_def by blast
    next
      case 2
      with new show ?thesis by simp
    qed
  qed
  moreover have "life d d'" unfolding life_def rows set_append using follows_refl by blast
  ultimately show ?thesis using s d new unfolding keeps_def hook_tables_def rows by auto
qed

lemma keeps_same_deliveries:
  assumes "hook_tables d" "schema_ok d'" "hd_deliveries d' = hd_deliveries d" "event_keys d \<subseteq> event_keys d'" "endpoint_keys d \<subseteq> endpoint_keys d'"
  shows "keeps d d'"
  using keeps_add [of d d' "[]"] assms by simp

lemma endpoint_keys_update:
  assumes "hd_endpoints d' = update_rows p f (hd_endpoints d)" "\<And>e. we_id (f e) = we_id e \<and> we_org (f e) = we_org e"
  shows "endpoint_keys d' = endpoint_keys d"
  unfolding endpoint_keys_def assms(1) update_rows_def set_map image_image
  by (rule image_cong [OF refl]) (simp add: assms(2))

text \<open>The two statements whose constraints cannot fail are not checked: their results satisfy them.\<close>

lemma schema_update:
  assumes "schema_ok d" "\<And>v. v \<in> set (hd_deliveries d) \<Longrightarrow> p v \<Longrightarrow>
      hook_delivery_ok (f v) \<and> wd_id (f v) = wd_id v \<and> wd_event (f v) = wd_event v \<and> wd_endpoint (f v) = wd_endpoint v"
  shows "schema_ok (d\<lparr>hd_deliveries := update_rows p f (hd_deliveries d)\<rparr>)"
proof -
  let ?g = "\<lambda>v. if p v then f v else v"
  have "map wd_id (update_rows p f (hd_deliveries d)) = map wd_id (hd_deliveries d)"
       "map (\<lambda>v. (wd_event v, wd_endpoint v)) (update_rows p f (hd_deliveries d)) = map (\<lambda>v. (wd_event v, wd_endpoint v)) (hd_deliveries d)"
    unfolding update_rows_def using assms(2) by auto
  moreover have "list_all hook_delivery_ok (update_rows p f (hd_deliveries d))"
    using assms unfolding update_rows_def schema_ok_def hook_schema_def by (auto simp: list_all_iff)
  ultimately show ?thesis using assms(1) unfolding schema_ok_def hook_schema_def by (simp add: list_all_iff)
qed

lemma schema_endpoints:
  assumes "schema_ok d" "\<And>e. hook_endpoint_ok e \<Longrightarrow> p e \<Longrightarrow> hook_endpoint_ok (f e) \<and> we_id (f e) = we_id e"
  shows "schema_ok (update_hook p f d)"
proof -
  have "list_all hook_endpoint_ok (update_rows p f (hd_endpoints d))"
    using assms unfolding update_rows_def schema_ok_def hook_schema_def by (auto simp: list_all_iff)
  moreover have "map we_id (update_rows p f (hd_endpoints d)) = map we_id (hd_endpoints d)"
    using assms unfolding update_rows_def schema_ok_def hook_schema_def by (auto simp: list_all_iff)
  ultimately show ?thesis using assms(1) unfolding schema_ok_def hook_schema_def update_hook_def by (simp add: list_all_iff)
qed


section \<open>Every committed effect keeps them\<close>

lemma tables_schema: "hook_tables d \<Longrightarrow> schema_ok d"
  by (simp add: hook_tables_def)

lemma moves_claimed: "open_status (wd_status v) \<Longrightarrow> moves v (claimed_delivery worker t v)"
  by (auto simp: moves_def follows_def settled_unlocked_def claimed_delivery_def final_status_def open_status_def)

lemma endpoints_only:
  assumes "hook_tables d" "schema_ok (update_hook p f d)" "\<And>e. we_id (f e) = we_id e \<and> we_org (f e) = we_org e"
  shows "keeps d (update_hook p f d)"
  by (rule keeps_same_deliveries [OF assms(1,2)])
    (use endpoint_keys_update [of "update_hook p f d" p f d, OF _ assms(3)] in \<open>simp_all add: update_hook_def event_keys_def\<close>)

lemma keeps_settle:
  assumes d: "hook_tables d" and f: "\<And>v. moves v (f v) \<or> wd_worker v = None \<or> final_status (wd_status v)"
    and g: "\<And>i es. g i es = update_rows (p i) h es" "\<And>e. we_id (h e) = we_id e \<and> we_org (h e) = we_org e"
  shows "keeps d (snd (settle_delivery worker i f g d))"
proof (cases "one_row (held_by worker i) (hd_deliveries d)")
  case (Inr v)
  let ?d = "d\<lparr>hd_deliveries := update_rows (held_by worker i) f (hd_deliveries d), hd_endpoints := g (wd_endpoint v) (hd_endpoints d)\<rparr>"
  have "keeps d ?d" if "schema_ok ?d"
  proof (rule keeps_update [OF d that, of "held_by worker i" f])
    fix v assume "v \<in> set (hd_deliveries d)" "held_by worker i v"
    then have "wd_worker v \<noteq> None" "settled_unlocked v" using d by (auto simp: held_by_def hook_tables_def)
    with f [of v] show "moves v (f v)" by (auto simp: settled_unlocked_def final_status_def open_status_def)
  next
    show "endpoint_keys d \<subseteq> endpoint_keys ?d"
      using endpoint_keys_update [of ?d "p (wd_endpoint v)" h d] g by simp
  qed (simp_all add: event_keys_def)
  with Inr d show ?thesis
    unfolding settle_delivery_def by (auto intro!: keeps_hooked keeps_refl)
qed (simp add: settle_delivery_def keeps_refl d)

lemma keeps_claim:
  assumes d: "hook_tables d"
  shows "keeps d (snd (sql_claim_deliveries worker stale n t d))"
proof -
  let ?due = "take (nat n) (order_by earlier_delivery (filter (claimable stale t d) (hd_deliveries d)))"
  let ?p = "\<lambda>v. wd_id v \<in> wd_id ` set ?due"
  have ids: "distinct (map wd_id (hd_deliveries d))" and ok: "\<And>v. v \<in> set (hd_deliveries d) \<Longrightarrow> hook_delivery_ok v"
    using d by (auto simp: hook_tables_def schema_ok_def hook_schema_def list_all_iff)
  have due: "open_status (wd_status v)" if v: "v \<in> set (hd_deliveries d)" "?p v" for v
  proof -
    from v(2) obtain x where x: "x \<in> set ?due" "wd_id x = wd_id v" by auto
    from x(1) have "x \<in> set (hd_deliveries d)" "claimable stale t d x" by (auto dest!: in_set_takeD)
    with x(2) v(1) ids show ?thesis by (auto simp: claimable_def distinct_map inj_on_def)
  qed
  have "schema_ok (d\<lparr>hd_deliveries := update_rows ?p (claimed_delivery worker t) (hd_deliveries d)\<rparr>)"
    using d ok by (intro schema_update) (auto simp: hook_tables_def claimed_delivery_def hook_delivery_ok_def)
  then show ?thesis
    unfolding sql_claim_deliveries_def Let_def snd_conv
    by (rule keeps_update [OF d, where p = ?p and f = "claimed_delivery worker t"])
      (use due in \<open>auto intro: moves_claimed simp: event_keys_def endpoint_keys_def\<close>)
qed

lemma keeps_deliveries:
  assumes d: "hook_tables d"
  shows "keeps d (snd (sql_create_deliveries i at ids t d))"
proof -
  let ?hs = "wanting_hooks i d"
  let ?new = "map (new_delivery i at t) (zip ?hs (map ids [0..<length ?hs]))"
  let ?d = "d\<lparr>hd_deliveries := hd_deliveries d @ ?new\<rparr>"
  have "keeps d ?d" if "schema_ok ?d"
  proof (rule keeps_add [OF d that, of ?new])
    fix v assume "v \<in> set ?new"
    then obtain h x where h: "h \<in> set ?hs" "v = new_delivery i at t (h, x)" by (auto dest: set_zip_leftD)
    then have "h \<in> set (hd_endpoints d)" "hook_wants d i h" by (auto simp: wanting_hooks_def)
    with h(2) show "settled_unlocked v \<and> (\<exists>org. (wd_event v, org) \<in> event_keys ?d \<and> (wd_endpoint v, org) \<in> endpoint_keys ?d)"
      by (auto simp: settled_unlocked_def new_delivery_def hook_wants_def list_ex_iff event_keys_def endpoint_keys_def open_status_def image_iff)
  qed (simp_all add: event_keys_def endpoint_keys_def)
  with d show ?thesis
    unfolding sql_create_deliveries_def Let_def by (intro keeps_hooked) (auto simp: keeps_refl)
qed

lemma keeps_event:
  assumes d: "hook_tables d"
  shows "keeps d (snd (sql_create_hook_event v t d))"
  unfolding sql_create_hook_event_def
  by (auto intro!: keeps_texts keeps_hooked keeps_refl d keeps_same_deliveries [OF d] tables_schema simp: event_keys_def endpoint_keys_def)

lemma step_keeps:
  assumes "hook_step d d'" "hook_tables d"
  shows "keeps d d'"
  using assms
proof (induction rule: hook_step.induct)
  case (hs_create d org u es en secret i t)
  then show ?case unfolding sql_create_hook_def Let_def
    by (auto intro!: keeps_texts keeps_hooked keeps_refl keeps_same_deliveries tables_schema simp: event_keys_def endpoint_keys_def)
next
  case (hs_update d org i u es en t)
  then show ?case unfolding sql_update_hook_def
    by (auto intro!: keeps_texts keeps_hooked keeps_refl endpoints_only split: sum.split simp: updated_hook_def)
next
  case (hs_disable d org i t)
  then show ?case unfolding sql_disable_hook_def snd_conv
    by (auto intro!: endpoints_only schema_endpoints simp: hook_tables_def hook_endpoint_ok_def)
next
  case (hs_rotate d org i secret t)
  then show ?case unfolding sql_rotate_secret_def
    by (auto intro!: keeps_hooked keeps_refl endpoints_only split: sum.split)
next
  case (hs_cancel d org i t)
  let ?p = "\<lambda>v. wd_endpoint v = i \<and> list_ex (the_hook org i) (hd_endpoints d) \<and> open_status (wd_status v)"
  let ?f = "\<lambda>v. v\<lparr>wd_status := ''canceled'', wd_locked := None, wd_worker := None,
              wd_error := Some ''Webhook endpoint disabled before delivery'', wd_updated := t\<rparr>"
  have "schema_ok (d\<lparr>hd_deliveries := update_rows ?p ?f (hd_deliveries d)\<rparr>)"
    using hs_cancel by (intro schema_update)
      (auto simp: hook_tables_def schema_ok_def hook_schema_def list_all_iff hook_delivery_ok_def)
  then show ?case unfolding sql_cancel_deliveries_def Let_def snd_conv
    by (rule keeps_update [OF hs_cancel, where p = ?p and f = ?f])
      (auto simp: moves_def follows_def settled_unlocked_def final_status_def open_status_def event_keys_def endpoint_keys_def)
next
  case (hs_retry d org i t)
  show ?case
  proof (cases "one_row (may_retry org i d) (hd_deliveries d)")
    case (Inr v)
    let ?d = "d\<lparr>hd_deliveries := update_rows (may_retry org i d) (retried_delivery t) (hd_deliveries d)\<rparr>"
    have "keeps d ?d" if "schema_ok ?d"
      by (rule keeps_update [OF hs_retry that, where p = "may_retry org i d" and f = "retried_delivery t"])
        (auto simp: moves_def follows_def settled_unlocked_def final_status_def open_status_def event_keys_def endpoint_keys_def
          may_retry_def retried_delivery_def)
    with Inr hs_retry show ?thesis unfolding sql_retry_delivery_def by (auto intro!: keeps_hooked keeps_refl)
  qed (simp add: sql_retry_delivery_def keeps_refl hs_retry)
next
  case (hs_ingest v t d r d1 at ids t' n d2)
  have "keeps d d1" using keeps_event [OF hs_ingest(3), of v t] hs_ingest(1) by simp
  moreover then have "keeps d1 d2" using keeps_deliveries [of d1] hs_ingest(2) by (metis keeps_def snd_conv)
  ultimately show ?case by (auto simp: keeps_def intro: life_trans)
next
  case (hs_ingest_again i at ids t d n d2)
  then show ?case using keeps_deliveries [of d] by (metis snd_conv)
next
  case (hs_claim d worker stale n t)
  then show ?case by (rule keeps_claim)
next
  case (hs_delivered d worker i code body t)
  then show ?case unfolding sql_mark_delivered_def reset_failures_def
    by (intro keeps_texts keeps_refl keeps_settle [where p = "\<lambda>i e. we_id e = i \<and> we_enabled e \<and> 0 < we_failures e"
        and h = "\<lambda>e. e\<lparr>we_failures := 0, we_last_failure := None, we_reason := None, we_updated := t\<rparr>"])
      (auto simp: moves_def follows_def settled_unlocked_def succeeded_delivery_def final_status_def)
next
  case (hs_rescheduled d worker i at code body message t)
  have same: "es = update_rows (\<lambda>_. False) (\<lambda>e. e) es" for es :: "hook_endpoint list" by (simp add: update_rows_def)
  from hs_rescheduled show ?case unfolding sql_reschedule_delivery_def
    by (intro keeps_texts keeps_refl keeps_settle [where p = "\<lambda>_ _. False" and h = "\<lambda>e. e"] same)
      (auto simp: moves_def follows_def settled_unlocked_def rescheduled_delivery_def open_status_def)
next
  case (hs_failed d worker i code body message threshold t)
  then show ?case unfolding sql_mark_delivery_failed_def
    by (intro keeps_texts keeps_refl keeps_settle [where p = "\<lambda>i h. we_id h = i" and h = "failing_hook threshold t"])
      (auto simp: moves_def follows_def settled_unlocked_def failed_delivery_def failing_hook_def Let_def)
qed

lemma steps_keep: "hook_step\<^sup>*\<^sup>* d d' \<Longrightarrow> hook_tables d \<Longrightarrow> keeps d d'"
proof (induction rule: rtranclp_induct)
  case (step b c)
  then have "keeps d b" by blast
  moreover with step have "keeps b c" by (intro step_keeps) (simp_all add: keeps_def)
  ultimately show ?case by (auto simp: keeps_def intro: life_trans)
qed (rule keeps_refl)

end
