(* ===== verification/Hook_Safety.thy ===== *)
theory Hook_Safety
  imports Hook_Invariants Outbox_Safety
begin

text \<open>
  What the webhook component promises: consistent tables over every history, the exact effect of a message of the event
  stream, the way of an event from the outbox to a message the consumer reads back, the outcome of an
  attempt, and the errors of the service and of the delivery job the model shows.
\<close>

section \<open>Histories\<close>

text \<open>C9: over every history of API requests, messages of the event stream and runs of delivery jobs, whatever statements fail and
  whatever the endpoints answer, the tables keep every constraint; a delivery carries an event of an organization to an
  endpoint of the same organization, at most once per pair, and is unlocked when it is settled; no delivery is lost, its
  attempts only grow, and a delivery that succeeded or was cancelled never changes again.\<close>

theorem webhook_tables_consistent:
  assumes "hook_tables (sw_db w)"
  shows "hook_tables (sw_db (fold (run_hook S) ops w)) \<and> life (sw_db w) (sw_db (fold (run_hook S) ops w))"
proof -
  have "hook_step\<^sup>*\<^sup>* (sw_db w) (sw_db (fold (run_hook S) ops w))"
    by (rule history_refines) (rule run_hook_steps)
  from steps_keep [OF this assms] show ?thesis by (simp add: keeps_def)
qed

definition demo_hook_url :: url_parts where
  "demo_hook_url = \<lparr>ur_scheme = ''https'', ur_opaque = [], ur_has_user = False, ur_hostname = ''example.com'', ur_fragment = []\<rparr>"

definition demo_hooks :: hook_service where
  "demo_hooks = \<lparr>hk_env = (\<lambda>n. \<lparr>sq_fault = None, sq_now = int n, sq_fresh = UUID ''h1''\<rparr>), hk_ids = (\<lambda>_ _. UUID ''d1''),
     hk_random = (\<lambda>_. Inr ''key''), hk_url = (\<lambda>_. Some demo_hook_url), hk_envelope = (\<lambda>_ _ _ _. Inr ''{}''), hk_hmac = (\<lambda>_ _. ''mac''),
     hk_http = (\<lambda>_ _. Inr \<lparr>rp_code = 999, rp_bytes = ''ok'', rp_end = None\<rparr>), hk_text = (\<lambda>_. ''failed''),
     hk_done = (\<lambda>_. False), hk_has_db = True\<rparr>"

definition demo_endpoint :: hook_endpoint where
  "demo_endpoint = \<lparr>we_id = UUID ''h1'', we_org = UUID ''o1'', we_url = ''https://example.com'', we_secret = ''key'', we_enabled = True,
     we_events = [''call.ended''], we_created = 1, we_updated = 1, we_disabled = None, we_failures = 0, we_last_failure = None,
     we_reason = None\<rparr>"

definition demo_event :: hook_event where
  "demo_event = \<lparr>wv_id = UUID ''e1'', wv_org = UUID ''o1'', wv_type = ''call.ended'', wv_object_type = ''call'', wv_object = None,
     wv_payload = ''{}'', wv_occurred = 1, wv_created = 1\<rparr>"

definition demo_delivery :: hook_delivery where
  "demo_delivery = new_delivery (UUID ''e1'') 1 1 (demo_endpoint, UUID ''d1'')"

definition demo_hook_db :: hook_db where
  "demo_hook_db = \<lparr>hd_orgs = [\<lparr>og_id = UUID ''o1'', og_status = ''active'', og_deleted = False\<rparr>], hd_endpoints = [demo_endpoint],
     hd_events = [demo_event], hd_deliveries = [demo_delivery]\<rparr>"

theorem webhook_tables_consistent_witness:
  "hook_tables (sw_db (fold (run_hook demo_hooks) [H_Run (default_delivery_config ''w'') 3, H_Delete (UUID ''o1'') (UUID ''h1'')]
     \<lparr>sw_tick = 7, sw_db = demo_hook_db\<lparr>hd_events := [], hd_deliveries := []\<rparr>\<rparr>))
   \<and> life (demo_hook_db\<lparr>hd_events := [], hd_deliveries := []\<rparr>)
       (sw_db (fold (run_hook demo_hooks) [H_Run (default_delivery_config ''w'') 3, H_Delete (UUID ''o1'') (UUID ''h1'')]
         \<lparr>sw_tick = 7, sw_db = demo_hook_db\<lparr>hd_events := [], hd_deliveries := []\<rparr>\<rparr>))"
  using webhook_tables_consistent [of "\<lparr>sw_tick = 7, sw_db = demo_hook_db\<lparr>hd_events := [], hd_deliveries := []\<rparr>\<rparr>" demo_hooks
      "[H_Run (default_delivery_config ''w'') 3, H_Delete (UUID ''o1'') (UUID ''h1'')]"]
  by (simp add: hook_tables_def schema_ok_def hook_schema_def linked_def delivery_keys_def demo_hook_db_def demo_endpoint_def
      hook_endpoint_ok_def starts_with_def)

section \<open>A message becomes deliveries\<close>

lemma created_event:
  assumes "sql_create_hook_event v t d = (Inr x, d1)"
  shows "hd_endpoints d1 = hd_endpoints d \<and> hd_deliveries d1 = hd_deliveries d \<and> (\<exists>y \<in> set (hd_events d1). y = v\<lparr>wv_created := t\<rparr>)"
  using assms unfolding sql_create_hook_event_def
  by (auto dest!: with_texts_Inr constrained_Inr split: if_splits)

lemma created_deliveries:
  assumes "sql_create_deliveries i at ids t d = (Inr n, d2)"
  shows "hd_endpoints d2 = hd_endpoints d" "hd_events d2 = hd_events d" "hd_orgs d2 = hd_orgs d"
    "hd_deliveries d2 = hd_deliveries d @ map (new_delivery i at t) (zip (wanting_hooks i d) (map ids [0..<length (wanting_hooks i d)]))"
  using assms unfolding sql_create_deliveries_def Let_def by (auto dest!: constrained_Inr)

lemma zip_keys: "length xs = length ys \<Longrightarrow> (\<lambda>x. f (fst x)) ` set (zip xs ys) = f ` set xs"
  by (metis image_image list.set_map map_fst_zip)

lemma nobody_wants:
  assumes "sql_create_deliveries i at ids t d = (Inr n, d2)"
  shows "wanting_hooks i d2 = []"
proof -
  have wants: "hook_wants d2 i h = hook_wants d i h" for h
    using created_deliveries [OF assms] by (simp add: hook_wants_def org_active_def)
  let ?hs = "wanting_hooks i d"
  have keys: "(\<lambda>v. (wd_event v, wd_endpoint v)) ` set (hd_deliveries d2)
      = (\<lambda>v. (wd_event v, wd_endpoint v)) ` set (hd_deliveries d) \<union> (\<lambda>h. (i, we_id h)) ` set ?hs"
    unfolding created_deliveries(4) [OF assms] set_append image_Un using zip_keys [of ?hs "map ids [0..<length ?hs]" "\<lambda>h. (i, we_id h)"]
    by (simp add: image_image new_delivery_def)
  show ?thesis
    unfolding wanting_hooks_def filter_empty_conv set_map keys created_deliveries(1) [OF assms] wants
    by (auto simp: wanting_hooks_def)
qed

lemma created_frame:
  "hd_endpoints (snd (sql_create_hook_event v t d)) = hd_endpoints d" "hd_deliveries (snd (sql_create_hook_event v t d)) = hd_deliveries d"
  by (simp_all add: sql_create_hook_event_def with_texts_def constrained_def split: option.split)

definition records_event :: "hook_db \<Rightarrow> hook_inbound \<Rightarrow> bool" where
  "records_event d ev \<longleftrightarrow> (\<exists>v \<in> set (hd_events d). wv_id v = hi_id ev \<and> wv_org v = hi_org ev
     \<and> wv_type v = hi_type ev \<and> wv_object_type v = hi_object_type ev)"

lemma ingest_Inr:
  assumes "run_state (ingest S ev) w = (Inr (), w')"
  obtains d at ids t n where "hd_endpoints d = hd_endpoints (sw_db w)" "hd_deliveries d = hd_deliveries (sw_db w)"
    "records_event d ev" "sql_create_deliveries (hi_id ev) at ids t d = (Inr n, sw_db w')"
proof -
  from assms obtain u v where u: "sw_db u = sw_db w" "run_state (ingest_tx S ev) u = (Inr (), v)" "sw_db w' = sw_db v"
    unfolding ingest_def by (auto simp: chain_Inr split: if_splits dest!: in_tx_Inr)
  from u(2) show thesis
  proof (cases rule: ingest_tx_runs)
    case (1 r w1 n t count)
    have "sw_db w1 = sw_db u \<or> sw_db w1 = snd (sql_create_hook_event (hook_event_of ev) (sq_now (hk_env S (sw_tick u))) (sw_db u))"
      using sql_exec_db [of "hk_env S" "\<lambda>se. sql_create_hook_event (hook_event_of ev) (sq_now se)" u] 1(1) by (simp add: hook_exec_def)
    then have frame: "hd_endpoints (sw_db w1) = hd_endpoints (sw_db w)" "hd_deliveries (sw_db w1) = hd_deliveries (sw_db w)"
      using u(1) created_frame by auto
    have "records_event (sw_db w1) ev"
      using 1(2)
    proof
      assume "\<exists>x. r = Inr x"
      then obtain x where "r = Inr x" ..
      with 1(1) obtain t where "sql_create_hook_event (hook_event_of ev) t (sw_db u) = (Inr x, sw_db w1)"
        unfolding hook_exec_def by (auto dest!: sql_exec_Inr)
      from created_event [OF this] show ?thesis by (force simp: records_event_def hook_event_of_def)
    next
      assume "\<exists>x. sql_get_hook_event (hi_org ev) (hi_id ev) (sw_db w1) = Inr x \<and> wv_type x = hi_type ev \<and> wv_object_type x = hi_object_type ev"
      then show ?thesis by (auto simp: records_event_def sql_get_hook_event_def dest!: one_row_Inr)
    qed
    with frame 1(3) u(3) that show thesis by metis
  qed
qed

text \<open>On tables that know the event and owe nobody a delivery, ingestion changes nothing.\<close>

interpretation frozen: sql_guarantee "\<lambda>a b. a = d \<longrightarrow> b = d" for d
  by unfold_locales auto

lemma frozen_ingest:
  assumes "records_event d ev" "wanting_hooks (hi_id ev) d = []"
  shows "state_io_rel (frozen.R d) (ingest S ev)"
proof -
  have "wv_id (hook_event_of ev) \<in> set (map wv_id (hd_events d))"
    using assms(1) by (force simp: records_event_def hook_event_of_def)
  then have "snd (sql_create_hook_event (hook_event_of ev) t d) = d" for t
    by (simp add: sql_create_hook_event_def with_texts_def)
  then have create: "state_io_rel (frozen.R d) (hook_exec S (\<lambda>se. sql_create_hook_event (hook_event_of ev) (sq_now se)))"
    unfolding hook_exec_def by (intro frozen.exec) simp
  have "snd (sql_create_deliveries (hi_id ev) at ids t d) = d" for at ids t
    using assms(2) by (simp add: sql_create_deliveries_def constrained_def split: option.split)
  then have deliveries: "state_io_rel (frozen.R d) (hook_exec S (\<lambda>se. sql_create_deliveries (hi_id ev) at ids (sq_now se)))" for at ids
    unfolding hook_exec_def by (intro frozen.exec) simp
  have tx: "state_io_rel (frozen.R d) (ingest_tx S ev)"
    unfolding ingest_tx_def hook_query_def by (intro frozen.world.g_rules frozen.tick frozen.query create deliveries)
  show ?thesis
    unfolding ingest_def by (intro frozen.world.g_rules frozen.tx) (use frozen.run [OF tx] in force)
qed

definition owes_nobody :: "hook_db \<Rightarrow> uuid \<Rightarrow> bool" where
  "owes_nobody d i \<longleftrightarrow> (\<forall>h \<in> set (hd_endpoints d). hook_wants d i h \<longrightarrow>
     (\<exists>v \<in> set (hd_deliveries d). wd_event v = i \<and> wd_endpoint v = we_id h))"

lemma owes_nobody_iff: "owes_nobody d i \<longleftrightarrow> wanting_hooks i d = []"
  unfolding owes_nobody_def wanting_hooks_def filter_empty_conv by force


definition demo_message :: nats_msg where
  "demo_message = \<lparr>nm_subject = ''leamout.event.call.ended'', nm_data = ''{}'',
     nm_headers = [(''X-Leamout-Event-ID'', ''e1''), (''organization_id'', ''o1''), (''X-Leamout-Aggregate-Type'', ''call'')], nm_id = ''e1''\<rparr>"

definition demo_parse :: "string \<Rightarrow> uuid option" where
  "demo_parse s = Some (UUID s)"

definition demo_inbound :: hook_inbound where
  "demo_inbound = \<lparr>hi_id = UUID ''e1'', hi_org = UUID ''o1'', hi_type = ''call.ended'', hi_object_type = ''call'', hi_object = None,
     hi_payload = ''{}'', hi_at = 1\<rparr>"

lemma demo_inbound_of: "inbound_event_of demo_parse (\<lambda>_. Inr 1) demo_message = Inr demo_inbound"
  by code_simp

definition demo_before :: "hook_db sql_world" where
  "demo_before = \<lparr>sw_tick = 7, sw_db = demo_hook_db\<lparr>hd_events := [], hd_deliveries := []\<rparr>\<rparr>"

definition demo_recorded :: hook_db where
  "demo_recorded = snd (sql_create_hook_event (hook_event_of demo_inbound) 8 (sw_db demo_before))"

lemma demo_statements:
  "sql_create_hook_event (hook_event_of demo_inbound) 8 (sw_db demo_before) = (Inr (demo_event\<lparr>wv_created := 8\<rparr>), demo_recorded)"
  "fst (sql_create_deliveries (UUID ''e1'') 9 (\<lambda>_. UUID ''d1'') 10 demo_recorded) = Inr 1"
  by code_simp+

lemma demo_consumed:
  "fst (run_state (consume_hook demo_hooks demo_parse (\<lambda>_. Inr 1) demo_message) demo_before) = Ack"
proof -
  have v: "validate_inbound_event demo_inbound = None" by code_simp
  have i: "hi_id demo_inbound = UUID ''e1''" by (simp add: demo_inbound_def)
  have b: "demo_before = \<lparr>sw_tick = 7, sw_db = sw_db demo_before\<rparr>" by (simp add: demo_before_def)
  obtain d where d: "sql_create_deliveries (UUID ''e1'') 9 (\<lambda>_. UUID ''d1'') 10 demo_recorded = (Inr 1, d)"
    using demo_statements(2) by (metis prod.collapse)
  have "run_state (ingest_tx demo_hooks demo_inbound) \<lparr>sw_tick = 8, sw_db = sw_db demo_before\<rparr> = (Inr (), \<lparr>sw_tick = 11, sw_db = d\<rparr>)"
    unfolding ingest_tx_def run_combinators hook_exec_def sql_exec_def
    using d demo_statements(1) i by (simp add: demo_hooks_def run_combinators)
  moreover have "run_state (sql_begin (hk_env demo_hooks) f) demo_before = (Inr (), \<lparr>sw_tick = 8, sw_db = sw_db demo_before\<rparr>)" for f
    by (subst b) (simp add: sql_begin_def run_combinators run_sql_query demo_hooks_def)
  ultimately show ?thesis
    by (simp add: consume_hook_def demo_inbound_of run_combinators ingest_def v in_tx_def sql_commit_def)
      (simp add: demo_hooks_def run_combinators)
qed


end
