(* ===== verification/Hook_Delivery.thy ===== *)
theory Hook_Delivery
  imports Hook_Safety
begin

text \<open>
  The way of an event from the outbox to its deliveries, what an attempt of a delivery leaves in the tables, and
  when it ends the delivery job instead.
\<close>

section \<open>From the outbox to the consumer\<close>

lemma map_of_set_headers:
  assumes "\<And>k. k \<in> fst ` set hs \<Longrightarrow> trim_space k = k \<and> k \<noteq> []"
  shows "map_of (fold (\<lambda>(k, v) h. if trim_space k \<noteq> [] then AList.update (trim_space k) v h else h) hs al) = map_of al ++ map_of (rev hs)"
  using assms
proof (induction hs arbitrary: al)
  case (Cons x hs)
  obtain k v where x: "x = (k, v)" by force
  with Cons.prems have "trim_space k = k" "k \<noteq> []" by auto
  with Cons.IH [of "AList.update k v al"] Cons.prems show ?case by (auto simp: x update_conv' map_add_def fun_eq_iff split: option.split)
qed simp

lemma map_of_headers:
  assumes "distinct (map fst hs)" "\<And>k. k \<in> fst ` set hs \<Longrightarrow> trim_space k = k \<and> k \<noteq> []"
  shows "map_of (set_headers hs) = map_of hs"
proof -
  have "map_of (rev hs) = map_of hs"
    using assms(1) by (subst map_of_inject_set) (simp_all add: rev_map [symmetric])
  with map_of_set_headers [of hs "[]"] assms(2) show ?thesis by (simp add: set_headers_def)
qed

lemma reserved_headers [simp]:
  "trim_space header_event_id = header_event_id" "trim_space header_aggregate_type = header_aggregate_type"
  "trim_space header_aggregate_id = header_aggregate_id"
  "header_event_id \<noteq> []" "header_aggregate_type \<noteq> []" "header_aggregate_id \<noteq> []"
  "header_aggregate_type \<noteq> header_event_id" "header_aggregate_id \<noteq> header_event_id" "header_aggregate_id \<noteq> header_aggregate_type"
  by code_simp+

lemma other_headers [simp]:
  "''organization_id'' \<notin> {header_event_id, header_aggregate_type, header_aggregate_id}"
  "''event_type'' \<notin> {header_event_id, header_aggregate_type, header_aggregate_id}"
  by code_simp+

text \<open>C35: an event a service has written to the outbox, with the organization and the type in its headers, arrives at the webhook
  consumer as the same event: the message the publisher makes of the row is read back with the row's identity, organization, type, object
  and payload.\<close>

theorem event_reaches_webhooks:
  assumes "message_of r = Some m"
    and "distinct (map fst (ob_headers r))" "\<And>k. k \<in> fst ` set (ob_headers r) \<Longrightarrow> trim_space k = k \<and> k \<noteq> []"
    and "map_of (ob_headers r) ''organization_id'' = Some (uuid_string org)" "map_of (ob_headers r) ''event_type'' = Some kind"
    and "trim_space kind = kind" "kind \<noteq> []" "trim_space (ob_kind r) = ob_kind r" "ob_kind r \<noteq> []"
    and "\<And>i. i \<in> {ob_id r, org, ob_object r} \<Longrightarrow> parse (trim_space (uuid_string i)) = Some i" "trim_space (uuid_string (ob_object r)) \<noteq> []"
    and "decode (ob_payload r) = Inr at"
  shows "inbound_event_of parse decode m = Inr \<lparr>hi_id = ob_id r, hi_org = org, hi_type = kind, hi_object_type = ob_kind r,
    hi_object = Some (ob_object r), hi_payload = ob_payload r, hi_at = at\<rparr>"
proof -
  from assms(1) obtain subject where m: "m = nats_message subject (ob_payload r) (event_headers r) (uuid_string (ob_id r))"
    by (auto simp: message_of_def split: sum.splits)
  have keys: "fst ` set (event_headers r) = insert header_event_id (insert header_aggregate_type (insert header_aggregate_id (fst ` set (ob_headers r))))"
    unfolding event_headers_def by (simp add: update_conv' insert_commute flip: dom_map_of_conv_image_fst)
  have headers: "map_of (nm_headers m) = map_of (event_headers r)"
    unfolding m nats_message_def nats_msg.simps using assms(2,3) keys
    by (intro map_of_headers) (auto simp: event_headers_def distinct_update)
  then have get: "nats_get m name = (case map_of (event_headers r) name of None \<Rightarrow> [] | Some v \<Rightarrow> v)" for name
    by (simp add: nats_get_def)
  have "nats_get m header_event_id = uuid_string (ob_id r)" "nats_get m header_aggregate_type = ob_kind r"
    "nats_get m header_aggregate_id = uuid_string (ob_object r)"
    "nats_get m ''organization_id'' = uuid_string org" "nats_get m ''event_type'' = kind"
    unfolding get event_headers_def using assms(4,5) other_headers reserved_headers(7-9) [symmetric] by (simp_all add: update_conv')
  moreover have "nm_data m = ob_payload r" by (simp add: m nats_message_def)
  ultimately show ?thesis
    using assms(6-) by (simp add: inbound_event_of_def header_uuid_def message_type_def Let_def)
qed

definition demo_row :: outbox_row where
  "demo_row = \<lparr>ob_id = UUID ''e1'', ob_subject = ''call.ended'', ob_kind = ''call'', ob_object = UUID ''c1'', ob_payload = ''{}'',
     ob_headers = [(''event_type'', ''call.ended''), (''organization_id'', ''o1'')], ob_available = 0, ob_published = None, ob_attempts = 0,
     ob_error = None, ob_locked = None, ob_worker = None, ob_created = 0, ob_updated = 0\<rparr>"

theorem event_reaches_webhooks_witness:
  "inbound_event_of demo_parse (\<lambda>_. Inr 1) (the (message_of demo_row)) = Inr \<lparr>hi_id = UUID ''e1'', hi_org = UUID ''o1'',
     hi_type = ''call.ended'', hi_object_type = ''call'', hi_object = Some (UUID ''c1''), hi_payload = ''{}'', hi_at = 1\<rparr>"
proof -
  obtain m where m: "message_of demo_row = Some m" by (cases "message_of demo_row") (simp, code_simp)
  have t: "trim_space ''event_type'' = ''event_type''" "trim_space ''organization_id'' = ''organization_id''" "trim_space ''call.ended'' = ''call.ended''"
    "trim_space ''call'' = ''call''" "trim_space ''e1'' = ''e1''" "trim_space ''o1'' = ''o1''" "trim_space ''c1'' = ''c1''"
    by code_simp+
  have "inbound_event_of demo_parse (\<lambda>_. Inr 1) m = Inr \<lparr>hi_id = ob_id demo_row, hi_org = UUID ''o1'', hi_type = ''call.ended'',
      hi_object_type = ob_kind demo_row, hi_object = Some (ob_object demo_row), hi_payload = ob_payload demo_row, hi_at = 1\<rparr>"
    by (rule event_reaches_webhooks [OF m]) (auto simp: demo_row_def demo_parse_def t)
  with m show ?thesis by (simp add: demo_row_def)
qed

section \<open>Recording an attempt\<close>

text \<open>What the tables accept of an attempt: the worker still holds the delivery, the status is in the range of the column and
  the texts are texts for the database.\<close>

definition recordable :: "hook_service \<Rightarrow> string \<Rightarrow> attempt \<Rightarrow> uuid \<Rightarrow> hook_db \<Rightarrow> bool" where
  "recordable S worker a i d \<longleftrightarrow> list_ex (held_by worker i) (hd_deliveries d)
     \<and> (case at_code a of None \<Rightarrow> True | Some c \<Rightarrow> 100 \<le> c \<and> c \<le> 599)
     \<and> (case at_body a of None \<Rightarrow> True | Some b \<Rightarrow> pg_text b)
     \<and> (delivery_succeeded a \<or> pg_text (attempt_error S a))"

lemma texts_simps [simp]: "texts [] = []" "texts [None] = []" "texts [Some b] = [b]"
  by (simp_all add: texts_def List.map_filter_def)

lemma schema_settle:
  assumes "schema_ok d" "\<And>x. hook_delivery_ok x \<Longrightarrow> p x \<Longrightarrow> hook_delivery_ok (f x)"
    and "\<And>x. (wd_id (f x), wd_event (f x), wd_endpoint (f x)) = (wd_id x, wd_event x, wd_endpoint x)"
    and "\<And>e. hook_endpoint_ok e \<Longrightarrow> q e \<Longrightarrow> hook_endpoint_ok (h e)" "\<And>e. we_id (h e) = we_id e"
  shows "schema_ok (d\<lparr>hd_deliveries := update_rows p f (hd_deliveries d), hd_endpoints := update_rows q h (hd_endpoints d)\<rparr>)"
proof -
  have "schema_ok (d\<lparr>hd_deliveries := update_rows p f (hd_deliveries d)\<rparr>)"
    using assms(1-3) by (intro schema_update) (auto simp: schema_ok_def hook_schema_def list_all_iff)
  then have "schema_ok (update_hook q h (d\<lparr>hd_deliveries := update_rows p f (hd_deliveries d)\<rparr>))"
    using assms(4,5) by (intro schema_endpoints) auto
  then show ?thesis by (simp add: update_hook_def)
qed

lemma hooked_iff: "fst (hooked d (Inr x, d')) = Inr x \<longleftrightarrow> schema_ok d'"
  using violation_None [of hook_schema d'] by (auto simp: constrained_def schema_ok_def split: option.split)

lemma settle_Inr:
  "fst (settle_delivery worker i f g d) = Inr () \<longleftrightarrow> (\<exists>v. one_row (held_by worker i) (hd_deliveries d) = Inr v
     \<and> schema_ok (d\<lparr>hd_deliveries := update_rows (held_by worker i) f (hd_deliveries d), hd_endpoints := g (wd_endpoint v) (hd_endpoints d)\<rparr>))"
  by (cases "one_row (held_by worker i) (hd_deliveries d)") (simp_all add: settle_delivery_def hooked_iff)

lemma one_row_ex: "(\<exists>v. one_row p rows = Inr v) \<longleftrightarrow> list_ex p rows"
  by (auto simp: one_row_def find_Some_iff find_None_iff list_ex_iff split: option.split)

lemma attempt_range: "delivery_succeeded a \<Longrightarrow> at_err a = None"
  by (simp add: delivery_succeeded_def)

lemma ok_marks:
  assumes "hook_delivery_ok x" "case code of None \<Rightarrow> True | Some c \<Rightarrow> 100 \<le> c \<and> c \<le> 599"
  shows "hook_delivery_ok (succeeded_delivery code body t x)" "hook_delivery_ok (rescheduled_delivery at code body message t x)"
    "hook_delivery_ok (failed_delivery code body message t x)"
  using assms by (simp_all add: hook_delivery_ok_def succeeded_delivery_def rescheduled_delivery_def failed_delivery_def)

lemma mark_fields [simp]:
  "wd_code (succeeded_delivery code body t x) = code" "wd_code (rescheduled_delivery at code body message t x) = code"
  "wd_code (failed_delivery code body message t x) = code"
  "wd_id (succeeded_delivery code body t x) = wd_id x" "wd_id (rescheduled_delivery at code body message t x) = wd_id x"
  "wd_id (failed_delivery code body message t x) = wd_id x"
  "wd_event (succeeded_delivery code body t x) = wd_event x" "wd_event (rescheduled_delivery at code body message t x) = wd_event x"
  "wd_event (failed_delivery code body message t x) = wd_event x"
  "wd_endpoint (succeeded_delivery code body t x) = wd_endpoint x" "wd_endpoint (rescheduled_delivery at code body message t x) = wd_endpoint x"
  "wd_endpoint (failed_delivery code body message t x) = wd_endpoint x"
  by (simp_all add: succeeded_delivery_def rescheduled_delivery_def failed_delivery_def)

lemma range_needed:
  assumes "schema_ok (d\<lparr>hd_deliveries := update_rows p f (hd_deliveries d), hd_endpoints := es\<rparr>)" "list_ex p (hd_deliveries d)"
    and "\<And>x. wd_code (f x) = code"
  shows "case code of None \<Rightarrow> True | Some c \<Rightarrow> 100 \<le> c \<and> c \<le> 599"
proof -
  from assms(2) obtain x where x: "x \<in> set (hd_deliveries d)" "p x" by (auto simp: list_ex_iff)
  then have "f x \<in> set (update_rows p f (hd_deliveries d))" by (force simp: update_rows_def)
  with assms(1) have "hook_delivery_ok (f x)" by (auto simp: schema_ok_def hook_schema_def list_all_iff)
  with assms(3) show ?thesis by (auto simp: hook_delivery_ok_def)
qed

abbreviation code_ok :: "int option \<Rightarrow> bool" where
  "code_ok code \<equiv> (case code of None \<Rightarrow> True | Some c \<Rightarrow> 100 \<le> c \<and> c \<le> 599)"

lemma settle_iff:
  assumes d: "schema_ok d" and g: "\<And>i es. g i es = update_rows (q i) h es" "\<And>i e. hook_endpoint_ok e \<Longrightarrow> q i e \<Longrightarrow> hook_endpoint_ok (h e)"
      "\<And>e. we_id (h e) = we_id e"
    and f: "\<And>x. hook_delivery_ok x \<Longrightarrow> code_ok code \<Longrightarrow> hook_delivery_ok (f x)" "\<And>x. wd_code (f x) = code"
      "\<And>x. (wd_id (f x), wd_event (f x), wd_endpoint (f x)) = (wd_id x, wd_event x, wd_endpoint x)"
  shows "fst (settle_delivery worker i f g d) = Inr () \<longleftrightarrow> list_ex (held_by worker i) (hd_deliveries d) \<and> code_ok code"
proof
  assume "fst (settle_delivery worker i f g d) = Inr ()"
  then obtain v where v: "one_row (held_by worker i) (hd_deliveries d) = Inr v"
    "schema_ok (d\<lparr>hd_deliveries := update_rows (held_by worker i) f (hd_deliveries d), hd_endpoints := g (wd_endpoint v) (hd_endpoints d)\<rparr>)"
    unfolding settle_Inr by blast
  then have ex: "list_ex (held_by worker i) (hd_deliveries d)" by (simp add: one_row_ex [symmetric] v(1))
  have "code_ok code" by (rule range_needed [OF v(2) ex]) (rule f(2))
  with ex show "list_ex (held_by worker i) (hd_deliveries d) \<and> code_ok code" ..
next
  assume a: "list_ex (held_by worker i) (hd_deliveries d) \<and> code_ok code"
  then obtain v where v: "one_row (held_by worker i) (hd_deliveries d) = Inr v" by (auto simp: one_row_ex [symmetric])
  have "schema_ok (d\<lparr>hd_deliveries := update_rows (held_by worker i) f (hd_deliveries d), hd_endpoints := g (wd_endpoint v) (hd_endpoints d)\<rparr>)"
    unfolding g(1)
  proof (rule schema_settle [OF d])
    show "hook_delivery_ok (f x)" if "hook_delivery_ok x" for x using f(1) [OF that] a by simp
    show "hook_endpoint_ok (h e)" if "hook_endpoint_ok e" "q (wd_endpoint v) e" for e using g(2) that by blast
  qed (rule f(3), rule g(3))
  with v show "fst (settle_delivery worker i f g d) = Inr ()" unfolding settle_Inr by blast
qed

lemma with_texts_iff: "fst (with_texts ps d r) = Inr x \<longleftrightarrow> list_all pg_text ps \<and> fst r = Inr x"
  by (simp add: with_texts_def)

lemma failing_hook_ok: "hook_endpoint_ok e \<Longrightarrow> hook_endpoint_ok (failing_hook threshold t e)"
  by (auto simp: hook_endpoint_ok_def failing_hook_def Let_def split: option.split)

lemma marks_iff:
  assumes d: "schema_ok d"
  shows "fst (sql_mark_delivered worker i code body t d) = Inr () \<longleftrightarrow>
      list_ex (held_by worker i) (hd_deliveries d) \<and> code_ok code \<and> list_all pg_text (texts [body])"
    and "fst (sql_reschedule_delivery worker i at code body message t d) = Inr () \<longleftrightarrow>
      list_ex (held_by worker i) (hd_deliveries d) \<and> code_ok code \<and> list_all pg_text (message # texts [body])"
    and "fst (sql_mark_delivery_failed worker i code body message threshold t d) = Inr () \<longleftrightarrow>
      list_ex (held_by worker i) (hd_deliveries d) \<and> code_ok code \<and> list_all pg_text (message # texts [body])"
proof -
  have "fst (settle_delivery worker i (succeeded_delivery code body t) (reset_failures t) d) = Inr () \<longleftrightarrow>
      list_ex (held_by worker i) (hd_deliveries d) \<and> code_ok code"
    by (rule settle_iff [OF d, where q = "\<lambda>i e. we_id e = i \<and> we_enabled e \<and> 0 < we_failures e"
        and h = "\<lambda>e. e\<lparr>we_failures := 0, we_last_failure := None, we_reason := None, we_updated := t\<rparr>"])
      (simp_all add: reset_failures_def ok_marks, auto simp: hook_endpoint_ok_def)
  then show "fst (sql_mark_delivered worker i code body t d) = Inr () \<longleftrightarrow>
      list_ex (held_by worker i) (hd_deliveries d) \<and> code_ok code \<and> list_all pg_text (texts [body])"
    unfolding sql_mark_delivered_def with_texts_iff by blast
  have "fst (settle_delivery worker i (rescheduled_delivery at code body message t) (\<lambda>_ es. es) d) = Inr () \<longleftrightarrow>
      list_ex (held_by worker i) (hd_deliveries d) \<and> code_ok code"
    by (rule settle_iff [OF d, where q = "\<lambda>_ _. False" and h = "\<lambda>e. e"])
      (simp_all add: update_rows_def ok_marks)
  then show "fst (sql_reschedule_delivery worker i at code body message t d) = Inr () \<longleftrightarrow>
      list_ex (held_by worker i) (hd_deliveries d) \<and> code_ok code \<and> list_all pg_text (message # texts [body])"
    unfolding sql_reschedule_delivery_def with_texts_iff by blast
  have "fst (settle_delivery worker i (failed_delivery code body message t) (\<lambda>e. update_rows (\<lambda>h. we_id h = e) (failing_hook threshold t)) d)
      = Inr () \<longleftrightarrow> list_ex (held_by worker i) (hd_deliveries d) \<and> code_ok code"
    by (rule settle_iff [OF d, where q = "\<lambda>i h. we_id h = i" and h = "failing_hook threshold t"])
      (simp_all add: ok_marks failing_hook_ok, simp add: failing_hook_def Let_def)
  then show "fst (sql_mark_delivery_failed worker i code body message threshold t d) = Inr () \<longleftrightarrow>
      list_ex (held_by worker i) (hd_deliveries d) \<and> code_ok code \<and> list_all pg_text (message # texts [body])"
    unfolding sql_mark_delivery_failed_def with_texts_iff by blast
qed

definition verdict :: "attempt \<Rightarrow> bool \<Rightarrow> string" where
  "verdict a again = (if delivery_succeeded a then ''succeeded'' else if retryable_delivery a \<and> again then ''retrying'' else ''failed'')"

definition attempt_of :: "hook_service \<Rightarrow> hook_db sql_world \<Rightarrow> claimed_row \<Rightarrow> attempt" where
  "attempt_of S w v = http_send S (sw_tick w) (sq_now (hk_env S (sw_tick w))) v"

definition settled_as :: "string \<Rightarrow> uuid \<Rightarrow> attempt \<Rightarrow> string \<Rightarrow> hook_db \<Rightarrow> hook_db \<Rightarrow> bool" where
  "settled_as worker i a status d d' \<longleftrightarrow> (\<forall>x \<in> set (hd_deliveries d). held_by worker i x \<longrightarrow>
     (\<exists>y \<in> set (hd_deliveries d'). wd_id y = i \<and> wd_status y = status \<and> wd_code y = at_code a \<and> wd_body y = at_body a \<and> wd_worker y = None))"

lemma settle_effect:
  assumes "settle_delivery worker i f g d = (Inr (), d')"
    and "\<And>x. wd_id (f x) = wd_id x \<and> wd_status (f x) = status \<and> wd_code (f x) = at_code a \<and> wd_body (f x) = at_body a \<and> wd_worker (f x) = None"
  shows "settled_as worker i a status d d'"
proof -
  from assms(1) have rows: "hd_deliveries d' = update_rows (held_by worker i) f (hd_deliveries d)"
    by (auto simp: settle_delivery_def split: sum.splits dest!: constrained_Inr)
  show ?thesis unfolding settled_as_def
  proof (intro ballI impI)
    fix x assume x: "x \<in> set (hd_deliveries d)" "held_by worker i x"
    then have "f x \<in> set (hd_deliveries d')" unfolding rows by (force simp: update_rows_def)
    with x(2) assms(2) show "\<exists>y \<in> set (hd_deliveries d'). wd_id y = i \<and> wd_status y = status \<and> wd_code y = at_code a
        \<and> wd_body y = at_body a \<and> wd_worker y = None"
      by (intro bexI [of _ "f x"]) (auto simp: held_by_def)
  qed
qed

lemma marks_effect:
  "sql_mark_delivered worker i (at_code a) (at_body a) t d = (Inr (), d') \<Longrightarrow> settled_as worker i a ''succeeded'' d d'"
  "sql_reschedule_delivery worker i at (at_code a) (at_body a) message t d = (Inr (), d') \<Longrightarrow> settled_as worker i a ''retrying'' d d'"
  "sql_mark_delivery_failed worker i (at_code a) (at_body a) message threshold t d = (Inr (), d') \<Longrightarrow> settled_as worker i a ''failed'' d d'"
  unfolding sql_mark_delivered_def sql_reschedule_delivery_def sql_mark_delivery_failed_def
  by (drule with_texts_Inr, erule settle_effect, simp add: succeeded_delivery_def rescheduled_delivery_def failed_delivery_def)+

text \<open>The statement an attempt ends with, on the world it meets.\<close>

definition closing :: "hook_service \<Rightarrow> delivery_config \<Rightarrow> claimed_row \<Rightarrow> attempt \<Rightarrow> int \<Rightarrow> int \<Rightarrow> hook_db \<Rightarrow> (go_err + unit) \<times> hook_db" where
  "closing S c v a at t d =
     (if delivery_succeeded a then sql_mark_delivered (dj_worker c) (cw_id v) (at_code a) (at_body a) t d
      else if retryable_delivery a \<and> cw_attempts v < dj_attempts c
      then sql_reschedule_delivery (dj_worker c) (cw_id v) at (at_code a) (at_body a) (attempt_error S a) t d
      else sql_mark_delivery_failed (dj_worker c) (cw_id v) (at_code a) (at_body a) (attempt_error S a) (dj_disable c) t d)"

lemma deliver_one_runs:
  "\<exists>u at h. sw_db u = sw_db w \<and> run_state (deliver_one S c v) w
     = run_state (map_error h (hook_exec S (\<lambda>se. closing S c v (attempt_of S w v) at (sq_now se)))) u"
proof -
  let ?a = "attempt_of S w v" and ?u = "w\<lparr>sw_tick := Suc (sw_tick w)\<rparr>"
  note unfold = deliver_one_def Let_def attempt_of_def [symmetric]
  consider "delivery_succeeded ?a" | "\<not> delivery_succeeded ?a" "retryable_delivery ?a \<and> cw_attempts v < dj_attempts c"
    | "\<not> delivery_succeeded ?a" "\<not> (retryable_delivery ?a \<and> cw_attempts v < dj_attempts c)" by blast
  then show ?thesis
  proof cases
    case 1
    then have "run_state (deliver_one S c v) w
        = run_state (map_error (Wrap ''mark webhook delivery %s succeeded: %w'' [uuid_string (cw_id v)]) (hook_exec S (\<lambda>se. closing S c v ?a 0 (sq_now se)))) ?u"
      by (simp add: unfold closing_def [abs_def])
    then show ?thesis by (intro exI [of _ ?u]) (auto intro!: exI)
  next
    case 2
    let ?at = "sq_now (hk_env S (Suc (sw_tick w))) + retry_delay (dj_base c) (dj_max c) (cw_attempts v) div 1000"
    from 2 have "run_state (deliver_one S c v) w
        = run_state (map_error (Wrap ''schedule webhook delivery %s retry: %w'' [uuid_string (cw_id v)])
            (hook_exec S (\<lambda>se. closing S c v ?a ?at (sq_now se)))) (?u\<lparr>sw_tick := Suc (Suc (sw_tick w))\<rparr>)"
      by (simp add: unfold closing_def [abs_def])
    then show ?thesis by (intro exI [of _ "?u\<lparr>sw_tick := Suc (Suc (sw_tick w))\<rparr>"]) (auto intro!: exI)
  next
    case 3
    have "run_state (deliver_one S c v) w
        = run_state (map_error (Wrap ''mark webhook delivery %s failed: %w'' [uuid_string (cw_id v)]) (hook_exec S (\<lambda>se. closing S c v ?a 0 (sq_now se)))) ?u"
      by (simp add: unfold closing_def [abs_def] if_not_P [OF 3(1)] if_not_P [OF 3(2)])
    then show ?thesis by (intro exI [of _ ?u]) (auto intro!: exI)
  qed
qed

lemma closing_iff:
  assumes "schema_ok d"
  shows "fst (closing S c v a at t d) = Inr () \<longleftrightarrow> recordable S (dj_worker c) a (cw_id v) d"
  by (cases "at_body a") (auto simp: closing_def recordable_def marks_iff [OF assms])

lemma closing_effect:
  assumes "closing S c v a at t d = (Inr (), d')"
  shows "settled_as (dj_worker c) (cw_id v) a (verdict a (cw_attempts v < dj_attempts c)) d d'"
  using assms unfolding closing_def verdict_def by (auto split: if_splits dest: marks_effect)

text \<open>When no statement fails, an attempt is recorded exactly when the tables accept it, and then the delivery is left with the verdict
  of the attempt: succeeded on a status from 200 to 299, retrying on a transport error or a status that may pass while attempts remain,
  failed otherwise; it keeps the status and the body of the response and is unlocked.\<close>

theorem attempt_recorded_iff:
  assumes "hook_tables (sw_db w)" "\<And>n. sq_fault (hk_env S n) = None"
  shows "(fst (run_state (deliver_one S c v) w) = Inr () \<longleftrightarrow> recordable S (dj_worker c) (attempt_of S w v) (cw_id v) (sw_db w))
    \<and> (recordable S (dj_worker c) (attempt_of S w v) (cw_id v) (sw_db w) \<longrightarrow>
        settled_as (dj_worker c) (cw_id v) (attempt_of S w v) (verdict (attempt_of S w v) (cw_attempts v < dj_attempts c))
          (sw_db w) (sw_db (snd (run_state (deliver_one S c v) w))))"
proof -
  let ?a = "attempt_of S w v"
  obtain u at h where u: "sw_db u = sw_db w"
    "run_state (deliver_one S c v) w = run_state (map_error h (hook_exec S (\<lambda>se. closing S c v ?a at (sq_now se)))) u"
    using deliver_one_runs by metis
  define t where "t = sq_now (hk_env S (sw_tick u))"
  obtain r d' where r: "closing S c v ?a at t (sw_db w) = (r, d')" by force
  have run: "run_state (hook_exec S (\<lambda>se. closing S c v ?a at (sq_now se))) u = (r, u\<lparr>sw_tick := Suc (sw_tick u), sw_db := d'\<rparr>)"
    using r assms(2) u(1) by (simp add: hook_exec_def sql_exec_def t_def)
  have "r = Inr () \<longleftrightarrow> recordable S (dj_worker c) ?a (cw_id v) (sw_db w)"
    using closing_iff [of "sw_db w" S c v ?a at t] assms(1) r by (simp add: tables_schema)
  moreover have "fst (run_state (deliver_one S c v) w) = Inr () \<longleftrightarrow> r = Inr ()"
    unfolding u(2) by (simp add: run_map_error run split: sum.split)
  moreover have "sw_db (snd (run_state (deliver_one S c v) w)) = d'"
    unfolding u(2) by (simp add: run_map_error run split: sum.split)
  ultimately show ?thesis using closing_effect [of S c v ?a at t "sw_db w" d'] r by auto
qed

text \<open>A delivery of the demonstration tables, claimed by the worker \<open>w\<close>, and the row of its claim.\<close>

definition demo_claimed :: hook_delivery where
  "demo_claimed = claimed_delivery ''w'' 3 demo_delivery"

definition demo_claim :: claimed_row where
  "demo_claim = \<lparr>cw_id = UUID ''d1'', cw_event = UUID ''e1'', cw_endpoint = UUID ''h1'', cw_attempts = 1, cw_org = UUID ''o1'',
     cw_type = ''call.ended'', cw_payload = ''{}'', cw_occurred = 1, cw_url = ''https://example.com'', cw_secret = ''key''\<rparr>"

definition demo_ok_hooks :: hook_service where
  "demo_ok_hooks = demo_hooks\<lparr>hk_http := \<lambda>_ _. Inr \<lparr>rp_code = 204, rp_bytes = ''ok'', rp_end = None\<rparr>\<rparr>"

definition demo_held :: hook_db where
  "demo_held = demo_hook_db\<lparr>hd_deliveries := [demo_claimed]\<rparr>"

lemma demo_https: "parse_https (\<lambda>_. Some demo_hook_url) s = Inr demo_hook_url"
proof -
  have "parse_addr ''example.com'' = None" by code_simp
  then show ?thesis by (simp add: parse_https_def demo_hook_url_def)
qed

lemma demo_attempt: "attempt_of demo_hooks w v = \<lparr>at_code = Some 999, at_body = Some ''ok'', at_err = None\<rparr>"
  "attempt_of demo_ok_hooks w v = \<lparr>at_code = Some 204, at_body = Some ''ok'', at_err = None\<rparr>"
  by (simp_all add: attempt_of_def http_send_def demo_ok_hooks_def demo_hooks_def demo_https read_limited_def max_response_body_def)

lemma demo_held_tables: "hook_tables demo_held"
proof -
  have "schema_ok demo_held" unfolding schema_ok_def by code_simp
  moreover have "linked demo_held"
    by (simp add: linked_def delivery_keys_def event_keys_def endpoint_keys_def demo_held_def demo_claimed_def claimed_delivery_def
        demo_delivery_def new_delivery_def demo_hook_db_def demo_event_def demo_endpoint_def)
  moreover have "settled_unlocked demo_claimed"
    by (simp add: settled_unlocked_def demo_claimed_def claimed_delivery_def demo_delivery_def new_delivery_def open_status_def)
  ultimately show ?thesis by (simp add: hook_tables_def demo_held_def)
qed

theorem attempt_recorded_iff_witness:
  "settled_as ''w'' (UUID ''d1'') \<lparr>at_code = Some 204, at_body = Some ''ok'', at_err = None\<rparr> ''succeeded'' demo_held
     (sw_db (snd (run_state (deliver_one demo_ok_hooks (default_delivery_config ''w'') demo_claim) \<lparr>sw_tick = 4, sw_db = demo_held\<rparr>)))"
proof -
  let ?a = "\<lparr>at_code = Some 204, at_body = Some ''ok'', at_err = None\<rparr>" and ?w = "\<lparr>sw_tick = 4, sw_db = demo_held\<rparr>"
  have ok: "delivery_succeeded ?a" by (simp add: delivery_succeeded_def)
  have "list_ex (held_by ''w'' (UUID ''d1'')) (hd_deliveries demo_held)" "pg_text ''ok''" by code_simp+
  with ok have "recordable demo_ok_hooks ''w'' ?a (UUID ''d1'') demo_held" by (simp add: recordable_def)
  moreover have "sq_fault (hk_env demo_ok_hooks n) = None" for n by (simp add: demo_ok_hooks_def demo_hooks_def)
  ultimately show ?thesis
    using attempt_recorded_iff [of ?w demo_ok_hooks "default_delivery_config ''w''" demo_claim] demo_held_tables ok
    by (simp add: demo_attempt verdict_def demo_claim_def default_delivery_config_def)
qed

section \<open>The end of the job\<close>

lemma not_recordable_fails:
  assumes "\<not> recordable S (dj_worker c) a (cw_id v) d"
  shows "\<exists>e. closing S c v a at t d = (Inl e, d)"
proof -
  have settle: "\<exists>e. settle_delivery worker i f g d = (Inl e, d)"
    if "\<not> (list_ex (held_by worker i) (hd_deliveries d) \<and> code_ok code)" "\<And>x. wd_code (f x) = code" for worker i f g code
  proof (cases "one_row (held_by worker i) (hd_deliveries d)")
    case (Inr x)
    then have ex: "list_ex (held_by worker i) (hd_deliveries d)" by (auto simp: one_row_ex [symmetric])
    let ?d = "d\<lparr>hd_deliveries := update_rows (held_by worker i) f (hd_deliveries d), hd_endpoints := g (wd_endpoint x) (hd_endpoints d)\<rparr>"
    have "\<not> schema_ok ?d"
    proof
      assume "schema_ok ?d"
      from range_needed [OF this ex that(2)] that(1) ex show False by simp
    qed
    then have "hooked d (Inr (), ?d) \<noteq> (Inr (), ?d)"
      using constrained_Inr [of hook_schema d "(Inr (), ?d)" "()" ?d] by (auto simp: schema_ok_def)
    with constrained_cases [of hook_schema d "(Inr (), ?d)"] Inr show ?thesis by (auto simp: settle_delivery_def)
  qed (simp add: settle_delivery_def)
  show ?thesis
    using assms
    by (cases "at_body a")
      (auto simp: recordable_def closing_def sql_mark_delivered_def sql_reschedule_delivery_def sql_mark_delivery_failed_def with_texts_def
        intro!: settle [where code = "at_code a"])
qed

lemma unrecordable_fails:
  assumes "\<not> recordable S (dj_worker c) (attempt_of S w v) (cw_id v) (sw_db w)"
  shows "\<exists>e w'. run_state (deliver_one S c v) w = (Inl e, w') \<and> sw_db w' = sw_db w"
proof -
  obtain u at h where u: "sw_db u = sw_db w"
    "run_state (deliver_one S c v) w = run_state (map_error h (hook_exec S (\<lambda>se. closing S c v (attempt_of S w v) at (sq_now se)))) u"
    using deliver_one_runs by metis
  obtain e where "closing S c v (attempt_of S w v) at (sq_now (hk_env S (sw_tick u))) (sw_db u) = (Inl e, sw_db u)"
    using not_recordable_fails assms u(1) by metis
  then obtain e' where "run_state (hook_exec S (\<lambda>se. closing S c v (attempt_of S w v) at (sq_now se))) u = (Inl e', u\<lparr>sw_tick := Suc (sw_tick u)\<rparr>)"
    unfolding hook_exec_def using sql_exec_failed [of "\<lambda>se. closing S c v (attempt_of S w v) at (sq_now se)" "hk_env S" u e] by blast
  with u show ?thesis by (simp add: run_map_error)
qed

text \<open>An endpoint ends the delivery job of every organization: when the attempt of a claimed delivery cannot be recorded - a status
  outside 100 to 599, a body that is not text for the database, as one cut at 4096 bytes inside a code point, or a delivery cancelled while it
  was sent - the run ends with an error that ends the worker, nothing is recorded, and the delivery is as it was
  when it was claimed, to be claimed and sent again when its lock is stale.\<close>

theorem unrecordable_attempt_ends_job:
  assumes "run_state (claim_deliveries S c (sw_tick w)) (w\<lparr>sw_tick := Suc (sw_tick w)\<rparr>) = (Inr (v # vs), u)" "\<not> hk_done S (sw_tick u)"
    and "\<not> recordable S (dj_worker c) (attempt_of S (u\<lparr>sw_tick := Suc (sw_tick u)\<rparr>) v) (cw_id v) (sw_db u)"
  shows "\<exists>e u'. run_state (delivery_run S c rounds) w = (Inl e, u') \<and> sw_db u' = sw_db u"
proof -
  from unrecordable_fails [of S c "u\<lparr>sw_tick := Suc (sw_tick u)\<rparr>" v] assms(3) obtain e u' where
    fails: "run_state (deliver_one S c v) (u\<lparr>sw_tick := Suc (sw_tick u)\<rparr>) = (Inl e, u')" "sw_db u' = sw_db u" by auto
  then have "run_state (deliver_batch S c) w = (Inl e, u')"
    using assms(1,2) by (simp add: deliver_batch_def run_chain run_map_error)
  then have "run_state (delivery_run S c rounds) w = (Inl e, u')" by (cases rounds) (simp_all add: run_chain)
  with fails(2) show ?thesis by blast
qed

definition demo_job :: delivery_config where
  "demo_job = \<lparr>dj_worker = ''w'', dj_batch = 5, dj_poll = 1, dj_lock = 1000, dj_base = 1, dj_max = 1, dj_attempts = 8, dj_disable = 5\<rparr>"

theorem unrecordable_attempt_ends_job_witness:
  "\<exists>e u'. run_state (delivery_run demo_hooks demo_job 3) \<lparr>sw_tick = 2, sw_db = demo_hook_db\<rparr> = (Inl e, u') \<and> sw_db u' = demo_held"
proof -
  let ?w = "\<lparr>sw_tick = 2, sw_db = demo_hook_db\<rparr>" and ?u = "\<lparr>sw_tick = 4, sw_db = demo_held\<rparr>"
  have "sql_claim_deliveries ''w'' 1 5 3 demo_hook_db = (Inr [demo_claim], demo_held)" by code_simp
  then have claim: "run_state (claim_deliveries demo_hooks demo_job (sw_tick ?w)) (?w\<lparr>sw_tick := Suc (sw_tick ?w)\<rparr>) = (Inr (demo_claim # []), ?u)"
    by (simp add: claim_deliveries_def hook_exec_def sql_exec_def demo_hooks_def demo_job_def)
  have "\<not> recordable demo_hooks ''w'' \<lparr>at_code = Some 999, at_body = Some ''ok'', at_err = None\<rparr> i d" for i d
    by (simp add: recordable_def)
  then show ?thesis
    using unrecordable_attempt_ends_job [OF claim, of 3] by (simp add: demo_attempt demo_job_def) (simp add: demo_hooks_def)
qed

section \<open>Creating a disabled endpoint\<close>

text \<open>A webhook cannot be created disabled, although the request can say so: the row would be disabled without the time it was
  disabled at, which a constraint of the table forbids. Every such request fails, with an internal error once it is valid, and leaves
  the tables as they were.\<close>

theorem disabled_webhook_rejected:
  assumes "hc_enabled req = Some False"
  shows "\<exists>e w'. run_state (hook_create_op S org req) w = (Inl e, w') \<and> sw_db w' = sw_db w
    \<and> (hook_valid_org org = None \<and> (\<exists>r. normalize_hook_create S req = Inr r) \<and> org_active (sw_db w) org
       \<and> (\<forall>n. sq_fault (hk_env S n) = None \<and> (\<exists>k. hk_random S n = Inr k)) \<longrightarrow> (\<exists>code. e = new_internal ''create webhook'' (Some (PgErr code))))"
proof (cases "hook_valid_org org = None \<and> (\<exists>r. normalize_hook_create S req = Inr r) \<and> (\<exists>k. hk_random S (sw_tick w) = Inr k)")
  case True
  then obtain r k where r: "hook_valid_org org = None" "normalize_hook_create S req = Inr r" "hk_random S (sw_tick w) = Inr k" by blast
  then have "hc_enabled r = Some False"
    using assms by (auto simp: normalize_hook_create_def rbind_def split: sum.splits)
  then have bad: "\<not> schema_ok (d\<lparr>hd_endpoints := hd_endpoints d @ [new_hook_endpoint org u es (hc_enabled r) k i t]\<rparr>)" for d u es i t
    by (simp add: schema_ok_def hook_schema_def hook_endpoint_ok_def new_hook_endpoint_def keep_or_def)
  have create: "\<exists>e. sql_create_hook org u es (hc_enabled r) k i t d = (Inl e, d) \<and> (org_active d org \<longrightarrow> (\<exists>code. e = PgErr code))" for u es i t d
    using bad [of d u es i t] violation_pg [of hook_schema] violation_None [of hook_schema]
    by (auto simp: sql_create_hook_def with_texts_def constrained_def Let_def schema_ok_def split: option.split)
  let ?q = "\<lambda>se. sql_create_hook org (hc_url r) (hc_events r) (hc_enabled r) k (sq_fresh se) (sq_now se)"
  let ?u = "w\<lparr>sw_tick := Suc (sw_tick w)\<rparr>"
  obtain e where e: "?q (hk_env S (sw_tick ?u)) (sw_db w) = (Inl e, sw_db w)" "org_active (sw_db w) org \<longrightarrow> (\<exists>code. e = PgErr code)"
    using create by blast
  obtain e' where run: "run_state (hook_exec S ?q) ?u = (Inl e', ?u\<lparr>sw_tick := Suc (sw_tick ?u)\<rparr>)"
    "sq_fault (hk_env S (sw_tick ?u)) = None \<longrightarrow> e' = e"
    using sql_exec_failed [of ?q "hk_env S" ?u e] e(1) by (auto simp: hook_exec_def)
  have "run_state (hook_create_op S org req) w
      = (Inl (if errors_is e' err_no_rows then new_not_found ''create webhook'' else new_internal ''create webhook'' (Some e')),
         ?u\<lparr>sw_tick := Suc (sw_tick ?u)\<rparr>)"
    using r run(1) by (simp add: hook_create_op_def run_chain run_map_error hook_read_err_def new_signing_secret_def)
  with run(2) e(2) show ?thesis by (auto simp: err_no_rows_def)
next
  case False
  have "\<exists>e w'. run_state (hook_create_op S org req) w = (Inl e, w') \<and> sw_db w' = sw_db w"
    using False
    by (cases "hook_valid_org org"; cases "normalize_hook_create S req"; cases "hk_random S (sw_tick w)")
      (auto simp: hook_create_op_def run_chain run_map_error new_signing_secret_def)
  with False show ?thesis by blast
qed

theorem disabled_webhook_rejected_witness:
  "\<exists>e w' code. run_state (hook_create_op demo_hooks (UUID ''o1'') \<lparr>hc_url = ''https://example.com'', hc_events = [''call.ended''], hc_enabled = Some False\<rparr>)
     \<lparr>sw_tick = 0, sw_db = demo_hook_db\<rparr> = (Inl e, w') \<and> e = new_internal ''create webhook'' (Some (PgErr code))"
proof -
  let ?req = "\<lparr>hc_url = ''https://example.com'', hc_events = [''call.ended''], hc_enabled = Some False\<rparr>"
  have "hook_valid_org (UUID ''o1'') = None" by code_simp
  moreover have "normalize_events [''call.ended''] = Inr [''call.ended'']" by code_simp
  then have "\<exists>r. normalize_hook_create demo_hooks ?req = Inr r"
    by (simp add: normalize_hook_create_def normalize_hook_url_def demo_hooks_def demo_https Let_def rbind_def)
  moreover have "org_active demo_hook_db (UUID ''o1'')" by code_simp
  moreover have "sq_fault (hk_env demo_hooks n) = None \<and> (\<exists>k. hk_random demo_hooks n = Inr k)" for n by (simp add: demo_hooks_def)
  ultimately show ?thesis
    using disabled_webhook_rejected [of ?req demo_hooks "UUID ''o1''" "\<lparr>sw_tick = 0, sw_db = demo_hook_db\<rparr>"] by auto
qed

end
