(* ===== verification/Idem_Keys.thy ===== *)
theory Idem_Keys
  imports Sql_World
begin

text \<open>
  Idempotent requests: the table \<open>idempotency\<close> (\<open>migrations/021_create_idempotency.sql\<close>) with its statements
  (\<open>idempotency.sql.go\<close>), the service (\<open>platform/idempotency\<close>) and the middleware that wraps a handler
  (\<open>platform/middleware/idempotency.go\<close>). The world holds the table and the requests whose handler has run. SHA-256 is a
  parameter; a handler answers with the calls it makes on its response writer, or panics.
\<close>

section \<open>JSON strings\<close>

text \<open>\<open>json.Marshal\<close> writes a string with every invalid byte replaced by U+FFFD.\<close>

fun rune_len :: "nat list \<Rightarrow> nat option" where
  "rune_len [] = None"
| "rune_len (a # bs) =
     (if a < 0x80 then Some 1
      else (case bs of
        [] \<Rightarrow> None
      | b # cs \<Rightarrow>
          if 0xC2 \<le> a \<and> a \<le> 0xDF then (if cont_byte b then Some 2 else None)
          else (case cs of
            [] \<Rightarrow> None
          | c # ds \<Rightarrow>
              if 0xE0 \<le> a \<and> a \<le> 0xEF
              then (if cont_byte b \<and> cont_byte c \<and> (a = 0xE0 \<longrightarrow> 0xA0 \<le> b) \<and> (a = 0xED \<longrightarrow> b \<le> 0x9F) then Some 3 else None)
              else (case ds of
                [] \<Rightarrow> None
              | d # es \<Rightarrow> if 0xF0 \<le> a \<and> a \<le> 0xF4 \<and> cont_byte b \<and> cont_byte c \<and> cont_byte d
                  \<and> (a = 0xF0 \<longrightarrow> 0x90 \<le> b) \<and> (a = 0xF4 \<longrightarrow> b \<le> 0x8F) then Some 4 else None))))"

fun utf8_repair :: "nat list \<Rightarrow> nat list" where
  "utf8_repair [] = []"
| "utf8_repair (a # bs) = (case rune_len (a # bs) of
     None \<Rightarrow> [0xEF, 0xBF, 0xBD] @ utf8_repair bs
   | Some n \<Rightarrow> take n (a # bs) @ utf8_repair (drop (n - 1) bs))"

definition json_string :: "string \<Rightarrow> string" where
  "json_string s = map char_of (utf8_repair (map of_char s))"

lemma rune_len_valid:
  assumes "utf8_bytes (a # bs)"
  shows "\<exists>n. rune_len (a # bs) = Some n \<and> 1 \<le> n \<and> utf8_bytes (drop (n - 1) bs)"
proof (cases "a < 0x80")
  case True
  with assms show ?thesis by simp
next
  case large: False
  with assms obtain b cs where bs: "bs = b # cs" by (cases bs) simp_all
  show ?thesis
  proof (cases "0xC2 \<le> a \<and> a \<le> 0xDF")
    case True
    with large assms show ?thesis unfolding bs by simp
  next
    case more: False
    with large assms obtain c ds where cs: "cs = c # ds" unfolding bs by (cases cs) auto
    show ?thesis
    proof (cases "0xE0 \<le> a \<and> a \<le> 0xEF")
      case True
      have e: "drop (3 - 1) (b # c # ds) = ds" by simp
      from True large more assms show ?thesis unfolding bs cs by (intro exI [of _ 3]) simp
    next
      case most: False
      with large more assms obtain d es where ds: "ds = d # es" unfolding bs cs by (cases ds) auto
      from most large more assms show ?thesis unfolding bs cs ds by (intro exI [of _ 4]) (auto split: if_splits)
    qed
  qed
qed

lemma utf8_repair_valid: "utf8_bytes bs \<Longrightarrow> utf8_repair bs = bs"
proof (induction bs rule: utf8_repair.induct)
  case (2 a bs)
  from rune_len_valid [OF 2(3)] obtain n where n: "rune_len (a # bs) = Some n" "1 \<le> n" "utf8_bytes (drop (n - 1) bs)" by blast
  from 2(2) [OF n(1,3)] n have "utf8_repair (a # bs) = take n (a # bs) @ drop (n - 1) bs" by (simp only: utf8_repair.simps option.case)
  also have "\<dots> = a # bs" using n(2) by (cases n) simp_all
  finally show ?case .
qed simp

lemma json_string_valid: "utf8_valid s \<Longrightarrow> json_string s = s"
  by (simp add: json_string_def utf8_valid_def utf8_repair_valid comp_def)

section \<open>The table\<close>

type_synonym headers = "(string \<times> string list) list"

record idem_row =
  im_scope :: string
  im_key :: string
  im_method :: string
  im_path :: string
  im_hash :: string
  im_status :: string
  im_code :: "int option"
  im_body :: "string option"
  im_type :: "string option"
  im_headers :: headers
  im_locked :: int
  im_completed :: "int option"
  im_expires :: int
  im_created :: int
  im_updated :: int

text \<open>Besides the table, the world records the requests whose handler has run.\<close>

record idem_request =
  ir_scope :: string
  ir_key :: string
  ir_method :: string
  ir_path :: string
  ir_hash :: string

record idem_db =
  id_rows :: "idem_row list"
  id_runs :: "idem_request list"

definition rune_count :: "string \<Rightarrow> nat" where
  "rune_count s = length (filter (\<lambda>c. \<not> cont_byte (of_char c)) s)"

definition space_trimmed :: "string \<Rightarrow> string" where
  "space_trimmed s = rev (dropWhile ((=) CHR '' '') (rev (dropWhile ((=) CHR '' '') s)))"

definition idem_ok :: "idem_row \<Rightarrow> bool" where
  "idem_ok r \<longleftrightarrow> (let n = rune_count (space_trimmed (im_scope r)) in 1 \<le> n \<and> n \<le> 255)
     \<and> (let n = rune_count (space_trimmed (im_key r)) in 1 \<le> n \<and> n \<le> 255)
     \<and> not_blank (im_method r) \<and> not_blank (im_path r) \<and> rune_count (im_hash r) = 64
     \<and> im_status r \<in> {''processing'', ''completed''}
     \<and> (case im_code r of None \<Rightarrow> True | Some c \<Rightarrow> 100 \<le> c \<and> c \<le> 599)
     \<and> (im_status r = ''processing'' \<and> im_code r = None \<and> im_completed r = None
        \<or> im_status r = ''completed'' \<and> im_code r \<noteq> None \<and> im_completed r \<noteq> None)
     \<and> im_created r < im_expires r \<and> im_locked r \<le> im_expires r"

definition idem_schema :: "(string \<times> (idem_db \<Rightarrow> bool)) list" where
  "idem_schema = [(''23514'', \<lambda>d. list_all idem_ok (id_rows d)),
     (''23505'', \<lambda>d. distinct (map (\<lambda>r. (im_scope r, im_key r)) (id_rows d)))]"

definition same_slot :: "idem_request \<Rightarrow> idem_row \<Rightarrow> bool" where
  "same_slot q r \<longleftrightarrow> im_scope r = ir_scope q \<and> im_key r = ir_key q"

definition same_print :: "idem_request \<Rightarrow> idem_row \<Rightarrow> bool" where
  "same_print q r \<longleftrightarrow> im_method r = ir_method q \<and> im_path r = ir_path q \<and> im_hash r = ir_hash q"

definition reclaimable :: "idem_request \<Rightarrow> int \<Rightarrow> idem_row \<Rightarrow> bool" where
  "reclaimable q now r \<longleftrightarrow> im_expires r \<le> now
     \<or> im_status r = ''processing'' \<and> im_locked r \<le> now \<and> same_print q r"

definition reclaimed_row :: "idem_request \<Rightarrow> int \<Rightarrow> int \<Rightarrow> int \<Rightarrow> idem_row \<Rightarrow> idem_row" where
  "reclaimed_row q locked expires now r = r\<lparr>im_method := ir_method q, im_path := ir_path q, im_hash := ir_hash q,
     im_status := ''processing'', im_code := None, im_body := None, im_type := None, im_headers := [], im_locked := locked,
     im_completed := None, im_expires := expires, im_updated := now\<rparr>"

definition new_idem_row :: "idem_request \<Rightarrow> int \<Rightarrow> int \<Rightarrow> int \<Rightarrow> idem_row" where
  "new_idem_row q locked expires now = \<lparr>im_scope = ir_scope q, im_key = ir_key q, im_method = ir_method q, im_path = ir_path q,
     im_hash = ir_hash q, im_status = ''processing'', im_code = None, im_body = None, im_type = None, im_headers = [],
     im_locked = locked, im_completed = None, im_expires = expires, im_created = now, im_updated = now\<rparr>"

definition request_texts :: "idem_request \<Rightarrow> string list" where
  "request_texts q = [ir_scope q, ir_key q, ir_method q, ir_path q, ir_hash q]"

definition sql_claim_key :: "idem_request \<Rightarrow> int \<Rightarrow> int \<Rightarrow> int \<Rightarrow> idem_db \<Rightarrow> (go_err + idem_row) \<times> idem_db" where
  "sql_claim_key q locked expires now d = with_texts (request_texts q) d
     (case find (same_slot q) (id_rows d) of
        None \<Rightarrow> constrained idem_schema d
          (Inr (new_idem_row q locked expires now), d\<lparr>id_rows := id_rows d @ [new_idem_row q locked expires now]\<rparr>)
      | Some r \<Rightarrow>
          if reclaimable q now r
          then constrained idem_schema d (Inr (reclaimed_row q locked expires now r),
                 d\<lparr>id_rows := update_rows (same_slot q) (reclaimed_row q locked expires now) (id_rows d)\<rparr>)
          else (Inl err_no_rows, d))"

definition sql_get_key :: "idem_request \<Rightarrow> idem_db \<Rightarrow> go_err + idem_row" where
  "sql_get_key q d = one_row (same_slot q) (id_rows d)"

record idem_response =
  is_code :: int
  is_body :: string
  is_type :: string
  is_headers :: headers

definition completable :: "idem_request \<Rightarrow> int \<Rightarrow> idem_row \<Rightarrow> bool" where
  "completable q lease r \<longleftrightarrow> same_slot q r \<and> same_print q r \<and> im_status r = ''processing'' \<and> im_locked r = lease"

definition completed_row :: "idem_response \<Rightarrow> int \<Rightarrow> idem_row \<Rightarrow> idem_row" where
  "completed_row p now r = r\<lparr>im_status := ''completed'', im_code := Some (is_code p), im_body := Some (is_body p),
     im_type := Some (is_type p), im_headers := is_headers p, im_completed := Some now, im_locked := now, im_updated := now\<rparr>"

text \<open>The headers are stored as JSON, which holds no zero character (22P05).\<close>

definition json_headers :: "headers \<Rightarrow> headers" where
  "json_headers hs = map (\<lambda>(k, vs). (json_string k, map json_string vs)) hs"

definition headers_storable :: "headers \<Rightarrow> bool" where
  "headers_storable hs \<longleftrightarrow> list_all (\<lambda>(k, vs). list_all (\<lambda>s. CHR 0x00 \<notin> set s) (k # vs)) hs"

definition sql_complete_key :: "idem_request \<Rightarrow> int \<Rightarrow> idem_response \<Rightarrow> int \<Rightarrow> idem_db \<Rightarrow> (go_err + idem_row) \<times> idem_db" where
  "sql_complete_key q lease p now d = with_texts (is_type p # request_texts q) d
     (if \<not> headers_storable (is_headers p) then (Inl (PgErr ''22P05''), d)
      else (case one_row (completable q lease) (id_rows d) of
        Inl e \<Rightarrow> (Inl e, d)
      | Inr r \<Rightarrow> constrained idem_schema d (Inr (completed_row p now r),
                   d\<lparr>id_rows := update_rows (completable q lease) (completed_row p now) (id_rows d)\<rparr>)))"

definition sql_delete_expired :: "int \<Rightarrow> idem_db \<Rightarrow> (go_err + int) \<times> idem_db" where
  "sql_delete_expired now d = (Inr (int (length (filter (\<lambda>r. im_expires r \<le> now) (id_rows d)))),
     d\<lparr>id_rows := filter (\<lambda>r. \<not> im_expires r \<le> now) (id_rows d)\<rparr>)"

section \<open>The service\<close>

text \<open>Durations and clocks are microseconds.\<close>

record idem_service =
  is_env :: "nat \<Rightarrow> sql_env"
  is_lock :: int
  is_record :: int
  is_sha :: "string \<Rightarrow> string"

type_synonym 'a idem_action = "(idem_db, 'a) sql_action"

definition err_key_conflict :: go_err where
  "err_key_conflict = Sentinel ''idempotency key was already used for another request''"

definition err_in_progress :: go_err where
  "err_in_progress = Sentinel ''request with this idempotency key is still processing''"

definition claim_key :: "idem_service \<Rightarrow> idem_request \<Rightarrow> int \<Rightarrow> int \<Rightarrow> (idem_row \<times> bool) idem_action" where
  "claim_key S q locked expires =
     handle (sql_exec (is_env S) (\<lambda>se. sql_claim_key q locked expires (sq_now se)))
       (\<lambda>e. if \<not> errors_is e err_no_rows then fail e
            else chain (sql_query (is_env S) (\<lambda>_. sql_get_key q)) (\<lambda>r. succeed (r, False)))
       (\<lambda>r. succeed (r, True))"

datatype idem_claim = Leased int | Stored idem_response

definition stored_response :: "idem_row \<Rightarrow> idem_response" where
  "stored_response r = \<lparr>is_code = (case im_code r of Some c \<Rightarrow> c | None \<Rightarrow> 0),
     is_body = (case im_body r of Some b \<Rightarrow> b | None \<Rightarrow> []), is_type = (case im_type r of Some t \<Rightarrow> t | None \<Rightarrow> []), is_headers = im_headers r\<rparr>"

definition service_claim :: "idem_service \<Rightarrow> idem_request \<Rightarrow> idem_claim idem_action" where
  "service_claim S q = do { n \<leftarrow> sql_tick;
     let now = sq_now (is_env S n) in
     chain (claim_key S q (now + is_lock S) (now + is_record S)) (\<lambda>(r, claimed).
     if claimed then succeed (Leased (im_locked r))
     else if \<not> same_print q r then fail err_key_conflict
     else if im_status r \<noteq> ''completed'' then fail err_in_progress
     else succeed (Stored (stored_response r))) }"

definition service_complete :: "idem_service \<Rightarrow> idem_request \<Rightarrow> int \<Rightarrow> idem_response \<Rightarrow> unit idem_action" where
  "service_complete S q lease p =
     map_error (\<lambda>e. if errors_is e err_no_rows then err_in_progress else e)
       (chain (sql_exec (is_env S) (\<lambda>se. sql_complete_key q lease (p\<lparr>is_headers := json_headers (is_headers p)\<rparr>) (sq_now se))) (\<lambda>_. succeed ()))"

definition cleanup_pass :: "idem_service \<Rightarrow> unit idem_action" where
  "cleanup_pass S = map_error (Wrap ''delete expired idempotency keys: %w'' [])
     (chain (sql_exec (is_env S) (\<lambda>se. sql_delete_expired (sq_now se))) (\<lambda>_. succeed ()))"

section \<open>The middleware\<close>

text \<open>The calls of a handler on \<open>bufferedResponseWriter\<close>; the first status counts.\<close>

datatype writer_call = Set_Header string "string list" | Write_Header int | Write_Body string

record buffered =
  bw_header :: headers
  bw_body :: string
  bw_status :: int
  bw_wrote :: bool

definition new_buffered :: buffered where
  "new_buffered = \<lparr>bw_header = [], bw_body = [], bw_status = 200, bw_wrote = False\<rparr>"

fun buffer_call :: "writer_call \<Rightarrow> buffered \<Rightarrow> buffered" where
  "buffer_call (Set_Header k vs) b = b\<lparr>bw_header := AList.update k vs (bw_header b)\<rparr>"
| "buffer_call (Write_Header s) b = (if bw_wrote b then b else b\<lparr>bw_status := s, bw_wrote := True\<rparr>)"
| "buffer_call (Write_Body t) b = b\<lparr>bw_wrote := True, bw_body := bw_body b @ t\<rparr>"

definition captured :: "writer_call list \<Rightarrow> buffered" where
  "captured calls = fold buffer_call calls new_buffered"

definition token_char :: "char \<Rightarrow> bool" where
  "token_char c \<longleftrightarrow> is_digit c \<or> c \<in> set ''abcdefghijklmnopqrstuvwxyzABCDEFGHIJKLMNOPQRSTUVWXYZ!#$%&*+-.^_`|~'' \<or> c = CHR 0x27"

fun capitals :: "bool \<Rightarrow> string \<Rightarrow> string" where
  "capitals upper [] = []"
| "capitals upper (c # cs) = (if upper then upper_char c else lower_char c) # capitals (c = CHR ''-'') cs"

definition canonical_key :: "string \<Rightarrow> string" where
  "canonical_key s = (if list_all token_char s then capitals True s else s)"

definition replay_headers :: "headers \<Rightarrow> headers" where
  "replay_headers hs = filter (\<lambda>(name, _). canonical_key name \<notin>
     {''Connection'', ''Content-Length'', ''Content-Type'', ''Set-Cookie'', ''Transfer-Encoding''}) hs"

definition header_get :: "string \<Rightarrow> headers \<Rightarrow> string" where
  "header_get name hs = (case map_of hs name of Some (v # _) \<Rightarrow> v | _ \<Rightarrow> [])"

definition response_of :: "buffered \<Rightarrow> idem_response" where
  "response_of b = \<lparr>is_code = bw_status b, is_body = bw_body b, is_type = header_get ''Content-Type'' (bw_header b),
     is_headers = replay_headers (bw_header b)\<rparr>"

text \<open>A request as the middleware sees it: the principal is the one \<open>PrincipalFromContext\<close> finds, already valid.\<close>

record http_call =
  hq_method :: string
  hq_uri :: string
  hq_key :: string
  hq_org :: "uuid option"
  hq_principal :: "(string \<times> uuid) option"
  hq_body :: string
  hq_body_err :: "go_err option"

datatype idem_answer =
    Passed_On
  | Refused go_err
  | Replayed idem_response
  | Answered buffered
  | Panicked

definition mutation_method :: "string \<Rightarrow> bool" where
  "mutation_method m \<longleftrightarrow> m \<in> {''POST'', ''PUT'', ''PATCH'', ''DELETE''}"

definition idempotency_scope :: "http_call \<Rightarrow> string option" where
  "idempotency_scope c = (case hq_org c of
     Some org \<Rightarrow> Some (''organization:'' @ uuid_string org)
   | None \<Rightarrow> map_option (\<lambda>(kind, i). kind @ '':'' @ uuid_string i) (hq_principal c))"

definition max_idempotent_body :: nat where "max_idempotent_body = 2 ^ 20"

text \<open>\<open>io.ReadAll(io.LimitReader(body, n + 1))\<close>: an error beyond the limit is not met.\<close>

definition read_idempotent_body :: "http_call \<Rightarrow> go_err + string" where
  "read_idempotent_body c =
     (if hq_body_err c \<noteq> None \<and> length (hq_body c) < max_idempotent_body + 1 then Inl (new_bad_request ''invalid request body'')
      else if max_idempotent_body < length (hq_body c)
      then Inl (new_payload_too_large ''idempotent request body exceeds 1 MiB'')
      else Inr (hq_body c))"

definition idempotency_error :: "go_err \<Rightarrow> go_err" where
  "idempotency_error e =
     (if errors_is e err_key_conflict then new_conflict ''idempotency key was already used for another request''
      else if errors_is e err_in_progress then new_conflict ''request with this idempotency key is still processing''
      else new_service_unavailable ''idempotency service unavailable'' (Some e))"

definition request_of :: "idem_service \<Rightarrow> http_call \<Rightarrow> string \<Rightarrow> string \<Rightarrow> idem_request" where
  "request_of S c scope body = \<lparr>ir_scope = scope, ir_key = trim_space (hq_key c), ir_method = hq_method c, ir_path = hq_uri c,
     ir_hash = is_sha S body\<rparr>"

definition validated_request :: "idem_service \<Rightarrow> bool \<Rightarrow> http_call \<Rightarrow> go_err + idem_request" where
  "validated_request S required c =
     (if 255 < length (trim_space (hq_key c)) then Inl (new_bad_request ''idempotency key must not exceed 255 characters'')
      else (case idempotency_scope c of
        None \<Rightarrow> Inl (new_unauthorized ''authenticated idempotency scope required'')
      | Some scope \<Rightarrow> rbind (read_idempotent_body c) (\<lambda>body. Inr (request_of S c scope body))))"

text \<open>The handler: a step of the environment, which the world records.\<close>

definition run_handler :: "(nat \<Rightarrow> writer_call list option) \<Rightarrow> idem_request \<Rightarrow> (idem_db sql_world, writer_call list option) state" where
  "run_handler h q = State (\<lambda>w. (h (sw_tick w), w\<lparr>sw_tick := Suc (sw_tick w), sw_db := (sw_db w)\<lparr>id_runs := id_runs (sw_db w) @ [q]\<rparr>\<rparr>))"

definition answer_request :: "idem_service \<Rightarrow> (nat \<Rightarrow> writer_call list option) \<Rightarrow> idem_request \<Rightarrow> (idem_db sql_world, idem_answer) state" where
  "answer_request S h q = handle (service_claim S q)
     (\<lambda>e. State_Monad.return (Refused (idempotency_error e)))
     (\<lambda>claim. case claim of
        Stored p \<Rightarrow> State_Monad.return (Replayed p)
      | Leased lease \<Rightarrow> do { calls \<leftarrow> run_handler h q;
          case calls of None \<Rightarrow> State_Monad.return Panicked
          | Some cs \<Rightarrow> do { _ \<leftarrow> service_complete S q lease (response_of (captured cs));
              State_Monad.return (Answered (captured cs)) } })"

definition idempotent :: "idem_service \<Rightarrow> bool \<Rightarrow> (nat \<Rightarrow> writer_call list option) \<Rightarrow> http_call \<Rightarrow> (idem_db sql_world, idem_answer) state" where
  "idempotent S required h c =
     (if \<not> mutation_method (hq_method c) then State_Monad.return Passed_On
      else if trim_space (hq_key c) = []
      then State_Monad.return (if required then Refused (new_bad_request ''Idempotency-Key header is required'') else Passed_On)
      else (case validated_request S required c of
        Inl e \<Rightarrow> State_Monad.return (Refused e)
      | Inr q \<Rightarrow> answer_request S h q))"

end
