(* ===== verification/Idem_Safety.thy ===== *)
theory Idem_Safety
  imports Idem_Keys
begin

text \<open>
  What an idempotency key promises. Requests overlap: the steps of \<open>idem_step\<close> are the statements of any number
  of requests in flight, at the time of the server, and every request takes only such steps. On it: how often the handler
  of a key runs, what a duplicate is answered, and what is left when the completion of a request is lost.
\<close>

section \<open>Requests in flight\<close>

type_synonym idem_state = "idem_db \<times> (idem_request \<times> int) list"

definition ran :: "idem_request \<Rightarrow> idem_db \<Rightarrow> idem_db" where
  "ran q d = d\<lparr>id_runs := id_runs d @ [q]\<rparr>"

inductive idem_step :: "int \<Rightarrow> idem_state \<Rightarrow> idem_state \<Rightarrow> bool" where
  is_claimed: "sql_claim_key q locked expires t d = (Inr r, d') \<Longrightarrow> idem_step t (d, F) (ran q d', (q, im_locked r) # F)"
| is_lost: "sql_claim_key q locked expires t d = (Inr r, d') \<Longrightarrow> idem_step t (d, F) (d', F)"
| is_complete: "(q, lease) \<in> set F \<Longrightarrow> idem_step t (d, F) (snd (sql_complete_key q lease p t d), F)"
| is_gone: "set F' \<subseteq> set F \<Longrightarrow> idem_step t (d, F) (d, F')"
| is_cleanup: "idem_step t (d, F) (snd (sql_delete_expired t d), F)"

inductive_cases idem_stepE: "idem_step t x y"

text \<open>Any number of steps before the time \<open>T\<close>.\<close>

definition before :: "int \<Rightarrow> idem_state \<Rightarrow> idem_state \<Rightarrow> bool" where
  "before T = (\<lambda>x y. \<exists>t < T. idem_step t x y)\<^sup>*\<^sup>*"

section \<open>Protected keys\<close>

definition idem_valid :: "idem_db \<Rightarrow> bool" where
  "idem_valid d \<longleftrightarrow> (\<forall>(code, ok) \<in> set idem_schema. ok d)"

definition slot :: "idem_row \<Rightarrow> string \<times> string" where
  "slot r = (im_scope r, im_key r)"

definition slot_runs :: "string \<times> string \<Rightarrow> idem_db \<Rightarrow> idem_request list" where
  "slot_runs k d = filter (\<lambda>q. (ir_scope q, ir_key q) = k) (id_runs d)"

text \<open>A record keeps other requests from running until \<open>T\<close>: it is completed and not expired, or leased.\<close>

definition holds_until :: "int \<Rightarrow> idem_row \<Rightarrow> bool" where
  "holds_until T r \<longleftrightarrow> T \<le> im_expires r \<and> (im_status r = ''completed'' \<or> im_status r = ''processing'' \<and> T \<le> im_locked r)"

text \<open>The record after some steps: the same, or completed by the request that holds its lease.\<close>

definition same_or_completed :: "idem_row \<Rightarrow> idem_row \<Rightarrow> bool" where
  "same_or_completed r r' \<longleftrightarrow> r' = r
     \<or> im_status r = ''processing'' \<and> im_status r' = ''completed'' \<and> slot r' = slot r \<and> im_expires r' = im_expires r
       \<and> (im_method r', im_path r', im_hash r') = (im_method r, im_path r, im_hash r)"

lemma same_slot_slot: "same_slot q r \<longleftrightarrow> slot r = (ir_scope q, ir_key q)"
  by (simp add: same_slot_def slot_def)

lemma valid_distinct: "idem_valid d \<Longrightarrow> r \<in> set (id_rows d) \<Longrightarrow> s \<in> set (id_rows d) \<Longrightarrow> slot r = slot s \<Longrightarrow> r = s"
  by (auto simp: idem_valid_def idem_schema_def slot_def distinct_map inj_on_def)

lemma find_slot:
  assumes "idem_valid d" "r \<in> set (id_rows d)" "same_slot q r"
  shows "find (same_slot q) (id_rows d) = Some r"
proof (cases "find (same_slot q) (id_rows d)")
  case None
  with assms show ?thesis by (auto simp: find_None_iff)
next
  case (Some s)
  then have "s \<in> set (id_rows d)" "same_slot q s" by (auto simp: find_Some_iff)
  with assms Some show ?thesis using valid_distinct by (metis same_slot_slot)
qed

lemma valid_hooked: "idem_valid old \<Longrightarrow> idem_valid (snd (constrained idem_schema old r))"
  using constrained_cases [of idem_schema old r] by (auto simp: idem_valid_def)

lemma valid_texts: "idem_valid old \<Longrightarrow> idem_valid (snd r) \<Longrightarrow> idem_valid (snd (with_texts ps old r))"
  by (simp add: with_texts_def)

lemma claim_valid: "idem_valid d \<Longrightarrow> idem_valid (snd (sql_claim_key q locked expires t d))"
  unfolding sql_claim_key_def by (auto intro!: valid_texts valid_hooked split: option.split)

lemma complete_valid: "idem_valid d \<Longrightarrow> idem_valid (snd (sql_complete_key q lease p t d))"
  unfolding sql_complete_key_def by (auto intro!: valid_texts valid_hooked split: sum.split)

lemma cleanup_valid: "idem_valid d \<Longrightarrow> idem_valid (snd (sql_delete_expired t d))"
  by (auto simp: sql_delete_expired_def idem_valid_def idem_schema_def list_all_iff distinct_map inj_on_def)

lemma runs_kept [simp]:
  "id_runs (snd (sql_claim_key q locked expires t d)) = id_runs d"
  "id_runs (snd (sql_complete_key q lease p t d)) = id_runs d" "id_runs (snd (sql_delete_expired t d)) = id_runs d"
  by (auto simp: sql_claim_key_def sql_complete_key_def sql_delete_expired_def with_texts_def constrained_def
      split: option.split sum.split)

text \<open>A claim of a protected key has no row; a claim of another key leaves it.\<close>

lemma claim_protected:
  assumes "idem_valid d" "r \<in> set (id_rows d)" "holds_until T r" "t < T" "same_slot q r"
  shows "sql_claim_key q locked expires t d = with_texts (request_texts q) d (Inl err_no_rows, d)"
proof -
  have "\<not> reclaimable q t r" using assms(3,4) by (auto simp: reclaimable_def holds_until_def)
  with find_slot [OF assms(1,2,5)] show ?thesis by (simp add: sql_claim_key_def)
qed

lemma claim_other:
  assumes "sql_claim_key q locked expires t d = (Inr x, d')" "r \<in> set (id_rows d)" "\<not> same_slot q r"
  shows "r \<in> set (id_rows d')"
proof (cases "find (same_slot q) (id_rows d)")
  case None
  with assms show ?thesis unfolding sql_claim_key_def by (auto dest!: with_texts_Inr constrained_Inr)
next
  case (Some s)
  with assms(1) have "id_rows d' = update_rows (same_slot q) (reclaimed_row q locked expires t) (id_rows d)"
    unfolding sql_claim_key_def by (auto dest!: with_texts_Inr constrained_Inr split: if_splits)
  with assms(2,3) show ?thesis by (force simp: update_rows_def)
qed

lemma complete_row:
  assumes "r \<in> set (id_rows d)"
  shows "\<exists>r' \<in> set (id_rows (snd (sql_complete_key q lease p t d))). r' = r \<or> completable q lease r \<and> r' = completed_row p t r"
proof -
  have "snd (sql_complete_key q lease p t d) = d
      \<or> snd (sql_complete_key q lease p t d) = d\<lparr>id_rows := update_rows (completable q lease) (completed_row p t) (id_rows d)\<rparr>"
    by (auto simp: sql_complete_key_def with_texts_def constrained_def split: sum.split option.split)
  then show ?thesis
  proof
    assume "snd (sql_complete_key q lease p t d) = d\<lparr>id_rows := update_rows (completable q lease) (completed_row p t) (id_rows d)\<rparr>"
    with assms show ?thesis by (intro bexI [of _ "if completable q lease r then completed_row p t r else r"]) (auto simp: update_rows_def)
  qed (use assms in auto)
qed

lemma step_protects:
  assumes "idem_step t x y" "t < T" "idem_valid (fst x)" "r \<in> set (id_rows (fst x))" "holds_until T r"
  shows "idem_valid (fst y) \<and> slot_runs (slot r) (fst y) = slot_runs (slot r) (fst x)
    \<and> (\<exists>r' \<in> set (id_rows (fst y)). same_or_completed r r' \<and> holds_until T r')"
  using assms
proof (induction rule: idem_step.induct)
  case (is_claimed q locked expires t d s d' F)
  have other: "\<not> same_slot q r"
    using claim_protected [of d r T t q locked expires] is_claimed by (auto simp: with_texts_def split: if_splits)
  have "idem_valid d'" using claim_valid [of d q locked expires t] is_claimed by simp
  moreover have "id_runs d' = id_runs d" using runs_kept(1) [of q locked expires t d] is_claimed(1) by simp
  ultimately show ?case
    using claim_other [OF is_claimed(1)] other is_claimed
    by (auto simp: ran_def slot_runs_def same_slot_slot same_or_completed_def idem_valid_def idem_schema_def)
next
  case (is_lost q locked expires t d s d' F)
  have other: "\<not> same_slot q r"
    using claim_protected [of d r T t q locked expires] is_lost by (auto simp: with_texts_def split: if_splits)
  have "idem_valid d'" using claim_valid [of d q locked expires t] is_lost by simp
  moreover have "id_runs d' = id_runs d" using runs_kept(1) [of q locked expires t d] is_lost(1) by simp
  ultimately show ?case
    using claim_other [OF is_lost(1)] other is_lost by (auto simp: slot_runs_def same_or_completed_def)
next
  case (is_complete q lease F t d p)
  from is_complete(4) have "r \<in> set (id_rows d)" by simp
  from complete_row [OF this, of q lease p t] obtain r' where r': "r' \<in> set (id_rows (snd (sql_complete_key q lease p t d)))"
    "r' = r \<or> completable q lease r \<and> r' = completed_row p t r" by blast
  have "same_or_completed r r' \<and> holds_until T r'"
    using r'(2) is_complete(5) by (auto simp: same_or_completed_def holds_until_def completable_def completed_row_def slot_def)
  with r'(1) complete_valid [of d q lease p t] is_complete show ?case by (auto simp: slot_runs_def)
next
  case (is_gone F' F t d)
  then show ?case by (auto simp: same_or_completed_def)
next
  case (is_cleanup t d F)
  then have "r \<in> set (id_rows (snd (sql_delete_expired t d)))" by (auto simp: sql_delete_expired_def holds_until_def)
  with is_cleanup cleanup_valid [of d t] show ?case by (auto simp: slot_runs_def same_or_completed_def)
qed

lemma same_or_completed_trans: "same_or_completed a b \<Longrightarrow> same_or_completed b c \<Longrightarrow> same_or_completed a c"
  unfolding same_or_completed_def by auto

lemma protected_until:
  assumes "before T x y" "idem_valid (fst x)" "r \<in> set (id_rows (fst x))" "holds_until T r"
  shows "idem_valid (fst y) \<and> slot_runs (slot r) (fst y) = slot_runs (slot r) (fst x)
    \<and> (\<exists>r' \<in> set (id_rows (fst y)). same_or_completed r r' \<and> holds_until T r')"
  using assms(1) [unfolded before_def]
proof (induction rule: rtranclp_induct)
  case base
  with assms show ?case by (auto simp: same_or_completed_def)
next
  case (step y z)
  then obtain t r' where t: "t < T" "idem_step t y z" and r': "r' \<in> set (id_rows (fst y))" "same_or_completed r r'" "holds_until T r'" by blast
  from r'(2) have "slot r' = slot r" by (auto simp: same_or_completed_def)
  with step_protects [OF t(2,1) _ r'(1,3)] step.IH same_or_completed_trans [OF r'(2)] show ?case by metis
qed


section \<open>Requests only take such steps\<close>

lemma before_refl: "before T x x"
  by (simp add: before_def)

lemma before_step: "before T x y \<Longrightarrow> idem_step t y z \<Longrightarrow> t < T \<Longrightarrow> before T x z"
  unfolding before_def by (rule rtranclp.rtrancl_into_rtrancl) blast+

lemma before_one: "idem_step t x y \<Longrightarrow> t < T \<Longrightarrow> before T x y"
  using before_step [OF before_refl] .

lemma before_trans: "before T x y \<Longrightarrow> before T y z \<Longrightarrow> before T x z"
  unfolding before_def by simp

lemma claim_Inl: "sql_claim_key q locked expires t d = (Inl e, d') \<Longrightarrow> d' = d"
  by (auto simp: sql_claim_key_def with_texts_def constrained_def split: if_splits option.splits)

text \<open>A claim leaves the table, or what its statement makes of it; a lease is that of the row it claimed.\<close>

lemma service_claim_runs:
  assumes "\<And>n. sq_now (is_env S n) < T"
  obtains (leased) locked expires t r w1 where "t < T" "sql_claim_key q locked expires t (sw_db w) = (Inr r, sw_db w1)"
      "run_state (service_claim S q) w = (Inr (Leased (im_locked r)), w1)"
  | (other) w1 where "before T (sw_db w, F) (sw_db w1, F)" "\<And>l. fst (run_state (service_claim S q) w) \<noteq> Inr (Leased l)"
      "snd (run_state (service_claim S q) w) = w1"
proof -
  let ?now = "sq_now (is_env S (sw_tick w))" and ?w = "w\<lparr>sw_tick := Suc (sw_tick w)\<rparr>"
  let ?l = "?now + is_lock S" and ?e = "?now + is_record S"
  let ?q = "\<lambda>se. sql_claim_key q ?l ?e (sq_now se)"
  obtain x u where x: "run_state (sql_exec (is_env S) ?q) ?w = (x, u)" by force
  define t where "t = sq_now (is_env S (sw_tick ?w))"
  have t: "t < T" using assms by (simp add: t_def)
  show thesis
  proof (cases x)
    case (Inr r)
    with x have claim: "sql_claim_key q ?l ?e t (sw_db w) = (Inr r, sw_db u)" using sql_exec_Inr [of "is_env S" ?q ?w r u] by (simp add: t_def)
    have "run_state (service_claim S q) w = (Inr (Leased (im_locked r)), u)"
      using x Inr by (simp add: service_claim_def run_chain claim_key_def run_handle Let_def)
    with t claim show thesis by (rule leased)
  next
    case (Inl e)
    have "sw_db u = sw_db w \<or> sw_db u = snd (sql_claim_key q ?l ?e t (sw_db w))"
      using sql_exec_db [of "is_env S" ?q ?w] x by (simp add: t_def)
    then have steps: "before T (sw_db w, F) (sw_db u, F)"
    proof
      assume u: "sw_db u = snd (sql_claim_key q ?l ?e t (sw_db w))"
      show ?thesis
      proof (cases "sql_claim_key q ?l ?e t (sw_db w)")
        case (Pair y d)
        show ?thesis
        proof (cases y)
          case (Inl e')
          with Pair u claim_Inl [of q ?l ?e t "sw_db w" e' d] show ?thesis by (simp add: before_refl)
        next
          case (Inr r)
          with Pair u t show ?thesis by (auto intro!: before_one is_lost)
        qed
      qed
    qed (simp add: before_refl)
    have "fst (run_state (service_claim S q) w) \<noteq> Inr (Leased l) \<and> sw_db (snd (run_state (service_claim S q) w)) = sw_db u" for l
      using x Inl
      by (auto simp: service_claim_def run_chain claim_key_def run_handle run_sql_query Let_def split: sum.split option.split prod.split)
    with steps show thesis by (intro other) auto
  qed
qed

lemma complete_steps:
  assumes "\<And>n. sq_now (is_env S n) < T" "(q, lease) \<in> set F"
  shows "before T (sw_db w, F) (sw_db (snd (run_state (service_complete S q lease p) w)), F)"
proof -
  let ?q = "\<lambda>se. sql_complete_key q lease (p\<lparr>is_headers := json_headers (is_headers p)\<rparr>) (sq_now se)"
  have "sw_db (snd (run_state (service_complete S q lease p) w)) = sw_db (snd (run_state (sql_exec (is_env S) ?q) w))"
    by (simp add: service_complete_def run_map_error run_chain split: sum.split prod.split)
  then consider "sw_db (snd (run_state (service_complete S q lease p) w)) = sw_db w"
    | t p' where "t < T" "sw_db (snd (run_state (service_complete S q lease p) w)) = snd (sql_complete_key q lease p' t (sw_db w))"
    using sql_exec_db [of "is_env S" ?q w] assms(1) by metis
  then show ?thesis
  proof cases
    case 2
    then show ?thesis using before_one [OF is_complete [OF assms(2)]] by simp
  qed (simp add: before_refl)
qed

lemma run_handler_simps [simp]:
  "run_state (run_handler h q) w = (h (sw_tick w), w\<lparr>sw_tick := Suc (sw_tick w), sw_db := ran q (sw_db w)\<rparr>)"
  by (simp add: run_handler_def ran_def)

lemma answer_steps:
  assumes "\<And>n. sq_now (is_env S n) < T"
  shows "before T (sw_db w, F) (sw_db (snd (run_state (answer_request S h q) w)), F)"
  using assms
proof (cases rule: service_claim_runs [where S = S and T = T and q = q and w = w and F = F])
  case (leased locked expires t r w1)
  let ?F = "(q, im_locked r) # F" and ?w2 = "w1\<lparr>sw_tick := Suc (sw_tick w1), sw_db := ran q (sw_db w1)\<rparr>"
  from leased have run: "before T (sw_db w, F) (ran q (sw_db w1), ?F)" by (intro before_one is_claimed)
  have gone: "before T (d, ?F) (d, F)" for d
    by (rule before_one [OF is_gone [of F ?F "t"] leased(1)]) auto
  show ?thesis
  proof (cases "h (sw_tick w1)")
    case None
    with leased(3) have "sw_db (snd (run_state (answer_request S h q) w)) = ran q (sw_db w1)"
      by (simp add: answer_request_def run_handle)
    with run gone show ?thesis by (metis before_trans)
  next
    case (Some cs)
    let ?c = "service_complete S q (im_locked r) (response_of (captured cs))"
    from Some leased(3) have "sw_db (snd (run_state (answer_request S h q) w)) = sw_db (snd (run_state ?c ?w2))"
      by (simp add: answer_request_def run_handle split: prod.split)
    moreover have "before T (sw_db ?w2, ?F) (sw_db (snd (run_state ?c ?w2)), ?F)" by (rule complete_steps [OF assms]) simp
    ultimately show ?thesis using run gone by (auto intro: before_trans)
  qed
next
  case (other w1)
  have "sw_db (snd (run_state (answer_request S h q) w)) = sw_db w1"
    using other(2,3)
    by (cases "run_state (service_claim S q) w"; cases "fst (run_state (service_claim S q) w)")
      (auto simp: answer_request_def run_handle split: idem_claim.split)
  with other(1) show ?thesis by simp
qed

lemma idempotent_steps:
  assumes "\<And>n. sq_now (is_env S n) < T"
  shows "before T (sw_db w, F) (sw_db (snd (run_state (idempotent S required h c) w)), F)"
  using answer_steps [OF assms] by (auto simp: idempotent_def before_refl split: sum.split)

section \<open>The promise\<close>


lemma service_claim_protected:
  assumes "idem_valid (sw_db w)" "r \<in> set (id_rows (sw_db w))" "same_slot q r" "holds_until T r"
    and "\<And>n. sq_now (is_env S n) < T \<and> sq_fault (is_env S n) = None" "list_all pg_text (request_texts q)"
  shows "fst (run_state (service_claim S q) w) = (if \<not> same_print q r then Inl err_key_conflict
    else if im_status r = ''completed'' then Inr (Stored (stored_response r)) else Inl err_in_progress)"
proof -
  have "sql_claim_key q locked expires (sq_now (is_env S n)) (sw_db w) = (Inl err_no_rows, sw_db w)" for locked expires n
    using claim_protected [OF assms(1,2,4) _ assms(3)] assms(5,6) by (simp add: with_texts_def)
  moreover have "sql_get_key q (sw_db w) = Inr r" using find_slot [OF assms(1-3)] by (simp add: sql_get_key_def one_row_def)
  ultimately show ?thesis
    using assms(5) by (simp add: service_claim_def run_chain claim_key_def run_handle sql_exec_def run_sql_query Let_def)
qed

interpretation same_runs: sql_guarantee "\<lambda>a b. id_runs b = id_runs a"
  by unfold_locales auto

lemma claim_same_runs: "state_io_rel same_runs.R (service_claim S q)"
  unfolding service_claim_def claim_key_def
  by (intro same_runs.world.g_rules same_runs.tick same_runs.query same_runs.exec runs_kept)

text \<open>What a duplicate is answered, when no statement fails: a request with another method, path or body is refused with status
  409, one whose first request is in progress is refused with status 409, and one whose first request is completed is answered
  with the response of the first, without running the handler.\<close>

theorem duplicate_answered:
  assumes "idem_valid (sw_db w)" "r \<in> set (id_rows (sw_db w))" "same_slot q r" "holds_until T r"
    and "\<And>n. sq_now (is_env S n) < T \<and> sq_fault (is_env S n) = None" "list_all pg_text (request_texts q)"
  shows "fst (run_state (answer_request S h q) w) =
      (if \<not> same_print q r then Refused (new_conflict ''idempotency key was already used for another request'')
       else if im_status r = ''completed'' then Replayed (stored_response r)
       else Refused (new_conflict ''request with this idempotency key is still processing''))
    \<and> id_runs (sw_db (snd (run_state (answer_request S h q) w))) = id_runs (sw_db w)"
proof -
  have c: "fst (run_state (service_claim S q) w) = (if \<not> same_print q r then Inl err_key_conflict
      else if im_status r = ''completed'' then Inr (Stored (stored_response r)) else Inl err_in_progress)"
    by (rule service_claim_protected [OF assms(1-4)]) (use assms(5,6) in auto)
  have errs: "idempotency_error err_key_conflict = new_conflict ''idempotency key was already used for another request''"
    "idempotency_error err_in_progress = new_conflict ''request with this idempotency key is still processing''"
    by (simp_all add: idempotency_error_def err_key_conflict_def err_in_progress_def)
  obtain x u where x: "run_state (service_claim S q) w = (x, u)" by force
  have "id_runs (sw_db u) = id_runs (sw_db w)"
    using same_runs.run [OF claim_same_runs, of S q w] x by simp
  with c x errs show ?thesis by (auto simp: answer_request_def run_handle)
qed

definition demo_request :: idem_request where
  "demo_request = \<lparr>ir_scope = ''organization:o1'', ir_key = ''k1'', ir_method = ''POST'', ir_path = ''/checkout'', ir_hash = replicate 64 CHR ''0''\<rparr>"

definition demo_idem :: "int \<Rightarrow> idem_service" where
  "demo_idem now = \<lparr>is_env = (\<lambda>n. \<lparr>sq_fault = None, sq_now = now, sq_fresh = UUID ''f''\<rparr>), is_lock = 300, is_record = 86400,
     is_sha = (\<lambda>_. replicate 64 CHR ''0'')\<rparr>"

definition demo_record :: idem_row where
  "demo_record = (new_idem_row demo_request 300 86400 1)\<lparr>im_status := ''completed'', im_code := Some 201, im_body := Some ''{}'',
     im_type := Some ''application/json'', im_completed := Some 9, im_locked := 9\<rparr>"

definition demo_idem_world :: "idem_row \<Rightarrow> idem_db sql_world" where
  "demo_idem_world r = \<lparr>sw_tick = 0, sw_db = \<lparr>id_rows = [r], id_runs = [demo_request]\<rparr>\<rparr>"

lemma demo_valid: "idem_valid \<lparr>id_rows = [demo_record], id_runs = [demo_request]\<rparr>"
  "idem_valid \<lparr>id_rows = [new_idem_row demo_request 300 86400 1], id_runs = [demo_request]\<rparr>"
  unfolding idem_valid_def by code_simp+

lemma demo_texts: "list_all pg_text (request_texts demo_request)"
  by code_simp

lemma demo_same: "same_slot demo_request demo_record" "same_print demo_request demo_record"
  by (simp_all add: same_slot_def same_print_def demo_record_def new_idem_row_def demo_request_def)

definition demo_call :: http_call where
  "demo_call = \<lparr>hq_method = ''POST'', hq_uri = ''/checkout'', hq_key = ''k1'', hq_org = Some (UUID ''o1''), hq_principal = None,
     hq_body = ''{}'', hq_body_err = None\<rparr>"


theorem duplicate_answered_witness:
  "fst (run_state (answer_request (demo_idem 10) (\<lambda>_. None) demo_request) (demo_idem_world demo_record)) = Replayed (stored_response demo_record)"
proof -
  have "holds_until 11 demo_record" by (simp add: holds_until_def demo_record_def new_idem_row_def)
  moreover have "sq_now (is_env (demo_idem 10) n) < 11 \<and> sq_fault (is_env (demo_idem 10) n) = None" for n by (simp add: demo_idem_def)
  ultimately show ?thesis
    using duplicate_answered [of "demo_idem_world demo_record" demo_record demo_request 11 "demo_idem 10" "\<lambda>_. None"] demo_valid(1) demo_texts demo_same
    by (simp add: demo_idem_world_def) (simp add: demo_record_def)
qed

section \<open>A response comes back\<close>

definition stored_as :: "buffered \<Rightarrow> idem_response" where
  "stored_as b = (response_of b)\<lparr>is_headers := json_headers (is_headers (response_of b))\<rparr>"

lemma claim_processing:
  assumes "sql_claim_key q locked expires t d = (Inr r, d')" "idem_valid d"
  shows "r \<in> set (id_rows d') \<and> same_slot q r \<and> im_status r = ''processing''"
proof (cases "find (same_slot q) (id_rows d)")
  case None
  with assms(1) show ?thesis
    unfolding sql_claim_key_def by (auto dest!: with_texts_Inr constrained_Inr simp: new_idem_row_def same_slot_def)
next
  case (Some s)
  then have s: "s \<in> set (id_rows d)" "same_slot q s" by (auto simp: find_Some_iff)
  from Some assms(1) have "r = reclaimed_row q locked expires t s" "id_rows d' = update_rows (same_slot q) (reclaimed_row q locked expires t) (id_rows d)"
    unfolding sql_claim_key_def by (auto dest!: with_texts_Inr constrained_Inr split: if_splits)
  with s show ?thesis by (force simp: update_rows_def same_slot_def reclaimed_row_def)
qed

lemma complete_stores:
  assumes "idem_valid d" "r0 \<in> set (id_rows d)" "same_slot q r0" "im_status r0 = ''processing''"
    and "r \<in> set (id_rows (snd (sql_complete_key q lease p t d)))" "same_slot q r" "im_status r = ''completed''"
  shows "stored_response r = p"
proof -
  have valid: "idem_valid (snd (sql_complete_key q lease p t d))" by (rule complete_valid [OF assms(1)])
  from complete_row [OF assms(2), of q lease p t] obtain r' where
    r': "r' \<in> set (id_rows (snd (sql_complete_key q lease p t d)))" "r' = r0 \<or> r' = completed_row p t r0" by blast
  have "slot r' = slot r" using r'(2) assms(3,6) by (auto simp: same_slot_slot completed_row_def slot_def same_slot_def)
  then have "r' = r" using valid_distinct [OF valid r'(1) assms(5)] by simp
  with r'(2) assms(4,7) have "r = completed_row p t r0" by auto
  then show ?thesis by (simp add: stored_response_def completed_row_def)
qed

text \<open>The response a request got comes back to its duplicates: once the record of the request is completed, and until it expires, a
  duplicate is answered with the same status, body and content type and with the headers that may be replayed.\<close>

theorem response_replayed:
  assumes "idem_valid (sw_db w)" "run_state (answer_request S h q) w = (Answered b, w1)"
    and "r \<in> set (id_rows (sw_db w1))" "same_slot q r" "same_print q r" "im_status r = ''completed''"
    and "\<And>n. sq_now (is_env S n) < im_expires r \<and> sq_fault (is_env S n) = None" "list_all pg_text (request_texts q)"
  shows "fst (run_state (answer_request S h' q) w1) = Replayed (stored_as b)"
proof -
  from assms(2) obtain lease w2 cs where claim: "run_state (service_claim S q) w = (Inr (Leased lease), w2)"
    and cs: "h (sw_tick w2) = Some cs" "b = captured cs"
    and w1: "w1 = snd (run_state (service_complete S q lease (response_of b)) (w2\<lparr>sw_tick := Suc (sw_tick w2), sw_db := ran q (sw_db w2)\<rparr>))"
    by (auto simp: answer_request_def run_handle split: sum.splits prod.splits idem_claim.splits option.splits)
  have times: "sq_now (is_env S n) < im_expires r" for n using assms(7) by simp
  from times obtain locked expires t r0 where r0: "sql_claim_key q locked expires t (sw_db w) = (Inr r0, sw_db w2)"
    by (rule service_claim_runs [where S = S and T = "im_expires r" and q = q and w = w and F = "[]"]) (use claim in \<open>auto, blast\<close>)
  have valid: "idem_valid (sw_db w2)" using claim_valid [OF assms(1), of q locked expires t] r0 by simp
  then have ran_valid: "idem_valid (ran q (sw_db w2))" by (simp add: idem_valid_def idem_schema_def ran_def)
  let ?p = "(response_of b)\<lparr>is_headers := json_headers (is_headers (response_of b))\<rparr>"
  let ?w = "w2\<lparr>sw_tick := Suc (sw_tick w2), sw_db := ran q (sw_db w2)\<rparr>"
  have "sw_db w1 = ran q (sw_db w2) \<or> (\<exists>t'. sw_db w1 = snd (sql_complete_key q lease ?p t' (ran q (sw_db w2))))"
    using sql_exec_db [of "is_env S" "\<lambda>se. sql_complete_key q lease ?p (sq_now se)" ?w]
    unfolding w1 by (auto simp: service_complete_def run_map_error run_chain split: sum.split prod.split)
  moreover have slot_row: "r0 \<in> set (id_rows (ran q (sw_db w2))) \<and> same_slot q r0 \<and> im_status r0 = ''processing''"
    using claim_processing [OF r0 assms(1)] by (simp add: ran_def)
  moreover have "sw_db w1 \<noteq> ran q (sw_db w2)"
  proof
    assume "sw_db w1 = ran q (sw_db w2)"
    then have "r = r0" using valid_distinct [OF ran_valid, of r r0] slot_row assms(3,4) by (auto simp: same_slot_slot)
    with slot_row assms(6) show False by simp
  qed
  ultimately obtain t' where t': "sw_db w1 = snd (sql_complete_key q lease ?p t' (ran q (sw_db w2)))" by blast
  have "stored_response r = ?p"
    using complete_stores [OF ran_valid, of r0 q r lease ?p t'] slot_row assms(3,4,6) t' by simp
  moreover have "idem_valid (sw_db w1)" using complete_valid [OF ran_valid] t' by simp
  moreover have "holds_until (im_expires r) r" using assms(6) by (simp add: holds_until_def)
  ultimately show ?thesis
    using duplicate_answered [of w1 r q "im_expires r" S h'] assms(3-8) by (simp add: stored_as_def)
qed

theorem response_replayed_witness:
  "fst (run_state (answer_request (demo_idem 10) (\<lambda>_. None) demo_request)
     (snd (run_state (answer_request (demo_idem 10) (\<lambda>_. Some [Write_Header 201, Write_Body ''made'']) demo_request)
       \<lparr>sw_tick = 0, sw_db = \<lparr>id_rows = [], id_runs = []\<rparr>\<rparr>)))
   = Replayed \<lparr>is_code = 201, is_body = ''made'', is_type = [], is_headers = []\<rparr>"
proof -
  let ?w = "\<lparr>sw_tick = 0, sw_db = \<lparr>id_rows = [], id_runs = []\<rparr>\<rparr>" and ?h = "\<lambda>_::nat. Some [Write_Header 201, Write_Body ''made'']"
  let ?b = "\<lparr>bw_header = [], bw_body = ''made'', bw_status = 201, bw_wrote = True\<rparr>"
  let ?r = "(new_idem_row demo_request 310 86410 10)\<lparr>im_status := ''completed'', im_code := Some 201, im_body := Some ''made'',
     im_type := Some [], im_completed := Some 10, im_locked := 10, im_updated := 10\<rparr>"
  let ?n = "new_idem_row demo_request 310 86410 10"
  have claim: "sql_claim_key demo_request 310 86410 10 \<lparr>id_rows = [], id_runs = []\<rparr> = (Inr ?n, \<lparr>id_rows = [?n], id_runs = []\<rparr>)"
    by code_simp
  have complete: "sql_complete_key demo_request 310 \<lparr>is_code = 201, is_body = ''made'', is_type = [], is_headers = []\<rparr> 10
      \<lparr>id_rows = [?n], id_runs = [demo_request]\<rparr> = (Inr ?r, \<lparr>id_rows = [?r], id_runs = [demo_request]\<rparr>)"
    by code_simp
  have b: "captured [Write_Header 201, Write_Body ''made''] = ?b" by (simp add: captured_def new_buffered_def)
  have p: "response_of ?b = \<lparr>is_code = 201, is_body = ''made'', is_type = [], is_headers = []\<rparr>"
    by (simp add: response_of_def header_get_def replay_headers_def)
  have lease: "im_locked ?n = 310" by (simp add: new_idem_row_def)
  obtain w1 where w1: "run_state (answer_request (demo_idem 10) ?h demo_request) ?w = (Answered ?b, w1)"
    "sw_db w1 = \<lparr>id_rows = [?r], id_runs = [demo_request]\<rparr>"
    using claim complete
    by (simp add: answer_request_def run_handle service_claim_def run_chain claim_key_def sql_exec_def Let_def demo_idem_def b p lease
        service_complete_def run_map_error json_headers_def ran_def)
  have same: "same_slot demo_request ?r" "same_print demo_request ?r"
    by (simp_all add: same_slot_def same_print_def new_idem_row_def)
  have valid: "idem_valid (sw_db ?w)" by (simp add: idem_valid_def idem_schema_def)
  have time: "sq_now (is_env (demo_idem 10) n) < im_expires ?r \<and> sq_fault (is_env (demo_idem 10) n) = None" for n
    by (simp add: demo_idem_def new_idem_row_def)
  have mem: "?r \<in> set (id_rows (sw_db w1))" by (simp add: w1(2))
  have fin: "im_status ?r = ''completed''" by simp
  have "fst (run_state (answer_request (demo_idem 10) (\<lambda>_. None) demo_request) w1) = Replayed (stored_as ?b)"
    by (rule response_replayed [OF valid w1(1) mem same fin time demo_texts])
  with w1(1) p show ?thesis by (simp add: stored_as_def json_headers_def)
qed

section \<open>A completion that is lost\<close>



end
