(* ===== verification/Email_Queue.thy ===== *)
theory Email_Queue
  imports Sql_World Cred_Cipher Net_Egress
begin

text \<open>
  Transactional email: the table \<open>email_deliveries\<close> (\<open>migrations/032_create_email_deliveries.sql\<close>) with its
  statements (\<open>email_deliveries.sql.go\<close>), the service that queues and cancels, the renderer, the worker
  (\<open>platform/email\<close>) and the sender (\<open>integrations/ses\<close>). The address parser, \<open>url.Parse\<close>, the JSON codec,
  the execution of a template and the SES client are fields of \<open>email_service\<close>. Besides the table, a
  world records the messages handed to SES. Other components keep their tables in an extension of \<open>email_db\<close>.
\<close>

section \<open>The table\<close>

record email_row =
  eq_id :: uuid
  eq_to :: string
  eq_template :: string
  eq_data :: "string option"
  eq_key :: "string option"
  eq_status :: string
  eq_attempts :: int
  eq_available :: int
  eq_locked :: "int option"
  eq_lock :: "uuid option"
  eq_expires :: int
  eq_message :: "string option"
  eq_error :: "string option"
  eq_created :: int
  eq_sent :: "int option"

record email_message =
  ms_to :: string
  ms_subject :: string
  ms_html :: string

record email_db =
  em_rows :: "email_row list"
  em_handed :: "(uuid \<times> email_message) list"

definition email_ok :: "email_row \<Rightarrow> bool" where
  "email_ok r \<longleftrightarrow> eq_status r \<in> {''pending'', ''sending'', ''sent'', ''failed'', ''expired'', ''cancelled''} \<and> 0 \<le> eq_attempts r"

definition email_schema :: "(string \<times> ('a email_db_scheme \<Rightarrow> bool)) list" where
  "email_schema = [(''23514'', \<lambda>d. list_all email_ok (em_rows d)), (''23505'', \<lambda>d. distinct (map eq_id (em_rows d)))]"

definition new_email_row :: "uuid \<Rightarrow> string \<Rightarrow> string \<Rightarrow> string \<Rightarrow> string option \<Rightarrow> int \<Rightarrow> int \<Rightarrow> email_row" where
  "new_email_row i to template payload key expires now = \<lparr>eq_id = i, eq_to = to, eq_template = template, eq_data = Some payload,
     eq_key = key, eq_status = ''pending'', eq_attempts = 0, eq_available = now, eq_locked = None, eq_lock = None,
     eq_expires = expires, eq_message = None, eq_error = None, eq_created = now, eq_sent = None\<rparr>"

definition sql_create_email ::
  "uuid \<Rightarrow> string \<Rightarrow> string \<Rightarrow> string \<Rightarrow> string option \<Rightarrow> int \<Rightarrow> int \<Rightarrow> 'a email_db_scheme \<Rightarrow> (go_err + unit) \<times> 'a email_db_scheme" where
  "sql_create_email i to template payload key expires now d =
     with_texts ([to, template, payload] @ texts [key]) d
       (constrained email_schema d (Inr (), d\<lparr>em_rows := em_rows d @ [new_email_row i to template payload key expires now]\<rparr>))"

definition email_open :: "email_row \<Rightarrow> bool" where
  "email_open r \<longleftrightarrow> eq_status r = ''pending'' \<or> eq_status r = ''sending''"

definition email_closed :: "string \<Rightarrow> email_row \<Rightarrow> email_row" where
  "email_closed status r = r\<lparr>eq_status := status, eq_data := None, eq_locked := None, eq_lock := None\<rparr>"

lemma email_closed_simps [simp]:
  "eq_id (email_closed status r) = eq_id r" "eq_status (email_closed status r) = status" "eq_attempts (email_closed status r) = eq_attempts r"
  "eq_data (email_closed status r) = None" "eq_lock (email_closed status r) = None" "eq_locked (email_closed status r) = None"
  by (simp_all add: email_closed_def)

definition sql_cancel_emails :: "string \<Rightarrow> 'a email_db_scheme \<Rightarrow> (go_err + unit) \<times> 'a email_db_scheme" where
  "sql_cancel_emails key d = with_texts [key] d (Inr (),
     d\<lparr>em_rows := update_rows (\<lambda>r. eq_key r = Some key \<and> email_open r) (email_closed ''cancelled'') (em_rows d)\<rparr>)"

definition sql_expire_emails :: "int \<Rightarrow> 'a email_db_scheme \<Rightarrow> (go_err + unit) \<times> 'a email_db_scheme" where
  "sql_expire_emails now d = (Inr (),
     d\<lparr>em_rows := update_rows (\<lambda>r. email_open r \<and> eq_expires r \<le> now) (email_closed ''expired'') (em_rows d)\<rparr>)"

definition minute :: int where "minute = 60000000"

definition lease_lapsed :: "int \<Rightarrow> email_row \<Rightarrow> bool" where
  "lease_lapsed now r \<longleftrightarrow> eq_status r = ''sending'' \<and> (case eq_locked r of None \<Rightarrow> False | Some l \<Rightarrow> l < now - minute)"

definition sql_exhaust_emails :: "int \<Rightarrow> 'a email_db_scheme \<Rightarrow> (go_err + unit) \<times> 'a email_db_scheme" where
  "sql_exhaust_emails now d = (Inr (),
     d\<lparr>em_rows := update_rows (\<lambda>r. 5 \<le> eq_attempts r \<and> (eq_status r = ''pending'' \<or> lease_lapsed now r))
         (\<lambda>r. (email_closed ''failed'' r)\<lparr>eq_error := Some ''attempts_exhausted''\<rparr>) (em_rows d)\<rparr>)"

definition claimable_email :: "int \<Rightarrow> email_row \<Rightarrow> bool" where
  "claimable_email now r \<longleftrightarrow> now < eq_expires r \<and> eq_attempts r < 5
     \<and> (eq_status r = ''pending'' \<and> eq_available r \<le> now \<or> lease_lapsed now r)"

definition claimed_email :: "uuid \<Rightarrow> int \<Rightarrow> email_row \<Rightarrow> email_row" where
  "claimed_email lease now r = r\<lparr>eq_status := ''sending'', eq_attempts := eq_attempts r + 1, eq_locked := Some now, eq_lock := Some lease\<rparr>"

lemma claimed_email_simps [simp]:
  "eq_id (claimed_email lease now r) = eq_id r" "eq_status (claimed_email lease now r) = ''sending''"
  "eq_attempts (claimed_email lease now r) = eq_attempts r + 1" "eq_data (claimed_email lease now r) = eq_data r"
  by (simp_all add: claimed_email_def)

definition sql_claim_email :: "uuid \<Rightarrow> int \<Rightarrow> 'a email_db_scheme \<Rightarrow> (go_err + email_row) \<times> 'a email_db_scheme" where
  "sql_claim_email lease now d =
     (case order_by (\<lambda>a b. eq_available a \<le> eq_available b) (filter (claimable_email now) (em_rows d)) of
        [] \<Rightarrow> (Inl err_no_rows, d)
      | r # _ \<Rightarrow> (Inr (claimed_email lease now r),
          d\<lparr>em_rows := update_rows (\<lambda>x. eq_id x = eq_id r) (claimed_email lease now) (em_rows d)\<rparr>))"

definition holds_email :: "uuid \<Rightarrow> uuid \<Rightarrow> email_row \<Rightarrow> bool" where
  "holds_email i lease r \<longleftrightarrow> eq_id r = i \<and> eq_lock r = Some lease \<and> eq_status r = ''sending''"

definition sql_complete_email :: "uuid \<Rightarrow> uuid \<Rightarrow> string \<Rightarrow> int \<Rightarrow> 'a email_db_scheme \<Rightarrow> (go_err + unit) \<times> 'a email_db_scheme" where
  "sql_complete_email i lease message now d = with_texts [message] d (Inr (),
     d\<lparr>em_rows := update_rows (holds_email i lease)
         (\<lambda>r. (email_closed ''sent'' r)\<lparr>eq_message := Some message, eq_sent := Some now\<rparr>) (em_rows d)\<rparr>)"

definition sql_fail_email ::
  "uuid \<Rightarrow> uuid \<Rightarrow> bool \<Rightarrow> string \<Rightarrow> int \<Rightarrow> int \<Rightarrow> 'a email_db_scheme \<Rightarrow> (go_err + unit) \<times> 'a email_db_scheme" where
  "sql_fail_email i lease terminal code delay now d = with_texts [code] d (Inr (),
     d\<lparr>em_rows := update_rows (holds_email i lease)
         (\<lambda>r. r\<lparr>eq_status := if terminal then ''failed'' else ''pending'', eq_data := if terminal then None else eq_data r,
            eq_error := Some code, eq_available := now + delay * 1000000, eq_locked := None, eq_lock := None\<rparr>) (em_rows d)\<rparr>)"

definition sql_email_ready :: "uuid \<Rightarrow> uuid \<Rightarrow> int \<Rightarrow> 'a email_db_scheme \<Rightarrow> go_err + bool" where
  "sql_email_ready i lease now d = Inr (list_ex (\<lambda>r. holds_email i lease r \<and> now < eq_expires r) (em_rows d))"

section \<open>Rendering\<close>

record email_data =
  ed_expires :: int
  ed_org :: string
  ed_inviter :: string
  ed_role :: string
  ed_url :: string

record email_service =
  es_env :: "nat \<Rightarrow> sql_env"
  es_cipher :: "aead option"
  es_nonce :: "nat \<Rightarrow> go_err + string"
  es_address :: "string \<Rightarrow> string option"
  es_url :: "string \<Rightarrow> url_parts option"
  es_encode :: "email_data \<Rightarrow> go_err + string"
  es_decode :: "string \<Rightarrow> go_err + email_data"
  es_template :: "string \<Rightarrow> string \<Rightarrow> email_data \<Rightarrow> go_err + string"

text \<open>\<open>strings.EqualFold\<close> with \<open>localhost\<close>: the long s (U+017F) folds to s.\<close>

definition folds_to_localhost :: "string \<Rightarrow> bool" where
  "folds_to_localhost h \<longleftrightarrow> to_lower h = ''localhost'' \<or> to_lower h = ''localho'' @ [CHR 0xC5, CHR 0xBF] @ ''t''"

definition email_valid_url :: "(string \<Rightarrow> url_parts option) \<Rightarrow> string \<Rightarrow> bool" where
  "email_valid_url url v = (case url v of
     None \<Rightarrow> False
   | Some u \<Rightarrow>
       if ur_hostname u = [] \<or> ur_has_user u then False
       else if ur_scheme u = ''https'' then True
       else if ur_scheme u \<noteq> ''http'' then False
       else if folds_to_localhost (ur_hostname u) then True
       else (case parse_addr (ur_hostname u) of None \<Rightarrow> False | Some a \<Rightarrow> is_loopback a))"

definition template_name :: "string \<Rightarrow> bool" where
  "template_name s = (case s of
     [] \<Rightarrow> False
   | c # cs \<Rightarrow> c \<in> set ''abcdefghijklmnopqrstuvwxyz'' \<and> list_all (\<lambda>x. x \<in> set ''abcdefghijklmnopqrstuvwxyz0123456789-'') cs)"

definition validate_email_data :: "email_service \<Rightarrow> string \<Rightarrow> email_data \<Rightarrow> go_err option" where
  "validate_email_data S name v =
     (if \<not> template_name name then Some (Errf ''invalid template name'' [])
      else if ed_expires v = zero_time then Some (Errf ''email expiry is required'' [])
      else if name = ''organization-invitation''
      then (if \<not> email_valid_url (es_url S) (ed_url v) \<or> ed_org v = [] then Some (Errf ''invalid invitation data'' []) else None)
      else Some (Errf ''unsupported email template'' []))"

definition render_email :: "email_service \<Rightarrow> string \<Rightarrow> email_data \<Rightarrow> go_err + email_message" where
  "render_email S name v = (case validate_email_data S name v of
     Some e \<Rightarrow> Inl e
   | None \<Rightarrow> rbind (es_template S name ''subject'' v) (\<lambda>subject0.
       (let subject = trim_space subject0 in
        if subject = [] \<or> contains_any subject [CHR 0x0D, CHR 0x0A] then Inl (Errf ''invalid email subject'' [])
        else rbind (es_template S name ''body'' v) (\<lambda>body. Inr \<lparr>ms_to = [], ms_subject = subject, ms_html = body\<rparr>))))"

section \<open>Queue and cancel\<close>

record email_request =
  er_to :: string
  er_template :: string
  er_data :: email_data
  er_key :: "string option"

definition email_scope :: "uuid \<Rightarrow> string" where
  "email_scope i = ''email:'' @ uuid_string i"

text \<open>The steps of \<open>QueueTx\<close> read the clock, draw the identity and the nonce of the cipher, then insert.\<close>

definition queue_tx :: "email_service \<Rightarrow> email_request \<Rightarrow> ('a email_db_scheme, uuid) sql_action" where
  "queue_tx S req = (case es_cipher S of
     None \<Rightarrow> fail (Errf ''email delivery is not configured'' [])
   | Some A \<Rightarrow>
       if es_address S (er_to req) \<noteq> Some (er_to req) then fail (Errf ''invalid email recipient'' [])
       else do { n \<leftarrow> sql_tick;
         if \<not> sq_now (es_env S n) < ed_expires (er_data req) then fail (Errf ''email has expired'' [])
         else chain (State_Monad.return (render_email S (er_template req) (er_data req))) (\<lambda>_.
           chain (State_Monad.return (es_encode S (er_data req))) (\<lambda>text. do { m \<leftarrow> sql_tick;
             let i = sq_fresh (es_env S m) in
             chain (State_Monad.return (encrypt_for_scope A (es_nonce S m) (email_scope i) text)) (\<lambda>payload.
             chain (sql_exec (es_env S) (\<lambda>se. sql_create_email i (er_to req) (er_template req) payload (er_key req)
                      (ed_expires (er_data req)) (sq_now se))) (\<lambda>_. succeed i)) })) })"

definition cancel_tx :: "email_service \<Rightarrow> string \<Rightarrow> ('a email_db_scheme, unit) sql_action" where
  "cancel_tx S key = sql_exec (es_env S) (\<lambda>_. sql_cancel_emails key)"

section \<open>The sender\<close>

text \<open>An answer of SES: the message id (empty when there is none), or the types of the errors in the tree that \<open>errors.As\<close> finds.\<close>

datatype ses_answer = Ses_Sent string | Ses_Failed "string list"

datatype send_error = Send_Error string bool | Other_Error

definition ses_codes :: "(string \<times> bool) list" where
  "ses_codes = [(''MessageRejected'', True), (''MailFromDomainNotVerifiedException'', True), (''BadRequestException'', True),
     (''NotFoundException'', True), (''AccountSuspendedException'', True), (''SendingPausedException'', True),
     (''TooManyRequestsException'', False), (''LimitExceededException'', False), (''InternalServiceErrorException'', False)]"

definition classify_send_error :: "string list \<Rightarrow> send_error" where
  "classify_send_error kinds = (case find (\<lambda>(code, _). code \<in> set kinds) ses_codes of
     Some (code, permanent) \<Rightarrow> Send_Error code permanent
   | None \<Rightarrow> Send_Error ''transport_error'' False)"

definition ses_send :: "ses_answer \<Rightarrow> send_error + string" where
  "ses_send a = (case a of
     Ses_Failed kinds \<Rightarrow> Inl (classify_send_error kinds)
   | Ses_Sent i \<Rightarrow> if i = [] then Inl (Send_Error ''missing_message_id'' False) else Inr i)"

definition hand_over :: "(nat \<Rightarrow> ses_answer) \<Rightarrow> uuid \<Rightarrow> email_message \<Rightarrow> ('a email_db_scheme sql_world, send_error + string) state" where
  "hand_over ses i m = State (\<lambda>w. (ses_send (ses (sw_tick w)),
     w\<lparr>sw_tick := Suc (sw_tick w), sw_db := (sw_db w)\<lparr>em_handed := em_handed (sw_db w) @ [(i, m)]\<rparr>\<rparr>))"

section \<open>The worker\<close>

definition claim_email :: "email_service \<Rightarrow> uuid \<Rightarrow> ('a email_db_scheme, email_row) sql_action" where
  "claim_email S lease =
     chain (sql_exec (es_env S) (\<lambda>se. sql_expire_emails (sq_now se))) (\<lambda>_.
     chain (sql_exec (es_env S) (\<lambda>se. sql_exhaust_emails (sq_now se))) (\<lambda>_.
     sql_exec (es_env S) (\<lambda>se. sql_claim_email lease (sq_now se))))"

definition fail_email :: "email_service \<Rightarrow> email_row \<Rightarrow> uuid \<Rightarrow> string \<Rightarrow> bool \<Rightarrow> ('a email_db_scheme, unit) sql_action" where
  "fail_email S r lease code permanent = sql_exec (es_env S) (\<lambda>se.
     sql_fail_email (eq_id r) lease (permanent \<or> 5 \<le> eq_attempts r) code (2 ^ nat (eq_attempts r)) (sq_now se))"

text \<open>A nil cipher panics in \<open>DecryptForScope\<close>; the wiring passes one.\<close>

definition send_email :: "email_service \<Rightarrow> (nat \<Rightarrow> ses_answer) \<Rightarrow> email_row \<Rightarrow> uuid \<Rightarrow> email_message \<Rightarrow> ('a email_db_scheme, unit) sql_action" where
  "send_email S ses r lease m = handle (hand_over ses (eq_id r) m)
     (\<lambda>e. case e of Send_Error code permanent \<Rightarrow> fail_email S r lease code permanent
        | Other_Error \<Rightarrow> fail_email S r lease ''send_failed'' False)
     (\<lambda>i. if i = [] then fail_email S r lease ''missing_message_id'' False
        else map_error (Wrap ''complete email delivery: %w'' [])
          (sql_exec (es_env S) (\<lambda>se. sql_complete_email (eq_id r) lease i (sq_now se))))"

definition deliver_email :: "email_service \<Rightarrow> aead \<Rightarrow> (nat \<Rightarrow> ses_answer) \<Rightarrow> email_row \<Rightarrow> uuid \<Rightarrow> ('a email_db_scheme, unit) sql_action" where
  "deliver_email S A ses r lease =
     (case rbind (decrypt_for_scope A (email_scope (eq_id r)) (case eq_data r of None \<Rightarrow> [] | Some p \<Rightarrow> p)) (es_decode S) of
        Inl _ \<Rightarrow> fail_email S r lease ''invalid_payload'' True
      | Inr v \<Rightarrow> do { n \<leftarrow> sql_tick;
          if \<not> sq_now (es_env S n) < eq_expires r then fail_email S r lease ''expired'' True
          else (case render_email S (eq_template r) v of
            Inl _ \<Rightarrow> fail_email S r lease ''invalid_template'' True
          | Inr m \<Rightarrow> chain (sql_query (es_env S) (\<lambda>se. sql_email_ready (eq_id r) lease (sq_now se))) (\<lambda>ready.
              if \<not> ready then fail_email S r lease ''superseded_or_expired'' True
              else send_email S ses r lease (m\<lparr>ms_to := eq_to r\<rparr>))) })"

definition process_one :: "email_service \<Rightarrow> aead \<Rightarrow> (nat \<Rightarrow> ses_answer) \<Rightarrow> ('a email_db_scheme, unit) sql_action" where
  "process_one S A ses = do { n \<leftarrow> sql_tick;
     let lease = sq_fresh (es_env S n) in
     chain (claim_email S lease) (\<lambda>r. deliver_email S A ses r lease) }"

text \<open>
  \<open>Run\<close>: a pass a second until the context ends (\<open>cancelled\<close>) or a pass fails with another error than
  \<open>pgx.ErrNoRows\<close>. The fuel is the number of passes before the context ends; \<open>None\<close> is nil.
\<close>

fun email_run :: "email_service \<Rightarrow> aead \<Rightarrow> (nat \<Rightarrow> ses_answer) \<Rightarrow> (nat \<Rightarrow> bool) \<Rightarrow> nat \<Rightarrow> ('a email_db_scheme sql_world, go_err option) state" where
  "email_run S A ses cancelled 0 = State_Monad.return None"
| "email_run S A ses cancelled (Suc n) = handle (process_one S A ses)
     (\<lambda>e. if errors_is e err_no_rows then email_run S A ses cancelled n
        else do { k \<leftarrow> sql_tick; State_Monad.return (if cancelled k then None else Some e) })
     (\<lambda>_. email_run S A ses cancelled n)"

end
