(* ===== verification/Sql_Schema.thy ===== *)
theory Sql_Schema
  imports Sql_World
begin

text \<open>
  Schemas as invariants: the constraints of several tables that hold together, what a statement that checks some of them
  leaves of the rest, and the updates that keep a constraint without checking it.
\<close>

section \<open>Texts\<close>

text \<open>\<open>BTRIM\<close> removes spaces at both ends.\<close>

definition btrim :: "string \<Rightarrow> string" where
  "btrim s = rev (dropWhile ((=) CHR '' '') (rev (dropWhile ((=) CHR '' '') s)))"

section \<open>What a statement leaves\<close>

lemma kept_texts: "f (snd r) = f old \<Longrightarrow> f (snd (with_texts ps old r)) = f old"
  by (simp add: with_texts_def)

lemma kept_constrained: "f (snd r) = f old \<Longrightarrow> f (snd (constrained sch old r)) = f old"
  using constrained_cases [of sch old r] by auto

lemmas statement_simps = with_texts_def constrained_def Let_def

lemma written_cases:
  "snd (with_texts ps d (if b then (y, d) else constrained sch d (z, raw))) = d
   \<or> snd (with_texts ps d (if b then (y, d) else constrained sch d (z, raw))) = raw \<and> (\<forall>(code, ok) \<in> set sch. ok raw)"
  using constrained_cases [of sch d "(z, raw)"] unfolding with_texts_def by auto

lemma texts_if_constrained:
  "snd (with_texts ps d (if b then (y, d) else constrained sch d (z, raw))) = d
   \<or> snd (with_texts ps d (if b then (y, d) else constrained sch d (z, raw))) = raw"
  using written_cases [of ps d b y sch z raw] by blast

lemma constrained_if_Inr:
  "with_texts ps d (if b then (y, d) else constrained sch d (z, raw)) = (Inr x, d') \<Longrightarrow> \<not> b \<Longrightarrow> d' = raw"
  by (auto dest!: with_texts_Inr constrained_Inr)

section \<open>Every constraint holds\<close>

definition holds_all :: "(string \<times> ('d \<Rightarrow> bool)) list \<Rightarrow> 'd \<Rightarrow> bool" where
  "holds_all sch d \<longleftrightarrow> (\<forall>(code, ok) \<in> set sch. ok d)"

lemma holds_all_append [simp]: "holds_all (a @ b) d \<longleftrightarrow> holds_all a d \<and> holds_all b d"
  by (auto simp: holds_all_def)

lemma holds_all_Cons [simp]: "holds_all ((code, ok) # sch) d \<longleftrightarrow> ok d \<and> holds_all sch d" "holds_all [] d"
  by (auto simp: holds_all_def)

lemma kept_valid:
  assumes "holds_all full old" and "holds_all sch (snd r) \<Longrightarrow> holds_all full (snd r)"
  shows "holds_all full (snd (constrained sch old r))"
  using constrained_cases [of sch old r] assms by (auto simp: holds_all_def)

lemma kept_valid_texts: "holds_all full old \<Longrightarrow> holds_all full (snd r) \<Longrightarrow> holds_all full (snd (with_texts ps old r))"
  by (simp add: with_texts_def)

section \<open>Updates\<close>

lemma update_keys: "(\<And>r. p r \<Longrightarrow> g (f r) = g r) \<Longrightarrow> g ` set (update_rows p f rows) = g ` set rows"
  by (metis list.set_map map_update_rows)

lemma update_all: "(\<And>r. ok r \<Longrightarrow> p r \<Longrightarrow> ok (f r)) \<Longrightarrow> list_all ok rows \<Longrightarrow> list_all ok (update_rows p f rows)"
  by (auto simp: list_all_iff update_rows_def)

lemma update_distinct: "(\<And>r. p r \<Longrightarrow> g (f r) = g r) \<Longrightarrow> distinct (map g rows) \<Longrightarrow> distinct (map g (update_rows p f rows))"
  by (simp add: map_update_rows)

text \<open>A partial index survives an update that leaves the key and only takes rows out of it.\<close>

lemma update_partial:
  assumes "\<And>r. p r \<Longrightarrow> sel (f r) \<Longrightarrow> sel r \<and> g (f r) = g r" and "distinct (map g (filter sel rows))"
  shows "distinct (map g (filter sel (update_rows p f rows)))"
proof -
  let ?q = "\<lambda>r. sel (if p r then f r else r)"
  have same: "map g (filter sel (update_rows p f xs)) = map g (filter ?q xs)" for xs
    using assms(1) by (induction xs) (auto simp: update_rows_def)
  have "filter ?q rows = filter ?q (filter sel rows)"
    unfolding filter_filter by (rule filter_cong) (use assms(1) in \<open>auto split: if_splits\<close>)
  moreover have "distinct (map g (filter ?q (filter sel rows)))"
    using assms(2) by (rule distinct_map_filter)
  ultimately show ?thesis by (simp only: same)
qed

lemma distinct_filter: "distinct (map g rows) \<Longrightarrow> distinct (map g (filter p rows))"
  by (rule distinct_map_filter)

lemma list_all_filter: "list_all ok rows \<Longrightarrow> list_all ok (filter p rows)"
  by (auto simp: list_all_iff)

lemmas valid_rules = update_all update_distinct update_partial distinct_filter list_all_filter

end
