(* ===== verification/Acc_Store.thy ===== *)
theory Acc_Store
  imports Email_Queue Sql_Schema
begin

text \<open>
  The tables of identity and tenancy: users, sessions, sign-in attempts, identity events, organizations, members,
  invitations and organization tokens (migrations 002 to 008 and 036) with the statements of their \<open>sqlc\<close> files. A
  CITEXT value is compared by its lower-case form. Invitations share transactions with their emails, so
  the database extends \<open>email_db\<close>.
\<close>

section \<open>Rows\<close>

record user_row =
  us_id :: uuid
  us_email :: string
  us_verified :: bool
  us_name :: "string option"
  us_issuer :: string
  us_subject :: string
  us_admin :: bool
  us_disabled :: "int option"
  us_created :: int
  us_updated :: int

record session_row =
  se_id :: uuid
  se_user :: uuid
  se_hash :: string
  se_subject :: string
  se_sid :: string
  se_tokens :: string
  se_assurance :: string
  se_expires :: int
  se_seen :: "int option"
  se_revoked :: "int option"
  se_created :: int

record signin_attempt =
  sa_state :: string
  sa_verifier :: string
  sa_nonce :: string
  sa_expires :: int

record identity_event =
  ie_issuer :: string
  ie_event :: string
  ie_subject :: string
  ie_type :: string
  ie_at :: int
  ie_disable :: bool
  ie_received :: int

record org_row =
  or_id :: uuid
  or_name :: string
  or_status :: string
  or_created :: int
  or_updated :: int
  or_deleted :: "int option"

record member_row =
  mb_org :: uuid
  mb_user :: uuid
  mb_role :: string
  mb_status :: string
  mb_created :: int
  mb_updated :: int

record invite_row =
  iv_id :: uuid
  iv_org :: uuid
  iv_by :: uuid
  iv_email :: string
  iv_role :: string
  iv_hash :: string
  iv_status :: string
  iv_expires :: int
  iv_accepted :: "int option"
  iv_declined :: "int option"
  iv_revoked :: "int option"
  iv_created :: int
  iv_updated :: int

text \<open>\<open>tk_scopes\<close> is a JSON value: \<open>None\<close> is \<open>null\<close>, the encoding of a nil slice.\<close>

record token_row =
  tk_id :: uuid
  tk_org :: uuid
  tk_by :: "uuid option"
  tk_name :: string
  tk_desc :: "string option"
  tk_hash :: string
  tk_prefix :: string
  tk_scopes :: "string list option"
  tk_used :: "int option"
  tk_ip :: "string option"
  tk_expires :: "int option"
  tk_disabled :: "int option"
  tk_created :: int
  tk_updated :: int

record access_db = email_db +
  ac_users :: "user_row list"
  ac_sessions :: "session_row list"
  ac_attempts :: "signin_attempt list"
  ac_events :: "identity_event list"
  ac_orgs :: "org_row list"
  ac_members :: "member_row list"
  ac_invites :: "invite_row list"
  ac_tokens :: "token_row list"

section \<open>Constraints\<close>

definition session_ok :: "session_row \<Rightarrow> bool" where
  "session_ok r \<longleftrightarrow> se_created r < se_expires r \<and> (case se_revoked r of None \<Rightarrow> True | Some t \<Rightarrow> se_created r \<le> t)
     \<and> se_assurance r \<in> {''unknown'', ''password'', ''otp'', ''mfa''}"

definition member_ok :: "member_row \<Rightarrow> bool" where
  "member_ok r \<longleftrightarrow> mb_role r \<in> {''owner'', ''admin'', ''member''} \<and> mb_status r \<in> {''active'', ''disabled''}"

definition invite_ok :: "invite_row \<Rightarrow> bool" where
  "invite_ok r \<longleftrightarrow> iv_status r \<in> {''pending'', ''accepted'', ''declined'', ''expired'', ''revoked''}
     \<and> iv_role r \<in> {''admin'', ''member''}"

definition token_ok :: "token_row \<Rightarrow> bool" where
  "token_ok r \<longleftrightarrow> tk_scopes r \<noteq> None \<and> (case tk_expires r of None \<Rightarrow> True | Some t \<Rightarrow> tk_created r < t)"

definition users_schema :: "(string \<times> (access_db \<Rightarrow> bool)) list" where
  "users_schema = [(''23505'', \<lambda>d. distinct (map us_id (ac_users d))),
     (''23505'', \<lambda>d. distinct (map (\<lambda>u. to_lower (us_email u)) (ac_users d))),
     (''23505'', \<lambda>d. distinct (map (\<lambda>u. (us_issuer u, us_subject u)) (ac_users d)))]"

definition sessions_schema :: "(string \<times> (access_db \<Rightarrow> bool)) list" where
  "sessions_schema = [(''23514'', \<lambda>d. list_all session_ok (ac_sessions d)),
     (''23505'', \<lambda>d. distinct (map se_id (ac_sessions d))), (''23505'', \<lambda>d. distinct (map se_hash (ac_sessions d))),
     (''23503'', \<lambda>d. list_all (\<lambda>s. se_user s \<in> us_id ` set (ac_users d)) (ac_sessions d))]"

definition attempts_schema :: "(string \<times> (access_db \<Rightarrow> bool)) list" where
  "attempts_schema = [(''23505'', \<lambda>d. distinct (map sa_state (ac_attempts d)))]"

definition events_schema :: "(string \<times> (access_db \<Rightarrow> bool)) list" where
  "events_schema = [(''23514'', \<lambda>d. list_all (\<lambda>e. ie_type e \<in> {''user.updated'', ''user.deleted''}) (ac_events d)),
     (''23505'', \<lambda>d. distinct (map (\<lambda>e. (ie_issuer e, ie_event e)) (ac_events d)))]"

definition orgs_schema :: "(string \<times> (access_db \<Rightarrow> bool)) list" where
  "orgs_schema = [(''23514'', \<lambda>d. list_all (\<lambda>r. or_status r \<in> {''active'', ''disabled''}) (ac_orgs d)),
     (''23505'', \<lambda>d. distinct (map or_id (ac_orgs d)))]"

definition members_schema :: "(string \<times> (access_db \<Rightarrow> bool)) list" where
  "members_schema = [(''23514'', \<lambda>d. list_all member_ok (ac_members d)),
     (''23505'', \<lambda>d. distinct (map (\<lambda>r. (mb_org r, mb_user r)) (ac_members d))),
     (''23503'', \<lambda>d. list_all (\<lambda>r. mb_org r \<in> or_id ` set (ac_orgs d) \<and> mb_user r \<in> us_id ` set (ac_users d)) (ac_members d))]"

definition invites_schema :: "(string \<times> (access_db \<Rightarrow> bool)) list" where
  "invites_schema = [(''23514'', \<lambda>d. list_all invite_ok (ac_invites d)),
     (''23505'', \<lambda>d. distinct (map iv_id (ac_invites d))),
     (''23505'', \<lambda>d. distinct (map (\<lambda>r. (iv_org r, to_lower (iv_email r))) (filter (\<lambda>r. iv_status r = ''pending'') (ac_invites d)))),
     (''23503'', \<lambda>d. list_all (\<lambda>r. iv_org r \<in> or_id ` set (ac_orgs d) \<and> iv_by r \<in> us_id ` set (ac_users d)) (ac_invites d))]"

definition tokens_schema :: "(string \<times> (access_db \<Rightarrow> bool)) list" where
  "tokens_schema = [(''23514'', \<lambda>d. list_all token_ok (ac_tokens d)),
     (''23505'', \<lambda>d. distinct (map tk_id (ac_tokens d))), (''23505'', \<lambda>d. distinct (map tk_hash (ac_tokens d))),
     (''23505'', \<lambda>d. distinct (map (\<lambda>r. (tk_org r, tk_name r)) (filter (\<lambda>r. tk_disabled r = None) (ac_tokens d)))),
     (''23503'', \<lambda>d. list_all (\<lambda>r. tk_org r \<in> or_id ` set (ac_orgs d)
        \<and> (tk_by r = None \<or> the (tk_by r) \<in> us_id ` set (ac_users d))) (ac_tokens d))]"

section \<open>Users and identity events\<close>

definition enabled_user :: "access_db \<Rightarrow> uuid \<Rightarrow> bool" where
  "enabled_user d i \<longleftrightarrow> list_ex (\<lambda>u. us_id u = i \<and> us_disabled u = None) (ac_users d)"

definition org_open :: "org_row \<Rightarrow> bool" where
  "org_open r \<longleftrightarrow> or_status r = ''active'' \<and> or_deleted r = None"

definition open_org :: "access_db \<Rightarrow> uuid \<Rightarrow> bool" where
  "open_org d i \<longleftrightarrow> list_ex (\<lambda>r. or_id r = i \<and> org_open r) (ac_orgs d)"

definition barred :: "string \<Rightarrow> string \<Rightarrow> access_db \<Rightarrow> bool" where
  "barred issuer subject d \<longleftrightarrow> list_ex (\<lambda>e. ie_issuer e = issuer \<and> ie_subject e = subject \<and> ie_disable e) (ac_events d)"

definition is_identity :: "string \<Rightarrow> string \<Rightarrow> user_row \<Rightarrow> bool" where
  "is_identity issuer subject u \<longleftrightarrow> us_issuer u = issuer \<and> us_subject u = subject"

definition new_user :: "string \<Rightarrow> string \<Rightarrow> string option \<Rightarrow> string \<Rightarrow> uuid \<Rightarrow> int \<Rightarrow> user_row" where
  "new_user issuer subject name email i now = \<lparr>us_id = i, us_email = email, us_verified = True, us_name = name,
     us_issuer = issuer, us_subject = subject, us_admin = False, us_disabled = None, us_created = now, us_updated = now\<rparr>"

definition sql_upsert_user ::
  "string \<Rightarrow> string \<Rightarrow> string option \<Rightarrow> string \<Rightarrow> uuid \<Rightarrow> int \<Rightarrow> access_db \<Rightarrow> (go_err + user_row) \<times> access_db" where
  "sql_upsert_user issuer subject name email i now d = with_texts ([issuer, subject, email] @ texts [name]) d
     (if barred issuer subject d then (Inl err_no_rows, d)
      else (case find (is_identity issuer subject) (ac_users d) of
        None \<Rightarrow> constrained users_schema d (Inr (new_user issuer subject name email i now),
                  d\<lparr>ac_users := ac_users d @ [new_user issuer subject name email i now]\<rparr>)
      | Some u \<Rightarrow>
          if us_disabled u \<noteq> None then (Inl err_no_rows, d)
          else (let f = (\<lambda>u. u\<lparr>us_name := name, us_email := email, us_verified := True, us_updated := now\<rparr>) in
            constrained users_schema d (Inr (f u), d\<lparr>ac_users := update_rows (is_identity issuer subject) f (ac_users d)\<rparr>))))"

definition sql_get_user :: "uuid \<Rightarrow> access_db \<Rightarrow> go_err + user_row" where
  "sql_get_user i d = one_row (\<lambda>u. us_id u = i \<and> us_disabled u = None) (ac_users d)"

definition sql_disable_user :: "uuid \<Rightarrow> int \<Rightarrow> access_db \<Rightarrow> (go_err + unit) \<times> access_db" where
  "sql_disable_user i now d = (Inr (), d\<lparr>ac_users := update_rows (\<lambda>u. us_id u = i \<and> us_disabled u = None)
     (\<lambda>u. u\<lparr>us_disabled := Some now, us_updated := now\<rparr>) (ac_users d)\<rparr>)"

record identity_change =
  ic_issuer :: string
  ic_event :: string
  ic_subject :: string
  ic_type :: string
  ic_at :: int
  ic_disable :: bool
  ic_name :: string
  ic_email :: string

definition event_of :: "identity_change \<Rightarrow> int \<Rightarrow> identity_event" where
  "event_of c now = \<lparr>ie_issuer = ic_issuer c, ie_event = ic_event c, ie_subject = ic_subject c, ie_type = ic_type c,
     ie_at = ic_at c, ie_disable = ic_disable c, ie_received = now\<rparr>"

text \<open>The user \<open>changed_users\<close> updates, and what it makes of the row; the other users are those of the snapshot.\<close>

definition event_changes :: "identity_change \<Rightarrow> user_row \<Rightarrow> bool" where
  "event_changes c u \<longleftrightarrow> is_identity (ic_issuer c) (ic_subject c) u
     \<and> (ic_disable c \<or> ic_type c = ''user.updated'' \<and> us_disabled u = None \<and> (btrim (ic_name c) \<noteq> [] \<or> btrim (ic_email c) \<noteq> []))"

definition changed_user :: "identity_change \<Rightarrow> int \<Rightarrow> user_row list \<Rightarrow> user_row \<Rightarrow> user_row" where
  "changed_user c now users u = u\<lparr>
     us_name := if \<not> ic_disable c \<and> ic_type c = ''user.updated'' \<and> btrim (ic_name c) \<noteq> [] then Some (btrim (ic_name c)) else us_name u,
     us_disabled := if ic_disable c then Some (keep_or (us_disabled u) now) else us_disabled u,
     us_email := if \<not> ic_disable c \<and> ic_type c = ''user.updated'' \<and> btrim (ic_email c) \<noteq> []
         \<and> \<not> list_ex (\<lambda>other. to_lower (us_email other) = to_lower (ic_email c) \<and> us_id other \<noteq> us_id u) users
       then ic_email c else us_email u,
     us_updated := now\<rparr>"

definition sql_apply_event :: "identity_change \<Rightarrow> int \<Rightarrow> access_db \<Rightarrow> (go_err + bool \<times> int) \<times> access_db" where
  "sql_apply_event c now d =
     with_texts [ic_issuer c, ic_event c, ic_subject c, ic_type c, ic_name c, ic_email c] d
     (if list_ex (\<lambda>e. ie_issuer e = ic_issuer c \<and> ie_event e = ic_event c) (ac_events d) then (Inr (False, 0), d)
      else (let current = ic_disable c \<or> \<not> list_ex (\<lambda>l. ie_issuer l = ic_issuer c \<and> ie_subject l = ic_subject c \<and> ic_at c < ie_at l) (ac_events d);
                touched = (if current then filter (event_changes c) (ac_users d) else []);
                users = (if current then update_rows (event_changes c) (changed_user c now (ac_users d)) (ac_users d) else ac_users d);
                gone = map us_id (filter (\<lambda>u. us_disabled u \<noteq> None) (map (changed_user c now (ac_users d)) touched));
                ended = (\<lambda>s. se_user s \<in> set gone \<and> se_revoked s = None) in
        constrained (events_schema @ users_schema @ sessions_schema) d
          (Inr (True, int (length (filter ended (ac_sessions d)))),
           d\<lparr>ac_events := ac_events d @ [event_of c now], ac_users := users,
             ac_sessions := update_rows ended (\<lambda>s. s\<lparr>se_revoked := Some now\<rparr>) (ac_sessions d)\<rparr>)))"

section \<open>Sessions and sign-in attempts\<close>

record new_session_params =
  sp_user :: uuid
  sp_hash :: string
  sp_subject :: string
  sp_sid :: string
  sp_tokens :: string
  sp_assurance :: string
  sp_expires :: int

definition new_session :: "new_session_params \<Rightarrow> uuid \<Rightarrow> int \<Rightarrow> session_row" where
  "new_session p i now = \<lparr>se_id = i, se_user = sp_user p, se_hash = sp_hash p, se_subject = sp_subject p, se_sid = sp_sid p,
     se_tokens = sp_tokens p, se_assurance = sp_assurance p, se_expires = sp_expires p, se_seen = Some now, se_revoked = None, se_created = now\<rparr>"

definition sql_create_session :: "new_session_params \<Rightarrow> uuid \<Rightarrow> int \<Rightarrow> access_db \<Rightarrow> (go_err + session_row) \<times> access_db" where
  "sql_create_session p i now d = with_texts [sp_hash p, sp_subject p, sp_sid p, sp_tokens p, sp_assurance p] d
     (if \<not> enabled_user d (sp_user p) then (Inl err_no_rows, d)
      else constrained sessions_schema d (Inr (new_session p i now), d\<lparr>ac_sessions := ac_sessions d @ [new_session p i now]\<rparr>))"

definition live_session :: "int \<Rightarrow> access_db \<Rightarrow> session_row \<Rightarrow> bool" where
  "live_session now d s \<longleftrightarrow> now < se_expires s \<and> se_revoked s = None \<and> enabled_user d (se_user s)"

definition sql_session_by_hash :: "string \<Rightarrow> int \<Rightarrow> access_db \<Rightarrow> go_err + session_row" where
  "sql_session_by_hash h now d = one_row (\<lambda>s. se_hash s = h \<and> live_session now d s) (ac_sessions d)"

definition sql_lock_session :: "uuid \<Rightarrow> int \<Rightarrow> access_db \<Rightarrow> go_err + session_row" where
  "sql_lock_session i now d = one_row (\<lambda>s. se_id s = i \<and> live_session now d s) (ac_sessions d)"

text \<open>\<open>ORDER BY last_seen_at DESC NULLS LAST\<close>.\<close>

definition seen_later :: "session_row \<Rightarrow> session_row \<Rightarrow> bool" where
  "seen_later a b \<longleftrightarrow> (case (se_seen a, se_seen b) of (_, None) \<Rightarrow> True | (None, Some _) \<Rightarrow> False | (Some x, Some y) \<Rightarrow> y \<le> x)"

definition sql_list_sessions :: "uuid \<Rightarrow> int \<Rightarrow> access_db \<Rightarrow> go_err + session_row list" where
  "sql_list_sessions u now d = Inr (order_by seen_later (filter (\<lambda>s. se_user s = u \<and> live_session now d s) (ac_sessions d)))"

definition sql_revoke_session :: "uuid \<Rightarrow> uuid \<Rightarrow> int \<Rightarrow> access_db \<Rightarrow> (go_err + unit) \<times> access_db" where
  "sql_revoke_session i u now d = constrained sessions_schema d (Inr (), d\<lparr>ac_sessions :=
     update_rows (\<lambda>s. se_id s = i \<and> se_user s = u \<and> se_revoked s = None) (\<lambda>s. s\<lparr>se_revoked := Some now\<rparr>) (ac_sessions d)\<rparr>)"

definition sql_revoke_sessions :: "uuid \<Rightarrow> int \<Rightarrow> access_db \<Rightarrow> (go_err + unit) \<times> access_db" where
  "sql_revoke_sessions u now d = constrained sessions_schema d (Inr (), d\<lparr>ac_sessions :=
     update_rows (\<lambda>s. se_user s = u \<and> se_revoked s = None) (\<lambda>s. s\<lparr>se_revoked := Some now\<rparr>) (ac_sessions d)\<rparr>)"

definition sql_session_tokens :: "uuid \<Rightarrow> string \<Rightarrow> int \<Rightarrow> access_db \<Rightarrow> (go_err + unit) \<times> access_db" where
  "sql_session_tokens i tokens now d = with_texts [tokens] d (Inr (), d\<lparr>ac_sessions :=
     update_rows (\<lambda>s. se_id s = i \<and> se_revoked s = None) (\<lambda>s. s\<lparr>se_tokens := tokens, se_seen := Some now\<rparr>) (ac_sessions d)\<rparr>)"

definition sql_create_attempt :: "signin_attempt \<Rightarrow> access_db \<Rightarrow> (go_err + unit) \<times> access_db" where
  "sql_create_attempt a d = with_texts [sa_state a, sa_verifier a, sa_nonce a] d
     (constrained attempts_schema d (Inr (), d\<lparr>ac_attempts := ac_attempts d @ [a]\<rparr>))"

definition sql_consume_attempt :: "string \<Rightarrow> int \<Rightarrow> access_db \<Rightarrow> (go_err + signin_attempt) \<times> access_db" where
  "sql_consume_attempt h now d = with_texts [h] d
     (case one_row (\<lambda>a. sa_state a = h \<and> now < sa_expires a) (ac_attempts d) of
        Inl e \<Rightarrow> (Inl e, d)
      | Inr a \<Rightarrow> (Inr a, d\<lparr>ac_attempts := filter (\<lambda>a. \<not> (sa_state a = h \<and> now < sa_expires a)) (ac_attempts d)\<rparr>))"

definition sql_expire_attempts :: "int \<Rightarrow> access_db \<Rightarrow> (go_err + unit) \<times> access_db" where
  "sql_expire_attempts now d = (Inr (), d\<lparr>ac_attempts := filter (\<lambda>a. \<not> sa_expires a \<le> now) (ac_attempts d)\<rparr>)"

section \<open>Organizations and members\<close>

definition active_role :: "string list \<Rightarrow> access_db \<Rightarrow> uuid \<Rightarrow> uuid \<Rightarrow> bool" where
  "active_role roles d org u \<longleftrightarrow>
     list_ex (\<lambda>m. mb_org m = org \<and> mb_user m = u \<and> mb_status m = ''active'' \<and> mb_role m \<in> set roles) (ac_members d)"

abbreviation acts_for :: "access_db \<Rightarrow> uuid \<Rightarrow> uuid \<Rightarrow> bool" where
  "acts_for \<equiv> active_role [''owner'', ''admin'']"

definition new_member :: "uuid \<Rightarrow> uuid \<Rightarrow> string \<Rightarrow> int \<Rightarrow> member_row" where
  "new_member org u role now = \<lparr>mb_org = org, mb_user = u, mb_role = role, mb_status = ''active'', mb_created = now, mb_updated = now\<rparr>"

definition new_org :: "uuid \<Rightarrow> string \<Rightarrow> int \<Rightarrow> org_row" where
  "new_org i name now = \<lparr>or_id = i, or_name = name, or_status = ''active'', or_created = now, or_updated = now, or_deleted = None\<rparr>"

definition sql_found_org :: "string \<Rightarrow> uuid \<Rightarrow> uuid \<Rightarrow> int \<Rightarrow> access_db \<Rightarrow> (go_err + org_row) \<times> access_db" where
  "sql_found_org name u i now d = with_texts [name] d
     (if \<not> enabled_user d u then (Inl err_no_rows, d)
      else constrained (orgs_schema @ members_schema) d (Inr (new_org i name now),
        d\<lparr>ac_orgs := ac_orgs d @ [new_org i name now], ac_members := ac_members d @ [new_member i u ''owner'' now]\<rparr>))"

definition sql_get_org :: "uuid \<Rightarrow> access_db \<Rightarrow> go_err + org_row" where
  "sql_get_org i d = one_row (\<lambda>r. or_id r = i \<and> org_open r) (ac_orgs d)"

definition sql_update_org :: "uuid \<Rightarrow> string option \<Rightarrow> int \<Rightarrow> access_db \<Rightarrow> (go_err + org_row) \<times> access_db" where
  "sql_update_org i name now d = with_texts (texts [name]) d
     (let f = (\<lambda>r. r\<lparr>or_name := keep_or name (or_name r), or_updated := now\<rparr>) in
      case sql_get_org i d of
        Inl e \<Rightarrow> (Inl e, d)
      | Inr r \<Rightarrow> (Inr (f r), d\<lparr>ac_orgs := update_rows (\<lambda>r. or_id r = i \<and> org_open r) f (ac_orgs d)\<rparr>))"

definition sql_delete_org :: "uuid \<Rightarrow> int \<Rightarrow> access_db \<Rightarrow> (go_err + unit) \<times> access_db" where
  "sql_delete_org i now d = (Inr (), d\<lparr>ac_orgs := update_rows (\<lambda>r. or_id r = i \<and> or_deleted r = None)
     (\<lambda>r. r\<lparr>or_status := ''disabled'', or_deleted := Some now, or_updated := now\<rparr>) (ac_orgs d)\<rparr>)"

text \<open>The rows of a join: every pair, in the order of the first table.\<close>

definition sql_user_orgs :: "uuid \<Rightarrow> access_db \<Rightarrow> go_err + (org_row \<times> string) list" where
  "sql_user_orgs u d = Inr (order_by (\<lambda>a b. or_created (fst b) \<le> or_created (fst a))
     (concat (map (\<lambda>r. map (\<lambda>m. (r, mb_role m))
        (filter (\<lambda>m. mb_org m = or_id r \<and> mb_user m = u \<and> mb_status m = ''active'' \<and> enabled_user d u \<and> org_open r) (ac_members d))) (ac_orgs d))))"

definition sql_get_member :: "uuid \<Rightarrow> uuid \<Rightarrow> access_db \<Rightarrow> go_err + member_row" where
  "sql_get_member org u d = one_row (\<lambda>m. mb_org m = org \<and> mb_user m = u \<and> mb_status m = ''active'' \<and> enabled_user d u \<and> open_org d org) (ac_members d)"

definition sql_list_members :: "uuid \<Rightarrow> access_db \<Rightarrow> go_err + member_row list" where
  "sql_list_members org d = Inr (order_by (\<lambda>a b. mb_created a \<le> mb_created b)
     (filter (\<lambda>m. mb_org m = org \<and> mb_status m = ''active'' \<and> enabled_user d (mb_user m)) (ac_members d)))"

definition sql_add_member :: "uuid \<Rightarrow> uuid \<Rightarrow> string \<Rightarrow> uuid \<Rightarrow> int \<Rightarrow> access_db \<Rightarrow> (go_err + member_row) \<times> access_db" where
  "sql_add_member org u role actor now d = with_texts [role] d
     (if \<not> enabled_user d u \<or> \<not> acts_for d org actor then (Inl err_no_rows, d)
      else constrained members_schema d (Inr (new_member org u role now), d\<lparr>ac_members := ac_members d @ [new_member org u role now]\<rparr>))"

definition changeable_member :: "access_db \<Rightarrow> uuid \<Rightarrow> uuid \<Rightarrow> uuid \<Rightarrow> member_row \<Rightarrow> bool" where
  "changeable_member d org u actor m \<longleftrightarrow> mb_org m = org \<and> mb_user m = u \<and> mb_status m = ''active'' \<and> acts_for d org actor \<and> mb_role m \<noteq> ''owner''"

definition sql_member_role :: "uuid \<Rightarrow> uuid \<Rightarrow> string \<Rightarrow> uuid \<Rightarrow> int \<Rightarrow> access_db \<Rightarrow> (go_err + member_row) \<times> access_db" where
  "sql_member_role org u role actor now d = with_texts [role] d
     (let f = (\<lambda>m. m\<lparr>mb_role := role, mb_updated := now\<rparr>) in
      case one_row (changeable_member d org u actor) (ac_members d) of
        Inl e \<Rightarrow> (Inl e, d)
      | Inr m \<Rightarrow> constrained members_schema d (Inr (f m), d\<lparr>ac_members := update_rows (changeable_member d org u actor) f (ac_members d)\<rparr>))"

definition sql_disable_member :: "uuid \<Rightarrow> uuid \<Rightarrow> uuid \<Rightarrow> int \<Rightarrow> access_db \<Rightarrow> (go_err + unit) \<times> access_db" where
  "sql_disable_member org u actor now d = (Inr (), d\<lparr>ac_members :=
     update_rows (changeable_member d org u actor) (\<lambda>m. m\<lparr>mb_status := ''disabled'', mb_updated := now\<rparr>) (ac_members d)\<rparr>)"

section \<open>Invitations\<close>

record invite_params =
  ip_org :: uuid
  ip_by :: uuid
  ip_email :: string
  ip_role :: string
  ip_hash :: string
  ip_expires :: int

definition new_invite :: "invite_params \<Rightarrow> uuid \<Rightarrow> int \<Rightarrow> invite_row" where
  "new_invite p i now = \<lparr>iv_id = i, iv_org = ip_org p, iv_by = ip_by p, iv_email = ip_email p, iv_role = ip_role p, iv_hash = ip_hash p,
     iv_status = ''pending'', iv_expires = ip_expires p, iv_accepted = None, iv_declined = None, iv_revoked = None, iv_created = now, iv_updated = now\<rparr>"

definition sql_create_invite :: "invite_params \<Rightarrow> uuid \<Rightarrow> int \<Rightarrow> access_db \<Rightarrow> (go_err + invite_row) \<times> access_db" where
  "sql_create_invite p i now d = with_texts [ip_email p, ip_role p, ip_hash p] d
     (if \<not> open_org d (ip_org p) \<or> \<not> enabled_user d (ip_by p) \<or> \<not> acts_for d (ip_org p) (ip_by p) then (Inl err_no_rows, d)
      else constrained invites_schema d (Inr (new_invite p i now), d\<lparr>ac_invites := ac_invites d @ [new_invite p i now]\<rparr>))"

definition pending_invite :: "int \<Rightarrow> invite_row \<Rightarrow> bool" where
  "pending_invite now r \<longleftrightarrow> iv_status r = ''pending'' \<and> now < iv_expires r"

definition sql_invite_by_hash :: "string \<Rightarrow> int \<Rightarrow> access_db \<Rightarrow> go_err + invite_row" where
  "sql_invite_by_hash h now d = one_row (\<lambda>r. iv_hash r = h \<and> pending_invite now r \<and> open_org d (iv_org r)) (ac_invites d)"

definition sql_pending_invites :: "uuid \<Rightarrow> int \<Rightarrow> access_db \<Rightarrow> go_err + invite_row list" where
  "sql_pending_invites org now d = Inr (order_by (\<lambda>a b. iv_created b \<le> iv_created a)
     (filter (\<lambda>r. iv_org r = org \<and> pending_invite now r) (ac_invites d)))"

definition sql_accept_invite :: "uuid \<Rightarrow> int \<Rightarrow> access_db \<Rightarrow> (go_err + invite_row) \<times> access_db" where
  "sql_accept_invite i now d =
     (let f = (\<lambda>r. r\<lparr>iv_status := ''accepted'', iv_accepted := Some now, iv_updated := now\<rparr>) in
      case one_row (\<lambda>r. iv_id r = i \<and> pending_invite now r) (ac_invites d) of
        Inl e \<Rightarrow> (Inl e, d)
      | Inr r \<Rightarrow> (Inr (f r), d\<lparr>ac_invites := update_rows (\<lambda>r. iv_id r = i \<and> pending_invite now r) f (ac_invites d)\<rparr>))"

definition sql_revoke_invite :: "uuid \<Rightarrow> uuid \<Rightarrow> int \<Rightarrow> access_db \<Rightarrow> (go_err + invite_row) \<times> access_db" where
  "sql_revoke_invite i org now d =
     (let p = (\<lambda>r. iv_id r = i \<and> iv_org r = org \<and> iv_status r = ''pending'');
          f = (\<lambda>r. r\<lparr>iv_status := ''revoked'', iv_revoked := Some now, iv_updated := now\<rparr>) in
      case one_row p (ac_invites d) of
        Inl e \<Rightarrow> (Inl e, d)
      | Inr r \<Rightarrow> (Inr (f r), d\<lparr>ac_invites := update_rows p f (ac_invites d)\<rparr>))"

definition sql_expire_invites :: "int \<Rightarrow> access_db \<Rightarrow> (go_err + unit) \<times> access_db" where
  "sql_expire_invites now d = (Inr (), d\<lparr>ac_invites := update_rows (\<lambda>r. iv_status r = ''pending'' \<and> iv_expires r \<le> now)
     (\<lambda>r. r\<lparr>iv_status := ''expired'', iv_updated := now\<rparr>) (ac_invites d)\<rparr>)"

definition invited :: "int \<Rightarrow> access_db \<Rightarrow> uuid \<Rightarrow> uuid \<Rightarrow> invite_row \<Rightarrow> bool" where
  "invited now d i u r \<longleftrightarrow> iv_id r = i \<and> iv_status r = ''accepted'' \<and> now < iv_expires r \<and> open_org d (iv_org r)
     \<and> list_ex (\<lambda>x. us_id x = u \<and> to_lower (us_email x) = to_lower (iv_email r) \<and> us_verified x \<and> us_disabled x = None) (ac_users d)"

definition sql_add_invited :: "uuid \<Rightarrow> uuid \<Rightarrow> int \<Rightarrow> access_db \<Rightarrow> (go_err + member_row) \<times> access_db" where
  "sql_add_invited i u now d = (case one_row (invited now d i u) (ac_invites d) of
     Inl e \<Rightarrow> (Inl e, d)
   | Inr r \<Rightarrow> constrained members_schema d (Inr (new_member (iv_org r) u (iv_role r) now),
       d\<lparr>ac_members := ac_members d @ [new_member (iv_org r) u (iv_role r) now]\<rparr>))"

section \<open>Organization tokens\<close>

record token_params =
  tp_org :: uuid
  tp_by :: uuid
  tp_name :: string
  tp_desc :: "string option"
  tp_hash :: string
  tp_prefix :: string
  tp_scopes :: "string list option"
  tp_expires :: "int option"

definition new_token :: "token_params \<Rightarrow> uuid \<Rightarrow> int \<Rightarrow> token_row" where
  "new_token p i now = \<lparr>tk_id = i, tk_org = tp_org p, tk_by = Some (tp_by p), tk_name = tp_name p, tk_desc = tp_desc p, tk_hash = tp_hash p,
     tk_prefix = tp_prefix p, tk_scopes = tp_scopes p, tk_used = None, tk_ip = None, tk_expires = tp_expires p, tk_disabled = None,
     tk_created = now, tk_updated = now\<rparr>"

definition sql_create_token :: "token_params \<Rightarrow> uuid \<Rightarrow> int \<Rightarrow> access_db \<Rightarrow> (go_err + token_row) \<times> access_db" where
  "sql_create_token p i now d = with_texts ([tp_name p, tp_hash p, tp_prefix p] @ texts [tp_desc p]) d
     (if \<not> open_org d (tp_org p) \<or> \<not> enabled_user d (tp_by p) \<or> \<not> acts_for d (tp_org p) (tp_by p) then (Inl err_no_rows, d)
      else constrained tokens_schema d (Inr (new_token p i now), d\<lparr>ac_tokens := ac_tokens d @ [new_token p i now]\<rparr>))"

definition usable_token :: "int \<Rightarrow> token_row \<Rightarrow> bool" where
  "usable_token now r \<longleftrightarrow> tk_disabled r = None \<and> (case tk_expires r of None \<Rightarrow> True | Some t \<Rightarrow> now < t)"

definition sql_token_by_hash :: "string \<Rightarrow> int \<Rightarrow> access_db \<Rightarrow> go_err + token_row" where
  "sql_token_by_hash h now d = one_row (\<lambda>r. tk_hash r = h \<and> usable_token now r \<and> open_org d (tk_org r)) (ac_tokens d)"

definition sql_token_by_id :: "uuid \<Rightarrow> uuid \<Rightarrow> access_db \<Rightarrow> go_err + token_row" where
  "sql_token_by_id i org d = one_row (\<lambda>r. tk_id r = i \<and> tk_org r = org \<and> open_org d org) (ac_tokens d)"

text \<open>The columns of the list: without the hash, with the name of the creator.\<close>

definition sql_list_tokens :: "uuid \<Rightarrow> access_db \<Rightarrow> go_err + (token_row \<times> string option) list" where
  "sql_list_tokens org d = Inr (map (\<lambda>r. (r\<lparr>tk_hash := []\<rparr>,
       (case find (\<lambda>u. Some (us_id u) = tk_by r) (ac_users d) of None \<Rightarrow> None | Some u \<Rightarrow> us_name u)))
     (order_by (\<lambda>a b. tk_created b \<le> tk_created a) (filter (\<lambda>r. tk_org r = org \<and> open_org d org) (ac_tokens d))))"

record token_change =
  tc_id :: uuid
  tc_org :: uuid
  tc_name :: "string option"
  tc_desc :: "string option"
  tc_scopes :: "string list option option"
  tc_expires :: "int option"

definition changed_token :: "token_change \<Rightarrow> int \<Rightarrow> token_row \<Rightarrow> token_row" where
  "changed_token c now r = r\<lparr>tk_name := keep_or (tc_name c) (tk_name r),
     tk_desc := (case tc_desc c of None \<Rightarrow> tk_desc r | Some x \<Rightarrow> Some x), tk_scopes := keep_or (tc_scopes c) (tk_scopes r),
     tk_expires := (case tc_expires c of None \<Rightarrow> tk_expires r | Some x \<Rightarrow> Some x), tk_updated := now\<rparr>"

definition changeable_token :: "access_db \<Rightarrow> uuid \<Rightarrow> uuid \<Rightarrow> uuid \<Rightarrow> token_row \<Rightarrow> bool" where
  "changeable_token d i org actor r \<longleftrightarrow> tk_id r = i \<and> tk_org r = org \<and> open_org d org \<and> acts_for d org actor"

definition sql_update_token :: "token_change \<Rightarrow> uuid \<Rightarrow> int \<Rightarrow> access_db \<Rightarrow> (go_err + token_row) \<times> access_db" where
  "sql_update_token c actor now d = with_texts (texts [tc_name c, tc_desc c]) d
     (case one_row (changeable_token d (tc_id c) (tc_org c) actor) (ac_tokens d) of
        Inl e \<Rightarrow> (Inl e, d)
      | Inr r \<Rightarrow> constrained tokens_schema d (Inr (changed_token c now r),
          d\<lparr>ac_tokens := update_rows (changeable_token d (tc_id c) (tc_org c) actor) (changed_token c now) (ac_tokens d)\<rparr>))"

definition sql_disable_token :: "uuid \<Rightarrow> uuid \<Rightarrow> uuid \<Rightarrow> int \<Rightarrow> access_db \<Rightarrow> (go_err + unit) \<times> access_db" where
  "sql_disable_token i org actor now d = (Inr (), d\<lparr>ac_tokens :=
     update_rows (\<lambda>r. tk_id r = i \<and> tk_org r = org \<and> tk_disabled r = None \<and> acts_for d org actor)
       (\<lambda>r. r\<lparr>tk_disabled := Some now, tk_updated := now\<rparr>) (ac_tokens d)\<rparr>)"

definition sql_touch_token :: "uuid \<Rightarrow> string \<Rightarrow> int \<Rightarrow> access_db \<Rightarrow> (go_err + unit) \<times> access_db" where
  "sql_touch_token i ip now d = (Inr (), d\<lparr>ac_tokens :=
     update_rows (\<lambda>r. tk_id r = i \<and> usable_token now r \<and> (case tk_used r of None \<Rightarrow> True | Some t \<Rightarrow> t < now - minute))
       (\<lambda>r. r\<lparr>tk_used := Some now, tk_ip := Some ip, tk_updated := now\<rparr>) (ac_tokens d)\<rparr>)"

end
