(* ===== verification/Kinde_Client.thy ===== *)
theory Kinde_Client
  imports Sql_World
begin

text \<open>
  The client of the identity provider (\<open>integrations/kinde\<close>): the code exchange, the refresh, the audience of an ID
  token (\<open>oauth.go\<close>, \<open>verification.go\<close>) and the verification of signed webhooks with the cache of signing keys
  (\<open>webhook.go\<close>). \<open>oauth2\<close>, \<open>go-oidc\<close>, \<open>go-jose\<close> and the HTTP exchange are fields of \<open>kinde\<close>: what they answer at a
  step of the environment. Times are microseconds.
\<close>

section \<open>Tokens\<close>

text \<open>\<open>ot_id\<close> is \<open>Extra("id_token").(string)\<close>; a claim that does not decode is \<open>None\<close>.\<close>

record oauth_token =
  ot_access :: string
  ot_refresh :: string
  ot_expiry :: int
  ot_id :: "string option"

record kinde_identity =
  ki_subject :: string
  ki_sid :: string
  ki_email :: string
  ki_verified :: bool
  ki_name :: string
  ki_given :: string
  ki_family :: string

record id_token =
  it_subject :: string
  it_nonce :: string
  it_expiry :: int
  it_audience :: "string list"
  it_access_hash :: string
  it_claims :: "kinde_identity option"
  it_party :: "string option"

record kinde_tokens =
  kt_oauth :: oauth_token
  kt_id :: string
  kt_nonce :: string
  kt_until :: int

record kinde =
  kc_client :: string
  kc_issuer :: string
  kc_now :: "nat \<Rightarrow> int"
  kc_exchange :: "nat \<Rightarrow> string \<Rightarrow> string \<Rightarrow> oauth_token option"
  kc_refresh :: "nat \<Rightarrow> oauth_token \<Rightarrow> oauth_token option"
  kc_discover :: "nat \<Rightarrow> go_err option"
  kc_verify :: "nat \<Rightarrow> string \<Rightarrow> id_token option"
  kc_bound :: "id_token \<Rightarrow> string \<Rightarrow> bool"

definition validate_audience :: "kinde \<Rightarrow> id_token \<Rightarrow> go_err option" where
  "validate_audience K i = (case it_party i of
     None \<Rightarrow> Some (Errf ''invalid Kinde authorized party'' [])
   | Some party \<Rightarrow>
       (let client = list_ex (\<lambda>a. a = kc_client K) (it_audience i);
            issuer = list_ex (\<lambda>a. a \<noteq> kc_client K \<and> a = kc_issuer K) (it_audience i) in
        if party \<noteq> [] \<and> party \<noteq> kc_client K then Some (Errf ''invalid Kinde authorized party'' [])
        else if client \<and> length (it_audience i) = 1 then None
        else if (client \<or> issuer) \<and> party = kc_client K then None
        else Some (Errf ''invalid Kinde ID token audience'' [])))"

definition verified_claims :: "kinde \<Rightarrow> id_token \<Rightarrow> go_err + kinde_identity" where
  "verified_claims K i = (case it_claims i of
     None \<Rightarrow> Inl (Errf ''invalid Kinde identity claims'' [])
   | Some c \<Rightarrow>
       if it_subject i = [] \<or> trim_space (ki_email c) = [] \<or> \<not> ki_verified c
       then Inl (Errf ''a verified Kinde email and subject are required'' [])
       else (case validate_audience K i of
         Some e \<Rightarrow> Inl e
       | None \<Rightarrow> Inr (c\<lparr>ki_subject := it_subject i,
           ki_name := if ki_name c = [] then trim_space (ki_given c @ '' '' @ ki_family c) else ki_name c\<rparr>)))"

definition verify_id_token :: "kinde \<Rightarrow> oauth_token \<Rightarrow> ('d, kinde_identity \<times> string \<times> string \<times> int) sql_action" where
  "verify_id_token K a = (case ot_id a of
     None \<Rightarrow> fail (Errf ''missing Kinde ID or access token'' [])
   | Some raw \<Rightarrow>
       if raw = [] \<or> ot_access a = [] then fail (Errf ''missing Kinde ID or access token'' [])
       else do { n \<leftarrow> sql_tick;
         case kc_discover K n of Some e \<Rightarrow> fail (Wrap ''discover Kinde: %w'' [] e)
         | None \<Rightarrow> (case kc_verify K n raw of
             None \<Rightarrow> fail (Errf ''invalid Kinde ID token'' [])
           | Some i \<Rightarrow>
               if it_access_hash i \<noteq> [] \<and> \<not> kc_bound K i (ot_access a) then fail (Errf ''invalid Kinde access token binding'' [])
               else (case verified_claims K i of
                 Inl e \<Rightarrow> fail e
               | Inr c \<Rightarrow> succeed (c, raw, it_nonce i, it_expiry i))) })"

definition validation_age :: int where "validation_age = 600000000"

definition next_deadline :: "int \<Rightarrow> int \<Rightarrow> int" where
  "next_deadline now expiry = (if expiry < now + validation_age then expiry else now + validation_age)"

definition kinde_exchange :: "kinde \<Rightarrow> string \<Rightarrow> string \<Rightarrow> string \<Rightarrow> ('d, kinde_identity \<times> kinde_tokens) sql_action" where
  "kinde_exchange K code verifier nonce =
     (if nonce = [] then fail (Errf ''missing OIDC nonce'' [])
      else do { n \<leftarrow> sql_tick;
        case kc_exchange K n code verifier of
          None \<Rightarrow> fail (Errf ''kinde code exchange failed'' [])
        | Some a \<Rightarrow> chain (verify_id_token K a) (\<lambda>(identity, raw, actual, expiry).
            if actual \<noteq> nonce then fail (Errf ''invalid Kinde nonce'' [])
            else if ot_refresh a = [] \<or> ot_access a = [] \<or> ot_expiry a = zero_time then fail (Errf ''incomplete Kinde token response'' [])
            else do { m \<leftarrow> sql_tick;
              let until = next_deadline (kc_now K m) (if ot_expiry a < expiry then ot_expiry a else expiry) in
              if \<not> kc_now K m < until then fail (Errf ''expired Kinde token response'' [])
              else succeed (identity, \<lparr>kt_oauth = a, kt_id = raw, kt_nonce = actual, kt_until = until\<rparr>) }) })"

definition kinde_refresh :: "kinde \<Rightarrow> kinde_tokens \<Rightarrow> string \<Rightarrow> ('d, kinde_tokens) sql_action" where
  "kinde_refresh K previous subject =
     (if subject = [] \<or> ot_refresh (kt_oauth previous) = [] then fail (Errf ''invalid Kinde refresh context'' [])
      else do { n \<leftarrow> sql_tick;
        case kc_refresh K n ((kt_oauth previous)\<lparr>ot_expiry := kc_now K n - 60000000\<rparr>) of
          None \<Rightarrow> fail (Errf ''kinde session refresh failed'' [])
        | Some a \<Rightarrow>
            if ot_access a = [] \<or> ot_refresh a = [] \<or> ot_expiry a = zero_time then fail (Errf ''incomplete Kinde refresh response'' [])
            else do { m \<leftarrow> sql_tick;
              let fresh = \<lparr>kt_oauth = a, kt_id = kt_id previous, kt_nonce = kt_nonce previous, kt_until = next_deadline (kc_now K m) (ot_expiry a)\<rparr> in
              if \<not> kc_now K m < kt_until fresh then fail (Errf ''expired Kinde refresh response'' [])
              else (case ot_id a of
                None \<Rightarrow> succeed fresh
              | Some _ \<Rightarrow> chain (verify_id_token K a) (\<lambda>(identity, raw, nonce, expiry).
                  if ki_subject identity \<noteq> subject \<or> (nonce \<noteq> [] \<and> nonce \<noteq> kt_nonce previous)
                  then fail (Errf ''kinde session identity changed'' [])
                  else succeed (fresh\<lparr>kt_id := raw, kt_nonce := (if nonce \<noteq> [] then nonce else kt_nonce fresh),
                         kt_until := (if expiry < kt_until fresh then expiry else kt_until fresh)\<rparr>))) } })"

section \<open>Signed webhooks\<close>

record webhook_key =
  wk_id :: string
  wk_valid :: bool
  wk_alg :: string
  wk_use :: string
  wk_key :: string

record key_cache =
  ky_keys :: "webhook_key list"
  ky_at :: int
  ky_attempt :: int

definition new_key_cache :: key_cache where
  "new_key_cache = \<lparr>ky_keys = [], ky_at = zero_time, ky_attempt = zero_time\<rparr>"

definition keys_of :: "string \<Rightarrow> webhook_key list \<Rightarrow> webhook_key list" where
  "keys_of i ks = filter (\<lambda>k. wk_id k = i) ks"

definition err_webhook_unavailable :: go_err where
  "err_webhook_unavailable = Sentinel ''kinde webhook signing keys are unavailable''"

definition keys_max_age :: int where "keys_max_age = 900000000"
definition keys_interval :: int where "keys_interval = 60000000"

text \<open>
  \<open>webhookSigningKeys\<close> under its lock. \<open>fetched\<close> is the key set the request answers and the clock after it: the
  error of the request, or the keys of a 200 that decodes (\<open>None\<close> is any other answer).
\<close>

definition signing_keys ::
  "int \<Rightarrow> go_err + webhook_key list option \<times> int \<Rightarrow> string \<Rightarrow> key_cache \<Rightarrow> (go_err + webhook_key list) \<times> key_cache" where
  "signing_keys now fetched kid c =
     (let fresh = ky_keys c \<noteq> [] \<and> now - ky_at c < keys_max_age in
      if fresh \<and> keys_of kid (ky_keys c) \<noteq> [] then (Inr (ky_keys c), c)
      else if now - ky_attempt c < keys_interval then (Inl err_webhook_unavailable, c)
      else (let c' = c\<lparr>ky_attempt := now\<rparr> in case fetched of
          Inl e \<Rightarrow> (Inl (Join err_webhook_unavailable e), c')
        | Inr (None, _) \<Rightarrow> (Inl err_webhook_unavailable, c')
        | Inr (Some ks, later) \<Rightarrow>
            if ks = [] \<or> 64 < length ks then (Inl err_webhook_unavailable, c')
            else (let c'' = c'\<lparr>ky_keys := ks, ky_at := later\<rparr> in
              if keys_of kid ks = [] then (Inl err_webhook_unavailable, c'') else (Inr ks, c''))))"

record webhook_event =
  we_id :: string
  we_type :: string
  we_at :: int
  we_data_id :: string
  we_user_id :: string
  we_first :: "string option"
  we_last :: "string option"
  we_email :: "string option"
  we_suspended :: "bool option"

definition kinde_subject :: "webhook_event \<Rightarrow> string" where
  "kinde_subject e = (if we_user_id e \<noteq> [] then we_user_id e else we_data_id e)"

text \<open>\<open>jose.ParseSigned\<close> with the key ids of the signatures, \<open>Verify\<close> with its payload, \<open>json.Unmarshal\<close> of the claims.\<close>

record jose =
  js_parse :: "string \<Rightarrow> string list option"
  js_verify :: "string \<Rightarrow> string \<Rightarrow> string option"
  js_event :: "string \<Rightarrow> webhook_event option"

definition usable_key :: "webhook_key \<Rightarrow> bool" where
  "usable_key k \<longleftrightarrow> wk_valid k \<and> (wk_alg k = [] \<or> wk_alg k = ''RS256'') \<and> (wk_use k = [] \<or> wk_use k = ''sig'')"

fun verified_payload :: "jose \<Rightarrow> string \<Rightarrow> webhook_key list \<Rightarrow> string option" where
  "verified_payload J raw [] = None"
| "verified_payload J raw (k # ks) =
     (if \<not> usable_key k then verified_payload J raw ks
      else (case js_verify J raw (wk_key k) of Some p \<Rightarrow> Some p | None \<Rightarrow> verified_payload J raw ks))"

definition webhook_max_age :: int where "webhook_max_age = 172800000000"
definition webhook_skew :: int where "webhook_skew = 300000000"

definition check_event :: "int \<Rightarrow> webhook_event \<Rightarrow> go_err + webhook_event" where
  "check_event now e =
     (if \<not> starts_with ''event_'' (we_id e) \<or> 128 < length (we_id e) \<or> we_at e = zero_time
         \<or> we_at e < now - webhook_max_age \<or> now + webhook_skew < we_at e
      then Inl (Errf ''invalid or expired Kinde webhook event'' [])
      else if we_type e = ''user.updated'' \<or> we_type e = ''user.deleted'' then
        (if \<not> starts_with ''kp_'' (kinde_subject e) \<and> \<not> starts_with ''kp:'' (kinde_subject e) then Inl (Errf ''invalid Kinde user identity'' [])
         else if we_data_id e \<noteq> [] \<and> we_user_id e \<noteq> [] \<and> we_data_id e \<noteq> we_user_id e then Inl (Errf ''conflicting Kinde user identities'' [])
         else Inr e)
      else Inr e)"

definition verify_webhook ::
  "jose \<Rightarrow> int \<Rightarrow> go_err + webhook_key list option \<times> int \<Rightarrow> int \<Rightarrow> string \<Rightarrow> key_cache \<Rightarrow> (go_err + webhook_event) \<times> key_cache" where
  "verify_webhook J now fetched now' raw0 c =
     (let raw = trim_space raw0 in
      if raw = [] \<or> 65536 < length raw then (Inl (Errf ''invalid Kinde webhook token length'' []), c)
      else (case js_parse J raw of
        Some [kid] \<Rightarrow>
          if kid = [] then (Inl (Errf ''invalid Kinde webhook signature header'' []), c)
          else (case signing_keys now fetched kid c of
            (Inl e, c') \<Rightarrow> (Inl e, c')
          | (Inr ks, c') \<Rightarrow> (case verified_payload J raw (keys_of kid ks) of
              None \<Rightarrow> (Inl (Errf ''invalid Kinde webhook signature'' []), c')
            | Some payload \<Rightarrow> (case js_event J payload of
                None \<Rightarrow> (Inl (Errf ''invalid Kinde webhook claims'' []), c')
              | Some e \<Rightarrow> (check_event now' e, c'))))
      | _ \<Rightarrow> (Inl (Errf ''invalid Kinde webhook signature header'' []), c)))"

section \<open>What a verified event rests on\<close>

lemma verified_payload_Some: "verified_payload J raw ks = Some p \<Longrightarrow> \<exists>k \<in> set ks. usable_key k \<and> js_verify J raw (wk_key k) = Some p"
  by (induction ks) (auto split: if_splits option.splits)

lemma check_event_Inr: "check_event now e = Inr e' \<Longrightarrow> e' = e \<and> starts_with ''event_'' (we_id e)
    \<and> now - webhook_max_age \<le> we_at e \<and> we_at e \<le> now + webhook_skew"
  by (auto simp: check_event_def split: if_splits)

text \<open>The keys a call answers are cached ones that are fresh, or those it has just fetched; it names the wanted one.\<close>

lemma signing_keys_Inr:
  assumes "signing_keys now fetched kid c = (Inr ks, c')"
  shows "keys_of kid ks \<noteq> [] \<and> ky_keys c' = ks \<and> (c' = c \<and> now - ky_at c < keys_max_age \<or> (\<exists>later. fetched = Inr (Some ks, later) \<and> ky_at c' = later))"
  using assms unfolding signing_keys_def Let_def by (auto split: if_splits sum.splits prod.splits option.splits)

end
