(* ===== verification/Acc_Identity.thy ===== *)
theory Acc_Identity
  imports Acc_Store Kinde_Client
begin

text \<open>
  Identity: generated tokens (\<open>security/token\<close>), browser sessions backed by provider tokens (\<open>identity/session\<close>),
  sign-in and sign-out (\<open>identity/auth\<close>), users (\<open>identity/users\<close>) and the receiver of signed identity events
  (\<open>identity/kindesync\<close>). SHA-256, random bytes, the PKCE verifier and the JSON codec of the provider tokens are
  fields of \<open>access_service\<close>. Cookies and redirects are the arguments and answers of a handler.
\<close>

section \<open>Environment\<close>

record access_service =
  as_email :: email_service
  as_cipher :: aead
  as_kinde :: kinde
  as_sha :: "string \<Rightarrow> string"
  as_random :: "nat \<Rightarrow> go_err + string"
  as_verifier :: "nat \<Rightarrow> string"
  as_encode :: "kinde_tokens \<Rightarrow> go_err + string"
  as_decode :: "string \<Rightarrow> kinde_tokens option"
  as_accept_url :: string
  as_with_token :: "string \<Rightarrow> string \<Rightarrow> string"

definition as_env :: "access_service \<Rightarrow> nat \<Rightarrow> sql_env" where
  "as_env S = es_env (as_email S)"

definition as_nonce :: "access_service \<Rightarrow> nat \<Rightarrow> go_err + string" where
  "as_nonce S = es_nonce (as_email S)"

type_synonym 'a access_action = "(access_db, 'a) sql_action"

definition acc_query :: "access_service \<Rightarrow> (sql_env \<Rightarrow> access_db \<Rightarrow> go_err + 'a) \<Rightarrow> 'a access_action" where
  "acc_query S = sql_query (as_env S)"

definition acc_exec :: "access_service \<Rightarrow> (sql_env \<Rightarrow> access_db \<Rightarrow> (go_err + 'a) \<times> access_db) \<Rightarrow> 'a access_action" where
  "acc_exec S = sql_exec (as_env S)"

section \<open>Generated tokens\<close>

definition hex_char :: "nat \<Rightarrow> char" where
  "hex_char n = (if n < 10 then char_of (48 + n) else char_of (87 + n))"

definition hex_string :: "string \<Rightarrow> string" where
  "hex_string s = concat (map (\<lambda>c. [hex_char (of_char c div 16), hex_char (of_char c mod 16)]) s)"

text \<open>\<open>token.Generate(32)\<close> and \<open>token.Hash\<close>.\<close>

definition generate_token :: "access_service \<Rightarrow> string access_action" where
  "generate_token S = do { n \<leftarrow> sql_tick; State_Monad.return (case as_random S n of
     Inl e \<Rightarrow> Inl (Wrap ''generate token: %w'' [] e) | Inr bytes \<Rightarrow> Inr (hex_string bytes)) }"

definition token_hash :: "access_service \<Rightarrow> string \<Rightarrow> string" where
  "token_hash S v = hex_string (as_sha S v)"

section \<open>Sessions\<close>

definition err_invalid_session :: go_err where
  "err_invalid_session = Sentinel ''invalid session''"

definition valid_user_id :: "uuid \<Rightarrow> go_err option" where
  "valid_user_id i = (if i = uuid_nil then Some (Errf ''user id is required'' []) else None)"

definition valid_session_id :: "uuid \<Rightarrow> go_err option" where
  "valid_session_id i = (if i = uuid_nil then Some (Errf ''session id is required'' []) else None)"

definition session_scope :: "uuid \<Rightarrow> string" where
  "session_scope u = ''identity-session:'' @ uuid_string u"

definition session_encrypt :: "access_service \<Rightarrow> uuid \<Rightarrow> kinde_tokens \<Rightarrow> string access_action" where
  "session_encrypt S u t = (case as_encode S t of
     Inl e \<Rightarrow> fail (Wrap ''encode identity tokens: %w'' [] e)
   | Inr text \<Rightarrow> do { n \<leftarrow> sql_tick; State_Monad.return (encrypt_for_scope (as_cipher S) (as_nonce S n) (session_scope u) text) })"

definition session_decrypt :: "access_service \<Rightarrow> session_row \<Rightarrow> go_err + kinde_tokens" where
  "session_decrypt S s = (case decrypt_for_scope (as_cipher S) (session_scope (se_user s)) (se_tokens s) of
     Inl _ \<Rightarrow> Inl err_invalid_session
   | Inr text \<Rightarrow> (case as_decode S text of None \<Rightarrow> Inl err_invalid_session | Some t \<Rightarrow> Inr t))"

definition session_ttl :: int where "session_ttl = 2592000000000"

definition session_create :: "access_service \<Rightarrow> uuid \<Rightarrow> string \<Rightarrow> string \<Rightarrow> kinde_tokens \<Rightarrow> (string \<times> session_row) access_action" where
  "session_create S u subject sid tokens =
     chain (of_check (valid_user_id u)) (\<lambda>_. do { n \<leftarrow> sql_tick;
     if subject = [] \<or> sid = [] \<or> \<not> sq_now (as_env S n) < kt_until tokens then fail err_invalid_session
     else chain (generate_token S) (\<lambda>v. chain (session_encrypt S u tokens) (\<lambda>sealed. do { m \<leftarrow> sql_tick;
       chain (acc_exec S (\<lambda>se. sql_create_session \<lparr>sp_user = u, sp_hash = token_hash S v, sp_subject = subject, sp_sid = sid,
           sp_tokens = sealed, sp_assurance = ''unknown'', sp_expires = sq_now (as_env S m) + session_ttl\<rparr> (sq_fresh se) (sq_now se)))
         (\<lambda>s. succeed (v, s)) })) })"

definition session_get :: "access_service \<Rightarrow> string \<Rightarrow> session_row access_action" where
  "session_get S v =
     (if trim_space v = [] then fail err_invalid_session
      else handle (acc_query S (\<lambda>se. sql_session_by_hash (token_hash S v) (sq_now se)))
        (\<lambda>_. fail err_invalid_session)
        (\<lambda>s. do { n \<leftarrow> sql_tick; if \<not> sq_now (as_env S n) < se_expires s then fail err_invalid_session else succeed s }))"

text \<open>\<open>refresh\<close>: tokens that end within ten seconds are rotated under a lock of the row.\<close>

definition refresh_margin :: int where "refresh_margin = 10000000"

definition still_valid :: "access_service \<Rightarrow> nat \<Rightarrow> kinde_tokens \<Rightarrow> bool" where
  "still_valid S n t \<longleftrightarrow> sq_now (as_env S n) + refresh_margin < kt_until t"

definition refresh_tx :: "access_service \<Rightarrow> session_row \<Rightarrow> unit access_action" where
  "refresh_tx S stored0 =
     handle (acc_query S (\<lambda>se. sql_lock_session (se_id stored0) (sq_now se))) (\<lambda>_. fail err_invalid_session) (\<lambda>stored.
     case session_decrypt S stored of Inl e \<Rightarrow> fail e
     | Inr tokens \<Rightarrow> do { n \<leftarrow> sql_tick;
         if still_valid S n tokens then succeed ()
         else handle (kinde_refresh (as_kinde S) tokens (se_subject stored)) (\<lambda>_. fail err_invalid_session) (\<lambda>fresh.
           chain (session_encrypt S (se_user stored) fresh) (\<lambda>sealed.
           map_error (Wrap ''persist session refresh: %w'' [])
             (acc_exec S (\<lambda>se. sql_session_tokens (se_id stored) sealed (sq_now se))))) })"

definition session_refresh :: "access_service \<Rightarrow> session_row \<Rightarrow> unit access_action" where
  "session_refresh S stored = (case session_decrypt S stored of Inl e \<Rightarrow> fail e
   | Inr tokens \<Rightarrow> do { n \<leftarrow> sql_tick;
       if still_valid S n tokens then succeed ()
       else in_tx (as_env S) (Wrap ''begin session refresh: %w'' []) (Wrap ''commit session refresh: %w'' []) (refresh_tx S stored) })"

datatype assurance = Unknown | Password | Otp | Mfa

definition parse_assurance :: "string \<Rightarrow> assurance" where
  "parse_assurance v = (if v = ''password'' then Password else if v = ''otp'' then Otp else if v = ''mfa'' then Mfa else Unknown)"

definition assurance_string :: "assurance \<Rightarrow> string" where
  "assurance_string a = (case a of Password \<Rightarrow> ''password'' | Otp \<Rightarrow> ''otp'' | Mfa \<Rightarrow> ''mfa'' | Unknown \<Rightarrow> ''unknown'')"

record auth_session =
  xs_id :: uuid
  xs_user :: uuid
  xs_assurance :: assurance

definition resolve_session :: "access_service \<Rightarrow> string \<Rightarrow> auth_session access_action" where
  "resolve_session S v = chain (session_get S v) (\<lambda>s. chain (session_refresh S s) (\<lambda>_.
     succeed \<lparr>xs_id = se_id s, xs_user = se_user s, xs_assurance = parse_assurance (se_assurance s)\<rparr>))"

definition session_access_token :: "access_service \<Rightarrow> string \<Rightarrow> string access_action" where
  "session_access_token S v = map_error (\<lambda>_. err_invalid_session)
     (chain (resolve_session S v) (\<lambda>_. chain (session_get S v) (\<lambda>s.
      chain (State_Monad.return (session_decrypt S s)) (\<lambda>t. do { n \<leftarrow> sql_tick;
        if ot_access (kt_oauth t) = [] \<or> \<not> sq_now (as_env S n) < ot_expiry (kt_oauth t) then fail err_invalid_session
        else succeed (ot_access (kt_oauth t)) }))))"

definition session_list :: "access_service \<Rightarrow> uuid \<Rightarrow> session_row list access_action" where
  "session_list S u = chain (of_check (valid_user_id u)) (\<lambda>_. acc_query S (\<lambda>se. sql_list_sessions u (sq_now se)))"

definition session_revoke :: "access_service \<Rightarrow> uuid \<Rightarrow> uuid \<Rightarrow> unit access_action" where
  "session_revoke S i u = chain (of_check (valid_session_id i)) (\<lambda>_. chain (of_check (valid_user_id u)) (\<lambda>_.
     acc_exec S (\<lambda>se. sql_revoke_session i u (sq_now se))))"

definition session_revoke_all :: "access_service \<Rightarrow> uuid \<Rightarrow> unit access_action" where
  "session_revoke_all S u = chain (of_check (valid_user_id u)) (\<lambda>_. acc_exec S (\<lambda>se. sql_revoke_sessions u (sq_now se)))"

section \<open>Sign-in and sign-out\<close>

definition sign_in_failed :: go_err where
  "sign_in_failed = new_unauthorized ''sign-in could not be completed; return to Leamout and try again''"

definition signin_scope :: "access_service \<Rightarrow> string \<Rightarrow> string" where
  "signin_scope S state = ''oidc-login:'' @ token_hash S state"

text \<open>The answer of \<open>Login\<close> is the state, the nonce and the verifier that the redirect carries.\<close>

definition auth_login :: "access_service \<Rightarrow> (string \<times> string \<times> string) access_action" where
  "auth_login S = map_error (\<lambda>_. sign_in_failed)
     (chain (generate_token S) (\<lambda>state. chain (generate_token S) (\<lambda>nonce. do { n \<leftarrow> sql_tick;
        let verifier = as_verifier S n in
        chain (State_Monad.return (encrypt_for_scope (as_cipher S) (as_nonce S n) (signin_scope S state) verifier)) (\<lambda>sealed. do { m \<leftarrow> sql_tick;
        chain (acc_exec S (\<lambda>se. sql_expire_attempts (sq_now se))) (\<lambda>_.
        chain (acc_exec S (\<lambda>se. sql_create_attempt \<lparr>sa_state = token_hash S state, sa_verifier = sealed, sa_nonce = nonce,
            sa_expires = sq_now (as_env S m) + 300000000\<rparr>)) (\<lambda>_.
        succeed (state, nonce, verifier))) }) })))"

record callback_request =
  cb_cookie :: "string option"
  cb_state :: string
  cb_error :: string
  cb_code :: string

definition callback_session :: "access_service \<Rightarrow> callback_request \<Rightarrow> signin_attempt \<Rightarrow> (string \<times> session_row) access_action" where
  "callback_session S r a =
     chain (State_Monad.return (decrypt_for_scope (as_cipher S) (signin_scope S (cb_state r)) (sa_verifier a))) (\<lambda>verifier.
     chain (kinde_exchange (as_kinde S) (cb_code r) verifier (sa_nonce a)) (\<lambda>(identity, tokens).
     chain (acc_exec S (\<lambda>se. sql_upsert_user (kc_issuer (as_kinde S)) (ki_subject identity) (Some (ki_name identity)) (ki_email identity)
         (sq_fresh se) (sq_now se))) (\<lambda>u.
     chain (if ki_sid identity = [] then generate_token S else succeed (ki_sid identity)) (\<lambda>sid.
     session_create S (us_id u) (ki_subject identity) sid tokens))))"

definition auth_callback :: "access_service \<Rightarrow> callback_request \<Rightarrow> (string \<times> session_row) access_action" where
  "auth_callback S r = map_error (\<lambda>_. sign_in_failed)
     (if cb_cookie r = None \<or> cb_state r = [] \<or> cb_cookie r \<noteq> Some (cb_state r) then fail sign_in_failed
      else chain (acc_exec S (\<lambda>se. sql_consume_attempt (token_hash S (cb_state r)) (sq_now se))) (\<lambda>a.
        if cb_error r \<noteq> [] \<or> cb_code r = [] then fail sign_in_failed else callback_session S r a))"

definition revoke_browser_session :: "access_service \<Rightarrow> string option \<Rightarrow> unit access_action" where
  "revoke_browser_session S cookie = (case cookie of
     None \<Rightarrow> succeed ()
   | Some v \<Rightarrow> handle (session_get S v) (\<lambda>_. succeed ()) (\<lambda>s. session_revoke S (se_id s) (se_user s)))"

definition auth_logout :: "access_service \<Rightarrow> string option \<Rightarrow> unit access_action" where
  "auth_logout S cookie = map_error (\<lambda>_. sign_in_failed) (revoke_browser_session S cookie)"

section \<open>Users and identity events\<close>

definition required_user :: "uuid \<Rightarrow> go_err option" where
  "required_user u = (if u = uuid_nil then Some (new_unauthorized ''authentication required'') else None)"

definition user_get :: "access_service \<Rightarrow> uuid \<Rightarrow> user_row access_action" where
  "user_get S u = chain (of_check (required_user u)) (\<lambda>_.
     map_error (\<lambda>_. new_not_found ''user not found'') (acc_query S (\<lambda>_. sql_get_user u)))"

definition user_delete :: "access_service \<Rightarrow> uuid \<Rightarrow> unit access_action" where
  "user_delete S u = chain (of_check (required_user u)) (\<lambda>_.
     map_error (\<lambda>_. new_not_found ''user not found'') (acc_exec S (\<lambda>se. sql_disable_user u (sq_now se))))"

text \<open>A delivery: its media type as \<open>mime.ParseMediaType\<close> finds it, its id, its body (or the error of reading it), and the verdict of the client.\<close>

record webhook_delivery =
  wd_media :: "string option"
  wd_id :: string
  wd_body :: "string option"
  wd_verdict :: "go_err + webhook_event"

definition disables_user :: "webhook_event \<Rightarrow> bool" where
  "disables_user e \<longleftrightarrow> we_type e = ''user.deleted'' \<or> we_suspended e = Some True"

definition change_of :: "access_service \<Rightarrow> webhook_event \<Rightarrow> identity_change" where
  "change_of S e = \<lparr>ic_issuer = kc_issuer (as_kinde S), ic_event = we_id e, ic_subject = kinde_subject e, ic_type = we_type e,
     ic_at = we_at e, ic_disable = disables_user e,
     ic_name = (case (we_first e, we_last e) of (Some f, Some l) \<Rightarrow> trim_space (f @ '' '' @ l) | _ \<Rightarrow> []),
     ic_email = (case we_email e of Some m \<Rightarrow> trim_space m | None \<Rightarrow> [])\<rparr>"

definition receive_event :: "access_service \<Rightarrow> webhook_delivery \<Rightarrow> unit access_action" where
  "receive_event S r =
     (if wd_media r \<noteq> Some ''application/jwt'' then fail (new_bad_request ''Kinde webhook requires application/jwt'')
      else if trim_space (wd_id r) = [] \<or> 256 < length (trim_space (wd_id r)) then fail (new_bad_request ''invalid Kinde webhook delivery ID'')
      else if wd_body r = None \<or> 65536 < length (the (wd_body r)) then fail (new_payload_too_large ''Kinde webhook payload is too large'')
      else (case wd_verdict r of
        Inl e \<Rightarrow> fail (if errors_is e err_webhook_unavailable
            then new_service_unavailable ''identity webhook verification is unavailable'' (Some e) else new_unauthorized ''invalid Kinde webhook'')
      | Inr e \<Rightarrow>
          if we_type e \<noteq> ''user.updated'' \<and> we_type e \<noteq> ''user.deleted'' then succeed ()
          else handle (acc_exec S (\<lambda>se. sql_apply_event (change_of S e) (sq_now se)))
            (\<lambda>x. fail (new_service_unavailable ''identity synchronization unavailable'' (Some x))) (\<lambda>_. succeed ())))"

end
