(* ===== verification/Acc_Tenancy.thy ===== *)
theory Acc_Tenancy
  imports Acc_Identity
begin

text \<open>
  Tenancy: organizations (\<open>tenancy/organization\<close>), members (\<open>tenancy/members\<close>), invitations with their emails
  (\<open>tenancy/invitations\<close>) and organization tokens (\<open>tenancy/credentials\<close>): validation, repository and service of each.
\<close>

section \<open>Organizations\<close>

definition required_org :: "uuid \<Rightarrow> go_err option" where
  "required_org i = (if i = uuid_nil then Some (new_bad_request ''organization_id is required'') else None)"

definition normalize_required :: "string \<Rightarrow> string \<Rightarrow> go_err + string" where
  "normalize_required v field = (let s = trim_space v in if s = [] then Inl (new_bad_request (field @ '' is required'')) else Inr s)"

record org_response =
  rs_id :: uuid
  rs_name :: string
  rs_status :: string
  rs_role :: string
  rs_created :: int
  rs_updated :: int

definition org_response_of :: "org_row \<Rightarrow> string \<Rightarrow> org_response" where
  "org_response_of r role = \<lparr>rs_id = or_id r, rs_name = or_name r, rs_status = or_status r, rs_role = role,
     rs_created = or_created r, rs_updated = or_updated r\<rparr>"

definition get_member :: "access_service \<Rightarrow> uuid \<Rightarrow> uuid \<Rightarrow> member_row access_action" where
  "get_member S org u = acc_query S (\<lambda>_. sql_get_member org u)"

definition org_require_member :: "access_service \<Rightarrow> uuid \<Rightarrow> uuid \<Rightarrow> unit access_action" where
  "org_require_member S u org = chain (of_check (required_user u)) (\<lambda>_. chain (of_check (required_org org)) (\<lambda>_.
     map_error (\<lambda>_. new_not_found ''organization not found'') (chain (get_member S org u) (\<lambda>_. succeed ()))))"

definition org_require_role :: "access_service \<Rightarrow> uuid \<Rightarrow> uuid \<Rightarrow> string list \<Rightarrow> member_row access_action" where
  "org_require_role S u org roles = chain (of_check (required_user u)) (\<lambda>_. chain (of_check (required_org org)) (\<lambda>_.
     handle (get_member S org u) (\<lambda>_. fail (new_not_found ''organization not found'')) (\<lambda>m.
     if mb_role m \<in> set roles then succeed m else fail (new_forbidden ''organization role does not permit this action''))))"

definition org_create :: "access_service \<Rightarrow> uuid \<Rightarrow> string \<Rightarrow> org_response access_action" where
  "org_create S u name0 = chain (of_check (required_user u)) (\<lambda>_.
     chain (State_Monad.return (normalize_required name0 ''name'')) (\<lambda>name.
     handle (acc_exec S (\<lambda>se. sql_found_org name u (sq_fresh se) (sq_now se)))
       (\<lambda>e. fail (new_internal ''create organization'' (Some e))) (\<lambda>r. succeed (org_response_of r ''owner''))))"

definition org_get :: "access_service \<Rightarrow> uuid \<Rightarrow> uuid \<Rightarrow> org_response access_action" where
  "org_get S u org = chain (org_require_member S u org) (\<lambda>_.
     handle (acc_query S (\<lambda>_. sql_get_org org)) (\<lambda>_. fail (new_not_found ''organization not found'')) (\<lambda>r.
     handle (get_member S org u) (\<lambda>_. fail (new_not_found ''organization not found'')) (\<lambda>m. succeed (org_response_of r (mb_role m)))))"

definition org_update :: "access_service \<Rightarrow> uuid \<Rightarrow> uuid \<Rightarrow> string option \<Rightarrow> org_response access_action" where
  "org_update S u org name0 = chain (org_require_role S u org [''owner'', ''admin'']) (\<lambda>m.
     chain (State_Monad.return (case name0 of None \<Rightarrow> Inr None | Some v \<Rightarrow> rbind (normalize_required v ''name'') (\<lambda>s. Inr (Some s)))) (\<lambda>name.
     handle (acc_exec S (\<lambda>se. sql_update_org org name (sq_now se)))
       (\<lambda>_. fail (new_not_found ''organization not found'')) (\<lambda>r. succeed (org_response_of r (mb_role m)))))"

definition org_delete :: "access_service \<Rightarrow> uuid \<Rightarrow> uuid \<Rightarrow> unit access_action" where
  "org_delete S u org = chain (org_require_role S u org [''owner'']) (\<lambda>_. acc_exec S (\<lambda>se. sql_delete_org org (sq_now se)))"

definition org_list :: "access_service \<Rightarrow> uuid \<Rightarrow> org_response list access_action" where
  "org_list S u = chain (of_check (required_user u)) (\<lambda>_.
     chain (acc_query S (\<lambda>_. sql_user_orgs u)) (\<lambda>rs. succeed (map (\<lambda>(r, role). org_response_of r role) rs)))"

section \<open>Members\<close>

definition required_member :: "uuid \<Rightarrow> go_err option" where
  "required_member u = (if u = uuid_nil then Some (new_bad_request ''user_id is required'') else None)"

definition normalize_role :: "string \<Rightarrow> go_err + string" where
  "normalize_role role0 = (let n = to_lower (trim_space role0); role = (if n = [] then ''member'' else n) in
     if role \<notin> {''owner'', ''admin'', ''member''} then Inl (new_bad_request ''role must be owner, admin, or member'') else Inr role)"

definition unique_violation :: "go_err \<Rightarrow> bool" where
  "unique_violation e \<longleftrightarrow> pg_code e = Some ''23505''"

definition mem_require_member :: "access_service \<Rightarrow> uuid \<Rightarrow> uuid \<Rightarrow> unit access_action" where
  "mem_require_member S requester org = chain (of_check (required_user requester)) (\<lambda>_. chain (of_check (required_org org)) (\<lambda>_.
     map_error (\<lambda>_. new_not_found ''organization not found'') (chain (get_member S org requester) (\<lambda>_. succeed ()))))"

definition mem_require_admin :: "access_service \<Rightarrow> uuid \<Rightarrow> uuid \<Rightarrow> unit access_action" where
  "mem_require_admin S requester org = chain (of_check (required_user requester)) (\<lambda>_. chain (of_check (required_org org)) (\<lambda>_.
     handle (get_member S org requester) (\<lambda>_. fail (new_not_found ''organization not found'')) (\<lambda>m.
     if mb_role m \<noteq> ''owner'' \<and> mb_role m \<noteq> ''admin'' then fail (new_forbidden ''organization owner or admin role required'') else succeed ())))"

definition granted_role :: "string \<Rightarrow> go_err + string" where
  "granted_role role0 = rbind (normalize_role role0) (\<lambda>role.
     if role = ''owner'' then Inl (new_conflict ''organization owner must be transferred explicitly'') else Inr role)"

definition member_add :: "access_service \<Rightarrow> uuid \<Rightarrow> uuid \<Rightarrow> uuid \<Rightarrow> string \<Rightarrow> member_row access_action" where
  "member_add S requester org u role0 = chain (mem_require_admin S requester org) (\<lambda>_. chain (of_check (required_member u)) (\<lambda>_.
     chain (State_Monad.return (granted_role role0)) (\<lambda>role.
     map_error (\<lambda>e. if unique_violation e then new_conflict ''organization member already exists'' else new_not_found ''user not found'')
       (acc_exec S (\<lambda>se. sql_add_member org u role requester (sq_now se))))))"

definition member_get :: "access_service \<Rightarrow> uuid \<Rightarrow> uuid \<Rightarrow> uuid \<Rightarrow> member_row access_action" where
  "member_get S requester org u = chain (mem_require_member S requester org) (\<lambda>_. chain (of_check (required_member u)) (\<lambda>_.
     map_error (\<lambda>_. new_not_found ''organization member not found'') (get_member S org u)))"

definition member_list :: "access_service \<Rightarrow> uuid \<Rightarrow> uuid \<Rightarrow> member_row list access_action" where
  "member_list S requester org = chain (mem_require_member S requester org) (\<lambda>_. acc_query S (\<lambda>_. sql_list_members org))"

definition member_update :: "access_service \<Rightarrow> uuid \<Rightarrow> uuid \<Rightarrow> uuid \<Rightarrow> string \<Rightarrow> member_row access_action" where
  "member_update S requester org u role0 = chain (mem_require_admin S requester org) (\<lambda>_. chain (of_check (required_member u)) (\<lambda>_.
     chain (State_Monad.return (granted_role role0)) (\<lambda>role.
     handle (get_member S org u) (\<lambda>_. fail (new_not_found ''organization member not found'')) (\<lambda>current.
     if mb_role current = ''owner'' then fail (new_conflict ''organization owner cannot be demoted'')
     else map_error (\<lambda>_. new_not_found ''organization member not found'')
       (acc_exec S (\<lambda>se. sql_member_role org u role requester (sq_now se)))))))"

definition member_delete :: "access_service \<Rightarrow> uuid \<Rightarrow> uuid \<Rightarrow> uuid \<Rightarrow> unit access_action" where
  "member_delete S requester org u = chain (mem_require_admin S requester org) (\<lambda>_. chain (of_check (required_member u)) (\<lambda>_.
     handle (get_member S org u) (\<lambda>_. fail (new_not_found ''organization member not found'')) (\<lambda>m.
     if mb_role m = ''owner'' then fail (new_conflict ''organization owner cannot be removed'')
     else acc_exec S (\<lambda>se. sql_disable_member org u requester (sq_now se)))))"

section \<open>Invitations\<close>

definition validate_invite :: "access_service \<Rightarrow> string \<Rightarrow> string \<Rightarrow> go_err + string \<times> string" where
  "validate_invite S email0 role0 = (let email = to_lower (trim_space email0); role1 = trim_space role0;
       role = (if role1 = [] then ''member'' else role1) in
     if es_address (as_email S) email \<noteq> Some email then Inl (new_bad_request ''invalid email'')
     else if role \<noteq> ''member'' \<and> role \<noteq> ''admin'' then Inl (new_bad_request ''role must be member or admin'')
     else Inr (email, role))"

definition inv_require_admin :: "access_service \<Rightarrow> uuid \<Rightarrow> uuid \<Rightarrow> unit access_action" where
  "inv_require_admin S u org = handle (get_member S org u)
     (\<lambda>_. fail (new_forbidden ''organization admin access required''))
     (\<lambda>m. if mb_role m \<noteq> ''admin'' \<and> mb_role m \<noteq> ''owner'' then fail (new_forbidden ''organization admin access required'') else succeed ())"

definition invite_key :: "uuid \<Rightarrow> string" where
  "invite_key i = ''invitation:'' @ uuid_string i"

definition invite_lifetime :: int where "invite_lifetime = 604800000000"

definition inviter_name :: "user_row \<Rightarrow> string" where
  "inviter_name u = (case us_name u of Some n \<Rightarrow> if n \<noteq> [] then n else us_email u | None \<Rightarrow> us_email u)"

definition invite_email :: "access_service \<Rightarrow> invite_row \<Rightarrow> org_row \<Rightarrow> user_row \<Rightarrow> string \<Rightarrow> string \<Rightarrow> string \<Rightarrow> int \<Rightarrow> email_request" where
  "invite_email S iv org inviter email role raw expires = \<lparr>er_to = email, er_template = ''organization-invitation'',
     er_data = \<lparr>ed_expires = expires, ed_org = or_name org, ed_inviter = inviter_name inviter, ed_role = role,
       ed_url = as_with_token S (as_accept_url S) raw\<rparr>, er_key = Some (invite_key (iv_id iv))\<rparr>"

definition invite_create_tx :: "access_service \<Rightarrow> uuid \<Rightarrow> uuid \<Rightarrow> string \<Rightarrow> string \<Rightarrow> invite_row access_action" where
  "invite_create_tx S u org email role = chain (inv_require_admin S u org) (\<lambda>_.
     chain (acc_exec S (\<lambda>se. sql_expire_invites (sq_now se))) (\<lambda>_.
     chain (generate_token S) (\<lambda>raw. do { n \<leftarrow> sql_tick;
     let expires = sq_now (as_env S n) + invite_lifetime in
     chain (map_error (\<lambda>e. if unique_violation e then new_conflict ''pending invitation already exists'' else e)
       (acc_exec S (\<lambda>se. sql_create_invite \<lparr>ip_org = org, ip_by = u, ip_email = email, ip_role = role, ip_hash = token_hash S raw,
          ip_expires = expires\<rparr> (sq_fresh se) (sq_now se)))) (\<lambda>iv.
     chain (acc_query S (\<lambda>_. sql_get_org org)) (\<lambda>o'.
     chain (acc_query S (\<lambda>_. sql_get_user u)) (\<lambda>inviter.
     chain (queue_tx (as_email S) (invite_email S iv o' inviter email role raw expires)) (\<lambda>_. succeed iv)))) })))"

definition invite_create :: "access_service \<Rightarrow> uuid \<Rightarrow> uuid \<Rightarrow> string \<Rightarrow> string \<Rightarrow> invite_row access_action" where
  "invite_create S u org email0 role0 = chain (State_Monad.return (validate_invite S email0 role0)) (\<lambda>(email, role).
     if \<not> email_valid_url (es_url (as_email S)) (as_accept_url S)
     then fail (new_service_unavailable ''invitation email is not configured'' None)
     else in_tx (as_env S) id id (invite_create_tx S u org email role))"

definition invite_list :: "access_service \<Rightarrow> uuid \<Rightarrow> uuid \<Rightarrow> invite_row list access_action" where
  "invite_list S u org = chain (inv_require_admin S u org) (\<lambda>_. acc_query S (\<lambda>se. sql_pending_invites org (sq_now se)))"

definition invite_revoke_tx :: "access_service \<Rightarrow> uuid \<Rightarrow> uuid \<Rightarrow> uuid \<Rightarrow> unit access_action" where
  "invite_revoke_tx S u org i = chain (inv_require_admin S u org) (\<lambda>_.
     handle (acc_exec S (\<lambda>se. sql_revoke_invite i org (sq_now se))) (\<lambda>_. fail (new_not_found ''pending invitation not found'')) (\<lambda>_.
     cancel_tx (as_email S) (invite_key i)))"

definition invite_revoke :: "access_service \<Rightarrow> uuid \<Rightarrow> uuid \<Rightarrow> uuid \<Rightarrow> unit access_action" where
  "invite_revoke S u org i = in_tx (as_env S) id id (invite_revoke_tx S u org i)"

definition invite_accept_tx :: "access_service \<Rightarrow> uuid \<Rightarrow> string \<Rightarrow> unit access_action" where
  "invite_accept_tx S u raw =
     handle (acc_query S (\<lambda>se. sql_invite_by_hash (token_hash S raw) (sq_now se)))
       (\<lambda>_. fail (new_not_found ''invitation is invalid or expired'')) (\<lambda>iv.
     handle (acc_query S (\<lambda>_. sql_get_user u)) (\<lambda>_. fail (new_forbidden ''invited verified email required'')) (\<lambda>x.
     if \<not> us_verified x \<or> us_disabled x \<noteq> None \<or> to_lower (us_email x) \<noteq> to_lower (iv_email iv)
     then fail (new_forbidden ''invited verified email required'')
     else handle (acc_exec S (\<lambda>se. sql_accept_invite (iv_id iv) (sq_now se)))
       (\<lambda>_. fail (new_conflict ''invitation is no longer pending'')) (\<lambda>_.
     chain (acc_exec S (\<lambda>se. sql_add_invited (iv_id iv) u (sq_now se))) (\<lambda>_.
     cancel_tx (as_email S) (invite_key (iv_id iv))))))"

definition invite_accept :: "access_service \<Rightarrow> uuid \<Rightarrow> string \<Rightarrow> unit access_action" where
  "invite_accept S u raw =
     (if length raw \<noteq> 64 then fail (new_bad_request ''invalid invitation token'')
      else in_tx (as_env S) id id (invite_accept_tx S u raw))"

section \<open>Organization tokens\<close>

definition err_invalid_token :: go_err where
  "err_invalid_token = Sentinel ''invalid organization token''"

definition err_invalid_input :: go_err where
  "err_invalid_input = Sentinel ''invalid credential input''"

definition invalid_input :: "go_err \<Rightarrow> go_err" where
  "invalid_input e = Join err_invalid_input e"

definition valid_scopes :: "string list" where
  "valid_scopes = [''organization:read'', ''members:read'', ''members:write'', ''credentials:read'', ''voice-agents:read'', ''voice-agents:write'',
     ''calls:read'', ''calls:write'', ''recordings:read'', ''recordings:write'', ''storage:read'', ''storage:write'', ''numbers:read'', ''numbers:write'',
     ''trunks:read'', ''trunks:write'', ''webhooks:read'', ''webhooks:write'', ''audit:read'', ''audit:write'', ''webrtc:read'', ''webrtc:write'',
     ''networking:read'', ''networking:write'', ''retention:read'', ''retention:write'', ''commercial:read'']"

fun validate_scopes_from :: "string list \<Rightarrow> string list \<Rightarrow> go_err option" where
  "validate_scopes_from seen [] = None"
| "validate_scopes_from seen (s0 # ss) = (let s = trim_space s0 in
     if s \<notin> set valid_scopes then Some (Errf ''invalid credential scope %q'' [s])
     else if s \<in> set seen then Some (Errf ''duplicate credential scope %q'' [s])
     else validate_scopes_from (s # seen) ss)"

definition scopes_list :: "string list option \<Rightarrow> string list" where
  "scopes_list v = (case v of None \<Rightarrow> [] | Some ss \<Rightarrow> ss)"

definition validate_scopes :: "string list option \<Rightarrow> go_err option" where
  "validate_scopes v = validate_scopes_from [] (scopes_list v)"

definition validate_token_name :: "string \<Rightarrow> go_err option" where
  "validate_token_name name0 = (let name = trim_space name0 in
     if name = [] then Some (Errf ''name is required'' [])
     else if 100 < length name then Some (Errf ''name must be at most %d characters'' [''100'']) else None)"

definition validate_desc :: "string option \<Rightarrow> go_err option" where
  "validate_desc v = (case v of Some s \<Rightarrow> if 500 < length s then Some (Errf ''description must be at most %d characters'' [''500'']) else None | None \<Rightarrow> None)"

record token_input =
  ti_org :: uuid
  ti_by :: uuid
  ti_name :: string
  ti_desc :: "string option"
  ti_scopes :: "string list option"
  ti_expires :: "int option"

definition validate_token_create :: "token_input \<Rightarrow> go_err option" where
  "validate_token_create t =
     (if ti_org t = uuid_nil then Some (Errf ''organization id is required'' [])
      else if ti_by t = uuid_nil then Some (Errf ''created by is required'' [])
      else or_else (validate_token_name (ti_name t)) (or_else (validate_desc (ti_desc t)) (validate_scopes (ti_scopes t))))"

definition validate_token_update :: "token_change \<Rightarrow> go_err option" where
  "validate_token_update c =
     (if tc_id c = uuid_nil then Some (Errf ''credential id is required'' [])
      else if tc_org c = uuid_nil then Some (Errf ''organization id is required'' [])
      else or_else (case tc_name c of None \<Rightarrow> None | Some n \<Rightarrow> validate_token_name n) (or_else (validate_desc (tc_desc c))
        (case tc_scopes c of None \<Rightarrow> None | Some ss \<Rightarrow> validate_scopes ss)))"

definition org_token_hash :: "access_service \<Rightarrow> string \<Rightarrow> string" where
  "org_token_hash S v = b64_encode (as_sha S v)"

text \<open>\<open>GenerateToken\<close> answers the token, its prefix and its hash.\<close>

definition generate_org_token :: "access_service \<Rightarrow> (string \<times> string \<times> string) access_action" where
  "generate_org_token S = do { n \<leftarrow> sql_tick; State_Monad.return (case as_random S n of
     Inl e \<Rightarrow> Inl (Wrap ''generate organization token: %w'' [] e)
   | Inr bytes \<Rightarrow> (let encoded = b64_encode bytes; prefix = ''lm_org_'' @ take 8 encoded; token = prefix @ ''_'' @ encoded in
       Inr (token, prefix, org_token_hash S token))) }"

definition parse_token_prefix :: "string \<Rightarrow> go_err + string" where
  "parse_token_prefix token =
     (if length token < 16 \<or> take 7 token \<noteq> ''lm_org_'' then Inl err_invalid_token
      else if token ! 15 \<noteq> CHR ''_'' \<or> length token = 16 then Inl err_invalid_token else Inr (take 15 token))"

definition credential_of :: "token_row \<Rightarrow> go_err + token_row" where
  "credential_of r = (case validate_scopes (tk_scopes r) of
     Some e \<Rightarrow> Inl (Wrap ''invalid credential scopes: %w'' [] e) | None \<Rightarrow> Inr r)"

definition token_create :: "access_service \<Rightarrow> token_input \<Rightarrow> (token_row \<times> string) access_action" where
  "token_create S t = chain (map_error invalid_input (of_check (validate_token_create t))) (\<lambda>_.
     chain (generate_org_token S) (\<lambda>(token, prefix, hash).
     chain (acc_exec S (\<lambda>se. sql_create_token \<lparr>tp_org = ti_org t, tp_by = ti_by t, tp_name = ti_name t, tp_desc = ti_desc t, tp_hash = hash,
        tp_prefix = prefix, tp_scopes = ti_scopes t, tp_expires = ti_expires t\<rparr> (sq_fresh se) (sq_now se))) (\<lambda>r.
     chain (State_Monad.return (credential_of r)) (\<lambda>c. succeed (c, token)))))"

definition token_get :: "access_service \<Rightarrow> uuid \<Rightarrow> uuid \<Rightarrow> token_row access_action" where
  "token_get S org i =
     (if org = uuid_nil \<or> i = uuid_nil then fail (Wrap ''%w: organization and credential ids are required'' [] err_invalid_input)
      else chain (acc_query S (\<lambda>_. sql_token_by_id i org)) (\<lambda>r. State_Monad.return (credential_of r)))"

fun all_credentials :: "(token_row \<times> string option) list \<Rightarrow> go_err + token_row list" where
  "all_credentials [] = Inr []"
| "all_credentials ((r, _) # rs) = rbind (credential_of r) (\<lambda>c. rbind (all_credentials rs) (\<lambda>cs. Inr (c # cs)))"

definition token_list :: "access_service \<Rightarrow> uuid \<Rightarrow> token_row list access_action" where
  "token_list S org =
     (if org = uuid_nil then fail (Wrap ''%w: organization id is required'' [] err_invalid_input)
      else chain (acc_query S (\<lambda>_. sql_list_tokens org)) (\<lambda>rs. State_Monad.return (all_credentials rs)))"

definition token_authenticate :: "access_service \<Rightarrow> string \<Rightarrow> token_row access_action" where
  "token_authenticate S token = map_error (\<lambda>_. err_invalid_token)
     (if token = [] then fail err_invalid_token
      else chain (State_Monad.return (parse_token_prefix token)) (\<lambda>_.
        chain (acc_query S (\<lambda>se. sql_token_by_hash (org_token_hash S token) (sq_now se))) (\<lambda>r. State_Monad.return (credential_of r))))"

definition token_update :: "access_service \<Rightarrow> token_change \<Rightarrow> uuid \<Rightarrow> token_row access_action" where
  "token_update S c actor = chain (map_error invalid_input (of_check (validate_token_update c))) (\<lambda>_.
     if actor = uuid_nil then fail (Wrap ''%w: actor id is required'' [] err_invalid_input)
     else chain (acc_exec S (\<lambda>se. sql_update_token c actor (sq_now se))) (\<lambda>r. State_Monad.return (credential_of r)))"

definition token_disable :: "access_service \<Rightarrow> uuid \<Rightarrow> uuid \<Rightarrow> uuid \<Rightarrow> unit access_action" where
  "token_disable S org i actor =
     (if org = uuid_nil \<or> i = uuid_nil \<or> actor = uuid_nil
      then fail (Wrap ''%w: organization, credential, and actor ids are required'' [] err_invalid_input)
      else acc_exec S (\<lambda>se. sql_disable_token i org actor (sq_now se)))"

definition token_touch :: "access_service \<Rightarrow> uuid \<Rightarrow> ip_addr option \<Rightarrow> unit access_action" where
  "token_touch S i ip = (case ip of
     None \<Rightarrow> fail (Wrap ''%w: credential id and valid ip are required'' [] err_invalid_input)
   | Some a \<Rightarrow>
       if i = uuid_nil then fail (Wrap ''%w: credential id and valid ip are required'' [] err_invalid_input)
       else acc_exec S (\<lambda>se. sql_touch_token i (addr_string a) (sq_now se)))"

end
