(* ===== verification/Net_Policies.thy ===== *)
theory Net_Policies
  imports Acc_Identity
begin

text \<open>
  Network policies of an organization (\<open>platform/networking\<close>, \<open>migrations/031_create_network_policies.sql\<close>): the
  table, the service, the evaluation, and the middleware that finds the address of a client behind trusted proxies
  (\<open>platform/middleware/networking.go\<close>).
\<close>

section \<open>The table\<close>

record policy_row =
  np_id :: uuid
  np_org :: uuid
  np_name :: string
  np_action :: string
  np_cidr :: prefix
  np_status :: string
  np_created :: int
  np_updated :: int

record policy_db = access_db +
  np_rows :: "policy_row list"

definition policy_ok :: "policy_row \<Rightarrow> bool" where
  "policy_ok r \<longleftrightarrow> btrim (np_name r) \<noteq> [] \<and> length (filter (\<lambda>c. \<not> cont_byte (of_char c)) (btrim (np_name r))) \<le> 128
     \<and> np_action r \<in> {''allow'', ''deny''} \<and> np_status r \<in> {''active'', ''disabled''}"

definition policies_schema :: "(string \<times> (policy_db \<Rightarrow> bool)) list" where
  "policies_schema = [(''23514'', \<lambda>d. list_all policy_ok (np_rows d)),
     (''23505'', \<lambda>d. distinct (map np_id (np_rows d))), (''23505'', \<lambda>d. distinct (map (\<lambda>r. (np_org r, np_name r)) (np_rows d))),
     (''23505'', \<lambda>d. distinct (map (\<lambda>r. (np_org r, np_action r, np_cidr r)) (np_rows d))),
     (''23503'', \<lambda>d. list_all (\<lambda>r. np_org r \<in> or_id ` set (ac_orgs d)) (np_rows d))]"

definition sql_create_policy :: "uuid \<Rightarrow> uuid \<Rightarrow> string \<Rightarrow> string \<Rightarrow> prefix \<Rightarrow> int \<Rightarrow> policy_db \<Rightarrow> (go_err + policy_row) \<times> policy_db" where
  "sql_create_policy i org name act cidr now d = with_texts [name, act] d
     (let r = \<lparr>np_id = i, np_org = org, np_name = name, np_action = act, np_cidr = cidr, np_status = ''active'', np_created = now, np_updated = now\<rparr> in
      constrained policies_schema d (Inr r, d\<lparr>np_rows := np_rows d @ [r]\<rparr>))"

definition sql_list_policies :: "uuid \<Rightarrow> policy_db \<Rightarrow> go_err + policy_row list" where
  "sql_list_policies org d = Inr (order_by (\<lambda>a b. np_created b \<le> np_created a) (filter (\<lambda>r. np_org r = org) (np_rows d)))"

record policy_change =
  pc_name :: "string option"
  pc_action :: "string option"
  pc_cidr :: "prefix option"
  pc_status :: "string option"

definition changed_policy :: "policy_change \<Rightarrow> int \<Rightarrow> policy_row \<Rightarrow> policy_row" where
  "changed_policy c now r = r\<lparr>np_name := keep_or (pc_name c) (np_name r), np_action := keep_or (pc_action c) (np_action r),
     np_cidr := keep_or (pc_cidr c) (np_cidr r), np_status := keep_or (pc_status c) (np_status r), np_updated := now\<rparr>"

definition sql_update_policy :: "uuid \<Rightarrow> uuid \<Rightarrow> policy_change \<Rightarrow> int \<Rightarrow> policy_db \<Rightarrow> (go_err + policy_row) \<times> policy_db" where
  "sql_update_policy org i c now d = with_texts (texts [pc_name c, pc_action c, pc_status c]) d
     (let p = (\<lambda>r. np_id r = i \<and> np_org r = org) in case one_row p (np_rows d) of
        Inl e \<Rightarrow> (Inl e, d)
      | Inr r \<Rightarrow> constrained policies_schema d (Inr (changed_policy c now r), d\<lparr>np_rows := update_rows p (changed_policy c now) (np_rows d)\<rparr>))"

definition sql_delete_policy :: "uuid \<Rightarrow> uuid \<Rightarrow> policy_db \<Rightarrow> (go_err + unit) \<times> policy_db" where
  "sql_delete_policy org i d = (Inr (), d\<lparr>np_rows := filter (\<lambda>r. \<not> (np_id r = i \<and> np_org r = org)) (np_rows d)\<rparr>)"

section \<open>Evaluation\<close>

text \<open>\<open>Prefix.Contains\<close>: the families have to agree, and an address with a zone is in no prefix.\<close>

definition prefix_contains :: "prefix \<Rightarrow> ip_addr \<Rightarrow> bool" where
  "prefix_contains p a = (case (p, a) of
     ((V4 x, n), V4 y) \<Rightarrow> v4_prefix_contains x n y
   | ((V6 x _, n), V6 y z) \<Rightarrow> z = [] \<and> drop_bit (128 - n) (y XOR x) = 0
   | _ \<Rightarrow> False)"

fun allows_from :: "bool \<Rightarrow> bool \<Rightarrow> policy_row list \<Rightarrow> ip_addr \<Rightarrow> bool" where
  "allows_from has_allow matched [] a \<longleftrightarrow> matched \<or> \<not> has_allow"
| "allows_from has_allow matched (p # ps) a \<longleftrightarrow>
     (if np_status p \<noteq> ''active'' then allows_from has_allow matched ps a
      else (let has_allow' = has_allow \<or> np_action p = ''allow'' in
        if \<not> prefix_contains (np_cidr p) a then allows_from has_allow' matched ps a
        else if np_action p = ''deny'' then False
        else allows_from has_allow' (matched \<or> np_action p = ''allow'') ps a))"

definition policies_allow :: "policy_row list \<Rightarrow> ip_addr \<Rightarrow> bool" where
  "policies_allow ps a = allows_from False False ps a"

section \<open>The service\<close>

definition checked_name :: "string \<Rightarrow> go_err + string" where
  "checked_name v = (let n = trim_space v in
     if n = [] \<or> 128 < length n then Inl (new_bad_request ''name must be between 1 and 128 characters'') else Inr n)"

definition checked_word :: "string list \<Rightarrow> string \<Rightarrow> string \<Rightarrow> go_err + string" where
  "checked_word words message v = (let s = trim_space v in if s \<notin> set words then Inl (new_bad_request message) else Inr s)"

definition checked_cidr :: "string \<Rightarrow> go_err + prefix" where
  "checked_cidr v = (case parse_prefix (trim_space v) of
     None \<Rightarrow> Inl (new_bad_request ''source_cidr must be a valid CIDR'') | Some p \<Rightarrow> Inr (masked p))"

definition validate_policy_create :: "string \<Rightarrow> string \<Rightarrow> string \<Rightarrow> go_err + string \<times> string \<times> prefix" where
  "validate_policy_create name0 act0 cidr0 =
     rbind (checked_name name0) (\<lambda>name. rbind (checked_word [''allow'', ''deny''] ''action must be allow or deny'' act0) (\<lambda>act.
     rbind (checked_cidr cidr0) (\<lambda>cidr. Inr (name, act, cidr))))"

definition optional_field :: "(string \<Rightarrow> go_err + 'a) \<Rightarrow> string option \<Rightarrow> go_err + 'a option" where
  "optional_field f v = (case v of None \<Rightarrow> Inr None | Some s \<Rightarrow> rbind (f s) (\<lambda>x. Inr (Some x)))"

definition validate_policy_update :: "string option \<Rightarrow> string option \<Rightarrow> string option \<Rightarrow> string option \<Rightarrow> go_err + policy_change" where
  "validate_policy_update name0 act0 cidr0 status0 =
     (if name0 = None \<and> act0 = None \<and> cidr0 = None \<and> status0 = None then Inl (new_bad_request ''at least one field is required'')
      else rbind (optional_field checked_name name0) (\<lambda>name.
        rbind (optional_field (checked_word [''allow'', ''deny''] ''action must be allow or deny'') act0) (\<lambda>act.
        rbind (optional_field (checked_word [''active'', ''disabled''] ''status must be active or disabled'') status0) (\<lambda>status.
        rbind (optional_field checked_cidr cidr0) (\<lambda>cidr.
        Inr \<lparr>pc_name = name, pc_action = act, pc_cidr = cidr, pc_status = status\<rparr>)))))"

definition wrap_internal :: "string \<Rightarrow> ('w, go_err + 'a) state \<Rightarrow> ('w, go_err + 'a) state" where
  "wrap_internal message m = map_error (\<lambda>e. new_internal message (Some e)) m"

type_synonym 'a policy_action = "(policy_db, 'a) sql_action"

definition policy_create :: "access_service \<Rightarrow> uuid \<Rightarrow> string \<Rightarrow> string \<Rightarrow> string \<Rightarrow> policy_row policy_action" where
  "policy_create S org name0 act0 cidr0 =
     (if org = uuid_nil then fail (new_bad_request ''organization_id is required'')
      else chain (State_Monad.return (validate_policy_create name0 act0 cidr0)) (\<lambda>(name, act, cidr). do { n \<leftarrow> sql_tick;
        wrap_internal ''create network policy''
          (sql_exec (as_env S) (\<lambda>se. sql_create_policy (sq_fresh (as_env S n)) org name act cidr (sq_now se))) }))"

definition policy_list :: "access_service \<Rightarrow> uuid \<Rightarrow> policy_row list policy_action" where
  "policy_list S org =
     (if org = uuid_nil then fail (new_bad_request ''organization_id is required'')
      else wrap_internal ''list network policies'' (sql_query (as_env S) (\<lambda>_. sql_list_policies org)))"

text \<open>An invalid address (the zero \<open>netip.Addr\<close>) is \<open>None\<close>.\<close>

definition policy_allows :: "access_service \<Rightarrow> uuid \<Rightarrow> ip_addr option \<Rightarrow> bool policy_action" where
  "policy_allows S org a =
     (if org = uuid_nil then fail (new_bad_request ''organization_id is required'')
      else (case a of None \<Rightarrow> fail (new_bad_request ''source address is required'')
       | Some ip \<Rightarrow> chain (wrap_internal ''list network policies'' (sql_query (as_env S) (\<lambda>_. sql_list_policies org)))
           (\<lambda>ps. succeed (policies_allow ps (unmap ip)))))"

definition policy_update ::
  "access_service \<Rightarrow> uuid \<Rightarrow> uuid \<Rightarrow> string option \<Rightarrow> string option \<Rightarrow> string option \<Rightarrow> string option \<Rightarrow> policy_row policy_action" where
  "policy_update S org i name act cidr status =
     (if org = uuid_nil \<or> i = uuid_nil then fail (new_bad_request ''organization and policy ids are required'')
      else chain (State_Monad.return (validate_policy_update name act cidr status)) (\<lambda>c.
        wrap_internal ''update network policy'' (sql_exec (as_env S) (\<lambda>se. sql_update_policy org i c (sq_now se)))))"

definition policy_delete :: "access_service \<Rightarrow> uuid \<Rightarrow> uuid \<Rightarrow> unit policy_action" where
  "policy_delete S org i =
     (if org = uuid_nil \<or> i = uuid_nil then fail (new_bad_request ''organization and policy ids are required'')
      else wrap_internal ''delete network policy'' (sql_exec (as_env S) (\<lambda>_. sql_delete_policy org i)))"

section \<open>The address of a client\<close>

text \<open>\<open>net.SplitHostPort\<close>: the host, or \<open>None\<close> for its error.\<close>

definition split_host_port :: "string \<Rightarrow> string option" where
  "split_host_port s =
     (if CHR '':'' \<notin> set s then None
      else let port = rev (takeWhile (\<lambda>c. c \<noteq> CHR '':'') (rev s)); i = length s - Suc (length port) in
        if take 1 s = ''['' then
          (let inner = takeWhile (\<lambda>c. c \<noteq> CHR '']'') s; stop = length inner in
           if stop = length s \<or> Suc stop \<noteq> i then None
           else if CHR ''['' \<in> set (drop 1 s) \<or> CHR '']'' \<in> set (drop (Suc stop) s) then None
           else Some (drop 1 inner))
        else
          (let host = take i s in
           if CHR '':'' \<in> set host \<or> CHR ''['' \<in> set s \<or> CHR '']'' \<in> set s then None else Some host))"

definition is_trusted :: "prefix list \<Rightarrow> ip_addr \<Rightarrow> bool" where
  "is_trusted proxies a \<longleftrightarrow> list_ex (\<lambda>p. prefix_contains p a) proxies"

text \<open>The forwarded addresses from the right: the first that is no trusted proxy; \<open>None\<close> is a parse error.\<close>

fun forwarded_client :: "prefix list \<Rightarrow> ip_addr \<Rightarrow> string list \<Rightarrow> ip_addr option" where
  "forwarded_client proxies peer [] = Some peer"
| "forwarded_client proxies peer (v # vs) = (case parse_addr (trim_space v) of
     None \<Rightarrow> None
   | Some c \<Rightarrow> if \<not> is_trusted proxies (unmap c) then Some (unmap c) else forwarded_client proxies peer vs)"

definition client_address :: "prefix list \<Rightarrow> string \<Rightarrow> string \<Rightarrow> ip_addr option" where
  "client_address proxies remote forwarded =
     (let host = (case split_host_port (trim_space remote) of Some h \<Rightarrow> h | None \<Rightarrow> trim_space remote) in
      case parse_addr host of
        None \<Rightarrow> None
      | Some peer0 \<Rightarrow> (let peer = unmap peer0 in
          if \<not> is_trusted proxies peer then Some peer
          else forwarded_client proxies peer (rev (split_on CHR '','' forwarded))))"

end
