(* ===== verification/Acc_Requests.thy ===== *)
theory Acc_Requests
  imports Acc_Tenancy Net_Policies
begin

text \<open>
  How a request is admitted: principals and their resolution (\<open>security/authn\<close>), permissions (\<open>security/authz\<close>),
  the middleware for authentication, organizations, permissions and rate limits (\<open>platform/middleware\<close>), and the chains in
  which the router composes them (\<open>runtime/server/routes.go\<close>). \<open>uuid.Parse\<close>, the shared limiter and the trusted
  proxies are fields of \<open>request_env\<close>; a chain answers what the handler finds in its context.
\<close>

section \<open>Principals\<close>

datatype subject_kind = Subject_User | Subject_Token
datatype credential_kind = Credential_Session | Credential_Token

record principal =
  pr_subject :: uuid
  pr_kind :: subject_kind
  pr_credential :: uuid
  pr_type :: credential_kind
  pr_org :: uuid
  pr_scopes :: "string list"
  pr_assurance :: assurance

definition valid_principal :: "principal \<Rightarrow> bool" where
  "valid_principal p \<longleftrightarrow> pr_subject p \<noteq> uuid_nil"

definition principal_user :: "principal \<Rightarrow> uuid option" where
  "principal_user p = (if pr_kind p \<noteq> Subject_User \<or> pr_subject p = uuid_nil then None else Some (pr_subject p))"

definition err_invalid_credential :: go_err where
  "err_invalid_credential = Sentinel ''invalid credential''"

definition resolve_principal :: "access_service \<Rightarrow> credential_kind \<Rightarrow> string \<Rightarrow> principal access_action" where
  "resolve_principal S kind v =
     (if v = [] then fail (Errf ''invalid credential'' [])
      else case kind of
        Credential_Session \<Rightarrow> handle (resolve_session S v) (\<lambda>_. fail err_invalid_credential) (\<lambda>s.
          succeed \<lparr>pr_subject = xs_user s, pr_kind = Subject_User, pr_credential = xs_id s, pr_type = Credential_Session,
            pr_org = uuid_nil, pr_scopes = [], pr_assurance = xs_assurance s\<rparr>)
      | Credential_Token \<Rightarrow> handle (token_authenticate S v) (\<lambda>_. fail err_invalid_credential) (\<lambda>t.
          succeed \<lparr>pr_subject = tk_id t, pr_kind = Subject_Token, pr_credential = tk_id t, pr_type = Credential_Token,
            pr_org = tk_org t, pr_scopes = scopes_list (tk_scopes t), pr_assurance = Unknown\<rparr>))"

section \<open>Requests\<close>

record http_in =
  hr_method :: string
  hr_cookie :: "string option"
  hr_auth :: string
  hr_org :: string
  hr_path_org :: string
  hr_remote :: string
  hr_forwarded :: string

record limit_state =
  lm_limit :: int
  lm_remaining :: int
  lm_reset :: int
  lm_reached :: bool

record request_env =
  rv_uuid :: "string \<Rightarrow> uuid option"
  rv_limiter :: "nat \<Rightarrow> string \<Rightarrow> int \<Rightarrow> go_err + limit_state"
  rv_proxies :: "prefix list"
  rv_clock :: "nat \<Rightarrow> int"

text \<open>An error, or the answer 429 with its budget and \<open>Retry-After\<close> in seconds.\<close>

datatype refusal = Refuse go_err | Too_Many limit_state int string

type_synonym 'a admission = "(policy_db sql_world, refusal + 'a) state"

definition denied :: "go_err \<Rightarrow> 'a admission" where
  "denied e = State_Monad.return (Inl (Refuse e))"

text \<open>An action on the tables of identity and tenancy inside the larger world.\<close>

definition access_part :: "policy_db \<Rightarrow> access_db" where
  "access_part d = access_db.truncate d"

definition with_access :: "access_db \<Rightarrow> policy_db \<Rightarrow> policy_db" where
  "with_access a d = access_db.extend a (access_db.more d)"

definition lifted :: "(access_db sql_world, 'a) state \<Rightarrow> (policy_db sql_world, 'a) state" where
  "lifted m = State (\<lambda>w. case run_state m \<lparr>sw_tick = sw_tick w, sw_db = access_part (sw_db w)\<rparr> of
     (r, w') \<Rightarrow> (r, w\<lparr>sw_tick := sw_tick w', sw_db := with_access (sw_db w') (sw_db w)\<rparr>))"

section \<open>Authentication\<close>

definition from_cookie :: "access_service \<Rightarrow> http_in \<Rightarrow> (access_db sql_world, principal option) state" where
  "from_cookie S r = (case hr_cookie r of
     None \<Rightarrow> State_Monad.return None
   | Some v \<Rightarrow> if v = [] then State_Monad.return None
       else handle (resolve_principal S Credential_Session v) (\<lambda>_. State_Monad.return None) (\<lambda>p. State_Monad.return (Some p)))"

definition is_bearer :: "string \<Rightarrow> bool" where
  "is_bearer scheme \<longleftrightarrow> to_lower scheme = ''bearer''"

text \<open>The principal, and whether a bearer token was attempted.\<close>

definition from_bearer :: "access_service \<Rightarrow> http_in \<Rightarrow> (access_db sql_world, principal option \<times> bool) state" where
  "from_bearer S r = (let header = trim_space (hr_auth r) in
     if header = [] then State_Monad.return (None, False)
     else case cut_at '' '' header of
       None \<Rightarrow> State_Monad.return (None, False)
     | Some (scheme, rest) \<Rightarrow>
         if \<not> is_bearer scheme then State_Monad.return (None, False)
         else let token = trim_space rest in
           if token = [] then State_Monad.return (None, True)
           else handle (resolve_principal S Credential_Token token) (\<lambda>_. State_Monad.return (None, True)) (\<lambda>p. State_Monad.return (Some p, True)))"

definition unauthenticated :: go_err where
  "unauthenticated = new_unauthorized ''authentication required''"

definition require_authenticated :: "access_service \<Rightarrow> http_in \<Rightarrow> principal access_action" where
  "require_authenticated S r = do { (p, attempted) \<leftarrow> from_bearer S r;
     if attempted \<and> p = None then fail unauthenticated
     else (case p of Some x \<Rightarrow> succeed x
       | None \<Rightarrow> do { q \<leftarrow> from_cookie S r; case q of Some x \<Rightarrow> succeed x | None \<Rightarrow> fail unauthenticated }) }"

definition require_org_token :: "access_service \<Rightarrow> http_in \<Rightarrow> principal access_action" where
  "require_org_token S r = do { (p, _) \<leftarrow> from_bearer S r;
     case p of Some x \<Rightarrow> succeed x | None \<Rightarrow> fail (new_unauthorized ''organization token required'') }"

definition require_session :: "access_service \<Rightarrow> http_in \<Rightarrow> principal access_action" where
  "require_session S r = do { q \<leftarrow> from_cookie S r; case q of Some x \<Rightarrow> succeed x | None \<Rightarrow> fail unauthenticated }"

section \<open>Roles, permissions and scopes\<close>

definition valid_permissions :: "string list" where
  "valid_permissions = [''organization:read'', ''organization:update'', ''organization:delete'', ''members:read'', ''members:add'',
     ''members:update'', ''members:remove'', ''credentials:read'', ''credentials:create'', ''credentials:revoke'']"

definition valid_role :: "string \<Rightarrow> bool" where
  "valid_role role \<longleftrightarrow> role = ''owner'' \<or> role = ''admin'' \<or> role = ''member''"

definition role_allows :: "string \<Rightarrow> string \<Rightarrow> bool" where
  "role_allows role permission \<longleftrightarrow>
     (if role = ''owner'' then permission \<in> set valid_permissions
      else if role = ''admin'' then permission \<in> {''organization:read'', ''organization:update'', ''members:read'', ''members:add'',
         ''members:update'', ''members:remove'', ''credentials:read'', ''credentials:create'', ''credentials:revoke''}
      else if role = ''member'' then permission = ''organization:read'' \<or> permission = ''members:read''
      else False)"

text \<open>The view of a caller in \<open>authz\<close>: \<open>None\<close> are nil scopes.\<close>

record authz_principal =
  az_identity :: principal
  az_role :: string
  az_scopes :: "string list option"

definition authz_valid :: "authz_principal \<Rightarrow> bool" where
  "authz_valid p \<longleftrightarrow> pr_subject (az_identity p) \<noteq> uuid_nil"

definition access_allows :: "authz_principal \<Rightarrow> string \<Rightarrow> bool" where
  "access_allows p permission \<longleftrightarrow> authz_valid p \<and> role_allows (az_role p) permission"

definition access_allows_scoped :: "authz_principal \<Rightarrow> string \<Rightarrow> string \<Rightarrow> bool" where
  "access_allows_scoped p permission scope \<longleftrightarrow> authz_valid p \<and> role_allows (az_role p) permission
     \<and> (case az_scopes p of None \<Rightarrow> True | Some ss \<Rightarrow> scope \<in> set ss)"

text \<open>\<open>RequirePermission\<close> answers the status of its refusal, or passes on.\<close>

definition require_permission :: "string \<Rightarrow> principal option \<Rightarrow> int + unit" where
  "require_permission permission p = (case p of
     None \<Rightarrow> Inl 401
   | Some x \<Rightarrow> if \<not> valid_principal x then Inl 401
       else if \<not> access_allows \<lparr>az_identity = x, az_role = [], az_scopes = None\<rparr> permission then Inl 403 else Inr ())"

definition has_scope :: "string list \<Rightarrow> string \<Rightarrow> bool" where
  "has_scope scopes required \<longleftrightarrow> list_ex (\<lambda>s. trim_space s = required) scopes"

section \<open>The organization of a request\<close>

record org_context =
  oc_id :: uuid
  oc_role :: string

definition organization_id :: "request_env \<Rightarrow> http_in \<Rightarrow> principal \<Rightarrow> uuid option" where
  "organization_id V r p =
     (if pr_type p = Credential_Token then (if pr_org p = uuid_nil then None else Some (pr_org p))
      else if hr_org r = [] then None
      else case rv_uuid V (hr_org r) of
        None \<Rightarrow> None
      | Some i \<Rightarrow> if hr_path_org r \<noteq> [] \<and> rv_uuid V (hr_path_org r) \<noteq> Some i then None else Some i)"

definition resolve_organization :: "access_service \<Rightarrow> request_env \<Rightarrow> http_in \<Rightarrow> principal \<Rightarrow> org_context access_action" where
  "resolve_organization S V r p = (case organization_id V r p of
     None \<Rightarrow> fail (new_bad_request ''organization context required'')
   | Some i \<Rightarrow>
       if pr_type p = Credential_Token then succeed \<lparr>oc_id = i, oc_role = []\<rparr>
       else (case principal_user p of
         None \<Rightarrow> fail unauthenticated
       | Some u \<Rightarrow> handle (get_member S i u)
           (\<lambda>e. if errors_is e err_no_rows then fail (new_not_found ''organization not found'')
              else fail (new_internal ''resolve organization membership'' (Some e)))
           (\<lambda>m. if \<not> valid_role (mb_role m) then fail (new_forbidden ''organization membership is invalid'')
              else succeed \<lparr>oc_id = i, oc_role = mb_role m\<rparr>)))"

definition require_organization :: "access_service \<Rightarrow> request_env \<Rightarrow> http_in \<Rightarrow> principal \<Rightarrow> org_context access_action" where
  "require_organization S V r p =
     (if \<not> valid_principal p then fail unauthenticated
      else chain (resolve_organization S V r p) (\<lambda>oc.
        if oc_id oc = uuid_nil then fail (new_bad_request ''organization context required'') else succeed oc))"

definition access_word :: "string \<Rightarrow> string" where
  "access_word method = (if method = ''GET'' \<or> method = ''HEAD'' then ''read'' else ''write'')"

definition check_access :: "string \<Rightarrow> http_in \<Rightarrow> principal \<Rightarrow> org_context \<Rightarrow> go_err option" where
  "check_access resource r p oc =
     (let access = access_word (hr_method r); required = resource @ '':'' @ access in
      if pr_type p = Credential_Token then
        (if \<not> has_scope (pr_scopes p) required then Some (new_forbidden (''credential scope required: '' @ required)) else None)
      else if access = ''write'' \<and> oc_role oc = ''member''
          \<or> resource = ''organization'' \<and> hr_method r = ''DELETE'' \<and> oc_role oc \<noteq> ''owner''
      then Some (new_forbidden ''organization permission required'') else None)"

section \<open>Networks and rates\<close>

definition enforce_network :: "access_service \<Rightarrow> request_env \<Rightarrow> http_in \<Rightarrow> org_context \<Rightarrow> unit admission" where
  "enforce_network S V r oc = (case client_address (rv_proxies V) (hr_remote r) (hr_forwarded r) of
     None \<Rightarrow> denied (new_forbidden ''request source address is unavailable'')
   | Some a \<Rightarrow> handle (policy_allows S (oc_id oc) (Some a)) denied (\<lambda>ok.
       if \<not> ok then denied (new_forbidden ''request source is blocked by organization network policy'') else succeed ()))"

definition retry_after :: "request_env \<Rightarrow> nat \<Rightarrow> limit_state \<Rightarrow> int" where
  "retry_after V n l = max 1 (lm_reset l - rv_clock V n)"

definition ask_limit :: "request_env \<Rightarrow> string \<Rightarrow> int \<Rightarrow> string \<Rightarrow> limit_state admission" where
  "ask_limit V key limit message = do { n \<leftarrow> sql_tick;
     case rv_limiter V n key limit of
       Inl e \<Rightarrow> denied (new_service_unavailable ''rate limit service unavailable'' (Some e))
     | Inr l \<Rightarrow> if lm_reached l then do { m \<leftarrow> sql_tick; State_Monad.return (Inl (Too_Many l (retry_after V m l) message)) } else succeed l }"

definition org_limit_key :: "org_context \<Rightarrow> string \<Rightarrow> string" where
  "org_limit_key oc cls = ''http:organization:'' @ uuid_string (oc_id oc) @ '':'' @ cls"

definition credential_limit_key :: "org_context \<Rightarrow> principal \<Rightarrow> string \<Rightarrow> string" where
  "credential_limit_key oc p cls = ''http:organization:'' @ uuid_string (oc_id oc) @ '':credential:'' @ uuid_string (pr_credential p) @ '':'' @ cls"

text \<open>The budget whose headers the answer carries. The products wrap around at 64 bits.\<close>

definition tighter :: "limit_state \<Rightarrow> limit_state \<Rightarrow> limit_state" where
  "tighter credential org = (if wrap64 (lm_remaining credential * lm_limit org) < wrap64 (lm_remaining org * lm_limit credential)
     then credential else org)"

definition limit_rate :: "request_env \<Rightarrow> http_in \<Rightarrow> principal \<Rightarrow> org_context \<Rightarrow> limit_state admission" where
  "limit_rate V r p oc =
     (let cls = access_word (hr_method r); (org_rate, credential_rate) = (if cls = ''read'' then (1200, 600) else (600, 300)) in
      if pr_credential p = uuid_nil then denied unauthenticated
      else chain (ask_limit V (org_limit_key oc cls) org_rate ''organization rate limit exceeded'') (\<lambda>org.
        chain (ask_limit V (credential_limit_key oc p cls) credential_rate ''credential rate limit exceeded'') (\<lambda>credential.
        succeed (tighter credential org))))"

definition limit_auth :: "request_env \<Rightarrow> string \<Rightarrow> http_in \<Rightarrow> unit admission" where
  "limit_auth V path r =
     (if \<not> starts_with ''/v1/auth/'' path then succeed ()
      else let host = (case split_host_port (hr_remote r) of Some h \<Rightarrow> h | None \<Rightarrow> hr_remote r) in
        chain (ask_limit V (''http:auth:peer:'' @ host) 30 ''authentication rate limit exceeded'') (\<lambda>_. succeed ()))"

section \<open>The chains of the router\<close>

record granted =
  gr_principal :: principal
  gr_org :: org_context
  gr_budget :: limit_state

definition admit :: "access_service \<Rightarrow> request_env \<Rightarrow> string \<Rightarrow> http_in \<Rightarrow> principal \<Rightarrow> granted admission" where
  "admit S V resource r p = handle (lifted (require_organization S V r p)) denied (\<lambda>oc.
     chain (enforce_network S V r oc) (\<lambda>_. chain (limit_rate V r p oc) (\<lambda>budget.
     case check_access resource r p oc of Some e \<Rightarrow> denied e
     | None \<Rightarrow> succeed \<lparr>gr_principal = p, gr_org = oc, gr_budget = budget\<rparr>)))"

definition organization_access :: "access_service \<Rightarrow> request_env \<Rightarrow> string \<Rightarrow> http_in \<Rightarrow> granted admission" where
  "organization_access S V resource r = handle (lifted (require_authenticated S r)) denied (admit S V resource r)"

definition session_organization_access :: "access_service \<Rightarrow> request_env \<Rightarrow> string \<Rightarrow> http_in \<Rightarrow> granted admission" where
  "session_organization_access S V resource r = handle (lifted (require_session S r)) denied (admit S V resource r)"

section \<open>Browsers\<close>

text \<open>\<open>Browser\<close>: the refusal of a write, with its status; the media type is the one \<open>mime.ParseMediaType\<close> finds.\<close>

definition browser_check :: "string \<Rightarrow> string \<Rightarrow> string \<Rightarrow> string \<Rightarrow> string \<Rightarrow> string option \<Rightarrow> int option" where
  "browser_check trusted method origin fetch_site path media =
     (if method \<in> {''GET'', ''HEAD'', ''OPTIONS''} then None
      else if origin \<noteq> [] \<and> origin \<noteq> trusted \<or> origin = [] \<and> fetch_site = ''cross-site'' then Some 403
      else if method = ''POST'' \<and> starts_with ''/v1/auth/'' path \<and> media \<noteq> Some ''application/json'' then Some 415
      else None)"

end
