(* ===== verification/Acc_Spec.thy ===== *)
theory Acc_Spec
  imports Acc_Requests
begin

text \<open>
  The abstract specification of identity and tenancy: \<open>acc_step\<close> lists the committed effects on the tables, and every
  history of the operations only performs such steps. A step that several statements make is one transaction.
\<close>

section \<open>Actions that leave the database\<close>

context sql_guarantee
begin

lemma verify_token: "state_io_rel R (verify_id_token K a)"
  unfolding verify_id_token_def by (intro world.g_rules tick)

lemma exchange: "state_io_rel R (kinde_exchange K code verifier nonce)"
  unfolding kinde_exchange_def by (intro world.g_rules tick verify_token)

lemma refresh: "state_io_rel R (kinde_refresh K previous subject)"
  unfolding kinde_refresh_def by (intro world.g_rules tick verify_token)

end

lemma handle_fail_Inr:
  "run_state (handle m (\<lambda>e. fail (f e)) k) w = (Inr y, w') \<longleftrightarrow> (\<exists>x w1. run_state m w = (Inr x, w1) \<and> run_state (k x) w1 = (Inr y, w'))"
  by (auto simp: run_handle split: prod.splits sum.splits)

section \<open>Committed effects\<close>

inductive acc_step :: "access_db \<Rightarrow> access_db \<Rightarrow> bool" where
  st_upsert: "acc_step d (snd (sql_upsert_user issuer subject name email i t d))"
| st_disable_user: "acc_step d (snd (sql_disable_user u t d))"
| st_event: "acc_step d (snd (sql_apply_event c t d))"
| st_session: "acc_step d (snd (sql_create_session p i t d))"
| st_revoke: "acc_step d (snd (sql_revoke_session i u t d))"
| st_revoke_all: "acc_step d (snd (sql_revoke_sessions u t d))"
| st_tokens: "acc_step d (snd (sql_session_tokens i text t d))"
| st_attempt: "acc_step d (snd (sql_create_attempt a d))"
| st_consume: "acc_step d (snd (sql_consume_attempt h t d))"
| st_expire_attempts: "acc_step d (snd (sql_expire_attempts t d))"
| st_found: "acc_step d (snd (sql_found_org name u i t d))"
| st_update_org: "acc_step d (snd (sql_update_org i name' t d))"
| st_delete_org: "acc_step d (snd (sql_delete_org i t d))"
| st_add: "role \<noteq> ''owner'' \<Longrightarrow> acc_step d (snd (sql_add_member org u role actor t d))"
| st_role: "role \<noteq> ''owner'' \<Longrightarrow> acc_step d (snd (sql_member_role org u role actor t d))"
| st_disable: "acc_step d (snd (sql_disable_member org u actor t d))"
| st_invite: "sql_create_invite p i t (snd (sql_expire_invites t' d)) = (Inr iv, d1) \<Longrightarrow>
    sql_create_email j to template payload (Some (invite_key (iv_id iv))) expires t'' d1 = (Inr (), d2) \<Longrightarrow> acc_step d d2"
| st_uninvite: "sql_get_member org u d = Inr m \<Longrightarrow> mb_role m \<in> {''admin'', ''owner''} \<Longrightarrow>
    sql_revoke_invite i org t d = (Inr iv, d1) \<Longrightarrow> sql_cancel_emails (invite_key i) d1 = (Inr (), d2) \<Longrightarrow> acc_step d d2"
| st_accept: "sql_invite_by_hash h t d = Inr iv \<Longrightarrow> sql_get_user u d = Inr x \<Longrightarrow> us_verified x \<Longrightarrow> to_lower (us_email x) = to_lower (iv_email iv) \<Longrightarrow>
    sql_accept_invite (iv_id iv) t' d = (Inr iv', d1) \<Longrightarrow> sql_add_invited (iv_id iv) u t'' d1 = (Inr m, d2) \<Longrightarrow>
    sql_cancel_emails (invite_key (iv_id iv)) d2 = (Inr (), d3) \<Longrightarrow> acc_step d d3"
| st_token: "acc_step d (snd (sql_create_token q i t d))"
| st_change_token: "acc_step d (snd (sql_update_token tc actor t d))"
| st_disable_token: "acc_step d (snd (sql_disable_token i org actor t d))"
| st_touch: "acc_step d (snd (sql_touch_token i ip t d))"
| st_email_expire: "acc_step d (snd (sql_expire_emails t d))"
| st_email_exhaust: "acc_step d (snd (sql_exhaust_emails t d))"
| st_email_claim: "acc_step d (snd (sql_claim_email lease t d))"
| st_email_fail: "acc_step d (snd (sql_fail_email i lease terminal code delay t d))"
| st_email_done: "acc_step d (snd (sql_complete_email i lease message t d))"
| st_handed: "acc_step d (d\<lparr>em_handed := em_handed d @ [(i, mail)]\<rparr>)"

interpretation ag: sql_guarantee "acc_step\<^sup>*\<^sup>*"
  by unfold_locales auto

named_theorems aguar \<open>guarantees of identity and tenancy\<close>

lemma a_exec: "(\<And>se d. acc_step d (snd (q se d))) \<Longrightarrow> state_io_rel ag.R (acc_exec S q)"
  unfolding acc_exec_def by (rule ag.exec) blast

lemma a_email_exec: "(\<And>se d. acc_step d (snd (q se d))) \<Longrightarrow> state_io_rel ag.R (sql_exec (es_env E) q)"
  by (rule ag.exec) blast

lemma a_query [aguar]: "state_io_rel ag.R (acc_query S q)"
  unfolding acc_query_def by (rule ag.query)

lemmas a_intro = ag.world.g_rules ag.tick ag.exchange ag.refresh

lemma a_statements [aguar]:
  "state_io_rel ag.R (acc_exec S (\<lambda>se. sql_upsert_user issuer subject name email (sq_fresh se) (sq_now se)))"
  "state_io_rel ag.R (acc_exec S (\<lambda>se. sql_disable_user u (sq_now se)))"
  "state_io_rel ag.R (acc_exec S (\<lambda>se. sql_apply_event c (sq_now se)))"
  "state_io_rel ag.R (acc_exec S (\<lambda>se. sql_create_session p (sq_fresh se) (sq_now se)))"
  "state_io_rel ag.R (acc_exec S (\<lambda>se. sql_revoke_session i u (sq_now se)))"
  "state_io_rel ag.R (acc_exec S (\<lambda>se. sql_revoke_sessions u (sq_now se)))"
  "state_io_rel ag.R (acc_exec S (\<lambda>se. sql_create_attempt a))"
  "state_io_rel ag.R (acc_exec S (\<lambda>se. sql_consume_attempt h (sq_now se)))"
  "state_io_rel ag.R (acc_exec S (\<lambda>se. sql_expire_attempts (sq_now se)))"
  "state_io_rel ag.R (acc_exec S (\<lambda>se. sql_found_org text u (sq_fresh se) (sq_now se)))"
  "state_io_rel ag.R (acc_exec S (\<lambda>se. sql_update_org i name (sq_now se)))"
  "state_io_rel ag.R (acc_exec S (\<lambda>se. sql_delete_org i (sq_now se)))"
  "state_io_rel ag.R (acc_exec S (\<lambda>se. sql_disable_member org u actor (sq_now se)))"
  "state_io_rel ag.R (acc_exec S (\<lambda>se. sql_create_token q (sq_fresh se) (sq_now se)))"
  "state_io_rel ag.R (acc_exec S (\<lambda>se. sql_update_token tc actor (sq_now se)))"
  "state_io_rel ag.R (acc_exec S (\<lambda>se. sql_disable_token i org actor (sq_now se)))"
  "state_io_rel ag.R (acc_exec S (\<lambda>se. sql_touch_token i ip (sq_now se)))"
  by (rule a_exec, rule acc_step.intros)+

lemma a_generate [aguar]:
  "state_io_rel ag.R (generate_token S)" "state_io_rel ag.R (generate_org_token S)" "state_io_rel ag.R (session_encrypt S u tokens)"
  unfolding generate_token_def generate_org_token_def session_encrypt_def by (intro a_intro)+

section \<open>Identity\<close>

lemma refresh_tx_step:
  assumes "run_state (refresh_tx S stored) w = (Inr (), w')"
  shows "acc_step\<^sup>*\<^sup>* (sw_db w) (sw_db w')"
proof -
  have "state_io_rel ag.R (refresh_tx S stored)"
    unfolding refresh_tx_def by (intro a_intro aguar a_exec st_tokens)
  from ag.run [OF this, of w] assms show ?thesis by simp
qed

lemma a_refresh [aguar]: "state_io_rel ag.R (session_refresh S stored)"
  unfolding session_refresh_def
  by (intro a_intro ag.tx) (use refresh_tx_step in \<open>metis (full_types) old.unit.exhaust\<close>)

lemma a_sessions [aguar]:
  "state_io_rel ag.R (session_create S u subject sid tokens)" "state_io_rel ag.R (session_get S v)"
  unfolding session_create_def session_get_def by (intro a_intro aguar)+

lemma a_resolve [aguar]: "state_io_rel ag.R (resolve_session S v)"
  unfolding resolve_session_def by (intro a_intro aguar)

lemma a_session_ops [aguar]:
  "state_io_rel ag.R (session_access_token S v)" "state_io_rel ag.R (session_list S u)" "state_io_rel ag.R (session_revoke S i u)"
  "state_io_rel ag.R (session_revoke_all S u)"
  unfolding session_access_token_def session_list_def session_revoke_def session_revoke_all_def by (intro a_intro aguar)+

lemma a_callback [aguar]: "state_io_rel ag.R (callback_session S r a)"
  unfolding callback_session_def by (intro a_intro aguar)

lemma a_logout [aguar]: "state_io_rel ag.R (revoke_browser_session S cookie)"
  unfolding revoke_browser_session_def by (intro a_intro aguar)

lemma a_identity_ops [aguar]:
  "state_io_rel ag.R (auth_login S)" "state_io_rel ag.R (auth_callback S r)" "state_io_rel ag.R (auth_logout S cookie)"
  "state_io_rel ag.R (user_get S u)" "state_io_rel ag.R (user_delete S u)" "state_io_rel ag.R (receive_event S wd)"
  unfolding auth_login_def auth_callback_def auth_logout_def user_get_def user_delete_def receive_event_def
  by (intro a_intro aguar)+

section \<open>Tenancy\<close>

lemma granted_role_Inr: "granted_role role0 = Inr role \<Longrightarrow> role = ''admin'' \<or> role = ''member''"
  by (auto simp: granted_role_def normalize_role_def Let_def rbind_def split: sum.splits if_splits)

lemma a_get_member [aguar]: "state_io_rel ag.R (get_member S org u)"
  unfolding get_member_def by (rule a_query)

lemma a_guards [aguar]:
  "state_io_rel ag.R (org_require_member S u org)" "state_io_rel ag.R (org_require_role S u org roles)"
  "state_io_rel ag.R (mem_require_member S u org)" "state_io_rel ag.R (mem_require_admin S u org)" "state_io_rel ag.R (inv_require_admin S u org)"
  unfolding org_require_member_def org_require_role_def mem_require_member_def mem_require_admin_def inv_require_admin_def
  by (intro a_intro aguar)+

lemma a_org_ops [aguar]:
  "state_io_rel ag.R (org_create S u text)" "state_io_rel ag.R (org_get S u org)" "state_io_rel ag.R (org_update S u org name)"
  "state_io_rel ag.R (org_delete S u org)" "state_io_rel ag.R (org_list S u)"
  unfolding org_create_def org_get_def org_update_def org_delete_def org_list_def by (intro a_intro aguar)+

lemma a_member_add [aguar]: "state_io_rel ag.R (member_add S requester org u role0)"
  unfolding member_add_def
  by (rule ag.world.g_chain, rule aguar, rule ag.world.g_chain, rule ag.world.g_of_check, rule ag.world.g_return_check)
    (auto intro!: ag.world.g_map_error a_exec st_add dest: granted_role_Inr)

lemma a_member_update [aguar]: "state_io_rel ag.R (member_update S requester org u role0)"
  unfolding member_update_def
  by (rule ag.world.g_chain, rule aguar, rule ag.world.g_chain, rule ag.world.g_of_check, rule ag.world.g_return_check)
    (auto intro!: ag.world.g_handle ag.world.g_map_error ag.world.g_return a_get_member a_exec st_role dest: granted_role_Inr)

lemma a_member_ops [aguar]:
  "state_io_rel ag.R (member_get S requester org u)" "state_io_rel ag.R (member_list S requester org)" "state_io_rel ag.R (member_delete S requester org u)"
  unfolding member_get_def member_list_def member_delete_def by (intro a_intro aguar)+

lemma a_token_ops [aguar]:
  "state_io_rel ag.R (token_create S ti)" "state_io_rel ag.R (token_get S org i)" "state_io_rel ag.R (token_list S org)"
  "state_io_rel ag.R (token_authenticate S v)" "state_io_rel ag.R (token_update S tc actor)" "state_io_rel ag.R (token_disable S org i actor)"
  "state_io_rel ag.R (token_touch S i ip)"
  unfolding token_create_def token_get_def token_list_def token_authenticate_def token_update_def token_disable_def token_touch_def
  by (intro a_intro aguar)+

section \<open>Invitations and their emails\<close>

lemma queue_tx_Inr:
  assumes "run_state (queue_tx E req) w = (Inr i, w')"
  obtains A nonce plain payload t where "es_cipher E = Some A" "es_address E (er_to req) = Some (er_to req)"
    "es_encode E (er_data req) = Inr plain" "encrypt_for_scope A nonce (email_scope i) plain = Inr payload"
    "sql_create_email i (er_to req) (er_template req) payload (er_key req) (ed_expires (er_data req)) t (sw_db w) = (Inr (), sw_db w')"
  using assms unfolding queue_tx_def
  by (auto simp: chain_Inr Let_def split: option.splits if_splits dest!: sql_exec_Inr)

lemma inv_require_admin_Inr:
  assumes "run_state (inv_require_admin S u org) w = (Inr (), w')"
  obtains m where "sql_get_member org u (sw_db w) = Inr m" "mb_role m \<in> {''admin'', ''owner''}" "sw_db w' = sw_db w"
  using assms unfolding inv_require_admin_def get_member_def acc_query_def
  by (auto simp: handle_fail_Inr split: if_splits dest!: sql_query_Inr)

lemma generate_token_db: "run_state (generate_token S) w = (r, w') \<Longrightarrow> sw_db w' = sw_db w"
  by (auto simp: generate_token_def)

lemma invite_create_step:
  assumes "run_state (invite_create_tx S u org email role) w = (Inr iv, w')"
  shows "acc_step (sw_db w) (sw_db w')"
proof -
  from assms obtain w1 x w2 raw w3 w4 o' inviter w5 j where
      admin: "run_state (inv_require_admin S u org) w = (Inr (), w1)"
    and expire: "run_state (acc_exec S (\<lambda>se. sql_expire_invites (sq_now se))) w1 = (Inr x, w2)"
    and raw: "run_state (generate_token S) w2 = (Inr raw, w3)"
    and create: "run_state (acc_exec S (\<lambda>se. sql_create_invite \<lparr>ip_org = org, ip_by = u, ip_email = email, ip_role = role,
        ip_hash = token_hash S raw, ip_expires = sq_now (as_env S (sw_tick w3)) + invite_lifetime\<rparr> (sq_fresh se) (sq_now se)))
        (w3\<lparr>sw_tick := Suc (sw_tick w3)\<rparr>) = (Inr iv, w4)"
    and queue: "sw_db w5 = sw_db w4" "run_state (queue_tx (as_email S) (invite_email S iv o' inviter email role raw
        (sq_now (as_env S (sw_tick w3)) + invite_lifetime))) w5 = (Inr j, w')"
    unfolding invite_create_tx_def acc_query_def
    by (auto simp: chain_Inr map_error_Inr Let_def dest!: sql_query_Inr)
  from admin have w1: "sw_db w1 = sw_db w" by (auto elim: inv_require_admin_Inr)
  from sql_exec_Inr [OF expire [unfolded acc_exec_def]] obtain t' where w2: "sw_db w2 = snd (sql_expire_invites t' (sw_db w1))"
    by (metis snd_conv)
  from create w2 w1 generate_token_db [OF raw] obtain p i t where
    "sql_create_invite p i t (snd (sql_expire_invites t' (sw_db w))) = (Inr iv, sw_db w4)"
    unfolding acc_exec_def by (auto dest!: sql_exec_Inr intro: that)
  with queue show ?thesis by (auto elim!: queue_tx_Inr simp: invite_email_def intro: st_invite)
qed

lemma invite_revoke_step:
  assumes "run_state (invite_revoke_tx S u org i) w = (Inr (), w')"
  shows "acc_step (sw_db w) (sw_db w')"
proof -
  from assms obtain w1 iv w2 where admin: "run_state (inv_require_admin S u org) w = (Inr (), w1)"
    and revoke: "run_state (acc_exec S (\<lambda>se. sql_revoke_invite i org (sq_now se))) w1 = (Inr iv, w2)"
    and cancel: "run_state (cancel_tx (as_email S) (invite_key i)) w2 = (Inr (), w')"
    unfolding invite_revoke_tx_def by (auto simp: chain_Inr handle_fail_Inr)
  from admin obtain m where "sql_get_member org u (sw_db w) = Inr m" "mb_role m \<in> {''admin'', ''owner''}" "sw_db w1 = sw_db w"
    by (rule inv_require_admin_Inr)
  moreover from revoke obtain t where "sql_revoke_invite i org t (sw_db w1) = (Inr iv, sw_db w2)"
    unfolding acc_exec_def by (auto dest!: sql_exec_Inr)
  moreover from cancel have "sql_cancel_emails (invite_key i) (sw_db w2) = (Inr (), sw_db w')"
    unfolding cancel_tx_def by (auto dest!: sql_exec_Inr)
  ultimately show ?thesis by (metis st_uninvite)
qed

lemma invite_accept_Inr:
  assumes "run_state (invite_accept_tx S u raw) w = (Inr (), w')"
  obtains t iv x t' iv' d1 t'' m d2 where "sql_invite_by_hash (token_hash S raw) t (sw_db w) = Inr iv"
    "sql_get_user u (sw_db w) = Inr x" "us_verified x" "to_lower (us_email x) = to_lower (iv_email iv)"
    "sql_accept_invite (iv_id iv) t' (sw_db w) = (Inr iv', d1)" "sql_add_invited (iv_id iv) u t'' d1 = (Inr m, d2)"
    "sql_cancel_emails (invite_key (iv_id iv)) d2 = (Inr (), sw_db w')"
proof -
  from assms obtain iv w1 x w2 iv' w3 m w4 where
      iv: "run_state (sql_query (as_env S) (\<lambda>se. sql_invite_by_hash (token_hash S raw) (sq_now se))) w = (Inr iv, w1)"
    and x: "run_state (sql_query (as_env S) (\<lambda>_. sql_get_user u)) w1 = (Inr x, w2)"
    and ok: "us_verified x" "to_lower (us_email x) = to_lower (iv_email iv)"
    and accept: "run_state (sql_exec (as_env S) (\<lambda>se. sql_accept_invite (iv_id iv) (sq_now se))) w2 = (Inr iv', w3)"
    and add: "run_state (sql_exec (as_env S) (\<lambda>se. sql_add_invited (iv_id iv) u (sq_now se))) w3 = (Inr m, w4)"
    and cancel: "run_state (cancel_tx (as_email S) (invite_key (iv_id iv))) w4 = (Inr (), w')"
    unfolding invite_accept_tx_def acc_query_def acc_exec_def by (auto simp: chain_Inr handle_fail_Inr split: if_splits)
  from sql_query_Inr [OF iv] sql_query_Inr [OF x] have
    found: "sql_invite_by_hash (token_hash S raw) (sq_now (as_env S (sw_tick w))) (sw_db w) = Inr iv" "sql_get_user u (sw_db w) = Inr x" "sw_db w2 = sw_db w"
    by auto
  from sql_exec_Inr [OF accept] found(3) have accepted: "sql_accept_invite (iv_id iv) (sq_now (as_env S (sw_tick w2))) (sw_db w) = (Inr iv', sw_db w3)"
    by simp
  from cancel have "sql_cancel_emails (invite_key (iv_id iv)) (sw_db w4) = (Inr (), sw_db w')"
    unfolding cancel_tx_def by (auto dest!: sql_exec_Inr)
  then show thesis by (rule that [OF found(1,2) ok accepted sql_exec_Inr [OF add]])
qed

lemma invite_accept_step: "run_state (invite_accept_tx S u raw) w = (Inr (), w') \<Longrightarrow> acc_step (sw_db w) (sw_db w')"
  by (erule invite_accept_Inr) (rule st_accept)

lemma a_invites [aguar]:
  "state_io_rel ag.R (invite_create S u org email role)" "state_io_rel ag.R (invite_list S u org)"
  "state_io_rel ag.R (invite_revoke S u org i)" "state_io_rel ag.R (invite_accept S u raw)"
  unfolding invite_create_def invite_list_def invite_revoke_def invite_accept_def
  by (intro a_intro aguar ag.tx; (metis (full_types) invite_create_step invite_revoke_step invite_accept_step r_into_rtranclp old.unit.exhaust)?)+

lemma a_hand_over [aguar]: "state_io_rel ag.R (hand_over ses i m)"
  unfolding state_io_rel_def ag.R_def hand_over_def by (auto intro: st_handed)

lemma a_email_statements [aguar]:
  "state_io_rel ag.R (sql_exec (es_env E) (\<lambda>se. sql_expire_emails (sq_now se)))"
  "state_io_rel ag.R (sql_exec (es_env E) (\<lambda>se. sql_exhaust_emails (sq_now se)))"
  "state_io_rel ag.R (sql_exec (es_env E) (\<lambda>se. sql_claim_email lease (sq_now se)))"
  "state_io_rel ag.R (sql_exec (es_env E) (\<lambda>se. sql_fail_email i lease terminal code delay (sq_now se)))"
  "state_io_rel ag.R (sql_exec (es_env E) (\<lambda>se. sql_complete_email i lease message (sq_now se)))"
  by (rule a_email_exec, rule acc_step.intros)+

lemma a_process [aguar]: "state_io_rel ag.R (process_one E A ses)"
proof -
  have [aguar]: "state_io_rel ag.R (fail_email E r lease code permanent)" for r lease code permanent
    unfolding fail_email_def by (rule aguar)
  have [aguar]: "state_io_rel ag.R (send_email E ses r lease m)" for r lease m
    unfolding send_email_def by (rule ag.world.g_handle) (auto intro!: a_intro aguar split: send_error.split)
  have [aguar]: "state_io_rel ag.R (deliver_email E A ses r lease)" for r lease
    unfolding deliver_email_def by (intro a_intro aguar ag.query)
  show ?thesis unfolding process_one_def claim_email_def by (intro a_intro aguar)
qed

lemma a_principal [aguar]: "state_io_rel ag.R (resolve_principal S kind v)"
  unfolding resolve_principal_def by (cases kind) (auto intro!: a_intro aguar)

section \<open>Histories\<close>

text \<open>What reaches the tables: the handlers of the API, the authentication of requests, and passes of the email worker.\<close>

datatype access_op =
    A_Login | A_Callback callback_request | A_Logout "string option" | A_Resolve credential_kind string | A_Access_Token string
  | A_Sessions uuid | A_Revoke uuid uuid | A_Revoke_All uuid | A_User uuid | A_Delete_User uuid | A_Receive webhook_delivery
  | A_Create_Org uuid string | A_Get_Org uuid uuid | A_Update_Org uuid uuid "string option" | A_Delete_Org uuid uuid | A_Orgs uuid
  | A_Add uuid uuid uuid string | A_Member uuid uuid uuid | A_Members uuid uuid | A_Role uuid uuid uuid string | A_Remove uuid uuid uuid
  | A_Invite uuid uuid string string | A_Invites uuid uuid | A_Uninvite uuid uuid uuid | A_Accept uuid string
  | A_Token token_input | A_Get_Token uuid uuid | A_Tokens uuid | A_Change_Token token_change uuid | A_Disable_Token uuid uuid uuid
  | A_Touch uuid "ip_addr option" | A_Email "nat \<Rightarrow> ses_answer"

fun run_access_op :: "access_service \<Rightarrow> access_op \<Rightarrow> access_db sql_world \<Rightarrow> access_db sql_world" where
  "run_access_op S A_Login w = snd (run_state (auth_login S) w)"
| "run_access_op S (A_Callback r) w = snd (run_state (auth_callback S r) w)"
| "run_access_op S (A_Logout c) w = snd (run_state (auth_logout S c) w)"
| "run_access_op S (A_Resolve k v) w = snd (run_state (resolve_principal S k v) w)"
| "run_access_op S (A_Access_Token v) w = snd (run_state (session_access_token S v) w)"
| "run_access_op S (A_Sessions u) w = snd (run_state (session_list S u) w)"
| "run_access_op S (A_Revoke i u) w = snd (run_state (session_revoke S i u) w)"
| "run_access_op S (A_Revoke_All u) w = snd (run_state (session_revoke_all S u) w)"
| "run_access_op S (A_User u) w = snd (run_state (user_get S u) w)"
| "run_access_op S (A_Delete_User u) w = snd (run_state (user_delete S u) w)"
| "run_access_op S (A_Receive r) w = snd (run_state (receive_event S r) w)"
| "run_access_op S (A_Create_Org u name) w = snd (run_state (org_create S u name) w)"
| "run_access_op S (A_Get_Org u org) w = snd (run_state (org_get S u org) w)"
| "run_access_op S (A_Update_Org u org name) w = snd (run_state (org_update S u org name) w)"
| "run_access_op S (A_Delete_Org u org) w = snd (run_state (org_delete S u org) w)"
| "run_access_op S (A_Orgs u) w = snd (run_state (org_list S u) w)"
| "run_access_op S (A_Add r org u role) w = snd (run_state (member_add S r org u role) w)"
| "run_access_op S (A_Member r org u) w = snd (run_state (member_get S r org u) w)"
| "run_access_op S (A_Members r org) w = snd (run_state (member_list S r org) w)"
| "run_access_op S (A_Role r org u role) w = snd (run_state (member_update S r org u role) w)"
| "run_access_op S (A_Remove r org u) w = snd (run_state (member_delete S r org u) w)"
| "run_access_op S (A_Invite u org email role) w = snd (run_state (invite_create S u org email role) w)"
| "run_access_op S (A_Invites u org) w = snd (run_state (invite_list S u org) w)"
| "run_access_op S (A_Uninvite u org i) w = snd (run_state (invite_revoke S u org i) w)"
| "run_access_op S (A_Accept u raw) w = snd (run_state (invite_accept S u raw) w)"
| "run_access_op S (A_Token t) w = snd (run_state (token_create S t) w)"
| "run_access_op S (A_Get_Token org i) w = snd (run_state (token_get S org i) w)"
| "run_access_op S (A_Tokens org) w = snd (run_state (token_list S org) w)"
| "run_access_op S (A_Change_Token c actor) w = snd (run_state (token_update S c actor) w)"
| "run_access_op S (A_Disable_Token org i actor) w = snd (run_state (token_disable S org i actor) w)"
| "run_access_op S (A_Touch i ip) w = snd (run_state (token_touch S i ip) w)"
| "run_access_op S (A_Email ses) w = snd (run_state (process_one (as_email S) (as_cipher S) ses) w)"

definition run_access :: "access_service \<Rightarrow> access_op list \<Rightarrow> access_db sql_world \<Rightarrow> access_db sql_world" where
  "run_access S ops w = fold (run_access_op S) ops w"

lemma run_access_op_steps: "acc_step\<^sup>*\<^sup>* (sw_db w) (sw_db (run_access_op S op w))"
  by (cases op) (simp_all only: run_access_op.simps, (rule ag.run, rule aguar)+)

lemma run_access_steps: "acc_step\<^sup>*\<^sup>* (sw_db w) (sw_db (run_access S ops w))"
  unfolding run_access_def by (rule history_refines [where view = sw_db]) (rule run_access_op_steps)

lemma access_invariant:
  assumes "\<And>d d'. acc_step d d' \<Longrightarrow> I d \<Longrightarrow> I d'" and "I (sw_db w)"
  shows "I (sw_db (run_access S ops w))"
  using run_access_steps [of w S ops] assms(2,1) by (rule star_invariant)

end
