(* ===== verification/Acc_Invariants.thy ===== *)
theory Acc_Invariants
  imports Acc_Spec Sql_Schema
begin

text \<open>
  What the steps of identity and tenancy keep: every constraint of the schema, also where a statement
  does not check it, the tables each statement leaves alone, and a deployment on which the theorems are applied.
\<close>

section \<open>Frames\<close>

named_theorems frames \<open>the tables a statement leaves\<close>

lemma identity_frames [frames]:
  "ac_orgs (snd (sql_upsert_user issuer subject name email i t d)) = ac_orgs d"
  "ac_members (snd (sql_upsert_user issuer subject name email i t d)) = ac_members d"
  "ac_events (snd (sql_upsert_user issuer subject name email i t d)) = ac_events d"
  "ac_orgs (snd (sql_apply_event c t d)) = ac_orgs d" "ac_members (snd (sql_apply_event c t d)) = ac_members d"
  unfolding sql_upsert_user_def sql_apply_event_def
  by (auto intro!: kept_texts kept_constrained simp: Let_def split: option.split)

lemma session_frames [frames]:
  "ac_users (snd (sql_create_session p i t d)) = ac_users d" "ac_events (snd (sql_create_session p i t d)) = ac_events d"
  "ac_orgs (snd (sql_create_session p i t d)) = ac_orgs d" "ac_members (snd (sql_create_session p i t d)) = ac_members d"
  "ac_users (snd (sql_revoke_session i u t d)) = ac_users d" "ac_events (snd (sql_revoke_session i u t d)) = ac_events d"
  "ac_orgs (snd (sql_revoke_session i u t d)) = ac_orgs d" "ac_members (snd (sql_revoke_session i u t d)) = ac_members d"
  "ac_users (snd (sql_revoke_sessions u t d)) = ac_users d" "ac_events (snd (sql_revoke_sessions u t d)) = ac_events d"
  "ac_orgs (snd (sql_revoke_sessions u t d)) = ac_orgs d" "ac_members (snd (sql_revoke_sessions u t d)) = ac_members d"
  "ac_users (snd (sql_session_tokens i plain t d)) = ac_users d" "ac_events (snd (sql_session_tokens i plain t d)) = ac_events d"
  "ac_orgs (snd (sql_session_tokens i plain t d)) = ac_orgs d" "ac_members (snd (sql_session_tokens i plain t d)) = ac_members d"
  unfolding sql_create_session_def sql_revoke_session_def sql_revoke_sessions_def sql_session_tokens_def
  by (auto intro!: kept_texts kept_constrained)

lemma attempt_frames [frames]:
  "ac_users (snd (sql_create_attempt a d)) = ac_users d" "ac_events (snd (sql_create_attempt a d)) = ac_events d"
  "ac_orgs (snd (sql_create_attempt a d)) = ac_orgs d" "ac_members (snd (sql_create_attempt a d)) = ac_members d"
  "ac_users (snd (sql_consume_attempt h t d)) = ac_users d" "ac_events (snd (sql_consume_attempt h t d)) = ac_events d"
  "ac_orgs (snd (sql_consume_attempt h t d)) = ac_orgs d" "ac_members (snd (sql_consume_attempt h t d)) = ac_members d"
  "ac_users (snd (sql_expire_attempts t d)) = ac_users d" "ac_events (snd (sql_expire_attempts t d)) = ac_events d"
  "ac_orgs (snd (sql_expire_attempts t d)) = ac_orgs d" "ac_members (snd (sql_expire_attempts t d)) = ac_members d"
  unfolding sql_create_attempt_def sql_consume_attempt_def sql_expire_attempts_def
  by (auto intro!: kept_texts kept_constrained split: sum.split)

lemma org_frames [frames]:
  "ac_users (snd (sql_found_org name u i t d)) = ac_users d" "ac_events (snd (sql_found_org name u i t d)) = ac_events d"
  "ac_users (snd (sql_update_org i name' t d)) = ac_users d" "ac_events (snd (sql_update_org i name' t d)) = ac_events d"
  "ac_members (snd (sql_update_org i name' t d)) = ac_members d"
  "ac_users (snd (sql_delete_org i t d)) = ac_users d" "ac_events (snd (sql_delete_org i t d)) = ac_events d"
  "ac_members (snd (sql_delete_org i t d)) = ac_members d"
  unfolding sql_found_org_def sql_update_org_def sql_delete_org_def
  by (auto intro!: kept_texts kept_constrained simp: Let_def split: sum.split)

lemma member_frames [frames]:
  "ac_users (snd (sql_add_member org u role actor t d)) = ac_users d" "ac_events (snd (sql_add_member org u role actor t d)) = ac_events d"
  "ac_orgs (snd (sql_add_member org u role actor t d)) = ac_orgs d"
  "ac_users (snd (sql_member_role org u role actor t d)) = ac_users d" "ac_events (snd (sql_member_role org u role actor t d)) = ac_events d"
  "ac_orgs (snd (sql_member_role org u role actor t d)) = ac_orgs d"
  "ac_users (snd (sql_disable_member org u actor t d)) = ac_users d" "ac_events (snd (sql_disable_member org u actor t d)) = ac_events d"
  "ac_orgs (snd (sql_disable_member org u actor t d)) = ac_orgs d"
  "ac_users (snd (sql_add_invited i u t d)) = ac_users d" "ac_events (snd (sql_add_invited i u t d)) = ac_events d"
  "ac_orgs (snd (sql_add_invited i u t d)) = ac_orgs d"
  unfolding sql_add_member_def sql_member_role_def sql_disable_member_def sql_add_invited_def
  by (auto intro!: kept_texts kept_constrained simp: Let_def split: sum.split)

lemma invite_frames [frames]:
  "ac_users (snd (sql_create_invite p i t d)) = ac_users d" "ac_events (snd (sql_create_invite p i t d)) = ac_events d"
  "ac_orgs (snd (sql_create_invite p i t d)) = ac_orgs d" "ac_members (snd (sql_create_invite p i t d)) = ac_members d"
  "ac_users (snd (sql_accept_invite i t d)) = ac_users d" "ac_events (snd (sql_accept_invite i t d)) = ac_events d"
  "ac_orgs (snd (sql_accept_invite i t d)) = ac_orgs d" "ac_members (snd (sql_accept_invite i t d)) = ac_members d"
  "ac_users (snd (sql_revoke_invite i org t d)) = ac_users d" "ac_events (snd (sql_revoke_invite i org t d)) = ac_events d"
  "ac_orgs (snd (sql_revoke_invite i org t d)) = ac_orgs d" "ac_members (snd (sql_revoke_invite i org t d)) = ac_members d"
  "ac_users (snd (sql_expire_invites t d)) = ac_users d" "ac_events (snd (sql_expire_invites t d)) = ac_events d"
  "ac_orgs (snd (sql_expire_invites t d)) = ac_orgs d" "ac_members (snd (sql_expire_invites t d)) = ac_members d"
  unfolding sql_create_invite_def sql_accept_invite_def sql_revoke_invite_def sql_expire_invites_def
  by (auto intro!: kept_texts kept_constrained simp: Let_def split: sum.split)

lemma token_frames [frames]:
  "ac_users (snd (sql_create_token q i t d)) = ac_users d" "ac_events (snd (sql_create_token q i t d)) = ac_events d"
  "ac_orgs (snd (sql_create_token q i t d)) = ac_orgs d" "ac_members (snd (sql_create_token q i t d)) = ac_members d"
  "ac_users (snd (sql_update_token tc actor t d)) = ac_users d" "ac_events (snd (sql_update_token tc actor t d)) = ac_events d"
  "ac_orgs (snd (sql_update_token tc actor t d)) = ac_orgs d" "ac_members (snd (sql_update_token tc actor t d)) = ac_members d"
  "ac_users (snd (sql_disable_token i org actor t d)) = ac_users d" "ac_events (snd (sql_disable_token i org actor t d)) = ac_events d"
  "ac_orgs (snd (sql_disable_token i org actor t d)) = ac_orgs d" "ac_members (snd (sql_disable_token i org actor t d)) = ac_members d"
  "ac_users (snd (sql_touch_token i ip t d)) = ac_users d" "ac_events (snd (sql_touch_token i ip t d)) = ac_events d"
  "ac_orgs (snd (sql_touch_token i ip t d)) = ac_orgs d" "ac_members (snd (sql_touch_token i ip t d)) = ac_members d"
  unfolding sql_create_token_def sql_update_token_def sql_disable_token_def sql_touch_token_def
  by (auto intro!: kept_texts kept_constrained split: sum.split)

text \<open>The statements on emails leave the tables of identity and tenancy.\<close>

definition same_access :: "access_db \<Rightarrow> access_db \<Rightarrow> bool" where
  "same_access d d' \<longleftrightarrow> ac_users d' = ac_users d \<and> ac_sessions d' = ac_sessions d
     \<and> ac_attempts d' = ac_attempts d \<and> ac_events d' = ac_events d \<and> ac_orgs d' = ac_orgs d \<and> ac_members d' = ac_members d
     \<and> ac_invites d' = ac_invites d \<and> ac_tokens d' = ac_tokens d"

lemma email_frames:
  "same_access d (snd (sql_create_email i to template payload key expires t d))" "same_access d (snd (sql_cancel_emails k d))"
  "same_access d (snd (sql_expire_emails t d))" "same_access d (snd (sql_exhaust_emails t d))" "same_access d (snd (sql_claim_email lease t d))"
  "same_access d (snd (sql_fail_email i lease terminal code delay t d))" "same_access d (snd (sql_complete_email i lease message t d))"
  "same_access d (d\<lparr>em_handed := handed\<rparr>)"
  unfolding sql_create_email_def sql_cancel_emails_def sql_expire_emails_def sql_exhaust_emails_def sql_claim_email_def
    sql_fail_email_def sql_complete_email_def
  by (simp_all add: same_access_def statement_simps split: option.split list.split)

lemma same_of_run: "same_access d (snd (f d)) \<Longrightarrow> f d = (r, d') \<Longrightarrow> same_access d d'"
  by simp

section \<open>Every constraint holds\<close>

definition access_schema :: "(string \<times> (access_db \<Rightarrow> bool)) list" where
  "access_schema = users_schema @ sessions_schema @ attempts_schema @ events_schema @ orgs_schema @ members_schema @ invites_schema
     @ tokens_schema @ email_schema"

lemmas schema_defs = access_schema_def users_schema_def sessions_schema_def attempts_schema_def events_schema_def orgs_schema_def
  members_schema_def invites_schema_def tokens_schema_def email_schema_def

lemma changed_user_simps [simp]:
  "us_id (changed_user c now users u) = us_id u" "is_identity issuer subject (changed_user c now users u) = is_identity issuer subject u"
  by (simp_all add: changed_user_def is_identity_def)

lemma valid_event:
  assumes "holds_all access_schema d" "us_id ` set users = us_id ` set (ac_users d)"
  shows "holds_all access_schema (snd (constrained (events_schema @ users_schema @ sessions_schema) d
      (r, d\<lparr>ac_events := events, ac_users := users, ac_sessions := sessions\<rparr>)))"
  by (rule kept_valid [OF assms(1)]) (use assms in \<open>simp add: schema_defs\<close>)

lemma valid_users:
  assumes "holds_all access_schema d"
  shows "holds_all access_schema (snd (sql_upsert_user issuer subject name email i t d))"
    and "holds_all access_schema (snd (sql_disable_user u t d))"
    and "holds_all access_schema (snd (sql_apply_event c t d))"
proof -
  show "holds_all access_schema (snd (sql_upsert_user issuer subject name email i t d))"
    unfolding sql_upsert_user_def Let_def
  proof (intro kept_valid_texts assms, simp split: option.split, intro conjI impI allI)
    show "holds_all access_schema (snd (constrained users_schema d (Inr (new_user issuer subject name email i t),
        d\<lparr>ac_users := ac_users d @ [new_user issuer subject name email i t]\<rparr>)))"
      by (rule kept_valid [OF assms]) (use assms in \<open>auto simp: schema_defs list_all_iff split: option.splits\<close>)
    show "holds_all access_schema (snd (constrained users_schema d (Inr (x\<lparr>us_name := name, us_email := email, us_verified := True, us_updated := t\<rparr>),
        d\<lparr>ac_users := update_rows (is_identity issuer subject)
          (\<lambda>u. u\<lparr>us_name := name, us_email := email, us_verified := True, us_updated := t\<rparr>) (ac_users d)\<rparr>)))" for x
      by (rule kept_valid [OF assms]) (use assms in \<open>auto simp: schema_defs update_keys\<close>)
  qed (use assms in simp_all)
  show "holds_all access_schema (snd (sql_disable_user u t d))"
    using assms by (auto simp: sql_disable_user_def schema_defs update_keys map_update_rows)
  show "holds_all access_schema (snd (sql_apply_event c t d))"
    unfolding sql_apply_event_def Let_def
    by (rule kept_valid_texts [OF assms], rule if_split [where P = "\<lambda>r. holds_all access_schema (snd r)", THEN iffD2], intro conjI impI)
      (simp only: snd_conv assms, rule valid_event [OF assms], simp only: if_distrib [of "\<lambda>us. us_id ` set us"] update_keys changed_user_simps if_cancel)
qed

lemma valid_sessions:
  assumes "holds_all access_schema d"
  shows "holds_all access_schema (snd (sql_create_session p i t d))" "holds_all access_schema (snd (sql_revoke_session i u t d))"
    "holds_all access_schema (snd (sql_revoke_sessions u t d))" "holds_all access_schema (snd (sql_session_tokens i plain t d))"
proof -
  show "holds_all access_schema (snd (sql_create_session p i t d))"
    unfolding sql_create_session_def
    by (intro kept_valid_texts assms, simp, intro conjI impI assms kept_valid) (use assms in \<open>simp add: schema_defs\<close>)
  show "holds_all access_schema (snd (sql_revoke_session i u t d))" "holds_all access_schema (snd (sql_revoke_sessions u t d))"
    unfolding sql_revoke_session_def sql_revoke_sessions_def
    by (rule kept_valid [OF assms], use assms in \<open>simp add: schema_defs\<close>)+
  show "holds_all access_schema (snd (sql_session_tokens i plain t d))"
    unfolding sql_session_tokens_def
    by (intro kept_valid_texts assms)
      (use assms in \<open>simp add: schema_defs map_update_rows, auto intro!: update_all simp: session_ok_def\<close>)
qed

lemma valid_attempts:
  assumes "holds_all access_schema d"
  shows "holds_all access_schema (snd (sql_create_attempt a d))" "holds_all access_schema (snd (sql_consume_attempt h t d))"
    "holds_all access_schema (snd (sql_expire_attempts t d))"
proof -
  show "holds_all access_schema (snd (sql_create_attempt a d))"
    unfolding sql_create_attempt_def
    by (intro kept_valid_texts assms, rule kept_valid [OF assms]) (use assms in \<open>simp add: schema_defs\<close>)
  show "holds_all access_schema (snd (sql_consume_attempt h t d))"
    unfolding sql_consume_attempt_def
    by (intro kept_valid_texts assms) (use assms in \<open>simp add: schema_defs distinct_map_filter split: sum.split\<close>)
  show "holds_all access_schema (snd (sql_expire_attempts t d))"
    unfolding sql_expire_attempts_def using assms by (simp add: schema_defs distinct_map_filter)
qed

lemma valid_orgs:
  assumes "holds_all access_schema d"
  shows "holds_all access_schema (snd (sql_found_org name u i t d))" "holds_all access_schema (snd (sql_update_org i name' t d))"
    "holds_all access_schema (snd (sql_delete_org i t d))"
proof -
  show "holds_all access_schema (snd (sql_found_org name u i t d))"
    unfolding sql_found_org_def
    by (intro kept_valid_texts assms, simp, intro conjI impI assms kept_valid) (use assms in \<open>auto simp: schema_defs list_all_iff\<close>)
  show "holds_all access_schema (snd (sql_update_org i name' t d))"
    unfolding sql_update_org_def Let_def
    by (intro kept_valid_texts assms)
      (use assms in \<open>simp add: schema_defs update_keys map_update_rows split: sum.split, auto intro!: update_all\<close>)
  show "holds_all access_schema (snd (sql_delete_org i t d))"
    unfolding sql_delete_org_def using assms by (simp add: schema_defs update_keys map_update_rows) (auto intro!: update_all)
qed

lemma valid_members:
  assumes "holds_all access_schema d"
  shows "holds_all access_schema (snd (sql_add_member org u role actor t d))" "holds_all access_schema (snd (sql_member_role org u role actor t d))"
    "holds_all access_schema (snd (sql_disable_member org u actor t d))" "holds_all access_schema (snd (sql_add_invited i u t d))"
proof -
  show "holds_all access_schema (snd (sql_add_member org u role actor t d))"
    unfolding sql_add_member_def
    by (intro kept_valid_texts assms, simp, intro conjI impI assms kept_valid) (use assms in \<open>simp_all add: schema_defs\<close>)
  show "holds_all access_schema (snd (sql_member_role org u role actor t d))"
    unfolding sql_member_role_def Let_def
    by (intro kept_valid_texts assms, simp split: sum.split, intro conjI allI impI assms kept_valid) (use assms in \<open>simp_all add: schema_defs\<close>)
  show "holds_all access_schema (snd (sql_disable_member org u actor t d))"
    unfolding sql_disable_member_def using assms
    by (simp add: schema_defs map_update_rows) (auto intro!: update_all simp: member_ok_def)
  show "holds_all access_schema (snd (sql_add_invited i u t d))"
    unfolding sql_add_invited_def
    by (simp split: sum.split, intro conjI allI impI assms kept_valid) (use assms in \<open>simp_all add: schema_defs\<close>)
qed

lemma valid_invites:
  assumes "holds_all access_schema d"
  shows "holds_all access_schema (snd (sql_create_invite p i t d))" "holds_all access_schema (snd (sql_accept_invite i t d))"
    "holds_all access_schema (snd (sql_revoke_invite i org t d))" "holds_all access_schema (snd (sql_expire_invites t d))"
proof -
  show "holds_all access_schema (snd (sql_create_invite p i t d))"
    unfolding sql_create_invite_def
    by (intro kept_valid_texts assms, simp, intro conjI impI assms kept_valid) (use assms in \<open>simp_all add: schema_defs\<close>)
  note closing = update_all update_partial
  show "holds_all access_schema (snd (sql_accept_invite i t d))"
    unfolding sql_accept_invite_def Let_def
    using assms by (simp add: schema_defs map_update_rows split: sum.split) (auto intro!: closing simp: invite_ok_def)
  show "holds_all access_schema (snd (sql_revoke_invite i org t d))"
    unfolding sql_revoke_invite_def Let_def
    using assms by (simp add: schema_defs map_update_rows split: sum.split) (auto intro!: closing simp: invite_ok_def)
  show "holds_all access_schema (snd (sql_expire_invites t d))"
    unfolding sql_expire_invites_def
    using assms by (simp add: schema_defs map_update_rows) (auto intro!: closing simp: invite_ok_def)
qed

lemma valid_tokens:
  assumes "holds_all access_schema d"
  shows "holds_all access_schema (snd (sql_create_token q i t d))" "holds_all access_schema (snd (sql_update_token tc actor t d))"
    "holds_all access_schema (snd (sql_disable_token i org actor t d))" "holds_all access_schema (snd (sql_touch_token i ip t d))"
proof -
  show "holds_all access_schema (snd (sql_create_token q i t d))"
    unfolding sql_create_token_def
    by (intro kept_valid_texts assms, simp, intro conjI impI assms kept_valid) (use assms in \<open>simp_all add: schema_defs\<close>)
  show "holds_all access_schema (snd (sql_update_token tc actor t d))"
    unfolding sql_update_token_def
    by (intro kept_valid_texts assms, simp split: sum.split, intro conjI allI impI assms kept_valid) (use assms in \<open>simp_all add: schema_defs\<close>)
  show "holds_all access_schema (snd (sql_disable_token i org actor t d))" "holds_all access_schema (snd (sql_touch_token i ip t d))"
    unfolding sql_disable_token_def sql_touch_token_def
    using assms by (simp_all add: schema_defs map_update_rows) (auto intro!: update_all update_partial simp: token_ok_def split: option.splits)
qed

lemma valid_emails:
  assumes "holds_all access_schema d"
  shows "holds_all access_schema (snd (sql_create_email i to template payload key expires t d))" "holds_all access_schema (snd (sql_cancel_emails k d))"
    "holds_all access_schema (snd (sql_expire_emails t d))" "holds_all access_schema (snd (sql_exhaust_emails t d))"
    "holds_all access_schema (snd (sql_claim_email lease t d))" "holds_all access_schema (snd (sql_fail_email i lease terminal code delay t d))"
    "holds_all access_schema (snd (sql_complete_email i lease message t d))" "holds_all access_schema (d\<lparr>em_handed := handed\<rparr>)"
proof -
  show "holds_all access_schema (snd (sql_create_email i to template payload key expires t d))"
    unfolding sql_create_email_def
    by (intro kept_valid_texts assms, rule kept_valid [OF assms]) (use assms in \<open>simp add: schema_defs\<close>)
  show "holds_all access_schema (snd (sql_cancel_emails k d))" "holds_all access_schema (snd (sql_fail_email i lease terminal code delay t d))"
    "holds_all access_schema (snd (sql_complete_email i lease message t d))"
    unfolding sql_cancel_emails_def sql_fail_email_def sql_complete_email_def
    by (intro kept_valid_texts assms; use assms in \<open>simp add: schema_defs map_update_rows, auto intro!: update_all simp: email_ok_def\<close>)+
  show "holds_all access_schema (snd (sql_expire_emails t d))" "holds_all access_schema (snd (sql_exhaust_emails t d))"
    unfolding sql_expire_emails_def sql_exhaust_emails_def
    using assms by (simp_all add: schema_defs map_update_rows) (auto intro!: update_all simp: email_ok_def)
  show "holds_all access_schema (snd (sql_claim_email lease t d))"
    unfolding sql_claim_email_def
    using assms by (simp add: schema_defs map_update_rows split: list.split) (auto intro!: update_all simp: email_ok_def)
  show "holds_all access_schema (d\<lparr>em_handed := handed\<rparr>)"
    using assms by (simp add: schema_defs)
qed

lemma after_run: "holds_all sch (snd (f d)) \<Longrightarrow> f d = (r, d') \<Longrightarrow> holds_all sch d'"
  by simp

lemma step_valid: "acc_step d d' \<Longrightarrow> holds_all access_schema d \<Longrightarrow> holds_all access_schema d'"
proof (induction rule: acc_step.induct)
  case (st_invite p i t t' d iv d1 j to template payload expires t'' d2)
  then show ?case using valid_invites valid_emails after_run by metis
next
  case (st_uninvite org u d m i t iv d1 d2)
  then show ?case using valid_invites valid_emails after_run by metis
next
  case (st_accept h t d iv u x t' iv' d1 t'' m d2 d3)
  from st_accept(5,8) have "holds_all access_schema d1" by (metis after_run valid_invites(2))
  with st_accept(6) have "holds_all access_schema d2" by (metis after_run valid_members(4))
  with st_accept(7) show ?case by (metis after_run valid_emails(2))
qed (simp_all only: valid_users valid_sessions valid_attempts valid_orgs valid_members valid_tokens valid_emails)

section \<open>A deployment\<close>

text \<open>A deployment with two users, one organization of the first and a second member, on which the theorems are applied.\<close>

definition demo_sql :: "nat \<Rightarrow> sql_env" where
  "demo_sql n = \<lparr>sq_fault = None, sq_now = 1000, sq_fresh = UUID ''f1''\<rparr>"

definition demo_mailer :: email_service where
  "demo_mailer = \<lparr>es_env = demo_sql, es_cipher = None, es_nonce = (\<lambda>_. Inr []), es_address = Some, es_url = (\<lambda>_. None),
     es_encode = (\<lambda>_. Inr ''{}''), es_decode = (\<lambda>_. Inl (Errf ''json'' [])), es_template = (\<lambda>_ _ _. Inr ''text'')\<rparr>"

definition demo_kinde :: kinde where
  "demo_kinde = \<lparr>kc_client = ''client'', kc_issuer = ''https://id'', kc_now = (\<lambda>_. 1000), kc_exchange = (\<lambda>_ _ _. None),
     kc_refresh = (\<lambda>_ _. None), kc_discover = (\<lambda>_. None), kc_verify = (\<lambda>_ _. None), kc_bound = (\<lambda>_ _. True)\<rparr>"

definition demo_access :: access_service where
  "demo_access = \<lparr>as_email = demo_mailer, as_cipher = \<lparr>ae_nonce_size = 12, ae_seal = (\<lambda>_ text _. text), ae_open = (\<lambda>_ text _. Some text)\<rparr>,
     as_kinde = demo_kinde, as_sha = (\<lambda>v. v), as_random = (\<lambda>_. Inr ''random''), as_verifier = (\<lambda>_. ''verifier''),
     as_encode = (\<lambda>_. Inr ''{}''), as_decode = (\<lambda>_. None), as_accept_url = ''https://app/accept'', as_with_token = (@)\<rparr>"

definition demo_user :: "string \<Rightarrow> user_row" where
  "demo_user s = (new_user ''https://id'' (''kp_'' @ s) None (s @ ''@x.io'') (UUID s) 10)"

definition demo_tenants :: access_db where
  "demo_tenants = \<lparr>em_rows = [], em_handed = [], ac_users = [demo_user ''a'', demo_user ''b''], ac_sessions = [], ac_attempts = [],
     ac_events = [], ac_orgs = [new_org (UUID ''o'') ''acme'' 20],
     ac_members = [new_member (UUID ''o'') (UUID ''a'') ''owner'' 20, new_member (UUID ''o'') (UUID ''b'') ''member'' 30], ac_invites = [], ac_tokens = []\<rparr>"

definition demo_access_world :: "access_db sql_world" where
  "demo_access_world = \<lparr>sw_tick = 0, sw_db = demo_tenants\<rparr>"

lemma demo_env [simp]: "as_env demo_access = demo_sql"
  by (simp add: as_env_def demo_access_def demo_mailer_def)

lemma demo_tenants_valid: "holds_all access_schema demo_tenants"
  unfolding holds_all_def by code_simp

end
