(* ===== verification/Acc_Safety.thy ===== *)
theory Acc_Safety
  imports Acc_Invariants
begin

text \<open>
  What identity and tenancy promise over every history of their operations: the constraints of the schema, the
  finality of a disabled identity, the owner of an organization, the origin of a membership.
\<close>

section \<open>Which steps change what\<close>

lemma run_same: "same_access d (snd (f d)) \<Longrightarrow> f d = (r, d') \<Longrightarrow> ac_users d' = ac_users d \<and> ac_events d' = ac_events d
    \<and> ac_orgs d' = ac_orgs d \<and> ac_members d' = ac_members d \<and> ac_invites d' = ac_invites d"
  by (simp add: same_access_def)

lemma invite_same:
  assumes "sql_create_invite p i t (snd (sql_expire_invites t' d)) = (Inr iv, d1)" "sql_create_email j to template payload k expires t'' d1 = (Inr (), d2)"
  shows "ac_users d2 = ac_users d \<and> ac_events d2 = ac_events d \<and> ac_orgs d2 = ac_orgs d \<and> ac_members d2 = ac_members d"
  using invite_frames(1-4) [of p i t "snd (sql_expire_invites t' d)"] assms(1)
    run_same [where f = "sql_create_email j to template payload k expires t''", OF email_frames(1) assms(2)]
  by (simp add: frames)

lemma uninvite_same:
  assumes "sql_revoke_invite i org t d = (Inr iv, d1)" "sql_cancel_emails k d1 = (Inr (), d2)"
  shows "ac_users d2 = ac_users d \<and> ac_events d2 = ac_events d \<and> ac_orgs d2 = ac_orgs d \<and> ac_members d2 = ac_members d"
  using invite_frames(9-12) [where d = d and i = i and org = org and t = t] assms(1) run_same [where f = "sql_cancel_emails k", OF email_frames(2) assms(2)]
  by simp

lemma accept_same:
  assumes "sql_accept_invite i t d = (Inr iv, d1)" "sql_add_invited i u t' d1 = (Inr m, d2)" "sql_cancel_emails k d2 = (Inr (), d3)"
  shows "ac_users d3 = ac_users d \<and> ac_events d3 = ac_events d \<and> ac_orgs d3 = ac_orgs d
    \<and> ac_users d1 = ac_users d \<and> ac_orgs d1 = ac_orgs d \<and> ac_members d1 = ac_members d \<and> ac_members d3 = ac_members d2"
  using invite_frames(5-8) [where d = d and i = i and t = t] member_frames(10-12) [where d = d1 and i = i and u = u and t = t'] assms(1,2)
    run_same [where f = "sql_cancel_emails k", OF email_frames(2) assms(3)]
  by simp

lemmas email_same = email_frames [unfolded same_access_def]

lemma step_identities:
  assumes "acc_step d d'"
  shows "(\<exists>issuer subject name email i t. d' = snd (sql_upsert_user issuer subject name email i t d))
    \<or> (\<exists>u t. d' = snd (sql_disable_user u t d)) \<or> (\<exists>c t. d' = snd (sql_apply_event c t d))
    \<or> ac_users d' = ac_users d \<and> ac_events d' = ac_events d"
  using assms
proof (cases rule: acc_step.cases)
  case st_upsert
  then show ?thesis by blast
next
  case st_disable_user
  then show ?thesis by blast
next
  case st_event
  then show ?thesis by blast
next
  case st_invite
  then show ?thesis using invite_same by metis
next
  case st_uninvite
  then show ?thesis using uninvite_same by metis
next
  case st_accept
  then show ?thesis using accept_same by metis
qed (auto simp: frames email_same)

lemma step_members:
  assumes "acc_step d d'"
  shows "(\<exists>name u i t. d' = snd (sql_found_org name u i t d))
    \<or> (\<exists>org u role actor t. role \<noteq> ''owner'' \<and> d' = snd (sql_add_member org u role actor t d))
    \<or> (\<exists>org u role actor t. role \<noteq> ''owner'' \<and> d' = snd (sql_member_role org u role actor t d))
    \<or> (\<exists>org u actor t. d' = snd (sql_disable_member org u actor t d))
    \<or> (\<exists>h t iv u x t' iv' d1 t'' m d2. sql_invite_by_hash h t d = Inr iv \<and> sql_get_user u d = Inr x \<and> us_verified x
        \<and> to_lower (us_email x) = to_lower (iv_email iv) \<and> sql_accept_invite (iv_id iv) t' d = (Inr iv', d1)
        \<and> sql_add_invited (iv_id iv) u t'' d1 = (Inr m, d2) \<and> ac_members d' = ac_members d2 \<and> ac_orgs d' = ac_orgs d)
    \<or> ac_members d' = ac_members d \<and> map or_id (ac_orgs d') = map or_id (ac_orgs d)"
  using assms
proof (cases rule: acc_step.cases)
  case st_found
  then show ?thesis by metis
next
  case st_add
  then show ?thesis by metis
next
  case st_role
  then show ?thesis by metis
next
  case st_disable
  then show ?thesis by metis
next
  case st_disable_user
  then show ?thesis by (simp add: sql_disable_user_def)
next
  case (st_update_org i name' t)
  then have "map or_id (ac_orgs d') = map or_id (ac_orgs d)"
    by (simp add: sql_update_org_def statement_simps map_update_rows split: sum.split)
  with st_update_org show ?thesis by (simp add: frames)
next
  case (st_delete_org i t)
  then show ?thesis by (simp add: sql_delete_org_def map_update_rows)
next
  case st_invite
  then show ?thesis using invite_same by metis
next
  case st_uninvite
  then show ?thesis using uninvite_same by metis
next
  case st_accept
  then show ?thesis using accept_same by metis
qed (auto simp: frames email_same)

section \<open>Consistency\<close>

lemma schema_users: "holds_all access_schema d \<Longrightarrow> distinct (map us_id (ac_users d))"
  by (simp add: schema_defs)

lemma schema_members: "holds_all access_schema d \<Longrightarrow> distinct (map (\<lambda>r. (mb_org r, mb_user r)) (ac_members d))
    \<and> (\<forall>m \<in> set (ac_members d). mb_org m \<in> or_id ` set (ac_orgs d)) \<and> distinct (map or_id (ac_orgs d)) \<and> list_all invite_ok (ac_invites d)"
  by (simp add: schema_defs list_all_iff)



section \<open>A disabled identity\<close>

definition locked_out :: "string \<Rightarrow> string \<Rightarrow> access_db \<Rightarrow> bool" where
  "locked_out issuer subject d \<longleftrightarrow> barred issuer subject d
     \<and> (\<forall>u \<in> set (ac_users d). is_identity issuer subject u \<longrightarrow> us_disabled u \<noteq> None)"

lemma upsert_locked: "locked_out issuer subject d \<Longrightarrow> locked_out issuer subject (snd (sql_upsert_user issuer' subject' name email i t d))"
  using constrained_cases [of users_schema d]
  by (auto simp: locked_out_def barred_def sql_upsert_user_def with_texts_def constrained_def Let_def is_identity_def new_user_def update_rows_def
      split: option.split)

lemma apply_event_cases:
  "snd (sql_apply_event c t d) = d \<or> (\<exists>b ss. snd (sql_apply_event c t d) = d\<lparr>ac_events := ac_events d @ [event_of c t],
     ac_users := (if b then update_rows (event_changes c) (changed_user c t (ac_users d)) (ac_users d) else ac_users d), ac_sessions := ss\<rparr>)"
proof -
  have "\<exists>raw b ss. raw = d\<lparr>ac_events := ac_events d @ [event_of c t],
     ac_users := (if b then update_rows (event_changes c) (changed_user c t (ac_users d)) (ac_users d) else ac_users d), ac_sessions := ss\<rparr>
     \<and> (snd (sql_apply_event c t d) = d \<or> snd (sql_apply_event c t d) = raw)"
    unfolding sql_apply_event_def Let_def by (intro exI conjI, rule refl, rule texts_if_constrained)
  then show ?thesis by metis
qed

lemma event_locked:
  assumes "locked_out issuer subject d"
  shows "locked_out issuer subject (snd (sql_apply_event c t d))"
proof -
  have "us_disabled u \<noteq> None \<Longrightarrow> us_disabled (changed_user c t us u) \<noteq> None" for u us
    by (simp add: changed_user_def)
  then have "locked_out issuer subject (d\<lparr>ac_events := ac_events d @ [event_of c t],
     ac_users := (if b then update_rows (event_changes c) (changed_user c t (ac_users d)) (ac_users d) else ac_users d), ac_sessions := ss\<rparr>)" for b ss
    using assms by (auto simp: locked_out_def barred_def update_rows_def)
  with assms apply_event_cases [of c t d] show ?thesis by metis
qed

lemma step_locked:
  assumes "acc_step d d'" "locked_out issuer subject d"
  shows "locked_out issuer subject d'"
  using step_identities [OF assms(1)]
proof (elim disjE exE conjE)
  fix u t
  assume "d' = snd (sql_disable_user u t d)"
  with assms(2) show ?thesis by (auto simp: locked_out_def barred_def sql_disable_user_def update_rows_def is_identity_def)
next
  assume "ac_users d' = ac_users d" "ac_events d' = ac_events d"
  with assms(2) show ?thesis by (simp add: locked_out_def barred_def)
qed (simp_all add: upsert_locked event_locked assms(2))

lemma recorded_event:
  assumes "sql_apply_event c t d = (Inr x, d')" "\<not> list_ex (\<lambda>e. ie_issuer e = ic_issuer c \<and> ie_event e = ic_event c) (ac_events d)"
  shows "ac_events d' = ac_events d @ [event_of c t] \<and> (ic_disable c \<longrightarrow>
    ac_users d' = update_rows (event_changes c) (changed_user c t (ac_users d)) (ac_users d))"
proof -
  have "\<exists>raw. d' = raw \<and> ac_events raw = ac_events d @ [event_of c t] \<and> (ic_disable c \<longrightarrow>
    ac_users raw = update_rows (event_changes c) (changed_user c t (ac_users d)) (ac_users d))"
    by (rule exI, rule conjI, rule constrained_if_Inr [OF assms(1) [unfolded sql_apply_event_def Let_def] assms(2)]) simp
  then show ?thesis by blast
qed

lemma receive_locks:
  assumes "run_state (receive_event S r) w = (Inr (), w')" and "wd_verdict r = Inr e" "we_type e = ''user.updated'' \<or> we_type e = ''user.deleted''"
    and "disables_user e" and fresh: "\<forall>x \<in> set (ac_events (sw_db w)). \<not> (ie_issuer x = kc_issuer (as_kinde S) \<and> ie_event x = we_id e)"
  shows "locked_out (kc_issuer (as_kinde S)) (kinde_subject e) (sw_db w')"
proof -
  let ?c = "change_of S e" and ?d = "sw_db w"
  from assms(1-3) obtain x where "run_state (acc_exec S (\<lambda>se. sql_apply_event ?c (sq_now se))) w = (Inr x, w')"
    unfolding receive_event_def by (auto simp: handle_fail_Inr split: if_splits)
  then obtain t where applied: "sql_apply_event ?c t ?d = (Inr x, sw_db w')"
    unfolding acc_exec_def by (auto dest!: sql_exec_Inr)
  have c: "ic_disable ?c" "ic_issuer ?c = kc_issuer (as_kinde S)" "ic_subject ?c = kinde_subject e" "ic_event ?c = we_id e"
    using assms(4) by (simp_all add: change_of_def)
  have "\<not> list_ex (\<lambda>x. ie_issuer x = ic_issuer ?c \<and> ie_event x = ic_event ?c) (ac_events ?d)"
    using fresh by (simp add: list_ex_iff c)
  from recorded_event [OF applied this] c(1) have "ac_events (sw_db w') = ac_events ?d @ [event_of ?c t]"
    "ac_users (sw_db w') = update_rows (event_changes ?c) (changed_user ?c t (ac_users ?d)) (ac_users ?d)" by simp_all
  then show ?thesis
    by (auto simp: locked_out_def barred_def event_of_def c update_rows_def event_changes_def changed_user_def)
qed

lemma enabled_not_locked:
  assumes "locked_out issuer subject d" "holds_all access_schema d" "enabled_user d i" "u \<in> set (ac_users d)" "us_id u = i"
  shows "\<not> is_identity issuer subject u"
proof -
  from assms(3) obtain v where v: "v \<in> set (ac_users d)" "us_id v = i" "us_disabled v = None" by (auto simp: enabled_user_def list_ex_iff)
  with schema_users [OF assms(2)] assms(4,5) have "u = v" by (auto simp: distinct_map inj_on_def)
  with assms(1) v show ?thesis by (auto simp: locked_out_def)
qed

lemma session_get_Inr:
  assumes "run_state (session_get S v) w = (Inr s, w')"
  obtains t where "s \<in> set (ac_sessions (sw_db w))" "se_hash s = token_hash S v" "live_session t (sw_db w) s" "sw_db w' = sw_db w" "trim_space v \<noteq> []"
proof -
  from assms obtain w1 where q: "run_state (sql_query (as_env S) (\<lambda>se. sql_session_by_hash (token_hash S v) (sq_now se))) w = (Inr s, w1)"
    and w': "sw_db w' = sw_db w1" "trim_space v \<noteq> []"
    unfolding session_get_def acc_query_def by (auto simp: handle_fail_Inr split: if_splits)
  from sql_query_Inr [OF q] have "sql_session_by_hash (token_hash S v) (sq_now (as_env S (sw_tick w))) (sw_db w) = Inr s" "sw_db w1 = sw_db w" by auto
  with w' show thesis by (auto simp: sql_session_by_hash_def dest: one_row_Inr intro: that)
qed

lemma resolve_principal_session:
  assumes "run_state (resolve_principal S Credential_Session v) w = (Inr p, w')"
  obtains s t w1 where "s \<in> set (ac_sessions (sw_db w))" "se_hash s = token_hash S v" "live_session t (sw_db w) s"
    "p = \<lparr>pr_subject = se_user s, pr_kind = Subject_User, pr_credential = se_id s, pr_type = Credential_Session,
          pr_org = uuid_nil, pr_scopes = [], pr_assurance = parse_assurance (se_assurance s)\<rparr>"
    "run_state (session_get S v) w = (Inr s, w1)" "run_state (session_refresh S s) w1 = (Inr (), w')"
proof -
  from assms obtain s w1 where s: "run_state (session_get S v) w = (Inr s, w1)" "run_state (session_refresh S s) w1 = (Inr (), w')"
    and p: "p = \<lparr>pr_subject = se_user s, pr_kind = Subject_User, pr_credential = se_id s, pr_type = Credential_Session,
          pr_org = uuid_nil, pr_scopes = [], pr_assurance = parse_assurance (se_assurance s)\<rparr>"
    unfolding resolve_principal_def resolve_session_def by (auto simp: chain_Inr handle_fail_Inr split: if_splits)
  from s(1) show thesis by (rule session_get_Inr) (rule that [OF _ _ _ p s])
qed

lemma callback_enabled:
  assumes "run_state (auth_callback S r) w = (Inr (v, s), w')"
  shows "enabled_user (sw_db w') (se_user s)"
proof -
  from assms obtain a w1 where "run_state (callback_session S r a) w1 = (Inr (v, s), w')"
    unfolding auth_callback_def by (auto simp: map_error_Inr chain_Inr split: if_splits)
  then obtain u subject sid tokens w2 where "run_state (session_create S u subject sid tokens) w2 = (Inr (v, s), w')"
    unfolding callback_session_def by (auto simp: chain_Inr split: prod.splits)
  then have "\<exists>p i t d. sql_create_session p i t d = (Inr s, sw_db w')"
    unfolding session_create_def acc_exec_def by (auto simp: chain_Inr split: if_splits dest!: sql_exec_Inr)
  then obtain p i t d where "sql_create_session p i t d = (Inr s, sw_db w')" by blast
  then have "ac_users (sw_db w') = ac_users d" "se_user s = sp_user p" "enabled_user d (sp_user p)"
    using session_frames(1) [of p i t d] unfolding sql_create_session_def
    by (auto simp: new_session_def split: if_splits dest!: with_texts_Inr constrained_Inr)
  then show ?thesis by (simp add: enabled_user_def)
qed

text \<open>
  C15: once the receiver has acknowledged a signed event that suspends or deletes an identity, that identity is out for
  good: after any further sign-ins, events (also older or replayed ones) and other operations, no session of it
  authenticates a request, and its sign-in is refused.
\<close>

theorem disabled_identity_stays_out:
  assumes "holds_all access_schema (sw_db w)"
    and "run_state (receive_event S r) w = (Inr (), w1)" and "wd_verdict r = Inr e" "we_type e = ''user.updated'' \<or> we_type e = ''user.deleted''"
    and "disables_user e" and "\<forall>x \<in> set (ac_events (sw_db w)). \<not> (ie_issuer x = kc_issuer (as_kinde S) \<and> ie_event x = we_id e)"
    and "w2 = run_access S' ops w1"
  shows "(\<forall>v p w3. run_state (resolve_principal S' Credential_Session v) w2 = (Inr p, w3) \<longrightarrow>
       (\<forall>u \<in> set (ac_users (sw_db w2)). us_id u = pr_subject p \<longrightarrow> \<not> is_identity (kc_issuer (as_kinde S)) (kinde_subject e) u))
     \<and> (\<forall>q v s w3. run_state (auth_callback S' q) w2 = (Inr (v, s), w3) \<longrightarrow>
       (\<forall>u \<in> set (ac_users (sw_db w3)). us_id u = se_user s \<longrightarrow> \<not> is_identity (kc_issuer (as_kinde S)) (kinde_subject e) u))"
proof (intro conjI allI impI ballI)
  have "holds_all access_schema (sw_db w1)"
    using access_invariant [where I = "holds_all access_schema", OF step_valid, where w = w and S = S and ops = "[A_Receive r]"] assms(1,2) by (simp add: run_access_def)
  then have valid: "holds_all access_schema (sw_db w2)"
    unfolding assms(7) by (rule access_invariant [where I = "holds_all access_schema", rotated]) (rule step_valid)
  have out: "locked_out (kc_issuer (as_kinde S)) (kinde_subject e) (sw_db w2)"
    unfolding assms(7) using receive_locks [OF assms(2-6)] by (rule access_invariant [rotated]) (rule step_locked)
  show "\<not> is_identity (kc_issuer (as_kinde S)) (kinde_subject e) u"
    if "run_state (resolve_principal S' Credential_Session v) w2 = (Inr p, w3)" and u: "u \<in> set (ac_users (sw_db w2))" "us_id u = pr_subject p" for v p w3 u
    using that(1)
  proof (rule resolve_principal_session)
    fix s t'
    assume s: "live_session t' (sw_db w2) s" and p: "p = \<lparr>pr_subject = se_user s, pr_kind = Subject_User, pr_credential = se_id s,
        pr_type = Credential_Session, pr_org = uuid_nil, pr_scopes = [], pr_assurance = parse_assurance (se_assurance s)\<rparr>"
    then have "enabled_user (sw_db w2) (se_user s)" "us_id u = se_user s" using u(2) by (simp_all add: live_session_def)
    then show ?thesis by (rule enabled_not_locked [OF out valid _ u(1)])
  qed
  show "\<not> is_identity (kc_issuer (as_kinde S)) (kinde_subject e) u"
    if again: "run_state (auth_callback S' q) w2 = (Inr (v, s), w3)" and u: "u \<in> set (ac_users (sw_db w3))" "us_id u = se_user s" for q v s w3 u
  proof -
    have w3: "w3 = run_access S' [A_Callback q] w2" using again by (simp add: run_access_def)
    have "holds_all access_schema (sw_db w3)"
      unfolding w3 using valid by (rule access_invariant [rotated]) (rule step_valid)
    moreover have "locked_out (kc_issuer (as_kinde S)) (kinde_subject e) (sw_db w3)"
      unfolding w3 using out by (rule access_invariant [rotated]) (rule step_locked)
    ultimately show ?thesis using callback_enabled [OF again] u enabled_not_locked by metis
  qed
qed

definition demo_deletion :: webhook_delivery where
  "demo_deletion = \<lparr>wd_media = Some ''application/jwt'', wd_id = ''m1'', wd_body = Some ''jwt'', wd_verdict = Inr \<lparr>we_id = ''e1'', we_type = ''user.deleted'',
     we_at = 900, we_data_id = [], we_user_id = ''kp_b'', we_first = None, we_last = None, we_email = None, we_suspended = None\<rparr>\<rparr>"

theorem disabled_identity_stays_out_witness:
  "\<nexists>v p w3 u. run_state (resolve_principal demo_access Credential_Session v)
       (run_access demo_access [A_Login] (snd (run_state (receive_event demo_access demo_deletion) demo_access_world))) = (Inr p, w3)
     \<and> u \<in> set (ac_users (sw_db (run_access demo_access [A_Login] (snd (run_state (receive_event demo_access demo_deletion) demo_access_world)))))
     \<and> us_id u = pr_subject p \<and> is_identity ''https://id'' ''kp_b'' u"
proof -
  define e where "e = projr (wd_verdict demo_deletion)"
  have v: "wd_verdict demo_deletion = Inr e" "kc_issuer (as_kinde demo_access) = ''https://id''" "kinde_subject e = ''kp_b''"
    "disables_user e" "we_type e = ''user.deleted''"
    by (simp_all add: e_def demo_deletion_def demo_access_def demo_kinde_def kinde_subject_def disables_user_def)
  have "fst (sql_apply_event (change_of demo_access e) 1000 demo_tenants) = Inr (True, 0)"
    unfolding change_of_def v(2) e_def demo_deletion_def by code_simp
  then obtain d where d: "sql_apply_event (change_of demo_access e) 1000 demo_tenants = (Inr (True, 0), d)" by (metis prod.collapse)
  have "wd_media demo_deletion = Some ''application/jwt''" "trim_space (wd_id demo_deletion) = ''m1''" "wd_body demo_deletion = Some ''jwt''"
    by code_simp+
  with d v obtain w1 where w1: "run_state (receive_event demo_access demo_deletion) demo_access_world = (Inr (), w1)"
    by (simp add: receive_event_def acc_exec_def sql_exec_def run_combinators demo_sql_def demo_access_world_def)
  have "holds_all access_schema (sw_db demo_access_world)" "ac_events (sw_db demo_access_world) = []"
    by (simp_all add: demo_access_world_def demo_tenants_valid) (simp add: demo_tenants_def)
  with disabled_identity_stays_out [OF _ w1 v(1) _ v(4), of _ demo_access "[A_Login]"] v w1 show ?thesis by simp blast
qed

end
