(* ===== verification/Acc_Tenants.thy ===== *)
theory Acc_Tenants
  imports Acc_Safety
begin

text \<open>
  Organizations over the histories of identity and tenancy: the founder stays the only owner, and a membership that was
  removed never comes back.
\<close>

section \<open>What a statement leaves of the members\<close>

lemma found_cases: "snd (sql_found_org name u i t d) = d \<or> (i \<notin> or_id ` set (ac_orgs d) \<and> snd (sql_found_org name u i t d)
    = d\<lparr>ac_orgs := ac_orgs d @ [new_org i name t], ac_members := ac_members d @ [new_member i u ''owner'' t]\<rparr>)"
  using written_cases [of "[name]" d "\<not> enabled_user d u" "Inl err_no_rows" "orgs_schema @ members_schema" "Inr (new_org i name t)"
      "d\<lparr>ac_orgs := ac_orgs d @ [new_org i name t], ac_members := ac_members d @ [new_member i u ''owner'' t]\<rparr>"]
  by (auto simp: sql_found_org_def orgs_schema_def new_org_def)

lemma found_Inr:
  assumes "sql_found_org name u i t d = (Inr r, d')"
  shows "r = new_org i name t \<and> i \<notin> or_id ` set (ac_orgs d)
    \<and> d' = d\<lparr>ac_orgs := ac_orgs d @ [new_org i name t], ac_members := ac_members d @ [new_member i u ''owner'' t]\<rparr>"
proof -
  let ?d = "d\<lparr>ac_orgs := ac_orgs d @ [new_org i name t], ac_members := ac_members d @ [new_member i u ''owner'' t]\<rparr>"
  have "constrained (orgs_schema @ members_schema) d (Inr (new_org i name t), ?d) = (Inr r, d')"
    using assms by (simp add: sql_found_org_def with_texts_def split: if_splits)
  from constrained_Inr [OF this] have "r = new_org i name t" "d' = ?d" "distinct (map or_id (ac_orgs d'))"
    unfolding orgs_schema_def by auto
  then show ?thesis by (simp add: new_org_def)
qed

lemma add_cases: "snd (sql_add_member org u role actor t d) = d \<or> ((org, u) \<notin> (\<lambda>m. (mb_org m, mb_user m)) ` set (ac_members d)
    \<and> snd (sql_add_member org u role actor t d) = d\<lparr>ac_members := ac_members d @ [new_member org u role t]\<rparr>)"
  using written_cases [of "[role]" d "\<not> enabled_user d u \<or> \<not> acts_for d org actor" "Inl err_no_rows" members_schema "Inr (new_member org u role t)"
      "d\<lparr>ac_members := ac_members d @ [new_member org u role t]\<rparr>"]
  by (auto simp: sql_add_member_def members_schema_def new_member_def)

lemma role_cases: "snd (sql_member_role org u role actor t d) = d \<or> snd (sql_member_role org u role actor t d)
    = d\<lparr>ac_members := update_rows (changeable_member d org u actor) (\<lambda>m. m\<lparr>mb_role := role, mb_updated := t\<rparr>) (ac_members d)\<rparr>"
proof (cases "one_row (changeable_member d org u actor) (ac_members d)")
  case (Inr m)
  then show ?thesis
    using constrained_cases [of members_schema d "(Inr (m\<lparr>mb_role := role, mb_updated := t\<rparr>),
      d\<lparr>ac_members := update_rows (changeable_member d org u actor) (\<lambda>m. m\<lparr>mb_role := role, mb_updated := t\<rparr>) (ac_members d)\<rparr>)"]
    by (auto simp: sql_member_role_def with_texts_def)
qed (simp add: sql_member_role_def with_texts_def)

lemma invited_cases:
  assumes "sql_add_invited i u t d = (Inr m, d')"
  obtains r where "r \<in> set (ac_invites d)" "(iv_org r, u) \<notin> (\<lambda>m. (mb_org m, mb_user m)) ` set (ac_members d)"
    "ac_members d' = ac_members d @ [new_member (iv_org r) u (iv_role r) t]"
proof -
  from assms obtain r where r: "one_row (invited t d i u) (ac_invites d) = Inr r" by (auto simp: sql_add_invited_def split: sum.splits)
  let ?d = "d\<lparr>ac_members := ac_members d @ [new_member (iv_org r) u (iv_role r) t]\<rparr>"
  have "constrained members_schema d (Inr (new_member (iv_org r) u (iv_role r) t), ?d) = (Inr m, d')"
    using assms r by (simp add: sql_add_invited_def)
  from constrained_Inr [OF this] have d': "d' = ?d" "distinct (map (\<lambda>r. (mb_org r, mb_user r)) (ac_members d'))"
    unfolding members_schema_def by auto
  show thesis
    by (rule that [of r]) (use one_row_Inr [OF r] d' in \<open>auto simp: new_member_def\<close>)
qed

lemma accepted_roles: "sql_accept_invite i t d = (Inr iv, d') \<Longrightarrow> list_all invite_ok (ac_invites d) \<Longrightarrow> r \<in> set (ac_invites d') \<Longrightarrow> iv_role r \<noteq> ''owner''"
proof -
  assume a: "sql_accept_invite i t d = (Inr iv, d')" "list_all invite_ok (ac_invites d)" "r \<in> set (ac_invites d')"
  from a(1) have "ac_invites d' = update_rows (\<lambda>r. iv_id r = i \<and> pending_invite t r)
      (\<lambda>r. r\<lparr>iv_status := ''accepted'', iv_accepted := Some t, iv_updated := t\<rparr>) (ac_invites d)"
    by (auto simp: sql_accept_invite_def Let_def split: sum.splits)
  with a(3) obtain x where "x \<in> set (ac_invites d)" "iv_role r = iv_role x" by (auto dest!: set_update_rows split: if_splits)
  with a(2) show ?thesis by (auto simp: list_all_iff invite_ok_def)
qed

lemma step_keeps_orgs: "acc_step d d' \<Longrightarrow> or_id ` set (ac_orgs d) \<subseteq> or_id ` set (ac_orgs d')"
proof (drule step_members, elim disjE exE conjE)
  show ?thesis if "d' = snd (sql_found_org name u i t d)" for name u i t
    using found_cases [of name u i t d] that by auto
  show ?thesis if "d' = snd (sql_add_member org u role actor t d)" for org u role actor t
    using that by (simp add: frames)
  show ?thesis if "d' = snd (sql_member_role org u role actor t d)" for org u role actor t
    using that by (simp add: frames)
  show ?thesis if "d' = snd (sql_disable_member org u actor t d)" for org u actor t
    using that by (simp add: frames)
  show ?thesis if "map or_id (ac_orgs d') = map or_id (ac_orgs d)"
    using that by (metis image_set subset_refl)
qed simp

section \<open>The owner of an organization\<close>

definition owner_rows :: "access_db \<Rightarrow> uuid \<Rightarrow> member_row list" where
  "owner_rows d org = filter (\<lambda>m. mb_org m = org \<and> mb_role m = ''owner'') (ac_members d)"

lemma filter_update_rows: "(\<And>x. x \<in> set xs \<Longrightarrow> p x \<Longrightarrow> \<not> q x \<and> \<not> q (f x)) \<Longrightarrow> filter q (update_rows p f xs) = filter q xs"
  by (induction xs) (auto simp: update_rows_def)

lemma step_owner:
  assumes "acc_step d d'" "holds_all access_schema d" "org \<in> or_id ` set (ac_orgs d)"
  shows "owner_rows d' org = owner_rows d org"
  using step_members [OF assms(1)]
proof (elim disjE exE conjE)
  show ?thesis if "d' = snd (sql_found_org name u i t d)" for name u i t
    using found_cases [of name u i t d] that assms(3) by (auto simp: owner_rows_def new_member_def)
  show ?thesis if "d' = snd (sql_add_member o' u role actor t d)" "role \<noteq> ''owner''" for o' u role actor t
    using add_cases [of o' u role actor t d] that by (auto simp: owner_rows_def new_member_def)
  show ?thesis if "d' = snd (sql_member_role o' u role actor t d)" "role \<noteq> ''owner''" for o' u role actor t
    using role_cases [of o' u role actor t d] that by (auto simp: owner_rows_def changeable_member_def intro!: filter_update_rows)
  show ?thesis if "d' = snd (sql_disable_member o' u actor t d)" for o' u actor t
    using that by (auto simp: owner_rows_def sql_disable_member_def changeable_member_def intro!: filter_update_rows)
  show ?thesis if "ac_members d' = ac_members d" using that by (simp add: owner_rows_def)
  show ?thesis if "sql_accept_invite (iv_id iv) t' d = (Inr iv', d1)" and added: "sql_add_invited (iv_id iv) u t'' d1 = (Inr m, d2)" and ms: "ac_members d' = ac_members d2"
    for iv t' iv' d1 u t'' m d2
  proof -
    have same: "ac_members d1 = ac_members d" using invite_frames(8) [of "iv_id iv" t' d] that(1) by simp
    have "list_all invite_ok (ac_invites d)" using schema_members [OF assms(2)] by blast
    moreover obtain r where "r \<in> set (ac_invites d1)" and d2: "ac_members d2 = ac_members d1 @ [new_member (iv_org r) u (iv_role r) t'']"
      by (rule invited_cases [OF added])
    ultimately have "iv_role r \<noteq> ''owner''" using accepted_roles [OF that(1)] by blast
    with d2 same show ?thesis using ms by (auto simp: owner_rows_def new_member_def)
  qed
qed

text \<open>
  C17: whoever creates an organization is its only owner for good: after any history of operations, by whomever, the rows of the
  organization with the role owner are exactly the active one its creation wrote.
\<close>

theorem founder_stays_owner:
  assumes "holds_all access_schema (sw_db w)" and "run_state (org_create S u name) w = (Inr r, w1)"
  shows "owner_rows (sw_db (run_access S' ops w1)) (rs_id r) = [new_member (rs_id r) u ''owner'' (rs_created r)]"
proof -
  let ?o = "rs_id r"
  from assms(2) obtain name' i t row where found: "sql_found_org name' u i t (sw_db w) = (Inr row, sw_db w1)" and r: "r = org_response_of row ''owner''"
    unfolding org_create_def acc_exec_def by (auto simp: chain_Inr handle_fail_Inr split: if_splits dest!: sql_exec_Inr)
  then have row: "row = new_org i name' t" "sw_db w1 = (sw_db w)\<lparr>ac_orgs := ac_orgs (sw_db w) @ [new_org i name' t],
      ac_members := ac_members (sw_db w) @ [new_member i u ''owner'' t]\<rparr>" and new: "i \<notin> or_id ` set (ac_orgs (sw_db w))"
    using found_Inr [OF found] by blast+
  have i: "?o = i" "rs_created r = t" using r row(1) by (simp_all add: org_response_of_def new_org_def)
  have "\<forall>m \<in> set (ac_members (sw_db w)). mb_org m \<noteq> i" using schema_members [OF assms(1)] new by auto
  then have own: "owner_rows (sw_db w1) i = [new_member i u ''owner'' t]"
    by (auto simp: owner_rows_def row(2) new_member_def filter_empty_conv)
  have "holds_all access_schema (sw_db w1)"
    using step_valid [OF _ assms(1)] acc_step.st_found [of "sw_db w" name' u i t] found by simp
  with own row(2) have "holds_all access_schema (sw_db w1) \<and> i \<in> or_id ` set (ac_orgs (sw_db w1))
      \<and> owner_rows (sw_db w1) i = [new_member i u ''owner'' t]" by (simp add: new_org_def)
  then have "holds_all access_schema (sw_db (run_access S' ops w1)) \<and> i \<in> or_id ` set (ac_orgs (sw_db (run_access S' ops w1)))
      \<and> owner_rows (sw_db (run_access S' ops w1)) i = [new_member i u ''owner'' t]"
  proof (rule access_invariant [rotated])
    fix d d'
    assume "acc_step d d'" "holds_all access_schema d \<and> i \<in> or_id ` set (ac_orgs d) \<and> owner_rows d i = [new_member i u ''owner'' t]"
    then show "holds_all access_schema d' \<and> i \<in> or_id ` set (ac_orgs d') \<and> owner_rows d' i = [new_member i u ''owner'' t]"
      using step_valid step_keeps_orgs step_owner by (metis subsetD)
  qed
  with i show ?thesis by simp
qed

theorem founder_stays_owner_witness:
  "owner_rows (sw_db (run_access demo_access [A_Remove (UUID ''b'') (UUID ''f1'') (UUID ''a''), A_Delete_User (UUID ''a'')]
     (snd (run_state (org_create demo_access (UUID ''a'') ''new'') demo_access_world)))) (UUID ''f1'')
   = [new_member (UUID ''f1'') (UUID ''a'') ''owner'' 1000]"
proof -
  let ?n = "new_org (UUID ''f1'') ''new'' 1000"
  have "fst (sql_found_org ''new'' (UUID ''a'') (UUID ''f1'') 1000 demo_tenants) = Inr ?n"
    and v: "required_user (UUID ''a'') = None" "normalize_required ''new'' ''name'' = Inr ''new''"
    by code_simp+
  then obtain d where f: "sql_found_org ''new'' (UUID ''a'') (UUID ''f1'') 1000 demo_tenants = (Inr ?n, d)" by (metis prod.collapse)
  obtain w1 where run: "run_state (org_create demo_access (UUID ''a'') ''new'') demo_access_world = (Inr (org_response_of ?n ''owner''), w1)"
    using f by (simp add: org_create_def v acc_exec_def sql_exec_def run_combinators demo_sql_def demo_access_world_def of_check_def)
  have "holds_all access_schema (sw_db demo_access_world)" by (simp add: demo_access_world_def demo_tenants_valid)
  from founder_stays_owner [OF this run, of demo_access] show ?thesis by (simp add: run) (simp add: org_response_of_def new_org_def)
qed

section \<open>A removed membership\<close>

definition removed :: "uuid \<Rightarrow> uuid \<Rightarrow> access_db \<Rightarrow> bool" where
  "removed org u d \<longleftrightarrow> (org, u) \<in> (\<lambda>m. (mb_org m, mb_user m)) ` set (ac_members d)
     \<and> (\<forall>m \<in> set (ac_members d). mb_org m = org \<and> mb_user m = u \<longrightarrow> mb_status m = ''disabled'')"

lemma removed_update: "removed org u d \<Longrightarrow> (\<And>m. p m \<Longrightarrow> mb_status m = ''active'') \<Longrightarrow> (\<And>m. mb_org (f m) = mb_org m \<and> mb_user (f m) = mb_user m)
    \<Longrightarrow> ac_members d' = update_rows p f (ac_members d) \<Longrightarrow> removed org u d'"
  by (fastforce simp: removed_def update_rows_def image_iff)

lemma removed_append: "removed org u d \<Longrightarrow> ac_members d' = ac_members d @ [m] \<Longrightarrow> (mb_org m, mb_user m) \<noteq> (org, u) \<Longrightarrow> removed org u d'"
  by (auto simp: removed_def)

lemma step_removed:
  assumes "acc_step d d'" "holds_all access_schema d \<and> removed org u d"
  shows "holds_all access_schema d' \<and> removed org u d'"
proof
  show "holds_all access_schema d'" using step_valid assms by blast
  have gone: "removed org u d" using assms(2) ..
  show "removed org u d'" using step_members [OF assms(1)]
  proof (elim disjE exE conjE)
    show ?thesis if d': "d' = snd (sql_found_org name x i t d)" for name x i t
      using found_cases [of name x i t d]
    proof
      assume "i \<notin> or_id ` set (ac_orgs d) \<and> snd (sql_found_org name x i t d)
        = d\<lparr>ac_orgs := ac_orgs d @ [new_org i name t], ac_members := ac_members d @ [new_member i x ''owner'' t]\<rparr>"
      moreover have "org \<in> or_id ` set (ac_orgs d)" using gone schema_members assms(2) by (auto simp: removed_def)
      ultimately show ?thesis using d' by (intro removed_append [OF gone]) (auto simp: new_member_def)
    qed (simp add: d' gone)
    show ?thesis if d': "d' = snd (sql_add_member o' x role actor t d)" for o' x role actor t
      using add_cases [of o' x role actor t d]
    proof
      assume "(o', x) \<notin> (\<lambda>m. (mb_org m, mb_user m)) ` set (ac_members d)
        \<and> snd (sql_add_member o' x role actor t d) = d\<lparr>ac_members := ac_members d @ [new_member o' x role t]\<rparr>"
      with d' gone show ?thesis by (intro removed_append [OF gone]) (auto simp: new_member_def removed_def)
    qed (simp add: d' gone)
    show ?thesis if d': "d' = snd (sql_member_role o' x role actor t d)" for o' x role actor t
      using role_cases [of o' x role actor t d]
    proof
      assume "snd (sql_member_role o' x role actor t d) = d\<lparr>ac_members :=
        update_rows (changeable_member d o' x actor) (\<lambda>m. m\<lparr>mb_role := role, mb_updated := t\<rparr>) (ac_members d)\<rparr>"
      then show ?thesis unfolding d' by (intro removed_update [OF gone]) (auto simp: changeable_member_def)
    qed (simp add: d' gone)
    show ?thesis if "d' = snd (sql_disable_member o' x actor t d)" for o' x actor t
      unfolding that sql_disable_member_def by (rule removed_update [OF gone, where p = "changeable_member d o' x actor"])
        (auto simp: changeable_member_def)
    show ?thesis if "ac_members d' = ac_members d" using that gone by (simp add: removed_def)
    show ?thesis if "sql_accept_invite (iv_id iv) t' d = (Inr iv', d1)" and added: "sql_add_invited (iv_id iv) x t'' d1 = (Inr m, d2)" and ms: "ac_members d' = ac_members d2"
      for iv t' iv' d1 x t'' m d2
    proof -
      have same: "ac_members d1 = ac_members d" using invite_frames(8) [of "iv_id iv" t' d] that(1) by simp
      obtain r :: invite_row where "(iv_org r, x) \<notin> (\<lambda>m. (mb_org m, mb_user m)) ` set (ac_members d1)"
        "ac_members d2 = ac_members d1 @ [new_member (iv_org r) x (iv_role r) t'']" by (rule invited_cases [OF added])
      with ms gone same show ?thesis by (intro removed_append [OF gone]) (auto simp: new_member_def removed_def)
    qed
  qed
qed

text \<open>
  C38: a member that was removed is out for good: whatever happens afterwards, also another addition by an owner or the
  acceptance of a new invitation, the member has no access to the organization.
\<close>

theorem removed_member_stays_out:
  assumes "holds_all access_schema (sw_db w)" and "run_state (member_delete S requester org u) w = (Inr (), w1)"
  shows "sql_get_member org u (sw_db (run_access S' ops w1)) = Inl err_no_rows"
proof -
  from assms(2) obtain w2 w3 m where admin: "run_state (mem_require_admin S requester org) w = (Inr (), w2)"
    and member: "run_state (get_member S org u) w2 = (Inr m, w3)" "mb_role m \<noteq> ''owner''"
    and disable: "run_state (acc_exec S (\<lambda>se. sql_disable_member org u requester (sq_now se))) w3 = (Inr (), w1)"
    unfolding member_delete_def by (auto simp: chain_Inr handle_fail_Inr split: if_splits)
  from admin obtain a w4 where a: "run_state (get_member S org requester) w4 = (Inr a, w2)" "sw_db w4 = sw_db w" "mb_role a = ''owner'' \<or> mb_role a = ''admin''"
    unfolding mem_require_admin_def by (auto simp: chain_Inr handle_fail_Inr split: if_splits)
  have db: "sw_db w2 = sw_db w" "sw_db w3 = sw_db w" "sql_get_member org requester (sw_db w) = Inr a" "sql_get_member org u (sw_db w) = Inr m"
    using sql_query_Inr a(1,2) member(1) unfolding get_member_def acc_query_def by metis+
  then have "acts_for (sw_db w) org requester" using a(3)
    by (auto simp: sql_get_member_def active_role_def list_ex_iff dest!: one_row_Inr)
  moreover have m: "m \<in> set (ac_members (sw_db w))" "mb_org m = org" "mb_user m = u" "mb_status m = ''active''"
    using db(4) by (auto simp: sql_get_member_def dest!: one_row_Inr)
  ultimately have c: "changeable_member (sw_db w) org u requester m" using member(2) by (simp add: changeable_member_def)
  from sql_exec_Inr [OF disable [unfolded acc_exec_def]] db(2) obtain t where w1: "sw_db w1 = snd (sql_disable_member org u requester t (sw_db w))"
    by (metis snd_conv)
  have only: "x = m" if "x \<in> set (ac_members (sw_db w))" "mb_org x = org" "mb_user x = u" for x
    using schema_members [OF assms(1)] that m by (auto simp: distinct_map inj_on_def)
  have "removed org u (sw_db w1)"
  proof -
    let ?f = "\<lambda>m. m\<lparr>mb_status := ''disabled'', mb_updated := t\<rparr>" and ?p = "changeable_member (sw_db w) org u requester"
    have ms: "ac_members (sw_db w1) = update_rows ?p ?f (ac_members (sw_db w))" by (simp add: w1 sql_disable_member_def)
    have "?f m \<in> set (ac_members (sw_db w1))" unfolding ms using m(1) c by (force simp: update_rows_def image_iff)
    moreover have "mb_status x = ''disabled''" if "x \<in> set (ac_members (sw_db w1))" "mb_org x = org" "mb_user x = u" for x
    proof -
      from that(1) obtain r where r: "r \<in> set (ac_members (sw_db w))" "x = (if ?p r then ?f r else r)"
        unfolding ms by (blast dest: set_update_rows)
      moreover from r that(2,3) have "mb_org r = org" "mb_user r = u" by (auto split: if_splits)
      ultimately have "r = m" by (simp add: only)
      with r c show ?thesis by simp
    qed
    moreover from \<open>?f m \<in> _\<close> m(2,3) have "(org, u) \<in> (\<lambda>m. (mb_org m, mb_user m)) ` set (ac_members (sw_db w1))"
      by (intro image_eqI [of _ _ "?f m"]) simp_all
    ultimately show ?thesis by (simp add: removed_def)
  qed
  moreover have "holds_all access_schema (sw_db w1)"
    unfolding w1 by (rule step_valid [OF _ assms(1)]) (rule acc_step.st_disable)
  ultimately have "holds_all access_schema (sw_db w1) \<and> removed org u (sw_db w1)" by blast
  then have "holds_all access_schema (sw_db (run_access S' ops w1)) \<and> removed org u (sw_db (run_access S' ops w1))"
    by (rule access_invariant [rotated]) (rule step_removed)
  then show ?thesis by (auto simp: sql_get_member_def one_row_def removed_def find_None_iff split: option.splits dest!: find_Some_iff [THEN iffD1])
qed

theorem removed_member_stays_out_witness:
  "sql_get_member (UUID ''o'') (UUID ''b'') (sw_db (run_access demo_access [A_Add (UUID ''a'') (UUID ''o'') (UUID ''b'') ''member'']
     (snd (run_state (member_delete demo_access (UUID ''a'') (UUID ''o'') (UUID ''b'')) demo_access_world)))) = Inl err_no_rows"
proof -
  let ?m = "new_member (UUID ''o'') (UUID ''b'') ''member'' 30"
  have v: "required_user (UUID ''a'') = None" "required_org (UUID ''o'') = None" "required_member (UUID ''b'') = None"
    "sql_get_member (UUID ''o'') (UUID ''a'') demo_tenants = Inr (new_member (UUID ''o'') (UUID ''a'') ''owner'' 20)"
    "sql_get_member (UUID ''o'') (UUID ''b'') demo_tenants = Inr ?m"
    by code_simp+
  obtain w1 where "run_state (member_delete demo_access (UUID ''a'') (UUID ''o'') (UUID ''b'')) demo_access_world = (Inr (), w1)"
    by (simp add: member_delete_def mem_require_admin_def get_member_def acc_query_def acc_exec_def sql_exec_def run_sql_query run_combinators v
        demo_sql_def demo_access_world_def of_check_def new_member_def sql_disable_member_def)
  then show ?thesis
    using removed_member_stays_out [of demo_access_world demo_access "UUID ''a''" "UUID ''o''" "UUID ''b''"] demo_tenants_valid
    by (simp add: demo_access_world_def)
qed

end
