(* ===== verification/Acc_Admission.thy ===== *)
theory Acc_Admission
  imports Acc_Safety
begin

text \<open>
  What the admission of a request guarantees: the decision of the network policies, the address of a client behind
  trusted proxies, and the rights of whoever passes the chain of the router.
\<close>

section \<open>Network policies\<close>

definition rules :: "string \<Rightarrow> policy_row \<Rightarrow> bool" where
  "rules act p \<longleftrightarrow> np_status p = ''active'' \<and> np_action p = act"

lemma allows_from_exact:
  "allows_from has_allow matched ps a \<longleftrightarrow>
     (if list_ex (\<lambda>p. rules ''deny'' p \<and> prefix_contains (np_cidr p) a) ps then False
      else if has_allow \<or> list_ex (rules ''allow'') ps then matched \<or> list_ex (\<lambda>p. rules ''allow'' p \<and> prefix_contains (np_cidr p) a) ps
      else True)"
proof (induction ps arbitrary: has_allow matched)
  case (Cons p ps)
  show ?case
    by (cases "np_status p = ''active''"; cases "np_action p = ''deny''"; cases "np_action p = ''allow''"; cases "prefix_contains (np_cidr p) a")
      (simp_all add: rules_def [abs_def] Cons.IH)
qed simp

text \<open>
  A source is admitted exactly when no active deny rule contains it and, if there is any active allow rule at all,
  one of them contains it; the order of the rules and the disabled ones do not matter.
\<close>

theorem policies_allow_exact:
  "policies_allow ps a = (if list_ex (\<lambda>p. rules ''deny'' p \<and> prefix_contains (np_cidr p) a) ps then False
     else if list_ex (rules ''allow'') ps then list_ex (\<lambda>p. rules ''allow'' p \<and> prefix_contains (np_cidr p) a) ps
     else True)"
  by (simp add: policies_allow_def allows_from_exact)

lemma policies_allow_set: "set ps = set qs \<Longrightarrow> policies_allow ps a = policies_allow qs a"
  by (auto simp: policies_allow_def allows_from_exact list_ex_iff)

section \<open>The address of a client\<close>

lemma split_on_nonempty: "split_on c xs \<noteq> []"
  by (induction xs) (auto split: list.split)

lemma split_on_append: "split_on c (xs @ c # ys) = split_on c xs @ split_on c ys"
  by (induction xs) (auto split: list.split simp: split_on_nonempty)

lemma split_on_word: "c \<notin> set xs \<Longrightarrow> split_on c xs = [xs]"
  by (induction xs) auto

text \<open>A hop of the header that a trusted proxy added for another trusted proxy.\<close>

definition proxy_hop :: "prefix list \<Rightarrow> string \<Rightarrow> bool" where
  "proxy_hop proxies h \<longleftrightarrow> CHR '','' \<notin> set h \<and> (case parse_addr (trim_space h) of None \<Rightarrow> False | Some a \<Rightarrow> is_trusted proxies (unmap a))"

lemma split_on_hops: "list_all (proxy_hop proxies) hops \<Longrightarrow> CHR '','' \<notin> set h
    \<Longrightarrow> split_on CHR '','' (h @ concat (map ((#) CHR '','') hops)) = h # hops"
proof (induction hops arbitrary: h)
  case (Cons x xs)
  then have "split_on CHR '','' (x @ concat (map ((#) CHR '','') xs)) = x # xs" by (simp add: proxy_hop_def)
  then show ?case using Cons.prems split_on_append [of "CHR '',''" h "x @ concat (map ((#) CHR '','') xs)"] by (simp add: split_on_word)
qed (simp add: split_on_word)

lemma skip_hops: "list_all (proxy_hop proxies) hops \<Longrightarrow> forwarded_client proxies peer (hops @ rest) = forwarded_client proxies peer rest"
  by (induction hops) (auto simp: proxy_hop_def split: option.splits)

text \<open>
  C27: a client cannot choose its address: behind a trusted peer the address is the one its outermost trusted proxy saw,
  whatever the client wrote into \<open>X-Forwarded-For\<close> before it.
\<close>

theorem forged_hops_ignored:
  assumes "list_all (proxy_hop proxies) hops" and "CHR '','' \<notin> set h" and "parse_addr (trim_space h) = Some a" and "\<not> is_trusted proxies (unmap a)"
    and "parse_addr (case split_host_port (trim_space remote) of Some x \<Rightarrow> x | None \<Rightarrow> trim_space remote) = Some peer" and "is_trusted proxies (unmap peer)"
  shows "client_address proxies remote (forged @ CHR '','' # h @ concat (map ((#) CHR '','') hops)) = Some (unmap a)"
proof -
  have "rev (split_on CHR '','' (forged @ CHR '','' # h @ concat (map ((#) CHR '','') hops))) = rev hops @ h # rev (split_on CHR '','' forged)"
    using split_on_append [of "CHR '',''" forged] split_on_hops [OF assms(1,2)] by simp
  moreover have "forwarded_client proxies (unmap peer) (rev hops @ h # rev (split_on CHR '','' forged)) = Some (unmap a)"
    using skip_hops [of proxies "rev hops"] assms(1,3,4) by simp
  ultimately show ?thesis using assms(5,6) by (simp add: client_address_def)
qed

theorem forged_hops_ignored_witness:
  "client_address [(V4 0x0A000000, 8)] ''10.0.0.9:443'' (''127.0.0.1'' @ CHR '','' # ''203.0.113.7'' @ concat (map ((#) CHR '','') ['' 10.0.0.2''])) = Some (V4 0xCB007107)"
proof -
  have "list_all (proxy_hop [(V4 0x0A000000, 8)]) ['' 10.0.0.2'']" "CHR '','' \<notin> set ''203.0.113.7''"
    "parse_addr (trim_space ''203.0.113.7'') = Some (V4 0xCB007107)" "\<not> is_trusted [(V4 0x0A000000, 8)] (unmap (V4 0xCB007107))"
    "parse_addr (case split_host_port (trim_space ''10.0.0.9:443'') of Some x \<Rightarrow> x | None \<Rightarrow> trim_space ''10.0.0.9:443'') = Some (V4 0x0A000009)"
    "is_trusted [(V4 0x0A000000, 8)] (unmap (V4 0x0A000009))" "unmap (V4 0xCB007107) = V4 0xCB007107"
    by code_simp+
  from forged_hops_ignored [OF this(1-6), of "''127.0.0.1''"] this(7) show ?thesis by simp
qed

section \<open>The chain of the router\<close>

lemma handle_denied_Inr:
  "run_state (handle m denied k) w = (Inr y, w') \<longleftrightarrow> (\<exists>x w1. run_state m w = (Inr x, w1) \<and> run_state (k x) w1 = (Inr y, w'))"
  by (auto simp: run_handle denied_def split: prod.splits sum.splits)

lemma access_part_with [simp]: "access_part (with_access a d) = a"
  by (simp add: access_part_def with_access_def access_db.defs)

lemma np_rows_with [simp]: "np_rows (with_access a d) = np_rows d"
  by (cases d) (simp add: with_access_def access_db.defs)

lemma lifted_Inr:
  assumes "run_state (lifted m) w = (Inr x, w')"
  obtains v where "run_state m \<lparr>sw_tick = sw_tick w, sw_db = access_part (sw_db w)\<rparr> = (Inr x, v)" "access_part (sw_db w') = sw_db v"
    "np_rows (sw_db w') = np_rows (sw_db w)"
  using assms by (auto simp: lifted_def split: prod.splits intro: that)

definition kept_tables :: "access_db \<Rightarrow> access_db \<Rightarrow> bool" where
  "kept_tables a b \<longleftrightarrow> ac_users b = ac_users a \<and> ac_orgs b = ac_orgs a \<and> ac_members b = ac_members a"

interpretation kept: sql_guarantee kept_tables
  by unfold_locales (auto simp: kept_tables_def)

lemma refresh_keeps:
  assumes "run_state (session_refresh S s) w = (r, w')"
  shows "kept_tables (sw_db w) (sw_db w')"
proof -
  have tokens: "kept_tables d (snd (sql_session_tokens i sealed t d))" for i sealed t d
    by (simp add: kept_tables_def frames)
  have "state_io_rel kept.R (refresh_tx S stored)" for stored
    unfolding refresh_tx_def acc_query_def acc_exec_def session_encrypt_def
    by (intro kept.world.g_rules kept.tick kept.refresh kept.query kept.exec tokens)
  then have "run_state (refresh_tx S stored) v = (Inr x, v') \<Longrightarrow> kept_tables (sw_db v) (sw_db v')" for stored v x v'
    using kept.run by (metis snd_conv)
  then have "state_io_rel kept.R (session_refresh S s)"
    unfolding session_refresh_def by (intro kept.world.g_rules kept.tick kept.tx)
  from kept.run [OF this, of w] assms show ?thesis by simp
qed

text \<open>The rights that admit a request: a live token with the scope, or a live session of a member with the role.\<close>

definition token_rights :: "access_service \<Rightarrow> string \<Rightarrow> http_in \<Rightarrow> policy_db \<Rightarrow> granted \<Rightarrow> bool" where
  "token_rights S resource r d g \<longleftrightarrow> (\<exists>scheme rest t now. cut_at '' '' (trim_space (hr_auth r)) = Some (scheme, rest) \<and> is_bearer scheme
     \<and> t \<in> set (ac_tokens d) \<and> tk_hash t = org_token_hash S (trim_space rest) \<and> usable_token now t \<and> open_org (access_part d) (tk_org t)
     \<and> tk_org t = oc_id (gr_org g) \<and> tk_id t = pr_subject (gr_principal g)
     \<and> has_scope (scopes_list (tk_scopes t)) (resource @ '':'' @ access_word (hr_method r)))"

definition session_rights :: "access_service \<Rightarrow> string \<Rightarrow> http_in \<Rightarrow> policy_db \<Rightarrow> granted \<Rightarrow> bool" where
  "session_rights S resource r d g \<longleftrightarrow> (\<exists>v s m now. hr_cookie r = Some v \<and> s \<in> set (ac_sessions d) \<and> se_hash s = token_hash S v
     \<and> live_session now (access_part d) s \<and> se_user s = pr_subject (gr_principal g)
     \<and> m \<in> set (ac_members d) \<and> mb_org m = oc_id (gr_org g) \<and> mb_user m = se_user s \<and> mb_status m = ''active'' \<and> open_org (access_part d) (mb_org m)
     \<and> \<not> (access_word (hr_method r) = ''write'' \<and> mb_role m = ''member'')
     \<and> \<not> (resource = ''organization'' \<and> hr_method r = ''DELETE'' \<and> mb_role m \<noteq> ''owner''))"

lemma part_tables [simp]: "ac_users (access_part d) = ac_users d" "ac_orgs (access_part d) = ac_orgs d" "ac_members (access_part d) = ac_members d"
  "ac_sessions (access_part d) = ac_sessions d" "ac_tokens (access_part d) = ac_tokens d"
  by (simp_all add: access_part_def access_db.defs)

lemma resolve_session_Inr:
  assumes "run_state (resolve_principal S Credential_Session v) w = (Inr p, w')"
  obtains s t where "s \<in> set (ac_sessions (sw_db w))" "se_hash s = token_hash S v" "live_session t (sw_db w) s"
    "pr_subject p = se_user s" "pr_kind p = Subject_User" "pr_type p = Credential_Session" "kept_tables (sw_db w) (sw_db w')"
  using assms
proof (rule resolve_principal_session)
  fix s t w1
  assume s: "s \<in> set (ac_sessions (sw_db w))" "se_hash s = token_hash S v" "live_session t (sw_db w) s"
    and p: "p = \<lparr>pr_subject = se_user s, pr_kind = Subject_User, pr_credential = se_id s, pr_type = Credential_Session,
          pr_org = uuid_nil, pr_scopes = [], pr_assurance = parse_assurance (se_assurance s)\<rparr>"
    and get: "run_state (session_get S v) w = (Inr s, w1)" and refresh: "run_state (session_refresh S s) w1 = (Inr (), w')"
  from get have "sw_db w1 = sw_db w" by (rule session_get_Inr)
  with refresh_keeps [OF refresh] have "kept_tables (sw_db w) (sw_db w')" by simp
  with s p show thesis by (intro that) simp_all
qed

lemma resolve_token_Inr:
  assumes "run_state (resolve_principal S Credential_Token v) w = (Inr p, w')"
  obtains t now where "t \<in> set (ac_tokens (sw_db w))" "tk_hash t = org_token_hash S v" "usable_token now t" "open_org (sw_db w) (tk_org t)"
    "pr_subject p = tk_id t" "pr_type p = Credential_Token" "pr_org p = tk_org t" "pr_scopes p = scopes_list (tk_scopes t)" "sw_db w' = sw_db w"
proof -
  from assms obtain t where auth: "run_state (token_authenticate S v) w = (Inr t, w')"
    and p: "pr_subject p = tk_id t" "pr_type p = Credential_Token" "pr_org p = tk_org t" "pr_scopes p = scopes_list (tk_scopes t)"
    unfolding resolve_principal_def by (auto simp: handle_fail_Inr split: if_splits)
  from auth obtain r where found: "run_state (acc_query S (\<lambda>se. sql_token_by_hash (org_token_hash S v) (sq_now se))) w = (Inr r, w')" and t: "credential_of r = Inr t"
    unfolding token_authenticate_def by (auto simp: map_error_Inr chain_Inr split: if_splits)
  from t have "t = r" by (simp add: credential_of_def split: option.splits)
  with sql_query_Inr [OF found [unfolded acc_query_def]] show thesis
    by (auto simp: sql_token_by_hash_def dest!: one_row_Inr intro: that [OF _ _ _ _ p])
qed

lemma from_bearer_Some:
  assumes "run_state (from_bearer S r) w = ((Some p, b), w')"
  obtains scheme rest where "cut_at '' '' (trim_space (hr_auth r)) = Some (scheme, rest)" "is_bearer scheme"
    "run_state (resolve_principal S Credential_Token (trim_space rest)) w = (Inr p, w')"
  using assms unfolding from_bearer_def Let_def
  by (auto simp: run_handle split: if_splits option.splits prod.splits sum.splits intro: that)

lemma from_cookie_Some:
  assumes "run_state (from_cookie S r) w = (Some p, w')"
  obtains v where "hr_cookie r = Some v" "run_state (resolve_principal S Credential_Session v) w = (Inr p, w')"
  using assms unfolding from_cookie_def by (auto simp: run_handle split: if_splits option.splits prod.splits sum.splits intro: that)

lemma from_bearer_None: "run_state (from_bearer S r) w = ((None, b), w') \<Longrightarrow> \<not> b \<Longrightarrow> w' = w"
  unfolding from_bearer_def Let_def by (auto simp: run_handle split: if_splits option.splits prod.splits sum.splits)

text \<open>Who the request comes from: a bearer token wins, and a refused one is not replaced by the cookie.\<close>

lemma require_authenticated_Inr:
  assumes "run_state (require_authenticated S r) w = (Inr p, w')"
  obtains (bearer) scheme rest where "cut_at '' '' (trim_space (hr_auth r)) = Some (scheme, rest)" "is_bearer scheme"
      "run_state (resolve_principal S Credential_Token (trim_space rest)) w = (Inr p, w')"
    | (cookie) v where "hr_cookie r = Some v" "run_state (resolve_principal S Credential_Session v) w = (Inr p, w')"
proof -
  obtain q b w1 where first: "run_state (from_bearer S r) w = ((q, b), w1)" by (metis prod.collapse)
  show thesis
  proof (cases q)
    case (Some x)
    with assms first have "run_state (from_bearer S r) w = ((Some p, b), w')" by (simp add: require_authenticated_def)
    then show thesis by (rule from_bearer_Some) (rule bearer)
  next
    case None
    with assms first have b: "\<not> b" by (auto simp: require_authenticated_def split: if_splits)
    with None first have "w1 = w" using from_bearer_None by metis
    with assms first None b have "run_state (from_cookie S r) w = (Some p, w')"
      by (auto simp: require_authenticated_def split: option.splits prod.splits)
    then show thesis by (rule from_cookie_Some) (rule cookie)
  qed
qed

lemma require_organization_Inr:
  assumes "run_state (require_organization S V r p) w = (Inr oc, w')"
  shows "sw_db w' = sw_db w \<and> (if pr_type p = Credential_Token then oc_id oc = pr_org p
    else \<exists>u m. principal_user p = Some u \<and> sql_get_member (oc_id oc) u (sw_db w) = Inr m \<and> oc_role oc = mb_role m)"
proof -
  from assms have "run_state (resolve_organization S V r p) w = (Inr oc, w')"
    unfolding require_organization_def by (auto simp: chain_Inr split: if_splits)
  then show ?thesis
    unfolding resolve_organization_def get_member_def acc_query_def organization_id_def
    by (auto simp: run_handle split: option.splits if_splits prod.splits sum.splits dest!: sql_query_Inr)
qed

lemma admit_Inr:
  assumes "run_state (admit S V resource r p) w = (Inr g, w')"
  obtains v where "run_state (require_organization S V r p) \<lparr>sw_tick = sw_tick w, sw_db = access_part (sw_db w)\<rparr> = (Inr (gr_org g), v)"
    "gr_principal g = p" "check_access resource r p (gr_org g) = None"
    "\<exists>a. client_address (rv_proxies V) (hr_remote r) (hr_forwarded r) = Some a
       \<and> policies_allow (filter (\<lambda>x. np_org x = oc_id (gr_org g)) (np_rows (sw_db w))) (unmap a)"
proof -
  from assms obtain oc w1 w2 budget w3 where org: "run_state (lifted (require_organization S V r p)) w = (Inr oc, w1)"
    and net: "run_state (enforce_network S V r oc) w1 = (Inr (), w2)" and rate: "run_state (limit_rate V r p oc) w2 = (Inr budget, w3)"
    and fin: "run_state (case check_access resource r p oc of Some e \<Rightarrow> denied e
       | None \<Rightarrow> succeed \<lparr>gr_principal = p, gr_org = oc, gr_budget = budget\<rparr>) w3 = (Inr g, w')"
    unfolding admit_def by (auto simp: handle_denied_Inr chain_Inr)
  from fin have g: "g = \<lparr>gr_principal = p, gr_org = oc, gr_budget = budget\<rparr>" "check_access resource r p oc = None"
    by (auto simp: denied_def split: option.splits)
  from net obtain a ok w4 where a: "client_address (rv_proxies V) (hr_remote r) (hr_forwarded r) = Some a"
    and allow: "run_state (policy_allows S (oc_id oc) (Some a)) w1 = (Inr True, w4)"
    unfolding enforce_network_def by (auto simp: handle_denied_Inr denied_def split: option.splits if_splits)
  from allow obtain ps w5 where "run_state (sql_query (as_env S) (\<lambda>_. sql_list_policies (oc_id oc))) w1 = (Inr ps, w5)" "policies_allow ps (unmap a)"
    unfolding policy_allows_def wrap_internal_def by (auto simp: chain_Inr map_error_Inr split: if_splits)
  moreover from this(1) have "set ps = set (filter (\<lambda>x. np_org x = oc_id oc) (np_rows (sw_db w1)))"
    using sql_query_Inr [of "as_env S" "\<lambda>_. sql_list_policies (oc_id oc)" w1 ps w5] by (simp add: sql_list_policies_def) (metis set_filter set_order_by)
  ultimately have policies: "policies_allow (filter (\<lambda>x. np_org x = oc_id oc) (np_rows (sw_db w1))) (unmap a)"
    using policies_allow_set by metis
  from org obtain v where v: "run_state (require_organization S V r p) \<lparr>sw_tick = sw_tick w, sw_db = access_part (sw_db w)\<rparr> = (Inr oc, v)"
    "np_rows (sw_db w1) = np_rows (sw_db w)" by (rule lifted_Inr)
  show thesis by (rule that [of v]) (use v g a policies in simp_all)
qed

text \<open>
  C16: a request passes the chain of an organization resource only with the rights for it: a live token of the
  organization with the scope of the method, or a live session of an active member whose role permits it; and its source
  address is one the network policies of the organization admit.
\<close>

theorem admitted_request_authorized:
  assumes "run_state (organization_access S V resource r) w = (Inr g, w')"
  shows "(token_rights S resource r (sw_db w) g \<or> session_rights S resource r (sw_db w) g)
    \<and> (\<exists>a. client_address (rv_proxies V) (hr_remote r) (hr_forwarded r) = Some a
         \<and> policies_allow (filter (\<lambda>x. np_org x = oc_id (gr_org g)) (np_rows (sw_db w))) (unmap a))"
proof -
  from assms obtain p w1 where who: "run_state (lifted (require_authenticated S r)) w = (Inr p, w1)"
    and what: "run_state (admit S V resource r p) w1 = (Inr g, w')"
    unfolding organization_access_def by (auto simp: handle_denied_Inr)
  from what obtain v where org: "run_state (require_organization S V r p) \<lparr>sw_tick = sw_tick w1, sw_db = access_part (sw_db w1)\<rparr> = (Inr (gr_org g), v)"
    and g: "gr_principal g = p" "check_access resource r p (gr_org g) = None"
    and net: "\<exists>a. client_address (rv_proxies V) (hr_remote r) (hr_forwarded r) = Some a
       \<and> policies_allow (filter (\<lambda>x. np_org x = oc_id (gr_org g)) (np_rows (sw_db w1))) (unmap a)"
    by (rule admit_Inr)
  from who obtain u where auth: "run_state (require_authenticated S r) \<lparr>sw_tick = sw_tick w, sw_db = access_part (sw_db w)\<rparr> = (Inr p, u)"
    and db: "access_part (sw_db w1) = sw_db u" "np_rows (sw_db w1) = np_rows (sw_db w)"
    by (rule lifted_Inr)
  from auth have "token_rights S resource r (sw_db w) g \<or> session_rights S resource r (sw_db w) g"
  proof (cases rule: require_authenticated_Inr)
    case (bearer scheme rest)
    from bearer(3) obtain t now where "t \<in> set (ac_tokens (sw_db w))" "tk_hash t = org_token_hash S (trim_space rest)" "usable_token now t"
      "open_org (access_part (sw_db w)) (tk_org t)" "pr_subject p = tk_id t" "pr_type p = Credential_Token" "pr_org p = tk_org t" "pr_scopes p = scopes_list (tk_scopes t)"
      by (rule resolve_token_Inr) simp
    moreover from this(6) g(2) have "has_scope (pr_scopes p) (resource @ '':'' @ access_word (hr_method r))"
      by (auto simp: check_access_def Let_def split: if_splits)
    moreover from require_organization_Inr [OF org] calculation(6) have "oc_id (gr_org g) = pr_org p" by simp
    ultimately have "token_rights S resource r (sw_db w) g" using bearer(1,2) g(1) unfolding token_rights_def by metis
    then show ?thesis ..
  next
    case (cookie c)
    from cookie(2) obtain s t where s: "s \<in> set (ac_sessions (sw_db w))" "se_hash s = token_hash S c" "live_session t (access_part (sw_db w)) s"
      "pr_subject p = se_user s" "pr_kind p = Subject_User" "pr_type p = Credential_Session" "kept_tables (access_part (sw_db w)) (sw_db u)"
      by (rule resolve_session_Inr) simp
    from require_organization_Inr [OF org] s(6) obtain x m where m: "principal_user p = Some x" "sql_get_member (oc_id (gr_org g)) x (access_part (sw_db w1)) = Inr m"
      "oc_role (gr_org g) = mb_role m" by auto
    from m(1) s(4,5) have x: "x = se_user s" by (simp add: principal_user_def split: if_splits)
    have "ac_members (sw_db u) = ac_members (sw_db w)" "ac_orgs (sw_db u) = ac_orgs (sw_db w)"
      using s(7) by (simp_all add: kept_tables_def)
    with m(2) db(1) have row: "m \<in> set (ac_members (sw_db w))" "mb_org m = oc_id (gr_org g)" "mb_user m = se_user s" "mb_status m = ''active''"
      "open_org (access_part (sw_db w)) (mb_org m)"
      by (auto simp: sql_get_member_def x open_org_def dest!: one_row_Inr)
    from g(2) s(6) m(3) have role: "\<not> (access_word (hr_method r) = ''write'' \<and> mb_role m = ''member'')"
      "\<not> (resource = ''organization'' \<and> hr_method r = ''DELETE'' \<and> mb_role m \<noteq> ''owner'')"
      by (auto simp: check_access_def Let_def split: if_splits)
    have "session_rights S resource r (sw_db w) g"
      unfolding session_rights_def using cookie(1) s(1-4) row role g(1) by metis
    then show ?thesis ..
  qed
  with net db(2) show ?thesis by simp
qed

definition demo_bearer :: string where
  "demo_bearer = ''lm_org_abcdefgh_secret''"

definition demo_token :: token_row where
  "demo_token = new_token \<lparr>tp_org = UUID ''o'', tp_by = UUID ''a'', tp_name = ''ci'', tp_desc = None, tp_hash = b64_encode demo_bearer,
     tp_prefix = ''lm_org_abcdefgh'', tp_scopes = Some [''calls:read''], tp_expires = None\<rparr> (UUID ''t'') 40"

definition demo_policies :: policy_db where
  "demo_policies = access_db.extend (demo_tenants\<lparr>ac_tokens := [demo_token]\<rparr>) \<lparr>np_rows = []\<rparr>"

definition demo_http :: http_in where
  "demo_http = \<lparr>hr_method = ''GET'', hr_cookie = None, hr_auth = ''Bearer lm_org_abcdefgh_secret'', hr_org = [], hr_path_org = [],
     hr_remote = ''203.0.113.7:9'', hr_forwarded = []\<rparr>"

definition demo_request_env :: request_env where
  "demo_request_env = \<lparr>rv_uuid = (\<lambda>_. None), rv_limiter = (\<lambda>_ _ n. Inr \<lparr>lm_limit = n, lm_remaining = n, lm_reset = 60, lm_reached = False\<rparr>),
     rv_proxies = [], rv_clock = (\<lambda>_. 0)\<rparr>"

lemma demo_part: "access_part demo_policies = demo_tenants\<lparr>ac_tokens := [demo_token]\<rparr>" "np_rows demo_policies = []"
  by (simp_all add: access_part_def demo_policies_def access_db.defs)

lemma demo_authenticated: "\<exists>n p. run_state (require_authenticated demo_access demo_http) \<lparr>sw_tick = 0, sw_db = access_part demo_policies\<rparr>
    = (Inr p, \<lparr>sw_tick = n, sw_db = access_part demo_policies\<rparr>)
    \<and> pr_subject p = UUID ''t'' \<and> pr_credential p = UUID ''t'' \<and> pr_type p = Credential_Token \<and> pr_org p = UUID ''o'' \<and> pr_scopes p = [''calls:read'']"
proof -
  have h: "trim_space (hr_auth demo_http) = ''Bearer lm_org_abcdefgh_secret''" "cut_at '' '' ''Bearer lm_org_abcdefgh_secret'' = Some (''Bearer'', demo_bearer)"
    "is_bearer ''Bearer''" "trim_space demo_bearer = demo_bearer" "demo_bearer \<noteq> []" "parse_token_prefix demo_bearer = Inr ''lm_org_abcdefgh''"
    "validate_scopes (Some [''calls:read'']) = None" by code_simp+
  have t: "tk_id demo_token = UUID ''t''" "tk_org demo_token = UUID ''o''" "tk_scopes demo_token = Some [''calls:read'']" "usable_token 1000 demo_token"
    by (simp_all add: demo_token_def new_token_def usable_token_def)
  moreover have "credential_of demo_token = Inr demo_token" using h(7) t(3) by (simp add: credential_of_def)
  moreover have "open_org (demo_tenants\<lparr>ac_tokens := [demo_token]\<rparr>) (tk_org demo_token)"
    unfolding t(2) open_org_def demo_tenants_def by (simp add: new_org_def org_open_def)
  moreover note h
  moreover have "org_token_hash demo_access demo_bearer = tk_hash demo_token" by (simp add: org_token_hash_def demo_access_def demo_token_def new_token_def)
  moreover from this t(4) calculation(6) have "sql_token_by_hash (org_token_hash demo_access demo_bearer) 1000 (demo_tenants\<lparr>ac_tokens := [demo_token]\<rparr>) = Inr demo_token"
    by (simp add: sql_token_by_hash_def one_row_def)
  ultimately show ?thesis
    by (simp add: require_authenticated_def from_bearer_def resolve_principal_def token_authenticate_def acc_query_def run_combinators run_sql_query
        demo_part demo_sql_def scopes_list_def)
qed

theorem admitted_request_authorized_witness:
  "\<exists>g w'. run_state (organization_access demo_access demo_request_env ''calls'' demo_http) \<lparr>sw_tick = 0, sw_db = demo_policies\<rparr> = (Inr g, w')
     \<and> (token_rights demo_access ''calls'' demo_http demo_policies g \<or> session_rights demo_access ''calls'' demo_http demo_policies g)"
proof -
  from demo_authenticated obtain n p where p: "run_state (require_authenticated demo_access demo_http) \<lparr>sw_tick = 0, sw_db = access_part demo_policies\<rparr>
      = (Inr p, \<lparr>sw_tick = n, sw_db = access_part demo_policies\<rparr>)"
    "pr_subject p = UUID ''t''" "pr_credential p = UUID ''t''" "pr_type p = Credential_Token" "pr_org p = UUID ''o''" "pr_scopes p = [''calls:read'']" by blast
  have same: "with_access (access_part demo_policies) demo_policies = demo_policies"
    by (simp add: with_access_def access_part_def demo_policies_def access_db.defs)
  have nil: "UUID ''t'' \<noteq> uuid_nil" "UUID ''o'' \<noteq> uuid_nil" "has_scope [''calls:read''] (''calls:'' @ access_word ''GET'')"
    and a: "client_address [] ''203.0.113.7:9'' [] = Some (V4 0xCB007107)" by code_simp+
  have "check_access ''calls'' demo_http p oc = None" for oc
    using nil(3) p(4,6) by (simp add: check_access_def demo_http_def Let_def)
  with p nil a same have "\<exists>g w'. run_state (organization_access demo_access demo_request_env ''calls'' demo_http) \<lparr>sw_tick = 0, sw_db = demo_policies\<rparr> = (Inr g, w')"
    by (simp add: organization_access_def lifted_def admit_def run_combinators require_organization_def valid_principal_def resolve_organization_def
        organization_id_def enforce_network_def policy_allows_def wrap_internal_def run_sql_query demo_sql_def demo_part sql_list_policies_def order_by_def
        policies_allow_def limit_rate_def ask_limit_def demo_request_env_def Let_def demo_http_def)
  then show ?thesis using admitted_request_authorized by fastforce
qed

end
