(* ===== verification/Acc_Emails.thy ===== *)
theory Acc_Emails
  imports Acc_Invariants
begin

text \<open>
  What the email queue and the receiver of identity events promise: payloads are erased when an email settles, settled
  emails never change, and an event is only accepted under a usable key of the provider.
\<close>

section \<open>The emails of a history\<close>

definition email_consistent :: "email_row \<Rightarrow> bool" where
  "email_consistent r \<longleftrightarrow> (email_open r \<longleftrightarrow> eq_data r \<noteq> None) \<and> eq_attempts r \<le> 5
     \<and> (eq_status r = ''sending'' \<longleftrightarrow> eq_lock r \<noteq> None) \<and> (eq_status r = ''sent'' \<longleftrightarrow> eq_sent r \<noteq> None)"

lemma row_frames [frames]:
  "em_rows (snd (sql_upsert_user issuer subject name email i t d)) = em_rows d" "em_rows (snd (sql_apply_event c t d)) = em_rows d"
  "em_rows (snd (sql_disable_user u t d)) = em_rows d"
  "em_rows (snd (sql_create_session p i t d)) = em_rows d" "em_rows (snd (sql_revoke_session i u t d)) = em_rows d"
  "em_rows (snd (sql_revoke_sessions u t d)) = em_rows d" "em_rows (snd (sql_session_tokens i plain t d)) = em_rows d"
  "em_rows (snd (sql_create_attempt a d)) = em_rows d" "em_rows (snd (sql_consume_attempt h t d)) = em_rows d"
  "em_rows (snd (sql_expire_attempts t d)) = em_rows d"
  unfolding sql_upsert_user_def sql_apply_event_def sql_disable_user_def sql_create_session_def sql_revoke_session_def
    sql_revoke_sessions_def sql_session_tokens_def sql_create_attempt_def sql_consume_attempt_def sql_expire_attempts_def
  by (auto intro!: kept_texts kept_constrained simp: Let_def split: option.split sum.split)

lemma row_frames_tenancy [frames]:
  "em_rows (snd (sql_found_org name u i t d)) = em_rows d" "em_rows (snd (sql_update_org i name' t d)) = em_rows d"
  "em_rows (snd (sql_delete_org i t d)) = em_rows d"
  "em_rows (snd (sql_add_member org u role actor t d)) = em_rows d" "em_rows (snd (sql_member_role org u role actor t d)) = em_rows d"
  "em_rows (snd (sql_disable_member org u actor t d)) = em_rows d" "em_rows (snd (sql_add_invited i u t d)) = em_rows d"
  "em_rows (snd (sql_create_invite ip i t d)) = em_rows d" "em_rows (snd (sql_accept_invite i t d)) = em_rows d"
  "em_rows (snd (sql_revoke_invite i org t d)) = em_rows d" "em_rows (snd (sql_expire_invites t d)) = em_rows d"
  "em_rows (snd (sql_create_token q i t d)) = em_rows d" "em_rows (snd (sql_update_token tc actor t d)) = em_rows d"
  "em_rows (snd (sql_disable_token i org actor t d)) = em_rows d" "em_rows (snd (sql_touch_token i addr t d)) = em_rows d"
  unfolding sql_found_org_def sql_update_org_def sql_delete_org_def sql_add_member_def sql_member_role_def sql_disable_member_def
    sql_add_invited_def sql_create_invite_def sql_accept_invite_def sql_revoke_invite_def sql_expire_invites_def
    sql_create_token_def sql_update_token_def sql_disable_token_def sql_touch_token_def
  by (auto intro!: kept_texts kept_constrained simp: Let_def split: option.split sum.split)

text \<open>What a step makes of the rows: nothing, a new pending email, or a change of open emails that keeps them consistent.\<close>

definition changes_open :: "email_row list \<Rightarrow> email_row list \<Rightarrow> bool" where
  "changes_open xs ys \<longleftrightarrow> (\<exists>p f. ys = update_rows p f xs \<and> (\<forall>r \<in> set xs. p r \<longrightarrow> email_open r \<and> (email_consistent r \<longrightarrow> email_consistent (f r))))"

lemma changes_openI: "(\<And>r. r \<in> set xs \<Longrightarrow> p r \<Longrightarrow> email_open r)
    \<Longrightarrow> (\<And>r. r \<in> set xs \<Longrightarrow> p r \<Longrightarrow> email_consistent r \<Longrightarrow> email_consistent (f r)) \<Longrightarrow> changes_open xs (update_rows p f xs)"
  unfolding changes_open_def by blast

lemma changes_open_refl: "changes_open xs xs"
  unfolding changes_open_def by (rule exI [of _ "\<lambda>_. False"]) (simp add: update_rows_def)

lemma closed_consistent: "status \<notin> {''pending'', ''sending'', ''sent''} \<Longrightarrow> email_consistent r \<Longrightarrow> email_open r \<Longrightarrow> email_consistent (email_closed status r)"
  by (auto simp: email_consistent_def email_open_def email_closed_def)

lemma cancel_changes: "changes_open (em_rows d) (em_rows (snd (sql_cancel_emails k d)))"
proof -
  have "changes_open (em_rows d) (update_rows (\<lambda>r. eq_key r = Some k \<and> email_open r) (email_closed ''cancelled'') (em_rows d))"
    by (rule changes_openI) (auto intro: closed_consistent)
  then show ?thesis by (simp add: sql_cancel_emails_def with_texts_def changes_open_refl)
qed

lemma expire_changes: "changes_open (em_rows d) (em_rows (snd (sql_expire_emails t d)))"
  by (simp add: sql_expire_emails_def) (rule changes_openI, auto intro: closed_consistent)

lemma exhaust_changes: "changes_open (em_rows d) (em_rows (snd (sql_exhaust_emails t d)))"
  by (simp add: sql_exhaust_emails_def) (rule changes_openI, auto simp: email_open_def lease_lapsed_def email_consistent_def email_closed_def)

lemma holder_changes:
  assumes "\<And>r. email_consistent r \<Longrightarrow> eq_status r = ''sending'' \<Longrightarrow> email_consistent (f r)"
  shows "changes_open xs (update_rows (holds_email i lease) f xs)"
  by (rule changes_openI) (auto simp: holds_email_def email_open_def intro: assms)

lemma fail_changes: "changes_open (em_rows d) (em_rows (snd (sql_fail_email i lease terminal code delay t d)))"
proof -
  have "changes_open (em_rows d) (update_rows (holds_email i lease)
      (\<lambda>r. r\<lparr>eq_status := if terminal then ''failed'' else ''pending'', eq_data := if terminal then None else eq_data r,
         eq_error := Some code, eq_available := t + delay * 1000000, eq_locked := None, eq_lock := None\<rparr>) (em_rows d))"
    by (rule holder_changes) (auto simp: email_consistent_def email_open_def)
  then show ?thesis by (simp add: sql_fail_email_def with_texts_def changes_open_refl)
qed

lemma complete_changes: "changes_open (em_rows d) (em_rows (snd (sql_complete_email i lease message t d)))"
proof -
  have "changes_open (em_rows d) (update_rows (holds_email i lease)
      (\<lambda>r. (email_closed ''sent'' r)\<lparr>eq_message := Some message, eq_sent := Some t\<rparr>) (em_rows d))"
    by (rule holder_changes) (auto simp: email_consistent_def email_open_def email_closed_def)
  then show ?thesis by (simp add: sql_complete_email_def with_texts_def changes_open_refl)
qed

lemma claim_changes:
  assumes "distinct (map eq_id (em_rows d))"
  shows "changes_open (em_rows d) (em_rows (snd (sql_claim_email lease t d)))"
proof (cases "order_by (\<lambda>a b. eq_available a \<le> eq_available b) (filter (claimable_email t) (em_rows d))")
  case (Cons r rs)
  then have "r \<in> set (filter (claimable_email t) (em_rows d))" using set_order_by by (metis list.set_intros(1))
  then have r: "r \<in> set (em_rows d)" "claimable_email t r" by auto
  have only: "x = r" if "x \<in> set (em_rows d)" "eq_id x = eq_id r" for x
    using assms that r(1) by (auto simp: distinct_map inj_on_def)
  have "email_open r" "email_consistent r \<Longrightarrow> email_consistent (claimed_email lease t r)"
    using r(2) by (auto simp: claimable_email_def lease_lapsed_def email_open_def email_consistent_def claimed_email_def)
  then have "changes_open (em_rows d) (update_rows (\<lambda>x. eq_id x = eq_id r) (claimed_email lease t) (em_rows d))"
    by - (rule changes_openI, auto dest!: only)
  then show ?thesis using Cons by (simp add: sql_claim_email_def)
qed (simp add: sql_claim_email_def changes_open_refl)

lemma create_appends: "snd (sql_create_email j to template payload k expires t d) = d
  \<or> em_rows (snd (sql_create_email j to template payload k expires t d)) = em_rows d @ [new_email_row j to template payload k expires t]"
  using constrained_cases [of email_schema d "(Inr (), d\<lparr>em_rows := em_rows d @ [new_email_row j to template payload k expires t]\<rparr>)"]
  by (auto simp: sql_create_email_def with_texts_def)

lemma step_emails:
  assumes "acc_step d d'" "holds_all access_schema d"
  shows "changes_open (em_rows d) (em_rows d')
    \<or> (\<exists>j to template payload k expires t. em_rows d' = em_rows d @ [new_email_row j to template payload k expires t])"
  using assms(1)
proof (cases rule: acc_step.cases)
  case (st_invite p i t t' iv d1 j to template payload expires t'')
  have "em_rows d1 = em_rows d" using frames st_invite(1) by (metis snd_conv)
  with create_appends [of j to template payload "Some (invite_key (iv_id iv))" expires t'' d1] st_invite show ?thesis
    by (metis changes_open_refl snd_conv)
next
  case (st_uninvite org u m i t iv d1)
  then have "em_rows d1 = em_rows d" using row_frames_tenancy(10) by (metis snd_conv)
  with cancel_changes [of d1 "invite_key i"] st_uninvite show ?thesis by simp
next
  case (st_accept h t iv u x t' iv' d1 t'' m d2)
  then have "em_rows d1 = em_rows d" "em_rows d2 = em_rows d1" using row_frames_tenancy(7,9) by (metis snd_conv)+
  with cancel_changes [of d2 "invite_key (iv_id iv)"] st_accept show ?thesis by simp
next
  case st_email_claim
  with assms(2) show ?thesis by (simp add: claim_changes schema_defs)
qed (simp_all add: frames changes_open_refl expire_changes exhaust_changes fail_changes complete_changes)



section \<open>Accepted identity events\<close>

text \<open>
  C26: the client accepts an event only if a usable key of the provider with the id the token names verifies its
  payload, the keys were fetched now or less than fifteen minutes ago, and the event is at most two days old and at most
  five minutes ahead.
\<close>

theorem webhook_authentic:
  assumes "verify_webhook J now fetched now' raw c = (Inr e, c')"
  shows "(\<exists>k \<in> set (ky_keys c'). usable_key k \<and> js_parse J (trim_space raw) = Some [wk_id k]
        \<and> (\<exists>payload. js_verify J (trim_space raw) (wk_key k) = Some payload \<and> js_event J payload = Some e))
    \<and> (c' = c \<and> now - ky_at c < keys_max_age \<or> fetched = Inr (Some (ky_keys c'), ky_at c'))
    \<and> now' - webhook_max_age \<le> we_at e \<and> we_at e \<le> now' + webhook_skew"
proof -
  let ?raw = "trim_space raw"
  from assms obtain kid ks payload where kid: "js_parse J ?raw = Some [kid]" and keys: "signing_keys now fetched kid c = (Inr ks, c')"
    and payload: "verified_payload J ?raw (keys_of kid ks) = Some payload" "js_event J payload = Some e" and e: "check_event now' e = Inr e"
    unfolding verify_webhook_def Let_def
    by (auto split: if_splits option.splits list.splits sum.splits prod.splits dest: check_event_Inr)
  from verified_payload_Some [OF payload(1)] obtain k where k: "k \<in> set (keys_of kid ks)" "usable_key k" "js_verify J ?raw (wk_key k) = Some payload"
    by blast
  then have "k \<in> set ks" "wk_id k = kid" by (simp_all add: keys_of_def)
  with k(2,3) kid payload(2) signing_keys_Inr [OF keys] check_event_Inr [OF e] show ?thesis by auto
qed

definition demo_jose :: jose where
  "demo_jose = \<lparr>js_parse = (\<lambda>_. Some [''k1'']), js_verify = (\<lambda>raw key. if raw = ''signed by '' @ key then Some ''claims'' else None),
     js_event = (\<lambda>_. Some \<lparr>we_id = ''event_1'', we_type = ''user.deleted'', we_at = 900, we_data_id = [], we_user_id = ''kp_b'', we_first = None,
       we_last = None, we_email = None, we_suspended = None\<rparr>)\<rparr>"

theorem webhook_authentic_witness:
  "\<exists>e c'. verify_webhook demo_jose 1000 (Inr (Some [\<lparr>wk_id = ''k1'', wk_valid = True, wk_alg = ''RS256'', wk_use = ''sig'', wk_key = ''pub''\<rparr>], 1001)) 1002
       ''signed by pub'' new_key_cache = (Inr e, c') \<and> 1002 - webhook_max_age \<le> we_at e"
proof -
  let ?k = "\<lparr>wk_id = ''k1'', wk_valid = True, wk_alg = ''RS256'', wk_use = ''sig'', wk_key = ''pub''\<rparr>"
  have t: "trim_space ''signed by pub'' = ''signed by pub''" by code_simp
  have keys: "signing_keys 1000 (Inr (Some [?k], 1001)) ''k1'' new_key_cache = (Inr [?k], \<lparr>ky_keys = [?k], ky_at = 1001, ky_attempt = 1000\<rparr>)"
    by (simp add: signing_keys_def new_key_cache_def zero_time_def keys_interval_def keys_of_def Let_def)
  obtain e where e: "js_event demo_jose ''claims'' = Some e" "we_id e = ''event_1''" "we_at e = 900" "we_type e = ''user.deleted''" "kinde_subject e = ''kp_b''"
    "we_data_id e = []" by (simp add: demo_jose_def kinde_subject_def)
  have s: "starts_with ''event_'' ''event_1'' = True" "starts_with ''kp_'' ''kp_b'' = True" by code_simp+
  have "check_event 1002 e = Inr e"
    using s by (simp add: check_event_def e webhook_max_age_def webhook_skew_def zero_time_def)
  moreover have "verified_payload demo_jose ''signed by pub'' (keys_of ''k1'' [?k]) = Some ''claims''"
    by (simp add: keys_of_def usable_key_def demo_jose_def)
  moreover have "js_parse demo_jose ''signed by pub'' = Some [''k1'']" by (simp add: demo_jose_def)
  ultimately have run: "verify_webhook demo_jose 1000 (Inr (Some [?k], 1001)) 1002 ''signed by pub'' new_key_cache
      = (Inr e, \<lparr>ky_keys = [?k], ky_at = 1001, ky_attempt = 1000\<rparr>)"
    using e(1) keys by (simp add: verify_webhook_def Let_def t)
  from webhook_authentic [OF run] have "1002 - webhook_max_age \<le> we_at e" by blast
  with run show ?thesis by blast
qed

end
