(* ===== verification/Bill_Store.thy ===== *)
theory Bill_Store
  imports Sql_Schema
begin

text \<open>
  The tables of the commercial part: plans, subscriptions, entitlements and the inbox of billing webhooks
  (\<open>migrations/027\<close>, \<open>033\<close>, \<open>034\<close>, \<open>035\<close>) and the statements on them (\<open>plans.sql.go\<close>, \<open>subscriptions.sql.go\<close>,
  \<open>entitlements.sql.go\<close>, \<open>billing_webhook_events.sql.go\<close>), with the columns of agent sessions and calls that
  the metering of runtime reads. Times are microseconds.
\<close>

section \<open>Rows\<close>

text \<open>A JSONB column is an object: its keys with the kinds of values the code tells apart.\<close>

datatype jsonb = J_Null | J_Bool bool | J_Int int | J_Other string

record plan_row =
  pn_id :: uuid
  pn_code :: string
  pn_name :: string
  pn_description :: "string option"
  pn_pricing :: string
  pn_currency :: string
  pn_amount :: "int option"
  pn_interval :: string
  pn_entitlements :: "(string \<times> jsonb) list"
  pn_limits :: "(string \<times> jsonb) list"
  pn_status :: string
  pn_created :: int
  pn_updated :: int

record subscription_row =
  sb_id :: uuid
  sb_org :: uuid
  sb_plan :: uuid
  sb_status :: string
  sb_start :: "int option"
  sb_end :: "int option"
  sb_trial :: "int option"
  sb_past_due :: "int option"
  sb_grace :: "int option"
  sb_cancel :: bool
  sb_canceled :: "int option"
  sb_provider :: "string option"
  sb_customer :: "string option"
  sb_subscription :: "string option"
  sb_event_at :: "int option"
  sb_created :: int
  sb_updated :: int

record entitlement_row =
  et_org :: uuid
  et_capability :: string
  et_enabled :: bool
  et_created :: int
  et_updated :: int

text \<open>A receipt of the inbox; its provider is always \<open>polar\<close>, and its payload the text of the JSONB value.\<close>

record receipt_row =
  rc_id :: uuid
  rc_environment :: string
  rc_event :: string
  rc_type :: string
  rc_event_at :: int
  rc_payload :: string
  rc_hash :: string
  rc_status :: string
  rc_attempts :: int
  rc_available :: int
  rc_locked :: "int option"
  rc_lease :: "uuid option"
  rc_received :: int
  rc_processed :: "int option"
  rc_error :: "string option"

record media_row =
  md_org :: uuid
  md_call :: uuid
  md_started :: "int option"
  md_ended :: "int option"

record call_end_row =
  ce_id :: uuid
  ce_org :: uuid
  ce_ended :: "int option"

record bill_db =
  bl_orgs :: "organization_row list"
  bl_plans :: "plan_row list"
  bl_subs :: "subscription_row list"
  bl_ents :: "entitlement_row list"
  bl_receipts :: "receipt_row list"
  bl_media :: "media_row list"
  bl_calls :: "call_end_row list"

section \<open>Constraints\<close>

definition char_count :: "string \<Rightarrow> nat" where
  "char_count s = length (filter (\<lambda>c. let n = (of_char c :: nat) in n < 128 \<or> 192 \<le> n) s)"

definition upper_letter :: "char \<Rightarrow> bool" where
  "upper_letter c \<longleftrightarrow> 65 \<le> (of_char c :: nat) \<and> (of_char c :: nat) \<le> 90"

definition plan_ok :: "plan_row \<Rightarrow> bool" where
  "plan_ok r \<longleftrightarrow> 1 \<le> char_count (btrim (pn_code r)) \<and> char_count (btrim (pn_code r)) \<le> 64
     \<and> 1 \<le> char_count (btrim (pn_name r)) \<and> char_count (btrim (pn_name r)) \<le> 128
     \<and> length (pn_currency r) = 3 \<and> list_all upper_letter (pn_currency r)
     \<and> (pn_pricing r = ''fixed'' \<and> (case pn_amount r of None \<Rightarrow> False | Some a \<Rightarrow> 0 \<le> a) \<or> pn_pricing r = ''custom'' \<and> pn_amount r = None)
     \<and> pn_interval r \<in> {''month'', ''year''} \<and> pn_status r \<in> {''active'', ''inactive''}"

definition plans_schema :: "(string \<times> (bill_db \<Rightarrow> bool)) list" where
  "plans_schema = [(''23514'', \<lambda>d. list_all plan_ok (bl_plans d)),
     (''23505'', \<lambda>d. distinct (map pn_id (bl_plans d))), (''23505'', \<lambda>d. distinct (map pn_code (bl_plans d)))]"

definition grace_ok :: "subscription_row \<Rightarrow> bool" where
  "grace_ok r \<longleftrightarrow> (case (sb_past_due r, sb_grace r) of
     (None, None) \<Rightarrow> True
   | (Some a, Some b) \<Rightarrow> sb_status r = ''past_due'' \<and> a \<le> b
   | _ \<Rightarrow> False)"

definition subscription_ok :: "subscription_row \<Rightarrow> bool" where
  "subscription_ok r \<longleftrightarrow> sb_status r \<in> {''trialing'', ''active'', ''past_due'', ''canceled'', ''incomplete''}
     \<and> (case (sb_start r, sb_end r) of (Some a, Some b) \<Rightarrow> a < b | _ \<Rightarrow> True)
     \<and> grace_ok r \<and> sb_provider r \<in> {None, Some ''polar''}"

definition provider_keys :: "subscription_row list \<Rightarrow> (string \<times> string) list" where
  "provider_keys rows = List.map_filter (\<lambda>r. case (sb_provider r, sb_subscription r) of (Some p, Some s) \<Rightarrow> Some (p, s) | _ \<Rightarrow> None) rows"

definition subscriptions_schema :: "(string \<times> (bill_db \<Rightarrow> bool)) list" where
  "subscriptions_schema = [(''23514'', \<lambda>d. list_all subscription_ok (bl_subs d)),
     (''23505'', \<lambda>d. distinct (map sb_id (bl_subs d))), (''23505'', \<lambda>d. distinct (map sb_org (bl_subs d))),
     (''23505'', \<lambda>d. distinct (provider_keys (bl_subs d))),
     (''23503'', \<lambda>d. list_all (\<lambda>r. sb_org r \<in> og_id ` set (bl_orgs d) \<and> sb_plan r \<in> pn_id ` set (bl_plans d)) (bl_subs d))]"

definition known_capabilities :: "string list" where
  "known_capabilities = [''advanced_rbac'', ''retention_policies'', ''private_networking'']"

definition entitlements_schema :: "(string \<times> (bill_db \<Rightarrow> bool)) list" where
  "entitlements_schema = [(''23514'', \<lambda>d. list_all (\<lambda>r. et_capability r \<in> set known_capabilities) (bl_ents d)),
     (''23505'', \<lambda>d. distinct (map (\<lambda>r. (et_org r, et_capability r)) (bl_ents d))),
     (''23503'', \<lambda>d. list_all (\<lambda>r. et_org r \<in> og_id ` set (bl_orgs d)) (bl_ents d))]"

definition receipt_ok :: "receipt_row \<Rightarrow> bool" where
  "receipt_ok r \<longleftrightarrow> rc_environment r \<in> {''production'', ''sandbox''}
     \<and> 1 \<le> char_count (rc_event r) \<and> char_count (rc_event r) \<le> 256 \<and> 1 \<le> char_count (rc_type r) \<and> char_count (rc_type r) \<le> 128
     \<and> rc_status r \<in> {''pending'', ''processing'', ''processed'', ''ignored'', ''dead_letter''}"

definition receipts_schema :: "(string \<times> (bill_db \<Rightarrow> bool)) list" where
  "receipts_schema = [(''23514'', \<lambda>d. list_all receipt_ok (bl_receipts d)),
     (''23505'', \<lambda>d. distinct (map rc_id (bl_receipts d))),
     (''23505'', \<lambda>d. distinct (map (\<lambda>r. (rc_environment r, rc_event r)) (bl_receipts d)))]"

section \<open>Plans\<close>

definition sql_plan_by_code :: "string \<Rightarrow> bill_db \<Rightarrow> go_err + plan_row" where
  "sql_plan_by_code code d = one_row (\<lambda>r. pn_code r = code) (bl_plans d)"

definition sql_plan_by_id :: "uuid \<Rightarrow> bill_db \<Rightarrow> go_err + plan_row" where
  "sql_plan_by_id i d = one_row (\<lambda>r. pn_id r = i) (bl_plans d)"

definition cheaper :: "plan_row \<Rightarrow> plan_row \<Rightarrow> bool" where
  "cheaper a b \<longleftrightarrow> (case (pn_amount a, pn_amount b) of
     (Some x, Some y) \<Rightarrow> x < y \<or> x = y \<and> pn_created a \<le> pn_created b
   | (Some _, None) \<Rightarrow> True | (None, Some _) \<Rightarrow> False | (None, None) \<Rightarrow> pn_created a \<le> pn_created b)"

definition sql_list_plans :: "bill_db \<Rightarrow> go_err + plan_row list" where
  "sql_list_plans d = Inr (order_by cheaper (filter (\<lambda>r. pn_status r = ''active'') (bl_plans d)))"

definition replaced_plan :: "plan_row \<Rightarrow> int \<Rightarrow> plan_row \<Rightarrow> plan_row" where
  "replaced_plan x now r = x\<lparr>pn_id := pn_id r, pn_code := pn_code r, pn_created := pn_created r, pn_updated := now\<rparr>"

text \<open>A check constraint holds for the row an upsert proposes, before its conflict is looked for.\<close>

definition sql_upsert_plan :: "plan_row \<Rightarrow> int \<Rightarrow> bill_db \<Rightarrow> (go_err + plan_row) \<times> bill_db" where
  "sql_upsert_plan p now d =
     with_texts ([pn_code p, pn_name p, pn_pricing p, pn_currency p, pn_interval p, pn_status p] @ texts [pn_description p]) d
     (let x = p\<lparr>pn_created := now, pn_updated := now\<rparr>; same = (\<lambda>r. pn_code r = pn_code p) in
      if \<not> plan_ok x then (Inl (PgErr ''23514''), d)
      else (case find same (bl_plans d) of
        None \<Rightarrow> constrained plans_schema d (Inr x, d\<lparr>bl_plans := bl_plans d @ [x]\<rparr>)
      | Some r \<Rightarrow> constrained plans_schema d (Inr (replaced_plan x now r),
            d\<lparr>bl_plans := update_rows same (replaced_plan x now) (bl_plans d)\<rparr>)))"

section \<open>Subscriptions\<close>

definition sql_get_subscription :: "uuid \<Rightarrow> bill_db \<Rightarrow> go_err + subscription_row" where
  "sql_get_subscription org d = one_row (\<lambda>r. sb_org r = org) (bl_subs d)"

text \<open>The \<open>WHERE\<close> and the two \<open>CASE\<close> of the upsert: \<open>old\<close> is the stored row, \<open>x\<close> is \<open>EXCLUDED\<close>.\<close>

definition accepts_event :: "subscription_row \<Rightarrow> subscription_row \<Rightarrow> bool" where
  "accepts_event old x \<longleftrightarrow>
     (case sb_event_at old of None \<Rightarrow> True | Some t \<Rightarrow> (case sb_event_at x of None \<Rightarrow> False | Some t' \<Rightarrow> t \<le> t'))
     \<and> (sb_subscription old = None \<or> sb_subscription old = sb_subscription x \<or> sb_status old = ''canceled'')
     \<and> (sb_customer old = None \<or> sb_customer old = sb_customer x)"

definition keeps_grace :: "subscription_row \<Rightarrow> subscription_row \<Rightarrow> bool" where
  "keeps_grace old x \<longleftrightarrow> sb_status old = ''past_due'' \<and> sb_status x = ''past_due'' \<and> sb_subscription old = sb_subscription x
     \<and> sb_past_due old \<noteq> None \<and> sb_grace old \<noteq> None"

definition replaced_subscription :: "subscription_row \<Rightarrow> int \<Rightarrow> subscription_row \<Rightarrow> subscription_row" where
  "replaced_subscription x now old = x\<lparr>sb_id := sb_id old, sb_org := sb_org old,
     sb_past_due := if keeps_grace old x then sb_past_due old else sb_past_due x,
     sb_grace := if keeps_grace old x then sb_grace old else sb_grace x,
     sb_created := sb_created old, sb_updated := now\<rparr>"

definition sql_upsert_subscription :: "subscription_row \<Rightarrow> int \<Rightarrow> bill_db \<Rightarrow> (go_err + subscription_row) \<times> bill_db" where
  "sql_upsert_subscription p now d =
     with_texts (sb_status p # texts [sb_provider p, sb_customer p, sb_subscription p]) d
     (let x = p\<lparr>sb_created := now, sb_updated := now\<rparr>; same = (\<lambda>r. sb_org r = sb_org p) in
      if \<not> subscription_ok x then (Inl (PgErr ''23514''), d)
      else (case find same (bl_subs d) of
        None \<Rightarrow> constrained subscriptions_schema d (Inr x, d\<lparr>bl_subs := bl_subs d @ [x]\<rparr>)
      | Some old \<Rightarrow>
          if \<not> accepts_event old x then (Inl err_no_rows, d)
          else constrained subscriptions_schema d (Inr (replaced_subscription x now old),
            d\<lparr>bl_subs := update_rows same (replaced_subscription x now) (bl_subs d)\<rparr>)))"

text \<open>The join condition of the effective entitlement: a comparison with NULL is not true.\<close>

definition at_most :: "int option \<Rightarrow> int \<Rightarrow> bool" where
  "at_most v t \<longleftrightarrow> (case v of None \<Rightarrow> False | Some x \<Rightarrow> x \<le> t)"

definition later_than :: "int option \<Rightarrow> int \<Rightarrow> bool" where
  "later_than v t \<longleftrightarrow> (case v of None \<Rightarrow> False | Some x \<Rightarrow> t < x)"

definition sql_paid :: "int \<Rightarrow> subscription_row \<Rightarrow> bool" where
  "sql_paid now s \<longleftrightarrow> at_most (sb_start s) now
     \<and> (case (sb_start s, sb_end s) of (Some a, Some b) \<Rightarrow> a < b | _ \<Rightarrow> False)
     \<and> (sb_status s \<in> {''trialing'', ''active''} \<and> later_than (sb_end s) now
          \<and> (sb_status s \<noteq> ''trialing'' \<or> sb_trial s = None \<or> later_than (sb_trial s) now)
        \<or> sb_status s = ''past_due'' \<and> at_most (sb_past_due s) now \<and> later_than (sb_grace s) now)"

definition plan_grants :: "string \<Rightarrow> plan_row \<Rightarrow> bool" where
  "plan_grants cap p \<longleftrightarrow> map_of (pn_entitlements p) cap = Some (J_Bool True)"

definition sql_effective :: "string \<Rightarrow> uuid \<Rightarrow> int \<Rightarrow> bill_db \<Rightarrow> go_err + bool" where
  "sql_effective cap org now d =
     (if org \<notin> og_id ` set (bl_orgs d) then Inl err_no_rows
      else Inr (case find (\<lambda>r. et_org r = org \<and> et_capability r = cap) (bl_ents d) of
         Some r \<Rightarrow> et_enabled r
       | None \<Rightarrow> (case find (\<lambda>s. sb_org s = org \<and> sql_paid now s) (bl_subs d) of
           None \<Rightarrow> False
         | Some s \<Rightarrow> (case find (\<lambda>p. pn_id p = sb_plan s) (bl_plans d) of None \<Rightarrow> False | Some p \<Rightarrow> plan_grants cap p))))"

text \<open>A page of reconciliation; canonical identifiers compare like their bytes.\<close>

fun text_before :: "string \<Rightarrow> string \<Rightarrow> bool" where
  "text_before s [] \<longleftrightarrow> False"
| "text_before [] (c # cs) \<longleftrightarrow> True"
| "text_before (b # bs) (c # cs) \<longleftrightarrow> (of_char b :: nat) < of_char c \<or> b = c \<and> text_before bs cs"

definition id_before :: "uuid \<Rightarrow> uuid \<Rightarrow> bool" where
  "id_before a b \<longleftrightarrow> text_before (uuid_string a) (uuid_string b)"

record reconcile_target =
  rt_org :: uuid
  rt_subscription :: "string option"
  rt_customer :: "string option"

definition target_of :: "bill_db \<Rightarrow> organization_row \<Rightarrow> reconcile_target" where
  "target_of d o' = (case find (\<lambda>s. sb_org s = og_id o' \<and> sb_provider s = Some ''polar'') (bl_subs d) of
     None \<Rightarrow> \<lparr>rt_org = og_id o', rt_subscription = None, rt_customer = None\<rparr>
   | Some s \<Rightarrow> \<lparr>rt_org = og_id o', rt_subscription = sb_subscription s, rt_customer = sb_customer s\<rparr>)"

definition sql_targets :: "uuid \<Rightarrow> bill_db \<Rightarrow> go_err + reconcile_target list" where
  "sql_targets after d = Inr (take 100 (map (target_of d) (order_by (\<lambda>a b. \<not> id_before (og_id b) (og_id a))
     (filter (\<lambda>o'. id_before after (og_id o') \<and> og_status o' = ''active'' \<and> \<not> og_deleted o') (bl_orgs d)))))"

section \<open>Entitlements\<close>

definition sql_get_entitlement :: "uuid \<Rightarrow> string \<Rightarrow> bill_db \<Rightarrow> go_err + entitlement_row" where
  "sql_get_entitlement org cap d = one_row (\<lambda>r. et_org r = org \<and> et_capability r = cap) (bl_ents d)"

definition sql_list_entitlements :: "uuid \<Rightarrow> bill_db \<Rightarrow> go_err + entitlement_row list" where
  "sql_list_entitlements org d =
     Inr (order_by (\<lambda>a b. \<not> text_before (et_capability b) (et_capability a)) (filter (\<lambda>r. et_org r = org) (bl_ents d)))"

definition sql_upsert_entitlement :: "uuid \<Rightarrow> string \<Rightarrow> bool \<Rightarrow> int \<Rightarrow> bill_db \<Rightarrow> (go_err + entitlement_row) \<times> bill_db" where
  "sql_upsert_entitlement org cap on now d = with_texts [cap] d
     (let x = \<lparr>et_org = org, et_capability = cap, et_enabled = on, et_created = now, et_updated = now\<rparr>;
          same = (\<lambda>r. et_org r = org \<and> et_capability r = cap); f = (\<lambda>r. r\<lparr>et_enabled := on, et_updated := now\<rparr>) in
      if cap \<notin> set known_capabilities then (Inl (PgErr ''23514''), d)
      else (case find same (bl_ents d) of
        None \<Rightarrow> constrained entitlements_schema d (Inr x, d\<lparr>bl_ents := bl_ents d @ [x]\<rparr>)
      | Some r \<Rightarrow> constrained entitlements_schema d (Inr (f r), d\<lparr>bl_ents := update_rows same f (bl_ents d)\<rparr>)))"

section \<open>Metered runtime\<close>

definition whole_seconds :: "int \<Rightarrow> int" where
  "whole_seconds us = - ((- us) div 1000000)"

definition metered :: "int \<Rightarrow> int \<Rightarrow> int \<Rightarrow> bill_db \<Rightarrow> media_row \<Rightarrow> int" where
  "metered from until now d m = (case (md_started m, find (\<lambda>c. ce_id c = md_call m \<and> ce_org c = md_org m) (bl_calls d)) of
     (Some t, Some c) \<Rightarrow>
       if t < until \<and> (case md_ended m of None \<Rightarrow> True | Some e \<Rightarrow> from < e)
       then max 0 (whole_seconds (min (keep_or (md_ended m) (keep_or (ce_ended c) now)) until - max t from))
       else 0
   | _ \<Rightarrow> 0)"

definition sql_used_seconds :: "uuid \<Rightarrow> int \<Rightarrow> int \<Rightarrow> int \<Rightarrow> bill_db \<Rightarrow> go_err + int" where
  "sql_used_seconds org from until now d = Inr (sum_list (map (metered from until now d) (filter (\<lambda>m. md_org m = org) (bl_media d))))"

section \<open>The inbox\<close>

record receipt_params =
  rp_environment :: string
  rp_event :: string
  rp_type :: string
  rp_event_at :: int
  rp_payload :: string
  rp_hash :: string

definition new_receipt :: "receipt_params \<Rightarrow> string \<Rightarrow> uuid \<Rightarrow> int \<Rightarrow> receipt_row" where
  "new_receipt p payload i now = \<lparr>rc_id = i, rc_environment = rp_environment p, rc_event = rp_event p, rc_type = rp_type p,
     rc_event_at = rp_event_at p, rc_payload = payload, rc_hash = rp_hash p, rc_status = ''pending'', rc_attempts = 0,
     rc_available = now, rc_locked = None, rc_lease = None, rc_received = now, rc_processed = None, rc_error = None\<rparr>"

text \<open>\<open>to_jsonb\<close> is the cast of the server: the text of the value, or \<open>None\<close> for a text it refuses.\<close>

definition sql_insert_receipt ::
  "(string \<Rightarrow> string option) \<Rightarrow> receipt_params \<Rightarrow> uuid \<Rightarrow> int \<Rightarrow> bill_db \<Rightarrow> (go_err + receipt_row) \<times> bill_db" where
  "sql_insert_receipt to_jsonb p i now d = with_texts [rp_environment p, rp_event p, rp_type p, rp_hash p] d
     (case to_jsonb (rp_payload p) of
        None \<Rightarrow> (Inl (PgErr ''22P02''), d)
      | Some payload \<Rightarrow> (let x = new_receipt p payload i now in
          if \<not> receipt_ok x then (Inl (PgErr ''23514''), d)
          else (case find (\<lambda>r. rc_environment r = rp_environment p \<and> rc_event r = rp_event p) (bl_receipts d) of
            None \<Rightarrow> constrained receipts_schema d (Inr x, d\<lparr>bl_receipts := bl_receipts d @ [x]\<rparr>)
          | Some r \<Rightarrow> if rc_hash r = rp_hash p then (Inr r, d) else (Inl err_no_rows, d))))"

definition expired_lease :: "int \<Rightarrow> receipt_row \<Rightarrow> bool" where
  "expired_lease now r \<longleftrightarrow> rc_status r = ''processing'' \<and> (case rc_locked r of None \<Rightarrow> False | Some t \<Rightarrow> t < now - 60000000)"

definition sql_reap_receipts :: "string \<Rightarrow> int \<Rightarrow> int \<Rightarrow> bill_db \<Rightarrow> (go_err + unit) \<times> bill_db" where
  "sql_reap_receipts environment limit now d = with_texts [environment] d (Inr (), d\<lparr>bl_receipts :=
     update_rows (\<lambda>r. rc_environment r = environment \<and> expired_lease now r \<and> limit \<le> rc_attempts r)
       (\<lambda>r. r\<lparr>rc_status := ''dead_letter'', rc_locked := None, rc_lease := None,
          rc_error := Some ''processing lease expired at retry limit''\<rparr>) (bl_receipts d)\<rparr>)"

definition claimable :: "string \<Rightarrow> int \<Rightarrow> int \<Rightarrow> receipt_row \<Rightarrow> bool" where
  "claimable environment limit now r \<longleftrightarrow> rc_environment r = environment \<and> rc_attempts r < limit \<and> rc_available r \<le> now
     \<and> (rc_status r = ''pending'' \<or> expired_lease now r)"

definition older_receipt :: "receipt_row \<Rightarrow> receipt_row \<Rightarrow> bool" where
  "older_receipt a b \<longleftrightarrow> rc_received a < rc_received b \<or> rc_received a = rc_received b \<and> \<not> id_before (rc_id b) (rc_id a)"

definition claimed_receipt :: "uuid \<Rightarrow> int \<Rightarrow> receipt_row \<Rightarrow> receipt_row" where
  "claimed_receipt lease now r = r\<lparr>rc_status := ''processing'', rc_attempts := rc_attempts r + 1, rc_locked := Some now, rc_lease := Some lease\<rparr>"

definition sql_claim_receipt :: "uuid \<Rightarrow> string \<Rightarrow> int \<Rightarrow> int \<Rightarrow> bill_db \<Rightarrow> (go_err + receipt_row) \<times> bill_db" where
  "sql_claim_receipt lease environment limit now d = with_texts [environment] d
     (case order_by older_receipt (filter (claimable environment limit now) (bl_receipts d)) of
        [] \<Rightarrow> (Inl err_no_rows, d)
      | r # _ \<Rightarrow> (Inr (claimed_receipt lease now r),
          d\<lparr>bl_receipts := update_rows (\<lambda>x. rc_id x = rc_id r) (claimed_receipt lease now) (bl_receipts d)\<rparr>))"

definition held_receipt :: "uuid \<Rightarrow> uuid \<Rightarrow> receipt_row \<Rightarrow> bool" where
  "held_receipt i lease r \<longleftrightarrow> rc_id r = i \<and> rc_lease r = Some lease \<and> rc_status r = ''processing''"

definition sql_claimed_receipt :: "uuid \<Rightarrow> uuid \<Rightarrow> bill_db \<Rightarrow> go_err + receipt_row" where
  "sql_claimed_receipt i lease d = one_row (held_receipt i lease) (bl_receipts d)"

text \<open>Both statements answer the number of rows they changed.\<close>

definition sql_complete_receipt :: "string \<Rightarrow> uuid \<Rightarrow> uuid \<Rightarrow> int \<Rightarrow> bill_db \<Rightarrow> (go_err + nat) \<times> bill_db" where
  "sql_complete_receipt status i lease now d = with_texts [status] d (constrained receipts_schema d
     (Inr (length (filter (held_receipt i lease) (bl_receipts d))), d\<lparr>bl_receipts := update_rows (held_receipt i lease)
       (\<lambda>r. r\<lparr>rc_status := status, rc_processed := Some now, rc_locked := None, rc_lease := None, rc_error := None\<rparr>) (bl_receipts d)\<rparr>))"

definition sql_fail_receipt :: "string \<Rightarrow> string \<Rightarrow> int \<Rightarrow> uuid \<Rightarrow> uuid \<Rightarrow> int \<Rightarrow> bill_db \<Rightarrow> (go_err + nat) \<times> bill_db" where
  "sql_fail_receipt status message delay i lease now d = with_texts [status, message] d (constrained receipts_schema d
     (Inr (length (filter (held_receipt i lease) (bl_receipts d))), d\<lparr>bl_receipts := update_rows (held_receipt i lease)
       (\<lambda>r. r\<lparr>rc_status := status, rc_locked := None, rc_lease := None, rc_error := Some message, rc_available := now + delay * 1000000\<rparr>)
       (bl_receipts d)\<rparr>))"

definition sql_delete_receipts :: "int \<Rightarrow> bill_db \<Rightarrow> (go_err + unit) \<times> bill_db" where
  "sql_delete_receipts now d = (Inr (), d\<lparr>bl_receipts := filter (\<lambda>r. \<not> (rc_status r \<in> {''processed'', ''ignored''}
     \<and> (case rc_processed r of None \<Rightarrow> False | Some t \<Rightarrow> t < now - 2592000000000))) (bl_receipts d)\<rparr>)"

end
