(* ===== verification/Bill_Plans.thy ===== *)
theory Bill_Plans
  imports Bill_Store
begin

text \<open>
  Plans, entitlements, subscriptions and effective limits (\<open>commercial/plans\<close>, \<open>commercial/entitlements\<close>,
  \<open>commercial/subscriptions\<close>, \<open>commercial/limits\<close>): validation, repositories and services over the tables.
\<close>

section \<open>Environment\<close>

text \<open>The statements of the server, random identifiers and the clock of the process at a step.\<close>

record bill_service =
  bs_env :: "nat \<Rightarrow> sql_env"
  bs_uuid :: "nat \<Rightarrow> uuid"
  bs_now :: "nat \<Rightarrow> int"

type_synonym 'a bill_action = "(bill_db, 'a) sql_action"

definition bill_query :: "('s bill_service_scheme) \<Rightarrow> (bill_db \<Rightarrow> go_err + 'a) \<Rightarrow> 'a bill_action" where
  "bill_query S q = sql_query (bs_env S) (\<lambda>_. q)"

definition bill_exec :: "('s bill_service_scheme) \<Rightarrow> (sql_env \<Rightarrow> bill_db \<Rightarrow> (go_err + 'a) \<times> bill_db) \<Rightarrow> 'a bill_action" where
  "bill_exec S q = sql_exec (bs_env S) q"

definition internally :: "string \<Rightarrow> 'a bill_action \<Rightarrow> 'a bill_action" where
  "internally message m = map_error (\<lambda>e. new_internal message (Some e)) m"

section \<open>Plans\<close>

record plan =
  pl_row :: plan_row
  pl_entitlements :: "(string \<times> bool) list"
  pl_limits :: "(string \<times> int) list"

text \<open>\<open>json.Unmarshal\<close> into a map of booleans or of \<open>int64\<close>: \<open>null\<close> leaves the zero value.\<close>

definition unmarshal_bool :: "jsonb \<Rightarrow> bool option" where
  "unmarshal_bool v = (case v of J_Bool b \<Rightarrow> Some b | J_Null \<Rightarrow> Some False | _ \<Rightarrow> None)"

definition unmarshal_int :: "jsonb \<Rightarrow> int option" where
  "unmarshal_int v = (case v of J_Int i \<Rightarrow> if in_int64 i then Some i else None | J_Null \<Rightarrow> Some 0 | _ \<Rightarrow> None)"

fun unmarshal_map :: "(jsonb \<Rightarrow> 'a option) \<Rightarrow> (string \<times> jsonb) list \<Rightarrow> (string \<times> 'a) list option" where
  "unmarshal_map f [] = Some []"
| "unmarshal_map f ((k, v) # rest) = (case f v of None \<Rightarrow> None | Some x \<Rightarrow> map_option ((#) (k, x)) (unmarshal_map f rest))"

definition err_unmarshal :: go_err where
  "err_unmarshal = Errf ''json: cannot unmarshal value'' []"

definition plan_from_row :: "plan_row \<Rightarrow> go_err + plan" where
  "plan_from_row r = (case unmarshal_map unmarshal_bool (pn_entitlements r) of
     None \<Rightarrow> Inl err_unmarshal
   | Some es \<Rightarrow> (case unmarshal_map unmarshal_int (pn_limits r) of
       None \<Rightarrow> Inl err_unmarshal
     | Some ls \<Rightarrow> Inr \<lparr>pl_row = r, pl_entitlements = es, pl_limits = ls\<rparr>))"

fun plans_from_rows :: "plan_row list \<Rightarrow> go_err + plan list" where
  "plans_from_rows [] = Inr []"
| "plans_from_rows (r # rs) = rbind (plan_from_row r) (\<lambda>p. rbind (plans_from_rows rs) (\<lambda>ps. Inr (p # ps)))"

definition from_row :: "plan_row bill_action \<Rightarrow> plan bill_action" where
  "from_row m = chain m (\<lambda>r. State_Monad.return (plan_from_row r))"

definition plans_list :: "('s bill_service_scheme) \<Rightarrow> plan list bill_action" where
  "plans_list S = internally ''list plans'' (chain (bill_query S sql_list_plans) (\<lambda>rs. State_Monad.return (plans_from_rows rs)))"

definition plan_read_err :: "plan bill_action \<Rightarrow> plan bill_action" where
  "plan_read_err m = map_error (\<lambda>e. if errors_is e err_no_rows then new_not_found ''plan not found'' else new_internal ''get plan'' (Some e)) m"

definition plan_by_id :: "('s bill_service_scheme) \<Rightarrow> uuid \<Rightarrow> plan bill_action" where
  "plan_by_id S i = (if i = uuid_nil then fail (new_bad_request ''plan_id is required'')
     else plan_read_err (from_row (bill_query S (sql_plan_by_id i))))"

definition plan_by_code :: "('s bill_service_scheme) \<Rightarrow> string \<Rightarrow> plan bill_action" where
  "plan_by_code S code0 = (let code = trim_space code0 in
     if code = [] then fail (new_bad_request ''plan code is required'')
     else plan_read_err (from_row (bill_query S (sql_plan_by_code code))))"

record plan_input =
  pi_code :: string
  pi_name :: string
  pi_description :: "string option"
  pi_pricing :: string
  pi_currency :: string
  pi_amount :: "int option"
  pi_interval :: string
  pi_entitlements :: "(string \<times> bool) list"
  pi_limits :: "(string \<times> int) list"
  pi_status :: string

definition plan_limit_names :: "string list" where
  "plan_limit_names = [''max_concurrent_calls'', ''retention_days'', ''monthly_runtime_minutes'', ''max_voice_agents'', ''max_sip_trunks'']"

definition valid_capability :: "string \<Rightarrow> bool" where
  "valid_capability c \<longleftrightarrow> c \<in> {''advanced_rbac'', ''retention_policies'', ''private_networking''}"

definition pricing_error :: "string \<Rightarrow> int option \<Rightarrow> go_err option" where
  "pricing_error kind amount =
     (if kind = ''fixed'' then (case amount of
        None \<Rightarrow> Some (new_bad_request ''fixed plan amount is required'')
      | Some a \<Rightarrow> if a < 0 then Some (new_bad_request ''plan amount must be non-negative'') else None)
      else if kind = ''custom'' then (if amount \<noteq> None then Some (new_bad_request ''custom plan amount must be omitted'') else None)
      else Some (new_bad_request ''unsupported pricing type''))"

fun limits_error :: "(string \<times> int) list \<Rightarrow> go_err option" where
  "limits_error [] = None"
| "limits_error ((name, v) # rest) =
     (if name \<in> set plan_limit_names then (if v \<le> 0 then Some (new_bad_request ''plan limit must be positive'') else limits_error rest)
      else Some (new_bad_request ''unsupported plan limit''))"

definition normalized_plan :: "plan_input \<Rightarrow> plan_input" where
  "normalized_plan r = r\<lparr>pi_code := trim_space (pi_code r), pi_name := trim_space (pi_name r), pi_pricing := trim_space (pi_pricing r),
     pi_currency := to_upper (trim_space (pi_currency r)), pi_interval := trim_space (pi_interval r), pi_status := trim_space (pi_status r)\<rparr>"

definition trimmed_description :: "string option \<Rightarrow> string option" where
  "trimmed_description v = (case v of None \<Rightarrow> None | Some s \<Rightarrow> if trim_space s = [] then None else Some (trim_space s))"

definition validate_upsert :: "plan_input \<Rightarrow> go_err + plan_input" where
  "validate_upsert r0 = (let r = normalized_plan r0 in
     checked (or_else (first_error
         [(pi_code r = [], new_bad_request ''plan code is required''), (pi_name r = [], new_bad_request ''plan name is required'')])
       (or_else (pricing_error (pi_pricing r) (pi_amount r))
       (or_else (first_error
         [(length (pi_currency r) \<noteq> 3, new_bad_request ''plan currency must be a 3-letter code''),
          (pi_interval r \<noteq> ''month'' \<and> pi_interval r \<noteq> ''year'', new_bad_request ''unsupported billing interval''),
          (pi_status r \<noteq> ''active'' \<and> pi_status r \<noteq> ''inactive'', new_bad_request ''unsupported plan status''),
          (\<not> list_all (\<lambda>(c, _). valid_capability c) (pi_entitlements r), new_bad_request ''unsupported plan entitlement'')])
       (limits_error (pi_limits r)))))
     (r\<lparr>pi_description := trimmed_description (pi_description r)\<rparr>))"

definition plan_row_of :: "uuid \<Rightarrow> plan_input \<Rightarrow> plan_row" where
  "plan_row_of i r = \<lparr>pn_id = i, pn_code = pi_code r, pn_name = pi_name r, pn_description = pi_description r, pn_pricing = pi_pricing r,
     pn_currency = pi_currency r, pn_amount = pi_amount r, pn_interval = pi_interval r,
     pn_entitlements = map (\<lambda>(k, v). (k, J_Bool v)) (pi_entitlements r), pn_limits = map (\<lambda>(k, v). (k, J_Int v)) (pi_limits r),
     pn_status = pi_status r, pn_created = 0, pn_updated = 0\<rparr>"

definition plan_upsert :: "('s bill_service_scheme) \<Rightarrow> uuid \<Rightarrow> plan_input \<Rightarrow> plan bill_action" where
  "plan_upsert S i0 req = do { n \<leftarrow> sql_tick;
     let i = (if i0 = uuid_nil then bs_uuid S n else i0) in
     chain (State_Monad.return (validate_upsert req)) (\<lambda>r.
       internally ''upsert plan'' (from_row (bill_exec S (\<lambda>se. sql_upsert_plan (plan_row_of i r) (sq_now se))))) }"

section \<open>Entitlements\<close>

definition normalize_capability :: "string \<Rightarrow> go_err + string" where
  "normalize_capability v = (let c = trim_space v in
     if valid_capability c then Inr c else Inl (new_bad_request ''unsupported organization capability''))"

definition entitlement_enabled :: "('s bill_service_scheme) \<Rightarrow> uuid \<Rightarrow> string \<Rightarrow> bool bill_action" where
  "entitlement_enabled S org cap0 =
     (if org = uuid_nil then fail (new_bad_request ''organization_id is required'')
      else chain (State_Monad.return (normalize_capability cap0)) (\<lambda>cap.
        internally ''get effective organization entitlement'' (sql_query (bs_env S) (\<lambda>se. sql_effective cap org (sq_now se)))))"

fun effective_of :: "('s bill_service_scheme) \<Rightarrow> uuid \<Rightarrow> string list \<Rightarrow> (string \<times> bool) list bill_action" where
  "effective_of S org [] = succeed []"
| "effective_of S org (c # cs) = chain (entitlement_enabled S org c) (\<lambda>on. chain (effective_of S org cs) (\<lambda>rest. succeed ((c, on) # rest)))"

definition entitlements_effective :: "('s bill_service_scheme) \<Rightarrow> uuid \<Rightarrow> (string \<times> bool) list bill_action" where
  "entitlements_effective S org =
     (if org = uuid_nil then fail (new_bad_request ''organization_id is required'')
      else effective_of S org [''advanced_rbac'', ''retention_policies'', ''private_networking''])"

definition entitlement_require :: "('s bill_service_scheme) \<Rightarrow> uuid \<Rightarrow> string \<Rightarrow> unit bill_action" where
  "entitlement_require S org cap = chain (entitlement_enabled S org cap) (\<lambda>on.
     if \<not> on then fail (new_forbidden (''organization capability '' @ [CHR 0x22] @ cap @ [CHR 0x22] @ '' is not enabled'')) else succeed ())"

definition entitlement_set :: "('s bill_service_scheme) \<Rightarrow> uuid \<Rightarrow> string \<Rightarrow> bool \<Rightarrow> entitlement_row bill_action" where
  "entitlement_set S org cap0 on =
     (if org = uuid_nil then fail (new_bad_request ''organization_id is required'')
      else chain (State_Monad.return (normalize_capability cap0)) (\<lambda>cap.
        internally ''set organization entitlement'' (bill_exec S (\<lambda>se. sql_upsert_entitlement org cap on (sq_now se)))))"

section \<open>Subscriptions\<close>

record sync_request =
  sy_plan :: uuid
  sy_status :: string
  sy_start :: "int option"
  sy_end :: "int option"
  sy_trial :: "int option"
  sy_past_due :: "int option"
  sy_grace :: "int option"
  sy_cancel :: bool
  sy_canceled :: "int option"
  sy_provider :: "string option"
  sy_customer :: "string option"
  sy_subscription :: "string option"
  sy_event_at :: "int option"

definition grace_error :: "sync_request \<Rightarrow> go_err option" where
  "grace_error r = (if sy_past_due r = None \<and> sy_grace r = None then None
     else (case (sy_past_due r, sy_grace r) of
        (Some a, Some b) \<Rightarrow>
          if sy_status r \<noteq> ''past_due'' then Some (new_bad_request ''payment grace requires past_due status and both timestamps'')
          else if b < a then Some (new_bad_request ''grace_ends_at must not be before past_due_at'') else None
      | _ \<Rightarrow> Some (new_bad_request ''payment grace requires past_due status and both timestamps'')))"

definition provider_error :: "sync_request \<Rightarrow> go_err option" where
  "provider_error r = (case sy_provider r of None \<Rightarrow> None | Some p \<Rightarrow>
     first_error [(p \<noteq> ''polar'', new_bad_request ''unsupported subscription provider''),
       (sy_customer r = None \<or> sy_subscription r = None \<or> sy_event_at r = None,
          new_bad_request ''provider subscription metadata is incomplete'')])"

definition validate_sync :: "sync_request \<Rightarrow> go_err option" where
  "validate_sync r =
     or_else (first_error [(sy_plan r = uuid_nil, new_bad_request ''plan_id is required''),
       (sy_status r \<notin> {''trialing'', ''active'', ''past_due'', ''canceled'', ''incomplete''}, new_bad_request ''unsupported subscription status'')])
    (or_else (grace_error r) (or_else (provider_error r)
     (case (sy_start r, sy_end r) of
        (Some a, Some b) \<Rightarrow> if b \<le> a then Some (new_bad_request ''current_period_end must be after current_period_start'') else None
      | _ \<Rightarrow> None)))"

text \<open>\<open>pgconv.NullableTimestamptz\<close>: no time and the zero time are NULL.\<close>

definition nullable_time :: "int option \<Rightarrow> int option" where
  "nullable_time v = (if v = Some zero_time then None else v)"

definition subscription_params :: "uuid \<Rightarrow> uuid \<Rightarrow> sync_request \<Rightarrow> subscription_row" where
  "subscription_params i org r = \<lparr>sb_id = i, sb_org = org, sb_plan = sy_plan r, sb_status = sy_status r,
     sb_start = nullable_time (sy_start r), sb_end = nullable_time (sy_end r), sb_trial = nullable_time (sy_trial r),
     sb_past_due = nullable_time (sy_past_due r), sb_grace = nullable_time (sy_grace r), sb_cancel = sy_cancel r,
     sb_canceled = nullable_time (sy_canceled r), sb_provider = sy_provider r, sb_customer = sy_customer r,
     sb_subscription = sy_subscription r, sb_event_at = nullable_time (sy_event_at r), sb_created = 0, sb_updated = 0\<rparr>"

definition subscription_get :: "('s bill_service_scheme) \<Rightarrow> uuid \<Rightarrow> subscription_row option bill_action" where
  "subscription_get S org =
     (if org = uuid_nil then fail (new_bad_request ''organization_id is required'')
      else handle (bill_query S (sql_get_subscription org))
        (\<lambda>e. if errors_is e err_no_rows then succeed None else fail (new_internal ''get organization subscription'' (Some e)))
        (\<lambda>s. succeed (Some s)))"

definition subscription_sync :: "('s bill_service_scheme) \<Rightarrow> uuid \<Rightarrow> sync_request \<Rightarrow> subscription_row bill_action" where
  "subscription_sync S org r =
     (if org = uuid_nil then fail (new_bad_request ''organization_id is required'')
      else chain (of_check (validate_sync r)) (\<lambda>_.
        chain (subscription_get S org) (\<lambda>existing. do { n \<leftarrow> sql_tick;
          let i = (case existing of None \<Rightarrow> bs_uuid S n | Some s \<Rightarrow> sb_id s) in
          handle (bill_exec S (\<lambda>se. sql_upsert_subscription (subscription_params i org r) (sq_now se)))
            (\<lambda>e. if errors_is e err_no_rows
               then chain (subscription_get S org) (\<lambda>current. case current of
                   Some s \<Rightarrow> succeed s
                 | None \<Rightarrow> fail (new_service_unavailable ''subscription synchronization race'' (Some e)))
               else fail (new_internal ''sync organization subscription'' (Some e)))
            (\<lambda>s. succeed s) })))"

definition paid_access_active :: "subscription_row option \<Rightarrow> int \<Rightarrow> bool" where
  "paid_access_active v now = (case v of None \<Rightarrow> False | Some s \<Rightarrow>
     (case (sb_start s, sb_end s) of
        (Some a, Some b) \<Rightarrow>
          if now < a \<or> \<not> a < b then False
          else if sb_status s = ''active'' then now < b
          else if sb_status s = ''trialing'' then now < b \<and> (case sb_trial s of None \<Rightarrow> True | Some t \<Rightarrow> now < t)
          else if sb_status s = ''past_due'' then
            (case sb_past_due s of None \<Rightarrow> False | Some t \<Rightarrow> \<not> now < t) \<and> (case sb_grace s of None \<Rightarrow> False | Some t \<Rightarrow> now < t)
          else False
      | _ \<Rightarrow> False))"

section \<open>Months\<close>

text \<open>
  \<open>time.Date(now.Year(), now.Month(), 1, ...)\<close> and \<open>AddDate(0, 1, 0)\<close> in UTC: the day counted from 1 January of the year 1
  in cycles of 400, 100, 4 years and one, then its month. The zero time is the start of that day.
\<close>

definition day_micros :: int where "day_micros = 86400000000"

definition leap_year :: "int \<Rightarrow> bool" where
  "leap_year y \<longleftrightarrow> y mod 4 = 0 \<and> (y mod 100 \<noteq> 0 \<or> y mod 400 = 0)"

definition year_and_day :: "int \<Rightarrow> int \<times> int" where
  "year_and_day days =
     (let n400 = days div 146097; r400 = days mod 146097;
          n100 = min 3 (r400 div 36524); r100 = r400 - n100 * 36524;
          n4 = r100 div 1461; r4 = r100 mod 1461;
          n1 = min 3 (r4 div 365) in
      (400 * n400 + 100 * n100 + 4 * n4 + n1 + 1, r4 - n1 * 365))"

definition month_lengths :: "int \<Rightarrow> int list" where
  "month_lengths y = [31, if leap_year y then 29 else 28, 31, 30, 31, 30, 31, 31, 30, 31, 30, 31]"

text \<open>The day of the month from 0 and the length of the month of a day of the year.\<close>

fun month_day :: "int list \<Rightarrow> int \<Rightarrow> int \<times> int" where
  "month_day [] day = (0, 0)"
| "month_day (n # ns) day = (if day < n then (day, n) else month_day ns (day - n))"

definition calendar_month :: "int \<Rightarrow> int \<times> int" where
  "calendar_month now =
     (let days = (now - zero_time) div day_micros; (y, day) = year_and_day days; (dd, len) = month_day (month_lengths y) day;
          first = zero_time + (days - dd) * day_micros in
      (first, first + len * day_micros))"

section \<open>Effective limits\<close>

record effective_limits =
  el_calls :: "int option"
  el_retention :: "int option"
  el_minutes :: "int option"
  el_agents :: "int option"
  el_trunks :: "int option"
  el_from :: int
  el_until :: int

definition positive_limit :: "(string \<times> int) list \<Rightarrow> string \<Rightarrow> int option" where
  "positive_limit ls name = (case map_of ls name of None \<Rightarrow> None | Some v \<Rightarrow> if v < 1 then None else Some v)"

definition limits_of_plan :: "plan \<Rightarrow> effective_limits" where
  "limits_of_plan p = (let l = positive_limit (pl_limits p) in
     \<lparr>el_calls = l ''max_concurrent_calls'', el_retention = l ''retention_days'', el_minutes = l ''monthly_runtime_minutes'',
      el_agents = l ''max_voice_agents'', el_trunks = l ''max_sip_trunks'', el_from = 0, el_until = 0\<rparr>)"

definition valid_plan_limits :: "effective_limits \<Rightarrow> bool" where
  "valid_plan_limits v \<longleftrightarrow> el_calls v \<noteq> None \<and> el_retention v \<noteq> None \<and> el_minutes v \<noteq> None \<and> el_agents v \<noteq> None \<and> el_trunks v \<noteq> None"

text \<open>The period of an active subscription: up to the end of the grace window when that is later.\<close>

definition paid_period :: "subscription_row \<Rightarrow> int \<times> int" where
  "paid_period s = (let from = the (sb_start s); until = the (sb_end s) in
     (from, if sb_status s = ''past_due'' \<and> until < the (sb_grace s) then the (sb_grace s) else until))"

definition limits_get :: "('s bill_service_scheme) \<Rightarrow> uuid \<Rightarrow> effective_limits bill_action" where
  "limits_get S org =
     (if org = uuid_nil then fail (new_bad_request ''organization_id is required'')
      else chain (subscription_get S org) (\<lambda>sub. do { n \<leftarrow> sql_tick;
        let now = bs_now S n; (from, until) = (if paid_access_active sub now then paid_period (the sub) else calendar_month now) in
        chain (if paid_access_active sub now then plan_by_id S (sb_plan (the sub)) else plan_by_code S ''free'') (\<lambda>p.
          let v = (limits_of_plan p)\<lparr>el_from := from, el_until := until\<rparr> in
          if \<not> valid_plan_limits v then fail (new_service_unavailable ''organization plan capacity is incomplete'' None)
          else succeed v) }))"

definition plan_limit :: "('s bill_service_scheme) \<Rightarrow> (effective_limits \<Rightarrow> int option) \<Rightarrow> uuid \<Rightarrow> (int \<times> bool) bill_action" where
  "plan_limit S field org = chain (limits_get S org) (\<lambda>v. case field v of None \<Rightarrow> succeed (0, False) | Some l \<Rightarrow> succeed (l, True))"

record runtime_usage =
  ru_unlimited :: bool
  ru_from :: int
  ru_until :: int
  ru_used :: int
  ru_allowed :: int

definition limits_usage :: "('s bill_service_scheme) \<Rightarrow> uuid \<Rightarrow> runtime_usage bill_action" where
  "limits_usage S org = chain (limits_get S org) (\<lambda>v. case el_minutes v of
     None \<Rightarrow> succeed \<lparr>ru_unlimited = True, ru_from = el_from v, ru_until = el_until v, ru_used = 0, ru_allowed = 0\<rparr>
   | Some minutes \<Rightarrow>
       chain (map_error (\<lambda>e. new_service_unavailable ''read runtime usage'' (Some e))
                (sql_query (bs_env S) (\<lambda>se. sql_used_seconds org (el_from v) (el_until v) (sq_now se)))) (\<lambda>used.
       succeed \<lparr>ru_unlimited = False, ru_from = el_from v, ru_until = el_until v, ru_used = used, ru_allowed = wrap64 (minutes * 60)\<rparr>))"

definition require_runtime :: "('s bill_service_scheme) \<Rightarrow> uuid \<Rightarrow> unit bill_action" where
  "require_runtime S org = chain (limits_usage S org) (\<lambda>u.
     if \<not> ru_unlimited u \<and> ru_allowed u \<le> ru_used u
     then fail (new_payment_required ''monthly Voice Agent runtime allowance exhausted'') else succeed ())"

end
