(* ===== verification/Polar_Client.thy ===== *)
theory Polar_Client
  imports Bill_Plans Cred_Cipher
begin

text \<open>
  The client of the payment provider (\<open>integrations/payments/polar\<close>): its HTTP exchange, checkout and portal sessions,
  customer states and subscriptions, and the verification of signed webhooks. The transport, HMAC-SHA256, \<open>encoding/json\<close>
  on the provider's answers are fields of \<open>polar\<close>, \<open>uuid.Parse\<close> and the decoder of an event are arguments.
\<close>

section \<open>Data\<close>

record polar_customer =
  pu_id :: string
  pu_external :: string

text \<open>\<open>ps_org_meta\<close> is the entry \<open>organization_id\<close> of the metadata: absent, or its string (\<open>None\<close> for any other value).\<close>

record polar_subscription =
  ps_id :: string
  ps_modified :: "int option"
  ps_customer_id :: string
  ps_product :: string
  ps_customer :: polar_customer
  ps_status :: string
  ps_org_meta :: "string option option"
  ps_start :: int
  ps_end :: int
  ps_trial :: "int option"
  ps_cancel :: bool
  ps_canceled :: "int option"
  ps_past_due :: "int option"

record state_subscription =
  ss_id :: string
  ss_product :: string

record customer_state =
  cu_id :: string
  cu_external :: string
  cu_active :: "state_subscription list"

text \<open>\<open>pe_data\<close> is the raw message, empty when it is absent.\<close>

record polar_event =
  pe_type :: string
  pe_at :: int
  pe_version :: string
  pe_data :: string

record checkout_params =
  cp_product :: string
  cp_org :: string
  cp_plan :: string
  cp_success :: string
  cp_return :: string

text \<open>The request bodies, before \<open>json.Marshal\<close>, whose members are the fields in this order.\<close>

datatype polar_input =
    No_Input
  | Checkout_Input "string list" string string string "(string \<times> string) list"
  | Portal_Input string string

record polar_request =
  pq_method :: string
  pq_url :: string
  pq_headers :: "(string \<times> string) list"
  pq_input :: polar_input

record polar =
  po_token :: string
  po_secret :: string
  po_base :: string
  po_now :: "nat \<Rightarrow> int"
  po_http :: "nat \<Rightarrow> polar_request \<Rightarrow> go_err + int \<times> string"
  po_hmac :: "string \<Rightarrow> string \<Rightarrow> string"
  po_session :: "string \<Rightarrow> string option"
  po_portal :: "string \<Rightarrow> string option"
  po_subscription :: "string \<Rightarrow> polar_subscription option"
  po_state :: "string \<Rightarrow> customer_state option"

definition new_polar :: "polar \<Rightarrow> string \<Rightarrow> string \<Rightarrow> string \<Rightarrow> polar" where
  "new_polar P token secret environment = P\<lparr>po_token := trim_space token, po_secret := trim_space secret,
     po_base := if environment = ''sandbox'' then ''https://sandbox-api.polar.sh'' else ''https://api.polar.sh''\<rparr>"

text \<open>A nil client is \<open>None\<close>.\<close>

definition polar_configured :: "polar option \<Rightarrow> bool" where
  "polar_configured c \<longleftrightarrow> (case c of None \<Rightarrow> False | Some P \<Rightarrow> po_token P \<noteq> [] \<and> po_secret P \<noteq> [])"

definition polar_environment :: "polar option \<Rightarrow> string" where
  "polar_environment c = (case c of
     Some P \<Rightarrow> if po_base P = ''https://sandbox-api.polar.sh'' then ''sandbox'' else ''production''
   | None \<Rightarrow> ''production'')"

section \<open>The exchange\<close>

definition err_polar_missing :: go_err where
  "err_polar_missing = Sentinel ''polar resource not found''"

text \<open>\<open>APIError\<close>, which is \<open>ErrNotFound\<close> for the status 404.\<close>

definition polar_api_error :: "int \<Rightarrow> go_err" where
  "polar_api_error status = (if status = 404 then Wrap ''polar request failed with status %d'' [int_dec status] err_polar_missing
     else Errf ''polar request failed with status %d'' [int_dec status])"

definition polar_headers :: "polar \<Rightarrow> polar_input \<Rightarrow> (string \<times> string) list" where
  "polar_headers P input = [(''Authorization'', ''Bearer '' @ po_token P), (''Polar-Version'', ''2026-10''), (''Accept'', ''application/json'')]
     @ (if input = No_Input then [] else [(''Content-Type'', ''application/json'')])"

definition polar_do :: "polar \<Rightarrow> string \<Rightarrow> string \<Rightarrow> polar_input \<Rightarrow> (string \<Rightarrow> 'a option) \<Rightarrow> ('d, 'a) sql_action" where
  "polar_do P meth target input decode =
     (if po_token P = [] then fail (Errf ''polar access token is not configured'' [])
      else do { n \<leftarrow> sql_tick;
        case po_http P n \<lparr>pq_method = meth, pq_url = po_base P @ target, pq_headers = polar_headers P input, pq_input = input\<rparr> of
          Inl e \<Rightarrow> fail (Wrap ''send Polar request: %w'' [] e)
        | Inr (status, body) \<Rightarrow>
            if status < 200 \<or> 300 \<le> status then fail (polar_api_error status)
            else (case decode (take 1048576 body) of
                None \<Rightarrow> fail (Errf ''decode Polar response'' [])
              | Some x \<Rightarrow> succeed x) })"

definition validate_polar_uuid :: "(string \<Rightarrow> uuid option) \<Rightarrow> string \<Rightarrow> go_err option" where
  "validate_polar_uuid parse v = (if parse v = None \<or> parse v = Some uuid_nil
     then Some (Errf ''nonempty UUID is required'' []) else None)"

text \<open>\<open>url.PathEscape\<close>.\<close>

definition path_plain :: "char \<Rightarrow> bool" where
  "path_plain c \<longleftrightarrow> (let n = (of_char c :: nat) in 97 \<le> n \<and> n \<le> 122 \<or> 65 \<le> n \<and> n \<le> 90 \<or> 48 \<le> n \<and> n \<le> 57)
     \<or> c \<in> {CHR ''-'', CHR ''_'', CHR ''.'', CHR ''~'', CHR ''$'', CHR ''&'', CHR ''+'', CHR ''='', CHR '':'', CHR ''@''}"

definition upper_hex :: "nat \<Rightarrow> char" where
  "upper_hex n = (if n < 10 then char_of (48 + n) else char_of (55 + n))"

definition path_escape :: "string \<Rightarrow> string" where
  "path_escape s = List.maps (\<lambda>c. if path_plain c then [c]
     else [CHR ''%'', upper_hex ((of_char c :: nat) div 16), upper_hex ((of_char c :: nat) mod 16)]) s"

definition create_checkout :: "(string \<Rightarrow> uuid option) \<Rightarrow> polar \<Rightarrow> checkout_params \<Rightarrow> ('d, string) sql_action" where
  "create_checkout parse P p =
     chain (of_check (or_else (validate_polar_uuid parse (cp_product p)) (validate_polar_uuid parse (cp_org p)))) (\<lambda>_.
     chain (polar_do P ''POST'' ''/v1/checkouts/'' (Checkout_Input [cp_product p] (cp_org p) (cp_success p) (cp_return p)
         [(''organization_id'', cp_org p), (''plan_code'', cp_plan p)]) (po_session P)) (\<lambda>url.
     if url = [] then fail (Errf ''polar checkout URL is missing'' []) else succeed url))"

definition create_portal :: "(string \<Rightarrow> uuid option) \<Rightarrow> polar \<Rightarrow> string \<Rightarrow> string \<Rightarrow> ('d, string) sql_action" where
  "create_portal parse P customer back =
     chain (of_check (validate_polar_uuid parse customer)) (\<lambda>_.
     chain (polar_do P ''POST'' ''/v1/customer-sessions/'' (Portal_Input customer back) (po_portal P)) (\<lambda>url.
     if url = [] then fail (Errf ''polar customer portal URL is missing'' []) else succeed url))"

definition polar_get_subscription :: "(string \<Rightarrow> uuid option) \<Rightarrow> polar \<Rightarrow> string \<Rightarrow> ('d, polar_subscription) sql_action" where
  "polar_get_subscription parse P i = chain (of_check (validate_polar_uuid parse i)) (\<lambda>_.
     polar_do P ''GET'' (''/v1/subscriptions/'' @ path_escape i) No_Input (po_subscription P))"

definition polar_get_state :: "(string \<Rightarrow> uuid option) \<Rightarrow> polar \<Rightarrow> string \<Rightarrow> ('d, customer_state) sql_action" where
  "polar_get_state parse P external =
     (if trim_space external = [] then fail (Errf ''polar external customer ID is required'' [])
      else chain (polar_do P ''GET'' (''/v1/customers/external/'' @ path_escape external @ ''/state'') No_Input (po_state P)) (\<lambda>st.
        case validate_polar_uuid parse (cu_id st) of
          Some e \<Rightarrow> fail (Wrap ''polar customer state ID is invalid: %w'' [] e)
        | None \<Rightarrow> if cu_external st \<noteq> external then fail (Errf ''polar customer state external ID does not match'' [])
            else succeed st))"

section \<open>base64.StdEncoding\<close>

text \<open>Padded to groups of four; line breaks are skipped. The alphabet differs from the URL one in two characters.\<close>

definition url_alphabet :: "char \<Rightarrow> char" where
  "url_alphabet c = (if c = CHR ''+'' then CHR ''-'' else if c = CHR ''/'' then CHR ''_'' else c)"

definition strip_padding :: "string \<Rightarrow> string" where
  "strip_padding s = (let r = rev s in rev (if take 2 r = ''=='' then drop 2 r else if take 1 r = ''='' then drop 1 r else r))"

definition b64_std_decode :: "string \<Rightarrow> string option" where
  "b64_std_decode s = (let t = filter (\<lambda>c. c \<noteq> CHR 0x0A \<and> c \<noteq> CHR 0x0D) s in
     if length t mod 4 \<noteq> 0 \<or> CHR ''-'' \<in> set t \<or> CHR ''_'' \<in> set t then None
     else b64_decode (map url_alphabet (strip_padding t)))"

section \<open>Signed webhooks\<close>

text \<open>\<open>strings.Fields\<close>.\<close>

fun first_word :: "string \<Rightarrow> string" where
  "first_word [] = []"
| "first_word (c # cs) = (if list_ex (\<lambda>p. starts_with p (c # cs)) go_spaces then [] else c # first_word cs)"

function words_of :: "string \<Rightarrow> string list" where
  "words_of s = (let t = trim_left s; w = first_word t in if w = [] then [] else w # words_of (drop (length w) t))"
  by pat_completeness auto

termination
proof (relation "measure length", goal_cases)
  case (2 s t w)
  have "length (trim_left s) \<le> length s"
    using trim_front_suffix [of go_spaces s] by (auto simp: trim_left_def)
  moreover have "length (first_word u) \<le> length u" for u
    by (induction u) auto
  then have "0 < length w" "length w \<le> length t" using 2 by auto
  ultimately show ?case using 2(1) by (simp del: length_greater_0_conv)
qed simp

declare words_of.simps [simp del]

text \<open>The keys: the secret itself, and its decoded form without the prefix \<open>whsec_\<close>.\<close>

definition webhook_keys :: "string \<Rightarrow> string list" where
  "webhook_keys secret = secret # (case b64_std_decode (if starts_with ''whsec_'' secret then drop 6 secret else secret) of
     Some k \<Rightarrow> if k = [] then [] else [k] | None \<Rightarrow> [])"

definition matches_key :: "(string \<Rightarrow> string \<Rightarrow> string) \<Rightarrow> string \<Rightarrow> string \<Rightarrow> string \<Rightarrow> bool" where
  "matches_key hmac message candidate key = (case cut_at '','' candidate of
     None \<Rightarrow> False
   | Some (version, encoded) \<Rightarrow> version = ''v1'' \<and> b64_std_decode encoded = Some (hmac key message))"

record webhook_headers =
  wh_id :: string
  wh_timestamp :: string
  wh_signature :: string

definition signed_message :: "webhook_headers \<Rightarrow> string \<Rightarrow> string" where
  "signed_message h payload = wh_id h @ ''.'' @ wh_timestamp h @ ''.'' @ payload"

definition webhook_tolerance :: int where "webhook_tolerance = 300000000"

definition parse_webhook :: "(string \<Rightarrow> polar_event option) \<Rightarrow> polar option \<Rightarrow> int \<Rightarrow> string \<Rightarrow> webhook_headers \<Rightarrow> go_err + polar_event" where
  "parse_webhook decode c now payload h = (case c of
     None \<Rightarrow> Inl (Errf ''polar webhook secret is not configured'' [])
   | Some P \<Rightarrow>
       if po_secret P = [] then Inl (Errf ''polar webhook secret is not configured'' [])
       else (case parse_int64 (wh_timestamp h) of
         None \<Rightarrow> Inl (Errf ''invalid Polar webhook identity or timestamp'' [])
       | Some seconds \<Rightarrow>
           if seconds \<le> 0 \<or> wh_id h = [] then Inl (Errf ''invalid Polar webhook identity or timestamp'' [])
           else (let delta = now - seconds * 1000000 in
             if webhook_tolerance < delta \<or> delta < - webhook_tolerance then Inl (Errf ''polar webhook timestamp is outside tolerance'' [])
             else if \<not> list_ex (\<lambda>key. list_ex (\<lambda>candidate. matches_key (po_hmac P) (signed_message h payload) candidate key)
                 (words_of (wh_signature h))) (webhook_keys (po_secret P))
             then Inl (Errf ''polar webhook signature mismatch'' [])
             else (case decode payload of
                 None \<Rightarrow> Inl (Errf ''decode Polar webhook'' [])
               | Some ev \<Rightarrow>
                   if pe_type ev = [] \<or> pe_at ev = zero_time \<or> pe_data ev = [] \<or> (pe_version ev \<noteq> [] \<and> pe_version ev \<noteq> ''2026-10'')
                   then Inl (Errf ''invalid or unsupported Polar event'' [])
                   else Inr ev))))"

end
