(* ===== verification/Bill_Service.thy ===== *)
theory Bill_Service
  imports Polar_Client
begin

text \<open>
  Billing (\<open>commercial/billing\<close>): checkout and portal sessions, the webhook inbox, the synchronization of a provider
  subscription, the recovery of an organization from the provider's state and the billing status (\<open>service.go\<close>,
  \<open>validation.go\<close>), the consumer of stored events (\<open>consumer.go\<close>) and both jobs (\<open>jobs.go\<close>). \<open>net/url\<close>, \<open>uuid.Parse\<close>,
  \<open>encoding/json\<close>, SHA-256, the JSONB cast of the server, the text of an error and the end of the context are fields of \<open>billing\<close>.
\<close>

section \<open>Environment\<close>

record bill_url =
  bu_scheme :: string
  bu_has_user :: bool
  bu_host :: string
  bu_path :: string

record billing = bill_service +
  bg_polar :: "polar option"
  bg_products :: "(string \<times> string) list"
  bg_frontend :: string
  bg_has_repo :: bool
  bg_url :: "string \<Rightarrow> bill_url option"
  bg_parse :: "string \<Rightarrow> uuid option"
  bg_event :: "string \<Rightarrow> polar_event option"
  bg_subscription :: "string \<Rightarrow> polar_subscription option"
  bg_state :: "string \<Rightarrow> customer_state option"
  bg_sha_hex :: "string \<Rightarrow> string"
  bg_jsonb :: "string \<Rightarrow> string option"
  bg_text :: "go_err \<Rightarrow> string"
  bg_done :: "nat \<Rightarrow> bool"

definition not_configured :: go_err where
  "not_configured = new_service_unavailable ''Polar billing is not configured'' None"

definition with_polar :: "billing \<Rightarrow> (polar \<Rightarrow> 'a bill_action) \<Rightarrow> 'a bill_action" where
  "with_polar S k = (case bg_polar S of
     None \<Rightarrow> fail not_configured
   | Some P \<Rightarrow> if polar_configured (Some P) then k P else fail not_configured)"

section \<open>Redirects\<close>

definition trusted_origin :: "bill_url option \<Rightarrow> bool" where
  "trusted_origin u \<longleftrightarrow> (case u of None \<Rightarrow> False
   | Some t \<Rightarrow> bu_host t \<noteq> [] \<and> bu_scheme t \<in> {''https'', ''http''} \<and> \<not> bu_has_user t)"

definition same_origin :: "bill_url \<Rightarrow> bill_url option \<Rightarrow> bool" where
  "same_origin t u \<longleftrightarrow> (case u of None \<Rightarrow> False
   | Some v \<Rightarrow> bu_scheme v \<noteq> [] \<and> \<not> bu_has_user v \<and> bu_scheme v = bu_scheme t
       \<and> to_lower (bu_host v) = to_lower (bu_host t) \<and> \<not> starts_with ''//'' (bu_path v))"

definition validate_redirects :: "billing \<Rightarrow> string list \<Rightarrow> go_err option" where
  "validate_redirects S vs = (let trusted = bg_url S (trim_space (bg_frontend S)) in
     if \<not> trusted_origin trusted then Some (new_service_unavailable ''billing frontend origin is not configured'' None)
     else if \<not> list_all (\<lambda>v. same_origin (the trusted) (bg_url S (trim_space v))) vs
     then Some (new_bad_request ''billing redirect URL must use the configured frontend origin'') else None)"

section \<open>Checkout and portal\<close>

record checkout_request =
  cr_plan :: string
  cr_success :: string
  cr_cancel :: string

definition product_of :: "billing \<Rightarrow> string \<Rightarrow> string" where
  "product_of S code = trim_space (case map_of (bg_products S) code of None \<Rightarrow> [] | Some p \<Rightarrow> p)"

definition purchasable :: "plan \<Rightarrow> bool" where
  "purchasable p \<longleftrightarrow> pn_pricing (pl_row p) = ''fixed'' \<and> pn_amount (pl_row p) \<noteq> None \<and> pn_amount (pl_row p) \<noteq> Some 0"

definition live_subscription :: "subscription_row option \<Rightarrow> bool" where
  "live_subscription v \<longleftrightarrow> (case v of None \<Rightarrow> False | Some s \<Rightarrow> sb_subscription s \<noteq> None \<and> sb_status s \<noteq> ''canceled'')"

definition billing_checkout :: "billing \<Rightarrow> uuid \<Rightarrow> checkout_request \<Rightarrow> string bill_action" where
  "billing_checkout S org r =
     (if org = uuid_nil then fail (new_bad_request ''organization context required'')
      else with_polar S (\<lambda>P.
        chain (plan_by_code S (trim_space (cr_plan r))) (\<lambda>p.
        if \<not> purchasable p then fail (new_bad_request ''plan is not available for Polar checkout'')
        else chain (of_check (validate_redirects S [cr_success r, cr_cancel r])) (\<lambda>_.
        let product = product_of S (pn_code (pl_row p)) in
        if product = [] then fail (new_service_unavailable ''Polar product is not configured for this plan'' None)
        else chain (subscription_get S org) (\<lambda>existing.
        if live_subscription existing then fail (new_conflict ''organization already has an active billing subscription'')
        else map_error (\<lambda>e. new_service_unavailable ''create Polar checkout session'' (Some e))
          (create_checkout (bg_parse S) P \<lparr>cp_product = product, cp_org = uuid_string org, cp_plan = pn_code (pl_row p),
             cp_success = cr_success r, cp_return = cr_cancel r\<rparr>))))))"

definition billing_portal :: "billing \<Rightarrow> uuid \<Rightarrow> string \<Rightarrow> string bill_action" where
  "billing_portal S org back =
     (if org = uuid_nil then fail (new_bad_request ''organization context required'')
      else with_polar S (\<lambda>P. chain (subscription_get S org) (\<lambda>existing.
        case existing of
          None \<Rightarrow> fail (new_bad_request ''Polar billing portal is unavailable for this organization'')
        | Some s \<Rightarrow> (case sb_customer s of
            None \<Rightarrow> fail (new_bad_request ''Polar billing portal is unavailable for this organization'')
          | Some customer \<Rightarrow>
              if sb_provider s \<noteq> Some ''polar'' then fail (new_bad_request ''Polar billing portal is unavailable for this organization'')
              else chain (of_check (validate_redirects S [back])) (\<lambda>_.
                map_error (\<lambda>e. new_service_unavailable ''create Polar billing portal session'' (Some e))
                  (create_portal (bg_parse S) P customer back))))))"

section \<open>The inbox\<close>

definition billing_webhook :: "billing \<Rightarrow> string \<Rightarrow> webhook_headers \<Rightarrow> unit bill_action" where
  "billing_webhook S payload h =
     (if \<not> polar_configured (bg_polar S) \<or> \<not> bg_has_repo S then fail (new_service_unavailable ''Polar webhook inbox is not configured'' None)
      else do { n \<leftarrow> sql_tick;
        case parse_webhook (bg_event S) (bg_polar S) (case bg_polar S of Some P \<Rightarrow> po_now P n | None \<Rightarrow> 0) payload h of
          Inl _ \<Rightarrow> fail (new_bad_request ''invalid Polar webhook'')
        | Inr ev \<Rightarrow>
            if 256 < length (wh_id h) \<or> 128 < length (pe_type ev) then fail (new_bad_request ''Polar webhook identity is too long'')
            else chain (map_error (\<lambda>e. if errors_is e err_no_rows then new_conflict ''Polar event ID was reused with different content''
                  else new_service_unavailable ''save Polar webhook receipt'' (Some e))
                (bill_exec S (\<lambda>se. sql_insert_receipt (bg_jsonb S) \<lparr>rp_environment = polar_environment (bg_polar S), rp_event = wh_id h,
                   rp_type = pe_type ev, rp_event_at = pe_at ev, rp_payload = payload, rp_hash = bg_sha_hex S payload\<rparr> (sq_fresh se) (sq_now se))))
              (\<lambda>_. succeed ()) })"

text \<open>The handler: \<open>body\<close> is \<open>None\<close> for a read that fails, also over the limit of 1 MiB.\<close>

definition receive_webhook :: "billing \<Rightarrow> string option \<Rightarrow> webhook_headers \<Rightarrow> unit bill_action" where
  "receive_webhook S body h = (case body of
     None \<Rightarrow> fail (new_bad_request ''invalid Polar webhook body'')
   | Some payload \<Rightarrow> if 1048576 < length payload then fail (new_bad_request ''invalid Polar webhook body'') else billing_webhook S payload h)"

section \<open>Synchronization\<close>

definition polar_status :: "string \<Rightarrow> string" where
  "polar_status s = (if s = ''trialing'' then ''trialing'' else if s = ''active'' then ''active'' else if s = ''canceled'' then ''canceled''
     else if s = ''incomplete'' then ''incomplete'' else if s = ''past_due'' then ''past_due'' else if s = ''unpaid'' then ''canceled''
     else ''incomplete'')"

definition string_ptr :: "string \<Rightarrow> string option" where
  "string_ptr v = (let t = trim_space v in if t = [] then None else Some t)"

definition plan_code_of :: "billing \<Rightarrow> string \<Rightarrow> go_err + string" where
  "plan_code_of S product = (case find (\<lambda>code. product_of S code \<noteq> [] \<and> product_of S code = product) [''developer'', ''pro'', ''scale''] of
     None \<Rightarrow> Inl (new_bad_request ''Polar subscription product is not recognized'') | Some code \<Rightarrow> Inr code)"

definition grace_days :: int where "grace_days = 3 * 86400000000"

text \<open>The grace window of a past due subscription: the stored one of the same subscription, or three days from its start.\<close>

definition grace_window :: "subscription_row option \<Rightarrow> int \<Rightarrow> polar_subscription \<Rightarrow> int option \<times> int option" where
  "grace_window existing at v = (let fresh = (let start = keep_or (ps_past_due v) at in (Some start, Some (start + grace_days))) in
     case existing of
       None \<Rightarrow> fresh
     | Some s \<Rightarrow> if sb_status s = ''past_due'' \<and> sb_subscription s = Some (ps_id v) \<and> sb_past_due s \<noteq> None \<and> sb_grace s \<noteq> None
         then (sb_past_due s, sb_grace s) else fresh)"

definition sync_of :: "uuid \<Rightarrow> int \<Rightarrow> int option \<times> int option \<Rightarrow> polar_subscription \<Rightarrow> sync_request" where
  "sync_of plan at grace v = \<lparr>sy_plan = plan, sy_status = polar_status (ps_status v), sy_start = Some (ps_start v), sy_end = Some (ps_end v),
     sy_trial = ps_trial v, sy_past_due = fst grace, sy_grace = snd grace, sy_cancel = ps_cancel v, sy_canceled = ps_canceled v,
     sy_provider = string_ptr ''polar'', sy_customer = string_ptr (ps_customer_id v), sy_subscription = string_ptr (ps_id v), sy_event_at = Some at\<rparr>"

definition polar_owner :: "billing \<Rightarrow> polar_subscription \<Rightarrow> go_err + uuid" where
  "polar_owner S v = (case bg_parse S (trim_space (pu_external (ps_customer v))) of
     None \<Rightarrow> Inl (new_bad_request ''Polar subscription is missing organization metadata'')
   | Some org \<Rightarrow> checked (first_error
       [(org = uuid_nil, new_bad_request ''Polar subscription is missing organization metadata''),
        (ps_org_meta v \<noteq> None \<and> ps_org_meta v \<noteq> Some (Some (uuid_string org)),
           new_bad_request ''Polar subscription organization metadata does not match customer''),
        (pu_id (ps_customer v) \<noteq> ps_customer_id v, new_bad_request ''Polar subscription customer identity does not match'')]) org)"

definition sync_polar :: "billing \<Rightarrow> int \<Rightarrow> polar_subscription \<Rightarrow> unit bill_action" where
  "sync_polar S at v =
     chain (State_Monad.return (polar_owner S v)) (\<lambda>org.
     chain (State_Monad.return (plan_code_of S (ps_product v))) (\<lambda>code.
     chain (plan_by_code S code) (\<lambda>p.
     chain (of_check (first_error
        [(ps_id v = [] \<or> ps_customer_id v = [] \<or> at = zero_time, new_bad_request ''Polar subscription identity or event timestamp is missing''),
         (ps_start v = zero_time \<or> ps_end v \<le> ps_start v, new_bad_request ''Polar subscription period is invalid'')])) (\<lambda>_.
     chain (if ps_status v = ''past_due'' then chain (subscription_get S org) (\<lambda>existing. succeed (grace_window existing at v))
            else succeed (None, None)) (\<lambda>grace.
     chain (subscription_sync S org (sync_of (pn_id (pl_row p)) at grace v)) (\<lambda>_. succeed ()))))))"

section \<open>Recovery\<close>

text \<open>The one active subscription to a plan of the products; two different ones are a conflict.\<close>

fun candidate_of :: "billing \<Rightarrow> state_subscription option \<Rightarrow> state_subscription list \<Rightarrow> go_err + state_subscription option" where
  "candidate_of S c [] = Inr c"
| "candidate_of S c (v # vs) = (case plan_code_of S (ss_product v) of
     Inl _ \<Rightarrow> candidate_of S c vs
   | Inr _ \<Rightarrow> if (case c of None \<Rightarrow> False | Some x \<Rightarrow> ss_id x \<noteq> ss_id v) then Inl (new_conflict ''multiple Leamout subscriptions require review'')
       else candidate_of S (Some v) vs)"

definition recover_candidate :: "billing \<Rightarrow> polar \<Rightarrow> uuid \<Rightarrow> int \<Rightarrow> customer_state \<Rightarrow> state_subscription \<Rightarrow> unit bill_action" where
  "recover_candidate S P org observed st c =
     chain (polar_get_subscription (bg_parse S) P (ss_id c)) (\<lambda>v.
     if ps_id v \<noteq> ss_id c \<or> ps_customer_id v \<noteq> cu_id st \<or> pu_external (ps_customer v) \<noteq> uuid_string org
     then fail (new_conflict ''Polar recovered subscription ownership does not match organization'')
     else sync_polar S (keep_or (ps_modified v) observed) v)"

text \<open>What refreshing the known subscription leaves to do: nothing, or the candidate.\<close>

definition recover_known :: "billing \<Rightarrow> polar \<Rightarrow> uuid \<Rightarrow> int \<Rightarrow> customer_state \<Rightarrow> state_subscription option \<Rightarrow> subscription_row \<Rightarrow> string \<Rightarrow> bool bill_action" where
  "recover_known S P org observed st candidate s known =
     chain (polar_get_subscription (bg_parse S) P known) (\<lambda>v.
     if pu_external (ps_customer v) \<noteq> uuid_string org \<or> ps_customer_id v \<noteq> cu_id st \<or> sb_customer s = None
        \<or> sb_customer s \<noteq> Some (ps_customer_id v)
     then fail (new_conflict ''Polar subscription ownership does not match local organization'')
     else chain (sync_polar S (keep_or (ps_modified v) observed) v) (\<lambda>_.
       if (case candidate of None \<Rightarrow> True | Some c \<Rightarrow> ss_id c = ps_id v) then succeed False
       else if ps_status v \<noteq> ''canceled'' then fail (new_conflict ''active Leamout subscription cannot be replaced'')
       else succeed True))"

definition recover_organization :: "billing \<Rightarrow> uuid \<Rightarrow> unit bill_action" where
  "recover_organization S org = with_polar S (\<lambda>P.
     chain (subscription_get S org) (\<lambda>existing. do { n \<leftarrow> sql_tick;
       let observed = bs_now S n in
       handle (polar_get_state (bg_parse S) P (uuid_string org))
         (\<lambda>e. if errors_is e err_polar_missing \<and> existing = None then succeed () else fail e)
         (\<lambda>st. chain (State_Monad.return (candidate_of S None (cu_active st))) (\<lambda>candidate.
           chain (case existing of
               None \<Rightarrow> succeed True
             | Some s \<Rightarrow> (case (sb_subscription s, sb_provider s) of
                 (Some known, Some provider) \<Rightarrow>
                   if provider = ''polar'' then recover_known S P org observed st candidate s known else succeed True
               | _ \<Rightarrow> succeed True)) (\<lambda>go.
           case candidate of
             None \<Rightarrow> succeed ()
           | Some c \<Rightarrow> if go then recover_candidate S P org observed st c else succeed ()))) }))"

section \<open>Status\<close>

record billing_status =
  ys_configured :: bool
  ys_plan :: plan_row
  ys_subscription :: "subscription_row option"
  ys_limits :: effective_limits
  ys_usage :: runtime_usage
  ys_portal :: bool
  ys_checkout :: bool

definition billing_status_of :: "billing \<Rightarrow> uuid \<Rightarrow> billing_status bill_action" where
  "billing_status_of S org =
     (if org = uuid_nil then fail (new_bad_request ''organization context required'')
      else chain (subscription_get S org) (\<lambda>sub.
        chain (plan_by_code S ''free'') (\<lambda>free. do { n \<leftarrow> sql_tick;
        chain (if paid_access_active sub (bs_now S n) then plan_by_id S (sb_plan (the sub)) else succeed free) (\<lambda>p.
        chain (limits_get S org) (\<lambda>l. chain (limits_usage S org) (\<lambda>u.
        let configured = polar_configured (bg_polar S) in
        succeed \<lparr>ys_configured = configured, ys_plan = pl_row p, ys_subscription = sub, ys_limits = l, ys_usage = u,
          ys_portal = configured \<and> (case sub of None \<Rightarrow> False | Some s \<Rightarrow> sb_provider s = Some ''polar'' \<and> sb_customer s \<noteq> None),
          ys_checkout = configured \<and> (case sub of None \<Rightarrow> True | Some s \<Rightarrow> sb_subscription s = None \<or> sb_status s = ''canceled'')\<rparr>))) })))"

section \<open>Stored events\<close>

definition subscription_events :: "string list" where
  "subscription_events = [''subscription.created'', ''subscription.updated'', ''subscription.active'', ''subscription.canceled'',
     ''subscription.uncanceled'', ''subscription.cycled'', ''subscription.revoked'', ''subscription.past_due'', ''subscription.paused'',
     ''subscription.resumed'', ''subscription.migrated'']"

text \<open>Whether the event was ignored.\<close>

definition consume_event :: "billing \<Rightarrow> string \<Rightarrow> bool bill_action" where
  "consume_event S payload = (case bg_event S payload of
     None \<Rightarrow> fail (new_bad_request ''invalid stored Polar webhook'')
   | Some ev \<Rightarrow>
       if pe_type ev \<in> set subscription_events then
         (case bg_subscription S (pe_data ev) of
            None \<Rightarrow> fail (new_bad_request ''invalid Polar subscription event'')
          | Some v \<Rightarrow>
              if bg_parse S (ps_product v) = None \<or> bg_parse S (ps_product v) = Some uuid_nil
              then fail (new_bad_request ''Polar subscription product identity is missing'')
              else (case plan_code_of S (ps_product v) of
                Inl _ \<Rightarrow> succeed True
              | Inr _ \<Rightarrow> chain (sync_polar S (pe_at ev) v) (\<lambda>_. succeed False)))
       else if pe_type ev = ''customer.state_changed'' then
         (case bg_state S (pe_data ev) of
            None \<Rightarrow> fail (new_bad_request ''invalid Polar customer state event'')
          | Some st \<Rightarrow> (case bg_parse S (cu_external st) of
              None \<Rightarrow> succeed True
            | Some org \<Rightarrow> if org = uuid_nil then succeed True else chain (recover_organization S org) (\<lambda>_. succeed False)))
       else succeed True)"

section \<open>The webhook job\<close>

definition webhook_max_attempts :: int where "webhook_max_attempts = 8"

text \<open>
  \<open>process\<close>: the transaction is left without a commit, so rolled back, when the lease is gone; the body answers
  whether there is something to commit.
\<close>

definition process_body :: "billing \<Rightarrow> uuid \<Rightarrow> uuid \<Rightarrow> bool bill_action" where
  "process_body S i lease =
     handle (bill_query S (sql_claimed_receipt i lease))
       (\<lambda>e. if errors_is e err_no_rows then succeed False else fail (Wrap ''lock billing webhook receipt: %w'' [] e))
       (\<lambda>r. chain (consume_event S (rc_payload r)) (\<lambda>ignored.
          chain (map_error (Wrap ''complete billing webhook receipt: %w'' [])
              (bill_exec S (\<lambda>se. sql_complete_receipt (if ignored then ''ignored'' else ''processed'') i lease (sq_now se)))) (\<lambda>rows.
          if rows \<noteq> 1 then fail (Errf ''billing webhook lease was lost'' []) else succeed True)))"

definition process_receipt :: "billing \<Rightarrow> uuid \<Rightarrow> uuid \<Rightarrow> unit bill_action" where
  "process_receipt S i lease =
     chain (sql_begin (bs_env S) (Wrap ''begin billing webhook transaction: %w'' [])) (\<lambda>_.
       State (\<lambda>w. run_state
         (handle (process_body S i lease) (\<lambda>e. rollback_to (sw_db w) (fail e))
           (\<lambda>changed. if changed then sql_commit (bs_env S) (Wrap ''commit billing webhook transaction: %w'' []) (sw_db w)
              else rollback_to (sw_db w) (succeed ()))) w))"

definition permanent_error :: "go_err \<Rightarrow> bool" where
  "permanent_error e \<longleftrightarrow> (case as_app_status e of None \<Rightarrow> False | Some s \<Rightarrow> 400 \<le> s \<and> s < 500)"

fun doubled :: "nat \<Rightarrow> int \<Rightarrow> int" where
  "doubled 0 delay = delay"
| "doubled (Suc n) delay = (if delay < 300 then doubled n (delay * 2) else delay)"

definition webhook_retry_seconds :: "int \<Rightarrow> int" where
  "webhook_retry_seconds attempt = (let delay = doubled (nat (attempt - 1)) 1 in if 300 < delay then 300 else delay)"

definition fail_receipt :: "billing \<Rightarrow> receipt_row \<Rightarrow> uuid \<Rightarrow> go_err \<Rightarrow> unit bill_action" where
  "fail_receipt S r lease e =
     (let status = (if permanent_error e \<or> webhook_max_attempts \<le> rc_attempts r then ''dead_letter'' else ''pending'') in
      chain (map_error (Wrap ''schedule billing webhook retry: %w'' [])
          (bill_exec S (\<lambda>se. sql_fail_receipt status (take 2000 (bg_text S e)) (webhook_retry_seconds (rc_attempts r)) (rc_id r) lease (sq_now se)))) (\<lambda>rows.
      if rows \<noteq> 1 then fail (Errf ''billing webhook lease was lost while scheduling retry'' []) else succeed ()))"

text \<open>Whether there was a receipt, and the error of the pass.\<close>

definition webhook_once :: "billing \<Rightarrow> (bill_db sql_world, bool \<times> go_err option) state" where
  "webhook_once S =
     handle (bill_exec S (\<lambda>se. sql_reap_receipts (polar_environment (bg_polar S)) webhook_max_attempts (sq_now se)))
       (\<lambda>e. State_Monad.return (False, Some (Wrap ''reap expired billing webhook leases: %w'' [] e)))
       (\<lambda>_. do { n \<leftarrow> sql_tick;
         handle (bill_exec S (\<lambda>se. sql_claim_receipt (bs_uuid S n) (polar_environment (bg_polar S)) webhook_max_attempts (sq_now se)))
           (\<lambda>e. State_Monad.return (False, if errors_is e err_no_rows then None else Some (Wrap ''claim billing webhook receipt: %w'' [] e)))
           (\<lambda>r. handle (process_receipt S (rc_id r) (bs_uuid S n))
             (\<lambda>e. handle (fail_receipt S r (bs_uuid S n) e) (\<lambda>f. State_Monad.return (True, Some (Join e f))) (\<lambda>_. State_Monad.return (True, Some e)))
             (\<lambda>_. State_Monad.return (True, None))) })"

definition delete_old_receipts :: "billing \<Rightarrow> unit bill_action" where
  "delete_old_receipts S = bill_exec S (\<lambda>se. sql_delete_receipts (sq_now se))"

section \<open>The reconciliation job\<close>

text \<open>One page of targets: what it reports, and the error that ends the pass.\<close>

fun reconcile_page :: "billing \<Rightarrow> reconcile_target list \<Rightarrow> (bill_db sql_world, go_err list \<times> go_err option) state" where
  "reconcile_page S [] = State_Monad.return ([], None)"
| "reconcile_page S (t # ts) = do { n \<leftarrow> sql_tick;
     if bg_done S n then State_Monad.return ([], Some err_canceled)
     else do { r \<leftarrow> recover_organization S (rt_org t);
       (reports, e) \<leftarrow> reconcile_page S ts;
       State_Monad.return ((case r of Inl x \<Rightarrow> [Wrap ''reconcile organization %s: %w'' [uuid_string (rt_org t)] x] | Inr _ \<Rightarrow> []) @ reports, e) } }"

text \<open>The pages after a cursor, with fuel for the pages: \<open>None\<close> is a loop that has not ended yet.\<close>

fun reconcile_from :: "billing \<Rightarrow> nat \<Rightarrow> uuid \<Rightarrow> (bill_db sql_world, go_err list \<times> (go_err + unit) option) state" where
  "reconcile_from S 0 cursor = State_Monad.return ([], None)"
| "reconcile_from S (Suc fuel) cursor = handle (bill_query S (sql_targets cursor))
     (\<lambda>e. State_Monad.return ([], Some (Inl e)))
     (\<lambda>ts. do { (reports, e) \<leftarrow> reconcile_page S ts;
        case e of Some x \<Rightarrow> State_Monad.return (reports, Some (Inl x))
        | None \<Rightarrow>
            if length ts < 100 then State_Monad.return (reports, Some (Inr ()))
            else if rt_org (last ts) = cursor then State_Monad.return (reports, Some (Inl (Errf ''billing reconciliation cursor did not advance'' [])))
            else do { (more_reports, r) \<leftarrow> reconcile_from S fuel (rt_org (last ts)); State_Monad.return (reports @ more_reports, r) } })"

definition reconcile_billing :: "billing \<Rightarrow> nat \<Rightarrow> (bill_db sql_world, go_err list \<times> (go_err + unit) option) state" where
  "reconcile_billing S fuel = reconcile_from S fuel uuid_nil"

end
