(* ===== verification/Bill_Spec.thy ===== *)
theory Bill_Spec
  imports Bill_Service
begin

text \<open>
  The abstract specification of the commercial part: \<open>bill_stmt\<close> lists the statements that change its tables, \<open>bill_step\<close> the
  committed effects, where the processing of a stored event is one step: what its handler did to the subscriptions together
  with the mark on its receipt. Every history of the operations only performs such steps.
\<close>

section \<open>Statements\<close>

inductive bill_stmt :: "bill_db \<Rightarrow> bill_db \<Rightarrow> bool" where
  bt_plan: "bill_stmt d (snd (sql_upsert_plan p t d))"
| bt_entitlement: "bill_stmt d (snd (sql_upsert_entitlement org cap on t d))"
| bt_subscription: "bill_stmt d (snd (sql_upsert_subscription x t d))"
| bt_insert: "bill_stmt d (snd (sql_insert_receipt j p i t d))"
| bt_reap: "bill_stmt d (snd (sql_reap_receipts env webhook_max_attempts t d))"
| bt_claim: "bill_stmt d (snd (sql_claim_receipt lease env webhook_max_attempts t d))"
| bt_complete: "status \<in> {''processed'', ''ignored''} \<Longrightarrow> bill_stmt d (snd (sql_complete_receipt status i lease t d))"
| bt_fail: "status \<in> {''pending'', ''dead_letter''} \<Longrightarrow> bill_stmt d (snd (sql_fail_receipt status message delay i lease t d))"
| bt_delete: "bill_stmt d (snd (sql_delete_receipts t d))"

text \<open>The statement inside the handling of an event: a synchronized subscription.\<close>

inductive sync_stmt :: "bill_db \<Rightarrow> bill_db \<Rightarrow> bool" where
  sy_upsert: "sync_stmt d (snd (sql_upsert_subscription x t d))"

inductive bill_step :: "bill_db \<Rightarrow> bill_db \<Rightarrow> bool" where
  bp_plan: "bill_step d (snd (sql_upsert_plan p t d))"
| bp_entitlement: "bill_step d (snd (sql_upsert_entitlement org cap on t d))"
| bp_recover: "sync_stmt d d' \<Longrightarrow> bill_step d d'"
| bp_insert: "bill_step d (snd (sql_insert_receipt j p i t d))"
| bp_reap: "bill_step d (snd (sql_reap_receipts env webhook_max_attempts t d))"
| bp_claim: "bill_step d (snd (sql_claim_receipt lease env webhook_max_attempts t d))"
| bp_process: "sql_claimed_receipt i lease d = Inr r \<Longrightarrow> sync_stmt\<^sup>*\<^sup>* d d1 \<Longrightarrow> status \<in> {''processed'', ''ignored''} \<Longrightarrow>
    sql_complete_receipt status i lease t d1 = (Inr n, d2) \<Longrightarrow> bill_step d d2"
| bp_fail: "status \<in> {''pending'', ''dead_letter''} \<Longrightarrow> bill_step d (snd (sql_fail_receipt status message delay i lease t d))"
| bp_delete: "bill_step d (snd (sql_delete_receipts t d))"

lemma sync_stmts: "sync_stmt\<^sup>*\<^sup>* d d' \<Longrightarrow> bill_stmt\<^sup>*\<^sup>* d d'"
  by (induction rule: rtranclp_induct) (auto elim!: sync_stmt.cases intro: bt_subscription rtranclp.rtrancl_into_rtrancl)

lemma step_stmts: "bill_step d d' \<Longrightarrow> bill_stmt\<^sup>*\<^sup>* d d'"
proof (induction rule: bill_step.induct)
  case (bp_process i lease d r d1 status t n d2)
  from bp_process(3,4) have "bill_stmt d1 d2" by (metis bt_complete snd_conv)
  with sync_stmts [OF bp_process(2)] show ?case by (rule rtranclp.rtrancl_into_rtrancl)
qed (auto intro: bill_stmt.intros elim: sync_stmt.cases)

section \<open>Guarantees\<close>

text \<open>The parts that only synchronize subscriptions have both guarantees; they are proved once, for any that has the upsert.\<close>

named_theorems sguar \<open>guarantees of synchronization\<close>

locale sync_guarantee = sql_guarantee D for D :: "bill_db \<Rightarrow> bill_db \<Rightarrow> bool" +
  assumes upsert: "D d (snd (sql_upsert_subscription x t d))"
begin

lemmas s_intro = world.g_rules tick

lemma s_query [sguar]: "state_io_rel R (bill_query S q)"
  unfolding bill_query_def by (rule query)

lemma s_upsert [sguar]: "state_io_rel R (bill_exec S (\<lambda>se. sql_upsert_subscription x (sq_now se)))"
  unfolding bill_exec_def by (rule exec) (rule upsert)

lemma s_plans [sguar]: "state_io_rel R (plan_by_id S i)" "state_io_rel R (plan_by_code S code)"
  unfolding plan_by_id_def plan_by_code_def plan_read_err_def from_row_def by (intro s_intro sguar)+

lemma s_get [sguar]: "state_io_rel R (subscription_get S org)"
  unfolding subscription_get_def by (intro s_intro sguar)

lemma s_sync [sguar]: "state_io_rel R (subscription_sync S org r)"
  unfolding subscription_sync_def by (intro s_intro sguar)

lemma s_client [sguar]: "state_io_rel R (polar_do P meth target input decode)" "state_io_rel R (polar_get_subscription parse P i)"
  "state_io_rel R (polar_get_state parse P external)" "state_io_rel R (create_checkout parse P cp)" "state_io_rel R (create_portal parse P customer back)"
proof -
  show get: "state_io_rel R (polar_do P meth target input decode)" for meth target input and decode :: "string \<Rightarrow> 'z option"
    unfolding polar_do_def by (intro s_intro)
  show "state_io_rel R (polar_get_subscription parse P i)" "state_io_rel R (polar_get_state parse P external)"
    "state_io_rel R (create_checkout parse P cp)" "state_io_rel R (create_portal parse P customer back)"
    unfolding polar_get_subscription_def polar_get_state_def create_checkout_def create_portal_def polar_do_def by (intro s_intro)+
qed

lemma s_sync_polar [sguar]: "state_io_rel R (sync_polar S at v)"
  unfolding sync_polar_def by (intro s_intro sguar)

lemma s_recover_parts [sguar]: "state_io_rel R (recover_candidate S P org observed st c)"
  "state_io_rel R (recover_known S P org observed st candidate s known)"
  unfolding recover_candidate_def recover_known_def by (intro s_intro sguar)+

lemma s_recover [sguar]: "state_io_rel R (recover_organization S org)"
  unfolding recover_organization_def with_polar_def by (intro s_intro sguar)

lemma s_consume [sguar]: "state_io_rel R (consume_event S payload)"
  unfolding consume_event_def by (intro s_intro sguar)

end

interpretation sg: sync_guarantee "sync_stmt\<^sup>*\<^sup>*"
  by unfold_locales (auto intro: sy_upsert)

interpretation bg: sync_guarantee "bill_step\<^sup>*\<^sup>*"
  by unfold_locales (auto intro: bp_recover sy_upsert)

section \<open>Processing a receipt\<close>

lemma process_body_step:
  assumes "run_state (process_body S i lease) u = (Inr True, v)"
  obtains r ignored now n d1 where "sql_claimed_receipt i lease (sw_db u) = Inr r" "sync_stmt\<^sup>*\<^sup>* (sw_db u) d1"
    "sql_complete_receipt (if ignored then ''ignored'' else ''processed'') i lease now d1 = (Inr n, sw_db v)"
proof -
  obtain q u1 where q: "run_state (bill_query S (sql_claimed_receipt i lease)) u = (q, u1)" by force
  show thesis
  proof (cases q)
    case (Inl e)
    with assms q show thesis by (simp add: process_body_def run_combinators split: if_splits)
  next
    case (Inr r)
    with q have r: "sql_claimed_receipt i lease (sw_db u) = Inr r" "sw_db u1 = sw_db u"
      by (auto simp: bill_query_def dest!: sql_query_Inr)
    let ?m = "\<lambda>ignored. bill_exec S (\<lambda>se. sql_complete_receipt (if ignored then ''ignored'' else ''processed'') i lease (sq_now se))"
    have "run_state (chain (consume_event S (rc_payload r)) (\<lambda>ignored. chain (map_error (Wrap ''complete billing webhook receipt: %w'' []) (?m ignored))
        (\<lambda>rows. if rows \<noteq> 1 then fail (Errf ''billing webhook lease was lost'' []) else succeed True))) u1 = (Inr True, v)"
      using assms q Inr by (simp add: process_body_def run_handle)
    then obtain ignored u2 n u3 where c: "run_state (consume_event S (rc_payload r)) u1 = (Inr ignored, u2)"
      and m: "run_state (?m ignored) u2 = (Inr n, u3)" and v: "v = u3"
      unfolding chain_Inr map_error_Inr by (auto split: if_splits)
    show thesis
    proof (rule that [OF r(1)])
      show "sync_stmt\<^sup>*\<^sup>* (sw_db u) (sw_db u2)" using sg.run [OF sg.s_consume, of u1 S "rc_payload r"] c r(2) by simp
      show "sql_complete_receipt (if ignored then ''ignored'' else ''processed'') i lease (sq_now (bs_env S (sw_tick u2))) (sw_db u2) = (Inr n, sw_db v)"
        using sql_exec_Inr [OF m [unfolded bill_exec_def]] v by simp
    qed
  qed
qed

lemma process_cases:
  obtains (nothing) "sw_db (snd (run_state (process_receipt S i lease) w)) = sw_db w"
  | (committed) u v where "sw_db u = sw_db w" "run_state (process_body S i lease) u = (Inr True, v)"
      "sw_db (snd (run_state (process_receipt S i lease) w)) = sw_db v"
proof -
  let ?b = "sql_begin (bs_env S) (Wrap ''begin billing webhook transaction: %w'' [])"
  obtain b u where b: "run_state ?b w = (b, u)" by force
  then have u: "sw_db u = sw_db w" using sql_begin_db [of "bs_env S" "Wrap ''begin billing webhook transaction: %w'' []" w] by simp
  obtain r v where r: "run_state (process_body S i lease) u = (r, v)" by force
  note simps = process_receipt_def run_combinators b r u rollback_to_def sql_commit_def
  show thesis
  proof (cases "b = Inr () \<and> r = Inr True \<and> (case sq_fault (bs_env S (sw_tick v)) of None \<Rightarrow> True | Some (e, applied) \<Rightarrow> applied)")
    case True
    then show thesis
      by (intro committed [of u v]) (auto simp: simps split: option.splits)
  next
    case False
    then show thesis
      by - (rule nothing, cases b; cases r; auto simp: simps split: option.splits)
  qed
qed

lemma process_step: "bill_step\<^sup>*\<^sup>* (sw_db w) (sw_db (snd (run_state (process_receipt S i lease) w)))"
proof (cases rule: process_cases [of S i lease w])
  case (committed u v)
  from committed(2) obtain r ignored now n d1 where "sql_claimed_receipt i lease (sw_db u) = Inr r" "sync_stmt\<^sup>*\<^sup>* (sw_db u) d1"
    "sql_complete_receipt (if ignored then ''ignored'' else ''processed'') i lease now d1 = (Inr n, sw_db v)"
    by (rule process_body_step)
  then have "bill_step (sw_db u) (sw_db v)" by - (rule bp_process, assumption+, simp_all)
  then show ?thesis using committed(1,3) by simp
qed simp

section \<open>Operations\<close>

named_theorems bguar \<open>guarantees of the commercial part\<close>

lemma b_exec: "(\<And>se d. bill_step d (snd (q se d))) \<Longrightarrow> state_io_rel bg.R (bill_exec S q)"
  unfolding bill_exec_def by (rule bg.exec) blast

lemma b_query [bguar]: "state_io_rel bg.R (sql_query E q)"
  by (rule bg.query)

lemma b_statements [bguar]:
  "state_io_rel bg.R (bill_exec S (\<lambda>se. sql_upsert_plan x (sq_now se)))"
  "state_io_rel bg.R (bill_exec S (\<lambda>se. sql_upsert_entitlement org cap on (sq_now se)))"
  "state_io_rel bg.R (bill_exec S (\<lambda>se. sql_insert_receipt j rp (sq_fresh se) (sq_now se)))"
  "state_io_rel bg.R (bill_exec S (\<lambda>se. sql_reap_receipts env webhook_max_attempts (sq_now se)))"
  "state_io_rel bg.R (bill_exec S (\<lambda>se. sql_claim_receipt lease env webhook_max_attempts (sq_now se)))"
  "state_io_rel bg.R (bill_exec S (\<lambda>se. sql_delete_receipts (sq_now se)))"
  by (rule b_exec, rule bill_step.intros)+

lemmas b_intro = bg.s_intro

lemma b_plans [bguar]: "state_io_rel bg.R (plans_list S)" "state_io_rel bg.R (plan_upsert S i pin)"
  unfolding plans_list_def plan_upsert_def internally_def from_row_def by (intro b_intro bguar sguar)+

lemma b_entitlements [bguar]: "state_io_rel bg.R (entitlement_enabled S org cap)" "state_io_rel bg.R (entitlement_set S org cap on)"
  unfolding entitlement_enabled_def entitlement_set_def internally_def by (intro b_intro bguar sguar)+

lemma b_effective_of [bguar]: "state_io_rel bg.R (effective_of S org cs)"
  by (induction cs) (simp_all, (intro b_intro bguar sguar | assumption)+)

lemma b_effective [bguar]: "state_io_rel bg.R (entitlements_effective S org)" "state_io_rel bg.R (entitlement_require S org cap)"
  unfolding entitlements_effective_def entitlement_require_def by (intro b_intro bguar sguar)+

lemma b_limits [bguar]: "state_io_rel bg.R (limits_get S org)"
  unfolding limits_get_def Let_def by (intro b_intro bguar sguar)

lemma b_usage [bguar]: "state_io_rel bg.R (limits_usage S org)" "state_io_rel bg.R (plan_limit S field org)" "state_io_rel bg.R (require_runtime S org)"
  unfolding limits_usage_def plan_limit_def require_runtime_def by (intro b_intro bguar sguar)+

lemma b_sessions [bguar]: "state_io_rel bg.R (billing_checkout S org cr)" "state_io_rel bg.R (billing_portal S org back)"
  "state_io_rel bg.R (billing_status_of S org)"
  unfolding billing_checkout_def billing_portal_def billing_status_of_def with_polar_def Let_def by (intro b_intro bguar sguar)+

lemma b_webhook [bguar]: "state_io_rel bg.R (receive_webhook S body h)"
  unfolding receive_webhook_def billing_webhook_def by (intro b_intro bguar sguar)

lemma b_process [bguar]: "state_io_rel bg.R (process_receipt S i lease)"
  unfolding state_io_rel_def bg.R_def using process_step by blast

lemma b_fail [bguar]: "state_io_rel bg.R (fail_receipt S r lease e)"
  unfolding fail_receipt_def Let_def by (intro b_intro b_exec bp_fail) simp

lemma b_once [bguar]: "state_io_rel bg.R (webhook_once S)"
  unfolding webhook_once_def by (intro b_intro bguar sguar)

lemma b_cleanup [bguar]: "state_io_rel bg.R (delete_old_receipts S)"
  unfolding delete_old_receipts_def by (intro bguar)

lemma b_page [bguar]: "state_io_rel bg.R (reconcile_page S ts)"
  by (induction ts) (simp_all, (intro b_intro bguar sguar | assumption)+)

lemma b_pages [bguar]: "state_io_rel bg.R (reconcile_from S fuel cursor)"
  by (induction fuel arbitrary: cursor) (simp_all, (intro b_intro bguar sguar | assumption | rule allI)+)

section \<open>Histories\<close>

text \<open>What reaches the tables: the handlers of the API, the checks of other components, and passes of the two jobs.\<close>

datatype bill_op =
    B_Plans | B_Plan uuid plan_input | B_Entitlements uuid | B_Require uuid string | B_Entitle uuid string bool | B_Subscription uuid
  | B_Limits uuid | B_Usage uuid | B_Runtime uuid | B_Checkout uuid checkout_request | B_Portal uuid string
  | B_Receive "string option" webhook_headers | B_Status uuid | B_Recover uuid | B_Work | B_Cleanup | B_Reconcile nat

fun run_bill_op :: "billing \<Rightarrow> bill_op \<Rightarrow> bill_db sql_world \<Rightarrow> bill_db sql_world" where
  "run_bill_op S B_Plans w = snd (run_state (plans_list S) w)"
| "run_bill_op S (B_Plan i r) w = snd (run_state (plan_upsert S i r) w)"
| "run_bill_op S (B_Entitlements org) w = snd (run_state (entitlements_effective S org) w)"
| "run_bill_op S (B_Require org cap) w = snd (run_state (entitlement_require S org cap) w)"
| "run_bill_op S (B_Entitle org cap on) w = snd (run_state (entitlement_set S org cap on) w)"
| "run_bill_op S (B_Subscription org) w = snd (run_state (subscription_get S org) w)"
| "run_bill_op S (B_Limits org) w = snd (run_state (limits_get S org) w)"
| "run_bill_op S (B_Usage org) w = snd (run_state (limits_usage S org) w)"
| "run_bill_op S (B_Runtime org) w = snd (run_state (require_runtime S org) w)"
| "run_bill_op S (B_Checkout org r) w = snd (run_state (billing_checkout S org r) w)"
| "run_bill_op S (B_Portal org back) w = snd (run_state (billing_portal S org back) w)"
| "run_bill_op S (B_Receive body h) w = snd (run_state (receive_webhook S body h) w)"
| "run_bill_op S (B_Status org) w = snd (run_state (billing_status_of S org) w)"
| "run_bill_op S (B_Recover org) w = snd (run_state (recover_organization S org) w)"
| "run_bill_op S B_Work w = snd (run_state (webhook_once S) w)"
| "run_bill_op S B_Cleanup w = snd (run_state (delete_old_receipts S) w)"
| "run_bill_op S (B_Reconcile fuel) w = snd (run_state (reconcile_billing S fuel) w)"

definition run_billing :: "billing \<Rightarrow> bill_op list \<Rightarrow> bill_db sql_world \<Rightarrow> bill_db sql_world" where
  "run_billing S ops w = fold (run_bill_op S) ops w"

lemma run_bill_op_steps: "bill_step\<^sup>*\<^sup>* (sw_db w) (sw_db (run_bill_op S op w))"
  by (cases op) (simp_all only: run_bill_op.simps reconcile_billing_def, (rule bg.run, rule bguar sguar)+)

lemma run_billing_steps: "bill_step\<^sup>*\<^sup>* (sw_db w) (sw_db (run_billing S ops w))"
  unfolding run_billing_def by (rule history_refines [where view = sw_db]) (rule run_bill_op_steps)

lemma steps_stmts: "bill_step\<^sup>*\<^sup>* d d' \<Longrightarrow> bill_stmt\<^sup>*\<^sup>* d d'"
  by (induction rule: rtranclp_induct) (auto dest: step_stmts)

lemma run_billing_stmts: "bill_stmt\<^sup>*\<^sup>* (sw_db w) (sw_db (run_billing S ops w))"
  by (rule steps_stmts) (rule run_billing_steps)

lemma bill_invariant:
  assumes "\<And>d d'. bill_stmt d d' \<Longrightarrow> I d \<Longrightarrow> I d'" and "I (sw_db w)"
  shows "I (sw_db (run_billing S ops w))"
  using run_billing_stmts [of w S ops] assms(2,1) by (rule star_invariant)

end
