(* ===== verification/Bill_Invariants.thy ===== *)
theory Bill_Invariants
  imports Bill_Spec
begin

text \<open>
  What the statements of the commercial part keep: every constraint of the schema, the tables each leaves alone, and a
  deployment on which the theorems are applied.
\<close>

section \<open>Frames\<close>

named_theorems bframes \<open>the tables a statement leaves\<close>

lemma plan_frames [bframes]:
  "bl_orgs (snd (sql_upsert_plan p t d)) = bl_orgs d" "bl_subs (snd (sql_upsert_plan p t d)) = bl_subs d"
  "bl_receipts (snd (sql_upsert_plan p t d)) = bl_receipts d"
  "bl_orgs (snd (sql_upsert_entitlement org cap on t d)) = bl_orgs d" "bl_subs (snd (sql_upsert_entitlement org cap on t d)) = bl_subs d"
  "bl_receipts (snd (sql_upsert_entitlement org cap on t d)) = bl_receipts d"
  unfolding sql_upsert_plan_def sql_upsert_entitlement_def Let_def
  by (auto intro!: kept_texts kept_constrained split: option.split)

lemma subscription_frames [bframes]:
  "bl_orgs (snd (sql_upsert_subscription x t d)) = bl_orgs d" "bl_receipts (snd (sql_upsert_subscription x t d)) = bl_receipts d"
  unfolding sql_upsert_subscription_def Let_def by (auto intro!: kept_texts kept_constrained split: option.split)

lemma receipt_frames [bframes]:
  "bl_orgs (snd (sql_insert_receipt j p i t d)) = bl_orgs d" "bl_subs (snd (sql_insert_receipt j p i t d)) = bl_subs d"
  "bl_orgs (snd (sql_reap_receipts env limit t d)) = bl_orgs d" "bl_subs (snd (sql_reap_receipts env limit t d)) = bl_subs d"
  "bl_orgs (snd (sql_claim_receipt lease env limit t d)) = bl_orgs d" "bl_subs (snd (sql_claim_receipt lease env limit t d)) = bl_subs d"
  "bl_orgs (snd (sql_complete_receipt status i lease t d)) = bl_orgs d" "bl_subs (snd (sql_complete_receipt status i lease t d)) = bl_subs d"
  "bl_orgs (snd (sql_fail_receipt status message delay i lease t d)) = bl_orgs d"
  "bl_subs (snd (sql_fail_receipt status message delay i lease t d)) = bl_subs d"
  "bl_orgs (snd (sql_delete_receipts t d)) = bl_orgs d" "bl_subs (snd (sql_delete_receipts t d)) = bl_subs d"
  unfolding sql_insert_receipt_def sql_reap_receipts_def sql_claim_receipt_def sql_complete_receipt_def sql_fail_receipt_def
    sql_delete_receipts_def Let_def
  by (auto intro!: kept_texts kept_constrained split: option.split list.split)

lemma stmt_orgs: "bill_stmt d d' \<Longrightarrow> bl_orgs d' = bl_orgs d"
  by (induction rule: bill_stmt.induct) (simp_all add: bframes)

lemma sync_receipts: "sync_stmt\<^sup>*\<^sup>* d d' \<Longrightarrow> bl_receipts d' = bl_receipts d"
  by (induction rule: rtranclp_induct) (auto elim!: sync_stmt.cases simp: bframes)

section \<open>Every constraint holds\<close>

definition bill_schema :: "(string \<times> (bill_db \<Rightarrow> bool)) list" where
  "bill_schema = plans_schema @ subscriptions_schema @ entitlements_schema @ receipts_schema"

lemmas bill_schema_defs = bill_schema_def plans_schema_def subscriptions_schema_def entitlements_schema_def receipts_schema_def

lemma valid_plan_row: "pn_id (replaced_plan x t r) = pn_id r" "pn_code (replaced_plan x t r) = pn_code r"
  by (simp_all add: replaced_plan_def)

lemma valid_plans:
  assumes "holds_all bill_schema d"
  shows "holds_all bill_schema (snd (sql_upsert_plan p t d))" "holds_all bill_schema (snd (sql_upsert_entitlement org cap on t d))"
proof -
  show "holds_all bill_schema (snd (sql_upsert_plan p t d))"
    unfolding sql_upsert_plan_def Let_def
    by (intro kept_valid_texts assms, simp split: option.split, intro conjI impI allI assms kept_valid)
      (use assms in \<open>auto simp: bill_schema_defs update_keys valid_plan_row list_all_iff\<close>)
  show "holds_all bill_schema (snd (sql_upsert_entitlement org cap on t d))"
    unfolding sql_upsert_entitlement_def Let_def
    by (intro kept_valid_texts assms, simp split: option.split, intro conjI impI allI assms kept_valid)
      (use assms in \<open>simp_all add: bill_schema_defs\<close>)
qed

lemma valid_subscriptions:
  assumes "holds_all bill_schema d"
  shows "holds_all bill_schema (snd (sql_upsert_subscription x t d))"
  unfolding sql_upsert_subscription_def Let_def
  by (intro kept_valid_texts assms, simp split: option.split, intro conjI impI allI assms kept_valid)
    (use assms in \<open>simp_all add: bill_schema_defs\<close>)

lemma claimed_key: "rc_id (claimed_receipt lease t r) = rc_id r" "rc_environment (claimed_receipt lease t r) = rc_environment r"
  "rc_event (claimed_receipt lease t r) = rc_event r" "receipt_ok r \<Longrightarrow> receipt_ok (claimed_receipt lease t r)"
  by (simp_all add: claimed_receipt_def receipt_ok_def)

lemma valid_receipts:
  assumes "holds_all bill_schema d"
  shows "holds_all bill_schema (snd (sql_insert_receipt j p i t d))" "holds_all bill_schema (snd (sql_reap_receipts env limit t d))"
    "holds_all bill_schema (snd (sql_claim_receipt lease env limit t d))" "holds_all bill_schema (snd (sql_complete_receipt status i lease t d))"
    "holds_all bill_schema (snd (sql_fail_receipt status message delay i lease t d))" "holds_all bill_schema (snd (sql_delete_receipts t d))"
proof -
  show "holds_all bill_schema (snd (sql_insert_receipt j p i t d))"
    unfolding sql_insert_receipt_def Let_def
    by (intro kept_valid_texts assms, simp split: option.split, intro conjI impI allI assms kept_valid)
      (use assms in \<open>simp_all add: bill_schema_defs\<close>)
  show "holds_all bill_schema (snd (sql_reap_receipts env limit t d))"
    unfolding sql_reap_receipts_def
    by (intro kept_valid_texts assms) (use assms in \<open>simp add: bill_schema_defs map_update_rows, auto intro!: update_all simp: receipt_ok_def\<close>)
  show "holds_all bill_schema (snd (sql_claim_receipt lease env limit t d))"
    unfolding sql_claim_receipt_def
    by (intro kept_valid_texts assms)
      (use assms in \<open>simp add: bill_schema_defs map_update_rows claimed_key split: list.split, auto intro!: update_all claimed_key\<close>)
  show "holds_all bill_schema (snd (sql_complete_receipt status i lease t d))"
    "holds_all bill_schema (snd (sql_fail_receipt status message delay i lease t d))"
    unfolding sql_complete_receipt_def sql_fail_receipt_def
    by (intro kept_valid_texts assms, rule kept_valid [OF assms], use assms in \<open>simp add: bill_schema_defs\<close>)+
  show "holds_all bill_schema (snd (sql_delete_receipts t d))"
    unfolding sql_delete_receipts_def using assms by (auto simp: bill_schema_defs list_all_iff intro: distinct_filter)
qed

lemma stmt_valid: "bill_stmt d d' \<Longrightarrow> holds_all bill_schema d \<Longrightarrow> holds_all bill_schema d'"
  by (induction rule: bill_stmt.induct) (simp_all only: valid_plans valid_subscriptions valid_receipts)

section \<open>A deployment\<close>

text \<open>An organization whose payment is past due, at a provider where it has recovered, on which the theorems are applied.\<close>

definition demo_plan :: "string \<Rightarrow> int \<Rightarrow> plan_row" where
  "demo_plan code amount = \<lparr>pn_id = UUID code, pn_code = code, pn_name = code, pn_description = None, pn_pricing = ''fixed'', pn_currency = ''USD'',
     pn_amount = Some amount, pn_interval = ''month'', pn_entitlements = [(''advanced_rbac'', J_Bool True)],
     pn_limits = map (\<lambda>n. (n, J_Int 5)) plan_limit_names, pn_status = ''active'', pn_created = 0, pn_updated = 0\<rparr>"

definition demo_subscription :: subscription_row where
  "demo_subscription = \<lparr>sb_id = UUID ''s'', sb_org = UUID ''o'', sb_plan = UUID ''pro'', sb_status = ''past_due'', sb_start = Some 0, sb_end = Some 50,
     sb_trial = None, sb_past_due = Some 10, sb_grace = Some 40, sb_cancel = False, sb_canceled = None, sb_provider = Some ''polar'',
     sb_customer = Some ''c'', sb_subscription = Some ''sub'', sb_event_at = Some 5, sb_created = 0, sb_updated = 0\<rparr>"

definition demo_receipt :: receipt_row where
  "demo_receipt = \<lparr>rc_id = UUID ''r'', rc_environment = ''production'', rc_event = ''evt_1'', rc_type = ''subscription.active'', rc_event_at = 20,
     rc_payload = ''{}'', rc_hash = ''hash'', rc_status = ''pending'', rc_attempts = 0, rc_available = 0, rc_locked = None, rc_lease = None,
     rc_received = 0, rc_processed = None, rc_error = None\<rparr>"

definition demo_bill_db :: "receipt_row list \<Rightarrow> bill_db" where
  "demo_bill_db rs = \<lparr>bl_orgs = [\<lparr>og_id = UUID ''o'', og_status = ''active'', og_deleted = False\<rparr>], bl_plans = [demo_plan ''free'' 0, demo_plan ''pro'' 100],
     bl_subs = [demo_subscription], bl_ents = [], bl_receipts = rs, bl_media = [], bl_calls = []\<rparr>"

definition demo_recovered :: polar_subscription where
  "demo_recovered = \<lparr>ps_id = ''sub'', ps_modified = Some 25, ps_customer_id = ''c'', ps_product = ''prod'', ps_customer = \<lparr>pu_id = ''c'', pu_external = ''o''\<rparr>,
     ps_status = ''active'', ps_org_meta = None, ps_start = 0, ps_end = 50, ps_trial = None, ps_cancel = False, ps_canceled = None, ps_past_due = None\<rparr>"

definition demo_polar :: polar where
  "demo_polar = \<lparr>po_token = ''t'', po_secret = ''k'', po_base = ''https://api.polar.sh'', po_now = (\<lambda>_. 30000000), po_http = (\<lambda>_ _. Inr (200, ''{}'')),
     po_hmac = (\<lambda>_ _. ''sig''), po_session = (\<lambda>_. Some ''https://pay''), po_portal = (\<lambda>_. None), po_subscription = (\<lambda>_. Some demo_recovered),
     po_state = (\<lambda>_. Some \<lparr>cu_id = ''c'', cu_external = ''o'', cu_active = []\<rparr>)\<rparr>"

definition demo_billing :: billing where
  "demo_billing = \<lparr>bs_env = (\<lambda>_. \<lparr>sq_fault = None, sq_now = 30, sq_fresh = UUID ''f''\<rparr>), bs_uuid = (\<lambda>_. UUID ''u''), bs_now = (\<lambda>_. 30),
     bg_polar = Some demo_polar, bg_products = [(''pro'', ''prod'')], bg_frontend = ''https://app'', bg_has_repo = True,
     bg_url = (\<lambda>_. Some \<lparr>bu_scheme = ''https'', bu_has_user = False, bu_host = ''app'', bu_path = ''/''\<rparr>), bg_parse = (\<lambda>s. Some (UUID s)),
     bg_event = (\<lambda>_. Some \<lparr>pe_type = ''subscription.active'', pe_at = 20, pe_version = [], pe_data = ''{}''\<rparr>),
     bg_subscription = (\<lambda>_. Some demo_recovered), bg_state = (\<lambda>_. None), bg_sha_hex = (\<lambda>_. ''hash''), bg_jsonb = Some, bg_text = (\<lambda>_. ''error''),
     bg_done = (\<lambda>_. False)\<rparr>"

definition demo_bill_world :: "bill_db sql_world" where
  "demo_bill_world = \<lparr>sw_tick = 0, sw_db = demo_bill_db [demo_receipt]\<rparr>"

definition demo_headers :: webhook_headers where
  "demo_headers = \<lparr>wh_id = ''evt_2'', wh_timestamp = ''30'', wh_signature = ''v1,c2ln''\<rparr>"

lemma demo_bill_valid: "holds_all bill_schema (sw_db demo_bill_world)"
  unfolding holds_all_def by code_simp

lemma demo_fields [simp]:
  "bs_env demo_billing n = \<lparr>sq_fault = None, sq_now = 30, sq_fresh = UUID ''f''\<rparr>" "bs_uuid demo_billing n = UUID ''u''" "bs_now demo_billing n = 30"
  "bg_polar demo_billing = Some demo_polar" "bg_has_repo demo_billing" "bg_parse demo_billing t = Some (UUID t)"
  "bg_event demo_billing t = Some \<lparr>pe_type = ''subscription.active'', pe_at = 20, pe_version = [], pe_data = ''{}''\<rparr>"
  "bg_subscription demo_billing t = Some demo_recovered" "polar_configured (Some demo_polar)" "sw_db demo_bill_world = demo_bill_db [demo_receipt]"
  by (simp_all add: demo_billing_def polar_configured_def demo_polar_def demo_bill_world_def)

lemma demo_identities [simp]: "UUID ''o'' \<noteq> uuid_nil" "UUID ''pro'' \<noteq> uuid_nil"
  by code_simp+

lemma demo_get: "run_state (subscription_get demo_billing (UUID ''o'')) \<lparr>sw_tick = n, sw_db = demo_bill_db rs\<rparr>
    = (Inr (Some demo_subscription), \<lparr>sw_tick = Suc n, sw_db = demo_bill_db rs\<rparr>)"
proof -
  have "sql_get_subscription (UUID ''o'') (demo_bill_db rs) = Inr demo_subscription" by code_simp
  then show ?thesis by (simp add: subscription_get_def bill_query_def run_combinators run_sql_query)
qed

lemma demo_plan_by_code: "run_state (plan_by_code demo_billing ''pro'') \<lparr>sw_tick = n, sw_db = demo_bill_db rs\<rparr>
    = (Inr \<lparr>pl_row = demo_plan ''pro'' 100, pl_entitlements = [(''advanced_rbac'', True)], pl_limits = map (\<lambda>x. (x, 5)) plan_limit_names\<rparr>,
       \<lparr>sw_tick = Suc n, sw_db = demo_bill_db rs\<rparr>)"
proof -
  have "sql_plan_by_code ''pro'' (demo_bill_db rs) = Inr (demo_plan ''pro'' 100)" "trim_space ''pro'' = ''pro''" by code_simp+
  moreover have "plan_from_row (demo_plan ''pro'' 100)
      = Inr \<lparr>pl_row = demo_plan ''pro'' 100, pl_entitlements = [(''advanced_rbac'', True)], pl_limits = map (\<lambda>x. (x, 5)) plan_limit_names\<rparr>" by code_simp
  ultimately show ?thesis
    by (simp add: plan_by_code_def plan_read_err_def from_row_def bill_query_def run_combinators run_sql_query)
qed

definition synced_row :: subscription_row where
  "synced_row = demo_subscription\<lparr>sb_status := ''active'', sb_past_due := None, sb_grace := None, sb_event_at := Some 20, sb_updated := 30\<rparr>"

lemma demo_upsert:
  "sql_upsert_subscription (subscription_params (UUID ''s'') (UUID ''o'') (sync_of (UUID ''pro'') 20 (None, None) demo_recovered)) 30 (demo_bill_db rs)
     = (Inr synced_row, (demo_bill_db rs)\<lparr>bl_subs := [synced_row]\<rparr>)"
  by code_simp

lemma demo_sync: "run_state (sync_polar demo_billing 20 demo_recovered) \<lparr>sw_tick = n, sw_db = demo_bill_db rs\<rparr>
    = (Inr (), \<lparr>sw_tick = n + 4, sw_db = (demo_bill_db rs)\<lparr>bl_subs := [synced_row]\<rparr>\<rparr>)"
proof -
  have "polar_owner demo_billing demo_recovered = Inr (UUID ''o'')" "plan_code_of demo_billing (ps_product demo_recovered) = Inr ''pro''"
    "validate_sync (sync_of (UUID ''pro'') 20 (None, None) demo_recovered) = None" "20 \<noteq> zero_time" "ps_start demo_recovered \<noteq> zero_time"
    by code_simp+
  moreover have "ps_id demo_recovered \<noteq> []" "ps_customer_id demo_recovered \<noteq> []" "ps_start demo_recovered < ps_end demo_recovered"
    "ps_status demo_recovered \<noteq> ''past_due''" "sb_id demo_subscription = UUID ''s''" "pn_id (demo_plan ''pro'' 100) = UUID ''pro''"
    by (simp_all add: demo_recovered_def demo_subscription_def demo_plan_def)
  ultimately show ?thesis
    by (simp add: sync_polar_def subscription_sync_def bill_exec_def sql_exec_def of_check_def run_combinators demo_plan_by_code demo_get demo_upsert)
qed

definition demo_claimed :: receipt_row where
  "demo_claimed = demo_receipt\<lparr>rc_status := ''processing'', rc_attempts := 1, rc_locked := Some 30, rc_lease := Some (UUID ''u'')\<rparr>"

definition demo_handled :: receipt_row where
  "demo_handled = demo_receipt\<lparr>rc_status := ''processed'', rc_attempts := 1, rc_processed := Some 30\<rparr>"

lemma demo_receipt_statements:
  "sql_reap_receipts ''production'' webhook_max_attempts 30 (demo_bill_db [demo_receipt]) = (Inr (), demo_bill_db [demo_receipt])"
  "sql_claim_receipt (UUID ''u'') ''production'' webhook_max_attempts 30 (demo_bill_db [demo_receipt]) = (Inr demo_claimed, demo_bill_db [demo_claimed])"
  "sql_claimed_receipt (UUID ''r'') (UUID ''u'') (demo_bill_db [demo_claimed]) = Inr demo_claimed"
  "sql_complete_receipt ''processed'' (UUID ''r'') (UUID ''u'') 30 ((demo_bill_db [demo_claimed])\<lparr>bl_subs := [synced_row]\<rparr>)
     = (Inr 1, (demo_bill_db [demo_handled])\<lparr>bl_subs := [synced_row]\<rparr>)"
  by code_simp+

lemma demo_work: "sw_db (snd (run_state (webhook_once demo_billing) demo_bill_world)) = (demo_bill_db [demo_handled])\<lparr>bl_subs := [synced_row]\<rparr>"
proof -
  have "polar_environment (Some demo_polar) = ''production''" "''subscription.active'' \<in> set subscription_events" by code_simp+
  moreover have "plan_code_of demo_billing (ps_product demo_recovered) = Inr ''pro''" "UUID (ps_product demo_recovered) \<noteq> uuid_nil" by code_simp+
  moreover have "rc_id demo_claimed = UUID ''r''" by (simp add: demo_claimed_def demo_receipt_def)
  ultimately show ?thesis
    by (simp add: webhook_once_def process_receipt_def process_body_def consume_event_def bill_exec_def bill_query_def sql_exec_def sql_begin_def sql_commit_def
        run_combinators run_sql_query demo_receipt_statements demo_sync demo_bill_world_def)
qed

lemma demo_run_work: "sw_db (run_billing demo_billing [B_Work] demo_bill_world) = (demo_bill_db [demo_handled])\<lparr>bl_subs := [synced_row]\<rparr>"
  by (simp add: run_billing_def demo_work)

lemma demo_signature: "b64_std_decode ''c2ln'' = Some ''sig''"
  by (simp add: b64_std_decode_def b64_decode_def b64_val_def strip_padding_def url_alphabet_def Let_def char_of_def bit_simps)

lemma demo_verified: "parse_webhook (bg_event demo_billing) (Some demo_polar) 30000000 ''{}'' demo_headers
    = Inr \<lparr>pe_type = ''subscription.active'', pe_at = 20, pe_version = [], pe_data = ''{}''\<rparr>"
proof -
  have "parse_int64 ''30'' = Some 30" "webhook_keys ''k'' = [''k'']" "words_of ''v1,c2ln'' = [''v1,c2ln'']" "cut_at '','' ''v1,c2ln'' = Some (''v1'', ''c2ln'')"
    "20 \<noteq> zero_time" by code_simp+
  moreover have "po_secret demo_polar = ''k''" "po_hmac demo_polar k m = ''sig''" for k m by (simp_all add: demo_polar_def)
  ultimately show ?thesis by (simp add: parse_webhook_def matches_key_def demo_signature demo_headers_def webhook_tolerance_def)
qed

lemma demo_received: "fst (run_state (receive_webhook demo_billing (Some ''{}'') demo_headers) demo_bill_world) = Inr ()"
proof -
  define p where "p = \<lparr>rp_environment = polar_environment (Some demo_polar), rp_event = wh_id demo_headers, rp_type = ''subscription.active'', rp_event_at = 20,
     rp_payload = ''{}'', rp_hash = bg_sha_hex demo_billing ''{}''\<rparr>"
  have "\<not> 256 < length (wh_id demo_headers)" "po_now demo_polar n = 30000000" for n by (simp_all add: demo_headers_def demo_polar_def)
  moreover have "case fst (sql_insert_receipt (bg_jsonb demo_billing) p (UUID ''f'') 30 (demo_bill_db [demo_receipt])) of Inl e \<Rightarrow> False | Inr r \<Rightarrow> True"
    unfolding p_def by code_simp
  then obtain r d where "sql_insert_receipt (bg_jsonb demo_billing) p (UUID ''f'') 30 (demo_bill_db [demo_receipt]) = (Inr r, d)"
    by (cases "sql_insert_receipt (bg_jsonb demo_billing) p (UUID ''f'') 30 (demo_bill_db [demo_receipt])") (auto split: sum.splits)
  ultimately show ?thesis
    by (simp add: receive_webhook_def billing_webhook_def bill_exec_def sql_exec_def run_combinators demo_bill_world_def p_def demo_verified)
qed

end
