(* ===== verification/Bill_Safety.thy ===== *)
theory Bill_Safety
  imports Bill_Invariants
begin

text \<open>
  Subscriptions over the histories of the commercial part: they only move forward with the provider's events, a live one is never
  replaced by another, and the grace window of a missed payment is not extended.
\<close>

section \<open>One statement\<close>

definition sub_follows :: "subscription_row \<Rightarrow> subscription_row \<Rightarrow> bool" where
  "sub_follows a b \<longleftrightarrow> sb_id b = sb_id a \<and> sb_org b = sb_org a \<and> sb_created b = sb_created a
     \<and> (case sb_event_at a of None \<Rightarrow> True | Some t \<Rightarrow> (case sb_event_at b of None \<Rightarrow> False | Some t' \<Rightarrow> t \<le> t'))
     \<and> (sb_customer a = None \<or> sb_customer b = sb_customer a)"

definition sub_step :: "subscription_row \<Rightarrow> subscription_row \<Rightarrow> bool" where
  "sub_step a b \<longleftrightarrow> sub_follows a b
     \<and> (sb_subscription a = None \<or> sb_subscription b = sb_subscription a \<or> sb_status a = ''canceled'')
     \<and> (sb_status a = ''past_due'' \<and> sb_status b = ''past_due'' \<and> sb_subscription b = sb_subscription a \<and> sb_past_due a \<noteq> None \<and> sb_grace a \<noteq> None
        \<longrightarrow> sb_past_due b = sb_past_due a \<and> sb_grace b = sb_grace a)"

lemma sub_step_refl: "sub_step r r"
  by (auto simp: sub_step_def sub_follows_def split: option.split)

lemma sub_follows_trans: "sub_follows a b \<Longrightarrow> sub_follows b c \<Longrightarrow> sub_follows a c"
  by (auto simp: sub_follows_def split: option.splits)

lemma replaced_step: "accepts_event old x \<Longrightarrow> sub_step old (replaced_subscription x t old)"
  by (auto simp: sub_step_def sub_follows_def accepts_event_def replaced_subscription_def keeps_grace_def split: option.splits)

lemma upsert_cases:
  obtains (same) "snd (sql_upsert_subscription p t d) = d"
  | (created) x where "snd (sql_upsert_subscription p t d) = d\<lparr>bl_subs := bl_subs d @ [x]\<rparr>"
  | (replaced) x old where "find (\<lambda>r. sb_org r = sb_org p) (bl_subs d) = Some old" "accepts_event old x"
      "snd (sql_upsert_subscription p t d) = d\<lparr>bl_subs := update_rows (\<lambda>r. sb_org r = sb_org p) (replaced_subscription x t) (bl_subs d)\<rparr>"
proof -
  define x where "x = p\<lparr>sb_created := t, sb_updated := t\<rparr>"
  let ?same = "\<lambda>r. sb_org r = sb_org p"
  show thesis
  proof (cases "find ?same (bl_subs d)")
    case None
    then have "snd (sql_upsert_subscription p t d) = d \<or> snd (sql_upsert_subscription p t d) = d\<lparr>bl_subs := bl_subs d @ [x]\<rparr>"
      by (simp add: sql_upsert_subscription_def x_def [symmetric] statement_simps split: option.split)
    then show thesis using same created by blast
  next
    case (Some old)
    show thesis
    proof (cases "accepts_event old x")
      case True
      with Some have "snd (sql_upsert_subscription p t d) = d \<or> snd (sql_upsert_subscription p t d)
          = d\<lparr>bl_subs := update_rows ?same (replaced_subscription x t) (bl_subs d)\<rparr>"
        by (simp add: sql_upsert_subscription_def x_def [symmetric] statement_simps split: option.split)
      then show thesis using same replaced [OF Some True] by blast
    next
      case False
      with Some have "snd (sql_upsert_subscription p t d) = d"
        by (simp add: sql_upsert_subscription_def x_def [symmetric] Let_def with_texts_def)
      then show thesis by (rule same)
    qed
  qed
qed

lemma distinct_key: "distinct (map f xs) \<Longrightarrow> x \<in> set xs \<Longrightarrow> y \<in> set xs \<Longrightarrow> f x = f y \<Longrightarrow> x = y"
  by (metis (full_types) distinct_map inj_onD)

lemma upsert_subscription:
  assumes "holds_all bill_schema d" "s \<in> set (bl_subs d)"
  shows "\<exists>s' \<in> set (bl_subs (snd (sql_upsert_subscription p t d))). sub_step s s'"
proof (cases rule: upsert_cases [of p t d])
  case same
  then show ?thesis using assms(2) sub_step_refl by metis
next
  case (created x)
  then show ?thesis using assms(2) sub_step_refl [of s] by (intro bexI [of _ s]) simp_all
next
  case (replaced x old)
  from replaced(1) have old: "old \<in> set (bl_subs d)" "sb_org old = sb_org p" by (auto simp: find_Some_iff)
  have "s = old" if "sb_org s = sb_org p"
    using assms old that by (intro distinct_key [where f = sb_org and xs = "bl_subs d"]) (auto simp: bill_schema_defs)
  then have "sub_step s (if sb_org s = sb_org p then replaced_subscription x t s else s)"
    using replaced_step [OF replaced(2)] sub_step_refl by metis
  moreover have "(if sb_org s = sb_org p then replaced_subscription x t s else s)
      \<in> set (update_rows (\<lambda>r. sb_org r = sb_org p) (replaced_subscription x t) (bl_subs d))"
    unfolding update_rows_def set_map using assms(2) by (rule rev_image_eqI) (rule refl)
  ultimately show ?thesis unfolding replaced(3) by (intro bexI) simp_all
qed

lemma stmt_subscription:
  "bill_stmt d d' \<Longrightarrow> holds_all bill_schema d \<Longrightarrow> s \<in> set (bl_subs d) \<Longrightarrow> \<exists>s' \<in> set (bl_subs d'). sub_step s s'"
proof (induction rule: bill_stmt.induct)
  case (bt_subscription d x t)
  then show ?case by (rule upsert_subscription)
qed (simp_all add: bframes, (metis sub_step_refl)+)

section \<open>Histories\<close>

text \<open>A property of the row of a subscription that a history loses is lost in one statement, between two states of that history.\<close>

definition lost_between :: "bill_db \<Rightarrow> bill_db \<Rightarrow> (subscription_row \<Rightarrow> bool) \<Rightarrow> subscription_row \<Rightarrow> subscription_row \<Rightarrow> bool" where
  "lost_between d d' keep a b \<longleftrightarrow> keep a \<and> \<not> keep b \<and> sub_step a b
     \<and> (\<exists>da db. bill_stmt\<^sup>*\<^sup>* d da \<and> bill_stmt da db \<and> bill_stmt\<^sup>*\<^sup>* db d' \<and> a \<in> set (bl_subs da) \<and> b \<in> set (bl_subs db))"

lemma stmts_valid: "bill_stmt\<^sup>*\<^sup>* d d' \<Longrightarrow> holds_all bill_schema d \<Longrightarrow> holds_all bill_schema d'"
  by (erule star_invariant) (assumption, erule (1) stmt_valid)

lemma subscription_path:
  assumes "bill_stmt\<^sup>*\<^sup>* d d'" "holds_all bill_schema d" "s \<in> set (bl_subs d)"
  shows "\<exists>s' \<in> set (bl_subs d'). sub_follows s s' \<and> (\<forall>keep. keep s \<longrightarrow> keep s' \<or> (\<exists>a b. sb_id a = sb_id s \<and> lost_between d d' keep a b))"
  using assms(1)
proof (induction rule: rtranclp_induct)
  case base
  then show ?case using assms(3) sub_step_refl [of s] by (auto simp: sub_step_def)
next
  case (step y z)
  then obtain m where m: "m \<in> set (bl_subs y)" "sub_follows s m"
    "\<And>keep. keep s \<Longrightarrow> keep m \<or> (\<exists>a b. sb_id a = sb_id s \<and> lost_between d y keep a b)" by blast
  have "holds_all bill_schema y" using step(1) assms(2) by (rule stmts_valid)
  then obtain s' where s': "s' \<in> set (bl_subs z)" "sub_step m s'" using stmt_subscription [OF step(2) _ m(1)] by blast
  have "keep s' \<or> (\<exists>a b. sb_id a = sb_id s \<and> lost_between d z keep a b)" if "keep s" for keep
  proof (cases "keep m")
    case True
    then have "keep s' \<or> lost_between d z keep m s'"
      using step(1,2) m(1) s' unfolding lost_between_def by blast
    then show ?thesis using m(2) by (auto simp: sub_follows_def)
  next
    case False
    with m(3) [of keep] that obtain a b where "sb_id a = sb_id s" "lost_between d y keep a b" by blast
    then have "lost_between d z keep a b"
      using step(2) unfolding lost_between_def by (meson rtranclp.rtrancl_into_rtrancl)
    with \<open>sb_id a = sb_id s\<close> show ?thesis by blast
  qed
  moreover have "sub_follows s s'" using m(2) s'(2) by (auto simp: sub_step_def intro: sub_follows_trans)
  ultimately show ?case using s'(1) by blast
qed

lemma subscription_later:
  assumes "holds_all bill_schema (sw_db w)" "s \<in> set (bl_subs (sw_db w))" "s' \<in> set (bl_subs (sw_db (run_billing S ops w)))" "sb_id s' = sb_id s"
  shows "sub_follows s s'" and "keep s \<Longrightarrow> \<not> keep s' \<Longrightarrow> \<exists>a b. sb_id a = sb_id s \<and> lost_between (sw_db w) (sw_db (run_billing S ops w)) keep a b"
proof -
  let ?d = "sw_db (run_billing S ops w)"
  obtain r where r: "r \<in> set (bl_subs ?d)" "sub_follows s r"
    "\<And>keep. keep s \<Longrightarrow> keep r \<or> (\<exists>a b. sb_id a = sb_id s \<and> lost_between (sw_db w) ?d keep a b)"
    using subscription_path [OF run_billing_stmts assms(1,2)] by blast
  have "holds_all bill_schema ?d" using run_billing_stmts assms(1) by (rule stmts_valid)
  then have "r = s'" using r(1,2) assms(3,4)
    by (intro distinct_key [where f = sb_id and xs = "bl_subs ?d"]) (auto simp: bill_schema_defs sub_follows_def)
  then show "sub_follows s s'" and "keep s \<Longrightarrow> \<not> keep s' \<Longrightarrow> \<exists>a b. sb_id a = sb_id s \<and> lost_between (sw_db w) ?d keep a b"
    using r(2,3) by blast+
qed

text \<open>
  C6: whatever webhooks arrive in whatever order, however often and however late, and whatever recoveries and jobs run: the
  subscription row of an organization keeps its organization, never goes back before an event of the provider it has applied,
  never changes its customer, and its subscription is only exchanged for another in a statement that met it canceled.
\<close>

theorem subscription_moves_forward:
  assumes "holds_all bill_schema (sw_db w)" and "s \<in> set (bl_subs (sw_db w))"
    and "w' = run_billing S ops w" and "s' \<in> set (bl_subs (sw_db w'))" and "sb_id s' = sb_id s"
  shows "sub_follows s s' \<and> (\<forall>i. sb_subscription s = Some i \<longrightarrow> sb_subscription s' \<noteq> Some i \<longrightarrow>
     (\<exists>a b. lost_between (sw_db w) (sw_db w') (\<lambda>r. sb_subscription r = Some i) a b \<and> sb_id a = sb_id s \<and> sb_status a = ''canceled''))"
proof (intro conjI allI impI)
  note later = subscription_later [OF assms(1,2) assms(4) [unfolded assms(3)] assms(5), folded assms(3)]
  show "sub_follows s s'" by (rule later(1))
  fix i assume "sb_subscription s = Some i" "sb_subscription s' \<noteq> Some i"
  then obtain a b where ab: "sb_id a = sb_id s" "lost_between (sw_db w) (sw_db w') (\<lambda>r. sb_subscription r = Some i) a b"
    using later(2) [of "\<lambda>r. sb_subscription r = Some i"] by blast
  then have "sb_status a = ''canceled''" by (auto simp: lost_between_def sub_step_def)
  with ab show "\<exists>a b. lost_between (sw_db w) (sw_db w') (\<lambda>r. sb_subscription r = Some i) a b \<and> sb_id a = sb_id s \<and> sb_status a = ''canceled''" by blast
qed


section \<open>Witnesses\<close>

lemma demo_now: "demo_subscription \<in> set (bl_subs (sw_db demo_bill_world))" "synced_row \<in> set (bl_subs (sw_db (run_billing demo_billing [B_Work] demo_bill_world)))"
  "sb_id synced_row = sb_id demo_subscription"
  by (simp_all add: demo_run_work) (simp_all add: demo_bill_db_def synced_row_def)

theorem subscription_moves_forward_witness: "sub_follows demo_subscription synced_row \<and> sb_event_at synced_row = Some 20"
  using subscription_moves_forward [OF demo_bill_valid demo_now(1) refl demo_now(2,3)] by (simp add: synced_row_def)


end
