(* ===== verification/Bill_Inbox.thy ===== *)
theory Bill_Inbox
  imports Bill_Invariants
begin

text \<open>
  The inbox of billing webhooks: an acknowledged event is authentic and is kept until it has been handled, a settled receipt
  never changes, and what a stored event does to the subscriptions is committed together with the mark on its receipt.
\<close>

section \<open>One statement\<close>

definition receipt_open :: "receipt_row \<Rightarrow> bool" where
  "receipt_open r \<longleftrightarrow> rc_status r \<in> {''pending'', ''processing''}"

definition same_receipt :: "receipt_row \<Rightarrow> receipt_row \<Rightarrow> bool" where
  "same_receipt a b \<longleftrightarrow> rc_id b = rc_id a \<and> rc_environment b = rc_environment a \<and> rc_event b = rc_event a \<and> rc_type b = rc_type a
     \<and> rc_event_at b = rc_event_at a \<and> rc_payload b = rc_payload a \<and> rc_hash b = rc_hash a \<and> rc_received b = rc_received a"

definition receipt_follows :: "receipt_row \<Rightarrow> receipt_row \<Rightarrow> bool" where
  "receipt_follows a b \<longleftrightarrow> same_receipt a b \<and> (\<not> receipt_open a \<longrightarrow> b = a)
     \<and> rc_attempts a \<le> rc_attempts b \<and> (rc_attempts a \<le> webhook_max_attempts \<longrightarrow> rc_attempts b \<le> webhook_max_attempts)"

lemma receipt_follows_refl: "receipt_follows r r"
  by (simp add: receipt_follows_def same_receipt_def)

lemma receipt_follows_trans: "receipt_follows a b \<Longrightarrow> receipt_follows b c \<Longrightarrow> receipt_follows a c"
  by (auto simp: receipt_follows_def same_receipt_def)

definition was_handled :: "receipt_row \<Rightarrow> bool" where
  "was_handled r \<longleftrightarrow> rc_status r \<in> {''processed'', ''ignored''}"

text \<open>Every row has a successor, or is a handled one that the cleanup deletes.\<close>

definition receipts_step :: "bill_db \<Rightarrow> bill_db \<Rightarrow> bool" where
  "receipts_step d d' \<longleftrightarrow> (\<forall>r \<in> set (bl_receipts d). (\<exists>r' \<in> set (bl_receipts d'). receipt_follows r r') \<or> was_handled r)"

lemma receipts_same: "bl_receipts d' = bl_receipts d \<Longrightarrow> receipts_step d d'"
  unfolding receipts_step_def using receipt_follows_refl by metis

lemma receipts_refl: "receipts_step d d"
  by (rule receipts_same) (rule refl)

lemma receipts_update:
  assumes "bl_receipts d' = update_rows p f (bl_receipts d)" and "\<And>r. r \<in> set (bl_receipts d) \<Longrightarrow> p r \<Longrightarrow> receipt_follows r (f r)"
  shows "receipts_step d d'"
  unfolding receipts_step_def
proof (intro ballI disjI1)
  fix r assume r: "r \<in> set (bl_receipts d)"
  then have "(if p r then f r else r) \<in> set (bl_receipts d')"
    unfolding assms(1) update_rows_def set_map by (rule rev_image_eqI) (rule refl)
  moreover have "receipt_follows r (if p r then f r else r)" using assms(2) [OF r] receipt_follows_refl by simp
  ultimately show "\<exists>r' \<in> set (bl_receipts d'). receipt_follows r r'" by blast
qed

lemma receipts_texts: "receipts_step d d \<Longrightarrow> receipts_step d (snd r) \<Longrightarrow> receipts_step d (snd (with_texts ps d r))"
  by (simp add: with_texts_def)

lemma receipts_constrained: "receipts_step d d \<Longrightarrow> receipts_step d (snd r) \<Longrightarrow> receipts_step d (snd (constrained sch d r))"
  by (simp add: constrained_def split: option.split)

lemma claim_receipts:
  assumes "holds_all bill_schema d" "r \<in> set (bl_receipts d)" "claimable env webhook_max_attempts t r" "x \<in> set (bl_receipts d)" "rc_id x = rc_id r"
  shows "receipt_follows x (claimed_receipt lease t x)"
proof -
  have "x = r" using assms(1,2,4,5) by (intro inj_onD [of rc_id "set (bl_receipts d)"]) (auto simp: bill_schema_defs distinct_map)
  with assms(3) show ?thesis
    by (auto simp: receipt_follows_def same_receipt_def claimed_receipt_def claimable_def receipt_open_def expired_lease_def)
qed

lemma stmt_receipts:
  assumes "bill_stmt d d'" "holds_all bill_schema d"
  shows "receipts_step d d'"
  using assms
proof (induction rule: bill_stmt.induct)
  case (bt_insert d j p i t)
  have "receipts_step d (d\<lparr>bl_receipts := bl_receipts d @ [x]\<rparr>)" for x
    unfolding receipts_step_def using receipt_follows_refl by auto
  then show ?case unfolding sql_insert_receipt_def Let_def
    by (intro receipts_texts receipts_refl) (auto intro!: receipts_refl receipts_constrained split: option.split)
next
  case (bt_reap d env t)
  show ?case unfolding sql_reap_receipts_def
    by (intro receipts_texts receipts_refl, unfold snd_conv, rule receipts_update, simp)
      (auto simp: receipt_follows_def same_receipt_def expired_lease_def receipt_open_def)
next
  case (bt_claim d lease env t)
  let ?rows = "order_by older_receipt (filter (claimable env webhook_max_attempts t) (bl_receipts d))"
  show ?case
  proof (cases ?rows)
    case Nil
    then show ?thesis by (simp add: sql_claim_receipt_def with_texts_def receipts_refl)
  next
    case (Cons r rs)
    then have "r \<in> set ?rows" by simp
    then have r: "r \<in> set (bl_receipts d)" "claimable env webhook_max_attempts t r" by simp_all
    have "receipts_step d (d\<lparr>bl_receipts := update_rows (\<lambda>x. rc_id x = rc_id r) (claimed_receipt lease t) (bl_receipts d)\<rparr>)"
      by (rule receipts_update, simp) (use claim_receipts [OF bt_claim r] in simp)
    then show ?thesis unfolding sql_claim_receipt_def Cons by (intro receipts_texts receipts_refl) simp
  qed
next
  case (bt_complete status d i lease t)
  show ?case unfolding sql_complete_receipt_def
    by (intro receipts_texts receipts_constrained receipts_refl, unfold snd_conv, rule receipts_update, simp)
      (auto simp: receipt_follows_def same_receipt_def held_receipt_def receipt_open_def)
next
  case (bt_fail status d message delay i lease t)
  show ?case unfolding sql_fail_receipt_def
    by (intro receipts_texts receipts_constrained receipts_refl, unfold snd_conv, rule receipts_update, simp)
      (auto simp: receipt_follows_def same_receipt_def held_receipt_def receipt_open_def)
next
  case (bt_delete d t)
  show ?case unfolding receipts_step_def sql_delete_receipts_def using receipt_follows_refl by (auto simp: was_handled_def)
qed (simp_all add: receipts_same bframes)

section \<open>Histories\<close>

text \<open>A row is still in the table, or has been handled in a state of the history.\<close>

definition kept_or_handled :: "bill_db \<Rightarrow> bill_db \<Rightarrow> receipt_row \<Rightarrow> bool" where
  "kept_or_handled d d' a \<longleftrightarrow> a \<in> set (bl_receipts d')
     \<or> was_handled a \<and> (\<exists>m. bill_stmt\<^sup>*\<^sup>* d m \<and> bill_stmt\<^sup>*\<^sup>* m d' \<and> a \<in> set (bl_receipts m))"

lemma receipt_path:
  assumes "bill_stmt\<^sup>*\<^sup>* d d'" "holds_all bill_schema d" "r \<in> set (bl_receipts d)"
  shows "\<exists>a. receipt_follows r a \<and> kept_or_handled d d' a"
  using assms(1)
proof (induction rule: rtranclp_induct)
  case base
  then show ?case unfolding kept_or_handled_def using assms(3) receipt_follows_refl by blast
next
  case (step y z)
  then obtain a where a: "receipt_follows r a" "kept_or_handled d y a" by blast
  show ?case
  proof (cases "a \<in> set (bl_receipts y)")
    case True
    have "holds_all bill_schema y" using step(1) assms(2) by (rule star_invariant) (rule stmt_valid)
    then have "receipts_step y z" using step(2) by (rule stmt_receipts [rotated])
    with True have "(\<exists>b \<in> set (bl_receipts z). receipt_follows a b) \<or> was_handled a" unfolding receipts_step_def by blast
    moreover have "kept_or_handled d z a" if "was_handled a"
      unfolding kept_or_handled_def using that True step(1,2) by blast
    ultimately show ?thesis using a(1) receipt_follows_trans unfolding kept_or_handled_def by blast
  next
    case False
    with a(2) step(2) have "kept_or_handled d z a"
      unfolding kept_or_handled_def by (meson rtranclp.rtrancl_into_rtrancl)
    with a(1) show ?thesis by blast
  qed
qed

section \<open>Acknowledged events\<close>

lemma insert_Inr:
  assumes "sql_insert_receipt j p i t d = (Inr r, d')"
  shows "r \<in> set (bl_receipts d') \<and> rc_environment r = rp_environment p \<and> rc_event r = rp_event p \<and> rc_hash r = rp_hash p"
proof -
  have new: "rc_environment (new_receipt p payload i t) = rp_environment p" "rc_event (new_receipt p payload i t) = rp_event p"
    "rc_hash (new_receipt p payload i t) = rp_hash p" for payload
    by (simp_all add: new_receipt_def)
  from assms new show ?thesis unfolding sql_insert_receipt_def Let_def
    by (auto dest!: with_texts_Inr constrained_Inr simp: find_Some_iff split: option.splits if_splits)
qed

lemma parse_webhook_Inr:
  assumes "parse_webhook decode c now payload h = Inr ev"
  obtains P key encoded seconds where "c = Some P" "key \<in> set (webhook_keys (po_secret P))"
    "b64_std_decode encoded = Some (po_hmac P key (signed_message h payload))"
    "parse_int64 (wh_timestamp h) = Some seconds" "\<bar>now - seconds * 1000000\<bar> \<le> webhook_tolerance"
proof -
  from assms obtain P seconds where P: "c = Some P" "parse_int64 (wh_timestamp h) = Some seconds"
    and d: "\<not> (webhook_tolerance < now - seconds * 1000000 \<or> now - seconds * 1000000 < - webhook_tolerance)"
    and k: "list_ex (\<lambda>key. list_ex (\<lambda>candidate. matches_key (po_hmac P) (signed_message h payload) candidate key)
                 (words_of (wh_signature h))) (webhook_keys (po_secret P))"
    unfolding parse_webhook_def Let_def by (auto split: option.splits if_splits)
  from k obtain key candidate where key: "key \<in> set (webhook_keys (po_secret P))" "matches_key (po_hmac P) (signed_message h payload) candidate key"
    by (auto simp: list_ex_iff)
  then obtain encoded where "b64_std_decode encoded = Some (po_hmac P key (signed_message h payload))"
    by (auto simp: matches_key_def split: option.splits)
  moreover have "\<bar>now - seconds * 1000000\<bar> \<le> webhook_tolerance" using d by linarith
  ultimately show thesis by (rule that [OF P(1) key(1) _ P(2)])
qed

lemma receive_webhook_Inr:
  assumes "run_state (receive_webhook S (Some payload) h) w = (Inr (), w1)"
  obtains ev r where "parse_webhook (bg_event S) (bg_polar S) (case bg_polar S of Some P \<Rightarrow> po_now P (sw_tick w) | None \<Rightarrow> 0) payload h = Inr ev"
    "r \<in> set (bl_receipts (sw_db w1))" "rc_environment r = polar_environment (bg_polar S)" "rc_event r = wh_id h" "rc_hash r = bg_sha_hex S payload"
proof -
  let ?now = "case bg_polar S of Some P \<Rightarrow> po_now P (sw_tick w) | None \<Rightarrow> 0"
  from assms obtain ev where ev: "parse_webhook (bg_event S) (bg_polar S) ?now payload h = Inr ev"
    by (auto simp: receive_webhook_def billing_webhook_def split: if_splits sum.splits)
  let ?p = "\<lparr>rp_environment = polar_environment (bg_polar S), rp_event = wh_id h, rp_type = pe_type ev, rp_event_at = pe_at ev,
      rp_payload = payload, rp_hash = bg_sha_hex S payload\<rparr>"
  from assms ev obtain r w2 where "run_state (bill_exec S (\<lambda>se. sql_insert_receipt (bg_jsonb S) ?p (sq_fresh se) (sq_now se))) (w\<lparr>sw_tick := Suc (sw_tick w)\<rparr>) = (Inr r, w2)" "w1 = w2"
    by (auto simp: receive_webhook_def billing_webhook_def chain_Inr map_error_Inr split: if_splits)
  then have "\<exists>i t. sql_insert_receipt (bg_jsonb S) ?p i t (sw_db w) = (Inr r, sw_db w1)"
    unfolding bill_exec_def by (force dest!: sql_exec_Inr)
  then obtain i t where "sql_insert_receipt (bg_jsonb S) ?p i t (sw_db w) = (Inr r, sw_db w1)" by blast
  from insert_Inr [OF this] show thesis using that [OF ev, of r] by simp
qed


section \<open>Handled events\<close>

text \<open>
  What the webhook job does between two statements of others: handled receipts stay, an open one was there before, and
  a changed subscription comes with a receipt that was open and is handled.
\<close>

definition origins :: "bill_db \<Rightarrow> bill_db \<Rightarrow> bool" where
  "origins d d' \<longleftrightarrow> (\<forall>x \<in> set (bl_receipts d'). receipt_open x \<longrightarrow> (\<exists>y \<in> set (bl_receipts d). same_receipt y x \<and> receipt_open y))"

definition handled_kept :: "bill_db \<Rightarrow> bill_db \<Rightarrow> bool" where
  "handled_kept d d' \<longleftrightarrow> (\<forall>r \<in> set (bl_receipts d). was_handled r \<longrightarrow> r \<in> set (bl_receipts d'))"

definition newly_handled :: "bill_db \<Rightarrow> bill_db \<Rightarrow> bool" where
  "newly_handled d d' \<longleftrightarrow> (\<exists>r \<in> set (bl_receipts d). \<exists>r' \<in> set (bl_receipts d'). same_receipt r r' \<and> receipt_open r \<and> was_handled r')"

definition work_step :: "bill_db \<Rightarrow> bill_db \<Rightarrow> bool" where
  "work_step d d' \<longleftrightarrow> (holds_all bill_schema d \<longrightarrow>
     holds_all bill_schema d' \<and> handled_kept d d' \<and> origins d d' \<and> (bl_subs d' \<noteq> bl_subs d \<longrightarrow> newly_handled d d'))"

lemma same_receipt_trans: "same_receipt a b \<Longrightarrow> same_receipt b c \<Longrightarrow> same_receipt a c"
  by (simp add: same_receipt_def)

lemma origins_trans: "origins a b \<Longrightarrow> origins b c \<Longrightarrow> origins a c"
  unfolding origins_def by (meson same_receipt_trans)

lemma newly_handled_origin: "origins a b \<Longrightarrow> newly_handled b c \<Longrightarrow> newly_handled a c"
  unfolding origins_def newly_handled_def by (meson same_receipt_trans)

lemma newly_handled_kept: "newly_handled a b \<Longrightarrow> handled_kept b c \<Longrightarrow> newly_handled a c"
  unfolding newly_handled_def handled_kept_def by blast

lemma handled_kept_trans: "handled_kept a b \<Longrightarrow> handled_kept b c \<Longrightarrow> handled_kept a c"
  unfolding handled_kept_def by blast

interpretation wk: sql_guarantee work_step
proof
  show "work_step d d" for d by (auto simp: work_step_def origins_def handled_kept_def same_receipt_def)
  show "work_step a c" if "work_step a b" "work_step b c" for a b c
    using that unfolding work_step_def
    by (metis origins_trans newly_handled_origin newly_handled_kept handled_kept_trans)
qed

lemma work_update:
  assumes "bl_receipts d' = update_rows p f (bl_receipts d)" "holds_all bill_schema d \<Longrightarrow> holds_all bill_schema d'"
    and "\<And>r. holds_all bill_schema d \<Longrightarrow> r \<in> set (bl_receipts d) \<Longrightarrow> p r \<Longrightarrow> receipt_open r \<and> same_receipt r (f r)"
    and "bl_subs d' = bl_subs d \<or> (\<exists>r \<in> set (bl_receipts d). p r \<and> was_handled (f r))"
  shows "work_step d d'"
  unfolding work_step_def
proof (intro impI conjI)
  assume valid: "holds_all bill_schema d"
  show "holds_all bill_schema d'" using assms(2) valid .
  show "handled_kept d d'"
    unfolding handled_kept_def assms(1)
    using assms(3) [OF valid] by (force simp: update_rows_def was_handled_def receipt_open_def)
  show "origins d d'"
    unfolding origins_def assms(1)
  proof (intro ballI impI)
    fix x assume x: "x \<in> set (update_rows p f (bl_receipts d))" "receipt_open x"
    from set_update_rows [OF x(1)] obtain y where "y \<in> set (bl_receipts d)" "x = (if p y then f y else y)" by blast
    with assms(3) [OF valid, of y] x(2) show "\<exists>y \<in> set (bl_receipts d). same_receipt y x \<and> receipt_open y"
      by (intro bexI [of _ y]) (auto simp: same_receipt_def split: if_splits)
  qed
  assume "bl_subs d' \<noteq> bl_subs d"
  with assms(4) obtain r where r: "r \<in> set (bl_receipts d)" "p r" "was_handled (f r)" by blast
  then have "f r \<in> set (bl_receipts d')" unfolding assms(1) by (force simp: update_rows_def)
  with assms(3) [OF valid r(1,2)] r show "newly_handled d d'" unfolding newly_handled_def by blast
qed

lemma work_texts: "work_step d (snd r) \<Longrightarrow> work_step d (snd (with_texts ps d r))"
  using wk.d_refl by (simp add: with_texts_def)

lemma work_constrained: "work_step d (snd r) \<Longrightarrow> work_step d (snd (constrained sch d r))"
  using wk.d_refl by (simp add: constrained_def split: option.split)

lemma work_statements:
  "work_step d (snd (sql_reap_receipts env limit t d))" "work_step d (snd (sql_claim_receipt lease env webhook_max_attempts t d))"
  "work_step d (snd (sql_fail_receipt status message delay i lease t d))"
proof -
  show "work_step d (snd (sql_reap_receipts env limit t d))"
  proof (cases "list_all pg_text [env]")
    case True
    show ?thesis
      by (rule work_update [OF _ valid_receipts(2) _ disjI1 [OF receipt_frames(4)]], simp add: sql_reap_receipts_def with_texts_def True [simplified])
        (auto simp: expired_lease_def receipt_open_def same_receipt_def)
  qed (use wk.d_refl in \<open>simp add: sql_reap_receipts_def with_texts_def\<close>)
  show "work_step d (snd (sql_fail_receipt status message delay i lease t d))"
  proof -
    define d' where "d' = d\<lparr>bl_receipts := update_rows (held_receipt i lease)
       (\<lambda>r. r\<lparr>rc_status := status, rc_locked := None, rc_lease := None, rc_error := Some message, rc_available := t + delay * 1000000\<rparr>) (bl_receipts d)\<rparr>"
    have "snd (sql_fail_receipt status message delay i lease t d) = d \<or> snd (sql_fail_receipt status message delay i lease t d) = d'"
      by (simp add: sql_fail_receipt_def d'_def statement_simps split: option.split)
    moreover have "work_step d d'" if "snd (sql_fail_receipt status message delay i lease t d) = d'"
      by (rule work_update, simp add: d'_def)
        (use that valid_receipts(5) in metis, auto simp: held_receipt_def receipt_open_def same_receipt_def d'_def)
    ultimately show ?thesis using wk.d_refl by metis
  qed
  let ?rows = "order_by older_receipt (filter (claimable env webhook_max_attempts t) (bl_receipts d))"
  show "work_step d (snd (sql_claim_receipt lease env webhook_max_attempts t d))"
  proof (cases "\<exists>r rs. ?rows = r # rs \<and> list_all pg_text [env]")
    case True
    then obtain r rs where rows: "?rows = r # rs" and t: "list_all pg_text [env]" by blast
    from rows have "r \<in> set ?rows" by simp
    then have r: "r \<in> set (bl_receipts d)" "claimable env webhook_max_attempts t r" by simp_all
    show ?thesis
    proof (rule work_update [OF _ valid_receipts(3) _ disjI1 [OF receipt_frames(6)]])
      show "bl_receipts (snd (sql_claim_receipt lease env webhook_max_attempts t d))
          = update_rows (\<lambda>x. rc_id x = rc_id r) (claimed_receipt lease t) (bl_receipts d)"
        unfolding sql_claim_receipt_def rows using t by (simp add: with_texts_def)
      fix x assume x: "holds_all bill_schema d" "x \<in> set (bl_receipts d)" "rc_id x = rc_id r"
      then have "x = r" using r(1) by (intro inj_onD [of rc_id "set (bl_receipts d)"]) (auto simp: bill_schema_defs distinct_map)
      then show "receipt_open x \<and> same_receipt x (claimed_receipt lease t x)"
        using r(2) by (auto simp: claimable_def expired_lease_def receipt_open_def same_receipt_def claimed_receipt_def)
    qed
  next
    case False
    then have "snd (sql_claim_receipt lease env webhook_max_attempts t d) = d"
      by (auto simp: sql_claim_receipt_def with_texts_def split: list.split)
    then show ?thesis using wk.d_refl by simp
  qed
qed

lemma complete_Inr:
  "sql_complete_receipt status i lease now d = (Inr n, d') \<Longrightarrow> bl_receipts d' = update_rows (held_receipt i lease)
     (\<lambda>r. r\<lparr>rc_status := status, rc_processed := Some now, rc_locked := None, rc_lease := None, rc_error := None\<rparr>) (bl_receipts d)"
  unfolding sql_complete_receipt_def by (auto dest!: with_texts_Inr constrained_Inr)

lemma process_handled: "work_step (sw_db w) (sw_db (snd (run_state (process_receipt S i lease) w)))"
proof (cases rule: process_cases [of S i lease w])
  case (committed u v)
  from committed(2) obtain r ignored now n d1 where r: "sql_claimed_receipt i lease (sw_db u) = Inr r" and d1: "sync_stmt\<^sup>*\<^sup>* (sw_db u) d1"
    and c: "sql_complete_receipt (if ignored then ''ignored'' else ''processed'') i lease now d1 = (Inr n, sw_db v)"
    by (rule process_body_step)
  let ?f = "\<lambda>r. r\<lparr>rc_status := if ignored then ''ignored'' else ''processed'', rc_processed := Some now, rc_locked := None, rc_lease := None, rc_error := None\<rparr>"
  have step: "bill_step (sw_db w) (sw_db v)" using r d1 c unfolding committed(1) by - (rule bp_process, assumption+, simp_all)
  have "work_step (sw_db w) (sw_db v)"
  proof (rule work_update [where p = "held_receipt i lease" and f = ?f])
    show "bl_receipts (sw_db v) = update_rows (held_receipt i lease) ?f (bl_receipts (sw_db w))"
      using complete_Inr [OF c] sync_receipts [OF d1] committed(1) by simp
    show "holds_all bill_schema (sw_db v)" if "holds_all bill_schema (sw_db w)"
      using step_stmts [OF step] that by (rule star_invariant) (rule stmt_valid)
    show "receipt_open x \<and> same_receipt x (?f x)" if "held_receipt i lease x" for x
      using that by (simp add: held_receipt_def receipt_open_def same_receipt_def)
    have "r \<in> set (bl_receipts (sw_db w))" "held_receipt i lease r"
      using r unfolding sql_claimed_receipt_def committed(1) by (auto dest!: one_row_Inr)
    moreover have "was_handled (?f r)" by (simp add: was_handled_def)
    ultimately show "bl_subs (sw_db v) = bl_subs (sw_db w) \<or> (\<exists>r \<in> set (bl_receipts (sw_db w)). held_receipt i lease r \<and> was_handled (?f r))"
      by blast
  qed
  then show ?thesis using committed(3) by simp
qed (simp add: wk.d_refl)

lemma work_process: "state_io_rel wk.R (process_receipt S i lease)"
  unfolding state_io_rel_def wk.R_def using process_handled by blast

lemma work_fail: "state_io_rel wk.R (fail_receipt S r lease e)"
  unfolding fail_receipt_def Let_def bill_exec_def by (intro wk.world.g_rules wk.exec work_statements)

text \<open>
  C12: handling a stored event is one transaction: a pass of the webhook job that has changed a subscription has marked the
  receipt of that event as handled, one that was open before; and a handled receipt is never taken up again, so an event
  changes the subscriptions at most once.
\<close>

theorem event_applied_once:
  assumes "holds_all bill_schema (sw_db w)" and "w' = snd (run_state (webhook_once S) w)"
  shows "(bl_subs (sw_db w') \<noteq> bl_subs (sw_db w) \<longrightarrow> newly_handled (sw_db w) (sw_db w')) \<and> handled_kept (sw_db w) (sw_db w')"
proof -
  have "state_io_rel wk.R (webhook_once S)"
    unfolding webhook_once_def bill_exec_def
    by (intro wk.world.g_rules wk.tick wk.exec work_statements work_process work_fail)
  from wk.run [OF this, of w] assms(1) show ?thesis unfolding assms(2) work_step_def by blast
qed

section \<open>Witnesses\<close>


theorem event_applied_once_witness:
  "newly_handled (sw_db demo_bill_world) (sw_db (snd (run_state (webhook_once demo_billing) demo_bill_world)))"
proof -
  have "bl_subs (sw_db (snd (run_state (webhook_once demo_billing) demo_bill_world))) \<noteq> bl_subs (sw_db demo_bill_world)"
    unfolding demo_work by (simp add: demo_bill_db_def synced_row_def demo_subscription_def)
  with event_applied_once [OF demo_bill_valid refl] show ?thesis by blast
qed

end
