(* ===== verification/Bill_Access.thy ===== *)
theory Bill_Access
  imports Bill_Invariants
begin

text \<open>
  What an organization may use: the two formulations of paid access agree, the limits in force are positive and their period
  covers the clock, a checkout is guarded, and a pass of the reconciliation job ends.
\<close>

section \<open>Paid access\<close>

lemma sql_paid_exact: "sql_paid now s = paid_access_active (Some s) now"
  by (auto simp: sql_paid_def paid_access_active_def at_most_def later_than_def split: option.split)

lemma find_unique:
  "distinct (map key rows) \<Longrightarrow> find (\<lambda>r. key r = k \<and> q r) rows = (case find (\<lambda>r. key r = k) rows of None \<Rightarrow> None | Some r \<Rightarrow> if q r then Some r else None)"
proof (induction rows)
  case (Cons r rows)
  have "find (\<lambda>x. key x = k \<and> q x) rows = None" if "key r = k"
    unfolding find_None_iff using Cons.prems that by (auto simp: image_iff)
  with Cons show ?case by auto
qed simp

lemma find_key:
  "distinct (map key rows) \<Longrightarrow> (case find (\<lambda>r. key r = k) rows of None \<Rightarrow> False | Some r \<Rightarrow> q r) = (\<exists>r \<in> set rows. key r = k \<and> q r)"
  by (induction rows) (auto simp: image_iff split: option.split)

text \<open>
  C25: the database and the process agree on paid access: a capability is in force for an organization exactly when it is set for
  it, or, where nothing is set, when the plan of its subscription grants it and \<open>PaidAccessActive\<close> holds of that subscription.
\<close>

theorem paid_access_agrees:
  assumes "holds_all bill_schema d" and "org \<in> og_id ` set (bl_orgs d)"
  shows "sql_effective cap org now d = Inr (case find (\<lambda>r. et_org r = org \<and> et_capability r = cap) (bl_ents d) of
       Some r \<Rightarrow> et_enabled r
     | None \<Rightarrow> (case find (\<lambda>s. sb_org s = org) (bl_subs d) of None \<Rightarrow> False
        | Some s \<Rightarrow> paid_access_active (Some s) now \<and> (\<exists>p \<in> set (bl_plans d). pn_id p = sb_plan s \<and> plan_grants cap p)))"
proof -
  have subs: "distinct (map sb_org (bl_subs d))" and plans: "distinct (map pn_id (bl_plans d))"
    using assms(1) by (simp_all add: bill_schema_defs)
  have plan: "(case find (\<lambda>p. pn_id p = k) (bl_plans d) of None \<Rightarrow> False | Some p \<Rightarrow> plan_grants cap p)
      = (\<exists>p \<in> set (bl_plans d). pn_id p = k \<and> plan_grants cap p)" for k
    using plans by (rule find_key)
  have sub: "find (\<lambda>s. sb_org s = org \<and> sql_paid now s) (bl_subs d)
      = (case find (\<lambda>s. sb_org s = org) (bl_subs d) of None \<Rightarrow> None | Some s \<Rightarrow> if sql_paid now s then Some s else None)"
    using subs by (rule find_unique)
  show ?thesis using assms(2) unfolding sql_effective_def sub plan sql_paid_exact [symmetric]
    by (auto split: option.split)
qed

section \<open>Months\<close>

lemma year_and_day_bounds:
  assumes "year_and_day days = (y, day)"
  shows "0 \<le> day \<and> day < (if leap_year y then 366 else 365)"
proof -
  define n400 where "n400 = days div 146097"
  define r400 where "r400 = days mod 146097"
  define n100 where "n100 = min 3 (r400 div 36524)"
  define r100 where "r100 = r400 - n100 * 36524"
  define n4 where "n4 = r100 div 1461"
  define r4 where "r4 = r100 mod 1461"
  define n1 where "n1 = min 3 (r4 div 365)"
  have y: "y = 400 * n400 + 100 * n100 + 4 * n4 + n1 + 1" "day = r4 - n1 * 365"
    using assms unfolding year_and_day_def Let_def n1_def r4_def n4_def r100_def n100_def r400_def n400_def by (simp_all only: prod.inject)
  have r400: "0 \<le> r400" "r400 < 146097" by (simp_all add: r400_def)
  have n100: "0 \<le> n100" "n100 \<le> 3" "0 \<le> r100" "r100 \<le> 36524" "n100 < 3 \<Longrightarrow> r100 < 36524"
    using r400 unfolding n100_def r100_def min_def by (auto split: if_splits)
  have n4: "0 \<le> n4" "n4 \<le> 24" "0 \<le> r4" "r4 \<le> 1460" "r100 = n4 * 1461 + r4"
    using n100 unfolding n4_def r4_def by auto
  have n1: "0 \<le> n1" "n1 \<le> 3" "0 \<le> day" "day \<le> 365" "day = 365 \<Longrightarrow> n1 = 3 \<and> r4 = 1460"
    using n4 unfolding y(2) n1_def min_def by (auto split: if_splits)
  have "leap_year y" if "day = 365"
  proof -
    have "n1 = 3" "r4 = 1460" using n1(5) that by simp_all
    then have "n4 \<noteq> 24 \<or> n100 = 3" using n4(5) n100 by (cases "n100 < 3") auto
    moreover have "y = 4 * (100 * n400 + 25 * n100 + n4 + 1)" "y = 100 * (4 * n400 + n100) + 4 * (n4 + 1)" using y(1) \<open>n1 = 3\<close> by simp_all
    then have "y mod 4 = 0" "y mod 100 = (4 * (n4 + 1)) mod 100" by (simp, metis mod_mult_self4)
    moreover have "y = 400 * (n400 + 1)" if "n4 = 24" "n100 = 3" using y(1) \<open>n1 = 3\<close> that by simp
    then have "y mod 400 = 0" if "n4 = 24" "n100 = 3" using that by simp
    moreover have "(4 * (n4 + 1)) mod 100 \<noteq> 0" if "n4 \<noteq> 24" using n4(1,2) that by simp
    ultimately show ?thesis unfolding leap_year_def by metis
  qed
  with n1 show ?thesis by (cases "day = 365") auto
qed

lemma month_day_bounds: "0 \<le> day \<Longrightarrow> day < sum_list ns \<Longrightarrow> month_day ns day = (dd, len) \<Longrightarrow> 0 \<le> dd \<and> dd < len"
  by (induction ns day arbitrary: dd len rule: month_day.induct) (auto split: if_splits)

lemma calendar_month_covers:
  assumes "calendar_month now = (lo, hi)"
  shows "lo \<le> now \<and> now < hi"
proof -
  define days where "days = (now - zero_time) div day_micros"
  obtain y day where y: "year_and_day days = (y, day)" by force
  obtain dd len where m: "month_day (month_lengths y) day = (dd, len)" by force
  have "0 \<le> day \<and> day < (if leap_year y then 366 else 365)" using y by (rule year_and_day_bounds)
  then have b: "0 \<le> dd" "dd < len"
    using month_day_bounds [of day "month_lengths y" dd len] m by (simp_all add: month_lengths_def split: if_splits)
  have f: "lo = zero_time + (days - dd) * day_micros" "hi = zero_time + (days - dd) * day_micros + len * day_micros"
    using assms y m by (simp_all add: calendar_month_def days_def Let_def)
  have "days * day_micros \<le> now - zero_time" "now - zero_time < (days + 1) * day_micros"
    unfolding days_def day_micros_def by auto
  then show ?thesis using b unfolding f by (simp add: day_micros_def left_diff_distrib)
qed

section \<open>Limits\<close>

lemma paid_period_covers:
  assumes "paid_access_active (Some s) now" "paid_period s = (lo, hi)"
  shows "lo \<le> now \<and> now < hi"
  using assms by (auto simp: paid_access_active_def paid_period_def Let_def split: option.splits if_splits)

lemma valid_limits_positive:
  assumes "valid_plan_limits v" "v = (limits_of_plan p)\<lparr>el_from := lo, el_until := hi\<rparr>" "l \<in> {el_calls v, el_retention v, el_minutes v, el_agents v, el_trunks v}"
  shows "\<exists>x. l = Some x \<and> 1 \<le> x"
  using assms by (auto simp: valid_plan_limits_def limits_of_plan_def positive_limit_def Let_def split: option.splits if_splits)

text \<open>
  C29: the limits in force for an organization are all set and positive, and the period they are metered over contains
  the moment they are asked for: the paid period (with its grace window) or the calendar month.
\<close>

theorem effective_limits_sound:
  assumes "run_state (limits_get S org) w = (Inr v, w')"
  shows "el_from v \<le> bs_now S (Suc (sw_tick w)) \<and> bs_now S (Suc (sw_tick w)) < el_until v
     \<and> list_all (\<lambda>l. l \<noteq> None \<and> 1 \<le> the l) [el_calls v, el_retention v, el_minutes v, el_agents v, el_trunks v]"
proof -
  let ?now = "bs_now S (Suc (sw_tick w))"
  from assms obtain sub w1 where sub: "run_state (subscription_get S org) w = (Inr sub, w1)"
    and k: "run_state (do { n \<leftarrow> sql_tick;
        let now = bs_now S n; (lo, hi) = (if paid_access_active sub now then paid_period (the sub) else calendar_month now) in
        chain (if paid_access_active sub now then plan_by_id S (sb_plan (the sub)) else plan_by_code S ''free'') (\<lambda>p.
          let v = (limits_of_plan p)\<lparr>el_from := lo, el_until := hi\<rparr> in
          if \<not> valid_plan_limits v then fail (new_service_unavailable ''organization plan capacity is incomplete'' None)
          else succeed v) }) w1 = (Inr v, w')"
    unfolding limits_get_def by (auto simp: chain_Inr split: if_splits)
  have tick: "sw_tick w1 = Suc (sw_tick w)"
    using sub by (auto simp: subscription_get_def bill_query_def run_handle run_sql_query split: if_splits sum.splits prod.splits)
  obtain lo hi where period: "(if paid_access_active sub ?now then paid_period (the sub) else calendar_month ?now) = (lo, hi)" by force
  from k obtain p where v: "v = (limits_of_plan p)\<lparr>el_from := lo, el_until := hi\<rparr>" "valid_plan_limits v"
    by (auto simp: tick period chain_Inr Let_def split: if_splits)
  have "lo \<le> ?now \<and> ?now < hi"
  proof (cases "paid_access_active sub ?now")
    case True
    then obtain s where "sub = Some s" by (auto simp: paid_access_active_def split: option.splits)
    with True period show ?thesis using paid_period_covers [of s ?now lo hi] by simp
  next
    case False
    with period show ?thesis using calendar_month_covers by simp
  qed
  moreover have "el_from v = lo" "el_until v = hi" by (simp_all add: v(1))
  moreover have "l \<noteq> None \<and> 1 \<le> the l" if "l \<in> {el_calls v, el_retention v, el_minutes v, el_agents v, el_trunks v}" for l
    using valid_limits_positive [OF v(2,1) that] by auto
  ultimately show ?thesis by simp
qed

section \<open>Checkout\<close>

text \<open>A lost statement never looks like one without a row.\<close>

definition driver_faults :: "(nat \<Rightarrow> sql_env) \<Rightarrow> bool" where
  "driver_faults E \<longleftrightarrow> (\<forall>n. case sq_fault (E n) of None \<Rightarrow> True | Some (e, applied) \<Rightarrow> \<not> errors_is e err_no_rows)"

lemma subscription_get_exact:
  assumes "run_state (subscription_get S org) w = (Inr v, w')" "driver_faults (bs_env S)"
  shows "v = find (\<lambda>s. sb_org s = org) (bl_subs (sw_db w)) \<and> sw_db w' = sw_db w"
proof -
  have "case sq_fault (bs_env S n) of None \<Rightarrow> True | Some (e, applied) \<Rightarrow> \<not> errors_is e err_no_rows" for n
    using assms(2) unfolding driver_faults_def by blast
  from this [of "sw_tick w"] assms(1) show ?thesis
    by (auto simp: subscription_get_def bill_query_def run_handle run_sql_query sql_get_subscription_def one_row_def split: if_splits option.splits)
qed

lemma plan_by_code_Inr:
  assumes "run_state (plan_by_code S code) w = (Inr p, w')"
  shows "pl_row p \<in> set (bl_plans (sw_db w)) \<and> pn_code (pl_row p) = trim_space code \<and> sw_db w' = sw_db w"
proof -
  from assms obtain r where "run_state (sql_query (bs_env S) (\<lambda>_. sql_plan_by_code (trim_space code))) w = (Inr r, w')" "plan_from_row r = Inr p"
    by (auto simp: plan_by_code_def plan_read_err_def from_row_def bill_query_def map_error_Inr chain_Inr Let_def split: if_splits)
  then show ?thesis
    by (auto simp: sql_plan_by_code_def plan_from_row_def dest!: sql_query_Inr one_row_Inr split: option.splits)
qed

lemma polar_do_db: "run_state (polar_do P meth target input decode) w = (x, w') \<Longrightarrow> sw_db w' = sw_db w"
  by (auto simp: polar_do_def split: if_splits sum.splits prod.splits option.splits)

lemma create_checkout_db: "run_state (create_checkout parse P p) w = (Inr url, w') \<Longrightarrow> sw_db w' = sw_db w \<and> url \<noteq> []"
  by (auto simp: create_checkout_def chain_Inr of_check_def dest!: polar_do_db split: if_splits option.splits)

text \<open>
  C18: a checkout session is only opened for an organization whose stored subscription is not live, for a stored plan with a
  fixed price and a product at the provider, with both redirects on the configured origin, and opening it changes nothing here.
\<close>

theorem checkout_guarded:
  assumes "run_state (billing_checkout S org r) w = (Inr url, w')" and "driver_faults (bs_env S)"
  shows "\<not> live_subscription (find (\<lambda>s. sb_org s = org) (bl_subs (sw_db w)))
    \<and> (\<exists>p \<in> set (bl_plans (sw_db w)). pn_code p = trim_space (cr_plan r) \<and> pn_pricing p = ''fixed'' \<and> pn_amount p \<noteq> None \<and> pn_amount p \<noteq> Some 0
         \<and> product_of S (pn_code p) \<noteq> [])
    \<and> (\<exists>t. trusted_origin (Some t) \<and> bg_url S (trim_space (bg_frontend S)) = Some t
         \<and> same_origin t (bg_url S (trim_space (cr_success r))) \<and> same_origin t (bg_url S (trim_space (cr_cancel r))))
    \<and> sw_db w' = sw_db w"
proof -
  from assms(1) obtain P p w1 existing w2 c where p: "run_state (plan_by_code S (trim_space (cr_plan r))) w = (Inr p, w1)" "purchasable p"
    and v: "validate_redirects S [cr_success r, cr_cancel r] = None" "product_of S (pn_code (pl_row p)) \<noteq> []"
    and s: "run_state (subscription_get S org) w1 = (Inr existing, w2)" "\<not> live_subscription existing"
    and c: "run_state (create_checkout (bg_parse S) P c) w2 = (Inr url, w')"
    by (auto simp: billing_checkout_def with_polar_def chain_Inr of_check_def map_error_Inr Let_def split: if_splits option.splits)
  from plan_by_code_Inr [OF p(1)] subscription_get_exact [OF s(1) assms(2)] create_checkout_db [OF c] p(2) v s(2) show ?thesis
    unfolding live_subscription_def
    by (auto simp: validate_redirects_def purchasable_def trusted_origin_def Let_def split: if_splits option.splits)
qed

section \<open>Reconciliation\<close>

lemma text_before_irrefl: "\<not> text_before s s"
  by (induction s) auto

lemma text_before_trans: "text_before a b \<Longrightarrow> text_before b c \<Longrightarrow> text_before a c"
proof (induction a b arbitrary: c rule: text_before.induct)
  case (2 x xs)
  then show ?case by (cases c) auto
next
  case (3 b bs c cs d)
  then show ?case by (cases d) auto
qed simp

lemma filter_shorter: "(\<And>x. x \<in> set xs \<Longrightarrow> P x \<Longrightarrow> Q x) \<Longrightarrow> y \<in> set xs \<Longrightarrow> Q y \<Longrightarrow> \<not> P y \<Longrightarrow> length (filter P xs) < length (filter Q xs)"
proof -
  assume a: "\<And>x. x \<in> set xs \<Longrightarrow> P x \<Longrightarrow> Q x" "y \<in> set xs" "Q y" "\<not> P y"
  have "filter P xs = filter P (filter Q xs)" using a(1) by (auto intro: filter_cong)
  with a(2-4) show ?thesis using length_filter_less [of y "filter Q xs" P] by simp
qed

definition after_cursor :: "uuid \<Rightarrow> bill_db \<Rightarrow> nat" where
  "after_cursor cursor d = length (filter (\<lambda>o'. id_before cursor (og_id o')) (bl_orgs d))"

lemma target_org: "rt_org (target_of d o') = og_id o'"
  by (simp add: target_of_def split: option.split)

lemma cursor_advances:
  assumes "sql_targets cursor d = Inr ts" "ts \<noteq> []"
  shows "after_cursor (rt_org (last ts)) d < after_cursor cursor d"
proof -
  have "last ts \<in> set ts" using assms(2) by simp
  with assms(1) obtain o' where o': "o' \<in> set (bl_orgs d)" "id_before cursor (og_id o')" "rt_org (last ts) = og_id o'"
    unfolding sql_targets_def by (auto dest!: in_set_takeD simp: target_org)
  show ?thesis unfolding after_cursor_def o'(3)
    using o' text_before_trans text_before_irrefl by (intro filter_shorter [of _ _ _ o']) (auto simp: id_before_def)
qed

lemma page_orgs: "bl_orgs (sw_db (snd (run_state (reconcile_page S ts) w))) = bl_orgs (sw_db w)"
proof -
  have "bill_stmt\<^sup>*\<^sup>* (sw_db w) (sw_db (snd (run_state (reconcile_page S ts) w)))"
    by (intro steps_stmts bg.run b_page)
  then show ?thesis by (induction rule: rtranclp_induct) (simp_all add: stmt_orgs)
qed

lemma reconcile_from_ends: "after_cursor cursor (sw_db w) < fuel \<Longrightarrow> snd (fst (run_state (reconcile_from S fuel cursor) w)) \<noteq> None"
proof (induction fuel arbitrary: cursor w)
  case (Suc fuel)
  obtain q w1 where q: "run_state (bill_query S (sql_targets cursor)) w = (q, w1)" by force
  show ?case
  proof (cases q)
    case (Inl e)
    with q show ?thesis by (simp add: run_combinators)
  next
    case (Inr ts)
    obtain reports e w2 where page: "run_state (reconcile_page S ts) w1 = ((reports, e), w2)" by (metis prod.collapse)
    have ts: "sql_targets cursor (sw_db w) = Inr ts" "sw_db w1 = sw_db w"
      using q Inr by (auto simp: bill_query_def dest!: sql_query_Inr)
    have "bl_orgs (sw_db w2) = bl_orgs (sw_db w)" using page_orgs [of S ts w1] page ts(2) by simp
    then have "after_cursor (rt_org (last ts)) (sw_db w2) < fuel" if "\<not> length ts < 100"
      using cursor_advances [OF ts(1)] Suc.prems that by (cases ts) (auto simp: after_cursor_def)
    then have "snd (fst (run_state (reconcile_from S fuel (rt_org (last ts))) w2)) \<noteq> None" if "\<not> length ts < 100"
      using Suc.IH that by blast
    then show ?thesis using q Inr page by (auto simp: run_combinators split: option.split prod.split)
  qed
qed simp

text \<open>
  C33: a pass of the reconciliation job ends, whatever the provider answers and whatever the handled organizations change: the
  cursor moves past an organization with every full page, so one more page than there are organizations is enough.
\<close>

theorem reconcile_ends:
  assumes "length (bl_orgs (sw_db w)) < fuel"
  shows "snd (fst (run_state (reconcile_billing S fuel) w)) \<noteq> None"
proof -
  have "after_cursor uuid_nil (sw_db w) \<le> length (bl_orgs (sw_db w))" by (simp add: after_cursor_def)
  with assms show ?thesis unfolding reconcile_billing_def by (intro reconcile_from_ends) simp
qed

section \<open>Witnesses\<close>

theorem paid_access_agrees_witness: "sql_effective ''advanced_rbac'' (UUID ''o'') 30 (sw_db demo_bill_world) = Inr True"
proof -
  have "UUID ''o'' \<in> og_id ` set (bl_orgs (sw_db demo_bill_world))" by (simp add: demo_bill_db_def)
  moreover have "find (\<lambda>r. et_org r = UUID ''o'' \<and> et_capability r = ''advanced_rbac'') (bl_ents (demo_bill_db rs)) = None"
    "find (\<lambda>s. sb_org s = UUID ''o'') (bl_subs (demo_bill_db rs)) = Some demo_subscription"
    "paid_access_active (Some demo_subscription) 30"
    "list_ex (\<lambda>p. pn_id p = sb_plan demo_subscription \<and> plan_grants ''advanced_rbac'' p) (bl_plans (demo_bill_db rs))" for rs
    by code_simp+
  ultimately show ?thesis using paid_access_agrees [OF demo_bill_valid, of "UUID ''o''" "''advanced_rbac''" 30] by (simp add: list_ex_iff Bex_def)
qed

theorem effective_limits_sound_witness:
  "\<exists>v. fst (run_state (limits_get demo_billing (UUID ''o'')) demo_bill_world) = Inr v \<and> el_from v \<le> 30 \<and> 30 < el_until v"
proof -
  have paid: "paid_access_active (Some demo_subscription) 30" "paid_period demo_subscription = (0, 50)" by code_simp+
  have "sql_plan_by_id (UUID ''pro'') (demo_bill_db rs) = Inr (demo_plan ''pro'' 100)" for rs by code_simp
  moreover obtain p where p: "plan_from_row (demo_plan ''pro'' 100) = Inr p" "valid_plan_limits (limits_of_plan p)"
  proof -
    have "case plan_from_row (demo_plan ''pro'' 100) of Inl e \<Rightarrow> False | Inr p \<Rightarrow> valid_plan_limits (limits_of_plan p)" by code_simp
    then show thesis using that by (cases "plan_from_row (demo_plan ''pro'' 100)") simp_all
  qed
  moreover from p(2) have "valid_plan_limits ((limits_of_plan p)\<lparr>el_from := 0, el_until := 50\<rparr>)" by (simp add: valid_plan_limits_def)
  moreover have "sb_plan demo_subscription = UUID ''pro''" by (simp add: demo_subscription_def)
  ultimately have "fst (run_state (limits_get demo_billing (UUID ''o'')) demo_bill_world) = Inr ((limits_of_plan p)\<lparr>el_from := 0, el_until := 50\<rparr>)"
    by (simp add: limits_get_def run_combinators demo_bill_world_def demo_get paid plan_by_id_def plan_read_err_def from_row_def bill_query_def run_sql_query Let_def)
  then obtain v w' where v: "run_state (limits_get demo_billing (UUID ''o'')) demo_bill_world = (Inr v, w')" by (metis prod.collapse)
  from effective_limits_sound [OF this] have "el_from v \<le> 30 \<and> 30 < el_until v" by simp
  with v show ?thesis by auto
qed

definition demo_new_world :: "bill_db sql_world" where
  "demo_new_world = \<lparr>sw_tick = 0, sw_db = (demo_bill_db [])\<lparr>bl_subs := []\<rparr>\<rparr>"

definition demo_request :: checkout_request where
  "demo_request = \<lparr>cr_plan = ''pro'', cr_success = ''https://app/a'', cr_cancel = ''https://app/b''\<rparr>"

lemma demo_checkout: "fst (run_state (billing_checkout demo_billing (UUID ''o'') demo_request) demo_new_world) = Inr ''https://pay''"
proof -
  have "sql_plan_by_code ''pro'' ((demo_bill_db [])\<lparr>bl_subs := []\<rparr>) = Inr (demo_plan ''pro'' 100)" "trim_space ''pro'' = ''pro''"
    "validate_redirects demo_billing [cr_success demo_request, cr_cancel demo_request] = None" "product_of demo_billing ''pro'' = ''prod''"
    "uuid_nil \<noteq> UUID ''prod''" by code_simp+
  moreover obtain p where "plan_from_row (demo_plan ''pro'' 100) = Inr p" "pl_row p = demo_plan ''pro'' 100"
  proof -
    have "case plan_from_row (demo_plan ''pro'' 100) of Inl e \<Rightarrow> False | Inr p \<Rightarrow> True" by code_simp
    then show thesis using that by (cases "plan_from_row (demo_plan ''pro'' 100)") (auto simp: plan_from_row_def split: option.splits)
  qed
  moreover have "purchasable p" "pn_code (pl_row p) = ''pro''" if "pl_row p = demo_plan ''pro'' 100" for p
    using that by (simp_all add: purchasable_def demo_plan_def)
  moreover have "po_token demo_polar = ''t''" "po_http demo_polar n q = Inr (200, ''{}'')" "po_session demo_polar t = Some ''https://pay''" for n q t
    by (simp_all add: demo_polar_def)
  moreover have "cr_plan demo_request = ''pro''" by (simp add: demo_request_def)
  moreover have "validate_polar_uuid (bg_parse demo_billing) ''prod'' = None" "validate_polar_uuid (bg_parse demo_billing) ''o'' = None" by code_simp+
  ultimately show ?thesis
    by (simp add: billing_checkout_def with_polar_def plan_by_code_def plan_read_err_def from_row_def bill_query_def run_combinators run_sql_query
        of_check_def subscription_get_def sql_get_subscription_def one_row_def live_subscription_def create_checkout_def polar_do_def demo_new_world_def or_else_def)
qed

theorem checkout_guarded_witness:
  "\<exists>url w'. run_state (billing_checkout demo_billing (UUID ''o'') demo_request) demo_new_world = (Inr url, w') \<and> sw_db w' = sw_db demo_new_world
     \<and> product_of demo_billing (cr_plan demo_request) \<noteq> []"
proof -
  obtain w' where w: "run_state (billing_checkout demo_billing (UUID ''o'') demo_request) demo_new_world = (Inr ''https://pay'', w')"
    using demo_checkout by (metis prod.collapse)
  have "driver_faults (bs_env demo_billing)" by (simp add: driver_faults_def)
  from checkout_guarded [OF w this] have "sw_db w' = sw_db demo_new_world" by blast
  moreover have "product_of demo_billing (cr_plan demo_request) \<noteq> []" by code_simp
  ultimately show ?thesis using w by blast
qed

theorem reconcile_ends_witness: "snd (fst (run_state (reconcile_billing demo_billing 2) demo_bill_world)) \<noteq> None"
  using reconcile_ends [of demo_bill_world 2 demo_billing] by (simp add: demo_bill_db_def)

end
