(* ===== verification/Spec2Isabelle.thy ===== *)
theory Spec2Isabelle
  imports Media_Safety Pump_Safety Rtp_Client Media_Nodes Call_Safety Fs_Dispatch Trunk_Safety Cred_Cipher Outbox_Safety Hook_Delivery
    Idem_Safety Acc_Tenants Acc_Admission Acc_Emails Bill_Safety Bill_Inbox Bill_Access
begin

text \<open>
  A model of the server of leamout (\<open>src/server\<close>, in Go): a voice platform in which AI agents place
  and answer telephone calls. Every theory translates the code it names; the paths below are relative
  to \<open>src/server/internal\<close>.

  The program and its parts. The API process admits inbound SIP calls and creates outbound ones
  (\<open>telephony/calls\<close>), along routes over SIP trunks (\<open>telephony/routing\<close>, \<open>telephony/trunks\<close>). Shared
  admission state lives in Redis behind Lua scripts (\<open>integrations/redis\<close>, \<open>runtime/calling\<close>), durable
  state in PostgreSQL (\<open>database/sqlc\<close>), telephony is carried out by FreeSWITCH
  (\<open>integrations/freeswitch\<close>) and RTPEngine (\<open>integrations/rtpengine\<close>). Media processes keep live
  sessions between a call's audio and an AI provider (\<open>media/session\<close>) and announce themselves in Redis
  (\<open>runtime/medianodes\<close>). Calls to customer-supplied addresses go through an egress policy
  (\<open>security/egress\<close>), and stored credentials are encrypted (\<open>security/encryption\<close>).

  Foundations, shared by every component:
    \<^item> \<open>Go_Prelude\<close>, \<open>Go_Text\<close>, \<open>Go_Json\<close>, \<open>Go_Netip\<close>: 64-bit arithmetic with its wrap-around and the
      functions of \<open>strings\<close>, \<open>strconv\<close>, \<open>utf8\<close>, \<open>encoding/json\<close> and \<open>net/netip\<close> the code calls. Bytes are
      characters; changes of case are those of ASCII letters.
    \<^item> \<open>Go_Errors\<close>: Go's error values and \<open>pkg/apperror\<close>; a fallible function answers \<open>go_err + 'a\<close>.
    \<^item> \<open>Go_Actions\<close>, \<open>Sql_World\<close>, \<open>Call_World\<close>: functions that act on a world, in \<open>HOL-Library.State_Monad\<close>.
      A world holds a supply of outcomes for the outside (which statement or command fails, and
      how), so a theorem over all worlds covers every failure. The locale \<open>guarantee\<close> states a relation
      every step keeps; \<open>sql_guarantee\<close> extends it to statements and transactions. A transaction is one
      step: it commits all of its statements or none. \<open>Sql_Schema\<close> collects what the proofs about schemas share.

  Call control:
    \<^item> \<open>Redis_Store\<close>, \<open>Redis_Leases\<close>: the scripts of \<open>cache.go\<close> and \<open>media.go\<close> over an abstract server
      whose commands keep documented laws (locale), and what the scripts guarantee on any such server.
      The laws are met by a store of association lists.
    \<^item> \<open>Call_Admission\<close>: leases of organizations and trunks, the channel store. Proved: no history exceeds
      a plan or a trunk limit; admission is exact; channels round-trip.
    \<^item> \<open>Call_Routing\<close>, \<open>Fs_Frames\<close>, \<open>Fs_Control\<close>, \<open>Sip_Egress\<close>: routes and their limits, FreeSWITCH frames,
      commands and their answers, the dial string.
    \<^item> \<open>Call_Store\<close>, \<open>Call_Repository\<close>, \<open>Call_Service\<close>, \<open>Call_Flows\<close>: rows and statements of calls, cleanup
      markers and the outbox, the transactional repository, and the flows of the service: inbound
      admission, outbound creation, lifecycle events, the reconciliation pass, hangup and transfer.
    \<^item> \<open>Call_Spec\<close>: \<open>db_step\<close>, the committed effects a call row may see, and the refinement of every
      operation to it. \<open>Call_Lifecycle\<close>, \<open>Call_Cleanup\<close>, \<open>Call_Dialling\<close>, \<open>Call_Safety\<close>: states move only
      forward, the tables stay well formed, a call is dialled at most once, a cleanup marker outlives
      its leases, and two errors of the flows.

    \<^item> \<open>Fs_Events\<close>, \<open>Fs_Dispatch\<close>: the translation of FreeSWITCH events, the worker's handler of an event, and the
      queues and goroutines between the connection and the handler: the events of a channel are handled in order.
    \<^item> \<open>Event_Outbox\<close>, \<open>Outbox_Safety\<close>: the transactional outbox and its publisher: no event is lost or altered,
      a finished batch has settled what it claimed, the delay between attempts is exact.

  Webhooks:
    \<^item> \<open>Hook_Store\<close>, \<open>Hook_Service\<close>: endpoints, events and deliveries with their constraints and statements; the service,
      the consumer of the event stream, the signed request and the delivery job. The HTTP exchange and HMAC are parameters.
    \<^item> \<open>Hook_Spec\<close>, \<open>Hook_Invariants\<close>, \<open>Hook_Safety\<close>, \<open>Hook_Delivery\<close>: \<open>hook_step\<close> and the refinement to it; the tables
      stay consistent, a message becomes its deliveries once, an event of the outbox is read back by the consumer, an
      attempt is recorded exactly when the tables accept it, and an endpoint that answers otherwise ends the job.
    \<^item> \<open>Idem_Keys\<close>, \<open>Idem_Safety\<close>: idempotency keys (\<open>platform/idempotency\<close> and its middleware) and the interleavings of
      the requests that hold one: a key runs its handler once while its lease lasts, a finished response is replayed, a
      duplicate is answered without the handler, and a completion that is lost leaves the key to run again.

  Identity, tenancy and the admission of requests:
    \<^item> \<open>Email_Queue\<close>: the queue of transactional emails, its worker and the sender (\<open>platform/email\<close>, \<open>integrations/ses\<close>).
    \<^item> \<open>Acc_Store\<close>: users, sessions, sign-in attempts, identity events, organizations, members, invitations and tokens with
      their constraints and statements. Values of type CITEXT and \<open>strings.EqualFold\<close> compare the case of ASCII letters.
    \<^item> \<open>Kinde_Client\<close>: the client of the identity provider: code exchange, refresh, ID tokens, signed webhooks and keys.
    \<^item> \<open>Acc_Identity\<close>, \<open>Acc_Tenancy\<close>: sessions, sign-in, users and the receiver of identity events; organizations,
      members, invitations with their emails, organization tokens (\<open>identity\<close>, \<open>tenancy\<close>, \<open>security/token\<close>).
    \<^item> \<open>Net_Policies\<close>, \<open>Acc_Requests\<close>: network policies, principals, permissions, scopes, rate limits and the
      chains in which the router composes them (\<open>security/authn\<close>, \<open>security/authz\<close>, \<open>platform/middleware\<close>).
    \<^item> \<open>Acc_Spec\<close>, \<open>Acc_Invariants\<close>: \<open>acc_step\<close>, the refinement of every operation to it, and the schema it keeps. A step
      is one statement or one transaction, so what holds over its histories holds however the operations interleave
      between statements; a statement that reads a row another one is just inserting is not covered.
    \<^item> \<open>Acc_Safety\<close>, \<open>Acc_Tenants\<close>, \<open>Acc_Admission\<close>, \<open>Acc_Emails\<close>: a disabled identity never
      returns, founders stay the only owners, removed members stay out, an admitted request had the rights for it,
      network policies and client addresses are decided as documented, emails settle once and erase their payload.

  Plans and billing:
    \<^item> \<open>Bill_Store\<close>: plans, subscriptions, entitlements and the inbox of billing webhooks with their constraints and statements.
      Times are microseconds.
    \<^item> \<open>Bill_Plans\<close>: plans, entitlements, subscriptions and effective limits with their calendar (\<open>commercial/plans\<close>,
      \<open>entitlements\<close>, \<open>subscriptions\<close>, \<open>limits\<close>). \<open>Polar_Client\<close>: the client of the payment provider and its signed webhooks
      (\<open>integrations/payments/polar\<close>). HTTP, HMAC, SHA-256, JSON, URLs, UUIDs and the JSONB cast are parameters.
    \<^item> \<open>Bill_Service\<close>: checkout, portal, the webhook inbox, synchronization and recovery of subscriptions, and a pass of either
      job (\<open>commercial/billing\<close>). The handling of a stored event is one transaction.
    \<^item> \<open>Bill_Spec\<close>, \<open>Bill_Invariants\<close>: \<open>bill_step\<close>, the refinement of every operation to it, and the schema it keeps. The locale
      \<open>sync_guarantee\<close> states what only synchronizing subscriptions guarantees.
    \<^item> \<open>Bill_Safety\<close>, \<open>Bill_Inbox\<close>, \<open>Bill_Access\<close>: subscriptions only move forward and a live one is never
      exchanged, grace is not extended, an acknowledged event is kept until handled and applied once, database and
      process agree on paid access, limits are sound, a checkout is guarded, a reconciliation pass ends.

  SIP trunks:
    \<^item> \<open>Trunk_Model\<close>, \<open>Trunk_Store\<close>: rows, constraints and statements; normalization of requests.
    \<^item> \<open>Trunk_Service\<close>, \<open>Trunk_Health\<close>: every operation of the service with its transaction, events and
      errors; the SIP OPTIONS probe and the job around it.
    \<^item> \<open>Trunk_Spec\<close>, \<open>Trunk_Invariants\<close>, \<open>Trunk_Safety\<close>: \<open>trunk_step\<close> and the refinement to it; the schema, the
      agreement of trunks with their credentials, the plan limit, the health of endpoints.
    \<^item> \<open>Cred_Cipher\<close>: the envelope of a stored credential; AES-GCM and MD5 are parameters.

  Media:
    \<^item> \<open>Media_Types\<close>, \<open>Audio_Queue\<close>, \<open>Media_Metrics\<close>: contracts of a session, the latency-bounded queue, counters.
    \<^item> \<open>Media_Manager\<close>, \<open>Media_Invariants\<close>, \<open>Media_Safety\<close>: the registry, its handlers cut at their lock
      sections, and every interleaving of them.
    \<^item> \<open>Media_Pump\<close>, \<open>Pump_Safety\<close>: the goroutines that move audio as a step relation; what reaches either side.
    \<^item> \<open>Media_Nodes\<close>: heartbeats, placement, release.

  RTPEngine and egress: \<open>Rtp_Bencode\<close> and \<open>Rtp_Client\<close> hold the codec, the retries and the commands of the
  control protocol; \<open>Net_Egress\<close> the policy, the resolver and the guarded dial.

  Bounds and fuel. The decoder of bencode runs on fuel equal to the length of the packet plus one, and
  every level consumes a byte (\<open>decode_ends_within_packet\<close>); the retry loop of the client runs for the
  configured attempts. A reconciliation pass of the subscriptions runs on fuel for its pages, and every full page moves the
  cursor past an organization (\<open>reconcile_ends\<close>). All other recursion is structural or has a measure.

  Not modelled: HTTP handlers and routes, wiring and configuration, back-office pages, the clients of
  storage services, generated scan functions, metrics exporters, and the
  agent runtime and media engines, whose logic sits in goroutines around third-party connections. Clocks
  and generated identifiers are inputs; contexts are cancelled only where the code branches on it.
\<close>

end
